(* ===== verification/Prelude.thy ===== *)
theory Prelude
  imports Main "HOL-Library.Sublist" "HOL-Library.List_Lexorder" "HOL-Library.Char_ord"
begin

section \<open>Strings, slices and options of the Rust standard library\<close>

text \<open>
  The vocabulary shared by every component.  A Rust \<open>str\<close> is a UTF-8 byte sequence, and so is a
  \<open>string\<close> here: a \<open>char\<close> is one byte, \<open>length\<close> is \<open>str::len\<close>, and searching, slicing
  and ASCII tests on bytes agree with the library's because UTF-8 is self-synchronising.  Where the
  source iterates over Unicode scalar values, \<open>rust_chars\<close> cuts the bytes into one short
  string per scalar value, and \<open>is_whitespace\<close> is the Unicode \<open>White_Space\<close> property on
  those.  The theory gives one definition per library routine that the crates call, the list
  operations of \<open>Vec\<close> and slices that have no HOL counterpart, and the lemmas on lengths and
  membership that every component uses.
\<close>

named_theorems str_len \<open>no routine lengthens its argument\<close>
named_theorems vec_simps \<open>membership facts for vectors built by pushing\<close>

subsection \<open>Bytes\<close>

definition is_ascii_digit :: "char \<Rightarrow> bool" where
  "is_ascii_digit c \<longleftrightarrow> c \<in> set ''0123456789''"

definition is_ascii_lowercase :: "char \<Rightarrow> bool" where
  "is_ascii_lowercase c \<longleftrightarrow> c \<in> set ''abcdefghijklmnopqrstuvwxyz''"

definition is_ascii_uppercase :: "char \<Rightarrow> bool" where
  "is_ascii_uppercase c \<longleftrightarrow> c \<in> set ''ABCDEFGHIJKLMNOPQRSTUVWXYZ''"

definition is_ascii_alphabetic :: "char \<Rightarrow> bool" where
  "is_ascii_alphabetic c \<longleftrightarrow> is_ascii_lowercase c \<or> is_ascii_uppercase c"

definition is_ascii_alphanumeric :: "char \<Rightarrow> bool" where
  "is_ascii_alphanumeric c \<longleftrightarrow> is_ascii_alphabetic c \<or> is_ascii_digit c"

text \<open>Upper and lower case ASCII letters differ in bit 5 only.\<close>

fun set_bit5 :: "bool \<Rightarrow> char \<Rightarrow> char" where
  "set_bit5 v (Char b0 b1 b2 b3 b4 b5 b6 b7) = Char b0 b1 b2 b3 b4 v b6 b7"

definition ascii_lower :: "char \<Rightarrow> char" where
  "ascii_lower c = (if is_ascii_uppercase c then set_bit5 True c else c)"

definition ascii_upper :: "char \<Rightarrow> char" where
  "ascii_upper c = (if is_ascii_lowercase c then set_bit5 False c else c)"

definition to_ascii_lowercase :: "string \<Rightarrow> string" where
  "to_ascii_lowercase s = map ascii_lower s"

lemma length_to_ascii_lowercase [simp]: "length (to_ascii_lowercase s) = length s"
  by (simp add: to_ascii_lowercase_def)

subsection \<open>Unicode scalar values of a UTF-8 string\<close>

text \<open>The number of bytes that follow a lead byte.\<close>

fun utf8_tail :: "char \<Rightarrow> nat" where
  "utf8_tail (Char b0 b1 b2 b3 b4 b5 b6 b7) =
     (if \<not> b7 \<or> \<not> b6 then 0 else if \<not> b5 then 1 else if \<not> b4 then 2 else 3)"

fun rust_chars :: "string \<Rightarrow> string list" where
  "rust_chars [] = []"
| "rust_chars (c # cs) = (c # take (utf8_tail c) cs) # rust_chars (drop (utf8_tail c) cs)"

lemma concat_rust_chars [simp]: "concat (rust_chars s) = s"
  by (induction s rule: rust_chars.induct) auto

lemma rust_chars_nonempty: "ch \<in> set (rust_chars s) \<Longrightarrow> ch \<noteq> []"
  by (induction s rule: rust_chars.induct) auto

text \<open>\<open>char::is_whitespace\<close>: the 25 scalar values with the property \<open>White_Space\<close>.\<close>

fun is_whitespace :: "string \<Rightarrow> bool" where
  "is_whitespace [a] \<longleftrightarrow> a \<in> {CHR 0x09, CHR 0x0A, CHR 0x0B, CHR 0x0C, CHR 0x0D, CHR 0x20}"
| "is_whitespace [a, b] \<longleftrightarrow> a = CHR 0xC2 \<and> (b = CHR 0x85 \<or> b = CHR 0xA0)"
| "is_whitespace [a, b, c] \<longleftrightarrow>
     (a = CHR 0xE1 \<and> b = CHR 0x9A \<and> c = CHR 0x80)
   \<or> (a = CHR 0xE2 \<and> b = CHR 0x80 \<and>
        c \<in> {CHR 0x80, CHR 0x81, CHR 0x82, CHR 0x83, CHR 0x84, CHR 0x85, CHR 0x86, CHR 0x87,
             CHR 0x88, CHR 0x89, CHR 0x8A, CHR 0xA8, CHR 0xA9, CHR 0xAF})
   \<or> (a = CHR 0xE2 \<and> b = CHR 0x81 \<and> c = CHR 0x9F)
   \<or> (a = CHR 0xE3 \<and> b = CHR 0x80 \<and> c = CHR 0x80)"
| "is_whitespace _ \<longleftrightarrow> False"

text \<open>\<open>u8::is_ascii_whitespace\<close> (space, tab, line feed, form feed, carriage return).\<close>

definition is_ascii_whitespace :: "char \<Rightarrow> bool" where
  "is_ascii_whitespace c \<longleftrightarrow> c \<in> {CHR 0x09, CHR 0x0A, CHR 0x0C, CHR 0x0D, CHR 0x20}"

subsection \<open>Searching and slicing\<close>

abbreviation starts_with :: "string \<Rightarrow> string \<Rightarrow> bool" where
  "starts_with s p \<equiv> prefix p s"

abbreviation ends_with :: "string \<Rightarrow> string \<Rightarrow> bool" where
  "ends_with s p \<equiv> suffix p s"

abbreviation str_contains :: "string \<Rightarrow> string \<Rightarrow> bool" where
  "str_contains s p \<equiv> sublist p s"

text \<open>\<open>ends_with\<close> and \<open>contains\<close> on closed strings unfold with these.\<close>

lemmas str_eval = suffix_to_prefix sublist_code

definition strip_prefix :: "string \<Rightarrow> string \<Rightarrow> string option" where
  "strip_prefix p s = (if prefix p s then Some (drop (length p) s) else None)"

definition strip_suffix :: "string \<Rightarrow> string \<Rightarrow> string option" where
  "strip_suffix p s = (if suffix p s then Some (take (length s - length p) s) else None)"

text \<open>\<open>split_once\<close>: the parts before and after the first occurrence of the pattern.\<close>

fun split_once :: "string \<Rightarrow> string \<Rightarrow> (string \<times> string) option" where
  "split_once p [] = (if p = [] then Some ([], []) else None)"
| "split_once p (c # cs) =
     (if prefix p (c # cs) then Some ([], drop (length p) (c # cs))
      else map_option (\<lambda>(a, b). (c # a, b)) (split_once p cs))"

definition rsplit_once :: "string \<Rightarrow> string \<Rightarrow> (string \<times> string) option" where
  "rsplit_once p s = map_option (\<lambda>(a, b). (rev b, rev a)) (split_once (rev p) (rev s))"

text \<open>\<open>split\<close> at every byte that satisfies the predicate; at least one piece.\<close>

fun split_by :: "(char \<Rightarrow> bool) \<Rightarrow> string \<Rightarrow> string list" where
  "split_by P [] = [[]]"
| "split_by P (c # cs) =
     (if P c then [] # split_by P cs
      else (case split_by P cs of [] \<Rightarrow> [[c]] | x # xs \<Rightarrow> (c # x) # xs))"

text \<open>\<open>rsplit(..).next()\<close>: the last piece of the split.\<close>

definition last_piece :: "(char \<Rightarrow> bool) \<Rightarrow> string \<Rightarrow> string" where
  "last_piece P s = last (split_by P s)"

text \<open>\<open>replace\<close>: every non-overlapping occurrence, from the left.\<close>

function str_replace :: "string \<Rightarrow> string \<Rightarrow> string \<Rightarrow> string" where
  "str_replace p r [] = []"
| "str_replace p r (c # cs) =
     (if p \<noteq> [] \<and> prefix p (c # cs) then r @ str_replace p r (drop (length p) (c # cs))
      else c # str_replace p r cs)"
  by pat_completeness auto
termination
  by (relation "measure (\<lambda>(p, r, s). length s)")
     (auto simp: neq_Nil_conv)

definition trim_start_chars :: "(char \<Rightarrow> bool) \<Rightarrow> string \<Rightarrow> string" where
  "trim_start_chars P s = dropWhile P s"

definition trim_end_chars :: "(char \<Rightarrow> bool) \<Rightarrow> string \<Rightarrow> string" where
  "trim_end_chars P s = rev (dropWhile P (rev s))"

definition trim_chars :: "(char \<Rightarrow> bool) \<Rightarrow> string \<Rightarrow> string" where
  "trim_chars P s = trim_end_chars P (trim_start_chars P s)"

text \<open>\<open>trim_start_matches\<close> with a non-empty string pattern removes every leading copy.\<close>

function trim_start_str :: "string \<Rightarrow> string \<Rightarrow> string" where
  "trim_start_str p s =
     (if p \<noteq> [] \<and> prefix p s then trim_start_str p (drop (length p) s) else s)"
  by pat_completeness auto
termination
  by (relation "measure (\<lambda>(p, s). length s)") (auto simp: prefix_def)

declare trim_start_str.simps [simp del]

definition trim_start :: "string \<Rightarrow> string" where
  "trim_start s = concat (dropWhile is_whitespace (rust_chars s))"

definition trim_end :: "string \<Rightarrow> string" where
  "trim_end s = concat (rev (dropWhile is_whitespace (rev (rust_chars s))))"

definition str_trim :: "string \<Rightarrow> string" where
  "str_trim s = trim_end (trim_start s)"

fun str_join :: "string \<Rightarrow> string list \<Rightarrow> string" where
  "str_join sep [] = []"
| "str_join sep [x] = x"
| "str_join sep (x # y # xs) = x @ sep @ str_join sep (y # xs)"

definition newline :: string where
  "newline = [CHR 0x0A]"

subsection \<open>Decimal numbers\<close>

text \<open>\<open>usize\<close> is 64 bits wide on the release targets.\<close>

definition usize_max :: nat where
  "usize_max = 2 ^ 64 - 1"

definition digit_value :: "char \<Rightarrow> nat" where
  "digit_value c = (of_char c :: nat) - 48"

definition decimal_value :: "string \<Rightarrow> nat" where
  "decimal_value s = fold (\<lambda>c n. 10 * n + digit_value c) s 0"

text \<open>\<open>str::parse::<usize>\<close>: one optional plus sign, at least one digit, no overflow.\<close>

definition parse_usize :: "string \<Rightarrow> nat option" where
  "parse_usize s =
     (let ds = (case s of [] \<Rightarrow> [] | c # cs \<Rightarrow> if c = CHR ''+'' then cs else s)
      in if ds \<noteq> [] \<and> list_all is_ascii_digit ds \<and> decimal_value ds \<le> usize_max
         then Some (decimal_value ds) else None)"

fun show_nat :: "nat \<Rightarrow> string" where
  "show_nat n = (if n < 10 then [char_of (48 + n)]
                 else show_nat (n div 10) @ [char_of (48 + n mod 10)])"

declare show_nat.simps [simp del]

definition show_int :: "int \<Rightarrow> string" where
  "show_int i = (if i < 0 then CHR ''-'' # show_nat (nat (- i)) else show_nat (nat i))"

text \<open>Plumbing of results: \<open>?\<close>, \<open>map_err\<close>, \<open>ok_or\<close> and \<open>bool::then_some\<close>.\<close>

definition result_bind :: "'e + 'a \<Rightarrow> ('a \<Rightarrow> 'e + 'b) \<Rightarrow> 'e + 'b" where
  "result_bind r f = (case r of Inl e \<Rightarrow> Inl e | Inr x \<Rightarrow> f x)"

definition map_err :: "('e \<Rightarrow> 'f) \<Rightarrow> 'e + 'a \<Rightarrow> 'f + 'a" where
  "map_err f r = (case r of Inl e \<Rightarrow> Inl (f e) | Inr x \<Rightarrow> Inr x)"

definition ok_or :: "'e \<Rightarrow> 'a option \<Rightarrow> 'e + 'a" where
  "ok_or e v = (case v of None \<Rightarrow> Inl e | Some x \<Rightarrow> Inr x)"

definition then_some :: "bool \<Rightarrow> 'a \<Rightarrow> 'a option" where
  "then_some b x = (if b then Some x else None)"

lemma result_bind_simps [simp]:
  "result_bind (Inl e) f = Inl e" "result_bind (Inr x) f = f x"
  by (simp_all add: result_bind_def)

lemma result_bind_Inr: "result_bind r f = Inr y \<longleftrightarrow> (\<exists>x. r = Inr x \<and> f x = Inr y)"
  by (simp add: result_bind_def split: sum.split)

lemma map_sum_Inr: "map_sum f g r = Inr y \<longleftrightarrow> (\<exists>x. r = Inr x \<and> g x = y)"
  by (cases r) auto

lemma then_some_Some [simp]: "then_some b x = Some y \<longleftrightarrow> b \<and> x = y"
  by (auto simp: then_some_def)

subsection \<open>Slices and vectors\<close>

definition get_at :: "'a list \<Rightarrow> nat \<Rightarrow> 'a option" where
  "get_at xs i = (if i < length xs then Some (xs ! i) else None)"

fun position :: "('a \<Rightarrow> bool) \<Rightarrow> 'a list \<Rightarrow> nat option" where
  "position P [] = None"
| "position P (x # xs) = (if P x then Some 0 else map_option Suc (position P xs))"

definition rposition :: "('a \<Rightarrow> bool) \<Rightarrow> 'a list \<Rightarrow> nat option" where
  "rposition P xs = map_option (\<lambda>i. length xs - 1 - i) (position P (rev xs))"

fun find_map :: "('a \<Rightarrow> 'b option) \<Rightarrow> 'a list \<Rightarrow> 'b option" where
  "find_map f [] = None"
| "find_map f (x # xs) = (case f x of None \<Rightarrow> find_map f xs | Some y \<Rightarrow> Some y)"

text \<open>\<open>windows(n)\<close>: the contiguous runs of length \<open>n\<close>, in order.\<close>

fun windows :: "nat \<Rightarrow> 'a list \<Rightarrow> 'a list list" where
  "windows n [] = []"
| "windows n (x # xs) = (if n \<le> length (x # xs) then take n (x # xs) # windows n xs else [])"

text \<open>Pushing a value that the vector does not hold yet.\<close>

definition push_unique :: "'a list \<Rightarrow> 'a \<Rightarrow> 'a list" where
  "push_unique xs x = (if x \<in> set xs then xs else xs @ [x])"

definition extend_unique :: "'a list \<Rightarrow> 'a list \<Rightarrow> 'a list" where
  "extend_unique xs ys = fold (\<lambda>y acc. push_unique acc y) ys xs"

text \<open>\<open>sort\<close> followed by \<open>dedup\<close>.\<close>

definition sort_dedup :: "'a::linorder list \<Rightarrow> 'a list" where
  "sort_dedup xs = remdups_adj (sort xs)"

definition or_else :: "'a option \<Rightarrow> 'a option \<Rightarrow> 'a option" where
  "or_else a b = (case a of None \<Rightarrow> b | Some x \<Rightarrow> Some x)"

text \<open>The number of bytes in a token vector.\<close>

definition total_bytes :: "string list \<Rightarrow> nat" where
  "total_bytes ts = sum_list (map length ts)"

subsection \<open>Lengths\<close>

lemma total_bytes_simps [simp]:
  "total_bytes [] = 0"
  "total_bytes (t # ts) = length t + total_bytes ts"
  "total_bytes (ts @ us) = total_bytes ts + total_bytes us"
  by (simp_all add: total_bytes_def)

lemma total_bytes_concat: "total_bytes (concat tss) = sum_list (map total_bytes tss)"
  by (induction tss) auto

lemma length_concat_total: "length (concat ts) = total_bytes ts"
  by (induction ts) auto

lemma total_bytes_drop: "total_bytes (drop n ts) \<le> total_bytes ts"
  by (metis append_take_drop_id le_add2 total_bytes_simps(3))

lemma total_bytes_member: "t \<in> set ts \<Longrightarrow> length t \<le> total_bytes ts"
  by (induction ts) auto

lemma total_bytes_drop_less:
  assumes "0 < n" and "t \<noteq> []"
  shows "total_bytes (drop n (t # us)) < total_bytes (t # us)"
proof -
  obtain m where "n = Suc m" using assms by (cases n) auto
  then show ?thesis
    using total_bytes_drop [of m us] assms by (cases t) auto
qed

lemma total_bytes_filter: "total_bytes (filter P ts) \<le> total_bytes ts"
  by (induction ts) auto

lemma length_str_replace [str_len]:
  "length r \<le> length p \<Longrightarrow> length (str_replace p r s) \<le> length s"
proof (induction p r s rule: str_replace.induct)
  case (2 p r c cs)
  show ?case
  proof (cases "p \<noteq> [] \<and> prefix p (c # cs)")
    case True
    then have "length p \<le> length (c # cs)" by (auto dest: prefix_length_le)
    with 2 True show ?thesis by (auto split: if_splits)
  next
    case False
    with 2 show ?thesis by auto
  qed
qed simp

lemma strip_prefix_length [str_len]:
  "strip_prefix p s = Some t \<Longrightarrow> length t + length p = length s"
  by (auto simp: strip_prefix_def dest: prefix_length_le split: if_splits)

lemma strip_suffix_length [str_len]:
  "strip_suffix p s = Some t \<Longrightarrow> length t + length p = length s"
  by (auto simp: strip_suffix_def dest: suffix_length_le split: if_splits)

lemma strip_prefix_Some_iff: "strip_prefix p s = Some t \<longleftrightarrow> s = p @ t"
  by (auto simp: strip_prefix_def prefix_def)

lemma strip_suffix_Some_iff: "strip_suffix p s = Some t \<longleftrightarrow> s = t @ p"
  by (auto simp: strip_suffix_def suffix_def)

lemma position_Some: "position P xs = Some i \<Longrightarrow> i < length xs \<and> P (xs ! i) \<and> (\<forall>j<i. \<not> P (xs ! j))"
proof (induction xs arbitrary: i)
  case (Cons x xs)
  then show ?case
    by (auto simp: nth_Cons split: if_splits nat.splits)
qed simp

lemma position_None: "position P xs = None \<longleftrightarrow> (\<forall>x \<in> set xs. \<not> P x)"
  by (induction xs) auto

lemma find_map_Some: "find_map f xs = Some y \<Longrightarrow> \<exists>x \<in> set xs. f x = Some y"
  by (induction xs) (auto split: option.splits)

lemma find_map_cong [fundef_cong]:
  "xs = ys \<Longrightarrow> (\<And>x. x \<in> set ys \<Longrightarrow> f x = g x) \<Longrightarrow> find_map f xs = find_map g ys"
proof (hypsubst)
  assume "\<And>x. x \<in> set ys \<Longrightarrow> f x = g x"
  then show "find_map f ys = find_map g ys" by (induction ys) (simp_all split: option.split)
qed

lemma find_map_None: "find_map f xs = None \<longleftrightarrow> (\<forall>x \<in> set xs. f x = None)"
  by (induction xs) (auto split: option.splits)

lemma get_at_Some: "get_at xs i = Some x \<longleftrightarrow> i < length xs \<and> xs ! i = x"
  by (auto simp: get_at_def)

lemma get_at_member: "get_at xs i = Some x \<Longrightarrow> x \<in> set xs"
  by (auto simp: get_at_Some)

lemma set_push_unique [simp, vec_simps]: "set (push_unique xs x) = insert x (set xs)"
  by (auto simp: push_unique_def)

lemma distinct_push_unique [simp, vec_simps]: "distinct (push_unique xs x) = distinct xs"
  by (auto simp: push_unique_def)

lemma set_extend_unique [simp, vec_simps]: "set (extend_unique xs ys) = set xs \<union> set ys"
  unfolding extend_unique_def by (induction ys arbitrary: xs) auto

lemma distinct_extend_unique [simp, vec_simps]: "distinct (extend_unique xs ys) = distinct xs"
  unfolding extend_unique_def by (induction ys arbitrary: xs) auto

lemma set_sort_dedup [simp, vec_simps]: "set (sort_dedup xs) = set xs"
  by (simp add: sort_dedup_def)

lemma split_by_ne [simp]: "split_by P s \<noteq> []"
  by (induction s) (auto split: list.splits)

lemma split_by_no_sep: "x \<in> set (split_by P s) \<Longrightarrow> c \<in> set x \<Longrightarrow> \<not> P c"
  by (induction s arbitrary: x) (fastforce split: if_splits list.splits)+

lemma last_piece_no_sep: "c \<in> set (last_piece P s) \<Longrightarrow> \<not> P c"
  unfolding last_piece_def by (rule split_by_no_sep [of "last (split_by P s)" P s]) auto

lemma last_piece_id: "\<forall>c \<in> set s. \<not> P c \<Longrightarrow> last_piece P s = s"
proof -
  have "\<forall>c \<in> set s. \<not> P c \<Longrightarrow> split_by P s = [s]"
    by (induction s) auto
  then show "\<forall>c \<in> set s. \<not> P c \<Longrightarrow> last_piece P s = s"
    by (simp add: last_piece_def)
qed

lemma last_piece_Nil [simp]: "last_piece P [] = []"
  by (simp add: last_piece_def)

subsection \<open>Splitting\<close>

lemma split_once_Some: "split_once p s = Some (a, b) \<Longrightarrow> s = a @ p @ b"
proof (induction p s arbitrary: a rule: split_once.induct)
  case (1 p)
  then show ?case by (auto split: if_splits)
next
  case (2 p c cs)
  then show ?case by (cases "prefix p (c # cs)") (auto simp: prefix_def)
qed

lemma rsplit_once_Some: "rsplit_once p s = Some (a, b) \<Longrightarrow> s = a @ p @ b"
proof -
  assume "rsplit_once p s = Some (a, b)"
  then have "split_once (rev p) (rev s) = Some (rev b, rev a)"
    by (auto simp: rsplit_once_def)
  then have "rev s = rev b @ rev p @ rev a" by (rule split_once_Some)
  then have "rev (rev s) = rev (rev b @ rev p @ rev a)" by (rule arg_cong)
  then show "s = a @ p @ b" by simp
qed

lemma split_once_length [str_len]: "split_once p s = Some (a, b) \<Longrightarrow> length a + length p + length b = length s"
  by (drule split_once_Some) simp

lemma split_once_None: "split_once p s = None \<longleftrightarrow> \<not> sublist p s"
  by (induction p s rule: split_once.induct) (auto simp: sublist_Cons_right)

text \<open>The byte offset that \<open>find\<close> returns.\<close>

definition str_find :: "string \<Rightarrow> string \<Rightarrow> nat option" where
  "str_find p s = map_option (\<lambda>(a, _). length a) (split_once p s)"

subsection \<open>Machine integers\<close>

text \<open>\<open>usize\<close> arithmetic in a release build wraps at 64 bits.\<close>

definition usize_add :: "nat \<Rightarrow> nat \<Rightarrow> nat" where
  "usize_add a b = (a + b) mod (usize_max + 1)"

definition usize_sub :: "nat \<Rightarrow> nat \<Rightarrow> nat" where
  "usize_sub a b = (if b \<le> a then a - b else a + (usize_max + 1) - b)"

lemma usize_add_no_wrap: "a + b \<le> usize_max \<Longrightarrow> usize_add a b = a + b"
  by (simp add: usize_add_def)

lemma usize_sub_no_wrap: "b \<le> a \<Longrightarrow> usize_sub a b = a - b"
  by (simp add: usize_sub_def)

lemma parse_usize_le: "parse_usize s = Some n \<Longrightarrow> n \<le> usize_max"
  by (auto simp: parse_usize_def Let_def split: if_splits)

subsection \<open>Decimal round trip\<close>

lemma is_ascii_digit_char: "(d::nat) < 10 \<Longrightarrow> is_ascii_digit (char_of (48 + d))"
proof -
  assume "d < 10"
  moreover have "\<forall>d \<in> set [0..<10]. is_ascii_digit (char_of (48 + (d::nat)))" by code_simp
  ultimately show ?thesis by simp
qed

lemma digit_value_char [simp]: "(d::nat) < 10 \<Longrightarrow> digit_value (char_of (48 + d)) = d"
  by (simp add: digit_value_def)

lemma show_nat_digits: "list_all is_ascii_digit (show_nat n)"
proof (induction n rule: show_nat.induct)
  case (1 n)
  have "is_ascii_digit (char_of (48 + n mod 10))" by (rule is_ascii_digit_char) simp
  with 1 show ?case
    by (cases "n < 10") (simp_all add: show_nat.simps [of n] is_ascii_digit_char)
qed

lemma show_nat_nonempty [simp]: "show_nat n \<noteq> []"
  by (simp add: show_nat.simps [of n])

lemma decimal_value_append: "decimal_value (s @ [c]) = 10 * decimal_value s + digit_value c"
  by (simp add: decimal_value_def)

lemma decimal_value_show [simp]: "decimal_value (show_nat n) = n"
proof (induction n rule: show_nat.induct)
  case (1 n)
  show ?case
  proof (cases "n < 10")
    case True
    then show ?thesis by (simp add: show_nat.simps [of n] decimal_value_def)
  next
    case False
    then show ?thesis
      using 1 digit_value_char [of "n mod 10"]
      by (simp add: show_nat.simps [of n] decimal_value_append)
  qed
qed

lemma digit_not_plus: "is_ascii_digit c \<Longrightarrow> c \<noteq> CHR ''+''"
  by (auto simp: is_ascii_digit_def)

lemma parse_usize_show: "n \<le> usize_max \<Longrightarrow> parse_usize (show_nat n) = Some n"
proof -
  assume n: "n \<le> usize_max"
  obtain c cs where s: "show_nat n = c # cs" by (cases "show_nat n") auto
  have "c \<noteq> CHR ''+''" using show_nat_digits [of n] s digit_not_plus by auto
  moreover have "decimal_value (c # cs) = n" using decimal_value_show [of n] s by simp
  moreover have "list_all is_ascii_digit (c # cs)" using show_nat_digits [of n] s by simp
  ultimately show ?thesis using n by (simp add: s parse_usize_def)
qed

lemma digits_exclude: "list_all is_ascii_digit s \<Longrightarrow> \<not> is_ascii_digit c \<Longrightarrow> c \<notin> set s"
  by (auto simp: list_all_iff)

lemma show_nat_excludes: "\<not> is_ascii_digit c \<Longrightarrow> c \<notin> set (show_nat n)"
  using show_nat_digits digits_exclude by blast

lemma split_once_char: "c \<notin> set a \<Longrightarrow> split_once [c] (a @ c # b) = Some (a, b)"
  by (induction a) auto

lemma split_once_char_None: "c \<notin> set a \<Longrightarrow> split_once [c] a = None"
  by (induction a) auto

lemma rsplit_once_char: "c \<notin> set b \<Longrightarrow> rsplit_once [c] (a @ c # b) = Some (a, b)"
  using split_once_char [of c "rev b" "rev a"] by (simp add: rsplit_once_def)

lemma trim_chars_id: "s \<noteq> [] \<Longrightarrow> \<not> P (hd s) \<Longrightarrow> \<not> P (last s) \<Longrightarrow> trim_chars P s = s"
proof -
  assume a: "s \<noteq> []" "\<not> P (hd s)" "\<not> P (last s)"
  then have "dropWhile P s = s" by (cases s) auto
  moreover have "dropWhile P (rev s) = rev s"
    using a by (cases "rev s") (auto simp: last_rev hd_rev [symmetric])
  ultimately show ?thesis by (simp add: trim_chars_def trim_start_chars_def trim_end_chars_def)
qed

text \<open>The bound is tested on binary integers when terms are evaluated.\<close>

definition within_usize :: "nat \<Rightarrow> bool" where
  "within_usize n \<longleftrightarrow> n \<le> usize_max"

lemma within_usize_code [code]: "within_usize n \<longleftrightarrow> int n \<le> 18446744073709551615"
  by (simp add: within_usize_def usize_max_def)

lemma parse_usize_code [code]:
  "parse_usize s =
     (let ds = (case s of [] \<Rightarrow> [] | c # cs \<Rightarrow> if c = CHR ''+'' then cs else s)
      in if ds \<noteq> [] \<and> list_all is_ascii_digit ds \<and> within_usize (decimal_value ds)
         then Some (decimal_value ds) else None)"
  by (simp add: parse_usize_def within_usize_def)

lemma usize_add_code [code]:
  "usize_add a b = nat ((int a + int b) mod 18446744073709551616)"
  by (simp add: usize_add_def usize_max_def nat_mod_as_int)

lemma usize_sub_code [code]:
  "usize_sub a b = (if b \<le> a then a - b else nat (int a + 18446744073709551616 - int b))"
  unfolding usize_sub_def usize_max_def by (simp; arith)

lemma set_map_filter_Some: "set (List.map_filter f xs) = {y. \<exists>x \<in> set xs. f x = Some y}"
proof (intro set_eqI iffI)
  fix y assume "y \<in> set (List.map_filter f xs)"
  then show "y \<in> {y. \<exists>x \<in> set xs. f x = Some y}" by (auto simp: map_filter_def)
next
  fix y assume "y \<in> {y. \<exists>x \<in> set xs. f x = Some y}"
  then obtain x where "x \<in> set xs" "f x = Some y" by blast
  then show "y \<in> set (List.map_filter f xs)" by (force simp: map_filter_def)
qed

subsection \<open>Lines\<close>

text \<open>\<open>str::lines\<close>: a final empty line is dropped; a carriage return is dropped only before a line feed.\<close>

fun finish_lines :: "string list \<Rightarrow> string list" where
  "finish_lines [] = []"
| "finish_lines [last_line] = (if last_line = [] then [] else [last_line])"
| "finish_lines (l # m # ls) =
     (case strip_suffix [CHR 0x0D] l of Some l' \<Rightarrow> l' | None \<Rightarrow> l) # finish_lines (m # ls)"

definition str_lines :: "string \<Rightarrow> string list" where
  "str_lines s = finish_lines (split_by (\<lambda>c. c = CHR 0x0A) s)"

subsection \<open>Words\<close>

text \<open>\<open>split_whitespace\<close>: the maximal runs of scalar values that are not white space.\<close>

fun whitespace_runs :: "string \<Rightarrow> string list \<Rightarrow> string list" where
  "whitespace_runs current [] = (if current = [] then [] else [current])"
| "whitespace_runs current (ch # chars) =
     (if is_whitespace ch
      then (if current = [] then whitespace_runs [] chars else current # whitespace_runs [] chars)
      else whitespace_runs (current @ ch) chars)"

definition split_whitespace :: "string \<Rightarrow> string list" where
  "split_whitespace s = whitespace_runs [] (rust_chars s)"

definition eq_ignore_ascii_case :: "string \<Rightarrow> string \<Rightarrow> bool" where
  "eq_ignore_ascii_case a b \<longleftrightarrow> to_ascii_lowercase a = to_ascii_lowercase b"

lemma join_split_by: "str_join [c] (split_by (\<lambda>d. d = c) s) = s"
proof (induction s)
  case (Cons d s)
  obtain x xs where "split_by (\<lambda>d. d = c) s = x # xs"
    using split_by_ne by (metis neq_Nil_conv)
  with Cons show ?case by (cases xs) auto
qed simp

lemma split_by_no: "c \<notin> set p \<Longrightarrow> split_by (\<lambda>d. d = c) p = [p]"
  by (induction p) auto

lemma split_by_append:
  "c \<notin> set p \<Longrightarrow> split_by (\<lambda>d. d = c) (p @ c # s) = p # split_by (\<lambda>d. d = c) s"
  by (induction p) auto

lemma split_by_join:
  "parts \<noteq> [] \<Longrightarrow> \<forall>p \<in> set parts. c \<notin> set p \<Longrightarrow> split_by (\<lambda>d. d = c) (str_join [c] parts) = parts"
proof (induction "[c]" parts rule: str_join.induct)
  case (3 x y xs)
  then show ?case using split_by_append [of c x] by simp
qed (auto simp: split_by_no)

lemma split_once_first: "c \<notin> set a \<Longrightarrow> split_once (c # p) (a @ (c # p) @ b) = Some (a, b)"
  by (induction a) auto

lemma split_once_char_iff: "split_once [c] s = Some (a, b) \<longleftrightarrow> s = a @ c # b \<and> c \<notin> set a"
proof
  assume s: "split_once [c] s = Some (a, b)"
  then have "s = a @ c # b" using split_once_Some [of "[c]" s a b] by simp
  moreover have "c \<notin> set a"
    using s
  proof (induction s arbitrary: a)
    case (Cons d s)
    then show ?case by (auto split: if_splits)
  qed simp
  ultimately show "s = a @ c # b \<and> c \<notin> set a" by simp
qed (auto simp: split_once_char)

lemma sorted_sort_dedup [simp]: "sorted (sort_dedup xs)"
  by (simp add: sort_dedup_def)

lemma distinct_remdups_adj_sorted: "sorted xs \<Longrightarrow> distinct (remdups_adj xs)"
  by (induction xs rule: remdups_adj.induct) (auto simp: antisym)

lemma distinct_sort_dedup [simp, vec_simps]: "distinct (sort_dedup xs)"
  by (simp add: sort_dedup_def distinct_remdups_adj_sorted)

subsection \<open>ASCII strings\<close>

definition is_ascii :: "char \<Rightarrow> bool" where
  "is_ascii c \<longleftrightarrow> utf8_tail c = 0"

lemma rust_chars_ascii: "list_all is_ascii s \<Longrightarrow> rust_chars s = map (\<lambda>c. [c]) s"
  by (induction s) (auto simp: is_ascii_def)

lemma concat_singletons [simp]: "concat (map (\<lambda>c. [c]) s) = s"
  by (induction s) auto

end
