(* ===== verification/Shell.thy ===== *)
theory Shell
  imports Prelude
begin

section \<open>Shell commands as semantic stages\<close>

text \<open>
  Models \<open>crates/agent-semantic-hook/src/command/shell.rs\<close>: the hook cuts a command line into
  words and separators, splits it into stages, and peels the wrappers (\<open>env\<close>,
  \<open>direnv\<close>, \<open>rtk\<close>, \<open>uv\<close>, \<open>cargo\<close>, \<open>bash -c\<close>) off each stage, so that the classifier
  sees the program that would run.

  The bash grammar is third-party code (tree-sitter): a parser is an argument of type
  \<open>bash_parser\<close> that returns the root's error flag and the syntax tree, a \<open>bash_node\<close>
  with the node's kind, its UTF-8 text, its extent in bytes and its children.  Slicing a vector out
  of range panics in Rust; here it is the value \<open>Inl Panic\<close>.  The mutual recursion between
  scripts and stages spends fuel, and \<open>Inl OutOfFuel\<close> means that it ran out;
  \<open>enough_fuel\<close> is shown sufficient for every parser that respects extents.
\<close>

subsection \<open>The syntax tree\<close>

datatype bash_node =
  BashNode (node_kind: string) (node_utf8: "string option") (node_span: nat)
    (node_children: "bash_node list")

type_synonym bash_parser = "string \<Rightarrow> (bool \<times> bash_node) option"

definition is_separator :: "string \<Rightarrow> bool" where
  "is_separator token \<longleftrightarrow> token \<in> {''|'', '';'', ''&&'', ''||'', ''&''}"

definition is_command_word_node :: "string \<Rightarrow> bool" where
  "is_command_word_node kind \<longleftrightarrow> kind \<in>
     {''command_name'', ''word'', ''string'', ''raw_string'', ''concatenation'',
      ''file_descriptor'', ''number'', ''simple_expansion'', ''variable_assignment''}"

definition is_nested_command_stage_node :: "string \<Rightarrow> bool" where
  "is_nested_command_stage_node kind \<longleftrightarrow>
     kind \<in> {''command_substitution'', ''process_substitution'', ''subshell''}"

definition normalize_shell_word_text :: "string \<Rightarrow> string" where
  "normalize_shell_word_text text =
     (let quoted = (\<lambda>q. case strip_prefix q text of None \<Rightarrow> None | Some v \<Rightarrow> strip_suffix q v);
          stripped = (case or_else (quoted [CHR 0x27]) (quoted [CHR 0x22]) of
                        None \<Rightarrow> text | Some v \<Rightarrow> v)
      in str_replace [CHR 0x5C, CHR 0x5C] [CHR 0x5C]
           (str_replace [CHR 0x5C, CHR 0x22] [CHR 0x22]
             (str_replace [CHR 0x5C, CHR 0x27] [CHR 0x27]
               (str_replace [CHR 0x5C, CHR 0x20] [CHR 0x20] stripped))))"

definition push_nested_stage_separator :: "string list \<Rightarrow> string list" where
  "push_nested_stage_separator tokens =
     (if tokens \<noteq> [] \<and> is_separator (last tokens) then tokens else tokens @ ['';''])"

fun node_contains_nested_command_stage :: "bash_node \<Rightarrow> bool" where
  "node_contains_nested_command_stage (BashNode kind text span children) \<longleftrightarrow>
     is_nested_command_stage_node kind
     \<or> (\<exists>child \<in> set children. node_contains_nested_command_stage child)"

text \<open>
  Both collectors append to a token vector that the caller owns.  \<open>collect_bash_tokens\<close> gathers a
  command's words in a vector of its own before it extends the caller's.
\<close>

fun collect_bash_tokens :: "bash_node \<Rightarrow> string list \<Rightarrow> string list"
and collect_command_words :: "bash_node \<Rightarrow> string list \<Rightarrow> string list" where
  "collect_bash_tokens (BashNode kind text span children) tokens =
     (if kind = ''command'' then
        tokens @ (fold collect_command_words children [])
      else if children = [] then
        (case text of None \<Rightarrow> tokens
         | Some t \<Rightarrow> if is_separator t then tokens @ [t] else tokens)
      else fold collect_bash_tokens children tokens)"
| "collect_command_words (BashNode kind text span children) tokens =
     (if is_nested_command_stage_node kind then
        push_nested_stage_separator
          (let tokens = push_nested_stage_separator tokens in
           if children = [] then
             (case text of None \<Rightarrow> tokens
              | Some t \<Rightarrow> if is_separator t then tokens @ [t] else tokens)
           else fold collect_bash_tokens children tokens)
      else if is_command_word_node kind then
        (if node_contains_nested_command_stage (BashNode kind text span children)
         then fold collect_command_words children tokens
         else (case text of None \<Rightarrow> tokens
               | Some t \<Rightarrow> if normalize_shell_word_text t \<noteq> []
                           then tokens @ [normalize_shell_word_text t] else tokens))
      else fold collect_command_words children tokens)"

definition bash_ast_tokens :: "bash_parser \<Rightarrow> string \<Rightarrow> string list option" where
  "bash_ast_tokens parse command =
     (case parse command of
        None \<Rightarrow> None
      | Some (has_error, root) \<Rightarrow>
          if has_error then None
          else (let tokens = collect_bash_tokens root []
                in if tokens \<noteq> [] then Some tokens else None))"

text \<open>
  The source lets the two collectors call each other on the same node; the equations above inline
  those calls so that the recursion is structural, and these two lemmas give the calls back.
\<close>

lemma collect_bash_tokens_command:
  "kind = ''command'' \<Longrightarrow> collect_bash_tokens (BashNode kind text span children) tokens =
     tokens @ collect_command_words (BashNode kind text span children) []"
  by (simp add: is_nested_command_stage_node_def is_command_word_node_def)

lemma collect_command_words_nested:
  "is_nested_command_stage_node kind \<Longrightarrow>
     collect_command_words (BashNode kind text span children) tokens =
     push_nested_stage_separator
       (collect_bash_tokens (BashNode kind text span children) (push_nested_stage_separator tokens))"
  by (auto simp: is_nested_command_stage_node_def Let_def)

subsection \<open>Tokenizers without a grammar\<close>

text \<open>\<open>push_token\<close> with the caller's buffer reset to empty, as \<open>std::mem::take\<close> leaves it.\<close>

definition push_token :: "string list \<Rightarrow> string \<Rightarrow> string list" where
  "push_token tokens current = (if current \<noteq> [] then tokens @ [current] else tokens)"

definition is_quote :: "string \<Rightarrow> bool" where
  "is_quote ch \<longleftrightarrow> ch = [CHR 0x27] \<or> ch = [CHR 0x22]"

fun fallback_shell_loop ::
  "string list \<Rightarrow> string option \<Rightarrow> string \<Rightarrow> string list \<Rightarrow> string list" where
  "fallback_shell_loop [] quote current tokens = push_token tokens current"
| "fallback_shell_loop (ch # chars) quote current tokens =
     (case quote of
        Some q \<Rightarrow>
          if ch = q then fallback_shell_loop chars None current tokens
          else fallback_shell_loop chars quote (current @ ch) tokens
      | None \<Rightarrow>
          if is_quote ch then fallback_shell_loop chars (Some ch) current tokens
          else if ch \<in> {''|'', '';'', ''&''} then
            (if ch = ''&'' \<and> chars \<noteq> [] \<and> hd chars = ''&''
             then fallback_shell_loop (tl chars) None [] (push_token tokens current @ [''&&''])
             else fallback_shell_loop chars None [] (push_token tokens current @ [ch]))
          else if is_whitespace ch then fallback_shell_loop chars None [] (push_token tokens current)
          else fallback_shell_loop chars None (current @ ch) tokens)"

definition fallback_shell_tokens :: "string \<Rightarrow> string list" where
  "fallback_shell_tokens command = fallback_shell_loop (rust_chars command) None [] []"

definition needs_grammar :: "string \<Rightarrow> bool" where
  "needs_grammar ch \<longleftrightarrow>
     ch \<in> {''$'', ''`'', ''<'', ''>'', [CHR 0x0A], [CHR 0x5C], ''('', '')''}"

fun fallback_simple_loop ::
  "string list \<Rightarrow> string option \<Rightarrow> string \<Rightarrow> string list \<Rightarrow> string list option" where
  "fallback_simple_loop [] quote current tokens = Some (push_token tokens current)"
| "fallback_simple_loop (ch # chars) quote current tokens =
     (if needs_grammar ch then None
      else (case quote of
        Some q \<Rightarrow>
          if ch = q then fallback_simple_loop chars None current tokens
          else fallback_simple_loop chars quote (current @ ch) tokens
      | None \<Rightarrow>
          if is_quote ch then fallback_simple_loop chars (Some ch) current tokens
          else if ch \<in> {''|'', '';'', ''&''} then
            (if ch = ''|'' \<and> chars \<noteq> [] \<and> hd chars = ''|'' then None
             else if ch = ''&'' \<and> chars \<noteq> [] \<and> hd chars = ''&''
             then fallback_simple_loop (tl chars) None [] (push_token tokens current @ [''&&''])
             else fallback_simple_loop chars None [] (push_token tokens current @ [ch]))
          else if is_whitespace ch then fallback_simple_loop chars None [] (push_token tokens current)
          else fallback_simple_loop chars None (current @ ch) tokens))"

definition fallback_shell_tokens_if_simple :: "string \<Rightarrow> string list option" where
  "fallback_shell_tokens_if_simple command = fallback_simple_loop (rust_chars command) None [] []"

definition shell_tokens :: "bash_parser \<Rightarrow> string \<Rightarrow> string list" where
  "shell_tokens parse command =
     (case fallback_shell_tokens_if_simple command of
        Some tokens \<Rightarrow> tokens
      | None \<Rightarrow>
          (case bash_ast_tokens parse command of
             Some tokens \<Rightarrow> tokens
           | None \<Rightarrow> fallback_shell_tokens command))"

subsection \<open>Stages\<close>

fun split_stages_loop :: "string list \<Rightarrow> string list \<Rightarrow> string list list \<Rightarrow> string list list" where
  "split_stages_loop [] stage stages = (if stage \<noteq> [] then stages @ [stage] else stages)"
| "split_stages_loop (token # tokens) stage stages =
     (if is_separator token
      then split_stages_loop tokens []
             ((if stage \<noteq> [] then stages @ [stage] else stages) @ [[token]])
      else split_stages_loop tokens (stage @ [token]) stages)"

definition split_command_stages :: "string list \<Rightarrow> string list list" where
  "split_command_stages tokens = split_stages_loop tokens [] []"

definition command_name :: "string \<Rightarrow> string" where
  "command_name command = last_piece (\<lambda>c. c = CHR ''/'') command"

definition is_env_assignment :: "string \<Rightarrow> bool" where
  "is_env_assignment token =
     (case split_once ''='' token of
        None \<Rightarrow> False
      | Some (name, value) \<Rightarrow>
          name \<noteq> [] \<and> \<not> starts_with name ''-''
          \<and> list_all (\<lambda>c. is_ascii_alphanumeric c \<or> c = CHR ''_'') name)"

definition strip_env_assignments :: "string list \<Rightarrow> string list" where
  "strip_env_assignments tokens = dropWhile is_env_assignment tokens"

function env_index_loop :: "string list \<Rightarrow> nat \<Rightarrow> nat" where
  "env_index_loop tokens index =
     (if index < length tokens then
        let value = tokens ! index in
        if value \<in> {''-i'', ''--ignore-environment''} then env_index_loop tokens (index + 1)
        else if value \<in> {''-u'', ''--unset'', ''-C'', ''--chdir''}
        then env_index_loop tokens (index + 2)
        else if starts_with value ''-u'' \<or> starts_with value ''--unset=''
             \<or> starts_with value ''-C'' \<or> starts_with value ''--chdir='' \<or> is_env_assignment value
        then env_index_loop tokens (index + 1)
        else index
      else index)"
  by pat_completeness auto
termination
  by (relation "measure (\<lambda>(tokens, index). length tokens - index)") auto

definition env_command_index :: "string list \<Rightarrow> nat" where
  "env_command_index tokens = env_index_loop tokens 1"

function uv_index_loop :: "string list \<Rightarrow> nat \<Rightarrow> nat" where
  "uv_index_loop tokens index =
     (if index < length tokens then
        let value = tokens ! index in
        if value \<in> {''--project'', ''--directory'', ''--with'', ''--python''}
        then uv_index_loop tokens (index + 2)
        else if value \<in> {''--frozen'', ''--locked'', ''--isolated'', ''--no-sync''}
        then uv_index_loop tokens (index + 1)
        else if starts_with value ''--project='' \<or> starts_with value ''--directory=''
             \<or> starts_with value ''--with='' \<or> starts_with value ''--python=''
        then uv_index_loop tokens (index + 1)
        else index
      else index)"
  by pat_completeness auto
termination
  by (relation "measure (\<lambda>(tokens, index). length tokens - index)") auto

definition uv_run_command_index :: "string list \<Rightarrow> nat" where
  "uv_run_command_index tokens = uv_index_loop tokens 2"

declare env_index_loop.simps [simp del] uv_index_loop.simps [simp del]

subsection \<open>Peeling wrappers\<close>

datatype shell_error = Panic | OutOfFuel

type_synonym 'a shell_result = "shell_error + 'a"

text \<open>\<open>&tokens[index..]\<close> panics when the index is past the end.\<close>

definition slice_from :: "string list \<Rightarrow> nat \<Rightarrow> string list shell_result" where
  "slice_from tokens index =
     (if index \<le> length tokens then Inr (drop index tokens) else Inl Panic)"

definition shell_bind :: "'a shell_result \<Rightarrow> ('a \<Rightarrow> 'b shell_result) \<Rightarrow> 'b shell_result" where
  "shell_bind r f = (case r of Inl e \<Rightarrow> Inl e | Inr x \<Rightarrow> f x)"

text \<open>\<open>flat_map(..).collect()\<close> over stages, with the first failure escaping.\<close>

fun flat_map_stages ::
  "(string list \<Rightarrow> string list shell_result) \<Rightarrow> string list list \<Rightarrow> string list shell_result" where
  "flat_map_stages f [] = Inr []"
| "flat_map_stages f (stage # stages) =
     shell_bind (f stage) (\<lambda>xs. shell_bind (flat_map_stages f stages) (\<lambda>ys. Inr (xs @ ys)))"

definition is_script_flag :: "string \<Rightarrow> bool" where
  "is_script_flag token \<longleftrightarrow> token = ''-c'' \<or> token = ''-lc''"

text \<open>The word after the first \<open>-c\<close> or \<open>-lc\<close>.\<close>

definition script_argument :: "string list \<Rightarrow> string option" where
  "script_argument tokens =
     (case position is_script_flag tokens of
        None \<Rightarrow> None
      | Some index \<Rightarrow> get_at tokens (index + 1))"

definition direnv_command_index :: "string list \<Rightarrow> nat" where
  "direnv_command_index tokens =
     (if get_at tokens 1 = Some ''exec'' then
        (case get_at tokens 2 of
           Some token \<Rightarrow>
             if token = ''.'' \<or> token = ''--'' \<or> starts_with token ''/''
                \<or> starts_with token ''./'' \<or> starts_with token ''../''
             then 3 else 2
         | None \<Rightarrow> 2)
      else 1)"

text \<open>The first word after \<open>rtk\<close> that is not an option, or the end.\<close>

definition rtk_command_index :: "string list \<Rightarrow> nat" where
  "rtk_command_index tokens =
     (case position (\<lambda>token. \<not> starts_with token ''-'') (drop 1 tokens) of
        Some index \<Rightarrow> index + 1
      | None \<Rightarrow> length tokens)"

fun semantic_tokens_fuel :: "bash_parser \<Rightarrow> nat \<Rightarrow> string \<Rightarrow> string list shell_result"
and unwrap_stage_fuel :: "bash_parser \<Rightarrow> nat \<Rightarrow> string list \<Rightarrow> string list shell_result"
and unwrap_rtk_fuel :: "bash_parser \<Rightarrow> nat \<Rightarrow> string list \<Rightarrow> string list shell_result" where
  "semantic_tokens_fuel parse 0 command = Inl OutOfFuel"
| "semantic_tokens_fuel parse (Suc fuel) command =
     (let tokens = shell_tokens parse command in
      if \<not> list_ex is_separator tokens then unwrap_stage_fuel parse fuel tokens
      else flat_map_stages (unwrap_stage_fuel parse fuel) (split_command_stages tokens))"
| "unwrap_stage_fuel parse 0 tokens = Inl OutOfFuel"
| "unwrap_stage_fuel parse (Suc fuel) tokens0 =
     (let tokens = strip_env_assignments tokens0 in
      if tokens = [] then Inr []
      else let name = command_name (hd tokens) in
        if name = ''env'' then
          (let index = env_command_index tokens in
           if length tokens \<le> index then Inr tokens
           else unwrap_stage_fuel parse fuel (drop index tokens))
        else if name = ''direnv'' then
          unwrap_stage_fuel parse fuel
            (drop (min (direnv_command_index tokens) (length tokens)) tokens)
        else if name = ''rtk'' then unwrap_rtk_fuel parse fuel tokens
        else if name = ''uv'' then
          shell_bind (slice_from tokens (uv_run_command_index tokens))
            (unwrap_stage_fuel parse fuel)
        else if name = ''cargo'' then
          (case position (\<lambda>token. token = ''--'') tokens of
             Some index \<Rightarrow> unwrap_stage_fuel parse fuel (drop (index + 1) tokens)
           | None \<Rightarrow> Inr tokens)
        else if name \<in> {''bash'', ''sh'', ''zsh''} then
          (case script_argument tokens of
             Some script \<Rightarrow> semantic_tokens_fuel parse fuel script
           | None \<Rightarrow> Inr tokens)
        else Inr tokens)"
| "unwrap_rtk_fuel parse 0 tokens = Inl OutOfFuel"
| "unwrap_rtk_fuel parse (Suc fuel) tokens =
     (let command_index = rtk_command_index tokens in
      case get_at tokens command_index of
        None \<Rightarrow> Inr []
      | Some command \<Rightarrow>
          if command = ''run'' then
            (case script_argument (drop (command_index + 1) tokens) of
               Some script \<Rightarrow> semantic_tokens_fuel parse fuel script
             | None \<Rightarrow> unwrap_stage_fuel parse fuel (drop (command_index + 1) tokens))
          else if command \<in> {''proxy'', ''err'', ''summary''}
          then unwrap_stage_fuel parse fuel (drop (command_index + 1) tokens)
          else unwrap_stage_fuel parse fuel (drop command_index tokens))"

text \<open>Each byte pays for at most three calls: a stage, its \<open>rtk\<close> part and a script.\<close>

definition enough_fuel :: "string \<Rightarrow> nat" where
  "enough_fuel command = 3 * length command + 4"

definition semantic_shell_tokens :: "bash_parser \<Rightarrow> string \<Rightarrow> string list shell_result" where
  "semantic_shell_tokens parse command = semantic_tokens_fuel parse (enough_fuel command) command"

definition unwrap_command_stage :: "bash_parser \<Rightarrow> string list \<Rightarrow> string list shell_result" where
  "unwrap_command_stage parse tokens =
     unwrap_stage_fuel parse (3 * total_bytes tokens + 3) tokens"

declare semantic_tokens_fuel.simps [simp del] unwrap_stage_fuel.simps [simp del]
  unwrap_rtk_fuel.simps [simp del]

subsection \<open>Tokenizer facts\<close>

lemma fallback_simple_loop_agrees:
  "fallback_simple_loop chars quote current tokens = Some ts \<Longrightarrow>
     fallback_shell_loop chars quote current tokens = ts"
  by (induction chars quote current tokens rule: fallback_simple_loop.induct)
     (auto split: if_splits option.splits)

definition stage_bytes :: "string list \<Rightarrow> nat" where
  "stage_bytes tokens = total_bytes (filter (\<lambda>t. \<not> is_separator t) tokens)"

lemma stage_bytes_simps [simp]:
  "stage_bytes [] = 0"
  "stage_bytes (t # ts) = (if is_separator t then 0 else length t) + stage_bytes ts"
  "stage_bytes (ts @ us) = stage_bytes ts + stage_bytes us"
  by (auto simp: stage_bytes_def)

lemma stage_bytes_push_token: "stage_bytes (push_token tokens current) \<le> stage_bytes tokens + length current"
  by (simp add: push_token_def)

lemma separators [simp]:
  "is_separator ''|''" "is_separator '';''" "is_separator ''&&''" "is_separator ''&''"
  by (simp_all add: is_separator_def)

lemma stage_bytes_fallback_loop:
  "stage_bytes (fallback_shell_loop chars quote current tokens)
     \<le> stage_bytes tokens + length current + length (concat chars)"
proof (induction chars quote current tokens rule: fallback_shell_loop.induct)
  case (1 quote current tokens)
  then show ?case using stage_bytes_push_token [of tokens current] by simp
next
  case (2 ch chars quote current tokens)
  show ?case
  proof (cases quote)
    case (Some q)
    with 2 show ?thesis by force
  next
    case None
    have push: "stage_bytes (push_token tokens current) \<le> stage_bytes tokens + length current"
      by (rule stage_bytes_push_token)
    have tl: "length (concat (tl chars)) \<le> length (concat chars)"
      by (cases chars) auto
    show ?thesis
      using 2 None push tl by (auto split: if_splits)
  qed
qed

fun wf_node :: "bash_node \<Rightarrow> bool" where
  "wf_node (BashNode kind text span children) \<longleftrightarrow>
     (case text of None \<Rightarrow> True | Some t \<Rightarrow> length t \<le> span)
     \<and> sum_list (map node_span children) \<le> span
     \<and> (\<forall>child \<in> set children. wf_node child)"

definition grammar_sound :: "bash_parser \<Rightarrow> bool" where
  "grammar_sound parse \<longleftrightarrow>
     (\<forall>command has_error root. parse command = Some (has_error, root) \<longrightarrow>
        wf_node root \<and> node_span root \<le> length command)"

lemma length_normalize: "length (normalize_shell_word_text t) \<le> length t"
proof -
  have repl: "length (str_replace [a, b] [c] s) \<le> length s" for a b c s
    by (rule length_str_replace) simp
  have strip: "strip_prefix q t = Some v \<Longrightarrow> strip_suffix q v = Some w \<Longrightarrow> length w \<le> length t" for q v w
    by (auto dest!: strip_prefix_length strip_suffix_length)
  show ?thesis
    unfolding normalize_shell_word_text_def Let_def
    by (intro order_trans [OF repl])
       (auto simp: or_else_def dest: strip split: option.splits)
qed

lemma stage_bytes_fold:
  assumes "\<And>x ts. x \<in> set xs \<Longrightarrow> stage_bytes (f x ts) \<le> stage_bytes ts + w x"
  shows "stage_bytes (fold f xs ts) \<le> stage_bytes ts + sum_list (map w xs)"
  using assms
proof (induction xs arbitrary: ts)
  case (Cons x xs)
  have "stage_bytes (fold f xs (f x ts)) \<le> stage_bytes (f x ts) + sum_list (map w xs)"
    using Cons by simp
  moreover have "stage_bytes (f x ts) \<le> stage_bytes ts + w x" using Cons.prems by simp
  ultimately show ?case by simp
qed simp

lemma stage_bytes_push_nested [simp]:
  "stage_bytes (push_nested_stage_separator tokens) = stage_bytes tokens"
  by (simp add: push_nested_stage_separator_def)

lemma stage_bytes_collect:
  "wf_node node \<Longrightarrow> stage_bytes (collect_bash_tokens node tokens) \<le> stage_bytes tokens + node_span node"
  "wf_node node \<Longrightarrow> stage_bytes (collect_command_words node tokens) \<le> stage_bytes tokens + node_span node"
proof (induction node tokens and node tokens rule: collect_bash_tokens_collect_command_words.induct)
  case (1 kind t span children tokens)
  have len: "sum_list (map node_span children) \<le> span" and tl: "\<And>x. t = Some x \<Longrightarrow> length x \<le> span"
    using "1.prems" by auto
  have words: "kind = ''command'' \<Longrightarrow> stage_bytes (fold collect_command_words children [])
      \<le> stage_bytes [] + sum_list (map node_span children)"
    by (rule stage_bytes_fold) (use 1 in simp)
  have bash: "kind \<noteq> ''command'' \<Longrightarrow> children \<noteq> [] \<Longrightarrow> stage_bytes (fold collect_bash_tokens children tokens)
      \<le> stage_bytes tokens + sum_list (map node_span children)"
    by (rule stage_bytes_fold) (use 1 in simp)
  show ?case using words bash len tl by (auto split: option.splits)
next
  case (2 kind t span children tokens)
  have len: "sum_list (map node_span children) \<le> span" and tl: "\<And>x. t = Some x \<Longrightarrow> length x \<le> span"
    using "2.prems" by auto
  let ?toks = "push_nested_stage_separator tokens"
  have norm: "\<And>x. t = Some x \<Longrightarrow> length (normalize_shell_word_text x) \<le> span"
    using tl length_normalize order_trans by blast
  have words1: "\<not> is_nested_command_stage_node kind \<Longrightarrow> is_command_word_node kind \<Longrightarrow>
      node_contains_nested_command_stage (BashNode kind t span children) \<Longrightarrow>
      stage_bytes (fold collect_command_words children tokens)
      \<le> stage_bytes tokens + sum_list (map node_span children)"
    by (rule stage_bytes_fold) (use 2 in simp)
  have words2: "\<not> is_nested_command_stage_node kind \<Longrightarrow> \<not> is_command_word_node kind \<Longrightarrow>
      stage_bytes (fold collect_command_words children tokens)
      \<le> stage_bytes tokens + sum_list (map node_span children)"
    by (rule stage_bytes_fold) (use 2 in simp)
  have bash: "is_nested_command_stage_node kind \<Longrightarrow> children \<noteq> [] \<Longrightarrow>
      stage_bytes (fold collect_bash_tokens children ?toks)
      \<le> stage_bytes ?toks + sum_list (map node_span children)"
    by (rule stage_bytes_fold) (use 2 in simp)
  show ?case
  proof (cases "is_nested_command_stage_node kind")
    case True
    then show ?thesis using bash len tl by (auto simp: Let_def split: option.splits)
  next
    case False
    show ?thesis
    proof (cases "is_command_word_node kind")
      case True
      then show ?thesis using False words1 len norm
        by (auto simp del: node_contains_nested_command_stage.simps split: option.splits)
    next
      case word: False
      then show ?thesis using False words2 len by simp
    qed
  qed
qed

lemma stage_bytes_shell_tokens:
  assumes "grammar_sound parse"
  shows "stage_bytes (shell_tokens parse command) \<le> length command"
proof -
  have fb: "stage_bytes (fallback_shell_tokens command) \<le> length command"
    using stage_bytes_fallback_loop [of "rust_chars command" None "[]" "[]"]
    by (simp add: fallback_shell_tokens_def)
  have simple: "stage_bytes ts \<le> length command"
    if "fallback_shell_tokens_if_simple command = Some ts" for ts
    using that fb fallback_simple_loop_agrees
    by (metis fallback_shell_tokens_def fallback_shell_tokens_if_simple_def)
  have ast: "stage_bytes ts \<le> length command" if bash: "bash_ast_tokens parse command = Some ts" for ts
  proof -
    from bash obtain root where root: "parse command = Some (False, root)"
      and ts: "ts = collect_bash_tokens root []"
      by (auto simp: bash_ast_tokens_def Let_def split: option.splits if_splits)
    from root assms have "wf_node root" and "node_span root \<le> length command"
      unfolding grammar_sound_def by blast+
    with stage_bytes_collect(1) [of root "[]"] ts show ?thesis by simp
  qed
  show ?thesis
    using fb simple ast by (auto simp: shell_tokens_def split: option.splits)
qed

subsection \<open>Stages\<close>

lemma split_stages_loop_concat:
  "concat (split_stages_loop tokens stage stages) = concat stages @ stage @ tokens"
  by (induction tokens stage stages rule: split_stages_loop.induct) auto

definition stage_ok :: "string list \<Rightarrow> bool" where
  "stage_ok stage \<longleftrightarrow> stage \<noteq> [] \<and> (length stage = 1 \<or> \<not> list_ex is_separator stage)"

lemma split_stages_loop_ok:
  "list_all stage_ok stages \<Longrightarrow> \<not> list_ex is_separator stage \<Longrightarrow>
     list_all stage_ok (split_stages_loop tokens stage stages)"
  by (induction tokens stage stages rule: split_stages_loop.induct) (auto simp: stage_ok_def)

lemma split_stages_loop_bytes:
  assumes "s \<in> set (split_stages_loop tokens stage stages)"
    and "\<not> list_ex is_separator stage"
  shows "s \<in> set stages \<or> (length s = 1 \<and> is_separator (hd s))
           \<or> total_bytes s \<le> total_bytes stage + stage_bytes tokens"
  using assms
proof (induction tokens stage stages rule: split_stages_loop.induct)
  case (1 stage stages)
  then show ?case by (auto split: if_splits)
next
  case (2 token tokens stage stages)
  then show ?case by (cases "is_separator token") (fastforce split: if_splits)+
qed

lemma is_separator_short: "is_separator t \<Longrightarrow> command_name t = t \<and> \<not> is_env_assignment t"
  by (auto simp: is_separator_def command_name_def last_piece_def is_env_assignment_def)

text \<open>The stages that one tokenised command hands to the unwrapper.\<close>

definition stages_of :: "string list \<Rightarrow> string list list" where
  "stages_of tokens =
     (if list_ex is_separator tokens then split_command_stages tokens else [tokens])"

lemma stages_of_bytes:
  assumes "s \<in> set (stages_of tokens)"
  shows "(length s = 1 \<and> is_separator (hd s)) \<or> total_bytes s \<le> stage_bytes tokens"
proof (cases "list_ex is_separator tokens")
  case True
  with assms split_stages_loop_bytes [of s tokens "[]" "[]"]
  show ?thesis by (simp add: stages_of_def split_command_stages_def)
next
  case False
  then have "filter (\<lambda>t. \<not> is_separator t) tokens = tokens"
    by (auto simp: filter_id_conv list_ex_iff)
  with assms False show ?thesis by (simp add: stages_of_def stage_bytes_def)
qed

lemma semantic_tokens_fuel_Suc:
  "semantic_tokens_fuel parse (Suc fuel) command =
     flat_map_stages (unwrap_stage_fuel parse fuel) (stages_of (shell_tokens parse command))"
  by (auto simp: semantic_tokens_fuel.simps stages_of_def Let_def shell_bind_def split: sum.splits)

subsection \<open>One step of unwrapping\<close>

text \<open>
  What a single call of the unwrapper decides, as a value: the stage is final, it continues with a
  shorter stage, it continues with a script, or the slice is out of range.
\<close>

datatype peeled = Final "string list" | Stage "string list" | Script string | OutOfRange

definition peel_rtk :: "string list \<Rightarrow> peeled" where
  "peel_rtk tokens =
     (let command_index = rtk_command_index tokens in
      case get_at tokens command_index of
        None \<Rightarrow> Final []
      | Some command \<Rightarrow>
          if command = ''run'' then
            (case script_argument (drop (command_index + 1) tokens) of
               Some script \<Rightarrow> Script script
             | None \<Rightarrow> Stage (drop (command_index + 1) tokens))
          else if command \<in> {''proxy'', ''err'', ''summary''}
          then Stage (drop (command_index + 1) tokens)
          else Stage (drop command_index tokens))"

definition peel :: "string list \<Rightarrow> peeled" where
  "peel tokens0 =
     (let tokens = strip_env_assignments tokens0 in
      if tokens = [] then Final []
      else let name = command_name (hd tokens) in
        if name = ''env'' then
          (if length tokens \<le> env_command_index tokens then Final tokens
           else Stage (drop (env_command_index tokens) tokens))
        else if name = ''direnv'' then
          Stage (drop (min (direnv_command_index tokens) (length tokens)) tokens)
        else if name = ''rtk'' then peel_rtk tokens
        else if name = ''uv'' then
          (if uv_run_command_index tokens \<le> length tokens
           then Stage (drop (uv_run_command_index tokens) tokens) else OutOfRange)
        else if name = ''cargo'' then
          (case position (\<lambda>token. token = ''--'') tokens of
             Some index \<Rightarrow> Stage (drop (index + 1) tokens) | None \<Rightarrow> Final tokens)
        else if name \<in> {''bash'', ''sh'', ''zsh''} then
          (case script_argument tokens of Some script \<Rightarrow> Script script | None \<Rightarrow> Final tokens)
        else Final tokens)"

lemma if_memI: "a \<in> S \<Longrightarrow> b \<in> S \<Longrightarrow> (if P then a else b) \<in> S"
  by simp

lemma env_index_loop_step:
  "env_index_loop tokens index
     \<in> {index, env_index_loop tokens (index + 1), env_index_loop tokens (index + 2)}"
  by (subst env_index_loop.simps) (unfold Let_def, intro if_memI, simp_all)

lemma uv_index_loop_step:
  "uv_index_loop tokens index
     \<in> {index, uv_index_loop tokens (index + 1), uv_index_loop tokens (index + 2)}"
  by (subst uv_index_loop.simps) (unfold Let_def, intro if_memI, simp_all)

lemma scan_loop_ge:
  fixes scan :: "nat \<Rightarrow> nat"
  assumes step: "\<And>index. scan index \<in> {index, scan (index + 1), scan (index + 2)}"
    and stop: "\<And>index. n \<le> index \<Longrightarrow> scan index = index"
  shows "index \<le> scan index"
proof (induction "n - index" arbitrary: index rule: less_induct)
  case less
  show ?case
  proof (cases "n \<le> index")
    case False
    then have "index + 1 \<le> scan (index + 1)" and "index + 2 \<le> scan (index + 2)"
      by (auto intro!: less)
    with step [of index] show ?thesis by auto
  qed (simp add: stop)
qed

lemma env_index_loop_ge: "index \<le> env_index_loop tokens index"
  by (rule scan_loop_ge [where n = "length tokens", OF env_index_loop_step])
     (subst env_index_loop.simps, simp)

lemma uv_index_loop_ge: "index \<le> uv_index_loop tokens index"
  by (rule scan_loop_ge [where n = "length tokens", OF uv_index_loop_step])
     (subst uv_index_loop.simps, simp)

lemma total_bytes_strip: "total_bytes (strip_env_assignments tokens) \<le> total_bytes tokens"
  by (induction tokens) (auto simp: strip_env_assignments_def)

lemma drop_bytes_less:
  "0 < n \<Longrightarrow> tokens \<noteq> [] \<Longrightarrow> hd tokens \<noteq> [] \<Longrightarrow> total_bytes (drop n tokens) < total_bytes tokens"
  by (cases tokens) (auto simp del: total_bytes_simps intro: total_bytes_drop_less)

lemma script_argument_bytes:
  assumes "script_argument tokens = Some script"
  shows "length script < total_bytes tokens"
proof -
  from assms obtain i where i: "position is_script_flag tokens = Some i"
    and s: "Suc i < length tokens" "tokens ! Suc i = script"
    by (auto simp: script_argument_def get_at_Some split: option.splits)
  from position_Some [OF i] have flag: "length (tokens ! i) > 0"
    by (auto simp: is_script_flag_def)
  have split: "tokens = take i tokens @ tokens ! i # tokens ! Suc i # drop (Suc (Suc i)) tokens"
    using s id_take_nth_drop [of i tokens] Cons_nth_drop_Suc [of "Suc i" tokens] by simp
  have "total_bytes tokens = total_bytes (take i tokens) + length (tokens ! i) + length (tokens ! Suc i)
      + total_bytes (drop (Suc (Suc i)) tokens)"
    by (subst split) simp
  with flag s show ?thesis by simp
qed

lemma head_nonempty: "command_name (hd tokens) = c # cs \<Longrightarrow> hd tokens \<noteq> []"
  by (auto simp: command_name_def)

lemma direnv_index_pos: "0 < direnv_command_index tokens"
  by (auto simp: direnv_command_index_def split: option.splits)

lemma rtk_index_pos: "tokens \<noteq> [] \<Longrightarrow> 0 < rtk_command_index tokens"
  by (auto simp: rtk_command_index_def split: option.splits)

lemma peel_rtk_decreases:
  assumes "tokens \<noteq> []" and "hd tokens \<noteq> []"
  shows "peel_rtk tokens = Stage s \<Longrightarrow> total_bytes s < total_bytes tokens"
    and "peel_rtk tokens = Script c \<Longrightarrow> length c < total_bytes tokens"
proof -
  note less = drop_bytes_less [OF _ assms]
  show "peel_rtk tokens = Stage s \<Longrightarrow> total_bytes s < total_bytes tokens"
    using less rtk_index_pos [OF assms(1)]
    by (auto simp: peel_rtk_def Let_def split: option.splits if_splits)
  show "peel_rtk tokens = Script c \<Longrightarrow> length c < total_bytes tokens"
    using script_argument_bytes [of "drop (Suc (rtk_command_index tokens)) tokens" c]
      less [of "Suc (rtk_command_index tokens)"]
    by (auto simp: peel_rtk_def Let_def split: option.splits if_splits)
qed

lemma peel_decreases:
  shows "peel tokens = Stage s \<Longrightarrow> total_bytes s < total_bytes tokens"
    and "peel tokens = Script c \<Longrightarrow> length c < total_bytes tokens"
proof -
  let ?ts = "strip_env_assignments tokens"
  have le: "total_bytes ?ts \<le> total_bytes tokens" by (rule total_bytes_strip)
  have uvpos: "0 < uv_run_command_index ?ts" and envpos: "0 < env_command_index ?ts"
    using uv_index_loop_ge [of 2 ?ts] env_index_loop_ge [of 1 ?ts]
    by (auto simp: uv_run_command_index_def env_command_index_def)
  have less: "0 < n \<Longrightarrow> ?ts \<noteq> [] \<Longrightarrow> hd ?ts \<noteq> [] \<Longrightarrow> total_bytes (drop n ?ts) < total_bytes tokens" for n
    using drop_bytes_less [of n ?ts] le by linarith
  show "peel tokens = Stage s \<Longrightarrow> total_bytes s < total_bytes tokens"
    using less uvpos envpos direnv_index_pos [of ?ts] peel_rtk_decreases(1) [of ?ts s] le
    by (auto simp: peel_def Let_def dest: head_nonempty split: if_splits option.splits)
  show "peel tokens = Script c \<Longrightarrow> length c < total_bytes tokens"
    using script_argument_bytes [of ?ts c] peel_rtk_decreases(2) [of ?ts c] le
    by (auto simp: peel_def Let_def dest: head_nonempty split: if_splits option.splits)
qed

subsection \<open>Fuel\<close>

definition is_rtk_stage :: "string list \<Rightarrow> bool" where
  "is_rtk_stage tokens \<longleftrightarrow>
     strip_env_assignments tokens \<noteq> [] \<and> command_name (hd (strip_env_assignments tokens)) = ''rtk''"

definition resume_fuel :: "bash_parser \<Rightarrow> nat \<Rightarrow> peeled \<Rightarrow> string list shell_result" where
  "resume_fuel parse fuel p =
     (case p of
        Final r \<Rightarrow> Inr r
      | Stage s \<Rightarrow> unwrap_stage_fuel parse fuel s
      | Script c \<Rightarrow> semantic_tokens_fuel parse fuel c
      | OutOfRange \<Rightarrow> Inl Panic)"

lemma peel_rtk_stage: "is_rtk_stage tokens \<Longrightarrow> peel tokens = peel_rtk (strip_env_assignments tokens)"
  by (simp add: is_rtk_stage_def peel_def Let_def)

lemma unwrap_rtk_fuel_Suc:
  "unwrap_rtk_fuel parse (Suc fuel) tokens = resume_fuel parse fuel (peel_rtk tokens)"
  by (simp add: unwrap_rtk_fuel.simps peel_rtk_def resume_fuel_def Let_def
      split: option.splits)

lemma unwrap_stage_fuel_Suc:
  "unwrap_stage_fuel parse (Suc fuel) tokens =
     (if is_rtk_stage tokens then unwrap_rtk_fuel parse fuel (strip_env_assignments tokens)
      else resume_fuel parse fuel (peel tokens))"
proof (cases "strip_env_assignments tokens = []")
  case True
  then show ?thesis
    by (simp add: unwrap_stage_fuel.simps peel_def resume_fuel_def is_rtk_stage_def)
next
  case False
  define name where "name = command_name (hd (strip_env_assignments tokens))"
  show ?thesis
    using False
    by (simp add: unwrap_stage_fuel.simps peel_def resume_fuel_def is_rtk_stage_def Let_def
        slice_from_def shell_bind_def flip: name_def split: option.split)
qed

lemma flat_map_stages_ok:
  "\<forall>s \<in> set stages. f s \<noteq> Inl OutOfFuel \<Longrightarrow> flat_map_stages f stages \<noteq> Inl OutOfFuel"
  by (induction stages) (auto simp: shell_bind_def split: sum.splits)

lemma flat_map_stages_mono:
  "\<forall>s \<in> set stages. f s \<noteq> Inl OutOfFuel \<longrightarrow> g s = f s \<Longrightarrow>
     flat_map_stages f stages \<noteq> Inl OutOfFuel \<Longrightarrow>
     flat_map_stages g stages = flat_map_stages f stages"
proof (induction stages)
  case (Cons s stages)
  then have s: "f s \<noteq> Inl OutOfFuel" by (auto simp: shell_bind_def)
  with Cons.prems have gs: "g s = f s" by simp
  show ?case
  proof (cases "f s")
    case (Inr xs)
    with Cons.prems have "flat_map_stages f stages \<noteq> Inl OutOfFuel"
      by (auto simp: shell_bind_def split: sum.splits)
    with Cons have "flat_map_stages g stages = flat_map_stages f stages" by simp
    with gs show ?thesis by simp
  qed (simp add: gs shell_bind_def)
qed simp

lemma peel_separator: "is_separator t \<Longrightarrow> peel [t] = Final [t] \<and> \<not> is_rtk_stage [t]"
proof -
  have "list_all (\<lambda>t. peel [t] = Final [t] \<and> \<not> is_rtk_stage [t]) [''|'', '';'', ''&&'', ''||'', ''&'']"
    by code_simp
  then show "is_separator t \<Longrightarrow> peel [t] = Final [t] \<and> \<not> is_rtk_stage [t]"
    by (auto simp: is_separator_def)
qed

lemma unwrap_separator:
  assumes "length s = 1" and "is_separator (hd s)"
  shows "unwrap_stage_fuel parse (Suc fuel) s = Inr s"
proof -
  from assms obtain t where "s = [t]" and "is_separator t" by (cases s) auto
  with peel_separator [of t] show ?thesis by (simp add: unwrap_stage_fuel_Suc resume_fuel_def)
qed

lemma enough_fuel_conj:
  assumes "grammar_sound parse"
  shows "(\<forall>command. 3 * length command + 3 < fuel \<longrightarrow>
            semantic_tokens_fuel parse fuel command \<noteq> Inl OutOfFuel)
       \<and> (\<forall>tokens. 3 * total_bytes tokens + 2 < fuel \<longrightarrow>
            unwrap_stage_fuel parse fuel tokens \<noteq> Inl OutOfFuel)
       \<and> (\<forall>tokens. 3 * total_bytes tokens + 1 < fuel \<longrightarrow> tokens \<noteq> [] \<longrightarrow> hd tokens \<noteq> [] \<longrightarrow>
            unwrap_rtk_fuel parse fuel tokens \<noteq> Inl OutOfFuel)"
proof (induction fuel)
  case (Suc fuel)
  have resume: "resume_fuel parse fuel p \<noteq> Inl OutOfFuel"
    if "\<And>s. p = Stage s \<Longrightarrow> 3 * total_bytes s + 2 < fuel"
      and "\<And>c. p = Script c \<Longrightarrow> 3 * length c + 3 < fuel" for p
    using that Suc by (cases p) (auto simp: resume_fuel_def)
  have sem: "semantic_tokens_fuel parse (Suc fuel) command \<noteq> Inl OutOfFuel"
    if len: "3 * length command + 3 < Suc fuel" for command
    unfolding semantic_tokens_fuel_Suc
  proof (rule flat_map_stages_ok, intro ballI)
    fix s assume "s \<in> set (stages_of (shell_tokens parse command))"
    then consider "length s = 1" "is_separator (hd s)"
      | "total_bytes s \<le> stage_bytes (shell_tokens parse command)"
      using stages_of_bytes by blast
    then show "unwrap_stage_fuel parse fuel s \<noteq> Inl OutOfFuel"
    proof cases
      case 1
      from len obtain f where "fuel = Suc f" by (cases fuel) auto
      with unwrap_separator [OF 1, of parse f] show ?thesis by simp
    next
      case 2
      with stage_bytes_shell_tokens [OF assms, of command] len
      have "3 * total_bytes s + 2 < fuel" by linarith
      with Suc show ?thesis by blast
    qed
  qed
  have unw: "unwrap_stage_fuel parse (Suc fuel) tokens \<noteq> Inl OutOfFuel"
    if len: "3 * total_bytes tokens + 2 < Suc fuel" for tokens
  proof (cases "is_rtk_stage tokens")
    case True
    then have "strip_env_assignments tokens \<noteq> []" and "hd (strip_env_assignments tokens) \<noteq> []"
      by (auto simp: is_rtk_stage_def dest: head_nonempty)
    moreover have "3 * total_bytes (strip_env_assignments tokens) + 1 < fuel"
      using total_bytes_strip [of tokens] len by linarith
    ultimately show ?thesis using True Suc by (simp add: unwrap_stage_fuel_Suc)
  next
    case False
    have "resume_fuel parse fuel (peel tokens) \<noteq> Inl OutOfFuel"
      by (rule resume) (use peel_decreases [of tokens] len in force)+
    with False show ?thesis by (simp add: unwrap_stage_fuel_Suc)
  qed
  have rtk: "unwrap_rtk_fuel parse (Suc fuel) tokens \<noteq> Inl OutOfFuel"
    if len: "3 * total_bytes tokens + 1 < Suc fuel" and ne: "tokens \<noteq> []" "hd tokens \<noteq> []" for tokens
    unfolding unwrap_rtk_fuel_Suc
    by (rule resume) (use peel_rtk_decreases [OF ne] len in force)+
  show ?case using sem unw rtk by blast
qed simp

lemma fuel_mono_conj:
  "(\<forall>command. semantic_tokens_fuel parse fuel command \<noteq> Inl OutOfFuel \<longrightarrow>
      semantic_tokens_fuel parse (Suc fuel) command = semantic_tokens_fuel parse fuel command)
   \<and> (\<forall>tokens. unwrap_stage_fuel parse fuel tokens \<noteq> Inl OutOfFuel \<longrightarrow>
      unwrap_stage_fuel parse (Suc fuel) tokens = unwrap_stage_fuel parse fuel tokens)
   \<and> (\<forall>tokens. unwrap_rtk_fuel parse fuel tokens \<noteq> Inl OutOfFuel \<longrightarrow>
      unwrap_rtk_fuel parse (Suc fuel) tokens = unwrap_rtk_fuel parse fuel tokens)"
proof (induction fuel)
  case 0
  show ?case
    by (simp add: semantic_tokens_fuel.simps(1) unwrap_stage_fuel.simps(1) unwrap_rtk_fuel.simps(1))
next
  case (Suc fuel)
  have resume: "resume_fuel parse fuel p \<noteq> Inl OutOfFuel \<Longrightarrow>
      resume_fuel parse (Suc fuel) p = resume_fuel parse fuel p" for p
    using Suc by (cases p) (simp_all add: resume_fuel_def)
  have sem: "semantic_tokens_fuel parse (Suc fuel) command \<noteq> Inl OutOfFuel \<Longrightarrow>
      semantic_tokens_fuel parse (Suc (Suc fuel)) command = semantic_tokens_fuel parse (Suc fuel) command"
    for command
    using Suc by (simp only: semantic_tokens_fuel_Suc) (rule flat_map_stages_mono; simp)
  show ?case
    using Suc resume sem
    by (simp add: unwrap_stage_fuel_Suc [of parse fuel] unwrap_stage_fuel_Suc [of parse "Suc fuel"]
        unwrap_rtk_fuel_Suc [of parse fuel] unwrap_rtk_fuel_Suc [of parse "Suc fuel"])
qed

lemma fuel_mono:
  assumes "fuel \<le> fuel'"
  shows "semantic_tokens_fuel parse fuel command \<noteq> Inl OutOfFuel \<Longrightarrow>
           semantic_tokens_fuel parse fuel' command = semantic_tokens_fuel parse fuel command"
    and "unwrap_stage_fuel parse fuel tokens \<noteq> Inl OutOfFuel \<Longrightarrow>
           unwrap_stage_fuel parse fuel' tokens = unwrap_stage_fuel parse fuel tokens"
    and "unwrap_rtk_fuel parse fuel tokens \<noteq> Inl OutOfFuel \<Longrightarrow>
           unwrap_rtk_fuel parse fuel' tokens = unwrap_rtk_fuel parse fuel tokens"
  using assms
  by (induction rule: dec_induct) (use fuel_mono_conj in force)+

subsection \<open>The recursion of the source, without fuel\<close>

definition resume :: "bash_parser \<Rightarrow> peeled \<Rightarrow> string list shell_result" where
  "resume parse p =
     (case p of
        Final r \<Rightarrow> Inr r
      | Stage s \<Rightarrow> unwrap_command_stage parse s
      | Script c \<Rightarrow> semantic_shell_tokens parse c
      | OutOfRange \<Rightarrow> Inl Panic)"

lemma semantic_stable:
  assumes "grammar_sound parse" and "3 * length command + 3 < fuel"
  shows "semantic_tokens_fuel parse fuel command = semantic_shell_tokens parse command"
    and "semantic_shell_tokens parse command \<noteq> Inl OutOfFuel"
proof -
  have ok: "semantic_tokens_fuel parse (enough_fuel command) command \<noteq> Inl OutOfFuel"
    using enough_fuel_conj [OF assms(1), of "enough_fuel command"] by (simp add: enough_fuel_def)
  moreover have "enough_fuel command \<le> fuel" using assms(2) by (simp add: enough_fuel_def)
  ultimately show "semantic_tokens_fuel parse fuel command = semantic_shell_tokens parse command"
    and "semantic_shell_tokens parse command \<noteq> Inl OutOfFuel"
    unfolding semantic_shell_tokens_def using fuel_mono(1) by blast+
qed

lemma unwrap_stable:
  assumes "grammar_sound parse" and "3 * total_bytes tokens + 2 < fuel"
  shows "unwrap_stage_fuel parse fuel tokens = unwrap_command_stage parse tokens"
    and "unwrap_command_stage parse tokens \<noteq> Inl OutOfFuel"
proof -
  have ok: "unwrap_stage_fuel parse (3 * total_bytes tokens + 3) tokens \<noteq> Inl OutOfFuel"
    using enough_fuel_conj [OF assms(1), of "3 * total_bytes tokens + 3"] by simp
  moreover have "3 * total_bytes tokens + 3 \<le> fuel" using assms(2) by simp
  ultimately show "unwrap_stage_fuel parse fuel tokens = unwrap_command_stage parse tokens"
    and "unwrap_command_stage parse tokens \<noteq> Inl OutOfFuel"
    unfolding unwrap_command_stage_def using fuel_mono(2) by blast+
qed

lemma resume_stable:
  assumes "grammar_sound parse"
    and "\<And>s. p = Stage s \<Longrightarrow> 3 * total_bytes s + 2 < fuel"
    and "\<And>c. p = Script c \<Longrightarrow> 3 * length c + 3 < fuel"
  shows "resume_fuel parse fuel p = resume parse p"
  using assms semantic_stable unwrap_stable
  by (cases p) (auto simp: resume_fuel_def resume_def)

lemma unwrap_unfold:
  assumes sound: "grammar_sound parse"
  shows "unwrap_command_stage parse tokens = resume parse (peel tokens)"
proof -
  let ?n = "3 * total_bytes tokens + 3"
  have "unwrap_command_stage parse tokens = unwrap_stage_fuel parse (Suc ?n) tokens"
    by (rule unwrap_stable(1) [OF sound, symmetric]) simp
  also have "\<dots> = resume parse (peel tokens)"
  proof (cases "is_rtk_stage tokens")
    case True
    let ?ts = "strip_env_assignments tokens"
    have ne: "?ts \<noteq> []" "hd ?ts \<noteq> []"
      using True by (auto simp: is_rtk_stage_def dest: head_nonempty)
    have le: "total_bytes ?ts \<le> total_bytes tokens" by (rule total_bytes_strip)
    have "unwrap_stage_fuel parse (Suc ?n) tokens = resume_fuel parse (3 * total_bytes tokens + 2) (peel tokens)"
      using True by (simp add: unwrap_stage_fuel_Suc peel_rtk_stage numeral_3_eq_3 unwrap_rtk_fuel_Suc)
    also have "\<dots> = resume parse (peel tokens)"
      by (rule resume_stable [OF sound])
         (use True peel_rtk_decreases [OF ne] le in \<open>force simp: peel_rtk_stage\<close>)+
    finally show ?thesis .
  next
    case False
    have "resume_fuel parse ?n (peel tokens) = resume parse (peel tokens)"
      by (rule resume_stable [OF sound]) (use peel_decreases [of tokens] in force)+
    with False show ?thesis by (simp only: unwrap_stage_fuel_Suc if_False)
  qed
  finally show ?thesis .
qed

lemma flat_map_stages_cong:
  "(\<And>s. s \<in> set stages \<Longrightarrow> f s = g s) \<Longrightarrow> flat_map_stages f stages = flat_map_stages g stages"
  by (induction stages) auto

lemma semantic_unfold:
  assumes sound: "grammar_sound parse"
  shows "semantic_shell_tokens parse command =
     flat_map_stages (unwrap_command_stage parse) (stages_of (shell_tokens parse command))"
proof -
  have "semantic_shell_tokens parse command =
      flat_map_stages (unwrap_stage_fuel parse (3 * length command + 3))
        (stages_of (shell_tokens parse command))"
    by (simp add: semantic_shell_tokens_def enough_fuel_def semantic_tokens_fuel_Suc
        numeral_eq_Suc)
  also have "\<dots> = flat_map_stages (unwrap_command_stage parse) (stages_of (shell_tokens parse command))"
  proof (rule flat_map_stages_cong)
    fix s assume "s \<in> set (stages_of (shell_tokens parse command))"
    then consider "length s = 1" "is_separator (hd s)"
      | "total_bytes s \<le> stage_bytes (shell_tokens parse command)"
      using stages_of_bytes by blast
    then show "unwrap_stage_fuel parse (3 * length command + 3) s = unwrap_command_stage parse s"
    proof cases
      case 1
      from unwrap_separator [OF this] show ?thesis
        by (simp add: unwrap_command_stage_def numeral_3_eq_3)
    next
      case 2
      with stage_bytes_shell_tokens [OF sound, of command]
      have "3 * total_bytes s + 2 < 3 * length command + 3" by linarith
      then show ?thesis by (rule unwrap_stable(1) [OF sound])
    qed
  qed
  finally show ?thesis .
qed

subsection \<open>Reachable stages and the panic\<close>

inductive stage_reaches :: "bash_parser \<Rightarrow> string list \<Rightarrow> string list \<Rightarrow> bool" for parse where
  here: "stage_reaches parse s s"
| stage: "peel s = Stage s' \<Longrightarrow> stage_reaches parse s' t \<Longrightarrow> stage_reaches parse s t"
| script: "peel s = Script c \<Longrightarrow> s' \<in> set (stages_of (shell_tokens parse c)) \<Longrightarrow>
     stage_reaches parse s' t \<Longrightarrow> stage_reaches parse s t"

inductive_cases stage_reachesE: "stage_reaches parse s t"

lemma peel_OutOfRange:
  "peel tokens = OutOfRange \<longleftrightarrow>
     (let ts = strip_env_assignments tokens
      in ts \<noteq> [] \<and> command_name (hd ts) = ''uv'' \<and> length ts < uv_run_command_index ts)"
  by (auto simp: peel_def peel_rtk_def Let_def split: option.splits if_splits)

lemma flat_map_stages_panic:
  assumes "\<And>s. s \<in> set stages \<Longrightarrow> f s \<noteq> Inl OutOfFuel"
  shows "flat_map_stages f stages = Inl Panic \<longleftrightarrow> (\<exists>s \<in> set stages. f s = Inl Panic)"
  using assms
proof (induction stages)
  case (Cons s stages)
  then have IH: "flat_map_stages f stages = Inl Panic \<longleftrightarrow> (\<exists>s \<in> set stages. f s = Inl Panic)"
    by simp
  have ok: "flat_map_stages f stages \<noteq> Inl OutOfFuel"
    by (rule flat_map_stages_ok) (use Cons.prems in simp)
  show ?case
  proof (cases "f s")
    case (Inl e)
    with Cons.prems have "e = Panic" by (cases e) auto
    with Inl show ?thesis by (simp add: shell_bind_def)
  next
    case (Inr xs)
    then show ?thesis using IH ok by (auto simp: shell_bind_def split: sum.splits)
  qed
qed simp

lemma semantic_panic_step:
  assumes "grammar_sound parse"
  shows "semantic_shell_tokens parse command = Inl Panic \<longleftrightarrow>
     (\<exists>s \<in> set (stages_of (shell_tokens parse command)). unwrap_command_stage parse s = Inl Panic)"
  unfolding semantic_unfold [OF assms]
  by (rule flat_map_stages_panic) (rule unwrap_stable(2) [OF assms lessI])

lemma unwrap_panic_reaches:
  assumes sound: "grammar_sound parse"
  shows "unwrap_command_stage parse s = Inl Panic \<Longrightarrow> \<exists>t. stage_reaches parse s t \<and> peel t = OutOfRange"
proof (induction "total_bytes s" arbitrary: s rule: less_induct)
  case less
  show ?case
  proof (cases "peel s")
    case (Stage s')
    with less.prems have "unwrap_command_stage parse s' = Inl Panic"
      by (simp add: unwrap_unfold [OF sound, of s] resume_def)
    with less.hyps Stage peel_decreases(1) show ?thesis by (blast intro: stage_reaches.stage)
  next
    case (Script c)
    with less.prems have "semantic_shell_tokens parse c = Inl Panic"
      by (simp add: unwrap_unfold [OF sound, of s] resume_def)
    then obtain s' where s': "s' \<in> set (stages_of (shell_tokens parse c))"
      and p: "unwrap_command_stage parse s' = Inl Panic"
      using semantic_panic_step [OF sound] by blast
    have "\<not> (length s' = 1 \<and> is_separator (hd s'))"
      using p unwrap_separator [of s' parse] by (auto simp: unwrap_command_stage_def numeral_3_eq_3)
    with stages_of_bytes [OF s'] stage_bytes_shell_tokens [OF sound, of c]
    have "total_bytes s' \<le> length c" by linarith
    with peel_decreases(2) [OF Script] have "total_bytes s' < total_bytes s" by linarith
    with less.hyps p s' Script show ?thesis by (blast intro: stage_reaches.script)
  next
    case OutOfRange
    then show ?thesis by (blast intro: stage_reaches.here)
  next
    case (Final r)
    with less.prems show ?thesis by (simp add: unwrap_unfold [OF sound, of s] resume_def)
  qed
qed

lemma reaches_unwrap_panic:
  assumes sound: "grammar_sound parse"
  shows "stage_reaches parse s t \<Longrightarrow> peel t = OutOfRange \<Longrightarrow> unwrap_command_stage parse s = Inl Panic"
proof (induction rule: stage_reaches.induct)
  case (script s c s' t)
  then have "semantic_shell_tokens parse c = Inl Panic"
    using semantic_panic_step [OF sound] by blast
  with script show ?case by (simp add: unwrap_unfold [OF sound, of s] resume_def)
qed (simp_all add: unwrap_unfold [OF sound] resume_def)

subsection \<open>Wrappers do not hide a command\<close>

definition plain_word :: "string \<Rightarrow> bool" where
  "plain_word w \<longleftrightarrow> \<not> starts_with w ''-'' \<and> \<not> is_env_assignment w
     \<and> w \<notin> {''run'', ''proxy'', ''err'', ''summary''}"

lemma env_assignment_not_flag: "is_env_assignment v \<Longrightarrow> \<not> starts_with v ''-''"
  by (cases v) (auto simp: is_env_assignment_def split: option.splits if_splits)

lemma flag_starts_with_dash:
  assumes "\<not> starts_with v ''-''"
  shows "v \<notin> {''-i'', ''--ignore-environment''} \<and> v \<notin> {''-u'', ''--unset'', ''-C'', ''--chdir''}
    \<and> \<not> starts_with v ''-u'' \<and> \<not> starts_with v ''--unset=''
    \<and> \<not> starts_with v ''-C'' \<and> \<not> starts_with v ''--chdir=''"
  using assms by (cases v) auto

lemma env_index_loop_assignments:
  assumes "list_all is_env_assignment assigns" and "plain_word w"
  shows "env_index_loop (pre @ assigns @ w # rest) (length pre) = length pre + length assigns"
  using assms(1)
proof (induction assigns arbitrary: pre)
  case Nil
  show ?case
    using assms(2) flag_starts_with_dash [of w]
    by (subst env_index_loop.simps) (simp add: plain_word_def Let_def)
next
  case (Cons a assigns)
  then have a: "is_env_assignment a" by simp
  from Cons.IH [of "pre @ [a]"] Cons.prems
  have IH: "env_index_loop (pre @ a # assigns @ w # rest) (Suc (length pre)) = Suc (length pre + length assigns)"
    by simp
  show ?case
    using a flag_starts_with_dash [OF env_assignment_not_flag [OF a]] IH
    by (subst env_index_loop.simps) (simp add: Let_def)
qed

lemma peel_env:
  assumes "list_all is_env_assignment assigns" and "plain_word w"
  shows "peel (''env'' # assigns @ w # rest) = Stage (w # rest)"
proof -
  have strip: "strip_env_assignments (''env'' # assigns @ w # rest) = ''env'' # assigns @ w # rest"
    by (simp add: strip_env_assignments_def is_env_assignment_def)
  have "env_command_index (''env'' # assigns @ w # rest) = 1 + length assigns"
    using env_index_loop_assignments [OF assms, of "[''env'']" rest]
    by (simp add: env_command_index_def)
  moreover have "command_name ''env'' = ''env''" by code_simp
  ultimately show ?thesis by (simp add: peel_def strip Let_def)
qed

lemma peel_direnv: "peel (''direnv'' # ''exec'' # ''.'' # rest) = Stage rest"
proof -
  have "command_name ''direnv'' = ''direnv''" by code_simp
  then show ?thesis
    by (simp add: peel_def strip_env_assignments_def is_env_assignment_def direnv_command_index_def
        get_at_def Let_def)
qed

lemma peel_rtk_proxy:
  assumes "plain_word w"
  shows "peel (''rtk'' # w # rest) = Stage (w # rest)"
    and "peel (''rtk'' # ''proxy'' # w # rest) = Stage (w # rest)"
proof -
  have rtk: "command_name ''rtk'' = ''rtk''" by code_simp
  show "peel (''rtk'' # w # rest) = Stage (w # rest)"
    and "peel (''rtk'' # ''proxy'' # w # rest) = Stage (w # rest)"
    using assms
    by (simp_all add: peel_def strip_env_assignments_def is_env_assignment_def rtk peel_rtk_def
        rtk_command_index_def get_at_def plain_word_def Let_def)
qed

subsection \<open>Properties\<close>

text \<open>On every command that the tokenizer accepts without the bash grammar, its fast path
  returns exactly the tokens of the general quote-aware fallback.\<close>

theorem shell_fast_path_agrees:
  "fallback_shell_tokens_if_simple command = Some tokens \<Longrightarrow> fallback_shell_tokens command = tokens"
  unfolding fallback_shell_tokens_if_simple_def fallback_shell_tokens_def
  by (rule fallback_simple_loop_agrees)

theorem shell_fast_path_agrees_witness:
  "fallback_shell_tokens ''cat \"a b\" && ls|wc'' =
     [''cat'', ''a b'', ''&&'', ''ls'', ''|'', ''wc'']"
  by (rule shell_fast_path_agrees) code_simp

text \<open>The fuelled model is the recursion of the source.  With a grammar whose nodes keep within
  their extents, tokenising a command is tokenising its stages, and unwrapping a stage is one
  peeling step followed by the recursive call the source makes on the rest, the script or nothing.\<close>

theorem shell_refines_source_recursion:
  assumes "grammar_sound parse"
  shows "semantic_shell_tokens parse command =
      flat_map_stages (unwrap_command_stage parse) (stages_of (shell_tokens parse command))
    \<and> unwrap_command_stage parse tokens =
        (case peel tokens of
           Final r \<Rightarrow> Inr r
         | Stage s \<Rightarrow> unwrap_command_stage parse s
         | Script c \<Rightarrow> semantic_shell_tokens parse c
         | OutOfRange \<Rightarrow> Inl Panic)"
  using semantic_unfold [OF assms] unwrap_unfold [OF assms] by (simp add: resume_def)

text \<open>A grammar that reads a command as one \<open>program\<close> of one \<open>command\<close> of one word.\<close>

definition one_word_grammar :: bash_parser where
  "one_word_grammar command =
     Some (False, BashNode ''program'' (Some command) (length command)
       [BashNode ''command'' (Some command) (length command)
         [BashNode ''word'' (Some command) (length command) []]])"

lemma one_word_grammar_sound: "grammar_sound one_word_grammar"
  by (simp add: grammar_sound_def one_word_grammar_def)

theorem shell_refines_source_recursion_witness:
  "unwrap_command_stage one_word_grammar [''env'', ''A=1'', ''rg'', ''x''] = Inr [''rg'', ''x'']"
proof -
  have "peel [''env'', ''A=1'', ''rg'', ''x''] = Stage [''rg'', ''x'']"
    and "unwrap_command_stage one_word_grammar [''rg'', ''x''] = Inr [''rg'', ''x'']"
    by code_simp+
  then show ?thesis
    using shell_refines_source_recursion [OF one_word_grammar_sound, THEN conjunct2,
      of "[''env'', ''A=1'', ''rg'', ''x'']"] by simp
qed

text \<open>C2: Tokenising terminates: no command exhausts the fuel, whatever wrappers and scripts it
  nests, and any larger amount of fuel gives the same tokens.\<close>

theorem shell_tokens_terminate:
  assumes "grammar_sound parse" and "enough_fuel command \<le> fuel"
  shows "semantic_tokens_fuel parse fuel command = semantic_shell_tokens parse command
    \<and> semantic_shell_tokens parse command \<noteq> Inl OutOfFuel"
  using semantic_stable [OF assms(1), of command fuel] assms(2) by (simp add: enough_fuel_def)

theorem shell_tokens_terminate_witness:
  "semantic_tokens_fuel one_word_grammar 100 ''bash -c ls'' =
     semantic_shell_tokens one_word_grammar ''bash -c ls''
   \<and> semantic_shell_tokens one_word_grammar ''bash -c ls'' \<noteq> Inl OutOfFuel"
  by (rule shell_tokens_terminate [OF one_word_grammar_sound]) (simp add: enough_fuel_def)

text \<open>C1: The only way to crash the tokenizer is a \<open>uv\<close> stage that is cut off: it panics
  exactly when some stage of the command, or some stage that peeling its wrappers and scripts
  reaches, is a \<open>uv\<close> command whose options end after the last word.\<close>

theorem shell_panics_iff_truncated_uv:
  assumes "grammar_sound parse"
  shows "semantic_shell_tokens parse command = Inl Panic \<longleftrightarrow>
    (\<exists>s \<in> set (stages_of (shell_tokens parse command)). \<exists>t. stage_reaches parse s t
       \<and> (let ts = strip_env_assignments t
          in ts \<noteq> [] \<and> command_name (hd ts) = ''uv'' \<and> length ts < uv_run_command_index ts))"
  unfolding semantic_panic_step [OF assms] peel_OutOfRange [symmetric]
  using unwrap_panic_reaches [OF assms] reaches_unwrap_panic [OF assms] by blast

theorem shell_panics_iff_truncated_uv_witness:
  "semantic_shell_tokens one_word_grammar ''ls; uv'' = Inl Panic"
proof -
  have "stages_of (shell_tokens one_word_grammar ''ls; uv'') = [[''ls''], ['';''], [''uv'']]"
    by code_simp
  moreover have "strip_env_assignments [''uv''] = [''uv'']" "command_name ''uv'' = ''uv''"
    "uv_run_command_index [''uv''] = 2"
    by code_simp+
  ultimately show ?thesis
    unfolding shell_panics_iff_truncated_uv [OF one_word_grammar_sound]
    by (auto intro!: exI [of _ "[''uv'']"] stage_reaches.here)
qed

text \<open>The wrappers \<open>env\<close> (with any assignments), \<open>direnv exec .\<close>, \<open>rtk\<close> and
  \<open>rtk proxy\<close> are transparent: the hook sees the same words as for the bare command.\<close>

theorem shell_wrappers_transparent:
  assumes "grammar_sound parse" and "plain_word w" and "list_all is_env_assignment assigns"
  shows "unwrap_command_stage parse (''env'' # assigns @ w # rest) = unwrap_command_stage parse (w # rest)
    \<and> unwrap_command_stage parse (''direnv'' # ''exec'' # ''.'' # w # rest) =
        unwrap_command_stage parse (w # rest)
    \<and> unwrap_command_stage parse (''rtk'' # w # rest) = unwrap_command_stage parse (w # rest)
    \<and> unwrap_command_stage parse (''rtk'' # ''proxy'' # w # rest) =
        unwrap_command_stage parse (w # rest)"
  using peel_env [OF assms(3,2), of rest] peel_direnv [of "w # rest"] peel_rtk_proxy [OF assms(2), of rest]
  by (simp add: unwrap_unfold [OF assms(1), of "_ # _"] resume_def)

theorem shell_wrappers_transparent_witness:
  "unwrap_command_stage one_word_grammar (''env'' # [''A=1''] @ ''cat'' # [''x.rs'']) =
     unwrap_command_stage one_word_grammar (''cat'' # [''x.rs''])"
  by (rule shell_wrappers_transparent [OF one_word_grammar_sound, THEN conjunct1]) code_simp+

end
