(* ===== verification/Provider.thy ===== *)
theory Provider
  imports Prelude
begin

section \<open>Providers, activation and semantic routes\<close>

text \<open>
  Models the protocol data of \<open>crates/agent-semantic-hook/src/protocol.rs\<close> (policies, command
  templates, routes, selector normalisation) and \<open>protocol_activation.rs\<close> (activation, manifests,
  the resolved runtime and how a provider claims a selector).  Structs are records whose fields carry
  a short prefix, since several structs share field names.  Two pieces are third-party and stay
  parameters: \<open>globset\<close> compilation (\<open>glob_compiler\<close>, a pattern to a matcher or to nothing when the
  pattern is rejected) and the SHA-256 digest of a serialised manifest.
\<close>

subsection \<open>Protocol data\<close>

datatype action_policy = PolicyBlock | PolicyAllow | PolicyAdvisory

record hook_policy =
  direct_source_read :: action_policy
  bulk_source_dump :: action_policy
  raw_source_search :: action_policy
  agent_search_json :: action_policy

definition action_blocks :: "action_policy \<Rightarrow> bool" where
  "action_blocks action =
     (case action of PolicyBlock \<Rightarrow> True | PolicyAllow \<Rightarrow> False | PolicyAdvisory \<Rightarrow> False)"

definition default_hook_policy :: hook_policy where
  "default_hook_policy =
     \<lparr>direct_source_read = PolicyBlock, bulk_source_dump = PolicyBlock,
      raw_source_search = PolicyBlock, agent_search_json = PolicyBlock\<rparr>"

definition blocks_direct_source_read :: "hook_policy \<Rightarrow> bool" where
  "blocks_direct_source_read p = action_blocks (direct_source_read p)"

definition blocks_bulk_source_dump :: "hook_policy \<Rightarrow> bool" where
  "blocks_bulk_source_dump p = action_blocks (bulk_source_dump p)"

definition blocks_raw_source_search :: "hook_policy \<Rightarrow> bool" where
  "blocks_raw_source_search p = action_blocks (raw_source_search p)"

definition blocks_agent_search_json :: "hook_policy \<Rightarrow> bool" where
  "blocks_agent_search_json p = action_blocks (agent_search_json p)"

datatype stdin_mode = StdinNone | PipeCandidates | PipeDiff | StdinUnknown

record command_template =
  t_argv :: "string list"
  t_stdin_mode :: "stdin_mode option"

record hook_routes =
  prime_route :: command_template
  owner_route :: command_template
  lexical_route :: command_template
  query_route :: "command_template option"
  ingest_route :: command_template
  check_changed_route :: command_template
  dependency_topology_route :: "command_template option"
  dependency_topology_metadata_route :: "command_template option"
  export_index_route :: "command_template option"
  guide_route :: "command_template option"

datatype decision_route_kind =
  RoutePrime | RouteOwner | RouteQuery | RouteLexical | RouteRead | RouteDeps | RouteApi
  | RouteIngest | RouteTests | RouteCheckChanged

record decision_route =
  r_language_id :: string
  r_provider_id :: string
  r_binary :: string
  r_kind :: decision_route_kind
  r_argv :: "string list"
  r_stdin_mode :: "stdin_mode option"

datatype provider_execution = ExternalProcess | Embedded

record provider_search_capabilities =
  owner_items :: bool
  semantic_facts :: bool
  dependency_topology :: bool
  dependency_topology_metadata :: bool

record activated_provider =
  p_manifest_id :: string
  p_manifest_digest :: string
  p_language_id :: string
  p_provider_id :: string
  p_binary :: string
  p_execution :: provider_execution
  p_provider_command_prefix :: "string list"
  p_namespace :: string
  p_package_roots :: "string list"
  p_source_extensions :: "string list"
  p_config_files :: "string list"
  p_source_roots :: "string list"
  p_ignored_path_prefixes :: "string list"
  p_search_capabilities :: provider_search_capabilities
  p_policy :: hook_policy
  p_routes :: hook_routes

record hook_runtime =
  project_root :: string
  providers :: "activated_provider list"

subsection \<open>Selector normalisation\<close>

definition is_decimal_locator :: "string \<Rightarrow> bool" where
  "is_decimal_locator value \<longleftrightarrow> value \<noteq> [] \<and> list_all is_ascii_digit value"

definition is_line_range_locator :: "string \<Rightarrow> bool" where
  "is_line_range_locator value =
     (case split_once ''-'' value of
        Some (start, stop) \<Rightarrow> is_decimal_locator start \<and> is_decimal_locator stop
      | None \<Rightarrow> is_decimal_locator value)"

text \<open>The en dash U+2013 in UTF-8.\<close>

definition en_dash :: string where
  "en_dash = [CHR 0xE2, CHR 0x80, CHR 0x93]"

definition is_display_line_range_locator :: "string \<Rightarrow> bool" where
  "is_display_line_range_locator locator =
     (case split_once en_dash locator of
        Some (start, stop) \<Rightarrow> is_decimal_locator start \<and> is_decimal_locator stop
      | None \<Rightarrow> False)"

definition strip_line_locator :: "string \<Rightarrow> string" where
  "strip_line_locator selector =
     (case rsplit_once '':'' selector of
        None \<Rightarrow> selector
      | Some (path, locator) \<Rightarrow> if is_line_range_locator locator then path else selector)"

definition strip_display_rank_prefix :: "string \<Rightarrow> string" where
  "strip_display_rank_prefix selector =
     (case split_once '':'' selector of
        None \<Rightarrow> selector
      | Some (rank, path) \<Rightarrow>
          if rank = [] \<or> path = [] \<or> \<not> list_all is_ascii_digit rank then selector else path)"

definition strip_display_line_locator :: "string \<Rightarrow> string" where
  "strip_display_line_locator selector =
     (case rsplit_once '':'' selector of
        None \<Rightarrow> selector
      | Some (path, locator) \<Rightarrow> if is_display_line_range_locator locator then path else selector)"

definition normalize_source_route_selector :: "string \<Rightarrow> string" where
  "normalize_source_route_selector selector =
     strip_display_line_locator (strip_display_rank_prefix (trim_start_str ''./'' selector))"

definition normalize_source_selector :: "string \<Rightarrow> string" where
  "normalize_source_selector selector =
     strip_line_locator (normalize_source_route_selector selector)"

definition normalize_route_path :: "string \<Rightarrow> string" where
  "normalize_route_path path = trim_start_str ''./'' (str_replace [CHR 0x5C] ''/'' path)"

definition selector_has_glob :: "string \<Rightarrow> bool" where
  "selector_has_glob path \<longleftrightarrow> list_ex (\<lambda>c. c \<in> set ''*?[]{}'') path"

subsection \<open>Matching a selector against a provider\<close>

type_synonym glob_compiler = "string \<Rightarrow> (string \<Rightarrow> bool) option"

record source_selector_matcher =
  m_normalized :: string
  m_has_glob :: bool
  m_extension_glob :: "(string \<Rightarrow> bool) option"

definition basename_pattern :: "string \<Rightarrow> string" where
  "basename_pattern selector =
     last_piece (\<lambda>c. c = CHR ''/'') (trim_end_chars (\<lambda>c. c = CHR ''/'') selector)"

text \<open>The fold over \<open>char_indices\<close>: bracket depth, brace depth, last dot outside both.\<close>

fun last_literal_dot :: "nat \<Rightarrow> nat \<Rightarrow> nat \<Rightarrow> nat option \<Rightarrow> string \<Rightarrow> nat option" where
  "last_literal_dot index bracket brace dot [] = dot"
| "last_literal_dot index bracket brace dot (c # cs) =
     (if c = CHR ''['' then last_literal_dot (index + 1) (bracket + 1) brace dot cs
      else if c = CHR '']'' \<and> 0 < bracket
      then last_literal_dot (index + 1) (bracket - 1) brace dot cs
      else if c = CHR ''{'' \<and> bracket = 0
      then last_literal_dot (index + 1) bracket (brace + 1) dot cs
      else if c = CHR ''}'' \<and> bracket = 0 \<and> 0 < brace
      then last_literal_dot (index + 1) bracket (brace - 1) dot cs
      else if c = CHR ''.'' \<and> bracket = 0 \<and> brace = 0
      then last_literal_dot (index + 1) bracket brace (Some index) cs
      else last_literal_dot (index + 1) bracket brace dot cs)"

definition basename_extension_pattern :: "string \<Rightarrow> string option" where
  "basename_extension_pattern basename =
     (case last_literal_dot 0 0 0 None basename of
        None \<Rightarrow> None
      | Some dot \<Rightarrow> if dot + 1 < length basename then Some (drop (dot + 1) basename) else None)"

definition source_selector_matcher_new :: "glob_compiler \<Rightarrow> string \<Rightarrow> source_selector_matcher" where
  "source_selector_matcher_new glob selector =
     (let normalized = normalize_source_selector selector;
          basename = to_ascii_lowercase (basename_pattern normalized)
      in \<lparr>m_normalized = normalized, m_has_glob = selector_has_glob normalized,
          m_extension_glob =
            (case basename_extension_pattern basename of None \<Rightarrow> None | Some pattern \<Rightarrow> glob pattern)\<rparr>)"

definition is_ignored_by :: "source_selector_matcher \<Rightarrow> string \<Rightarrow> bool" where
  "is_ignored_by m prefix0 \<longleftrightarrow>
     m_normalized m = prefix0 \<or> starts_with (m_normalized m) (prefix0 @ ''/'')"

definition targets_extension :: "source_selector_matcher \<Rightarrow> string \<Rightarrow> bool" where
  "targets_extension m extension =
     (case m_extension_glob m of
        None \<Rightarrow> False
      | Some is_match \<Rightarrow>
          is_match (to_ascii_lowercase (trim_start_chars (\<lambda>c. c = CHR ''.'') extension)))"

datatype source_selector_kind = ExactPath | Pattern

definition selector_kind_of :: "source_selector_matcher \<Rightarrow> source_selector_kind" where
  "selector_kind_of m = (if m_has_glob m then Pattern else ExactPath)"

definition glob_matches_source_selector :: "activated_provider \<Rightarrow> source_selector_matcher \<Rightarrow> bool" where
  "glob_matches_source_selector p m \<longleftrightarrow> list_ex (targets_extension m) (p_source_extensions p)"

definition match_source_selector_with ::
  "activated_provider \<Rightarrow> source_selector_matcher \<Rightarrow> source_selector_kind option" where
  "match_source_selector_with p m =
     (if list_ex (is_ignored_by m) (p_ignored_path_prefixes p) then None
      else if glob_matches_source_selector p m then Some (selector_kind_of m)
      else if list_ex (\<lambda>config. ends_with (m_normalized m) config) (p_config_files p)
      then Some ExactPath
      else None)"

definition match_source_selector ::
  "glob_compiler \<Rightarrow> activated_provider \<Rightarrow> string \<Rightarrow> source_selector_kind option" where
  "match_source_selector glob p selector =
     match_source_selector_with p (source_selector_matcher_new glob selector)"

definition source_root_matches_search_token :: "activated_provider \<Rightarrow> string \<Rightarrow> bool" where
  "source_root_matches_search_token p normalized \<longleftrightarrow>
     list_ex (\<lambda>root0.
       let root = trim_end_chars (\<lambda>c. c = CHR ''/'') (normalize_route_path root0)
       in root \<noteq> [] \<and> (normalized = root \<or> starts_with normalized (root @ ''/'')))
       (p_source_roots p)"

definition package_root_matches_search_token ::
  "activated_provider \<Rightarrow> string \<Rightarrow> string \<Rightarrow> bool" where
  "package_root_matches_search_token p package_root0 normalized =
     (let package_root = trim_end_chars (\<lambda>c. c = CHR ''/'') (normalize_route_path package_root0)
      in if package_root = [] \<or> package_root = ''.'' then False
         else if normalized = package_root then True
         else (case strip_prefix (package_root @ ''/'') normalized of
                 None \<Rightarrow> False
               | Some relative \<Rightarrow> source_root_matches_search_token p relative))"

definition package_roots_match_search_token :: "activated_provider \<Rightarrow> string \<Rightarrow> bool" where
  "package_roots_match_search_token p normalized \<longleftrightarrow>
     list_ex (\<lambda>root. package_root_matches_search_token p root normalized) (p_package_roots p)"

definition matches_source_directory_token :: "activated_provider \<Rightarrow> string \<Rightarrow> bool" where
  "matches_source_directory_token p normalized \<longleftrightarrow>
     source_root_matches_search_token p normalized \<or> package_roots_match_search_token p normalized"

definition matches_search_token :: "glob_compiler \<Rightarrow> activated_provider \<Rightarrow> string \<Rightarrow> bool" where
  "matches_search_token glob p token =
     (let normalized = normalize_route_path token
      in match_source_selector glob p normalized \<noteq> None
         \<or> matches_source_directory_token p normalized)"

definition providers_for_selector ::
  "glob_compiler \<Rightarrow> hook_runtime \<Rightarrow> string \<Rightarrow> (activated_provider \<times> source_selector_kind) list" where
  "providers_for_selector glob rt selector =
     (let matcher = source_selector_matcher_new glob selector
      in List.map_filter
           (\<lambda>p. map_option (Pair p) (match_source_selector_with p matcher)) (providers rt))"

definition providers_for_raw_search_selector ::
  "glob_compiler \<Rightarrow> hook_runtime \<Rightarrow> string \<Rightarrow> (activated_provider \<times> source_selector_kind) list" where
  "providers_for_raw_search_selector glob rt selector =
     (let m = source_selector_matcher_new glob selector
      in List.map_filter
           (\<lambda>p. if list_ex (is_ignored_by m) (p_ignored_path_prefixes p) then None
                else if glob_matches_source_selector p m
                        \<or> (\<not> m_has_glob m \<and> package_roots_match_search_token p (m_normalized m))
                then Some (p, selector_kind_of m) else None) (providers rt))"

subsection \<open>Semantic routes\<close>

definition default_route_project_root :: "activated_provider \<Rightarrow> string" where
  "default_route_project_root p =
     (case or_else (find (\<lambda>root. root = ''.'') (p_package_roots p)) (get_at (p_package_roots p) 0) of
        Some root \<Rightarrow> root
      | None \<Rightarrow> ''.'')"

text \<open>Longer roots first, equally long ones in lexicographic order.\<close>

definition package_roots_by_specificity :: "activated_provider \<Rightarrow> string list" where
  "package_roots_by_specificity p =
     sort_key (\<lambda>root. - int (length root)) (sort (p_package_roots p))"

record route_path_ctx =
  x_selector :: string
  x_project_root :: string

fun route_path_loop :: "string \<Rightarrow> string list \<Rightarrow> route_path_ctx option" where
  "route_path_loop normalized [] = None"
| "route_path_loop normalized (root # roots) =
     (if root = ''.'' then route_path_loop normalized roots
      else if normalized = root then Some \<lparr>x_selector = ''.'', x_project_root = root\<rparr>
      else (case strip_prefix (root @ ''/'') normalized of
              Some selector \<Rightarrow> Some \<lparr>x_selector = selector, x_project_root = root\<rparr>
            | None \<Rightarrow> route_path_loop normalized roots))"

definition route_path_context :: "activated_provider \<Rightarrow> string \<Rightarrow> route_path_ctx" where
  "route_path_context p path =
     (let normalized = normalize_route_path path in
      case route_path_loop normalized (package_roots_by_specificity p) of
        Some ctx \<Rightarrow> ctx
      | None \<Rightarrow> \<lparr>x_selector = normalized, x_project_root = default_route_project_root p\<rparr>)"

definition agent_facade_argv :: "activated_provider \<Rightarrow> string list \<Rightarrow> string list" where
  "agent_facade_argv p args = ''asp'' # p_language_id p # args"

definition agent_facade_argv_from_provider_argv ::
  "activated_provider \<Rightarrow> string list \<Rightarrow> string list" where
  "agent_facade_argv_from_provider_argv p argv =
     (if get_at argv 0 = Some ''asp'' then argv
      else if get_at argv 0 = Some (p_binary p) then agent_facade_argv p (drop 1 argv)
      else if p_provider_command_prefix p \<noteq> [] \<and> prefix (p_provider_command_prefix p) argv
      then agent_facade_argv p (drop (length (p_provider_command_prefix p)) argv)
      else argv)"

definition route_from_template ::
  "activated_provider \<Rightarrow> decision_route_kind \<Rightarrow> command_template \<Rightarrow> string option \<Rightarrow> string option
     \<Rightarrow> decision_route" where
  "route_from_template p kind template path query =
     (let ctx = map_option (route_path_context p) path;
          route_path = (case ctx of Some x \<Rightarrow> x_selector x
                        | None \<Rightarrow> (case path of Some q \<Rightarrow> q | None \<Rightarrow> []));
          root = (case ctx of Some x \<Rightarrow> x_project_root x | None \<Rightarrow> default_route_project_root p);
          argv = map (\<lambda>arg.
            str_replace ''{projectRoot}'' root
              (str_replace ''{query}'' (case query of Some q \<Rightarrow> q | None \<Rightarrow> [])
                (str_replace ''{path}'' route_path arg))) (t_argv template)
      in \<lparr>r_language_id = p_language_id p, r_provider_id = p_provider_id p, r_binary = ''asp'',
          r_kind = kind, r_argv = agent_facade_argv_from_provider_argv p argv,
          r_stdin_mode = t_stdin_mode template\<rparr>)"

subsection \<open>Activation\<close>

datatype agent_hook_error =
  InvalidActivation string | InvalidActivationConfig string | InvalidPayload string
  | InvalidOutput string

record activation_coverage =
  c_package_roots :: "string list"
  c_source_roots :: "string list"
  c_config_files :: "string list"
  c_source_extensions :: "string list"
  c_ignored_path_prefixes :: "string list"

record activated_provider_config =
  a_manifest_id :: string
  a_manifest_digest :: string
  a_language_id :: string
  a_provider_id :: string
  a_binary :: string
  a_execution :: provider_execution
  a_provider_command_prefix :: "string list"
  a_coverage :: activation_coverage

record hook_activation =
  h_schema_id :: string
  h_schema_version :: string
  h_protocol_id :: string
  h_protocol_version :: string
  h_project_root :: string
  h_generated_by_runtime :: string
  h_generated_by_version :: string
  h_generated_at :: "string option"
  h_providers :: "activated_provider_config list"

record manifest_source_defaults =
  d_extensions :: "string list"
  d_config_files :: "string list"
  d_source_roots :: "string list"
  d_ignored_path_prefixes :: "string list"
  d_project_markers :: "string list"
  d_dependency_markers :: "string list"

record provider_manifest =
  f_schema_id :: string
  f_schema_version :: string
  f_protocol_id :: string
  f_protocol_version :: string
  f_manifest_id :: string
  f_manifest_version :: string
  f_language_id :: string
  f_provider_id :: string
  f_namespace :: string
  f_binary :: string
  f_execution :: provider_execution
  f_source :: manifest_source_defaults
  f_search_capabilities :: provider_search_capabilities
  f_policy :: hook_policy
  f_routes :: hook_routes

type_synonym manifest_digest = "provider_manifest \<Rightarrow> agent_hook_error + string"

definition hook_activation_schema_id :: string where
  "hook_activation_schema_id = ''agent.semantic-protocols.hook.activation''"

definition provider_manifest_schema_id :: string where
  "provider_manifest_schema_id = ''agent.semantic-protocols.hook.provider-manifest''"

definition hook_protocol_id :: string where
  "hook_protocol_id = ''agent.semantic-protocols.hook''"

definition expect_field :: "string \<Rightarrow> string \<Rightarrow> string \<Rightarrow> agent_hook_error + unit" where
  "expect_field name actual expected =
     (if actual = expected then Inr ()
      else Inl (InvalidActivationConfig
        (''invalid activation '' @ name @ '': expected '' @ expected @ '', got '' @ actual)))"

definition try_then :: "('e + unit) \<Rightarrow> ('e + 'b) \<Rightarrow> 'e + 'b" where
  "try_then r k = (case r of Inl e \<Rightarrow> Inl e | Inr _ \<Rightarrow> k)"

definition activation_validate_protocol :: "hook_activation \<Rightarrow> agent_hook_error + unit" where
  "activation_validate_protocol a =
     try_then (expect_field ''schemaId'' (h_schema_id a) hook_activation_schema_id)
    (try_then (expect_field ''schemaVersion'' (h_schema_version a) ''1'')
    (try_then (expect_field ''protocolId'' (h_protocol_id a) hook_protocol_id)
    (try_then (expect_field ''protocolVersion'' (h_protocol_version a) ''1'')
      (if h_generated_by_runtime a \<notin> {''asp'', ''agent-semantic-hook''} then
         Inl (InvalidActivationConfig
           (''invalid activation generatedBy.runtime: expected asp or agent-semantic-hook, got ''
            @ h_generated_by_runtime a))
       else if h_providers a = [] then
         Inl (InvalidActivationConfig ''activation must include at least one provider'')
       else Inr ()))))"

definition manifest_validate_protocol :: "provider_manifest \<Rightarrow> agent_hook_error + unit" where
  "manifest_validate_protocol m =
     try_then (expect_field ''schemaId'' (f_schema_id m) provider_manifest_schema_id)
    (try_then (expect_field ''schemaVersion'' (f_schema_version m) ''1'')
    (try_then (expect_field ''protocolId'' (f_protocol_id m) hook_protocol_id)
    (try_then (expect_field ''protocolVersion'' (f_protocol_version m) ''1'') (Inr ()))))"

definition resolve_provider ::
  "manifest_digest \<Rightarrow> provider_manifest list \<Rightarrow> activated_provider_config
     \<Rightarrow> agent_hook_error + activated_provider" where
  "resolve_provider digest manifests a =
     (case find (\<lambda>m. f_manifest_id m = a_manifest_id a) manifests of
        None \<Rightarrow> Inl (InvalidActivationConfig (''unknown provider manifest: '' @ a_manifest_id a))
      | Some m \<Rightarrow>
          try_then (manifest_validate_protocol m)
          (case digest m of
             Inl e \<Rightarrow> Inl e
           | Inr expected_digest \<Rightarrow>
               if a_manifest_digest a \<noteq> expected_digest then
                 Inl (InvalidActivationConfig
                   (''provider manifest digest drift for '' @ a_manifest_id a @ '': expected ''
                    @ expected_digest @ '', got '' @ a_manifest_digest a))
               else if a_language_id a \<noteq> f_language_id m \<or> a_provider_id a \<noteq> f_provider_id m
                       \<or> a_binary a \<noteq> f_binary m \<or> a_execution a \<noteq> f_execution m then
                 Inl (InvalidActivationConfig
                   (''provider activation does not match manifest identity: '' @ a_manifest_id a))
               else Inr
                 \<lparr>p_manifest_id = a_manifest_id a, p_manifest_digest = a_manifest_digest a,
                  p_language_id = a_language_id a, p_provider_id = a_provider_id a,
                  p_binary = a_binary a, p_execution = a_execution a,
                  p_provider_command_prefix = a_provider_command_prefix a,
                  p_namespace = f_namespace m,
                  p_package_roots = c_package_roots (a_coverage a),
                  p_source_extensions = c_source_extensions (a_coverage a),
                  p_config_files = c_config_files (a_coverage a),
                  p_source_roots = c_source_roots (a_coverage a),
                  p_ignored_path_prefixes = c_ignored_path_prefixes (a_coverage a),
                  p_search_capabilities = f_search_capabilities m,
                  p_policy = f_policy m, p_routes = f_routes m\<rparr>))"

text \<open>The loop of \<open>resolve_activation\<close>: the first failing provider is the error.\<close>

fun resolve_providers ::
  "manifest_digest \<Rightarrow> provider_manifest list \<Rightarrow> activated_provider_config list
     \<Rightarrow> activated_provider list \<Rightarrow> agent_hook_error + activated_provider list" where
  "resolve_providers digest manifests [] acc = Inr acc"
| "resolve_providers digest manifests (a # as) acc =
     (case resolve_provider digest manifests a of
        Inl e \<Rightarrow> Inl e
      | Inr p \<Rightarrow> resolve_providers digest manifests as (acc @ [p]))"

definition resolve_activation ::
  "manifest_digest \<Rightarrow> hook_activation \<Rightarrow> provider_manifest list \<Rightarrow> agent_hook_error + hook_runtime" where
  "resolve_activation digest activation manifests =
     (case resolve_providers digest manifests (h_providers activation) [] of
        Inl e \<Rightarrow> Inl e
      | Inr ps \<Rightarrow> Inr \<lparr>project_root = h_project_root activation, providers = ps\<rparr>)"

text \<open>\<open>parse_activation\<close> after the JSON text has been decoded by \<open>serde_json\<close>.\<close>

definition activate :: 
  "manifest_digest \<Rightarrow> hook_activation \<Rightarrow> provider_manifest list \<Rightarrow> agent_hook_error + hook_runtime" where
  "activate digest activation manifests =
     try_then (activation_validate_protocol activation)
       (resolve_activation digest activation manifests)"

subsection \<open>Lemmas\<close>

lemma facade_argv_head:
  "agent_facade_argv_from_provider_argv p argv = argv
   \<or> (\<exists>args. agent_facade_argv_from_provider_argv p argv = ''asp'' # p_language_id p # args)"
  by (auto simp: agent_facade_argv_from_provider_argv_def agent_facade_argv_def)

definition root_covers :: "string \<Rightarrow> string \<Rightarrow> bool" where
  "root_covers root normalized \<longleftrightarrow> normalized = root \<or> prefix (root @ ''/'') normalized"

lemma route_path_loop_None:
  "route_path_loop n roots = None \<longleftrightarrow> (\<forall>r \<in> set roots. r \<noteq> ''.'' \<longrightarrow> \<not> root_covers r n)"
  by (induction roots) (auto simp: root_covers_def strip_prefix_def split: option.splits if_splits)

lemma route_path_loop_Some:
  assumes "route_path_loop n roots = Some ctx"
  shows "\<exists>as bs. roots = as @ x_project_root ctx # bs
    \<and> (\<forall>r \<in> set as. r \<noteq> ''.'' \<longrightarrow> \<not> root_covers r n)
    \<and> x_project_root ctx \<noteq> ''.''
    \<and> (n = x_project_root ctx \<and> x_selector ctx = ''.''
       \<or> n = x_project_root ctx @ ''/'' @ x_selector ctx)"
  using assms
proof (induction roots)
  case (Cons r roots)
  show ?case
  proof (cases "r \<noteq> ''.'' \<and> root_covers r n")
    case True
    have "ctx = \<lparr>x_selector = ''.'', x_project_root = r\<rparr> \<and> n = r
        \<or> n = r @ ''/'' @ x_selector ctx \<and> x_project_root ctx = r"
    proof (cases "n = r")
      case True
      with Cons.prems \<open>r \<noteq> ''.'' \<and> root_covers r n\<close> show ?thesis by simp
    next
      case False
      with True obtain t where t: "strip_prefix (r @ ''/'') n = Some t"
        by (auto simp: root_covers_def strip_prefix_def)
      with Cons.prems True False have "ctx = \<lparr>x_selector = t, x_project_root = r\<rparr>" by simp
      with t show ?thesis by (simp add: strip_prefix_Some_iff)
    qed
    with True show ?thesis by (intro exI [of _ "[]"] exI [of _ roots]) auto
  next
    case False
    then have "route_path_loop n (r # roots) = route_path_loop n roots"
      by (auto simp: root_covers_def strip_prefix_def)
    with Cons obtain as bs where "roots = as @ x_project_root ctx # bs"
      and "\<forall>r \<in> set as. r \<noteq> ''.'' \<longrightarrow> \<not> root_covers r n" and "x_project_root ctx \<noteq> ''.''"
      and "n = x_project_root ctx \<and> x_selector ctx = ''.''
        \<or> n = x_project_root ctx @ ''/'' @ x_selector ctx" by auto
    with False show ?thesis by (intro exI [of _ "r # as"] exI [of _ bs]) auto
  qed
qed simp

lemma package_roots_by_specificity_sorted:
  "sorted (map (\<lambda>root. - int (length root)) (package_roots_by_specificity p))"
  by (simp add: package_roots_by_specificity_def)

lemma set_package_roots_by_specificity [simp]:
  "set (package_roots_by_specificity p) = set (p_package_roots p)"
  by (simp add: package_roots_by_specificity_def)

text \<open>What it means that a manifest pins an activated provider.\<close>

definition manifest_pins ::
  "manifest_digest \<Rightarrow> provider_manifest \<Rightarrow> activated_provider_config \<Rightarrow> bool" where
  "manifest_pins digest m a \<longleftrightarrow>
     f_manifest_id m = a_manifest_id a
     \<and> manifest_validate_protocol m = Inr ()
     \<and> digest m = Inr (a_manifest_digest a)
     \<and> a_language_id a = f_language_id m \<and> a_provider_id a = f_provider_id m
     \<and> a_binary a = f_binary m \<and> a_execution a = f_execution m"

lemma resolve_provider_Inr:
  "resolve_provider digest ms a = Inr p \<Longrightarrow>
     \<exists>m \<in> set ms. manifest_pins digest m a
       \<and> p_policy p = f_policy m \<and> p_routes p = f_routes m
       \<and> p_namespace p = f_namespace m \<and> p_search_capabilities p = f_search_capabilities m
       \<and> p_language_id p = f_language_id m \<and> p_provider_id p = f_provider_id m
       \<and> p_binary p = f_binary m \<and> p_manifest_id p = f_manifest_id m"
  by (auto simp: resolve_provider_def try_then_def manifest_pins_def find_Some_iff
      split: option.splits sum.splits if_splits)

lemma resolve_providers_Inr:
  "resolve_providers digest ms as acc = Inr ps \<longleftrightarrow>
     (\<exists>qs. ps = acc @ qs \<and> list_all2 (\<lambda>a p. resolve_provider digest ms a = Inr p) as qs)"
proof (induction as arbitrary: acc)
  case (Cons a as)
  show ?case
  proof (cases "resolve_provider digest ms a")
    case (Inl e)
    then show ?thesis by (auto simp: list_all2_Cons1)
  next
    case (Inr p)
    with Cons show ?thesis by (auto simp: list_all2_Cons1)
  qed
qed auto

lemma providers_for_selector_sound:
  "(p, k) \<in> set (providers_for_selector glob rt s) \<longleftrightarrow>
     p \<in> set (providers rt) \<and> match_source_selector glob p s = Some k"
  by (force simp: providers_for_selector_def Let_def match_source_selector_def map_filter_def)

subsection \<open>A concrete provider\<close>

definition demo_template :: "string \<Rightarrow> command_template" where
  "demo_template verb =
     \<lparr>t_argv = [''rs-harness'', ''search'', verb, ''{path}'', ''--workspace'', ''{projectRoot}''],
      t_stdin_mode = None\<rparr>"

definition demo_routes :: hook_routes where
  "demo_routes =
     \<lparr>prime_route = demo_template ''prime'', owner_route = demo_template ''owner'',
      lexical_route = demo_template ''lexical'', query_route = Some (demo_template ''query''),
      ingest_route = demo_template ''ingest'', check_changed_route = demo_template ''check'',
      dependency_topology_route = None, dependency_topology_metadata_route = None,
      export_index_route = None, guide_route = None\<rparr>"

definition demo_manifest :: provider_manifest where
  "demo_manifest =
     \<lparr>f_schema_id = provider_manifest_schema_id, f_schema_version = ''1'',
      f_protocol_id = hook_protocol_id, f_protocol_version = ''1'',
      f_manifest_id = ''rust'', f_manifest_version = ''1'', f_language_id = ''rust'',
      f_provider_id = ''rs-harness'', f_namespace = ''agent.semantic-protocols.rust'',
      f_binary = ''rs-harness'', f_execution = ExternalProcess,
      f_source = \<lparr>d_extensions = [''.rs''], d_config_files = [''Cargo.toml''],
        d_source_roots = [''src''], d_ignored_path_prefixes = [''target''],
        d_project_markers = [''Cargo.toml''], d_dependency_markers = []\<rparr>,
      f_search_capabilities = \<lparr>owner_items = True, semantic_facts = False,
        dependency_topology = False, dependency_topology_metadata = False\<rparr>,
      f_policy = default_hook_policy, f_routes = demo_routes\<rparr>"

definition demo_digest :: manifest_digest where
  "demo_digest m = Inr (''sha256:'' @ f_manifest_id m)"

definition demo_activation :: hook_activation where
  "demo_activation =
     \<lparr>h_schema_id = hook_activation_schema_id, h_schema_version = ''1'',
      h_protocol_id = hook_protocol_id, h_protocol_version = ''1'', h_project_root = ''/repo'',
      h_generated_by_runtime = ''asp'', h_generated_by_version = ''1'', h_generated_at = None,
      h_providers = [\<lparr>a_manifest_id = ''rust'', a_manifest_digest = ''sha256:rust'',
        a_language_id = ''rust'', a_provider_id = ''rs-harness'', a_binary = ''rs-harness'',
        a_execution = ExternalProcess, a_provider_command_prefix = [],
        a_coverage = \<lparr>c_package_roots = [''.'', ''crates/a''], c_source_roots = [''src''],
          c_config_files = [''Cargo.toml''], c_source_extensions = [''.rs''],
          c_ignored_path_prefixes = [''target'']\<rparr>\<rparr>]\<rparr>"

definition demo_provider :: activated_provider where
  "demo_provider =
     (case resolve_provider demo_digest [demo_manifest] (hd (h_providers demo_activation)) of
        Inr p \<Rightarrow> p | Inl _ \<Rightarrow> undefined)"

definition demo_runtime :: hook_runtime where
  "demo_runtime = \<lparr>project_root = ''/repo'', providers = [demo_provider]\<rparr>"

text \<open>A glob compiler for patterns without meta characters: the pattern matches only itself.\<close>

definition literal_glob :: glob_compiler where
  "literal_glob pattern = (if selector_has_glob pattern then None else Some (\<lambda>s. s = pattern))"

lemma demo_activate: "activate demo_digest demo_activation [demo_manifest] = Inr demo_runtime"
  by code_simp

subsection \<open>Properties\<close>

text \<open>C3: A runtime is resolved only from pinned manifests: every provider of the runtime stands, in
  order, for one activated provider whose manifest is valid, has the recorded digest and the same
  identity, and its policy and routes are the manifest's, never the activation file's.\<close>

theorem activation_is_pinned:
  assumes "activate digest activation manifests = Inr rt"
  shows "project_root rt = h_project_root activation \<and> providers rt \<noteq> []
    \<and> list_all2 (\<lambda>a p. \<exists>m \<in> set manifests. manifest_pins digest m a
         \<and> p_policy p = f_policy m \<and> p_routes p = f_routes m
         \<and> p_language_id p = f_language_id m \<and> p_binary p = f_binary m)
       (h_providers activation) (providers rt)"
proof -
  from assms have ne: "h_providers activation \<noteq> []"
    and res: "resolve_activation digest activation manifests = Inr rt"
    by (auto simp: activate_def try_then_def activation_validate_protocol_def split: sum.splits if_splits)
  from res obtain ps where ps: "resolve_providers digest manifests (h_providers activation) [] = Inr ps"
    and rt: "rt = \<lparr>project_root = h_project_root activation, providers = ps\<rparr>"
    by (auto simp: resolve_activation_def split: sum.splits)
  from ps have all: "list_all2 (\<lambda>a p. resolve_provider digest manifests a = Inr p)
      (h_providers activation) ps"
    by (simp add: resolve_providers_Inr)
  then have "ps \<noteq> []" using ne by auto
  moreover have "list_all2 (\<lambda>a p. \<exists>m \<in> set manifests. manifest_pins digest m a
         \<and> p_policy p = f_policy m \<and> p_routes p = f_routes m
         \<and> p_language_id p = f_language_id m \<and> p_binary p = f_binary m)
       (h_providers activation) ps"
    by (rule list_all2_mono [OF all]) (use resolve_provider_Inr in blast)
  ultimately show ?thesis using rt by simp
qed

theorem activation_is_pinned_witness:
  "project_root demo_runtime = ''/repo'' \<and> providers demo_runtime \<noteq> []
    \<and> list_all2 (\<lambda>a p. \<exists>m \<in> set [demo_manifest]. manifest_pins demo_digest m a
         \<and> p_policy p = f_policy m \<and> p_routes p = f_routes m
         \<and> p_language_id p = f_language_id m \<and> p_binary p = f_binary m)
       (h_providers demo_activation) (providers demo_runtime)"
  using activation_is_pinned [OF demo_activate] by (simp add: demo_activation_def)

text \<open>C4: A source path is routed to the innermost package root.  Either the chosen project root is a
  package root that contains the path, the selector is the path below it, and no longer package root
  contains the path; or no package root other than \<open>.\<close> contains it and the path is kept whole.\<close>

theorem route_path_context_innermost:
  "let n = normalize_route_path path; ctx = route_path_context p path; root = x_project_root ctx in
     (root \<in> set (p_package_roots p) \<and> root \<noteq> ''.''
      \<and> (n = root \<and> x_selector ctx = ''.'' \<or> n = root @ ''/'' @ x_selector ctx)
      \<and> (\<forall>r \<in> set (p_package_roots p). r \<noteq> ''.'' \<longrightarrow> root_covers r n \<longrightarrow> length r \<le> length root))
   \<or> ((\<forall>r \<in> set (p_package_roots p). r \<noteq> ''.'' \<longrightarrow> \<not> root_covers r n)
      \<and> x_selector ctx = n \<and> root = default_route_project_root p)"
proof -
  let ?n = "normalize_route_path path" and ?roots = "package_roots_by_specificity p"
  show ?thesis
  proof (cases "route_path_loop ?n ?roots")
    case None
    then have "\<forall>r \<in> set (p_package_roots p). r \<noteq> ''.'' \<longrightarrow> \<not> root_covers r ?n"
      by (simp add: route_path_loop_None)
    with None show ?thesis by (simp add: route_path_context_def Let_def)
  next
    case (Some ctx)
    then obtain as bs where split: "?roots = as @ x_project_root ctx # bs"
      and before: "\<forall>r \<in> set as. r \<noteq> ''.'' \<longrightarrow> \<not> root_covers r ?n"
      and ne: "x_project_root ctx \<noteq> ''.''"
      and sel: "?n = x_project_root ctx \<and> x_selector ctx = ''.''
         \<or> ?n = x_project_root ctx @ ''/'' @ x_selector ctx"
      using route_path_loop_Some by blast
    have "x_project_root ctx \<in> set (p_package_roots p)"
      using split set_package_roots_by_specificity [of p] by (metis in_set_conv_decomp)
    moreover have "length r \<le> length (x_project_root ctx)"
      if "r \<in> set (p_package_roots p)" "r \<noteq> ''.''" "root_covers r ?n" for r
    proof -
      from that before have "r = x_project_root ctx \<or> r \<in> set bs"
        using split set_package_roots_by_specificity [of p] by auto
      moreover have "sorted (map (\<lambda>root. - int (length root)) (as @ x_project_root ctx # bs))"
        using package_roots_by_specificity_sorted [of p] split by simp
      ultimately show ?thesis by (auto simp: sorted_append)
    qed
    ultimately show ?thesis using Some ne sel by (simp add: route_path_context_def Let_def)
  qed
qed

theorem route_path_context_innermost_witness:
  "x_project_root (route_path_context demo_provider ''./crates/a/src/lib.rs'') = ''crates/a''
   \<and> x_selector (route_path_context demo_provider ''./crates/a/src/lib.rs'') = ''src/lib.rs''"
proof -
  have n: "normalize_route_path ''./crates/a/src/lib.rs'' = ''crates/a/src/lib.rs''" by code_simp
  have roots: "set (p_package_roots demo_provider) = {''.'', ''crates/a''}" by code_simp
  have cov: "root_covers ''crates/a'' ''crates/a/src/lib.rs''" by code_simp
  show ?thesis
    using route_path_context_innermost [of "''./crates/a/src/lib.rs''" demo_provider] cov
    unfolding n roots Let_def by auto
qed

text \<open>Rewriting a provider command to the agent facade is idempotent, and a command that names
  the provider's binary becomes \<open>asp <language>\<close> with its arguments unchanged.\<close>

theorem facade_argv_idempotent:
  "agent_facade_argv_from_provider_argv p (agent_facade_argv_from_provider_argv p argv) =
     agent_facade_argv_from_provider_argv p argv
   \<and> agent_facade_argv_from_provider_argv p (p_binary p # args) =
       (if p_binary p = ''asp'' then p_binary p # args else ''asp'' # p_language_id p # args)"
proof -
  have "agent_facade_argv_from_provider_argv p (''asp'' # p_language_id p # args) =
      ''asp'' # p_language_id p # args" for args
    by (simp add: agent_facade_argv_from_provider_argv_def get_at_def)
  with facade_argv_head [of p argv] show ?thesis
    by (auto simp: agent_facade_argv_from_provider_argv_def get_at_def agent_facade_argv_def)
qed

end
