(* ===== verification/SourceSelector.thy ===== *)
theory SourceSelector
  imports Provider
begin

section \<open>Source selectors\<close>

text \<open>
  Models \<open>crates/agent-semantic-hook/src/source_selector.rs\<close>: which activated providers a list of
  source selectors concerns, merged into one match per provider, and the helpers that read file
  extensions out of command words.  The provider lookup is the interface \<open>selector_lookup\<close>; the
  merge is proved against its law and instantiated with the two lookups of \<open>HookRuntime\<close>.
\<close>

subsection \<open>Line locators\<close>

definition is_line_locator_suffix :: "string \<Rightarrow> bool" where
  "is_line_locator_suffix value =
     (case split_once ''-'' value of
        Some (start, stop) \<Rightarrow> is_decimal_locator start \<and> is_decimal_locator stop
      | None \<Rightarrow> is_decimal_locator value)"

text \<open>The loop of \<open>source_selector_base\<close>: strip line locators until none is left.\<close>

function strip_locators :: "string \<Rightarrow> string" where
  "strip_locators base =
     (case rsplit_once '':'' base of
        None \<Rightarrow> base
      | Some (path, locator) \<Rightarrow>
          if is_line_locator_suffix locator then strip_locators path else base)"
  by pat_completeness auto
termination
  by (relation "measure length") (auto dest: rsplit_once_Some)

declare strip_locators.simps [simp del]

definition source_selector_base :: "string \<Rightarrow> string" where
  "source_selector_base selector = strip_locators (normalize_source_selector selector)"

definition selector_specificity :: "string \<Rightarrow> nat" where
  "selector_specificity selector = (if selector \<noteq> source_selector_base selector then 1 else 0)"

definition selector_is_more_specific :: "string \<Rightarrow> string \<Rightarrow> bool" where
  "selector_is_more_specific existing candidate \<longleftrightarrow>
     source_selector_base existing = source_selector_base candidate
     \<and> selector_specificity candidate > selector_specificity existing"

subsection \<open>One match per provider\<close>

record source_selector_match =
  sm_route_selector :: string
  sm_provider :: activated_provider
  sm_kind :: source_selector_kind

definition provider_key :: "activated_provider \<Rightarrow> string \<times> string" where
  "provider_key p = (p_language_id p, p_provider_id p)"

text \<open>\<open>merge_source_selector_match\<close> over the first match with the provider's identity.\<close>

fun merge_source_selector_match ::
  "source_selector_match list \<Rightarrow> string \<Rightarrow> activated_provider \<Rightarrow> source_selector_kind
     \<Rightarrow> source_selector_match list" where
  "merge_source_selector_match [] route_selector provider kind =
     [\<lparr>sm_route_selector = route_selector, sm_provider = provider, sm_kind = kind\<rparr>]"
| "merge_source_selector_match (existing # rest) route_selector provider kind =
     (if provider_key (sm_provider existing) = provider_key provider then
        (if selector_is_more_specific (sm_route_selector existing) route_selector
         then existing\<lparr>sm_route_selector := route_selector, sm_kind := kind\<rparr> # rest
         else existing # rest)
      else existing # merge_source_selector_match rest route_selector provider kind)"

type_synonym provider_lookup = "string \<Rightarrow> (activated_provider \<times> source_selector_kind) list"

definition matching_blocked_providers ::
  "provider_lookup \<Rightarrow> string \<Rightarrow> (activated_provider \<Rightarrow> bool)
     \<Rightarrow> (activated_provider \<times> source_selector_kind) list" where
  "matching_blocked_providers lookup route_selector should_block =
     filter (\<lambda>m. should_block (fst m)) (lookup (normalize_source_selector route_selector))"

fun merge_matches ::
  "source_selector_match list \<Rightarrow> string \<Rightarrow> (activated_provider \<times> source_selector_kind) list
     \<Rightarrow> source_selector_match list" where
  "merge_matches ms route_selector [] = ms"
| "merge_matches ms route_selector ((p, k) # rest) =
     merge_matches (merge_source_selector_match ms route_selector p k) route_selector rest"

fun collect_loop ::
  "provider_lookup \<Rightarrow> (activated_provider \<Rightarrow> bool) \<Rightarrow> string list
     \<Rightarrow> source_selector_match list \<Rightarrow> source_selector_match list" where
  "collect_loop lookup should_block [] ms = ms"
| "collect_loop lookup should_block (s # ss) ms =
     (let route_selector = normalize_source_route_selector s
      in collect_loop lookup should_block ss
           (merge_matches ms route_selector
              (matching_blocked_providers lookup route_selector should_block)))"

definition collect_source_selector_matches ::
  "glob_compiler \<Rightarrow> hook_runtime \<Rightarrow> string list \<Rightarrow> (activated_provider \<Rightarrow> bool)
     \<Rightarrow> source_selector_match list" where
  "collect_source_selector_matches glob registry selectors should_block =
     collect_loop (providers_for_selector glob registry) should_block selectors []"

subsection \<open>Extensions\<close>

definition provider_source_selector :: "activated_provider \<Rightarrow> string" where
  "provider_source_selector p =
     (let extensions = sort_dedup (filter (\<lambda>e. e \<noteq> [])
            (map (trim_start_chars (\<lambda>c. c = CHR ''.'')) (p_source_extensions p)))
      in case extensions of
           [] \<Rightarrow> ''**/*''
         | [extension] \<Rightarrow> ''**/*.'' @ extension
         | _ \<Rightarrow> ''**/*.{'' @ str_join '','' extensions @ ''}'')"

definition provider_matches_source_extension :: "activated_provider \<Rightarrow> string \<Rightarrow> bool" where
  "provider_matches_source_extension p extension \<longleftrightarrow> extension \<in> set (p_source_extensions p)"

definition provider_matches_source_type :: "activated_provider \<Rightarrow> string \<Rightarrow> bool" where
  "provider_matches_source_type p target_type \<longleftrightarrow>
     target_type = p_language_id p \<or> target_type = p_namespace p
     \<or> list_ex (\<lambda>source. trim_start_chars (\<lambda>c. c = CHR ''.'') source = target_type)
         (p_source_extensions p)"

definition is_source_extension_atom :: "string \<Rightarrow> bool" where
  "is_source_extension_atom extension \<longleftrightarrow>
     extension \<noteq> [] \<and> list_all is_ascii_alphanumeric extension"

text \<open>The atoms between the braces of \<open>*.{a,b}\<close>.\<close>

definition brace_group :: "string \<Rightarrow> string list option" where
  "brace_group clean =
     (case split_once ''.{'' clean of
        None \<Rightarrow> None
      | Some (_, rest) \<Rightarrow>
          (case split_once ''}'' rest of
             None \<Rightarrow> None
           | Some (inner, _) \<Rightarrow> Some (split_by (\<lambda>c. c = CHR '','') inner)))"

definition push_source_extension :: "string list \<Rightarrow> string \<Rightarrow> bool \<Rightarrow> string list" where
  "push_source_extension extensions token allow_bare =
     (let clean = to_ascii_lowercase
            (trim_start_chars (\<lambda>c. c = CHR ''*'')
              (trim_chars (\<lambda>c. c \<in> {CHR 0x27, CHR 0x22, CHR '','', CHR '';''}) token))
      in case brace_group clean of
           Some atoms \<Rightarrow>
             extensions @ map (\<lambda>e. ''.'' @ e) (filter is_source_extension_atom atoms)
         | None \<Rightarrow>
             (let bare = trim_end_chars (\<lambda>c. c = CHR ''}'')
                    (trim_start_chars (\<lambda>c. c = CHR ''{'') clean)
              in if allow_bare \<and> is_source_extension_atom bare then extensions @ [''.'' @ bare]
                 else (case rsplit_once ''.'' bare of
                         None \<Rightarrow> extensions
                       | Some (_, e0) \<Rightarrow>
                           (let e = trim_end_chars (\<lambda>c. c = CHR ''}'') e0
                            in if is_source_extension_atom e then extensions @ [''.'' @ e]
                               else extensions))))"

subsection \<open>Lemmas\<close>

definition match_keys :: "source_selector_match list \<Rightarrow> (string \<times> string) list" where
  "match_keys ms = map (\<lambda>m. provider_key (sm_provider m)) ms"

lemma set_match_keys_merge [simp]:
  "set (match_keys (merge_source_selector_match ms r p k)) = insert (provider_key p) (set (match_keys ms))"
  by (induction ms r p k rule: merge_source_selector_match.induct) (auto simp: match_keys_def)

lemma distinct_match_keys_merge:
  "distinct (match_keys ms) \<Longrightarrow> distinct (match_keys (merge_source_selector_match ms r p k))"
proof (induction ms r p k rule: merge_source_selector_match.induct)
  case (2 e rest r p k)
  have "set (match_keys (merge_source_selector_match rest r p k)) =
      insert (provider_key p) (set (match_keys rest))" by simp
  with 2 show ?case by (auto simp: match_keys_def)
qed (simp add: match_keys_def)

lemma merge_member:
  assumes "m \<in> set (merge_source_selector_match ms r p k)"
  shows "m \<in> set ms
    \<or> (sm_route_selector m = r \<and> sm_kind m = k \<and> provider_key (sm_provider m) = provider_key p
       \<and> (sm_provider m = p \<or> sm_provider m \<in> sm_provider ` set ms))"
  using assms
  by (induction ms r p k rule: merge_source_selector_match.induct) (auto split: if_splits)

subsection \<open>The lookup interface\<close>

text \<open>A registry answers which providers claim a normalised selector, and with which kind.\<close>

locale selector_lookup =
  fixes lookup :: provider_lookup
    and registered :: "activated_provider set"
    and claims :: "activated_provider \<Rightarrow> string \<Rightarrow> source_selector_kind option"
  assumes lookup_iff: "(p, k) \<in> set (lookup s) \<longleftrightarrow> p \<in> registered \<and> claims p s = Some k"
begin

definition justified ::
  "(activated_provider \<Rightarrow> bool) \<Rightarrow> string set \<Rightarrow> source_selector_match \<Rightarrow> bool" where
  "justified should_block S m \<longleftrightarrow>
     sm_provider m \<in> registered \<and> should_block (sm_provider m)
     \<and> (\<exists>s \<in> S. \<exists>q \<in> registered. sm_route_selector m = normalize_source_route_selector s
         \<and> provider_key q = provider_key (sm_provider m) \<and> should_block q
         \<and> claims q (normalize_source_selector (sm_route_selector m)) = Some (sm_kind m))"

definition covered ::
  "(activated_provider \<Rightarrow> bool) \<Rightarrow> string \<Rightarrow> (string \<times> string) set" where
  "covered should_block s =
     {provider_key p | p. p \<in> registered \<and> should_block p
        \<and> claims p (normalize_source_selector (normalize_source_route_selector s)) \<noteq> None}"

lemma justified_mono: "justified B S m \<Longrightarrow> S \<subseteq> T \<Longrightarrow> justified B T m"
  unfolding justified_def by blast

lemma matching_iff:
  "(p, k) \<in> set (matching_blocked_providers lookup r B) \<longleftrightarrow>
     p \<in> registered \<and> B p \<and> claims p (normalize_source_selector r) = Some k"
  by (auto simp: matching_blocked_providers_def lookup_iff)

lemma matching_keys:
  "provider_key ` fst ` set (matching_blocked_providers lookup (normalize_source_route_selector s) B) =
     covered B s"
proof (intro set_eqI iffI)
  fix x
  assume "x \<in> provider_key ` fst ` set (matching_blocked_providers lookup (normalize_source_route_selector s) B)"
  then obtain p k where "(p, k) \<in> set (matching_blocked_providers lookup (normalize_source_route_selector s) B)"
    and "x = provider_key p" by auto
  then show "x \<in> covered B s" by (auto simp: matching_iff covered_def)
next
  fix x assume "x \<in> covered B s"
  then obtain p k where "x = provider_key p"
    and "(p, k) \<in> set (matching_blocked_providers lookup (normalize_source_route_selector s) B)"
    by (auto simp: matching_iff covered_def)
  then show "x \<in> provider_key ` fst ` set (matching_blocked_providers lookup (normalize_source_route_selector s) B)"
    by (metis fst_conv imageI)
qed

lemma merge_matches_distinct:
  "distinct (match_keys ms) \<Longrightarrow> distinct (match_keys (merge_matches ms r pks))"
  by (induction ms r pks rule: merge_matches.induct) (auto intro: distinct_match_keys_merge)

lemma merge_matches_keys:
  "set (match_keys (merge_matches ms r pks)) =
     set (match_keys ms) \<union> provider_key ` fst ` set pks"
  by (induction ms r pks rule: merge_matches.induct) auto

lemma merge_matches_justified:
  assumes "\<forall>m \<in> set ms. justified B S m" and "s \<in> S" and "r = normalize_source_route_selector s"
    and "\<forall>(p, k) \<in> set pks. p \<in> registered \<and> B p \<and> claims p (normalize_source_selector r) = Some k"
  shows "\<forall>m \<in> set (merge_matches ms r pks). justified B S m"
  using assms
proof (induction ms r pks rule: merge_matches.induct)
  case (2 ms r p k rest)
  have "justified B S m" if "m \<in> set (merge_source_selector_match ms r p k)" for m
    using merge_member [OF that]
  proof
    assume "m \<in> set ms"
    then show ?thesis using "2.prems"(1) by blast
  next
    assume m: "sm_route_selector m = r \<and> sm_kind m = k \<and> provider_key (sm_provider m) = provider_key p
       \<and> (sm_provider m = p \<or> sm_provider m \<in> sm_provider ` set ms)"
    then have "sm_provider m \<in> registered \<and> B (sm_provider m)"
      using "2.prems"(1,4) by (auto simp: justified_def)
    moreover have "p \<in> registered" "B p" "claims p (normalize_source_selector r) = Some k"
      using "2.prems"(4) by auto
    moreover have "sm_route_selector m = normalize_source_route_selector s"
      using m "2.prems"(3) by simp
    ultimately show ?thesis
      unfolding justified_def
      by (intro conjI bexI [of _ s] bexI [of _ p]) (use m "2.prems"(2) in simp_all)
  qed
  with "2.IH" "2.prems"(2-4) show ?case by simp
qed simp

lemma collect_loop_spec:
  assumes "distinct (match_keys ms)" and "\<forall>m \<in> set ms. justified B S m" and "set ss \<subseteq> S"
  shows "distinct (match_keys (collect_loop lookup B ss ms))
    \<and> (\<forall>m \<in> set (collect_loop lookup B ss ms). justified B S m)
    \<and> set (match_keys (collect_loop lookup B ss ms)) = set (match_keys ms) \<union> (\<Union>s \<in> set ss. covered B s)"
  using assms
proof (induction ss arbitrary: ms)
  case (Cons s ss)
  define r where "r = normalize_source_route_selector s"
  define ms' where "ms' = merge_matches ms r (matching_blocked_providers lookup r B)"
  have pks: "\<forall>(p, k) \<in> set (matching_blocked_providers lookup r B).
      p \<in> registered \<and> B p \<and> claims p (normalize_source_selector r) = Some k"
    using matching_iff by auto
  have "distinct (match_keys ms')" unfolding ms'_def
    using Cons.prems by (intro merge_matches_distinct)
  moreover have "\<forall>m \<in> set ms'. justified B S m" unfolding ms'_def
    using Cons.prems pks by (intro merge_matches_justified [where s = s]) (auto simp: r_def)
  moreover have "provider_key ` fst ` set (matching_blocked_providers lookup r B) = covered B s"
    unfolding r_def by (rule matching_keys)
  ultimately show ?case
    using Cons.IH [of ms'] Cons.prems by (auto simp: ms'_def r_def merge_matches_keys Let_def)
qed simp

lemmas collect_from_nothing = collect_loop_spec [of "[]", OF _ _ subset_refl, simplified match_keys_def]

end

interpretation hook_lookup: selector_lookup
  "providers_for_selector glob rt" "set (providers rt)" "match_source_selector glob" for glob rt
  by unfold_locales (rule providers_for_selector_sound)

text \<open>The second lookup of the registry, used for raw searches, obeys the same law.\<close>

definition claims_raw_search ::
  "glob_compiler \<Rightarrow> activated_provider \<Rightarrow> string \<Rightarrow> source_selector_kind option" where
  "claims_raw_search glob p selector =
     (let m = source_selector_matcher_new glob selector in
      if list_ex (is_ignored_by m) (p_ignored_path_prefixes p) then None
      else if glob_matches_source_selector p m
              \<or> (\<not> m_has_glob m \<and> package_roots_match_search_token p (m_normalized m))
      then Some (selector_kind_of m) else None)"

lemma providers_for_raw_search_selector_sound:
  "(p, k) \<in> set (providers_for_raw_search_selector glob rt s) \<longleftrightarrow>
     p \<in> set (providers rt) \<and> claims_raw_search glob p s = Some k"
  unfolding providers_for_raw_search_selector_def claims_raw_search_def Let_def map_filter_def
  by (force split: if_splits)

interpretation raw_search_lookup: selector_lookup
  "providers_for_raw_search_selector glob rt" "set (providers rt)" "claims_raw_search glob" for glob rt
  by unfold_locales (rule providers_for_raw_search_selector_sound)

lemma trim_start_chars_set: "set (trim_start_chars P s) \<subseteq> set s"
  unfolding trim_start_chars_def by (auto dest: set_dropWhileD)

definition is_dotted_atom :: "string \<Rightarrow> bool" where
  "is_dotted_atom e \<longleftrightarrow> (\<exists>a. e = ''.'' @ a \<and> is_source_extension_atom a)"

lemma strip_locators_fixed:
  "rsplit_once '':'' (strip_locators s) = Some (path, l) \<Longrightarrow> \<not> is_line_locator_suffix l"
proof (induction s rule: strip_locators.induct)
  case (1 base)
  show ?case
  proof (cases "rsplit_once '':'' base")
    case None
    then show ?thesis using 1 by (simp add: strip_locators.simps [of base])
  next
    case (Some pl)
    then obtain q k where pl: "rsplit_once '':'' base = Some (q, k)" by (cases pl) auto
    then have step: "strip_locators base = (if is_line_locator_suffix k then strip_locators q else base)"
      by (simp add: strip_locators.simps [of base])
    show ?thesis
    proof (cases "is_line_locator_suffix k")
      case True
      with 1 pl step show ?thesis by auto
    next
      case False
      with 1 pl step show ?thesis by simp
    qed
  qed
qed

lemma strip_locators_prefix: "prefix (strip_locators s) s"
proof (induction s rule: strip_locators.induct)
  case (1 base)
  show ?case
  proof (cases "rsplit_once '':'' base")
    case None
    then show ?thesis by (simp add: strip_locators.simps [of base])
  next
    case (Some pl)
    then obtain q k where pl: "rsplit_once '':'' base = Some (q, k)" by (cases pl) auto
    then have "prefix q base" using rsplit_once_Some by fastforce
    moreover have "prefix (strip_locators q) q" if "is_line_locator_suffix k"
      using 1 pl that by blast
    ultimately show ?thesis using pl prefix_order.order_trans
      by (simp add: strip_locators.simps [of base]) blast
  qed
qed

subsection \<open>Properties\<close>

text \<open>The matches of a command are one per provider identity, each backed by a selector of the
  command that a registered, blocked provider claims, and no provider the policy blocks is missed.\<close>

theorem selector_matches_exact:
  "let ms = collect_source_selector_matches glob rt selectors should_block;
       key = (\<lambda>m. provider_key (sm_provider m)) in
   distinct (map key ms)
   \<and> (\<forall>m \<in> set ms. sm_provider m \<in> set (providers rt) \<and> should_block (sm_provider m)
       \<and> (\<exists>s \<in> set selectors. \<exists>q \<in> set (providers rt).
            sm_route_selector m = normalize_source_route_selector s
            \<and> provider_key q = key m \<and> should_block q
            \<and> match_source_selector glob q (normalize_source_selector (sm_route_selector m))
                = Some (sm_kind m)))
   \<and> (\<forall>s \<in> set selectors. \<forall>p \<in> set (providers rt). should_block p \<longrightarrow>
        match_source_selector glob p
          (normalize_source_selector (normalize_source_route_selector s)) \<noteq> None \<longrightarrow>
        (\<exists>m \<in> set ms. key m = provider_key p))"
proof -
  let ?ms = "collect_source_selector_matches glob rt selectors should_block"
  have spec: "distinct (match_keys ?ms)"
    "\<forall>m \<in> set ?ms. hook_lookup.justified rt glob should_block (set selectors) m"
    "set (match_keys ?ms) = (\<Union>s \<in> set selectors. hook_lookup.covered rt glob should_block s)"
    using hook_lookup.collect_loop_spec [of "[]" rt glob should_block "set selectors" selectors]
    by (simp_all add: collect_source_selector_matches_def match_keys_def)
  have "\<exists>m \<in> set ?ms. provider_key (sm_provider m) = provider_key p"
    if "s \<in> set selectors" "p \<in> set (providers rt)" "should_block p"
      "match_source_selector glob p
          (normalize_source_selector (normalize_source_route_selector s)) \<noteq> None" for s p
  proof -
    have "provider_key p \<in> hook_lookup.covered rt glob should_block s"
      using that by (auto simp: hook_lookup.covered_def)
    then have "provider_key p \<in> set (match_keys ?ms)" using that spec by blast
    then show ?thesis by (auto simp: match_keys_def)
  qed
  moreover have "distinct (map (\<lambda>m. provider_key (sm_provider m)) ?ms)"
    using spec(1) by (simp add: match_keys_def)
  ultimately show ?thesis
    using spec(2) unfolding Let_def hook_lookup.justified_def by blast
qed

theorem selector_matches_exact_witness:
  "\<exists>m \<in> set (collect_source_selector_matches literal_glob demo_runtime [''crates/a/src/lib.rs:3-9'']
       (\<lambda>p. blocks_direct_source_read (p_policy p))). provider_key (sm_provider m) = (''rust'', ''rs-harness'')"
proof -
  have p: "demo_provider \<in> set (providers demo_runtime)" by (simp add: demo_runtime_def)
  have b: "blocks_direct_source_read (p_policy demo_provider)" by code_simp
  have m: "match_source_selector literal_glob demo_provider
      (normalize_source_selector (normalize_source_route_selector ''crates/a/src/lib.rs:3-9'')) \<noteq> None"
    by code_simp
  have k: "provider_key demo_provider = (''rust'', ''rs-harness'')" by code_simp
  show ?thesis
    using selector_matches_exact [of literal_glob demo_runtime "[''crates/a/src/lib.rs:3-9'']"
        "\<lambda>p. blocks_direct_source_read (p_policy p)"] p b m k
    unfolding Let_def by (metis list.set_intros(1))
qed

text \<open>Reading extensions out of a command word only appends well-formed ones: a dot and a
  non-empty alphanumeric atom, whatever quoting, globbing or braces the word carries.\<close>

theorem pushed_extensions_well_formed:
  "\<exists>new. push_source_extension extensions token allow_bare = extensions @ new
     \<and> list_all is_dotted_atom new"
proof -
  define clean where "clean = to_ascii_lowercase
      (trim_start_chars (\<lambda>c. c = CHR ''*'')
        (trim_chars (\<lambda>c. c \<in> {CHR 0x27, CHR 0x22, CHR '','', CHR '';''}) token))"
  define bare where "bare = trim_end_chars (\<lambda>c. c = CHR ''}'')
      (trim_start_chars (\<lambda>c. c = CHR ''{'') clean)"
  have step: "push_source_extension extensions token allow_bare =
      (case brace_group clean of
         Some atoms \<Rightarrow> extensions @ map (\<lambda>e. ''.'' @ e) (filter is_source_extension_atom atoms)
       | None \<Rightarrow>
           if allow_bare \<and> is_source_extension_atom bare then extensions @ [''.'' @ bare]
           else (case rsplit_once ''.'' bare of
                   None \<Rightarrow> extensions
                 | Some (_, e0) \<Rightarrow>
                     (let e = trim_end_chars (\<lambda>c. c = CHR ''}'') e0
                      in if is_source_extension_atom e then extensions @ [''.'' @ e]
                         else extensions)))"
    by (simp only: push_source_extension_def Let_def clean_def bare_def)
  show ?thesis
  proof (cases "brace_group clean")
    case (Some atoms)
    then show ?thesis by (simp add: step list_all_iff is_dotted_atom_def)
  next
    case None
    then show ?thesis
      by (auto simp: step Let_def is_dotted_atom_def split: option.split)
  qed
qed

text \<open>The base of a selector carries no line locator any more, and is a prefix of the normalised
  selector, so two selectors with the same base name the same file.\<close>

theorem selector_base_has_no_locator:
  "prefix (source_selector_base s) (normalize_source_selector s)
   \<and> (case rsplit_once '':'' (source_selector_base s) of
        None \<Rightarrow> True | Some (path, l) \<Rightarrow> \<not> is_line_locator_suffix l)"
  using strip_locators_fixed [of "normalize_source_selector s"] strip_locators_prefix
  by (auto simp: source_selector_base_def split: option.split)

end
