(* ===== verification/SourceRange.thy ===== *)
theory SourceRange
  imports Shell SourceSelector
begin

section \<open>Line ranges and source paths of a command\<close>

text \<open>
  Models \<open>crates/agent-semantic-hook/src/source_dump_range.rs\<close> (which lines of which files a
  \<open>sed\<close>, \<open>awk\<close>, \<open>head\<close> or \<open>tail\<close> pipeline would print) and
  \<open>command/provider_candidates.rs\<close> (the path-like fragments of a command).  Each extractor of
  \<open>source_dump_range.rs\<close> tokenizes the command itself; the tokenizer is pure, so the extractors
  here take the token vector and \<open>line_range_source_paths\<close> tokenizes once.  All matched characters
  are ASCII, hence scanning bytes is scanning characters.
\<close>

subsection \<open>Paths inside a word\<close>

definition is_quote_byte :: "char \<Rightarrow> bool" where
  "is_quote_byte c \<longleftrightarrow> c \<in> {CHR 0x27, CHR 0x22, CHR 0x60}"

definition source_extensions_known :: "string list" where
  "source_extensions_known =
     [''.rs'', ''.py'', ''.ts'', ''.tsx'', ''.js'', ''.jsx'', ''.mts'', ''.cts'', ''.mjs'',
      ''.cjs'', ''.jl'']"

definition source_extension :: "string \<Rightarrow> string option" where
  "source_extension path =
     find (\<lambda>e. ends_with path e \<or> str_contains path (e @ '':'')) source_extensions_known"

definition is_ranged_path_candidate :: "string \<Rightarrow> bool" where
  "is_ranged_path_candidate path0 =
     (let path = trim_chars is_quote_byte path0
      in path \<noteq> [] \<and> source_extension path \<noteq> None)"

definition is_exact_source_path_selector :: "string \<Rightarrow> bool" where
  "is_exact_source_path_selector path \<longleftrightarrow>
     CHR ''*'' \<notin> set path \<and> CHR ''{'' \<notin> set path \<and> CHR ''['' \<notin> set path"

text \<open>The maximal runs of accepted bytes, in order; a run is offered when it ends.\<close>

fun accepted_runs :: "(char \<Rightarrow> bool) \<Rightarrow> string \<Rightarrow> string \<Rightarrow> string list" where
  "accepted_runs ok current [] = [current]"
| "accepted_runs ok current (c # cs) =
     (if ok c then accepted_runs ok (current @ [c]) cs
      else current # accepted_runs ok [] cs)"

definition ranged_path_byte :: "char \<Rightarrow> bool" where
  "ranged_path_byte c \<longleftrightarrow> is_ascii_alphanumeric c \<or> c \<in> set ''/._-*:~[]{}''"

definition ranged_path_candidates :: "string \<Rightarrow> string list" where
  "ranged_path_candidates token =
     extend_unique [] (filter is_ranged_path_candidate (accepted_runs ranged_path_byte [] token))"

subsection \<open>Counts and ranges\<close>

definition parse_sed_line_range :: "string \<Rightarrow> (nat \<times> nat) option" where
  "parse_sed_line_range token0 =
     (let token = trim_chars (\<lambda>c. c \<in> {CHR 0x27, CHR 0x22}) token0;
          body = (case strip_suffix ''p'' token of Some b \<Rightarrow> b | None \<Rightarrow> token)
      in case split_once '','' body of
           None \<Rightarrow> None
         | Some (start, stop) \<Rightarrow>
             (case parse_usize start of
                None \<Rightarrow> None
              | Some start_line \<Rightarrow>
                  (case parse_usize stop of
                     None \<Rightarrow> None
                   | Some end_line \<Rightarrow>
                       if start_line = 0 \<or> end_line = 0 then None
                       else Some (min start_line end_line, max start_line end_line))))"

definition is_named :: "string list \<Rightarrow> string set \<Rightarrow> bool" where
  "is_named tokens names = (case tokens of [] \<Rightarrow> False | token # _ \<Rightarrow> token \<in> names)"

definition parse_sed_tokens_line_range :: "string list \<Rightarrow> (nat \<times> nat) option" where
  "parse_sed_tokens_line_range tokens =
     (if \<not> is_named tokens {''sed'', ''gsed''} then None
      else find_map parse_sed_line_range (drop 1 tokens))"

definition number_after :: "string \<Rightarrow> string \<Rightarrow> nat option" where
  "number_after haystack marker =
     (case split_once marker haystack of
        None \<Rightarrow> None
      | Some (_, rest) \<Rightarrow> parse_usize (takeWhile is_ascii_digit rest))"

definition parse_awk_nr_line_range :: "string \<Rightarrow> (nat \<times> nat) option" where
  "parse_awk_nr_line_range command =
     (let compact = filter (\<lambda>c. \<not> is_ascii_whitespace c) command in
      case number_after compact ''NR=='' of
        Some line \<Rightarrow> Some (line, line)
      | None \<Rightarrow>
          (case or_else (number_after compact ''NR>='')
                  (map_option (\<lambda>line. usize_add line 1) (number_after compact ''NR>'')) of
             None \<Rightarrow> None
           | Some start_line \<Rightarrow>
               (case or_else (number_after compact ''NR<='')
                       (case number_after compact ''NR<'' of
                          None \<Rightarrow> None
                        | Some line \<Rightarrow> if 1 \<le> line then Some (line - 1) else None) of
                  None \<Rightarrow> None
                | Some end_line \<Rightarrow>
                    if start_line = 0 \<or> end_line = 0 then None
                    else Some (min start_line end_line, max start_line end_line))))"

definition parse_count_option :: "string list \<Rightarrow> nat \<Rightarrow> (nat \<times> nat) option" where
  "parse_count_option tokens start_index =
     (case get_at tokens start_index of
        None \<Rightarrow> None
      | Some opt \<Rightarrow>
          (case strip_prefix ''-n'' opt of
             Some count \<Rightarrow>
               if count = [] then
                 (case get_at tokens (start_index + 1) of
                    None \<Rightarrow> None
                  | Some value \<Rightarrow>
                      map_option (\<lambda>n. (n, start_index + 2)) (parse_usize value))
               else map_option (\<lambda>n. (n, start_index + 1)) (parse_usize count)
           | None \<Rightarrow>
               if starts_with opt ''-'' \<and> list_all is_ascii_digit (drop 1 opt)
               then map_option (\<lambda>n. (n, start_index + 1)) (parse_usize (drop 1 opt))
               else None))"

definition parse_signed_count_option :: "string list \<Rightarrow> nat \<Rightarrow> string \<Rightarrow> (nat \<times> nat) option" where
  "parse_signed_count_option tokens start_index sign =
     (case get_at tokens start_index of
        None \<Rightarrow> None
      | Some opt \<Rightarrow>
          (case strip_prefix ''-n'' opt of
             Some count \<Rightarrow>
               if count = [] then
                 (case get_at tokens (start_index + 1) of
                    None \<Rightarrow> None
                  | Some value \<Rightarrow>
                      (case strip_prefix sign value of
                         None \<Rightarrow> None
                       | Some digits \<Rightarrow> map_option (\<lambda>n. (n, start_index + 2)) (parse_usize digits)))
               else (case strip_prefix sign count of
                       None \<Rightarrow> None
                     | Some digits \<Rightarrow> map_option (\<lambda>n. (n, start_index + 1)) (parse_usize digits))
           | None \<Rightarrow>
               (case strip_prefix sign opt of
                  None \<Rightarrow> None
                | Some digits \<Rightarrow> map_option (\<lambda>n. (n, start_index + 1)) (parse_usize digits))))"

definition parse_head_line_count :: "string list \<Rightarrow> (nat \<times> nat) option" where
  "parse_head_line_count tokens =
     (if \<not> is_named tokens {''head'', ''ghead''} then None else parse_count_option tokens 1)"

definition parse_tail_line_count :: "string list \<Rightarrow> (nat \<times> nat) option" where
  "parse_tail_line_count tokens =
     (if \<not> is_named tokens {''tail'', ''gtail''} then None
      else (case parse_count_option tokens 1 of
              None \<Rightarrow> None
            | Some (count, index) \<Rightarrow> if count = 0 then None else Some (count, index)))"

definition parse_tail_start_line :: "string list \<Rightarrow> (nat \<times> nat) option" where
  "parse_tail_start_line tokens =
     (if \<not> is_named tokens {''tail'', ''gtail''} then None
      else (case parse_signed_count_option tokens 1 ''+'' of
              None \<Rightarrow> None
            | Some (start_line, index) \<Rightarrow>
                if start_line = 0 then None else Some (start_line, index)))"

subsection \<open>Paths named by raw tokens\<close>

text \<open>A word that ends in a backslash continues, after a blank, with the next word.\<close>

fun join_escaped :: "string \<Rightarrow> string list \<Rightarrow> nat \<Rightarrow> string \<times> nat" where
  "join_escaped token [] consumed = (token, consumed)"
| "join_escaped token (next_token # rest) consumed =
     (if ends_with token [CHR 0x5C]
      then join_escaped (butlast token @ '' '' @ next_token) rest (consumed + 1)
      else (token, consumed))"

definition unescape_joined_path_token :: "string list \<Rightarrow> nat \<Rightarrow> string \<times> nat" where
  "unescape_joined_path_token tokens start_index =
     join_escaped (tokens ! start_index) (drop (start_index + 1) tokens) 1"

lemma join_escaped_consumes: "consumed \<le> snd (join_escaped token rest consumed)"
  by (induction token rest consumed rule: join_escaped.induct) auto

lemma unescape_consumes: "0 < snd (unescape_joined_path_token tokens i)"
  using join_escaped_consumes [of 1 "tokens ! i" "drop (i + 1) tokens"]
  by (simp add: unescape_joined_path_token_def)

function raw_token_paths :: "string list \<Rightarrow> nat \<Rightarrow> string list \<Rightarrow> string list" where
  "raw_token_paths tokens token_index paths =
     (if length tokens \<le> token_index then paths
      else if starts_with (tokens ! token_index) ''-''
              \<or> parse_sed_line_range (tokens ! token_index) \<noteq> None
      then raw_token_paths tokens (token_index + 1) paths
      else
        (let joined = unescape_joined_path_token tokens token_index;
             token = trim_chars is_quote_byte (fst joined)
         in raw_token_paths tokens (token_index + snd joined)
              (if is_ranged_path_candidate token then push_unique paths token
               else extend_unique paths (ranged_path_candidates token))))"
  by pat_completeness auto
termination
proof (relation "measure (\<lambda>(tokens, i, paths). length tokens - i)", goal_cases)
  case (3 tokens i paths joined token)
  then show ?case using unescape_consumes [of tokens i] by simp
qed auto

declare raw_token_paths.simps [simp del]

definition source_paths_from_raw_tokens :: "string list \<Rightarrow> string list" where
  "source_paths_from_raw_tokens tokens = raw_token_paths tokens 0 []"

definition ranged_path :: "string \<Rightarrow> nat \<Rightarrow> nat \<Rightarrow> string" where
  "ranged_path path start_line end_line =
     path @ '':'' @ show_nat start_line @ '':'' @ show_nat end_line"

definition append_ranged_source_paths ::
  "string list \<Rightarrow> string list \<Rightarrow> nat \<Rightarrow> nat \<Rightarrow> string list" where
  "append_ranged_source_paths paths source_paths start_line end_line =
     extend_unique paths (map (\<lambda>path. ranged_path path start_line end_line)
       (filter is_exact_source_path_selector source_paths))"

subsection \<open>The extractors\<close>

text \<open>\<open>split(|token| token == "|")\<close> on the token vector, empty segments dropped.\<close>

fun split_tokens :: "string list \<Rightarrow> string list list" where
  "split_tokens [] = [[]]"
| "split_tokens (t # ts) =
     (if t = ''|'' then [] # split_tokens ts
      else (case split_tokens ts of [] \<Rightarrow> [[t]] | s # ss \<Rightarrow> (t # s) # ss))"

definition pipeline_segments :: "string list \<Rightarrow> string list list" where
  "pipeline_segments tokens = filter (\<lambda>s. s \<noteq> []) (split_tokens tokens)"

definition piped_sed_line_range_source_paths :: "string list \<Rightarrow> string list" where
  "piped_sed_line_range_source_paths raw_tokens =
     (let segments = pipeline_segments raw_tokens in
      if length segments < 2 then []
      else (case find_map parse_sed_tokens_line_range (rev segments) of
              None \<Rightarrow> []
            | Some (start_line, end_line) \<Rightarrow>
                fold (\<lambda>segment paths. append_ranged_source_paths paths
                        (source_paths_from_raw_tokens segment) start_line end_line)
                  (take (length segments - 1) segments) []))"

definition sed_line_range_source_paths :: "string list \<Rightarrow> string list" where
  "sed_line_range_source_paths raw_tokens =
     (if \<not> is_named raw_tokens {''sed'', ''gsed''} then []
      else (case find_map parse_sed_line_range (drop 1 raw_tokens) of
              None \<Rightarrow> []
            | Some (start_line, end_line) \<Rightarrow>
                append_ranged_source_paths []
                  (source_paths_from_raw_tokens (drop 1 raw_tokens)) start_line end_line))"

definition awk_line_range_source_paths :: "string \<Rightarrow> string list \<Rightarrow> string list" where
  "awk_line_range_source_paths command raw_tokens =
     (if \<not> is_named raw_tokens {''awk'', ''gawk''} then []
      else (case parse_awk_nr_line_range command of
              None \<Rightarrow> []
            | Some (start_line, end_line) \<Rightarrow>
                append_ranged_source_paths []
                  (source_paths_from_raw_tokens (drop 1 raw_tokens)) start_line end_line))"

definition head_line_range_source_paths :: "string list \<Rightarrow> string list" where
  "head_line_range_source_paths raw_tokens =
     (case parse_head_line_count raw_tokens of
        None \<Rightarrow> []
      | Some (line_count, token_index) \<Rightarrow>
          append_ranged_source_paths []
            (source_paths_from_raw_tokens (drop token_index raw_tokens)) 1 line_count)"

definition head_tail_line_range_source_paths :: "string list \<Rightarrow> string list" where
  "head_tail_line_range_source_paths raw_tokens =
     (case pipeline_segments raw_tokens of
        [head_tokens, tail_tokens] \<Rightarrow>
          (case parse_head_line_count head_tokens of
             None \<Rightarrow> []
           | Some (head_count, head_path_index) \<Rightarrow>
               (case parse_tail_line_count tail_tokens of
                  None \<Rightarrow> []
                | Some (tail_count, _) \<Rightarrow>
                    if tail_count > head_count then []
                    else append_ranged_source_paths []
                           (source_paths_from_raw_tokens (drop head_path_index head_tokens))
                           (usize_add (usize_sub head_count tail_count) 1) head_count))
      | _ \<Rightarrow> [])"

definition tail_head_line_range_source_paths :: "string list \<Rightarrow> string list" where
  "tail_head_line_range_source_paths raw_tokens =
     (case pipeline_segments raw_tokens of
        [tail_tokens, head_tokens] \<Rightarrow>
          (case parse_tail_start_line tail_tokens of
             None \<Rightarrow> []
           | Some (start_line, tail_path_index) \<Rightarrow>
               (case parse_head_line_count head_tokens of
                  None \<Rightarrow> []
                | Some (head_count, _) \<Rightarrow>
                    append_ranged_source_paths []
                      (source_paths_from_raw_tokens (drop tail_path_index tail_tokens))
                      start_line (usize_sub (usize_add start_line head_count) 1)))
      | _ \<Rightarrow> [])"

definition could_contain_line_range_source_command :: "string \<Rightarrow> bool" where
  "could_contain_line_range_source_command command \<longleftrightarrow>
     str_contains command ''sed'' \<or> str_contains command ''awk''
     \<or> str_contains command ''head'' \<or> str_contains command ''tail''"

text \<open>The first extractor that finds paths wins.\<close>

definition line_range_paths_of_tokens :: "string \<Rightarrow> string list \<Rightarrow> string list" where
  "line_range_paths_of_tokens command tokens =
     (case find (\<lambda>paths. paths \<noteq> [])
        [piped_sed_line_range_source_paths tokens, sed_line_range_source_paths tokens,
         awk_line_range_source_paths command tokens, head_tail_line_range_source_paths tokens,
         tail_head_line_range_source_paths tokens, head_line_range_source_paths tokens] of
        Some paths \<Rightarrow> paths
      | None \<Rightarrow> [])"

definition line_range_source_paths :: "bash_parser \<Rightarrow> string \<Rightarrow> string list shell_result" where
  "line_range_source_paths parse command =
     (if \<not> could_contain_line_range_source_command command then Inr []
      else shell_bind (semantic_shell_tokens parse command)
             (\<lambda>tokens. Inr (line_range_paths_of_tokens command tokens)))"

subsection \<open>Path-like words of a command\<close>

definition may_contain_path_like_fragment :: "string \<Rightarrow> bool" where
  "may_contain_path_like_fragment token \<longleftrightarrow> list_ex (\<lambda>c. c \<in> set ''/.*?{}[]:@'') token"

definition is_path_like_token :: "string \<Rightarrow> bool" where
  "is_path_like_token token \<longleftrightarrow>
     \<not> starts_with token ''-'' \<and> \<not> is_separator token
     \<and> (CHR ''/'' \<in> set token \<or> CHR ''.'' \<in> set token \<or> CHR ''*'' \<in> set token)"

definition is_path_fragment_character :: "char \<Rightarrow> bool" where
  "is_path_fragment_character c \<longleftrightarrow> is_ascii_alphanumeric c \<or> c \<in> set ''/._-*?{}[]:@''"

definition embedded_path_like_segments :: "string \<Rightarrow> string list" where
  "embedded_path_like_segments token =
     filter (\<lambda>s. s \<noteq> []) (accepted_runs is_path_fragment_character [] token)"

definition is_embedded_path_like_segment :: "string \<Rightarrow> bool" where
  "is_embedded_path_like_segment segment \<longleftrightarrow>
     is_path_like_token segment \<and> (\<not> starts_with segment ''.'' \<or> starts_with segment ''../'')"

text \<open>
  \<open>path_like_token_matches\<close> offers these fragments to its callback, in order, until it accepts one.
\<close>

definition path_like_fragments :: "string \<Rightarrow> string list" where
  "path_like_fragments token =
     (if \<not> may_contain_path_like_fragment token then []
      else
        (let normalized = normalize_source_route_selector token;
             embedded = filter is_embedded_path_like_segment
               (map normalize_source_route_selector (embedded_path_like_segments token))
         in if is_path_like_token normalized
            then normalized # (if normalized \<noteq> token then [] else embedded)
            else embedded))"

definition path_like_token_matches :: "string \<Rightarrow> (string \<Rightarrow> bool) \<Rightarrow> bool" where
  "path_like_token_matches token accept \<longleftrightarrow> list_ex accept (path_like_fragments token)"

definition path_like_tokens :: "string list \<Rightarrow> string list" where
  "path_like_tokens tokens = fold (\<lambda>token paths. extend_unique paths (path_like_fragments token)) tokens []"

definition looks_like_code_call_token :: "string \<Rightarrow> bool" where
  "looks_like_code_call_token token \<longleftrightarrow> CHR ''('' \<in> set token \<or> CHR '')'' \<in> set token"

definition is_embedded_source_path_candidate :: "string \<Rightarrow> bool" where
  "is_embedded_source_path_candidate candidate \<longleftrightarrow>
     \<not> starts_with candidate ''-''
     \<and> (CHR ''/'' \<in> set candidate \<or> CHR ''*'' \<in> set candidate) \<and> CHR ''.'' \<in> set candidate"

definition embedded_source_path_candidates :: "string \<Rightarrow> string list" where
  "embedded_source_path_candidates token =
     extend_unique [] (filter is_embedded_source_path_candidate
       (accepted_runs (\<lambda>c. is_ascii_alphanumeric c \<or> c \<in> set ''/._-*:~'') [] token))"

definition push_command_source_path :: "string list \<Rightarrow> string \<Rightarrow> string list" where
  "push_command_source_path paths token =
     (if list_ex (\<lambda>c. c \<in> set ''{}[]?'') token then push_unique paths token
      else
        (let embedded = embedded_source_path_candidates token in
         if embedded = [] then
           (if \<not> looks_like_code_call_token token then push_unique paths token else paths)
         else extend_unique paths embedded))"

definition source_path_without_line_range :: "string \<Rightarrow> string option" where
  "source_path_without_line_range path =
     (case rsplit_once '':'' path of
        None \<Rightarrow> None
      | Some (base, tail) \<Rightarrow>
          if list_all is_ascii_digit tail then
            (case rsplit_once '':'' base of
               None \<Rightarrow> None
             | Some (base', start) \<Rightarrow> if list_all is_ascii_digit start then Some base' else None)
          else
            (case split_once ''-'' tail of
               None \<Rightarrow> None
             | Some (start, stop) \<Rightarrow>
                 if start \<noteq> [] \<and> stop \<noteq> [] \<and> list_all is_ascii_digit start
                    \<and> list_all is_ascii_digit stop
                 then Some base else None))"

definition with_base_paths :: "string list \<Rightarrow> string list" where
  "with_base_paths range_paths =
     extend_unique range_paths (List.map_filter source_path_without_line_range range_paths)"

definition command_source_paths ::
  "bash_parser \<Rightarrow> string \<Rightarrow> string list \<Rightarrow> string list shell_result" where
  "command_source_paths parse command tokens =
     shell_bind (line_range_source_paths parse command)
       (\<lambda>range_paths. Inr
         (if range_paths \<noteq> [] then with_base_paths range_paths
          else fold (\<lambda>token paths. fold (\<lambda>f acc. push_command_source_path acc f)
                       (path_like_fragments token) paths) tokens []))"

definition push_provider_once :: "activated_provider list \<Rightarrow> activated_provider \<Rightarrow> activated_provider list" where
  "push_provider_once ps p =
     (if list_ex (\<lambda>existing. p_language_id existing = p_language_id p) ps then ps else ps @ [p])"

subsection \<open>Lemmas\<close>

lemma ranged_path_base [simp]: "source_path_without_line_range (ranged_path p s e) = Some p"
proof -
  have d: "CHR '':'' \<notin> set (show_nat n)" for n
    by (rule show_nat_excludes) (simp add: is_ascii_digit_def)
  have "rsplit_once '':'' ((p @ '':'' @ show_nat s) @ CHR '':'' # show_nat e) =
      Some (p @ '':'' @ show_nat s, show_nat e)"
    by (rule rsplit_once_char) (rule d)
  moreover have "rsplit_once '':'' (p @ CHR '':'' # show_nat s) = Some (p, show_nat s)"
    by (rule rsplit_once_char) (rule d)
  ultimately show ?thesis
    by (simp add: source_path_without_line_range_def ranged_path_def show_nat_digits)
qed

definition is_ranged :: "string \<Rightarrow> bool" where
  "is_ranged r \<longleftrightarrow> (\<exists>p s e. r = ranged_path p s e \<and> is_exact_source_path_selector p)"

definition good_ranges :: "string list \<Rightarrow> bool" where
  "good_ranges rs \<longleftrightarrow> distinct rs \<and> (\<forall>r \<in> set rs. is_ranged r)"

lemma good_ranges_Nil [simp]: "good_ranges []"
  by (simp add: good_ranges_def)

lemma good_ranges_append [intro]:
  "good_ranges paths \<Longrightarrow> good_ranges (append_ranged_source_paths paths sources s e)"
  by (auto simp: good_ranges_def append_ranged_source_paths_def is_ranged_def)

lemma good_ranges_fold:
  "good_ranges paths \<Longrightarrow>
     good_ranges (fold (\<lambda>seg paths. append_ranged_source_paths paths (f seg) s e) segs paths)"
  by (induction segs arbitrary: paths) auto

lemma good_ranges_extractors:
  "good_ranges (piped_sed_line_range_source_paths ts)"
  "good_ranges (sed_line_range_source_paths ts)"
  "good_ranges (awk_line_range_source_paths command ts)"
  "good_ranges (head_line_range_source_paths ts)"
  "good_ranges (head_tail_line_range_source_paths ts)"
  "good_ranges (tail_head_line_range_source_paths ts)"
  by (auto simp: piped_sed_line_range_source_paths_def sed_line_range_source_paths_def
      awk_line_range_source_paths_def head_line_range_source_paths_def
      head_tail_line_range_source_paths_def tail_head_line_range_source_paths_def Let_def
      intro!: good_ranges_fold split: option.splits list.splits)

lemma good_ranges_tokens: "good_ranges (line_range_paths_of_tokens command ts)"
  by (auto simp: line_range_paths_of_tokens_def good_ranges_extractors split: option.splits)

lemma good_ranges_command:
  "line_range_source_paths parse command = Inr rs \<Longrightarrow> good_ranges rs"
  by (auto simp: line_range_source_paths_def shell_bind_def good_ranges_tokens
      split: if_splits sum.splits)

lemma is_named_Cons [simp]: "is_named (t # ts) names \<longleftrightarrow> t \<in> names"
  by (simp add: is_named_def)

lemma parse_usize_plus:
  "n \<le> usize_max \<Longrightarrow> parse_usize (CHR ''+'' # show_nat n) = Some n"
  using parse_usize_show [of n] show_nat_digits [of n] by (simp add: parse_usize_def)

lemma option_word [simp]: "strip_prefix ''-n'' ''-n'' = Some []"
  by (simp add: strip_prefix_def)

lemma parse_count_n:
  "parse_count_option [name, ''-n'', value] (Suc 0) = map_option (\<lambda>n. (n, 3)) (parse_usize value)"
  by (simp add: parse_count_option_def get_at_def numeral_3_eq_3)

text \<open>\<open>tail -n +k\<close> starts at line \<open>k\<close>, but is read as the count \<open>k\<close>.\<close>

lemma tail_start_read_as_count:
  assumes "1 \<le> k" and "k \<le> usize_max"
  shows "parse_tail_line_count [''tail'', ''-n'', CHR ''+'' # show_nat k] = Some (k, 3)"
    and "parse_tail_line_count [''tail'', ''-n'', show_nat k] = Some (k, 3)"
  using assms by (simp_all add: parse_tail_line_count_def parse_count_n parse_usize_plus parse_usize_show)

text \<open>\<open>head -n 0\<close> yields the empty range \<open>1:0\<close> instead of no path.\<close>

lemma head_zero_range:
  "head_line_range_source_paths [''head'', ''-n'', ''0'', ''a.rs''] = [''a.rs:1:0'']"
  by code_simp

lemma awk_zero_line: "parse_awk_nr_line_range ''awk NR==0 a.rs'' = Some (0, 0)"
proof -
  have "filter (\<lambda>c. \<not> is_ascii_whitespace c) ''awk NR==0 a.rs'' = ''awkNR==0a.rs''"
    and "number_after ''awkNR==0a.rs'' ''NR=='' = Some 0" by code_simp+
  then show ?thesis by (simp only: parse_awk_nr_line_range_def Let_def option.case)
qed

subsection \<open>Properties\<close>

text \<open>When a command prints line ranges, the source paths of the command are those ranged
  paths, each followed up by the bare path it abbreviates, without duplicates.\<close>

theorem command_paths_cover_ranges:
  assumes "line_range_source_paths parse command = Inr rs" and "rs \<noteq> []"
  shows "\<exists>paths. command_source_paths parse command tokens = Inr paths \<and> distinct paths
    \<and> (\<forall>r \<in> set rs. \<exists>p s e. r = ranged_path p s e \<and> is_exact_source_path_selector p
         \<and> r \<in> set paths \<and> p \<in> set paths)
    \<and> (\<forall>q \<in> set paths. q \<in> set rs \<or> (\<exists>s e. ranged_path q s e \<in> set rs))"
proof -
  have good: "good_ranges rs" using assms(1) by (rule good_ranges_command)
  let ?paths = "with_base_paths rs"
  have "command_source_paths parse command tokens = Inr ?paths"
    using assms by (simp add: command_source_paths_def shell_bind_def)
  moreover have "distinct ?paths" using good by (simp add: with_base_paths_def good_ranges_def)
  moreover have set_paths: "set ?paths = set rs \<union> {p. \<exists>r \<in> set rs. source_path_without_line_range r = Some p}"
    by (simp add: with_base_paths_def set_map_filter_Some)
  moreover have "\<exists>p s e. r = ranged_path p s e \<and> is_exact_source_path_selector p
         \<and> r \<in> set ?paths \<and> p \<in> set ?paths" if r: "r \<in> set rs" for r
  proof -
    obtain p s e where "r = ranged_path p s e" "is_exact_source_path_selector p"
      using good r by (auto simp: good_ranges_def is_ranged_def)
    moreover from this r have "p \<in> set ?paths"
      unfolding set_paths by (auto intro: bexI [of _ "ranged_path p s e"])
    moreover from r have "r \<in> set ?paths" unfolding set_paths by simp
    ultimately show ?thesis by blast
  qed
  moreover have "q \<in> set rs \<or> (\<exists>s e. ranged_path q s e \<in> set rs)" if "q \<in> set ?paths" for q
  proof -
    from that set_paths have "q \<in> set rs \<or> (\<exists>r \<in> set rs. source_path_without_line_range r = Some q)"
      by blast
    then show ?thesis
    proof
      assume "\<exists>r \<in> set rs. source_path_without_line_range r = Some q"
      then obtain r where r: "r \<in> set rs" "source_path_without_line_range r = Some q" by blast
      then obtain p s e where "r = ranged_path p s e"
        using good by (auto simp: good_ranges_def is_ranged_def)
      with r have "ranged_path q s e \<in> set rs" by simp
      then show ?thesis by blast
    qed simp
  qed
  ultimately show ?thesis by blast
qed

theorem command_paths_cover_ranges_witness:
  "\<exists>paths. command_source_paths one_word_grammar ''sed -n 3,9p src/lib.rs'' [] = Inr paths
     \<and> ''src/lib.rs:3:9'' \<in> set paths"
proof -
  have "line_range_source_paths one_word_grammar ''sed -n 3,9p src/lib.rs'' = Inr [''src/lib.rs:3:9'']"
    by code_simp
  from command_paths_cover_ranges [OF this, of "[]"] show ?thesis by auto
qed

text \<open>Reading a sed range inverts printing it: for any two positive line numbers, in either
  order, quoted or not, the parsed range is the ordered pair.\<close>

theorem sed_range_roundtrip:
  assumes "1 \<le> a" and "a \<le> usize_max" and "1 \<le> b" and "b \<le> usize_max"
  shows "parse_sed_line_range (show_nat a @ '','' @ show_nat b @ ''p'') = Some (min a b, max a b)"
proof -
  let ?t = "show_nat a @ '','' @ show_nat b @ ''p''"
  let ?q = "\<lambda>c. c \<in> {CHR 0x27, CHR 0x22}"
  obtain c cs where s: "show_nat a = c # cs" by (cases "show_nat a") auto
  then have "is_ascii_digit c" using show_nat_digits [of a] by simp
  then have "\<not> ?q (hd ?t)" using s by (auto simp: is_ascii_digit_def)
  moreover have "\<not> ?q (last ?t)" by simp
  ultimately have trim: "trim_chars ?q ?t = ?t" by (intro trim_chars_id) simp_all
  have strip: "strip_suffix ''p'' ?t = Some (show_nat a @ '','' @ show_nat b)"
    by (simp add: strip_suffix_Some_iff)
  have comma: "CHR '','' \<notin> set (show_nat a)"
    by (rule show_nat_excludes) (simp add: is_ascii_digit_def)
  have split: "split_once '','' (show_nat a @ '','' @ show_nat b) = Some (show_nat a, show_nat b)"
    using split_once_char [OF comma, of "show_nat b"] by simp
  show ?thesis
    unfolding parse_sed_line_range_def Let_def trim strip
    using assms split by (simp add: parse_usize_show)
qed

theorem sed_range_roundtrip_witness:
  "parse_sed_line_range (show_nat 12 @ '','' @ show_nat 3 @ ''p'') = Some (3, 12)"
  using sed_range_roundtrip [of 12 3] by (simp add: usize_max_def)

text \<open>\<open>head -n n F | tail -n k\<close> is read as the last \<open>k\<close> of the first \<open>n\<close> lines: the range
  ends at \<open>n\<close>, starts at line one or later, holds exactly \<open>k\<close> lines, and no subtraction wraps.\<close>

theorem head_tail_is_last_lines:
  assumes "pipeline_segments tokens = [head_tokens, tail_tokens]"
    and "parse_head_line_count head_tokens = Some (n, i)"
    and "parse_tail_line_count tail_tokens = Some (k, j)"
    and "k \<le> n"
  shows "\<exists>s. head_tail_line_range_source_paths tokens =
      append_ranged_source_paths [] (source_paths_from_raw_tokens (drop i head_tokens)) s n
    \<and> 1 \<le> s \<and> s \<le> n \<and> n + 1 - s = k"
proof -
  have k: "1 \<le> k" using assms(3)
    by (auto simp: parse_tail_line_count_def split: if_splits option.splits prod.splits)
  have n: "n \<le> usize_max" using assms(2)
    by (auto simp: parse_head_line_count_def parse_count_option_def dest: parse_usize_le
        split: if_splits option.splits)
  have "usize_add (usize_sub n k) 1 = n - k + 1"
    using k n assms(4) by (simp add: usize_sub_no_wrap usize_add_no_wrap)
  with assms k show ?thesis
    by (intro exI [of _ "n - k + 1"]) (simp add: head_tail_line_range_source_paths_def)
qed

theorem head_tail_is_last_lines_witness:
  "\<exists>s. head_tail_line_range_source_paths
        [''head'', ''-n'', ''20'', ''a.rs'', ''|'', ''tail'', ''-n'', ''5''] =
      append_ranged_source_paths [] (source_paths_from_raw_tokens [''a.rs'']) s 20
    \<and> 1 \<le> s \<and> s \<le> 20 \<and> 20 + 1 - s = 5"
proof -
  have "pipeline_segments [''head'', ''-n'', ''20'', ''a.rs'', ''|'', ''tail'', ''-n'', ''5''] =
      [[''head'', ''-n'', ''20'', ''a.rs''], [''tail'', ''-n'', ''5'']]" by code_simp
  moreover have "parse_head_line_count [''head'', ''-n'', ''20'', ''a.rs''] = Some (20, 3)" by code_simp
  moreover have "parse_tail_line_count [''tail'', ''-n'', ''5''] = Some (5, 3)" by code_simp
  ultimately show ?thesis using head_tail_is_last_lines by fastforce
qed

end
