(* ===== verification/RawSearch.thy ===== *)
theory RawSearch
  imports SourceRange
begin

section \<open>Raw search commands\<close>

text \<open>
  Models \<open>crates/agent-semantic-hook/src/command/raw_search.rs\<close> and \<open>search_json.rs\<close>: which
  stage of a command is a textual search (\<open>rg\<close>, \<open>ag\<close>, \<open>grep\<close>, \<open>fd\<close>, \<open>find\<close>,
  \<open>git grep\<close>, \<open>git ls-files\<close>), which source scope its options select, and which providers
  answer for that scope.  The option parsers of the source are index loops of one shape; here they
  are one step function each, run by \<open>option_loop\<close>.
\<close>

subsection \<open>Stages\<close>

datatype raw_search_command_kind = RipgrepLike | GrepLike | Fd | Find | GitGrep | GitLsFiles

fun git_index_loop :: "string list \<Rightarrow> nat \<Rightarrow> nat option" where
  "git_index_loop [] index = None"
| "git_index_loop (t # ts) index =
     (if t \<in> {''-C'', ''-c'', ''--git-dir'', ''--work-tree''}
      then git_index_loop (drop 1 ts) (index + 2)
      else if starts_with t ''-C'' \<or> starts_with t ''-c'' \<or> starts_with t ''--git-dir=''
              \<or> starts_with t ''--work-tree=''
      then git_index_loop ts (index + 1)
      else if starts_with t ''-'' then git_index_loop ts (index + 1)
      else Some index)"

definition git_subcommand_index :: "string list \<Rightarrow> nat option" where
  "git_subcommand_index tokens = git_index_loop (drop 1 tokens) 1"

definition raw_search_kind :: "string list \<Rightarrow> raw_search_command_kind option" where
  "raw_search_kind stage =
     (case stage of
        [] \<Rightarrow> None
      | first # _ \<Rightarrow>
          (let command = command_name first in
           if command = ''rg'' \<or> command = ''ag'' then Some RipgrepLike
           else if command = ''grep'' then Some GrepLike
           else if command = ''fd'' then Some Fd
           else if command = ''find'' then Some Find
           else if command = ''git'' then
             (case git_subcommand_index stage of
                None \<Rightarrow> None
              | Some index \<Rightarrow>
                  (if get_at stage index = Some ''grep'' then Some GitGrep
                   else if get_at stage index = Some ''ls-files'' then Some GitLsFiles
                   else None))
           else None))"

definition strip_stage_assignments :: "string list \<Rightarrow> string list" where
  "strip_stage_assignments stage =
     dropWhile (\<lambda>t. CHR ''='' \<in> set t \<and> \<not> starts_with t ''-'') stage"

function raw_search_stage :: "string list \<Rightarrow> (string list \<times> raw_search_command_kind) option" where
  "raw_search_stage tokens =
     (let rest = dropWhile is_separator tokens in
      if rest = [] then None
      else
        (let stage = strip_stage_assignments (takeWhile (\<lambda>t. \<not> is_separator t) rest) in
         case raw_search_kind stage of
           Some kind \<Rightarrow> Some (stage, kind)
         | None \<Rightarrow> raw_search_stage (drop 1 (dropWhile (\<lambda>t. \<not> is_separator t) rest))))"
  by pat_completeness auto

lemma after_stage_shorter:
  "dropWhile is_separator tokens \<noteq> [] \<Longrightarrow>
     length (drop 1 (dropWhile (\<lambda>t. \<not> is_separator t) (dropWhile is_separator tokens))) < length tokens"
proof -
  assume "dropWhile is_separator tokens \<noteq> []"
  then obtain t ts where r: "dropWhile is_separator tokens = t # ts"
    by (cases "dropWhile is_separator tokens") auto
  then have "\<not> is_separator t" by (metis hd_dropWhile list.distinct(1) list.sel(1))
  then have "length (dropWhile (\<lambda>t. \<not> is_separator t) (t # ts)) \<le> length ts"
    by (simp add: length_dropWhile_le)
  moreover have "length (t # ts) \<le> length tokens"
    unfolding r [symmetric] by (rule length_dropWhile_le)
  ultimately show ?thesis by (simp add: r)
qed

termination raw_search_stage
  by (relation "measure length") (use after_stage_shorter in auto)

declare raw_search_stage.simps [simp del]

subsection \<open>Scopes\<close>

record raw_search_scope =
  s_extensions :: "string list"
  s_types :: "string list"
  s_globs :: "string list"
  s_paths :: "string list"
  s_implicit_workspace :: bool

record parsed_raw_search =
  ps_scope :: raw_search_scope
  ps_terms :: "string list"

record raw_search_plan =
  plan_providers :: "activated_provider list"
  plan_terms :: "string list"

definition parsed_empty :: parsed_raw_search where
  "parsed_empty = \<lparr>ps_scope = \<lparr>s_extensions = [], s_types = [], s_globs = [], s_paths = [],
     s_implicit_workspace = False\<rparr>, ps_terms = []\<rparr>"

definition has_language_filter :: "raw_search_scope \<Rightarrow> bool" where
  "has_language_filter s \<longleftrightarrow> s_extensions s \<noteq> [] \<or> s_types s \<noteq> [] \<or> s_globs s \<noteq> []"

definition scope_normalize :: "raw_search_scope \<Rightarrow> raw_search_scope" where
  "scope_normalize s =
     s\<lparr>s_extensions := sort_dedup (s_extensions s), s_types := sort_dedup (s_types s),
       s_globs := sort_dedup (s_globs s), s_paths := sort_dedup (s_paths s)\<rparr>"

definition push_source_selector :: "raw_search_scope \<Rightarrow> string \<Rightarrow> bool \<Rightarrow> raw_search_scope" where
  "push_source_selector s token allow_bare =
     s\<lparr>s_extensions := push_source_extension (s_extensions s) token allow_bare,
       s_globs := (if selector_has_glob token then s_globs s @ [token] else s_globs s)\<rparr>"

definition push_type :: "string list \<Rightarrow> string \<Rightarrow> string list" where
  "push_type types token =
     (let clean = to_ascii_lowercase (trim_start_str ''type:''
            (trim_chars (\<lambda>c. c \<in> {CHR 0x27, CHR 0x22, CHR '','', CHR '';''}) token))
      in if clean \<noteq> []
            \<and> list_all (\<lambda>c. is_ascii_alphanumeric c \<or> c = CHR ''-'' \<or> c = CHR ''_'') clean
         then types @ [clean] else types)"

definition raw_search_option_takes_value :: "string \<Rightarrow> bool" where
  "raw_search_option_takes_value token \<longleftrightarrow>
     token \<in> {''-A'', ''-B'', ''-C'', ''--after-context'', ''--before-context'', ''--context'',
              ''--max-count'', ''-m'', ''--max-depth'', ''--sort'', ''--sortr'', ''--threads'',
              ''-j''}"

definition is_common_source_scope :: "string \<Rightarrow> bool" where
  "is_common_source_scope path \<longleftrightarrow>
     trim_end_chars (\<lambda>c. c = CHR ''/'') path
       \<in> {''.'', ''src'', ''test'', ''tests'', ''crates'', ''packages'', ''languages''}"

definition selector_mentions_root :: "string \<Rightarrow> string \<Rightarrow> bool" where
  "selector_mentions_root selector0 root0 =
     (let clean = (\<lambda>s. trim_end_chars (\<lambda>c. c = CHR ''/'') (trim_start_str ''./'' (str_trim s)));
          selector = clean selector0; root = clean root0
      in root \<noteq> []
         \<and> (selector = root \<or> starts_with selector (root @ ''/'')
            \<or> ends_with selector (''/'' @ root) \<or> str_contains selector (''/'' @ root @ ''/'')))"

definition selector_is_universal :: "string \<Rightarrow> bool" where
  "selector_is_universal selector \<longleftrightarrow> list_all (\<lambda>c. c \<in> set ''*?/.'') selector"

definition push_providers :: "activated_provider list \<Rightarrow> activated_provider list \<Rightarrow> activated_provider list" where
  "push_providers acc ps = fold (\<lambda>p acc. push_provider_once acc p) ps acc"

definition workspace_source_providers ::
  "raw_search_scope \<Rightarrow> hook_runtime \<Rightarrow> activated_provider list" where
  "workspace_source_providers s registry =
     (if s_extensions s \<noteq> [] \<or> s_types s \<noteq> [] then []
      else
        (let selectors = s_paths s @ s_globs s;
             universal_glob = list_ex selector_is_universal (s_globs s);
             bare_workspace_path = (s_globs s = [] \<and>
               list_ex (\<lambda>path. str_trim path = ''.'' \<or> str_trim path = ''./'') (s_paths s))
         in if (s_implicit_workspace s \<and> selectors = []) \<or> universal_glob \<or> bare_workspace_path
            then providers registry
            else fold (\<lambda>selector acc. push_providers acc
                   (filter (\<lambda>p. list_ex (selector_mentions_root selector) (p_source_roots p))
                     (providers registry))) selectors []))"

definition push_language_filter_providers ::
  "glob_compiler \<Rightarrow> raw_search_scope \<Rightarrow> hook_runtime \<Rightarrow> activated_provider list
     \<Rightarrow> activated_provider list" where
  "push_language_filter_providers glob s registry acc =
     fold (\<lambda>g acc. push_providers acc (map fst (providers_for_raw_search_selector glob registry g)))
       (s_globs s)
       (push_providers acc
         (filter (\<lambda>p. list_ex (provider_matches_source_extension p) (s_extensions s)
                     \<or> list_ex (provider_matches_source_type p) (s_types s)) (providers registry)))"

definition push_explicit_source_path_providers ::
  "glob_compiler \<Rightarrow> raw_search_scope \<Rightarrow> hook_runtime \<Rightarrow> activated_provider list
     \<Rightarrow> activated_provider list" where
  "push_explicit_source_path_providers glob s registry acc =
     fold (\<lambda>path acc. push_providers acc
            (map fst (providers_for_raw_search_selector glob registry path))) (s_paths s) acc"

definition matching_providers ::
  "glob_compiler \<Rightarrow> raw_search_scope \<Rightarrow> hook_runtime \<Rightarrow> activated_provider list" where
  "matching_providers glob s registry =
     push_explicit_source_path_providers glob s registry
       (push_language_filter_providers glob s registry [])"

definition has_raw_source_selector ::
  "glob_compiler \<Rightarrow> raw_search_scope \<Rightarrow> hook_runtime \<Rightarrow> bool" where
  "has_raw_source_selector glob s registry \<longleftrightarrow> matching_providers glob s registry \<noteq> []"

subsection \<open>Option parsers\<close>

record option_state =
  o_parsed :: parsed_raw_search
  o_positional :: "string list"
  o_files_mode :: bool
  o_pattern_from_flag :: bool

definition option_start :: option_state where
  "option_start = \<lparr>o_parsed = parsed_empty, o_positional = [], o_files_mode = False,
     o_pattern_from_flag = False\<rparr>"

text \<open>A step sees the word and the word after it and says whether it consumed that one, too.\<close>

type_synonym option_step = "option_state \<Rightarrow> string \<Rightarrow> string option \<Rightarrow> option_state \<times> bool"

fun option_loop ::
  "option_step \<Rightarrow> (option_state \<Rightarrow> string list \<Rightarrow> option_state) option \<Rightarrow> string list
     \<Rightarrow> option_state \<Rightarrow> option_state" where
  "option_loop step on_dash [] s = s"
| "option_loop step on_dash (t # ts) s =
     (if t = ''--'' \<and> on_dash \<noteq> None then the on_dash s ts
      else (case step s t (get_at ts 0) of
              (s', takes_value) \<Rightarrow>
                option_loop step on_dash (if takes_value then drop 1 ts else ts) s'))"

definition add_term :: "string \<Rightarrow> option_state \<Rightarrow> option_state" where
  "add_term t s = s\<lparr>o_parsed := (o_parsed s)\<lparr>ps_terms := ps_terms (o_parsed s) @ [t]\<rparr>\<rparr>"

definition on_scope :: "(raw_search_scope \<Rightarrow> raw_search_scope) \<Rightarrow> option_state \<Rightarrow> option_state" where
  "on_scope f s = s\<lparr>o_parsed := (o_parsed s)\<lparr>ps_scope := f (ps_scope (o_parsed s))\<rparr>\<rparr>"

definition select_glob :: "string \<Rightarrow> option_state \<Rightarrow> option_state" where
  "select_glob value s = on_scope (\<lambda>sc. push_source_selector sc value False) s"

definition select_extension :: "string \<Rightarrow> option_state \<Rightarrow> option_state" where
  "select_extension value s = on_scope (\<lambda>sc. push_source_selector sc value True) s"

definition select_type :: "string \<Rightarrow> option_state \<Rightarrow> option_state" where
  "select_type value s =
     select_extension value (on_scope (\<lambda>sc. sc\<lparr>s_types := push_type (s_types sc) value\<rparr>) s)"

definition add_positional :: "string list \<Rightarrow> option_state \<Rightarrow> option_state" where
  "add_positional ts s = s\<lparr>o_positional := o_positional s @ ts\<rparr>"

definition add_path :: "string list \<Rightarrow> option_state \<Rightarrow> option_state" where
  "add_path ts s = on_scope (\<lambda>sc. sc\<lparr>s_paths := s_paths sc @ ts\<rparr>) s"

definition with_value :: "(string \<Rightarrow> option_state \<Rightarrow> option_state) \<Rightarrow> string option \<Rightarrow> option_state \<Rightarrow> option_state" where
  "with_value f value s = (case value of None \<Rightarrow> s | Some v \<Rightarrow> f v s)"

definition flag_pattern :: "option_state \<Rightarrow> option_state" where
  "flag_pattern s = s\<lparr>o_pattern_from_flag := True\<rparr>"

text \<open>The arms that the \<open>rg\<close>, \<open>grep\<close> and \<open>fd\<close> loops share at their end.\<close>

definition trailing_step :: "(string list \<Rightarrow> option_state \<Rightarrow> option_state) \<Rightarrow> option_step" where
  "trailing_step collect s t value =
     (if raw_search_option_takes_value t then (s, True)
      else if starts_with t ''-'' then (s, False)
      else (collect [t] s, False))"

definition ripgrep_step :: option_step where
  "ripgrep_step s t value =
     (if t = ''--files'' then (s\<lparr>o_files_mode := True\<rparr>, False)
      else if t \<in> {''-g'', ''--glob'', ''--iglob'', ''-t'', ''--type'', ''-T'', ''--type-not''} then
        (if t \<in> {''-t'', ''--type''} then with_value select_type value s
         else if t \<notin> {''-T'', ''--type-not''} then with_value select_glob value s
         else s, True)
      else if t \<in> {''-e'', ''--regexp''} then (flag_pattern (with_value add_term value s), True)
      else if t \<in> {''-f'', ''--file''} then (flag_pattern s, True)
      else (case strip_prefix ''--regexp='' t of
              Some v \<Rightarrow> (flag_pattern (add_term v s), False)
            | None \<Rightarrow>
      (case or_else (strip_prefix ''--glob='' t) (strip_prefix ''--iglob='' t) of
         Some v \<Rightarrow> (select_glob v s, False)
       | None \<Rightarrow>
      (case strip_prefix ''--type='' t of
         Some v \<Rightarrow> (select_type v s, False)
       | None \<Rightarrow>
           if starts_with t ''-g'' \<and> length t > 2 then (select_glob (drop 2 t) s, False)
           else if starts_with t ''-t'' \<and> length t > 2 then (select_type (drop 2 t) s, False)
           else if strip_prefix ''--type-not='' t \<noteq> None then (s, False)
           else trailing_step add_positional s t value))))"

definition grep_step :: option_step where
  "grep_step s t value =
     (if t \<in> {''--include'', ''--include-dir''} then (with_value select_glob value s, True)
      else if t \<in> {''-e'', ''--regexp''} then (flag_pattern (with_value add_term value s), True)
      else if t \<in> {''-f'', ''--file''} then (flag_pattern s, True)
      else (case strip_prefix ''--regexp='' t of
              Some v \<Rightarrow> (flag_pattern (add_term v s), False)
            | None \<Rightarrow>
      (case strip_prefix ''--include='' t of
         Some v \<Rightarrow> (select_glob v s, False)
       | None \<Rightarrow> trailing_step add_positional s t value)))"

definition fd_step :: option_step where
  "fd_step s t value =
     (if t \<in> {''-e'', ''--extension'', ''--ext''} then (with_value select_extension value s, True)
      else (case or_else (strip_prefix ''--extension='' t) (strip_prefix ''--ext='' t) of
              Some v \<Rightarrow> (select_extension v s, False)
            | None \<Rightarrow> trailing_step add_positional s t value))"

definition find_step :: option_step where
  "find_step s t value =
     (if t \<in> {''-name'', ''-iname'', ''-path'', ''-ipath''} then
        (with_value (\<lambda>v. add_term v \<circ> select_glob v) value s, True)
      else if starts_with t ''-'' \<or> t \<in> {''('', '')'', ''!'', ''-o'', ''-a''} then (s, False)
      else (add_path [t] s, False))"

definition mark_implicit :: "bool \<Rightarrow> parsed_raw_search \<Rightarrow> parsed_raw_search" where
  "mark_implicit cond p =
     (if cond then p\<lparr>ps_scope := (ps_scope p)\<lparr>s_implicit_workspace := True\<rparr>\<rparr> else p)"

definition no_scope :: "parsed_raw_search \<Rightarrow> bool" where
  "no_scope p \<longleftrightarrow> s_paths (ps_scope p) = [] \<and> \<not> has_language_filter (ps_scope p)"

definition positional_dash :: "(option_state \<Rightarrow> string list \<Rightarrow> option_state) option" where
  "positional_dash = Some (\<lambda>s ts. add_positional ts s)"

text \<open>The first positional word is the pattern unless a flag gave it; the others are paths.\<close>

definition pattern_and_paths :: "bool \<Rightarrow> option_state \<Rightarrow> parsed_raw_search" where
  "pattern_and_paths has_pattern s =
     (let s' = (if has_pattern then with_value add_term (get_at (o_positional s) 0) s else s);
          path_start = (if has_pattern \<and> o_positional s \<noteq> [] then 1 else 0)
      in o_parsed (add_path (drop path_start (o_positional s)) s'))"

definition parse_ripgrep_like :: "string list \<Rightarrow> parsed_raw_search" where
  "parse_ripgrep_like stage =
     (let s = option_loop ripgrep_step positional_dash (drop 1 stage) option_start;
          p = pattern_and_paths (\<not> o_files_mode s \<and> \<not> o_pattern_from_flag s) s
      in mark_implicit (no_scope p) p)"

definition parse_grep_like :: "string list \<Rightarrow> parsed_raw_search" where
  "parse_grep_like stage =
     (let s = option_loop grep_step positional_dash (drop 1 stage) option_start
      in pattern_and_paths (\<not> o_pattern_from_flag s) s)"

definition parse_git_grep :: "string list \<Rightarrow> parsed_raw_search" where
  "parse_git_grep stage =
     (case git_subcommand_index stage of
        None \<Rightarrow> parsed_empty
      | Some index \<Rightarrow>
          (let p = parse_grep_like (drop index stage) in mark_implicit (no_scope p) p))"

definition parse_git_ls_files :: "string list \<Rightarrow> parsed_raw_search" where
  "parse_git_ls_files stage =
     (case git_subcommand_index stage of
        None \<Rightarrow> parsed_empty
      | Some index \<Rightarrow>
          (let s = option_loop (trailing_step add_path) (Some (\<lambda>s ts. add_path ts s))
                     (drop (index + 1) stage) option_start;
               p = o_parsed s
           in mark_implicit (s_paths (ps_scope p) = []) p))"

definition fd_single_positional_is_scope :: "string \<Rightarrow> raw_search_scope \<Rightarrow> nat \<Rightarrow> bool" where
  "fd_single_positional_is_scope token sc positional_len \<longleftrightarrow>
     positional_len = 1
     \<and> (s_extensions sc \<noteq> [] \<or> s_types sc \<noteq> [] \<or> s_globs sc \<noteq> [])
     \<and> is_common_source_scope token"

definition parse_fd :: "string list \<Rightarrow> parsed_raw_search" where
  "parse_fd stage =
     (let s = option_loop fd_step positional_dash (drop 1 stage) option_start;
          s' = (case o_positional s of
                  [] \<Rightarrow> s
                | pattern # rest \<Rightarrow>
                    if fd_single_positional_is_scope pattern (ps_scope (o_parsed s))
                         (length (o_positional s))
                    then add_path [pattern] s
                    else add_term pattern (select_glob pattern s));
          p = o_parsed (add_path (drop 1 (o_positional s)) s')
      in mark_implicit (no_scope p) p)"

definition parse_find :: "string list \<Rightarrow> parsed_raw_search" where
  "parse_find stage =
     (let p = o_parsed (option_loop find_step None (drop 1 stage) option_start)
      in mark_implicit (s_paths (ps_scope p) = []) p)"

subsection \<open>Terms\<close>

definition clean_term :: "string \<Rightarrow> string option" where
  "clean_term t =
     (let clean = str_trim (trim_chars
            (\<lambda>c. c \<in> {CHR 0x27, CHR 0x22, CHR 0x60} \<or> c \<in> set ''/^$()[]{}'') (str_trim t))
      in if clean \<noteq> [] then Some clean else None)"

definition filename_pattern_term :: "string \<Rightarrow> string option" where
  "filename_pattern_term pattern =
     (let basename = last_piece (\<lambda>c. c = CHR ''/'') (trim_end_chars (\<lambda>c. c = CHR ''/'') pattern);
          stem = (case rsplit_once ''.'' basename of None \<Rightarrow> basename | Some (st, _) \<Rightarrow> st)
      in clean_term (trim_chars
           (\<lambda>c. c \<in> {CHR 0x27, CHR 0x22, CHR 0x60} \<or> c \<in> set ''*?[]'') stem))"

definition option_list :: "'a option \<Rightarrow> 'a list" where
  "option_list v = (case v of None \<Rightarrow> [] | Some x \<Rightarrow> [x])"

definition split_term :: "string \<Rightarrow> string list" where
  "split_term t =
     concat (map (\<lambda>c. if CHR ''*'' \<in> set c \<or> CHR ''?'' \<in> set c
                      then option_list (filename_pattern_term c) else [c])
       (List.map_filter clean_term (split_by (\<lambda>c. c = CHR ''|'') t)))"

definition keep_term :: "string list \<Rightarrow> string \<Rightarrow> bool" where
  "keep_term normalized value \<longleftrightarrow>
     3 \<le> length value \<and> list_ex is_ascii_alphabetic value \<and> value \<notin> set normalized"

text \<open>The two nested loops return as soon as eight terms are collected.\<close>

fun normalize_terms_loop :: "string list \<Rightarrow> string list \<Rightarrow> string list" where
  "normalize_terms_loop [] normalized = normalized"
| "normalize_terms_loop (value # values) normalized =
     (let normalized' = (if keep_term normalized value then normalized @ [value] else normalized)
      in if 8 \<le> length normalized' then normalized' else normalize_terms_loop values normalized')"

definition normalize_terms :: "string list \<Rightarrow> string list" where
  "normalize_terms terms = normalize_terms_loop (concat (map split_term terms)) []"

definition parse_raw_search :: "string list \<Rightarrow> raw_search_command_kind \<Rightarrow> parsed_raw_search" where
  "parse_raw_search stage kind =
     (case kind of
        RipgrepLike \<Rightarrow> parse_ripgrep_like stage
      | GrepLike \<Rightarrow> parse_grep_like stage
      | Fd \<Rightarrow> parse_fd stage
      | Find \<Rightarrow> parse_find stage
      | GitGrep \<Rightarrow> parse_git_grep stage
      | GitLsFiles \<Rightarrow> parse_git_ls_files stage)"

definition parsed_normalized :: "parsed_raw_search \<Rightarrow> parsed_raw_search" where
  "parsed_normalized p =
     \<lparr>ps_scope = scope_normalize (ps_scope p), ps_terms = normalize_terms (ps_terms p)\<rparr>"

definition parsed_from_tokens :: "string list \<Rightarrow> parsed_raw_search option" where
  "parsed_from_tokens tokens =
     (case raw_search_stage tokens of
        None \<Rightarrow> None
      | Some (stage, kind) \<Rightarrow> Some (parsed_normalized (parse_raw_search stage kind)))"

subsection \<open>Filters over the output of other commands\<close>

definition is_shell_env_assignment :: "string \<Rightarrow> bool" where
  "is_shell_env_assignment token =
     (case split_once ''='' token of
        None \<Rightarrow> False
      | Some (name, _) \<Rightarrow>
          (case name of
             [] \<Rightarrow> False
           | first # rest \<Rightarrow> (first = CHR ''_'' \<or> is_ascii_alphabetic first)
               \<and> list_all (\<lambda>c. c = CHR ''_'' \<or> is_ascii_alphanumeric c) rest))"

definition shell_command_basename :: "string \<Rightarrow> string" where
  "shell_command_basename token = last_piece (\<lambda>c. c = CHR ''/'') token"

text \<open>The words after \<open>env\<close> and its assignments; nothing when an option stops the scan.\<close>

fun env_rest :: "string list \<Rightarrow> string list option" where
  "env_rest [] = Some []"
| "env_rest (t # ts) =
     (if t = ''--'' then Some ts
      else if starts_with t ''-'' then None
      else if \<not> is_shell_env_assignment t then Some (t # ts)
      else env_rest ts)"

definition command_stage_without_env_prefix :: "string list \<Rightarrow> string list" where
  "command_stage_without_env_prefix stage =
     (case stage of
        [] \<Rightarrow> stage
      | first # rest \<Rightarrow>
          if shell_command_basename first \<noteq> ''env'' then stage
          else (case env_rest rest of
                  None \<Rightarrow> stage
                | Some words \<Rightarrow> if words \<noteq> [] then words else stage))"

definition stage_matches_provider_prefix :: "string list \<Rightarrow> string list \<Rightarrow> bool" where
  "stage_matches_provider_prefix stage pre =
     (if pre = [] \<or> length stage < length pre then False
      else command_name (hd stage) = command_name (hd pre)
           \<and> take (length pre - 1) (tl stage) = tl pre)"

definition is_provider_command_stage :: "hook_runtime \<Rightarrow> string list \<Rightarrow> bool" where
  "is_provider_command_stage registry stage =
     (case stage of
        [] \<Rightarrow> False
      | first # _ \<Rightarrow>
          list_ex (\<lambda>p. if p_provider_command_prefix p = [] then p_binary p = command_name first
                       else stage_matches_provider_prefix stage (p_provider_command_prefix p))
            (providers registry))"

text \<open>
  The stage scan shared by the two filters: the separator before a stage, the stage, and what is
  remembered of the stage before it.
\<close>

function filters_output_loop ::
  "(string list \<Rightarrow> 'm) \<Rightarrow> ('m \<Rightarrow> bool) \<Rightarrow> 'm \<Rightarrow> string option \<Rightarrow> string list \<Rightarrow> bool" where
  "filters_output_loop remember produces prev sep [] = False"
| "filters_output_loop remember produces prev sep (t # ts) =
     (if is_separator t then filters_output_loop remember produces prev (Some t) ts
      else
        (let raw_stage = takeWhile (\<lambda>t. \<not> is_separator t) (t # ts);
             stage = command_stage_without_env_prefix raw_stage
         in if sep = Some ''|'' \<and> raw_search_kind stage \<noteq> None \<and> produces prev then True
            else filters_output_loop remember produces (remember raw_stage) sep
                   (dropWhile (\<lambda>t. \<not> is_separator t) ts)))"
  by pat_completeness auto
termination
  by (relation "measure (\<lambda>(r, p, m, s, ts). length ts)") (auto simp: le_imp_less_Suc length_dropWhile_le)

definition filters_provider_command_output :: "hook_runtime \<Rightarrow> string list \<Rightarrow> bool" where
  "filters_provider_command_output registry tokens =
     filters_output_loop (\<lambda>raw. Some (command_stage_without_env_prefix raw))
       (\<lambda>prev. case prev of None \<Rightarrow> False | Some stage \<Rightarrow> is_provider_command_stage registry stage)
       None None tokens"

definition filters_environment_command_output :: "string list \<Rightarrow> bool" where
  "filters_environment_command_output tokens =
     filters_output_loop (\<lambda>raw. raw = [''env''] \<or> raw = [''printenv'']) (\<lambda>prev. prev)
       False None tokens"

definition raw_search_plan_for :: "glob_compiler \<Rightarrow> hook_runtime \<Rightarrow> string list \<Rightarrow> raw_search_plan option" where
  "raw_search_plan_for glob registry tokens0 =
     (let filters_environment_output = filters_environment_command_output tokens0;
          tokens = command_stage_without_env_prefix tokens0
      in if filters_provider_command_output registry tokens \<or> filters_environment_output then None
         else (case parsed_from_tokens tokens of
                 None \<Rightarrow> None
               | Some parsed \<Rightarrow>
                   (let sc = ps_scope parsed;
                        ps = (if has_raw_source_selector glob sc registry
                              then matching_providers glob sc registry else []);
                        ps = (if ps = [] then workspace_source_providers sc registry else ps)
                    in if ps = [] then None
                       else Some \<lparr>plan_providers = ps, plan_terms = ps_terms parsed\<rparr>)))"

subsection \<open>JSON searches and ingest pipes\<close>

definition provider_ingest_window :: "activated_provider \<Rightarrow> string list \<Rightarrow> bool" where
  "provider_ingest_window p window \<longleftrightarrow>
     (case window of
        [a, b, c] \<Rightarrow> command_name a = p_binary p \<and> b = ''search'' \<and> c = ''ingest''
      | _ \<Rightarrow> False)"

definition agent_facade_ingest_window :: "activated_provider \<Rightarrow> string list \<Rightarrow> bool" where
  "agent_facade_ingest_window p window \<longleftrightarrow>
     (case window of
        [a, b, c, d] \<Rightarrow>
          command_name a = ''asp'' \<and> b = p_language_id p \<and> c = ''search'' \<and> d = ''ingest''
      | _ \<Rightarrow> False)"

definition contains_ingest_pipe :: "string list \<Rightarrow> activated_provider list \<Rightarrow> bool" where
  "contains_ingest_pipe tokens ps \<longleftrightarrow>
     list_ex (\<lambda>p. list_ex (provider_ingest_window p) (windows 3 tokens)
                 \<or> list_ex (agent_facade_ingest_window p) (windows 4 tokens)) ps"

fun provider_index_loop :: "activated_provider \<Rightarrow> string list \<Rightarrow> nat \<Rightarrow> (nat \<times> nat) option" where
  "provider_index_loop p [] index = None"
| "provider_index_loop p (t # ts) index =
     (if command_name t = p_binary p then Some (index, 1)
      else if command_name t = ''asp'' \<and> get_at ts 0 = Some (p_language_id p) then Some (index, 2)
      else provider_index_loop p ts (index + 1))"

definition provider_command_index :: "activated_provider \<Rightarrow> string list \<Rightarrow> (nat \<times> nat) option" where
  "provider_command_index p tokens = provider_index_loop p tokens 0"

definition with_workspace :: "string list \<Rightarrow> string list" where
  "with_workspace argv =
     (if ''--workspace'' \<in> set argv then argv
      else (case rposition (\<lambda>arg. arg = ''.'') argv of
              Some root_index \<Rightarrow>
                take root_index argv @ [''--workspace'', ''.''] @ drop (root_index + 1) argv
            | None \<Rightarrow> argv @ [''--workspace'', ''.'']))"

definition with_seed_view :: "string list \<Rightarrow> string list" where
  "with_seed_view argv =
     (if ''--view'' \<in> set argv then argv else argv @ [''--view'', ''seeds''])"

text \<open>\<open>argv[0] = ..\<close> panics on an empty vector.\<close>

definition set_first :: "string list \<Rightarrow> string \<Rightarrow> string list shell_result" where
  "set_first argv x = (case argv of [] \<Rightarrow> Inl Panic | _ # rest \<Rightarrow> Inr (x # rest))"

fun search_json_loop ::
  "string list \<Rightarrow> activated_provider list
     \<Rightarrow> (activated_provider \<times> string list) option shell_result" where
  "search_json_loop tokens [] = Inr None"
| "search_json_loop tokens (p # ps) =
     (case provider_command_index p tokens of
        None \<Rightarrow> search_json_loop tokens ps
      | Some (binary_index, command_width) \<Rightarrow>
          if get_at tokens (binary_index + command_width) \<noteq> Some ''search''
          then search_json_loop tokens ps
          else shell_bind
                 (set_first (filter (\<lambda>t. t \<noteq> ''--json'')
                    (takeWhile (\<lambda>t. \<not> is_separator t)
                      (drop (binary_index + command_width - 1) tokens))) (p_binary p))
                 (\<lambda>argv. Inr (Some (p, with_seed_view (with_workspace argv)))))"

definition search_json_route ::
  "hook_runtime \<Rightarrow> string list \<Rightarrow> (activated_provider \<times> string list) option shell_result" where
  "search_json_route registry tokens = search_json_loop tokens (providers registry)"

end
