(* ===== verification/Intent.thy ===== *)
theory Intent
  imports RawSearch
begin

section \<open>Command intent, query routes and patches\<close>

text \<open>
  Models \<open>crates/agent-semantic-hook/src/command/intent.rs\<close> (what a tokenized command does with
  source), \<open>query.rs\<close> (the query route offered instead) and \<open>apply_patch.rs\<close> (the files an
  \<open>apply_patch\<close> command edits).  Together with \<open>RawSearch\<close> this is the judgement on which the
  classifier acts.
\<close>

subsection \<open>Intent\<close>

datatype command_intent = IntentOther | DirectRead | ContentDump | VcsDiffReview | RawSearch

fun stages_loop :: "string list \<Rightarrow> string list \<Rightarrow> string list list" where
  "stages_loop current [] = (if current = [] then [] else [current])"
| "stages_loop current (t # ts) =
     (if is_separator t
      then (if current = [] then stages_loop [] ts else current # stages_loop [] ts)
      else stages_loop (current @ [t]) ts)"

definition command_stages :: "string list \<Rightarrow> string list list" where
  "command_stages tokens = stages_loop [] tokens"

definition first_stage_command :: "string list \<Rightarrow> string option" where
  "first_stage_command tokens = find (\<lambda>t. \<not> starts_with t ''-'' \<and> \<not> is_separator t) tokens"

definition git_global_option_consumes_value :: "string \<Rightarrow> bool" where
  "git_global_option_consumes_value token \<longleftrightarrow>
     token \<in> {''-C'', ''-c'', ''--git-dir'', ''--work-tree'', ''--namespace'', ''--config-env''}"

definition git_global_option_with_inline_value :: "string \<Rightarrow> bool" where
  "git_global_option_with_inline_value token \<longleftrightarrow>
     starts_with token ''--git-dir='' \<or> starts_with token ''--work-tree=''
     \<or> starts_with token ''--namespace='' \<or> starts_with token ''--config-env=''"

definition git_diff_metadata_only_flag :: "string \<Rightarrow> bool" where
  "git_diff_metadata_only_flag token \<longleftrightarrow>
     token \<in> {''--stat'', ''--shortstat'', ''--numstat'', ''--dirstat'', ''--summary'',
              ''--name-only'', ''--name-status'', ''--check'', ''--quiet'', ''--exit-code''}
     \<or> starts_with token ''--stat='' \<or> starts_with token ''--dirstat=''"

text \<open>The two loops of \<open>git_subcommand\<close> share one iterator.\<close>

fun git_options_loop :: "string list \<Rightarrow> string option" where
  "git_options_loop [] = None"
| "git_options_loop (t # ts) =
     (if is_separator t then git_options_loop ts
      else if git_global_option_consumes_value t then git_options_loop (drop 1 ts)
      else if git_global_option_with_inline_value t \<or> starts_with t ''-'' then git_options_loop ts
      else Some (command_name t))"

definition git_subcommand :: "string list \<Rightarrow> string option" where
  "git_subcommand tokens =
     (case dropWhile is_separator tokens of
        [] \<Rightarrow> None
      | t # ts \<Rightarrow> if command_name t \<noteq> ''git'' then None else git_options_loop ts)"

definition git_diff_outputs_source :: "string list \<Rightarrow> bool" where
  "git_diff_outputs_source tokens \<longleftrightarrow>
     git_subcommand tokens = Some ''diff'' \<and> \<not> list_ex git_diff_metadata_only_flag tokens"

definition perl_reads_files :: "string \<Rightarrow> bool" where
  "perl_reads_files token \<longleftrightarrow>
     starts_with token ''-'' \<and> \<not> starts_with token ''--''
     \<and> list_ex (\<lambda>c. c = CHR ''n'' \<or> c = CHR ''p'') (drop 1 token)"

definition interpreter_outputs_source :: "string option \<Rightarrow> string list \<Rightarrow> bool" where
  "interpreter_outputs_source command tokens =
     (case command of
        None \<Rightarrow> False
      | Some c0 \<Rightarrow>
          (let c = command_name c0 in
           if path_like_tokens tokens = [] then False
           else if c \<in> {''python'', ''python3'', ''node'', ''ruby''} then
             list_ex (\<lambda>t. str_contains t ''read_text'' \<or> str_contains t ''readFileSync''
               \<or> str_contains t ''read_file'' \<or> str_contains t ''.read('' \<or> str_contains t ''open(''
               \<or> str_contains t ''File.read'') tokens
           else if c = ''perl'' then
             list_ex (\<lambda>t. perl_reads_files t \<or> str_contains t ''open('' \<or> str_contains t ''readline'')
               tokens
           else False))"

definition command_stage_intent :: "string list \<Rightarrow> command_intent" where
  "command_stage_intent tokens =
     (let command = first_stage_command tokens;
          name = map_option command_name command
      in if name = Some ''read'' then DirectRead
         else if name = Some ''git'' \<and> git_diff_outputs_source tokens then VcsDiffReview
         else if name \<in> Some ` {''cat'', ''sed'', ''nl'', ''bat'', ''head'', ''tail'', ''awk'', ''less''}
                 \<and> path_like_tokens tokens \<noteq> [] then ContentDump
         else if interpreter_outputs_source command tokens then ContentDump
         else IntentOther)"

text \<open>The loop over the stages: a read or a dump returns at once, a diff review is remembered.\<close>

fun intent_loop :: "bool \<Rightarrow> string list list \<Rightarrow> bool \<times> command_intent option" where
  "intent_loop saw_diff [] = (saw_diff, None)"
| "intent_loop saw_diff (stage # stages) =
     (case command_stage_intent stage of
        IntentOther \<Rightarrow> intent_loop saw_diff stages
      | RawSearch \<Rightarrow> intent_loop saw_diff stages
      | VcsDiffReview \<Rightarrow> intent_loop True stages
      | intent \<Rightarrow> (saw_diff, Some intent))"

definition command_intent_of :: "string list \<Rightarrow> command_intent" where
  "command_intent_of tokens =
     (case intent_loop False (command_stages tokens) of
        (_, Some intent) \<Rightarrow> intent
      | (saw_diff, None) \<Rightarrow>
          if raw_search_stage tokens \<noteq> None then RawSearch
          else if saw_diff then VcsDiffReview else IntentOther)"

subsection \<open>Query routes\<close>

definition is_alnum_sep :: "char \<Rightarrow> bool" where
  "is_alnum_sep c \<longleftrightarrow> \<not> is_ascii_alphanumeric c"

definition uppercase_first_ascii :: "string \<Rightarrow> string" where
  "uppercase_first_ascii value = (case value of [] \<Rightarrow> [] | c # cs \<Rightarrow> ascii_upper c # cs)"

definition lower_first_ascii :: "string \<Rightarrow> string" where
  "lower_first_ascii value = (case value of [] \<Rightarrow> [] | c # cs \<Rightarrow> ascii_lower c # cs)"

definition title_case_identifier :: "string \<Rightarrow> string" where
  "title_case_identifier value =
     concat (map uppercase_first_ascii (filter (\<lambda>p. p \<noteq> []) (split_by is_alnum_sep value)))"

definition query_variant_list :: "string \<Rightarrow> string list" where
  "query_variant_list raw =
     (let pascal = title_case_identifier raw; camel = lower_first_ascii pascal;
          v1 = push_unique [] raw;
          v2 = (if pascal \<noteq> [] then push_unique v1 pascal else v1)
      in if camel \<noteq> [] then push_unique v2 camel else v2)"

definition query_variants :: "string \<Rightarrow> string option" where
  "query_variants base =
     (let raw = trim_chars is_alnum_sep base
      in if raw = [] then None else Some (str_join ''|'' (query_variant_list raw)))"

definition infer_query_from_path :: "string \<Rightarrow> string option" where
  "infer_query_from_path path =
     (let normalized = trim_end_chars (\<lambda>c. c = CHR ''/'') (str_trim path);
          pieces = rev (split_by (\<lambda>c. c = CHR ''/'') normalized);
          file_name = hd pieces;
          stem = (case rsplit_once ''.'' file_name of None \<Rightarrow> file_name | Some (st, _) \<Rightarrow> st);
          base = (if stem \<in> {''index'', ''mod'', ''__init__'' }
                  then (case get_at pieces 1 of Some parent \<Rightarrow> parent | None \<Rightarrow> stem)
                  else stem)
      in query_variants base)"

definition expand_query_arg :: "string \<Rightarrow> string \<Rightarrow> string \<Rightarrow> string list \<Rightarrow> string list" where
  "expand_query_arg arg selector root terms =
     (if arg = ''{termArgs}'' then concat (map (\<lambda>t. [''--term'', t]) terms)
      else [str_replace ''{projectRoot}'' root
             (str_replace ''{query}'' (str_join '','' terms) (str_replace ''{selector}'' selector arg))])"

definition route_from_query_template ::
  "activated_provider \<Rightarrow> decision_route_kind \<Rightarrow> command_template \<Rightarrow> string \<Rightarrow> string
     \<Rightarrow> string list \<Rightarrow> decision_route" where
  "route_from_query_template p kind template selector root terms =
     \<lparr>r_language_id = p_language_id p, r_provider_id = p_provider_id p, r_binary = ''asp'',
      r_kind = kind,
      r_argv = agent_facade_argv_from_provider_argv p
        (concat (map (\<lambda>arg. expand_query_arg arg selector root terms) (t_argv template))),
      r_stdin_mode = t_stdin_mode template\<rparr>"

definition search_query_route_for_selector ::
  "activated_provider \<Rightarrow> string \<Rightarrow> string \<Rightarrow> string list \<Rightarrow> decision_route option" where
  "search_query_route_for_selector p selector root terms =
     (case query_route (p_routes p) of
        Some template \<Rightarrow> Some (route_from_query_template p RouteQuery template selector root terms)
      | None \<Rightarrow> Some (route_from_query_template p RouteLexical (lexical_route (p_routes p))
                  selector root terms))"

definition search_query_route :: "activated_provider \<Rightarrow> string list \<Rightarrow> decision_route option" where
  "search_query_route p terms =
     Some (route_from_query_template p RouteLexical (lexical_route (p_routes p))
       (provider_source_selector p) ''.'' terms)"

definition is_document_provider :: "activated_provider \<Rightarrow> bool" where
  "is_document_provider p \<longleftrightarrow> p_language_id p = ''org'' \<or> p_language_id p = ''md''"

definition selector_query_route :: "activated_provider \<Rightarrow> string \<Rightarrow> decision_route" where
  "selector_query_route p path =
     (let ctx = route_path_context p path in
      \<lparr>r_language_id = p_language_id p, r_provider_id = p_provider_id p, r_binary = ''asp'',
       r_kind = RouteQuery,
       r_argv = agent_facade_argv p
         [''query'', ''--selector'', x_selector ctx, ''--workspace'', x_project_root ctx,
          if is_document_provider p then ''--content'' else ''--code''],
       r_stdin_mode = None\<rparr>)"

subsection \<open>Patches\<close>

definition patch_markers :: "string list" where
  "patch_markers =
     [''*** Add File: '', ''*** Delete File: '', ''*** Update File: '', ''*** Move to: '']"

definition looks_like_apply_patch_invocation :: "string \<Rightarrow> string \<Rightarrow> bool" where
  "looks_like_apply_patch_invocation tool_name0 command0 =
     (let tool_name = to_ascii_lowercase tool_name0;
          command = str_trim command0;
          command_lower = to_ascii_lowercase command
      in (str_contains command ''*** Begin Patch'' \<and> str_contains command ''*** End Patch'')
         \<and> (tool_name = ''apply_patch'' \<or> ends_with tool_name ''.apply_patch''
            \<or> tool_name = ''applypatch''
            \<or> str_contains command_lower ''apply_patch'' \<or> str_contains command_lower ''applypatch''))"

definition clean_patch_path :: "string \<Rightarrow> string" where
  "clean_patch_path path = trim_chars (\<lambda>c. c \<in> {CHR 0x27, CHR 0x22, CHR 0x60}) (str_trim path)"

definition push_patch_path :: "string \<Rightarrow> string list \<Rightarrow> string list" where
  "push_patch_path path paths = (if path = [] then paths else push_unique paths path)"

definition patch_paths :: "string \<Rightarrow> string list" where
  "patch_paths command =
     fold (\<lambda>line paths. fold (\<lambda>marker paths.
             case strip_prefix marker (trim_start line) of
               None \<Rightarrow> paths
             | Some path \<Rightarrow> push_patch_path (clean_patch_path path) paths) patch_markers paths)
       (str_lines command) []"

definition apply_patch_source_paths :: "string \<Rightarrow> string \<Rightarrow> string list" where
  "apply_patch_source_paths tool_name command =
     (if \<not> looks_like_apply_patch_invocation tool_name command then [] else patch_paths command)"

subsection \<open>Stages and searches\<close>

lemma stages_loop_nonempty:
  "stages_loop current tokens =
     (let rest = dropWhile (\<lambda>t. \<not> is_separator t) tokens;
          stage = current @ takeWhile (\<lambda>t. \<not> is_separator t) tokens
      in (if stage = [] then [] else [stage]) @ stages_loop [] (drop 1 rest))"
  by (induction current tokens rule: stages_loop.induct) (auto simp: Let_def)

lemma stages_loop_skip: "stages_loop [] tokens = stages_loop [] (dropWhile is_separator tokens)"
  by (induction tokens) auto

lemma command_stages_unfold:
  "command_stages tokens =
     (let rest = dropWhile is_separator tokens in
      if rest = [] then []
      else takeWhile (\<lambda>t. \<not> is_separator t) rest
           # command_stages (drop 1 (dropWhile (\<lambda>t. \<not> is_separator t) rest)))"
proof (cases "dropWhile is_separator tokens")
  case Nil
  then have "stages_loop [] tokens = []"
    using stages_loop_skip [of tokens] by (simp only: stages_loop.simps if_True simp_thms)
  with Nil show ?thesis by (simp add: command_stages_def)
next
  case (Cons t ts)
  then have "\<not> is_separator t" by (metis hd_dropWhile list.distinct(1) list.sel(1))
  then show ?thesis
    using stages_loop_skip [of tokens] stages_loop_nonempty [of "[]" "t # ts"] Cons
    by (simp add: command_stages_def Let_def)
qed

definition search_of_stage :: "string list \<Rightarrow> (string list \<times> raw_search_command_kind) option" where
  "search_of_stage stage =
     map_option (Pair (strip_stage_assignments stage)) (raw_search_kind (strip_stage_assignments stage))"

lemma raw_search_stage_find_map:
  "raw_search_stage tokens = find_map search_of_stage (command_stages tokens)"
proof (induction tokens rule: raw_search_stage.induct)
  case (1 tokens)
  define rest where "rest = dropWhile is_separator tokens"
  define stage where "stage = takeWhile (\<lambda>t. \<not> is_separator t) rest"
  show ?case
  proof (cases "rest = []")
    case True
    then show ?thesis
      by (simp add: raw_search_stage.simps [of tokens] command_stages_unfold [of tokens] rest_def Let_def)
  next
    case False
    have stages: "command_stages tokens =
        stage # command_stages (drop 1 (dropWhile (\<lambda>t. \<not> is_separator t) rest))"
      using False by (simp add: command_stages_unfold [of tokens] rest_def stage_def Let_def)
    have search: "raw_search_stage tokens =
        (case raw_search_kind (strip_stage_assignments stage) of
           Some kind \<Rightarrow> Some (strip_stage_assignments stage, kind)
         | None \<Rightarrow> raw_search_stage (drop 1 (dropWhile (\<lambda>t. \<not> is_separator t) rest)))"
      using False
      by (simp only: raw_search_stage.simps [of tokens] rest_def [symmetric] Let_def if_False
          stage_def [symmetric])
    show ?thesis
    proof (cases "raw_search_kind (strip_stage_assignments stage)")
      case None
      then have "raw_search_stage (drop 1 (dropWhile (\<lambda>t. \<not> is_separator t) rest)) =
          find_map search_of_stage (command_stages (drop 1 (dropWhile (\<lambda>t. \<not> is_separator t) rest)))"
        using 1 False by (simp add: rest_def stage_def)
      with None show ?thesis by (simp add: stages search search_of_stage_def [of stage])
    next
      case (Some kind)
      then show ?thesis by (simp add: stages search search_of_stage_def [of stage])
    qed
  qed
qed

definition good_term :: "string \<Rightarrow> bool" where
  "good_term t \<longleftrightarrow> 3 \<le> length t \<and> list_ex is_ascii_alphabetic t"

lemma normalize_terms_loop_spec:
  "distinct acc \<Longrightarrow> length acc < 8 \<Longrightarrow> list_all good_term acc \<Longrightarrow>
     distinct (normalize_terms_loop values acc) \<and> length (normalize_terms_loop values acc) \<le> 8
     \<and> list_all good_term (normalize_terms_loop values acc)
     \<and> prefix acc (normalize_terms_loop values acc)"
proof (induction "values" acc rule: normalize_terms_loop.induct)
  case (2 v vs acc)
  define acc' where "acc' = (if keep_term acc v then acc @ [v] else acc)"
  have step: "normalize_terms_loop (v # vs) acc =
      (if 8 \<le> length acc' then acc' else normalize_terms_loop vs acc')"
    by (simp add: acc'_def Let_def)
  have acc': "distinct acc'" "length acc' \<le> 8" "list_all good_term acc'" "prefix acc acc'"
    using 2 by (auto simp: acc'_def keep_term_def good_term_def [of v])
  show ?case
  proof (cases "8 \<le> length acc'")
    case True
    with acc' step show ?thesis by simp
  next
    case False
    then show ?thesis
      using "2.IH" [of acc'] acc' step by (auto simp: acc'_def intro: prefix_order.order_trans)
  qed
qed simp

lemma normalize_terms_good:
  "distinct (normalize_terms ts) \<and> length (normalize_terms ts) \<le> 8 \<and> list_all good_term (normalize_terms ts)"
  using normalize_terms_loop_spec [of "[]"] by (simp add: normalize_terms_def)

lemma push_provider_once_subset: "set (push_provider_once ps p) \<subseteq> insert p (set ps)"
  by (auto simp: push_provider_once_def)

lemma push_providers_subset: "set (push_providers acc ps) \<subseteq> set acc \<union> set ps"
  unfolding push_providers_def
proof (induction ps arbitrary: acc)
  case (Cons p ps)
  then show ?case using push_provider_once_subset [of acc p] by fastforce
qed simp

lemma fold_push_subset:
  "set acc \<subseteq> S \<Longrightarrow> (\<And>x. set (f x) \<subseteq> S) \<Longrightarrow> set (fold (\<lambda>x acc. push_providers acc (f x)) xs acc) \<subseteq> S"
proof (induction xs arbitrary: acc)
  case (Cons x xs)
  have "set (push_providers acc (f x)) \<subseteq> S"
    using push_providers_subset [of acc "f x"] Cons.prems by blast
  then show ?case using Cons by simp
qed simp

lemma raw_search_providers_subset:
  "set (map fst (providers_for_raw_search_selector glob rt s)) \<subseteq> set (providers rt)"
  by (auto dest: providers_for_raw_search_selector_sound [THEN iffD1])

lemma matching_providers_subset: "set (matching_providers glob sc rt) \<subseteq> set (providers rt)"
proof -
  let ?acc0 = "push_providers [] (filter (\<lambda>p. list_ex (provider_matches_source_extension p) (s_extensions sc)
                     \<or> list_ex (provider_matches_source_type p) (s_types sc)) (providers rt))"
  have "set ?acc0 \<subseteq> set (providers rt)" by (rule subset_trans [OF push_providers_subset]) auto
  then have "set (push_language_filter_providers glob sc rt []) \<subseteq> set (providers rt)"
    unfolding push_language_filter_providers_def
    by (rule fold_push_subset) (rule raw_search_providers_subset)
  then show ?thesis
    unfolding matching_providers_def push_explicit_source_path_providers_def
    by (rule fold_push_subset) (rule raw_search_providers_subset)
qed

lemma workspace_source_providers_subset: "set (workspace_source_providers sc rt) \<subseteq> set (providers rt)"
proof -
  have "set (fold (\<lambda>selector acc. push_providers acc
      (filter (\<lambda>p. list_ex (selector_mentions_root selector) (p_source_roots p)) (providers rt)))
      xs []) \<subseteq> set (providers rt)" for xs
    by (rule fold_push_subset) auto
  then show ?thesis
    by (simp only: workspace_source_providers_def Let_def split: if_split) simp
qed

lemma find_app: "find P (xs @ ys) = (case find P xs of Some x \<Rightarrow> Some x | None \<Rightarrow> find P ys)"
  by (induction xs) auto

definition is_source_output :: "command_intent \<Rightarrow> bool" where
  "is_source_output i \<longleftrightarrow> i = DirectRead \<or> i = ContentDump"

lemma intent_loop_spec:
  "snd (intent_loop d stages) = find is_source_output (map command_stage_intent stages)
   \<and> (snd (intent_loop d stages) = None \<longrightarrow>
        fst (intent_loop d stages) = (d \<or> VcsDiffReview \<in> command_stage_intent ` set stages))"
  by (induction d stages rule: intent_loop.induct)
     (auto simp: is_source_output_def split: command_intent.split)

lemma set_push_patch_path: "set (push_patch_path p paths) = set paths \<union> ({p} - {[]})"
  by (auto simp: push_patch_path_def)

lemma distinct_push_patch_path: "distinct (push_patch_path p paths) = distinct paths"
  by (simp add: push_patch_path_def)

lemma fold_collect_set:
  assumes "\<And>x acc. set (f x acc) = set acc \<union> g x"
  shows "set (fold f xs acc) = set acc \<union> (\<Union>x \<in> set xs. g x)"
  using assms by (induction xs arbitrary: acc) auto

lemma fold_distinct:
  "distinct acc \<Longrightarrow> (\<And>x acc. distinct acc \<Longrightarrow> distinct (f x acc)) \<Longrightarrow> distinct (fold f xs acc)"
  by (induction xs arbitrary: acc) auto

definition marked_paths :: "string \<Rightarrow> string set" where
  "marked_paths line =
     {clean_patch_path path | path marker. marker \<in> set patch_markers
        \<and> strip_prefix marker (trim_start line) = Some path} - {[]}"

definition marker_step :: "string \<Rightarrow> string \<Rightarrow> string list \<Rightarrow> string list" where
  "marker_step line marker paths =
     (case strip_prefix marker (trim_start line) of
        None \<Rightarrow> paths | Some path \<Rightarrow> push_patch_path (clean_patch_path path) paths)"

lemma marker_fold:
  "set (fold (marker_step line) patch_markers acc) = set acc \<union> marked_paths line
   \<and> (distinct acc \<longrightarrow> distinct (fold (marker_step line) patch_markers acc))"
proof -
  let ?g = "\<lambda>marker. (case strip_prefix marker (trim_start line) of
      None \<Rightarrow> {} | Some path \<Rightarrow> {clean_patch_path path} - {[]})"
  have "(\<Union>m \<in> set patch_markers. ?g m) = marked_paths line"
    by (fastforce simp: marked_paths_def split: option.splits)
  moreover have "set (marker_step line m acc) = set acc \<union> ?g m" for m acc
    by (simp add: marker_step_def set_push_patch_path split: option.split)
  moreover have "distinct acc \<Longrightarrow> distinct (marker_step line m acc)" for m acc
    by (simp add: marker_step_def distinct_push_patch_path split: option.split)
  ultimately show ?thesis
    using fold_collect_set [of "marker_step line" ?g patch_markers acc]
      fold_distinct [of acc "marker_step line" patch_markers] by simp
qed

lemma patch_paths_exact:
  "set (patch_paths command) = (\<Union>line \<in> set (str_lines command). marked_paths line)
   \<and> distinct (patch_paths command)"
proof -
  have step: "patch_paths command = fold (\<lambda>line. fold (marker_step line) patch_markers) (str_lines command) []"
    by (simp add: patch_paths_def marker_step_def [abs_def])
  show ?thesis
    unfolding step
    using fold_collect_set [of "\<lambda>line. fold (marker_step line) patch_markers" marked_paths "str_lines command" "[]"]
      fold_distinct [of "[]" "\<lambda>line. fold (marker_step line) patch_markers" "str_lines command"]
      marker_fold by simp
qed

lemma workspace_added: "''--workspace'' \<in> set (with_workspace argv)"
  by (auto simp: with_workspace_def split: option.split)

lemma with_workspace_set: "set (with_workspace argv) \<subseteq> set argv \<union> {''--workspace'', ''.''}"
  by (auto simp: with_workspace_def dest: in_set_takeD in_set_dropD split: option.split)

lemma command_name_separator: "is_separator (command_name t) \<or> \<not> is_separator t"
  using is_separator_short [of t] by auto

lemma provider_index_loop_Some:
  "provider_index_loop p ts i = Some (j, w) \<Longrightarrow>
     i \<le> j \<and> j - i < length ts
     \<and> (w = 1 \<and> command_name (ts ! (j - i)) = p_binary p
        \<or> w = 2 \<and> command_name (ts ! (j - i)) = ''asp'' \<and> get_at ts (j - i + 1) = Some (p_language_id p))"
proof (induction p ts i rule: provider_index_loop.induct)
  case (2 p t ts i)
  show ?case
  proof (cases "command_name t = p_binary p \<or> command_name t = ''asp'' \<and> get_at ts 0 = Some (p_language_id p)")
    case True
    with 2 show ?thesis by (auto simp: get_at_def split: if_splits)
  next
    case False
    then have "provider_index_loop p ts (i + 1) = Some (j, w)" using 2 by auto
    moreover have "\<not> (command_name t = p_binary p)"
      "\<not> (command_name t = ''asp'' \<and> get_at ts 0 = Some (p_language_id p))" using False by auto
    ultimately have "i + 1 \<le> j \<and> j - (i + 1) < length ts
     \<and> (w = 1 \<and> command_name (ts ! (j - (i + 1))) = p_binary p
        \<or> w = 2 \<and> command_name (ts ! (j - (i + 1))) = ''asp''
            \<and> get_at ts (j - (i + 1) + 1) = Some (p_language_id p))"
      using "2.IH" by blast
    moreover from this have "i + 1 \<le> j" by blast
    then have "j - i = Suc (j - (i + 1))" by simp
    ultimately show ?thesis by (auto simp: get_at_def)
  qed
qed simp


lemma dropWhile_not_sep: "list_all (\<lambda>t. \<not> is_separator t) st \<Longrightarrow>
    takeWhile (\<lambda>t. \<not> is_separator t) (st @ ''|'' # ts) = st
    \<and> dropWhile (\<lambda>t. \<not> is_separator t) (st @ ''|'' # ts) = ''|'' # ts"
  by (induction st) auto

lemma without_env_id:
  "shell_command_basename (hd st) \<noteq> ''env'' \<Longrightarrow> command_stage_without_env_prefix st = st"
  by (cases st) (auto simp: command_stage_without_env_prefix_def)

lemma raw_kind_not_env:
  "raw_search_kind st \<noteq> None \<Longrightarrow> st \<noteq> [] \<and> shell_command_basename (hd st) \<noteq> ''env''"
  by (auto simp: raw_search_kind_def shell_command_basename_def command_name_def Let_def
      split: list.splits if_splits)

lemma filters_output_pipe:
  assumes st: "list_all (\<lambda>t. \<not> is_separator t) st" "st \<noteq> []"
    and s2: "list_all (\<lambda>t. \<not> is_separator t) s2" "raw_search_kind s2 \<noteq> None"
    and prod: "produces (remember st)"
  shows "filters_output_loop remember produces m0 None (st @ ''|'' # s2)"
proof -
  obtain t ts where t: "st = t # ts" using st(2) by (cases st) auto
  obtain u us where u: "s2 = u # us" using raw_kind_not_env [OF s2(2)] by (cases s2) auto
  have take: "takeWhile (\<lambda>t. \<not> is_separator t) (t # (ts @ ''|'' # s2)) = st"
    using dropWhile_not_sep [OF st(1)] t by simp
  have drop: "dropWhile (\<lambda>t. \<not> is_separator t) (ts @ ''|'' # s2) = ''|'' # s2"
    using dropWhile_not_sep [of ts s2] st(1) t by simp
  have "\<not> is_separator t" "\<not> is_separator u" using st(1) s2(1) t u by auto
  moreover have tw: "takeWhile (\<lambda>t. \<not> is_separator t) (u # us) = u # us"
    using s2(1) u by (simp add: takeWhile_eq_all_conv list_all_iff)
  moreover have "command_stage_without_env_prefix s2 = s2"
    by (rule without_env_id) (use raw_kind_not_env [OF s2(2)] in blast)
  ultimately have tail: "filters_output_loop remember produces (remember st) (Some ''|'') s2"
    using prod s2(2) unfolding u by (simp add: Let_def tw del: takeWhile.simps)
  then have "filters_output_loop remember produces (remember st) None (''|'' # s2)" by simp
  then show ?thesis
    using \<open>\<not> is_separator t\<close> take drop t
    by (simp add: Let_def)
qed


lemma pipe_not_env: "st \<noteq> [] \<Longrightarrow> shell_command_basename (hd st) \<noteq> ''env'' \<Longrightarrow>
    command_stage_without_env_prefix (st @ rest) = st @ rest"
  by (rule without_env_id) simp

subsection \<open>Properties\<close>

text \<open>The intent of a command is decided by its stages alone: the first stage that prints source
  decides; otherwise a raw search anywhere outranks a diff review anywhere.\<close>

theorem command_intent_refines_stages:
  "command_intent_of tokens =
     (let stages = command_stages tokens; intents = map command_stage_intent stages in
      case find is_source_output intents of
        Some intent \<Rightarrow> intent
      | None \<Rightarrow>
          if list_ex (\<lambda>stage. search_of_stage stage \<noteq> None) stages then RawSearch
          else if VcsDiffReview \<in> set intents then VcsDiffReview
          else IntentOther)"
proof -
  have "(raw_search_stage tokens \<noteq> None) =
      list_ex (\<lambda>stage. search_of_stage stage \<noteq> None) (command_stages tokens)"
    by (auto simp: raw_search_stage_find_map find_map_None list_ex_iff
        dest: find_map_Some)
  then show ?thesis
    using intent_loop_spec [of False "command_stages tokens"]
    by (cases "intent_loop False (command_stages tokens)")
       (auto simp: command_intent_of_def Let_def split: option.splits)
qed

text \<open>A raw search is answered only by activated providers, at least one, and by at most eight
  distinct terms of three bytes or more that contain a letter.\<close>

theorem raw_search_plan_sound:
  assumes "raw_search_plan_for glob registry tokens = Some plan"
  shows "plan_providers plan \<noteq> [] \<and> set (plan_providers plan) \<subseteq> set (providers registry)
    \<and> distinct (plan_terms plan) \<and> length (plan_terms plan) \<le> 8 \<and> list_all good_term (plan_terms plan)
    \<and> raw_search_stage (command_stage_without_env_prefix tokens) \<noteq> None"
proof -
  let ?tokens = "command_stage_without_env_prefix tokens"
  from assms obtain stage kind where st: "raw_search_stage ?tokens = Some (stage, kind)"
    by (auto simp: raw_search_plan_for_def parsed_from_tokens_def Let_def split: if_splits option.splits)
  define parsed where "parsed = parsed_normalized (parse_raw_search stage kind)"
  define ps where "ps = (if has_raw_source_selector glob (ps_scope parsed) registry
      then matching_providers glob (ps_scope parsed) registry else [])"
  define qs where "qs = (if ps = [] then workspace_source_providers (ps_scope parsed) registry else ps)"
  have pf: "parsed_from_tokens ?tokens = Some parsed"
    by (simp add: parsed_from_tokens_def st parsed_def)
  have plan: "plan = \<lparr>plan_providers = qs, plan_terms = ps_terms parsed\<rparr> \<and> qs \<noteq> []"
    using assms unfolding raw_search_plan_for_def Let_def pf qs_def ps_def
    by (simp split: if_splits)
  have "set qs \<subseteq> set (providers registry)"
    using matching_providers_subset workspace_source_providers_subset by (simp add: qs_def ps_def)
  with plan st show ?thesis
    using normalize_terms_good [of "ps_terms (parse_raw_search stage kind)"]
    by (simp add: parsed_def parsed_normalized_def)
qed

theorem raw_search_plan_sound_witness:
  "\<exists>plan. raw_search_plan_for literal_glob demo_runtime [''rg'', ''needle'', ''src''] = Some plan
     \<and> plan_providers plan \<noteq> [] \<and> set (plan_providers plan) \<subseteq> set (providers demo_runtime)"
proof -
  have "raw_search_plan_for literal_glob demo_runtime [''rg'', ''needle'', ''src''] =
      Some \<lparr>plan_providers = [demo_provider], plan_terms = [''needle'']\<rparr>"
    by code_simp
  from raw_search_plan_sound [OF this] this show ?thesis by blast
qed

text \<open>Searching in the output of a provider command is never blocked: for every provider stage
  and every search stage, the pipe of the two has no raw search plan.\<close>

theorem provider_output_search_allowed:
  assumes "is_provider_command_stage registry st" and "shell_command_basename (hd st) \<noteq> ''env''"
    and "list_all (\<lambda>t. \<not> is_separator t) st"
    and "raw_search_kind s2 \<noteq> None" and "list_all (\<lambda>t. \<not> is_separator t) s2"
  shows "raw_search_plan_for glob registry (st @ ''|'' # s2) = None"
proof -
  have ne: "st \<noteq> []" using assms(1) by (auto simp: is_provider_command_stage_def)
  have "filters_provider_command_output registry (st @ ''|'' # s2)"
    unfolding filters_provider_command_output_def
    by (rule filters_output_pipe)
       (use assms ne without_env_id [OF assms(2)] in simp_all)
  then show ?thesis
    using pipe_not_env [OF ne assms(2)] by (simp add: raw_search_plan_for_def Let_def)
qed

theorem provider_output_search_allowed_witness:
  "raw_search_plan_for literal_glob demo_runtime ([''rs-harness'', ''search''] @ ''|'' # [''rg'', ''src'']) = None"
  by (rule provider_output_search_allowed) code_simp+

text \<open>The files of a patch are exactly the cleaned, non-empty paths behind a file marker on one of
  its lines, each once; a command that is not a patch invocation names none.\<close>

theorem patch_paths_complete:
  "distinct (apply_patch_source_paths tool command)
   \<and> set (apply_patch_source_paths tool command) =
       (if looks_like_apply_patch_invocation tool command
        then {clean_patch_path path | path line marker.
                line \<in> set (str_lines command) \<and> marker \<in> set patch_markers
                \<and> strip_prefix marker (trim_start line) = Some path} - {[]}
        else {})"
  using patch_paths_exact [of command]
  by (auto simp: apply_patch_source_paths_def marked_paths_def)

definition plain_name :: "string \<Rightarrow> bool" where
  "plain_name name \<longleftrightarrow> \<not> is_separator name \<and> name \<noteq> ''--json''"

definition json_extra :: "string set" where
  "json_extra = {''--workspace'', ''.'', ''--view'', ''seeds''}"

lemma with_workspace_extra: "set (with_workspace argv) \<subseteq> set argv \<union> json_extra"
proof -
  have "{''--workspace'', ''.''} \<subseteq> json_extra" by (simp add: json_extra_def)
  then show ?thesis using with_workspace_set [of argv] by (meson Un_mono order_refl subset_trans)
qed

lemma with_seed_view_extra: "set (with_seed_view argv) \<subseteq> set argv \<union> json_extra"
proof -
  have "{''--view'', ''seeds''} \<subseteq> json_extra" by (simp add: json_extra_def)
  then show ?thesis by (simp add: with_seed_view_def)
qed

lemma view_added: "''--view'' \<in> set (with_seed_view argv)"
  by (simp add: with_seed_view_def)

lemma seed_view_keeps: "a \<in> set argv \<Longrightarrow> a \<in> set (with_seed_view argv)"
  by (simp add: with_seed_view_def)

definition json_argv_ok :: "activated_provider \<Rightarrow> string list \<Rightarrow> string list \<Rightarrow> bool" where
  "json_argv_ok p tokens argv \<longleftrightarrow>
     ''--workspace'' \<in> set argv \<and> ''--view'' \<in> set argv
     \<and> (\<forall>a \<in> set argv. a = p_binary p \<or> a \<in> json_extra
          \<or> a \<in> set tokens \<and> a \<noteq> ''--json'' \<and> \<not> is_separator a)"

lemma plain_name_command: "plain_name (command_name t) \<Longrightarrow> plain_name t"
proof -
  have "command_name ''--json'' = ''--json''" by code_simp
  then show "plain_name (command_name t) \<Longrightarrow> plain_name t"
    using is_separator_short [of t] by (auto simp: plain_name_def)
qed

lemma json_argv:
  assumes idx: "provider_command_index p tokens = Some (i, w)"
    and names: "plain_name (p_binary p)" "plain_name (p_language_id p)"
  shows "\<exists>x xs. filter (\<lambda>t. t \<noteq> ''--json'') (takeWhile (\<lambda>t. \<not> is_separator t) (drop (i + w - 1) tokens)) = x # xs"
proof -
  have i: "i < length tokens" and w: "w = 1 \<and> command_name (tokens ! i) = p_binary p
      \<or> w = 2 \<and> get_at tokens (i + 1) = Some (p_language_id p)"
    using provider_index_loop_Some [of p tokens 0 i w] idx by (auto simp: provider_command_index_def)
  have "i + w - 1 < length tokens \<and> plain_name (tokens ! (i + w - 1))"
  proof (cases "w = 1")
    case True
    with w i names plain_name_command [of "tokens ! i"] show ?thesis by auto
  next
    case False
    with w names show ?thesis by (auto simp: get_at_Some)
  qed
  then show ?thesis by (auto simp: Cons_nth_drop_Suc [symmetric] plain_name_def)
qed

lemma json_argv_ok_built:
  assumes "set xs \<subseteq> set tokens" and "\<forall>a \<in> set xs. a \<noteq> ''--json'' \<and> \<not> is_separator a"
  shows "json_argv_ok p tokens (with_seed_view (with_workspace (p_binary p # xs)))"
proof -
  let ?argv = "with_seed_view (with_workspace (p_binary p # xs))"
  have sub: "set ?argv \<subseteq> insert (p_binary p) (set xs) \<union> json_extra"
    using with_workspace_extra [of "p_binary p # xs"]
      with_seed_view_extra [of "with_workspace (p_binary p # xs)"] unfolding list.set by blast
  have "a = p_binary p \<or> a \<in> json_extra \<or> a \<in> set tokens \<and> a \<noteq> ''--json'' \<and> \<not> is_separator a"
    if "a \<in> set ?argv" for a
    using subsetD [OF sub that] assms by blast
  then show ?thesis
    unfolding json_argv_ok_def
    by (intro conjI ballI seed_view_keeps workspace_added view_added)
qed

lemma search_json_loop_ok:
  assumes "\<forall>p \<in> set ps. plain_name (p_binary p) \<and> plain_name (p_language_id p)"
  shows "\<exists>r. search_json_loop tokens ps = Inr r
    \<and> (case r of None \<Rightarrow> True | Some (p, argv) \<Rightarrow> p \<in> set ps \<and> json_argv_ok p tokens argv)"
  using assms
proof (induction ps)
  case (Cons p ps)
  then obtain r where r: "search_json_loop tokens ps = Inr r"
    "case r of None \<Rightarrow> True | Some (q, argv) \<Rightarrow> q \<in> set ps \<and> json_argv_ok q tokens argv" by auto
  have later: "case r of None \<Rightarrow> True | Some (q, argv) \<Rightarrow> q \<in> set (p # ps) \<and> json_argv_ok q tokens argv"
    using r(2) by (auto split: option.splits)
  show ?case
  proof (cases "provider_command_index p tokens")
    case None
    with r later show ?thesis by auto
  next
    case (Some iw)
    then obtain i w where iw: "provider_command_index p tokens = Some (i, w)" by (cases iw) auto
    show ?thesis
    proof (cases "get_at tokens (i + w) = Some ''search''")
      case False
      with r later iw show ?thesis by auto
    next
      case True
      obtain x xs where xs: "filter (\<lambda>t. t \<noteq> ''--json'')
          (takeWhile (\<lambda>t. \<not> is_separator t) (drop (i + w - 1) tokens)) = x # xs"
        using json_argv [OF iw] Cons.prems by auto
      have mem: "a \<in> set tokens \<and> a \<noteq> ''--json'' \<and> \<not> is_separator a" if "a \<in> set xs" for a
      proof -
        have "a \<in> set (filter (\<lambda>t. t \<noteq> ''--json'')
          (takeWhile (\<lambda>t. \<not> is_separator t) (drop (i + w - 1) tokens)))" using that xs by simp
        then show ?thesis by (auto dest!: set_takeWhileD in_set_dropD)
      qed
      have "search_json_loop tokens (p # ps) =
          Inr (Some (p, with_seed_view (with_workspace (p_binary p # xs))))"
        using True iw xs by (simp add: set_first_def shell_bind_def)
      moreover have "json_argv_ok p tokens (with_seed_view (with_workspace (p_binary p # xs)))"
        by (rule json_argv_ok_built) (use mem in auto)
      ultimately show ?thesis by auto
    qed
  qed
qed simp

text \<open>Rewriting a JSON search never panics when provider names are plain words, and the rewritten
  call names a workspace and a view, drops every \<open>--json\<close>, and carries only words of the first
  stage.\<close>

theorem search_json_route_normalised:
  assumes "\<forall>p \<in> set (providers registry). plain_name (p_binary p) \<and> plain_name (p_language_id p)"
  shows "\<exists>r. search_json_route registry tokens = Inr r
    \<and> (case r of None \<Rightarrow> True
       | Some (p, argv) \<Rightarrow> p \<in> set (providers registry) \<and> json_argv_ok p tokens argv)"
  unfolding search_json_route_def by (rule search_json_loop_ok [OF assms])

theorem search_json_route_normalised_witness:
  "json_argv_ok demo_provider [''asp'', ''rust'', ''search'', ''lexical'', ''x'', ''--json'', ''.'']
     [''rs-harness'', ''search'', ''lexical'', ''x'', ''--workspace'', ''.'', ''--view'', ''seeds'']"
proof -
  have "\<forall>p \<in> set (providers demo_runtime). plain_name (p_binary p) \<and> plain_name (p_language_id p)"
    by code_simp
  moreover have "search_json_route demo_runtime
        [''asp'', ''rust'', ''search'', ''lexical'', ''x'', ''--json'', ''.''] =
      Inr (Some (demo_provider,
        [''rs-harness'', ''search'', ''lexical'', ''x'', ''--workspace'', ''.'', ''--view'', ''seeds'']))"
    by code_simp
  ultimately show ?thesis
    using search_json_route_normalised [of demo_runtime
      "[''asp'', ''rust'', ''search'', ''lexical'', ''x'', ''--json'', ''.'']"] by simp
qed

end
