(* ===== verification/AspCommand.thy ===== *)
theory AspCommand
  imports Shell
begin

section \<open>Public asp commands\<close>

text \<open>
  Models \<open>crates/agent-semantic-hook/src/command/asp.rs\<close>, the policy records of
  \<open>agent-semantic-config/src/hook_client_config/model.rs\<close> that configure it, the root-session
  classification of \<open>agent-semantic-protocol/src/command/hook_runtime_agent_session_command.rs\<close>
  and the prefix policy of \<open>hook_config/asp_session_policy.rs\<close>: whether a command invokes
  \<open>asp\<close>, with what intent, and whether the root session may run it.
\<close>

subsection \<open>Policy\<close>

record asp_reasoning_config =
  root_commands :: "string list"
  guide_command :: bool
  search_routes :: "string list"
  query_flags :: "string list"
  unprojected_query :: bool

record asp_exact_evidence_config =
  query_projection_flags :: "string list"
  query_projection_views :: "string list"
  selector_kinds :: "string list"
  require_same_language :: bool

record asp_invalid_evidence_config =
  reject_projected_query_without_exact_selector :: bool
  reject_cross_language_selector :: bool

record asp_command_intent_policy =
  control_plane_root_commands :: "string list"
  reasoning :: asp_reasoning_config
  exact_evidence :: asp_exact_evidence_config
  from_hook_values :: "string list"
  invalid_evidence :: asp_invalid_evidence_config

definition default_asp_reasoning :: asp_reasoning_config where
  "default_asp_reasoning =
     \<lparr>root_commands = [''fd'', ''rg''], guide_command = True,
      search_routes = [''prime'', ''pipe'', ''owner'', ''lexical'', ''deps'', ''dependency'',
        ''failure'', ''reasoning'', ''ingest'', ''guide''],
      query_flags = [''--term''], unprojected_query = True\<rparr>"

definition default_asp_exact_evidence :: asp_exact_evidence_config where
  "default_asp_exact_evidence =
     \<lparr>query_projection_flags = [''--code'', ''--content'', ''--names-only''],
      query_projection_views = [''metadata''], selector_kinds = [''item''],
      require_same_language = True\<rparr>"

definition default_asp_command_intent_policy :: asp_command_intent_policy where
  "default_asp_command_intent_policy =
     \<lparr>control_plane_root_commands = [''guide'', ''providers'', ''tools'', ''wrap'', ''cache'',
        ''cloud'', ''hook'', ''agent'', ''install'', ''sync'', ''paths'', ''healthcheck'',
        ''source-access'', ''ast-patch'', ''graph''],
      reasoning = default_asp_reasoning, exact_evidence = default_asp_exact_evidence,
      from_hook_values = [''direct-source-read''],
      invalid_evidence = \<lparr>reject_projected_query_without_exact_selector = True,
        reject_cross_language_selector = True\<rparr>\<rparr>"

subsection \<open>Where asp is invoked\<close>

definition is_slash :: "char \<Rightarrow> bool" where
  "is_slash c \<longleftrightarrow> c = CHR ''/'' \<or> c = CHR 0x5C"

definition asp_command_name :: "string \<Rightarrow> string" where
  "asp_command_name token = last_piece is_slash token"

definition is_shell_separator :: "string \<Rightarrow> bool" where
  "is_shell_separator token \<longleftrightarrow> token \<in> {''&&'', '';'', ''|'', ''||'', ''&''}"

definition is_asp_env_assignment :: "string \<Rightarrow> bool" where
  "is_asp_env_assignment token =
     (case split_once ''='' token of
        None \<Rightarrow> False
      | Some (name, _) \<Rightarrow> name \<noteq> [] \<and> \<not> starts_with name ''-''
          \<and> list_all (\<lambda>c. c = CHR ''_'' \<or> is_ascii_alphanumeric c) name)"

definition is_asp_binary_token :: "string \<Rightarrow> bool" where
  "is_asp_binary_token token \<longleftrightarrow>
     token = ''asp'' \<or> ends_with token ''/asp'' \<or> ends_with token ''.bin/asp''
     \<or> ends_with token (CHR 0x5C # ''asp.exe'')"

fun command_wrapper_loop :: "string list \<Rightarrow> nat \<Rightarrow> nat option" where
  "command_wrapper_loop [] index = None"
| "command_wrapper_loop (t # ts) index =
     (if t = ''-v'' \<or> t = ''-V'' then None
      else if t = ''-p'' then command_wrapper_loop ts (index + 1)
      else if t = ''--'' then (if ts = [] then None else Some (index + 1))
      else if starts_with t ''-'' then None
      else Some index)"

definition command_wrapper_invocation_index :: "string list \<Rightarrow> nat \<Rightarrow> nat option" where
  "command_wrapper_invocation_index tokens command_index =
     command_wrapper_loop (drop (command_index + 1) tokens) (command_index + 1)"

fun executable_loop :: "string list \<Rightarrow> nat \<Rightarrow> nat option" where
  "executable_loop [] index = None"
| "executable_loop (t # ts) index =
     (if t = ''--'' then (if ts = [] then None else Some (index + 1))
      else if starts_with t ''-'' then executable_loop ts (index + 1)
      else Some index)"

definition executable_after_options :: "string list \<Rightarrow> nat \<Rightarrow> nat option" where
  "executable_after_options tokens index = executable_loop (drop index tokens) index"

definition stage_start :: "string list \<Rightarrow> nat \<Rightarrow> nat" where
  "stage_start tokens index =
     (case rposition is_shell_separator (take index tokens) of
        None \<Rightarrow> 0 | Some separator \<Rightarrow> separator + 1)"

text \<open>The first word from the stage start on that is not an assignment.\<close>

definition stage_command_index :: "string list \<Rightarrow> nat \<Rightarrow> nat" where
  "stage_command_index tokens start =
     start + length (takeWhile is_asp_env_assignment (drop start tokens))"

definition is_asp_invocation_position :: "string list \<Rightarrow> nat \<Rightarrow> bool" where
  "is_asp_invocation_position tokens index =
     (let command_index = stage_command_index tokens (stage_start tokens index) in
      if command_index = index then True
      else (case map_option asp_command_name (get_at tokens command_index) of
              None \<Rightarrow> False
            | Some wrapper \<Rightarrow>
                if wrapper = ''command''
                then command_wrapper_invocation_index tokens command_index = Some index
                else if wrapper = ''exec'' \<or> wrapper = ''nohup''
                then executable_after_options tokens (command_index + 1) = Some index
                else False))"

definition asp_invocation_indices :: "string list \<Rightarrow> nat list" where
  "asp_invocation_indices tokens =
     filter (\<lambda>index. is_asp_binary_token (tokens ! index) \<and> is_asp_invocation_position tokens index)
       [0..<length tokens]"

subsection \<open>Intent of an asp command\<close>

datatype asp_language_command_intent =
  Reasoning | ExactEvidence | DirectReadFallback | InvalidEvidence

definition asp_intent_str :: "asp_language_command_intent \<Rightarrow> string" where
  "asp_intent_str i =
     (case i of Reasoning \<Rightarrow> ''reasoning'' | ExactEvidence \<Rightarrow> ''exact-evidence''
      | DirectReadFallback \<Rightarrow> ''direct-read-fallback'' | InvalidEvidence \<Rightarrow> ''invalid-evidence'')"

record asp_language_command =
  ac_language_id :: string
  ac_intent :: asp_language_command_intent
  ac_route :: string
  ac_selector :: "string option"

definition option_value :: "string list \<Rightarrow> string \<Rightarrow> string option" where
  "option_value tokens opt =
     find_map (\<lambda>pair. if pair ! 0 = opt \<and> \<not> starts_with (pair ! 1) ''-'' then Some (pair ! 1) else None)
       (windows 2 tokens)"

definition valid_selector_scheme :: "string \<Rightarrow> bool" where
  "valid_selector_scheme scheme =
     (case scheme of
        [] \<Rightarrow> False
      | first # rest \<Rightarrow> is_ascii_lowercase first
          \<and> list_all (\<lambda>c. is_ascii_lowercase c \<or> is_ascii_digit c \<or> c \<in> set ''+-.'') rest)"

definition selector_scheme_matches_language :: "string \<Rightarrow> string \<Rightarrow> bool" where
  "selector_scheme_matches_language scheme language_id \<longleftrightarrow>
     scheme = language_id \<or> (language_id = ''gerbil-scheme'' \<and> scheme = ''scheme'')"

definition selector_language :: "string \<Rightarrow> string option" where
  "selector_language selector = map_option fst (split_once ''://'' selector)"

definition item_parts_ok :: "string \<Rightarrow> bool" where
  "item_parts_ok item =
     (case split_by (\<lambda>c. c = CHR ''/'') item of
        item_kind # name # rest \<Rightarrow>
          item_kind \<noteq> [] \<and> name \<noteq> [] \<and> list_all (\<lambda>part. part \<noteq> []) rest
      | _ \<Rightarrow> False)"

definition selector_is_parser_owned_for_language ::
  "string \<Rightarrow> string \<Rightarrow> asp_command_intent_policy \<Rightarrow> bool" where
  "selector_is_parser_owned_for_language language_id selector policy =
     (if list_ex is_ascii_whitespace selector then False
      else (case split_once ''://'' selector of
              None \<Rightarrow> False
            | Some (scheme, remainder) \<Rightarrow>
                if \<not> valid_selector_scheme scheme
                   \<or> (require_same_language (exact_evidence policy)
                      \<and> \<not> selector_scheme_matches_language scheme language_id)
                   \<or> str_contains remainder ''://''
                then False
                else (case split_once ''#'' remainder of
                        None \<Rightarrow> False
                      | Some (owner, item_kind_and_name) \<Rightarrow>
                          (case split_once ''/'' item_kind_and_name of
                             None \<Rightarrow> False
                           | Some (kind, item) \<Rightarrow>
                               if owner = [] \<or> CHR ''#'' \<in> set owner \<or> CHR ''#'' \<in> set item
                                  \<or> kind \<notin> set (selector_kinds (exact_evidence policy))
                               then False
                               else item_parts_ok item))))"

definition classify_search ::
  "string \<Rightarrow> string list \<Rightarrow> asp_command_intent_policy \<Rightarrow> asp_language_command option" where
  "classify_search language_id tokens policy =
     (case get_at tokens (if get_at tokens 1 = Some ''--language'' then 3 else 1) of
        None \<Rightarrow> None
      | Some route \<Rightarrow>
          if route \<notin> set (search_routes (reasoning policy)) then None
          else Some \<lparr>ac_language_id = language_id, ac_intent = Reasoning,
                 ac_route = ''search-'' @ route, ac_selector = None\<rparr>)"

definition projects_evidence :: "string list \<Rightarrow> asp_command_intent_policy \<Rightarrow> bool" where
  "projects_evidence tokens policy \<longleftrightarrow>
     list_ex (\<lambda>t. t \<in> set (query_projection_flags (exact_evidence policy))) tokens
     \<or> (case option_value tokens ''--view'' of
          None \<Rightarrow> False
        | Some view \<Rightarrow> view \<in> set (query_projection_views (exact_evidence policy)))"

definition classify_query ::
  "string \<Rightarrow> string list \<Rightarrow> asp_command_intent_policy \<Rightarrow> asp_language_command option" where
  "classify_query language_id tokens policy =
     (let selector = option_value tokens ''--selector'';
          command = (\<lambda>intent route. \<lparr>ac_language_id = language_id, ac_intent = intent,
            ac_route = route, ac_selector = selector\<rparr>)
      in if (case option_value tokens ''--from-hook'' of
               None \<Rightarrow> False | Some value \<Rightarrow> value \<in> set (from_hook_values policy))
         then Some (command DirectReadFallback ''query-direct-read-fallback'')
         else if list_ex (\<lambda>t. t \<in> set (query_flags (reasoning policy))) tokens
         then Some (command Reasoning ''query-reasoning'')
         else if projects_evidence tokens policy then
           (let exact_selector = (case selector of None \<Rightarrow> False
                  | Some s \<Rightarrow> selector_is_parser_owned_for_language language_id s policy);
                cross_language = (case selector of None \<Rightarrow> False
                  | Some s \<Rightarrow> (case selector_language s of None \<Rightarrow> False
                      | Some scheme \<Rightarrow> \<not> selector_scheme_matches_language scheme language_id));
                intent =
                  (if exact_selector then ExactEvidence
                   else if reject_projected_query_without_exact_selector (invalid_evidence policy)
                           \<or> (cross_language \<and> reject_cross_language_selector (invalid_evidence policy))
                   then InvalidEvidence
                   else Reasoning)
            in Some (command intent ''query-selector''))
         else if unprojected_query (reasoning policy)
         then Some (command Reasoning ''query-reasoning'') else None)"

definition language_command_tokens :: "string list \<Rightarrow> (string \<times> string list) option" where
  "language_command_tokens tokens =
     (case tokens of
        [] \<Rightarrow> None
      | first # rest \<Rightarrow>
          if first \<in> {''guide'', ''search'', ''query''}
          then map_option (\<lambda>language. (language, tokens)) (option_value tokens ''--language'')
          else if \<not> starts_with first ''-'' then Some (first, rest)
          else None)"

definition classify_asp_language_command_tokens_with_policy ::
  "string list \<Rightarrow> asp_command_intent_policy \<Rightarrow> asp_language_command option" where
  "classify_asp_language_command_tokens_with_policy tokens policy =
     (case asp_invocation_indices tokens of
        [] \<Rightarrow> None
      | asp_index # _ \<Rightarrow>
          (case language_command_tokens (drop (asp_index + 1) tokens) of
             None \<Rightarrow> None
           | Some (language_id, command_tokens) \<Rightarrow>
               (case command_tokens of
                  [] \<Rightarrow> None
                | command # _ \<Rightarrow>
                    if command = ''guide'' \<and> guide_command (reasoning policy)
                    then Some \<lparr>ac_language_id = language_id, ac_intent = Reasoning,
                           ac_route = ''guide'', ac_selector = None\<rparr>
                    else if command = ''search'' then classify_search language_id command_tokens policy
                    else if command = ''query'' then classify_query language_id command_tokens policy
                    else None)))"

definition classify_asp_language_command_tokens :: "string list \<Rightarrow> asp_language_command option" where
  "classify_asp_language_command_tokens tokens =
     classify_asp_language_command_tokens_with_policy tokens default_asp_command_intent_policy"

subsection \<open>Root-session routing\<close>

datatype main_session_asp_command_class =
  ControlPlane | ExactEvidenceRead | MainDirectReadFallback | MainInvalidEvidence
  | ReasoningFlow | UnknownCommand

definition classify_main_session_asp_command ::
  "string list \<Rightarrow> nat \<Rightarrow> asp_command_intent_policy \<Rightarrow> main_session_asp_command_class" where
  "classify_main_session_asp_command tokens asp_index policy =
     (case get_at tokens (asp_index + 1) of
        None \<Rightarrow> UnknownCommand
      | Some first \<Rightarrow>
          (case classify_asp_language_command_tokens_with_policy (drop asp_index tokens) policy of
             Some command \<Rightarrow>
               (case ac_intent command of
                  ExactEvidence \<Rightarrow> ExactEvidenceRead
                | Reasoning \<Rightarrow> ReasoningFlow
                | DirectReadFallback \<Rightarrow> MainDirectReadFallback
                | InvalidEvidence \<Rightarrow> MainInvalidEvidence)
           | None \<Rightarrow>
               if list_ex (eq_ignore_ascii_case first) (control_plane_root_commands policy)
               then ControlPlane
               else if list_ex (eq_ignore_ascii_case first) (root_commands (reasoning policy))
               then ReasoningFlow
               else UnknownCommand))"

definition command_requires_resident_child ::
  "bash_parser \<Rightarrow> string \<Rightarrow> asp_command_intent_policy \<Rightarrow> bool shell_result" where
  "command_requires_resident_child parse command policy =
     shell_bind (semantic_shell_tokens parse command)
       (\<lambda>tokens. Inr (list_ex
          (\<lambda>index. classify_main_session_asp_command tokens index policy = ReasoningFlow)
          (asp_invocation_indices tokens)))"

definition session_is_asp_binary_token :: "string \<Rightarrow> bool" where
  "session_is_asp_binary_token token \<longleftrightarrow>
     token = ''asp'' \<or> last_piece (\<lambda>c. c = CHR ''/'') token = ''asp''
     \<or> last_piece (\<lambda>c. c = CHR 0x5C) token = ''asp.exe''"

definition command_contains_asp_binary :: "bash_parser \<Rightarrow> string \<Rightarrow> bool shell_result" where
  "command_contains_asp_binary parse command =
     shell_bind (semantic_shell_tokens parse command)
       (\<lambda>tokens. Inr (list_ex session_is_asp_binary_token tokens))"

definition command_prefix_tokens :: "string \<Rightarrow> string \<Rightarrow> string + string list" where
  "command_prefix_tokens field pre =
     (let tokens = map to_ascii_lowercase (split_whitespace pre)
      in if tokens = [] then Inl (field @ '' must not be empty'') else Inr tokens)"

definition tokens_match :: "string list \<Rightarrow> string list \<Rightarrow> bool" where
  "tokens_match tokens pre \<longleftrightarrow>
     list_all (\<lambda>(token, expected). eq_ignore_ascii_case token expected) (zip tokens pre)"

definition command_prefix_matches :: "string list \<Rightarrow> nat \<Rightarrow> string list \<Rightarrow> bool" where
  "command_prefix_matches tokens asp_index pre =
     (let command_start = asp_index + 1 in
      if length tokens \<le> command_start then length pre = 1 \<and> pre ! 0 = ''help''
      else tokens_match (drop command_start tokens) pre
           \<and> command_start + length pre \<le> length tokens)"

definition is_env_command_token :: "string \<Rightarrow> bool" where
  "is_env_command_token token \<longleftrightarrow> last_piece (\<lambda>c. c = CHR ''/'') token = ''env''"

definition is_env_assignment_token :: "string \<Rightarrow> bool" where
  "is_env_assignment_token token =
     (case split_once ''='' token of
        None \<Rightarrow> False
      | Some (name, _) \<Rightarrow>
          name \<noteq> [] \<and> list_all (\<lambda>c. c = CHR ''_'' \<or> is_ascii_alphanumeric c) name)"

definition token_is :: "string list \<Rightarrow> nat \<Rightarrow> (string \<Rightarrow> bool) \<Rightarrow> bool" where
  "token_is tokens index P = (case get_at tokens index of None \<Rightarrow> False | Some t \<Rightarrow> P t)"

definition command_start_after_wrappers :: "string list \<Rightarrow> nat" where
  "command_start_after_wrappers tokens =
     (let index1 =
            (if token_is tokens 0 (\<lambda>t. eq_ignore_ascii_case t ''direnv'')
                \<and> token_is tokens 1 (\<lambda>t. eq_ignore_ascii_case t ''exec'')
             then (if 2 < length tokens then 3 else 2) else 0)
      in if token_is tokens index1 is_env_command_token
         then index1 + 1 + length (takeWhile is_env_assignment_token (drop (index1 + 1) tokens))
         else index1)"

definition command_prefix_matches_wrapped :: "string list \<Rightarrow> string list \<Rightarrow> bool" where
  "command_prefix_matches_wrapped tokens pre =
     (let command_start = command_start_after_wrappers tokens
      in command_start + length pre \<le> length tokens
         \<and> tokens_match (drop command_start tokens) pre)"

definition shell_like_tokens :: "string \<Rightarrow> string list" where
  "shell_like_tokens command =
     filter (\<lambda>t. t \<noteq> [])
       (map (trim_chars (\<lambda>c. c \<in> {CHR 0x27, CHR 0x22} \<or> c \<in> set '',;:()[]{}''))
         (split_whitespace command))"

record asp_session_policy =
  command_intent_policy :: asp_command_intent_policy
  policy_enabled :: bool
  resident_child_name :: string
  resident_codex_agent_name :: string
  main_allowed_asp_command_prefixes :: "string list list"

definition default_asp_session_policy :: asp_session_policy where
  "default_asp_session_policy =
     \<lparr>command_intent_policy = default_asp_command_intent_policy, policy_enabled = True,
      resident_child_name = ''asp-explore'', resident_codex_agent_name = ''asp_explorer'',
      main_allowed_asp_command_prefixes =
        [[''help''], [''--help''], [''-h''], [''agent'', ''session''], [''org'', ''recall''],
         [''org'', ''capture'']]\<rparr>"

definition main_asp_command_allowed :: "asp_session_policy \<Rightarrow> string list \<Rightarrow> nat \<Rightarrow> bool" where
  "main_asp_command_allowed p tokens asp_index \<longleftrightarrow>
     list_ex (command_prefix_matches tokens asp_index) (main_allowed_asp_command_prefixes p)"

subsection \<open>Lemmas\<close>

lemma suffix_last_piece:
  assumes "suffix (c # w) t" and "P c" and "\<forall>d \<in> set w. \<not> P d"
  shows "last_piece P t = w"
proof -
  obtain u where t: "t = u @ c # w" using assms(1) by (auto simp: suffix_def)
  have "split_by P (c # w) = [[], w]"
  proof -
    have "split_by P w = [w]" using assms(3) by (induction w) auto
    then show ?thesis using assms(2) by simp
  qed
  then have "2 \<le> length (split_by P (u @ c # w)) \<and> last (split_by P (u @ c # w)) = w"
  proof (induction u)
    case (Cons d u)
    then show ?case
      by (cases "split_by P (u @ c # w)") (auto split: if_splits)
  qed simp
  then show ?thesis by (simp add: t last_piece_def)
qed

lemma asp_binary_name:
  assumes "is_asp_binary_token t"
  shows "asp_command_name t = ''asp'' \<or> asp_command_name t = ''asp.exe''"
proof -
  have sfx: "suffix ''/asp'' t \<Longrightarrow> asp_command_name t = ''asp''" for t
    unfolding asp_command_name_def
    by (rule suffix_last_piece [of "CHR ''/''"]) (auto simp: is_slash_def)
  have exe: "suffix (CHR 0x5C # ''asp.exe'') t \<Longrightarrow> asp_command_name t = ''asp.exe''" for t
    unfolding asp_command_name_def
    by (rule suffix_last_piece [of "CHR 0x5C"]) (auto simp: is_slash_def)
  have bin: "suffix ''.bin/asp'' t \<Longrightarrow> suffix ''/asp'' t" for t :: string
    by (rule suffix_order.order_trans [of _ "''.bin/asp''"]) (auto simp: suffix_def)
  have "asp_command_name ''asp'' = ''asp''" by code_simp
  with assms sfx exe bin show ?thesis unfolding is_asp_binary_token_def by blast
qed

lemma position_append_none:
  "\<forall>x \<in> set as. \<not> P x \<Longrightarrow> position P (as @ bs) = map_option ((+) (length as)) (position P bs)"
proof (induction as)
  case Nil
  then show ?case by (cases "position P bs") auto
next
  case (Cons a as)
  then show ?case by (cases "position P bs") auto
qed

lemma rposition_append_none:
  "\<forall>x \<in> set ys. \<not> P x \<Longrightarrow> rposition P (xs @ ys) = rposition P xs"
  using position_append_none [of "rev ys" P "rev xs"]
  by (cases "position P (rev xs)") (auto simp: rposition_def)

lemma stage_start_same:
  assumes "i \<le> j" and "\<forall>k. i \<le> k \<longrightarrow> k < j \<longrightarrow> \<not> is_shell_separator (tokens ! k)" and "j \<le> length tokens"
  shows "stage_start tokens j = stage_start tokens i"
proof -
  have "take j tokens = take i tokens @ take (j - i) (drop i tokens)"
    using assms(1) by (metis le_add_diff_inverse take_add)
  moreover have "\<forall>x \<in> set (take (j - i) (drop i tokens)). \<not> is_shell_separator x"
  proof
    fix x assume "x \<in> set (take (j - i) (drop i tokens))"
    then obtain m where "m < j - i" "m < length (drop i tokens)" "x = drop i tokens ! m"
      by (auto simp: in_set_conv_nth)
    then show "\<not> is_shell_separator x" using assms by (auto simp: nth_drop)
  qed
  ultimately show ?thesis by (simp add: stage_start_def rposition_append_none)
qed

definition wrapper_target :: "string list \<Rightarrow> nat \<Rightarrow> nat option" where
  "wrapper_target tokens command_index =
     (case map_option asp_command_name (get_at tokens command_index) of
        None \<Rightarrow> None
      | Some wrapper \<Rightarrow>
          if wrapper = ''command'' then command_wrapper_invocation_index tokens command_index
          else if wrapper = ''exec'' \<or> wrapper = ''nohup''
          then executable_after_options tokens (command_index + 1)
          else None)"

lemma invocation_position_iff:
  "is_asp_invocation_position tokens index \<longleftrightarrow>
     (let c = stage_command_index tokens (stage_start tokens index)
      in c = index \<or> wrapper_target tokens c = Some index)"
  by (auto simp: is_asp_invocation_position_def wrapper_target_def Let_def split: option.splits if_splits)

lemma wrapper_target_asp:
  "is_asp_binary_token (tokens ! c) \<Longrightarrow> c < length tokens \<Longrightarrow> wrapper_target tokens c = None"
  using asp_binary_name [of "tokens ! c"] by (auto simp: wrapper_target_def get_at_def)

lemma asp_invocation_iff:
  "i \<in> set (asp_invocation_indices tokens) \<longleftrightarrow>
     i < length tokens \<and> is_asp_binary_token (tokens ! i) \<and> is_asp_invocation_position tokens i"
  by (auto simp: asp_invocation_indices_def)

lemma one_invocation:
  assumes "i \<in> set (asp_invocation_indices tokens)" and "j \<in> set (asp_invocation_indices tokens)"
    and "i < j" and "\<forall>k. i \<le> k \<longrightarrow> k < j \<longrightarrow> \<not> is_shell_separator (tokens ! k)"
  shows False
proof -
  have j: "j \<le> length tokens" using assms(2) by (simp add: asp_invocation_iff)
  define c where "c = stage_command_index tokens (stage_start tokens i)"
  have start: "stage_start tokens j = stage_start tokens i"
    by (rule stage_start_same) (use assms j in auto)
  have i: "c = i \<or> wrapper_target tokens c = Some i" and jj: "c = j \<or> wrapper_target tokens c = Some j"
    using assms(1,2) start by (auto simp: asp_invocation_iff invocation_position_iff c_def Let_def)
  have "wrapper_target tokens i = None" "wrapper_target tokens j = None"
    using assms(1,2) wrapper_target_asp by (auto simp: asp_invocation_iff)
  with i jj assms(3) show False by auto
qed

lemma item_parts_ok_iff:
  "item_parts_ok item \<longleftrightarrow>
     2 \<le> length (split_by (\<lambda>c. c = CHR ''/'') item)
     \<and> (\<forall>part \<in> set (split_by (\<lambda>c. c = CHR ''/'') item). part \<noteq> [])"
  by (auto simp: item_parts_ok_def list_all_iff Suc_le_length_iff numeral_2_eq_2 split: list.splits)

lemma scheme_no_colon: "valid_selector_scheme scheme \<Longrightarrow> CHR '':'' \<notin> set scheme"
proof -
  have "\<not> is_ascii_lowercase CHR '':''" "\<not> is_ascii_digit CHR '':''" "CHR '':'' \<notin> set ''+-.''"
    by code_simp+
  then show "valid_selector_scheme scheme \<Longrightarrow> CHR '':'' \<notin> set scheme"
    by (auto simp: valid_selector_scheme_def list_all_iff split: list.splits)
qed

text \<open>The grammar of an exact selector: \<open>scheme://owner#kind/item-kind/name/..\<close>.\<close>

definition exact_selector ::
  "string \<Rightarrow> asp_command_intent_policy \<Rightarrow> string \<Rightarrow> string \<Rightarrow> string \<Rightarrow> string list \<Rightarrow> bool" where
  "exact_selector lang policy scheme owner kind parts \<longleftrightarrow>
     valid_selector_scheme scheme
     \<and> (require_same_language (exact_evidence policy) \<longrightarrow> selector_scheme_matches_language scheme lang)
     \<and> \<not> str_contains (owner @ ''#'' @ kind @ ''/'' @ str_join ''/'' parts) ''://''
     \<and> owner \<noteq> [] \<and> CHR ''#'' \<notin> set owner
     \<and> CHR ''/'' \<notin> set kind \<and> kind \<in> set (selector_kinds (exact_evidence policy))
     \<and> CHR ''#'' \<notin> set (str_join ''/'' parts)
     \<and> 2 \<le> length parts \<and> (\<forall>part \<in> set parts. part \<noteq> [] \<and> CHR ''/'' \<notin> set part)"

definition print_selector :: "string \<Rightarrow> string \<Rightarrow> string \<Rightarrow> string list \<Rightarrow> string" where
  "print_selector scheme owner kind parts =
     scheme @ ''://'' @ owner @ ''#'' @ kind @ ''/'' @ str_join ''/'' parts"

lemma parser_owned_print:
  assumes "exact_selector lang policy scheme owner kind parts"
    and "\<not> list_ex is_ascii_whitespace (print_selector scheme owner kind parts)"
  shows "selector_is_parser_owned_for_language lang (print_selector scheme owner kind parts) policy"
proof -
  let ?item = "str_join ''/'' parts"
  let ?rem = "owner @ ''#'' @ kind @ ''/'' @ ?item"
  have "CHR '':'' \<notin> set scheme"
    using assms(1) by (intro scheme_no_colon) (simp add: exact_selector_def)
  then have s1: "split_once ''://'' (print_selector scheme owner kind parts) = Some (scheme, ?rem)"
    using split_once_first [of "CHR '':''" scheme "''//''" ?rem] by (simp add: print_selector_def)
  have s2: "split_once ''#'' ?rem = Some (owner, kind @ ''/'' @ ?item)"
    using assms(1) split_once_char [of "CHR ''#''" owner] by (simp add: exact_selector_def)
  have s3: "split_once ''/'' (kind @ ''/'' @ ?item) = Some (kind, ?item)"
    using assms(1) split_once_char [of "CHR ''/''" kind] by (simp add: exact_selector_def)
  have "parts \<noteq> []" using assms(1) by (auto simp: exact_selector_def)
  then have "split_by (\<lambda>c. c = CHR ''/'') ?item = parts"
    using assms(1) by (intro split_by_join) (auto simp: exact_selector_def)
  then have "item_parts_ok ?item"
    using assms(1) by (simp add: item_parts_ok_iff exact_selector_def)
  with assms s1 s2 s3 show ?thesis
    unfolding selector_is_parser_owned_for_language_def exact_selector_def by simp
qed

lemma parser_owned_parse:
  assumes "selector_is_parser_owned_for_language lang sel policy"
  shows "\<not> list_ex is_ascii_whitespace sel
    \<and> (\<exists>scheme owner kind parts. sel = print_selector scheme owner kind parts
         \<and> exact_selector lang policy scheme owner kind parts)"
proof -
  note owned = assms [unfolded selector_is_parser_owned_for_language_def]
  have ws: "\<not> list_ex is_ascii_whitespace sel" using owned by (simp split: if_splits)
  obtain scheme rem where s1: "split_once ''://'' sel = Some (scheme, rem)"
    using owned ws by (cases "split_once ''://'' sel") auto
  have c1: "valid_selector_scheme scheme"
      "require_same_language (exact_evidence policy) \<longrightarrow> selector_scheme_matches_language scheme lang"
      "\<not> str_contains rem ''://''"
    using owned ws s1 by (simp_all split: if_splits)
  obtain owner rest where s2: "split_once ''#'' rem = Some (owner, rest)"
    using owned ws s1 c1 by (cases "split_once ''#'' rem") auto
  obtain kind item where s3: "split_once ''/'' rest = Some (kind, item)"
    using owned ws s1 c1 s2 by (cases "split_once ''/'' rest") auto
  have "owner \<noteq> []" "CHR ''#'' \<notin> set item"
      "kind \<in> set (selector_kinds (exact_evidence policy))" "item_parts_ok item"
    using owned ws s1 s2 s3 c1 by (simp_all split: if_splits)
  note c = c1 this
  let ?parts = "split_by (\<lambda>c. c = CHR ''/'') item"
  have sel: "sel = scheme @ ''://'' @ rem" using s1 by (rule split_once_Some)
  have rem: "rem = owner @ ''#'' @ rest" "CHR ''#'' \<notin> set owner"
    using s2 by (auto simp: split_once_char_iff)
  have rest: "rest = kind @ ''/'' @ item" "CHR ''/'' \<notin> set kind"
    using s3 by (auto simp: split_once_char_iff)
  have item: "str_join ''/'' ?parts = item" by (rule join_split_by)
  have "CHR ''/'' \<notin> set part" if "part \<in> set ?parts" for part
    using split_by_no_sep [OF that] by blast
  then have "exact_selector lang policy scheme owner kind ?parts"
    using c rem rest item unfolding exact_selector_def item_parts_ok_iff by auto
  moreover have "sel = print_selector scheme owner kind ?parts"
    unfolding print_selector_def item using sel rem(1) rest(1) by simp
  ultimately show ?thesis using ws by blast
qed

subsection \<open>Properties\<close>

text \<open>A stage of a command invokes \<open>asp\<close> at most once: between two recorded invocations
  there is a shell separator, so an argument that looks like \<open>asp\<close> is never taken for a call.\<close>

theorem one_invocation_per_stage:
  assumes "i \<in> set (asp_invocation_indices tokens)" and "j \<in> set (asp_invocation_indices tokens)"
    and "i < j"
  shows "\<exists>k. i < k \<and> k < j \<and> is_shell_separator (tokens ! k)"
proof -
  obtain k where k: "i \<le> k" "k < j" "is_shell_separator (tokens ! k)"
    using one_invocation [OF assms] by blast
  moreover have "\<not> is_shell_separator (tokens ! i)"
  proof
    assume "is_shell_separator (tokens ! i)"
    moreover have "is_asp_binary_token (tokens ! i)" using assms(1) by (simp add: asp_invocation_iff)
    ultimately show False
      by (auto simp: is_shell_separator_def is_asp_binary_token_def suffix_to_prefix)
  qed
  ultimately show ?thesis by (metis le_neq_implies_less)
qed

theorem one_invocation_per_stage_witness:
  "\<exists>k. 0 < k \<and> k < 3 \<and> is_shell_separator ([''asp'', ''rust'', ''&&'', ''asp'', ''fd''] ! k)"
  by (rule one_invocation_per_stage) (code_simp, code_simp, simp)

text \<open>C5: The selector parser accepts exactly the printed exact selectors: a selector is owned by the
  parser if and only if it has no white space and is \<open>scheme://owner#kind/item-kind/name..\<close>
  with the separators where the grammar puts them, a configured kind and a matching language.\<close>

theorem parser_owned_selector_grammar:
  "selector_is_parser_owned_for_language lang sel policy \<longleftrightarrow>
     \<not> list_ex is_ascii_whitespace sel
     \<and> (\<exists>scheme owner kind parts. sel = print_selector scheme owner kind parts
          \<and> exact_selector lang policy scheme owner kind parts)"
  using parser_owned_print parser_owned_parse by blast

text \<open>A command counts as exact evidence only when it carries an exact selector and projects
  evidence; it then has the route \<open>query-selector\<close>, and a hook fallback or a reasoning flag
  rules it out.\<close>

theorem exact_evidence_needs_exact_selector:
  assumes "classify_asp_language_command_tokens_with_policy tokens policy = Some c"
    and "ac_intent c = ExactEvidence"
  shows "\<exists>sel args. ac_selector c = Some sel
    \<and> selector_is_parser_owned_for_language (ac_language_id c) sel policy
    \<and> ac_route c = ''query-selector''
    \<and> option_value args ''--selector'' = Some sel \<and> projects_evidence args policy
    \<and> \<not> list_ex (\<lambda>t. t \<in> set (query_flags (reasoning policy))) args
    \<and> suffix args tokens"
proof -
  from assms obtain i rest where i: "asp_invocation_indices tokens = i # rest"
    by (auto simp: classify_asp_language_command_tokens_with_policy_def split: list.splits)
  from assms i obtain lang args where l: "language_command_tokens (drop (i + 1) tokens) = Some (lang, args)"
    by (auto simp: classify_asp_language_command_tokens_with_policy_def split: option.splits)
  have "suffix args (drop (i + 1) tokens)"
    using l by (cases "drop (i + 1) tokens")
      (auto simp: language_command_tokens_def suffix_Cons split: if_splits)
  then have sfx: "suffix args tokens"
    using suffix_drop suffix_order.order_trans by blast
  from assms i l have q: "classify_query lang args policy = Some c"
    by (auto simp: classify_asp_language_command_tokens_with_policy_def classify_search_def
        split: list.splits if_splits option.splits)
  have "ac_language_id c = lang \<and> ac_selector c = option_value args ''--selector''
      \<and> (case ac_selector c of None \<Rightarrow> False
         | Some s \<Rightarrow> selector_is_parser_owned_for_language lang s policy)
      \<and> ac_route c = ''query-selector'' \<and> projects_evidence args policy
      \<and> \<not> list_ex (\<lambda>t. t \<in> set (query_flags (reasoning policy))) args"
    using q assms(2) unfolding classify_query_def Let_def
    by (auto split: if_splits)
  with sfx show ?thesis by (auto split: option.splits)
qed

theorem exact_evidence_needs_exact_selector_witness:
  "\<exists>sel args. Some sel = Some ''rust://src/lib.rs#item/fn/main''
     \<and> selector_is_parser_owned_for_language ''rust'' sel default_asp_command_intent_policy
     \<and> suffix args [''asp'', ''rust'', ''query'', ''--selector'', ''rust://src/lib.rs#item/fn/main'', ''--code'']"
proof -
  let ?c = "\<lparr>ac_language_id = ''rust'', ac_intent = ExactEvidence, ac_route = ''query-selector'',
      ac_selector = Some ''rust://src/lib.rs#item/fn/main''\<rparr>"
  have "classify_asp_language_command_tokens_with_policy
      [''asp'', ''rust'', ''query'', ''--selector'', ''rust://src/lib.rs#item/fn/main'', ''--code'']
      default_asp_command_intent_policy = Some ?c"
    by code_simp
  from exact_evidence_needs_exact_selector [OF this] show ?thesis by auto
qed

end
