(* ===== verification/QuerySyntax.thy ===== *)
theory QuerySyntax
  imports Prelude "HOL-Library.Product_Lexorder"
begin

section \<open>Grammarless tree-sitter queries\<close>

text \<open>
  Models \<open>crates/agent-semantic-tree-sitter/src/query_syntax.rs\<close>: the tokenizer of the query
  surface, the stack machine that accepts a token at a time, and the extraction of predicates.  A
  \<open>BTreeSet\<close> is the sorted, duplicate-free list that iterating over it yields, so the derived
  orders of the predicate types are instances of \<open>linorder\<close> here.  A scalar value is the short
  string of its UTF-8 bytes, as in \<open>rust_chars\<close>.
\<close>

subsection \<open>Plans\<close>

datatype syntax_query_predicate_op = Eq | AnyEq | AnyOf | Match | AnyMatch | NotEq | NotMatch

definition as_abi_str :: "syntax_query_predicate_op \<Rightarrow> string" where
  "as_abi_str op =
     (case op of Eq \<Rightarrow> ''eq'' | AnyEq \<Rightarrow> ''any-eq'' | AnyOf \<Rightarrow> ''any-of'' | Match \<Rightarrow> ''match''
      | AnyMatch \<Rightarrow> ''any-match'' | NotEq \<Rightarrow> ''not-eq'' | NotMatch \<Rightarrow> ''not-match'')"

datatype syntax_query_predicate_value = StringValue string | CaptureValue string

datatype syntax_query_abi_predicate =
  AbiPredicate syntax_query_predicate_op string "syntax_query_predicate_value list"

record syntax_query_abi_pattern =
  qp_index :: nat
  qp_captures :: "string list"
  qp_node_types :: "string list"
  qp_fields :: "string list"

record syntax_query_abi_plan =
  plan_patterns :: "syntax_query_abi_pattern list"
  plan_captures :: "string list"
  plan_node_types :: "string list"
  plan_fields :: "string list"
  plan_predicates :: "syntax_query_abi_predicate list"

subsection \<open>Derived orders\<close>

fun op_key :: "syntax_query_predicate_op \<Rightarrow> nat" where
  "op_key Eq = 0"
| "op_key AnyEq = 1"
| "op_key AnyOf = 2"
| "op_key Match = 3"
| "op_key AnyMatch = 4"
| "op_key NotEq = 5"
| "op_key NotMatch = 6"

fun value_key :: "syntax_query_predicate_value \<Rightarrow> nat \<times> string" where
  "value_key (StringValue s) = (0, s)"
| "value_key (CaptureValue s) = (1, s)"

lemma op_key_inj: "op_key a = op_key b \<Longrightarrow> a = b"
  by (cases a; cases b) auto

lemma value_key_inj: "value_key a = value_key b \<Longrightarrow> a = b"
  by (cases a; cases b) auto

instantiation syntax_query_predicate_value :: linorder
begin

definition less_eq_syntax_query_predicate_value where
  "less_eq_syntax_query_predicate_value a b \<longleftrightarrow> value_key a \<le> value_key b"

definition less_syntax_query_predicate_value where
  "less_syntax_query_predicate_value a b \<longleftrightarrow> value_key a < value_key b"

instance
  by standard
    (auto simp: less_eq_syntax_query_predicate_value_def less_syntax_query_predicate_value_def
      intro: value_key_inj)

end

fun predicate_key ::
  "syntax_query_abi_predicate \<Rightarrow> nat \<times> string \<times> syntax_query_predicate_value list" where
  "predicate_key (AbiPredicate op capture vs) = (op_key op, capture, vs)"

lemma predicate_key_inj: "predicate_key a = predicate_key b \<Longrightarrow> a = b"
  by (cases a; cases b) (auto dest: op_key_inj)

instantiation syntax_query_abi_predicate :: linorder
begin

definition less_eq_syntax_query_abi_predicate where
  "less_eq_syntax_query_abi_predicate a b \<longleftrightarrow> predicate_key a \<le> predicate_key b"

definition less_syntax_query_abi_predicate where
  "less_syntax_query_abi_predicate a b \<longleftrightarrow> predicate_key a < predicate_key b"

instance
  by standard
    (auto simp: less_eq_syntax_query_abi_predicate_def less_syntax_query_abi_predicate_def
      intro: predicate_key_inj)

end

subsection \<open>Tokens\<close>

type_synonym abi_error = string

type_synonym uchar = string

datatype query_token =
  LParen | RParen | LBracket | RBracket | Ident string | Field string | Capture string
  | StringLiteral string | Quantifier

definition is_atom_delimiter :: "uchar \<Rightarrow> bool" where
  "is_atom_delimiter ch \<longleftrightarrow>
     is_whitespace ch \<or> ch \<in> {''('', '')'', ''['', '']'', [CHR 0x22], '';''}"

text \<open>\<open>read_atom\<close>: the atom and the characters behind it.\<close>

definition read_atom :: "uchar list \<Rightarrow> string \<times> uchar list" where
  "read_atom chars =
     (concat (takeWhile (\<lambda>ch. \<not> is_atom_delimiter ch) chars),
      dropWhile (\<lambda>ch. \<not> is_atom_delimiter ch) chars)"

fun read_string_loop :: "uchar list \<Rightarrow> bool \<Rightarrow> string \<Rightarrow> abi_error + string \<times> uchar list" where
  "read_string_loop [] escaped literal = Inl ''unterminated string literal''"
| "read_string_loop (ch # chars) escaped literal =
     (if escaped then read_string_loop chars False (literal @ ch)
      else if ch = [CHR 0x5C] then read_string_loop chars True literal
      else if ch = [CHR 0x22] then Inr (literal, chars)
      else read_string_loop chars False (literal @ ch))"

text \<open>The argument starts behind the opening quote.\<close>

definition read_string_literal :: "uchar list \<Rightarrow> abi_error + string \<times> uchar list" where
  "read_string_literal chars = read_string_loop chars False []"

definition trim_capture_quantifier :: "string \<Rightarrow> string" where
  "trim_capture_quantifier capture =
     (case or_else (strip_suffix ''?'' capture)
             (or_else (strip_suffix ''+'' capture) (strip_suffix ''*'' capture)) of
        Some c \<Rightarrow> c | None \<Rightarrow> capture)"

lemma read_string_loop_shorter:
  "read_string_loop chars escaped literal = Inr (s, rest) \<Longrightarrow> length rest < length chars"
  by (induction chars escaped literal rule: read_string_loop.induct) (auto split: if_splits)

definition token_of_atom :: "string \<Rightarrow> query_token" where
  "token_of_atom atom =
     (case strip_suffix '':'' atom of
        Some field \<Rightarrow> if field \<noteq> [] then Field field else Ident atom
      | None \<Rightarrow> Ident atom)"

text \<open>
  The tokenizer loop.  The last case reads at least one character, or fails where the source does.
\<close>

function tokenize_loop :: "uchar list \<Rightarrow> query_token list \<Rightarrow> abi_error + query_token list" where
  "tokenize_loop [] tokens = Inr tokens"
| "tokenize_loop (ch # chars) tokens =
     (if is_whitespace ch then tokenize_loop chars tokens
      else if ch = '';'' then tokenize_loop (dropWhile (\<lambda>c. c \<noteq> [CHR 0x0A]) chars) tokens
      else if ch = ''('' then tokenize_loop chars (tokens @ [LParen])
      else if ch = '')'' then tokenize_loop chars (tokens @ [RParen])
      else if ch = ''['' then tokenize_loop chars (tokens @ [LBracket])
      else if ch = '']'' then tokenize_loop chars (tokens @ [RBracket])
      else if ch = [CHR 0x22] then
        (case read_string_literal chars of
           Inl e \<Rightarrow> Inl e
         | Inr (literal, rest) \<Rightarrow> tokenize_loop rest (tokens @ [StringLiteral literal]))
      else if ch = ''@'' then
        (case read_atom chars of
           (atom, rest) \<Rightarrow>
             let capture = trim_capture_quantifier atom
             in if capture = [] then Inl ''empty capture name''
                else tokenize_loop rest (tokens @ [Capture capture]))
      else if ch = ''?'' \<or> ch = ''+'' \<or> ch = ''*'' then tokenize_loop chars (tokens @ [Quantifier])
      else
        (let atom = fst (read_atom (ch # chars));
             rest = dropWhile (\<lambda>ch. \<not> is_atom_delimiter ch) chars
         in if atom = [] then Inl (''unexpected character `'' @ ch @ ''`'')
            else tokenize_loop rest (tokens @ [token_of_atom atom])))"
  by pat_completeness auto
termination
  by (relation "measure (\<lambda>(chars, tokens). length chars)")
     (auto simp: read_atom_def read_string_literal_def le_imp_less_Suc length_dropWhile_le
       dest!: read_string_loop_shorter)

definition tokenize_query :: "string \<Rightarrow> abi_error + query_token list" where
  "tokenize_query source = tokenize_loop (rust_chars source) []"

subsection \<open>The acceptor\<close>

datatype form_kind = Paren | Bracket

record form_context =
  ctx_kind :: form_kind
  ctx_expects_head :: bool

record pattern_builder =
  pb_index :: nat
  pb_captures :: "string list"
  pb_node_types :: "string list"
  pb_fields :: "string list"

record abi_parser =
  ap_stack :: "form_context list"
  ap_current :: "pattern_builder option"
  ap_patterns :: "syntax_query_abi_pattern list"

definition parser_new :: abi_parser where
  "parser_new = \<lparr>ap_stack = [], ap_current = None, ap_patterns = []\<rparr>"

definition builder_new :: "nat \<Rightarrow> pattern_builder" where
  "builder_new index = \<lparr>pb_index = index, pb_captures = [], pb_node_types = [], pb_fields = []\<rparr>"

definition builder_finish :: "pattern_builder \<Rightarrow> abi_error + syntax_query_abi_pattern" where
  "builder_finish b =
     (if pb_captures b = [] \<and> pb_node_types b = []
      then Inl (''empty query pattern '' @ show_nat (pb_index b))
      else Inr \<lparr>qp_index = pb_index b, qp_captures = pb_captures b,
             qp_node_types = pb_node_types b, qp_fields = pb_fields b\<rparr>)"

definition finish_current_pattern :: "abi_parser \<Rightarrow> abi_error + abi_parser" where
  "finish_current_pattern p =
     (case ap_current p of
        None \<Rightarrow> Inr p
      | Some b \<Rightarrow>
          (case builder_finish b of
             Inl e \<Rightarrow> Inl e
           | Inr pat \<Rightarrow> Inr (p\<lparr>ap_current := None, ap_patterns := ap_patterns p @ [pat]\<rparr>)))"

definition open_pattern_if_needed :: "abi_parser \<Rightarrow> abi_error + abi_parser" where
  "open_pattern_if_needed p =
     (if ap_stack p = [] then
        (case finish_current_pattern p of
           Inl e \<Rightarrow> Inl e
         | Inr q \<Rightarrow> Inr (q\<lparr>ap_current := Some (builder_new (length (ap_patterns q)))\<rparr>))
      else Inr p)"

text \<open>The vector's last element, the top of the stack, is the head of the list.\<close>

definition push_form :: "form_kind \<Rightarrow> bool \<Rightarrow> abi_parser \<Rightarrow> abi_parser" where
  "push_form kind expects p =
     p\<lparr>ap_stack := \<lparr>ctx_kind = kind, ctx_expects_head = expects\<rparr> # ap_stack p\<rparr>"

definition close_form :: "form_kind \<Rightarrow> abi_parser \<Rightarrow> abi_error + abi_parser" where
  "close_form expected p =
     (case ap_stack p of
        [] \<Rightarrow> Inl ''unexpected closing delimiter''
      | ctx # rest \<Rightarrow>
          if ctx_kind ctx \<noteq> expected then Inl ''mismatched query delimiters''
          else Inr (p\<lparr>ap_stack := rest\<rparr>))"

definition mark_head_consumed :: "abi_parser \<Rightarrow> abi_parser" where
  "mark_head_consumed p =
     (case ap_stack p of
        [] \<Rightarrow> p
      | ctx # rest \<Rightarrow> p\<lparr>ap_stack := ctx\<lparr>ctx_expects_head := False\<rparr> # rest\<rparr>)"

definition consume_node_head :: "string \<Rightarrow> abi_parser \<Rightarrow> bool \<times> abi_parser" where
  "consume_node_head identifier p =
     (case ap_stack p of
        [] \<Rightarrow> (False, p)
      | ctx # rest \<Rightarrow>
          if \<not> ctx_expects_head ctx then (False, p)
          else (\<not> starts_with identifier ''#'', mark_head_consumed p))"

fun accept :: "query_token \<Rightarrow> abi_parser \<Rightarrow> abi_error + abi_parser" where
  "accept LParen p =
     (case open_pattern_if_needed p of Inl e \<Rightarrow> Inl e | Inr q \<Rightarrow> Inr (push_form Paren True q))"
| "accept LBracket p =
     (case open_pattern_if_needed p of Inl e \<Rightarrow> Inl e | Inr q \<Rightarrow> Inr (push_form Bracket False q))"
| "accept RParen p = close_form Paren p"
| "accept RBracket p = close_form Bracket p"
| "accept (Field field) p =
     (if ap_stack p = [] then Inl (''field `'' @ field @ ''` appears outside a query form'')
      else (case ap_current p of
              None \<Rightarrow> Inl (''field `'' @ field @ ''` appears outside a query pattern'')
            | Some b \<Rightarrow> Inr (mark_head_consumed
                (p\<lparr>ap_current := Some (b\<lparr>pb_fields := insort_insert field (pb_fields b)\<rparr>)\<rparr>))))"
| "accept (Capture capture) p =
     (case ap_current p of
        None \<Rightarrow> Inl (''capture `'' @ capture @ ''` appears outside a query pattern'')
      | Some b \<Rightarrow> Inr (mark_head_consumed
          (p\<lparr>ap_current := Some (b\<lparr>pb_captures := insort_insert capture (pb_captures b)\<rparr>)\<rparr>)))"
| "accept (Ident identifier) p =
     (case consume_node_head identifier p of
        (is_head, q) \<Rightarrow>
          Inr (if is_head \<and> identifier \<noteq> ''_'' \<and> \<not> starts_with identifier ''#'' then
                 (case ap_current q of
                    None \<Rightarrow> q
                  | Some b \<Rightarrow>
                      q\<lparr>ap_current := Some (b\<lparr>pb_node_types := insort_insert identifier (pb_node_types b)\<rparr>)\<rparr>)
               else q))"
| "accept (StringLiteral literal) p = Inr (mark_head_consumed p)"
| "accept Quantifier p = Inr (mark_head_consumed p)"

fun accept_all :: "query_token list \<Rightarrow> abi_parser \<Rightarrow> abi_error + abi_parser" where
  "accept_all [] p = Inr p"
| "accept_all (t # ts) p = (case accept t p of Inl e \<Rightarrow> Inl e | Inr q \<Rightarrow> accept_all ts q)"

subsection \<open>Predicates\<close>

definition predicate_op :: "string \<Rightarrow> syntax_query_predicate_op option" where
  "predicate_op predicate =
     map_of [(''#eq?'', Eq), (''#any-eq?'', AnyEq), (''#any-of?'', AnyOf), (''#match?'', Match),
       (''#any-match?'', AnyMatch), (''#not-eq?'', NotEq), (''#not-match?'', NotMatch)] predicate"

fun predicate_value_token :: "query_token \<Rightarrow> syntax_query_predicate_value option" where
  "predicate_value_token (StringLiteral v) = (if v \<noteq> [] then Some (StringValue v) else None)"
| "predicate_value_token (Capture v) = (if v \<noteq> [] then Some (CaptureValue v) else None)"
| "predicate_value_token _ = None"

text \<open>The values up to the closing parenthesis, and the tokens from that parenthesis on.\<close>

definition predicate_values_until_rparen ::
  "query_token list \<Rightarrow> syntax_query_predicate_value list \<times> query_token list" where
  "predicate_values_until_rparen ts =
     (sort_dedup (List.map_filter predicate_value_token (takeWhile (\<lambda>t. t \<noteq> RParen) ts)),
      dropWhile (\<lambda>t. t \<noteq> RParen) ts)"

fun predicate_header_at :: "query_token list \<Rightarrow> (syntax_query_predicate_op \<times> string) option" where
  "predicate_header_at (LParen # Ident predicate # Capture capture # _) =
     map_option (\<lambda>op. (op, capture)) (predicate_op predicate)"
| "predicate_header_at _ = None"

definition query_predicate_at ::
  "query_token list \<Rightarrow> (syntax_query_abi_predicate option \<times> query_token list) option" where
  "query_predicate_at ts =
     (case predicate_header_at ts of
        None \<Rightarrow> None
      | Some (op, capture) \<Rightarrow>
          (case predicate_values_until_rparen (drop 3 ts) of
             (vs, rest) \<Rightarrow> Some (if vs \<noteq> [] then Some (AbiPredicate op capture vs) else None, rest)))"

function predicates_loop ::
  "query_token list \<Rightarrow> syntax_query_abi_predicate list \<Rightarrow> syntax_query_abi_predicate list" where
  "predicates_loop ts predicates =
     (if length ts < 4 then predicates
      else (case query_predicate_at ts of
              None \<Rightarrow> predicates_loop (tl ts) predicates
            | Some (found, closing) \<Rightarrow>
                predicates_loop (drop 1 closing)
                  (case found of None \<Rightarrow> predicates | Some p \<Rightarrow> insort_insert p predicates)))"
  by pat_completeness auto
termination
proof (relation "measure (\<lambda>(ts, ps). length ts)", goal_cases)
  case (3 ts predicates a found closing)
  then have "length closing \<le> length (drop 3 ts)"
    using length_dropWhile_le [of "\<lambda>t. t \<noteq> RParen" "drop 3 ts"]
    by (auto simp: query_predicate_at_def predicate_values_until_rparen_def split: option.splits)
  with 3 show ?case by simp
qed auto

declare predicates_loop.simps [simp del]

definition query_predicates :: "query_token list \<Rightarrow> syntax_query_abi_predicate list" where
  "query_predicates tokens = predicates_loop tokens []"

definition union_sorted :: "string list list \<Rightarrow> string list" where
  "union_sorted xss = sort_dedup (concat xss)"

definition parser_parse :: "query_token list \<Rightarrow> abi_error + syntax_query_abi_plan" where
  "parser_parse tokens =
     (if tokens = [] then Inl ''empty query source''
      else
        (case accept_all tokens parser_new of
           Inl e \<Rightarrow> Inl e
         | Inr p \<Rightarrow>
             if ap_stack p \<noteq> [] then Inl ''unclosed query pattern''
             else (case finish_current_pattern p of
                     Inl e \<Rightarrow> Inl e
                   | Inr q \<Rightarrow>
                       if ap_patterns q = [] then Inl ''query source contains no patterns''
                       else Inr
                         \<lparr>plan_patterns = ap_patterns q,
                          plan_captures = union_sorted (map qp_captures (ap_patterns q)),
                          plan_node_types = union_sorted (map qp_node_types (ap_patterns q)),
                          plan_fields = union_sorted (map qp_fields (ap_patterns q)),
                          plan_predicates = query_predicates tokens\<rparr>)))"

definition compile_query_abi_source :: "string \<Rightarrow> abi_error + syntax_query_abi_plan" where
  "compile_query_abi_source source =
     (case tokenize_query source of Inl e \<Rightarrow> Inl e | Inr tokens \<Rightarrow> parser_parse tokens)"

subsection \<open>Delimiters\<close>

definition is_delimiter :: "query_token \<Rightarrow> bool" where
  "is_delimiter t \<longleftrightarrow> t = LParen \<or> t = RParen \<or> t = LBracket \<or> t = RBracket"

inductive balanced :: "query_token list \<Rightarrow> bool" where
  balanced_Nil: "balanced []"
| balanced_atom: "\<not> is_delimiter t \<Longrightarrow> balanced ts \<Longrightarrow> balanced (t # ts)"
| balanced_paren: "balanced a \<Longrightarrow> balanced b \<Longrightarrow> balanced (LParen # a @ RParen # b)"
| balanced_bracket: "balanced a \<Longrightarrow> balanced b \<Longrightarrow> balanced (LBracket # a @ RBracket # b)"

inductive_cases balanced_ConsE: "balanced (t # ts)"

fun open_token :: "form_kind \<Rightarrow> query_token" where
  "open_token Paren = LParen"
| "open_token Bracket = LBracket"

fun close_token :: "form_kind \<Rightarrow> query_token" where
  "close_token Paren = RParen"
| "close_token Bracket = RBracket"

lemma balanced_form: "balanced a \<Longrightarrow> balanced b \<Longrightarrow> balanced (open_token k # a @ close_token k # b)"
  by (cases k) (auto intro: balanced.intros)

text \<open>What remains to be read closes the open forms in order.\<close>

fun closes :: "form_kind list \<Rightarrow> query_token list \<Rightarrow> bool" where
  "closes [] ts \<longleftrightarrow> balanced ts"
| "closes (k # ks) ts \<longleftrightarrow> (\<exists>a b. ts = a @ close_token k # b \<and> balanced a \<and> closes ks b)"

lemma closes_atom: "\<not> is_delimiter t \<Longrightarrow> closes ks ts \<Longrightarrow> closes ks (t # ts)"
proof (cases ks)
  case (Cons k ks')
  assume "\<not> is_delimiter t" and "closes ks ts"
  with Cons obtain a b where "ts = a @ close_token k # b" "balanced a" "closes ks' b" by auto
  then have "t # ts = (t # a) @ close_token k # b" "balanced (t # a)" "closes ks' b"
    using \<open>\<not> is_delimiter t\<close> by (auto intro: balanced_atom)
  with Cons show ?thesis by (metis closes.simps(2))
qed (auto intro: balanced_atom)

lemma closes_open: "closes (k # ks) ts \<Longrightarrow> closes ks (open_token k # ts)"
proof -
  assume "closes (k # ks) ts"
  then obtain a b where ts: "ts = a @ close_token k # b" "balanced a" "closes ks b" by auto
  show ?thesis
  proof (cases ks)
    case Nil
    with ts show ?thesis by (simp add: balanced_form)
  next
    case (Cons k' ks')
    with ts obtain a' b' where b: "b = a' @ close_token k' # b'" "balanced a'" "closes ks' b'" by auto
    have "open_token k # ts = (open_token k # a @ close_token k # a') @ close_token k' # b'"
      using ts b by simp
    moreover have "balanced (open_token k # a @ close_token k # a')"
      using ts b by (intro balanced_form)
    ultimately show ?thesis using Cons b by (metis closes.simps(2))
  qed
qed

lemma closes_close: "closes ks ts \<Longrightarrow> closes (k # ks) (close_token k # ts)"
proof -
  assume "closes ks ts"
  then have "close_token k # ts = [] @ close_token k # ts \<and> balanced [] \<and> closes ks ts"
    by (simp add: balanced_Nil)
  then show ?thesis unfolding closes.simps by blast
qed

definition stack_kinds :: "abi_parser \<Rightarrow> form_kind list" where
  "stack_kinds p = map ctx_kind (ap_stack p)"

lemma stack_kinds_mark [simp]: "stack_kinds (mark_head_consumed p) = stack_kinds p"
  by (simp add: stack_kinds_def mark_head_consumed_def split: list.split)

lemma open_pattern_stack: "open_pattern_if_needed p = Inr q \<Longrightarrow> ap_stack q = ap_stack p"
  by (auto simp: open_pattern_if_needed_def finish_current_pattern_def
      split: if_splits sum.splits option.splits)

lemma accept_kinds:
  assumes "accept t p = Inr q"
  shows "(is_delimiter t \<longrightarrow> (\<exists>k. t = open_token k \<and> stack_kinds q = k # stack_kinds p
             \<or> t = close_token k \<and> stack_kinds p = k # stack_kinds q))
    \<and> (\<not> is_delimiter t \<longrightarrow> stack_kinds q = stack_kinds p)"
proof (cases t)
  case LParen
  with assms have "t = open_token Paren \<and> stack_kinds q = Paren # stack_kinds p"
    by (auto simp: push_form_def stack_kinds_def dest: open_pattern_stack split: sum.splits)
  then show ?thesis by (auto simp: is_delimiter_def)
next
  case LBracket
  with assms have "t = open_token Bracket \<and> stack_kinds q = Bracket # stack_kinds p"
    by (auto simp: push_form_def stack_kinds_def dest: open_pattern_stack split: sum.splits)
  then show ?thesis by (auto simp: is_delimiter_def)
next
  case RParen
  with assms have "t = close_token Paren \<and> stack_kinds p = Paren # stack_kinds q"
    by (auto simp: close_form_def stack_kinds_def split: list.splits if_splits)
  then show ?thesis by (auto simp: is_delimiter_def)
next
  case RBracket
  with assms have "t = close_token Bracket \<and> stack_kinds p = Bracket # stack_kinds q"
    by (auto simp: close_form_def stack_kinds_def split: list.splits if_splits)
  then show ?thesis by (auto simp: is_delimiter_def)
next
  case (Ident s)
  with assms show ?thesis
    by (auto simp: is_delimiter_def consume_node_head_def stack_kinds_def mark_head_consumed_def
        split: list.splits if_splits option.splits)
next
  case (Field f)
  with assms have "stack_kinds q = stack_kinds p"
    by (auto simp: stack_kinds_def [of "_\<lparr>ap_current := _\<rparr>"] stack_kinds_def [of p]
        split: if_splits option.splits)
  with Field show ?thesis by (simp add: is_delimiter_def)
next
  case (Capture c)
  with assms have "stack_kinds q = stack_kinds p"
    by (auto simp: stack_kinds_def [of "_\<lparr>ap_current := _\<rparr>"] stack_kinds_def [of p]
        split: option.splits)
  with Capture show ?thesis by (simp add: is_delimiter_def)
qed (use assms in \<open>auto simp: is_delimiter_def\<close>)

lemma accept_all_closes:
  "accept_all ts p = Inr q \<Longrightarrow> ap_stack q = [] \<Longrightarrow> closes (stack_kinds p) ts"
proof (induction ts arbitrary: p)
  case Nil
  then show ?case by (simp add: stack_kinds_def balanced_Nil)
next
  case (Cons t ts)
  then obtain p' where p': "accept t p = Inr p'" "accept_all ts p' = Inr q"
    by (auto split: sum.splits)
  with Cons have IH: "closes (stack_kinds p') ts" by blast
  show ?case
  proof (cases "is_delimiter t")
    case False
    with accept_kinds [OF p'(1)] IH show ?thesis by (simp add: closes_atom)
  next
    case True
    then obtain k where "t = open_token k \<and> stack_kinds p' = k # stack_kinds p
        \<or> t = close_token k \<and> stack_kinds p = k # stack_kinds p'"
      using accept_kinds [OF p'(1)] by blast
    then show ?thesis
    proof
      assume "t = open_token k \<and> stack_kinds p' = k # stack_kinds p"
      then show ?thesis using IH closes_open [of k "stack_kinds p" ts] by (simp del: closes.simps)
    next
      assume "t = close_token k \<and> stack_kinds p = k # stack_kinds p'"
      then show ?thesis using closes_close [OF IH, of k] by (simp del: closes.simps)
    qed
  qed
qed

subsection \<open>What the acceptor collects\<close>

definition collected :: "(syntax_query_abi_pattern \<Rightarrow> string list) \<Rightarrow> (pattern_builder \<Rightarrow> string list)
    \<Rightarrow> abi_parser \<Rightarrow> string set" where
  "collected f g p = (\<Union>pat \<in> set (ap_patterns p). set (f pat))
     \<union> (case ap_current p of None \<Rightarrow> {} | Some b \<Rightarrow> set (g b))"

definition pattern_ok :: "syntax_query_abi_pattern \<Rightarrow> bool" where
  "pattern_ok pat \<longleftrightarrow> (qp_captures pat \<noteq> [] \<or> qp_node_types pat \<noteq> [])
     \<and> sorted (qp_captures pat) \<and> distinct (qp_captures pat)
     \<and> sorted (qp_node_types pat) \<and> distinct (qp_node_types pat)
     \<and> sorted (qp_fields pat) \<and> distinct (qp_fields pat)"

definition builder_ok :: "pattern_builder \<Rightarrow> bool" where
  "builder_ok b \<longleftrightarrow> sorted (pb_captures b) \<and> distinct (pb_captures b)
     \<and> sorted (pb_node_types b) \<and> distinct (pb_node_types b)
     \<and> sorted (pb_fields b) \<and> distinct (pb_fields b)"

definition parser_ok :: "abi_parser \<Rightarrow> bool" where
  "parser_ok p \<longleftrightarrow>
     list_all pattern_ok (ap_patterns p)
     \<and> map qp_index (ap_patterns p) = [0..<length (ap_patterns p)]
     \<and> (case ap_current p of None \<Rightarrow> True
        | Some b \<Rightarrow> builder_ok b \<and> pb_index b = length (ap_patterns p))"

lemma parser_ok_stack [simp]:
  "parser_ok (p\<lparr>ap_stack := s\<rparr>) = parser_ok p"
  "collected f g (p\<lparr>ap_stack := s\<rparr>) = collected f g p"
  by (cases "ap_current p"; simp add: parser_ok_def collected_def)+

lemma parser_ok_mark [simp]:
  "parser_ok (mark_head_consumed p) = parser_ok p"
  "collected f g (mark_head_consumed p) = collected f g p"
  by (cases "ap_stack p"; simp add: mark_head_consumed_def)+

lemma mark_current [simp]:
  "ap_current (mark_head_consumed p) = ap_current p"
  "ap_patterns (mark_head_consumed p) = ap_patterns p"
  by (cases "ap_stack p"; simp add: mark_head_consumed_def)+

lemma parser_ok_current:
  "ap_current p = Some b \<Longrightarrow> parser_ok p \<Longrightarrow> builder_ok b' \<Longrightarrow> pb_index b' = pb_index b \<Longrightarrow>
     parser_ok (p\<lparr>ap_current := Some b'\<rparr>)"
  by (simp add: parser_ok_def)

lemma parser_ok_builder: "ap_current p = Some b \<Longrightarrow> parser_ok p \<Longrightarrow> builder_ok b"
  by (simp add: parser_ok_def)

lemma builder_ok_insert:
  assumes "builder_ok b"
  shows "builder_ok (b\<lparr>pb_captures := insort_insert x (pb_captures b)\<rparr>)"
    and "builder_ok (b\<lparr>pb_node_types := insort_insert x (pb_node_types b)\<rparr>)"
    and "builder_ok (b\<lparr>pb_fields := insort_insert x (pb_fields b)\<rparr>)"
  using assms by (simp_all add: builder_ok_def sorted_insort_insert distinct_insort_insert)

lemma finish_ok:
  "finish_current_pattern p = Inr q \<Longrightarrow> parser_ok p \<Longrightarrow>
     parser_ok q \<and> ap_current q = None
     \<and> collected qp_captures pb_captures q = collected qp_captures pb_captures p
     \<and> collected qp_fields pb_fields q = collected qp_fields pb_fields p"
  by (auto simp: finish_current_pattern_def builder_finish_def parser_ok_def pattern_ok_def
      builder_ok_def collected_def split: option.splits sum.splits if_splits)

lemma open_ok:
  "open_pattern_if_needed p = Inr q \<Longrightarrow> parser_ok p \<Longrightarrow>
     parser_ok q
     \<and> collected qp_captures pb_captures q = collected qp_captures pb_captures p
     \<and> collected qp_fields pb_fields q = collected qp_fields pb_fields p"
  using finish_ok [of p]
  by (auto simp: open_pattern_if_needed_def builder_new_def parser_ok_def builder_ok_def
      collected_def split: if_splits sum.splits)

fun capture_of :: "query_token \<Rightarrow> string set" where
  "capture_of (Capture c) = {c}"
| "capture_of _ = {}"

fun field_of :: "query_token \<Rightarrow> string set" where
  "field_of (Field f) = {f}"
| "field_of _ = {}"

lemma accept_ok:
  assumes "accept t p = Inr q" and "parser_ok p"
  shows "parser_ok q
    \<and> collected qp_captures pb_captures q = collected qp_captures pb_captures p \<union> capture_of t
    \<and> collected qp_fields pb_fields q = collected qp_fields pb_fields p \<union> field_of t"
proof (cases t)
  case LParen
  then obtain r where "open_pattern_if_needed p = Inr r" "q = push_form Paren True r"
    using assms by (auto split: sum.splits)
  with open_ok [of p r] assms LParen show ?thesis by (simp add: push_form_def)
next
  case LBracket
  then obtain r where "open_pattern_if_needed p = Inr r" "q = push_form Bracket False r"
    using assms by (auto split: sum.splits)
  with open_ok [of p r] assms LBracket show ?thesis by (simp add: push_form_def)
next
  case RParen
  with assms show ?thesis
    by (auto simp: close_form_def split: list.splits if_splits)
next
  case RBracket
  with assms show ?thesis
    by (auto simp: close_form_def split: list.splits if_splits)
next
  case (Ident s)
  obtain is_head r where r: "consume_node_head s p = (is_head, r)" by force
  then have pr: "parser_ok r" "collected qp_captures pb_captures r = collected qp_captures pb_captures p"
      "collected qp_fields pb_fields r = collected qp_fields pb_fields p"
    using assms(2) by (auto simp: consume_node_head_def split: list.splits if_splits)
  show ?thesis
  proof (cases "ap_current r")
    case None
    with assms(1) Ident r pr show ?thesis by (auto split: if_splits)
  next
    case (Some b)
    let ?r = "r\<lparr>ap_current := Some (b\<lparr>pb_node_types := insort_insert s (pb_node_types b)\<rparr>)\<rparr>"
    have "parser_ok ?r"
      by (rule parser_ok_current [OF Some pr(1)])
         (use parser_ok_builder [OF Some pr(1)] builder_ok_insert in simp_all)
    moreover have "collected qp_captures pb_captures ?r = collected qp_captures pb_captures r"
      "collected qp_fields pb_fields ?r = collected qp_fields pb_fields r"
      using Some by (simp_all add: collected_def)
    moreover have "q = ?r \<or> q = r" using assms(1) Ident r Some by (auto split: if_splits)
    ultimately show ?thesis using pr Ident by auto
  qed
next
  case (Field f)
  then obtain b where b: "ap_current p = Some b"
    and q: "q = mark_head_consumed (p\<lparr>ap_current := Some (b\<lparr>pb_fields := insort_insert f (pb_fields b)\<rparr>)\<rparr>)"
    using assms(1) by (auto split: if_splits option.splits)
  have "parser_ok q" unfolding q parser_ok_mark
    by (rule parser_ok_current [OF b assms(2)])
       (use parser_ok_builder [OF b assms(2)] builder_ok_insert in simp_all)
  with Field b show ?thesis by (simp add: q collected_def set_insort_insert)
next
  case (Capture c)
  then obtain b where b: "ap_current p = Some b"
    and q: "q = mark_head_consumed (p\<lparr>ap_current := Some (b\<lparr>pb_captures := insort_insert c (pb_captures b)\<rparr>)\<rparr>)"
    using assms(1) by (auto split: option.splits)
  have "parser_ok q" unfolding q parser_ok_mark
    by (rule parser_ok_current [OF b assms(2)])
       (use parser_ok_builder [OF b assms(2)] builder_ok_insert in simp_all)
  with Capture b show ?thesis by (simp add: q collected_def set_insort_insert)
qed (use assms in auto)

lemma accept_all_ok:
  "accept_all ts p = Inr q \<Longrightarrow> parser_ok p \<Longrightarrow>
     parser_ok q
     \<and> collected qp_captures pb_captures q = collected qp_captures pb_captures p \<union> (\<Union>t \<in> set ts. capture_of t)
     \<and> collected qp_fields pb_fields q = collected qp_fields pb_fields p \<union> (\<Union>t \<in> set ts. field_of t)"
proof (induction ts arbitrary: p)
  case (Cons t ts)
  then obtain r where r: "accept t p = Inr r" "accept_all ts r = Inr q" by (auto split: sum.splits)
  from accept_ok [OF r(1) Cons.prems(2)] Cons.IH [OF r(2)] show ?case by auto
qed simp

subsection \<open>Printing\<close>

fun escape_literal :: "string \<Rightarrow> string" where
  "escape_literal [] = []"
| "escape_literal (c # cs) =
     (if c = CHR 0x22 \<or> c = CHR 0x5C then [CHR 0x5C, c] else [c]) @ escape_literal cs"

fun show_token :: "query_token \<Rightarrow> string" where
  "show_token LParen = ''( ''"
| "show_token RParen = '') ''"
| "show_token LBracket = ''[ ''"
| "show_token RBracket = ''] ''"
| "show_token (Ident s) = s @ '' ''"
| "show_token (Field s) = s @ '': ''"
| "show_token (Capture s) = ''@'' @ s @ '' ''"
| "show_token (StringLiteral s) = [CHR 0x22] @ escape_literal s @ [CHR 0x22] @ '' ''"
| "show_token Quantifier = ''? ''"

definition atom_byte :: "char \<Rightarrow> bool" where
  "atom_byte c \<longleftrightarrow> is_ascii c \<and> \<not> is_atom_delimiter [c]"

definition atom_start :: "char \<Rightarrow> bool" where
  "atom_start c \<longleftrightarrow> atom_byte c \<and> c \<notin> set ''@?+*''"

text \<open>The tokens a printed query can carry.\<close>

fun printable :: "query_token \<Rightarrow> bool" where
  "printable (Ident s) \<longleftrightarrow> s \<noteq> [] \<and> list_all atom_byte s \<and> atom_start (hd s) \<and> last s \<noteq> CHR '':''"
| "printable (Field s) \<longleftrightarrow> s \<noteq> [] \<and> list_all atom_byte s \<and> atom_start (hd s)"
| "printable (Capture s) \<longleftrightarrow> s \<noteq> [] \<and> list_all atom_byte s \<and> last s \<notin> set ''?+*''"
| "printable (StringLiteral s) \<longleftrightarrow> list_all is_ascii s"
| "printable _ \<longleftrightarrow> True"

lemma punctuation [simp]:
  "is_atom_delimiter '' ''" "is_atom_delimiter ''(''" "is_atom_delimiter '')''"
  "is_atom_delimiter ''[''" "is_atom_delimiter '']''" "is_atom_delimiter [CHR 0x22]"
  "is_atom_delimiter '';''" "is_whitespace '' ''"
  "\<not> is_whitespace ''(''" "\<not> is_whitespace '')''" "\<not> is_whitespace ''[''" "\<not> is_whitespace '']''"
  "\<not> is_whitespace [CHR 0x22]" "\<not> is_whitespace ''@''" "\<not> is_whitespace ''?''"
  "is_ascii CHR '' ''" "is_ascii CHR ''(''" "is_ascii CHR '')''" "is_ascii CHR ''[''"
  "is_ascii CHR '']''" "is_ascii CHR 0x22" "is_ascii CHR 0x5C" "is_ascii CHR ''@''"
  "is_ascii CHR ''?''" "is_ascii CHR '':''" "atom_byte CHR '':''"
  by code_simp+

abbreviation chars_of :: "string \<Rightarrow> uchar list" where
  "chars_of s \<equiv> map (\<lambda>c. [c]) s"

lemma take_atom:
  "list_all atom_byte s \<Longrightarrow>
     takeWhile (\<lambda>ch. \<not> is_atom_delimiter ch) (chars_of s @ '' '' # rest) = chars_of s
     \<and> dropWhile (\<lambda>ch. \<not> is_atom_delimiter ch) (chars_of s @ '' '' # rest) = '' '' # rest"
  by (induction s) (auto simp: atom_byte_def)

lemma space_step: "tokenize_loop ('' '' # rest) acc = tokenize_loop rest acc"
  by simp

lemma atom_step:
  assumes "s \<noteq> []" "list_all atom_byte s" "atom_start (hd s)"
  shows "tokenize_loop (chars_of s @ '' '' # rest) acc = tokenize_loop rest (acc @ [token_of_atom s])"
proof -
  obtain c cs where s: "s = c # cs" using assms(1) by (cases s) auto
  have c: "\<not> is_atom_delimiter [c]" "c \<notin> set ''@?+*''"
    using assms(3) s by (auto simp: atom_start_def atom_byte_def)
  then have not: "\<not> is_whitespace [c]" "[c] \<noteq> '';''" "[c] \<noteq> ''(''" "[c] \<noteq> '')''" "[c] \<noteq> ''[''"
    "[c] \<noteq> '']''" "[c] \<noteq> [CHR 0x22]" "[c] \<noteq> ''@''" "\<not> ([c] = ''?'' \<or> [c] = ''+'' \<or> [c] = ''*'')"
    by (auto simp: is_atom_delimiter_def)
  have atom: "fst (read_atom ([c] # chars_of cs @ '' '' # rest)) = s"
    using take_atom [OF assms(2), of rest] s by (simp add: read_atom_def)
  have rest: "dropWhile (\<lambda>ch. \<not> is_atom_delimiter ch) (chars_of cs @ '' '' # rest) = '' '' # rest"
    using take_atom [of cs rest] assms(2) s by simp
  have "tokenize_loop ([c] # chars_of cs @ '' '' # rest) acc =
      tokenize_loop ('' '' # rest) (acc @ [token_of_atom s])"
    using assms(1) by (simp only: tokenize_loop.simps not atom rest Let_def if_False)
  then show ?thesis by (simp only: s list.map append.simps space_step)
qed

lemma read_escaped:
  "read_string_loop (chars_of (escape_literal s) @ [CHR 0x22] # rest) False acc = Inr (acc @ s, rest)"
  by (induction s arbitrary: acc) auto

lemma token_step:
  "printable t \<Longrightarrow> tokenize_loop (chars_of (show_token t) @ rest) acc = tokenize_loop rest (acc @ [t])"
proof (cases t)
  case (Ident s)
  assume "printable t"
  with Ident have s: "s \<noteq> []" "list_all atom_byte s" "atom_start (hd s)" "last s \<noteq> CHR '':''" by auto
  then have "token_of_atom s = Ident s"
    by (auto simp: token_of_atom_def strip_suffix_Some_iff split: option.split)
  then show ?thesis using atom_step [OF s(1-3), of rest acc] Ident by simp
next
  case (Field s)
  assume "printable t"
  with Field have s: "s @ '':'' \<noteq> []" "list_all atom_byte (s @ '':'')" "atom_start (hd (s @ '':''))" "s \<noteq> []"
    by (auto simp: hd_append)
  have "strip_suffix '':'' (s @ '':'') = Some s" by (simp add: strip_suffix_Some_iff)
  with s have "token_of_atom (s @ '':'') = Field s" by (simp add: token_of_atom_def)
  then show ?thesis using atom_step [OF s(1-3), of rest acc] Field by simp
next
  case (Capture s)
  assume "printable t"
  with Capture have s: "s \<noteq> []" "list_all atom_byte s" "last s \<notin> set ''?+*''" by auto
  have "strip_suffix [q] s = None" if "last s \<noteq> q" for q
    using that by (cases "strip_suffix [q] s") (auto simp: strip_suffix_Some_iff)
  with s(3) have "trim_capture_quantifier s = s" by (simp add: trim_capture_quantifier_def or_else_def)
  moreover have "read_atom (chars_of s @ '' '' # rest) = (s, '' '' # rest)"
    using take_atom [OF s(2), of rest] by (simp add: read_atom_def)
  ultimately show ?thesis using Capture s(1) by simp
next
  case (StringLiteral s)
  then show ?thesis by (simp add: read_string_literal_def read_escaped)
qed auto

lemma ascii_escape: "list_all is_ascii s \<Longrightarrow> list_all is_ascii (escape_literal s)"
  by (induction s) auto

lemma atoms_ascii: "list_all atom_byte s \<Longrightarrow> list_all is_ascii s"
  by (simp add: list_all_iff atom_byte_def)

lemma ascii_show: "printable t \<Longrightarrow> list_all is_ascii (show_token t)"
  by (cases t) (auto simp: ascii_escape atoms_ascii)

lemma capture_of_iff: "c \<in> capture_of t \<longleftrightarrow> t = Capture c"
  by (cases t) auto

lemma field_of_iff: "f \<in> field_of t \<longleftrightarrow> t = Field f"
  by (cases t) auto

lemma tokens_step:
  "list_all printable ts \<Longrightarrow>
     tokenize_loop (chars_of (concat (map show_token ts))) acc = Inr (acc @ ts)"
proof (induction ts arbitrary: acc)
  case (Cons t ts)
  then show ?case
    using token_step [of t "chars_of (concat (map show_token ts))" acc] by simp
qed simp

subsection \<open>Properties\<close>

text \<open>C6: A compiled plan is complete and ordered: its source is balanced, the captures and fields of
  the plan are exactly those of the source, sorted and without duplicates, and the patterns are
  numbered from zero, none of them empty.\<close>

theorem query_plan_complete:
  assumes "tokenize_query source = Inr tokens" and "compile_query_abi_source source = Inr plan"
  shows "balanced tokens
    \<and> set (plan_captures plan) = {c. Capture c \<in> set tokens} \<and> sorted (plan_captures plan)
    \<and> distinct (plan_captures plan)
    \<and> set (plan_fields plan) = {f. Field f \<in> set tokens} \<and> sorted (plan_fields plan)
    \<and> distinct (plan_fields plan)
    \<and> plan_patterns plan \<noteq> [] \<and> list_all pattern_ok (plan_patterns plan)
    \<and> map qp_index (plan_patterns plan) = [0..<length (plan_patterns plan)]"
proof -
  from assms obtain p q where p: "accept_all tokens parser_new = Inr p" "ap_stack p = []"
    and q: "finish_current_pattern p = Inr q"
    and plan: "plan_patterns plan = ap_patterns q" "ap_patterns q \<noteq> []"
      "plan_captures plan = union_sorted (map qp_captures (ap_patterns q))"
      "plan_fields plan = union_sorted (map qp_fields (ap_patterns q))"
    by (auto simp: compile_query_abi_source_def parser_parse_def split: if_splits sum.splits)
  have new: "parser_ok parser_new" "collected f g parser_new = {}" "stack_kinds parser_new = []" for f g
    by (simp_all add: parser_new_def parser_ok_def collected_def stack_kinds_def)
  have bal: "balanced tokens" using accept_all_closes [OF p] new by simp
  have okp: "parser_ok p" "collected qp_captures pb_captures p = (\<Union>t \<in> set tokens. capture_of t)"
    "collected qp_fields pb_fields p = (\<Union>t \<in> set tokens. field_of t)"
    using accept_all_ok [OF p(1) new(1)] new by auto
  have okq: "parser_ok q" "ap_current q = None"
    "collected qp_captures pb_captures q = (\<Union>t \<in> set tokens. capture_of t)"
    "collected qp_fields pb_fields q = (\<Union>t \<in> set tokens. field_of t)"
    using finish_ok [OF q okp(1)] okp by auto
  have caps: "(\<Union>t \<in> set tokens. capture_of t) = {c. Capture c \<in> set tokens}"
    by (auto simp: capture_of_iff)
  have fields: "(\<Union>t \<in> set tokens. field_of t) = {f. Field f \<in> set tokens}"
    by (auto simp: field_of_iff)
  have "set (plan_captures plan) = {c. Capture c \<in> set tokens}"
    "set (plan_fields plan) = {f. Field f \<in> set tokens}"
    using okq caps fields by (simp_all add: plan union_sorted_def collected_def)
  moreover have "list_all pattern_ok (ap_patterns q)"
    "map qp_index (ap_patterns q) = [0..<length (ap_patterns q)]"
    using okq(1) by (simp_all add: parser_ok_def)
  ultimately show ?thesis using bal plan by (simp add: union_sorted_def)
qed

theorem query_plan_complete_witness:
  "\<exists>plan. compile_query_abi_source ''(a f: (b) @x) @y'' = Inr plan
     \<and> plan_captures plan = [''x'', ''y''] \<and> set (plan_fields plan) = {''f''}"
proof -
  have t: "tokenize_query ''(a f: (b) @x) @y'' =
      Inr [LParen, Ident ''a'', Field ''f'', LParen, Ident ''b'', RParen, Capture ''x'', RParen, Capture ''y'']"
    by code_simp
  have c: "compile_query_abi_source ''(a f: (b) @x) @y'' = Inr
      \<lparr>plan_patterns = [\<lparr>qp_index = 0, qp_captures = [''x'', ''y''], qp_node_types = [''a'', ''b''],
         qp_fields = [''f'']\<rparr>],
       plan_captures = [''x'', ''y''], plan_node_types = [''a'', ''b''], plan_fields = [''f''],
       plan_predicates = []\<rparr>"
    by code_simp
  from query_plan_complete [OF t c] c show ?thesis by auto
qed

text \<open>Tokenizing inverts printing: any sequence of printable tokens, printed with one blank
  behind each, is read back unchanged, escapes in string literals included.\<close>

theorem tokenize_roundtrip:
  assumes "list_all printable tokens"
  shows "tokenize_query (concat (map show_token tokens)) = Inr tokens"
proof -
  have "list_all is_ascii (concat (map show_token tokens))"
    using assms ascii_show by (induction tokens) auto
  then show ?thesis
    using tokens_step [OF assms, of "[]"] by (simp add: tokenize_query_def rust_chars_ascii)
qed

theorem tokenize_roundtrip_witness:
  "tokenize_query (concat (map show_token [LParen, Ident ''#eq?'', Capture ''n'', StringLiteral ''a\"b'', RParen])) =
     Inr [LParen, Ident ''#eq?'', Capture ''n'', StringLiteral ''a\"b'', RParen]"
  by (rule tokenize_roundtrip) code_simp

text \<open>A predicate whose only operand is the empty string is dropped.\<close>

lemma empty_operand_dropped:
  "map_option plan_predicates (case compile_query_abi_source ''((a) @n (#eq? @n \"\"))'' of Inr p \<Rightarrow> Some p | Inl _ \<Rightarrow> None) = Some []"
  by code_simp

end
