(* ===== verification/Json.thy ===== *)
theory Json
  imports Prelude "HOL-Library.AList"
begin

section \<open>JSON values\<close>

text \<open>
  The part of \<open>serde_json::Value\<close> that the crates use.  An object is an association list with the
  member that \<open>get\<close> finds first; parsing a text is third-party and stays a parameter of the
  definitions that need it (\<open>json_parser\<close>).
\<close>

datatype json =
  JNull | JBool bool | JInt int | JFloat string | JString string | JArray "json list"
  | JObject "(string \<times> json) list"

type_synonym json_parser = "string \<Rightarrow> json option"

fun json_get :: "string \<Rightarrow> json \<Rightarrow> json option" where
  "json_get key (JObject members) = map_of members key"
| "json_get key _ = None"

fun as_str :: "json \<Rightarrow> string option" where
  "as_str (JString s) = Some s"
| "as_str _ = None"

fun as_bool :: "json \<Rightarrow> bool option" where
  "as_bool (JBool b) = Some b"
| "as_bool _ = None"

definition json_get_str :: "string \<Rightarrow> json \<Rightarrow> string option" where
  "json_get_str key value = Option.bind (json_get key value) as_str"

text \<open>Inserting into an object replaces the member or adds it; other values are not objects.\<close>

fun json_insert :: "string \<Rightarrow> json \<Rightarrow> json \<Rightarrow> json option" where
  "json_insert key value (JObject members) = Some (JObject (AList.update key value members))"
| "json_insert key value _ = None"

lemma json_get_insert:
  "json_insert key value j = Some j' \<Longrightarrow>
     json_get k j' = (if k = key then Some value else json_get k j)"
  by (cases j) (auto simp: update_conv')

fun as_object :: "json \<Rightarrow> (string \<times> json) list option" where
  "as_object (JObject members) = Some members"
| "as_object _ = None"

fun as_array :: "json \<Rightarrow> json list option" where
  "as_array (JArray elements) = Some elements"
| "as_array _ = None"

text \<open>The first of several members that is present.\<close>

definition json_get_any :: "string list \<Rightarrow> json \<Rightarrow> json option" where
  "json_get_any keys value = find_map (\<lambda>key. json_get key value) keys"

definition json_get_any_str :: "string list \<Rightarrow> json \<Rightarrow> string option" where
  "json_get_any_str keys value = find_map (\<lambda>key. json_get_str key value) keys"

subsection \<open>Sizes\<close>

text \<open>
  A lower bound of the length of every text of a value: quotes and brackets count, escapes only make
  the text longer.  What the development uses of \<open>serde_json::from_str\<close> is that the text of a value
  is at least that long.
\<close>

fun json_bytes :: "json \<Rightarrow> nat" where
  "json_bytes (JString s) = length s + 2"
| "json_bytes (JArray elements) = 2 + sum_list (map json_bytes elements)"
| "json_bytes (JObject members) = 2 + sum_list (map (\<lambda>m. length (fst m) + json_bytes (snd m)) members)"
| "json_bytes _ = 1"

definition json_parser_sound :: "json_parser \<Rightarrow> bool" where
  "json_parser_sound parse \<longleftrightarrow> (\<forall>input value. parse input = Some value \<longrightarrow> json_bytes value \<le> length input)"

lemma json_bytes_element:
  "v \<in> set elements \<Longrightarrow> json_bytes v < json_bytes (JArray elements)"
  using member_le_sum_list [of "json_bytes v" "map json_bytes elements"] by simp

lemma json_bytes_member:
  assumes "map_of members key = Some v"
  shows "json_bytes v < json_bytes (JObject members)"
proof -
  have "length key + json_bytes v \<in> set (map (\<lambda>m. length (fst m) + json_bytes (snd m)) members)"
    using map_of_SomeD [OF assms] by force
  from member_le_sum_list [OF this] show ?thesis by simp
qed

lemma json_bytes_value:
  assumes "v \<in> set (map snd members)"
  shows "json_bytes v < json_bytes (JObject members)"
proof -
  from assms obtain key where "(key, v) \<in> set members" by auto
  then have "length key + json_bytes v \<in> set (map (\<lambda>m. length (fst m) + json_bytes (snd m)) members)" by force
  from member_le_sum_list [OF this] show ?thesis by simp
qed

lemma json_get_smaller: "json_get key value = Some v \<Longrightarrow> json_bytes v < json_bytes value"
  by (cases "value") (auto dest: json_bytes_member simp del: json_bytes.simps)

lemma json_get_any_smaller: "json_get_any keys value = Some v \<Longrightarrow> json_bytes v < json_bytes value"
  by (auto simp: json_get_any_def dest!: find_map_Some dest: json_get_smaller)

subsection \<open>A text format\<close>

text \<open>
  Not serde's: a printer and a parser that are inverse to each other, for the theorems that rely on a
  value being read back from its text.  A string is its characters, each after a colon, and a full stop.
\<close>

fun enc_string :: "string \<Rightarrow> string" where
  "enc_string [] = ''.''"
| "enc_string (c # cs) = CHR '':'' # c # enc_string cs"

fun dec_string :: "string \<Rightarrow> (string \<times> string) option" where
  "dec_string (k # cs) =
     (if k = CHR ''.'' then Some ([], cs)
      else case cs of [] \<Rightarrow> None | c # rest \<Rightarrow> map_option (apfst ((#) c)) (dec_string rest))"
| "dec_string [] = None"

lemma dec_enc_string [simp]: "dec_string (enc_string s @ rest) = Some (s, rest)"
  by (induction s) auto

fun enc_json :: "json \<Rightarrow> string" where
  "enc_json JNull = ''n''"
| "enc_json (JBool b) = (if b then ''t'' else ''f'')"
| "enc_json (JInt i) = (if 0 \<le> i then CHR ''p'' else CHR ''m'') # enc_string (replicate (nat \<bar>i\<bar>) (CHR ''1''))"
| "enc_json (JFloat s) = CHR ''d'' # enc_string s"
| "enc_json (JString s) = CHR ''s'' # enc_string s"
| "enc_json (JArray vs) = CHR ''a'' # concat (map enc_json vs) @ ''e''"
| "enc_json (JObject ms) = CHR ''o'' # concat (map (\<lambda>m. CHR ''k'' # enc_string (fst m) @ enc_json (snd m)) ms) @ ''e''"

definition dec_scalar :: "char \<Rightarrow> string \<Rightarrow> (json \<times> string) option" where
  "dec_scalar c s =
     (if c = CHR ''n'' then Some (JNull, s)
      else if c = CHR ''t'' then Some (JBool True, s)
      else if c = CHR ''f'' then Some (JBool False, s)
      else if c = CHR ''p'' then map_option (apfst (\<lambda>x. JInt (int (length x)))) (dec_string s)
      else if c = CHR ''m'' then map_option (apfst (\<lambda>x. JInt (- int (length x)))) (dec_string s)
      else if c = CHR ''d'' then map_option (apfst JFloat) (dec_string s)
      else if c = CHR ''s'' then map_option (apfst JString) (dec_string s)
      else None)"

fun dec_json :: "nat \<Rightarrow> string \<Rightarrow> (json \<times> string) option"
  and dec_elements :: "nat \<Rightarrow> string \<Rightarrow> (json list \<times> string) option"
  and dec_members :: "nat \<Rightarrow> string \<Rightarrow> ((string \<times> json) list \<times> string) option" where
  "dec_json 0 s = None"
| "dec_json (Suc n) [] = None"
| "dec_json (Suc n) (c # s) =
     (if c = CHR ''a'' then map_option (apfst JArray) (dec_elements n s)
      else if c = CHR ''o'' then map_option (apfst JObject) (dec_members n s)
      else dec_scalar c s)"
| "dec_elements 0 s = None"
| "dec_elements (Suc n) s =
     (if take 1 s = ''e'' then Some ([], drop 1 s)
      else case dec_json n s of
             None \<Rightarrow> None
           | Some (v, rest) \<Rightarrow> map_option (apfst ((#) v)) (dec_elements n rest))"
| "dec_members 0 s = None"
| "dec_members (Suc n) s =
     (if take 1 s = ''e'' then Some ([], drop 1 s)
      else case dec_string (drop 1 s) of
             None \<Rightarrow> None
           | Some (k, rest) \<Rightarrow>
               (case dec_json n rest of
                  None \<Rightarrow> None
                | Some (v, rest') \<Rightarrow> map_option (apfst ((#) (k, v))) (dec_members n rest')))"

definition wire_parse :: json_parser where
  "wire_parse s = (case dec_json (length s) s of Some (v, []) \<Rightarrow> Some v | _ \<Rightarrow> None)"

lemma enc_json_nonempty: "\<exists>c cs. enc_json v = c # cs \<and> c \<noteq> CHR ''e''"
  by (cases v) auto

lemma dec_elements_enc:
  assumes "\<And>v rest n. v \<in> set vs \<Longrightarrow> length (enc_json v) \<le> n \<Longrightarrow> dec_json n (enc_json v @ rest) = Some (v, rest)"
    and "length (concat (map enc_json vs)) < n"
  shows "dec_elements n (concat (map enc_json vs) @ CHR ''e'' # rest) = Some (vs, rest)"
  using assms
proof (induction vs arbitrary: n)
  case Nil
  then show ?case by (cases n) auto
next
  case (Cons v vs)
  then obtain m where n: "n = Suc m" by (cases n) auto
  obtain c cs where v: "enc_json v = c # cs" "c \<noteq> CHR ''e''" using enc_json_nonempty by blast
  have "dec_json m (enc_json v @ (concat (map enc_json vs) @ CHR ''e'' # rest)) =
      Some (v, concat (map enc_json vs) @ CHR ''e'' # rest)"
    by (rule Cons.prems(1)) (use Cons.prems(2) n in auto)
  moreover have "dec_elements m (concat (map enc_json vs) @ CHR ''e'' # rest) = Some (vs, rest)"
    by (rule Cons.IH) (use Cons.prems n v in auto)
  ultimately show ?case using v n by simp
qed

lemma dec_members_enc:
  assumes "\<And>m rest n. m \<in> set ms \<Longrightarrow> length (enc_json (snd m)) \<le> n \<Longrightarrow>
      dec_json n (enc_json (snd m) @ rest) = Some (snd m, rest)"
    and "length (concat (map (\<lambda>m. CHR ''k'' # enc_string (fst m) @ enc_json (snd m)) ms)) < n"
  shows "dec_members n (concat (map (\<lambda>m. CHR ''k'' # enc_string (fst m) @ enc_json (snd m)) ms)
      @ CHR ''e'' # rest) = Some (ms, rest)"
  using assms
proof (induction ms arbitrary: n)
  case Nil
  then show ?case by (cases n) auto
next
  case (Cons m ms)
  then obtain k where n: "n = Suc k" by (cases n) auto
  let ?rest = "concat (map (\<lambda>m. CHR ''k'' # enc_string (fst m) @ enc_json (snd m)) ms) @ CHR ''e'' # rest"
  have "dec_json k (enc_json (snd m) @ ?rest) = Some (snd m, ?rest)"
    by (rule Cons.prems(1)) (use Cons.prems(2) n in auto)
  moreover have "dec_members k ?rest = Some (ms, rest)"
    by (rule Cons.IH) (use Cons.prems n in auto)
  ultimately show ?case using n by simp
qed

lemma dec_json_enc: "length (enc_json v) \<le> n \<Longrightarrow> dec_json n (enc_json v @ rest) = Some (v, rest)"
proof (induction v arbitrary: n rest)
  case (JArray vs)
  then obtain m where n: "n = Suc m" by (cases n) auto
  have "dec_elements m (concat (map enc_json vs) @ CHR ''e'' # rest) = Some (vs, rest)"
  proof (rule dec_elements_enc)
    show "dec_json k (enc_json v @ rest') = Some (v, rest')"
      if "v \<in> set vs" "length (enc_json v) \<le> k" for v rest' k
      using JArray.IH that by blast
    show "length (concat (map enc_json vs)) < m" using JArray.prems n by simp
  qed
  with n show ?case by simp
next
  case (JObject ms)
  then obtain m where n: "n = Suc m" by (cases n) auto
  have "dec_members m (concat (map (\<lambda>m. CHR ''k'' # enc_string (fst m) @ enc_json (snd m)) ms)
      @ CHR ''e'' # rest) = Some (ms, rest)"
  proof (rule dec_members_enc)
    show "dec_json k (enc_json (snd x) @ rest') = Some (snd x, rest')"
      if "x \<in> set ms" "length (enc_json (snd x)) \<le> k" for x rest' k
      using JObject.IH [OF that(1), of "snd x"] that(2) by (cases x) simp
    show "length (concat (map (\<lambda>m. CHR ''k'' # enc_string (fst m) @ enc_json (snd m)) ms)) < m"
      using JObject.prems n by simp
  qed
  with n show ?case by simp
next
  case (JInt i)
  then show ?case by (cases n) (auto simp: dec_scalar_def)
next
  case JNull
  then show ?case by (cases n) (auto simp: dec_scalar_def)
next
  case (JBool b)
  then show ?case by (cases n; cases b) (auto simp: dec_scalar_def)
next
  case (JFloat s)
  then show ?case by (cases n) (auto simp: dec_scalar_def)
next
  case (JString s)
  then show ?case by (cases n) (auto simp: dec_scalar_def)
qed

lemma wire_parse_text: "wire_parse (enc_json v) = Some v"
  using dec_json_enc [of v "length (enc_json v)" "[]"] by (simp add: wire_parse_def)

end
