(* ===== verification/Registry.thy ===== *)
theory Registry
  imports Json "HOL-Library.Product_Lexorder"
begin

section \<open>The agent session registry\<close>

text \<open>
  Models \<open>crates/agent-semantic-client-db/src/agent_session_registry\<close> (\<open>core.rs\<close>,
  \<open>bootstrap.rs\<close>, \<open>types.rs\<close>) and the retry policy of \<open>engine/turso_statement.rs\<close> and
  \<open>engine/turso_lock_policy.rs\<close>.  The table \<open>asp_agent_sessions\<close> is the list of its rows in rowid
  order; each SQL statement of the source is one function on it, with the meaning SQL gives it: a
  \<open>DELETE\<close> filters, an \<open>UPDATE\<close> maps, an upsert that would leave two rows with one key fails.
  Statements are atomic, a handler is a sequence of them, and \<open>registry_step\<close> lets the statements of
  any number of processes interleave.
\<close>

subsection \<open>Rows and requests\<close>

record agent_session_record =
  rec_project_id :: string
  rec_root_session_id :: string
  rec_session_id :: string
  rec_message_target_id :: "string option"
  rec_parent_session_id :: "string option"
  rec_name :: string
  rec_role :: string
  rec_model :: "string option"
  rec_model_observation_source :: "string option"
  rec_model_observed_at :: "int option"
  rec_model_evidence_ref :: "string option"
  rec_status :: string
  rec_created_at :: int
  rec_updated_at :: int
  rec_last_seen_at :: "int option"
  rec_last_heartbeat_at :: "int option"
  rec_expires_at :: "int option"
  rec_archived_at :: "int option"
  rec_last_tool_event :: "string option"
  rec_last_command :: "string option"
  rec_last_evidence_ref :: "string option"
  rec_metadata_json :: string

type_synonym session_table = "agent_session_record list"

datatype observation_source = CodexSubagentStart | CodexRollout

definition observation_source_str :: "observation_source \<Rightarrow> string" where
  "observation_source_str s =
     (case s of CodexSubagentStart \<Rightarrow> ''codex.subagent-start'' | CodexRollout \<Rightarrow> ''codex.rollout'')"

record model_observation =
  ob_model :: string
  ob_source :: observation_source
  ob_observed_at :: int
  ob_evidence_ref :: "string option"

record register_request =
  rq_project_id :: string
  rq_root_session_id :: string
  rq_session_id :: string
  rq_message_target_id :: "string option"
  rq_parent_session_id :: "string option"
  rq_name :: string
  rq_role :: string
  rq_model_observation :: "model_observation option"
  rq_status :: string
  rq_expires_at :: "int option"
  rq_metadata_json :: string
  rq_now :: int

record lookup_request =
  lk_project_id :: string
  lk_session_id :: "string option"
  lk_root_session_id :: "string option"
  lk_name :: "string option"

record tool_event_request =
  te_session_id :: string
  te_tool_event :: string
  te_command :: "string option"
  te_evidence_ref :: "string option"
  te_now :: int

definition agent_session_status_is_routable :: "string \<Rightarrow> bool" where
  "agent_session_status_is_routable status \<longleftrightarrow>
     (if status = ''idle'' then True else status = ''active'' \<or> status = ''idle'')"

definition is_routable_at :: "agent_session_record \<Rightarrow> int \<Rightarrow> bool" where
  "is_routable_at r now \<longleftrightarrow>
     agent_session_status_is_routable (rec_status r)
     \<and> (case rec_expires_at r of None \<Rightarrow> True | Some expires \<Rightarrow> expires > now)"

definition row_key :: "agent_session_record \<Rightarrow> string \<times> string \<times> string" where
  "row_key r = (rec_project_id r, rec_root_session_id r, rec_name r)"

definition request_key :: "register_request \<Rightarrow> string \<times> string \<times> string" where
  "request_key q = (rq_project_id q, rq_root_session_id q, rq_name q)"

subsection \<open>Statements\<close>

definition inserted_row :: "register_request \<Rightarrow> agent_session_record" where
  "inserted_row q =
     \<lparr>rec_project_id = rq_project_id q, rec_root_session_id = rq_root_session_id q,
      rec_session_id = rq_session_id q, rec_message_target_id = rq_message_target_id q,
      rec_parent_session_id = rq_parent_session_id q, rec_name = rq_name q, rec_role = rq_role q,
      rec_model = map_option ob_model (rq_model_observation q),
      rec_model_observation_source =
        map_option (\<lambda>ob. observation_source_str (ob_source ob)) (rq_model_observation q),
      rec_model_observed_at = map_option ob_observed_at (rq_model_observation q),
      rec_model_evidence_ref = Option.bind (rq_model_observation q) ob_evidence_ref,
      rec_status = rq_status q, rec_created_at = rq_now q, rec_updated_at = rq_now q,
      rec_last_seen_at = Some (rq_now q), rec_last_heartbeat_at = Some (rq_now q),
      rec_expires_at = rq_expires_at q, rec_archived_at = None, rec_last_tool_event = None,
      rec_last_command = None, rec_last_evidence_ref = None,
      rec_metadata_json = rq_metadata_json q\<rparr>"

text \<open>The condition of the four \<open>CASE\<close> expressions: a new observation that is not older.\<close>

definition observation_newer :: "agent_session_record \<Rightarrow> agent_session_record \<Rightarrow> bool" where
  "observation_newer excluded old \<longleftrightarrow>
     rec_model excluded \<noteq> None
     \<and> (case rec_model_observed_at old of
          None \<Rightarrow> True
        | Some t \<Rightarrow> (case rec_model_observed_at excluded of None \<Rightarrow> False | Some t' \<Rightarrow> t \<le> t'))"

definition conflict_update ::
  "agent_session_record \<Rightarrow> agent_session_record \<Rightarrow> agent_session_record" where
  "conflict_update excluded old =
     (let newer = observation_newer excluded old
      in old\<lparr>rec_project_id := rec_project_id excluded,
             rec_root_session_id := rec_root_session_id excluded,
             rec_session_id := rec_session_id excluded,
             rec_message_target_id := rec_message_target_id excluded,
             rec_parent_session_id := rec_parent_session_id excluded,
             rec_name := rec_name excluded, rec_role := rec_role excluded,
             rec_model := (if newer then rec_model excluded else rec_model old),
             rec_model_observation_source :=
               (if newer then rec_model_observation_source excluded
                else rec_model_observation_source old),
             rec_model_observed_at :=
               (if newer then rec_model_observed_at excluded else rec_model_observed_at old),
             rec_model_evidence_ref :=
               (if newer then rec_model_evidence_ref excluded else rec_model_evidence_ref old),
             rec_status := rec_status excluded, rec_updated_at := rec_updated_at excluded,
             rec_last_seen_at := rec_last_seen_at excluded,
             rec_last_heartbeat_at := rec_last_heartbeat_at excluded,
             rec_expires_at := rec_expires_at excluded,
             rec_metadata_json := rec_metadata_json excluded\<rparr>)"

definition conflicts :: "agent_session_record \<Rightarrow> agent_session_record \<Rightarrow> bool" where
  "conflicts new old \<longleftrightarrow> row_key old = row_key new \<or> rec_session_id old = rec_session_id new"

datatype registry_error = ConstraintFailed | NotReadable string

text \<open>
  \<open>INSERT .. ON CONFLICT DO UPDATE\<close>: with one conflicting row the row is updated; with two, whichever
  is updated takes a key of the other, which the unique indexes reject.
\<close>

definition upsert :: "agent_session_record \<Rightarrow> session_table \<Rightarrow> registry_error + session_table" where
  "upsert new t =
     (case filter (conflicts new) t of
        [] \<Rightarrow> Inr (t @ [new])
      | [old] \<Rightarrow> Inr (map (\<lambda>r. if conflicts new r then conflict_update new r else r) t)
      | _ \<Rightarrow> Inl ConstraintFailed)"

definition insert_or_ignore :: "agent_session_record \<Rightarrow> session_table \<Rightarrow> session_table" where
  "insert_or_ignore new t = (if list_ex (conflicts new) t then t else t @ [new])"

definition delete_rows :: "(agent_session_record \<Rightarrow> bool) \<Rightarrow> session_table \<Rightarrow> session_table" where
  "delete_rows P t = filter (\<lambda>r. \<not> P r) t"

definition update_rows ::
  "(agent_session_record \<Rightarrow> bool) \<Rightarrow> (agent_session_record \<Rightarrow> agent_session_record)
     \<Rightarrow> session_table \<Rightarrow> session_table" where
  "update_rows P f t = map (\<lambda>r. if P r then f r else r) t"

subsection \<open>Reading\<close>

definition session_by_name ::
  "string \<Rightarrow> string \<Rightarrow> string \<Rightarrow> session_table \<Rightarrow> agent_session_record option" where
  "session_by_name project root name t = find (\<lambda>r. row_key r = (project, root, name)) t"

definition session_by_id :: "string \<Rightarrow> string \<Rightarrow> session_table \<Rightarrow> agent_session_record option" where
  "session_by_id project session t =
     find (\<lambda>r. rec_project_id r = project \<and> rec_session_id r = session) t"

text \<open>\<open>ORDER BY updated_at DESC, session_id\<close>\<close>

definition latest_first :: "session_table \<Rightarrow> session_table" where
  "latest_first t = sort_key (\<lambda>r. - rec_updated_at r) (sort_key rec_session_id t)"

definition query_sessions ::
  "string \<Rightarrow> string option \<Rightarrow> string option \<Rightarrow> session_table \<Rightarrow> session_table" where
  "query_sessions project root name t =
     latest_first (filter (\<lambda>r. rec_project_id r = project
       \<and> (case root of None \<Rightarrow> True | Some x \<Rightarrow> rec_root_session_id r = x)
       \<and> (case name of None \<Rightarrow> True | Some x \<Rightarrow> rec_name r = x)) t)"

definition lookup_session :: "lookup_request \<Rightarrow> session_table \<Rightarrow> agent_session_record option" where
  "lookup_session q t =
     (case lk_session_id q of
        Some session \<Rightarrow> session_by_id (lk_project_id q) session t
      | None \<Rightarrow>
          (case (lk_root_session_id q, lk_name q) of
             (Some root, Some name) \<Rightarrow> session_by_name (lk_project_id q) root name t
           | _ \<Rightarrow> get_at (query_sessions (lk_project_id q) (lk_root_session_id q) (lk_name q) t) 0))"

definition session_by_id_any_project :: "string \<Rightarrow> session_table \<Rightarrow> agent_session_record option" where
  "session_by_id_any_project session t =
     get_at (sort_key (\<lambda>r. - rec_updated_at r) (filter (\<lambda>r. rec_session_id r = session) t)) 0"

definition project_id_for_root_session_id :: "string \<Rightarrow> session_table \<Rightarrow> string option" where
  "project_id_for_root_session_id root t =
     map_option rec_project_id
       (get_at (sort_key (\<lambda>r. - rec_updated_at r) (filter (\<lambda>r. rec_root_session_id r = root) t)) 0)"

subsection \<open>Writing\<close>

definition clear_stale_mapping :: "register_request \<Rightarrow> session_table \<Rightarrow> session_table" where
  "clear_stale_mapping q t =
     delete_rows (\<lambda>r. rec_project_id r = rq_project_id q \<and> rec_session_id r = rq_session_id q
       \<and> \<not> (rec_root_session_id r = rq_root_session_id q \<and> rec_name r = rq_name q)) t"

definition read_back ::
  "register_request \<Rightarrow> string \<Rightarrow> session_table \<Rightarrow> registry_error + agent_session_record" where
  "read_back q message t =
     (case session_by_name (rq_project_id q) (rq_root_session_id q) (rq_name q) t of
        Some r \<Rightarrow> Inr r
      | None \<Rightarrow> Inl (NotReadable message))"

text \<open>The result and the table it leaves; a failed upsert leaves the cleared table.\<close>

definition register_session_once ::
  "register_request \<Rightarrow> session_table \<Rightarrow> (registry_error + agent_session_record) \<times> session_table" where
  "register_session_once q t =
     (let cleared = clear_stale_mapping q t in
      case upsert (inserted_row q) cleared of
        Inl e \<Rightarrow> (Inl e, cleared)
      | Inr t' \<Rightarrow> (read_back q ''registered Turso session was not readable'' t', t'))"

definition claim_resident_session ::
  "register_request \<Rightarrow> session_table \<Rightarrow> (registry_error + agent_session_record) \<times> session_table" where
  "claim_resident_session q t =
     (let cleared = delete_rows (\<lambda>r. row_key r = request_key q
            \<and> rec_status r \<in> {''archived'', ''closed''}) t;
          t' = insert_or_ignore (inserted_row q) cleared
      in (read_back q ''claimed Turso resident session was not readable'' t', t'))"

definition record_tool_event :: "tool_event_request \<Rightarrow> session_table \<Rightarrow> bool \<times> session_table" where
  "record_tool_event q t =
     (list_ex (\<lambda>r. rec_session_id r = te_session_id q) t,
      update_rows (\<lambda>r. rec_session_id r = te_session_id q)
        (\<lambda>r. r\<lparr>rec_last_tool_event := Some (te_tool_event q), rec_last_command := te_command q,
             rec_last_evidence_ref := te_evidence_ref q, rec_updated_at := te_now q,
             rec_last_seen_at := Some (te_now q)\<rparr>) t)"

definition owned :: "string \<Rightarrow> string \<Rightarrow> agent_session_record \<Rightarrow> bool" where
  "owned project session r \<longleftrightarrow> rec_project_id r = project \<and> rec_session_id r = session"

definition update_session_status ::
  "string \<Rightarrow> string \<Rightarrow> string \<Rightarrow> int \<Rightarrow> session_table \<Rightarrow> bool \<times> session_table" where
  "update_session_status project session status now t =
     (list_ex (owned project session) t,
      update_rows (owned project session)
        (\<lambda>r. r\<lparr>rec_status := status, rec_updated_at := now, rec_last_seen_at := Some now\<rparr>) t)"

definition set_archived_status ::
  "string \<Rightarrow> string \<Rightarrow> string \<Rightarrow> int option \<Rightarrow> int \<Rightarrow> session_table \<Rightarrow> bool \<times> session_table" where
  "set_archived_status project session status archived_at now t =
     (list_ex (owned project session) t,
      update_rows (owned project session)
        (\<lambda>r. r\<lparr>rec_status := status, rec_archived_at := archived_at, rec_updated_at := now,
             rec_last_seen_at := Some now\<rparr>) t)"

definition mark_session_invalid :: "string \<Rightarrow> string \<Rightarrow> int \<Rightarrow> session_table \<Rightarrow> bool \<times> session_table" where
  "mark_session_invalid project session now t =
     update_session_status project session ''invalid'' now t"

definition archive_session :: "string \<Rightarrow> string \<Rightarrow> int \<Rightarrow> session_table \<Rightarrow> bool \<times> session_table" where
  "archive_session project session now t =
     set_archived_status project session ''archived'' (Some now) now t"

definition unarchive_session :: "string \<Rightarrow> string \<Rightarrow> int \<Rightarrow> session_table \<Rightarrow> bool \<times> session_table" where
  "unarchive_session project session now t =
     set_archived_status project session ''active'' None now t"

definition delete_session :: "string \<Rightarrow> string \<Rightarrow> session_table \<Rightarrow> bool \<times> session_table" where
  "delete_session project session t =
     (list_ex (owned project session) t, delete_rows (owned project session) t)"

definition expired_row :: "int \<Rightarrow> agent_session_record \<Rightarrow> bool" where
  "expired_row now r \<longleftrightarrow>
     (case rec_expires_at r of None \<Rightarrow> False | Some expires \<Rightarrow> expires \<le> now)
     \<and> rec_status r \<in> {''active'', ''idle''}"

text \<open>
  The refresh updates nothing when no row has expired or when another process holds the refresh lock;
  the lock file is the environment's, so whether it was acquired is an argument.
\<close>

definition refresh_expired_sessions :: "bool \<Rightarrow> int \<Rightarrow> session_table \<Rightarrow> session_table" where
  "refresh_expired_sessions lock_acquired now t =
     (if \<not> list_ex (expired_row now) t then t
      else if \<not> lock_acquired then t
      else update_rows (expired_row now) (\<lambda>r. r\<lparr>rec_status := ''expired'', rec_updated_at := now\<rparr>) t)"

text \<open>A row is stale when another row with its session id is newer, or as new with a higher rowid.\<close>

definition supersedes :: "session_table \<Rightarrow> nat \<Rightarrow> nat \<Rightarrow> bool" where
  "supersedes t k s \<longleftrightarrow>
     rec_session_id (t ! k) = rec_session_id (t ! s)
     \<and> (rec_updated_at (t ! k) > rec_updated_at (t ! s)
        \<or> rec_updated_at (t ! k) = rec_updated_at (t ! s)
          \<and> (rec_created_at (t ! k) > rec_created_at (t ! s)
             \<or> rec_created_at (t ! k) = rec_created_at (t ! s) \<and> k > s))"

definition dedupe_by_session_id :: "session_table \<Rightarrow> session_table" where
  "dedupe_by_session_id t =
     map ((!) t) (filter (\<lambda>s. \<not> list_ex (\<lambda>k. supersedes t k s) [0..<length t]) [0..<length t])"

subsection \<open>Live message targets\<close>

definition trusted_binding_sources :: "string list" where
  "trusted_binding_sources =
     [''codex.subagent-start'', ''native-collaboration-list-agents'',
      ''codex-typed-subagent-start-plus-native-host-tree'',
      ''codex-rollout-session-meta-plus-native-host-tree'']"

definition message_target_is_live_bound ::
  "json_parser \<Rightarrow> agent_session_record \<Rightarrow> string \<Rightarrow> bool" where
  "message_target_is_live_bound parse r current_root =
     (case rec_message_target_id r of
        None \<Rightarrow> False
      | Some target \<Rightarrow>
          if str_trim target = [] then False
          else if rec_root_session_id r \<noteq> current_root
                  \<or> rec_parent_session_id r \<noteq> Some current_root then False
          else (case parse (rec_metadata_json r) of
                  None \<Rightarrow> False
                | Some metadata \<Rightarrow>
                    (case json_get ''messageTargetBinding'' metadata of
                       None \<Rightarrow> False
                     | Some binding \<Rightarrow>
                         json_get_str ''source'' binding \<in> Some ` set trusted_binding_sources
                         \<and> json_get_str ''boundRootSessionId'' binding = Some current_root
                         \<and> json_get_str ''childSessionId'' binding = Some (rec_session_id r)
                         \<and> json_get_str ''messageTargetId'' binding = Some target)))"

definition normalized_metadata_json ::
  "json_parser \<Rightarrow> string option \<Rightarrow> json \<Rightarrow> string + json" where
  "normalized_metadata_json parse value validation =
     (case (case value of None \<Rightarrow> Some (JObject []) | Some text0 \<Rightarrow> parse text0) of
        None \<Rightarrow> Inl ''--metadata-json must be valid JSON''
      | Some parsed \<Rightarrow>
          (case json_insert ''validation'' validation parsed of
             None \<Rightarrow> Inl ''--metadata-json must be a JSON object''
           | Some merged \<Rightarrow> Inr merged))"

subsection \<open>Lock retries\<close>

definition lock_retry_attempts :: nat where
  "lock_retry_attempts = 80"

definition is_turso_lock_error :: "string \<Rightarrow> bool" where
  "is_turso_lock_error message0 \<longleftrightarrow>
     (let message = to_ascii_lowercase message0 in
      list_ex (str_contains message)
        [''locking error'', ''locked'', ''wal coordination map magic mismatch'',
         ''coordination file is smaller than the coordination header'', ''coordination header'',
         ''magic mismatch'', ''busy''])"

definition turso_lock_retry_delay :: "nat \<Rightarrow> nat" where
  "turso_lock_retry_delay attempt = min (5 * 2 ^ min attempt 5) 200"

text \<open>
  \<open>run_turso_operation_with_lock_retry\<close>: what the operation returns at its \<open>n\<close>-th call is
  \<open>operation n\<close>; the second component lists the delays slept.
\<close>

fun retry_loop ::
  "(nat \<Rightarrow> string + 'a) \<Rightarrow> string \<Rightarrow> nat \<Rightarrow> nat \<Rightarrow> string option \<Rightarrow> (string + 'a) \<times> nat list" where
  "retry_loop operation context0 attempt 0 last_lock_error =
     (Inl ((case last_lock_error of None \<Rightarrow> context0 | Some e \<Rightarrow> e) @ '' after ''
       @ show_nat lock_retry_attempts @ '' retry attempts''), [])"
| "retry_loop operation context0 attempt (Suc left) last_lock_error =
     (case operation attempt of
        Inr x \<Rightarrow> (Inr x, [])
      | Inl message0 \<Rightarrow>
          (let message = context0 @ '': '' @ message0 in
           if \<not> is_turso_lock_error message then (Inl message, [])
           else (case retry_loop operation context0 (attempt + 1) left (Some message) of
                   (result, delays) \<Rightarrow> (result, turso_lock_retry_delay attempt # delays))))"

definition run_turso_operation_with_lock_retry ::
  "(nat \<Rightarrow> string + 'a) \<Rightarrow> string \<Rightarrow> (string + 'a) \<times> nat list" where
  "run_turso_operation_with_lock_retry operation context0 =
     retry_loop operation context0 0 lock_retry_attempts None"

subsection \<open>Interleavings\<close>

text \<open>One statement of some process.  Every handler is a sequence of these.\<close>

inductive registry_step :: "session_table \<Rightarrow> session_table \<Rightarrow> bool" where
  step_clear: "registry_step t (clear_stale_mapping q t)"
| step_upsert: "upsert (inserted_row q) t = Inr t' \<Longrightarrow> registry_step t t'"
| step_claim_clear: "registry_step t (delete_rows (\<lambda>r. row_key r = request_key q
     \<and> rec_status r \<in> {''archived'', ''closed''}) t)"
| step_claim_insert: "registry_step t (insert_or_ignore (inserted_row q) t)"
| step_tool_event: "registry_step t (snd (record_tool_event e t))"
| step_status: "registry_step t (snd (update_session_status p s status now t))"
| step_archive: "registry_step t (snd (set_archived_status p s status archived_at now t))"
| step_delete: "registry_step t (snd (delete_session p s t))"
| step_refresh: "registry_step t (refresh_expired_sessions lock now t)"
| step_dedupe: "registry_step t (dedupe_by_session_id t)"

inductive_cases registry_stepE: "registry_step t t'"

definition unique_keys :: "session_table \<Rightarrow> bool" where
  "unique_keys t \<longleftrightarrow> distinct (map row_key t) \<and> distinct (map rec_session_id t)"

subsection \<open>Lemmas\<close>

lemma unique_keys_Nil [simp]: "unique_keys []"
  by (simp add: unique_keys_def)

lemma unique_keys_filter: "unique_keys t \<Longrightarrow> unique_keys (filter P t)"
  by (simp add: unique_keys_def distinct_map_filter)

lemma unique_keys_delete: "unique_keys t \<Longrightarrow> unique_keys (delete_rows P t)"
  by (simp add: delete_rows_def unique_keys_filter)

lemma unique_keys_update:
  "unique_keys t \<Longrightarrow> (\<And>r. row_key (f r) = row_key r \<and> rec_session_id (f r) = rec_session_id r) \<Longrightarrow>
     unique_keys (update_rows P f t)"
proof -
  assume u: "unique_keys t"
    and f: "\<And>r. row_key (f r) = row_key r \<and> rec_session_id (f r) = rec_session_id r"
  have "map row_key (update_rows P f t) = map row_key t"
    and "map rec_session_id (update_rows P f t) = map rec_session_id t"
    using f by (simp_all add: update_rows_def)
  with u show ?thesis by (simp only: unique_keys_def)
qed

lemma row_key_inserted [simp]: "row_key (inserted_row q) = request_key q"
  "rec_session_id (inserted_row q) = rq_session_id q"
  by (simp_all add: row_key_def request_key_def inserted_row_def)

lemma row_key_conflict_update [simp]:
  "row_key (conflict_update new old) = row_key new"
  "rec_session_id (conflict_update new old) = rec_session_id new"
  by (simp_all add: row_key_def conflict_update_def Let_def)

lemma unique_keys_snoc:
  "unique_keys t \<Longrightarrow> \<not> list_ex (conflicts new) t \<Longrightarrow> unique_keys (t @ [new])"
  by (auto simp: unique_keys_def conflicts_def list_ex_iff)

lemma filter_single:
  "filter P t = [old] \<Longrightarrow> \<exists>as bs. t = as @ old # bs \<and> P old
     \<and> (\<forall>r \<in> set as. \<not> P r) \<and> (\<forall>r \<in> set bs. \<not> P r)"
  by (auto simp: filter_eq_Cons_iff filter_empty_conv eq_commute [of "[]"])

lemma upsert_cases:
  assumes "upsert new t = Inr t'"
  shows "(\<not> list_ex (conflicts new) t \<and> t' = t @ [new])
    \<or> (\<exists>as old bs. t = as @ old # bs \<and> t' = as @ conflict_update new old # bs \<and> conflicts new old
         \<and> (\<forall>r \<in> set as \<union> set bs. \<not> conflicts new r))"
proof (cases "filter (conflicts new) t")
  case Nil
  with assms show ?thesis by (auto simp: upsert_def filter_empty_conv list_ex_iff)
next
  case (Cons old rest)
  with assms have "rest = []" by (auto simp: upsert_def split: list.splits)
  with Cons obtain as bs where t: "t = as @ old # bs" "conflicts new old"
    "\<forall>r \<in> set as. \<not> conflicts new r" "\<forall>r \<in> set bs. \<not> conflicts new r"
    using filter_single [of "conflicts new" t old] by auto
  have "map (\<lambda>r. if conflicts new r then conflict_update new r else r) as = as"
    "map (\<lambda>r. if conflicts new r then conflict_update new r else r) bs = bs"
    using t by (simp_all add: map_idI)
  with assms Cons \<open>rest = []\<close> t have "t' = as @ conflict_update new old # bs"
    by (simp add: upsert_def)
  with t show ?thesis by blast
qed

lemma unique_keys_upsert:
  assumes "unique_keys t" and "upsert new t = Inr t'"
  shows "unique_keys t'"
  using upsert_cases [OF assms(2)]
proof
  assume "\<not> list_ex (conflicts new) t \<and> t' = t @ [new]"
  with assms(1) unique_keys_snoc show ?thesis by blast
next
  assume "\<exists>as old bs. t = as @ old # bs \<and> t' = as @ conflict_update new old # bs \<and> conflicts new old
         \<and> (\<forall>r \<in> set as \<union> set bs. \<not> conflicts new r)"
  then obtain as old bs where t: "t = as @ old # bs" "t' = as @ conflict_update new old # bs"
    "\<forall>r \<in> set as \<union> set bs. \<not> conflicts new r" by blast
  from t(3) have "row_key new \<notin> row_key ` (set as \<union> set bs)"
    "rec_session_id new \<notin> rec_session_id ` (set as \<union> set bs)"
    by (auto simp: conflicts_def)
  with assms(1) show ?thesis by (auto simp: unique_keys_def t)
qed

lemma unique_keys_insert_or_ignore: "unique_keys t \<Longrightarrow> unique_keys (insert_or_ignore new t)"
  by (simp add: insert_or_ignore_def unique_keys_snoc)

lemma distinct_map_nth:
  assumes "distinct (map f t)" and "distinct ks" and "set ks \<subseteq> {..<length t}"
  shows "distinct (map f (map ((!) t) ks))"
proof -
  have "map f (map ((!) t) ks) = map ((!) (map f t)) ks"
    using assms(3) by (auto simp: subset_iff)
  moreover have "inj_on ((!) (map f t)) (set ks)"
    using assms by (intro inj_on_nth) auto
  with assms(2) have "distinct (map ((!) (map f t)) ks)" by (simp add: distinct_map)
  ultimately show ?thesis by (simp only:)
qed

lemma unique_keys_map_nth:
  "unique_keys t \<Longrightarrow> distinct ks \<Longrightarrow> set ks \<subseteq> {..<length t} \<Longrightarrow> unique_keys (map ((!) t) ks)"
  unfolding unique_keys_def by (elim conjE) (intro conjI; rule distinct_map_nth; assumption)

lemma unique_keys_dedupe: "unique_keys t \<Longrightarrow> unique_keys (dedupe_by_session_id t)"
  unfolding dedupe_by_session_id_def by (rule unique_keys_map_nth) auto

lemma registry_step_unique:
  assumes "registry_step t t'" and u: "unique_keys t"
  shows "unique_keys t'"
  using assms(1)
proof (cases rule: registry_step.cases)
  case (step_clear q)
  then show ?thesis using u by (simp add: clear_stale_mapping_def unique_keys_delete)
next
  case (step_upsert q)
  then show ?thesis using u unique_keys_upsert by blast
next
  case (step_claim_clear q)
  then show ?thesis using u by (simp add: unique_keys_delete)
next
  case (step_claim_insert q)
  then show ?thesis using u by (simp add: unique_keys_insert_or_ignore)
next
  case (step_tool_event e)
  show ?thesis unfolding step_tool_event record_tool_event_def snd_conv
    by (rule unique_keys_update [OF u]) (simp add: row_key_def)
next
  case (step_status p s status now)
  show ?thesis unfolding step_status update_session_status_def snd_conv
    by (rule unique_keys_update [OF u]) (simp add: row_key_def)
next
  case (step_archive p s status archived_at now)
  show ?thesis unfolding step_archive set_archived_status_def snd_conv
    by (rule unique_keys_update [OF u]) (simp add: row_key_def)
next
  case (step_delete p s)
  then show ?thesis using u by (simp add: delete_session_def unique_keys_delete)
next
  case (step_refresh lock now)
  have "unique_keys (update_rows (expired_row now)
      (\<lambda>r. r\<lparr>rec_status := ''expired'', rec_updated_at := now\<rparr>) t)"
    by (rule unique_keys_update [OF u]) (simp add: row_key_def)
  with step_refresh u show ?thesis by (simp add: refresh_expired_sessions_def)
next
  case step_dedupe
  then show ?thesis using unique_keys_dedupe [OF u] by simp
qed

lemma registry_steps_unique: "registry_step\<^sup>*\<^sup>* t t' \<Longrightarrow> unique_keys t \<Longrightarrow> unique_keys t'"
  by (induction rule: rtranclp_induct) (auto intro: registry_step_unique)

lemma register_is_steps: "registry_step\<^sup>*\<^sup>* t (snd (register_session_once q t))"
proof (cases "upsert (inserted_row q) (clear_stale_mapping q t)")
  case (Inl e)
  then show ?thesis by (simp add: register_session_once_def Let_def step_clear r_into_rtranclp)
next
  case (Inr t')
  then have "registry_step (clear_stale_mapping q t) t'" by (rule step_upsert)
  with Inr show ?thesis
    using step_clear [of t q] by (simp add: register_session_once_def Let_def)
qed

lemma claim_is_steps: "registry_step\<^sup>*\<^sup>* t (snd (claim_resident_session q t))"
  unfolding claim_resident_session_def Let_def snd_conv
  by (rule converse_rtranclp_into_rtranclp, rule step_claim_clear)
    (rule r_into_rtranclp, rule step_claim_insert)

lemma find_unique:
  assumes "r \<in> set t" and "P r" and "\<And>r'. r' \<in> set t \<Longrightarrow> P r' \<Longrightarrow> r' = r"
  shows "find P t = Some r"
proof (cases "find P t")
  case None
  with assms(1,2) show ?thesis by (auto simp: find_None_iff)
next
  case (Some x)
  then have "x \<in> set t \<and> P x" by (auto simp: find_Some_iff)
  with assms(3) Some show ?thesis by blast
qed

lemma unique_row:
  "unique_keys t \<Longrightarrow> r \<in> set t \<Longrightarrow> r' \<in> set t \<Longrightarrow> row_key r = row_key r' \<Longrightarrow> r = r'"
  "unique_keys t \<Longrightarrow> r \<in> set t \<Longrightarrow> r' \<in> set t \<Longrightarrow> rec_session_id r = rec_session_id r' \<Longrightarrow> r = r'"
  by (auto simp: unique_keys_def distinct_map inj_on_def)

lemma session_by_name_member:
  assumes "unique_keys t" and "r \<in> set t"
  shows "session_by_name (rec_project_id r) (rec_root_session_id r) (rec_name r) t = Some r"
  unfolding session_by_name_def
  by (rule find_unique) (use assms unique_row(1) [OF assms(1)] in \<open>auto simp: row_key_def\<close>)

lemma session_by_id_member:
  assumes "unique_keys t" and "r \<in> set t"
  shows "session_by_id (rec_project_id r) (rec_session_id r) t = Some r"
  unfolding session_by_id_def
  by (rule find_unique) (use assms unique_row(2) [OF assms(1)] in auto)

lemma upsert_contains_new:
  assumes "upsert new t = Inr t'"
  shows "\<exists>r \<in> set t'. row_key r = row_key new \<and> rec_session_id r = rec_session_id new"
  using upsert_cases [OF assms]
proof
  assume "\<exists>as old bs. t = as @ old # bs \<and> t' = as @ conflict_update new old # bs \<and> conflicts new old
         \<and> (\<forall>r \<in> set as \<union> set bs. \<not> conflicts new r)"
  then obtain as old bs where "t' = as @ conflict_update new old # bs" by blast
  then show ?thesis by (intro bexI [of _ "conflict_update new old"]) auto
qed auto

lemma register_success:
  assumes u: "unique_keys t" and "register_session_once q t = (result, t')"
  shows "result = Inl ConstraintFailed \<and> t' = clear_stale_mapping q t
      \<and> upsert (inserted_row q) (clear_stale_mapping q t) = Inl ConstraintFailed
    \<or> (\<exists>r. result = Inr r \<and> r \<in> set t' \<and> unique_keys t' \<and> row_key r = request_key q
         \<and> rec_session_id r = rq_session_id q)"
proof (cases "upsert (inserted_row q) (clear_stale_mapping q t)")
  case (Inl e)
  then have "e = ConstraintFailed" by (auto simp: upsert_def split: list.splits)
  with Inl assms show ?thesis by (simp add: register_session_once_def Let_def)
next
  case (Inr s)
  with assms have s: "t' = s" "result = read_back q ''registered Turso session was not readable'' s"
    by (auto simp: register_session_once_def Let_def)
  have us: "unique_keys s"
    using unique_keys_upsert [OF _ Inr] u by (simp add: clear_stale_mapping_def unique_keys_delete)
  obtain r where r: "r \<in> set s" "row_key r = request_key q" "rec_session_id r = rq_session_id q"
    using upsert_contains_new [OF Inr] by auto
  have "session_by_name (rq_project_id q) (rq_root_session_id q) (rq_name q) s = Some r"
    using session_by_name_member [OF us r(1)] r(2) by (simp add: row_key_def request_key_def)
  with s us r show ?thesis by (simp add: read_back_def)
qed

subsection \<open>The store interface\<close>

text \<open>
  What the routing code relies on: storing a request keeps the store well formed and makes the route
  of the request name the request's session; a row found by route is found by session id, too.
\<close>

locale session_store =
  fixes valid :: "'db \<Rightarrow> bool"
    and store :: "register_request \<Rightarrow> 'db \<Rightarrow> (registry_error + agent_session_record) \<times> 'db"
    and by_route :: "string \<Rightarrow> string \<Rightarrow> string \<Rightarrow> 'db \<Rightarrow> agent_session_record option"
    and by_session :: "string \<Rightarrow> string \<Rightarrow> 'db \<Rightarrow> agent_session_record option"
  assumes store_valid: "valid db \<Longrightarrow> valid (snd (store q db))"
    and store_route: "valid db \<Longrightarrow> store q db = (Inr r, db') \<Longrightarrow>
      by_route (rq_project_id q) (rq_root_session_id q) (rq_name q) db' = Some r
      \<and> rec_session_id r = rq_session_id q \<and> rec_project_id r = rq_project_id q"
    and route_session: "valid db \<Longrightarrow> by_route p root name db = Some r \<Longrightarrow>
      by_session p (rec_session_id r) db = Some r"
begin

text \<open>Storing a sequence of requests, failed ones included.\<close>

fun store_all :: "register_request list \<Rightarrow> 'db \<Rightarrow> 'db" where
  "store_all [] db = db"
| "store_all (q # qs) db = store_all qs (snd (store q db))"

lemma store_all_valid: "valid db \<Longrightarrow> valid (store_all qs db)"
  by (induction qs arbitrary: db) (auto simp: store_valid)

lemma store_all_append: "store_all (qs @ rs) db = store_all rs (store_all qs db)"
  by (induction qs arbitrary: db) auto

lemma last_store_wins:
  assumes "valid db" and "store q (store_all qs db) = (Inr r, db')"
  shows "valid db'
    \<and> by_route (rq_project_id q) (rq_root_session_id q) (rq_name q) db' = Some r
    \<and> by_session (rq_project_id q) (rq_session_id q) db' = Some r"
proof -
  have v: "valid (store_all qs db)" using assms(1) by (rule store_all_valid)
  have v': "valid db'" using store_valid [OF v, of q] assms(2) by simp
  have route: "by_route (rq_project_id q) (rq_root_session_id q) (rq_name q) db' = Some r"
    "rec_session_id r = rq_session_id q"
    using store_route [OF v assms(2)] by auto
  with v' route_session [OF v' route(1)] show ?thesis by simp
qed

end

interpretation turso_registry: session_store
  unique_keys register_session_once session_by_name session_by_id
proof
  fix db q assume "unique_keys db"
  then show "unique_keys (snd (register_session_once q db))"
    using registry_steps_unique register_is_steps by blast
next
  fix db q r db'
  assume "unique_keys db" and "register_session_once q db = (Inr r, db')"
  from register_success [OF this]
  have r: "r \<in> set db'" "unique_keys db'" "row_key r = request_key q" "rec_session_id r = rq_session_id q"
    by auto
  then show "session_by_name (rq_project_id q) (rq_root_session_id q) (rq_name q) db' = Some r
      \<and> rec_session_id r = rq_session_id q \<and> rec_project_id r = rq_project_id q"
    using session_by_name_member [of db' r] by (simp add: row_key_def request_key_def)
next
  fix db p root name r
  assume u: "unique_keys db" and "session_by_name p root name db = Some r"
  then have "r \<in> set db" "row_key r = (p, root, name)"
    by (auto simp: session_by_name_def find_Some_iff)
  then show "session_by_id p (rec_session_id r) db = Some r"
    using session_by_id_member [OF u, of r] by (simp add: row_key_def)
qed

subsection \<open>Retry, refresh and claim lemmas\<close>

lemma retry_loop_success:
  assumes "\<forall>i < k. \<exists>e. operation (a + i) = Inl e \<and> is_turso_lock_error (ctx @ '': '' @ e)"
    and "operation (a + k) = Inr x" and "k < n"
  shows "retry_loop operation ctx a n prev = (Inr x, map turso_lock_retry_delay [a..<a + k])"
  using assms
proof (induction k arbitrary: a n prev)
  case 0
  then show ?case by (cases n) auto
next
  case (Suc k)
  then obtain m where n: "n = Suc m" by (cases n) auto
  from Suc.prems(1) obtain e where e: "operation a = Inl e" "is_turso_lock_error (ctx @ '': '' @ e)"
    by (metis add.right_neutral zero_less_Suc)
  have "retry_loop operation ctx (Suc a) m (Some (ctx @ '': '' @ e)) =
      (Inr x, map turso_lock_retry_delay [Suc a..<Suc a + k])"
  proof (rule Suc.IH)
    show "\<forall>i<k. \<exists>e. operation (Suc a + i) = Inl e \<and> is_turso_lock_error (ctx @ '': '' @ e)"
      using Suc.prems(1) by (metis Suc_less_eq add_Suc_shift)
  qed (use Suc.prems n in auto)
  moreover have "[a..<a + Suc k] = a # [Suc a..<Suc a + k]" by (simp add: upt_conv_Cons del: upt_Suc)
  ultimately show ?case using e n by (simp add: Let_def del: upt_Suc)
qed

lemma retry_loop_fatal:
  assumes "\<forall>i < k. \<exists>e. operation (a + i) = Inl e \<and> is_turso_lock_error (ctx @ '': '' @ e)"
    and "operation (a + k) = Inl e" and "\<not> is_turso_lock_error (ctx @ '': '' @ e)" and "k < n"
  shows "retry_loop operation ctx a n prev = (Inl (ctx @ '': '' @ e), map turso_lock_retry_delay [a..<a + k])"
  using assms
proof (induction k arbitrary: a n prev)
  case 0
  then show ?case by (cases n) auto
next
  case (Suc k)
  then obtain m where n: "n = Suc m" by (cases n) auto
  from Suc.prems(1) obtain e' where e: "operation a = Inl e'" "is_turso_lock_error (ctx @ '': '' @ e')"
    by (metis add.right_neutral zero_less_Suc)
  have "retry_loop operation ctx (Suc a) m (Some (ctx @ '': '' @ e')) =
      (Inl (ctx @ '': '' @ e), map turso_lock_retry_delay [Suc a..<Suc a + k])"
  proof (rule Suc.IH)
    show "\<forall>i<k. \<exists>e. operation (Suc a + i) = Inl e \<and> is_turso_lock_error (ctx @ '': '' @ e)"
      using Suc.prems(1) by (metis Suc_less_eq add_Suc_shift)
  qed (use Suc.prems n in auto)
  moreover have "[a..<a + Suc k] = a # [Suc a..<Suc a + k]" by (simp add: upt_conv_Cons del: upt_Suc)
  ultimately show ?case using e n by (simp add: Let_def del: upt_Suc)
qed

lemma retry_loop_delays: "length (snd (retry_loop operation ctx a n prev)) \<le> n"
proof (induction n arbitrary: a prev)
  case (Suc n)
  show ?case
  proof (cases "operation a")
    case (Inl e)
    then show ?thesis
      using Suc [of "Suc a" "Some (ctx @ '': '' @ e)"]
      by (auto simp: Let_def split: prod.split)
  qed simp
qed simp

lemma retry_delay_bounds: "5 \<le> turso_lock_retry_delay a \<and> turso_lock_retry_delay a \<le> 160"
proof -
  have "(2::nat) ^ min a 5 \<le> 2 ^ 5" by (rule power_increasing) auto
  moreover have "(1::nat) \<le> 2 ^ min a 5" by simp
  ultimately show ?thesis by (simp add: turso_lock_retry_delay_def)
qed

lemma routable_not_expired:
  "agent_session_status_is_routable (rec_status r) \<longleftrightarrow> rec_status r \<in> {''active'', ''idle''}"
  by (auto simp: agent_session_status_is_routable_def)

lemma expired_row_iff:
  "expired_row now r \<longleftrightarrow> agent_session_status_is_routable (rec_status r) \<and> \<not> is_routable_at r now"
  by (auto simp: expired_row_def is_routable_at_def routable_not_expired split: option.split)

lemma clear_stale_set:
  "r \<in> set (clear_stale_mapping q t) \<longleftrightarrow>
     r \<in> set t \<and> \<not> (rec_project_id r = rq_project_id q \<and> rec_session_id r = rq_session_id q
       \<and> row_key r \<noteq> request_key q)"
  by (auto simp: clear_stale_mapping_def delete_rows_def row_key_def request_key_def)

lemma two_members: "a \<in> set xs \<Longrightarrow> b \<in> set xs \<Longrightarrow> a \<noteq> b \<Longrightarrow> \<exists>x y zs. xs = x # y # zs"
  by (cases xs rule: remdups_adj.cases) auto

lemma upsert_fails_iff:
  assumes "unique_keys t"
  shows "upsert new t = Inl ConstraintFailed \<longleftrightarrow>
    (\<exists>a \<in> set t. \<exists>b \<in> set t. row_key a = row_key new \<and> rec_session_id a \<noteq> rec_session_id new
       \<and> rec_session_id b = rec_session_id new \<and> row_key b \<noteq> row_key new)"
    (is "?L \<longleftrightarrow> ?R")
proof
  assume ?R
  then obtain a b where ab: "a \<in> set t" "b \<in> set t" "row_key a = row_key new"
    "rec_session_id a \<noteq> rec_session_id new" "rec_session_id b = rec_session_id new" by blast
  then have "a \<in> set (filter (conflicts new) t)" "b \<in> set (filter (conflicts new) t)" "a \<noteq> b"
    by (auto simp: conflicts_def)
  from two_members [OF this] show ?L by (auto simp: upsert_def)
next
  assume ?L
  then obtain x y zs where f: "filter (conflicts new) t = x # y # zs"
    by (auto simp: upsert_def split: list.splits)
  then have "x \<in> set (filter (conflicts new) t)" "y \<in> set (filter (conflicts new) t)" by simp_all
  then have xy: "x \<in> set t" "y \<in> set t" "conflicts new x" "conflicts new y" by simp_all
  have "distinct (filter (conflicts new) t)"
    using assms by (simp add: unique_keys_def distinct_map)
  then have "x \<noteq> y" using f by auto
  then have "\<not> (row_key x = row_key new \<and> row_key y = row_key new)"
    "\<not> (rec_session_id x = rec_session_id new \<and> rec_session_id y = rec_session_id new)"
    using unique_row [OF assms xy(1,2)] by auto
  with xy show ?R unfolding conflicts_def by metis
qed

definition age_key :: "session_table \<Rightarrow> nat \<Rightarrow> int \<times> int \<times> nat" where
  "age_key t s = (rec_updated_at (t ! s), rec_created_at (t ! s), s)"

lemma supersedes_iff:
  "supersedes t k s \<longleftrightarrow> rec_session_id (t ! k) = rec_session_id (t ! s) \<and> age_key t s < age_key t k"
  by (auto simp: supersedes_def age_key_def)

lemma dedupe_kept:
  "set (dedupe_by_session_id t) =
     {t ! s | s. s < length t \<and> (\<forall>k < length t. \<not> supersedes t k s)}"
  by (auto simp: dedupe_by_session_id_def list_ex_iff)

lemma dedupe_distinct: "distinct (map rec_session_id (dedupe_by_session_id t))"
proof -
  let ?kept = "filter (\<lambda>s. \<not> list_ex (\<lambda>k. supersedes t k s) [0..<length t]) [0..<length t]"
  have "inj_on (\<lambda>s. rec_session_id (t ! s)) (set ?kept)"
  proof (rule inj_onI)
    fix s k assume "s \<in> set ?kept" "k \<in> set ?kept" and same: "rec_session_id (t ! s) = rec_session_id (t ! k)"
    then have "\<not> age_key t s < age_key t k" "\<not> age_key t k < age_key t s"
      by (auto simp: list_ex_iff supersedes_iff)
    then have "age_key t s = age_key t k" by (rule antisym_conv3 [THEN iffD1, rotated])
    then show "s = k" by (simp add: age_key_def)
  qed
  then show ?thesis by (simp add: dedupe_by_session_id_def distinct_map o_def)
qed

lemma dedupe_keeps_newest:
  assumes "s < length t"
  shows "\<exists>k < length t. rec_session_id (t ! k) = rec_session_id (t ! s) \<and> age_key t s \<le> age_key t k
    \<and> (\<forall>j < length t. \<not> supersedes t j k)"
proof -
  let ?rows = "{k. k < length t \<and> rec_session_id (t ! k) = rec_session_id (t ! s)}"
  let ?m = "Max (age_key t ` ?rows)"
  have fin: "finite (age_key t ` ?rows)" and ne: "age_key t ` ?rows \<noteq> {}" using assms by auto
  obtain k where k: "k \<in> ?rows" "age_key t k = ?m" using Max_in [OF fin ne] by auto
  have "age_key t j \<le> age_key t k" if "j \<in> ?rows" for j
    using Max_ge [OF fin, of "age_key t j"] that k by auto
  then have "age_key t s \<le> age_key t k" "\<forall>j < length t. \<not> supersedes t j k"
    using assms k by (auto simp: supersedes_iff not_less)
  with k show ?thesis by auto
qed

lemma claim_owner:
  assumes u: "unique_keys t" and r: "r \<in> set t" "row_key r = request_key q"
    and live: "rec_status r \<notin> {''archived'', ''closed''}"
  shows "claim_resident_session q t = (Inr r, t)"
proof -
  have "\<not> (row_key x = request_key q \<and> rec_status x \<in> {''archived'', ''closed''})" if "x \<in> set t" for x
    using unique_row(1) [OF u that r(1)] r(2) live by auto
  then have "delete_rows (\<lambda>r. row_key r = request_key q \<and> rec_status r \<in> {''archived'', ''closed''}) t = t"
    unfolding delete_rows_def by (intro filter_True) blast
  moreover have "insert_or_ignore (inserted_row q) t = t"
    using r by (auto simp: insert_or_ignore_def list_ex_iff conflicts_def)
  moreover have "session_by_name (rq_project_id q) (rq_root_session_id q) (rq_name q) t = Some r"
    using session_by_name_member [OF u r(1)] r(2) by (simp add: row_key_def request_key_def)
  ultimately show ?thesis by (simp only: claim_resident_session_def Let_def read_back_def option.case)
qed

lemma register_on_existing:
  assumes u: "unique_keys t" and reg: "register_session_once q t = (Inr r', t')"
    and old: "old \<in> set t" "row_key old = request_key q"
  shows "r' = conflict_update (inserted_row q) old"
proof -
  let ?c = "clear_stale_mapping q t" and ?new = "inserted_row q"
  have uc: "unique_keys ?c" using u by (simp add: clear_stale_mapping_def unique_keys_delete)
  obtain s where s: "upsert ?new ?c = Inr s" "t' = s"
    using reg by (auto simp: register_session_once_def Let_def split: sum.splits)
  have oc: "old \<in> set ?c" using old by (simp add: clear_stale_set)
  then have "conflicts ?new old" using old by (simp add: conflicts_def)
  with upsert_cases [OF s(1)] oc obtain as o' bs where t: "?c = as @ o' # bs"
    "s = as @ conflict_update ?new o' # bs" "\<forall>r \<in> set as \<union> set bs. \<not> conflicts ?new r"
    by (auto simp: list_ex_iff)
  with oc \<open>conflicts ?new old\<close> have o: "o' = old" by auto
  from register_success [OF u reg] have r': "r' \<in> set s" "row_key r' = request_key q" "unique_keys s"
    using s by auto
  have "conflict_update ?new old \<in> set s" using t o by simp
  from unique_row(1) [OF r'(3) r'(1) this] r'(2) show ?thesis by simp
qed


subsection \<open>A concrete registry\<close>

definition demo_request :: "string \<Rightarrow> string \<Rightarrow> string \<Rightarrow> int \<Rightarrow> register_request" where
  "demo_request project session name now =
     \<lparr>rq_project_id = project, rq_root_session_id = ''root'', rq_session_id = session,
      rq_message_target_id = None, rq_parent_session_id = Some ''root'', rq_name = name,
      rq_role = ''explore'',
      rq_model_observation = Some \<lparr>ob_model = ''m'', ob_source = CodexRollout,
        ob_observed_at = now, ob_evidence_ref = None\<rparr>,
      rq_status = ''active'', rq_expires_at = Some (now + 60), rq_metadata_json = ''{}'', rq_now = now\<rparr>"

definition demo_table :: session_table where
  "demo_table = snd (register_session_once (demo_request ''p'' ''s1'' ''asp-explore'' 10) [])"

definition demo_row :: agent_session_record where
  "demo_row = inserted_row (demo_request ''p'' ''s1'' ''asp-explore'' 10)"

lemma demo_table_rows: "demo_table = [demo_row]"
  by code_simp

lemma demo_table_unique: "unique_keys demo_table"
  by (simp add: demo_table_rows unique_keys_def)

text \<open>Registering an archived row again makes it active but keeps its archive time.\<close>

lemma reregister_keeps_archived_at:
  "map_option (\<lambda>r. (rec_status r, rec_archived_at r))
     (session_by_id ''p'' ''s1'' (snd (register_session_once (demo_request ''p'' ''s1'' ''asp-explore'' 20)
       (snd (archive_session ''p'' ''s1'' 15 demo_table))))) = Some (''active'', Some 15)"
  by code_simp

subsection \<open>Properties\<close>





text \<open>Claiming a resident lane never displaces its owner: while a row of the lane is neither
  archived nor closed, every claim returns that row and changes nothing.\<close>

theorem claim_keeps_owner:
  assumes "unique_keys t" and "r \<in> set t" and "row_key r = request_key q"
    and "rec_status r \<notin> {''archived'', ''closed''}"
  shows "claim_resident_session q t = (Inr r, t)"
  using assms by (rule claim_owner)

theorem claim_keeps_owner_witness:
  "claim_resident_session (demo_request ''p'' ''s9'' ''asp-explore'' 99) demo_table = (Inr demo_row, demo_table)"
  by (rule claim_keeps_owner) (simp_all add: demo_table_unique, code_simp+)

text \<open>Refreshing expires exactly the rows that have stopped being routable: at the time of the
  refresh a row is routable if and only if it was, and from then on the stored status alone tells.\<close>

theorem refresh_expires_exactly:
  "map (\<lambda>r. is_routable_at r now) (refresh_expired_sessions True now t) = map (\<lambda>r. is_routable_at r now) t
   \<and> map row_key (refresh_expired_sessions True now t) = map row_key t
   \<and> list_all (\<lambda>r. agent_session_status_is_routable (rec_status r) = is_routable_at r now)
       (refresh_expired_sessions True now t)"
proof -
  define f where "f r = (if expired_row now r
      then r\<lparr>rec_status := ''expired'', rec_updated_at := now\<rparr> else r)" for r
  have f: "is_routable_at (f r) now = is_routable_at r now" "row_key (f r) = row_key r"
      "agent_session_status_is_routable (rec_status (f r)) = is_routable_at r now" for r
    by (auto simp: f_def expired_row_iff row_key_def is_routable_at_def routable_not_expired)
  have "refresh_expired_sessions True now t = map f t"
    by (auto simp: refresh_expired_sessions_def update_rows_def list_ex_iff f_def
        intro: map_idI [symmetric])
  then show ?thesis by (simp add: list_all_iff f)
qed

text \<open>A model observation never goes back in time: registering over an existing row keeps the
  newer observation, with its model, whichever request carries it.\<close>

theorem observation_never_regresses:
  assumes "unique_keys t" and "register_session_once q t = (Inr r, t')"
    and "old \<in> set t" and "row_key old = request_key q" and "rec_model_observed_at old = Some seen"
  shows "(case rq_model_observation q of
      Some ob \<Rightarrow>
        rec_model_observed_at r = Some (max seen (ob_observed_at ob))
        \<and> rec_model r = (if seen \<le> ob_observed_at ob then Some (ob_model ob) else rec_model old)
    | None \<Rightarrow> rec_model_observed_at r = Some seen \<and> rec_model r = rec_model old)"
proof -
  have "r = conflict_update (inserted_row q) old" by (rule register_on_existing) (use assms in auto)
  then show ?thesis using assms(5)
    by (auto simp: conflict_update_def observation_newer_def inserted_row_def Let_def max_def
        split: option.split)
qed

theorem observation_never_regresses_witness:
  "rec_model_observed_at (conflict_update (inserted_row (demo_request ''p'' ''s1'' ''asp-explore'' 4)) demo_row) = Some 10"
proof -
  let ?q = "demo_request ''p'' ''s1'' ''asp-explore'' 4"
  obtain t' where reg: "register_session_once ?q demo_table =
      (Inr (conflict_update (inserted_row ?q) demo_row), t')"
  proof -
    have "fst (register_session_once ?q demo_table) = Inr (conflict_update (inserted_row ?q) demo_row)"
      by code_simp
    then show ?thesis using that by (metis prod.collapse)
  qed
  have "demo_row \<in> set demo_table" "row_key demo_row = request_key ?q"
    "rec_model_observed_at demo_row = Some 10" "rq_model_observation ?q \<noteq> None"
    by (simp_all add: demo_table_rows demo_row_def demo_request_def inserted_row_def row_key_def request_key_def)
  with observation_never_regresses [OF demo_table_unique reg] show ?thesis
    by (auto simp: demo_request_def)
qed

text \<open>Deduplication keeps, for every session id, exactly one row, and no row it drops is newer than
  the one it keeps.\<close>

theorem dedupe_keeps_one_newest:
  "distinct (map rec_session_id (dedupe_by_session_id t))
   \<and> list_all (\<lambda>r. list_ex (\<lambda>k. rec_session_id k = rec_session_id r
        \<and> (rec_updated_at r, rec_created_at r) \<le> (rec_updated_at k, rec_created_at k))
       (dedupe_by_session_id t)) t"
proof -
  have "\<exists>k \<in> set (dedupe_by_session_id t). rec_session_id k = rec_session_id r
      \<and> (rec_updated_at r, rec_created_at r) \<le> (rec_updated_at k, rec_created_at k)" if "r \<in> set t" for r
  proof -
    from that obtain s where s: "s < length t" "r = t ! s" by (auto simp: in_set_conv_nth)
    from dedupe_keeps_newest [OF s(1)] obtain k where k: "k < length t"
      "rec_session_id (t ! k) = rec_session_id (t ! s)" "age_key t s \<le> age_key t k"
      "\<forall>j < length t. \<not> supersedes t j k" by blast
    then have "t ! k \<in> set (dedupe_by_session_id t)" by (auto simp: dedupe_kept)
    moreover have "(rec_updated_at r, rec_created_at r) \<le> (rec_updated_at (t ! k), rec_created_at (t ! k))"
      using k(3) s(2) by (auto simp: age_key_def)
    ultimately show ?thesis using k(2) s(2) by auto
  qed
  then show ?thesis using dedupe_distinct by (auto simp: list_all_iff list_ex_iff)
qed

text \<open>A database operation that meets only lock errors before it succeeds is retried until it
  does, within eighty attempts: its result is returned, after exactly one sleep of 5 to 160 ms per
  failure; it is never run again once it has succeeded.\<close>

theorem lock_retry_succeeds:
  assumes "\<forall>i < k. \<exists>e. operation i = Inl e \<and> is_turso_lock_error (ctx @ '': '' @ e)"
    and "operation k = Inr x" and "k < lock_retry_attempts"
  shows "\<exists>delays. run_turso_operation_with_lock_retry operation ctx = (Inr x, delays)
    \<and> length delays = k \<and> (\<forall>d \<in> set delays. 5 \<le> d \<and> d \<le> 160)"
  using retry_loop_success [of k operation 0 ctx x lock_retry_attempts None] assms retry_delay_bounds
  by (auto simp: run_turso_operation_with_lock_retry_def)

theorem lock_retry_succeeds_witness:
  "\<exists>delays. run_turso_operation_with_lock_retry
      (\<lambda>i. if i = 0 then Inl ''database is locked'' else Inr True) ''read'' = (Inr True, delays)
    \<and> length delays = 1 \<and> (\<forall>d \<in> set delays. 5 \<le> d \<and> d \<le> 160)"
proof -
  have "is_turso_lock_error (''read'' @ '': '' @ ''database is locked'')" by code_simp
  then show ?thesis by (intro lock_retry_succeeds) (auto simp: lock_retry_attempts_def)
qed

end
