(* ===== verification/ToolAction.thy ===== *)
theory ToolAction
  imports Intent Json
begin

section \<open>Tool actions of a hook payload\<close>

text \<open>
  Models \<open>crates/agent-semantic-hook/src/tool_action.rs\<close>: a client's tool payload is turned into
  the actions the classifier judges, including the command actions and the tool uses nested in it.
  \<open>serde_json::from_str\<close> is the parameter \<open>jp\<close> and the bash grammar the parameter \<open>parse\<close>.
  The collector recurses into texts that it decodes, so its definition takes fuel;
  \<open>collect_tool_actions\<close> starts it with the size of the payload, which suffices whenever the JSON
  parser returns values no larger than their text.
\<close>

subsection \<open>Keys\<close>

definition path_scalar_keys :: "string list" where
  "path_scalar_keys =
     [''path'', ''file'', ''file_name'', ''fileName'', ''file_path'', ''filePath'', ''absolute_path'',
      ''absolutePath'', ''relative_path'', ''relativePath'', ''uri'']"

definition path_container_keys :: "string list" where
  "path_container_keys =
     [''paths'', ''files'', ''resource'', ''resources'', ''uris'', ''document'', ''documents'',
      ''text_document'', ''textDocument'']"

definition path_value_keys :: "string list" where
  "path_value_keys =
     [''path'', ''file'', ''file_name'', ''fileName'', ''file_path'', ''filePath'', ''absolute_path'',
      ''absolutePath'', ''relative_path'', ''relativePath'', ''uri'', ''paths'', ''files'',
      ''resource'', ''resources'', ''uris'', ''document'', ''documents'', ''text_document'',
      ''textDocument'']"

definition action_scan_keys :: "string list" where
  "action_scan_keys =
     [''commandActions'', ''command_actions'', ''action'', ''toolAction'', ''tool_action'', ''item'',
      ''items'', ''input'', ''arguments'', ''args'', ''parameters'', ''params'', ''toolInput'',
      ''tool_input'', ''toolUse'', ''tool_use'', ''function'', ''tool_uses'', ''toolUses'', ''tools'',
      ''tool_calls'', ''toolCalls'']"

definition codex_command_action_keys :: "string list" where
  "codex_command_action_keys = [''commandActions'', ''command_actions'']"

definition codex_direct_action_keys :: "string list" where
  "codex_direct_action_keys = [''action'', ''toolAction'', ''tool_action'']"

definition codex_action_container_keys :: "string list" where
  "codex_action_container_keys =
     [''item'', ''items'', ''input'', ''arguments'', ''args'', ''parameters'', ''params'',
      ''toolInput'', ''tool_input'', ''toolUse'', ''tool_use'']"

definition tool_use_list_keys :: "string list" where
  "tool_use_list_keys = [''tool_uses'', ''toolUses'', ''tools'', ''tool_calls'', ''toolCalls'']"

subsection \<open>Surfaces and operations\<close>

datatype tool_surface =
  CodexApplyPatch | CodexDirectRead | CodexDirectoryRead | CodexFuzzyFileSearch | CodexMcpRead
  | CodexNestedTools | CodexShell | CodexStdinContinuation | UnknownSurface

definition surface_from_tool_name :: "string \<Rightarrow> tool_surface" where
  "surface_from_tool_name tool_name =
     (let lower = to_ascii_lowercase tool_name in
      if starts_with lower ''mcp__'' \<and> str_contains lower ''__read'' then CodexMcpRead
      else
        (let normalized = map (\<lambda>c. if c \<in> {CHR ''-'', CHR ''/'', CHR '':''} then CHR ''.'' else c) lower;
             leaf = last_piece (\<lambda>c. c = CHR ''.'') normalized
         in if normalized \<in> {''edit'', ''multiedit'', ''write'', ''notebookedit'', ''fswritefile'',
                 ''fsremove'', ''fscopy'', ''fsrename'', ''functions.edit'', ''functions.multiedit'',
                 ''functions.write'', ''functions.notebookedit''} then CodexApplyPatch
            else if normalized \<in> {''apply_patch'', ''applypatch''} then CodexApplyPatch
            else if normalized \<in> {''bash'', ''shell'', ''functions.exec_command'', ''exec_command'',
                 ''command_execution''} then CodexShell
            else if normalized \<in> {''grep'', ''glob''} then CodexFuzzyFileSearch
            else if normalized = ''multi_tool_use.parallel'' then CodexNestedTools
            else if normalized \<in> {''write_stdin'', ''writestdin'', ''process.write_stdin'',
                 ''process.writestdin''} then CodexStdinContinuation
            else if normalized \<in> {''fuzzyfilesearch'', ''fuzzyfilesearch.sessionstart'',
                 ''fuzzyfilesearch.sessionupdate''} then CodexFuzzyFileSearch
            else if leaf \<in> {''read'', ''readfile'', ''read_file'', ''fsreadfile''} then CodexDirectRead
            else if leaf \<in> {''readdirectory'', ''read_directory'', ''fsreaddirectory''}
            then CodexDirectoryRead
            else if leaf \<in> {''write'', ''writefile'', ''write_file'', ''remove'', ''copy'', ''rename'',
                 ''fswritefile'', ''fsremove'', ''fscopy'', ''fsrename''} then CodexApplyPatch
            else if ends_with normalized ''.apply_patch'' then CodexApplyPatch
            else UnknownSurface))"

fun surface_str :: "tool_surface \<Rightarrow> string" where
  "surface_str CodexApplyPatch = ''apply-patch''"
| "surface_str CodexDirectRead = ''direct-read''"
| "surface_str CodexDirectoryRead = ''directory-read''"
| "surface_str CodexFuzzyFileSearch = ''fuzzy-file-search''"
| "surface_str CodexMcpRead = ''mcp-read''"
| "surface_str CodexNestedTools = ''nested-tools''"
| "surface_str CodexShell = ''shell-command''"
| "surface_str CodexStdinContinuation = ''stdin-continuation''"
| "surface_str UnknownSurface = ''unknown''"

datatype operation_intent =
  OpApplyPatch | OpDirectoryRead | OpDirectRead | OpFileSearch | OpNestedTools | OpShellCommand
  | OpStdinContinuation | OpUnknown

fun operation_from_action ::
  "tool_surface \<Rightarrow> string option \<Rightarrow> string list \<Rightarrow> operation_intent" where
  "operation_from_action CodexApplyPatch command paths = OpApplyPatch"
| "operation_from_action CodexDirectRead command paths = OpDirectRead"
| "operation_from_action CodexMcpRead command paths = OpDirectRead"
| "operation_from_action CodexDirectoryRead command paths = OpDirectoryRead"
| "operation_from_action CodexFuzzyFileSearch command paths = OpFileSearch"
| "operation_from_action CodexNestedTools command paths = OpNestedTools"
| "operation_from_action CodexShell command paths =
     (if command \<noteq> None then OpShellCommand else OpUnknown)"
| "operation_from_action CodexStdinContinuation command paths =
     (if command \<noteq> None then OpStdinContinuation else OpUnknown)"
| "operation_from_action UnknownSurface command paths =
     (if command = None \<and> paths \<noteq> [] then OpDirectRead else OpUnknown)"

fun operation_str :: "operation_intent \<Rightarrow> string" where
  "operation_str OpApplyPatch = ''apply-patch''"
| "operation_str OpDirectoryRead = ''directory-read''"
| "operation_str OpDirectRead = ''direct-read''"
| "operation_str OpFileSearch = ''file-search''"
| "operation_str OpNestedTools = ''nested-tools''"
| "operation_str OpShellCommand = ''shell-command''"
| "operation_str OpStdinContinuation = ''stdin-continuation''"
| "operation_str OpUnknown = ''unknown''"

record tool_action =
  t_tool_name :: string
  t_surface :: tool_surface
  t_operation :: operation_intent
  t_command :: "string option"
  t_command_tokens :: "string list option"
  t_paths :: "string list"

text \<open>\<open>ToolAction::command_tokens\<close>: the stored tokens, or the command tokenized now.\<close>

definition action_command_tokens ::
  "bash_parser \<Rightarrow> tool_action \<Rightarrow> string list option shell_result" where
  "action_command_tokens parse action =
     (case t_command_tokens action of
        Some tokens \<Rightarrow> Inr (Some tokens)
      | None \<Rightarrow>
          (case t_command action of
             None \<Rightarrow> Inr None
           | Some command \<Rightarrow>
               shell_bind (semantic_shell_tokens parse command) (\<lambda>tokens. Inr (Some tokens))))"

record decision_subject =
  j_tool_name :: "string option"
  j_command :: "string option"
  j_paths :: "string list"

definition default_subject :: decision_subject where
  "default_subject = \<lparr>j_tool_name = None, j_command = None, j_paths = []\<rparr>"

definition subject_for_action :: "tool_action \<Rightarrow> decision_subject" where
  "subject_for_action action =
     \<lparr>j_tool_name = (if t_tool_name action = [] then None else Some (t_tool_name action)),
      j_command = t_command action, j_paths = t_paths action\<rparr>"

subsection \<open>Paths of a value\<close>

definition normalize_path_value :: "string \<Rightarrow> string" where
  "normalize_path_value path =
     (case strip_prefix ''file://'' path of
        None \<Rightarrow> path
      | Some uri_path \<Rightarrow>
          (case strip_prefix ''localhost/'' uri_path of
             Some localhost_path \<Rightarrow> ''/'' @ localhost_path
           | None \<Rightarrow> uri_path))"

function path_values :: "json \<Rightarrow> string list" where
  "path_values value =
     (case value of
        JString path \<Rightarrow> [normalize_path_value path]
      | JObject members \<Rightarrow>
          concat (map (\<lambda>key. case map_of members key of None \<Rightarrow> [] | Some v \<Rightarrow> path_values v)
            path_value_keys)
      | JArray elements \<Rightarrow> concat (map path_values elements)
      | _ \<Rightarrow> [])"
  by pat_completeness auto
termination
  by (relation "measure json_bytes")
     (auto dest: json_bytes_member json_bytes_element simp del: json_bytes.simps)

declare path_values.simps [simp del]

definition path_values_for_keys :: "json \<Rightarrow> string list \<Rightarrow> string list" where
  "path_values_for_keys tool_input keys =
     concat (map (\<lambda>key. case json_get key tool_input of None \<Rightarrow> [] | Some v \<Rightarrow> path_values v) keys)"

definition extract_paths_direct :: "json \<Rightarrow> string list" where
  "extract_paths_direct tool_input =
     path_values_for_keys tool_input path_scalar_keys
     @ path_values_for_keys tool_input path_container_keys"

definition all_ascii_digits :: "string \<Rightarrow> bool" where
  "all_ascii_digits s \<longleftrightarrow> list_all is_ascii_digit s"

definition path_without_line_range :: "string \<Rightarrow> string option" where
  "path_without_line_range path =
     (case rsplit_once '':'' path of
        None \<Rightarrow> None
      | Some (base, tail) \<Rightarrow>
          if all_ascii_digits tail then
            (case rsplit_once '':'' base of
               None \<Rightarrow> None
             | Some (base', start) \<Rightarrow> if all_ascii_digits start then Some base' else None)
          else
            (case split_once ''-'' tail of
               None \<Rightarrow> None
             | Some (start, end') \<Rightarrow>
                 if start \<noteq> [] \<and> end' \<noteq> [] \<and> all_ascii_digits start \<and> all_ascii_digits end'
                 then Some base else None))"

text \<open>The loop runs over a copy of the paths, so added base paths are not looked at again.\<close>

definition append_base_paths_for_ranges :: "string list \<Rightarrow> string list" where
  "append_base_paths_for_ranges paths =
     fold (\<lambda>path acc. case path_without_line_range path of
         None \<Rightarrow> acc | Some base \<Rightarrow> push_unique acc base) paths paths"

subsection \<open>Commands of a payload\<close>

definition tool_shell_quote_arg :: "string \<Rightarrow> string" where
  "tool_shell_quote_arg value =
     (if list_ex is_whitespace (rust_chars value)
      then [CHR 39] @ str_replace [CHR 39] [CHR 39, CHR 34, CHR 39, CHR 34, CHR 39] value @ [CHR 39]
      else value)"

fun quoted_parts :: "json list \<Rightarrow> string list option" where
  "quoted_parts [] = Some []"
| "quoted_parts (v # vs) =
     (case as_str v of
        None \<Rightarrow> None
      | Some s \<Rightarrow> map_option (\<lambda>parts. tool_shell_quote_arg s # parts) (quoted_parts vs))"

definition string_array_command :: "json list \<Rightarrow> string option" where
  "string_array_command elements =
     (case quoted_parts elements of
        None \<Rightarrow> None
      | Some parts \<Rightarrow> if parts = [] then None else Some (str_join '' '' parts))"

definition extract_file_search_command :: "string \<Rightarrow> json \<Rightarrow> string option" where
  "extract_file_search_command tool_name tool_input =
     (let path_arg = (case json_get_str ''path'' tool_input of
            None \<Rightarrow> [] | Some path \<Rightarrow> [tool_shell_quote_arg path])
      in if tool_name = ''grep'' then
           (case json_get_str ''pattern'' tool_input of
              None \<Rightarrow> None
            | Some pat \<Rightarrow> Some (str_join '' '' ([''rg'']
                @ (case json_get_str ''glob'' tool_input of
                     None \<Rightarrow> [] | Some glob \<Rightarrow> [''--glob'', tool_shell_quote_arg glob])
                @ [tool_shell_quote_arg pat] @ path_arg)))
         else if tool_name = ''glob'' then
           (case json_get_str ''pattern'' tool_input of
              None \<Rightarrow> None
            | Some pat \<Rightarrow> Some (str_join '' '' ([''fd'', tool_shell_quote_arg pat] @ path_arg)))
         else None)"

definition stdin_chars :: "json \<Rightarrow> string option" where
  "stdin_chars tool_input =
     (case json_get_str ''chars'' tool_input of
        None \<Rightarrow> None
      | Some chars \<Rightarrow> (let trimmed = str_trim chars in if trimmed = [] then None else Some trimmed))"

definition patch_input :: "json \<Rightarrow> string option" where
  "patch_input tool_input =
     or_else (as_str tool_input)
       (json_get_any_str [''patch'', ''input'', ''text'', ''command''] tool_input)"

definition shell_input :: "string \<Rightarrow> json \<Rightarrow> string option" where
  "shell_input normalized_tool_name tool_input =
     or_else (json_get_any_str [''cmd'', ''command''] tool_input)
       (or_else (case json_get ''args'' tool_input of
            None \<Rightarrow> None
          | Some v \<Rightarrow> (case as_array v of None \<Rightarrow> None | Some elements \<Rightarrow> string_array_command elements))
          (if normalized_tool_name = ''command_execution'' then
             (case json_get ''tool_input'' tool_input of
                None \<Rightarrow> None | Some v \<Rightarrow> json_get_str ''command'' v)
           else None))"

definition extract_command_direct :: "tool_surface \<Rightarrow> string \<Rightarrow> json \<Rightarrow> string option" where
  "extract_command_direct surface tool_name tool_input =
     (case surface of
        CodexApplyPatch \<Rightarrow> patch_input tool_input
      | CodexStdinContinuation \<Rightarrow> stdin_chars tool_input
      | CodexFuzzyFileSearch \<Rightarrow>
          extract_file_search_command (to_ascii_lowercase tool_name) tool_input
      | CodexShell \<Rightarrow> shell_input (to_ascii_lowercase tool_name) tool_input
      | _ \<Rightarrow> None)"

text \<open>The commands whose operands are extracted as paths at once.\<close>

definition path_command_names :: "string set" where
  "path_command_names =
     {''awk'', ''gawk'', ''sed'', ''gsed'', ''head'', ''ghead'', ''tail'', ''gtail'', ''cat'', ''less'',
      ''more'', ''bat'', ''nl'', ''read'', ''rtk''}"

definition command_paths_are_needed_at_action_boundary ::
  "tool_surface \<Rightarrow> string list option \<Rightarrow> bool" where
  "command_paths_are_needed_at_action_boundary surface command_tokens =
     (if surface \<noteq> CodexShell \<and> surface \<noteq> CodexStdinContinuation then True
      else (case command_tokens of
              Some (token # _) \<Rightarrow> last_piece (\<lambda>c. c = CHR ''/'') token \<in> path_command_names
            | _ \<Rightarrow> False))"

subsection \<open>Codex command actions\<close>

definition is_codex_command_execution_tool_name :: "string \<Rightarrow> bool" where
  "is_codex_command_execution_tool_name tool_name \<longleftrightarrow>
     last_piece (\<lambda>c. c = CHR ''.'' \<or> c = CHR '':'') tool_name
       \<in> {''command_execution'', ''command-execution''}"

definition synthesize_codex_search_command :: "json \<Rightarrow> string option" where
  "synthesize_codex_search_command obj =
     (case json_get_str ''query'' obj of
        None \<Rightarrow> None
      | Some query0 \<Rightarrow>
          (let query = str_trim query0 in
           if query = [] then None
           else Some (''rg '' @ tool_shell_quote_arg query
             @ (case json_get_str ''path'' obj of
                  None \<Rightarrow> []
                | Some path0 \<Rightarrow>
                    (let path = str_trim path0
                     in if path = [] then [] else '' '' @ tool_shell_quote_arg path)))))"

definition optional_tokens ::
  "bash_parser \<Rightarrow> string option \<Rightarrow> string list option shell_result" where
  "optional_tokens parse command =
     (case command of
        None \<Rightarrow> Inr None
      | Some c \<Rightarrow> shell_bind (semantic_shell_tokens parse c) (\<lambda>tokens. Inr (Some tokens)))"

definition codex_action_paths :: "json \<Rightarrow> string list" where
  "codex_action_paths obj =
     (let paths = (case json_get ''path'' obj of None \<Rightarrow> [] | Some path \<Rightarrow> path_values path)
      in if paths = [] then
           (case json_get_str ''name'' obj of None \<Rightarrow> [] | Some name \<Rightarrow> [name])
         else paths)"

definition codex_action_shape ::
  "string \<Rightarrow> json \<Rightarrow> string option \<Rightarrow> (tool_surface \<times> operation_intent \<times> string option) option" where
  "codex_action_shape action_type obj command =
     (if action_type = ''read'' then Some (CodexDirectRead, OpDirectRead, command)
      else if action_type \<in> {''listFiles'', ''list_files''}
      then Some (CodexDirectoryRead, OpDirectoryRead, command)
      else if action_type = ''search''
      then Some (CodexShell, OpShellCommand, or_else command (synthesize_codex_search_command obj))
      else if action_type = ''unknown'' then Some (CodexShell, OpShellCommand, command)
      else None)"

definition codex_command_action ::
  "bash_parser \<Rightarrow> string \<Rightarrow> json \<Rightarrow> tool_action option shell_result" where
  "codex_command_action parse tool_name value =
     (case as_object value of
        None \<Rightarrow> Inr None
      | Some _ \<Rightarrow>
          (case json_get_str ''type'' value of
             None \<Rightarrow> Inr None
           | Some action_type \<Rightarrow>
               (let command0 = Option.bind (json_get_any [''command'', ''cmd''] value) as_str;
                    paths = codex_action_paths value
                in case codex_action_shape action_type value command0 of
                     None \<Rightarrow> Inr None
                   | Some (surface, operation, command) \<Rightarrow>
                       if command = None \<and> paths = [] then Inr None
                       else shell_bind (optional_tokens parse command) (\<lambda>command_tokens.
                         shell_bind
                           (case (command, command_tokens) of
                              (Some c, Some tokens) \<Rightarrow> command_source_paths parse c tokens
                            | _ \<Rightarrow> Inr [])
                           (\<lambda>command_paths. Inr (Some
                             \<lparr>t_tool_name = tool_name @ ''.command_action.'' @ action_type,
                              t_surface = surface, t_operation = operation, t_command = command,
                              t_command_tokens = command_tokens,
                              t_paths = extend_unique paths command_paths\<rparr>))))))"

text \<open>Two actions are the same when tool, command, paths and operation agree.\<close>

definition same_action :: "tool_action \<Rightarrow> tool_action \<Rightarrow> bool" where
  "same_action a b \<longleftrightarrow> t_tool_name a = t_tool_name b \<and> t_command a = t_command b
     \<and> t_paths a = t_paths b \<and> t_operation a = t_operation b"

definition push_unique_action :: "tool_action list \<Rightarrow> tool_action \<Rightarrow> tool_action list" where
  "push_unique_action actions action =
     (if list_ex (\<lambda>existing. same_action existing action) actions then actions else actions @ [action])"

text \<open>A \<open>for\<close> loop over a mutable vector whose body may fail.\<close>

fun fold_result :: "('a \<Rightarrow> 'b \<Rightarrow> 'b shell_result) \<Rightarrow> 'a list \<Rightarrow> 'b \<Rightarrow> 'b shell_result" where
  "fold_result f [] acc = Inr acc"
| "fold_result f (x # xs) acc = shell_bind (f x acc) (fold_result f xs)"

lemma fold_result_cong [fundef_cong]:
  "xs = ys \<Longrightarrow> acc = acc' \<Longrightarrow> (\<And>x a. x \<in> set ys \<Longrightarrow> f x a = g x a) \<Longrightarrow>
     fold_result f xs acc = fold_result g ys acc'"
  by (induction ys arbitrary: xs acc acc') (auto simp: shell_bind_def split: sum.splits)

function collect_codex_command_actions ::
    "bash_parser \<Rightarrow> string \<Rightarrow> bool \<Rightarrow> json \<Rightarrow> tool_action list \<Rightarrow> tool_action list shell_result"
  and collect_codex_command_action_values ::
    "bash_parser \<Rightarrow> string \<Rightarrow> json \<Rightarrow> tool_action list \<Rightarrow> tool_action list shell_result"
  and collect_codex_item_actions ::
    "bash_parser \<Rightarrow> string \<Rightarrow> json \<Rightarrow> tool_action list \<Rightarrow> tool_action list shell_result" where
  "collect_codex_command_actions parse tool_name direct_action value actions =
     shell_bind (if direct_action then codex_command_action parse tool_name value else Inr None)
       (\<lambda>direct. case direct of
          Some action \<Rightarrow> Inr (push_unique_action actions action)
        | None \<Rightarrow>
            (case value of
               JObject members \<Rightarrow>
                 shell_bind (fold_result (\<lambda>key acc. case map_of members key of None \<Rightarrow> Inr acc
                     | Some v \<Rightarrow> collect_codex_command_action_values parse tool_name v acc)
                   codex_command_action_keys actions) (\<lambda>actions1.
                 shell_bind (fold_result (\<lambda>key acc. case map_of members key of None \<Rightarrow> Inr acc
                     | Some v \<Rightarrow> collect_codex_command_actions parse tool_name True v acc)
                   codex_direct_action_keys actions1) (\<lambda>actions2.
                 shell_bind (fold_result (\<lambda>key acc. case map_of members key of None \<Rightarrow> Inr acc
                     | Some v \<Rightarrow> collect_codex_item_actions parse tool_name v acc)
                   codex_action_container_keys actions2) (\<lambda>actions3.
                 if is_codex_command_execution_tool_name tool_name then
                   shell_bind (codex_command_action parse tool_name value) (\<lambda>found. Inr
                     (case found of None \<Rightarrow> actions3 | Some action \<Rightarrow> push_unique_action actions3 action))
                 else Inr actions3)))
             | _ \<Rightarrow> Inr actions))"
| "collect_codex_command_action_values parse tool_name value actions =
     (case value of
        JArray elements \<Rightarrow>
          fold_result (\<lambda>v acc. collect_codex_command_actions parse tool_name True v acc) elements actions
      | _ \<Rightarrow> collect_codex_command_actions parse tool_name True value actions)"
| "collect_codex_item_actions parse tool_name value actions =
     (case value of
        JArray elements \<Rightarrow>
          fold_result (\<lambda>v acc. collect_codex_item_actions parse tool_name v acc) elements actions
      | JObject members \<Rightarrow>
          shell_bind (fold_result (\<lambda>key acc. case map_of members key of None \<Rightarrow> Inr acc
              | Some v \<Rightarrow> collect_codex_command_actions parse tool_name True v acc)
            codex_direct_action_keys actions) (\<lambda>actions1.
          fold_result (\<lambda>key acc. case map_of members key of None \<Rightarrow> Inr acc
              | Some v \<Rightarrow> collect_codex_item_actions parse tool_name v acc)
            codex_action_container_keys actions1)
      | _ \<Rightarrow> Inr actions)"
  by pat_completeness auto
termination
proof (relation "measure (\<lambda>x. case x of
    Inl (parse, tool_name, direct_action, v, actions) \<Rightarrow> 2 * json_bytes v
  | Inr (Inl (parse, tool_name, v, actions)) \<Rightarrow> 2 * json_bytes v + 1
  | Inr (Inr (parse, tool_name, v, actions)) \<Rightarrow> 2 * json_bytes v)", goal_cases)
qed (auto dest!: json_bytes_member json_bytes_element simp del: json_bytes.simps)

declare collect_codex_command_actions.simps [simp del]
  collect_codex_command_action_values.simps [simp del] collect_codex_item_actions.simps [simp del]

definition codex_command_actions ::
  "bash_parser \<Rightarrow> string \<Rightarrow> json \<Rightarrow> tool_action list shell_result" where
  "codex_command_actions parse tool_name value =
     collect_codex_command_actions parse tool_name False value []"

subsection \<open>Nested tool uses\<close>

text \<open>A nested tool use: the name of the tool and its input.\<close>

type_synonym nested_tool_action = "string \<times> json"

definition decoded_json_input :: "json_parser \<Rightarrow> json \<Rightarrow> json option" where
  "decoded_json_input jp value = Option.bind (as_str value) jp"

definition decoded_or_cloned :: "json_parser \<Rightarrow> json \<Rightarrow> json" where
  "decoded_or_cloned jp value =
     (case decoded_json_input jp value of None \<Rightarrow> value | Some v \<Rightarrow> v)"

definition nested_function_action :: "json_parser \<Rightarrow> json \<Rightarrow> nested_tool_action option" where
  "nested_function_action jp value =
     (case json_get ''function'' value of
        None \<Rightarrow> None
      | Some fn \<Rightarrow>
          (case json_get_str ''name'' fn of
             None \<Rightarrow> None
           | Some tool_name \<Rightarrow>
               Some (tool_name,
                 case json_get_any [''arguments'', ''parameters'', ''input''] fn of
                   None \<Rightarrow> JNull | Some v \<Rightarrow> decoded_or_cloned jp v)))"

definition nested_input_value :: "json_parser \<Rightarrow> json \<Rightarrow> json" where
  "nested_input_value jp tool_use =
     (case json_get_any [''parameters'', ''tool_input'', ''toolInput'', ''input'', ''arguments''] tool_use of
        None \<Rightarrow> JNull | Some v \<Rightarrow> decoded_or_cloned jp v)"

definition nested_action_from_tool_use :: "json_parser \<Rightarrow> json \<Rightarrow> nested_tool_action option" where
  "nested_action_from_tool_use jp tool_use =
     (case nested_function_action jp tool_use of
        Some action \<Rightarrow> Some action
      | None \<Rightarrow>
          (case json_get_any_str
              [''recipient_name'', ''recipientName'', ''tool_name'', ''toolName'', ''name''] tool_use of
             None \<Rightarrow> None
           | Some tool_name \<Rightarrow> Some (tool_name, nested_input_value jp tool_use)))"

definition nested_tool_actions :: "json_parser \<Rightarrow> json \<Rightarrow> nested_tool_action list" where
  "nested_tool_actions jp tool_input =
     (case nested_function_action jp tool_input of None \<Rightarrow> [] | Some action \<Rightarrow> [action])
     @ concat (map (\<lambda>key.
         case Option.bind (json_get key tool_input) as_array of
           None \<Rightarrow> []
         | Some tool_uses \<Rightarrow> List.map_filter (nested_action_from_tool_use jp) tool_uses)
       tool_use_list_keys)"

definition tool_input_needs_action_scan :: "string \<Rightarrow> json \<Rightarrow> bool" where
  "tool_input_needs_action_scan tool_name tool_input \<longleftrightarrow>
     is_codex_command_execution_tool_name tool_name
     \<or> (case as_object tool_input of
          None \<Rightarrow> False
        | Some members \<Rightarrow> list_ex (\<lambda>key. map_of members key \<noteq> None) action_scan_keys)"

subsection \<open>The collector\<close>

text \<open>The action of the payload itself, before any nested one.\<close>

definition direct_action ::
  "bash_parser \<Rightarrow> string \<Rightarrow> json \<Rightarrow> tool_action shell_result" where
  "direct_action parse tool_name tool_input =
     (let surface = surface_from_tool_name tool_name;
          command = extract_command_direct surface tool_name tool_input;
          paths = extract_paths_direct tool_input
      in shell_bind (optional_tokens parse command) (\<lambda>command_tokens.
         shell_bind
           (case command of
              None \<Rightarrow> Inr []
            | Some c \<Rightarrow>
                (let patch_paths = apply_patch_source_paths tool_name c in
                 if patch_paths \<noteq> [] then Inr patch_paths
                 else if command_paths_are_needed_at_action_boundary surface command_tokens
                 then (case command_tokens of
                         None \<Rightarrow> Inr [] | Some tokens \<Rightarrow> command_source_paths parse c tokens)
                 else Inr []))
           (\<lambda>command_paths.
              let all_paths = extend_unique paths (append_base_paths_for_ranges command_paths)
              in Inr \<lparr>t_tool_name = tool_name, t_surface = surface,
                   t_operation = operation_from_action surface command all_paths,
                   t_command = command, t_command_tokens = command_tokens, t_paths = all_paths\<rparr>)))"

fun collect_tool_actions_fuel ::
  "bash_parser \<Rightarrow> json_parser \<Rightarrow> nat \<Rightarrow> string \<Rightarrow> json \<Rightarrow> tool_action list shell_result" where
  "collect_tool_actions_fuel parse jp 0 tool_name tool_input0 = Inl OutOfFuel"
| "collect_tool_actions_fuel parse jp (Suc fuel) tool_name tool_input0 =
     (let tool_input = decoded_or_cloned jp tool_input0 in
      shell_bind (direct_action parse tool_name tool_input) (\<lambda>action.
        if \<not> tool_input_needs_action_scan tool_name tool_input then Inr [action]
        else
          shell_bind (codex_command_actions parse tool_name tool_input) (\<lambda>codex.
          fold_result (\<lambda>nested acc.
              shell_bind (collect_tool_actions_fuel parse jp fuel (fst nested) (snd nested))
                (\<lambda>found. Inr (acc @ found)))
            (nested_tool_actions jp tool_input) (action # codex))))"

definition collect_tool_actions ::
  "bash_parser \<Rightarrow> json_parser \<Rightarrow> string \<Rightarrow> json \<Rightarrow> tool_action list shell_result" where
  "collect_tool_actions parse jp tool_name tool_input =
     collect_tool_actions_fuel parse jp (json_bytes tool_input + 1) tool_name tool_input"

subsection \<open>Fuel\<close>

text \<open>Results that did not run out of fuel, and the steps that keep it so.\<close>

definition in_fuel :: "'a shell_result \<Rightarrow> bool" where
  "in_fuel r \<longleftrightarrow> r \<noteq> Inl OutOfFuel"

lemma in_fuel_Inr [simp]: "in_fuel (Inr x)"
  by (simp add: in_fuel_def)

lemma in_fuel_bind: "in_fuel r \<Longrightarrow> (\<And>x. r = Inr x \<Longrightarrow> in_fuel (f x)) \<Longrightarrow> in_fuel (shell_bind r f)"
  by (cases r) (auto simp: in_fuel_def shell_bind_def)

lemma in_fuel_fold:
  "(\<And>x acc. x \<in> set xs \<Longrightarrow> in_fuel (f x acc)) \<Longrightarrow> in_fuel (fold_result f xs acc)"
  by (induction xs arbitrary: acc) (auto intro!: in_fuel_bind)

lemma shell_bind_Inr: "shell_bind r f = Inr y \<longleftrightarrow> (\<exists>x. r = Inr x \<and> f x = Inr y)"
  by (cases r) (auto simp: shell_bind_def)

lemma in_fuel_tokens: "grammar_sound parse \<Longrightarrow> in_fuel (semantic_shell_tokens parse command)"
  using semantic_stable(2) [of parse command "3 * length command + 4"] by (simp add: in_fuel_def)

lemma in_fuel_optional_tokens: "grammar_sound parse \<Longrightarrow> in_fuel (optional_tokens parse command)"
  by (auto simp: optional_tokens_def split: option.splits intro!: in_fuel_bind in_fuel_tokens)

lemma in_fuel_command_paths:
  "grammar_sound parse \<Longrightarrow> in_fuel (command_source_paths parse command tokens)"
  by (auto simp: command_source_paths_def line_range_source_paths_def
      intro!: in_fuel_bind in_fuel_tokens)

lemma in_fuel_direct_action:
  "grammar_sound parse \<Longrightarrow> in_fuel (direct_action parse tool_name tool_input)"
  unfolding direct_action_def Let_def
  by (auto intro!: in_fuel_bind in_fuel_optional_tokens in_fuel_command_paths split: option.splits)

lemma in_fuel_codex_action:
  "grammar_sound parse \<Longrightarrow> in_fuel (codex_command_action parse tool_name v)"
  unfolding codex_command_action_def Let_def
  by (auto intro!: in_fuel_bind in_fuel_optional_tokens in_fuel_command_paths split: option.splits prod.splits)

lemma in_fuel_codex:
  assumes "grammar_sound parse"
  shows "in_fuel (collect_codex_command_actions parse tool_name direct v actions)"
    and "in_fuel (collect_codex_command_action_values parse tool_name v actions)"
    and "in_fuel (collect_codex_item_actions parse tool_name v actions)"
  using assms
proof (induction parse tool_name direct v actions and parse tool_name v actions
    and parse tool_name v actions rule: collect_codex_command_actions_collect_codex_command_action_values_collect_codex_item_actions.induct)
  case (1 parse tool_name direct v actions)
  then show ?case
    by (subst collect_codex_command_actions.simps)
       (auto intro!: in_fuel_bind in_fuel_fold in_fuel_codex_action split: option.splits json.splits)
next
  case (2 parse tool_name v actions)
  then show ?case
    by (subst collect_codex_command_action_values.simps) (auto intro!: in_fuel_fold split: json.splits)
next
  case (3 parse tool_name v actions)
  then show ?case
    by (subst collect_codex_item_actions.simps)
       (auto intro!: in_fuel_bind in_fuel_fold split: option.splits json.splits)
qed

lemma json_bytes_pos: "0 < json_bytes v"
  by (cases v) auto

lemma decoded_smaller:
  assumes "json_parser_sound jp"
  shows "json_bytes (decoded_or_cloned jp v) \<le> json_bytes v"
proof (cases "decoded_json_input jp v")
  case (Some w)
  then obtain s where v: "v = JString s" and w: "jp s = Some w"
    by (cases v) (auto simp: decoded_json_input_def)
  from assms w have "json_bytes w \<le> length s" by (simp add: json_parser_sound_def)
  then show ?thesis using Some by (simp add: decoded_or_cloned_def v)
qed (simp add: decoded_or_cloned_def)

lemma get_any_decoded_smaller:
  assumes "json_parser_sound jp" and "1 < json_bytes v"
  shows "json_bytes (case json_get_any keys v of None \<Rightarrow> JNull | Some w \<Rightarrow> decoded_or_cloned jp w)
    < json_bytes v"
proof (cases "json_get_any keys v")
  case (Some w)
  from decoded_smaller [OF assms(1), of w] json_get_any_smaller [OF Some] show ?thesis
    by (simp add: Some)
qed (use assms(2) in simp)

lemma json_get_object: "json_get key v = Some w \<Longrightarrow> 1 < json_bytes v"
  by (cases v) auto

lemma json_get_any_str_object: "json_get_any_str keys v = Some s \<Longrightarrow> 1 < json_bytes v"
  by (auto simp: json_get_any_str_def json_get_str_def bind_eq_Some_conv
      dest!: find_map_Some intro: json_get_object simp del: One_nat_def)

lemma nested_function_smaller:
  assumes "json_parser_sound jp" and "nested_function_action jp v = Some n"
  shows "json_bytes (snd n) < json_bytes v"
proof -
  from assms(2) obtain fn nm where fn: "json_get ''function'' v = Some fn"
    and nm: "json_get_str ''name'' fn = Some nm"
    and n: "snd n = (case json_get_any [''arguments'', ''parameters'', ''input''] fn of
      None \<Rightarrow> JNull | Some v \<Rightarrow> decoded_or_cloned jp v)"
    by (auto simp: nested_function_action_def split: option.splits)
  from nm have "1 < json_bytes fn" by (auto simp: json_get_str_def bind_eq_Some_conv dest: json_get_object)
  from get_any_decoded_smaller [OF assms(1) this] json_get_smaller [OF fn] show ?thesis
    unfolding n by (rule less_trans)
qed

lemma nested_use_smaller:
  assumes "json_parser_sound jp" and "nested_action_from_tool_use jp v = Some n"
  shows "json_bytes (snd n) < json_bytes v"
proof (cases "nested_function_action jp v")
  case (Some m)
  with assms show ?thesis by (auto simp: nested_action_from_tool_use_def dest: nested_function_smaller)
next
  case None
  with assms(2) obtain nm where nm: "json_get_any_str
      [''recipient_name'', ''recipientName'', ''tool_name'', ''toolName'', ''name''] v = Some nm"
    and n: "snd n = nested_input_value jp v"
    by (auto simp: nested_action_from_tool_use_def split: option.splits)
  from json_get_any_str_object [OF nm] show ?thesis
    unfolding n nested_input_value_def by (rule get_any_decoded_smaller [OF assms(1)])
qed

lemma nested_smaller:
  assumes "json_parser_sound jp" and "n \<in> set (nested_tool_actions jp v)"
  shows "json_bytes (snd n) < json_bytes v"
proof -
  consider (fn) "nested_function_action jp v = Some n"
    | (element) key list element where "json_get key v = Some (JArray list)" "element \<in> set list"
        "nested_action_from_tool_use jp element = Some n"
  proof -
    from assms(2) consider "nested_function_action jp v = Some n"
      | key list where "Option.bind (json_get key v) as_array = Some list"
          "n \<in> set (List.map_filter (nested_action_from_tool_use jp) list)"
      unfolding nested_tool_actions_def by (force split: option.splits)
    then show thesis
    proof cases
      case 2
      then obtain w where w: "json_get key v = Some w" "as_array w = Some list"
        by (auto simp: bind_eq_Some_conv)
      then have "w = JArray list" by (cases w) auto
      with w 2(2) show thesis using element by (auto simp: set_map_filter_Some)
    qed (rule fn)
  qed
  then show ?thesis
  proof cases
    case fn
    with assms(1) show ?thesis by (rule nested_function_smaller)
  next
    case element
    from json_get_smaller [OF element(1)] json_bytes_element [OF element(2)]
      nested_use_smaller [OF assms(1) element(3)]
    show ?thesis by linarith
  qed
qed

lemma collect_stable:
  assumes "grammar_sound parse" and "json_parser_sound jp"
  shows "json_bytes v < fuel \<Longrightarrow> json_bytes v < fuel' \<Longrightarrow>
      collect_tool_actions_fuel parse jp fuel tool v = collect_tool_actions_fuel parse jp fuel' tool v
      \<and> in_fuel (collect_tool_actions_fuel parse jp fuel tool v)"
proof (induction fuel arbitrary: fuel' tool v)
  case (Suc fuel)
  then obtain g where g: "fuel' = Suc g" "json_bytes v \<le> g" by (cases fuel') auto
  let ?w = "decoded_or_cloned jp v"
  have sub: "collect_tool_actions_fuel parse jp fuel (fst n) (snd n) =
        collect_tool_actions_fuel parse jp g (fst n) (snd n)
      \<and> in_fuel (collect_tool_actions_fuel parse jp fuel (fst n) (snd n))"
    if "n \<in> set (nested_tool_actions jp ?w)" for n
    using nested_smaller [OF assms(2) that] decoded_smaller [OF assms(2), of v] Suc.prems g
    by (intro Suc.IH) auto
  have "fold_result (\<lambda>n acc. shell_bind (collect_tool_actions_fuel parse jp fuel (fst n) (snd n))
        (\<lambda>found. Inr (acc @ found))) (nested_tool_actions jp ?w) acc =
      fold_result (\<lambda>n acc. shell_bind (collect_tool_actions_fuel parse jp g (fst n) (snd n))
        (\<lambda>found. Inr (acc @ found))) (nested_tool_actions jp ?w) acc" for acc
    by (rule fold_result_cong) (auto simp: sub)
  moreover have "in_fuel (fold_result (\<lambda>n acc. shell_bind
        (collect_tool_actions_fuel parse jp fuel (fst n) (snd n))
        (\<lambda>found. Inr (acc @ found))) (nested_tool_actions jp ?w) acc)" for acc
    by (rule in_fuel_fold, rule in_fuel_bind) (rule sub [THEN conjunct2], assumption, rule in_fuel_Inr)
  ultimately show ?case
    using in_fuel_direct_action [OF assms(1)] in_fuel_codex(1) [OF assms(1)]
    by (auto simp: g Let_def codex_command_actions_def intro!: in_fuel_bind cong: if_cong)
qed simp

lemma collect_unfold:
  assumes "grammar_sound parse" and "json_parser_sound jp" and "decoded_or_cloned jp v = w"
  shows "collect_tool_actions parse jp tool v =
    shell_bind (direct_action parse tool w) (\<lambda>action.
      if \<not> tool_input_needs_action_scan tool w then Inr [action]
      else shell_bind (codex_command_actions parse tool w) (\<lambda>codex.
        fold_result (\<lambda>n acc. shell_bind (collect_tool_actions parse jp (fst n) (snd n))
            (\<lambda>found. Inr (acc @ found)))
          (nested_tool_actions jp w) (action # codex)))"
proof -
  have sub: "collect_tool_actions_fuel parse jp (json_bytes v) (fst n) (snd n) =
      collect_tool_actions parse jp (fst n) (snd n)" if "n \<in> set (nested_tool_actions jp w)" for n
    using nested_smaller [OF assms(2) that] decoded_smaller [OF assms(2), of v] assms(3)
    unfolding collect_tool_actions_def
    by (intro collect_stable [OF assms(1,2), THEN conjunct1]) auto
  have "fold_result (\<lambda>n acc. shell_bind (collect_tool_actions_fuel parse jp (json_bytes v) (fst n) (snd n))
        (\<lambda>found. Inr (acc @ found))) (nested_tool_actions jp w) acc =
      fold_result (\<lambda>n acc. shell_bind (collect_tool_actions parse jp (fst n) (snd n))
        (\<lambda>found. Inr (acc @ found))) (nested_tool_actions jp w) acc" for acc
    by (rule fold_result_cong) (auto simp: sub)
  then show ?thesis
    unfolding collect_tool_actions_def [of parse jp tool v] by (simp add: assms(3) Let_def cong: if_cong)
qed

lemma fold_append_member:
  assumes "fold_result (\<lambda>n acc. shell_bind (f n) (\<lambda>found. Inr (acc @ found))) ns acc = Inr result"
  shows "set acc \<subseteq> set result \<and> (\<forall>n \<in> set ns. \<exists>found. f n = Inr found \<and> set found \<subseteq> set result)"
  using assms
proof (induction ns arbitrary: acc)
  case (Cons n ns)
  then obtain found where f: "f n = Inr found"
    "fold_result (\<lambda>n acc. shell_bind (f n) (\<lambda>found. Inr (acc @ found))) ns (acc @ found) = Inr result"
    by (auto simp: shell_bind_Inr)
  from Cons.IH [OF f(2)] f(1) show ?case by auto
qed simp

text \<open>Nested uses are scanned for: every member they come from is a scan key.\<close>

lemma nested_needs_scan:
  assumes "n \<in> set (nested_tool_actions jp v)"
  shows "tool_input_needs_action_scan tool v"
proof -
  obtain key w where k: "json_get key v = Some w" "key \<in> set (''function'' # tool_use_list_keys)"
    using assms unfolding nested_tool_actions_def
    by (force simp: nested_function_action_def bind_eq_Some_conv split: option.splits if_splits)
  then obtain members where "v = JObject members" by (cases v) auto
  moreover have "set (''function'' # tool_use_list_keys) \<subseteq> set action_scan_keys" by code_simp
  ultimately show ?thesis
    using k by (fastforce simp: tool_input_needs_action_scan_def list_ex_iff)
qed

subsection \<open>Properties of the collector\<close>

text \<open>The tool uses of a payload, at any depth.\<close>

inductive contains_use :: "json_parser \<Rightarrow> json \<Rightarrow> nested_tool_action \<Rightarrow> bool" for jp where
  direct: "n \<in> set (nested_tool_actions jp (decoded_or_cloned jp v)) \<Longrightarrow> contains_use jp v n"
| deeper: "n \<in> set (nested_tool_actions jp (decoded_or_cloned jp v)) \<Longrightarrow> contains_use jp (snd n) m
    \<Longrightarrow> contains_use jp v m"

lemma collect_action:
  assumes "grammar_sound parse" "json_parser_sound jp" "collect_tool_actions parse jp tool v = Inr actions"
  shows "\<exists>a \<in> set actions. direct_action parse tool (decoded_or_cloned jp v) = Inr a"
    and "n \<in> set (nested_tool_actions jp (decoded_or_cloned jp v)) \<Longrightarrow>
      \<exists>found. collect_tool_actions parse jp (fst n) (snd n) = Inr found \<and> set found \<subseteq> set actions"
proof -
  let ?w = "decoded_or_cloned jp v"
  from assms(3) obtain a where a: "direct_action parse tool ?w = Inr a"
    and rest: "(if \<not> tool_input_needs_action_scan tool ?w then Inr [a]
      else shell_bind (codex_command_actions parse tool ?w) (\<lambda>codex.
        fold_result (\<lambda>n acc. shell_bind (collect_tool_actions parse jp (fst n) (snd n))
            (\<lambda>found. Inr (acc @ found)))
          (nested_tool_actions jp ?w) (a # codex))) = Inr actions"
    unfolding collect_unfold [OF assms(1,2) refl, of tool] shell_bind_Inr by blast
  show "\<exists>a \<in> set actions. direct_action parse tool ?w = Inr a"
    using a rest by (auto simp: shell_bind_Inr dest!: fold_append_member split: if_splits)
  show "\<exists>found. collect_tool_actions parse jp (fst n) (snd n) = Inr found \<and> set found \<subseteq> set actions"
    if n: "n \<in> set (nested_tool_actions jp ?w)"
    using rest n nested_needs_scan [OF n, of tool]
    by (auto simp: shell_bind_Inr simp del: split_paired_All split_paired_Ex dest!: fold_append_member)
qed

text \<open>No nested tool use escapes the collector: it never runs out of fuel, and whenever it
  returns, the payload and every tool use in it, at any depth and also inside arguments given as JSON
  text, has its own action in the result.  The collector fails only with the tokenizer's panic.\<close>

theorem nested_tool_uses_collected:
  assumes "grammar_sound parse" and "json_parser_sound jp"
  shows "collect_tool_actions parse jp tool v \<noteq> Inl OutOfFuel
    \<and> (\<forall>actions. collect_tool_actions parse jp tool v = Inr actions \<longrightarrow>
        (\<exists>a \<in> set actions. direct_action parse tool (decoded_or_cloned jp v) = Inr a)
        \<and> (\<forall>n. contains_use jp v n \<longrightarrow>
            (\<exists>a \<in> set actions. direct_action parse (fst n) (decoded_or_cloned jp (snd n)) = Inr a)))"
proof (intro conjI allI impI)
  show "collect_tool_actions parse jp tool v \<noteq> Inl OutOfFuel"
    using collect_stable [OF assms, of v "json_bytes v + 1" "json_bytes v + 1" tool]
    by (simp add: collect_tool_actions_def in_fuel_def)
next
  fix actions
  assume c: "collect_tool_actions parse jp tool v = Inr actions"
  from collect_action(1) [OF assms c]
  show "\<exists>a \<in> set actions. direct_action parse tool (decoded_or_cloned jp v) = Inr a" .
  fix n
  assume "contains_use jp v n"
  then show "\<exists>a \<in> set actions. direct_action parse (fst n) (decoded_or_cloned jp (snd n)) = Inr a"
    using c
  proof (induction arbitrary: tool actions)
    case (direct n v)
    from collect_action(2) [OF assms direct(2,1)] show ?case
      by (blast dest: collect_action(1) [OF assms])
  next
    case (deeper n v m)
    from collect_action(2) [OF assms deeper(4,1)] show ?case by (blast dest: deeper.IH)
  qed
qed

definition demo_parallel_use :: json where
  "demo_parallel_use =
     JObject [(''tool_uses'', JArray [JObject [(''recipient_name'', JString ''exec_command''),
       (''parameters'', JObject [(''cmd'', JString ''ls'')])]])]"

definition demo_collected :: "tool_action list" where
  "demo_collected =
     [\<lparr>t_tool_name = ''multi_tool_use.parallel'', t_surface = CodexNestedTools,
       t_operation = OpNestedTools, t_command = None, t_command_tokens = None, t_paths = []\<rparr>,
      \<lparr>t_tool_name = ''exec_command'', t_surface = CodexShell, t_operation = OpShellCommand,
       t_command = Some ''ls'', t_command_tokens = Some [''ls''], t_paths = []\<rparr>]"

lemma demo_collect:
  "collect_tool_actions one_word_grammar (\<lambda>_. None) ''multi_tool_use.parallel'' demo_parallel_use =
     Inr demo_collected"
  by code_simp

theorem nested_tool_uses_collected_witness:
  "\<exists>a \<in> set demo_collected. direct_action one_word_grammar ''exec_command''
     (JObject [(''cmd'', JString ''ls'')]) = Inr a"
proof -
  have "json_parser_sound (\<lambda>_. None)" by (simp add: json_parser_sound_def)
  note all = nested_tool_uses_collected [OF one_word_grammar_sound this, THEN conjunct2, rule_format,
      OF demo_collect, THEN conjunct2, rule_format]
  have "contains_use (\<lambda>_. None) demo_parallel_use (''exec_command'', JObject [(''cmd'', JString ''ls'')])"
    by (rule contains_use.direct) code_simp
  from all [OF this] show ?thesis by (simp add: decoded_or_cloned_def decoded_json_input_def)
qed

end
