(* ===== verification/Decision.thy ===== *)
theory Decision
  imports ToolAction
begin

section \<open>Hook decisions\<close>

text \<open>
  Models the decision packet of \<open>crates/agent-semantic-hook/src/protocol.rs\<close> with its rendering
  into the client's response, and the constructors of \<open>classifier/decision.rs\<close>.  The fields of a
  decision are a \<open>BTreeMap\<close>: an association list whose lookup and insertion are the map's; the order
  of the members plays no role in what is proved.  Serialising a decision into a value cannot fail;
  printing a value as text is \<open>serde_json::to_string\<close>, the parameter \<open>pr\<close>.
\<close>

datatype decision_kind = Allow | Block | Deny

datatype reason_kind =
  ReasonNone | DirectSourceRead | BulkSourceDump | RawBroadSearch | AspReasoningRouted
  | SourceDirectoryEnumeration | AgentSearchJson | SemanticAstPatchRequired | ReadOnlySubagentWrite
  | SubagentReceiptRequired

fun decision_kind_str :: "decision_kind \<Rightarrow> string" where
  "decision_kind_str Allow = ''allow''"
| "decision_kind_str Block = ''block''"
| "decision_kind_str Deny = ''deny''"

fun reason_kind_str :: "reason_kind \<Rightarrow> string" where
  "reason_kind_str ReasonNone = ''none''"
| "reason_kind_str DirectSourceRead = ''direct-source-read''"
| "reason_kind_str BulkSourceDump = ''bulk-source-dump''"
| "reason_kind_str RawBroadSearch = ''raw-broad-search''"
| "reason_kind_str AspReasoningRouted = ''asp-reasoning-routed''"
| "reason_kind_str SourceDirectoryEnumeration = ''source-directory-enumeration''"
| "reason_kind_str AgentSearchJson = ''agent-search-json''"
| "reason_kind_str SemanticAstPatchRequired = ''semantic-ast-patch-required''"
| "reason_kind_str ReadOnlySubagentWrite = ''read-only-subagent-write''"
| "reason_kind_str SubagentReceiptRequired = ''subagent-receipt-required''"

fun route_kind_str :: "decision_route_kind \<Rightarrow> string" where
  "route_kind_str RoutePrime = ''prime''"
| "route_kind_str RouteOwner = ''owner''"
| "route_kind_str RouteQuery = ''query''"
| "route_kind_str RouteLexical = ''lexical''"
| "route_kind_str RouteRead = ''read''"
| "route_kind_str RouteDeps = ''deps''"
| "route_kind_str RouteApi = ''api''"
| "route_kind_str RouteIngest = ''ingest''"
| "route_kind_str RouteTests = ''tests''"
| "route_kind_str RouteCheckChanged = ''check-changed''"

fun stdin_mode_str :: "stdin_mode \<Rightarrow> string" where
  "stdin_mode_str StdinNone = ''none''"
| "stdin_mode_str PipeCandidates = ''pipe-candidates''"
| "stdin_mode_str PipeDiff = ''pipe-diff''"
| "stdin_mode_str StdinUnknown = ''unknown''"

type_synonym decision_fields = "(string \<times> json) list"

record hook_decision =
  d_schema_id :: string
  d_schema_version :: string
  d_protocol_id :: string
  d_protocol_version :: string
  d_platform :: string
  d_event :: string
  d_decision :: decision_kind
  d_reason_kind :: reason_kind
  d_language_ids :: "string list"
  d_subject :: decision_subject
  d_routes :: "decision_route list"
  d_message :: string
  d_fields :: decision_fields

definition hook_decision_schema_id :: string where
  "hook_decision_schema_id = ''agent.semantic-protocols.hook.decision''"

definition hook_decision_schema_version :: string where
  "hook_decision_schema_version = ''1''"

definition hook_protocol_version :: string where
  "hook_protocol_version = ''1''"

text \<open>The packet with the constants of the protocol filled in.\<close>

definition new_decision ::
  "string \<Rightarrow> string \<Rightarrow> decision_kind \<Rightarrow> reason_kind \<Rightarrow> string list \<Rightarrow> decision_subject
     \<Rightarrow> decision_route list \<Rightarrow> string \<Rightarrow> decision_fields \<Rightarrow> hook_decision" where
  "new_decision platform event kind reason languages subject routes message members =
     \<lparr>d_schema_id = hook_decision_schema_id, d_schema_version = hook_decision_schema_version,
      d_protocol_id = hook_protocol_id, d_protocol_version = hook_protocol_version,
      d_platform = platform, d_event = event, d_decision = kind, d_reason_kind = reason,
      d_language_ids = languages, d_subject = subject, d_routes = routes, d_message = message,
      d_fields = members\<rparr>"

definition insert_field :: "string \<Rightarrow> json \<Rightarrow> hook_decision \<Rightarrow> hook_decision" where
  "insert_field key v d = d\<lparr>d_fields := AList.update key v (d_fields d)\<rparr>"

text \<open>\<open>entry(key).or_insert(v)\<close>.\<close>

definition or_insert_field :: "string \<Rightarrow> json \<Rightarrow> hook_decision \<Rightarrow> hook_decision" where
  "or_insert_field key v d =
     (if map_of (d_fields d) key = None then insert_field key v d else d)"

definition field_of :: "hook_decision \<Rightarrow> string \<Rightarrow> json option" where
  "field_of d key = map_of (d_fields d) key"

subsection \<open>Constructors\<close>

definition allow :: "string \<Rightarrow> string \<Rightarrow> decision_subject \<Rightarrow> hook_decision" where
  "allow platform event subject =
     new_decision platform event Allow ReasonNone [] subject []
       ''Allowed by semantic agent hook runtime.'' []"

definition deny ::
  "string \<Rightarrow> string \<Rightarrow> reason_kind \<Rightarrow> string list \<Rightarrow> decision_subject \<Rightarrow> decision_route list
     \<Rightarrow> string \<Rightarrow> hook_decision" where
  "deny platform event reason languages subject routes message =
     new_decision platform event Deny reason languages subject routes message []"

definition deny_for_action ::
  "string \<Rightarrow> string \<Rightarrow> reason_kind \<Rightarrow> tool_action \<Rightarrow> string list \<Rightarrow> decision_subject
     \<Rightarrow> decision_route list \<Rightarrow> string \<Rightarrow> hook_decision" where
  "deny_for_action platform event reason action languages subject routes message =
     insert_field ''operationIntent'' (JString (operation_str (t_operation action)))
       (insert_field ''toolSurface'' (JString (surface_str (t_surface action)))
         (deny platform event reason languages subject routes message))"

subsection \<open>Serialisation\<close>

definition optional_member :: "string \<Rightarrow> json option \<Rightarrow> (string \<times> json) list" where
  "optional_member key v = (case v of None \<Rightarrow> [] | Some w \<Rightarrow> [(key, w)])"

definition json_strings :: "string list \<Rightarrow> json" where
  "json_strings xs = JArray (map JString xs)"

definition subject_value :: "decision_subject \<Rightarrow> json" where
  "subject_value s = JObject
     (optional_member ''toolName'' (map_option JString (j_tool_name s))
      @ optional_member ''command'' (map_option JString (j_command s))
      @ (if j_paths s = [] then [] else [(''paths'', json_strings (j_paths s))]))"

definition route_value :: "decision_route \<Rightarrow> json" where
  "route_value r = JObject
     ([(''languageId'', JString (r_language_id r)), (''providerId'', JString (r_provider_id r)),
       (''binary'', JString (r_binary r)), (''kind'', JString (route_kind_str (r_kind r))),
       (''argv'', json_strings (r_argv r))]
      @ optional_member ''stdinMode''
          (map_option (\<lambda>m. JString (stdin_mode_str m)) (r_stdin_mode r)))"

definition decision_value :: "hook_decision \<Rightarrow> json" where
  "decision_value d = JObject
     ([(''schemaId'', JString (d_schema_id d)), (''schemaVersion'', JString (d_schema_version d)),
       (''protocolId'', JString (d_protocol_id d)),
       (''protocolVersion'', JString (d_protocol_version d)),
       (''platform'', JString (d_platform d)), (''event'', JString (d_event d)),
       (''decision'', JString (decision_kind_str (d_decision d))),
       (''reasonKind'', JString (reason_kind_str (d_reason_kind d))),
       (''languageIds'', json_strings (d_language_ids d)),
       (''subject'', subject_value (d_subject d)),
       (''routes'', JArray (map route_value (d_routes d))),
       (''message'', JString (d_message d))]
      @ (if d_fields d = [] then [] else [(''fields'', JObject (d_fields d))]))"

subsection \<open>Messages for subagents\<close>

definition subagent_instruction :: string where
  "subagent_instruction =
     (''Codex: already running inside a subagent; run the safe route below directly and return ''
      @ ''selector-only `[asp-search-subagent]` evidence with owner/read/next. Do not return ''
      @ ''source bodies, snippets, or line-range selectors.'')"

fun subagent_lines :: "string list \<Rightarrow> bool \<Rightarrow> string list" where
  "subagent_lines [] inserted = []"
| "subagent_lines (line # lines) inserted =
     (if str_contains line ''spawn_agent'' \<or> str_contains line ''send_input''
      then (if inserted then subagent_lines lines True
            else subagent_instruction # subagent_lines lines True)
      else if starts_with line ''If subagents are unavailable''
              \<or> starts_with line ''No subagent available?''
      then subagent_lines lines inserted
      else line # subagent_lines lines inserted)"

definition subagent_deny_message :: "string \<Rightarrow> string" where
  "subagent_deny_message message = str_join newline (subagent_lines (str_lines message) False)"

definition is_subagent_context :: "hook_decision \<Rightarrow> bool" where
  "is_subagent_context d \<longleftrightarrow>
     list_ex (\<lambda>key. Option.bind (field_of d key) as_bool = Some True)
       [''subagentContext'', ''isSubagent'', ''subagent'']"

definition platform_decision_message :: "hook_decision \<Rightarrow> string" where
  "platform_decision_message d =
     (if d_decision d = Deny \<and> is_subagent_context d then subagent_deny_message (d_message d)
      else d_message d)"

subsection \<open>The platform response\<close>

type_synonym json_printer = "json \<Rightarrow> string option"

definition platform_hook_event_name :: "string \<Rightarrow> string" where
  "platform_hook_event_name event =
     (if event = ''session-start'' then ''SessionStart''
      else if event = ''user-prompt'' then ''UserPromptSubmit''
      else if event = ''pre-tool'' then ''PreToolUse''
      else if event = ''permission-request'' then ''PermissionRequest''
      else if event = ''post-tool'' then ''PostToolUse''
      else if event = ''subagent-start'' then ''SubagentStart''
      else if event = ''subagent-stop'' then ''SubagentStop''
      else if event = ''stop'' then ''Stop''
      else ''Unknown'')"

definition user_prompt_search_first_context :: "bool \<Rightarrow> string" where
  "user_prompt_search_first_context locator_only =
     (if locator_only then
        (''ASP evidence-state search routing is active for this prompt. This is a locator/frontier ''
      @ ''question: answer where to look before editing, not by reading source code. Search is ''
      @ ''not a mandatory pipeline. Choose the narrowest ASP route whose preconditions are ''
      @ ''already satisfied. If an exact selector, owner path, symbol, dependency, test/failure, ''
      @ ''changed file, or previous recommendedNext exists, use that anchor and skip `search ''
      @ ''prime`. Use `search prime --workspace <workspace-root> --view seeds` only when the ''
      @ ''workspace, project, or owner map is unknown. Use `search pipe''
      @ '' '<question-or-feature-term>' --workspace <workspace-root> --view seeds` only when the ''
      @ ''evidence state is ambiguous and needs query refinement. Do not answer from prime alone; ''
      @ ''prime is only a project map and is never final evidence. Do not repeat an exact ASP ''
      @ ''command. Use owner/frontier/locator metadata from search output. Subagents should ''
      @ ''return one compact `[asp-search-subagent]` graph-route receipt with ''
      @ ''schema/intent/route/state/evidence/next, never source bodies or line-range selectors. ''
      @ ''Do not run `query --code` unless the user explicitly asks for code contents. ASP ''
      @ ''facades are language IDs, not package names; for Effect use `asp typescript ...`.'')
      else
        (''ASP evidence-state search routing is active for this prompt. Before reading source or ''
      @ ''running raw grep/find, use parser-owned ASP discovery. Search is not a mandatory ''
      @ ''pipeline. Choose the narrowest ASP route whose preconditions are already satisfied. If ''
      @ ''an exact selector, owner path, symbol, dependency, test/failure, changed file, or ''
      @ ''previous recommendedNext exists, use that anchor and skip `search prime`. Use `search ''
      @ ''prime --workspace <workspace-root> --view seeds` only when the workspace, project, or ''
      @ ''owner map is unknown. Use `search pipe '<question-or-feature-term>' --workspace ''
      @ ''<workspace-root> --view seeds` only when the evidence state is ambiguous and needs ''
      @ ''query refinement. Do not answer from prime alone; prime is only a project map and is ''
      @ ''never final evidence. Do not repeat an exact ASP command. Follow `recommendedNext` or ''
      @ ''`nextCommand` from ASP output. Subagents perform owner/frontier/search work and return ''
      @ ''one compact `[asp-search-subagent]` graph-route receipt with ''
      @ ''schema/intent/route/state/evidence/next, never source bodies or line-range selectors. ''
      @ ''Use one `asp <language> query --selector <exact-selector> --workspace . --code` only ''
      @ ''after ASP provides exact parser-owned identity, then answer from that selector plus ''
      @ ''search metadata. Treat display line ranges and sourceLocatorHint as hints, not ''
      @ ''executable selectors. Do not use direct source reads as the first step. ASP facades are ''
      @ ''language IDs, not package names; for Effect use `asp typescript ...`.''))"

definition decision_has_warning :: "hook_decision \<Rightarrow> bool" where
  "decision_has_warning d \<longleftrightarrow> field_of d ''agentOrgArtifactsArchiveWarning'' \<noteq> None"

definition render_platform_response :: "json_printer \<Rightarrow> hook_decision \<Rightarrow> agent_hook_error + json" where
  "render_platform_response pr d =
     (let message = platform_decision_message d;
          sent = (if message \<noteq> d_message d then decision_value (d\<lparr>d_message := message\<rparr>)
                  else decision_value d)
      in case pr sent of
           None \<Rightarrow> Inl (InvalidOutput ''serde_json'')
         | Some printed \<Rightarrow>
             (let decision_context = ''[agent-hook-decision] '' @ printed;
                  event_name = (''hookEventName'', JString (platform_hook_event_name (d_event d)))
              in Inr (case d_decision d of
                Deny \<Rightarrow> JObject
                  [(''hookSpecificOutput'', JObject
                     [event_name, (''permissionDecision'', JString ''deny''),
                      (''permissionDecisionReason'', JString message),
                      (''additionalContext'', JString decision_context)]),
                   (''systemMessage'', JString message)]
              | Block \<Rightarrow> JObject
                  [(''decision'', JString ''block''), (''reason'', JString message),
                   (''hookSpecificOutput'', JObject
                     [event_name, (''additionalContext'', JString
                        (if d_event d = ''stop'' then decision_context @ newline @ newline @ message
                         else decision_context))]),
                   (''systemMessage'', JString message)]
              | Allow \<Rightarrow>
                  if d_event d = ''permission-request'' then JObject
                    [(''hookSpecificOutput'', JObject
                       [event_name, (''permissionDecision'', JString ''allow''),
                        (''additionalContext'', JString decision_context)])]
                  else if d_event d = ''user-prompt'' then JObject
                    [(''hookSpecificOutput'', JObject
                       [event_name, (''additionalContext'', JString (user_prompt_search_first_context
                          (Option.bind (field_of d ''promptWorkflow'') as_str = Some ''locator-only'')))])]
                  else if decision_has_warning d then JObject
                    [(''hookSpecificOutput'', JObject
                       [event_name, (''additionalContext'', JString decision_context)]),
                     (''systemMessage'', JString message)]
                  else JObject [])))"

subsection \<open>What the client sees\<close>

text \<open>A pattern without line breaks occurs in joined lines only inside one of them.\<close>

lemma sublist_across:
  assumes "c \<notin> set p" and "sublist p (xs @ c # ys)"
  shows "sublist p xs \<or> sublist p ys"
proof -
  from assms(2) obtain a b where ab: "xs @ c # ys = a @ p @ b" by (auto simp: sublist_def)
  then consider us where "xs = a @ p @ us"
    | us where "xs @ [c] @ us = a" "us @ p @ b = ys"
    | us vs where "p = us @ c # vs"
    using assms(1) by (fastforce simp: append_eq_append_conv2 append_eq_Cons_conv Cons_eq_append_conv)
  then show ?thesis
  proof cases
    case 3
    with assms(1) show ?thesis by simp
  qed (auto simp: sublist_def)
qed

lemma sublist_lines:
  assumes "p \<noteq> []" and "CHR 0x0A \<notin> set p" and "sublist p (str_join newline ls)"
  shows "\<exists>l \<in> set ls. sublist p l"
  using assms(3)
proof (induction ls rule: induct_list012)
  case (3 x y zs)
  then have "sublist p (x @ CHR 0x0A # str_join newline (y # zs))" by (simp add: newline_def)
  from sublist_across [OF assms(2) this] 3 show ?case by auto
qed (use assms(1) in auto)

lemma subagent_lines_clean:
  "l \<in> set (subagent_lines ls inserted) \<Longrightarrow> \<not> str_contains l ''spawn_agent'' \<and> \<not> str_contains l ''send_input''"
proof (induction ls inserted rule: subagent_lines.induct)
  case (2 line lines inserted)
  have "\<not> str_contains subagent_instruction ''spawn_agent'' \<and> \<not> str_contains subagent_instruction ''send_input''"
    by code_simp
  with 2 show ?case by (auto split: if_splits)
qed simp

lemma subagent_message_clean:
  "\<not> str_contains (subagent_deny_message m) ''spawn_agent''
   \<and> \<not> str_contains (subagent_deny_message m) ''send_input''"
proof (intro conjI notI)
  assume "str_contains (subagent_deny_message m) ''spawn_agent''"
  from sublist_lines [OF _ _ this [unfolded subagent_deny_message_def]] show False
    using subagent_lines_clean by simp
next
  assume "str_contains (subagent_deny_message m) ''send_input''"
  from sublist_lines [OF _ _ this [unfolded subagent_deny_message_def]] show False
    using subagent_lines_clean by simp
qed

text \<open>A string member of the response's \<open>hookSpecificOutput\<close>.\<close>

definition hook_output :: "string \<Rightarrow> json \<Rightarrow> string option" where
  "hook_output key response = Option.bind (json_get ''hookSpecificOutput'' response) (json_get_str key)"

text \<open>C9: The client is told exactly what was decided.  The response denies permission iff the
  decision is a denial, blocks iff it is a block, and grants permission only for an allowed
  permission request; a denial always carries the message of the decision, and inside a subagent no
  line of it asks to spawn or message another agent.\<close>

theorem response_matches_decision:
  assumes "render_platform_response pr d = Inr response"
  shows "(hook_output ''permissionDecision'' response = Some ''deny'' \<longleftrightarrow> d_decision d = Deny)
    \<and> (hook_output ''permissionDecision'' response = Some ''allow'' \<longleftrightarrow>
         d_decision d = Allow \<and> d_event d = ''permission-request'')
    \<and> (json_get_str ''decision'' response = Some ''block'' \<longleftrightarrow> d_decision d = Block)
    \<and> (d_decision d = Deny \<longrightarrow>
         hook_output ''permissionDecisionReason'' response = Some (platform_decision_message d)
         \<and> json_get_str ''systemMessage'' response = Some (platform_decision_message d))
    \<and> (d_decision d = Deny \<and> is_subagent_context d \<longrightarrow>
         \<not> str_contains (platform_decision_message d) ''spawn_agent''
         \<and> \<not> str_contains (platform_decision_message d) ''send_input'')"
proof -
  have clean: "d_decision d = Deny \<and> is_subagent_context d \<longrightarrow>
      \<not> str_contains (platform_decision_message d) ''spawn_agent''
      \<and> \<not> str_contains (platform_decision_message d) ''send_input''"
    by (simp add: platform_decision_message_def subagent_message_clean)
  show ?thesis
    using assms clean
    by (cases "d_decision d")
       (auto simp: render_platform_response_def Let_def hook_output_def json_get_str_def
         split: option.splits if_splits)
qed

theorem response_matches_decision_witness:
  "\<exists>response. render_platform_response (\<lambda>_. Some ''{}'')
      (deny ''codex'' ''pre-tool'' ReasonNone [] default_subject [] ''spawn_agent'') = Inr response
    \<and> hook_output ''permissionDecision'' response = Some ''deny''"
proof -
  obtain response where r: "render_platform_response (\<lambda>_. Some ''{}'')
      (deny ''codex'' ''pre-tool'' ReasonNone [] default_subject [] ''spawn_agent'') = Inr response"
    by (simp add: render_platform_response_def Let_def)
  from response_matches_decision [OF r] r show ?thesis by (simp add: deny_def new_decision_def)
qed

end
