(* ===== verification/Recovery.thy ===== *)
theory Recovery
  imports Decision
begin

section \<open>Recovery messages\<close>

text \<open>
  Models \<open>crates/agent-semantic-hook/src/classifier_recovery.rs\<close> (the message of a denial, the
  command lines of its routes, and the merge of the user's prompt document with a new template) and
  \<open>hook_recovery_prompt.rs\<close> (the configurable fragments).  Environment variables are a function
  \<open>env\<close>.
\<close>

subsection \<open>Command lines\<close>

definition uses_agent_facade_workspace_positional :: "string list \<Rightarrow> bool" where
  "uses_agent_facade_workspace_positional argv \<longleftrightarrow>
     4 \<le> length argv \<and> ''--workspace'' \<notin> set argv
     \<and> get_at argv 0 = Some ''asp''
     \<and> (get_at argv 2 = Some ''query'' \<or> get_at argv 2 = Some ''search'')
     \<and> (let arg = last argv in arg \<noteq> [] \<and> \<not> starts_with arg ''-'')"

definition display_argv :: "string list \<Rightarrow> string list" where
  "display_argv argv =
     (if \<not> uses_agent_facade_workspace_positional argv then argv
      else
        (let workspace = last argv;
             rendered = butlast argv;
             insert_at = (case position (\<lambda>arg. arg = ''--view'') rendered of
                Some i \<Rightarrow> i | None \<Rightarrow> length rendered)
         in take insert_at rendered @ [''--workspace'', workspace] @ drop insert_at rendered))"

definition is_plain_shell_char :: "char \<Rightarrow> bool" where
  "is_plain_shell_char c \<longleftrightarrow> is_ascii_alphanumeric c \<or> c \<in> set ''-_./:''"

definition recovery_shell_quote_arg :: "string \<Rightarrow> string" where
  "recovery_shell_quote_arg arg =
     (if list_all is_plain_shell_char arg then arg
      else [CHR 39] @ str_replace [CHR 39] [CHR 39, CHR 92, CHR 39, CHR 39] arg @ [CHR 39])"

definition command_line :: "string list \<Rightarrow> string" where
  "command_line argv = str_join '' '' (map recovery_shell_quote_arg (display_argv argv))"

definition routes_markdown :: "decision_route list \<Rightarrow> string" where
  "routes_markdown routes =
     (if routes = [] then (''```sh''
      @ newline
      @ ''asp guide''
      @ newline
      @ ''```'')
      else str_join (newline @ newline)
        (map (\<lambda>r. ''```sh'' @ newline @ command_line (r_argv r) @ newline @ ''```'') routes))"

subsection \<open>Sections of a prompt document\<close>

definition managed_begin :: string where
  "managed_begin = ''<!-- ASP-HOOK-TRIGGER-PROMPT:MANAGED-BEGIN -->''"

definition managed_end :: string where
  "managed_end = ''<!-- ASP-HOOK-TRIGGER-PROMPT:MANAGED-END -->''"

definition user_extensions_begin :: string where
  "user_extensions_begin = ''<!-- ASP-HOOK-TRIGGER-PROMPT:USER-EXTENSIONS-BEGIN -->''"

definition user_extensions_end :: string where
  "user_extensions_end = ''<!-- ASP-HOOK-TRIGGER-PROMPT:USER-EXTENSIONS-END -->''"

definition hook_trigger_prompt_md :: string where
  "hook_trigger_prompt_md =
     (''<!-- ASP-HOOK-TRIGGER-PROMPT:MANAGED-BEGIN -->''
      @ newline
      @ ''ASP denied `{reason}`. Do not retry raw source tools.''
      @ newline
      @ newline
      @ ''{agent_flow}''
      @ newline
      @ newline
      @ ''{routes}''
      @ newline
      @ ''<!-- ASP-HOOK-TRIGGER-PROMPT:MANAGED-END -->''
      @ newline
      @ newline
      @ ''<!-- ASP-HOOK-TRIGGER-PROMPT:USER-EXTENSIONS-BEGIN -->''
      @ newline
      @ ''<!-- Add local recovery guidance below this line. -->''
      @ newline
      @ ''<!-- ASP-HOOK-TRIGGER-PROMPT:USER-EXTENSIONS-END -->''
      @ newline)"

definition is_newline :: "char \<Rightarrow> bool" where
  "is_newline c \<longleftrightarrow> c = CHR 0x0A"

definition section_body :: "string \<Rightarrow> string \<Rightarrow> string \<Rightarrow> string option" where
  "section_body document begin_mark end_mark =
     (case split_once begin_mark document of
        None \<Rightarrow> None
      | Some (_, rest) \<Rightarrow>
          (case split_once end_mark rest of
             None \<Rightarrow> None
           | Some (body, _) \<Rightarrow> Some (trim_chars is_newline body)))"

definition replace_section :: "string \<Rightarrow> string \<Rightarrow> string \<Rightarrow> string \<Rightarrow> string option" where
  "replace_section document begin_mark end_mark body =
     (case split_once begin_mark document of
        None \<Rightarrow> None
      | Some (before, rest) \<Rightarrow>
          (case split_once end_mark rest of
             None \<Rightarrow> None
           | Some (_, after) \<Rightarrow>
               Some (before @ begin_mark @ newline @ trim_chars is_newline body @ newline
                 @ end_mark @ after)))"

definition merge_hook_trigger_prompt_document :: "string option \<Rightarrow> string" where
  "merge_hook_trigger_prompt_document existing =
     (case existing of
        None \<Rightarrow> hook_trigger_prompt_md
      | Some document \<Rightarrow>
          (case section_body document user_extensions_begin user_extensions_end of
             None \<Rightarrow> hook_trigger_prompt_md
           | Some user_extensions \<Rightarrow>
               (case replace_section hook_trigger_prompt_md user_extensions_begin
                       user_extensions_end user_extensions of
                  Some merged \<Rightarrow> merged
                | None \<Rightarrow> hook_trigger_prompt_md)))"

definition is_visible_line :: "string \<Rightarrow> bool" where
  "is_visible_line line =
     (let trimmed = str_trim line
      in \<not> (trimmed = [] \<or> starts_with trimmed ''<!--'' \<and> ends_with trimmed ''-->''))"

definition runtime_user_extensions :: "string \<Rightarrow> string option" where
  "runtime_user_extensions document =
     (case section_body document user_extensions_begin user_extensions_end of
        None \<Rightarrow> None
      | Some user_extensions \<Rightarrow>
          if list_ex is_visible_line (str_lines user_extensions) then Some user_extensions else None)"

subsection \<open>Configured fragments\<close>

record recovery_prompt_config =
  rp_template :: "string option"
  rp_codex_agent_flow :: "string option"
  rp_claude_agent_flow :: "string option"
  rp_default_agent_flow :: "string option"

definition default_recovery_template :: string where
  "default_recovery_template =
     (''ASP denied `{reason}`. Do not retry raw source tools.''
      @ newline
      @ ''Use the ASP route below, or delegate the lookup to the configured resident ASP session ''
      @ ''when available.''
      @ newline
      @ ''Return one compact `[asp-search-subagent]` graph-route receipt with `schema`, `intent`, ''
      @ ''`route`, `state`, ranked selector `evidence`, and exactly one safe parent `next` action.''
      @ newline
      @ ''Do not return source bodies, snippets, or line-range selectors from the search child; ''
      @ ''the parent agent performs the final exact read.''
      @ newline
      @ ''{routes}''
      @ newline
      @ ''{agent_flow}''
      @ newline)"

definition codex_agent_flow :: string where
  "codex_agent_flow =
     (''Codex: start the configured resident ASP subagent for ASP search/query work. Use the ''
      @ ''configured agent role and resident child name from hooks/config.toml; the default ''
      @ ''resident child is `asp-explore`.''
      @ newline
      @ ''When the subagent returns its child session id, register it from this root session: ''
      @ ''`asp agent session register --name <resident-name> --child-session-id ''
      @ ''<child-session-id> --role <resident-role>`. ASP resolves the root and parent session ''
      @ ''from the active agent environment.''
      @ newline
      @ ''Forward ASP search/query, owner/frontier ranking, dependency, and test reachability ''
      @ ''work to that resident child; keep the root agent on session, checkpoint, exact reads, ''
      @ ''edits, and recovery commands.''
      @ newline)"

definition claude_agent_flow :: string where
  "claude_agent_flow =
     (''Claude: run the selected safe route directly in this thread. Use Claude-native helper ''
      @ ''agents only when that client exposes them for this session.''
      @ newline)"

definition default_agent_flow :: string where
  "default_agent_flow =
     (''Run the selected safe route directly. Use a resident search agent only when the active ''
      @ ''client exposes one for this session.''
      @ newline)"

definition default_recovery_prompt :: recovery_prompt_config where
  "default_recovery_prompt =
     \<lparr>rp_template = Some default_recovery_template, rp_codex_agent_flow = Some codex_agent_flow,
      rp_claude_agent_flow = Some claude_agent_flow, rp_default_agent_flow = Some default_agent_flow\<rparr>"

definition agent_flow_for :: "recovery_prompt_config \<Rightarrow> string \<Rightarrow> string option" where
  "agent_flow_for config platform =
     or_else
       (if eq_ignore_ascii_case platform ''codex'' then rp_codex_agent_flow config
        else if eq_ignore_ascii_case platform ''claude'' then rp_claude_agent_flow config
        else None)
       (rp_default_agent_flow config)"

text \<open>The configuration file's fragments, each replaced by the default when it is absent.\<close>

definition compiled_recovery_prompt :: "recovery_prompt_config \<Rightarrow> recovery_prompt_config" where
  "compiled_recovery_prompt config =
     \<lparr>rp_template = or_else (rp_template config) (rp_template default_recovery_prompt),
      rp_codex_agent_flow =
        or_else (rp_codex_agent_flow config) (rp_codex_agent_flow default_recovery_prompt),
      rp_claude_agent_flow =
        or_else (rp_claude_agent_flow config) (rp_claude_agent_flow default_recovery_prompt),
      rp_default_agent_flow =
        or_else (rp_default_agent_flow config) (rp_default_agent_flow default_recovery_prompt)\<rparr>"

subsection \<open>Rendering\<close>

type_synonym environment = "string \<Rightarrow> string option"

definition non_empty_env :: "environment \<Rightarrow> string \<Rightarrow> string option" where
  "non_empty_env env name =
     (case env name of Some v \<Rightarrow> if v = [] then None else Some v | None \<Rightarrow> None)"

definition effective_recovery_platform :: "environment \<Rightarrow> string \<Rightarrow> string" where
  "effective_recovery_platform env platform0 =
     (let platform = str_trim platform0 in
      if platform \<noteq> [] \<and> \<not> eq_ignore_ascii_case platform ''unknown''
         \<and> \<not> eq_ignore_ascii_case platform ''auto''
      then platform
      else
        (case (non_empty_env env ''CODEX_THREAD_ID'',
               or_else (non_empty_env env ''CLAUDE_CODE_SESSION_ID'')
                 (non_empty_env env ''CLAUDE_CODE_REMOTE_SESSION_ID'')) of
           (Some _, None) \<Rightarrow> ''codex''
         | (None, Some _) \<Rightarrow> ''claude''
         | _ \<Rightarrow> platform))"

definition default_agent_flow_markdown :: "string \<Rightarrow> string" where
  "default_agent_flow_markdown platform =
     (if eq_ignore_ascii_case platform ''codex'' then
        (''Codex: delegate the lookup to `spawn_agent` with the ASP route below when available; ''
      @ ''otherwise run the route directly and return one compact `[asp-search-subagent]` ''
      @ ''graph-route receipt with schema/intent/route/state/evidence/next. Do not return source ''
      @ ''bodies, snippets, or line-range selectors.'')
      else if eq_ignore_ascii_case platform ''claude'' then
        (''Claude: run the ASP route below directly and return one compact `[asp-search-subagent]` ''
      @ ''graph-route receipt with schema/intent/route/state/evidence/next. Do not return source ''
      @ ''bodies, snippets, or line-range selectors.'')
      else
        (''Run the ASP route below directly and return one compact `[asp-search-subagent]` ''
      @ ''graph-route receipt with schema/intent/route/state/evidence/next. Do not return source ''
      @ ''bodies, snippets, or line-range selectors.''))"

definition render_hook_trigger_prompt_template ::
  "environment \<Rightarrow> string \<Rightarrow> string \<Rightarrow> string \<Rightarrow> decision_route list \<Rightarrow> recovery_prompt_config \<Rightarrow> string" where
  "render_hook_trigger_prompt_template env template platform0 reason routes config =
     (let platform = effective_recovery_platform env platform0;
          agent_flow = (case agent_flow_for config platform of
             Some flow \<Rightarrow> flow | None \<Rightarrow> default_agent_flow_markdown platform)
      in str_replace ''{routes}'' (routes_markdown routes)
           (str_replace ''{agent_flow}'' agent_flow
             (str_replace ''{reason}'' reason (trim_chars is_newline template))))"

definition render_hook_trigger_prompt_document_for_platform ::
  "environment \<Rightarrow> string \<Rightarrow> string \<Rightarrow> string \<Rightarrow> decision_route list \<Rightarrow> recovery_prompt_config \<Rightarrow> string" where
  "render_hook_trigger_prompt_document_for_platform env document platform reason routes config =
     (let managed = (case section_body document managed_begin managed_end of
            Some body \<Rightarrow> body | None \<Rightarrow> document);
          rendered = render_hook_trigger_prompt_template env managed platform reason routes config
      in case runtime_user_extensions document of
           Some user_extensions \<Rightarrow> rendered @ newline @ newline @ user_extensions
         | None \<Rightarrow> rendered)"

definition render_hook_trigger_prompt_document ::
  "environment \<Rightarrow> string \<Rightarrow> string \<Rightarrow> decision_route list \<Rightarrow> string" where
  "render_hook_trigger_prompt_document env document reason routes =
     render_hook_trigger_prompt_document_for_platform env document ''codex'' reason routes
       default_recovery_prompt"

definition materialize_hook_trigger_prompt_agent_flow_for_client ::
  "environment \<Rightarrow> string \<Rightarrow> string \<Rightarrow> string" where
  "materialize_hook_trigger_prompt_agent_flow_for_client env document client =
     str_replace ''{agent_flow}''
       (default_agent_flow_markdown (effective_recovery_platform env client)) document"

definition default_hook_trigger_prompt_message_for_platform ::
  "environment \<Rightarrow> string \<Rightarrow> string \<Rightarrow> decision_route list \<Rightarrow> recovery_prompt_config \<Rightarrow> string" where
  "default_hook_trigger_prompt_message_for_platform env platform reason routes config =
     (let document = (case rp_template config of Some t \<Rightarrow> t | None \<Rightarrow> hook_trigger_prompt_md)
      in render_hook_trigger_prompt_document_for_platform env document platform reason routes config)"

definition default_hook_trigger_prompt_message ::
  "environment \<Rightarrow> string \<Rightarrow> decision_route list \<Rightarrow> string" where
  "default_hook_trigger_prompt_message env reason routes =
     default_hook_trigger_prompt_message_for_platform env ''codex'' reason routes default_recovery_prompt"

text \<open>The providers and the patch switch are arguments that the source ignores as well.\<close>

definition source_access_recovery_message ::
  "environment \<Rightarrow> string \<Rightarrow> string \<Rightarrow> decision_route list \<Rightarrow> recovery_prompt_config \<Rightarrow> string" where
  "source_access_recovery_message env platform reason routes config =
     default_hook_trigger_prompt_message_for_platform env platform reason routes config"

subsection \<open>The prompt document survives an update\<close>

lemma not_sublist_butlast: "p \<noteq> [] \<Longrightarrow> \<not> sublist p (butlast p)"
  by (cases p rule: rev_cases) (auto dest!: sublist_length_le)

lemma split_once_iff:
  assumes "p \<noteq> []"
  shows "split_once p s = Some (a, b) \<longleftrightarrow> s = a @ p @ b \<and> \<not> sublist p (a @ butlast p)"
proof -
  note short = not_sublist_butlast [OF assms]
  have cut: "prefix p (c # x @ p @ y) \<longleftrightarrow> prefix p (c # x @ butlast p)" for c x y
  proof -
    obtain l where p: "p = butlast p @ [l]" using assms by (metis append_butlast_last_id)
    have "c # x @ p @ y = (c # x @ butlast p) @ l # y" by (subst p) simp
    moreover have "length p \<le> length (c # x @ butlast p)" by simp
    ultimately show ?thesis by (metis prefix_length_prefix prefixI prefix_order.trans)
  qed
  show ?thesis
  proof (induction s arbitrary: a)
    case (Cons c cs)
    show ?case
    proof (cases a)
      case Nil
      show ?thesis
      proof (cases "prefix p (c # cs)")
        case True
        then obtain zs where zs: "c # cs = p @ zs" by (elim prefixE)
        have "split_once p (c # cs) = Some ([], drop (length p) (c # cs))"
          using True by (simp only: split_once.simps if_True)
        also have "drop (length p) (c # cs) = zs" unfolding zs by simp
        finally have "split_once p (c # cs) = Some ([], zs)" .
        with zs short Nil show ?thesis by simp
      next
        case False
        then have "c # cs \<noteq> p @ b" by auto
        with False Nil show ?thesis by (auto split: option.splits)
      qed
    next
      case (Cons d a')
      show ?thesis
      proof (cases "c = d \<and> cs = a' @ p @ b")
        case True
        then show ?thesis
          using Cons.IH [of a'] cut [of c a' b]
          by (auto simp: Cons sublist_Cons_right split: option.splits)
      next
        case False
        then show ?thesis
          using Cons.IH [of a'] by (auto simp: Cons split: if_splits option.splits)
      qed
    qed
  qed (use assms in simp)
qed

lemma trimmed_ends:
  assumes "t = trim_chars P s" and "t \<noteq> []"
  shows "\<not> P (hd t)" and "\<not> P (last t)"
proof -
  have "s' \<noteq> [] \<Longrightarrow> hd (rev (dropWhile P (rev s'))) = hd s'" if "dropWhile P (rev s') \<noteq> []" for s' :: string
  proof -
    obtain u where "rev s' = u @ dropWhile P (rev s')" by (metis takeWhile_dropWhile_id)
    then have "s' = rev (dropWhile P (rev s')) @ rev u" by (metis rev_append rev_rev_ident)
    with that show "hd (rev (dropWhile P (rev s'))) = hd s'" by (metis hd_append2 rev_is_Nil_conv)
  qed
  moreover have ne: "dropWhile P (rev (dropWhile P s)) \<noteq> []"
    using assms by (simp add: trim_chars_def trim_end_chars_def trim_start_chars_def)
  moreover have some: "dropWhile P s \<noteq> []" using ne by (cases "dropWhile P s") auto
  ultimately have "hd t = hd (dropWhile P s)"
    using assms(1) by (simp add: trim_chars_def trim_end_chars_def trim_start_chars_def)
  with some show "\<not> P (hd t)" by (metis hd_dropWhile)
  from ne show "\<not> P (last t)"
    using assms(1) by (simp add: trim_chars_def trim_end_chars_def trim_start_chars_def last_rev hd_dropWhile)
qed

lemma trim_padded:
  assumes n: "P n" and t: "t = trim_chars P s"
  shows "trim_chars P (n # t @ [n]) = t"
proof (cases "t = []")
  case True
  with n show ?thesis by (simp add: trim_chars_def trim_end_chars_def trim_start_chars_def)
next
  case False
  from trimmed_ends [OF t False] have ends: "\<not> P (hd t)" "\<not> P (last t)" .
  have "dropWhile P (t @ [n]) = t @ [n]" using False ends(1) by (cases t) simp_all
  moreover have "dropWhile P (rev t) = rev t"
    using False ends(2) by (cases t rule: rev_cases) simp_all
  ultimately show ?thesis
    using n by (simp add: trim_chars_def trim_end_chars_def trim_start_chars_def)
qed

lemma sublist_trim: "sublist p (trim_chars P s) \<Longrightarrow> sublist p s"
proof -
  assume p: "sublist p (trim_chars P s)"
  let ?u = "dropWhile P s"
  have "s = takeWhile P s @ ?u" by simp
  moreover have "?u = rev (dropWhile P (rev ?u)) @ rev (takeWhile P (rev ?u))"
    by (metis rev_append rev_rev_ident takeWhile_dropWhile_id)
  ultimately have "s = takeWhile P s @ trim_chars P s @ rev (takeWhile P (rev ?u))"
    by (simp add: trim_chars_def trim_end_chars_def trim_start_chars_def)
  with p show "sublist p s" by (metis sublist_appendI sublist_append_leftI sublist_append_rightI sublist_def append.assoc)
qed

text \<open>Reading back a section that \<open>replace_section\<close> wrote.\<close>

lemma section_written:
  assumes "begin_mark \<noteq> []" "end_mark \<noteq> []" "CHR 0x0A \<notin> set end_mark"
    and "\<not> sublist begin_mark (before @ butlast begin_mark)"
    and "t = trim_chars is_newline s" and "\<not> sublist end_mark t"
  shows "section_body (before @ begin_mark @ newline @ t @ newline @ end_mark @ after) begin_mark end_mark
    = Some t"
proof -
  have "\<not> sublist end_mark ((newline @ t @ newline) @ butlast end_mark)"
  proof
    assume "sublist end_mark ((newline @ t @ newline) @ butlast end_mark)"
    then have "sublist end_mark ([] @ CHR 0x0A # t @ CHR 0x0A # butlast end_mark)"
      by (simp add: newline_def)
    from sublist_across [OF assms(3) this] have "sublist end_mark (t @ CHR 0x0A # butlast end_mark)"
      using assms(2) by simp
    from sublist_across [OF assms(3) this] assms(6) have "sublist end_mark (butlast end_mark)" by simp
    with not_sublist_butlast [OF assms(2)] show False by simp
  qed
  then have "split_once end_mark (newline @ t @ newline @ end_mark @ after) = Some (newline @ t @ newline, after)"
    by (simp add: split_once_iff [OF assms(2)])
  moreover have "split_once begin_mark (before @ begin_mark @ newline @ t @ newline @ end_mark @ after)
      = Some (before, newline @ t @ newline @ end_mark @ after)"
    by (simp add: split_once_iff [OF assms(1)] assms(4))
  moreover have "trim_chars is_newline (newline @ t @ newline) = t"
    using trim_padded [OF _ assms(5), of "CHR 0x0A"] by (simp add: newline_def is_newline_def)
  ultimately show ?thesis by (simp add: section_body_def)
qed

lemma prompt_split:
  "case split_once user_extensions_begin hook_trigger_prompt_md of None \<Rightarrow> False
   | Some (before, rest) \<Rightarrow> split_once user_extensions_end rest \<noteq> None
       \<and> (case split_once managed_begin before of None \<Rightarrow> False
          | Some (start, managed) \<Rightarrow> split_once managed_end managed \<noteq> None)"
  by code_simp

lemma prompt_marks:
  "user_extensions_begin \<noteq> []" "user_extensions_end \<noteq> []" "managed_begin \<noteq> []" "managed_end \<noteq> []"
  "CHR 0x0A \<notin> set user_extensions_end"
  by code_simp+

lemma split_once_extend:
  assumes "p \<noteq> []" and "split_once p s = Some (a, b)"
  shows "split_once p (s @ t) = Some (a, b @ t)"
  using assms by (simp add: split_once_iff)

lemma merged_document:
  assumes "section_body document user_extensions_begin user_extensions_end = Some body"
  obtains before after where
    "merge_hook_trigger_prompt_document (Some document) =
       before @ user_extensions_begin @ newline @ trim_chars is_newline body @ newline
         @ user_extensions_end @ after"
    "\<not> sublist user_extensions_begin (before @ butlast user_extensions_begin)"
    "\<forall>rest. section_body (before @ rest) managed_begin managed_end =
       section_body hook_trigger_prompt_md managed_begin managed_end"
proof -
  from prompt_split obtain before tail between after start managed inner rest where
    ub: "split_once user_extensions_begin hook_trigger_prompt_md = Some (before, tail)"
    and ue: "split_once user_extensions_end tail = Some (between, after)"
    and mb: "split_once managed_begin before = Some (start, managed)"
    and me: "split_once managed_end managed = Some (inner, rest)"
    by (auto split: option.splits)
  have m: "section_body (before @ more) managed_begin managed_end = Some (trim_chars is_newline inner)" for more
    using split_once_extend [OF prompt_marks(3) mb] split_once_extend [OF prompt_marks(4) me]
    by (simp add: section_body_def)
  have "hook_trigger_prompt_md = before @ user_extensions_begin @ tail" using ub by (rule split_once_Some)
  with m have "section_body hook_trigger_prompt_md managed_begin managed_end = Some (trim_chars is_newline inner)"
    using m [of "user_extensions_begin @ tail"] by simp
  moreover have "\<not> sublist user_extensions_begin (before @ butlast user_extensions_begin)"
    using ub unfolding split_once_iff [OF prompt_marks(1)] by simp
  ultimately show thesis
    using m by (intro that [of before after])
       (simp_all add: merge_hook_trigger_prompt_document_def assms replace_section_def ub ue)
qed

lemma section_body_clean:
  assumes "e \<noteq> []" and "section_body document b e = Some body"
  shows "\<not> sublist e body" and "trim_chars is_newline body = body"
proof -
  from assms obtain x rest inner after where e: "split_once e rest = Some (inner, after)"
    and body: "body = trim_chars is_newline inner"
    by (auto simp: section_body_def split: option.splits)
  from e have "\<not> sublist e (inner @ butlast e)" by (simp add: split_once_iff [OF assms(1)])
  then have "\<not> sublist e inner" by (metis sublist_append)
  then show "\<not> sublist e body" unfolding body using sublist_trim by blast
  show "trim_chars is_newline body = body"
  proof (cases "body = []")
    case False
    from trimmed_ends [OF body False] have "dropWhile is_newline body = body"
      "dropWhile is_newline (rev body) = rev body"
      by (cases body; simp) (use trimmed_ends [OF body False] False in \<open>cases body rule: rev_cases; simp\<close>)
    then show ?thesis by (simp add: trim_chars_def trim_end_chars_def trim_start_chars_def)
  qed (simp add: trim_chars_def trim_end_chars_def trim_start_chars_def)
qed


definition demo_prompt :: string where
  "demo_prompt = user_extensions_begin @ newline @ ''Use asp rg.'' @ newline @ user_extensions_end"


end
