(* ===== verification/HookRules.thy ===== *)
theory HookRules
  imports Recovery AspCommand
begin

section \<open>Client hook rules\<close>

text \<open>
  Models the rule engine of \<open>crates/agent-semantic-hook/src/hook_config/core.rs\<close>: the rules of the
  client's configuration, compiled once and matched in priority order against every action.  Glob
  compilation (\<open>globset\<close>) and multi-pattern search (\<open>aho_corasick\<close>) are third-party: the
  record \<open>pattern_libraries\<close> holds what the code calls of them.
\<close>

subsection \<open>Configured rules\<close>

datatype config_decision = ConfigBlock | ConfigDeny

datatype config_reason_kind =
  CfgNone | CfgDirectSourceRead | CfgBulkSourceDump | CfgRawBroadSearch | CfgAgentSearchJson
  | CfgSubagentReceiptRequired

record rule_match_config =
  mc_tool :: "string option"
  mc_tool_any :: "string list"
  mc_command_any :: "string list"
  mc_argv_prefix_any :: "string list list"
  mc_command_contains_any :: "string list"
  mc_path_any :: "string list"
  mc_path_glob_any :: "string list"
  mc_argv_source_any :: "string list"
  mc_argv_source_glob_any :: "string list"
  mc_argv_source_exclude_flag_any :: "string list"

text \<open>Route kinds and stdin modes of the configuration correspond one to one to the protocol's.\<close>

record rule_route_config =
  rc_provider_id :: string
  rc_language_id :: "string option"
  rc_binary :: "string option"
  rc_kind :: decision_route_kind
  rc_argv :: "string list"
  rc_stdin_mode :: "stdin_mode option"

record rule_config =
  ru_id :: string
  ru_enabled :: bool
  ru_priority :: int
  ru_decision :: config_decision
  ru_reason_kind :: "config_reason_kind option"
  ru_message :: "string option"
  ru_language_ids :: "string list"
  ru_event :: "string option"
  ru_platform :: "string option"
  ru_match :: rule_match_config
  ru_routes :: "rule_route_config list"

fun reason_kind_from :: "config_reason_kind \<Rightarrow> reason_kind" where
  "reason_kind_from CfgNone = ReasonNone"
| "reason_kind_from CfgDirectSourceRead = DirectSourceRead"
| "reason_kind_from CfgBulkSourceDump = BulkSourceDump"
| "reason_kind_from CfgRawBroadSearch = RawBroadSearch"
| "reason_kind_from CfgAgentSearchJson = AgentSearchJson"
| "reason_kind_from CfgSubagentReceiptRequired = SubagentReceiptRequired"

subsection \<open>Path globs\<close>

record pattern_libraries =
  glob_build :: "string \<Rightarrow> (string \<Rightarrow> bool) option"
  globset_build :: "(string \<Rightarrow> bool) list \<Rightarrow> (string \<Rightarrow> bool) option"
  contains_build :: "string list \<Rightarrow> (string \<Rightarrow> bool) option"

datatype rule_error =
  InvalidPattern string string | GlobSetFailed string | ContainsFailed

record path_globs =
  g_suffix_ext_any :: "string list"
  g_suffix_any :: "string list"
  g_globset :: "(string \<Rightarrow> bool) option"

definition no_path_globs :: path_globs where
  "no_path_globs = \<lparr>g_suffix_ext_any = [], g_suffix_any = [], g_globset = None\<rparr>"

definition path_globs_is_empty :: "path_globs \<Rightarrow> bool" where
  "path_globs_is_empty g \<longleftrightarrow>
     g_suffix_ext_any g = [] \<and> g_suffix_any g = [] \<and> g_globset g = None"

definition is_suffix_only :: "path_globs \<Rightarrow> bool" where
  "is_suffix_only g \<longleftrightarrow>
     (g_suffix_ext_any g \<noteq> [] \<or> g_suffix_any g \<noteq> []) \<and> g_globset g = None"

text \<open>The text from the last dot on.\<close>

definition matches_suffix_extension :: "path_globs \<Rightarrow> string \<Rightarrow> bool" where
  "matches_suffix_extension g path \<longleftrightarrow>
     (case rsplit_once ''.'' path of
        None \<Rightarrow> False
      | Some (_, extension) \<Rightarrow> ''.'' @ extension \<in> set (g_suffix_ext_any g))"

definition path_globs_matches :: "path_globs \<Rightarrow> string \<Rightarrow> bool" where
  "path_globs_matches g path \<longleftrightarrow>
     matches_suffix_extension g path
     \<or> list_ex (\<lambda>s. ends_with path s) (g_suffix_any g)
     \<or> (case g_globset g of None \<Rightarrow> False | Some globset \<Rightarrow> globset path)"

definition simple_glob_suffix :: "string \<Rightarrow> string option" where
  "simple_glob_suffix pat =
     (case or_else (strip_prefix ''**/*'' pat) (strip_prefix ''*'' pat) of
        None \<Rightarrow> None
      | Some s \<Rightarrow> if s \<noteq> [] \<and> \<not> list_ex (\<lambda>c. c \<in> set ''*?[]{}'') s then Some s else None)"

definition simple_extension_suffix :: "string \<Rightarrow> bool" where
  "simple_extension_suffix s \<longleftrightarrow>
     (case strip_prefix ''.'' s of
        None \<Rightarrow> False
      | Some extension \<Rightarrow> extension \<noteq> [] \<and> CHR ''.'' \<notin> set extension)"

definition has_pair :: "string list \<Rightarrow> string \<Rightarrow> string \<Rightarrow> bool" where
  "has_pair patterns pat s \<longleftrightarrow>
     list_ex (\<lambda>candidate. candidate \<noteq> pat \<and> simple_glob_suffix candidate = Some s) patterns"

definition paired_suffix_globs :: "string list \<Rightarrow> string list" where
  "paired_suffix_globs patterns =
     fold (\<lambda>pat suffixes. case simple_glob_suffix pat of
         None \<Rightarrow> suffixes
       | Some s \<Rightarrow> if has_pair patterns pat s then push_unique suffixes s else suffixes)
       patterns []"

definition in_pair :: "string list \<Rightarrow> string \<Rightarrow> bool" where
  "in_pair paired pat \<longleftrightarrow>
     (case simple_glob_suffix pat of None \<Rightarrow> False | Some s \<Rightarrow> s \<in> set paired)"

fun build_globs ::
  "pattern_libraries \<Rightarrow> string \<Rightarrow> string list \<Rightarrow> string list \<Rightarrow> rule_error + (string \<Rightarrow> bool) list" where
  "build_globs libs label paired [] = Inr []"
| "build_globs libs label paired (pat # patterns) =
     (if in_pair paired pat
      then build_globs libs label paired patterns
      else (case glob_build libs pat of
              None \<Rightarrow> Inl (InvalidPattern label pat)
            | Some glob \<Rightarrow>
                (case build_globs libs label paired patterns of
                   Inl e \<Rightarrow> Inl e | Inr globs \<Rightarrow> Inr (glob # globs))))"

definition compile_globs ::
  "pattern_libraries \<Rightarrow> string \<Rightarrow> string list \<Rightarrow> rule_error + path_globs" where
  "compile_globs libs label patterns =
     (if patterns = [] then Inr no_path_globs
      else
        (let paired = paired_suffix_globs patterns;
             compiled = (\<lambda>globset. \<lparr>g_suffix_ext_any = filter simple_extension_suffix paired,
               g_suffix_any = filter (\<lambda>s. \<not> simple_extension_suffix s) paired,
               g_globset = globset\<rparr>)
         in case build_globs libs label paired patterns of
              Inl e \<Rightarrow> Inl e
            | Inr [] \<Rightarrow> Inr (compiled None)
            | Inr globs \<Rightarrow>
                (case globset_build libs globs of
                   None \<Rightarrow> Inl (GlobSetFailed label)
                 | Some globset \<Rightarrow> Inr (compiled (Some globset)))))"

definition compile_command_contains ::
  "pattern_libraries \<Rightarrow> string list \<Rightarrow> rule_error + (string \<Rightarrow> bool) option" where
  "compile_command_contains libs patterns =
     (if patterns = [] then Inr None
      else (case contains_build libs patterns of
              None \<Rightarrow> Inl ContainsFailed
            | Some matcher \<Rightarrow> Inr (Some matcher)))"

subsection \<open>Compiled rules\<close>

record rule_match =
  m_tool_any :: "string list"
  m_command_any :: "string list"
  m_argv_prefix_any :: "string list list"
  m_command_contains_any :: "(string \<Rightarrow> bool) option"
  m_path_any :: "string list"
  m_path_glob_any :: path_globs
  m_argv_source_any :: "string list"
  m_argv_source_glob_any :: path_globs
  m_argv_source_exclude_flag_any :: "string list"

record hook_rule =
  h_id :: string
  h_priority :: int
  h_decision :: config_decision
  h_reason_kind :: reason_kind
  h_message :: "string option"
  h_language_ids :: "string list"
  h_event :: "string option"
  h_platform :: "string option"
  h_match :: rule_match
  h_routes :: "rule_route_config list"

definition compile_rule_match ::
  "pattern_libraries \<Rightarrow> rule_match_config \<Rightarrow> rule_error + rule_match" where
  "compile_rule_match libs c =
     (case compile_command_contains libs (mc_command_contains_any c) of
        Inl e \<Rightarrow> Inl e
      | Inr contains \<Rightarrow>
          (case compile_globs libs ''pathGlobAny'' (mc_path_glob_any c) of
             Inl e \<Rightarrow> Inl e
           | Inr path_glob \<Rightarrow>
               (case compile_globs libs ''argvSourceGlobAny'' (mc_argv_source_glob_any c) of
                  Inl e \<Rightarrow> Inl e
                | Inr argv_glob \<Rightarrow> Inr
                    \<lparr>m_tool_any = mc_tool_any c @ (case mc_tool c of None \<Rightarrow> [] | Some tool \<Rightarrow> [tool]),
                     m_command_any = mc_command_any c, m_argv_prefix_any = mc_argv_prefix_any c,
                     m_command_contains_any = contains, m_path_any = mc_path_any c,
                     m_path_glob_any = path_glob, m_argv_source_any = mc_argv_source_any c,
                     m_argv_source_glob_any = argv_glob,
                     m_argv_source_exclude_flag_any = mc_argv_source_exclude_flag_any c\<rparr>)))"

definition compile_rule :: "pattern_libraries \<Rightarrow> rule_config \<Rightarrow> rule_error + hook_rule" where
  "compile_rule libs c =
     (case compile_rule_match libs (ru_match c) of
        Inl e \<Rightarrow> Inl e
      | Inr m \<Rightarrow> Inr
          \<lparr>h_id = ru_id c, h_priority = ru_priority c, h_decision = ru_decision c,
           h_reason_kind = (case ru_reason_kind c of None \<Rightarrow> ReasonNone | Some k \<Rightarrow> reason_kind_from k),
           h_message = ru_message c, h_language_ids = ru_language_ids c, h_event = ru_event c,
           h_platform = ru_platform c, h_match = m, h_routes = ru_routes c\<rparr>)"

fun collect_rules :: "pattern_libraries \<Rightarrow> rule_config list \<Rightarrow> rule_error + hook_rule list" where
  "collect_rules libs [] = Inr []"
| "collect_rules libs (c # cs) =
     (case compile_rule libs c of
        Inl e \<Rightarrow> Inl e
      | Inr r \<Rightarrow> (case collect_rules libs cs of Inl e \<Rightarrow> Inl e | Inr rs \<Rightarrow> Inr (r # rs)))"

text \<open>Enabled rules by descending priority; the sort is stable.\<close>

definition compile_rules :: "pattern_libraries \<Rightarrow> rule_config list \<Rightarrow> rule_error + hook_rule list" where
  "compile_rules libs configs =
     (case collect_rules libs (filter ru_enabled configs) of
        Inl e \<Rightarrow> Inl e
      | Inr rules \<Rightarrow> Inr (sort_key (\<lambda>r. - h_priority r) rules))"

subsection \<open>Matching an action\<close>

definition canonical_event :: "string \<Rightarrow> string" where
  "canonical_event v = map (\<lambda>c. if c = CHR ''_'' then CHR ''-'' else c) (to_ascii_lowercase v)"

definition is_shell_stage_separator :: "string \<Rightarrow> bool" where
  "is_shell_stage_separator token \<longleftrightarrow> token \<in> {''|'', '';'', ''&&'', ''||'', ''&''}"

definition command_token_basename :: "string \<Rightarrow> string" where
  "command_token_basename token = last_piece (\<lambda>c. c = CHR ''/'') token"

fun command_name_loop :: "bool \<Rightarrow> string list \<Rightarrow> string list" where
  "command_name_loop at_start [] = []"
| "command_name_loop at_start (token # tokens) =
     (if is_shell_stage_separator token then command_name_loop True tokens
      else if at_start then token # command_name_loop False tokens
      else command_name_loop False tokens)"

definition command_name_tokens :: "string list \<Rightarrow> string list" where
  "command_name_tokens tokens = command_name_loop True tokens"

text \<open>\<open>split\<close> of a slice at the elements that satisfy the predicate; at least one piece.\<close>

fun split_slice :: "('a \<Rightarrow> bool) \<Rightarrow> 'a list \<Rightarrow> 'a list list" where
  "split_slice P [] = [[]]"
| "split_slice P (x # xs) =
     (if P x then [] # split_slice P xs
      else (case split_slice P xs of [] \<Rightarrow> [[x]] | y # ys \<Rightarrow> (x # y) # ys))"

definition stage_has_argv_prefix :: "string list \<Rightarrow> string list \<Rightarrow> bool" where
  "stage_has_argv_prefix stage expected \<longleftrightarrow>
     length expected \<le> length stage
     \<and> list_all (\<lambda>(index, actual, e). eq_ignore_ascii_case actual e
          \<or> index = 0 \<and> eq_ignore_ascii_case (command_token_basename actual) e)
        (zip [0..<length expected] (zip stage expected))"

definition command_stage_matches_argv_prefix :: "string list \<Rightarrow> string list \<Rightarrow> bool" where
  "command_stage_matches_argv_prefix tokens expected \<longleftrightarrow>
     list_ex (\<lambda>stage. stage_has_argv_prefix stage expected) (split_slice is_shell_stage_separator tokens)"

definition matches_tool :: "rule_match \<Rightarrow> tool_action \<Rightarrow> bool" where
  "matches_tool m action \<longleftrightarrow>
     m_tool_any m = []
     \<or> list_ex (\<lambda>tool. eq_ignore_ascii_case tool (t_tool_name action)) (m_tool_any m)"

definition needs_argv_source_match :: "rule_match \<Rightarrow> bool" where
  "needs_argv_source_match m \<longleftrightarrow>
     m_argv_source_any m \<noteq> [] \<or> \<not> path_globs_is_empty (m_argv_source_glob_any m)"

definition needs_command_tokens :: "rule_match \<Rightarrow> bool" where
  "needs_command_tokens m \<longleftrightarrow>
     m_command_any m \<noteq> [] \<or> m_argv_prefix_any m \<noteq> [] \<or> needs_argv_source_match m"

definition needs_path_match :: "rule_match \<Rightarrow> bool" where
  "needs_path_match m \<longleftrightarrow> m_path_any m \<noteq> [] \<or> \<not> path_globs_is_empty (m_path_glob_any m)"

definition needs_source_paths :: "rule_match \<Rightarrow> bool" where
  "needs_source_paths m \<longleftrightarrow> needs_path_match m \<or> needs_argv_source_match m"

definition matches_command :: "rule_match \<Rightarrow> tool_action \<Rightarrow> string list option \<Rightarrow> bool" where
  "matches_command m action command_tokens \<longleftrightarrow>
     (if m_command_any m = [] \<and> m_argv_prefix_any m = [] \<and> m_command_contains_any m = None then True
      else (case t_command action of
              None \<Rightarrow> False
            | Some command \<Rightarrow>
                (m_command_any m = []
                 \<or> list_ex (\<lambda>expected. case command_tokens of
                       None \<Rightarrow> False
                     | Some tokens \<Rightarrow> list_ex (\<lambda>token. eq_ignore_ascii_case token expected
                         \<or> eq_ignore_ascii_case (command_token_basename token) expected)
                         (command_name_tokens tokens)) (m_command_any m))
                \<and> (m_argv_prefix_any m = []
                   \<or> (case command_tokens of
                        None \<Rightarrow> False
                      | Some tokens \<Rightarrow>
                          list_ex (command_stage_matches_argv_prefix tokens) (m_argv_prefix_any m)))
                \<and> (case m_command_contains_any m of None \<Rightarrow> True | Some matcher \<Rightarrow> matcher command)))"

definition names_path :: "string list \<Rightarrow> string \<Rightarrow> bool" where
  "names_path expected_any path \<longleftrightarrow> list_ex (\<lambda>e. path = e \<or> ends_with path e) expected_any"

definition matches_path :: "rule_match \<Rightarrow> string list \<Rightarrow> bool" where
  "matches_path m paths \<longleftrightarrow>
     (if m_path_any m = [] \<and> path_globs_is_empty (m_path_glob_any m) then True
      else list_ex (names_path (m_path_any m)) paths
           \<or> list_ex (path_globs_matches (m_path_glob_any m)) paths)"

definition matches_argv_source_path :: "rule_match \<Rightarrow> string \<Rightarrow> bool" where
  "matches_argv_source_path m path \<longleftrightarrow>
     names_path (m_argv_source_any m) path \<or> path_globs_matches (m_argv_source_glob_any m) path"

definition fast_path_token :: "string \<Rightarrow> string option" where
  "fast_path_token token =
     (if starts_with token ''-'' then None
      else
        (let trimmed = trim_chars (\<lambda>c. c \<in> {CHR 34, CHR 39, CHR '','', CHR '';''}) token;
             path = (case strip_prefix ''file://'' trimmed of Some p \<Rightarrow> p | None \<Rightarrow> trimmed)
         in if CHR ''.'' \<in> set path then Some path else None))"

definition fast_argv_source_path :: "rule_match \<Rightarrow> string \<Rightarrow> string option" where
  "fast_argv_source_path m token =
     (case fast_path_token token of
        None \<Rightarrow> None
      | Some path \<Rightarrow>
          if matches_argv_source_path m path then Some path
          else (case path_without_line_range path of
                  None \<Rightarrow> None
                | Some base \<Rightarrow> if matches_argv_source_path m base then Some base else None))"

text \<open>The paths that one token contributes.\<close>

definition argv_source_paths_of_token :: "rule_match \<Rightarrow> string \<Rightarrow> string list" where
  "argv_source_paths_of_token m token =
     (if is_suffix_only (m_argv_source_glob_any m)
      then (case fast_argv_source_path m token of None \<Rightarrow> [] | Some path \<Rightarrow> [path])
      else filter (matches_argv_source_path m) (path_like_fragments token))"

fun argv_source_loop :: "rule_match \<Rightarrow> bool \<Rightarrow> bool \<Rightarrow> string list \<Rightarrow> string list \<Rightarrow> string list" where
  "argv_source_loop m skip_next positional_only paths [] = paths"
| "argv_source_loop m skip_next positional_only paths (token # tokens) =
     (if skip_next then argv_source_loop m False positional_only paths tokens
      else if token = ''--'' then argv_source_loop m False True paths tokens
      else if \<not> positional_only \<and> token \<in> set (m_argv_source_exclude_flag_any m)
      then argv_source_loop m True positional_only paths tokens
      else if \<not> positional_only
              \<and> list_ex (\<lambda>flag. case strip_prefix flag token of
                    None \<Rightarrow> False | Some rest \<Rightarrow> starts_with rest ''='')
                  (m_argv_source_exclude_flag_any m)
      then argv_source_loop m False positional_only paths tokens
      else argv_source_loop m False positional_only
             (extend_unique paths (argv_source_paths_of_token m token)) tokens)"

definition matching_argv_source_paths ::
  "rule_match \<Rightarrow> string list option \<Rightarrow> string list option" where
  "matching_argv_source_paths m command_tokens =
     (if \<not> needs_argv_source_match m then Some []
      else (case command_tokens of
              None \<Rightarrow> None
            | Some tokens \<Rightarrow>
                (let paths = argv_source_loop m False False [] tokens
                 in if paths = [] then None else Some paths)))"

definition derive_effective_paths :: "tool_action \<Rightarrow> string list option \<Rightarrow> string list" where
  "derive_effective_paths action command_tokens =
     (case command_tokens of
        None \<Rightarrow> t_paths action
      | Some tokens \<Rightarrow>
          fold (\<lambda>token paths. extend_unique paths (path_like_fragments token)) tokens (t_paths action))"

subsection \<open>Rules\<close>

definition needs_match_paths :: "hook_rule \<Rightarrow> bool" where
  "needs_match_paths r \<longleftrightarrow>
     needs_path_match (h_match r) \<or> (h_language_ids r \<noteq> [] \<and> needs_source_paths (h_match r))"

definition needs_decision_paths :: "hook_rule \<Rightarrow> bool" where
  "needs_decision_paths r \<longleftrightarrow> needs_source_paths (h_match r)"

definition matches_before_paths ::
  "hook_rule \<Rightarrow> string \<Rightarrow> string \<Rightarrow> tool_action \<Rightarrow> string list option \<Rightarrow> bool" where
  "matches_before_paths r platform event action command_tokens \<longleftrightarrow>
     (case h_platform r of None \<Rightarrow> True | Some expected \<Rightarrow> eq_ignore_ascii_case expected platform)
     \<and> (case h_event r of None \<Rightarrow> True
        | Some expected \<Rightarrow> canonical_event expected = canonical_event event)
     \<and> matches_tool (h_match r) action \<and> matches_command (h_match r) action command_tokens"

definition matches_language :: "glob_compiler \<Rightarrow> hook_rule \<Rightarrow> hook_runtime \<Rightarrow> string list \<Rightarrow> bool" where
  "matches_language glob r runtime paths \<longleftrightarrow>
     (if h_language_ids r = [] then True
      else if paths = [] then False
      else collect_source_selector_matches glob runtime paths
             (\<lambda>p. list_ex (\<lambda>l. eq_ignore_ascii_case l (p_language_id p)) (h_language_ids r)) \<noteq> [])"

definition matches_after_paths :: "glob_compiler \<Rightarrow> hook_rule \<Rightarrow> hook_runtime \<Rightarrow> string list \<Rightarrow> bool" where
  "matches_after_paths glob r runtime paths \<longleftrightarrow>
     matches_language glob r runtime paths \<and> matches_path (h_match r) paths"

definition rule_decision_route :: "hook_runtime \<Rightarrow> rule_route_config \<Rightarrow> decision_route" where
  "rule_decision_route runtime c =
     (let p = find (\<lambda>p. p_provider_id p = rc_provider_id c) (providers runtime)
      in \<lparr>r_language_id = (case or_else (rc_language_id c) (map_option p_language_id p) of
             Some l \<Rightarrow> l | None \<Rightarrow> []),
          r_provider_id = rc_provider_id c,
          r_binary = (case or_else (rc_binary c) (map_option p_binary p) of Some b \<Rightarrow> b | None \<Rightarrow> []),
          r_kind = rc_kind c, r_argv = rc_argv c, r_stdin_mode = rc_stdin_mode c\<rparr>)"

definition rule_decision ::
  "hook_rule \<Rightarrow> hook_runtime \<Rightarrow> string \<Rightarrow> string \<Rightarrow> tool_action \<Rightarrow> string list \<Rightarrow> hook_decision" where
  "rule_decision r runtime platform event action paths =
     new_decision platform event
       (case h_decision r of ConfigBlock \<Rightarrow> Block | ConfigDeny \<Rightarrow> Deny)
       (h_reason_kind r) (h_language_ids r) ((subject_for_action action)\<lparr>j_paths := paths\<rparr>)
       (map (rule_decision_route runtime) (h_routes r))
       (case h_message r of
          Some message \<Rightarrow> message
        | None \<Rightarrow> ''client hook config rule `'' @ h_id r @ ''` matched this tool use'')
       [(''configRuleId'', JString (h_id r))]"

subsection \<open>Classification\<close>

text \<open>
  The loop of \<open>ClientHookConfig::classify\<close> tokenizes the command and derives the effective paths at
  most once, on first use; both caches are threaded through the recursion.
\<close>

definition rule_tokens ::
  "bash_parser \<Rightarrow> tool_action \<Rightarrow> hook_rule \<Rightarrow> string list option option
     \<Rightarrow> (string list option \<times> string list option option) shell_result" where
  "rule_tokens parse action r cached_tokens =
     (if needs_command_tokens (h_match r) \<or> needs_match_paths r
      then (case cached_tokens of
              Some tokens \<Rightarrow> Inr (tokens, cached_tokens)
            | None \<Rightarrow> shell_bind (action_command_tokens parse action)
                        (\<lambda>tokens. Inr (tokens, Some tokens)))
      else Inr (None, cached_tokens))"

definition cached_paths ::
  "tool_action \<Rightarrow> string list option \<Rightarrow> string list option \<Rightarrow> string list" where
  "cached_paths action tokens effective =
     (case effective of Some paths \<Rightarrow> paths | None \<Rightarrow> derive_effective_paths action tokens)"

fun classify_rules ::
  "bash_parser \<Rightarrow> glob_compiler \<Rightarrow> hook_runtime \<Rightarrow> string \<Rightarrow> string \<Rightarrow> tool_action
     \<Rightarrow> string list option option \<Rightarrow> string list option \<Rightarrow> hook_rule list
     \<Rightarrow> hook_decision option shell_result" where
  "classify_rules parse glob runtime platform event action cached effective [] = Inr None"
| "classify_rules parse glob runtime platform event action cached effective (r # rules) =
     shell_bind (rule_tokens parse action r cached) (\<lambda>(tokens, cached').
       if \<not> matches_before_paths r platform event action tokens
       then classify_rules parse glob runtime platform event action cached' effective rules
       else
         (let match_paths = (if needs_match_paths r then cached_paths action tokens effective
                             else t_paths action);
              effective' = (if needs_match_paths r then Some match_paths else effective)
          in if \<not> matches_after_paths glob r runtime match_paths
             then classify_rules parse glob runtime platform event action cached' effective' rules
             else
               (case matching_argv_source_paths (h_match r) tokens of
                  None \<Rightarrow> classify_rules parse glob runtime platform event action cached' effective' rules
                | Some argv_paths \<Rightarrow>
                    Inr (Some (rule_decision r runtime platform event action
                      (if needs_decision_paths r
                       then (if needs_argv_source_match (h_match r) \<and> \<not> needs_path_match (h_match r)
                             then argv_paths else cached_paths action tokens effective')
                       else t_paths action))))))"

definition classify_by_rules ::
  "bash_parser \<Rightarrow> glob_compiler \<Rightarrow> hook_rule list \<Rightarrow> hook_runtime \<Rightarrow> string \<Rightarrow> string \<Rightarrow> tool_action
     \<Rightarrow> hook_decision option shell_result" where
  "classify_by_rules parse glob rules runtime platform event action =
     classify_rules parse glob runtime platform event action None None rules"

subsection \<open>Globs\<close>

lemma simple_glob_forms:
  assumes "simple_glob_suffix pat = Some s"
  shows "pat = ''**/*'' @ s \<or> pat = ''*'' @ s"
  using assms by (auto simp: simple_glob_suffix_def or_else_def strip_prefix_def prefix_def
      split: if_splits option.splits)

lemma simple_extension_iff:
  assumes "simple_extension_suffix s"
  shows "ends_with p s \<longleftrightarrow> (case rsplit_once ''.'' p of None \<Rightarrow> False | Some (_, e) \<Rightarrow> ''.'' @ e = s)"
proof -
  from assms obtain e where s: "s = CHR ''.'' # e" and e: "CHR ''.'' \<notin> set e"
    by (auto simp: simple_extension_suffix_def strip_prefix_def prefix_def split: option.splits if_splits)
  have "rsplit_once ''.'' p = Some (q, e) \<longleftrightarrow> p = q @ s" for q
    using e rsplit_once_char [of "CHR ''.''" e q] by (auto simp: s dest: rsplit_once_Some)
  then show ?thesis
    by (cases "rsplit_once ''.'' p") (auto simp: s suffix_def)
qed

lemma suffix_extension_iff:
  assumes "list_all simple_extension_suffix (g_suffix_ext_any g)"
  shows "matches_suffix_extension g p \<longleftrightarrow> (\<exists>s \<in> set (g_suffix_ext_any g). ends_with p s)"
proof -
  have "ends_with p s \<longleftrightarrow> (case rsplit_once ''.'' p of None \<Rightarrow> False | Some (_, e) \<Rightarrow> ''.'' @ e = s)"
    if "s \<in> set (g_suffix_ext_any g)" for s
    using assms that by (intro simple_extension_iff) (simp add: list_all_iff)
  then show ?thesis
    by (cases "rsplit_once ''.'' p") (auto simp: matches_suffix_extension_def)
qed

lemma set_paired:
  "set (paired_suffix_globs patterns) =
     {s. \<exists>pat \<in> set patterns. simple_glob_suffix pat = Some s \<and> has_pair patterns pat s}"
proof -
  have "set (fold (\<lambda>pat suffixes. case simple_glob_suffix pat of None \<Rightarrow> suffixes
        | Some s \<Rightarrow> if has_pair patterns pat s then push_unique suffixes s else suffixes) xs acc) =
      set acc \<union> {s. \<exists>pat \<in> set xs. simple_glob_suffix pat = Some s \<and> has_pair patterns pat s}" for xs acc
    by (induction xs arbitrary: acc) (auto simp: set_push_unique split: option.splits)
  from this [of patterns "[]"] show ?thesis by (simp add: paired_suffix_globs_def)
qed

text \<open>Two different patterns with one suffix are the two forms of it.\<close>

lemma paired_forms:
  assumes "s \<in> set (paired_suffix_globs patterns)"
  shows "''**/*'' @ s \<in> set patterns" and "''*'' @ s \<in> set patterns"
    and "simple_glob_suffix (''**/*'' @ s) = Some s"
proof -
  from assms obtain pat other where "pat \<in> set patterns" "other \<in> set patterns" "other \<noteq> pat"
    and f: "simple_glob_suffix pat = Some s" "simple_glob_suffix other = Some s"
    by (auto simp: set_paired has_pair_def list_ex_iff)
  with simple_glob_forms [OF f(1)] simple_glob_forms [OF f(2)]
  show "''**/*'' @ s \<in> set patterns" "''*'' @ s \<in> set patterns"
    "simple_glob_suffix (''**/*'' @ s) = Some s"
    by (metis (no_types))+
qed

lemma build_globs_iff:
  "build_globs libs label paired patterns = Inr globs \<Longrightarrow>
     (\<exists>g \<in> set globs. g p) \<longleftrightarrow>
     (\<exists>pat \<in> set patterns. \<not> in_pair paired pat \<and> (\<exists>g. glob_build libs pat = Some g \<and> g p))"
proof (induction patterns arbitrary: globs)
  case (Cons pat patterns)
  show ?case
  proof (cases "in_pair paired pat")
    case True
    with Cons show ?thesis by simp
  next
    case False
    with Cons.prems obtain g rest where g: "glob_build libs pat = Some g"
      "build_globs libs label paired patterns = Inr rest" "globs = g # rest"
      by (auto split: option.splits sum.splits)
    from Cons.IH [OF g(2)] g(1,3) False show ?thesis by auto
  qed
qed simp

text \<open>
  What the compiled form relies on: a pattern of two stars, a slash, a star and literal text matches
  the paths that end in the text, and a set of globs matches when one of them does.
\<close>

definition globs_documented :: "pattern_libraries \<Rightarrow> bool" where
  "globs_documented libs \<longleftrightarrow>
     (\<forall>s. simple_glob_suffix (''**/*'' @ s) = Some s \<and> CHR 0x5C \<notin> set s \<longrightarrow>
        (\<exists>g. glob_build libs (''**/*'' @ s) = Some g \<and> (\<forall>p. g p \<longleftrightarrow> ends_with p s)))
     \<and> (\<forall>s g p. simple_glob_suffix (''*'' @ s) = Some s \<and> CHR 0x5C \<notin> set s
          \<and> glob_build libs (''*'' @ s) = Some g \<and> g p \<longrightarrow> ends_with p s)
     \<and> (\<forall>globs. \<exists>g. globset_build libs globs = Some g \<and> (\<forall>p. g p \<longleftrightarrow> (\<exists>h \<in> set globs. h p)))"

definition literal_suffixes :: "string list \<Rightarrow> bool" where
  "literal_suffixes patterns \<longleftrightarrow>
     (\<forall>pat \<in> set patterns. \<forall>s. simple_glob_suffix pat = Some s \<longrightarrow> CHR 0x5C \<notin> set s)"

text \<open>Compiling path globs is a pure optimisation: suffix tables and the remaining glob set match
  exactly the paths that one of the configured patterns matches, for patterns whose literal suffix
  has no backslash escape.\<close>

theorem compiled_globs_equivalent:
  assumes "globs_documented libs" and "literal_suffixes patterns"
    and "compile_globs libs label patterns = Inr g"
  shows "path_globs_matches g p \<longleftrightarrow>
    (\<exists>pat \<in> set patterns. \<exists>glob. glob_build libs pat = Some glob \<and> glob p)"
proof (cases "patterns = []")
  case True
  with assms(3) show ?thesis
    by (auto simp: compile_globs_def no_path_globs_def path_globs_matches_def
        matches_suffix_extension_def split: option.splits)
next
  case False
  let ?paired = "paired_suffix_globs patterns"
  from assms(3) False obtain globs where globs: "build_globs libs label ?paired patterns = Inr globs"
    by (auto simp: compile_globs_def Let_def split: sum.splits)
  from assms(1) obtain set_glob where sg: "globset_build libs globs = Some set_glob"
    and sg_iff: "\<And>p. set_glob p \<longleftrightarrow> (\<exists>h \<in> set globs. h p)"
    unfolding globs_documented_def by blast
  have "path_globs_matches g p \<longleftrightarrow>
      (\<exists>s \<in> set (filter simple_extension_suffix ?paired). ends_with p s)
      \<or> (\<exists>s \<in> set (filter (\<lambda>s. \<not> simple_extension_suffix s) ?paired). ends_with p s)
      \<or> (\<exists>h \<in> set globs. h p)"
    using assms(3) False globs sg sg_iff
    by (auto simp: compile_globs_def Let_def path_globs_matches_def suffix_extension_iff list_ex_iff
        list_all_iff split: list.splits)
  also have "\<dots> \<longleftrightarrow> (\<exists>s \<in> set ?paired. ends_with p s) \<or> (\<exists>h \<in> set globs. h p)" by auto
  also have "\<dots> \<longleftrightarrow> (\<exists>pat \<in> set patterns. \<exists>glob. glob_build libs pat = Some glob \<and> glob p)"
  proof
    assume "(\<exists>s \<in> set ?paired. ends_with p s) \<or> (\<exists>h \<in> set globs. h p)"
    then show "\<exists>pat \<in> set patterns. \<exists>glob. glob_build libs pat = Some glob \<and> glob p"
    proof
      assume "\<exists>s \<in> set ?paired. ends_with p s"
      then obtain s where s: "s \<in> set ?paired" "ends_with p s" by blast
      note f = paired_forms [OF s(1)]
      with assms(2) have "CHR 0x5C \<notin> set s" unfolding literal_suffixes_def by blast
      with assms(1) f(3) s(2) obtain glob where "glob_build libs (''**/*'' @ s) = Some glob" "glob p"
        unfolding globs_documented_def by blast
      with f(1) show ?thesis by blast
    qed (use build_globs_iff [OF globs, of p] in blast)
  next
    assume "\<exists>pat \<in> set patterns. \<exists>glob. glob_build libs pat = Some glob \<and> glob p"
    then obtain pat glob where pat: "pat \<in> set patterns" "glob_build libs pat = Some glob" "glob p" by blast
    show "(\<exists>s \<in> set ?paired. ends_with p s) \<or> (\<exists>h \<in> set globs. h p)"
    proof (cases "\<exists>s. simple_glob_suffix pat = Some s \<and> s \<in> set ?paired")
      case True
      then obtain s where s: "simple_glob_suffix pat = Some s" "s \<in> set ?paired" by blast
      with assms(2) pat(1) have "CHR 0x5C \<notin> set s" unfolding literal_suffixes_def by blast
      with assms(1) pat(2,3) s(1) simple_glob_forms [OF s(1)] have "ends_with p s"
        unfolding globs_documented_def by (metis option.inject)
      with s(2) show ?thesis by blast
    next
      case False
      then have "\<not> in_pair ?paired pat" by (auto simp: in_pair_def split: option.splits)
      with pat build_globs_iff [OF globs, of p] show ?thesis by blast
    qed
  qed
  finally show ?thesis .
qed

definition demo_libraries :: pattern_libraries where
  "demo_libraries =
     \<lparr>glob_build = (\<lambda>pat. case strip_prefix ''**/*'' pat of
          Some s \<Rightarrow> Some (\<lambda>p. ends_with p s)
        | None \<Rightarrow> (case strip_prefix ''*'' pat of
            Some s \<Rightarrow> Some (\<lambda>p. ends_with p s \<and> CHR ''/'' \<notin> set (take (length p - length s) p))
          | None \<Rightarrow> Some (\<lambda>p. p = pat))),
      globset_build = (\<lambda>globs. Some (\<lambda>p. list_ex (\<lambda>g. g p) globs)),
      contains_build = (\<lambda>patterns. Some (\<lambda>c. list_ex
        (\<lambda>p. str_contains (to_ascii_lowercase c) (to_ascii_lowercase p)) patterns))\<rparr>"

lemma demo_libraries_documented: "globs_documented demo_libraries"
proof -
  have "\<not> prefix ''**/*'' (''*'' @ s)" if "simple_glob_suffix (''*'' @ s) = Some s" for s
  proof
    assume "prefix ''**/*'' (''*'' @ s)"
    then have "CHR ''*'' \<in> set s" by (auto simp: prefix_def)
    with that show False
      by (auto simp: simple_glob_suffix_def or_else_def strip_prefix_def list_ex_iff split: if_splits)
  qed
  then show ?thesis
    by (auto simp: globs_documented_def demo_libraries_def strip_prefix_def list_ex_iff)
qed

definition demo_globs :: "string list" where
  "demo_globs = [''*.rs'', ''**/*.rs'', ''Cargo.toml'']"

lemma demo_globs_compiled:
  "case compile_globs demo_libraries ''pathGlobAny'' demo_globs of Inl e \<Rightarrow> False
   | Inr g \<Rightarrow> g_suffix_ext_any g = [''.rs''] \<and> g_suffix_any g = [] \<and> path_globs_matches g ''src/lib.rs''"
  by code_simp

theorem compiled_globs_equivalent_witness:
  "\<exists>pat \<in> set demo_globs. \<exists>glob. glob_build demo_libraries pat = Some glob \<and> glob ''src/lib.rs''"
proof -
  from demo_globs_compiled obtain g where
    g: "compile_globs demo_libraries ''pathGlobAny'' demo_globs = Inr g"
    and m: "path_globs_matches g ''src/lib.rs''"
    by (auto split: sum.splits)
  have "literal_suffixes demo_globs"
  proof -
    have "list_all (\<lambda>pat. case simple_glob_suffix pat of None \<Rightarrow> True | Some s \<Rightarrow> CHR 0x5C \<notin> set s) demo_globs"
      by code_simp
    then show ?thesis by (auto simp: literal_suffixes_def list_all_iff split: option.splits)
  qed
  from compiled_globs_equivalent [OF demo_libraries_documented this g] m show ?thesis by blast
qed

text \<open>
  A backslash escape is literal text to the fast path although \<open>globset\<close> reads it as an escape: the
  pair of \<open>*\.rs\<close> patterns is compiled to the suffix with the backslash, so the configured rule no
  longer matches the files that either glob names.
\<close>

definition escaped_globs :: "string list" where
  "escaped_globs = [''*'' @ [CHR 0x5C] @ ''.rs'', ''**/*'' @ [CHR 0x5C] @ ''.rs'']"

lemma escaped_suffix_taken_literally:
  "\<exists>g. compile_globs libs label escaped_globs = Inr g \<and> g_globset g = None
     \<and> \<not> path_globs_matches g ''lib.rs''"
proof -
  have p: "paired_suffix_globs escaped_globs = [[CHR 0x5C] @ ''.rs'']" by code_simp
  have "list_all (in_pair [[CHR 0x5C] @ ''.rs'']) escaped_globs" by code_simp
  moreover have "list_all (in_pair paired) patterns \<Longrightarrow> build_globs libs label paired patterns = Inr []"
    for paired patterns
    by (induction patterns) auto
  ultimately have b: "build_globs libs label [[CHR 0x5C] @ ''.rs''] escaped_globs = Inr []" by blast
  let ?g = "\<lparr>g_suffix_ext_any = filter simple_extension_suffix [[CHR 0x5C] @ ''.rs''],
    g_suffix_any = filter (\<lambda>s. \<not> simple_extension_suffix s) [[CHR 0x5C] @ ''.rs''], g_globset = None\<rparr>"
  have "escaped_globs \<noteq> []" by (simp add: escaped_globs_def)
  then have "compile_globs libs label escaped_globs = Inr ?g"
    unfolding compile_globs_def p Let_def b by (simp del: filter.simps)
  moreover have "\<not> path_globs_matches ?g ''lib.rs''" by code_simp
  ultimately show ?thesis by (intro exI [of _ ?g]) (simp del: filter.simps)
qed

subsection \<open>First match\<close>

text \<open>What one rule says about an action, without the caches.\<close>

definition rule_verdict ::
  "bash_parser \<Rightarrow> glob_compiler \<Rightarrow> hook_runtime \<Rightarrow> string \<Rightarrow> string \<Rightarrow> tool_action \<Rightarrow> hook_rule
     \<Rightarrow> hook_decision option shell_result" where
  "rule_verdict parse glob runtime platform event action r =
     shell_bind
       (if needs_command_tokens (h_match r) \<or> needs_match_paths r
        then action_command_tokens parse action else Inr None)
       (\<lambda>tokens. Inr
         (if matches_before_paths r platform event action tokens
             \<and> matches_after_paths glob r runtime
                 (if needs_match_paths r then derive_effective_paths action tokens else t_paths action)
          then map_option (\<lambda>argv_paths. rule_decision r runtime platform event action
                 (if needs_argv_source_match (h_match r) \<and> \<not> needs_path_match (h_match r) then argv_paths
                  else if needs_decision_paths r then derive_effective_paths action tokens
                  else t_paths action))
                 (matching_argv_source_paths (h_match r) tokens)
          else None))"

fun first_verdict :: "('r \<Rightarrow> 'd option shell_result) \<Rightarrow> 'r list \<Rightarrow> 'd option shell_result" where
  "first_verdict f [] = Inr None"
| "first_verdict f (r # rs) =
     shell_bind (f r) (\<lambda>v. case v of Some d \<Rightarrow> Inr (Some d) | None \<Rightarrow> first_verdict f rs)"

definition caches_ok ::
  "bash_parser \<Rightarrow> tool_action \<Rightarrow> string list option option \<Rightarrow> string list option \<Rightarrow> bool" where
  "caches_ok parse action cached effective \<longleftrightarrow>
     (\<forall>tokens. cached = Some tokens \<longrightarrow> action_command_tokens parse action = Inr tokens)
     \<and> (\<forall>paths. effective = Some paths \<longrightarrow>
          (\<exists>tokens. cached = Some tokens \<and> paths = derive_effective_paths action tokens))"

lemma classify_rules_first:
  "caches_ok parse action cached effective \<Longrightarrow>
     classify_rules parse glob runtime platform event action cached effective rules =
     first_verdict (rule_verdict parse glob runtime platform event action) rules"
proof (induction rules arbitrary: cached effective)
  case (Cons r rules)
  let ?needs = "needs_command_tokens (h_match r) \<or> needs_match_paths r"
  show ?case
  proof (cases ?needs)
    case False
    then have "\<not> needs_match_paths r" "\<not> needs_argv_source_match (h_match r)" "\<not> needs_path_match (h_match r)"
      "\<not> needs_decision_paths r"
      by (auto simp: needs_command_tokens_def needs_match_paths_def needs_decision_paths_def
          needs_source_paths_def)
    with False Cons show ?thesis
      by (auto simp: rule_tokens_def rule_verdict_def shell_bind_def matching_argv_source_paths_def)
  next
    case True
    show ?thesis
    proof (cases "action_command_tokens parse action")
      case (Inl e)
      with Cons.prems have "cached = None" by (cases cached) (auto simp: caches_ok_def)
      with True Inl show ?thesis by (simp add: rule_tokens_def rule_verdict_def shell_bind_def)
    next
      case (Inr tokens)
      with True Cons.prems have t: "rule_tokens parse action r cached = Inr (tokens, Some tokens)"
        by (cases cached) (auto simp: rule_tokens_def caches_ok_def shell_bind_def)
      from Cons.prems Inr have e: "cached_paths action tokens effective = derive_effective_paths action tokens"
        by (auto simp: caches_ok_def cached_paths_def split: option.splits)
      have ok: "caches_ok parse action (Some tokens) effective"
        "caches_ok parse action (Some tokens) (Some (derive_effective_paths action tokens))"
        using Cons.prems Inr by (auto simp: caches_ok_def)
      have e': "cached_paths action tokens (Some (derive_effective_paths action tokens)) =
          derive_effective_paths action tokens"
        by (simp add: cached_paths_def)
      show ?thesis
        using True Inr e e' ok Cons.IH
        by (auto simp: t rule_verdict_def shell_bind_def Let_def needs_decision_paths_def
            needs_source_paths_def split: option.splits)
    qed
  qed
qed simp

lemma classify_first:
  "classify_by_rules parse glob rules runtime platform event action =
     first_verdict (rule_verdict parse glob runtime platform event action) rules"
  unfolding classify_by_rules_def by (rule classify_rules_first) (simp add: caches_ok_def)

lemma first_verdict_Some:
  "first_verdict f rs = Inr (Some d) \<longleftrightarrow>
     (\<exists>before r after. rs = before @ r # after \<and> (\<forall>b \<in> set before. f b = Inr None) \<and> f r = Inr (Some d))"
proof (induction rs)
  case (Cons r rs)
  show ?case
  proof (cases "f r = Inr None")
    case True
    let ?split = "\<lambda>rs before r' after. rs = before @ r' # after
      \<and> (\<forall>b \<in> set before. f b = Inr None) \<and> f r' = Inr (Some d)"
    have "?split (r # rs) before r' after \<longleftrightarrow> (\<exists>before'. before = r # before' \<and> ?split rs before' r' after)"
      for before r' after
      using True by (cases before) auto
    then show ?thesis using True Cons.IH by (simp add: shell_bind_def) blast
  next
    case False
    let ?split = "\<lambda>rs before r' after. rs = before @ r' # after
      \<and> (\<forall>b \<in> set before. f b = Inr None) \<and> f r' = Inr (Some d)"
    have "?split (r # rs) before r' after \<longleftrightarrow> before = [] \<and> r' = r \<and> after = rs \<and> f r = Inr (Some d)"
      for before r' after
      using False by (cases before) auto
    then show ?thesis using False by (auto simp: shell_bind_Inr split: option.splits)
  qed
qed simp

lemma first_verdict_None:
  "first_verdict f rs = Inr None \<longleftrightarrow> (\<forall>r \<in> set rs. f r = Inr None)"
  by (induction rs) (auto simp: shell_bind_Inr split: option.splits)

lemma collect_rules_set:
  "collect_rules libs configs = Inr rules \<Longrightarrow>
     \<forall>r \<in> set rules. \<exists>c \<in> set configs. compile_rule libs c = Inr r"
  by (induction configs arbitrary: rules) (auto split: sum.splits)

text \<open>C11: The configured rules form a priority list.  The classification is a denial or a block
  produced by an enabled rule that applies to the action, and no rule of higher priority applies to
  it; when the classification is silent, no rule applies.  Tokenizing and deriving paths lazily and
  once for all rules changes nothing.\<close>

theorem highest_priority_rule_decides:
  assumes "compile_rules libs configs = Inr rules"
    and "classify_by_rules parse glob rules runtime platform event action = Inr result"
  shows "case result of
      Some d \<Rightarrow> d_decision d \<noteq> Allow
        \<and> (\<exists>r \<in> set rules. (\<exists>c \<in> set configs. ru_enabled c \<and> compile_rule libs c = Inr r)
            \<and> rule_verdict parse glob runtime platform event action r = Inr (Some d)
            \<and> field_of d ''configRuleId'' = Some (JString (h_id r))
            \<and> (\<forall>r' \<in> set rules. h_priority r < h_priority r' \<longrightarrow>
                 rule_verdict parse glob runtime platform event action r' = Inr None))
    | None \<Rightarrow> \<forall>r \<in> set rules. rule_verdict parse glob runtime platform event action r = Inr None"
proof (cases result)
  case None
  with assms(2) show ?thesis by (simp add: classify_first first_verdict_None)
next
  case (Some d)
  let ?v = "rule_verdict parse glob runtime platform event action"
  from assms(2) Some obtain before r after where rules: "rules = before @ r # after"
    and before: "\<forall>b \<in> set before. ?v b = Inr None" and r: "?v r = Inr (Some d)"
    by (auto simp: classify_first first_verdict_Some)
  from assms(1) obtain rs where rs: "collect_rules libs (filter ru_enabled configs) = Inr rs"
    "rules = sort_key (\<lambda>r. - h_priority r) rs"
    by (auto simp: compile_rules_def split: sum.splits)
  then have "r \<in> set rs" by (metis rules in_set_conv_decomp set_sort)
  with collect_rules_set [OF rs(1)] have c: "\<exists>c \<in> set configs. ru_enabled c \<and> compile_rule libs c = Inr r"
    by auto
  have "sorted (map (\<lambda>r. - h_priority r) rules)" unfolding rs(2) by (rule sorted_sort_key)
  then have "\<forall>r' \<in> set after. h_priority r' \<le> h_priority r"
    by (simp add: rules sorted_append)
  with before rules have "\<forall>r' \<in> set rules. h_priority r < h_priority r' \<longrightarrow> ?v r' = Inr None" by auto
  moreover from r obtain paths where d: "d = rule_decision r runtime platform event action paths"
    by (auto simp: rule_verdict_def shell_bind_Inr split: if_splits)
  ultimately show ?thesis
    using c r rules by (auto simp: Some rule_decision_def new_decision_def field_of_def split: config_decision.splits)
qed

definition demo_rule :: "string \<Rightarrow> int \<Rightarrow> config_decision \<Rightarrow> rule_config" where
  "demo_rule name priority decision =
     \<lparr>ru_id = name, ru_enabled = True, ru_priority = priority, ru_decision = decision,
      ru_reason_kind = None, ru_message = None, ru_language_ids = [], ru_event = Some ''pre_tool'',
      ru_platform = None,
      ru_match = \<lparr>mc_tool = None, mc_tool_any = [], mc_command_any = [''rm''], mc_argv_prefix_any = [],
        mc_command_contains_any = [], mc_path_any = [], mc_path_glob_any = [], mc_argv_source_any = [],
        mc_argv_source_glob_any = [], mc_argv_source_exclude_flag_any = []\<rparr>,
      ru_routes = []\<rparr>"

definition demo_rules :: "rule_config list" where
  "demo_rules = [demo_rule ''low'' 1 ConfigDeny, demo_rule ''high'' 5 ConfigBlock]"

definition demo_shell_action :: "string \<Rightarrow> string list \<Rightarrow> tool_action" where
  "demo_shell_action command tokens =
     \<lparr>t_tool_name = ''bash'', t_surface = CodexShell, t_operation = OpShellCommand,
      t_command = Some command, t_command_tokens = Some tokens, t_paths = []\<rparr>"

definition demo_hook_rule :: "string \<Rightarrow> int \<Rightarrow> config_decision \<Rightarrow> hook_rule" where
  "demo_hook_rule name priority decision =
     \<lparr>h_id = name, h_priority = priority, h_decision = decision, h_reason_kind = ReasonNone,
      h_message = None, h_language_ids = [], h_event = Some ''pre_tool'', h_platform = None,
      h_match = \<lparr>m_tool_any = [], m_command_any = [''rm''], m_argv_prefix_any = [],
        m_command_contains_any = None, m_path_any = [], m_path_glob_any = no_path_globs,
        m_argv_source_any = [], m_argv_source_glob_any = no_path_globs,
        m_argv_source_exclude_flag_any = []\<rparr>, h_routes = []\<rparr>"

lemma demo_rules_compiled:
  "compile_rules demo_libraries demo_rules =
     Inr [demo_hook_rule ''high'' 5 ConfigBlock, demo_hook_rule ''low'' 1 ConfigDeny]"
  by (simp add: compile_rules_def demo_rules_def demo_rule_def demo_hook_rule_def compile_rule_def
      compile_rule_match_def compile_command_contains_def compile_globs_def)

lemma demo_rules_classified:
  "case classify_by_rules one_word_grammar literal_glob
      [demo_hook_rule ''high'' 5 ConfigBlock, demo_hook_rule ''low'' 1 ConfigDeny] demo_runtime ''codex''
      ''pre-tool'' (demo_shell_action ''rm a'' [''rm'', ''a'']) of
     Inr (Some d) \<Rightarrow> d_decision d = Block | _ \<Rightarrow> False"
  by code_simp

theorem highest_priority_rule_decides_witness:
  "\<exists>d. classify_by_rules one_word_grammar literal_glob
      [demo_hook_rule ''high'' 5 ConfigBlock, demo_hook_rule ''low'' 1 ConfigDeny] demo_runtime ''codex''
      ''pre-tool'' (demo_shell_action ''rm a'' [''rm'', ''a'']) = Inr (Some d) \<and> d_decision d \<noteq> Allow"
proof -
  from demo_rules_classified obtain d where d: "classify_by_rules one_word_grammar literal_glob
      [demo_hook_rule ''high'' 5 ConfigBlock, demo_hook_rule ''low'' 1 ConfigDeny] demo_runtime ''codex''
      ''pre-tool'' (demo_shell_action ''rm a'' [''rm'', ''a'']) = Inr (Some d)"
    by (auto split: sum.splits option.splits)
  from highest_priority_rule_decides [OF demo_rules_compiled d] d show ?thesis by simp
qed

subsection \<open>Session messages\<close>

record agent_session_messages =
  sm_session_start_reuse :: "string option"
  sm_session_start_bootstrap :: "string option"
  sm_missing_resident_explore :: "string option"
  sm_main_restricted_with_child :: "string option"
  sm_main_restricted_without_child :: "string option"
  sm_binary_gate_with_child :: "string option"
  sm_binary_gate_without_child :: "string option"
  sm_binary_gate_invalid_child :: "string option"
  sm_binary_gate_registry_blocked :: "string option"
  sm_source_access_compact :: "string option"
  sm_source_access_compact_repeated :: "string option"
  sm_source_access_compact_subagent :: "string option"

definition merge_agent_session_messages ::
  "agent_session_messages \<Rightarrow> agent_session_messages \<Rightarrow> agent_session_messages" where
  "merge_agent_session_messages c d =
     \<lparr>sm_session_start_reuse = or_else (sm_session_start_reuse c) (sm_session_start_reuse d),
      sm_session_start_bootstrap =
        or_else (sm_session_start_bootstrap c) (sm_session_start_bootstrap d),
      sm_missing_resident_explore =
        or_else (sm_missing_resident_explore c) (sm_missing_resident_explore d),
      sm_main_restricted_with_child =
        or_else (sm_main_restricted_with_child c) (sm_main_restricted_with_child d),
      sm_main_restricted_without_child =
        or_else (sm_main_restricted_without_child c) (sm_main_restricted_without_child d),
      sm_binary_gate_with_child = or_else (sm_binary_gate_with_child c) (sm_binary_gate_with_child d),
      sm_binary_gate_without_child =
        or_else (sm_binary_gate_without_child c) (sm_binary_gate_without_child d),
      sm_binary_gate_invalid_child =
        or_else (sm_binary_gate_invalid_child c) (sm_binary_gate_invalid_child d),
      sm_binary_gate_registry_blocked =
        or_else (sm_binary_gate_registry_blocked c) (sm_binary_gate_registry_blocked d),
      sm_source_access_compact = or_else (sm_source_access_compact c) (sm_source_access_compact d),
      sm_source_access_compact_repeated =
        or_else (sm_source_access_compact_repeated c) (sm_source_access_compact_repeated d),
      sm_source_access_compact_subagent =
        or_else (sm_source_access_compact_subagent c) (sm_source_access_compact_subagent d)\<rparr>"

end
