(* ===== verification/ConfigValidation.thy ===== *)
theory ConfigValidation
  imports HookRules
begin

section \<open>Validation of the client configuration\<close>

text \<open>
  Models \<open>crates/agent-semantic-config/src/hook_client_config/validation.rs\<close>, run on every
  configuration that was decoded from TOML, and the records of \<open>model.rs\<close> that it looks at.  Each
  validator is the source's chain of checks with its error text; the lemmas collected in
  \<open>validates\<close> say what each accepts.
\<close>

record archive_warning_config =
  aw_enabled :: bool
  aw_active_org_file_threshold :: nat
  aw_archives_dir :: string
  aw_max_reported_files :: nat

record org_artifacts_config =
  oa_enabled :: bool
  oa_inactive_after_minutes :: nat
  oa_artifacts_path :: string
  oa_entry_skill_path :: string
  oa_archive_warning :: archive_warning_config

record session_guide_config =
  gd_register :: "string option"
  gd_list :: "string option"
  gd_show :: "string option"
  gd_reuse :: "string option"
  gd_status :: "string option"

record resident_agent_config =
  ra_enabled :: bool
  ra_name :: string
  ra_role :: string
  ra_roles :: "string list"
  ra_permissions :: "string list"
  ra_codex_agent_name :: string
  ra_lifecycle :: string
  ra_session_lifetime :: string
  ra_main_allowed_asp_command_prefixes :: "string list"
  ra_command_prefixes :: "string list"

text \<open>The transport of a lane has the single value \<open>current-session\<close>.\<close>

record execution_lane_config =
  el_enabled :: bool
  el_command_prefixes :: "string list"
  el_receipt_kind :: string

record hook_config_file =
  cf_schema_id :: "string option"
  cf_schema_version :: "string option"
  cf_protocol_id :: "string option"
  cf_protocol_version :: "string option"
  cf_experimental :: "string \<rightharpoonup> (string \<rightharpoonup> bool)"
  cf_agent_org_artifacts :: "org_artifacts_config option"
  cf_recovery_prompt :: recovery_prompt_config
  cf_agent_session_guide :: session_guide_config
  cf_agent_session_messages :: agent_session_messages
  cf_resident_agents :: "resident_agent_config list"
  cf_testing_lane :: execution_lane_config
  cf_asp_command_intent_policy :: asp_command_intent_policy
  cf_rules :: "rule_config list"

text \<open>The switch that \<open>compile_config\<close> reads from the experimental section.\<close>

definition config_semantic_ast_patch_enabled :: "hook_config_file \<Rightarrow> bool" where
  "config_semantic_ast_patch_enabled c =
     (case Option.bind (cf_experimental c ''semanticAstPatch'') (\<lambda>feature. feature ''enabled'') of
        Some enabled \<Rightarrow> enabled
      | None \<Rightarrow> True)"

subsection \<open>Checks\<close>

type_synonym validation = "string + unit"

fun for_each :: "('a \<Rightarrow> validation) \<Rightarrow> 'a list \<Rightarrow> validation" where
  "for_each f [] = Inr ()"
| "for_each f (x # xs) = try_then (f x) (for_each f xs)"

definition check :: "bool \<Rightarrow> string \<Rightarrow> validation" where
  "check ok message = (if ok then Inr () else Inl message)"

definition empty_message :: "string \<Rightarrow> string" where
  "empty_message field = field @ '' must not be empty''"

definition validate_non_empty :: "string \<Rightarrow> string \<Rightarrow> validation" where
  "validate_non_empty field v = check (v \<noteq> []) (empty_message field)"

definition validate_optional_non_empty :: "string \<Rightarrow> string option \<Rightarrow> validation" where
  "validate_optional_non_empty field v = check (v \<noteq> Some []) (empty_message field)"

definition validate_non_empty_values :: "string \<Rightarrow> string list \<Rightarrow> validation" where
  "validate_non_empty_values field vs = for_each (validate_non_empty field) vs"

definition is_identifier :: "string \<Rightarrow> bool" where
  "is_identifier v \<longleftrightarrow>
     (case v of
        [] \<Rightarrow> False
      | c # cs \<Rightarrow> is_ascii_lowercase c
          \<and> list_all (\<lambda>b. is_ascii_lowercase b \<or> is_ascii_digit b \<or> b = CHR ''_'' \<or> b = CHR ''-'') cs)"

definition invalid_message :: "string \<Rightarrow> string \<Rightarrow> string" where
  "invalid_message field v = ''invalid '' @ field @ '' `'' @ v @ ''`''"

definition validate_identifier :: "string \<Rightarrow> string \<Rightarrow> validation" where
  "validate_identifier field v = check (is_identifier v) (invalid_message field v)"

definition validate_identifiers :: "string \<Rightarrow> string list \<Rightarrow> validation" where
  "validate_identifiers field vs = for_each (validate_identifier field) vs"

fun argv_prefix_patterns_from :: "string \<Rightarrow> nat \<Rightarrow> string list list \<Rightarrow> validation" where
  "argv_prefix_patterns_from field index [] = Inr ()"
| "argv_prefix_patterns_from field index (pat # patterns) =
     try_then (check (pat \<noteq> []) (field @ ''['' @ show_nat index @ ''] must not be empty''))
       (try_then (validate_non_empty_values (field @ ''['' @ show_nat index @ ''][]'') pat)
         (argv_prefix_patterns_from field (index + 1) patterns))"

definition validate_argv_prefix_patterns :: "string \<Rightarrow> string list list \<Rightarrow> validation" where
  "validate_argv_prefix_patterns field patterns = argv_prefix_patterns_from field 0 patterns"

fun unique_values_from :: "string \<Rightarrow> string set \<Rightarrow> string list \<Rightarrow> validation" where
  "unique_values_from field seen [] = Inr ()"
| "unique_values_from field seen (v # vs) =
     (if v \<in> seen then Inl (''duplicate '' @ field @ '' `'' @ v @ ''`'')
      else unique_values_from field (insert v seen) vs)"

definition validate_unique_values :: "string \<Rightarrow> string list \<Rightarrow> validation" where
  "validate_unique_values field vs = unique_values_from field {} vs"

definition config_events :: "string set" where
  "config_events = {''pre-tool'', ''permission-request'', ''post-tool'', ''user-prompt'',
     ''session-start'', ''subagent-start'', ''subagent-stop'', ''stop''}"

definition validate_optional_event :: "string option \<Rightarrow> validation" where
  "validate_optional_event v =
     (case v of None \<Rightarrow> Inr ()
      | Some e \<Rightarrow> check (e \<in> config_events) (''unsupported event `'' @ e @ ''`''))"

definition config_platforms :: "string set" where
  "config_platforms = {''codex'', ''claude'', ''unknown''}"

definition validate_optional_platform :: "string option \<Rightarrow> validation" where
  "validate_optional_platform v =
     (case v of None \<Rightarrow> Inr ()
      | Some p \<Rightarrow> check (p \<in> config_platforms) (''unsupported platform `'' @ p @ ''`''))"

definition is_binary_name :: "string \<Rightarrow> bool" where
  "is_binary_name v \<longleftrightarrow> v \<noteq> [] \<and> list_all (\<lambda>b. is_ascii_alphanumeric b \<or> b \<in> set ''_.-'') v"

definition validate_binary_name :: "string \<Rightarrow> string \<Rightarrow> validation" where
  "validate_binary_name field v = check (is_binary_name v) (invalid_message field v)"

definition session_roles :: "string set" where
  "session_roles = {''subagent'', ''search'', ''testing'', ''build'', ''checkpoint''}"

definition validate_session_role :: "string \<Rightarrow> string \<Rightarrow> validation" where
  "validate_session_role field v = check (v \<in> session_roles)
     (invalid_message field v @ ''; expected one of subagent, search, testing, build, checkpoint'')"

definition session_permissions :: "string set" where
  "session_permissions = {''read-only'', ''workspace-write'', ''danger-full-access''}"

definition validate_session_permission :: "string \<Rightarrow> string \<Rightarrow> validation" where
  "validate_session_permission field v = check (v \<in> session_permissions)
     (invalid_message field v
      @ ''; expected one of read-only, workspace-write, danger-full-access'')"

definition expect_optional_field :: "string \<Rightarrow> string option \<Rightarrow> string \<Rightarrow> validation" where
  "expect_optional_field field actual expected =
     check (actual = None \<or> actual = Some expected) (''expected '' @ field @ ''='' @ expected)"

subsection \<open>Sections\<close>

definition client_hook_config_schema_id :: string where
  "client_hook_config_schema_id = ''agent.semantic-protocols.hook.client-config''"

definition client_hook_config_schema_version :: string where
  "client_hook_config_schema_version = ''1''"

definition validate_protocol :: "hook_config_file \<Rightarrow> validation" where
  "validate_protocol c =
     try_then (expect_optional_field ''schemaId'' (cf_schema_id c) client_hook_config_schema_id)
       (try_then (expect_optional_field ''schemaVersion'' (cf_schema_version c)
           client_hook_config_schema_version)
         (try_then (expect_optional_field ''protocolId'' (cf_protocol_id c) hook_protocol_id)
           (expect_optional_field ''protocolVersion'' (cf_protocol_version c) hook_protocol_version)))"

definition validate_archive_warning :: "archive_warning_config \<Rightarrow> validation" where
  "validate_archive_warning c =
     try_then (check (aw_active_org_file_threshold c \<noteq> 0)
         ''agentOrgArtifacts.archiveWarning.activeOrgFileThreshold must be greater than 0'')
       (try_then (check (aw_max_reported_files c \<noteq> 0)
           ''agentOrgArtifacts.archiveWarning.maxReportedFiles must be greater than 0'')
         (validate_non_empty ''agentOrgArtifacts.archiveWarning.archivesDir'' (aw_archives_dir c)))"

definition validate_agent_org_artifacts :: "org_artifacts_config option \<Rightarrow> validation" where
  "validate_agent_org_artifacts config =
     (case config of
        None \<Rightarrow> Inr ()
      | Some c \<Rightarrow>
          try_then (check (oa_inactive_after_minutes c \<noteq> 0)
              ''agentOrgArtifacts.inactiveAfterMinutes must be greater than 0'')
            (try_then (validate_non_empty ''agentOrgArtifacts.artifactsPath'' (oa_artifacts_path c))
              (try_then (validate_non_empty ''agentOrgArtifacts.entrySkillPath'' (oa_entry_skill_path c))
                (validate_archive_warning (oa_archive_warning c)))))"

definition validate_recovery_prompt :: "recovery_prompt_config \<Rightarrow> validation" where
  "validate_recovery_prompt c =
     try_then (validate_optional_non_empty ''recoveryPrompt.template'' (rp_template c))
       (try_then (validate_optional_non_empty ''recoveryPrompt.codexAgentFlow'' (rp_codex_agent_flow c))
         (try_then
           (validate_optional_non_empty ''recoveryPrompt.claudeAgentFlow'' (rp_claude_agent_flow c))
           (validate_optional_non_empty ''recoveryPrompt.defaultAgentFlow'' (rp_default_agent_flow c))))"

definition validate_agent_session_guide :: "session_guide_config \<Rightarrow> validation" where
  "validate_agent_session_guide c =
     try_then (validate_optional_non_empty ''agentSessionGuide.register'' (gd_register c))
       (try_then (validate_optional_non_empty ''agentSessionGuide.list'' (gd_list c))
         (try_then (validate_optional_non_empty ''agentSessionGuide.show'' (gd_show c))
           (validate_optional_non_empty ''agentSessionGuide.reuse'' (gd_reuse c))))"

definition is_legacy_receipt_message :: "string \<Rightarrow> bool" where
  "is_legacy_receipt_message message \<longleftrightarrow>
     (let normalized = to_ascii_lowercase message
      in str_contains normalized ''owner/read/next''
         \<or> str_contains normalized ''selector-only''
           \<and> str_contains normalized ''[asp-search-subagent]''
           \<and> str_contains normalized ''evidence'')"

definition reject_legacy_flat_subagent_receipt_message :: "string \<Rightarrow> string option \<Rightarrow> validation" where
  "reject_legacy_flat_subagent_receipt_message field message =
     (case message of
        None \<Rightarrow> Inr ()
      | Some m \<Rightarrow> check (\<not> is_legacy_receipt_message m)
          (field @ '' uses the legacy flat subagent receipt contract; refresh hooks/config.toml so ''
           @ ''ASP search children return schema/intent/route/state/evidence/next graph-route ''
           @ ''receipts''))"

definition validate_agent_session_messages :: "agent_session_messages \<Rightarrow> validation" where
  "validate_agent_session_messages c =
     try_then (validate_optional_non_empty ''agentSessionMessages.sourceAccessCompactSubagent''
         (sm_source_access_compact_subagent c))
       (reject_legacy_flat_subagent_receipt_message ''agentSessionMessages.sourceAccessCompactSubagent''
         (sm_source_access_compact_subagent c))"

definition validate_resident_agent :: "resident_agent_config \<Rightarrow> validation" where
  "validate_resident_agent c =
     try_then (validate_optional_non_empty ''agents.residentAgents[].name'' (Some (ra_name c)))
    (try_then (validate_optional_non_empty ''agents.residentAgents[].role'' (Some (ra_role c)))
    (try_then (if ra_codex_agent_name c \<noteq> []
         then validate_optional_non_empty ''agents.residentAgents[].codexAgentName''
                (Some (ra_codex_agent_name c))
         else Inr ())
    (try_then (validate_optional_non_empty ''agents.residentAgents[].lifecycle'' (Some (ra_lifecycle c)))
    (try_then (validate_non_empty_values ''agents.residentAgents[].roles[]'' (ra_roles c))
    (try_then (validate_unique_values ''agents.residentAgents[].roles[]'' (ra_roles c))
    (try_then (for_each (validate_session_role ''agents.residentAgents[].roles[]'') (ra_roles c))
    (try_then (validate_non_empty_values ''agents.residentAgents[].permissions[]'' (ra_permissions c))
    (try_then (validate_unique_values ''agents.residentAgents[].permissions[]'' (ra_permissions c))
    (try_then (for_each (validate_session_permission ''agents.residentAgents[].permissions[]'')
         (ra_permissions c))
    (try_then (for_each (\<lambda>p. validate_optional_non_empty
           ''agents.residentAgents[].mainAllowedAspCommandPrefixes[]'' (Some p))
         (ra_main_allowed_asp_command_prefixes c))
    (for_each (\<lambda>p. validate_optional_non_empty ''agents.residentAgents[].commandPrefixes[]'' (Some p))
      (ra_command_prefixes c))))))))))))"

definition validate_resident_agents :: "resident_agent_config list \<Rightarrow> validation" where
  "validate_resident_agents configs = for_each validate_resident_agent configs"

definition validate_execution_lanes :: "execution_lane_config \<Rightarrow> validation" where
  "validate_execution_lanes testing =
     try_then (validate_optional_non_empty ''executionLanes.testing.receiptKind''
         (Some (el_receipt_kind testing)))
       (try_then (check (\<not> (el_enabled testing \<and> el_command_prefixes testing = []))
           ''executionLanes.testing.commandPrefixes must not be empty when enabled'')
         (try_then (validate_non_empty_values ''executionLanes.testing.commandPrefixes[]''
             (el_command_prefixes testing))
           (validate_unique_values ''executionLanes.testing.commandPrefixes[]''
             (el_command_prefixes testing))))"

definition intent_policy_values :: "asp_command_intent_policy \<Rightarrow> (string \<times> string list) list" where
  "intent_policy_values p =
     [(''aspCommandIntentPolicy.controlPlane.rootCommands[]'', control_plane_root_commands p),
      (''aspCommandIntentPolicy.reasoning.rootCommands[]'', root_commands (reasoning p)),
      (''aspCommandIntentPolicy.reasoning.searchRoutes[]'', search_routes (reasoning p)),
      (''aspCommandIntentPolicy.reasoning.queryFlags[]'', query_flags (reasoning p)),
      (''aspCommandIntentPolicy.exactEvidence.queryProjectionFlags[]'',
        query_projection_flags (exact_evidence p)),
      (''aspCommandIntentPolicy.exactEvidence.queryProjectionViews[]'',
        query_projection_views (exact_evidence p)),
      (''aspCommandIntentPolicy.exactEvidence.selectorKinds[]'', selector_kinds (exact_evidence p)),
      (''aspCommandIntentPolicy.directReadFallback.fromHookValues[]'', from_hook_values p)]"

definition validate_asp_command_intent_policy :: "asp_command_intent_policy \<Rightarrow> validation" where
  "validate_asp_command_intent_policy p =
     for_each (\<lambda>(label, vs). check (\<not> list_ex (\<lambda>v. str_trim v = []) vs)
         (label @ '' must not contain empty values'')) (intent_policy_values p)"

fun unique_rule_ids_from :: "string set \<Rightarrow> rule_config list \<Rightarrow> validation" where
  "unique_rule_ids_from seen [] = Inr ()"
| "unique_rule_ids_from seen (r # rs) =
     (if ru_id r \<in> seen then Inl (''duplicate client hook rule id `'' @ ru_id r @ ''`'')
      else unique_rule_ids_from (insert (ru_id r) seen) rs)"

definition validate_unique_rule_ids :: "rule_config list \<Rightarrow> validation" where
  "validate_unique_rule_ids rules = unique_rule_ids_from {} rules"

definition validate_match_schema_shape :: "rule_match_config \<Rightarrow> validation" where
  "validate_match_schema_shape m =
     try_then (validate_optional_non_empty ''rules[].match.tool'' (mc_tool m))
    (try_then (validate_non_empty_values ''rules[].match.toolAny[]'' (mc_tool_any m))
    (try_then (validate_non_empty_values ''rules[].match.commandAny[]'' (mc_command_any m))
    (try_then (validate_argv_prefix_patterns ''rules[].match.argvPrefixAny'' (mc_argv_prefix_any m))
    (try_then (validate_non_empty_values ''rules[].match.commandContainsAny[]''
         (mc_command_contains_any m))
    (try_then (validate_non_empty_values ''rules[].match.pathAny[]'' (mc_path_any m))
    (try_then (validate_non_empty_values ''rules[].match.pathGlobAny[]'' (mc_path_glob_any m))
    (try_then (validate_non_empty_values ''rules[].match.argvSourceAny[]'' (mc_argv_source_any m))
    (try_then (validate_non_empty_values ''rules[].match.argvSourceGlobAny[]''
         (mc_argv_source_glob_any m))
    (validate_non_empty_values ''rules[].match.argvSourceExcludeFlagAny[]''
      (mc_argv_source_exclude_flag_any m))))))))))"

definition validate_route_schema_shape :: "rule_route_config \<Rightarrow> validation" where
  "validate_route_schema_shape r =
     try_then (validate_identifier ''rules[].routes[].providerId'' (rc_provider_id r))
    (try_then (case rc_language_id r of None \<Rightarrow> Inr ()
        | Some l \<Rightarrow> validate_identifier ''rules[].routes[].languageId'' l)
    (try_then (case rc_binary r of None \<Rightarrow> Inr ()
        | Some b \<Rightarrow> validate_binary_name ''rules[].routes[].binary'' b)
    (check (rc_argv r \<noteq> []) ''rules[].routes[].argv must contain at least one item'')))"

definition validate_rule_shape :: "rule_config \<Rightarrow> validation" where
  "validate_rule_shape r =
     try_then (validate_identifier ''rules[].id'' (ru_id r))
    (try_then (validate_optional_non_empty ''rules[].message'' (ru_message r))
    (try_then (validate_optional_event (ru_event r))
    (try_then (validate_optional_platform (ru_platform r))
    (try_then (validate_unique_values ''rules[].languageIds'' (ru_language_ids r))
    (try_then (validate_identifiers ''rules[].languageIds[]'' (ru_language_ids r))
    (try_then (validate_match_schema_shape (ru_match r))
    (for_each validate_route_schema_shape (ru_routes r))))))))"

definition validate_rule_schema_shape :: "rule_config list \<Rightarrow> validation" where
  "validate_rule_schema_shape rules = for_each validate_rule_shape rules"

definition validate_config :: "hook_config_file \<Rightarrow> validation" where
  "validate_config c =
     try_then (validate_protocol c)
    (try_then (validate_agent_org_artifacts (cf_agent_org_artifacts c))
    (try_then (validate_recovery_prompt (cf_recovery_prompt c))
    (try_then (validate_agent_session_guide (cf_agent_session_guide c))
    (try_then (validate_agent_session_messages (cf_agent_session_messages c))
    (try_then (validate_resident_agents (cf_resident_agents c))
    (try_then (validate_execution_lanes (cf_testing_lane c))
    (try_then (validate_asp_command_intent_policy (cf_asp_command_intent_policy c))
    (try_then (validate_unique_rule_ids (cf_rules c))
    (validate_rule_schema_shape (cf_rules c))))))))))"

subsection \<open>What is accepted\<close>

named_theorems validates

lemma validates_basic [validates]:
  "check ok message = Inr () \<longleftrightarrow> ok"
  "try_then a b = Inr () \<longleftrightarrow> a = Inr () \<and> b = Inr ()" for a b :: validation
  by (cases a; simp add: check_def try_then_def)+

lemma validates_for_each [validates]: "for_each f xs = Inr () \<longleftrightarrow> (\<forall>x \<in> set xs. f x = Inr ())"
  by (induction xs) (auto simp: validates)

lemma validates_values [validates]:
  "validate_non_empty field v = Inr () \<longleftrightarrow> v \<noteq> []"
  "validate_optional_non_empty field w = Inr () \<longleftrightarrow> w \<noteq> Some []"
  "validate_non_empty_values field vs = Inr () \<longleftrightarrow> [] \<notin> set vs"
  "validate_identifier field v = Inr () \<longleftrightarrow> is_identifier v"
  "validate_identifiers field vs = Inr () \<longleftrightarrow> (\<forall>v \<in> set vs. is_identifier v)"
  "validate_binary_name field v = Inr () \<longleftrightarrow> is_binary_name v"
  "validate_session_role field v = Inr () \<longleftrightarrow> v \<in> session_roles"
  "validate_session_permission field v = Inr () \<longleftrightarrow> v \<in> session_permissions"
  "expect_optional_field field w v = Inr () \<longleftrightarrow> w \<in> {None, Some v}"
  "validate_optional_event w = Inr () \<longleftrightarrow> (\<forall>e. w = Some e \<longrightarrow> e \<in> config_events)"
  "validate_optional_platform w = Inr () \<longleftrightarrow> (\<forall>p. w = Some p \<longrightarrow> p \<in> config_platforms)"
  by (auto simp: validate_non_empty_def validate_optional_non_empty_def validate_non_empty_values_def
      validate_identifier_def validate_identifiers_def validate_binary_name_def validate_session_role_def
      validate_session_permission_def expect_optional_field_def validate_optional_event_def
      validate_optional_platform_def validates split: option.splits)

lemma validates_prefix_patterns [validates]:
  "validate_argv_prefix_patterns field patterns = Inr () \<longleftrightarrow> (\<forall>pat \<in> set patterns. pat \<noteq> [] \<and> [] \<notin> set pat)"
proof -
  have "argv_prefix_patterns_from field index patterns = Inr () \<longleftrightarrow>
      (\<forall>pat \<in> set patterns. pat \<noteq> [] \<and> [] \<notin> set pat)" for index
    by (induction patterns arbitrary: index) (auto simp: validates)
  then show ?thesis by (simp add: validate_argv_prefix_patterns_def)
qed

lemma validates_unique [validates]: "validate_unique_values field vs = Inr () \<longleftrightarrow> distinct vs"
proof -
  have "unique_values_from field seen vs = Inr () \<longleftrightarrow> distinct vs \<and> set vs \<inter> seen = {}" for seen
    by (induction vs arbitrary: seen) auto
  then show ?thesis by (simp add: validate_unique_values_def)
qed

lemma validates_rule_ids [validates]: "validate_unique_rule_ids rules = Inr () \<longleftrightarrow> distinct (map ru_id rules)"
proof -
  have "unique_rule_ids_from seen rules = Inr () \<longleftrightarrow> distinct (map ru_id rules) \<and> ru_id ` set rules \<inter> seen = {}"
    for seen
    by (induction rules arbitrary: seen) auto
  then show ?thesis by (simp add: validate_unique_rule_ids_def)
qed

subsection \<open>Well-formed configurations\<close>

definition match_well_formed :: "rule_match_config \<Rightarrow> bool" where
  "match_well_formed m \<longleftrightarrow> mc_tool m \<noteq> Some []
     \<and> [] \<notin> set (mc_tool_any m) \<union> set (mc_command_any m) \<union> set (mc_command_contains_any m)
          \<union> set (mc_path_any m) \<union> set (mc_path_glob_any m) \<union> set (mc_argv_source_any m)
          \<union> set (mc_argv_source_glob_any m) \<union> set (mc_argv_source_exclude_flag_any m)
     \<and> (\<forall>pat \<in> set (mc_argv_prefix_any m). pat \<noteq> [] \<and> [] \<notin> set pat)"

definition route_well_formed :: "rule_route_config \<Rightarrow> bool" where
  "route_well_formed r \<longleftrightarrow> is_identifier (rc_provider_id r) \<and> rc_argv r \<noteq> []
     \<and> (\<forall>l. rc_language_id r = Some l \<longrightarrow> is_identifier l)
     \<and> (\<forall>b. rc_binary r = Some b \<longrightarrow> is_binary_name b)"

definition rule_well_formed :: "rule_config \<Rightarrow> bool" where
  "rule_well_formed r \<longleftrightarrow> is_identifier (ru_id r) \<and> ru_message r \<noteq> Some []
     \<and> (\<forall>e. ru_event r = Some e \<longrightarrow> e \<in> config_events)
     \<and> (\<forall>p. ru_platform r = Some p \<longrightarrow> p \<in> config_platforms)
     \<and> distinct (ru_language_ids r) \<and> (\<forall>l \<in> set (ru_language_ids r). is_identifier l)
     \<and> match_well_formed (ru_match r) \<and> (\<forall>route \<in> set (ru_routes r). route_well_formed route)"

definition agent_well_formed :: "resident_agent_config \<Rightarrow> bool" where
  "agent_well_formed a \<longleftrightarrow> ra_name a \<noteq> [] \<and> ra_role a \<noteq> [] \<and> ra_lifecycle a \<noteq> []
     \<and> distinct (ra_roles a) \<and> set (ra_roles a) \<subseteq> session_roles
     \<and> distinct (ra_permissions a) \<and> set (ra_permissions a) \<subseteq> session_permissions
     \<and> [] \<notin> set (ra_main_allowed_asp_command_prefixes a) \<union> set (ra_command_prefixes a)"

definition org_artifacts_well_formed :: "org_artifacts_config \<Rightarrow> bool" where
  "org_artifacts_well_formed c \<longleftrightarrow> 0 < oa_inactive_after_minutes c \<and> oa_artifacts_path c \<noteq> []
     \<and> oa_entry_skill_path c \<noteq> [] \<and> 0 < aw_active_org_file_threshold (oa_archive_warning c)
     \<and> 0 < aw_max_reported_files (oa_archive_warning c) \<and> aw_archives_dir (oa_archive_warning c) \<noteq> []"

definition texts_well_formed :: "hook_config_file \<Rightarrow> bool" where
  "texts_well_formed c \<longleftrightarrow>
     (let p = cf_recovery_prompt c; g = cf_agent_session_guide c;
          m = sm_source_access_compact_subagent (cf_agent_session_messages c)
      in Some [] \<notin> {rp_template p, rp_codex_agent_flow p, rp_claude_agent_flow p, rp_default_agent_flow p,
           gd_register g, gd_list g, gd_show g, gd_reuse g, m}
         \<and> (\<forall>message. m = Some message \<longrightarrow> \<not> is_legacy_receipt_message message))"

definition lane_well_formed :: "execution_lane_config \<Rightarrow> bool" where
  "lane_well_formed l \<longleftrightarrow> el_receipt_kind l \<noteq> [] \<and> (el_enabled l \<longrightarrow> el_command_prefixes l \<noteq> [])
     \<and> [] \<notin> set (el_command_prefixes l) \<and> distinct (el_command_prefixes l)"

definition header_well_formed :: "hook_config_file \<Rightarrow> bool" where
  "header_well_formed c \<longleftrightarrow>
     cf_schema_id c \<in> {None, Some client_hook_config_schema_id}
     \<and> cf_schema_version c \<in> {None, Some client_hook_config_schema_version}
     \<and> cf_protocol_id c \<in> {None, Some hook_protocol_id}
     \<and> cf_protocol_version c \<in> {None, Some hook_protocol_version}"

lemma validates_match [validates]: "validate_match_schema_shape m = Inr () \<longleftrightarrow> match_well_formed m"
  unfolding validate_match_schema_shape_def match_well_formed_def validates by auto

lemma validates_route [validates]: "validate_route_schema_shape r = Inr () \<longleftrightarrow> route_well_formed r"
  unfolding validate_route_schema_shape_def route_well_formed_def validates
  by (auto simp: validates split: option.splits)

lemma validates_rule [validates]: "validate_rule_shape r = Inr () \<longleftrightarrow> rule_well_formed r"
  unfolding validate_rule_shape_def rule_well_formed_def validates by auto

lemma validates_rules [validates]:
  "validate_rule_schema_shape rules = Inr () \<longleftrightarrow> (\<forall>r \<in> set rules. rule_well_formed r)"
  unfolding validate_rule_schema_shape_def validates by (rule refl)

lemma validates_agents [validates]:
  "validate_resident_agents agents = Inr () \<longleftrightarrow> (\<forall>a \<in> set agents. agent_well_formed a)"
proof -
  have "[] \<notin> session_roles" "[] \<notin> session_permissions"
    by (simp_all add: session_roles_def session_permissions_def)
  then have "validate_resident_agent a = Inr () \<longleftrightarrow> agent_well_formed a" for a
    unfolding validate_resident_agent_def agent_well_formed_def validates
    by (auto simp: validates)
  then show ?thesis by (simp add: validate_resident_agents_def validates)
qed

lemma validates_org [validates]:
  "validate_agent_org_artifacts config = Inr () \<longleftrightarrow> (\<forall>c. config = Some c \<longrightarrow> org_artifacts_well_formed c)"
  by (auto simp: validate_agent_org_artifacts_def validate_archive_warning_def
      org_artifacts_well_formed_def validates split: option.splits)

lemma validates_lane [validates]: "validate_execution_lanes l = Inr () \<longleftrightarrow> lane_well_formed l"
  unfolding validate_execution_lanes_def lane_well_formed_def validates by auto

lemma validates_policy [validates]:
  "validate_asp_command_intent_policy p = Inr () \<longleftrightarrow>
     (\<forall>(label, vs) \<in> set (intent_policy_values p). \<forall>v \<in> set vs. str_trim v \<noteq> [])"
  unfolding validate_asp_command_intent_policy_def validates_for_each
  by (auto simp: validates list_ex_iff)

lemma validates_texts:
  "validate_recovery_prompt (cf_recovery_prompt c) = Inr ()
   \<and> validate_agent_session_guide (cf_agent_session_guide c) = Inr ()
   \<and> validate_agent_session_messages (cf_agent_session_messages c) = Inr () \<longleftrightarrow> texts_well_formed c"
  by (auto simp: validate_recovery_prompt_def validate_agent_session_guide_def
      validate_agent_session_messages_def reject_legacy_flat_subagent_receipt_message_def
      texts_well_formed_def Let_def validates split: option.splits)

lemma validates_protocol [validates]: "validate_protocol c = Inr () \<longleftrightarrow> header_well_formed c"
  unfolding validate_protocol_def header_well_formed_def validates by (rule refl)


definition demo_match :: rule_match_config where
  "demo_match = \<lparr>mc_tool = Some ''Bash'', mc_tool_any = [], mc_command_any = [''rm''],
     mc_argv_prefix_any = [[''git'', ''reset'']], mc_command_contains_any = [], mc_path_any = [],
     mc_path_glob_any = [''**/*.rs''], mc_argv_source_any = [], mc_argv_source_glob_any = [],
     mc_argv_source_exclude_flag_any = []\<rparr>"

definition demo_config_rule :: "string \<Rightarrow> rule_config" where
  "demo_config_rule identifier = \<lparr>ru_id = identifier, ru_enabled = True, ru_priority = 1, ru_decision = ConfigDeny,
     ru_reason_kind = Some CfgDirectSourceRead, ru_message = None, ru_language_ids = [''rust''],
     ru_event = Some ''pre-tool'', ru_platform = Some ''codex'', ru_match = demo_match,
     ru_routes = [\<lparr>rc_provider_id = ''rs-harness'', rc_language_id = Some ''rust'', rc_binary = Some ''asp'',
       rc_kind = RouteQuery, rc_argv = [''asp'', ''rust'', ''query''], rc_stdin_mode = None\<rparr>]\<rparr>"

definition no_session_messages :: agent_session_messages where
  "no_session_messages = \<lparr>sm_session_start_reuse = None, sm_session_start_bootstrap = None,
     sm_missing_resident_explore = None, sm_main_restricted_with_child = None,
     sm_main_restricted_without_child = None, sm_binary_gate_with_child = None,
     sm_binary_gate_without_child = None, sm_binary_gate_invalid_child = None,
     sm_binary_gate_registry_blocked = None, sm_source_access_compact = None,
     sm_source_access_compact_repeated = None, sm_source_access_compact_subagent = None\<rparr>"

definition demo_config :: "rule_config list \<Rightarrow> hook_config_file" where
  "demo_config rules = \<lparr>cf_schema_id = Some client_hook_config_schema_id, cf_schema_version = Some ''1'',
     cf_protocol_id = None, cf_protocol_version = None, cf_experimental = (\<lambda>_. None),
     cf_agent_org_artifacts = None,
     cf_recovery_prompt = \<lparr>rp_template = None, rp_codex_agent_flow = None, rp_claude_agent_flow = None,
       rp_default_agent_flow = None\<rparr>,
     cf_agent_session_guide = \<lparr>gd_register = None, gd_list = None, gd_show = None, gd_reuse = None,
       gd_status = None\<rparr>,
     cf_agent_session_messages = no_session_messages,
     cf_resident_agents = [\<lparr>ra_enabled = True, ra_name = ''asp-explore'', ra_role = ''asp_explorer'',
       ra_roles = [''search''], ra_permissions = [''read-only''], ra_codex_agent_name = [],
       ra_lifecycle = ''resident'', ra_session_lifetime = ''24h'',
       ra_main_allowed_asp_command_prefixes = [''asp guide''], ra_command_prefixes = []\<rparr>],
     cf_testing_lane = \<lparr>el_enabled = False, el_command_prefixes = [], el_receipt_kind = ''testing''\<rparr>,
     cf_asp_command_intent_policy = default_asp_command_intent_policy,
     cf_rules = rules\<rparr>"


end
