(* ===== verification/EventState.thy ===== *)
theory EventState
  imports HookRules "HOL-Library.Word"
begin

section \<open>Recorded events and deny replay\<close>

text \<open>
  Models \<open>crates/agent-semantic-hook/src/event_state.rs\<close> and \<open>event_replay.rs\<close>: the append-only
  \<open>events.jsonl\<close> of a project, what the classifier reads back from its tail about the current prompt,
  and the compact form of a denial that is repeated.  The file is a value \<open>state_file\<close>, the clock an
  argument \<open>now\<close>; JSON parsing and printing are the parameters \<open>jp\<close> and \<open>pr\<close>.
\<close>

subsection \<open>Reading the tail\<close>

definition continuation_byte :: "char \<Rightarrow> bool" where
  "continuation_byte c \<longleftrightarrow> 0x80 \<le> (of_char c :: nat) \<and> (of_char c :: nat) \<le> 0xBF"

text \<open>What \<open>String::from_utf8\<close> accepts.\<close>

definition second_byte_ok :: "nat \<Rightarrow> char \<Rightarrow> bool" where
  "second_byte_ok lead c \<longleftrightarrow>
     (let x = (of_char c :: nat) in
      (if lead = 0xE0 then 0xA0 else if lead = 0xF0 then 0x90 else 0x80) \<le> x
      \<and> x \<le> (if lead = 0xED then 0x9F else if lead = 0xF4 then 0x8F else 0xBF))"

fun utf8_valid :: "string \<Rightarrow> bool" where
  "utf8_valid [] = True"
| "utf8_valid (a # rest) =
     (let x = (of_char a :: nat) in
      if x < 0x80 then utf8_valid rest
      else if 0xC2 \<le> x \<and> x \<le> 0xDF
      then (case rest of b # r \<Rightarrow> continuation_byte b \<and> utf8_valid r | [] \<Rightarrow> False)
      else if 0xE0 \<le> x \<and> x \<le> 0xEF
      then (case rest of b # c # r \<Rightarrow> second_byte_ok x b \<and> continuation_byte c \<and> utf8_valid r
            | _ \<Rightarrow> False)
      else if 0xF0 \<le> x \<and> x \<le> 0xF4
      then (case rest of b # c # d # r \<Rightarrow>
              second_byte_ok x b \<and> continuation_byte c \<and> continuation_byte d \<and> utf8_valid r
            | _ \<Rightarrow> False)
      else False)"

definition hook_event_state_tail_bytes :: nat where
  "hook_event_state_tail_bytes = 1024 * 1024"

definition hook_event_state_max_bytes :: nat where
  "hook_event_state_max_bytes = hook_event_state_tail_bytes * 4"

definition hook_event_state_tail_line_cap :: nat where
  "hook_event_state_tail_line_cap = 4096"

definition deny_replay_window_ms :: nat where
  "deny_replay_window_ms = 3 * 60 * 1000"

definition search_pipe_feedback_window_ms :: nat where
  "search_pipe_feedback_window_ms = 10 * 60 * 1000"

definition hook_event_schema_id :: string where
  "hook_event_schema_id = ''agent.semantic-protocols.hook.event''"

definition read_hook_event_state_tail :: "string \<Rightarrow> string + string list" where
  "read_hook_event_state_tail content =
     (let start = length content - hook_event_state_tail_bytes;
          bytes = drop start content
      in if \<not> utf8_valid bytes then Inl ''failed to read hook state''
         else
           (let lines0 = str_lines bytes;
                lines = (if 0 < start then drop 1 lines0 else lines0)
            in Inr (drop (length lines - hook_event_state_tail_line_cap) lines)))"

text \<open>The state file: absent, not accessible, or its bytes.\<close>

datatype state_file = NoStateFile | StateFileError string | StateFile string

definition state_file_lines :: "state_file \<Rightarrow> string + string list option" where
  "state_file_lines f =
     (case f of
        NoStateFile \<Rightarrow> Inr None
      | StateFileError e \<Rightarrow> Inl e
      | StateFile content \<Rightarrow>
          (case read_hook_event_state_tail content of Inl e \<Rightarrow> Inl e | Inr lines \<Rightarrow> Inr (Some lines)))"

subsection \<open>Events\<close>

definition as_u64 :: "json \<Rightarrow> nat option" where
  "as_u64 v = (case v of JInt n \<Rightarrow> if 0 \<le> n \<and> n < 2 ^ 64 then Some (nat n) else None | _ \<Rightarrow> None)"

definition is_recent_for_window :: "json \<Rightarrow> nat \<Rightarrow> nat \<Rightarrow> bool" where
  "is_recent_for_window event now window_ms \<longleftrightarrow>
     (case Option.bind (json_get ''recordedAtUnixMs'' event) as_u64 of
        None \<Rightarrow> False
      | Some recorded_at \<Rightarrow> now - recorded_at \<le> window_ms)"

definition event_matches_prompt_scope :: "json \<Rightarrow> string option \<Rightarrow> string option \<Rightarrow> bool" where
  "event_matches_prompt_scope event session_id transcript_path \<longleftrightarrow>
     (let scope = (case json_get ''fields'' event of Some f \<Rightarrow> f | None \<Rightarrow> event)
      in session_id \<noteq> None \<and> json_get_str ''sessionId'' scope = session_id
         \<or> transcript_path \<noteq> None \<and> json_get_str ''transcriptPath'' scope = transcript_path)"

definition is_prompt_scope_boundary :: "json \<Rightarrow> bool" where
  "is_prompt_scope_boundary event \<longleftrightarrow> json_get_str ''event'' event = Some ''user-prompt''"

definition event_command :: "json \<Rightarrow> string option" where
  "event_command event = Option.bind (json_get ''subject'' event) (json_get_str ''command'')"

subsection \<open>Commands of interest\<close>

datatype asp_search_command_stage = PrimeStage string | PipeStage string

definition asp_search_stage_tokens :: "string list \<Rightarrow> asp_search_command_stage option" where
  "asp_search_stage_tokens tokens =
     (case classify_asp_language_command_tokens tokens of
        None \<Rightarrow> None
      | Some c \<Rightarrow>
          if ac_intent c \<noteq> Reasoning then None
          else if ac_route c = ''search-prime'' then Some (PrimeStage (ac_language_id c))
          else if ac_route c = ''search-pipe'' then Some (PipeStage (ac_language_id c))
          else None)"

definition event_asp_token_index :: "string list \<Rightarrow> nat option" where
  "event_asp_token_index tokens =
     position (\<lambda>t. t = ''asp'' \<or> ends_with t ''/asp'' \<or> ends_with t ''.bin/asp'') tokens"

definition asp_command_tokens :: "string list \<Rightarrow> bool" where
  "asp_command_tokens tokens \<longleftrightarrow> event_asp_token_index tokens \<noteq> None"

datatype asp_direct_source_read_shape = Bounded nat | Unbounded

definition valid_line_span :: "nat \<Rightarrow> nat \<Rightarrow> nat option" where
  "valid_line_span start end_line =
     (if 0 < start \<and> start \<le> end_line then Some (usize_add (end_line - start) 1) else None)"

definition parse_colon_line_span :: "string \<Rightarrow> nat option" where
  "parse_colon_line_span selector =
     (case rsplit_once '':'' selector of
        None \<Rightarrow> None
      | Some (path_or_start, end_text) \<Rightarrow>
          (case parse_usize end_text of
             None \<Rightarrow> None
           | Some end_line \<Rightarrow>
               (case rsplit_once '':'' path_or_start of
                  None \<Rightarrow> if 0 < end_line then Some 1 else None
                | Some (_, start_text) \<Rightarrow>
                    (case parse_usize start_text of
                       None \<Rightarrow> None | Some start \<Rightarrow> valid_line_span start end_line))))"

definition parse_dash_line_span :: "string \<Rightarrow> nat option" where
  "parse_dash_line_span selector =
     (case rsplit_once '':'' selector of
        None \<Rightarrow> None
      | Some (_, range_text) \<Rightarrow>
          (case split_once ''-'' range_text of
             None \<Rightarrow> None
           | Some (start_text, end_text) \<Rightarrow>
               (case (parse_usize start_text, parse_usize end_text) of
                  (Some start, Some end_line) \<Rightarrow> valid_line_span start end_line
                | _ \<Rightarrow> None)))"

definition selector_line_span :: "string \<Rightarrow> nat option" where
  "selector_line_span selector = or_else (parse_colon_line_span selector) (parse_dash_line_span selector)"

definition window_option_value :: "string list \<Rightarrow> string \<Rightarrow> string option" where
  "window_option_value args opt =
     find_map (\<lambda>pair. if pair ! 0 = opt then Some (pair ! 1) else None) (windows 2 args)"

definition asp_query_direct_source_read_shape_tokens ::
  "string list \<Rightarrow> asp_direct_source_read_shape option" where
  "asp_query_direct_source_read_shape_tokens tokens =
     (case event_asp_token_index tokens of
        None \<Rightarrow> None
      | Some asp_index \<Rightarrow>
          (let after_asp = drop (asp_index + 1) tokens;
               query_tokens =
                 (if get_at after_asp 0 = Some ''query'' then Some after_asp
                  else if get_at after_asp 1 = Some ''query'' then Some (drop 1 after_asp)
                  else None)
           in case query_tokens of
                None \<Rightarrow> None
              | Some query \<Rightarrow>
                  if \<not> list_ex (\<lambda>pair. pair ! 0 = ''--from-hook'' \<and> pair ! 1 = ''direct-source-read'')
                         (windows 2 query)
                  then None
                  else (case window_option_value query ''--selector'' of
                          None \<Rightarrow> Some Unbounded
                        | Some selector \<Rightarrow>
                            (case selector_line_span selector of
                               Some span \<Rightarrow> Some (Bounded span)
                             | None \<Rightarrow> Some Unbounded))))"

subsection \<open>Readers\<close>

record search_pipe_feedback =
  fb_language_id :: string
  fb_saw_pipe :: bool
  fb_pipe_command_tokens :: "string list list"

text \<open>One reader: the newest line first, with the skips and stops of the source's loops.\<close>

fun flow_loop ::
  "bash_parser \<Rightarrow> json_parser \<Rightarrow> nat \<Rightarrow> string option \<Rightarrow> string option \<Rightarrow> string list
     \<Rightarrow> string option \<times> bool \<times> string list list \<Rightarrow> (string option \<times> bool \<times> string list list) shell_result" where
  "flow_loop parse jp now session_id transcript_path [] acc = Inr acc"
| "flow_loop parse jp now session_id transcript_path (line # lines) acc =
     (case jp line of
        None \<Rightarrow> flow_loop parse jp now session_id transcript_path lines acc
      | Some event \<Rightarrow>
          if \<not> is_recent_for_window event now search_pipe_feedback_window_ms then Inr acc
          else if \<not> event_matches_prompt_scope event session_id transcript_path
          then flow_loop parse jp now session_id transcript_path lines acc
          else if is_prompt_scope_boundary event then Inr acc
          else (case event_command event of
                  None \<Rightarrow> flow_loop parse jp now session_id transcript_path lines acc
                | Some command \<Rightarrow>
                    shell_bind (semantic_shell_tokens parse command) (\<lambda>tokens.
                      flow_loop parse jp now session_id transcript_path lines
                        (case (asp_search_stage_tokens tokens, acc) of
                           (Some (PipeStage l), prime_language, saw_pipe, pipes) \<Rightarrow>
                             (or_else prime_language (Some l), True, pipes @ [tokens])
                         | (Some (PrimeStage l), prime_language, saw_pipe, pipes) \<Rightarrow>
                             (or_else prime_language (Some l), saw_pipe, pipes)
                         | (None, _) \<Rightarrow> acc))))"

type_synonym 'a state_result = "(string + 'a) shell_result"

definition prompt_search_flow_after_prime ::
  "bash_parser \<Rightarrow> json_parser \<Rightarrow> nat \<Rightarrow> state_file \<Rightarrow> string option \<Rightarrow> string option
     \<Rightarrow> search_pipe_feedback option state_result" where
  "prompt_search_flow_after_prime parse jp now f session_id transcript_path =
     (if session_id = None \<and> transcript_path = None then Inr (Inr None)
      else (case state_file_lines f of
              Inl e \<Rightarrow> Inr (Inl e)
            | Inr None \<Rightarrow> Inr (Inr None)
            | Inr (Some lines) \<Rightarrow>
                shell_bind (flow_loop parse jp now session_id transcript_path (rev lines) (None, False, []))
                  (\<lambda>(prime_language, saw_pipe, pipes). Inr (Inr (map_option (\<lambda>l.
                     \<lparr>fb_language_id = l, fb_saw_pipe = saw_pipe, fb_pipe_command_tokens = pipes\<rparr>)
                     prime_language)))))"

definition missing_search_pipe_after_prime ::
  "bash_parser \<Rightarrow> json_parser \<Rightarrow> nat \<Rightarrow> state_file \<Rightarrow> string option \<Rightarrow> string option
     \<Rightarrow> search_pipe_feedback option state_result" where
  "missing_search_pipe_after_prime parse jp now f session_id transcript_path =
     shell_bind (prompt_search_flow_after_prime parse jp now f session_id transcript_path)
       (\<lambda>r. Inr (case r of
            Inr (Some feedback) \<Rightarrow> Inr (if fb_saw_pipe feedback then None else Some feedback)
          | _ \<Rightarrow> r))"

fun subagent_loop ::
  "json_parser \<Rightarrow> nat \<Rightarrow> string option \<Rightarrow> string option \<Rightarrow> string list \<Rightarrow> bool" where
  "subagent_loop jp now session_id transcript_path [] = False"
| "subagent_loop jp now session_id transcript_path (line # lines) =
     (case jp line of
        None \<Rightarrow> subagent_loop jp now session_id transcript_path lines
      | Some event \<Rightarrow>
          if \<not> is_recent_for_window event now search_pipe_feedback_window_ms then False
          else if \<not> event_matches_prompt_scope event session_id transcript_path
          then subagent_loop jp now session_id transcript_path lines
          else if is_prompt_scope_boundary event then False
          else if json_get_str ''event'' event = Some ''subagent-start'' then True
          else if json_get_str ''event'' event = Some ''subagent-stop'' then False
          else if Option.bind (Option.bind (json_get ''fields'' event) (json_get ''subagentContext''))
                    as_bool = Some True
          then True
          else subagent_loop jp now session_id transcript_path lines)"

definition has_recorded_subagent_context ::
  "json_parser \<Rightarrow> nat \<Rightarrow> state_file \<Rightarrow> string option \<Rightarrow> string option \<Rightarrow> string + bool" where
  "has_recorded_subagent_context jp now f session_id transcript_path =
     (if session_id = None \<and> transcript_path = None then Inr False
      else (case state_file_lines f of
              Inl e \<Rightarrow> Inl e
            | Inr None \<Rightarrow> Inr False
            | Inr (Some lines) \<Rightarrow> Inr (subagent_loop jp now session_id transcript_path (rev lines))))"

fun count_loop ::
  "bash_parser \<Rightarrow> json_parser \<Rightarrow> nat \<Rightarrow> string option \<Rightarrow> string option \<Rightarrow> string list \<Rightarrow> nat
     \<Rightarrow> nat shell_result" where
  "count_loop parse jp now session_id transcript_path [] count = Inr count"
| "count_loop parse jp now session_id transcript_path (line # lines) count =
     (case jp line of
        None \<Rightarrow> count_loop parse jp now session_id transcript_path lines count
      | Some event \<Rightarrow>
          if \<not> is_recent_for_window event now search_pipe_feedback_window_ms then Inr count
          else if \<not> event_matches_prompt_scope event session_id transcript_path
          then count_loop parse jp now session_id transcript_path lines count
          else if is_prompt_scope_boundary event then Inr count
          else if json_get_str ''event'' event \<noteq> Some ''post-tool''
          then count_loop parse jp now session_id transcript_path lines count
          else (case event_command event of
                  None \<Rightarrow> count_loop parse jp now session_id transcript_path lines count
                | Some command \<Rightarrow>
                    shell_bind (semantic_shell_tokens parse command) (\<lambda>tokens.
                      count_loop parse jp now session_id transcript_path lines
                        (if asp_command_tokens tokens then count + 1 else count))))"

definition prompt_asp_command_count ::
  "bash_parser \<Rightarrow> json_parser \<Rightarrow> nat \<Rightarrow> state_file \<Rightarrow> string option \<Rightarrow> string option \<Rightarrow> nat state_result" where
  "prompt_asp_command_count parse jp now f session_id transcript_path =
     (if session_id = None \<and> transcript_path = None then Inr (Inr 0)
      else (case state_file_lines f of
              Inl e \<Rightarrow> Inr (Inl e)
            | Inr None \<Rightarrow> Inr (Inr 0)
            | Inr (Some lines) \<Rightarrow>
                shell_bind (count_loop parse jp now session_id transcript_path (rev lines) 0)
                  (\<lambda>count. Inr (Inr count))))"

subsection \<open>Replay keys\<close>

definition field_or_null :: "hook_decision \<Rightarrow> string \<Rightarrow> json" where
  "field_or_null d key = (case field_of d key of Some v \<Rightarrow> v | None \<Rightarrow> JNull)"

definition source_access_reasons :: "reason_kind set" where
  "source_access_reasons =
     {BulkSourceDump, DirectSourceRead, RawBroadSearch, SourceDirectoryEnumeration}"

definition deny_replay_key :: "json_printer \<Rightarrow> hook_decision \<Rightarrow> string option" where
  "deny_replay_key pr d =
     (if d_decision d \<noteq> Deny then None
      else if d_reason_kind d \<in> source_access_reasons then
        pr (JObject [(''platform'', JString (d_platform d)),
          (''replayFamily'', JString ''source-access-recovery''),
          (''cwd'', field_or_null d ''cwd''), (''sessionId'', field_or_null d ''sessionId''),
          (''transcriptPath'', field_or_null d ''transcriptPath'')])
      else
        (let routes = map (\<lambda>r. JObject [(''languageId'', JString (r_language_id r)),
               (''providerId'', JString (r_provider_id r)),
               (''kind'', JString (route_kind_str (r_kind r))), (''argv'', json_strings (r_argv r))])
               (d_routes d);
             subject = (if routes = [] then subject_value (d_subject d) else JNull)
         in pr (JObject [(''platform'', JString (d_platform d)),
              (''reasonKind'', JString (reason_kind_str (d_reason_kind d))),
              (''languageIds'', json_strings (sort_dedup (d_language_ids d))),
              (''operationIntent'', field_or_null d ''operationIntent''),
              (''toolSurface'', field_or_null d ''toolSurface''),
              (''sessionId'', field_or_null d ''sessionId''),
              (''transcriptPath'', field_or_null d ''transcriptPath''),
              (''routes'', JArray routes), (''subject'', subject)])))"

definition is_source_access_replay_key :: "json_parser \<Rightarrow> string \<Rightarrow> bool" where
  "is_source_access_replay_key jp key \<longleftrightarrow>
     Option.bind (jp key) (json_get_str ''replayFamily'') = Some ''source-access-recovery''"

text \<open>The FNV-1a hash of the key, at its width.\<close>

definition fnv_step :: "char \<Rightarrow> 64 word \<Rightarrow> 64 word" where
  "fnv_step c h = xor h (of_char c) * 0x100000001b3"

definition hex_digit :: "nat \<Rightarrow> char" where
  "hex_digit n = ''0123456789abcdef'' ! n"

fun hex_digits :: "nat \<Rightarrow> nat \<Rightarrow> string" where
  "hex_digits 0 n = []"
| "hex_digits (Suc k) n = hex_digits k (n div 16) @ [hex_digit (n mod 16)]"

definition replay_key_hash :: "string \<Rightarrow> string" where
  "replay_key_hash key = hex_digits 16 (unat (fold fnv_step key 0xcbf29ce484222325))"

definition recovery_ref_for_replay_key :: "json_parser \<Rightarrow> string \<Rightarrow> string" where
  "recovery_ref_for_replay_key jp key =
     (if is_source_access_replay_key jp key then ''source-access'' else ''hook-deny'')
     @ '':'' @ replay_key_hash key"

subsection \<open>Replay messages\<close>

definition render_compact_source_access_template ::
  "hook_decision \<Rightarrow> string \<Rightarrow> string \<Rightarrow> string \<Rightarrow> string option" where
  "render_compact_source_access_template d field reason recovery_ref =
     (case Option.bind (field_of d field) as_str of
        None \<Rightarrow> None
      | Some template \<Rightarrow>
          (let resident = (case Option.bind (field_of d ''residentChildName'') as_str of
                 Some name \<Rightarrow> name | None \<Rightarrow> ''asp-explore'')
           in Some (str_trim (str_replace ''{{residentChildName}}'' resident
                (str_replace ''{{recoveryRef}}'' recovery_ref
                  (str_replace ''{{reason}}'' reason template))))))"

definition compact_source_access_deny_message :: "hook_decision \<Rightarrow> string \<Rightarrow> string" where
  "compact_source_access_deny_message d recovery_ref =
     (let reason = reason_kind_str (d_reason_kind d);
          or_default = (\<lambda>template default. case template of Some m \<Rightarrow> m | None \<Rightarrow> default)
      in if Option.bind (field_of d ''denyReplay'') as_str = Some ''repeated'' then
           or_default
             (render_compact_source_access_template d ''sourceAccessCompactRepeatedMessage'' reason recovery_ref)
             (''ASP denied source access again (`'' @ reason
              @ (''`). Stay in the resident-child interactive loop with `asp agent session bootstrap ''
      @ ''--name asp-explore`; choose one number and re-enter until state=Ready.''
      @ newline
      @ ''recoveryRef='')
              @ recovery_ref)
         else if Option.bind (field_of d ''subagentContext'') as_bool = Some True then
           or_default
             (render_compact_source_access_template d ''sourceAccessCompactSubagentMessage'' reason recovery_ref)
             (''ASP denied source access (`'' @ reason
              @ (''`) inside asp-explore. Use ASP query/search routes and return one compact ''
      @ ''`[asp-search-subagent]` graph-route receipt with ''
      @ ''schema/intent/route/state/evidence/next; do not return source bodies, snippets, or ''
      @ ''line-range selectors.''
      @ newline
      @ ''recoveryRef='')
              @ recovery_ref)
         else
           or_default
             (render_compact_source_access_template d ''sourceAccessCompactMessage'' reason recovery_ref)
             (''ASP denied source access (`'' @ reason
              @ (''`). Enter the resident-child interactive loop with `asp agent session bootstrap --name ''
      @ ''asp-explore`; choose one number, perform the native platform action, then re-enter ''
      @ ''until state=Ready.''
      @ newline
      @ ''recoveryRef='')
              @ recovery_ref))"

definition should_compact_source_access_deny_message :: "hook_decision \<Rightarrow> bool" where
  "should_compact_source_access_deny_message d \<longleftrightarrow>
     field_of d ''configRuleId'' = None
     \<and> (starts_with (d_message d) ''ASP hook blocked `'' \<or> starts_with (d_message d) ''ASP denied `'')"

definition repeated_deny_message :: "hook_decision \<Rightarrow> string" where
  "repeated_deny_message d =
     str_join newline
       [''ASP hook already denied `'' @ reason_kind_str (d_reason_kind d) @ ''` on this source-access lane.'',
        ''See @.agents/skills/agent-semantic-protocols/SKILL.md for the active ASP agent workflow.'',
        [],
        ''## ASP Hook Recovery'',
        (''Enter the resident-child interactive loop with `asp agent session bootstrap --name ''
      @ ''asp-explore`; choose one number and re-enter until state=Ready.''),
        [],
        ''## Stop'',
        ''Do not switch to another evidence channel. The hook has already denied this lane.'']"

subsection \<open>Replay of a denial\<close>

definition should_preserve_agent_session_route_message :: "hook_decision \<Rightarrow> bool" where
  "should_preserve_agent_session_route_message d \<longleftrightarrow>
     field_of d ''agentSessionAction'' \<noteq> None \<and> field_of d ''agentSessionRoute'' \<noteq> None"

definition insert_asp_explore_recovery_action_fields :: "hook_decision \<Rightarrow> hook_decision" where
  "insert_asp_explore_recovery_action_fields d =
     fold (\<lambda>(key, v). or_insert_field key (JString v))
       [(''requiredAction'', ''enter-asp-explore-choice-pane''),
        (''nextAction'', ''choose-one-bootstrap-pane-option''),
        (''targetAgentName'', ''asp_explorer''), (''targetAgentRole'', ''asp_explorer''),
        (''targetAgentSelectionSource'', ''hook-deny-intent''),
        (''targetAgentRegistrySource'', ''~/.agent-semantic-protocols/agents/config.toml''),
        (''forbiddenUntilResolved'', ''raw-source-fallback''),
        (''completionReceipt'', ''asp-explore-choice-pane-receipt'')] d"

fun matching_deny_loop :: "json_parser \<Rightarrow> nat \<Rightarrow> string \<Rightarrow> string \<Rightarrow> string list \<Rightarrow> bool" where
  "matching_deny_loop jp now key key_json [] = False"
| "matching_deny_loop jp now key key_json (line # lines) =
     (if \<not> str_contains line key_json then matching_deny_loop jp now key key_json lines
      else (case jp line of
              None \<Rightarrow> matching_deny_loop jp now key key_json lines
            | Some event \<Rightarrow>
                if \<not> is_recent_for_window event now deny_replay_window_ms then False
                else if json_get_str ''decision'' event = Some ''deny''
                        \<and> json_get_str ''denyReplayKey'' event = Some key
                then True
                else matching_deny_loop jp now key key_json lines))"

definition has_recent_matching_deny ::
  "json_parser \<Rightarrow> json_printer \<Rightarrow> nat \<Rightarrow> state_file \<Rightarrow> string \<Rightarrow> string + bool" where
  "has_recent_matching_deny jp pr now f key =
     (case f of
        StateFileError e \<Rightarrow> Inl e
      | NoStateFile \<Rightarrow> Inr False
      | StateFile content \<Rightarrow>
          (case pr (JString key) of
             None \<Rightarrow> Inl ''failed to encode hook replay key''
           | Some key_json \<Rightarrow>
               (case read_hook_event_state_tail content of
                  Inl e \<Rightarrow> Inl e
                | Inr lines \<Rightarrow> Inr (matching_deny_loop jp now key key_json (rev lines)))))"

text \<open>The result and the decision it leaves; on an error the fields set so far remain.\<close>

definition apply_repeated_deny_replay ::
  "json_parser \<Rightarrow> json_printer \<Rightarrow> nat \<Rightarrow> state_file \<Rightarrow> hook_decision \<Rightarrow> (string + bool) \<times> hook_decision" where
  "apply_repeated_deny_replay jp pr now f d =
     (case deny_replay_key pr d of
        None \<Rightarrow> (Inr False, d)
      | Some key \<Rightarrow>
          (let recovery_ref = recovery_ref_for_replay_key jp key;
               source_access = is_source_access_replay_key jp key;
               d1 = insert_field ''recoveryRef'' (JString recovery_ref)
                      (insert_field ''denyReplayKey'' (JString key) d);
               d2 = (if source_access then insert_asp_explore_recovery_action_fields d1 else d1);
               preserve = should_preserve_agent_session_route_message d2;
               compact_first = source_access \<and> should_compact_source_access_deny_message d2;
               keep = insert_field ''denyReplayMessagePolicy'' (JString ''preserve-agent-session-route'')
           in case has_recent_matching_deny jp pr now f key of
                Inl e \<Rightarrow> (Inl e, d2)
              | Inr False \<Rightarrow>
                  (let d3 = insert_field ''denyReplay'' (JString ''record'') d2
                   in (Inr False,
                       if preserve then keep d3
                       else if compact_first
                       then d3\<lparr>d_message := compact_source_access_deny_message d3 recovery_ref\<rparr>
                       else d3))
              | Inr True \<Rightarrow>
                  (let d3 = insert_field ''denyReplay'' (JString ''repeated'') d2
                   in (Inr True,
                       if preserve then keep d3
                       else d3\<lparr>d_message :=
                         (if source_access then compact_source_access_deny_message d3 recovery_ref
                          else repeated_deny_message d3)\<rparr>))))"

subsection \<open>Recording\<close>

definition optional_value :: "json option \<Rightarrow> json" where
  "optional_value v = (case v of None \<Rightarrow> JNull | Some w \<Rightarrow> w)"

definition hook_event_value :: "nat \<Rightarrow> hook_decision \<Rightarrow> json" where
  "hook_event_value now d = JObject
     [(''schemaId'', JString hook_event_schema_id), (''schemaVersion'', JString ''1''),
      (''protocolId'', JString (d_protocol_id d)), (''protocolVersion'', JString (d_protocol_version d)),
      (''recordedAtUnixMs'', JInt (int now)), (''platform'', JString (d_platform d)),
      (''event'', JString (d_event d)), (''decision'', JString (decision_kind_str (d_decision d))),
      (''reasonKind'', JString (reason_kind_str (d_reason_kind d))),
      (''languageIds'', json_strings (d_language_ids d)), (''subject'', subject_value (d_subject d)),
      (''routeKinds'', JArray (map (\<lambda>r. JString (route_kind_str (r_kind r))) (d_routes d))),
      (''fields'', JObject (d_fields d)),
      (''denyReplayKey'', optional_value (field_of d ''denyReplayKey''))]"

text \<open>
  The bytes of the file after appending one event: a file past the limit is truncated first.
  \<open>to_string\<close> of a value is \<open>pr\<close> as well.
\<close>

definition append_hook_event_state ::
  "json_printer \<Rightarrow> nat \<Rightarrow> state_file \<Rightarrow> hook_decision \<Rightarrow> string + state_file" where
  "append_hook_event_state pr now f d =
     (case (f, pr (hook_event_value now d)) of
        (StateFileError e, _) \<Rightarrow> Inl e
      | (_, None) \<Rightarrow> Inl ''failed to write hook state''
      | (NoStateFile, Some line) \<Rightarrow> Inr (StateFile (line @ newline))
      | (StateFile content, Some line) \<Rightarrow>
          Inr (StateFile ((if hook_event_state_max_bytes < length content then [] else content)
            @ line @ newline)))"

definition is_current_hook_event_state_line :: "json_parser \<Rightarrow> string \<Rightarrow> bool" where
  "is_current_hook_event_state_line jp line \<longleftrightarrow>
     (case jp line of
        None \<Rightarrow> False
      | Some v \<Rightarrow> json_get_str ''schemaId'' v = Some hook_event_schema_id
          \<and> json_get_str ''protocolId'' v = Some hook_protocol_id)"

text \<open>
  Whether the file is removed: its first line with text is not a line of this protocol.  \<open>read_line\<close>
  fails on a line that is not UTF-8.
\<close>

fun removes_loop :: "json_parser \<Rightarrow> string list \<Rightarrow> string + bool" where
  "removes_loop jp [] = Inr False"
| "removes_loop jp (line # lines) =
     (if \<not> utf8_valid line then Inl ''failed to read hook state''
      else if str_trim line = [] then removes_loop jp lines
      else Inr (\<not> is_current_hook_event_state_line jp line))"

definition remove_incompatible_hook_event_state :: "json_parser \<Rightarrow> state_file \<Rightarrow> string + bool" where
  "remove_incompatible_hook_event_state jp f =
     (case f of
        NoStateFile \<Rightarrow> Inr False
      | StateFileError e \<Rightarrow> Inl e
      | StateFile content \<Rightarrow> removes_loop jp (str_lines content))"

subsection \<open>The current prompt\<close>

text \<open>
  Every reader looks at the same events, newest first: those recorded inside the window without a gap,
  of the same session or transcript, after the last prompt of the user.
\<close>

definition current_prompt_events ::
  "json_parser \<Rightarrow> nat \<Rightarrow> string option \<Rightarrow> string option \<Rightarrow> string list \<Rightarrow> json list" where
  "current_prompt_events jp now session_id transcript_path lines =
     takeWhile (\<lambda>e. \<not> is_prompt_scope_boundary e)
       (filter (\<lambda>e. event_matches_prompt_scope e session_id transcript_path)
         (takeWhile (\<lambda>e. is_recent_for_window e now search_pipe_feedback_window_ms)
           (List.map_filter jp (rev lines))))"

fun tokens_of_commands :: "bash_parser \<Rightarrow> string list \<Rightarrow> string list list shell_result" where
  "tokens_of_commands parse [] = Inr []"
| "tokens_of_commands parse (c # cs) =
     shell_bind (semantic_shell_tokens parse c) (\<lambda>t.
       shell_bind (tokens_of_commands parse cs) (\<lambda>ts. Inr (t # ts)))"

definition stage_language :: "asp_search_command_stage \<Rightarrow> string" where
  "stage_language s = (case s of PrimeStage l \<Rightarrow> l | PipeStage l \<Rightarrow> l)"

definition is_pipe_command :: "string list \<Rightarrow> bool" where
  "is_pipe_command tokens \<longleftrightarrow> (\<exists>l. asp_search_stage_tokens tokens = Some (PipeStage l))"

text \<open>What the flow reports of the commands' tokens: the newest stage's language and all pipes.\<close>

definition search_flow_of :: "string list list \<Rightarrow> string option \<times> bool \<times> string list list" where
  "search_flow_of commands =
     (map_option stage_language (find_map asp_search_stage_tokens commands),
      list_ex is_pipe_command commands, filter is_pipe_command commands)"

lemmas prompt_events_simps = current_prompt_events_def List.map_filter_simps

definition prepend_flow ::
  "string option \<times> bool \<times> string list list \<Rightarrow> string option \<times> bool \<times> string list list
     \<Rightarrow> string option \<times> bool \<times> string list list" where
  "prepend_flow a b = (or_else (fst a) (fst b), fst (snd a) \<or> fst (snd b), snd (snd a) @ snd (snd b))"

lemma shell_bind_assoc:
  "shell_bind (shell_bind r f) g = shell_bind r (\<lambda>x. shell_bind (f x) g)"
  by (cases r) (simp_all add: shell_bind_def)

lemma shell_bind_cong: "(\<And>x. f x = g x) \<Longrightarrow> shell_bind r f = shell_bind r g"
  by (cases r) (simp_all add: shell_bind_def)

lemma shell_bind_of_Inr: "shell_bind (Inr x) f = f x"
  by (simp add: shell_bind_def)

lemma prepend_flow_step:
  "prepend_flow (case asp_search_stage_tokens t of None \<Rightarrow> acc
     | Some (PrimeStage l) \<Rightarrow> (case acc of (prime_language, saw_pipe, pipes) \<Rightarrow>
         (or_else prime_language (Some l), saw_pipe, pipes))
     | Some (PipeStage l) \<Rightarrow> (case acc of (prime_language, saw_pipe, pipes) \<Rightarrow>
         (or_else prime_language (Some l), True, pipes @ [t])))
       (search_flow_of ts) =
   prepend_flow acc (search_flow_of (t # ts))"
  by (cases acc) (auto simp: prepend_flow_def search_flow_of_def is_pipe_command_def stage_language_def
      or_else_def split: option.splits asp_search_command_stage.splits)

lemma flow_loop_prompt_events:
  "flow_loop parse jp now session_id transcript_path (rev lines) acc =
     shell_bind (tokens_of_commands parse
         (List.map_filter event_command (current_prompt_events jp now session_id transcript_path lines)))
       (\<lambda>commands. Inr (prepend_flow acc (search_flow_of commands)))"
proof -
  have nil: "prepend_flow a (search_flow_of []) = a" for a
    by (cases a) (simp add: prepend_flow_def search_flow_of_def or_else_def split: option.splits)
  have "flow_loop parse jp now session_id transcript_path ls acc =
     shell_bind (tokens_of_commands parse
         (List.map_filter event_command (current_prompt_events jp now session_id transcript_path (rev ls))))
       (\<lambda>commands. Inr (prepend_flow acc (search_flow_of commands)))" for ls
  proof (induction ls arbitrary: acc)
    case Nil
    show ?case by (simp add: prompt_events_simps shell_bind_of_Inr nil)
  next
    case (Cons l ls)
    show ?case
    proof (cases "jp l")
      case None
      then show ?thesis by (simp add: prompt_events_simps Cons.IH)
    next
      case (Some e)
      then show ?thesis
        by (cases "event_command e"; auto simp: prompt_events_simps shell_bind_assoc prepend_flow_step
            Cons.IH shell_bind_of_Inr nil intro!: shell_bind_cong)
    qed
  qed
  from this [of "rev lines"] show ?thesis by simp
qed

definition subagent_mark :: "json \<Rightarrow> bool option" where
  "subagent_mark e =
     (if json_get_str ''event'' e = Some ''subagent-start'' then Some True
      else if json_get_str ''event'' e = Some ''subagent-stop'' then Some False
      else if Option.bind (Option.bind (json_get ''fields'' e) (json_get ''subagentContext'')) as_bool
                = Some True
      then Some True else None)"

lemma subagent_loop_prompt_events:
  "subagent_loop jp now session_id transcript_path (rev lines) \<longleftrightarrow>
     find_map subagent_mark (current_prompt_events jp now session_id transcript_path lines) = Some True"
proof -
  have "subagent_loop jp now session_id transcript_path ls \<longleftrightarrow>
     find_map subagent_mark (current_prompt_events jp now session_id transcript_path (rev ls)) = Some True" for ls
  proof (induction ls)
    case Nil
    show ?case by (simp add: prompt_events_simps)
  next
    case (Cons l ls)
    show ?case
      by (cases "jp l"; simp add: prompt_events_simps Cons.IH subagent_mark_def)
  qed
  from this [of "rev lines"] show ?thesis by simp
qed

definition is_post_tool :: "json \<Rightarrow> bool" where
  "is_post_tool e \<longleftrightarrow> json_get_str ''event'' e = Some ''post-tool''"

lemma count_loop_prompt_events:
  "count_loop parse jp now session_id transcript_path (rev lines) n =
     shell_bind (tokens_of_commands parse (List.map_filter event_command
         (filter is_post_tool (current_prompt_events jp now session_id transcript_path lines))))
       (\<lambda>commands. Inr (n + length (filter asp_command_tokens commands)))"
proof -
  have "count_loop parse jp now session_id transcript_path ls n =
     shell_bind (tokens_of_commands parse (List.map_filter event_command
         (filter is_post_tool (current_prompt_events jp now session_id transcript_path (rev ls)))))
       (\<lambda>commands. Inr (n + length (filter asp_command_tokens commands)))" for ls
  proof (induction ls arbitrary: n)
    case Nil
    show ?case by (simp add: prompt_events_simps shell_bind_of_Inr)
  next
    case (Cons l ls)
    show ?case
      by (auto simp: prompt_events_simps shell_bind_assoc Cons.IH is_post_tool_def
          shell_bind_of_Inr intro!: shell_bind_cong split: option.splits)
  qed
  from this [of "rev lines"] show ?thesis by simp
qed

text \<open>C14: What the classifier reads back from the recorded events is about the current prompt alone: the
  events that are recorded inside the window without a gap, belong to the session or the transcript, and
  follow the last prompt of the user.  Among those, the search flow is the language of the newest search
  command and all pipes, the count is the number of finished asp commands, and the context is a subagent
  exactly when the newest event that tells says so.\<close>

theorem readers_see_current_prompt:
  assumes scope: "session_id \<noteq> None \<or> transcript_path \<noteq> None"
    and read: "state_file_lines f = Inr (Some lines)"
  shows "let events = current_prompt_events jp now session_id transcript_path lines in
       prompt_search_flow_after_prime parse jp now f session_id transcript_path =
         shell_bind (tokens_of_commands parse (List.map_filter event_command events)) (\<lambda>commands.
           Inr (Inr (map_option (\<lambda>s.
             \<lparr>fb_language_id = stage_language s, fb_saw_pipe = list_ex is_pipe_command commands,
              fb_pipe_command_tokens = filter is_pipe_command commands\<rparr>)
             (find_map asp_search_stage_tokens commands))))
       \<and> prompt_asp_command_count parse jp now f session_id transcript_path =
         shell_bind (tokens_of_commands parse (List.map_filter event_command (filter is_post_tool events)))
           (\<lambda>commands. Inr (Inr (length (filter asp_command_tokens commands))))
       \<and> has_recorded_subagent_context jp now f session_id transcript_path =
         Inr (find_map subagent_mark events = Some True)"
  using scope
  by (auto simp: prompt_search_flow_after_prime_def prompt_asp_command_count_def Let_def
      has_recorded_subagent_context_def read flow_loop_prompt_events count_loop_prompt_events
      subagent_loop_prompt_events shell_bind_assoc shell_bind_of_Inr prepend_flow_def
      search_flow_of_def option.map_comp comp_def or_else_def intro!: shell_bind_cong)

text \<open>
  Two prompts: the subagent was started under the earlier one, so the current one is not a subagent's.
\<close>

definition demo_event :: "string \<Rightarrow> json" where
  "demo_event event = JObject [(''event'', JString event), (''recordedAtUnixMs'', JInt 1000),
     (''fields'', JObject [(''sessionId'', JString ''s'')])]"

definition demo_events_parser :: json_parser where
  "demo_events_parser t =
     (if t = ''start'' then Some (demo_event ''subagent-start'')
      else if t = ''prompt'' then Some (demo_event ''user-prompt'')
      else if t = ''tool'' then Some (demo_event ''post-tool'')
      else None)"

definition demo_state :: state_file where
  "demo_state = StateFile (''start'' @ newline @ ''prompt'' @ newline @ ''tool'' @ newline)"

lemma read_short_state:
  assumes "length content \<le> hook_event_state_tail_bytes" "utf8_valid content"
  shows "read_hook_event_state_tail content =
    Inr (drop (length (str_lines content) - hook_event_state_tail_line_cap) (str_lines content))"
  using assms by (simp add: read_hook_event_state_tail_def Let_def)

theorem readers_see_current_prompt_witness:
  "state_file_lines demo_state = Inr (Some [''start'', ''prompt'', ''tool''])
   \<and> has_recorded_subagent_context demo_events_parser 2000 demo_state (Some ''s'') None = Inr False"
proof -
  let ?content = "''start'' @ newline @ ''prompt'' @ newline @ ''tool'' @ newline"
  have lines: "str_lines ?content = [''start'', ''prompt'', ''tool'']" by code_simp
  have valid: "utf8_valid ?content" by code_simp
  have read: "state_file_lines demo_state = Inr (Some [''start'', ''prompt'', ''tool''])"
    using read_short_state [OF _ valid] lines
    by (simp add: state_file_lines_def demo_state_def newline_def hook_event_state_tail_bytes_def
        hook_event_state_tail_line_cap_def)
  have "demo_events_parser ''start'' = Some (demo_event ''subagent-start'')"
    "demo_events_parser ''prompt'' = Some (demo_event ''user-prompt'')"
    "demo_events_parser ''tool'' = Some (demo_event ''post-tool'')"
    by (simp_all add: demo_events_parser_def)
  moreover have "is_recent_for_window (demo_event e) 2000 search_pipe_feedback_window_ms"
    "event_matches_prompt_scope (demo_event e) (Some ''s'') None" for e
    by (simp_all add: is_recent_for_window_def demo_event_def search_pipe_feedback_window_ms_def as_u64_def
        event_matches_prompt_scope_def json_get_str_def)
  moreover have "is_prompt_scope_boundary (demo_event ''user-prompt'')"
    "\<not> is_prompt_scope_boundary (demo_event ''post-tool'')"
    "subagent_mark (demo_event ''post-tool'') = None"
    by code_simp+
  ultimately have "find_map subagent_mark
      (current_prompt_events demo_events_parser 2000 (Some ''s'') None [''start'', ''prompt'', ''tool'']) = None"
    by (simp add: current_prompt_events_def List.map_filter_simps)
  then show ?thesis
    using readers_see_current_prompt [OF _ read, of "Some ''s''" None demo_events_parser 2000 one_word_grammar]
      read by (simp add: Let_def)
qed

subsection \<open>A recorded denial is recognised\<close>

text \<open>
  What \<open>serde_json\<close> documents of the text of a value, for one value: it is one line that parses back to
  the value and contains the text of every member.
\<close>

definition prints_back :: "json_parser \<Rightarrow> json_printer \<Rightarrow> json \<Rightarrow> bool" where
  "prints_back jp pr v \<longleftrightarrow>
     (\<forall>t. pr v = Some t \<longrightarrow> t \<noteq> [] \<and> jp t = Some v \<and> CHR 0x0A \<notin> set t \<and> CHR 0x0D \<notin> set t
        \<and> (\<forall>members. v = JObject members \<longrightarrow>
              (\<forall>(k, w) \<in> set members. \<forall>s. pr w = Some s \<longrightarrow> str_contains t s)))"

text \<open>Every line of the file is ended, as \<open>append_hook_event_state\<close> leaves it.\<close>

definition lines_ended :: "state_file \<Rightarrow> bool" where
  "lines_ended f \<longleftrightarrow> (\<forall>content. f = StateFile content \<longrightarrow> content = [] \<or> last content = CHR 0x0A)"

lemma append_keeps_lines_ended:
  "append_hook_event_state pr now f d = Inr f' \<Longrightarrow> lines_ended f'"
  by (auto simp: append_hook_event_state_def lines_ended_def newline_def split: state_file.splits option.splits)

lemma finish_lines_last:
  "l \<noteq> [] \<Longrightarrow> CHR 0x0D \<notin> set l \<Longrightarrow> \<exists>before. finish_lines (ls @ [l, []]) = before @ [l]"
proof (induction ls)
  case Nil
  then have "strip_suffix [CHR 0x0D] l = None"
    by (auto simp: strip_suffix_def suffix_def split: option.splits)
  then show ?case by simp
next
  case (Cons x xs)
  then obtain before where before: "finish_lines (xs @ [l, []]) = before @ [l]" by auto
  obtain m ms where ms: "xs @ [l, []] = m # ms" by (cases xs) auto
  with before show ?case by (auto split: option.splits)
qed

lemma split_by_ended:
  "content = [] \<or> last content = c \<Longrightarrow> \<exists>ls. split_by (\<lambda>d. d = c) content = ls @ [[]]"
proof (induction content)
  case (Cons x xs)
  show ?case
  proof (cases "xs = []")
    case True
    with Cons show ?thesis by (cases "x = c") auto
  next
    case False
    with Cons obtain ls where ls: "split_by (\<lambda>d. d = c) xs = ls @ [[]]" by auto
    show ?thesis
    proof (cases ls)
      case Nil
      with ls have "split_by (\<lambda>d. d = c) xs = [[]]" by simp
      then have "str_join [c] [[]] = xs" using join_split_by [of c xs] by simp
      with False show ?thesis by simp
    next
      case (Cons m ms)
      with ls show ?thesis by auto
    qed
  qed
qed simp

lemma split_by_two:
  "split_by (\<lambda>d. d = c) xs = ls @ [[]] \<Longrightarrow> split_by (\<lambda>d. d = c) (xs @ ys) = ls @ split_by (\<lambda>d. d = c) ys"
proof (induction xs arbitrary: ls)
  case (Cons x xs)
  show ?case
  proof (cases "x = c")
    case True
    with Cons.prems have e: "[] # split_by (\<lambda>d. d = c) xs = ls @ [[]]" by simp
    then obtain ls' where "ls = [] # ls'" "split_by (\<lambda>d. d = c) xs = ls' @ [[]]"
      by (cases ls) auto
    with Cons.IH True show ?thesis by simp
  next
    case False
    obtain m ms where m: "split_by (\<lambda>d. d = c) xs = m # ms" using split_by_ne by (metis neq_Nil_conv)
    with Cons.prems False have e: "(x # m) # ms = ls @ [[]]" by simp
    then obtain ls' where ls: "ls = (x # m) # ls'" "ms = ls' @ [[]]" by (cases ls) auto
    with Cons.IH [of "m # ls'"] m have "split_by (\<lambda>d. d = c) (xs @ ys) = m # ls' @ split_by (\<lambda>d. d = c) ys"
      by simp
    with False ls show ?thesis by simp
  qed
qed simp

lemma str_lines_appended:
  assumes "content = [] \<or> last content = CHR 0x0A" "l \<noteq> []" "CHR 0x0A \<notin> set l" "CHR 0x0D \<notin> set l"
  shows "\<exists>before. str_lines (content @ l @ newline) = before @ [l]"
proof -
  from split_by_ended [OF assms(1)] obtain ls where
    "split_by (\<lambda>c. c = CHR 0x0A) content = ls @ [[]]" by blast
  from split_by_two [OF this, of "l @ newline"] split_by_append [OF assms(3), of "[]"]
  have "split_by (\<lambda>c. c = CHR 0x0A) (content @ l @ newline) = ls @ [l, []]"
    by (simp add: newline_def)
  with finish_lines_last [OF assms(2,4), of ls] show ?thesis by (simp add: str_lines_def)
qed

lemma field_of_insert [simp]:
  "field_of (insert_field k v d) key = (if key = k then Some v else field_of d key)"
  by (simp add: field_of_def insert_field_def update_conv')

lemma field_of_or_insert: "field_of d key = Some v \<Longrightarrow> field_of (or_insert_field k w d) key = Some v"
  by (auto simp: or_insert_field_def) (simp add: field_of_def)

lemma decision_of_inserts [simp]:
  "d_decision (insert_field k v d) = d_decision d" "d_decision (or_insert_field k v d) = d_decision d"
  by (simp_all add: insert_field_def or_insert_field_def)

lemma field_of_message [simp]: "field_of (d\<lparr>d_message := m\<rparr>) key = field_of d key"
  by (simp add: field_of_def)

lemma recovery_fields_keep:
  "field_of d key = Some v \<Longrightarrow> field_of (insert_asp_explore_recovery_action_fields d) key = Some v"
  by (simp add: insert_asp_explore_recovery_action_fields_def field_of_or_insert)

lemma recovery_fields_decision [simp]:
  "d_decision (insert_asp_explore_recovery_action_fields d) = d_decision d"
  by (simp add: insert_asp_explore_recovery_action_fields_def)

lemma replay_keeps_key:
  assumes "apply_repeated_deny_replay jp pr now f d = (r, d1)" "deny_replay_key pr d = Some key"
  shows "field_of d1 ''denyReplayKey'' = Some (JString key)" "d_decision d1 = d_decision d"
  using assms
  by (auto simp: apply_repeated_deny_replay_def Let_def recovery_fields_keep
      split: sum.splits bool.splits if_splits)

lemma event_of_decision:
  "json_get_str ''decision'' (hook_event_value now d) = Some (decision_kind_str (d_decision d))"
  "json_get_str ''denyReplayKey'' (hook_event_value now d) = Option.bind (field_of d ''denyReplayKey'') as_str"
  "json_get ''recordedAtUnixMs'' (hook_event_value now d) = Some (JInt (int now))"
  by (simp_all add: hook_event_value_def json_get_str_def optional_value_def split: option.splits)


text \<open>A printer that writes what the replay needs: strings, the key of a denial, and events.\<close>

definition text_of_string :: "json \<Rightarrow> string" where
  "text_of_string v = (case v of JString s \<Rightarrow> CHR 0x22 # s @ [CHR 0x22] | _ \<Rightarrow> [])"

definition demo_printer :: json_printer where
  "demo_printer v =
     (case v of
        JString s \<Rightarrow> Some (text_of_string v)
      | JObject ms \<Rightarrow>
          if map_of ms ''schemaId'' \<noteq> None then Some (concat (map (\<lambda>(k, w). text_of_string w) ms))
          else if map_of ms ''replayFamily'' \<noteq> None then Some ''key'' else None
      | _ \<Rightarrow> None)"

definition demo_denial :: hook_decision where
  "demo_denial = deny ''codex'' ''pre-tool'' DirectSourceRead [''rust'']
     \<lparr>j_tool_name = None, j_command = None, j_paths = []\<rparr> [] ''denied''"

definition demo_recorded :: hook_decision where
  "demo_recorded = insert_field ''denyReplay'' (JString ''record'')
     (insert_asp_explore_recovery_action_fields
       (insert_field ''recoveryRef'' (JString (''source-access:'' @ replay_key_hash ''key''))
         (insert_field ''denyReplayKey'' (JString ''key'') demo_denial)))"

definition demo_line :: string where
  "demo_line = concat (map (\<lambda>v. text_of_string (JString v))
     [hook_event_schema_id, ''1'', hook_protocol_id, hook_protocol_version, ''codex'', ''pre-tool'', ''deny'',
      ''direct-source-read'', ''key''])"

definition demo_replay_parser :: json_parser where
  "demo_replay_parser t =
     (if t = ''key'' then Some (JObject [(''replayFamily'', JString ''source-access-recovery'')])
      else if t = demo_line then Some (hook_event_value 1000 demo_recorded) else None)"

lemma demo_key: "deny_replay_key demo_printer demo_denial = Some ''key''"
  by (simp add: deny_replay_key_def demo_printer_def demo_denial_def deny_def new_decision_def
      source_access_reasons_def)

lemma demo_recorded_simps:
  "d_protocol_id demo_recorded = hook_protocol_id" "d_protocol_version demo_recorded = hook_protocol_version"
  "d_platform demo_recorded = ''codex''" "d_event demo_recorded = ''pre-tool''"
  "d_decision demo_recorded = Deny" "d_reason_kind demo_recorded = DirectSourceRead"
  by (simp_all add: demo_recorded_def insert_asp_explore_recovery_action_fields_def insert_field_def
      or_insert_field_def demo_denial_def deny_def new_decision_def)

lemma demo_recorded_subject: "d_subject demo_recorded = \<lparr>j_tool_name = None, j_command = None, j_paths = []\<rparr>"
  by (simp add: demo_recorded_def insert_asp_explore_recovery_action_fields_def insert_field_def
      or_insert_field_def demo_denial_def deny_def new_decision_def)

lemma demo_recorded_key: "field_of demo_recorded ''denyReplayKey'' = Some (JString ''key'')"
  by (simp add: demo_recorded_def recovery_fields_keep)

lemma demo_first:
  "apply_repeated_deny_replay demo_replay_parser demo_printer 1000 NoStateFile demo_denial = (Inr False, demo_recorded)"
proof -
  have source: "is_source_access_replay_key demo_replay_parser ''key''"
    by (simp add: is_source_access_replay_key_def demo_replay_parser_def json_get_str_def)
  let ?d2 = "insert_asp_explore_recovery_action_fields
      (insert_field ''recoveryRef'' (JString (''source-access:'' @ replay_key_hash ''key''))
        (insert_field ''denyReplayKey'' (JString ''key'') demo_denial))"
  have "d_message ?d2 = ''denied''" "field_of ?d2 ''agentSessionAction'' = None"
    by (simp_all add: insert_asp_explore_recovery_action_fields_def insert_field_def or_insert_field_def
        field_of_def update_conv' demo_denial_def deny_def new_decision_def)
  then have "\<not> should_preserve_agent_session_route_message ?d2" "\<not> should_compact_source_access_deny_message ?d2"
    by (simp_all add: should_preserve_agent_session_route_message_def
        should_compact_source_access_deny_message_def)
  then show ?thesis
    using source demo_key
    by (simp add: apply_repeated_deny_replay_def Let_def recovery_ref_for_replay_key_def demo_recorded_def
        has_recent_matching_deny_def)
qed

lemma demo_text:
  "demo_printer (hook_event_value 1000 demo_recorded) = Some demo_line"
  by (simp add: demo_printer_def hook_event_value_def demo_recorded_simps demo_recorded_key
      optional_value_def text_of_string_def demo_line_def json_strings_def subject_value_def)

lemma demo_prints_back: "prints_back demo_replay_parser demo_printer (hook_event_value 1000 demo_recorded)"
proof -
  have ok: "demo_line \<noteq> [] \<and> demo_line \<noteq> ''key'' \<and> CHR 0x0A \<notin> set demo_line \<and> CHR 0x0D \<notin> set demo_line"
    by (simp add: demo_line_def text_of_string_def hook_event_schema_id_def hook_protocol_id_def
        hook_protocol_version_def)
  have contains: "str_contains demo_line s"
    if ms0: "hook_event_value 1000 demo_recorded = JObject ms" and kw: "(k, w) \<in> set ms"
      and s: "demo_printer w = Some s"
    for ms k w s
  proof -
    obtain l r where ms: "ms = l @ (k, w) # r" using split_list [OF kw] by blast
    have line: "demo_line = concat (map (\<lambda>(k, w). text_of_string w) ms)"
      using demo_text ms0 ok by (auto simp: demo_printer_def split: if_splits)
    show ?thesis
    proof (cases w)
      case (JString x)
      then have "s = text_of_string w" using s by (simp add: demo_printer_def)
      then show ?thesis unfolding line ms sublist_def by auto
    next
      case (JObject xs)
      then have "xs = d_fields demo_recorded \<or> xs = []"
        using ms0 kw
        by (auto simp: hook_event_value_def optional_value_def demo_recorded_key json_strings_def
            subject_value_def demo_recorded_subject optional_member_def)
      moreover have "map_of (d_fields demo_recorded) ''schemaId'' = None
          \<and> map_of (d_fields demo_recorded) ''replayFamily'' = None"
        by (simp add: demo_recorded_def insert_asp_explore_recovery_action_fields_def insert_field_def
            or_insert_field_def update_conv' demo_denial_def deny_def new_decision_def)
      ultimately show ?thesis using s JObject by (auto simp: demo_printer_def)
    qed (use s in \<open>simp_all add: demo_printer_def\<close>)
  qed
  from ok contains show ?thesis
    using demo_text by (auto simp: prints_back_def demo_replay_parser_def)
qed


text \<open>
  The tail is cut at a byte: inside a character the read fails although the file is UTF-8, and with it
  every reader of the file, until the file grows or is truncated.
\<close>

lemma tail_cut_inside_character:
  defines "content \<equiv> [CHR 0xC3, CHR 0xA9] @ replicate (hook_event_state_tail_bytes - 1) (CHR ''x'')"
  shows "utf8_valid content \<and> read_hook_event_state_tail content = Inl ''failed to read hook state''"
proof -
  have "utf8_valid (replicate n (CHR ''x''))" for n by (induction n) simp_all
  moreover have "hook_event_state_tail_bytes > 0" by (simp add: hook_event_state_tail_bytes_def)
  ultimately show ?thesis
    by (simp add: content_def read_hook_event_state_tail_def Let_def continuation_byte_def)
qed

end
