(* ===== verification/Paths.thy ===== *)
theory Paths
  imports Prelude
begin

section \<open>Paths\<close>

text \<open>The routines of \<open>std::path::Path\<close> that the crates call, on Unix: a path is its bytes.\<close>

text \<open>\<open>Path::is_absolute\<close> and \<open>Path::join\<close> on Unix.\<close>

definition is_absolute_path :: "string \<Rightarrow> bool" where
  "is_absolute_path path \<longleftrightarrow> starts_with path ''/''"

definition path_join :: "string \<Rightarrow> string \<Rightarrow> string" where
  "path_join base path =
     (if is_absolute_path path \<or> base = [] then path
      else if ends_with base ''/'' then base @ path
      else base @ ''/'' @ path)"

text \<open>The parts of a path on Unix: empty parts are dropped, and \<open>.\<close> unless the path starts with it.\<close>

definition path_parts :: "string \<Rightarrow> string list" where
  "path_parts path =
     (case split_by (\<lambda>c. c = CHR ''/'') path of
        [] \<Rightarrow> []
      | first # rest \<Rightarrow>
          (if first = [] then [] else [first]) @ filter (\<lambda>part. part \<noteq> [] \<and> part \<noteq> ''.'') rest)"

definition path_of_parts :: "bool \<Rightarrow> string list \<Rightarrow> string" where
  "path_of_parts absolute parts = (if absolute then ''/'' else []) @ str_join ''/'' parts"

text \<open>\<open>Path::parent\<close>, up to redundant separators.\<close>

definition path_parent :: "string \<Rightarrow> string option" where
  "path_parent path =
     (case path_parts path of
        [] \<Rightarrow> None
      | parts \<Rightarrow> Some (path_of_parts (is_absolute_path path) (butlast parts)))"

text \<open>
  \<open>Path::file_name\<close> of a path with \<open>/\<close> as separator: empty and \<open>.\<close> components are no components, and \<open>..\<close>
  has no name.  \<open>file_stem\<close> cuts the name at its last dot, but not at a leading one.
\<close>

definition path_file_name :: "string \<Rightarrow> string option" where
  "path_file_name path =
     (case rev (filter (\<lambda>part. part \<noteq> [] \<and> part \<noteq> ''.'') (split_by (\<lambda>c. c = CHR ''/'') path)) of
        [] \<Rightarrow> None
      | name # _ \<Rightarrow> if name = ''..'' then None else Some name)"

definition path_file_stem :: "string \<Rightarrow> string option" where
  "path_file_stem path =
     map_option (\<lambda>name. case rsplit_once ''.'' name of
                          Some (before, _) \<Rightarrow> if before = [] then name else before
                        | None \<Rightarrow> name)
       (path_file_name path)"

text \<open>\<open>Path::extension\<close>: what follows the last dot of the name, unless that is its first character.\<close>

definition path_name_extension :: "string \<Rightarrow> string option" where
  "path_name_extension path =
     Option.bind (path_file_name path) (\<lambda>name.
       case rsplit_once ''.'' name of
         Some (before, ext) \<Rightarrow> if before = [] then None else Some ext
       | None \<Rightarrow> None)"

text \<open>\<open>Path::components().count()\<close>: the root of an absolute path is one component.\<close>

definition path_component_count :: "string \<Rightarrow> nat" where
  "path_component_count path = of_bool (is_absolute_path path) + length (path_parts path)"

text \<open>\<open>Path\<close> equality compares components.\<close>

definition path_eq :: "string \<Rightarrow> string \<Rightarrow> bool" where
  "path_eq p q \<longleftrightarrow> is_absolute_path p = is_absolute_path q \<and> path_parts p = path_parts q"

text \<open>\<open>Path::components\<close>: the root of an absolute path is the first of them.\<close>

definition path_components :: "string \<Rightarrow> string list" where
  "path_components path = (if is_absolute_path path then [''/''] else []) @ path_parts path"

text \<open>\<open>Path::starts_with\<close> on components.\<close>

definition path_starts_with :: "string \<Rightarrow> string \<Rightarrow> bool" where
  "path_starts_with path base \<longleftrightarrow> prefix (path_components base) (path_components path)"

end
