(* ===== verification/SourceAccess.thy ===== *)
theory SourceAccess
  imports Paths EventState SourceSelector Intent
begin

section \<open>Source access\<close>

text \<open>
  Models \<open>classifier/source_access_routes.rs\<close> and \<open>classifier_inline_source_read.rs\<close> of
  \<open>crates/agent-semantic-hook\<close>: which direct reads, directory listings, source dumps and raw searches
  are denied, and to which provider commands they are routed.  What the code asks of the operating
  system is the record \<open>host\<close>.
\<close>

record host =
  host_is_dir :: "string \<Rightarrow> bool"
  host_is_file :: "string \<Rightarrow> bool"
  host_current_dir :: "string option"
  host_env :: environment
  host_now_ms :: nat
  host_events :: state_file

subsection \<open>Directories\<close>

fun directory_segments :: "string list \<Rightarrow> string list \<Rightarrow> string list option" where
  "directory_segments segments [] = Some segments"
| "directory_segments segments (segment # rest) =
     (if segment = [] \<or> segment = ''.'' then directory_segments segments rest
      else if segment = ''..''
      then (if segments = [] then None else directory_segments (butlast segments) rest)
      else directory_segments (segments @ [segment]) rest)"

definition normalize_directory_path :: "string \<Rightarrow> string option" where
  "normalize_directory_path path0 =
     (let path = trim_end_chars (\<lambda>c. c = CHR ''/'') (trim_start_str ''./'' (str_trim path0))
      in if path = [] then None
         else (case directory_segments [] (split_by (\<lambda>c. c = CHR ''/'') path) of
                 None \<Rightarrow> None
               | Some segments \<Rightarrow>
                   (let joined = str_join ''/'' segments
                    in Some (if starts_with path ''/'' then CHR ''/'' # joined
                             else if joined = [] then ''.'' else joined))))"

definition project_relative_directory :: "string \<Rightarrow> string \<Rightarrow> string option" where
  "project_relative_directory root0 normalized =
     (case normalize_directory_path root0 of
        None \<Rightarrow> None
      | Some root \<Rightarrow>
          if root = ''.'' then None
          else if normalized = root then Some ''.''
          else (case Option.bind (strip_prefix root normalized) (strip_prefix ''/'') of
                  None \<Rightarrow> None
                | Some path \<Rightarrow> if path = [] then None else Some path))"

definition directory_path_candidate_matches_provider ::
  "glob_compiler \<Rightarrow> activated_provider \<Rightarrow> string \<Rightarrow> bool" where
  "directory_path_candidate_matches_provider glob p candidate \<longleftrightarrow>
     matches_search_token glob p candidate
     \<or> list_ex (\<lambda>root0. case normalize_directory_path root0 of
           None \<Rightarrow> False
         | Some root \<Rightarrow> root \<noteq> []
             \<and> (candidate = root \<or> starts_with candidate (root @ ''/'')
                \<or> ends_with candidate (''/'' @ root) \<or> str_contains candidate (''/'' @ root @ ''/'')))
         (p_source_roots p)"

definition directory_path_matches_provider ::
  "glob_compiler \<Rightarrow> host \<Rightarrow> string \<Rightarrow> activated_provider \<Rightarrow> string \<Rightarrow> bool" where
  "directory_path_matches_provider glob h root p path \<longleftrightarrow>
     (case normalize_directory_path path of
        None \<Rightarrow> False
      | Some normalized \<Rightarrow>
          (case project_relative_directory root normalized of
             Some relative \<Rightarrow> directory_path_candidate_matches_provider glob p relative
           | None \<Rightarrow>
               (let current_relative =
                      (if str_trim root = [] \<or> str_trim root = ''.''
                       then (case host_current_dir h of
                               None \<Rightarrow> None
                             | Some dir \<Rightarrow>
                                 if utf8_valid dir then project_relative_directory dir normalized
                                 else None)
                       else None)
                in case current_relative of
                     Some relative \<Rightarrow> directory_path_candidate_matches_provider glob p relative
                   | None \<Rightarrow>
                       if \<not> is_absolute_path normalized
                       then directory_path_candidate_matches_provider glob p normalized
                       else matches_search_token glob p normalized)))"

definition path_is_directory :: "host \<Rightarrow> string \<Rightarrow> string \<Rightarrow> bool" where
  "path_is_directory h root path \<longleftrightarrow>
     (if is_absolute_path path then host_is_dir h path
      else host_is_dir h (path_join root path)
        \<or> (case host_current_dir h of
             None \<Rightarrow> False | Some dir \<Rightarrow> host_is_dir h (path_join dir path)))"

definition reads_directory :: "host \<Rightarrow> hook_runtime \<Rightarrow> tool_action \<Rightarrow> bool" where
  "reads_directory h registry action \<longleftrightarrow>
     t_operation action = OpDirectoryRead
     \<or> t_operation action = OpDirectRead
       \<and> list_ex (path_is_directory h (project_root registry)) (t_paths action)"

subsection \<open>Routes\<close>

definition raw_search_ingest_route :: "activated_provider \<Rightarrow> decision_route" where
  "raw_search_ingest_route p = route_from_template p RouteIngest (ingest_route (p_routes p)) None None"

definition direct_read_query_route :: "activated_provider \<Rightarrow> string \<Rightarrow> decision_route" where
  "direct_read_query_route p path =
     (let ctx = route_path_context p path;
          route = (case query_route (p_routes p) of
              Some template \<Rightarrow>
                route_from_template p RouteQuery template (Some (x_selector ctx)) (Some (x_project_root ctx))
            | None \<Rightarrow> selector_query_route p path);
          output_flag = (if r_language_id route \<in> {''md'', ''markdown'', ''org''}
            then ''--content'' else ''--code'')
      in route\<lparr>r_kind := RouteQuery,
           r_argv := [r_binary route, r_language_id route, ''query'', ''--selector'', x_selector ctx,
             ''--workspace'', x_project_root ctx, output_flag]\<rparr>)"

definition direct_read_route ::
  "activated_provider \<Rightarrow> string \<Rightarrow> source_selector_kind \<Rightarrow> decision_route" where
  "direct_read_route p path kind =
     (case kind of
        ExactPath \<Rightarrow> direct_read_query_route p path
      | Pattern \<Rightarrow>
          (let ctx = route_path_context p path
           in case search_query_route_for_selector p (x_selector ctx) (x_project_root ctx) [] of
                Some route \<Rightarrow> route
              | None \<Rightarrow> route_from_template p RoutePrime (prime_route (p_routes p)) None None))"

definition direct_read_routes :: "source_selector_match list \<Rightarrow> decision_route list" where
  "direct_read_routes ms = map (\<lambda>m. direct_read_route (sm_provider m) (sm_route_selector m) (sm_kind m)) ms"

definition direct_read_language_ids :: "source_selector_match list \<Rightarrow> string list" where
  "direct_read_language_ids ms = map (\<lambda>m. p_language_id (sm_provider m)) ms"

definition collect_direct_source_read_matches ::
  "glob_compiler \<Rightarrow> hook_runtime \<Rightarrow> string list \<Rightarrow> source_selector_match list" where
  "collect_direct_source_read_matches glob registry paths =
     collect_source_selector_matches glob registry paths (\<lambda>p. blocks_direct_source_read (p_policy p))"

definition collect_content_dump_matches ::
  "glob_compiler \<Rightarrow> hook_runtime \<Rightarrow> string list \<Rightarrow> source_selector_match list" where
  "collect_content_dump_matches glob registry paths =
     collect_source_selector_matches glob registry paths (\<lambda>p. blocks_bulk_source_dump (p_policy p))"

subsection \<open>Decisions\<close>

text \<open>
  The two arguments of \<open>source_access_recovery_message\<close> that it ignores, the providers and the
  AST-patch switch, are left out.
\<close>

definition direct_source_read_decision ::
  "host \<Rightarrow> string \<Rightarrow> string \<Rightarrow> tool_action \<Rightarrow> source_selector_match list \<Rightarrow> recovery_prompt_config
     \<Rightarrow> hook_decision" where
  "direct_source_read_decision h platform event action ms recovery_prompt =
     (let routes = direct_read_routes ms in
      deny_for_action platform event DirectSourceRead action (direct_read_language_ids ms)
        (subject_for_action action) routes
        (source_access_recovery_message (host_env h) platform ''direct-source-read'' routes recovery_prompt))"

definition content_dump_decision ::
  "host \<Rightarrow> string \<Rightarrow> string \<Rightarrow> tool_action \<Rightarrow> source_selector_match list \<Rightarrow> string list option
     \<Rightarrow> recovery_prompt_config \<Rightarrow> hook_decision" where
  "content_dump_decision h platform event action ms subject_paths recovery_prompt =
     (let routes = direct_read_routes ms;
          subject = (case subject_paths of
              None \<Rightarrow> subject_for_action action
            | Some paths \<Rightarrow> (subject_for_action action)\<lparr>j_paths := paths\<rparr>)
      in deny_for_action platform event BulkSourceDump action (direct_read_language_ids ms) subject routes
           (source_access_recovery_message (host_env h) platform ''bulk-source-dump'' routes recovery_prompt))"

definition directory_read_providers ::
  "glob_compiler \<Rightarrow> host \<Rightarrow> hook_runtime \<Rightarrow> tool_action \<Rightarrow> activated_provider list" where
  "directory_read_providers glob h registry action =
     filter (\<lambda>p. list_ex (directory_path_matches_provider glob h (project_root registry) p) (t_paths action))
       (filter (\<lambda>p. blocks_raw_source_search (p_policy p)) (providers registry))"

definition classify_direct_read_action ::
  "glob_compiler \<Rightarrow> host \<Rightarrow> hook_runtime \<Rightarrow> string \<Rightarrow> string \<Rightarrow> tool_action \<Rightarrow> recovery_prompt_config
     \<Rightarrow> hook_decision option" where
  "classify_direct_read_action glob h registry platform event action recovery_prompt =
     (if reads_directory h registry action then
        (let ps = directory_read_providers glob h registry action;
             routes = map raw_search_ingest_route ps
         in if ps = [] then None
            else Some (deny_for_action platform event SourceDirectoryEnumeration action
              (map p_language_id ps) (subject_for_action action) routes
              (source_access_recovery_message (host_env h) platform ''source-directory-enumeration''
                routes recovery_prompt)))
      else if t_operation action \<noteq> OpDirectRead then None
      else
        (let ms = collect_direct_source_read_matches glob registry (t_paths action)
         in if ms = [] then None
            else Some (direct_source_read_decision h platform event action ms recovery_prompt)))"

subsection \<open>Sources read by inline programs\<close>

definition is_version_suffix :: "string \<Rightarrow> bool" where
  "is_version_suffix s \<longleftrightarrow> list_all (\<lambda>c. is_ascii_digit c \<or> c = CHR ''.'') s"

definition interpreter_name :: "string \<Rightarrow> string" where
  "interpreter_name token = last_piece (\<lambda>c. c = CHR ''/'') token"

definition is_python_interpreter_command :: "string \<Rightarrow> bool" where
  "is_python_interpreter_command token \<longleftrightarrow>
     (let name = interpreter_name token in
      name \<in> {''python'', ''python3'', ''py''}
      \<or> (case strip_prefix ''python3.'' name of None \<Rightarrow> False | Some s \<Rightarrow> is_version_suffix s))"

definition is_javascript_interpreter_command :: "string \<Rightarrow> bool" where
  "is_javascript_interpreter_command token \<longleftrightarrow>
     (let name = interpreter_name token in
      name \<in> {''node'', ''nodejs''}
      \<or> (case strip_prefix ''node'' name of None \<Rightarrow> False | Some s \<Rightarrow> is_version_suffix s))"

definition command_has_inline_interpreter :: "string \<Rightarrow> bool" where
  "command_has_inline_interpreter command \<longleftrightarrow>
     list_ex (str_contains (to_ascii_lowercase command))
       [''node -e'', ''node --eval'', ''nodejs -e'', ''python -c'', ''python3 -c'']"

definition is_supported_interpreter :: "string \<Rightarrow> string list \<Rightarrow> bool" where
  "is_supported_interpreter command tokens \<longleftrightarrow>
     list_ex (\<lambda>t. is_python_interpreter_command t \<or> is_javascript_interpreter_command t) tokens
     \<or> command_has_inline_interpreter command"

definition python_source_read_api :: "string \<Rightarrow> bool" where
  "python_source_read_api command \<longleftrightarrow>
     str_contains command ''.read_text('' \<or> str_contains command ''.read_bytes(''
     \<or> str_contains command ''open('' \<and> str_contains command ''.read(''"

definition javascript_source_read_api :: "string \<Rightarrow> bool" where
  "javascript_source_read_api command \<longleftrightarrow>
     str_contains command ''readFileSync('' \<or> str_contains command ''.readFile(''
     \<or> str_contains command ''readFile(''"

definition source_read_api :: "string \<Rightarrow> bool" where
  "source_read_api command \<longleftrightarrow> python_source_read_api command \<or> javascript_source_read_api command"

text \<open>
  The literal up to its closing quote, with escapes resolved, and what follows it.  The quotes and the
  backslash are ASCII, so the bytes of a character stay together.
\<close>

fun read_literal :: "char \<Rightarrow> bool \<Rightarrow> string \<Rightarrow> string \<times> string" where
  "read_literal quote escaped [] = ([], [])"
| "read_literal quote escaped (c # cs) =
     (if escaped then (case read_literal quote False cs of (l, rest) \<Rightarrow> (c # l, rest))
      else if c = CHR 0x5C then read_literal quote True cs
      else if c = quote then ([], cs)
      else (case read_literal quote False cs of (l, rest) \<Rightarrow> (c # l, rest)))"

lemma read_literal_length:
  "read_literal quote escaped cs = (l, rest) \<Longrightarrow> length l + length rest \<le> length cs"
  by (induction quote escaped cs arbitrary: l rest rule: read_literal.induct)
    (fastforce split: if_splits prod.splits)+

definition is_path_like_literal :: "string \<Rightarrow> bool" where
  "is_path_like_literal literal \<longleftrightarrow>
     \<not> starts_with literal ''-'' \<and> \<not> list_ex is_whitespace (rust_chars literal)
     \<and> (CHR ''/'' \<in> set literal \<or> CHR ''*'' \<in> set literal) \<and> CHR ''.'' \<in> set literal"

function quoted_path_literals :: "string \<Rightarrow> string list" where
  "quoted_path_literals [] = []"
| "quoted_path_literals (c # cs) =
     (if c \<noteq> CHR 0x27 \<and> c \<noteq> CHR 0x22 then quoted_path_literals cs
      else
        (let r = read_literal c False cs;
             normalized = normalize_source_route_selector (fst r)
         in (if is_path_like_literal normalized then [normalized] else [])
            @ quoted_path_literals (fst r) @ quoted_path_literals (snd r)))"
  by pat_completeness auto

termination quoted_path_literals
proof (relation "measure length")
  fix c and cs :: string and r
  assume "r = read_literal c False cs"
  then have "length (fst r) + length (snd r) \<le> length cs"
    using read_literal_length [of c False cs "fst r" "snd r"] by simp
  then show "(fst r, c # cs) \<in> measure length" "(snd r, c # cs) \<in> measure length" by simp_all
qed simp_all

definition source_read_paths :: "string \<Rightarrow> string list \<Rightarrow> string list" where
  "source_read_paths command tokens =
     (if \<not> is_supported_interpreter command tokens \<or> \<not> source_read_api command then []
      else quoted_path_literals command)"

subsection \<open>Commands that read source\<close>

definition digits_only :: "string \<Rightarrow> bool" where
  "digits_only s \<longleftrightarrow> list_all is_ascii_digit s"

definition selector_without_line_range :: "string \<Rightarrow> string option" where
  "selector_without_line_range selector =
     (case rsplit_once '':'' selector of
        None \<Rightarrow> None
      | Some (base, ending) \<Rightarrow>
          if digits_only ending then
            (case rsplit_once '':'' base of
               None \<Rightarrow> None
             | Some (inner, start) \<Rightarrow> if digits_only start then Some inner else None)
          else
            (case split_once ''-'' ending of
               None \<Rightarrow> None
             | Some (start, finish) \<Rightarrow>
                 if start \<noteq> [] \<and> finish \<noteq> [] \<and> digits_only start \<and> digits_only finish
                 then Some base else None))"

text \<open>The loop runs over the selectors as they were before it started.\<close>

definition push_range_base :: "string list \<Rightarrow> string \<Rightarrow> string list" where
  "push_range_base selectors selector =
     (case selector_without_line_range selector of
        None \<Rightarrow> selectors | Some base \<Rightarrow> push_unique selectors base)"

definition append_selector_base_paths_for_ranges :: "string list \<Rightarrow> string list" where
  "append_selector_base_paths_for_ranges selectors = foldl push_range_base selectors selectors"

definition inline_read_paths :: "command_intent \<Rightarrow> tool_action \<Rightarrow> string \<Rightarrow> string list \<Rightarrow> string list" where
  "inline_read_paths intent action command tokens =
     (let inline = source_read_paths command tokens
      in append_selector_base_paths_for_ranges
           (if intent = ContentDump then foldl push_unique inline (t_paths action) else inline))"

definition classify_source_read_command ::
  "glob_compiler \<Rightarrow> host \<Rightarrow> hook_runtime \<Rightarrow> string \<Rightarrow> string \<Rightarrow> tool_action \<Rightarrow> string \<Rightarrow> string list
     \<Rightarrow> recovery_prompt_config \<Rightarrow> hook_decision option" where
  "classify_source_read_command glob h registry platform event action command tokens recovery_prompt =
     (let intent = command_intent_of tokens;
          reads = (if intent = DirectRead
            then collect_direct_source_read_matches glob registry (t_paths action) else []);
          paths = inline_read_paths intent action command tokens;
          dumps = (if paths = [] then [] else collect_content_dump_matches glob registry paths)
      in if intent = VcsDiffReview then None
         else if reads \<noteq> []
         then Some (direct_source_read_decision h platform event action reads recovery_prompt)
         else if dumps \<noteq> []
         then Some (content_dump_decision h platform event action dumps (Some paths) recovery_prompt)
         else None)"

definition classify_raw_search_command ::
  "glob_compiler \<Rightarrow> host \<Rightarrow> hook_runtime \<Rightarrow> string \<Rightarrow> string \<Rightarrow> tool_action \<Rightarrow> string list
     \<Rightarrow> recovery_prompt_config \<Rightarrow> hook_decision option" where
  "classify_raw_search_command glob h registry platform event action tokens recovery_prompt =
     (if command_intent_of tokens \<noteq> RawSearch then None
      else (case raw_search_plan_for glob registry tokens of
              None \<Rightarrow> None
            | Some plan \<Rightarrow>
                (let ps = filter (\<lambda>p. blocks_raw_source_search (p_policy p)) (plan_providers plan);
                     terms = plan_terms plan;
                     routes = map (\<lambda>p. if terms = [] then raw_search_ingest_route p
                       else (case search_query_route p terms of
                               Some route \<Rightarrow> route | None \<Rightarrow> raw_search_ingest_route p)) ps
                 in if ps = [] \<or> contains_ingest_pipe tokens ps then None
                    else Some (deny_for_action platform event RawBroadSearch action (map p_language_id ps)
                      (subject_for_action action) routes
                      (source_access_recovery_message (host_env h) platform ''raw-broad-search'' routes
                        recovery_prompt)))))"

subsection \<open>Protected paths\<close>

text \<open>A provider whose policy blocks the access claims the path.\<close>

definition claimed_by_blocking ::
  "glob_compiler \<Rightarrow> hook_runtime \<Rightarrow> (activated_provider \<Rightarrow> bool) \<Rightarrow> string \<Rightarrow> bool" where
  "claimed_by_blocking glob registry should_block path \<longleftrightarrow>
     (\<exists>p \<in> set (providers registry). should_block p
        \<and> match_source_selector glob p
            (normalize_source_selector (normalize_source_route_selector path)) \<noteq> None)"

lemma collect_matches_nonempty:
  "collect_source_selector_matches glob registry paths should_block \<noteq> [] \<longleftrightarrow>
     list_ex (claimed_by_blocking glob registry should_block) paths"
proof -
  let ?ms = "collect_source_selector_matches glob registry paths should_block"
  have "set (match_keys ?ms) = (\<Union>s \<in> set paths. hook_lookup.covered registry glob should_block s)"
    using hook_lookup.collect_loop_spec [of "[]" registry glob should_block "set paths" paths]
    by (simp add: collect_source_selector_matches_def match_keys_def)
  moreover have "?ms = [] \<longleftrightarrow> set (match_keys ?ms) = {}" by (simp add: match_keys_def)
  moreover have "hook_lookup.covered registry glob should_block s \<noteq> {}
      \<longleftrightarrow> claimed_by_blocking glob registry should_block s" for s
    unfolding hook_lookup.covered_def claimed_by_blocking_def by blast
  ultimately show ?thesis by (auto simp: list_ex_iff)
qed

definition protected_source :: "glob_compiler \<Rightarrow> hook_runtime \<Rightarrow> string \<Rightarrow> bool" where
  "protected_source glob registry path \<longleftrightarrow>
     claimed_by_blocking glob registry (\<lambda>p. blocks_direct_source_read (p_policy p)) path"

lemma direct_read_matches_iff:
  "collect_direct_source_read_matches glob registry paths \<noteq> [] \<longleftrightarrow>
     list_ex (protected_source glob registry) paths"
  by (simp add: collect_direct_source_read_matches_def collect_matches_nonempty protected_source_def [abs_def])

lemma deny_for_action_fields [simp]:
  "d_decision (deny_for_action platform event reason action languages subject routes message) = Deny"
  "d_reason_kind (deny_for_action platform event reason action languages subject routes message) = reason"
  by (simp_all add: deny_for_action_def deny_def new_decision_def insert_field_def)

text \<open>Every denial of this file is a denial; a file read is denied exactly when a path is protected.\<close>

lemma direct_read_denied_iff:
  assumes "t_operation action = OpDirectRead" "\<not> reads_directory h registry action"
  shows "(\<exists>d. classify_direct_read_action glob h registry platform event action prompt = Some d
            \<and> d_decision d = Deny \<and> d_reason_kind d = DirectSourceRead) \<longleftrightarrow>
         list_ex (protected_source glob registry) (t_paths action)"
  unfolding direct_read_matches_iff [symmetric] using assms
  by (simp add: classify_direct_read_action_def direct_source_read_decision_def Let_def)

lemma direct_read_decision_denies:
  "classify_direct_read_action glob h registry platform event action prompt = Some d \<Longrightarrow> d_decision d = Deny"
  by (auto simp: classify_direct_read_action_def direct_source_read_decision_def Let_def split: if_splits)

end
