(* ===== verification/PromptFlow.thy ===== *)
theory PromptFlow
  imports SourceAccess
begin

section \<open>Search flow of a prompt\<close>

text \<open>
  Models \<open>classifier/prompt_search_flow.rs\<close> of \<open>crates/agent-semantic-hook\<close>: what a public asp
  command is told inside a prompt, given what the prompt has run before.  A project map is asked for
  once, a pipe is not replayed, a broad direct read is refused, and a budget of commands is kept.
\<close>

definition low_priority_direct_source_read_max_lines :: nat where
  "low_priority_direct_source_read_max_lines = 80"

definition supports_command_feedback :: "tool_action \<Rightarrow> bool" where
  "supports_command_feedback action \<longleftrightarrow> t_operation action \<in> {OpShellCommand, OpStdinContinuation}"

definition is_asp_command_token :: "string \<Rightarrow> bool" where
  "is_asp_command_token token \<longleftrightarrow>
     token = ''asp'' \<or> ends_with token ''/asp'' \<or> ends_with token (CHR 0x5C # ''asp.exe'')"

definition asp_agent_session_command_tokens :: "string list \<Rightarrow> bool" where
  "asp_agent_session_command_tokens tokens \<longleftrightarrow>
     list_ex (\<lambda>w. is_asp_command_token (w ! 0) \<and> w ! 1 = ''agent'' \<and> w ! 2 = ''session'')
       (windows 3 tokens)"

subsection \<open>Messages\<close>

definition query_projection_flag :: "string \<Rightarrow> string" where
  "query_projection_flag language_id =
     (if language_id \<in> {''md'', ''org''} then ''--content'' else ''--code'')"

definition asp_command_budget_message :: "nat \<Rightarrow> nat \<Rightarrow> string" where
  "asp_command_budget_message command_count max_commands = str_join newline
     [(''ASP hook denied ASP command budget exhaustion: ''
      @ show_nat command_count
      @ ''/''
      @ show_nat max_commands
      @ '' commands already completed.''),
      (''Answer from the existing ASP frontier, recommendedNext, nextCommand, owner, locator, ''
      @ ''and output metadata instead of running more commands.''),
      [],
      ''## Rules'',
      ''Do not run more ASP commands in this prompt after the budget is exhausted.'',
      ''Do not switch to raw shell reads; use the evidence already returned by ASP.'']"

definition invalid_evidence_query_message :: "string \<Rightarrow> string \<Rightarrow> string" where
  "invalid_evidence_query_message language_id selector = str_join newline
     [(''ASP hook denied non-exact evidence query selector `''
      @ selector
      @ ''`.''),
      ''Evidence projection requires one parser-owned structural item selector.'',
      [],
      ''## Run Next'',
      (''Ask `asp-explore` to run `asp ''
      @ language_id
      @ ('' search owner <owner-path> items --query '<symbol-or-a|b|c>' --workspace . --view ''
      @ ''seeds` and return selector-only `[asp-search-subagent]` receipts.'')),
      [],
      ''## Rules'',
      (''The parent exact read must use a parser-owned item selector such as ''
      @ ''`rust://...#item/function/name`.''),
      (''Do not use file-level `--code`, line-range selectors, or raw source reads as search ''
      @ ''evidence.'')]"

definition repeat_search_pipe_message :: "string \<Rightarrow> string \<Rightarrow> string" where
  "repeat_search_pipe_message language_id heading =
     (let projection_flag = query_projection_flag language_id in str_join newline
     [heading,
      ''The current prompt has already run `search pipe`; pipe is a once-per-prompt frontier.'',
      [],
      ''## Run Next'',
      ''Follow the previous `recommendedNext` / `nextCommand` from the pipe output.'',
      (''Use `asp ''
      @ language_id
      @ ('' search owner <owner-path> items --query '<symbol-or-a|b|c>' --workspace . --view ''
      @ ''seeds`, `asp fd -query '<owner-or-path-term-a|term-b|term-c>' <scope>`, `asp rg -query''
      @ '' '<content-or-error-term-a|term-b|term-c>' <scope>`, or `asp '')
      @ language_id
      @ ('' query --selector '<language>://<owner>#item/<kind>/<name>' --workspace ''
      @ ''<workspace-root> '')
      @ projection_flag
      @ ''`.''),
      [],
      ''## Rules'',
      ''Do not rerun `search pipe` with a narrower natural term in the same prompt.'',
      (''Move from frontier to locator/action; keep source reads behind exact `query --selector ''
      @ projection_flag
      @ ''`.'')])"

definition direct_read_after_pipe_message :: "string \<Rightarrow> string \<Rightarrow> string" where
  "direct_read_after_pipe_message language_id heading =
     (let projection_flag = query_projection_flag language_id in str_join newline
     [heading,
      (''`--from-hook direct-source-read` is a low-priority exact-window fallback after a route ''
      @ ''frontier, not the first code extraction path.''),
      [],
      ''## Run Next'',
      (''asp ''
      @ language_id
      @ ('' query --from-hook direct-source-read --selector <path:start-end> --workspace ''
      @ ''<workspace-root> '')
      @ projection_flag),
      [],
      ''## Rules'',
      ((''A direct-source-read fallback is allowed only after owner/query/syntax/read-plan ''
      @ ''evidence when the selector is an exact bounded range of '')
      @ show_nat low_priority_direct_source_read_max_lines
      @ '' lines or fewer.''),
      ((''For file-wide or broad ranges, follow locator/frontier commands and extract with ''
      @ ''ordinary `query --selector '')
      @ projection_flag
      @ ''` or a read-plan frontier.'')])"

definition prime_only_message :: "string \<Rightarrow> string \<Rightarrow> string" where
  "prime_only_message language_id heading = str_join newline
     [heading,
      ''The current prompt has already run `search prime`; prime is only a project map.'',
      [],
      ''## Run Next'',
      ''Choose the next ASP route from the current evidence state.'',
      [],
      ''## Rules'',
      ''Follow `recommendedNext` or `nextCommand` when the prime packet supplied one.'',
      (''Run `asp ''
      @ language_id
      @ ('' search pipe '<question-or-feature-term>' --workspace . --view seeds` only when the ''
      @ ''evidence is still ambiguous and needs query refinement.'')),
      (''If an owner, symbol, dependency, test/failure, or exact selector is already known, skip ''
      @ ''pipe and use the narrower owner/reasoning/query route.''),
      (''Do not repeat `search prime`. Do not read source or code before exact parser-owned ''
      @ ''identity or a route frontier justifies it.'')]"

definition search_flow_feedback_message :: "string \<Rightarrow> string \<Rightarrow> string \<Rightarrow> string" where
  "search_flow_feedback_message language_id feedback_kind heading =
     (if feedback_kind = ''repeat-search-pipe'' then repeat_search_pipe_message language_id heading
      else if feedback_kind = ''direct-source-read-after-pipe''
      then direct_read_after_pipe_message language_id heading
      else prime_only_message language_id heading)"

subsection \<open>Decisions\<close>

definition prompt_asp_command_budget :: "environment \<Rightarrow> nat option" where
  "prompt_asp_command_budget env =
     (case Option.bind (env ''ASP_HOOK_MAX_ASP_COMMANDS'') parse_usize of
        Some n \<Rightarrow> if 0 < n then Some n else None
      | None \<Rightarrow> None)"

definition asp_command_budget_decision ::
  "string \<Rightarrow> string \<Rightarrow> tool_action \<Rightarrow> nat \<Rightarrow> nat \<Rightarrow> hook_decision" where
  "asp_command_budget_decision platform event action command_count max_commands =
     new_decision platform event Deny ReasonNone [] (subject_for_action action) []
       (asp_command_budget_message command_count max_commands)
       [(''hookFeedback'', JString ''asp-command-budget-exhausted''),
        (''aspCommandCount'', JInt (int command_count)), (''maxAspCommands'', JInt (int max_commands)),
        (''aspCommandIntent'', JString (asp_intent_str Reasoning))]"

definition classify_prompt_asp_command_budget ::
  "bash_parser \<Rightarrow> json_parser \<Rightarrow> host \<Rightarrow> string \<Rightarrow> string \<Rightarrow> tool_action \<Rightarrow> string option \<Rightarrow> string option
     \<Rightarrow> hook_decision option shell_result" where
  "classify_prompt_asp_command_budget parse jp h platform event action session_id transcript_path =
     (case prompt_asp_command_budget (host_env h) of
        None \<Rightarrow> Inr None
      | Some max_commands \<Rightarrow>
          shell_bind (prompt_asp_command_count parse jp (host_now_ms h) (host_events h) session_id
              transcript_path)
            (\<lambda>r. Inr (case r of
                Inl _ \<Rightarrow> None
              | Inr command_count \<Rightarrow>
                  if command_count < max_commands then None
                  else Some (asp_command_budget_decision platform event action command_count max_commands))))"

definition search_flow_feedback_decision ::
  "string \<Rightarrow> string \<Rightarrow> tool_action \<Rightarrow> string \<Rightarrow> asp_language_command_intent \<Rightarrow> string \<Rightarrow> string
     \<Rightarrow> hook_decision" where
  "search_flow_feedback_decision platform event action language_id intent feedback_kind heading =
     new_decision platform event Deny ReasonNone [language_id] (subject_for_action action) []
       (search_flow_feedback_message language_id feedback_kind heading)
       [(''hookFeedback'', JString feedback_kind), (''languageId'', JString language_id),
        (''aspCommandIntent'', JString (asp_intent_str intent))]"

definition allow_asp_language_command ::
  "string \<Rightarrow> string \<Rightarrow> tool_action \<Rightarrow> asp_language_command \<Rightarrow> hook_decision" where
  "allow_asp_language_command platform event action command =
     (allow platform event (subject_for_action action))
       \<lparr>d_language_ids := [ac_language_id command],
        d_fields := [(''languageId'', JString (ac_language_id command)),
          (''aspCommandIntent'', JString (asp_intent_str (ac_intent command))),
          (''aspCommandRoute'', JString (ac_route command))]
          @ optional_member ''selector'' (map_option JString (ac_selector command))\<rparr>"

definition invalid_evidence_query_decision ::
  "string \<Rightarrow> string \<Rightarrow> tool_action \<Rightarrow> asp_language_command \<Rightarrow> hook_decision" where
  "invalid_evidence_query_decision platform event action command =
     (let selector = (case ac_selector command of Some s \<Rightarrow> s | None \<Rightarrow> ''<missing-selector>'')
      in new_decision platform event Deny DirectSourceRead [ac_language_id command]
           (subject_for_action action) [] (invalid_evidence_query_message (ac_language_id command) selector)
           [(''hookFeedback'', JString ''invalid-evidence-query-denied''),
            (''languageId'', JString (ac_language_id command)),
            (''aspCommandIntent'', JString (asp_intent_str (ac_intent command))),
            (''aspCommandRoute'', JString (ac_route command)), (''selector'', JString selector)])"

subsection \<open>Feedback\<close>

definition payload_string :: "json \<Rightarrow> string \<Rightarrow> string option" where
  "payload_string payload key = json_get_str key payload"

definition payload_session_id :: "json \<Rightarrow> string option" where
  "payload_session_id payload =
     or_else (payload_string payload ''session_id'') (payload_string payload ''sessionId'')"

definition payload_transcript_path :: "json \<Rightarrow> string option" where
  "payload_transcript_path payload =
     or_else (payload_string payload ''transcript_path'') (payload_string payload ''transcriptPath'')"

text \<open>Feedback while the prompt has a project map but no pipe.\<close>

definition before_pipe_feedback ::
  "string \<Rightarrow> string \<Rightarrow> tool_action \<Rightarrow> asp_language_command \<Rightarrow> search_pipe_feedback \<Rightarrow> hook_decision option" where
  "before_pipe_feedback platform event action command feedback =
     (if fb_saw_pipe feedback then None
      else if ac_route command = ''search-prime'' \<and> ac_language_id command = fb_language_id feedback
      then Some (search_flow_feedback_decision platform event action (fb_language_id feedback) Reasoning
        ''repeat-prime-before-pipe'' ''ASP hook denied repeated `search prime` before `search pipe`.'')
      else if ac_intent command = DirectReadFallback
      then Some (search_flow_feedback_decision platform event action (fb_language_id feedback)
        DirectReadFallback ''read-before-pipe'' ''ASP hook denied code/direct read before `search pipe`.'')
      else None)"

text \<open>Feedback after a pipe.\<close>

definition after_pipe_feedback ::
  "string \<Rightarrow> string \<Rightarrow> tool_action \<Rightarrow> string list \<Rightarrow> asp_language_command \<Rightarrow> search_pipe_feedback
     \<Rightarrow> hook_decision option" where
  "after_pipe_feedback platform event action tokens command feedback =
     (if \<not> fb_saw_pipe feedback then None
      else if ac_route command = ''search-pipe'' \<and> ac_language_id command = fb_language_id feedback
        \<and> list_ex (\<lambda>previous. previous = tokens) (fb_pipe_command_tokens feedback)
      then Some (search_flow_feedback_decision platform event action (fb_language_id feedback) Reasoning
        ''repeat-search-pipe'' ''ASP hook denied exact replay of `search pipe` in the same prompt.'')
      else (case asp_query_direct_source_read_shape_tokens tokens of
              None \<Rightarrow> None
            | Some (Bounded line_span) \<Rightarrow>
                if line_span \<le> low_priority_direct_source_read_max_lines then None
                else Some (search_flow_feedback_decision platform event action (fb_language_id feedback)
                  DirectReadFallback ''direct-source-read-after-pipe''
                  ''ASP hook denied broad manual `direct-source-read` after `search pipe`.'')
            | Some Unbounded \<Rightarrow>
                Some (search_flow_feedback_decision platform event action (fb_language_id feedback)
                  DirectReadFallback ''direct-source-read-after-pipe''
                  ''ASP hook denied broad manual `direct-source-read` after `search pipe`.'')))"

definition command_feedback ::
  "bash_parser \<Rightarrow> json_parser \<Rightarrow> host \<Rightarrow> string \<Rightarrow> string \<Rightarrow> json \<Rightarrow> tool_action \<Rightarrow> string list
     \<Rightarrow> asp_language_command \<Rightarrow> hook_decision shell_result" where
  "command_feedback parse jp h platform event payload action tokens command =
     (let session_id = payload_session_id payload;
          transcript_path = payload_transcript_path payload;
          allowed = allow_asp_language_command platform event action command
      in shell_bind (prompt_search_flow_after_prime parse jp (host_now_ms h) (host_events h) session_id
             transcript_path)
           (\<lambda>r. let feedback = (case r of Inl _ \<Rightarrow> None | Inr f \<Rightarrow> f)
                in case Option.bind feedback (before_pipe_feedback platform event action command) of
                     Some d \<Rightarrow> Inr d
                   | None \<Rightarrow>
                       (case Option.bind feedback (after_pipe_feedback platform event action tokens command) of
                          Some d \<Rightarrow> Inr d
                        | None \<Rightarrow>
                            if ac_intent command = Reasoning
                            then shell_bind (classify_prompt_asp_command_budget parse jp h platform event
                                action session_id transcript_path)
                              (\<lambda>b. Inr (case b of Some d \<Rightarrow> d | None \<Rightarrow> allowed))
                            else Inr allowed)))"

definition classify_prompt_search_flow_feedback ::
  "bash_parser \<Rightarrow> json_parser \<Rightarrow> host \<Rightarrow> hook_runtime \<Rightarrow> string \<Rightarrow> string \<Rightarrow> json \<Rightarrow> tool_action
     \<Rightarrow> asp_command_intent_policy \<Rightarrow> hook_decision option shell_result" where
  "classify_prompt_search_flow_feedback parse jp h registry platform event payload action policy =
     (if event \<noteq> ''pre-tool'' \<or> \<not> supports_command_feedback action then Inr None
      else shell_bind (action_command_tokens parse action) (\<lambda>t.
        case t of
          None \<Rightarrow> Inr None
        | Some tokens \<Rightarrow>
            if asp_agent_session_command_tokens tokens then Inr None
            else (case classify_asp_language_command_tokens_with_policy tokens policy of
                    None \<Rightarrow> Inr None
                  | Some command \<Rightarrow>
                      if \<not> list_ex (\<lambda>p. p_language_id p = ac_language_id command) (providers registry)
                      then Inr None
                      else if ac_intent command = InvalidEvidence
                      then Inr (Some (invalid_evidence_query_decision platform event action command))
                      else if ac_intent command = ExactEvidence
                      then Inr (Some (allow_asp_language_command platform event action command))
                      else shell_bind (command_feedback parse jp h platform event payload action tokens command)
                             (\<lambda>d. Inr (Some d)))))"

end
