(* ===== verification/OrgArtifacts.thy ===== *)
theory OrgArtifacts
  imports ConfigValidation SourceAccess
begin

section \<open>Org artifacts of a session\<close>

text \<open>
  Models \<open>hook_config_agent_org.rs\<close>, \<open>hook_config/agent_org_config.rs\<close> and
  \<open>classifier/agent_org_artifacts.rs\<close> of \<open>crates/agent-semantic-hook\<close>: whether a session has
  recently written an Org file that is bound to a contract, which active files could be archived, and
  how both end up in a decision.  A directory is a value \<open>org_entry list\<close> (\<open>None\<close> when it cannot be
  read), times are nanoseconds, and the two process-wide caches are the state \<open>org_caches\<close>.
\<close>

subsection \<open>Configuration\<close>

record compiled_archive_warning =
  ca_enabled :: bool
  ca_active_org_file_threshold :: nat
  ca_archives_dir :: string
  ca_max_reported_files :: nat

record compiled_org_artifacts =
  co_enabled :: bool
  co_inactive_after_minutes :: nat
  co_artifacts_path :: string
  co_entry_skill_path :: string
  co_archive_warning :: compiled_archive_warning

definition default_compiled_archive_warning :: compiled_archive_warning where
  "default_compiled_archive_warning =
     \<lparr>ca_enabled = True, ca_active_org_file_threshold = 10, ca_archives_dir = ''archives'',
      ca_max_reported_files = 5\<rparr>"

definition disabled_org_artifacts :: compiled_org_artifacts where
  "disabled_org_artifacts =
     \<lparr>co_enabled = False, co_inactive_after_minutes = 30, co_artifacts_path = [],
      co_entry_skill_path = [], co_archive_warning = default_compiled_archive_warning\<rparr>"

definition compile_archive_warning :: "archive_warning_config \<Rightarrow> string + compiled_archive_warning" where
  "compile_archive_warning c =
     (if aw_active_org_file_threshold c = 0
      then Inl ''agentOrgArtifacts.archiveWarning.activeOrgFileThreshold must be greater than 0''
      else if aw_max_reported_files c = 0
      then Inl ''agentOrgArtifacts.archiveWarning.maxReportedFiles must be greater than 0''
      else if aw_archives_dir c = []
      then Inl ''agentOrgArtifacts.archiveWarning.archivesDir must not be empty''
      else Inr \<lparr>ca_enabled = aw_enabled c,
        ca_active_org_file_threshold = aw_active_org_file_threshold c,
        ca_archives_dir = aw_archives_dir c, ca_max_reported_files = aw_max_reported_files c\<rparr>)"

definition compile_org_artifacts :: "org_artifacts_config \<Rightarrow> string + compiled_org_artifacts" where
  "compile_org_artifacts c =
     (if oa_inactive_after_minutes c = 0
      then Inl ''agentOrgArtifacts.inactiveAfterMinutes must be greater than 0''
      else if oa_artifacts_path c = [] then Inl ''agentOrgArtifacts.artifactsPath must not be empty''
      else if oa_entry_skill_path c = [] then Inl ''agentOrgArtifacts.entrySkillPath must not be empty''
      else (case compile_archive_warning (oa_archive_warning c) of
              Inl e \<Rightarrow> Inl e
            | Inr w \<Rightarrow> Inr \<lparr>co_enabled = oa_enabled c,
                co_inactive_after_minutes = oa_inactive_after_minutes c,
                co_artifacts_path = oa_artifacts_path c, co_entry_skill_path = oa_entry_skill_path c,
                co_archive_warning = w\<rparr>))"

definition compile_agent_org_artifacts_config ::
  "org_artifacts_config option \<Rightarrow> string + compiled_org_artifacts" where
  "compile_agent_org_artifacts_config config =
     (case config of None \<Rightarrow> Inr disabled_org_artifacts | Some c \<Rightarrow> compile_org_artifacts c)"

subsection \<open>Directories\<close>

text \<open>
  An entry has its name; a file its modification time and its text, where they can be read.  Entries of
  another type, symbolic links among them, are \<open>OrgOther\<close>.
\<close>

datatype org_entry =
  OrgDirectory string "org_entry list option" | OrgFile string "nat option" "string option" | OrgOther

definition is_org_file_name :: "string \<Rightarrow> bool" where
  "is_org_file_name name \<longleftrightarrow>
     (case rsplit_once ''.'' name of None \<Rightarrow> False | Some (stem, ext) \<Rightarrow> stem \<noteq> [] \<and> ext = ''org'')"

definition has_contract_binding :: "string option \<Rightarrow> bool" where
  "has_contract_binding content \<longleftrightarrow>
     (case content of
        None \<Rightarrow> False
      | Some source \<Rightarrow> list_ex (\<lambda>line. starts_with (trim_start line) '':CONTRACT_ORG:''
          \<or> starts_with (trim_start line) ''#+CONTRACT_ORG:'') (str_lines source))"

definition has_done_heading :: "string option \<Rightarrow> bool" where
  "has_done_heading content \<longleftrightarrow>
     (case content of
        None \<Rightarrow> False
      | Some source \<Rightarrow> list_ex (\<lambda>line. case strip_prefix ''*'' (trim_start line) of
            None \<Rightarrow> False | Some rest \<Rightarrow> starts_with (trim_start rest) ''DONE '') (str_lines source))"

definition should_descend_org_artifact_dir :: "string \<Rightarrow> bool" where
  "should_descend_org_artifact_dir name \<longleftrightarrow> name \<notin> {''.git'', ''archive'', ''archives''}"

definition should_descend_active_org_artifact_dir :: "string \<Rightarrow> string \<Rightarrow> bool" where
  "should_descend_active_org_artifact_dir archives_dir name \<longleftrightarrow>
     name \<notin> {''.git'', ''archive'', ''archives''} \<and> name \<noteq> archives_dir"

text \<open>A file from the future is recent; so is one that is not older than the window.\<close>

definition modified_is_recent :: "nat \<Rightarrow> nat \<Rightarrow> nat \<Rightarrow> bool" where
  "modified_is_recent now window modified \<longleftrightarrow> now < modified \<or> now - modified \<le> window"

fun collect_latest_contract_org_artifact ::
  "nat \<Rightarrow> nat \<Rightarrow> org_entry list \<Rightarrow> nat option \<Rightarrow> nat option" where
  "collect_latest_contract_org_artifact now window [] latest = latest"
| "collect_latest_contract_org_artifact now window (OrgDirectory name entries # rest) latest =
     collect_latest_contract_org_artifact now window rest
       (case entries of
          None \<Rightarrow> latest
        | Some es \<Rightarrow>
            if should_descend_org_artifact_dir name
            then collect_latest_contract_org_artifact now window es latest else latest)"
| "collect_latest_contract_org_artifact now window (OrgFile name modified content # rest) latest =
     collect_latest_contract_org_artifact now window rest
       (case modified of
          None \<Rightarrow> latest
        | Some m \<Rightarrow>
            if is_org_file_name name \<and> modified_is_recent now window m \<and> has_contract_binding content
               \<and> (case latest of None \<Rightarrow> True | Some current \<Rightarrow> current < m)
            then Some m else latest)"
| "collect_latest_contract_org_artifact now window (OrgOther # rest) latest =
     collect_latest_contract_org_artifact now window rest latest"

definition agent_org_contract_artifacts_active :: "nat \<Rightarrow> nat \<Rightarrow> org_entry list option \<Rightarrow> bool" where
  "agent_org_contract_artifacts_active now window root =
     (case root of
        None \<Rightarrow> False
      | Some entries \<Rightarrow>
          (case collect_latest_contract_org_artifact now window entries None of
             None \<Rightarrow> False | Some modified \<Rightarrow> modified_is_recent now window modified))"

text \<open>The Org files outside the archives, with the path below the artifacts root and the text.\<close>

fun collect_active_org_files :: "string \<Rightarrow> string \<Rightarrow> org_entry list \<Rightarrow> (string \<times> string option) list" where
  "collect_active_org_files archives_dir parent [] = []"
| "collect_active_org_files archives_dir parent (OrgDirectory name entries # rest) =
     (case entries of
        None \<Rightarrow> []
      | Some es \<Rightarrow>
          if should_descend_active_org_artifact_dir archives_dir name
          then collect_active_org_files archives_dir (parent @ name @ ''/'') es else [])
     @ collect_active_org_files archives_dir parent rest"
| "collect_active_org_files archives_dir parent (OrgFile name modified content # rest) =
     (if is_org_file_name name then [(parent @ name, content)] else [])
     @ collect_active_org_files archives_dir parent rest"
| "collect_active_org_files archives_dir parent (OrgOther # rest) =
     collect_active_org_files archives_dir parent rest"

subsection \<open>Archive warning and recovery\<close>

record archive_warning =
  av_artifacts_path :: string
  av_archives_dir :: string
  av_active_org_file_threshold :: nat
  av_active_org_file_count :: nat
  av_done_org_files :: "string list"

record org_recovery =
  or_artifacts_path :: string
  or_entry_skill_path :: string
  or_inactive_after_minutes :: nat
  or_capture_contract_command :: string

definition compute_archive_warning ::
  "compiled_archive_warning \<Rightarrow> string \<Rightarrow> org_entry list option \<Rightarrow> archive_warning option" where
  "compute_archive_warning c root entries =
     (let active = (case entries of None \<Rightarrow> []
            | Some es \<Rightarrow> collect_active_org_files (ca_archives_dir c) [] es);
          done_files = map fst (take (ca_max_reported_files c)
            (filter (\<lambda>f. has_done_heading (snd f)) active))
      in if length active \<le> ca_active_org_file_threshold c \<or> done_files = [] then None
         else Some \<lparr>av_artifacts_path = root, av_archives_dir = ca_archives_dir c,
           av_active_org_file_threshold = ca_active_org_file_threshold c,
           av_active_org_file_count = length active, av_done_org_files = done_files\<rparr>)"

text \<open>
  The scalars of \<open>to_lowercase\<close> that are ASCII: the Kelvin sign becomes a \<open>k\<close>, a dotted capital I an \<open>i\<close>
  and a combining dot, every other scalar that is not ASCII stays outside ASCII.
\<close>

definition lowercase_ascii :: "string \<Rightarrow> char option list" where
  "lowercase_ascii ch =
     (if ch = [CHR 0xE2, CHR 0x84, CHR 0xAA] then [Some (CHR ''k'')]
      else if ch = [CHR 0xC4, CHR 0xB0] then [Some (CHR ''i''), None]
      else (case to_ascii_lowercase ch of [c] \<Rightarrow> [if is_ascii_alphanumeric c then Some c else None]
            | _ \<Rightarrow> [None]))"

fun slug_loop :: "char option list \<Rightarrow> string \<Rightarrow> bool \<Rightarrow> string" where
  "slug_loop [] slug previous_dash = slug"
| "slug_loop (Some c # cs) slug previous_dash = slug_loop cs (slug @ [c]) False"
| "slug_loop (None # cs) slug previous_dash =
     (if \<not> previous_dash \<and> slug \<noteq> [] then slug_loop cs (slug @ ''-'') True
      else slug_loop cs slug previous_dash)"

definition slugify_filename_component :: "string \<Rightarrow> string" where
  "slugify_filename_component text_value =
     trim_end_chars (\<lambda>c. c = CHR ''-'') (slug_loop (concat (map lowercase_ascii (rust_chars text_value))) [] False)"

definition agent_plan_filename :: "nat \<Rightarrow> string option \<Rightarrow> string" where
  "agent_plan_filename now session_id =
     (let slug = (case session_id of None \<Rightarrow> [] | Some s \<Rightarrow> slugify_filename_component s);
          session = (if slug = [] then ''session-unknown'' else slug)
      in ''agent-plan-'' @ session @ ''-'' @ show_nat now @ ''.org'')"

definition org_shell_arg :: "string \<Rightarrow> string" where
  "org_shell_arg v =
     (if list_all (\<lambda>c. is_ascii_alphanumeric c \<or> c \<in> set ''/._-:'') v then v
      else [CHR 0x27] @ str_replace [CHR 0x27] [CHR 0x27, CHR 0x5C, CHR 0x27, CHR 0x27] v @ [CHR 0x27])"

definition capture_contract_command :: "nat \<Rightarrow> string \<Rightarrow> string option \<Rightarrow> string" where
  "capture_contract_command now root session_id =
     (let plan_path = path_join (path_join (path_join root ''flow'') ''plans'')
            (agent_plan_filename now session_id)
      in (''asp org capture --contract agent.plan.v1 --title 'Agent session plan' --target-file ''
      @ org_shell_arg plan_path
      @ '' --no-confirm''))"

subsection \<open>Caches\<close>

text \<open>A value that was computed at an instant of the monotonic clock, and how long it may be used.\<close>

type_synonym archive_key = "string \<times> string \<times> nat \<times> nat"

record org_caches =
  archive_cache :: "archive_key \<rightharpoonup> nat \<times> archive_warning option"
  recovery_cache :: "string \<times> nat \<rightharpoonup> nat \<times> bool"

definition archive_warning_cache_ttl_ns :: nat where
  "archive_warning_cache_ttl_ns = 5 * 10 ^ 9"

definition recovery_active_cache_ttl_ns :: nat where
  "recovery_active_cache_ttl_ns = 10 ^ 9"

definition cached_value :: "nat \<Rightarrow> nat \<Rightarrow> ('k \<rightharpoonup> nat \<times> 'v) \<Rightarrow> 'k \<Rightarrow> 'v option" where
  "cached_value instant ttl cache key =
     (case cache key of
        None \<Rightarrow> None
      | Some (checked_at, v) \<Rightarrow> if instant - checked_at \<le> ttl then Some v else None)"

text \<open>
  What a lookup sees: the wall clock, the monotonic clock and the directory under the resolved path.
\<close>

record org_world =
  ow_now_ns :: nat
  ow_instant_ns :: nat
  ow_read_dir :: "string \<Rightarrow> org_entry list option"

definition saturating_u64 :: "nat \<Rightarrow> nat" where
  "saturating_u64 n = min n (2 ^ 64 - 1)"

definition org_recovery_for ::
  "compiled_org_artifacts \<Rightarrow> org_world \<Rightarrow> org_caches \<Rightarrow> string \<Rightarrow> string option
     \<Rightarrow> org_recovery option \<times> org_caches" where
  "org_recovery_for c w caches root session_id =
     (if \<not> co_enabled c then (None, caches)
      else
        (let artifacts_root = path_join root (co_artifacts_path c);
             secs = saturating_u64 (co_inactive_after_minutes c * 60);
             key = (artifacts_root, secs);
             computed = agent_org_contract_artifacts_active (ow_now_ns w) (secs * 10 ^ 9)
               (ow_read_dir w artifacts_root);
             (active, caches') =
               (case cached_value (ow_instant_ns w) recovery_active_cache_ttl_ns (recovery_cache caches) key of
                  Some a \<Rightarrow> (a, caches)
                | None \<Rightarrow> (computed, caches\<lparr>recovery_cache :=
                    (recovery_cache caches)(key \<mapsto> (ow_instant_ns w, computed))\<rparr>))
         in (if active then None
             else Some \<lparr>or_artifacts_path = artifacts_root, or_entry_skill_path = co_entry_skill_path c,
               or_inactive_after_minutes = co_inactive_after_minutes c,
               or_capture_contract_command =
                 capture_contract_command (ow_now_ns w) artifacts_root session_id\<rparr>,
             caches')))"

definition org_archive_warning ::
  "compiled_org_artifacts \<Rightarrow> org_world \<Rightarrow> org_caches \<Rightarrow> string \<Rightarrow> archive_warning option \<times> org_caches" where
  "org_archive_warning c w caches root =
     (let warning_config = co_archive_warning c in
      if \<not> co_enabled c \<or> \<not> ca_enabled warning_config then (None, caches)
      else
        (let artifacts_root = path_join root (co_artifacts_path c);
             key = (artifacts_root, ca_archives_dir warning_config,
               ca_active_org_file_threshold warning_config, ca_max_reported_files warning_config);
             computed = compute_archive_warning warning_config artifacts_root (ow_read_dir w artifacts_root)
         in case cached_value (ow_instant_ns w) archive_warning_cache_ttl_ns (archive_cache caches) key of
              Some warning \<Rightarrow> (warning, caches)
            | None \<Rightarrow> (computed, caches\<lparr>archive_cache :=
                (archive_cache caches)(key \<mapsto> (ow_instant_ns w, computed))\<rparr>)))"

subsection \<open>In a decision\<close>

definition recall_plans_command :: "archive_warning \<Rightarrow> string" where
  "recall_plans_command w =
     (''asp org recall plans --artifacts-root ''
      @ org_shell_arg (av_artifacts_path w)
      @ '' --archive-dir ''
      @ org_shell_arg (av_archives_dir w))"

definition archive_query_command :: "archive_warning \<Rightarrow> string" where
  "archive_query_command w =
     (''asp org query --kind task --field todo=DONE --exclude-dir ''
      @ org_shell_arg (av_archives_dir w)
      @ '' --workspace ''
      @ org_shell_arg (av_artifacts_path w)
      @ '' --content'')"

definition archive_command :: "archive_warning \<Rightarrow> string" where
  "archive_command w =
     (''asp org archive done --artifacts-root ''
      @ org_shell_arg (av_artifacts_path w)
      @ '' --archive-dir ''
      @ org_shell_arg (av_archives_dir w))"

definition archive_warning_message :: "archive_warning \<Rightarrow> string" where
  "archive_warning_message w =
     (''ASP Org Archive Warning: `''
      @ av_artifacts_path w
      @ ''` contains ''
      @ show_nat (av_active_org_file_count w)
      @ '' active .org files, above threshold ''
      @ show_nat (av_active_org_file_threshold w)
      @ ''; DONE records not under `''
      @ av_archives_dir w
      @ ''` should be archived after selector review: ''
      @ str_join '', '' (av_done_org_files w)
      @ (''.''
      @ newline
      @ ''Run `'')
      @ recall_plans_command w
      @ (''` first to recall active unfinished plans through Rust-owned Org discovery and Python ''
      @ ''asp-memory-engine ranking, use the selected resumeCommand to finish or mark current ''
      @ ''work, then run `'')
      @ archive_query_command w
      @ ''` to list parser-selected DONE tasks and `''
      @ archive_command w
      @ ''` to move reviewed DONE records into the archive.'')"

definition apply_archive_warning :: "hook_decision \<Rightarrow> archive_warning \<Rightarrow> hook_decision" where
  "apply_archive_warning d w =
     (let d1 = (if d_event d = ''session-start''
                   \<and> \<not> str_contains (d_message d) ''ASP Org Archive Warning:''
                then d\<lparr>d_message := (if d_message d = [] then [] else d_message d @ newline @ newline)
                    @ archive_warning_message w\<rparr>
                else d)
      in fold (\<lambda>(k, v). insert_field k v)
           [(''agentOrgArtifactsArchiveWarning'', JString ''unarchived-done''),
            (''agentOrgArtifactsActiveOrgFileCount'', JInt (int (av_active_org_file_count w))),
            (''agentOrgArtifactsActiveOrgFileThreshold'', JInt (int (av_active_org_file_threshold w))),
            (''agentOrgArtifactsPath'', JString (av_artifacts_path w)),
            (''agentOrgArtifactsArchiveDir'', JString (av_archives_dir w)),
            (''agentOrgArtifactsArchiveQueryCommand'', JString (archive_query_command w)),
            (''agentOrgArtifactsRecallPlansCommand'', JString (recall_plans_command w)),
            (''agentOrgArtifactsArchiveCommand'', JString (archive_command w)),
            (''agentOrgArtifactsUnarchivedDoneFiles'', json_strings (av_done_org_files w))] d1)"

definition org_entry_message :: "org_recovery \<Rightarrow> string" where
  "org_entry_message r =
     (''ASP Org Artifact Entry: no recent contract-bound Org artifact was observed under `''
      @ or_artifacts_path r
      @ ''` within the last ''
      @ show_nat (or_inactive_after_minutes r)
      @ '' minutes. Read @''
      @ or_entry_skill_path r
      @ '' before continuing, render a checked entry with `''
      @ or_capture_contract_command r
      @ ''`, then write the returned org-entry under `''
      @ or_artifacts_path r
      @ ''`.'')"

definition apply_org_recovery :: "hook_decision \<Rightarrow> org_recovery \<Rightarrow> hook_decision" where
  "apply_org_recovery d r =
     (let d1 = (if str_contains (d_message d) ''ASP Org Artifact Entry:'' then d
                else d\<lparr>d_message := d_message d @ newline @ newline @ org_entry_message r\<rparr>)
      in fold (\<lambda>(k, v). insert_field k v)
           [(''agentOrgArtifactsStatus'', JString ''missing-contract-bound-artifact''),
            (''agentOrgArtifactsPath'', JString (or_artifacts_path r)),
            (''agentOrgArtifactsEntrySkillPath'', JString (or_entry_skill_path r)),
            (''agentOrgArtifactsInactiveAfterMinutes'', JInt (int (or_inactive_after_minutes r))),
            (''agentOrgCaptureContractCommand'', JString (or_capture_contract_command r))] d1)"

definition with_agent_org_artifact_recovery ::
  "compiled_org_artifacts \<Rightarrow> org_world \<Rightarrow> org_caches \<Rightarrow> string \<Rightarrow> hook_decision
     \<Rightarrow> hook_decision \<times> org_caches" where
  "with_agent_org_artifact_recovery c w caches root d =
     (let (warning, caches1) = org_archive_warning c w caches root;
          d1 = (case warning of None \<Rightarrow> d | Some wn \<Rightarrow> apply_archive_warning d wn)
      in if d_decision d1 \<notin> {Deny, Block} then (d1, caches1)
         else
           (let (recovery, caches2) = org_recovery_for c w caches1 root
                  (Option.bind (field_of d1 ''sessionId'') as_str)
            in (case recovery of None \<Rightarrow> d1 | Some r \<Rightarrow> apply_org_recovery d1 r, caches2)))"

subsection \<open>When an entry is asked for\<close>

text \<open>The files that bind a contract: readable Org files outside archives and \<open>.git\<close>.\<close>

fun contract_files :: "org_entry list \<Rightarrow> nat list" where
  "contract_files [] = []"
| "contract_files (OrgDirectory name entries # rest) =
     (case entries of
        None \<Rightarrow> [] | Some es \<Rightarrow> if should_descend_org_artifact_dir name then contract_files es else [])
     @ contract_files rest"
| "contract_files (OrgFile name modified content # rest) =
     (case modified of
        None \<Rightarrow> [] | Some m \<Rightarrow> if is_org_file_name name \<and> has_contract_binding content then [m] else [])
     @ contract_files rest"
| "contract_files (OrgOther # rest) = contract_files rest"

definition newer :: "nat option \<Rightarrow> nat \<Rightarrow> nat option" where
  "newer latest m = (case latest of None \<Rightarrow> Some m | Some current \<Rightarrow> Some (max current m))"

lemma newer_simps:
  "(if current < m then Some m else Some current) = newer (Some current) m" "Some m = newer None m"
  by (simp_all add: newer_def max_def)

lemma collect_latest_fold:
  "collect_latest_contract_org_artifact now window entries latest =
     foldl newer latest (filter (modified_is_recent now window) (contract_files entries))"
proof (induction now window entries latest rule: collect_latest_contract_org_artifact.induct)
  case (2 now window name entries rest latest)
  then show ?case by (cases entries) auto
next
  case (3 now window name modified content rest latest)
  then show ?case by (cases modified; cases latest) (auto simp: newer_def)
qed simp_all

lemma foldl_newer: "foldl newer latest ms = None \<longleftrightarrow> latest = None \<and> ms = []"
  by (induction ms arbitrary: latest) (auto simp: newer_def split: option.splits)

lemma foldl_newer_Some: "foldl newer latest ms = Some m \<Longrightarrow> m \<in> set ms \<or> latest = Some m"
proof (induction ms arbitrary: latest)
  case (Cons x ms)
  then have "m \<in> set ms \<or> newer latest x = Some m" by simp
  then show ?case by (auto simp: newer_def max_def split: option.splits if_splits)
qed simp

lemma artifacts_active_iff:
  "agent_org_contract_artifacts_active now window (Some entries) \<longleftrightarrow>
     list_ex (modified_is_recent now window) (contract_files entries)"
proof -
  let ?recent = "filter (modified_is_recent now window) (contract_files entries)"
  have "agent_org_contract_artifacts_active now window (Some entries) \<longleftrightarrow> ?recent \<noteq> []"
  proof (cases "foldl newer None ?recent")
    case None
    then show ?thesis
      using foldl_newer [of None ?recent] by (simp add: agent_org_contract_artifacts_active_def collect_latest_fold)
  next
    case (Some m)
    then have mem: "m \<in> set ?recent" using foldl_newer_Some [OF Some] by simp
    have "?recent \<noteq> []" using length_pos_if_in_set [OF mem] unfolding length_greater_0_conv .
    moreover have "modified_is_recent now window m" using mem by simp
    ultimately show ?thesis
      using Some by (simp add: agent_org_contract_artifacts_active_def collect_latest_fold)
  qed
  then show ?thesis by (auto simp: list_ex_iff filter_empty_conv)
qed

lemma cached_value_None:
  "cache key = None \<Longrightarrow> cached_value instant ttl cache key = None"
  by (simp add: cached_value_def)

definition inactive_window_ns :: "compiled_org_artifacts \<Rightarrow> nat" where
  "inactive_window_ns c = saturating_u64 (co_inactive_after_minutes c * 60) * 10 ^ 9"

definition contract_artifact_recent :: "compiled_org_artifacts \<Rightarrow> org_world \<Rightarrow> string \<Rightarrow> bool" where
  "contract_artifact_recent c w root \<longleftrightarrow>
     (case ow_read_dir w (path_join root (co_artifacts_path c)) of
        None \<Rightarrow> False
      | Some entries \<Rightarrow> list_ex (modified_is_recent (ow_now_ns w) (inactive_window_ns c)) (contract_files entries))"

lemma computed_active:
  "agent_org_contract_artifacts_active (ow_now_ns w) (saturating_u64 (co_inactive_after_minutes c * 60) * 1000000000)
     (ow_read_dir w (path_join root (co_artifacts_path c))) = contract_artifact_recent c w root"
proof (cases "ow_read_dir w (path_join root (co_artifacts_path c))")
  case None
  then show ?thesis by (simp add: contract_artifact_recent_def agent_org_contract_artifacts_active_def)
next
  case (Some entries)
  then show ?thesis by (simp add: contract_artifact_recent_def artifacts_active_iff inactive_window_ns_def)
qed

text \<open>
  What the caches remember of a directory: an answer no younger than its entry says, computed from some
  world seen at that instant.
\<close>

definition recovery_cache_ok :: "compiled_org_artifacts \<Rightarrow> string \<Rightarrow> (nat \<Rightarrow> org_world) \<Rightarrow> org_caches \<Rightarrow> bool" where
  "recovery_cache_ok c root history caches \<longleftrightarrow>
     (\<forall>t active. recovery_cache caches
        (path_join root (co_artifacts_path c), saturating_u64 (co_inactive_after_minutes c * 60))
          = Some (t, active) \<longrightarrow> active = contract_artifact_recent c (history t) root)"

text \<open>An entry is asked for exactly when no contract-bound Org file outside the archives was modified
  within the window, as seen now or at most one second ago: the cache never answers from an older look
  at the directory, and it stays an account of what was seen.\<close>

theorem org_recovery_within_a_second:
  assumes enabled: "co_enabled c"
    and cache: "recovery_cache_ok c root history caches"
    and now: "w = history (ow_instant_ns w)"
    and result: "org_recovery_for c w caches root session_id = (recovery, caches')"
  shows "recovery_cache_ok c root history caches'
    \<and> (\<exists>t. ow_instant_ns w - t \<le> 10 ^ 9
         \<and> (recovery = None \<longleftrightarrow> contract_artifact_recent c (history t) root))"
proof -
  let ?key = "(path_join root (co_artifacts_path c), saturating_u64 (co_inactive_after_minutes c * 60))"
  show ?thesis
  proof (cases "cached_value (ow_instant_ns w) recovery_active_cache_ttl_ns (recovery_cache caches) ?key")
    case None
    then have "caches' = caches\<lparr>recovery_cache := (recovery_cache caches)(?key \<mapsto>
        (ow_instant_ns w, contract_artifact_recent c w root))\<rparr>"
      and "recovery = None \<longleftrightarrow> contract_artifact_recent c w root"
      using result enabled by (auto simp: org_recovery_for_def Let_def computed_active split: if_splits)
    with cache now show ?thesis
      by (auto simp: recovery_cache_ok_def intro!: exI [of _ "ow_instant_ns w"])
  next
    case (Some active)
    then obtain t where t: "recovery_cache caches ?key = Some (t, active)" "ow_instant_ns w - t \<le> 10 ^ 9"
      by (auto simp: cached_value_def recovery_active_cache_ttl_ns_def split: option.splits if_splits)
    have "caches' = caches" "recovery = None \<longleftrightarrow> active"
      using result enabled Some by (auto simp: org_recovery_for_def Let_def split: if_splits)
    with cache t show ?thesis by (auto simp: recovery_cache_ok_def)
  qed
qed

text \<open>A plan that was written ten minutes ago, and the same file in the archive.\<close>

definition demo_org_config :: compiled_org_artifacts where
  "demo_org_config = disabled_org_artifacts\<lparr>co_enabled := True, co_artifacts_path := ''org''\<rparr>"

definition demo_plan :: org_entry where
  "demo_plan = OrgFile ''plan.org'' (Some 1) (Some '':CONTRACT_ORG: agent.plan.v1'')"

definition demo_org_world :: "org_entry list \<Rightarrow> org_world" where
  "demo_org_world entries = \<lparr>ow_now_ns = 600 * 10 ^ 9, ow_instant_ns = 7, ow_read_dir = (\<lambda>_. Some entries)\<rparr>"

definition no_org_caches :: org_caches where
  "no_org_caches = \<lparr>archive_cache = (\<lambda>_. None), recovery_cache = (\<lambda>_. None)\<rparr>"

lemma demo_plan_recent:
  "contract_artifact_recent demo_org_config (demo_org_world [demo_plan]) ''/repo''"
  "\<not> contract_artifact_recent demo_org_config
     (demo_org_world [OrgDirectory ''archive'' (Some [demo_plan])]) ''/repo''"
proof -
  have "has_contract_binding (Some '':CONTRACT_ORG: agent.plan.v1'')" "is_org_file_name ''plan.org''"
    by code_simp+
  then show "contract_artifact_recent demo_org_config (demo_org_world [demo_plan]) ''/repo''"
    by (simp add: contract_artifact_recent_def demo_org_world_def demo_plan_def modified_is_recent_def
        inactive_window_ns_def saturating_u64_def demo_org_config_def disabled_org_artifacts_def)
  show "\<not> contract_artifact_recent demo_org_config
     (demo_org_world [OrgDirectory ''archive'' (Some [demo_plan])]) ''/repo''"
    by (simp add: contract_artifact_recent_def demo_org_world_def should_descend_org_artifact_dir_def)
qed

theorem org_recovery_within_a_second_witness:
  "fst (org_recovery_for demo_org_config (demo_org_world [demo_plan]) no_org_caches ''/repo'' None) = None
   \<and> fst (org_recovery_for demo_org_config
         (demo_org_world [OrgDirectory ''archive'' (Some [demo_plan])]) no_org_caches ''/repo'' None) \<noteq> None"
proof -
  have cold: "recovery_cache_ok demo_org_config ''/repo'' history no_org_caches" for history
    by (simp add: recovery_cache_ok_def no_org_caches_def)
  have on: "co_enabled demo_org_config" by (simp add: demo_org_config_def)
  have "fst (org_recovery_for demo_org_config w no_org_caches ''/repo'' None) = None \<longleftrightarrow>
      contract_artifact_recent demo_org_config w ''/repo''" for w
    using org_recovery_within_a_second [OF on cold [of "\<lambda>_. w"] refl, of None
        "fst (org_recovery_for demo_org_config w no_org_caches ''/repo'' None)"
        "snd (org_recovery_for demo_org_config w no_org_caches ''/repo'' None)"] by simp
  with demo_plan_recent show ?thesis by simp
qed

end
