(* ===== verification/ClientConfig.thy ===== *)
theory ClientConfig
  imports OrgArtifacts
begin

section \<open>The compiled client configuration\<close>

text \<open>
  Models \<open>compile_config\<close> of \<open>hook_config/core.rs\<close>, the session policy of
  \<open>hook_config/asp_session_policy.rs\<close> and, of \<open>hook_client_config/model.rs\<close>, the built-in values, the
  seed template and the loading of a file.  Decoding TOML is a parameter, as is the text of the seed
  template, which is a file of its own.
\<close>

subsection \<open>Built-in values\<close>

definition default_execution_lane :: execution_lane_config where
  "default_execution_lane =
     \<lparr>el_enabled = True,
      el_command_prefixes = [''cargo test'', ''cargo check'', ''cargo build'', ''pytest'',
        ''uv run pytest'', ''just test''],
      el_receipt_kind = ''asp-testing-execution-v1''\<rparr>"

definition default_resident_agent_configs :: "resident_agent_config list" where
  "default_resident_agent_configs =
     [\<lparr>ra_enabled = True, ra_name = ''asp-explore'', ra_role = ''asp_explorer'',
       ra_roles = [''subagent'', ''search''], ra_permissions = [''read-only''],
       ra_codex_agent_name = ''asp_explorer'', ra_lifecycle = ''asp-command'',
       ra_session_lifetime = ''resident'',
       ra_main_allowed_asp_command_prefixes =
         [''help'', ''--help'', ''-h'', ''agent session'', ''org recall'', ''org capture''],
       ra_command_prefixes = []\<rparr>]"

definition default_hook_config_file :: hook_config_file where
  "default_hook_config_file =
     \<lparr>cf_schema_id = None, cf_schema_version = None, cf_protocol_id = None, cf_protocol_version = None,
      cf_experimental = (\<lambda>_. None), cf_agent_org_artifacts = None,
      cf_recovery_prompt = \<lparr>rp_template = None, rp_codex_agent_flow = None,
        rp_claude_agent_flow = None, rp_default_agent_flow = None\<rparr>,
      cf_agent_session_guide = \<lparr>gd_register = None, gd_list = None, gd_show = None, gd_reuse = None,
        gd_status = None\<rparr>,
      cf_agent_session_messages = no_session_messages,
      cf_resident_agents = default_resident_agent_configs, cf_testing_lane = default_execution_lane,
      cf_asp_command_intent_policy = default_asp_command_intent_policy, cf_rules = []\<rparr>"

subsection \<open>The seed template\<close>

definition default_hook_client_source_extensions :: "string list" where
  "default_hook_client_source_extensions =
     [''.rs'', ''.py'', ''.ts'', ''.tsx'', ''.js'', ''.jsx'', ''.mts'', ''.cts'', ''.mjs'', ''.cjs'',
      ''.ss'', ''.ssi'', ''.scm'', ''.sld'', ''.jl'', ''.org'', ''.org_archive'', ''.md'', ''.markdown'']"

definition normalize_source_extension :: "string \<Rightarrow> string option" where
  "normalize_source_extension source_ext =
     (let trimmed = str_trim source_ext;
          ext = (case or_else (strip_prefix ''**/*'' trimmed) (strip_prefix ''*'' trimmed) of
                   Some e \<Rightarrow> e | None \<Rightarrow> trimmed)
      in if trimmed = [] then None
         else if starts_with ext ''.'' then Some ext else Some (CHR ''.'' # ext))"

definition argv_source_glob_line :: "string \<Rightarrow> string" where
  "argv_source_glob_line ext = ((''  ''
      @ [CHR 34]
      @ ''*'')
      @ ext
      @ ([CHR 34]
      @ '', ''
      @ [CHR 34]
      @ ''**/*'')
      @ ext
      @ ([CHR 34]
      @ '',''))"

fun argv_source_glob_lines :: "string set \<Rightarrow> string list \<Rightarrow> string list" where
  "argv_source_glob_lines seen [] = []"
| "argv_source_glob_lines seen (s # ss) =
     (case normalize_source_extension s of
        None \<Rightarrow> argv_source_glob_lines seen ss
      | Some ext \<Rightarrow>
          if ext \<in> seen then argv_source_glob_lines seen ss
          else argv_source_glob_line ext # argv_source_glob_lines (insert ext seen) ss)"

text \<open>
  The call with no usable extension is repeated with the built-in ones, which are all usable.
\<close>

definition render_argv_source_globs :: "string list \<Rightarrow> string" where
  "render_argv_source_globs exts =
     (let rendered = argv_source_glob_lines {} exts
      in str_join newline
           (if rendered = [] then argv_source_glob_lines {} default_hook_client_source_extensions
            else rendered))"

definition config_template_for_source_extensions :: "string \<Rightarrow> string list \<Rightarrow> string" where
  "config_template_for_source_extensions template exts =
     str_replace ''@ARGV_SOURCE_GLOBS@'' (render_argv_source_globs exts)
       (str_replace ''@HOOK_PROTOCOL_VERSION@'' hook_protocol_version
         (str_replace ''@HOOK_PROTOCOL_ID@'' hook_protocol_id
           (str_replace ''@CLIENT_HOOK_CONFIG_SCHEMA_VERSION@'' client_hook_config_schema_version
             (str_replace ''@CLIENT_HOOK_CONFIG_SCHEMA_ID@'' client_hook_config_schema_id template))))"

definition default_hook_client_config_template :: "string \<Rightarrow> string" where
  "default_hook_client_config_template template =
     config_template_for_source_extensions template default_hook_client_source_extensions"

text \<open>\<open>render_hook_client_message_template\<close>: placeholders in double braces, in the order of the list.\<close>

definition render_hook_client_message_template :: "string \<Rightarrow> (string \<times> string) list \<Rightarrow> string" where
  "render_hook_client_message_template template values =
     str_trim (foldl (\<lambda>rendered (key, v). str_replace (''{{'' @ key @ ''}}'') v rendered) template values)"

subsection \<open>Session policy\<close>

definition is_asp_command_lane :: "resident_agent_config \<Rightarrow> bool" where
  "is_asp_command_lane a \<longleftrightarrow> ra_lifecycle a = ''asp-command''"

fun collect_prefix_tokens :: "string list \<Rightarrow> string + string list list" where
  "collect_prefix_tokens [] = Inr []"
| "collect_prefix_tokens (p # ps) =
     (case command_prefix_tokens
         ''agents.residentAgents[asp-explore].mainAllowedAspCommandPrefixes[]'' p of
        Inl e \<Rightarrow> Inl e
      | Inr tokens \<Rightarrow>
          (case collect_prefix_tokens ps of Inl e \<Rightarrow> Inl e | Inr rest \<Rightarrow> Inr (tokens # rest)))"

definition session_policy_of_agents :: "resident_agent_config list \<Rightarrow> string + asp_session_policy" where
  "session_policy_of_agents agents =
     (case or_else (find is_asp_command_lane agents)
         (find is_asp_command_lane default_resident_agent_configs) of
        None \<Rightarrow> Inl ''built-in asp-command resident agent is unavailable''
      | Some lane \<Rightarrow>
          (case collect_prefix_tokens (ra_main_allowed_asp_command_prefixes lane) of
             Inl e \<Rightarrow> Inl e
           | Inr allowed \<Rightarrow>
               Inr \<lparr>command_intent_policy = default_asp_command_intent_policy,
                 policy_enabled = ra_enabled lane, resident_child_name = ra_name lane,
                 resident_codex_agent_name = ra_codex_agent_name lane,
                 main_allowed_asp_command_prefixes = allowed\<rparr>))"

definition with_command_intent_policy ::
  "asp_command_intent_policy \<Rightarrow> asp_session_policy \<Rightarrow> asp_session_policy" where
  "with_command_intent_policy policy p = p\<lparr>command_intent_policy := policy\<rparr>"

subsection \<open>Compilation\<close>

record client_hook_config =
  cc_rules :: "hook_rule list"
  cc_asp_command_intent_policy :: asp_command_intent_policy
  cc_semantic_ast_patch_disabled :: bool
  cc_agent_org_artifacts :: compiled_org_artifacts
  cc_recovery_prompt :: recovery_prompt_config
  cc_asp_session_policy :: asp_session_policy
  cc_agent_session_messages :: agent_session_messages

datatype config_error = ConfigRule rule_error | ConfigText string

text \<open>
  \<open>default_messages\<close> is what decoding the rendered seed template gives for the messages.  The order of
  the checks is the order of the source's fields.
\<close>

definition compile_config ::
  "pattern_libraries \<Rightarrow> string + agent_session_messages \<Rightarrow> hook_config_file
     \<Rightarrow> config_error + client_hook_config" where
  "compile_config libs default_messages c =
     (case default_messages of
        Inl e \<Rightarrow> Inl (ConfigText e)
      | Inr defaults \<Rightarrow>
          (case compile_rules libs (cf_rules c) of
             Inl e \<Rightarrow> Inl (ConfigRule e)
           | Inr rules \<Rightarrow>
               (case compile_agent_org_artifacts_config (cf_agent_org_artifacts c) of
                  Inl e \<Rightarrow> Inl (ConfigText e)
                | Inr org \<Rightarrow>
                    (case session_policy_of_agents (cf_resident_agents c) of
                       Inl e \<Rightarrow> Inl (ConfigText e)
                     | Inr policy \<Rightarrow> Inr
                         \<lparr>cc_rules = rules,
                          cc_asp_command_intent_policy = cf_asp_command_intent_policy c,
                          cc_semantic_ast_patch_disabled = (\<not> config_semantic_ast_patch_enabled c),
                          cc_agent_org_artifacts = org,
                          cc_recovery_prompt = compiled_recovery_prompt (cf_recovery_prompt c),
                          cc_asp_session_policy =
                            with_command_intent_policy (cf_asp_command_intent_policy c) policy,
                          cc_agent_session_messages =
                            merge_agent_session_messages (cf_agent_session_messages c) defaults\<rparr>))))"

definition semantic_ast_patch_enabled :: "client_hook_config \<Rightarrow> bool" where
  "semantic_ast_patch_enabled c \<longleftrightarrow> \<not> cc_semantic_ast_patch_disabled c"

text \<open>The configuration that is used when a caller passes none.\<close>

definition default_client_hook_config :: client_hook_config where
  "default_client_hook_config =
     \<lparr>cc_rules = [], cc_asp_command_intent_policy = default_asp_command_intent_policy,
      cc_semantic_ast_patch_disabled = False, cc_agent_org_artifacts = disabled_org_artifacts,
      cc_recovery_prompt = default_recovery_prompt, cc_asp_session_policy = default_asp_session_policy,
      cc_agent_session_messages = no_session_messages\<rparr>"

text \<open>Loading: an absent file is the default; a present one is decoded, then validated.\<close>

definition load_hook_client_config_file ::
  "(string \<Rightarrow> string + hook_config_file) \<Rightarrow> string option \<Rightarrow> string + hook_config_file" where
  "load_hook_client_config_file decode content =
     (case content of
        None \<Rightarrow> Inr default_hook_config_file
      | Some toml \<Rightarrow>
          (case decode toml of
             Inl e \<Rightarrow> Inl e
           | Inr parsed \<Rightarrow>
               (case validate_config parsed of Inl e \<Rightarrow> Inl e | Inr _ \<Rightarrow> Inr parsed)))"

definition load_client_config ::
  "pattern_libraries \<Rightarrow> string + agent_session_messages \<Rightarrow> (string \<Rightarrow> string + hook_config_file)
     \<Rightarrow> string option \<Rightarrow> config_error + client_hook_config" where
  "load_client_config libs default_messages decode content =
     (case load_hook_client_config_file decode content of
        Inl e \<Rightarrow> Inl (ConfigText e)
      | Inr parsed \<Rightarrow> compile_config libs default_messages parsed)"

text \<open>For a project, its own file has to decode as well, although nothing of it is used.\<close>

definition load_client_config_for_project ::
  "pattern_libraries \<Rightarrow> string + agent_session_messages \<Rightarrow> (string \<Rightarrow> string + hook_config_file)
     \<Rightarrow> (string \<Rightarrow> string + unit) \<Rightarrow> string option \<Rightarrow> string option
     \<Rightarrow> config_error + client_hook_config" where
  "load_client_config_for_project libs default_messages decode decode_project content project_content =
     (case load_hook_client_config_file decode content of
        Inl e \<Rightarrow> Inl (ConfigText e)
      | Inr parsed \<Rightarrow>
          (case (case project_content of None \<Rightarrow> Inr () | Some toml \<Rightarrow> decode_project toml) of
             Inl e \<Rightarrow> Inl (ConfigText e)
           | Inr _ \<Rightarrow> compile_config libs default_messages parsed))"

end
