(* ===== verification/Classifier.thy ===== *)
theory Classifier
  imports ClientConfig PromptFlow
begin

section \<open>The hook classifier\<close>

text \<open>
  Models \<open>classifier/core.rs\<close> of \<open>crates/agent-semantic-hook\<close>: the decision for one payload of a
  client.  The components are called in the order of the source; the first that decides wins, an
  undecided tool use is allowed, and the decision is then completed (routes, message, fields).
  The digest of a patch, SHA-256 of a third-party crate, is the parameter \<open>digest\<close>.
\<close>

record classification_request =
  q_registry :: hook_runtime
  q_config :: client_hook_config
  q_platform :: string
  q_event :: string
  q_payload :: json

subsection \<open>Completion of a decision\<close>

definition receipt_phrase :: string where
  "receipt_phrase = ''Return one compact `[asp-search-subagent]` graph-route receipt''"

definition selector_only_phrase :: string where
  "selector_only_phrase = ''Return selector-only `[asp-search-subagent]` evidence''"

definition with_selector_only_subagent_message :: "hook_decision \<Rightarrow> hook_decision" where
  "with_selector_only_subagent_message d =
     (if str_contains (d_message d) receipt_phrase \<and> \<not> str_contains (d_message d) selector_only_phrase
      then d\<lparr>d_message :=
        str_replace receipt_phrase (selector_only_phrase @ ''. '' @ receipt_phrase) (d_message d)\<rparr>
      else d)"

definition route_option_value :: "string list \<Rightarrow> string \<Rightarrow> string option" where
  "route_option_value tokens opt =
     find_map (\<lambda>w. if w ! 0 = opt then Some (w ! 1) else None) (windows 2 tokens)"

text \<open>The route a query route of a source file is rewritten to, with its language and owner.\<close>

definition owner_route_argv :: "string list \<Rightarrow> string list option" where
  "owner_route_argv argv =
     (if length argv < 5 \<or> get_at argv 0 \<noteq> Some ''asp'' \<or> get_at argv 2 \<noteq> Some ''query'' then None
      else (case route_option_value argv ''--selector'' of
              None \<Rightarrow> None
            | Some selector \<Rightarrow>
                if ''--content'' \<in> set argv \<or> ''--code'' \<notin> set argv \<or> str_contains selector ''://''
                then None
                else Some [''asp'', argv ! 1, ''search'', ''owner'',
                  (case split_once '':'' selector of Some (owner, _) \<Rightarrow> owner | None \<Rightarrow> selector),
                  ''items'', ''--workspace'',
                  (case route_option_value argv ''--workspace'' of Some w \<Rightarrow> w | None \<Rightarrow> ''.''),
                  ''--view'', ''seeds'']))"

definition normalize_route :: "decision_route \<Rightarrow> string \<Rightarrow> decision_route \<times> string" where
  "normalize_route route message =
     (if r_kind route \<noteq> RouteQuery then (route, message)
      else (case owner_route_argv (r_argv route) of
              None \<Rightarrow> (route, message)
            | Some argv \<Rightarrow> (route\<lparr>r_kind := RouteOwner, r_argv := argv\<rparr>,
                str_replace (str_join '' '' (r_argv route)) (str_join '' '' argv) message)))"

fun normalize_routes :: "decision_route list \<Rightarrow> string \<Rightarrow> decision_route list \<times> string" where
  "normalize_routes [] message = ([], message)"
| "normalize_routes (route # routes) message =
     (let (route', message1) = normalize_route route message;
          (routes', message2) = normalize_routes routes message1
      in (route' # routes', message2))"

definition normalize_source_file_query_routes :: "hook_decision \<Rightarrow> hook_decision" where
  "normalize_source_file_query_routes d =
     (if d_reason_kind d \<notin> {DirectSourceRead, BulkSourceDump} then d
      else (let (routes, message) = normalize_routes (d_routes d) (d_message d)
            in d\<lparr>d_routes := routes, d_message := message\<rparr>))"

definition with_prompt_scope_fields :: "json \<Rightarrow> hook_decision \<Rightarrow> hook_decision" where
  "with_prompt_scope_fields payload d =
     (let d1 = (case payload_session_id payload of
            None \<Rightarrow> d | Some s \<Rightarrow> or_insert_field ''sessionId'' (JString s) d)
      in case payload_transcript_path payload of
           None \<Rightarrow> d1 | Some t \<Rightarrow> or_insert_field ''transcriptPath'' (JString t) d1)"

subsection \<open>Stop and user prompt\<close>

definition search_pipe_required_stop_message :: "string \<Rightarrow> string" where
  "search_pipe_required_stop_message language_id = str_join newline
     [(''ASP hook blocked Stop because this prompt ran `search prime` but has not shown final ''
      @ ''evidence beyond the prime map.''),
      (''The prime packet is only a project/owner map; answer from a justified route frontier, ''
      @ ''not from prime alone.''),
      [],
      ''## Run Next'',
      ''Choose the narrowest ASP route justified by the current evidence state.'',
      [],
      ''## Rules'',
      ''Follow `recommendedNext` or `nextCommand` when the prime packet supplied one.'',
      (''Run `asp ''
      @ language_id
      @ ('' search pipe '<question-or-feature-term>' --workspace . --view seeds` only when the ''
      @ ''evidence is still ambiguous and needs query refinement.'')),
      (''If an owner, symbol, dependency, test/failure, or exact selector is already known, skip ''
      @ ''pipe and use the narrower owner/reasoning/query route.''),
      ''Do not repeat `search prime`. Do not answer from prime alone.'']"

definition classify_stop ::
  "bash_parser \<Rightarrow> json_parser \<Rightarrow> host \<Rightarrow> string \<Rightarrow> string \<Rightarrow> json \<Rightarrow> hook_decision option shell_result" where
  "classify_stop parse jp h platform event payload =
     (if event \<noteq> ''stop'' then Inr None
      else shell_bind (missing_search_pipe_after_prime parse jp (host_now_ms h) (host_events h)
             (payload_session_id payload) (payload_transcript_path payload))
        (\<lambda>r. Inr (case r of
            Inr (Some feedback) \<Rightarrow>
              Some (new_decision platform event Block ReasonNone [fb_language_id feedback] default_subject []
                (search_pipe_required_stop_message (fb_language_id feedback))
                [(''hookFeedback'', JString ''search-pipe-required''),
                 (''languageId'', JString (fb_language_id feedback))])
          | _ \<Rightarrow> None)))"

definition prompt_is_locator_only :: "string \<Rightarrow> bool" where
  "prompt_is_locator_only prompt0 \<longleftrightarrow>
     (let prompt = to_ascii_lowercase prompt0
      in list_ex (str_contains prompt)
           [''where '', ''locate'', ''located'', ''selecting files'', ''before selecting'']
         \<and> \<not> list_ex (str_contains prompt) [''show code'', ''read code'', ''extract code''])"

definition classify_user_prompt :: "string \<Rightarrow> string \<Rightarrow> json \<Rightarrow> hook_decision option" where
  "classify_user_prompt platform event payload =
     (if event \<noteq> ''user-prompt'' then None
      else (let prompt = (case payload_string payload ''prompt'' of Some p \<Rightarrow> p | None \<Rightarrow> []);
                d = allow platform event default_subject
            in Some (if prompt_is_locator_only prompt
                 then insert_field ''promptWorkflow'' (JString ''locator-only'') d else d)))"

definition classify_non_tool_event ::
  "bash_parser \<Rightarrow> json_parser \<Rightarrow> host \<Rightarrow> classification_request \<Rightarrow> hook_decision option shell_result" where
  "classify_non_tool_event parse jp h q =
     shell_bind (classify_stop parse jp h (q_platform q) (q_event q) (q_payload q)) (\<lambda>r.
       Inr (case r of
              Some d \<Rightarrow> Some d
            | None \<Rightarrow> classify_user_prompt (q_platform q) (q_event q) (q_payload q)))"

subsection \<open>Unknown facades\<close>

definition is_facade_binary_token :: "string \<Rightarrow> bool" where
  "is_facade_binary_token token \<longleftrightarrow>
     token = ''asp'' \<or> ends_with token ''/asp'' \<or> ends_with token ''.bin/asp''"

definition facade_env_assignment :: "string \<Rightarrow> bool" where
  "facade_env_assignment token \<longleftrightarrow>
     (case split_once ''='' token of
        None \<Rightarrow> False
      | Some (name, _) \<Rightarrow> name \<noteq> [] \<and> \<not> starts_with name ''-''
          \<and> list_all (\<lambda>c. c = CHR ''_'' \<or> is_ascii_alphanumeric c) name)"

definition facade_invocation_position :: "string list \<Rightarrow> nat \<Rightarrow> bool" where
  "facade_invocation_position tokens index \<longleftrightarrow>
     index = 0
     \<or> tokens ! (index - 1) \<in> {''&&'', '';'', ''|'', ''||'', ''rtk''}
     \<or> list_all facade_env_assignment (take index tokens)
     \<or> facade_env_assignment (tokens ! (index - 1))
     \<or> 3 \<le> index \<and> tokens ! (index - 3) = ''direnv'' \<and> tokens ! (index - 2) = ''exec''"

definition facade_asp_index :: "string list \<Rightarrow> nat option" where
  "facade_asp_index tokens =
     find (\<lambda>i. is_facade_binary_token (tokens ! i) \<and> facade_invocation_position tokens i)
       [0..<length tokens]"

definition root_asp_commands :: "string set" where
  "root_asp_commands = {''agent'', ''guide'', ''providers'', ''tools'', ''wrap'', ''cache'', ''cloud'',
     ''hook'', ''state'', ''plugin'', ''install'', ''sync'', ''paths'', ''healthcheck'',
     ''source-access'', ''ast-patch'', ''graph'', ''fd'', ''rg'', ''search'', ''query'', ''check''}"

definition is_active_language :: "hook_runtime \<Rightarrow> string \<Rightarrow> bool" where
  "is_active_language registry facade \<longleftrightarrow> list_ex (\<lambda>p. p_language_id p = facade) (providers registry)"

definition invalid_asp_facade_from_tokens :: "hook_runtime \<Rightarrow> string list \<Rightarrow> string option" where
  "invalid_asp_facade_from_tokens registry tokens =
     (case facade_asp_index tokens of
        None \<Rightarrow> None
      | Some i \<Rightarrow>
          (case get_at tokens (i + 1) of
             None \<Rightarrow> None
           | Some facade \<Rightarrow>
               if starts_with facade ''-'' \<or> facade \<in> root_asp_commands \<or> is_active_language registry facade
               then None else Some facade))"

definition action_is_known_asp_command :: "hook_runtime \<Rightarrow> tool_action \<Rightarrow> string list \<Rightarrow> bool" where
  "action_is_known_asp_command registry action tokens \<longleftrightarrow>
     supports_command_feedback action
     \<and> (case facade_asp_index tokens of
          None \<Rightarrow> False
        | Some i \<Rightarrow>
            (case get_at tokens (i + 1) of
               None \<Rightarrow> True
             | Some facade \<Rightarrow> facade \<in> root_asp_commands \<or> is_active_language registry facade))"

definition preferred_language_for_invalid_facade :: "hook_runtime \<Rightarrow> string \<Rightarrow> string option" where
  "preferred_language_for_invalid_facade registry facade =
     (if eq_ignore_ascii_case facade ''effect'' \<and> is_active_language registry ''typescript''
      then Some ''typescript'' else None)"

definition invalid_asp_facade_message :: "string \<Rightarrow> string option \<Rightarrow> hook_runtime \<Rightarrow> string" where
  "invalid_asp_facade_message facade preferred registry = str_join newline
     ([(''ASP hook denied unknown ASP facade `''
      @ facade
      @ ''`.''),
       ''ASP facades are language IDs, not package or library names.'',
       (''Active language facades: ''
      @ str_join '','' (map p_language_id (providers registry))
      @ ''.'')]
      @ (case preferred of None \<Rightarrow> []
         | Some language_id \<Rightarrow> [(''Suggested matching facade: ''
      @ language_id
      @ ''.'')])
      @ [[], ''## Run Next'']
      @ (case preferred of
           Some language_id \<Rightarrow>
             [(''Choose the narrowest `asp ''
      @ language_id
      @ (''` route from the current evidence state: owner/reasoning/query for known anchors, ''
      @ ''`search prime --workspace . --view seeds` only when the owner map is unknown, and ''
      @ ''`search pipe '<question-or-feature-term>' --workspace . --view seeds` only for ''
      @ ''ambiguous query refinement.''))]
         | None \<Rightarrow>
             [''asp providers'', (''asp fd -query '<path-or-language-term>' '.''
      @ [CHR 39]),
              (''asp rg -query '<feature-term>' '<bounded-scope>''
      @ [CHR 39])])
      @ [[], ''## Rules'',
         (''Only run `asp <language> search|query` when the facade is listed and matches the target ''
      @ ''language.''),
         (''Do not switch to an unrelated active facade just because it is the only provider in ''
      @ ''this repository.''),
         (''For unsupported target-language files, use provider-neutral finder commands or ''
      @ ''install/activate a matching provider.''),
         ''For the Effect package, use the TypeScript facade: `asp typescript ...`.''])"

definition invalid_facade_decision ::
  "hook_runtime \<Rightarrow> string \<Rightarrow> string \<Rightarrow> tool_action \<Rightarrow> string \<Rightarrow> hook_decision" where
  "invalid_facade_decision registry platform event action facade =
     (let preferred = preferred_language_for_invalid_facade registry facade
      in new_decision platform event Deny ReasonNone (case preferred of None \<Rightarrow> [] | Some l \<Rightarrow> [l])
           (subject_for_action action) [] (invalid_asp_facade_message facade preferred registry)
           ([(''hookFeedback'', JString ''invalid-asp-facade''), (''invalidFacade'', JString facade)]
            @ optional_member ''languageId'' (map_option JString preferred)
            @ [(''requiredAction'', JString ''send-to-asp-explore''),
               (''nextAction'', JString
                 ''translate-to-supported-asp-facade-and-run-in-registered-asp-explore-child''),
               (''targetAgentName'', JString ''asp_explorer''),
               (''targetAgentRole'', JString ''asp_explorer''),
               (''targetAgentSelectionSource'', JString ''hook-deny-intent''),
               (''targetAgentRegistrySource'',
                 JString ''~/.agent-semantic-protocols/agents/config.toml''),
               (''forbiddenUntilResolved'', JString ''raw-source-fallback''),
               (''completionReceipt'', JString ''asp-explore-child-command'')]))"

definition classify_invalid_asp_facade ::
  "bash_parser \<Rightarrow> hook_runtime \<Rightarrow> string \<Rightarrow> string \<Rightarrow> tool_action \<Rightarrow> hook_decision option shell_result" where
  "classify_invalid_asp_facade parse registry platform event action =
     (if event \<noteq> ''pre-tool'' \<or> \<not> supports_command_feedback action \<or> t_command action = None
      then Inr None
      else shell_bind (action_command_tokens parse action) (\<lambda>t. Inr
        (case Option.bind t (invalid_asp_facade_from_tokens registry) of
           None \<Rightarrow> None
         | Some facade \<Rightarrow> Some (invalid_facade_decision registry platform event action facade))))"

subsection \<open>Patches of source\<close>

definition source_apply_patch_authorization_path :: "hook_runtime \<Rightarrow> string \<Rightarrow> string" where
  "source_apply_patch_authorization_path registry patch_digest =
     foldl path_join (project_root registry)
       [''.cache'', ''agent-semantic-protocol'', ''hooks'', ''source-apply-patch'', patch_digest @ ''.json'']"

definition patch_denied_message :: "string list \<Rightarrow> decision_route list \<Rightarrow> string" where
  "patch_denied_message languages routes =
     (let language = (case languages of [] \<Rightarrow> ''<language>'' | l # _ \<Rightarrow> l);
          root = (case routes of
              [] \<Rightarrow> ''.''
            | r # _ \<Rightarrow> if r_argv r = [] \<or> starts_with (last (r_argv r)) ''-'' then ''.'' else last (r_argv r));
          route_guide = str_join ''; '' (map (\<lambda>r. command_line (r_argv r)) routes)
      in ((''source apply_patch denied; handwritten source hunks are not a supported workflow for ''
      @ ''protected source. Locator route: '')
      @ route_guide
      @ (''. Treat path-only locator output as a frontier/read-plan, not patch preimage; exact ''
      @ ''patch context must come from normal selector/code stdout: `asp '')
      @ language
      @ '' query --selector <path:start:end> --workspace ''
      @ root
      @ '' --code`. Build semantic-ast-patch.json with `asp ast-patch template --language ''
      @ language
      @ '' --owner <owner-path> --read <path:start:end> --op <operation> --field <key=value> ''
      @ root
      @ ''`; verify with `asp ''
      @ language
      @ '' ast-patch dry-run --packet semantic-ast-patch.json ''
      @ root
      @ ''`; apply with provider-native `asp ''
      @ language
      @ '' ast-patch apply --packet semantic-ast-patch.json ''
      @ root
      @ (''` when the receipt reports mutationSource=provider-native. Codex text patching is only ''
      @ ''a codex-text-fallback or controlled maintenance policy path, not the normal AST patch ''
      @ ''route.'')))"

definition authorized_patch_decision ::
  "string \<Rightarrow> string \<Rightarrow> tool_action \<Rightarrow> string list \<Rightarrow> decision_subject \<Rightarrow> string \<Rightarrow> string \<Rightarrow> hook_decision" where
  "authorized_patch_decision platform event action languages subject patch_digest path =
     (allow platform event subject)
       \<lparr>d_language_ids := languages,
        d_message := ''source apply_patch allowed by controlled maintenance authorization '' @ path,
        d_fields := [(''toolSurface'', JString (surface_str (t_surface action))),
          (''operationIntent'', JString (operation_str (t_operation action))),
          (''maintenancePolicy'', JString ''source-apply-patch-authorization''),
          (''patchDigest'', JString patch_digest), (''authorizationPath'', JString path)]\<rparr>"

definition classify_apply_patch_paths ::
  "glob_compiler \<Rightarrow> (string \<Rightarrow> string) \<Rightarrow> host \<Rightarrow> hook_runtime \<Rightarrow> string \<Rightarrow> string \<Rightarrow> tool_action
     \<Rightarrow> string list \<Rightarrow> hook_decision option" where
  "classify_apply_patch_paths glob digest h registry platform event action changed_paths =
     (let ms = collect_source_selector_matches glob registry changed_paths (\<lambda>_. True);
          routes = direct_read_routes ms;
          subject = (subject_for_action action)\<lparr>j_paths := changed_paths\<rparr>;
          languages = direct_read_language_ids ms;
          denied = deny_for_action platform event SemanticAstPatchRequired action languages subject routes
            (patch_denied_message languages routes)
      in if ms = [] then None
         else (case t_command action of
                 None \<Rightarrow> Some denied
               | Some command \<Rightarrow>
                   (let path = source_apply_patch_authorization_path registry (digest command)
                    in if host_is_file h path
                       then Some (authorized_patch_decision platform event action languages subject
                         (digest command) path)
                       else Some denied)))"

definition classify_apply_patch_command ::
  "glob_compiler \<Rightarrow> (string \<Rightarrow> string) \<Rightarrow> host \<Rightarrow> hook_runtime \<Rightarrow> string \<Rightarrow> string \<Rightarrow> tool_action
     \<Rightarrow> string \<Rightarrow> hook_decision option" where
  "classify_apply_patch_command glob digest h registry platform event action command =
     (let changed_paths = apply_patch_source_paths (t_tool_name action) command
      in if changed_paths = [] then None
         else classify_apply_patch_paths glob digest h registry platform event action changed_paths)"

definition classify_structured_apply_patch_action ::
  "glob_compiler \<Rightarrow> (string \<Rightarrow> string) \<Rightarrow> host \<Rightarrow> hook_runtime \<Rightarrow> string \<Rightarrow> string \<Rightarrow> tool_action
     \<Rightarrow> hook_decision option" where
  "classify_structured_apply_patch_action glob digest h registry platform event action =
     (if t_operation action \<noteq> OpApplyPatch \<or> t_paths action = [] then None
      else classify_apply_patch_paths glob digest h registry platform event action (t_paths action))"

subsection \<open>JSON searches\<close>

definition search_json_owner_path :: "string list \<Rightarrow> string option" where
  "search_json_owner_path argv =
     (if get_at argv 1 \<noteq> Some ''search'' \<or> get_at argv 2 \<noteq> Some ''owner'' then None
      else (case get_at argv 3 of
              None \<Rightarrow> None
            | Some path \<Rightarrow> if path = ''.'' \<or> starts_with path ''-'' then None else Some path))"

definition search_json_decision_route :: "activated_provider \<Rightarrow> string list \<Rightarrow> decision_route" where
  "search_json_decision_route p argv =
     (case search_json_owner_path argv of
        Some path \<Rightarrow>
          route_from_template p RouteOwner (owner_route (p_routes p)) (Some path) (infer_query_from_path path)
      | None \<Rightarrow>
          \<lparr>r_language_id = p_language_id p, r_provider_id = p_provider_id p, r_binary = ''asp'',
           r_kind = RouteLexical, r_argv = agent_facade_argv_from_provider_argv p argv,
           r_stdin_mode = None\<rparr>)"

definition classify_search_json_command ::
  "hook_runtime \<Rightarrow> string \<Rightarrow> string \<Rightarrow> tool_action \<Rightarrow> string list \<Rightarrow> hook_decision option shell_result" where
  "classify_search_json_command registry platform event action tokens =
     (if ''--json'' \<notin> set tokens then Inr None
      else shell_bind (search_json_route registry tokens) (\<lambda>r. Inr
        (case r of
           None \<Rightarrow> None
         | Some (p, argv) \<Rightarrow>
             if \<not> blocks_agent_search_json (p_policy p) then None
             else (let route = search_json_decision_route p argv
                   in Some (deny_for_action platform event AgentSearchJson action [p_language_id p]
                     (subject_for_action action) [route]
                     (''agent-search-json denied; route: '' @ command_line (r_argv route)))))))"

subsection \<open>Tool actions\<close>

definition or_try :: "'a option shell_result \<Rightarrow> 'a option shell_result \<Rightarrow> 'a option shell_result" where
  "or_try a b = shell_bind a (\<lambda>r. case r of Some x \<Rightarrow> Inr (Some x) | None \<Rightarrow> b)"

fun find_decision :: "('a \<Rightarrow> 'b option shell_result) \<Rightarrow> 'a list \<Rightarrow> 'b option shell_result" where
  "find_decision f [] = Inr None"
| "find_decision f (x # xs) = or_try (f x) (find_decision f xs)"

definition classify_command_action ::
  "bash_parser \<Rightarrow> glob_compiler \<Rightarrow> (string \<Rightarrow> string) \<Rightarrow> host \<Rightarrow> classification_request \<Rightarrow> tool_action
     \<Rightarrow> hook_decision option shell_result" where
  "classify_command_action parse glob digest h q action =
     (let registry = q_registry q; platform = q_platform q; event = q_event q;
          prompt = cc_recovery_prompt (q_config q)
      in case t_command action of
           None \<Rightarrow> Inr None
         | Some command \<Rightarrow>
             shell_bind (action_command_tokens parse action) (\<lambda>t.
               case t of
                 None \<Rightarrow> Inr None
               | Some tokens \<Rightarrow>
                   if action_is_known_asp_command registry action tokens then Inr None
                   else or_try
                     (Inr (if semantic_ast_patch_enabled (q_config q)
                           then classify_apply_patch_command glob digest h registry platform event action command
                           else None))
                     (or_try (classify_search_json_command registry platform event action tokens)
                       (or_try
                         (Inr (classify_source_read_command glob h registry platform event action command
                           tokens prompt))
                         (Inr (classify_raw_search_command glob h registry platform event action tokens
                           prompt))))))"

definition collect_payload_tool_actions ::
  "bash_parser \<Rightarrow> json_parser \<Rightarrow> json \<Rightarrow> tool_action list shell_result" where
  "collect_payload_tool_actions parse jp payload =
     (let tool_name = (case or_else (payload_string payload ''tool_name'') (payload_string payload ''toolName'')
            of Some n \<Rightarrow> n | None \<Rightarrow> []);
          tool_input = (case json_get_any [''tool_input'', ''toolInput'', ''parameters'', ''input'', ''arguments'']
            payload of Some v \<Rightarrow> v | None \<Rightarrow> payload)
      in collect_tool_actions parse jp tool_name tool_input)"

text \<open>The stages of the classifier, each over all actions before the next one starts.\<close>

definition classify_tool_actions ::
  "bash_parser \<Rightarrow> json_parser \<Rightarrow> glob_compiler \<Rightarrow> (string \<Rightarrow> string) \<Rightarrow> host \<Rightarrow> classification_request
     \<Rightarrow> tool_action list \<Rightarrow> hook_decision option shell_result" where
  "classify_tool_actions parse jp glob digest h q actions =
     (let registry = q_registry q; config = q_config q; platform = q_platform q; event = q_event q
      in or_try
           (find_decision (classify_by_rules parse glob (cc_rules config) registry platform event) actions)
        (or_try
           (find_decision (\<lambda>a. classify_prompt_search_flow_feedback parse jp h registry platform event
             (q_payload q) a (cc_asp_command_intent_policy config)) actions)
        (or_try
           (find_decision (classify_invalid_asp_facade parse registry platform event) actions)
        (or_try
           (if semantic_ast_patch_enabled config
            then find_decision (\<lambda>a. Inr (classify_structured_apply_patch_action glob digest h registry
              platform event a)) actions
            else Inr None)
        (or_try
           (find_decision (\<lambda>a. Inr (classify_direct_read_action glob h registry platform event a
             (cc_recovery_prompt config))) actions)
           (find_decision (classify_command_action parse glob digest h q) actions))))))"

text \<open>The decision before it is completed.\<close>

definition classify_request ::
  "bash_parser \<Rightarrow> json_parser \<Rightarrow> glob_compiler \<Rightarrow> (string \<Rightarrow> string) \<Rightarrow> host \<Rightarrow> classification_request
     \<Rightarrow> hook_decision shell_result" where
  "classify_request parse jp glob digest h q =
     shell_bind (classify_non_tool_event parse jp h q) (\<lambda>r.
       case r of
         Some d \<Rightarrow> Inr d
       | None \<Rightarrow>
           shell_bind (collect_payload_tool_actions parse jp (q_payload q)) (\<lambda>actions.
             shell_bind (classify_tool_actions parse jp glob digest h q actions) (\<lambda>r.
               case r of
                 Some d \<Rightarrow> Inr d
               | None \<Rightarrow> Inr (allow (q_platform q) (q_event q)
                   (case actions of [] \<Rightarrow> default_subject | a # _ \<Rightarrow> subject_for_action a)))))"

definition classify_hook_with_config ::
  "bash_parser \<Rightarrow> json_parser \<Rightarrow> glob_compiler \<Rightarrow> (string \<Rightarrow> string) \<Rightarrow> host \<Rightarrow> org_world \<Rightarrow> org_caches
     \<Rightarrow> classification_request \<Rightarrow> (hook_decision \<times> org_caches) shell_result" where
  "classify_hook_with_config parse jp glob digest h world caches q =
     shell_bind (classify_request parse jp glob digest h q) (\<lambda>d0.
       let d1 = normalize_source_file_query_routes d0;
           d2 = with_selector_only_subagent_message d1;
           d3 = with_prompt_scope_fields (q_payload q) d2
       in Inr (with_agent_org_artifact_recovery (cc_agent_org_artifacts (q_config q)) world caches
            (project_root (q_registry q)) d3))"

definition classify_hook ::
  "bash_parser \<Rightarrow> json_parser \<Rightarrow> glob_compiler \<Rightarrow> (string \<Rightarrow> string) \<Rightarrow> host \<Rightarrow> org_world \<Rightarrow> org_caches
     \<Rightarrow> hook_runtime \<Rightarrow> string \<Rightarrow> string \<Rightarrow> json \<Rightarrow> (hook_decision \<times> org_caches) shell_result" where
  "classify_hook parse jp glob digest h world caches registry platform event payload =
     classify_hook_with_config parse jp glob digest h world caches
       \<lparr>q_registry = registry, q_config = default_client_hook_config, q_platform = platform,
        q_event = event, q_payload = payload\<rparr>"

subsection \<open>Who decides\<close>

lemma or_try_Inr [simp]:
  "or_try (Inr None) b = b" "or_try (Inr (Some x)) b = Inr (Some x)"
  by (simp_all add: or_try_def shell_bind_def)

lemma or_try_Some:
  "or_try a b = Inr (Some x) \<longleftrightarrow> a = Inr (Some x) \<or> a = Inr None \<and> b = Inr (Some x)"
  by (cases a) (auto simp: or_try_def shell_bind_def split: option.splits)

lemma or_try_None: "or_try a b = Inr None \<longleftrightarrow> a = Inr None \<and> b = Inr None"
  by (cases a) (auto simp: or_try_def shell_bind_def split: option.splits)

lemma find_decision_Some:
  "find_decision f xs = Inr (Some d) \<Longrightarrow> \<exists>x \<in> set xs. f x = Inr (Some d)"
  by (induction xs) (auto simp: or_try_Some)

lemma find_decision_None: "find_decision f xs = Inr None \<longleftrightarrow> (\<forall>x \<in> set xs. f x = Inr None)"
  by (induction xs) (auto simp: or_try_None)

lemma rule_decision_not_allow: "d_decision (rule_decision r runtime platform event action paths) \<noteq> Allow"
  by (simp add: rule_decision_def new_decision_def split: config_decision.splits)

lemma classify_rules_not_allow:
  "classify_rules parse glob runtime platform event action cached effective rules = Inr (Some d)
     \<Longrightarrow> d_decision d \<noteq> Allow"
proof (induction rules arbitrary: cached effective)
  case (Cons r rules)
  then show ?case
    by (fastforce simp: shell_bind_Inr Let_def rule_decision_not_allow split: if_splits option.splits prod.splits)
qed simp

lemma facade_decision_denies:
  "classify_invalid_asp_facade parse registry platform event action = Inr (Some d) \<Longrightarrow> d_decision d = Deny"
proof -
  have "d_decision (invalid_facade_decision registry platform event action facade) = Deny" for facade
    by (simp add: invalid_facade_decision_def Let_def new_decision_def)
  then show "classify_invalid_asp_facade parse registry platform event action = Inr (Some d) \<Longrightarrow> d_decision d = Deny"
    by (auto simp: classify_invalid_asp_facade_def shell_bind_Inr split: if_splits option.splits)
qed

text \<open>A patch is allowed only with an authorization file for its text.\<close>

definition authorized_patch ::
  "(string \<Rightarrow> string) \<Rightarrow> host \<Rightarrow> hook_runtime \<Rightarrow> tool_action \<Rightarrow> bool" where
  "authorized_patch digest h registry action \<longleftrightarrow>
     (\<exists>command. t_command action = Some command
        \<and> host_is_file h (source_apply_patch_authorization_path registry (digest command)))"

lemma patch_allowed_authorized:
  assumes "classify_apply_patch_paths glob digest h registry platform event action paths = Some d"
    "d_decision d = Allow"
  shows "authorized_patch digest h registry action"
  using assms
  by (auto simp: classify_apply_patch_paths_def authorized_patch_def Let_def
      split: if_splits option.splits)

lemma structured_patch_allowed:
  assumes "classify_structured_apply_patch_action glob digest h registry platform event action = Some d"
    "d_decision d = Allow"
  shows "t_operation action = OpApplyPatch \<and> authorized_patch digest h registry action"
  using assms patch_allowed_authorized
  by (auto simp: classify_structured_apply_patch_action_def split: if_splits)

subsection \<open>Completion keeps the verdict\<close>

definition same_verdict :: "hook_decision \<Rightarrow> hook_decision \<Rightarrow> bool" where
  "same_verdict d d' \<longleftrightarrow>
     d_decision d' = d_decision d \<and> d_reason_kind d' = d_reason_kind d \<and> d_platform d' = d_platform d
     \<and> d_event d' = d_event d \<and> d_language_ids d' = d_language_ids d \<and> d_subject d' = d_subject d
     \<and> map r_language_id (d_routes d') = map r_language_id (d_routes d)
     \<and> map r_provider_id (d_routes d') = map r_provider_id (d_routes d)
     \<and> map r_binary (d_routes d') = map r_binary (d_routes d)"

lemma same_verdict_refl [simp]: "same_verdict d d"
  by (simp add: same_verdict_def)

lemma same_verdict_trans: "same_verdict a b \<Longrightarrow> same_verdict b c \<Longrightarrow> same_verdict a c"
  by (simp add: same_verdict_def)

lemma same_verdict_insert [simp]: "same_verdict d (insert_field k v d)"
  by (simp add: same_verdict_def insert_field_def)

lemma same_verdict_or_insert [simp]: "same_verdict d (or_insert_field k v d)"
  by (simp add: or_insert_field_def)

lemma same_verdict_message [simp]: "same_verdict d (d\<lparr>d_message := m\<rparr>)"
  by (simp add: same_verdict_def)

lemma same_verdict_inserts: "same_verdict d (fold (\<lambda>(k, v). insert_field k v) kvs d)"
  by (induction kvs arbitrary: d) (auto intro: same_verdict_trans [OF same_verdict_insert])

lemma normalize_routes_providers:
  "normalize_routes routes message = (routes', message') \<Longrightarrow>
     map r_language_id routes' = map r_language_id routes
     \<and> map r_provider_id routes' = map r_provider_id routes \<and> map r_binary routes' = map r_binary routes"
  by (induction routes message arbitrary: routes' message' rule: normalize_routes.induct)
    (auto simp: normalize_route_def split: prod.splits option.splits if_splits)

lemma same_verdict_normalize: "same_verdict d (normalize_source_file_query_routes d)"
  using normalize_routes_providers [of "d_routes d" "d_message d"]
  by (auto simp: normalize_source_file_query_routes_def same_verdict_def split: prod.splits)

lemma same_verdict_selector_only: "same_verdict d (with_selector_only_subagent_message d)"
  by (simp add: with_selector_only_subagent_message_def)

lemma same_verdict_scope: "same_verdict d (with_prompt_scope_fields payload d)"
  by (auto simp: with_prompt_scope_fields_def Let_def split: option.splits
      intro: same_verdict_trans [OF _ same_verdict_or_insert])

lemma same_verdict_warning: "same_verdict d (apply_archive_warning d w)"
  unfolding apply_archive_warning_def Let_def
  by (rule same_verdict_trans [OF _ same_verdict_inserts]) simp

lemma same_verdict_recovery: "same_verdict d (apply_org_recovery d r)"
  unfolding apply_org_recovery_def Let_def
  by (rule same_verdict_trans [OF _ same_verdict_inserts]) simp

lemma same_verdict_org:
  "with_agent_org_artifact_recovery c w caches root d = (d', caches') \<Longrightarrow> same_verdict d d'"
proof -
  assume result: "with_agent_org_artifact_recovery c w caches root d = (d', caches')"
  obtain warning caches1 where warning: "org_archive_warning c w caches root = (warning, caches1)" by fastforce
  define d1 where "d1 = (case warning of None \<Rightarrow> d | Some wn \<Rightarrow> apply_archive_warning d wn)"
  have "same_verdict d d1" by (simp add: d1_def same_verdict_warning split: option.split)
  moreover have "d' = d1 \<or> (\<exists>r. d' = apply_org_recovery d1 r)"
    using result warning
    by (auto simp: with_agent_org_artifact_recovery_def Let_def d1_def [symmetric]
        split: prod.splits if_splits option.splits)
  ultimately show ?thesis using same_verdict_recovery same_verdict_trans by blast
qed

lemma hook_result:
  assumes "classify_request parse jp glob digest h q = Inr d0"
  shows "\<exists>d caches'. classify_hook_with_config parse jp glob digest h world caches q = Inr (d, caches')
    \<and> same_verdict d0 d"
proof -
  let ?d3 = "with_prompt_scope_fields (q_payload q)
      (with_selector_only_subagent_message (normalize_source_file_query_routes d0))"
  have "same_verdict d0 ?d3"
    using same_verdict_normalize same_verdict_selector_only same_verdict_scope same_verdict_trans by metis
  moreover obtain d caches' where "with_agent_org_artifact_recovery (cc_agent_org_artifacts (q_config q)) world
      caches (project_root (q_registry q)) ?d3 = (d, caches')" by fastforce
  ultimately show ?thesis
    using assms same_verdict_org same_verdict_trans
    by (fastforce simp: classify_hook_with_config_def shell_bind_def)
qed

lemma hook_result_from:
  assumes "classify_hook_with_config parse jp glob digest h world caches q = Inr (d, caches')"
  shows "\<exists>d0. classify_request parse jp glob digest h q = Inr d0 \<and> same_verdict d0 d"
  using assms hook_result [of parse jp glob digest h q _ world caches]
  by (auto simp: classify_hook_with_config_def shell_bind_def split: sum.splits)

text \<open>C16: Completing a decision never changes the verdict: whatever the classifier decided, the packet that
  is returned has the same decision, reason, languages, subject and routed providers; only route
  commands, message and fields are extended.\<close>

theorem completion_keeps_verdict:
  "case classify_request parse jp glob digest h q of
     Inl e \<Rightarrow> classify_hook_with_config parse jp glob digest h world caches q = Inl e
   | Inr d0 \<Rightarrow> (\<exists>d caches'. classify_hook_with_config parse jp glob digest h world caches q = Inr (d, caches')
       \<and> d_decision d = d_decision d0 \<and> d_reason_kind d = d_reason_kind d0
       \<and> d_language_ids d = d_language_ids d0 \<and> d_subject d = d_subject d0
       \<and> map r_provider_id (d_routes d) = map r_provider_id (d_routes d0))"
  using hook_result [of parse jp glob digest h q _ world caches]
  by (fastforce simp: same_verdict_def classify_hook_with_config_def shell_bind_def split: sum.splits)

subsection \<open>Protected reads\<close>

lemma non_tool_none:
  "q_event q \<notin> {''stop'', ''user-prompt''} \<Longrightarrow> classify_non_tool_event parse jp h q = Inr None"
  by (simp add: classify_non_tool_event_def classify_stop_def classify_user_prompt_def shell_bind_def)

lemma tool_request:
  assumes "q_event q \<notin> {''stop'', ''user-prompt''}"
    and "collect_payload_tool_actions parse jp (q_payload q) = Inr actions"
  shows "classify_request parse jp glob digest h q =
    shell_bind (classify_tool_actions parse jp glob digest h q actions) (\<lambda>r.
      case r of Some d \<Rightarrow> Inr d
      | None \<Rightarrow> Inr (allow (q_platform q) (q_event q)
          (case actions of [] \<Rightarrow> default_subject | a # _ \<Rightarrow> subject_for_action a)))"
  using assms by (simp add: classify_request_def non_tool_none shell_bind_def)

lemma protected_read_decides:
  assumes "a \<in> set actions" "t_operation a = OpDirectRead" "\<not> reads_directory h registry a"
    and "list_ex (protected_source glob registry) (t_paths a)"
  shows "\<exists>d. find_decision (\<lambda>a. Inr (classify_direct_read_action glob h registry platform event a prompt))
    actions = Inr (Some d) \<and> d_decision d = Deny"
proof -
  let ?f = "\<lambda>a. Inr (classify_direct_read_action glob h registry platform event a prompt)
      :: hook_decision option shell_result"
  have no_error: "\<exists>r. find_decision ?f xs = Inr r" for xs
    by (induction xs) (auto simp: or_try_def shell_bind_def split: option.splits)
  have "find_decision ?f actions \<noteq> Inr None"
    using direct_read_denied_iff [of a h registry glob platform event prompt] assms
    unfolding find_decision_None by fastforce
  moreover obtain r where "find_decision ?f actions = Inr r" using no_error by blast
  ultimately obtain d where d: "find_decision ?f actions = Inr (Some d)" by (cases r) auto
  then show ?thesis using find_decision_Some [OF d] direct_read_decision_denies by fastforce
qed

text \<open>C15: A read of protected source in a payload that is allowed after all is covered by another action of
  the same payload: an asp command that the prompt flow allowed, or a patch with an authorization
  file.  Nothing else lets it pass.\<close>

theorem protected_read_allowed_only_with_cover:
  assumes result: "classify_hook_with_config parse jp glob digest h world caches q = Inr (d, caches')"
    and allowed: "d_decision d = Allow"
    and event: "q_event q \<notin> {''stop'', ''user-prompt''}"
    and actions: "collect_payload_tool_actions parse jp (q_payload q) = Inr actions"
    and read: "a \<in> set actions" "t_operation a = OpDirectRead" "\<not> reads_directory h (q_registry q) a"
    and protected: "list_ex (protected_source glob (q_registry q)) (t_paths a)"
  shows "\<exists>b \<in> set actions.
    (supports_command_feedback b \<and> q_event q = ''pre-tool''
      \<and> (\<exists>f. classify_prompt_search_flow_feedback parse jp h (q_registry q) (q_platform q) (q_event q)
            (q_payload q) b (cc_asp_command_intent_policy (q_config q)) = Inr (Some f) \<and> d_decision f = Allow))
    \<or> (t_operation b = OpApplyPatch \<and> authorized_patch digest h (q_registry q) b)"
proof -
  let ?flow = "\<lambda>b. classify_prompt_search_flow_feedback parse jp h (q_registry q) (q_platform q) (q_event q)
      (q_payload q) b (cc_asp_command_intent_policy (q_config q))"
  let ?patch = "\<lambda>b. Inr (classify_structured_apply_patch_action glob digest h (q_registry q) (q_platform q)
      (q_event q) b) :: hook_decision option shell_result"
  obtain d0 where d0: "classify_request parse jp glob digest h q = Inr d0" "d_decision d0 = Allow"
    using hook_result_from [OF result] allowed by (auto simp: same_verdict_def)
  obtain r where r: "classify_tool_actions parse jp glob digest h q actions = Inr r"
    "d0 = (case r of Some x \<Rightarrow> x | None \<Rightarrow> allow (q_platform q) (q_event q)
        (case actions of [] \<Rightarrow> default_subject | a # _ \<Rightarrow> subject_for_action a))"
    using d0(1) tool_request [OF event actions] by (auto simp: shell_bind_Inr split: option.splits)
  obtain rd where rd: "find_decision (\<lambda>a. Inr (classify_direct_read_action glob h (q_registry q) (q_platform q)
      (q_event q) a (cc_recovery_prompt (q_config q)))) actions = Inr (Some rd)" "d_decision rd = Deny"
    using protected_read_decides [OF read protected] by blast
  have r_some: "r = Some d0"
    using r rd by (auto simp: classify_tool_actions_def Let_def or_try_None split: option.splits)
  have "\<not> (\<exists>b. classify_by_rules parse glob (cc_rules (q_config q)) (q_registry q) (q_platform q) (q_event q) b
      = Inr (Some d0))"
    using classify_rules_not_allow d0(2) by (auto simp: classify_by_rules_def)
  moreover have "\<not> (\<exists>b. classify_invalid_asp_facade parse (q_registry q) (q_platform q) (q_event q) b
      = Inr (Some d0))"
    using facade_decision_denies d0(2) by fastforce
  ultimately have "find_decision ?flow actions = Inr (Some d0) \<or> find_decision ?patch actions = Inr (Some d0)"
    using r(1) r_some rd d0(2) find_decision_Some
    by (fastforce simp: classify_tool_actions_def Let_def or_try_Some split: if_splits)
  then obtain b where b: "b \<in> set actions" "?flow b = Inr (Some d0) \<or> ?patch b = Inr (Some d0)"
    using find_decision_Some by fastforce
  moreover have "supports_command_feedback b \<and> q_event q = ''pre-tool''" if "?flow b = Inr (Some d0)"
    using that by (auto simp: classify_prompt_search_flow_feedback_def split: if_splits)
  ultimately show ?thesis using d0(2) structured_patch_allowed by fastforce
qed

lemma rules_without_command:
  assumes "action_command_tokens parse action = Inr None" "cached \<in> {None, Some None}"
  shows "\<exists>r. classify_rules parse glob runtime platform event action cached effective rules = Inr r"
  using assms(2)
proof (induction rules arbitrary: cached effective)
  case (Cons rule rules)
  have "\<exists>tokens cached'. rule_tokens parse action rule cached = Inr (tokens, cached') \<and> cached' \<in> {None, Some None}"
    using assms(1) Cons.prems by (auto simp: rule_tokens_def shell_bind_def)
  then obtain tokens cached' where "rule_tokens parse action rule cached = Inr (tokens, cached')"
    "cached' \<in> {None, Some None}" by blast
  then show ?case using Cons.IH by (simp add: shell_bind_def Let_def split: option.split)
qed simp

text \<open>A tool use that reads one file by name and runs no command is refused whenever the file is
  protected source, under every configuration: the hook answers, and the answer is a denial or the
  block of a configured rule.\<close>

theorem sole_protected_read_refused:
  assumes event: "q_event q \<notin> {''stop'', ''user-prompt''}"
    and actions: "collect_payload_tool_actions parse jp (q_payload q) = Inr [a]"
    and read: "t_operation a = OpDirectRead" "t_command a = None" "t_command_tokens a = None"
      "\<not> reads_directory h (q_registry q) a"
    and protected: "list_ex (protected_source glob (q_registry q)) (t_paths a)"
  shows "\<exists>d caches'. classify_hook_with_config parse jp glob digest h world caches q = Inr (d, caches')
    \<and> d_decision d \<in> {Deny, Block}"
proof -
  have tokens: "action_command_tokens parse a = Inr None" using read by (simp add: action_command_tokens_def)
  obtain rule where rule: "classify_by_rules parse glob (cc_rules (q_config q)) (q_registry q) (q_platform q)
      (q_event q) a = Inr rule"
    using rules_without_command [OF tokens, of None] unfolding classify_by_rules_def by blast
  have silent: "classify_prompt_search_flow_feedback parse jp h (q_registry q) (q_platform q) (q_event q)
        (q_payload q) a (cc_asp_command_intent_policy (q_config q)) = Inr None"
    "classify_invalid_asp_facade parse (q_registry q) (q_platform q) (q_event q) a = Inr None"
    "classify_structured_apply_patch_action glob digest h (q_registry q) (q_platform q) (q_event q) a = None"
    using read
    by (simp_all add: classify_prompt_search_flow_feedback_def classify_invalid_asp_facade_def
        classify_structured_apply_patch_action_def supports_command_feedback_def)
  obtain d where d: "classify_direct_read_action glob h (q_registry q) (q_platform q) (q_event q) a
      (cc_recovery_prompt (q_config q)) = Some d" "d_decision d = Deny"
    using direct_read_denied_iff [OF read(1,4)] protected by blast
  obtain d0 where d0: "classify_tool_actions parse jp glob digest h q [a] = Inr (Some d0)" "d_decision d0 \<noteq> Allow"
    using rule silent d classify_rules_not_allow
    by (cases rule) (fastforce simp: classify_tool_actions_def Let_def classify_by_rules_def)+
  then have "classify_request parse jp glob digest h q = Inr d0"
    using tool_request [OF event actions] by (simp add: shell_bind_def)
  from hook_result [OF this, of world caches] d0(2) show ?thesis
    by (cases "d_decision d0") (auto simp: same_verdict_def)
qed

text \<open>
  An allowed asp command decides for the whole payload: with no rule that matches, whatever else the
  payload does is not looked at.
\<close>

lemma allowed_command_decides_payload:
  assumes "\<forall>b \<in> set (c # others). classify_by_rules parse glob (cc_rules (q_config q)) (q_registry q)
      (q_platform q) (q_event q) b = Inr None"
    and "classify_prompt_search_flow_feedback parse jp h (q_registry q) (q_platform q) (q_event q)
      (q_payload q) c (cc_asp_command_intent_policy (q_config q)) = Inr (Some f)"
  shows "classify_tool_actions parse jp glob digest h q (c # others) = Inr (Some f)"
proof -
  have "find_decision (classify_by_rules parse glob (cc_rules (q_config q)) (q_registry q) (q_platform q)
      (q_event q)) (c # others) = Inr None"
    using assms(1) by (simp add: find_decision_None or_try_None)
  then show ?thesis using assms(2) by (simp add: classify_tool_actions_def Let_def)
qed


text \<open>A read of a source file by the tool \<open>Read\<close>.\<close>

definition demo_read_payload :: json where
  "demo_read_payload = JObject [(''tool_name'', JString ''Read''),
     (''tool_input'', JObject [(''file_path'', JString ''crates/a/src/lib.rs'')])]"

definition demo_host :: host where
  "demo_host = \<lparr>host_is_dir = (\<lambda>_. False), host_is_file = (\<lambda>_. False), host_current_dir = None,
     host_env = (\<lambda>_. None), host_now_ms = 0, host_events = NoStateFile\<rparr>"

definition demo_request :: classification_request where
  "demo_request = \<lparr>q_registry = demo_runtime, q_config = default_client_hook_config,
     q_platform = ''codex'', q_event = ''pre-tool'', q_payload = demo_read_payload\<rparr>"

lemma demo_read_actions:
  "case collect_payload_tool_actions one_word_grammar (\<lambda>_. None) demo_read_payload of
     Inr [a] \<Rightarrow> t_operation a = OpDirectRead \<and> t_command a = None \<and> t_command_tokens a = None
       \<and> t_paths a = [''crates/a/src/lib.rs'']
   | _ \<Rightarrow> False"
  by code_simp

lemma demo_protected: "protected_source literal_glob demo_runtime ''crates/a/src/lib.rs''"
proof -
  have "demo_provider \<in> set (providers demo_runtime)" by (simp add: demo_runtime_def)
  moreover have "blocks_direct_source_read (p_policy demo_provider)" by code_simp
  moreover have "match_source_selector literal_glob demo_provider
      (normalize_source_selector (normalize_source_route_selector ''crates/a/src/lib.rs'')) \<noteq> None"
    by code_simp
  ultimately show ?thesis unfolding protected_source_def claimed_by_blocking_def by blast
qed

theorem sole_protected_read_refused_witness:
  "\<forall>world caches. \<exists>d caches'. classify_hook_with_config one_word_grammar (\<lambda>_. None) literal_glob id demo_host
     world caches demo_request = Inr (d, caches') \<and> d_decision d \<in> {Deny, Block}"
proof -
  obtain a where a: "collect_payload_tool_actions one_word_grammar (\<lambda>_. None) (q_payload demo_request) = Inr [a]"
    "t_operation a = OpDirectRead" "t_command a = None" "t_command_tokens a = None"
    "t_paths a = [''crates/a/src/lib.rs'']"
    using demo_read_actions by (auto simp: demo_request_def split: sum.splits list.splits)
  have quiet: "\<not> reads_directory demo_host (q_registry demo_request) a"
    using a by (simp add: reads_directory_def path_is_directory_def demo_host_def)
  show ?thesis
  proof (intro allI, rule sole_protected_read_refused [OF _ a(1,2,3,4) quiet])
    show "list_ex (protected_source literal_glob (q_registry demo_request)) (t_paths a)"
      using a demo_protected by (simp add: demo_request_def)
  qed (simp add: demo_request_def)
qed

text \<open>
  The same read beside an asp command, as one parallel tool use: the command is allowed, and so is the
  payload with its read.
\<close>

definition demo_parallel_payload :: json where
  "demo_parallel_payload = JObject [(''tool_name'', JString ''multi_tool_use.parallel''),
     (''tool_input'', JObject [(''tool_uses'', JArray
       [JObject [(''recipient_name'', JString ''Bash''),
          (''parameters'', JObject [(''command'', JString ''asp rust search prime'')])],
        JObject [(''recipient_name'', JString ''Read''),
          (''parameters'', JObject [(''file_path'', JString ''crates/a/src/lib.rs'')])]])])]"

definition demo_parallel_action :: tool_action where
  "demo_parallel_action = \<lparr>t_tool_name = ''multi_tool_use.parallel'', t_surface = CodexNestedTools,
     t_operation = OpNestedTools, t_command = None, t_command_tokens = None, t_paths = []\<rparr>"

definition demo_command_action :: tool_action where
  "demo_command_action = \<lparr>t_tool_name = ''Bash'', t_surface = CodexShell, t_operation = OpShellCommand,
     t_command = Some ''asp rust search prime'',
     t_command_tokens = Some [''asp'', ''rust'', ''search'', ''prime''], t_paths = []\<rparr>"

definition demo_read_action :: tool_action where
  "demo_read_action = \<lparr>t_tool_name = ''Read'', t_surface = CodexDirectRead, t_operation = OpDirectRead,
     t_command = None, t_command_tokens = None, t_paths = [''crates/a/src/lib.rs'']\<rparr>"

definition demo_parallel_request :: classification_request where
  "demo_parallel_request = \<lparr>q_registry = demo_runtime, q_config = default_client_hook_config,
     q_platform = ''codex'', q_event = ''pre-tool'', q_payload = demo_parallel_payload\<rparr>"

lemma demo_parallel_actions:
  "collect_payload_tool_actions one_word_grammar (\<lambda>_. None) demo_parallel_payload =
     Inr [demo_parallel_action, demo_command_action, demo_read_action]"
  by code_simp

lemma demo_command_allowed:
  "case classify_prompt_search_flow_feedback one_word_grammar (\<lambda>_. None) demo_host demo_runtime ''codex''
     ''pre-tool'' demo_parallel_payload demo_command_action default_asp_command_intent_policy of
     Inr (Some f) \<Rightarrow> d_decision f = Allow
   | _ \<Rightarrow> False"
  by code_simp

lemma demo_parallel_allowed:
  "\<exists>d caches'. classify_hook_with_config one_word_grammar (\<lambda>_. None) literal_glob id demo_host world caches
     demo_parallel_request = Inr (d, caches') \<and> d_decision d = Allow"
proof -
  obtain f where f: "classify_prompt_search_flow_feedback one_word_grammar (\<lambda>_. None) demo_host demo_runtime
      ''codex'' ''pre-tool'' demo_parallel_payload demo_command_action default_asp_command_intent_policy
      = Inr (Some f)" "d_decision f = Allow"
    using demo_command_allowed by (auto split: sum.splits option.splits)
  have "classify_by_rules one_word_grammar literal_glob [] demo_runtime ''codex'' ''pre-tool'' b = Inr None" for b
    by (simp add: classify_by_rules_def)
  moreover have "classify_prompt_search_flow_feedback one_word_grammar (\<lambda>_. None) demo_host demo_runtime
      ''codex'' ''pre-tool'' demo_parallel_payload demo_parallel_action default_asp_command_intent_policy
      = Inr None"
    by (simp add: classify_prompt_search_flow_feedback_def supports_command_feedback_def
        demo_parallel_action_def)
  ultimately have "classify_tool_actions one_word_grammar (\<lambda>_. None) literal_glob id demo_host
      demo_parallel_request [demo_parallel_action, demo_command_action, demo_read_action] = Inr (Some f)"
    using f(1) by (simp add: classify_tool_actions_def Let_def demo_parallel_request_def
        default_client_hook_config_def)
  then have "classify_request one_word_grammar (\<lambda>_. None) literal_glob id demo_host demo_parallel_request = Inr f"
    using tool_request [of demo_parallel_request one_word_grammar "\<lambda>_. None"]
    by (simp add: demo_parallel_request_def demo_parallel_actions shell_bind_def)
  from hook_result [OF this, of world caches] f(2) show ?thesis unfolding same_verdict_def by metis
qed

theorem protected_read_allowed_only_with_cover_witness:
  "\<forall>world caches. \<exists>d caches'. classify_hook_with_config one_word_grammar (\<lambda>_. None) literal_glob id demo_host
       world caches demo_parallel_request = Inr (d, caches')
     \<and> d_decision d = Allow \<and> protected_source literal_glob demo_runtime ''crates/a/src/lib.rs''
     \<and> (\<exists>b \<in> {demo_parallel_action, demo_command_action, demo_read_action}. supports_command_feedback b)"
proof (intro allI)
  fix world caches
  obtain d caches' where d: "classify_hook_with_config one_word_grammar (\<lambda>_. None) literal_glob id demo_host
      world caches demo_parallel_request = Inr (d, caches')" "d_decision d = Allow"
    using demo_parallel_allowed by blast
  have "\<exists>b \<in> set [demo_parallel_action, demo_command_action, demo_read_action].
    (supports_command_feedback b \<and> q_event demo_parallel_request = ''pre-tool''
      \<and> (\<exists>f. classify_prompt_search_flow_feedback one_word_grammar (\<lambda>_. None) demo_host
            (q_registry demo_parallel_request) (q_platform demo_parallel_request) (q_event demo_parallel_request)
            (q_payload demo_parallel_request) b (cc_asp_command_intent_policy (q_config demo_parallel_request))
            = Inr (Some f) \<and> d_decision f = Allow))
    \<or> (t_operation b = OpApplyPatch \<and> authorized_patch id demo_host (q_registry demo_parallel_request) b)"
  proof (rule protected_read_allowed_only_with_cover [OF d])
    show "collect_payload_tool_actions one_word_grammar (\<lambda>_. None) (q_payload demo_parallel_request) =
        Inr [demo_parallel_action, demo_command_action, demo_read_action]"
      by (simp add: demo_parallel_request_def demo_parallel_actions)
    show "list_ex (protected_source literal_glob (q_registry demo_parallel_request)) (t_paths demo_read_action)"
      using demo_protected by (simp add: demo_parallel_request_def demo_read_action_def)
    show "\<not> reads_directory demo_host (q_registry demo_parallel_request) demo_read_action"
      by (simp add: reads_directory_def path_is_directory_def demo_host_def demo_read_action_def)
  qed (simp_all add: demo_parallel_request_def demo_read_action_def)
  then have "\<exists>b \<in> {demo_parallel_action, demo_command_action, demo_read_action}. supports_command_feedback b"
    by (auto simp: authorized_patch_def demo_host_def)
  with d demo_protected show "\<exists>d caches'. classify_hook_with_config one_word_grammar (\<lambda>_. None) literal_glob id
      demo_host world caches demo_parallel_request = Inr (d, caches')
     \<and> d_decision d = Allow \<and> protected_source literal_glob demo_runtime ''crates/a/src/lib.rs''
     \<and> (\<exists>b \<in> {demo_parallel_action, demo_command_action, demo_read_action}. supports_command_feedback b)"
    by blast
qed

end
