(* ===== verification/RuntimeDrift.thy ===== *)
theory RuntimeDrift
  imports EventState
begin

section \<open>Runtime drift of a resident child\<close>

text \<open>
  Models \<open>crates/agent-semantic-hook/src/event_state_subagent_model_drift.rs\<close>: the lifecycle events
  of one root session are folded, oldest first, into the drift that is active and the receipt that
  ended the last one.  A drift is opened by a start that the hook classified as drifted, closed by an
  observation that matches what the drift expected, and forgotten when the child is archived.  The
  lemmas show the invariant of the two parts of the state and what a receipt proves.
\<close>

subsection \<open>Observations\<close>

record drift_observation =
  dr_root_session_id :: string
  dr_child_session_id :: string
  dr_observed_agent_type :: string
  dr_expected_agent_type :: string
  dr_observed_model :: "string option"
  dr_observed_reasoning_effort :: "string option"
  dr_consecutive_observation_count :: nat

record verified_observation =
  vo_root_session_id :: string
  vo_child_session_id :: string
  vo_observed_agent_type :: string
  vo_expected_agent_type :: string
  vo_previous_observed_model :: "string option"
  vo_previous_observed_reasoning_effort :: "string option"
  vo_observed_model :: string
  vo_observed_reasoning_effort :: "string option"
  vo_expected_model :: string
  vo_expected_reasoning_effort :: "string option"
  vo_observation_source :: string
  vo_observation_count :: nat

datatype rebind_observation = DriftObserved drift_observation | RebindVerified verified_observation

record active_drift =
  ad_observation :: drift_observation
  ad_expected_model :: "string option"
  ad_expected_reasoning_effort :: "string option"
  ad_awaiting_start_stop_pair :: bool

subsection \<open>Reading an event\<close>

definition event_field :: "json \<Rightarrow> string \<Rightarrow> json option" where
  "event_field event key = Option.bind (json_get ''fields'' event) (json_get key)"

definition string_at :: "json \<Rightarrow> string \<Rightarrow> string option" where
  "string_at event key = Option.bind (event_field event key) as_str"

definition event_root_session_id :: "json \<Rightarrow> string option" where
  "event_root_session_id event =
     Option.bind (or_else (event_field event ''rootSessionId'')
       (event_field event ''hookObservedRootSessionId'')) as_str"

definition observed_child_id :: "json \<Rightarrow> string option" where
  "observed_child_id event =
     Option.bind (or_else (or_else (event_field event ''hookObservedChildId'')
         (event_field event ''agentSessionObservedChildId''))
       (event_field event ''childSessionId'')) as_str"

definition observed_agent_type :: "json \<Rightarrow> string option" where
  "observed_agent_type event =
     or_else (string_at event ''hookObservedAgentType'')
       (string_at event ''agentSessionObservedAgentType'')"

definition observed_model :: "json \<Rightarrow> string option" where
  "observed_model event =
     or_else (string_at event ''hookObservedModel'') (string_at event ''agentSessionObservedModel'')"

definition observed_reasoning_effort :: "json \<Rightarrow> string option" where
  "observed_reasoning_effort event =
     or_else (string_at event ''hookObservedReasoningEffort'')
       (string_at event ''agentSessionObservedReasoningEffort'')"

definition runtime_matches_expected ::
  "string option \<Rightarrow> string option \<Rightarrow> string option \<Rightarrow> string option \<Rightarrow> bool" where
  "runtime_matches_expected model effort expected_model expected_effort \<longleftrightarrow>
     expected_model \<noteq> None \<and> model = expected_model
     \<and> (expected_effort = None \<or> effort = expected_effort)"

definition is_runtime_drift_action :: "json \<Rightarrow> string option \<Rightarrow> bool" where
  "is_runtime_drift_action event action \<longleftrightarrow>
     action \<in> Some ` {''replace-drifted-native-subagent'', ''repair-native-subagent-runtime'',
       ''repair-native-subagent-model'', ''repair-native-subagent-profile''}
     \<or> action = Some ''ignore-unmanaged-native-subagent''
       \<and> string_at event ''bootstrapBlocked'' = Some ''host-created-unmanaged-agent''"

definition verified_runtime_rebind_observation ::
  "active_drift \<Rightarrow> json \<Rightarrow> string \<Rightarrow> string \<Rightarrow> string option \<Rightarrow> string \<Rightarrow> string \<Rightarrow> verified_observation" where
  "verified_runtime_rebind_observation drift event child model effort expected_model source =
     \<lparr>vo_root_session_id = dr_root_session_id (ad_observation drift),
      vo_child_session_id = child,
      vo_observed_agent_type =
        (case observed_agent_type event of
           Some t \<Rightarrow> t
         | None \<Rightarrow> dr_observed_agent_type (ad_observation drift)),
      vo_expected_agent_type = dr_expected_agent_type (ad_observation drift),
      vo_previous_observed_model = dr_observed_model (ad_observation drift),
      vo_previous_observed_reasoning_effort = dr_observed_reasoning_effort (ad_observation drift),
      vo_observed_model = model,
      vo_observed_reasoning_effort = effort,
      vo_expected_model = expected_model,
      vo_expected_reasoning_effort = ad_expected_reasoning_effort drift,
      vo_observation_source = source,
      vo_observation_count = dr_consecutive_observation_count (ad_observation drift) + 1\<rparr>"

subsection \<open>One event\<close>

type_synonym drift_state = "active_drift option \<times> verified_observation option"

text \<open>The receipt of an event whose runtime is what the drift expected.\<close>

definition matching_receipt ::
  "active_drift \<Rightarrow> json \<Rightarrow> string \<Rightarrow> string \<Rightarrow> verified_observation option" where
  "matching_receipt drift event child source =
     (if observed_agent_type event = Some (dr_expected_agent_type (ad_observation drift))
         \<and> runtime_matches_expected (observed_model event) (observed_reasoning_effort event)
             (ad_expected_model drift) (ad_expected_reasoning_effort drift)
      then (case (observed_model event, ad_expected_model drift) of
              (Some model, Some expected) \<Rightarrow>
                Some (verified_runtime_rebind_observation drift event child model
                  (observed_reasoning_effort event) expected source)
            | _ \<Rightarrow> None)
      else None)"

text \<open>A start that is no drift can only end the active one.\<close>

definition undrifted_start :: "json \<Rightarrow> string \<Rightarrow> drift_state \<Rightarrow> drift_state" where
  "undrifted_start event child state =
     (case fst state of
        None \<Rightarrow> state
      | Some drift \<Rightarrow>
          (case matching_receipt drift event child ''subagent-start'' of
             None \<Rightarrow> state
           | Some receipt \<Rightarrow> (None, Some receipt)))"

definition drifted_start :: "string \<Rightarrow> json \<Rightarrow> string \<Rightarrow> drift_state \<Rightarrow> drift_state" where
  "drifted_start root event child state =
     (case (string_at event ''agentSessionObservedAgentType'',
            string_at event ''agentSessionExpectedAgentType'') of
        (Some observed, Some expected) \<Rightarrow>
          (let count = (case fst state of
                 None \<Rightarrow> 1
               | Some drift \<Rightarrow>
                   if dr_child_session_id (ad_observation drift) = child
                   then dr_consecutive_observation_count (ad_observation drift) + 1 else 1)
           in (Some \<lparr>ad_observation =
                  \<lparr>dr_root_session_id = root, dr_child_session_id = child,
                   dr_observed_agent_type = observed, dr_expected_agent_type = expected,
                   dr_observed_model = string_at event ''agentSessionObservedModel'',
                   dr_observed_reasoning_effort = string_at event ''agentSessionObservedReasoningEffort'',
                   dr_consecutive_observation_count = count\<rparr>,
                 ad_expected_model = or_else (string_at event ''agentSessionExpectedModel'')
                   (string_at event ''expectedModel''),
                 ad_expected_reasoning_effort =
                   or_else (string_at event ''agentSessionExpectedReasoningEffort'')
                     (string_at event ''expectedReasoningEffort''),
                 ad_awaiting_start_stop_pair = True\<rparr>, None))
      | _ \<Rightarrow> state)"

text \<open>
  Codex stops a turn right after its start: the first stop only closes the pair.  A later one is an
  observation when it carries a runtime.
\<close>

definition drifted_stop :: "json \<Rightarrow> string \<Rightarrow> drift_state \<Rightarrow> drift_state" where
  "drifted_stop event child state =
     (case fst state of
        None \<Rightarrow> state
      | Some drift \<Rightarrow>
          if dr_child_session_id (ad_observation drift) \<noteq> child then state
          else if string_at event ''agentSessionAction'' = Some ''subagent-stop-archived-managed-child''
          then (None, None)
          else if ad_awaiting_start_stop_pair drift
          then (Some (drift\<lparr>ad_awaiting_start_stop_pair := False\<rparr>), snd state)
          else if observed_model event = None \<and> observed_reasoning_effort event = None then state
          else (case matching_receipt drift event child ''subagent-stop-resume'' of
                  Some receipt \<Rightarrow> (None, Some receipt)
                | None \<Rightarrow>
                    (let obs = ad_observation drift
                     in (Some (drift\<lparr>ad_observation :=
                           obs\<lparr>dr_observed_model := or_else (observed_model event) (dr_observed_model obs),
                               dr_observed_reasoning_effort :=
                                 or_else (observed_reasoning_effort event)
                                   (dr_observed_reasoning_effort obs),
                               dr_consecutive_observation_count :=
                                 dr_consecutive_observation_count obs + 1\<rparr>\<rparr>), None))))"

definition drift_event :: "string \<Rightarrow> json \<Rightarrow> drift_state \<Rightarrow> drift_state" where
  "drift_event root event state =
     (if event_root_session_id event \<noteq> Some root then state
      else if json_get_str ''event'' event = Some ''subagent-start''
      then (case observed_child_id event of
              None \<Rightarrow> state
            | Some child \<Rightarrow>
                if is_runtime_drift_action event (string_at event ''agentSessionAction'')
                then drifted_start root event child state
                else undrifted_start event child state)
      else if json_get_str ''event'' event = Some ''subagent-stop''
      then (case observed_child_id event of
              None \<Rightarrow> state
            | Some child \<Rightarrow> drifted_stop event child state)
      else state)"

fun drift_loop :: "json_parser \<Rightarrow> string \<Rightarrow> string list \<Rightarrow> drift_state \<Rightarrow> drift_state" where
  "drift_loop jp root [] state = state"
| "drift_loop jp root (line # lines) state =
     (case jp line of
        None \<Rightarrow> drift_loop jp root lines state
      | Some event \<Rightarrow> drift_loop jp root lines (drift_event root event state))"

subsection \<open>Queries\<close>

definition rebind_observation_of :: "drift_state \<Rightarrow> rebind_observation option" where
  "rebind_observation_of state =
     or_else (map_option (\<lambda>d. DriftObserved (ad_observation d)) (fst state))
       (map_option RebindVerified (snd state))"

text \<open>Unlike the readers of a prompt, this one takes a path that is not a file for no events.\<close>

definition latest_subagent_runtime_rebind_observation ::
  "json_parser \<Rightarrow> state_file \<Rightarrow> string \<Rightarrow> string + rebind_observation option" where
  "latest_subagent_runtime_rebind_observation jp f root =
     (case f of
        StateFile content \<Rightarrow>
          (case read_hook_event_state_tail content of
             Inl e \<Rightarrow> Inl e
           | Inr lines \<Rightarrow> Inr (rebind_observation_of (drift_loop jp root lines (None, None))))
      | _ \<Rightarrow> Inr None)"

definition latest_subagent_runtime_drift ::
  "json_parser \<Rightarrow> state_file \<Rightarrow> string \<Rightarrow> string + drift_observation option" where
  "latest_subagent_runtime_drift jp f root =
     (case latest_subagent_runtime_rebind_observation jp f root of
        Inl e \<Rightarrow> Inl e
      | Inr (Some (DriftObserved observation)) \<Rightarrow> Inr (Some observation)
      | Inr _ \<Rightarrow> Inr None)"

definition latest_subagent_runtime_rebind_verified ::
  "json_parser \<Rightarrow> state_file \<Rightarrow> string \<Rightarrow> string + verified_observation option" where
  "latest_subagent_runtime_rebind_verified jp f root =
     (case latest_subagent_runtime_rebind_observation jp f root of
        Inl e \<Rightarrow> Inl e
      | Inr (Some (RebindVerified observation)) \<Rightarrow> Inr (Some observation)
      | Inr _ \<Rightarrow> Inr None)"

subsection \<open>What a receipt proves\<close>

definition events_of :: "json_parser \<Rightarrow> string list \<Rightarrow> json list" where
  "events_of jp lines = List.map_filter jp lines"

lemma drift_loop_fold: "drift_loop jp root lines state = fold (drift_event root) (events_of jp lines) state"
  by (induction lines arbitrary: state)
     (auto simp: events_of_def List.map_filter_simps split: option.splits)

text \<open>What an event that opens a drift of a root session expects: agent type, model, reasoning effort.\<close>

definition drift_expectation :: "string \<Rightarrow> json \<Rightarrow> (string \<times> string option \<times> string option) option" where
  "drift_expectation root event =
     (if event_root_session_id event = Some root
         \<and> json_get_str ''event'' event = Some ''subagent-start''
         \<and> observed_child_id event \<noteq> None
         \<and> is_runtime_drift_action event (string_at event ''agentSessionAction'')
         \<and> string_at event ''agentSessionObservedAgentType'' \<noteq> None
      then map_option (\<lambda>agent. (agent,
               or_else (string_at event ''agentSessionExpectedModel'') (string_at event ''expectedModel''),
               or_else (string_at event ''agentSessionExpectedReasoningEffort'')
                 (string_at event ''expectedReasoningEffort'')))
             (string_at event ''agentSessionExpectedAgentType'')
      else None)"

definition expectation_of :: "active_drift \<Rightarrow> string \<times> string option \<times> string option" where
  "expectation_of drift =
     (dr_expected_agent_type (ad_observation drift), ad_expected_model drift,
      ad_expected_reasoning_effort drift)"

text \<open>The event \<open>closing\<close> observes the runtime that a receipt says was expected.\<close>

definition observes_expected :: "string \<Rightarrow> json \<Rightarrow> verified_observation \<Rightarrow> bool" where
  "observes_expected root closing receipt \<longleftrightarrow>
     event_root_session_id closing = Some root
     \<and> observed_child_id closing = Some (vo_child_session_id receipt)
     \<and> observed_agent_type closing = Some (vo_expected_agent_type receipt)
     \<and> observed_model closing = Some (vo_expected_model receipt)
     \<and> (vo_expected_reasoning_effort receipt = None
        \<or> observed_reasoning_effort closing = vo_expected_reasoning_effort receipt)"

definition receipt_from :: "string \<Rightarrow> json list \<Rightarrow> verified_observation \<Rightarrow> bool" where
  "receipt_from root events receipt \<longleftrightarrow>
     (\<exists>before closing rest. events = before @ closing # rest
        \<and> (\<exists>opener \<in> set before. drift_expectation root opener =
              Some (vo_expected_agent_type receipt, Some (vo_expected_model receipt),
                vo_expected_reasoning_effort receipt))
        \<and> observes_expected root closing receipt)"

definition drift_state_ok :: "string \<Rightarrow> json list \<Rightarrow> drift_state \<Rightarrow> bool" where
  "drift_state_ok root events state \<longleftrightarrow>
     (fst state = None \<or> snd state = None)
     \<and> (\<forall>drift. fst state = Some drift \<longrightarrow>
          dr_root_session_id (ad_observation drift) = root
          \<and> 0 < dr_consecutive_observation_count (ad_observation drift)
          \<and> (\<exists>opener \<in> set events. drift_expectation root opener = Some (expectation_of drift)))
     \<and> (\<forall>receipt. snd state = Some receipt \<longrightarrow>
          vo_root_session_id receipt = root \<and> 1 < vo_observation_count receipt
          \<and> receipt_from root events receipt)"

lemma receipt_from_snoc: "receipt_from root events receipt \<Longrightarrow> receipt_from root (events @ [e]) receipt"
  unfolding receipt_from_def by (metis append.assoc append_Cons)

lemma drift_state_ok_more: "drift_state_ok root events state \<Longrightarrow> drift_state_ok root (events @ [e]) state"
  unfolding drift_state_ok_def by (auto intro: receipt_from_snoc)

lemma matching_receipt_from:
  assumes "matching_receipt drift event child source = Some receipt"
    and "drift_state_ok root events (Some drift, v)"
    and "event_root_session_id event = Some root" "observed_child_id event = Some child"
  shows "drift_state_ok root (events @ [event]) (None, Some receipt)"
proof -
  from assms(1) obtain expected where
    receipt: "receipt = verified_runtime_rebind_observation drift event child expected
      (observed_reasoning_effort event) expected source"
    and agent: "observed_agent_type event = Some (dr_expected_agent_type (ad_observation drift))"
    and model: "ad_expected_model drift = Some expected" "observed_model event = Some expected"
    and effort: "ad_expected_reasoning_effort drift = None
      \<or> observed_reasoning_effort event = ad_expected_reasoning_effort drift"
    by (auto simp: matching_receipt_def runtime_matches_expected_def split: if_splits option.splits)
  from assms(2) obtain opener where opener: "opener \<in> set events"
    "drift_expectation root opener = Some (expectation_of drift)"
    and drift: "dr_root_session_id (ad_observation drift) = root"
      "0 < dr_consecutive_observation_count (ad_observation drift)"
    by (auto simp: drift_state_ok_def)
  have "observes_expected root event receipt"
    using agent model effort assms(3,4)
    by (auto simp: observes_expected_def receipt verified_runtime_rebind_observation_def)
  moreover have "drift_expectation root opener =
      Some (vo_expected_agent_type receipt, Some (vo_expected_model receipt),
        vo_expected_reasoning_effort receipt)"
    using opener(2) model(1)
    by (simp add: expectation_of_def receipt verified_runtime_rebind_observation_def)
  ultimately have "receipt_from root (events @ [event]) receipt"
    unfolding receipt_from_def using opener(1) by blast
  then show ?thesis
    using drift by (simp add: drift_state_ok_def receipt verified_runtime_rebind_observation_def)
qed

lemma drifted_start_ok:
  assumes "drift_state_ok root events state" "event_root_session_id event = Some root"
    "json_get_str ''event'' event = Some ''subagent-start''" "observed_child_id event = Some child"
    "is_runtime_drift_action event (string_at event ''agentSessionAction'')"
  shows "drift_state_ok root (events @ [event]) (drifted_start root event child state)"
proof (cases "string_at event ''agentSessionObservedAgentType'' = None
    \<or> string_at event ''agentSessionExpectedAgentType'' = None")
  case True
  then have "drifted_start root event child state = state"
    by (auto simp: drifted_start_def split: option.splits)
  then show ?thesis using drift_state_ok_more [OF assms(1)] by simp
next
  case False
  then obtain observed expected where
    "string_at event ''agentSessionObservedAgentType'' = Some observed"
    "string_at event ''agentSessionExpectedAgentType'' = Some expected" by auto
  then show ?thesis using assms(2-)
    by (auto simp: drifted_start_def drift_state_ok_def drift_expectation_def expectation_of_def
        split: option.splits)
qed

lemma drift_step_kept:
  assumes "drift_state_ok root events (Some drift, v)"
    and "expectation_of drift' = expectation_of drift"
    and "dr_root_session_id (ad_observation drift') = dr_root_session_id (ad_observation drift)"
    and "dr_consecutive_observation_count (ad_observation drift)
           \<le> dr_consecutive_observation_count (ad_observation drift')"
  shows "drift_state_ok root (events @ [e]) (Some drift', v)"
    and "drift_state_ok root (events @ [e]) (Some drift', None)"
  using assms by (auto simp: drift_state_ok_def)

lemma drifted_stop_ok:
  assumes "drift_state_ok root events state" "event_root_session_id event = Some root"
    "observed_child_id event = Some child"
  shows "drift_state_ok root (events @ [event]) (drifted_stop event child state)"
proof (cases state)
  case (Pair active v)
  show ?thesis
  proof (cases active)
    case None
    then show ?thesis using drift_state_ok_more [OF assms(1)] Pair by (simp add: drifted_stop_def)
  next
    case (Some drift)
    note ok = assms(1) [unfolded Pair Some]
    show ?thesis
      using drift_state_ok_more [OF ok] matching_receipt_from [OF _ ok assms(2,3)]
      by (auto simp: drifted_stop_def Pair Some Let_def drift_state_ok_def [of _ _ "(None, None)"]
          expectation_of_def split: option.splits intro!: drift_step_kept [OF ok])
  qed
qed

lemma drift_event_ok:
  assumes "drift_state_ok root events state"
  shows "drift_state_ok root (events @ [event]) (drift_event root event state)"
proof -
  note more = drift_state_ok_more [OF assms]
  have start: "drift_state_ok root (events @ [event]) (undrifted_start event child state)"
    if "event_root_session_id event = Some root" "observed_child_id event = Some child" for child
    using more matching_receipt_from [OF _ _ that] assms
    by (cases state) (auto simp: undrifted_start_def split: option.splits)
  show ?thesis
    using more start drifted_start_ok [OF assms] drifted_stop_ok [OF assms]
    by (auto simp: drift_event_def split: option.splits)
qed

lemma drift_fold_ok:
  "drift_state_ok root events state \<Longrightarrow>
     drift_state_ok root (events @ later) (fold (drift_event root) later state)"
proof (induction later arbitrary: events state)
  case (Cons e es)
  from Cons.IH [OF drift_event_ok [OF Cons.prems, of e]] show ?case by simp
qed simp

lemma drift_loop_ok: "drift_state_ok root (events_of jp lines) (drift_loop jp root lines (None, None))"
  using drift_fold_ok [of root "[]" "(None, None)" "events_of jp lines"]
  by (simp add: drift_loop_fold drift_state_ok_def)

text \<open>C17: A receipt that a drifted child has been replaced rests on the record: the state names an
  earlier start of the same root session that expected exactly the agent type, model and reasoning
  effort of the receipt, and a later lifecycle event of the receipt's child that observed them; and
  while there is a receipt, no drift is reported.\<close>

theorem runtime_receipt_is_sound:
  assumes "latest_subagent_runtime_rebind_verified jp (StateFile content) root = Inr (Some receipt)"
  shows "latest_subagent_runtime_drift jp (StateFile content) root = Inr None
    \<and> vo_root_session_id receipt = root
    \<and> (\<exists>lines before closing rest opener.
           read_hook_event_state_tail content = Inr lines
           \<and> events_of jp lines = before @ closing # rest \<and> opener \<in> set before
           \<and> drift_expectation root opener = Some (vo_expected_agent_type receipt,
                Some (vo_expected_model receipt), vo_expected_reasoning_effort receipt)
           \<and> observes_expected root closing receipt)"
proof -
  from assms obtain lines where lines: "read_hook_event_state_tail content = Inr lines"
    and result: "rebind_observation_of (drift_loop jp root lines (None, None)) = Some (RebindVerified receipt)"
    by (auto simp: latest_subagent_runtime_rebind_verified_def
        latest_subagent_runtime_rebind_observation_def
        split: sum.splits option.splits rebind_observation.splits)
  then have state: "drift_loop jp root lines (None, None) = (None, Some receipt)"
    by (cases "drift_loop jp root lines (None, None)")
       (auto simp: rebind_observation_of_def or_else_def split: option.splits)
  with lines have "latest_subagent_runtime_drift jp (StateFile content) root = Inr None"
    by (simp add: latest_subagent_runtime_drift_def latest_subagent_runtime_rebind_observation_def
        rebind_observation_of_def or_else_def)
  moreover from drift_loop_ok [of root jp lines]
  have ok: "drift_state_ok root (events_of jp lines) (None, Some receipt)"
    by (simp add: state)
  moreover from ok have "vo_root_session_id receipt = root" by (simp add: drift_state_ok_def)
  moreover from ok have "\<exists>lines before closing rest opener.
           read_hook_event_state_tail content = Inr lines
           \<and> events_of jp lines = before @ closing # rest \<and> opener \<in> set before
           \<and> drift_expectation root opener = Some (vo_expected_agent_type receipt,
                Some (vo_expected_model receipt), vo_expected_reasoning_effort receipt)
           \<and> observes_expected root closing receipt"
    using lines by (force simp: drift_state_ok_def receipt_from_def)
  ultimately show ?thesis by blast
qed

definition demo_drift_event :: "string \<Rightarrow> string \<Rightarrow> string \<Rightarrow> (string \<times> json) list \<Rightarrow> json" where
  "demo_drift_event child action model extra =
     JObject [(''event'', JString ''subagent-start''),
       (''fields'', JObject ([(''rootSessionId'', JString ''root''),
          (''hookObservedChildId'', JString child), (''agentSessionAction'', JString action),
          (''agentSessionObservedAgentType'', JString ''asp_explorer''),
          (''agentSessionObservedModel'', JString model)] @ extra))]"

definition demo_drift_parser :: json_parser where
  "demo_drift_parser line =
     (if line = ''d'' then Some (demo_drift_event ''c1'' ''repair-native-subagent-model'' ''small''
           [(''agentSessionExpectedAgentType'', JString ''asp_explorer''),
            (''agentSessionExpectedModel'', JString ''large'')])
      else if line = ''v'' then Some (demo_drift_event ''c2'' ''reuse'' ''large'' [])
      else None)"

definition demo_drift_content :: string where
  "demo_drift_content = ''d'' @ newline @ ''v'' @ newline"

text \<open>A child with the small model, then a second one with the large model that was expected.\<close>

theorem runtime_receipt_is_sound_witness:
  "\<exists>receipt. latest_subagent_runtime_rebind_verified demo_drift_parser
       (StateFile demo_drift_content) ''root'' = Inr (Some receipt)
     \<and> vo_child_session_id receipt = ''c2'' \<and> vo_root_session_id receipt = ''root''"
proof -
  have lines: "str_lines demo_drift_content = [''d'', ''v'']" by code_simp
  have valid: "utf8_valid demo_drift_content" by code_simp
  have read: "read_hook_event_state_tail demo_drift_content = Inr [''d'', ''v'']"
    using read_short_state [OF _ valid] lines
    by (simp add: demo_drift_content_def newline_def hook_event_state_tail_bytes_def
        hook_event_state_tail_line_cap_def)
  have "fst (drift_loop demo_drift_parser ''root'' [''d'', ''v''] (None, None)) = None"
    and "map_option vo_child_session_id
        (snd (drift_loop demo_drift_parser ''root'' [''d'', ''v''] (None, None))) = Some ''c2''"
    by code_simp+
  then obtain receipt where "latest_subagent_runtime_rebind_verified demo_drift_parser
      (StateFile demo_drift_content) ''root'' = Inr (Some receipt)"
    "vo_child_session_id receipt = ''c2''"
    by (auto simp: latest_subagent_runtime_rebind_verified_def read rebind_observation_of_def or_else_def
        latest_subagent_runtime_rebind_observation_def)
  then show ?thesis using runtime_receipt_is_sound by blast
qed

end
