(* ===== verification/ResidentLoop.thy ===== *)
theory ResidentLoop
  imports Registry RuntimeDrift
begin

section \<open>The bootstrap loop of a resident child\<close>

text \<open>
  Models \<open>crates/agent-semantic-client-db/src/agent_session_registry/interactive_loop.rs\<close> on the
  structures of \<open>crates/agent-semantic-loop/src/lib.rs\<close>: the menu that an agent is shown at each pass,
  its state, choices and trace, and the rewritings that host observations and runtime evidence cause.
  With it the steps of \<open>asp agent session bootstrap\<close> that decide the menu
  (\<open>crates/agent-semantic-protocol/src/command/agent_session_registry_bootstrap.rs\<close>, \<open>.._binding.rs\<close>,
  \<open>.._reasoning.rs\<close>, \<open>.._host_capability.rs\<close>).  The registry is the table of theory Registry, the drift
  is the one of theory RuntimeDrift; printing is not modelled.  The lemmas show when a menu is ready, that
  no menu is a dead end, and that a binding which the loop writes is a live one.
\<close>

subsection \<open>Menus\<close>

datatype loop_state =
  Audit | Classify | Recover | RebindExistingChildTarget | Repair | Blocked | Adopt | Cleanup
  | Create | Register | Validate | Ready | SendDeniedCommand | WaitReceipt | RetryOriginal

record loop_choice =
  ch_id :: string
  ch_label :: string
  ch_platform_action :: string
  ch_next_state :: loop_state
  ch_required_inputs :: "string list"

record host_requirement =
  hr_platform :: string
  hr_resident_child_name :: string
  hr_managed_agent_kind :: string
  hr_required_transport :: string
  hr_required_outputs :: "string list"
  hr_blocked_when :: "string list"

datatype trace_step = TraceStep (ts_state: loop_state) (ts_result: string)

record loop_receipt =
  lr_loop_name :: string
  lr_invariant :: string
  lr_no_next_command :: bool

record interactive_session =
  is_child_session_id :: string
  is_status :: string
  is_role :: string
  is_model :: "string option"
  is_model_observation_source :: "string option"
  is_model_observed_at :: "int option"
  is_model_evidence_ref :: "string option"
  is_message_target_status :: string
  is_message_target_id :: "string option"

record interactive_menu =
  mn_schema_id :: string
  mn_schema_version :: string
  mn_owner :: string
  mn_state :: loop_state
  mn_name :: string
  mn_root_session_id :: "string option"
  mn_expected_model :: "string option"
  mn_expected_reasoning_effort :: "string option"
  mn_rollout_history_status :: "string option"
  mn_rollout_history_action :: "string option"
  mn_session :: "interactive_session option"
  mn_host_requirement :: host_requirement
  mn_trace :: "trace_step list"
  mn_choices :: "loop_choice list"
  mn_receipt :: loop_receipt

record bootstrap_menu_input =
  bm_platform :: string
  bm_name :: string
  bm_root_session_id :: "string option"
  bm_record :: "agent_session_record option"
  bm_expected_model :: "string option"
  bm_expected_reasoning_effort :: "string option"
  bm_rollout_history_status :: "string option"
  bm_rollout_history_action :: "string option"
  bm_now :: int

subsection \<open>Choices\<close>

text \<open>Choices of different states may share an id; each is the literal of the source.\<close>

definition send_after_verification :: loop_choice where
  "send_after_verification =
     \<lparr>ch_id = ''send-denied-asp-command'',
      ch_label = ''Send the denied ASP command to the verified resident child.'',
      ch_platform_action =
       (''Derive one dispatch identity from the root session, registered agentMessageTargetId, ''
      @ ''and exact denied ASP command. Use host-native message-agent send exactly once for that ''
      @ ''identity, then wait for a compact [asp-search-subagent] receipt. A timeout or repeated ''
      @ ''bootstrap may only poll/wait for the same receipt; it must never resend the command or ''
      @ ''concatenate a second search output block.''),
      ch_next_state = WaitReceipt,
      ch_required_inputs = [''deniedAspCommand'', ''dispatchIdentity'']\<rparr>"

definition rehydrate_verified_child :: loop_choice where
  "rehydrate_verified_child =
     \<lparr>ch_id = ''rehydrate-verified-existing-child-registry'',
      ch_label = ''Rehydrate the verified same-child identity into the resident registry.'',
      ch_platform_action =
       (''Use the ASP-owned verified lifecycle receipt to rehydrate this exact child and message ''
      @ ''target. Do not ask the user to enter ids, create another child, or infer success from ''
      @ ''task text. Re-enter bootstrap after ASP records the verified observation.''),
      ch_next_state = Validate,
      ch_required_inputs = [''aspOwnedRegistryRehydrationReceipt'']\<rparr>"

definition report_reasoning_unavailable :: loop_choice where
  "report_reasoning_unavailable =
     \<lparr>ch_id = ''report-host-runtime-reasoning-evidence-unavailable'',
      ch_label = ''Report that Codex runtime reasoning evidence is unavailable.'',
      ch_platform_action =
       (''ASP already attempted the host-owned Codex thread/resume metadata surface without ''
      @ ''sending a child turn or applying overrides. Report ''
      @ ''bootstrapBlocked=host-runtime-reasoning-evidence-unavailable and allow unrelated tool ''
      @ ''use. Preserve /root/asp_explorer; do not follow up merely to retrigger SubagentStart, ''
      @ ''close, replace, or duplicate the typed child.''),
      ch_next_state = Audit,
      ch_required_inputs = [''hostRuntimeReasoningEvidenceGapReceipt'']\<rparr>"

definition audit_before_rebind :: loop_choice where
  "audit_before_rebind =
     \<lparr>ch_id = ''audit-host-agent-tree-before-live-target-rebind'',
      ch_label = ''Audit the current native host tree before attempting Resume.'',
      ch_platform_action =
       (''Call the native collaboration list-agents surface for this root task. If ''
      @ ''/root/asp_explorer is absent, record `direnv exec . asp agent session observe-host-tree ''
      @ ''--name asp-explore --resident-target-status absent` and re-enter bootstrap. If it is ''
      @ ''present, record the corresponding present observation before attempting follow-up. A ''
      @ ''historical rollout ID alone is never a callable target.''),
      ch_next_state = Classify,
      ch_required_inputs = [''freshHostAgentTreeObservation'']\<rparr>"

definition resume_host_visible_child :: "bool \<Rightarrow> loop_choice" where
  "resume_host_visible_child completed =
     \<lparr>ch_id = ''resume-existing-child-for-live-target-rebind'',
      ch_label = (if completed then ''Resume the completed host-visible canonical resident child.''
      else ''Resume the host-visible canonical resident child.''),
      ch_platform_action =
       (''Use the main agent's native follow-up surface for /root/asp_explorer. Completed or idle ''
      @ ''native children remain resumable and must keep the same identity. If the host returns ''
      @ ''target/path/id not found, treat that native failure as a fresh absence observation: run ''
      @ ''`direnv exec . asp agent session observe-host-tree --name asp-explore ''
      @ ''--resident-target-status absent`, then re-enter bootstrap. Do not close a host-visible ''
      @ ''child or retry a historical child ID.''),
      ch_next_state = Audit,
      ch_required_inputs = [''freshSameRootSubagentStartBindingOrTargetAbsentObservation'']\<rparr>"

definition create_after_orphaned_owner :: loop_choice where
  "create_after_orphaned_owner =
     \<lparr>ch_id = ''create-canonical-typed-child-after-orphaned-owner'',
      ch_label = ''Create one canonical typed child after the host-tree miss.'',
      ch_platform_action =
       (''The fresh native host-tree receipt proves /root/asp_explorer is absent. The registry ''
      @ ''owner is orphan-risk, so create exactly one child with agent_type=asp_explorer, ''
      @ ''task_name=asp_explorer, and fork_turns=none. SubagentStart atomically releases the ''
      @ ''orphaned registry owner and registers the new native identity.''),
      ch_next_state = Audit,
      ch_required_inputs = [''freshHostTreeAbsentObservation'',
        ''freshTypedSpawnPresentObservation'']\<rparr>"

definition inline_after_orphaned_owner :: loop_choice where
  "inline_after_orphaned_owner =
     \<lparr>ch_id = ''activate-inline-parser-fallback'',
      ch_label = ''Use the exact parser-owned ASP command without creating a generic child.'',
      ch_platform_action =
       (''The fresh host-tree receipt proves the old canonical target is absent and the fresh ''
      @ ''typed-spawn receipt proves agent_type is unavailable. Rerun only the exact denied ''
      @ ''parser-owned ASP command with ASP_INLINE_PARSER_FALLBACK=1 before direnv exec. Do not ''
      @ ''register, resume, or create a generic child.''),
      ch_next_state = Audit,
      ch_required_inputs = [''freshHostTreeAbsentObservation'',
        ''freshHostTypedSpawnAbsentObservation'', ''exactDeniedAspCommand'']\<rparr>"

definition audit_spawn_for_orphaned_owner :: loop_choice where
  "audit_spawn_for_orphaned_owner =
     \<lparr>ch_id = ''audit-host-typed-spawn-schema'',
      ch_label = ''Audit typed spawn before replacing the orphaned registry owner.'',
      ch_platform_action =
       (''Inspect collaboration.spawn_agent and record the result with `direnv exec . asp agent ''
      @ ''session observe-host-capability --name asp-explore --agent-type-field present|absent`, ''
      @ ''then re-enter bootstrap. Do not create anything before this receipt exists.''),
      ch_next_state = Classify,
      ch_required_inputs = [''hostTypedSpawnObservation'']\<rparr>"

definition audit_resident_candidates :: loop_choice where
  "audit_resident_candidates =
     \<lparr>ch_id = ''audit-resident-candidates'',
      ch_label = ''Audit current resident-child candidates before creating anything.'',
      ch_platform_action =
       (''Run the loop-owned lifecycle audit for this root session and classify registered, ''
      @ ''rollout-only, stale, duplicate, and orphan-risk ASP children.''),
      ch_next_state = Classify,
      ch_required_inputs = [''rootSessionId'']\<rparr>"

definition audit_host_tree :: loop_choice where
  "audit_host_tree =
     \<lparr>ch_id = ''audit-host-agent-tree-for-existing-resident-child'',
      ch_label = ''Audit the native host agent tree before creating anything.'',
      ch_platform_action =
       (''Use the native collaboration list-agents surface as the existence authority. Look for ''
      @ ''the canonical ASP resident task path, including completed, idle, interrupted, or ''
      @ ''running instances. Registry absence is not child absence. Do not create a child from ''
      @ ''this step.''),
      ch_next_state = Classify,
      ch_required_inputs = [''hostAgentTreeSnapshot'']\<rparr>"

definition resume_host_child :: loop_choice where
  "resume_host_child =
     \<lparr>ch_id = ''resume-existing-host-resident-child'',
      ch_label = ''Resume the same existing ASP resident child identity.'',
      ch_platform_action =
       (''Only when the host agent tree contains the canonical ASP resident child, use the native ''
      @ ''follow-up-task surface on that same canonical target. For a running target, do not ''
      @ ''create a duplicate; wait for an idle boundary or interrupt only when the main agent ''
      @ ''intentionally redirects the current turn, then follow up on the same target. Re-enter ''
      @ ''this pane after the fresh host lifecycle observation so ASP can audit runtime settings ''
      @ ''and rehydrate the registry.''),
      ch_next_state = Audit,
      ch_required_inputs = [''existingResidentChild'']\<rparr>"

definition audit_typed_spawn :: loop_choice where
  "audit_typed_spawn =
     \<lparr>ch_id = ''audit-host-typed-spawn-schema'',
      ch_label = ''Audit that the native spawn tool exposes agent_type.'',
      ch_platform_action =
       (''Before Create, inspect the currently exposed native collaboration.spawn_agent tool ''
      @ ''schema. It must contain an agent_type field that can be set to asp_explorer. task_name, ''
      @ ''message, and fork_turns alone are not typed-spawn capability. Record the observation ''
      @ ''through `direnv exec . asp agent session observe-host-capability --name asp-explore ''
      @ ''--agent-type-field present|absent`; do not merely report it in prose. Then re-enter ''
      @ ''bootstrap. If agent_type is absent, do not create any child.''),
      ch_next_state = Classify,
      ch_required_inputs = [''hostTypedSpawnObservation'']\<rparr>"

definition activate_inline_fallback :: loop_choice where
  "activate_inline_fallback =
     \<lparr>ch_id = ''activate-inline-parser-fallback'',
      ch_label = (''Use the current session for the exact parser-owned ASP command when typed spawn is ''
      @ ''unavailable.''),
      ch_platform_action =
       (''Only after the native spawn schema audit proves that agent_type is unavailable, do not ''
      @ ''create a generic child. Rerun the exact denied parser-owned ASP search/query with ''
      @ ''ASP_INLINE_PARSER_FALLBACK=1 before direnv exec. This permits only that classified ASP ''
      @ ''reasoning command in the current root session; it does not authorize raw reads, shell ''
      @ ''search substitutes, or resident-child registration.''),
      ch_next_state = Audit,
      ch_required_inputs = [''freshHostTypedSpawnAbsentObservation'', ''exactDeniedAspCommand'']\<rparr>"

definition create_managed_child :: loop_choice where
  "create_managed_child =
     \<lparr>ch_id = ''create-managed-resident-child-after-host-tree-miss'',
      ch_label = ''Create the configured ASP resident child only after both audits miss.'',
      ch_platform_action =
       (''Only when rollout history and the native host agent tree both prove that no reusable ''
      @ ''ASP resident child exists, use a platform-native creation surface that explicitly ''
      @ ''exposes agent_type. Set agent_type=asp_explorer to select the registered profile, ''
      @ ''task_name=asp_explorer to reserve the canonical /root/asp_explorer path, and ''
      @ ''fork_turns=none, then create once. message text does not select the registered profile. ''
      @ ''If agent_type is not exposed, report host-agent-type-unavailable; do not create generic ''
      @ ''fallback agents or normal threads. Re-enter this pane after the native create call ''
      @ ''returns so SubagentStart can be audited.''),
      ch_next_state = Audit,
      ch_required_inputs = [''hostTreeNoResidentChild'', ''typedSpawnAgentSchema'']\<rparr>"

definition report_host_tree_unavailable :: loop_choice where
  "report_host_tree_unavailable =
     \<lparr>ch_id = ''report-host-agent-tree-audit-unavailable'',
      ch_label = ''Report that the host agent tree cannot be audited.'',
      ch_platform_action =
       (''If the host exposes no native agent-tree listing surface, report ''
      @ ''bootstrapBlocked=host-agent-tree-audit-unavailable. Registry and rollout misses are ''
      @ ''insufficient evidence for Create; do not create or register a replacement.''),
      ch_next_state = Audit,
      ch_required_inputs = [''hostTreeAuditGapObserved'']\<rparr>"

definition close_stale_child :: loop_choice where
  "close_stale_child =
     \<lparr>ch_id = ''close-stale-resident-child'',
      ch_label = ''Close or archive the stale ASP resident child with the host native action.'',
      ch_platform_action =
       (''Use the host-native close/archive action only when the current host can resolve the ''
      @ ''existing ASP-managed child. A historical-only child with no native target is already ''
      @ ''non-rebindable and must not be resumed by ID. Wait for terminal host status or the ''
      @ ''SubagentStop receipt when a live target exists; do not rotate to another rollout ''
      @ ''candidate.''),
      ch_next_state = Cleanup,
      ch_required_inputs = [''nativeStopReceiptOrHistoricalTargetAbsent'']\<rparr>"

definition audit_after_cleanup :: loop_choice where
  "audit_after_cleanup =
     \<lparr>ch_id = ''audit-after-cleanup'',
      ch_label = ''Re-enter audit after cleanup.'',
      ch_platform_action =
       (''Run the same interactive loop again so cleanup is followed by Audit and Classify, not ''
      @ ''direct replacement.''),
      ch_next_state = Audit,
      ch_required_inputs = [''rootSessionId'']\<rparr>"

definition resume_for_live_target :: loop_choice where
  "resume_for_live_target =
     \<lparr>ch_id = ''resume-existing-child-for-live-target-rebind'',
      ch_label = ''Resume the same existing resident child to establish a live target binding.'',
      ch_platform_action =
       (''Use the main agent's native same-child follow-up/resume surface for the canonical ''
      @ ''existing managed target, then immediately re-enter this pane. A fresh same-root ''
      @ ''SubagentStart lifecycle hook must attest the collaboration target before Ready. ''
      @ ''Preserve the child identity; do not create a replacement, controller sibling, or ''
      @ ''manually register an id.''),
      ch_next_state = Audit,
      ch_required_inputs = [''freshSameRootSubagentStartBinding'']\<rparr>"

definition close_expired_child :: loop_choice where
  "close_expired_child =
     \<lparr>ch_id = ''close-stale-resident-child'',
      ch_label = ''Close or archive the expired ASP resident child with the host native action.'',
      ch_platform_action =
       (''The registry lease is no longer routable. Close/archive the live target when the host ''
      @ ''can resolve it, then re-enter Audit. Do not treat an expired binding as Ready and do ''
      @ ''not rotate to another historical rollout candidate.''),
      ch_next_state = Cleanup,
      ch_required_inputs = [''nativeStopReceiptOrExpiredBindingCleanup'']\<rparr>"

definition resume_for_runtime_observation :: loop_choice where
  "resume_for_runtime_observation =
     \<lparr>ch_id = ''resume-existing-child-for-runtime-observation'',
      ch_label = ''Resume the same resident child to obtain a fresh runtime observation.'',
      ch_platform_action =
       (''Use the main agent's native follow-up/resume surface for the same canonical ''
      @ ''/root/asp_explorer target. Wait for a fresh same-root SubagentStart model and reasoning ''
      @ ''observation, then re-enter bootstrap. Missing observation is not drift: do not retire ''
      @ ''the child or create a replacement.''),
      ch_next_state = Audit,
      ch_required_inputs = [''freshSameRootSubagentStartRuntimeObservation'']\<rparr>"

definition send_denied_command :: loop_choice where
  "send_denied_command =
     \<lparr>ch_id = ''send-denied-asp-command'',
      ch_label = ''Send the denied ASP command to the resident child.'',
      ch_platform_action =
       (''Derive one dispatch identity from the root session, canonical /root/asp_explorer ''
      @ ''target, and exact denied ASP command. Send or follow up exactly once for that identity, ''
      @ ''then wait for a compact [asp-search-subagent] receipt. A timeout or repeated bootstrap ''
      @ ''may only poll/wait for the same receipt; it must never resend the command or ''
      @ ''concatenate a second search output block. Keep the resident child for later reuse. Do ''
      @ ''not retire it merely because one search turn completed.''),
      ch_next_state = WaitReceipt,
      ch_required_inputs = [''deniedAspCommand'', ''dispatchIdentity'']\<rparr>"

definition retire_and_replace :: loop_choice where
  "retire_and_replace =
     \<lparr>ch_id = ''retire-drifted-child-and-create-configured-replacement'',
      ch_label = ''Retire the drifted child and create one typed replacement from the registered profile.'',
      ch_platform_action =
       (''Use the host-native retire/archive action for the existing canonical child and wait for ''
      @ ''terminal status and /root/asp_explorer path release. Then create exactly one ''
      @ ''replacement through a spawn surface that exposes agent_type, with ''
      @ ''agent_type=asp_explorer, task_name=asp_explorer, and fork_turns=none. agent_type ''
      @ ''selects the registered role; task_name reserves its canonical collaboration path; ''
      @ ''message/natural-language task text is only payload. Let Codex load the full role ''
      @ ''configuration from ~/.codex/agents or the active higher-precedence agents directory; do ''
      @ ''not copy model or reasoning values into task text. If agent_type is unavailable, choose ''
      @ ''the blocker option instead of spawning. Re-enter this pane only after the replacement ''
      @ ''SubagentStart receipt.''),
      ch_next_state = Audit,
      ch_required_inputs = [''nativeRetireReceipt'', ''typedSubagentStartReceipt'']\<rparr>"

definition report_replacement_unavailable :: loop_choice where
  "report_replacement_unavailable =
     \<lparr>ch_id = ''report-host-typed-replacement-unavailable'',
      ch_label = ''Report that the host cannot retire and recreate the typed resident child.'',
      ch_platform_action =
       (''Report host-typed-resident-replacement-unavailable when the host lacks either native ''
      @ ''child retirement/path release or agent_type-aware creation. Keep ASP resident routing ''
      @ ''degraded, but do not deny unrelated Codex tools and do not re-enter bootstrap from the ''
      @ ''child. Never send natural-language model-switch instructions or create a generic ''
      @ ''replacement.''),
      ch_next_state = Blocked,
      ch_required_inputs = [''hostTypedReplacementCapabilityGap'']\<rparr>"

subsection \<open>The state of a record\<close>

definition stale_statuses :: "string set" where
  "stale_statuses =
     {''archived'', ''closed'', ''deleted'', ''expired'', ''invalid'', ''missing'', ''orphan-risk''}"

definition live_bound_to :: "json_parser \<Rightarrow> agent_session_record \<Rightarrow> string option \<Rightarrow> bool" where
  "live_bound_to jp r root \<longleftrightarrow>
     (case root of None \<Rightarrow> False | Some x \<Rightarrow> message_target_is_live_bound jp r x)"

text \<open>An empty or unknown model is no observation, an empty expectation is none.\<close>

definition usable_model :: "string option \<Rightarrow> string option" where
  "usable_model model =
     (case model of
        None \<Rightarrow> None
      | Some m \<Rightarrow>
          if str_trim m \<noteq> [] \<and> \<not> eq_ignore_ascii_case (str_trim m) ''unknown'' then Some m else None)"

definition given_model :: "string option \<Rightarrow> string option" where
  "given_model model =
     (case model of None \<Rightarrow> None | Some m \<Rightarrow> if str_trim m \<noteq> [] then Some m else None)"

definition resident_child_model_repair_choices :: "loop_choice list" where
  "resident_child_model_repair_choices = [retire_and_replace, report_replacement_unavailable]"

definition preflight_choices :: "loop_choice list" where
  "preflight_choices =
     [audit_host_tree, resume_host_child, audit_typed_spawn, activate_inline_fallback,
      create_managed_child, report_host_tree_unavailable]"

definition resident_child_state_and_choices ::
  "json_parser \<Rightarrow> agent_session_record option \<Rightarrow> string option \<Rightarrow> string option \<Rightarrow> string option \<Rightarrow> int
     \<Rightarrow> loop_state \<times> loop_choice list \<times> trace_step list" where
  "resident_child_state_and_choices jp record root expected_model rollout_status now =
     (case record of
        None \<Rightarrow>
          if rollout_status \<noteq> Some ''checked-no-reusable-rollout''
          then (Audit, [audit_resident_candidates], [TraceStep Audit ''resident-preflight-required''])
          else (Audit, preflight_choices,
                [TraceStep Audit ''checked-no-reusable-rollout'',
                 TraceStep Classify ''registry-missing-host-tree-audit-required''])
      | Some r \<Rightarrow>
          if rec_status r \<in> stale_statuses
          then (Cleanup, [close_stale_child, audit_after_cleanup],
                [TraceStep Classify ''historical-or-stale-child-not-live-rebindable''])
          else if \<not> live_bound_to jp r root
          then (RebindExistingChildTarget, [resume_for_live_target],
                [TraceStep Classify ''existing-child-discovered'',
                 TraceStep RebindExistingChildTarget ''live-collaboration-target-unbound''])
          else if \<not> is_routable_at r now
          then (Cleanup, [close_expired_child],
                [TraceStep Classify ''registered-child-binding-expired-or-non-routable''])
          else
            (let observed = usable_model (rec_model r); expected = given_model expected_model
             in if expected \<noteq> None \<and> observed = None
                then (Validate, [resume_for_runtime_observation],
                      [TraceStep Classify ''registered-child-routable'',
                       TraceStep Validate ''model-observation-missing''])
                else if observed \<noteq> None \<and> expected \<noteq> None \<and> observed \<noteq> expected
                then (Repair, resident_child_model_repair_choices,
                      [TraceStep Classify ''registered-child-routable'',
                       TraceStep Repair ''model-mismatch''])
                else (Ready, [send_denied_command],
                      [TraceStep Classify ''registered-child-routable'',
                       TraceStep Validate (if observed = None then ''profile-observation-pending''
                         else ''role-nickname-model-target-pass''),
                       TraceStep Ready ''resident-child-ready''])))"

definition interactive_session_record ::
  "json_parser \<Rightarrow> agent_session_record \<Rightarrow> string option \<Rightarrow> interactive_session" where
  "interactive_session_record jp r root =
     \<lparr>is_child_session_id = rec_session_id r, is_status = rec_status r, is_role = rec_role r,
      is_model = rec_model r, is_model_observation_source = rec_model_observation_source r,
      is_model_observed_at = rec_model_observed_at r,
      is_model_evidence_ref = rec_model_evidence_ref r,
      is_message_target_status = (if live_bound_to jp r root then ''ready'' else ''unbound''),
      is_message_target_id = rec_message_target_id r\<rparr>"

definition resident_child_bootstrap_menu :: "json_parser \<Rightarrow> bootstrap_menu_input \<Rightarrow> interactive_menu" where
  "resident_child_bootstrap_menu jp input =
     (case resident_child_state_and_choices jp (bm_record input) (bm_root_session_id input)
             (bm_expected_model input) (bm_rollout_history_status input) (bm_now input) of
        (state, choices, trace) \<Rightarrow>
          \<lparr>mn_schema_id = ''agent.semantic-protocols.agent-session-interactive-menu'',
           mn_schema_version = ''1'', mn_owner = ''rust'', mn_state = state, mn_name = bm_name input,
           mn_root_session_id = bm_root_session_id input,
           mn_expected_model = bm_expected_model input,
           mn_expected_reasoning_effort = bm_expected_reasoning_effort input,
           mn_rollout_history_status = bm_rollout_history_status input,
           mn_rollout_history_action = bm_rollout_history_action input,
           mn_session = map_option (\<lambda>r. interactive_session_record jp r (bm_root_session_id input))
             (bm_record input),
           mn_host_requirement =
             \<lparr>hr_platform = bm_platform input, hr_resident_child_name = bm_name input,
              hr_managed_agent_kind = ''asp_explorer'', hr_required_transport = ''message-agent'',
              hr_required_outputs = [''childSessionId'', ''agentMessageTargetId''],
              hr_blocked_when = [''native-built-in-agent-type-only'', ''normal-thread-id-only'',
                ''agent-message-target-missing'']\<rparr>,
           mn_trace = trace, mn_choices = choices,
           mn_receipt =
             \<lparr>lr_loop_name = ''asp-resident-child-bootstrap'',
              lr_invariant = ''choose one menu action, perform the platform-native action, then ''
                @ ''re-enter this loop until state=ready'',
              lr_no_next_command = True\<rparr>\<rparr>)"

subsection \<open>Rewritings of a menu\<close>

datatype override_state = OverrideActive | ReplacementRequired

definition registry_status :: "override_state \<Rightarrow> string" where
  "registry_status s =
     (case s of OverrideActive \<Rightarrow> ''active'' | ReplacementRequired \<Rightarrow> ''replacement-required'')"

definition classify_same_child_runtime_override_state :: "string \<Rightarrow> bool \<Rightarrow> bool \<Rightarrow> override_state" where
  "classify_same_child_runtime_override_state current_status runtime_matches fresh =
     (if runtime_matches then OverrideActive else ReplacementRequired)"

definition resident_child_host_runtime_refresh_eligible ::
  "json_parser \<Rightarrow> bool \<Rightarrow> agent_session_record \<Rightarrow> string \<Rightarrow> bool" where
  "resident_child_host_runtime_refresh_eligible jp registry_routable r current_root \<longleftrightarrow>
     registry_routable
     \<or> rec_status r = ''replacement-required'' \<and> message_target_is_live_bound jp r current_root"

definition add_step :: "trace_step \<Rightarrow> interactive_menu \<Rightarrow> interactive_menu" where
  "add_step step menu = menu\<lparr>mn_trace := mn_trace menu @ [step]\<rparr>"

definition retain_choices :: "(string \<Rightarrow> bool) \<Rightarrow> interactive_menu \<Rightarrow> interactive_menu" where
  "retain_choices P menu = menu\<lparr>mn_choices := filter (\<lambda>c. P (ch_id c)) (mn_choices menu)\<rparr>"

definition resident_child_runtime_repair_menu :: "interactive_menu \<Rightarrow> nat \<Rightarrow> interactive_menu" where
  "resident_child_runtime_repair_menu menu count =
     menu\<lparr>mn_state := Repair,
          mn_trace := [TraceStep Classify ''resident-child-runtime-drift'',
            TraceStep Repair ''typed-resident-replacement-required''],
          mn_choices := resident_child_model_repair_choices\<rparr>"

definition resident_child_runtime_verified_menu :: "interactive_menu \<Rightarrow> bool \<Rightarrow> interactive_menu" where
  "resident_child_runtime_verified_menu menu registry_routable =
     (let menu1 = menu\<lparr>mn_trace := [TraceStep Classify ''same-resident-child-identity'',
            TraceStep Repair ''fresh-runtime-observation-matches-expected'',
            TraceStep Validate ''typed-resident-replacement-verified'']\<rparr>
      in if registry_routable
         then add_step (TraceStep Ready ''resident-child-ready-after-verified-runtime-switch'')
                (menu1\<lparr>mn_state := Ready, mn_choices := [send_after_verification]\<rparr>)
         else add_step (TraceStep Register ''verified-runtime-registry-rehydration-required'')
                (menu1\<lparr>mn_state := Register, mn_choices := [rehydrate_verified_child]\<rparr>))"

definition typed_runtime_observation_matches_profile ::
  "string \<Rightarrow> string \<Rightarrow> string \<Rightarrow> string option \<Rightarrow> string \<Rightarrow> string option \<Rightarrow> string option \<Rightarrow> bool" where
  "typed_runtime_observation_matches_profile observed_type expected_type model effort source
     expected_model expected_effort \<longleftrightarrow>
     observed_type = ''asp_explorer'' \<and> expected_type = ''asp_explorer''
     \<and> expected_model = Some model
     \<and> (expected_effort = None \<or> effort = expected_effort)
     \<and> source \<in> {''subagent-start'', ''codex-app-server-thread-resume-after-subagent-start''}"

definition resident_child_runtime_evidence_incomplete_menu :: "interactive_menu \<Rightarrow> interactive_menu" where
  "resident_child_runtime_evidence_incomplete_menu menu =
     add_step (TraceStep Blocked ''host-runtime-reasoning-evidence-unavailable'')
       (menu\<lparr>mn_state := Blocked, mn_choices := [report_reasoning_unavailable]\<rparr>)"

definition resident_child_host_tree_audit_required_menu :: "interactive_menu \<Rightarrow> interactive_menu" where
  "resident_child_host_tree_audit_required_menu menu =
     (if mn_session menu = None \<or> mn_state menu \<noteq> RebindExistingChildTarget then menu
      else add_step (TraceStep Audit ''host-tree-observation-required-before-rebind'')
             (menu\<lparr>mn_state := Audit, mn_choices := [audit_before_rebind]\<rparr>))"

definition target_present_menu :: "interactive_menu \<Rightarrow> interactive_menu" where
  "target_present_menu menu =
     (if mn_session menu = None
      then add_step (TraceStep Classify ''canonical-host-target-present-registry-rebind-required'')
             (retain_choices (\<lambda>i. i = ''resume-existing-host-resident-child'') menu)
      else if mn_state menu \<in> {Cleanup, RebindExistingChildTarget}
      then (let completed = (mn_state menu = Cleanup)
            in add_step (TraceStep Classify (if completed
                   then ''canonical-host-target-present-completed-resumable''
                   else ''canonical-host-target-present-resume-once''))
                 (menu\<lparr>mn_state := RebindExistingChildTarget,
                       mn_choices := [resume_host_visible_child completed]\<rparr>))
      else menu)"

definition orphaned_owner_choices :: "string option \<Rightarrow> loop_choice list" where
  "orphaned_owner_choices typed_spawn =
     (if typed_spawn = Some ''present'' then [create_after_orphaned_owner]
      else if typed_spawn = Some ''absent'' then [inline_after_orphaned_owner]
      else [audit_spawn_for_orphaned_owner])"

definition target_absent_menu :: "interactive_menu \<Rightarrow> string option \<Rightarrow> interactive_menu" where
  "target_absent_menu menu typed_spawn =
     (if mn_session menu = None
      then add_step (TraceStep Classify ''canonical-host-target-absent'')
             (retain_choices (\<lambda>i. i \<notin> {''audit-host-agent-tree-for-existing-resident-child'',
                ''resume-existing-host-resident-child'', ''report-host-agent-tree-audit-unavailable''})
               menu)
      else menu\<lparr>mn_state := Audit,
             mn_trace := [TraceStep Classify ''persisted-resident-owner-found'',
               TraceStep Audit ''canonical-host-target-absent-registry-orphan-risk''],
             mn_choices := orphaned_owner_choices typed_spawn\<rparr>)"

definition resident_child_host_tree_observation_menu ::
  "interactive_menu \<Rightarrow> string \<Rightarrow> string option \<Rightarrow> interactive_menu" where
  "resident_child_host_tree_observation_menu menu target_status typed_spawn =
     (if target_status = ''present'' then target_present_menu menu
      else target_absent_menu menu typed_spawn)"

subsection \<open>Host observations\<close>

record typed_spawn_observation =
  ho_schema_id :: string
  ho_schema_version :: string
  ho_root_session_id :: string
  ho_resident_name :: string
  ho_required_field :: string
  ho_required_value :: string
  ho_field_status :: string
  ho_source :: string
  ho_schema_digest :: "string option"
  ho_observed_at :: int
  ho_expires_at :: int

record resident_target_observation =
  ht_schema_id :: string
  ht_schema_version :: string
  ht_root_session_id :: string
  ht_resident_name :: string
  ht_target_status :: string
  ht_identity_status :: string
  ht_source :: string
  ht_observed_at :: int
  ht_expires_at :: int

definition typed_spawn_is_fresh_for :: "typed_spawn_observation \<Rightarrow> string \<Rightarrow> string \<Rightarrow> int \<Rightarrow> bool" where
  "typed_spawn_is_fresh_for ob root name now \<longleftrightarrow>
     ho_schema_id ob = ''agent.semantic-protocols.host-typed-spawn-observation''
     \<and> ho_schema_version ob = ''1'' \<and> ho_root_session_id ob = root \<and> ho_resident_name ob = name
     \<and> ho_required_field ob = ''agent_type'' \<and> ho_required_value ob = ''asp_explorer''
     \<and> ho_field_status ob \<in> {''present'', ''absent''}
     \<and> ho_source ob = ''native-collaboration-spawn-agent-schema''
     \<and> ho_observed_at ob \<le> now \<and> now \<le> ho_expires_at ob"

definition resident_target_is_fresh_for ::
  "resident_target_observation \<Rightarrow> string \<Rightarrow> string \<Rightarrow> int \<Rightarrow> bool" where
  "resident_target_is_fresh_for ob root name now \<longleftrightarrow>
     ht_schema_id ob = ''agent.semantic-protocols.host-resident-target-observation''
     \<and> ht_schema_version ob = ''1'' \<and> ht_root_session_id ob = root \<and> ht_resident_name ob = name
     \<and> ht_target_status ob \<in> {''present'', ''absent''}
     \<and> ht_source ob \<in> {''native-collaboration-list-agents'', ''codex.subagent-start''}
     \<and> ht_observed_at ob \<le> now \<and> now \<le> ht_expires_at ob"

text \<open>
  One file per root session and resident name; each character that is no letter, digit, dash or
  underscore becomes an underscore.  The store is the part of the file system below the registry, with
  the contents as the observations that serde decodes from them.
\<close>

definition safe_component :: "string \<Rightarrow> string" where
  "safe_component v =
     map (\<lambda>c. case c of [b] \<Rightarrow> if is_ascii_alphanumeric b \<or> b \<in> set ''-_'' then b else CHR ''_''
                     | _ \<Rightarrow> CHR ''_'') (rust_chars v)"

definition observation_file_name :: "string \<Rightarrow> string \<Rightarrow> string" where
  "observation_file_name root name = safe_component root @ ''--'' @ safe_component name @ ''.json''"

record observation_store =
  os_typed_spawn :: "string \<Rightarrow> typed_spawn_observation option"
  os_resident_target :: "string \<Rightarrow> resident_target_observation option"

record session_args =
  sa_name :: "string option"
  sa_root_session_id :: "string option"
  sa_child_session_id :: "string option"
  sa_message_target_id :: "string option"
  sa_parent_session_id :: "string option"
  sa_model :: "string option"
  sa_status :: "string option"
  sa_agent_type_field :: "string option"
  sa_resident_target_status :: "string option"
  sa_schema_digest :: "string option"
  sa_observation_ttl_seconds :: int

definition required_env :: "(string \<Rightarrow> string option) \<Rightarrow> string \<Rightarrow> string + string" where
  "required_env env name =
     (case env name of
        None \<Rightarrow> Inl (name @ '' must identify the active Codex root task'')
      | Some v \<Rightarrow>
          if str_trim v = [] then Inl (name @ '' must identify the active Codex root task'') else Inr v)"

definition has_identity_flags :: "session_args \<Rightarrow> bool" where
  "has_identity_flags args \<longleftrightarrow>
     sa_root_session_id args \<noteq> None \<or> sa_child_session_id args \<noteq> None
     \<or> sa_message_target_id args \<noteq> None \<or> sa_parent_session_id args \<noteq> None"

definition resident_name_of :: "session_args \<Rightarrow> string" where
  "resident_name_of args = (case sa_name args of Some n \<Rightarrow> n | None \<Rightarrow> ''asp-explore'')"

definition observe_host_capability ::
  "(string \<Rightarrow> string option) \<Rightarrow> int \<Rightarrow> session_args \<Rightarrow> observation_store \<Rightarrow> string + observation_store" where
  "observe_host_capability env now args store =
     (if has_identity_flags args
      then Inl (''host capability observation derives root identity from CODEX_THREAD_ID ''
             @ ''and never accepts root or child identity flags'')
      else case required_env env ''CODEX_THREAD_ID'' of
        Inl e \<Rightarrow> Inl e
      | Inr root \<Rightarrow>
          (case sa_agent_type_field args of
             None \<Rightarrow> Inl ''--agent-type-field present|absent is required''
           | Some status \<Rightarrow>
               if status \<notin> {''present'', ''absent''}
               then Inl (''--agent-type-field must be `present` or `absent`'')
               else (let ob = \<lparr>ho_schema_id = ''agent.semantic-protocols.host-typed-spawn-observation'',
                         ho_schema_version = ''1'', ho_root_session_id = root,
                         ho_resident_name = resident_name_of args, ho_required_field = ''agent_type'',
                         ho_required_value = ''asp_explorer'', ho_field_status = status,
                         ho_source = ''native-collaboration-spawn-agent-schema'',
                         ho_schema_digest = sa_schema_digest args, ho_observed_at = now,
                         ho_expires_at = now + sa_observation_ttl_seconds args\<rparr>
                     in Inr (store\<lparr>os_typed_spawn := (os_typed_spawn store)
                          (observation_file_name root (resident_name_of args) := Some ob)\<rparr>))))"

definition write_host_tree_observation ::
  "resident_target_observation \<Rightarrow> observation_store \<Rightarrow> observation_store" where
  "write_host_tree_observation ob store =
     store\<lparr>os_resident_target := (os_resident_target store)
       (observation_file_name (ht_root_session_id ob) (ht_resident_name ob) := Some ob)\<rparr>"

definition observe_host_tree ::
  "(string \<Rightarrow> string option) \<Rightarrow> int \<Rightarrow> session_args \<Rightarrow> observation_store \<Rightarrow> string + observation_store" where
  "observe_host_tree env now args store =
     (if has_identity_flags args
      then Inl (''host tree observation derives root identity from CODEX_THREAD_ID ''
             @ ''and never accepts root or child identity flags'')
      else case required_env env ''CODEX_THREAD_ID'' of
        Inl e \<Rightarrow> Inl e
      | Inr root \<Rightarrow>
          (case sa_resident_target_status args of
             None \<Rightarrow> Inl ''--resident-target-status present|absent is required''
           | Some status \<Rightarrow>
               if status \<notin> {''present'', ''absent''}
               then Inl (''--resident-target-status must be `present` or `absent`'')
               else Inr (write_host_tree_observation
                 \<lparr>ht_schema_id = ''agent.semantic-protocols.host-resident-target-observation'',
                  ht_schema_version = ''1'', ht_root_session_id = root,
                  ht_resident_name = resident_name_of args, ht_target_status = status,
                  ht_identity_status = ''unverified'', ht_source = ''native-collaboration-list-agents'',
                  ht_observed_at = now, ht_expires_at = now + sa_observation_ttl_seconds args\<rparr>
                 store)))"

definition record_subagent_start_target_present ::
  "string \<Rightarrow> string \<Rightarrow> int \<Rightarrow> observation_store \<Rightarrow> observation_store" where
  "record_subagent_start_target_present root name observed_at store =
     write_host_tree_observation
       \<lparr>ht_schema_id = ''agent.semantic-protocols.host-resident-target-observation'',
        ht_schema_version = ''1'', ht_root_session_id = root, ht_resident_name = name,
        ht_target_status = ''present'', ht_identity_status = ''verified'',
        ht_source = ''codex.subagent-start'', ht_observed_at = observed_at,
        ht_expires_at = observed_at + 300\<rparr>
       store"

definition fresh_host_typed_spawn_observation ::
  "observation_store \<Rightarrow> string \<Rightarrow> string \<Rightarrow> int \<Rightarrow> typed_spawn_observation option" where
  "fresh_host_typed_spawn_observation store root name now =
     (case os_typed_spawn store (observation_file_name root name) of
        None \<Rightarrow> None
      | Some ob \<Rightarrow> if typed_spawn_is_fresh_for ob root name now then Some ob else None)"

definition fresh_host_resident_target_observation ::
  "observation_store \<Rightarrow> string \<Rightarrow> string \<Rightarrow> int \<Rightarrow> resident_target_observation option" where
  "fresh_host_resident_target_observation store root name now =
     (case os_resident_target store (observation_file_name root name) of
        None \<Rightarrow> None
      | Some ob \<Rightarrow> if resident_target_is_fresh_for ob root name now then Some ob else None)"

subsection \<open>Attestation by the profile\<close>

text \<open>Whether the rollout file of a child proves the canonical binding is the argument \<open>rp\<close>.\<close>

definition typed_subagent_start_binding_is_valid ::
  "string \<Rightarrow> string option \<Rightarrow> string option \<Rightarrow> bool \<Rightarrow> bool" where
  "typed_subagent_start_binding_is_valid role model_source message_target live_bound \<longleftrightarrow>
     role = ''asp_explorer'' \<and> model_source = Some ''codex.subagent-start''
     \<and> message_target = Some ''/root/asp_explorer'' \<and> live_bound"

definition stored_rollout_recovery_binding_is_valid :: "agent_session_record \<Rightarrow> bool" where
  "stored_rollout_recovery_binding_is_valid r \<longleftrightarrow>
     rec_model_observation_source r = Some ''codex.rollout''"

definition profile_attestation_identity ::
  "json_parser \<Rightarrow> (string \<Rightarrow> string \<Rightarrow> bool) \<Rightarrow> agent_session_record option \<Rightarrow> string option
     \<Rightarrow> string option \<Rightarrow> bool \<Rightarrow> (string \<times> string) option" where
  "profile_attestation_identity jp rp record start_child root target_present =
     (case start_child of
        Some child \<Rightarrow> Some (child, ''subagent-start-profile-attestation'')
      | None \<Rightarrow>
          (case (record, root) of
             (Some r, Some root_id) \<Rightarrow>
               if target_present \<and> rec_message_target_id r = Some ''/root/asp_explorer''
                  \<and> message_target_is_live_bound jp r root_id
                  \<and> (stored_rollout_recovery_binding_is_valid r \<or> rp (rec_session_id r) root_id)
               then Some (rec_session_id r, ''rollout-recovery-profile-attestation'') else None
           | _ \<Rightarrow> None))"

definition typed_subagent_start_proves_canonical_typed_binding ::
  "json_parser \<Rightarrow> agent_session_record \<Rightarrow> string \<Rightarrow> bool" where
  "typed_subagent_start_proves_canonical_typed_binding jp r root \<longleftrightarrow>
     rec_role r = ''asp_explorer'' \<and> rec_model_observation_source r = Some ''codex.subagent-start''
     \<and> rec_root_session_id r = root \<and> rec_parent_session_id r = Some root
     \<and> (case jp (rec_metadata_json r) of
          None \<Rightarrow> False
        | Some metadata \<Rightarrow>
            json_get_str ''event'' metadata = Some ''subagent-start''
            \<and> Option.bind (json_get ''native'' metadata) as_bool = Some True
            \<and> json_get_str ''rootSessionId'' metadata = Some root
            \<and> json_get_str ''childSessionId'' metadata = Some (rec_session_id r)
            \<and> json_get_str ''agentType'' metadata = Some ''asp_explorer'')"

definition profile_attested_runtime_observation ::
  "string option \<Rightarrow> string option \<Rightarrow> string option \<Rightarrow> string option \<Rightarrow> string option \<Rightarrow> bool \<Rightarrow> string option
     \<Rightarrow> verified_observation option" where
  "profile_attested_runtime_observation root child observed expected expected_effort target_present source =
     (case (root, child, observed, expected, expected_effort, source) of
        (Some root_id, Some child_id, Some model, Some expected_model, Some effort, Some src) \<Rightarrow>
          if model = expected_model \<and> target_present
          then Some \<lparr>vo_root_session_id = root_id, vo_child_session_id = child_id,
                 vo_observed_agent_type = ''asp_explorer'', vo_expected_agent_type = ''asp_explorer'',
                 vo_previous_observed_model = None, vo_previous_observed_reasoning_effort = None,
                 vo_observed_model = model, vo_observed_reasoning_effort = None,
                 vo_expected_model = expected_model, vo_expected_reasoning_effort = Some effort,
                 vo_observation_source = src, vo_observation_count = 1\<rparr>
          else None
      | _ \<Rightarrow> None)"

definition profile_attestation_is_valid ::
  "verified_observation option \<Rightarrow> string option \<Rightarrow> string option \<Rightarrow> string option \<Rightarrow> bool
     \<Rightarrow> drift_observation option \<Rightarrow> bool" where
  "profile_attestation_is_valid observation expected_effort child expected_model target_present drift \<longleftrightarrow>
     (case observation of
        None \<Rightarrow> False
      | Some ob \<Rightarrow>
          vo_observed_reasoning_effort ob = None \<and> expected_effort \<noteq> None
          \<and> vo_observation_source ob \<in> {''subagent-start'', ''subagent-start-profile-attestation'',
              ''rollout-recovery-profile-attestation''}
          \<and> child = Some (vo_child_session_id ob)
          \<and> vo_observed_agent_type ob = ''asp_explorer'' \<and> vo_expected_agent_type ob = ''asp_explorer''
          \<and> expected_model = Some (vo_observed_model ob) \<and> target_present
          \<and> (case drift of None \<Rightarrow> True | Some d \<Rightarrow> dr_child_session_id d \<noteq> vo_child_session_id ob))"

subsection \<open>Binding the canonical target\<close>

definition binding_metadata :: "json_parser \<Rightarrow> string \<Rightarrow> string \<Rightarrow> int \<Rightarrow> agent_session_record \<Rightarrow> json" where
  "binding_metadata jp root source now r =
     (let binding = JObject [(''source'', JString source), (''boundRootSessionId'', JString root),
            (''childSessionId'', JString (rec_session_id r)),
            (''messageTargetId'', JString ''/root/asp_explorer''), (''observedAt'', JInt now)]
      in case jp (rec_metadata_json r) of
           Some (JObject members) \<Rightarrow> JObject (AList.update ''messageTargetBinding'' binding members)
         | _ \<Rightarrow> JObject [(''messageTargetBinding'', binding)])"

definition kept_model_observation :: "agent_session_record \<Rightarrow> model_observation option" where
  "kept_model_observation r =
     (case (rec_model r, rec_model_observed_at r) of
        (Some model, Some observed_at) \<Rightarrow>
          if rec_model_observation_source r = Some ''codex.subagent-start''
          then Some \<lparr>ob_model = model, ob_source = CodexSubagentStart, ob_observed_at = observed_at,
                 ob_evidence_ref = rec_model_evidence_ref r\<rparr>
          else if rec_model_observation_source r = Some ''codex.rollout''
          then Some \<lparr>ob_model = model, ob_source = CodexRollout, ob_observed_at = observed_at,
                 ob_evidence_ref = rec_model_evidence_ref r\<rparr>
          else None
      | _ \<Rightarrow> None)"

definition binding_request ::
  "json_parser \<Rightarrow> (json \<Rightarrow> string) \<Rightarrow> string \<Rightarrow> int \<Rightarrow> agent_session_record \<Rightarrow> register_request" where
  "binding_request jp pr source now r =
     (let root = rec_root_session_id r
      in \<lparr>rq_project_id = rec_project_id r, rq_root_session_id = root, rq_session_id = rec_session_id r,
          rq_message_target_id = Some ''/root/asp_explorer'', rq_parent_session_id = Some root,
          rq_name = rec_name r, rq_role = rec_role r, rq_model_observation = kept_model_observation r,
          rq_status = ''idle'', rq_expires_at = None,
          rq_metadata_json = pr (binding_metadata jp root source now r), rq_now = now\<rparr>)"

definition bind_verified_canonical_target ::
  "json_parser \<Rightarrow> (json \<Rightarrow> string) \<Rightarrow> string \<Rightarrow> int \<Rightarrow> agent_session_record \<Rightarrow> session_table
     \<Rightarrow> (registry_error + agent_session_record) \<times> session_table" where
  "bind_verified_canonical_target jp pr source now r t =
     claim_resident_session (binding_request jp pr source now r)
       (snd (archive_session (rec_project_id r) (rec_session_id r) now t))"

text \<open>
  The rebinding of \<open>bootstrap_session\<close>: \<open>None\<close> leaves the record as it is.  The clock is read before
  the guards, so its value is an argument.
\<close>

definition maybe_bind_verified_canonical_target ::
  "json_parser \<Rightarrow> (json \<Rightarrow> string) \<Rightarrow> (string \<Rightarrow> string \<Rightarrow> bool) \<Rightarrow> int \<Rightarrow> agent_session_record option \<Rightarrow> bool
     \<Rightarrow> string option \<Rightarrow> string option \<Rightarrow> session_table
     \<Rightarrow> (registry_error + agent_session_record option) \<times> session_table" where
  "maybe_bind_verified_canonical_target jp pr rp now record target_present expected host_observed t =
     (case (record, expected) of
        (Some r, Some model) \<Rightarrow>
          (let root = rec_root_session_id r in
           if \<not> target_present \<or> \<not> (host_observed = Some model \<or> rec_model r = Some model)
              \<or> message_target_is_live_bound jp r root
           then (Inr None, t)
           else if typed_subagent_start_proves_canonical_typed_binding jp r root
           then apfst (map_sum id Some) (bind_verified_canonical_target jp pr
                  ''codex-typed-subagent-start-plus-native-host-tree'' now r t)
           else if rp (rec_session_id r) root
           then apfst (map_sum id Some) (bind_verified_canonical_target jp pr
                  ''codex-rollout-session-meta-plus-native-host-tree'' now r t)
           else (Inr None, t))
      | _ \<Rightarrow> (Inr None, t))"

definition require_host_tree_audit :: "interactive_menu \<Rightarrow> bool \<Rightarrow> interactive_menu" where
  "require_host_tree_audit menu observation_missing =
     (if observation_missing then resident_child_host_tree_audit_required_menu menu else menu)"

definition registry_record_routable :: "json_parser \<Rightarrow> agent_session_record \<Rightarrow> string option \<Rightarrow> int \<Rightarrow> bool" where
  "registry_record_routable jp r root now \<longleftrightarrow>
     rec_status r \<notin> {''archived'', ''closed''} \<and> live_bound_to jp r root \<and> is_routable_at r now"

subsection \<open>Bootstrap\<close>

datatype bootstrap_error = BootstrapError string | BootstrapRegistry registry_error

text \<open>
  The rollout that the preflight finds for a root session and a name: what the request to register it
  takes from the rollout, and whether it was recovered by attribution to the root (such a row is read
  back by its session id).  Which rollout it is depends on the platform's files and the managed profile.
\<close>

record adopted_rollout =
  ar_session_id :: string
  ar_parent_session_id :: "string option"
  ar_role :: string
  ar_model :: "string option"
  ar_expires_at :: "int option"
  ar_metadata_json :: string
  ar_recovered :: bool

text \<open>
  What the bootstrap reads besides the registry: the clocks, the resolved root session, the host
  observations, the hook's event file, the managed profile of a name and role, and the rollout that is
  found for a root session and a name.
\<close>

record bootstrap_env =
  be_project_id :: string
  be_root_session_id :: "string option"
  be_platform :: string
  be_now :: int
  be_bind_now :: int
  be_refresh_lock :: bool
  be_observations :: observation_store
  be_event_state :: state_file
  be_expected_model :: "string \<Rightarrow> string \<Rightarrow> string option"
  be_expected_reasoning_effort :: "string \<Rightarrow> string \<Rightarrow> string option"
  be_rollout_proves :: "string \<Rightarrow> string \<Rightarrow> bool"
  be_adopt :: "string \<Rightarrow> string \<Rightarrow> bootstrap_error + adopted_rollout option"

definition adoption_request :: "bootstrap_env \<Rightarrow> string \<Rightarrow> string \<Rightarrow> adopted_rollout \<Rightarrow> register_request" where
  "adoption_request be root name a =
     \<lparr>rq_project_id = be_project_id be, rq_root_session_id = root, rq_session_id = ar_session_id a,
      rq_message_target_id = None,
      rq_parent_session_id =
        (if ar_recovered a then or_else (ar_parent_session_id a) (Some root) else Some root),
      rq_name = name, rq_role = ar_role a,
      rq_model_observation = map_option (\<lambda>model. \<lparr>ob_model = model, ob_source = CodexRollout,
        ob_observed_at = be_now be, ob_evidence_ref = None\<rparr>) (ar_model a),
      rq_status = ''existing-child-discovered'', rq_expires_at = ar_expires_at a,
      rq_metadata_json = ar_metadata_json a, rq_now = be_now be\<rparr>"

definition adopt_rollout ::
  "bootstrap_env \<Rightarrow> string \<Rightarrow> string \<Rightarrow> session_table
     \<Rightarrow> (bootstrap_error + agent_session_record option) \<times> session_table" where
  "adopt_rollout be root name t =
     (case be_adopt be root name of
        Inl e \<Rightarrow> (Inl e, t)
      | Inr None \<Rightarrow> (Inr None, t)
      | Inr (Some a) \<Rightarrow>
          (case register_session_once (adoption_request be root name a) t of
             (Inl e, t') \<Rightarrow> (Inl (BootstrapRegistry e), t')
           | (Inr r, t') \<Rightarrow>
               if ar_recovered a
               then (Inr (lookup_session \<lparr>lk_project_id = be_project_id be,
                       lk_session_id = Some (ar_session_id a), lk_root_session_id = Some root,
                       lk_name = Some name\<rparr> t'), t')
               else (Inr (Some r), t')))"

text \<open>\<open>adopt_reusable_rollout_session_before_create\<close>: status, action and the adopted record.\<close>

definition rollout_preflight ::
  "bootstrap_env \<Rightarrow> string \<Rightarrow> session_table
     \<Rightarrow> (bootstrap_error + string \<times> string \<times> agent_session_record option) \<times> session_table" where
  "rollout_preflight be name t =
     (case be_root_session_id be of
        None \<Rightarrow> (Inr (''root-session-required'',
            ''run-agent-session-status-with-root-and-name-before-create'', None), t)
      | Some root \<Rightarrow>
          if str_trim root = []
          then (Inr (''root-session-required'',
                  ''run-agent-session-status-with-root-and-name-before-create'', None), t)
          else if str_trim name = []
          then (Inr (''name-required'', ''run-agent-session-status-with-name-before-create'', None), t)
          else (case adopt_rollout be root name t of
                  (Inl e, t') \<Rightarrow> (Inl e, t')
                | (Inr (Some r), t') \<Rightarrow> (Inr (''adopted-reusable-rollout'',
                      ''resume-adopted-existing-child-then-validate-message-route'', Some r), t')
                | (Inr None, t') \<Rightarrow> (Inr (''checked-no-reusable-rollout'',
                      ''audit-host-agent-tree-after-rollout-history-miss'', None), t')))"

definition bootstrap_lookup :: "bootstrap_env \<Rightarrow> string \<Rightarrow> session_table \<Rightarrow> agent_session_record option" where
  "bootstrap_lookup be name t =
     (case be_root_session_id be of
        None \<Rightarrow> None
      | Some root \<Rightarrow>
          (case lookup_session \<lparr>lk_project_id = be_project_id be, lk_session_id = None,
                  lk_root_session_id = Some root, lk_name = Some name\<rparr> t of
             None \<Rightarrow> None
           | Some r \<Rightarrow> if rec_status r \<in> {''archived'', ''closed''} then None else Some r))"

text \<open>The record to work on, the rollout status and action, and whether the registry can route it.\<close>

type_synonym candidate_state = "agent_session_record option \<times> string \<times> string \<times> bool"

definition routable_candidate ::
  "json_parser \<Rightarrow> bootstrap_env \<Rightarrow> agent_session_record option \<Rightarrow> bool" where
  "routable_candidate jp be record =
     (case record of
        None \<Rightarrow> False
      | Some r \<Rightarrow> registry_record_routable jp r (be_root_session_id be) (be_now be))"

definition bootstrap_candidate ::
  "json_parser \<Rightarrow> bootstrap_env \<Rightarrow> string \<Rightarrow> session_table
     \<Rightarrow> (bootstrap_error + candidate_state) \<times> session_table" where
  "bootstrap_candidate jp be name t =
     (case bootstrap_lookup be name t of
        None \<Rightarrow>
          (case rollout_preflight be name t of
             (Inl e, t') \<Rightarrow> (Inl e, t')
           | (Inr (status, action, record), t') \<Rightarrow>
               (Inr (record, status, action, routable_candidate jp be record), t'))
      | Some r \<Rightarrow>
          if routable_candidate jp be (Some r) then (Inr (Some r, ''not-needed'', ''none'', True), t)
          else (Inr (Some r, ''locked-existing-repair-candidate'',
                  ''preserve-candidate-identity-until-host-classification'', False), t))"

text \<open>An owner that the host no longer shows becomes an orphan risk.\<close>

definition mark_absent_owner ::
  "bootstrap_env \<Rightarrow> string option \<Rightarrow> candidate_state \<Rightarrow> session_table
     \<Rightarrow> candidate_state \<times> session_table" where
  "mark_absent_owner be target candidate t =
     (case candidate of
        (Some r, status, action, routable) \<Rightarrow>
          if target = Some ''absent'' \<and> rec_status r \<notin> {''archived'', ''closed'', ''orphan-risk''}
          then ((Some (r\<lparr>rec_status := ''orphan-risk''\<rparr>), status, action, False),
                snd (update_session_status (be_project_id be) (rec_session_id r) ''orphan-risk''
                  (be_now be) t))
          else (candidate, t)
      | _ \<Rightarrow> (candidate, t))"

definition start_registered_child ::
  "json_parser \<Rightarrow> bootstrap_env \<Rightarrow> agent_session_record option \<Rightarrow> string option" where
  "start_registered_child jp be record =
     (case record of
        None \<Rightarrow> None
      | Some r \<Rightarrow>
          if typed_subagent_start_binding_is_valid (rec_role r) (rec_model_observation_source r)
               (rec_message_target_id r) (live_bound_to jp r (be_root_session_id be))
          then Some (rec_session_id r) else None)"

definition relevant_drift ::
  "agent_session_record option \<Rightarrow> drift_observation option \<Rightarrow> drift_observation option" where
  "relevant_drift record drift =
     (case drift of
        None \<Rightarrow> None
      | Some d \<Rightarrow>
          (case record of
             None \<Rightarrow> Some d
           | Some r \<Rightarrow> if rec_session_id r = dr_child_session_id d then Some d else None))"

definition observation_matches_profile ::
  "verified_observation \<Rightarrow> string option \<Rightarrow> string option \<Rightarrow> bool" where
  "observation_matches_profile ob expected_model expected_effort \<longleftrightarrow>
     typed_runtime_observation_matches_profile (vo_observed_agent_type ob) (vo_expected_agent_type ob)
       (vo_observed_model ob) (vo_observed_reasoning_effort ob) (vo_observation_source ob)
       expected_model expected_effort"

text \<open>The observation that verifies the runtime, and whether there is one that does not.\<close>

definition runtime_verdict ::
  "verified_observation option \<Rightarrow> drift_observation option \<Rightarrow> string option \<Rightarrow> bool
     \<Rightarrow> string option \<Rightarrow> string option \<Rightarrow> verified_observation option \<times> bool" where
  "runtime_verdict verification drift attested target_verified expected_model expected_effort =
     (case verification of
        None \<Rightarrow> (None, False)
      | Some ob \<Rightarrow>
          if observation_matches_profile ob expected_model expected_effort
             \<or> profile_attestation_is_valid (Some ob) expected_effort attested expected_model
                 target_verified drift
          then (Some ob, False) else (None, drift = None))"

definition activate_verified_child ::
  "json_parser \<Rightarrow> bootstrap_env \<Rightarrow> string \<Rightarrow> bool \<Rightarrow> verified_observation option
     \<Rightarrow> agent_session_record option \<times> bool \<Rightarrow> session_table
     \<Rightarrow> (agent_session_record option \<times> bool) \<times> session_table" where
  "activate_verified_child jp be name target_present verified candidate t =
     (case (be_root_session_id be, verified) of
        (Some root, Some ob) \<Rightarrow>
          if \<not> target_present then (candidate, t)
          else (case lookup_session \<lparr>lk_project_id = be_project_id be,
                     lk_session_id = Some (vo_child_session_id ob),
                     lk_root_session_id = Some root, lk_name = Some name\<rparr> t of
                  None \<Rightarrow> (candidate, t)
                | Some r0 \<Rightarrow>
                    (let r = r0\<lparr>rec_status := ''active''\<rparr>
                     in ((Some r, registry_record_routable jp r (Some root) (be_now be)),
                         snd (update_session_status (be_project_id be) (rec_session_id r0) ''active''
                           (be_now be) t))))
      | _ \<Rightarrow> (candidate, t))"

definition apply_typed_spawn :: "string option \<Rightarrow> interactive_menu \<Rightarrow> interactive_menu" where
  "apply_typed_spawn typed_spawn menu =
     (case typed_spawn of
        None \<Rightarrow> menu
      | Some status \<Rightarrow>
          (let menu1 = retain_choices (\<lambda>i. i \<noteq> ''audit-host-typed-spawn-schema'') menu
           in if status = ''absent''
              then retain_choices (\<lambda>i. i \<noteq> ''create-managed-resident-child-after-host-tree-miss'') menu1
              else retain_choices (\<lambda>i. i \<noteq> ''activate-inline-parser-fallback'') menu1))"

definition apply_runtime_verdict ::
  "bool \<Rightarrow> verified_observation option \<Rightarrow> bool \<Rightarrow> drift_observation option \<Rightarrow> bool
     \<Rightarrow> interactive_menu \<Rightarrow> interactive_menu" where
  "apply_runtime_verdict target_verified verified incomplete drift registry_routable menu =
     (if \<not> target_verified then menu
      else if verified \<noteq> None then resident_child_runtime_verified_menu menu registry_routable
      else if incomplete then resident_child_runtime_evidence_incomplete_menu menu
      else case drift of
             Some d \<Rightarrow> resident_child_runtime_repair_menu menu (dr_consecutive_observation_count d)
           | None \<Rightarrow> menu)"

definition bootstrap_menu_of ::
  "json_parser \<Rightarrow> bootstrap_menu_input \<Rightarrow> string option \<Rightarrow> string option \<Rightarrow> interactive_menu" where
  "bootstrap_menu_of jp input target typed_spawn =
     (let menu = require_host_tree_audit (resident_child_bootstrap_menu jp input) (target = None);
          menu1 = (case target of
             None \<Rightarrow> menu
           | Some status \<Rightarrow> resident_child_host_tree_observation_menu menu status typed_spawn)
      in apply_typed_spawn typed_spawn menu1)"

definition runtime_observations ::
  "json_parser \<Rightarrow> bootstrap_env \<Rightarrow> string + drift_observation option \<times> verified_observation option" where
  "runtime_observations jp be =
     (case be_root_session_id be of
        None \<Rightarrow> Inr (None, None)
      | Some root \<Rightarrow>
          (case latest_subagent_runtime_drift jp (be_event_state be) root of
             Inl e \<Rightarrow> Inl e
           | Inr drift \<Rightarrow>
               (case latest_subagent_runtime_rebind_verified jp (be_event_state be) root of
                  Inl e \<Rightarrow> Inl e
                | Inr receipt \<Rightarrow> Inr (drift, receipt))))"

text \<open>
  From the candidate on.  The source fixes the runtime observed from the host to none at this point, so
  neither a host model nor a host override reaches the binding and the verdict.
\<close>

definition bootstrap_finish ::
  "json_parser \<Rightarrow> (json \<Rightarrow> string) \<Rightarrow> bootstrap_env \<Rightarrow> string \<Rightarrow> string option \<Rightarrow> string option
     \<Rightarrow> candidate_state \<Rightarrow> session_table
     \<Rightarrow> (bootstrap_error + interactive_menu \<times> agent_session_record option) \<times> session_table" where
  "bootstrap_finish jp pr be name target typed_spawn candidate t =
     (case candidate of
        (record, status, action, routable) \<Rightarrow>
          (let root = be_root_session_id be;
               present = (target = Some ''present'');
               profile_name = (case record of Some r \<Rightarrow> rec_name r | None \<Rightarrow> name);
               profile_role = (case record of Some r \<Rightarrow> rec_role r | None \<Rightarrow> []);
               expected_model = be_expected_model be profile_name profile_role;
               expected_effort = be_expected_reasoning_effort be profile_name profile_role;
               target_verified = (present \<or> routable);
               attestation = profile_attestation_identity jp (be_rollout_proves be) record
                 (start_registered_child jp be record) root target_verified;
               attested = map_option fst attestation
           in case maybe_bind_verified_canonical_target jp pr (be_rollout_proves be) (be_bind_now be)
                     record present expected_model None t of
                (Inl e, t1) \<Rightarrow> (Inl (BootstrapRegistry e), t1)
              | (Inr rebound, t1) \<Rightarrow>
                  (case runtime_observations jp be of
                     Inl e \<Rightarrow> (Inl (BootstrapError e), t1)
                   | Inr (drift0, receipt) \<Rightarrow>
                       (let record1 = or_else rebound record;
                            drift = relevant_drift record1 drift0;
                            verification = or_else receipt
                              (profile_attested_runtime_observation root attested
                                (Option.bind record1 rec_model) expected_model expected_effort
                                target_verified (map_option snd attestation))
                        in case runtime_verdict verification drift attested target_verified
                                  expected_model expected_effort of
                             (verified, incomplete) \<Rightarrow>
                               (case activate_verified_child jp be name present verified
                                       (record1, rebound \<noteq> None \<or> routable) t1 of
                                  ((record2, routable2), t2) \<Rightarrow>
                                    (Inr (apply_runtime_verdict target_verified verified incomplete
                                       drift routable2
                                       (bootstrap_menu_of jp
                                         \<lparr>bm_platform = be_platform be, bm_name = name,
                                          bm_root_session_id = root, bm_record = record2,
                                          bm_expected_model = expected_model,
                                          bm_expected_reasoning_effort = expected_effort,
                                          bm_rollout_history_status = Some status,
                                          bm_rollout_history_action = Some action,
                                          bm_now = be_now be\<rparr>
                                         target typed_spawn), record2), t2))))))"

definition observed_typed_spawn :: "bootstrap_env \<Rightarrow> string \<Rightarrow> string option" where
  "observed_typed_spawn be name =
     map_option ho_field_status (Option.bind (be_root_session_id be) (\<lambda>root.
       fresh_host_typed_spawn_observation (be_observations be) root name (be_now be)))"

definition observed_target :: "bootstrap_env \<Rightarrow> string \<Rightarrow> string option" where
  "observed_target be name =
     map_option ht_target_status (Option.bind (be_root_session_id be) (\<lambda>root.
       fresh_host_resident_target_observation (be_observations be) root name (be_now be)))"

text \<open>
  The command up to the menu it prints and the record behind it.  Rejecting a call from the child itself
  and printing are not modelled; the readers of the profile and of the observation files succeed.
\<close>

definition bootstrap_session ::
  "json_parser \<Rightarrow> (json \<Rightarrow> string) \<Rightarrow> bootstrap_env \<Rightarrow> session_args \<Rightarrow> session_table
     \<Rightarrow> (bootstrap_error + interactive_menu \<times> agent_session_record option) \<times> session_table" where
  "bootstrap_session jp pr be args t0 =
     (let name = resident_name_of args;
          t = refresh_expired_sessions (be_refresh_lock be) (be_now be) t0;
          target = observed_target be name
      in if sa_child_session_id args \<noteq> None \<or> sa_message_target_id args \<noteq> None
            \<or> sa_parent_session_id args \<noteq> None \<or> sa_model args \<noteq> None \<or> sa_status args \<noteq> None
         then (Inl (BootstrapError (''agent session bootstrap does not accept child identity, message ''
            @ ''target, model, parent, or status receipts; use the host-native create/resume/stop ''
            @ ''action and let SubagentStart/SubagentStop update the registry'')), t)
         else case bootstrap_candidate jp be name t of
           (Inl e, t1) \<Rightarrow> (Inl e, t1)
         | (Inr candidate, t1) \<Rightarrow>
             (case mark_absent_owner be target candidate t1 of
                (candidate1, t2) \<Rightarrow>
                  bootstrap_finish jp pr be name target (observed_typed_spawn be name) candidate1 t2))"

subsection \<open>The choices of a menu\<close>

lemma choice_ids [simp]:
  "ch_id send_after_verification = ''send-denied-asp-command''"
  "ch_id rehydrate_verified_child = ''rehydrate-verified-existing-child-registry''"
  "ch_id report_reasoning_unavailable = ''report-host-runtime-reasoning-evidence-unavailable''"
  "ch_id audit_before_rebind = ''audit-host-agent-tree-before-live-target-rebind''"
  "ch_id (resume_host_visible_child completed) = ''resume-existing-child-for-live-target-rebind''"
  "ch_id create_after_orphaned_owner = ''create-canonical-typed-child-after-orphaned-owner''"
  "ch_id inline_after_orphaned_owner = ''activate-inline-parser-fallback''"
  "ch_id audit_spawn_for_orphaned_owner = ''audit-host-typed-spawn-schema''"
  "ch_id audit_resident_candidates = ''audit-resident-candidates''"
  "ch_id audit_host_tree = ''audit-host-agent-tree-for-existing-resident-child''"
  "ch_id resume_host_child = ''resume-existing-host-resident-child''"
  "ch_id audit_typed_spawn = ''audit-host-typed-spawn-schema''"
  "ch_id activate_inline_fallback = ''activate-inline-parser-fallback''"
  "ch_id create_managed_child = ''create-managed-resident-child-after-host-tree-miss''"
  "ch_id report_host_tree_unavailable = ''report-host-agent-tree-audit-unavailable''"
  "ch_id close_stale_child = ''close-stale-resident-child''"
  "ch_id audit_after_cleanup = ''audit-after-cleanup''"
  "ch_id resume_for_live_target = ''resume-existing-child-for-live-target-rebind''"
  "ch_id close_expired_child = ''close-stale-resident-child''"
  "ch_id resume_for_runtime_observation = ''resume-existing-child-for-runtime-observation''"
  "ch_id send_denied_command = ''send-denied-asp-command''"
  "ch_id retire_and_replace = ''retire-drifted-child-and-create-configured-replacement''"
  "ch_id report_replacement_unavailable = ''report-host-typed-replacement-unavailable''"
  by (simp_all add: send_after_verification_def rehydrate_verified_child_def
      report_reasoning_unavailable_def audit_before_rebind_def resume_host_visible_child_def
      create_after_orphaned_owner_def inline_after_orphaned_owner_def
      audit_spawn_for_orphaned_owner_def audit_resident_candidates_def audit_host_tree_def
      resume_host_child_def audit_typed_spawn_def activate_inline_fallback_def
      create_managed_child_def report_host_tree_unavailable_def close_stale_child_def
      audit_after_cleanup_def resume_for_live_target_def close_expired_child_def
      resume_for_runtime_observation_def send_denied_command_def retire_and_replace_def
      report_replacement_unavailable_def)

definition offered :: "interactive_menu \<Rightarrow> string list" where
  "offered menu = map ch_id (mn_choices menu)"

lemma mn_add_step [simp]:
  "mn_state (add_step s m) = mn_state m" "mn_session (add_step s m) = mn_session m"
  "offered (add_step s m) = offered m"
  by (simp_all add: add_step_def offered_def)

lemma mn_retain_choices [simp]:
  "mn_state (retain_choices P m) = mn_state m" "mn_session (retain_choices P m) = mn_session m"
  "offered (retain_choices P m) = filter P (offered m)"
  by (simp_all add: retain_choices_def offered_def filter_map comp_def)

text \<open>The possible menus of a record, by state and ids offered.\<close>

definition preflight_ids :: "string list" where
  "preflight_ids = map ch_id preflight_choices"

definition record_menus :: "(loop_state \<times> string list) list" where
  "record_menus =
     [(Cleanup, [''close-stale-resident-child'', ''audit-after-cleanup'']),
      (RebindExistingChildTarget, [''resume-existing-child-for-live-target-rebind'']),
      (Cleanup, [''close-stale-resident-child'']),
      (Validate, [''resume-existing-child-for-runtime-observation'']),
      (Repair, [''retire-drifted-child-and-create-configured-replacement'',
         ''report-host-typed-replacement-unavailable'']),
      (Ready, [''send-denied-asp-command''])]"

definition state_and_ids :: "loop_state \<times> loop_choice list \<times> trace_step list \<Rightarrow> loop_state \<times> string list" where
  "state_and_ids = (\<lambda>(state, choices, trace). (state, map ch_id choices))"

lemma state_and_ids_if:
  "state_and_ids x \<in> S \<Longrightarrow> state_and_ids y \<in> S \<Longrightarrow> state_and_ids (if b then x else y) \<in> S"
  by simp

lemma state_of_record:
  "state_and_ids (resident_child_state_and_choices jp (Some r) root expected status now) \<in> set record_menus"
  unfolding resident_child_state_and_choices_def option.case Let_def
  by (intro state_and_ids_if;
      simp only: state_and_ids_def split list.map choice_ids resident_child_model_repair_choices_def
        record_menus_def list.set insert_iff simp_thms)

definition menu_ids :: "interactive_menu \<Rightarrow> loop_state \<times> string list" where
  "menu_ids menu = (mn_state menu, offered menu)"

lemma menu_of_record:
  "menu_ids (resident_child_bootstrap_menu jp input) \<in>
     (case bm_record input of
        None \<Rightarrow>
          (if bm_rollout_history_status input = Some ''checked-no-reusable-rollout''
           then {(Audit, preflight_ids)} else {(Audit, [''audit-resident-candidates''])})
      | Some r \<Rightarrow> set record_menus)"
proof (cases "bm_record input")
  case None
  then show ?thesis
    by (simp add: resident_child_bootstrap_menu_def resident_child_state_and_choices_def offered_def
        menu_ids_def preflight_ids_def)
next
  case (Some r)
  then show ?thesis
    using state_of_record [of jp r "bm_root_session_id input" "bm_expected_model input"
        "bm_rollout_history_status input" "bm_now input"]
    by (simp add: resident_child_bootstrap_menu_def offered_def split_beta state_and_ids_def menu_ids_def)
qed

lemma session_of_record:
  "mn_session (resident_child_bootstrap_menu jp input) = None \<longleftrightarrow> bm_record input = None"
  by (simp add: resident_child_bootstrap_menu_def split: prod.splits)

lemma ready_of_record:
  assumes "mn_state (resident_child_bootstrap_menu jp input) = Ready"
  shows "\<exists>r. bm_record input = Some r \<and> registry_record_routable jp r (bm_root_session_id input) (bm_now input)
     \<and> (given_model (bm_expected_model input) = None
        \<or> usable_model (rec_model r) = given_model (bm_expected_model input))"
  using assms
  by (auto simp: resident_child_bootstrap_menu_def resident_child_state_and_choices_def Let_def
      registry_record_routable_def stale_statuses_def split: option.splits if_splits)

text \<open>
  A menu that leads on: it offers something; it offers to send the denied command exactly when it is
  ready; and it offers to create a child only while the host shows none and the host's spawn tool is not
  known to lack the agent type.
\<close>

definition creation_ids :: "string set" where
  "creation_ids = {''create-managed-resident-child-after-host-tree-miss'',
     ''create-canonical-typed-child-after-orphaned-owner''}"

definition leads_on :: "string option \<Rightarrow> string option \<Rightarrow> interactive_menu \<Rightarrow> bool" where
  "leads_on target typed_spawn menu \<longleftrightarrow>
     offered menu \<noteq> []
     \<and> (mn_state menu = Ready \<longleftrightarrow> ''send-denied-asp-command'' \<in> set (offered menu))
     \<and> (creation_ids \<inter> set (offered menu) \<noteq> {} \<longrightarrow>
          target \<noteq> Some ''present'' \<and> typed_spawn \<noteq> Some ''absent'')"

definition ids_lead_on :: "string option \<Rightarrow> string option \<Rightarrow> loop_state \<times> string list \<Rightarrow> bool" where
  "ids_lead_on target typed_spawn = (\<lambda>(state, ids).
     ids \<noteq> [] \<and> (state = Ready \<longleftrightarrow> ''send-denied-asp-command'' \<in> set ids)
     \<and> (list_ex (\<lambda>i. i \<in> creation_ids) ids \<longrightarrow>
          target \<noteq> Some ''present'' \<and> typed_spawn \<noteq> Some ''absent''))"

lemma leads_on_iff: "leads_on target typed_spawn menu \<longleftrightarrow> ids_lead_on target typed_spawn (menu_ids menu)"
  by (auto simp: leads_on_def ids_lead_on_def menu_ids_def list_ex_iff)

definition observation_values :: "string option list" where
  "observation_values = [None, Some ''present'', Some ''absent'']"

text \<open>The same rewritings on state and ids alone.\<close>

definition spawn_ids :: "string option \<Rightarrow> string list \<Rightarrow> string list" where
  "spawn_ids typed_spawn ids =
     (case typed_spawn of
        None \<Rightarrow> ids
      | Some status \<Rightarrow>
          filter (\<lambda>i. i \<noteq> (if status = ''absent''
                then ''create-managed-resident-child-after-host-tree-miss''
                else ''activate-inline-parser-fallback''))
            (filter (\<lambda>i. i \<noteq> ''audit-host-typed-spawn-schema'') ids))"

definition target_ids ::
  "bool \<Rightarrow> string option \<Rightarrow> string option \<Rightarrow> loop_state \<times> string list \<Rightarrow> loop_state \<times> string list" where
  "target_ids no_session target typed_spawn = (\<lambda>(state, ids).
     case target of
       None \<Rightarrow>
         if no_session \<or> state \<noteq> RebindExistingChildTarget then (state, ids)
         else (Audit, [''audit-host-agent-tree-before-live-target-rebind''])
     | Some status \<Rightarrow>
         if status = ''present''
         then (if no_session
               then (state, filter (\<lambda>i. i = ''resume-existing-host-resident-child'') ids)
               else if state \<in> {Cleanup, RebindExistingChildTarget}
               then (RebindExistingChildTarget, [''resume-existing-child-for-live-target-rebind''])
               else (state, ids))
         else if no_session
         then (state, filter (\<lambda>i. i \<notin> {''audit-host-agent-tree-for-existing-resident-child'',
                 ''resume-existing-host-resident-child'', ''report-host-agent-tree-audit-unavailable''}) ids)
         else (Audit, map ch_id (orphaned_owner_choices typed_spawn)))"

lemma bootstrap_menu_ids:
  "menu_ids (bootstrap_menu_of jp input target typed_spawn) =
     apsnd (spawn_ids typed_spawn) (target_ids (bm_record input = None) target typed_spawn
       (menu_ids (resident_child_bootstrap_menu jp input)))"
proof -
  have spawn: "menu_ids (apply_typed_spawn typed_spawn m) = apsnd (spawn_ids typed_spawn) (menu_ids m)" for m
    by (cases typed_spawn) (auto simp: apply_typed_spawn_def spawn_ids_def menu_ids_def Let_def)
  let ?m = "resident_child_bootstrap_menu jp input"
  have observed: "menu_ids (resident_child_host_tree_observation_menu ?m status typed_spawn) =
      target_ids (bm_record input = None) (Some status) typed_spawn (menu_ids ?m)" for status
    by (simp add: resident_child_host_tree_observation_menu_def target_present_menu_def target_absent_menu_def
        session_of_record target_ids_def Let_def menu_ids_def) (simp add: offered_def)
  have audit: "menu_ids (require_host_tree_audit ?m True) =
      target_ids (bm_record input = None) None typed_spawn (menu_ids ?m)"
    by (simp add: require_host_tree_audit_def resident_child_host_tree_audit_required_menu_def
        session_of_record target_ids_def menu_ids_def) (simp add: offered_def)
  show ?thesis
  proof (cases target)
    case None
    with audit spawn show ?thesis by (simp add: bootstrap_menu_of_def Let_def)
  next
    case (Some status)
    with observed [of status] spawn show ?thesis
      by (simp add: bootstrap_menu_of_def Let_def require_host_tree_audit_def)
  qed
qed

text \<open>All rewritings of all menus lead on; there are finitely many.\<close>

lemma record_menus_lead_on:
  "list_all (\<lambda>menu. list_all (\<lambda>target. list_all (\<lambda>typed_spawn.
     ids_lead_on target typed_spawn (apsnd (spawn_ids typed_spawn) (target_ids False target typed_spawn menu)))
     observation_values) observation_values) record_menus"
  by code_simp

lemma preflight_menus_lead_on:
  "list_all (\<lambda>target. list_all (\<lambda>typed_spawn.
     ids_lead_on target typed_spawn
       (apsnd (spawn_ids typed_spawn) (target_ids True target typed_spawn (Audit, preflight_ids))))
     observation_values) observation_values"
  by code_simp

lemma unchecked_menus_lead_on:
  "list_all (\<lambda>target. list_all (\<lambda>typed_spawn.
     ids_lead_on target typed_spawn
       (apsnd (spawn_ids typed_spawn)
         (target_ids True target typed_spawn (Audit, [''audit-resident-candidates'']))))
     observation_values) [None, Some ''absent'']"
  by code_simp

lemma bootstrap_menu_leads_on:
  assumes "target \<in> set observation_values" "typed_spawn \<in> set observation_values"
    and "bm_record input = None \<Longrightarrow> target = Some ''present'' \<Longrightarrow>
      bm_rollout_history_status input = Some ''checked-no-reusable-rollout''"
  shows "leads_on target typed_spawn (bootstrap_menu_of jp input target typed_spawn)"
proof (cases "bm_record input")
  case (Some r)
  with menu_of_record [of jp input] record_menus_lead_on assms(1,2) show ?thesis
    by (simp add: leads_on_iff bootstrap_menu_ids list_all_iff)
next
  case None
  note none = this
  show ?thesis
  proof (cases "bm_rollout_history_status input = Some ''checked-no-reusable-rollout''")
    case True
    with none menu_of_record [of jp input] preflight_menus_lead_on assms(1,2) show ?thesis
      by (simp add: leads_on_iff bootstrap_menu_ids list_all_iff)
  next
    case False
    with none assms(1,3) have "target \<in> set [None, Some ''absent'']"
      by (auto simp: observation_values_def)
    with False none menu_of_record [of jp input] unchecked_menus_lead_on assms(2) show ?thesis
      by (auto simp: leads_on_iff bootstrap_menu_ids list_all_iff)
  qed
qed

subsection \<open>Bootstrap offers a way on\<close>

lemma apply_runtime_verdict_leads_on:
  "leads_on target typed_spawn menu \<Longrightarrow>
     leads_on target typed_spawn (apply_runtime_verdict target_verified verified incomplete drift routable menu)"
  by (auto simp: apply_runtime_verdict_def resident_child_runtime_verified_menu_def Let_def
      resident_child_runtime_evidence_incomplete_menu_def resident_child_runtime_repair_menu_def
      leads_on_def offered_def add_step_def resident_child_model_repair_choices_def creation_ids_def
      split: option.splits)

text \<open>What a successful pass has gone through.\<close>

lemma bootstrap_finish_result:
  assumes "bootstrap_finish jp pr be name target typed_spawn (record, status, action, routable) t =
      (Inr (menu, record2), t2)"
  obtains rebound t1 verified incomplete drift routable2 expected_model expected_effort where
    "maybe_bind_verified_canonical_target jp pr (be_rollout_proves be) (be_bind_now be) record
       (target = Some ''present'') expected_model None t = (Inr rebound, t1)"
    "activate_verified_child jp be name (target = Some ''present'') verified
       (or_else rebound record, rebound \<noteq> None \<or> routable) t1 = ((record2, routable2), t2)"
    "menu = apply_runtime_verdict (target = Some ''present'' \<or> routable) verified incomplete
       drift routable2
       (bootstrap_menu_of jp
          \<lparr>bm_platform = be_platform be, bm_name = name, bm_root_session_id = be_root_session_id be,
           bm_record = record2, bm_expected_model = expected_model,
           bm_expected_reasoning_effort = expected_effort, bm_rollout_history_status = Some status,
           bm_rollout_history_action = Some action, bm_now = be_now be\<rparr> target typed_spawn)"
  using assms unfolding bootstrap_finish_def Let_def
  by (auto split: prod.splits sum.splits)

lemma bootstrap_session_result:
  assumes "bootstrap_session jp pr be args t0 = (Inr (menu, record2), t3)"
  obtains candidate t1 owner status action routable t2 where
    "bootstrap_candidate jp be (resident_name_of args)
       (refresh_expired_sessions (be_refresh_lock be) (be_now be) t0) = (Inr candidate, t1)"
    "mark_absent_owner be (observed_target be (resident_name_of args)) candidate t1 =
       ((owner, status, action, routable), t2)"
    "bootstrap_finish jp pr be (resident_name_of args) (observed_target be (resident_name_of args))
       (observed_typed_spawn be (resident_name_of args)) (owner, status, action, routable) t2 =
       (Inr (menu, record2), t3)"
  using assms unfolding bootstrap_session_def Let_def
  by (auto split: prod.splits sum.splits if_splits)

lemma fresh_values:
  "fresh_host_resident_target_observation store root name now = Some ob \<Longrightarrow>
     ht_target_status ob \<in> {''present'', ''absent''}"
  "fresh_host_typed_spawn_observation store root name now = Some ob' \<Longrightarrow>
     ho_field_status ob' \<in> {''present'', ''absent''}"
  by (auto simp: fresh_host_resident_target_observation_def resident_target_is_fresh_for_def
      fresh_host_typed_spawn_observation_def typed_spawn_is_fresh_for_def split: option.splits if_splits)

lemma observed_values:
  "observed_target be name \<in> set observation_values"
  "observed_typed_spawn be name \<in> set observation_values"
  by (cases "Option.bind (be_root_session_id be) (\<lambda>root.
        fresh_host_resident_target_observation (be_observations be) root name (be_now be))";
      auto simp: observed_target_def observation_values_def bind_eq_Some_conv dest!: fresh_values)
     (cases "Option.bind (be_root_session_id be) (\<lambda>root.
        fresh_host_typed_spawn_observation (be_observations be) root name (be_now be))";
      auto simp: observed_typed_spawn_def observation_values_def bind_eq_Some_conv dest!: fresh_values)

lemma bootstrap_candidate_checked:
  assumes "bootstrap_candidate jp be name t = (Inr (None, status, action, routable), t')"
    and "be_root_session_id be = Some root" "str_trim root \<noteq> []" "str_trim name \<noteq> []"
  shows "status = ''checked-no-reusable-rollout''"
  using assms
  by (auto simp: bootstrap_candidate_def rollout_preflight_def
      split: option.splits sum.splits prod.splits if_splits)

lemma or_else_None [simp]: "or_else a b = None \<longleftrightarrow> a = None \<and> b = None"
  by (cases a) (auto simp: or_else_def)

lemma activate_keeps_record:
  "activate_verified_child jp be name present verified (owner, routable) t = ((None, routable2), t2) \<Longrightarrow>
     owner = None"
  by (auto simp: activate_verified_child_def Let_def split: option.splits if_splits)

lemma mark_absent_owner_none:
  "mark_absent_owner be target candidate t = ((None, status, action, routable), t') \<Longrightarrow>
     candidate = (None, status, action, routable)"
  by (auto simp: mark_absent_owner_def split: prod.splits option.splits if_splits)


subsection \<open>Only a routable child is ready\<close>

text \<open>What \<open>serde_json\<close> documents of \<open>Value::to_string\<close>: the text parses back to the value.\<close>

definition text_parses_back :: "json_parser \<Rightarrow> (json \<Rightarrow> string) \<Rightarrow> bool" where
  "text_parses_back jp pr \<longleftrightarrow> (\<forall>v. jp (pr v) = Some v)"

lemma binding_of_metadata:
  "json_get ''messageTargetBinding'' (binding_metadata jp root source now r) =
     Some (JObject [(''source'', JString source), (''boundRootSessionId'', JString root),
       (''childSessionId'', JString (rec_session_id r)),
       (''messageTargetId'', JString ''/root/asp_explorer''), (''observedAt'', JInt now)])"
  by (auto simp: binding_metadata_def Let_def update_conv' split: option.splits json.splits)

lemma binding_request_is_live:
  assumes "text_parses_back jp pr" "source \<in> set trusted_binding_sources"
  shows "message_target_is_live_bound jp (inserted_row (binding_request jp pr source now r))
           (rec_root_session_id r)"
    and "is_routable_at (inserted_row (binding_request jp pr source now r)) later"
proof -
  have "str_trim ''/root/asp_explorer'' \<noteq> []" by code_simp
  then show "message_target_is_live_bound jp (inserted_row (binding_request jp pr source now r))
      (rec_root_session_id r)"
    using assms by (simp add: message_target_is_live_bound_def inserted_row_def binding_request_def Let_def
        text_parses_back_def binding_of_metadata json_get_str_def)
  show "is_routable_at (inserted_row (binding_request jp pr source now r)) later"
    by (simp add: is_routable_at_def inserted_row_def binding_request_def Let_def
        agent_session_status_is_routable_def)
qed

text \<open>Claiming the key of an archived row replaces that row.\<close>

lemma claim_archived:
  assumes "unique_keys t" "r \<in> set t" "request_key q = row_key r" "rq_session_id q = rec_session_id r"
    and "rec_status r \<in> {''archived'', ''closed''}"
  shows "fst (claim_resident_session q t) = Inr (inserted_row q)"
proof -
  let ?gone = "\<lambda>x. row_key x = request_key q \<and> rec_status x \<in> {''archived'', ''closed''}"
  let ?cleared = "delete_rows ?gone t"
  have "\<not> conflicts (inserted_row q) x" if x: "x \<in> set ?cleared" for x
  proof
    assume "conflicts (inserted_row q) x"
    moreover from x have "x \<in> set t" "\<not> ?gone x" by (auto simp: delete_rows_def)
    ultimately have "x = r" using unique_row [OF assms(1) _ assms(2)] assms(3,4)
      by (auto simp: conflicts_def)
    with \<open>\<not> ?gone x\<close> assms(3,5) show False by simp
  qed
  then have none: "\<not> list_ex (conflicts (inserted_row q)) ?cleared" by (auto simp: list_ex_iff)
  then have stored: "insert_or_ignore (inserted_row q) ?cleared = ?cleared @ [inserted_row q]"
    by (simp add: insert_or_ignore_def)
  have "unique_keys (?cleared @ [inserted_row q])"
    by (rule unique_keys_snoc [OF unique_keys_delete [OF assms(1)] none])
  from session_by_name_member [OF this, of "inserted_row q"]
  have "session_by_name (rq_project_id q) (rq_root_session_id q) (rq_name q) (?cleared @ [inserted_row q])
      = Some (inserted_row q)"
    by (simp add: inserted_row_def)
  then show ?thesis
    unfolding claim_resident_session_def Let_def stored read_back_def by (simp only: option.case fst_conv)
qed

lemma bound_target:
  assumes "unique_keys t" "r \<in> set t"
  shows "fst (bind_verified_canonical_target jp pr source now r t) =
           Inr (inserted_row (binding_request jp pr source now r))"
proof -
  let ?t = "snd (archive_session (rec_project_id r) (rec_session_id r) now t)"
  let ?r = "r\<lparr>rec_status := ''archived'', rec_archived_at := Some now, rec_updated_at := now,
      rec_last_seen_at := Some now\<rparr>"
  have "unique_keys ?t"
    unfolding archive_session_def set_archived_status_def snd_conv
    by (rule unique_keys_update [OF assms(1)]) (simp add: row_key_def)
  moreover have "?r \<in> set ?t"
    using assms(2) by (force simp: archive_session_def set_archived_status_def update_rows_def owned_def)
  ultimately show ?thesis
    unfolding bind_verified_canonical_target_def
    by (rule claim_archived) (simp_all add: request_key_def row_key_def binding_request_def Let_def)
qed

lemma maybe_bound_is_routable:
  assumes "maybe_bind_verified_canonical_target jp pr rp now owner present expected host t = (Inr (Some r'), t')"
    and "unique_keys t" "\<And>r. owner = Some r \<Longrightarrow> r \<in> set t \<and> rec_root_session_id r = root"
    and "text_parses_back jp pr"
  shows "registry_record_routable jp r' (Some root) later"
proof -
  from assms(1) obtain r source where r: "owner = Some r"
    and source: "source \<in> set trusted_binding_sources"
    and bound: "apfst (map_sum id Some) (bind_verified_canonical_target jp pr source now r t) =
      (Inr (Some r'), t')"
    by (auto simp: maybe_bind_verified_canonical_target_def trusted_binding_sources_def Let_def
        split: option.splits if_splits)
  from bound_target [OF assms(2), of r jp pr source now] assms(3) [OF r] bound
  have "r' = inserted_row (binding_request jp pr source now r)"
    by (cases "bind_verified_canonical_target jp pr source now r t") auto
  with binding_request_is_live [OF assms(4) source, of now r] assms(3) [OF r] show ?thesis
    by (simp add: registry_record_routable_def live_bound_to_def inserted_row_def binding_request_def Let_def)
qed

lemma refresh_unique: "unique_keys t \<Longrightarrow> unique_keys (refresh_expired_sessions lock now t)"
  by (rule registry_step_unique [OF step_refresh])

lemma lookup_member:
  "session_by_name p root name t = Some r \<Longrightarrow> r \<in> set t \<and> row_key r = (p, root, name)"
  "session_by_id p session t = Some r \<Longrightarrow> r \<in> set t \<and> rec_project_id r = p \<and> rec_session_id r = session"
  by (auto simp: session_by_name_def session_by_id_def find_Some_iff)

definition of_root :: "bootstrap_env \<Rightarrow> session_table \<Rightarrow> agent_session_record option \<Rightarrow> bool" where
  "of_root be t owner \<longleftrightarrow>
     (\<forall>r. owner = Some r \<longrightarrow> r \<in> set t \<and> be_root_session_id be = Some (rec_root_session_id r))"

lemma adopted_of_root:
  assumes "adopt_rollout be root name t = (Inr owner, t')" "unique_keys t" "be_root_session_id be = Some root"
  shows "unique_keys t' \<and> of_root be t' owner"
proof (cases "be_adopt be root name")
  case (Inl e)
  with assms show ?thesis by (simp add: adopt_rollout_def)
next
  case (Inr found)
  show ?thesis
  proof (cases found)
    case None
    with Inr assms show ?thesis by (auto simp: adopt_rollout_def of_root_def)
  next
    case (Some a)
    let ?q = "adoption_request be root name a"
    obtain result s where reg: "register_session_once ?q t = (result, s)" by fastforce
    with assms(1) Inr Some obtain r where r: "result = Inr r" "t' = s"
      by (auto simp: adopt_rollout_def split: sum.splits if_splits)
    with register_success [OF assms(2) reg]
    have ok: "r \<in> set t'" "unique_keys t'" "row_key r = request_key ?q" "rec_session_id r = ar_session_id a"
      by (auto simp: adoption_request_def)
    have root: "rec_root_session_id r = root"
      using ok(3) by (simp add: row_key_def request_key_def adoption_request_def)
    have "of_root be t' owner"
    proof (cases "ar_recovered a")
      case True
      with assms(1) Inr Some reg r have "owner = session_by_id (be_project_id be) (ar_session_id a) t'"
        by (simp add: adopt_rollout_def lookup_session_def)
      then show ?thesis
        using lookup_member(2) [of "be_project_id be" "ar_session_id a" t'] unique_row(2) [OF ok(2) _ ok(1)]
          ok(4) root assms(3) by (auto simp: of_root_def)
    next
      case False
      with assms(1) Inr Some reg r have "owner = Some r" by (simp add: adopt_rollout_def)
      with ok(1) root assms(3) show ?thesis by (simp add: of_root_def)
    qed
    with ok(2) show ?thesis by blast
  qed
qed

lemma candidate_of_root:
  assumes "bootstrap_candidate jp be name t = (Inr (owner, status, action, routable), t')" "unique_keys t"
  shows "unique_keys t' \<and> of_root be t' owner \<and> routable = routable_candidate jp be owner"
proof (cases "bootstrap_lookup be name t")
  case (Some r)
  then have "r \<in> set t" "be_root_session_id be = Some (rec_root_session_id r)"
    using lookup_member(1)
    by (fastforce simp: bootstrap_lookup_def lookup_session_def row_key_def split: option.splits if_splits)+
  with Some assms show ?thesis
    by (auto simp: bootstrap_candidate_def of_root_def split: if_splits)
next
  case None
  with assms show ?thesis
    by (auto simp: bootstrap_candidate_def rollout_preflight_def of_root_def [of _ _ None]
        split: option.splits sum.splits prod.splits if_splits dest!: adopted_of_root)
qed

lemma ready_menu:
  "mn_state (bootstrap_menu_of jp input target typed_spawn) = Ready \<Longrightarrow>
     mn_state (resident_child_bootstrap_menu jp input) = Ready"
  using arg_cong [OF bootstrap_menu_ids [of jp input target typed_spawn], of fst]
  by (auto simp: menu_ids_def target_ids_def split: option.splits if_splits)

lemma verdict_ready:
  "mn_state (apply_runtime_verdict target_verified verified incomplete drift routable menu) = Ready \<Longrightarrow>
     routable \<or> mn_state menu = Ready"
  by (auto simp: apply_runtime_verdict_def resident_child_runtime_verified_menu_def Let_def
      resident_child_runtime_evidence_incomplete_menu_def resident_child_runtime_repair_menu_def
      split: if_splits option.splits)

text \<open>The routable flag that the menu is made with is true of its record.\<close>

lemma activated_routable:
  assumes "activate_verified_child jp be name present verified (owner, flag) t = ((owner2, True), t')"
    and "flag \<Longrightarrow> routable_candidate jp be owner"
  shows "routable_candidate jp be owner2"
  using assms
  by (auto simp: activate_verified_child_def routable_candidate_def Let_def split: option.splits if_splits)

lemma finish_flag:
  assumes "maybe_bind_verified_canonical_target jp pr rp bind_now owner present expected host t = (Inr rebound, t')"
    and "unique_keys t" "present \<Longrightarrow> of_root be t owner" "text_parses_back jp pr"
    and "routable \<Longrightarrow> routable_candidate jp be owner"
    and "rebound \<noteq> None \<or> routable"
  shows "routable_candidate jp be (or_else rebound owner)"
proof (cases rebound)
  case None
  with assms show ?thesis by (simp add: or_else_def)
next
  case (Some r')
  with assms(1) obtain r where r: "owner = Some r" "present"
    by (auto simp: maybe_bind_verified_canonical_target_def Let_def split: option.splits if_splits)
  with assms(3) have "r \<in> set t" "be_root_session_id be = Some (rec_root_session_id r)"
    by (auto simp: of_root_def)
  with maybe_bound_is_routable [of jp pr rp bind_now owner present expected host t r' t'] assms(1,2,4) Some r
  show ?thesis by (simp add: routable_candidate_def or_else_def)
qed

text \<open>C18: A bootstrap that reports its child as ready names a registry row that can be messaged: the row
  is bound to the current root session by trusted evidence, is active or idle, and its lease has not
  expired.  This holds however the row was found, adopted from a rollout, rebound to the canonical target
  or activated by a verified runtime.\<close>

theorem ready_child_is_routable:
  assumes "bootstrap_session jp pr be args t = (Inr (menu, owner), t')" and "mn_state menu = Ready"
    and "unique_keys t" and "text_parses_back jp pr"
  shows "\<exists>r root. owner = Some r \<and> be_root_session_id be = Some root
    \<and> message_target_is_live_bound jp r root \<and> is_routable_at r (be_now be)"
proof -
  let ?name = "resident_name_of args"
  let ?target = "observed_target be ?name"
  let ?present = "?target = Some ''present''"
  from bootstrap_session_result [OF assms(1)] obtain candidate t1 record0 status action routable t2 where
    candidate: "bootstrap_candidate jp be ?name
       (refresh_expired_sessions (be_refresh_lock be) (be_now be) t) = (Inr candidate, t1)"
    and marked: "mark_absent_owner be ?target candidate t1 = ((record0, status, action, routable), t2)"
    and finish: "bootstrap_finish jp pr be ?name ?target (observed_typed_spawn be ?name)
       (record0, status, action, routable) t2 = (Inr (menu, owner), t')"
    by blast
  from bootstrap_finish_result [OF finish]
  obtain rebound t3 verified incomplete drift routable2 expected_model input where
    bound: "maybe_bind_verified_canonical_target jp pr (be_rollout_proves be) (be_bind_now be) record0
       ?present expected_model None t2 = (Inr rebound, t3)"
    and activated: "activate_verified_child jp be ?name ?present verified
       (or_else rebound record0, rebound \<noteq> None \<or> routable) t3 = ((owner, routable2), t')"
    and menu: "menu = apply_runtime_verdict (?present \<or> routable) verified incomplete drift routable2
       (bootstrap_menu_of jp input ?target (observed_typed_spawn be ?name))"
    and input: "bm_record input = owner" "bm_root_session_id input = be_root_session_id be"
      "bm_now input = be_now be"
    by (metis bootstrap_menu_input.select_convs(3,4,9))
  obtain owner0 routable0 where cand: "candidate = (owner0, status, action, routable0)"
    using marked by (auto simp: mark_absent_owner_def split: prod.splits option.splits if_splits)
  from candidate_of_root [OF candidate [unfolded cand] refresh_unique [OF assms(3)]]
  have ok: "unique_keys t1" "of_root be t1 owner0" "routable0 = routable_candidate jp be owner0" by blast+
  have kept: "unique_keys t2 \<and> (?present \<longrightarrow> of_root be t2 record0)
      \<and> (routable \<longrightarrow> routable_candidate jp be record0)"
    using marked ok registry_step_unique [OF step_status ok(1)]
    by (auto simp: cand mark_absent_owner_def split: option.splits if_splits)
  have "routable_candidate jp be owner"
  proof (cases routable2)
    case True
    have flag: "routable_candidate jp be (or_else rebound record0)" if "rebound \<noteq> None \<or> routable"
      using finish_flag [OF bound _ _ assms(4) _ that] kept by blast
    from True activated_routable [OF _ flag] activated show ?thesis by simp
  next
    case False
    with verdict_ready [of "?present \<or> routable" verified incomplete drift routable2] assms(2) menu
      ready_menu ready_of_record have "\<exists>r. bm_record input = Some r
        \<and> registry_record_routable jp r (bm_root_session_id input) (bm_now input)"
      by blast
    with input show ?thesis by (auto simp: routable_candidate_def)
  qed
  then show ?thesis
    by (auto simp: routable_candidate_def registry_record_routable_def live_bound_to_def split: option.splits)
qed

subsection \<open>A pass of the loop\<close>

text \<open>A resident child that is bound to its root, with the model its profile expects.\<close>

definition demo_resident :: agent_session_record where
  "demo_resident = inserted_row
     \<lparr>rq_project_id = ''p'', rq_root_session_id = ''root'', rq_session_id = ''c1'',
      rq_message_target_id = Some ''/root/asp_explorer'', rq_parent_session_id = Some ''root'',
      rq_name = ''asp-explore'', rq_role = ''asp_explorer'',
      rq_model_observation = Some \<lparr>ob_model = ''large'', ob_source = CodexSubagentStart,
        ob_observed_at = 1, ob_evidence_ref = None\<rparr>,
      rq_status = ''idle'', rq_expires_at = None,
      rq_metadata_json = enc_json (JObject [(''messageTargetBinding'', JObject
        [(''source'', JString ''codex.subagent-start''), (''boundRootSessionId'', JString ''root''),
         (''childSessionId'', JString ''c1''), (''messageTargetId'', JString ''/root/asp_explorer'')])]),
      rq_now = 1\<rparr>"

definition demo_bootstrap :: bootstrap_env where
  "demo_bootstrap =
     \<lparr>be_project_id = ''p'', be_root_session_id = Some ''root'', be_platform = ''codex'', be_now = 10,
      be_bind_now = 10, be_refresh_lock = True,
      be_observations = \<lparr>os_typed_spawn = \<lambda>_. None, os_resident_target = \<lambda>_. None\<rparr>,
      be_event_state = NoStateFile, be_expected_model = \<lambda>name role. Some ''large'',
      be_expected_reasoning_effort = \<lambda>name role. None, be_rollout_proves = \<lambda>child root. False,
      be_adopt = \<lambda>root name. Inr None\<rparr>"

definition demo_args :: session_args where
  "demo_args =
     \<lparr>sa_name = None, sa_root_session_id = None, sa_child_session_id = None, sa_message_target_id = None,
      sa_parent_session_id = None, sa_model = None, sa_status = None, sa_agent_type_field = None,
      sa_resident_target_status = None, sa_schema_digest = None, sa_observation_ttl_seconds = 300\<rparr>"

lemma demo_resident_fields [simp]:
  "rec_project_id demo_resident = ''p''" "rec_root_session_id demo_resident = ''root''"
  "rec_session_id demo_resident = ''c1''" "rec_name demo_resident = ''asp-explore''"
  "rec_status demo_resident = ''idle''" "rec_model demo_resident = Some ''large''"
  "rec_expires_at demo_resident = None"
  "rec_message_target_id demo_resident = Some ''/root/asp_explorer''"
  by (simp_all add: demo_resident_def inserted_row_def)

lemma demo_resident_live: "message_target_is_live_bound wire_parse demo_resident ''root''"
proof -
  have "str_trim ''/root/asp_explorer'' \<noteq> []" by code_simp
  then show ?thesis
    by (simp add: message_target_is_live_bound_def demo_resident_def inserted_row_def wire_parse_text
        json_get_str_def trusted_binding_sources_def del: enc_json.simps)
qed

lemma demo_routable: "routable_candidate wire_parse demo_bootstrap (Some demo_resident)"
  using demo_resident_live
  by (simp add: routable_candidate_def demo_bootstrap_def registry_record_routable_def live_bound_to_def
      is_routable_at_def agent_session_status_is_routable_def)

lemma demo_pass:
  "\<exists>menu. bootstrap_session wire_parse enc_json demo_bootstrap demo_args [demo_resident] =
       (Inr (menu, Some demo_resident), [demo_resident]) \<and> mn_state menu = Ready"
proof -
  have refresh: "refresh_expired_sessions lock now [demo_resident] = [demo_resident]" for lock now
    by (simp add: refresh_expired_sessions_def expired_row_def)
  have name: "resident_name_of demo_args = ''asp-explore''"
    by (simp add: resident_name_of_def demo_args_def)
  have found: "bootstrap_lookup demo_bootstrap ''asp-explore'' [demo_resident] = Some demo_resident"
    by (simp add: bootstrap_lookup_def demo_bootstrap_def lookup_session_def session_by_name_def row_key_def)
  have candidate: "bootstrap_candidate wire_parse demo_bootstrap ''asp-explore'' [demo_resident] =
      (Inr (Some demo_resident, ''not-needed'', ''none'', True), [demo_resident])"
    by (simp add: bootstrap_candidate_def found demo_routable)
  have observed: "observed_target demo_bootstrap ''asp-explore'' = None"
    "observed_typed_spawn demo_bootstrap ''asp-explore'' = None"
    by (simp_all add: observed_target_def observed_typed_spawn_def demo_bootstrap_def
        fresh_host_resident_target_observation_def fresh_host_typed_spawn_observation_def)
  have runtime: "runtime_observations wire_parse demo_bootstrap = Inr (None, None)"
    by (simp add: runtime_observations_def demo_bootstrap_def latest_subagent_runtime_drift_def
        latest_subagent_runtime_rebind_verified_def latest_subagent_runtime_rebind_observation_def)
  have attested: "profile_attested_runtime_observation root child model expected
      (be_expected_reasoning_effort demo_bootstrap n r) present source = None" for root child model expected n r present source
    by (simp add: profile_attested_runtime_observation_def demo_bootstrap_def split: option.splits)
  have ready: "mn_state (bootstrap_menu_of wire_parse input None None) = Ready"
    if "bm_record input = Some demo_resident" "bm_root_session_id input = Some ''root''" "bm_now input = 10"
      "bm_expected_model input = Some ''large''" for input
  proof -
    have model: "usable_model (Some ''large'') = Some ''large''" "given_model (Some ''large'') = Some ''large''"
      by code_simp+
    have "mn_state (resident_child_bootstrap_menu wire_parse input) = Ready"
      using that demo_resident_live model
      by (simp add: resident_child_bootstrap_menu_def resident_child_state_and_choices_def stale_statuses_def
          live_bound_to_def is_routable_at_def agent_session_status_is_routable_def)
    then show ?thesis
      by (simp add: bootstrap_menu_of_def require_host_tree_audit_def apply_typed_spawn_def
          resident_child_host_tree_audit_required_menu_def)
  qed
  show ?thesis
    unfolding bootstrap_session_def name Let_def refresh
    by (simp add: candidate observed mark_absent_owner_def bootstrap_finish_def Let_def runtime attested
        maybe_bind_verified_canonical_target_def runtime_verdict_def or_else_def relevant_drift_def
        activate_verified_child_def apply_runtime_verdict_def demo_args_def split: option.splits)
       (simp add: ready demo_bootstrap_def)
qed


theorem ready_child_is_routable_witness:
  "\<exists>menu r. bootstrap_session wire_parse enc_json demo_bootstrap demo_args [demo_resident] =
       (Inr (menu, Some r), [demo_resident]) \<and> mn_state menu = Ready
     \<and> message_target_is_live_bound wire_parse r ''root'' \<and> is_routable_at r 10"
proof -
  obtain menu where pass: "bootstrap_session wire_parse enc_json demo_bootstrap demo_args [demo_resident] =
      (Inr (menu, Some demo_resident), [demo_resident])" and ready: "mn_state menu = Ready"
    using demo_pass by blast
  have "unique_keys [demo_resident]" by (simp add: unique_keys_def)
  moreover have "text_parses_back wire_parse enc_json" by (simp add: text_parses_back_def wire_parse_text)
  ultimately show ?thesis
    using ready_child_is_routable [OF pass ready] pass ready by (auto simp: demo_bootstrap_def)
qed

text \<open>
  A runtime that a later stop of the drifted child shows to match is not accepted: the receipt names a
  source that neither the profile check nor the attestation knows, so the menu is the blocked one.
\<close>

lemma stop_receipt_blocks:
  assumes "vo_observation_source receipt = ''subagent-stop-resume''"
  shows "runtime_verdict (Some receipt) None attested target_verified model effort = (None, True)"
  using assms
  by (simp add: runtime_verdict_def observation_matches_profile_def
      typed_runtime_observation_matches_profile_def profile_attestation_is_valid_def)

end
