(* ===== verification/Artifacts.thy ===== *)
theory Artifacts
  imports Json "HOL-Library.Product_Lexorder" "HOL-Library.Multiset"
begin

section \<open>Content-addressed artifacts\<close>

text \<open>
  Models \<open>crates/agent-semantic-artifacts/src\<close>: the identities and Merkle hashes of artifacts
  (\<open>identity.rs\<close>), the frames of a repair chain (\<open>repair_chain.rs\<close>) and the edges between artifact roots
  (\<open>edge.rs\<close>).  The BLAKE3 digest of a byte sequence, in hexadecimal, is an argument \<open>digest\<close>, and so is
  the text \<open>quote\<close> that serde_json gives a string.  The lemmas show that every hashed byte sequence can
  be taken apart again, so equal hashes mean equal artifacts unless the digest itself collides.
\<close>

type_synonym digest = "string \<Rightarrow> string"

subsection \<open>Identities\<close>

definition leaf_domain_v1 :: string where "leaf_domain_v1 = ''asp.leaf.v1''"

definition node_domain_v1 :: string where "node_domain_v1 = ''asp.node.v1''"

definition root_domain_v1 :: string where "root_domain_v1 = ''asp.root.v1''"

definition edge_domain_v1 :: string where "edge_domain_v1 = ''asp.edge.v1''"

definition json_domain_v1 :: string where "json_domain_v1 = ''asp.normalized-json.v1''"

record artifact_hash =
  ah_algorithm :: string
  ah_value :: string

definition artifact_hash_of :: "string \<Rightarrow> artifact_hash" where
  "artifact_hash_of hex = \<lparr>ah_algorithm = ''blake3'', ah_value = hex\<rparr>"

definition as_integrity_ref :: "artifact_hash \<Rightarrow> string" where
  "as_integrity_ref h = ah_algorithm h @ '':'' @ ah_value h"

record artifact_leaf_input =
  al_codec :: string
  al_media_type :: string
  al_payload :: string

record artifact_child_ref =
  ac_role :: string
  ac_name :: string
  ac_child_hash :: artifact_hash
  ac_ordinal :: nat

record artifact_node_input =
  an_kind :: string
  an_schema_id :: string
  an_schema_version :: string
  an_producer_hash :: "artifact_hash option"
  an_payload_hash :: "artifact_hash option"
  an_metadata_hash :: "artifact_hash option"
  an_children :: "artifact_child_ref list"

record artifact_root_input =
  ai_repo_id :: string
  ai_workspace_id :: string
  ai_scope_id :: string
  ai_generation :: string
  ai_root_kind :: string
  ai_node_hash :: artifact_hash

record artifact_root_ref =
  ar_repo_id :: string
  ar_workspace_id :: string
  ar_scope_id :: string
  ar_generation :: string
  ar_root_kind :: string
  ar_root_hash :: artifact_hash
  ar_node_hash :: artifact_hash
  ar_producer_hash :: "artifact_hash option"
  ar_schema_hash :: "artifact_hash option"
  ar_content_hash :: "artifact_hash option"

record artifact_identity_document =
  ad_schema_id :: string
  ad_schema_version :: string
  ad_hash_algorithm :: string
  ad_roots :: "artifact_root_ref list"

definition artifact_identity_document_of :: "artifact_root_ref list \<Rightarrow> artifact_identity_document" where
  "artifact_identity_document_of roots =
     \<lparr>ad_schema_id = ''semantic-artifact-identity'', ad_schema_version = ''1'',
      ad_hash_algorithm = ''blake3'', ad_roots = roots\<rparr>"

subsection \<open>Hashed byte sequences\<close>

text \<open>\<open>u64::to_be_bytes\<close>: eight bytes, the most significant first; larger numbers wrap.\<close>

fun be_bytes :: "nat \<Rightarrow> nat \<Rightarrow> string" where
  "be_bytes 0 n = []"
| "be_bytes (Suc k) n = be_bytes k (n div 256) @ [char_of (n mod 256)]"

definition hashed_part :: "string \<Rightarrow> string" where
  "hashed_part bytes = be_bytes 8 (length bytes) @ bytes"

definition hashed_parts :: "string list \<Rightarrow> string" where
  "hashed_parts parts = concat (map hashed_part parts)"

definition optional_hash_parts :: "artifact_hash option \<Rightarrow> string list" where
  "optional_hash_parts value =
     (case value of None \<Rightarrow> [''none''] | Some h \<Rightarrow> [''some'', ah_algorithm h, ah_value h])"

definition hash_leaf :: "digest \<Rightarrow> artifact_leaf_input \<Rightarrow> artifact_hash" where
  "hash_leaf digest i =
     artifact_hash_of (digest (hashed_parts [leaf_domain_v1, al_codec i, al_media_type i, al_payload i]))"

definition child_order :: "artifact_child_ref \<Rightarrow> string \<times> string \<times> string \<times> string \<times> nat" where
  "child_order c =
     (ac_role c, ac_name c, ah_algorithm (ac_child_hash c), ah_value (ac_child_hash c), ac_ordinal c)"

definition child_parts :: "artifact_child_ref \<Rightarrow> string list" where
  "child_parts c =
     [ac_role c, ac_name c, ah_algorithm (ac_child_hash c), ah_value (ac_child_hash c),
      be_bytes 8 (ac_ordinal c)]"

definition node_parts :: "artifact_node_input \<Rightarrow> string list" where
  "node_parts i =
     [node_domain_v1, an_kind i, an_schema_id i, an_schema_version i]
     @ optional_hash_parts (an_producer_hash i) @ optional_hash_parts (an_payload_hash i)
     @ optional_hash_parts (an_metadata_hash i)
     @ concat (map child_parts (sort_key child_order (an_children i)))"

definition hash_node :: "digest \<Rightarrow> artifact_node_input \<Rightarrow> artifact_hash" where
  "hash_node digest i = artifact_hash_of (digest (hashed_parts (node_parts i)))"

definition root_parts :: "artifact_root_input \<Rightarrow> string list" where
  "root_parts i =
     [root_domain_v1, ai_repo_id i, ai_workspace_id i, ai_scope_id i, ai_generation i, ai_root_kind i,
      ah_algorithm (ai_node_hash i), ah_value (ai_node_hash i)]"

definition hash_root :: "digest \<Rightarrow> artifact_root_input \<Rightarrow> artifact_hash" where
  "hash_root digest i = artifact_hash_of (digest (hashed_parts (root_parts i)))"

definition artifact_root_ref_from_input ::
  "digest \<Rightarrow> artifact_root_input \<Rightarrow> artifact_hash option \<Rightarrow> artifact_hash option \<Rightarrow> artifact_hash option
     \<Rightarrow> artifact_root_ref" where
  "artifact_root_ref_from_input digest i producer schema content =
     \<lparr>ar_repo_id = ai_repo_id i, ar_workspace_id = ai_workspace_id i, ar_scope_id = ai_scope_id i,
      ar_generation = ai_generation i, ar_root_kind = ai_root_kind i,
      ar_root_hash = hash_root digest i, ar_node_hash = ai_node_hash i,
      ar_producer_hash = producer, ar_schema_hash = schema, ar_content_hash = content\<rparr>"

subsection \<open>Canonical JSON\<close>

text \<open>The members of an object are written in the order of their keys.\<close>

fun canonical_json :: "(string \<Rightarrow> string) \<Rightarrow> json \<Rightarrow> string" where
  "canonical_json quote JNull = ''null''"
| "canonical_json quote (JBool b) = (if b then ''true'' else ''false'')"
| "canonical_json quote (JInt i) = show_int i"
| "canonical_json quote (JFloat s) = s"
| "canonical_json quote (JString s) = quote s"
| "canonical_json quote (JArray vs) = ''['' @ str_join '','' (map (canonical_json quote) vs) @ '']''"
| "canonical_json quote (JObject ms) =
     ''{'' @ str_join '',''
       (map (\<lambda>(key, written). quote key @ '':'' @ written)
         (sort_key fst (map (\<lambda>m. (fst m, canonical_json quote (snd m))) ms))) @ ''}''"

definition hash_normalized_json :: "digest \<Rightarrow> (string \<Rightarrow> string) \<Rightarrow> json \<Rightarrow> artifact_hash" where
  "hash_normalized_json digest quote v =
     artifact_hash_of (digest (hashed_parts [json_domain_v1, canonical_json quote v]))"

subsection \<open>Repair chains\<close>

datatype repair_chain_frame_kind = HowFromFrame | HowFixFrame | ChangeSet | ProofReceipt | GraphDiff

definition frame_kind_str :: "repair_chain_frame_kind \<Rightarrow> string" where
  "frame_kind_str k =
     (case k of HowFromFrame \<Rightarrow> ''howFromFrame'' | HowFixFrame \<Rightarrow> ''howFixFrame''
        | ChangeSet \<Rightarrow> ''changeSet'' | ProofReceipt \<Rightarrow> ''proofReceipt'' | GraphDiff \<Rightarrow> ''graphDiff'')"

record repair_chain_parent_ref =
  rp_role :: string
  rp_ordinal :: nat
  rp_root :: artifact_root_ref

definition parent_child_name :: "repair_chain_parent_ref \<Rightarrow> string" where
  "parent_child_name p = ar_root_kind (rp_root p) @ '':'' @ as_integrity_ref (ar_root_hash (rp_root p))"

record repair_chain_frame_input =
  rf_frame_kind :: repair_chain_frame_kind
  rf_repo_id :: string
  rf_workspace_id :: string
  rf_scope_id :: string
  rf_generation :: string
  rf_producer_hash :: "artifact_hash option"
  rf_schema_hash :: "artifact_hash option"
  rf_content :: json
  rf_parents :: "repair_chain_parent_ref list"

record repair_chain_frame =
  fr_frame_kind :: repair_chain_frame_kind
  fr_root :: artifact_root_ref
  fr_content_hash :: artifact_hash
  fr_parents :: "repair_chain_parent_ref list"

definition parent_child :: "repair_chain_parent_ref \<Rightarrow> artifact_child_ref" where
  "parent_child p =
     \<lparr>ac_role = rp_role p, ac_name = parent_child_name p,
      ac_child_hash = ar_root_hash (rp_root p), ac_ordinal = rp_ordinal p\<rparr>"

definition frame_node :: "digest \<Rightarrow> (string \<Rightarrow> string) \<Rightarrow> repair_chain_frame_input \<Rightarrow> artifact_node_input" where
  "frame_node digest quote i =
     \<lparr>an_kind = frame_kind_str (rf_frame_kind i),
      an_schema_id = ''semantic-artifact-repair-chain-frame'', an_schema_version = ''1'',
      an_producer_hash = rf_producer_hash i,
      an_payload_hash = Some (hash_normalized_json digest quote (rf_content i)),
      an_metadata_hash = rf_schema_hash i,
      an_children = map parent_child (rf_parents i)\<rparr>"

definition frame_root_input ::
  "digest \<Rightarrow> (string \<Rightarrow> string) \<Rightarrow> repair_chain_frame_input \<Rightarrow> artifact_root_input" where
  "frame_root_input digest quote i =
     \<lparr>ai_repo_id = rf_repo_id i, ai_workspace_id = rf_workspace_id i, ai_scope_id = rf_scope_id i,
      ai_generation = rf_generation i, ai_root_kind = frame_kind_str (rf_frame_kind i),
      ai_node_hash = hash_node digest (frame_node digest quote i)\<rparr>"

definition build_repair_chain_frame ::
  "digest \<Rightarrow> (string \<Rightarrow> string) \<Rightarrow> repair_chain_frame_input \<Rightarrow> repair_chain_frame" where
  "build_repair_chain_frame digest quote i =
     (let content_hash = hash_normalized_json digest quote (rf_content i)
      in \<lparr>fr_frame_kind = rf_frame_kind i,
          fr_root = artifact_root_ref_from_input digest (frame_root_input digest quote i)
            (rf_producer_hash i) (rf_schema_hash i) (Some content_hash),
          fr_content_hash = content_hash, fr_parents = rf_parents i\<rparr>)"

subsection \<open>Edges\<close>

record artifact_root_edge_input =
  ei_role :: string
  ei_ordinal :: nat
  ei_parent :: artifact_root_ref
  ei_child :: artifact_root_ref

record artifact_root_edge =
  ae_schema_id :: string
  ae_schema_version :: string
  ae_edge_hash :: artifact_hash
  ae_role :: string
  ae_ordinal :: nat
  ae_parent :: artifact_root_ref
  ae_child :: artifact_root_ref

text \<open>An edge writes its parts with a decimal length, a zero byte, the part and a byte 255.\<close>

definition edge_part :: "string \<Rightarrow> string" where
  "edge_part part = show_nat (length part) @ [CHR 0x00] @ part @ [CHR 0xFF]"

definition root_edge_parts :: "artifact_root_ref \<Rightarrow> string list" where
  "root_edge_parts r =
     [ar_repo_id r, ar_workspace_id r, ar_scope_id r, ar_generation r, ar_root_kind r,
      ah_algorithm (ar_root_hash r), ah_value (ar_root_hash r),
      ah_algorithm (ar_node_hash r), ah_value (ar_node_hash r)]
     @ optional_hash_parts (ar_producer_hash r) @ optional_hash_parts (ar_schema_hash r)
     @ optional_hash_parts (ar_content_hash r)"

definition edge_parts :: "artifact_root_edge_input \<Rightarrow> string list" where
  "edge_parts i =
     [edge_domain_v1, ''semantic-artifact-edge'', ''1'', ei_role i, show_nat (ei_ordinal i)]
     @ root_edge_parts (ei_parent i) @ root_edge_parts (ei_child i)"

definition hash_artifact_root_edge :: "digest \<Rightarrow> artifact_root_edge_input \<Rightarrow> artifact_hash" where
  "hash_artifact_root_edge digest i = artifact_hash_of (digest (concat (map edge_part (edge_parts i))))"

definition build_artifact_root_edge :: "digest \<Rightarrow> artifact_root_edge_input \<Rightarrow> artifact_root_edge" where
  "build_artifact_root_edge digest i =
     \<lparr>ae_schema_id = ''semantic-artifact-edge'', ae_schema_version = ''1'',
      ae_edge_hash = hash_artifact_root_edge digest i, ae_role = ei_role i, ae_ordinal = ei_ordinal i,
      ae_parent = ei_parent i, ae_child = ei_child i\<rparr>"

subsection \<open>Taking byte sequences apart\<close>

lemma length_be_bytes [simp]: "length (be_bytes k n) = k"
  by (induction k arbitrary: n) auto

lemma be_bytes_inject:
  "n < 256 ^ k \<Longrightarrow> m < 256 ^ k \<Longrightarrow> be_bytes k n = be_bytes k m \<Longrightarrow> n = m"
proof (induction k arbitrary: n m)
  case (Suc k)
  have small: "n div 256 < 256 ^ k" "m div 256 < 256 ^ k"
    using Suc.prems(1,2) by (auto simp: less_mult_imp_div_less mult.commute)
  from Suc.prems(3) have high: "be_bytes k (n div 256) = be_bytes k (m div 256)"
    and low: "char_of (n mod 256) = (char_of (m mod 256) :: char)" by simp_all
  have "n mod 256 = m mod 256" using arg_cong [OF low, of "of_char :: char \<Rightarrow> nat"] by simp
  with Suc.IH [OF small high] show ?case by (metis div_mult_mod_eq)
qed simp

definition fits_u64 :: "string \<Rightarrow> bool" where
  "fits_u64 s \<longleftrightarrow> length s < 2 ^ 64"

lemma hashed_part_inject:
  assumes "hashed_part x @ r = hashed_part y @ r'" "fits_u64 x" "fits_u64 y"
  shows "x = y \<and> r = r'"
proof -
  from assms(1) have "be_bytes 8 (length x) = be_bytes 8 (length y)" "x @ r = y @ r'"
    by (simp_all add: hashed_part_def append_eq_append_conv del: be_bytes.simps)
  with assms(2,3) be_bytes_inject [of "length x" 8 "length y"] show ?thesis
    by (simp add: fits_u64_def)
qed

lemma hashed_parts_inject:
  assumes "hashed_parts xs = hashed_parts ys" "list_all fits_u64 xs" "list_all fits_u64 ys"
  shows "xs = ys"
  using assms
proof (induction xs arbitrary: ys)
  case Nil
  then show ?case by (cases ys) (auto simp: hashed_parts_def hashed_part_def dest: arg_cong [of _ _ length])
next
  case (Cons x xs)
  then obtain y ys' where ys: "ys = y # ys'"
    by (cases ys) (auto simp: hashed_parts_def hashed_part_def dest: arg_cong [of _ _ length])
  with Cons.prems hashed_part_inject [of x "hashed_parts xs" y "hashed_parts ys'"]
  have "x = y" "hashed_parts xs = hashed_parts ys'" by (auto simp: hashed_parts_def)
  with Cons ys show ?case by auto
qed

lemma optional_hash_parts_inject:
  "optional_hash_parts a @ xs = optional_hash_parts b @ ys \<Longrightarrow> a = b \<and> xs = ys"
  by (auto simp: optional_hash_parts_def split: option.splits)

lemma child_parts_inject:
  assumes "concat (map child_parts cs) = concat (map child_parts ds)"
    and "\<forall>c \<in> set cs \<union> set ds. ac_ordinal c < 2 ^ 64"
  shows "cs = ds"
  using assms
proof (induction cs arbitrary: ds)
  case Nil
  then show ?case by (cases ds) (auto simp: child_parts_def)
next
  case (Cons c cs)
  then obtain d ds' where ds: "ds = d # ds'" by (cases ds) (auto simp: child_parts_def)
  have five: "length (child_parts x) = 5" for x by (simp add: child_parts_def)
  from Cons.prems(1) ds have "child_parts c @ concat (map child_parts cs) =
      child_parts d @ concat (map child_parts ds')" by simp
  then have parts: "child_parts c = child_parts d"
    "concat (map child_parts cs) = concat (map child_parts ds')"
    by (simp_all add: append_eq_append_conv five)
  have "c = d"
    using parts(1) Cons.prems(2) ds be_bytes_inject [of "ac_ordinal c" 8 "ac_ordinal d"]
    by (auto simp: child_parts_def intro!: artifact_child_ref.equality artifact_hash.equality)
  with Cons.IH [OF parts(2)] Cons.prems(2) ds show ?case by auto
qed

text \<open>Two nodes with the same parts differ at most in the order of their children.\<close>

definition same_node :: "artifact_node_input \<Rightarrow> artifact_node_input \<Rightarrow> bool" where
  "same_node i j \<longleftrightarrow>
     an_kind i = an_kind j \<and> an_schema_id i = an_schema_id j \<and> an_schema_version i = an_schema_version j
     \<and> an_producer_hash i = an_producer_hash j \<and> an_payload_hash i = an_payload_hash j
     \<and> an_metadata_hash i = an_metadata_hash j \<and> mset (an_children i) = mset (an_children j)"

definition node_ordinals_fit :: "artifact_node_input \<Rightarrow> bool" where
  "node_ordinals_fit i \<longleftrightarrow> (\<forall>c \<in> set (an_children i). ac_ordinal c < 2 ^ 64)"

lemma node_parts_inject:
  assumes "node_parts i = node_parts j" "node_ordinals_fit i" "node_ordinals_fit j"
  shows "same_node i j"
proof -
  let ?tail = "\<lambda>i. concat (map child_parts (sort_key child_order (an_children i)))"
  from assms(1) have heads: "an_kind i = an_kind j" "an_schema_id i = an_schema_id j"
    "an_schema_version i = an_schema_version j"
    and rest: "optional_hash_parts (an_producer_hash i) @ optional_hash_parts (an_payload_hash i)
        @ optional_hash_parts (an_metadata_hash i) @ ?tail i =
      optional_hash_parts (an_producer_hash j) @ optional_hash_parts (an_payload_hash j)
        @ optional_hash_parts (an_metadata_hash j) @ ?tail j"
    by (simp_all add: node_parts_def)
  from optional_hash_parts_inject [OF rest] have producer: "an_producer_hash i = an_producer_hash j"
    and rest: "optional_hash_parts (an_payload_hash i) @ optional_hash_parts (an_metadata_hash i) @ ?tail i =
      optional_hash_parts (an_payload_hash j) @ optional_hash_parts (an_metadata_hash j) @ ?tail j"
    by blast+
  from optional_hash_parts_inject [OF rest] have payload: "an_payload_hash i = an_payload_hash j"
    and rest: "optional_hash_parts (an_metadata_hash i) @ ?tail i = optional_hash_parts (an_metadata_hash j) @ ?tail j"
    by blast+
  from optional_hash_parts_inject [OF rest] have metadata: "an_metadata_hash i = an_metadata_hash j"
    and tails: "?tail i = ?tail j" by blast+
  from child_parts_inject [OF tails] assms(2,3)
  have "sort_key child_order (an_children i) = sort_key child_order (an_children j)"
    by (simp add: node_ordinals_fit_def ball_Un)
  then have "mset (sort_key child_order (an_children i)) = mset (sort_key child_order (an_children j))" by simp
  with heads producer payload metadata show ?thesis by (simp add: same_node_def)
qed

text \<open>The order of the children is immaterial.\<close>

lemma inj_child_order: "inj child_order"
  by (auto simp: inj_def child_order_def intro!: artifact_child_ref.equality artifact_hash.equality)

lemma same_node_parts: "same_node i j \<Longrightarrow> node_parts i = node_parts j"
proof -
  assume same: "same_node i j"
  have "sort_key child_order (an_children i) = sort_key child_order (an_children j)"
    by (rule sort_key_inj_key_eq)
       (use same in \<open>auto simp: same_node_def intro: inj_on_subset [OF inj_child_order]\<close>)
  with same show ?thesis by (simp add: same_node_def node_parts_def)
qed

subsection \<open>Canonical JSON can be read back\<close>

text \<open>What a JSON string literal promises: it opens with a quotation mark and tells where it ends.\<close>

definition json_quoting :: "(string \<Rightarrow> string) \<Rightarrow> bool" where
  "json_quoting quote \<longleftrightarrow>
     (\<forall>s. \<exists>t. quote s = CHR 0x22 # t)
     \<and> (\<forall>s t r r'. quote s @ r = quote t @ r' \<longrightarrow> s = t \<and> r = r')"

definition number_char :: "char \<Rightarrow> bool" where
  "number_char c \<longleftrightarrow> c \<in> set ''0123456789+-.eE''"

text \<open>The text of a number that is no integer.\<close>

definition float_text :: "string \<Rightarrow> bool" where
  "float_text s \<longleftrightarrow> list_all number_char s \<and> list_ex (\<lambda>c. c \<in> set ''.eE'') s"

fun json_numbers_ok :: "json \<Rightarrow> bool" where
  "json_numbers_ok (JFloat s) = float_text s"
| "json_numbers_ok (JArray vs) = list_all json_numbers_ok vs"
| "json_numbers_ok (JObject ms) = list_all (\<lambda>m. json_numbers_ok (snd m)) ms"
| "json_numbers_ok _ = True"

text \<open>A value with the members of its objects in order.\<close>

fun canonical_value :: "json \<Rightarrow> json" where
  "canonical_value (JArray vs) = JArray (map canonical_value vs)"
| "canonical_value (JObject ms) =
     JObject (map (\<lambda>m. (fst m, canonical_value (snd m))) (sort_key fst ms))"
| "canonical_value v = v"

lemma insort_key_map: "insort_key fst (fst m, f (snd m)) (map (\<lambda>m. (fst m, f (snd m))) ms) =
    map (\<lambda>m. (fst m, f (snd m))) (insort_key fst m ms)"
  by (induction ms) auto

lemma sort_key_map_members:
  "sort_key fst (map (\<lambda>m. (fst m, f (snd m))) ms) = map (\<lambda>m. (fst m, f (snd m))) (sort_key fst ms)"
  by (induction ms) (simp_all add: insort_key_map)

definition member_text :: "(string \<Rightarrow> string) \<Rightarrow> string \<times> json \<Rightarrow> string" where
  "member_text quote m = quote (fst m) @ CHR '':'' # canonical_json quote (snd m)"

lemma canonical_object:
  "canonical_json quote (JObject ms) =
     CHR ''{'' # str_join '','' (map (member_text quote) (sort_key fst ms)) @ ''}''"
proof -
  have "(\<lambda>m. quote (fst m) @ '':'' @ canonical_json quote (snd m)) = member_text quote"
    by (rule ext) (simp add: member_text_def)
  then show ?thesis by (simp add: sort_key_map_members comp_def)
qed

text \<open>What may follow a value in a canonical text.\<close>

definition delimited :: "string \<Rightarrow> bool" where
  "delimited r \<longleftrightarrow> r = [] \<or> hd r \<in> {CHR '','', CHR '']'', CHR ''}''}"

lemma number_then_delimiter:
  assumes "u @ r = w @ r'" "list_all number_char u" "list_all number_char w" "delimited r" "delimited r'"
  shows "u = w \<and> r = r'"
proof -
  have stop: "takeWhile number_char (u @ r) = u" if "list_all number_char u" "delimited r" for u r
    using that by (cases r) (auto simp: takeWhile_append2 list_all_iff delimited_def number_char_def)
  have "u = w" using stop [OF assms(2,4)] stop [OF assms(3,5)] assms(1) by metis
  with assms(1) show ?thesis by simp
qed

lemma digit_is_number_char: "is_ascii_digit c \<Longrightarrow> number_char c \<and> c \<notin> set ''.eE''"
  by (auto simp: is_ascii_digit_def number_char_def)

lemma show_nat_chars: "list_all number_char (show_nat n)" "\<not> list_ex (\<lambda>c. c \<in> set ''.eE'') (show_nat n)"
  using show_nat_digits [of n] digit_is_number_char by (simp_all only: list_all_iff list_ex_iff) blast+

lemma show_int_chars: "list_all number_char (show_int i)" "\<not> list_ex (\<lambda>c. c \<in> set ''.eE'') (show_int i)"
  using show_nat_chars [of "nat (- i)"] show_nat_chars [of "nat i"]
  by (simp_all add: show_int_def number_char_def)

lemma show_nat_no_minus: "show_nat n \<noteq> CHR ''-'' # s"
  using show_nat_digits [of n] by (auto simp: is_ascii_digit_def)

lemma show_nat_inject: "show_nat n = show_nat m \<Longrightarrow> n = m"
  by (metis decimal_value_show)

lemma show_int_inject:
  assumes "show_int i = show_int j"
  shows "i = j"
proof (cases "i < 0"; cases "j < 0")
  assume "i < 0" "j < 0"
  with assms show_nat_inject [of "nat (- i)" "nat (- j)"] show ?thesis by (simp add: show_int_def)
next
  assume "\<not> i < 0" "\<not> j < 0"
  with assms show_nat_inject [of "nat i" "nat j"] show ?thesis by (simp add: show_int_def)
next
  assume "i < 0" "\<not> j < 0"
  then have "show_int i = CHR ''-'' # show_nat (nat (- i))" "show_int j = show_nat (nat j)"
    by (simp_all add: show_int_def)
  with assms show_nat_no_minus [of "nat j"] show ?thesis by metis
next
  assume "\<not> i < 0" "j < 0"
  then have "show_int j = CHR ''-'' # show_nat (nat (- j))" "show_int i = show_nat (nat i)"
    by (simp_all add: show_int_def)
  with assms show_nat_no_minus [of "nat i"] show ?thesis by metis
qed

text \<open>The first character tells the constructor, up to the two kinds of numbers.\<close>

fun first_char_ok :: "json \<Rightarrow> char \<Rightarrow> bool" where
  "first_char_ok JNull c = (c = CHR ''n'')"
| "first_char_ok (JBool b) c = (c = (if b then CHR ''t'' else CHR ''f''))"
| "first_char_ok (JInt i) c = number_char c"
| "first_char_ok (JFloat s) c = number_char c"
| "first_char_ok (JString s) c = (c = CHR 0x22)"
| "first_char_ok (JArray vs) c = (c = CHR ''['')"
| "first_char_ok (JObject ms) c = (c = CHR ''{'')"

lemma canonical_first_char:
  assumes "json_quoting quote" "json_numbers_ok v"
  shows "\<exists>c t. canonical_json quote v = c # t \<and> first_char_ok v c"
proof (cases v)
  case (JInt i)
  have "show_int i \<noteq> []" by (simp add: show_int_def)
  then obtain c r where shown: "show_int i = c # r" by (meson list.exhaust)
  have "number_char c" using show_int_chars(1) [of i] unfolding shown list.pred_inject by (rule conjunct1)
  moreover have "canonical_json quote v = c # r" using shown by (simp only: JInt canonical_json.simps)
  ultimately show ?thesis using JInt by (metis first_char_ok.simps(3))
next
  case (JFloat s)
  then show ?thesis using assms(2) by (cases s) (simp_all add: float_text_def)
next
  case (JString s)
  moreover obtain r where "quote s = CHR 0x22 # r"
    using assms(1) unfolding json_quoting_def by blast
  ultimately show ?thesis by simp
qed auto

text \<open>Two joined sequences with the same text agree item by item, if each item tells where it ends.\<close>

lemma joined_inject:
  assumes step: "\<And>x y r r'. x \<in> set xs \<Longrightarrow> y \<in> set ys \<Longrightarrow> delimited r \<Longrightarrow> delimited r' \<Longrightarrow>
      e x @ r = e y @ r' \<Longrightarrow> R x y \<and> r = r'"
    and start: "\<And>x. x \<in> set xs \<union> set ys \<Longrightarrow> \<exists>c t. e x = c # t \<and> c \<noteq> close"
    and close: "close = CHR '']'' \<or> close = CHR ''}''"
    and eq: "str_join '','' (map e xs) @ close # r = str_join '','' (map e ys) @ close # r'"
  shows "list_all2 R xs ys \<and> r = r'"
  using step start eq
proof (induction xs arbitrary: ys)
  case Nil
  show ?case
  proof (cases ys)
    case Nil
    with Nil.prems show ?thesis by simp
  next
    case (Cons y ys')
    with Nil.prems(2) [of y] obtain c t where "e y = c # t" "c \<noteq> close" by auto
    with Nil.prems(3) Cons show ?thesis by (cases ys') auto
  qed
next
  case (Cons x xs)
  from Cons.prems(2) [of x] obtain c t where x: "e x = c # t" "c \<noteq> close" by auto
  with Cons.prems(3) obtain y ys' where ys: "ys = y # ys'"
    by (cases ys) (cases xs; auto)+
  let ?tail = "\<lambda>zs r. (if zs = [] then [] else CHR '','' # str_join '','' (map e zs)) @ close # r"
  have join: "str_join '','' (map e (z # zs)) @ close # r = e z @ ?tail zs r" for z zs r
    by (cases zs) auto
  have del: "delimited (?tail zs r)" for zs r using close by (auto simp: delimited_def)
  from Cons.prems(3) have "e x @ ?tail xs r = e y @ ?tail ys' r'" unfolding ys join .
  with Cons.prems(1) [of x y "?tail xs r" "?tail ys' r'"] del ys
  have first: "R x y" and tails: "?tail xs r = ?tail ys' r'" by auto
  show ?case
  proof (cases "xs = [] \<or> ys' = []")
    case True
    have "hd (?tail zs r) = (if zs = [] then close else CHR '','')" for zs r by simp
    with arg_cong [OF tails, of hd] have "(if xs = [] then close else CHR '','') =
        (if ys' = [] then close else CHR '','')" by metis
    moreover have "CHR '','' \<noteq> close" using close by auto
    ultimately have "xs = [] \<longleftrightarrow> ys' = []" by metis
    with True have nil: "xs = []" "ys' = []" by blast+
    from tails have "r = r'" unfolding nil by (simp only: simp_thms if_True append_Nil list.inject)
    with first ys nil show ?thesis by simp
  next
    case False
    then have "xs \<noteq> []" "ys' \<noteq> []" by blast+
    with tails have "str_join '','' (map e xs) @ close # r = str_join '','' (map e ys') @ close # r'"
      by (simp only: simp_thms if_False append_Cons list.inject)
    note joined = this
    have "list_all2 R xs ys' \<and> r = r'"
    proof (rule Cons.IH [OF _ _ joined])
      show "R u v \<and> s = s'" if "u \<in> set xs" "v \<in> set ys'" "delimited s" "delimited s'" "e u @ s = e v @ s'" for u v s s'
        by (rule Cons.prems(1)) (use that ys in auto)
      show "\<exists>c t. e u = c # t \<and> c \<noteq> close" if "u \<in> set xs \<union> set ys'" for u
        by (rule Cons.prems(2)) (use that ys in auto)
    qed
    with ys first show ?thesis by simp
  qed
qed

lemma list_all2_canonical: "list_all2 (\<lambda>v w. canonical_value v = canonical_value w) vs ws \<Longrightarrow>
    map canonical_value vs = map canonical_value ws"
  by (induction rule: list_all2_induct) auto

lemma list_all2_members:
  "list_all2 (\<lambda>m k. fst m = fst k \<and> canonical_value (snd m) = canonical_value (snd k)) ms ks \<Longrightarrow>
     map (\<lambda>m. (fst m, canonical_value (snd m))) ms = map (\<lambda>m. (fst m, canonical_value (snd m))) ks"
  by (induction rule: list_all2_induct) auto

lemma member_text_start:
  assumes "json_quoting quote"
  shows "\<exists>c t. member_text quote m = c # t \<and> c \<noteq> CHR ''}''"
proof -
  obtain r where "quote (fst m) = CHR 0x22 # r" using assms unfolding json_quoting_def by blast
  then show ?thesis by (simp add: member_text_def)
qed

lemma canonical_start:
  assumes "json_quoting quote" "json_numbers_ok v"
  shows "\<exists>c t. canonical_json quote v = c # t \<and> c \<noteq> CHR '']''"
  using canonical_first_char [OF assms] by (cases v) (auto simp: number_char_def split: if_splits)

text \<open>Texts of different constructors differ in their first character, the two numbers apart.\<close>

fun constructor_of :: "json \<Rightarrow> nat" where
  "constructor_of JNull = 0"
| "constructor_of (JBool b) = 1"
| "constructor_of (JInt i) = 2"
| "constructor_of (JFloat s) = 2"
| "constructor_of (JString s) = 3"
| "constructor_of (JArray vs) = 4"
| "constructor_of (JObject ms) = 5"

lemma first_char_constructor: "first_char_ok v c \<Longrightarrow> first_char_ok w c \<Longrightarrow> constructor_of v = constructor_of w"
  by (cases v; cases w) (auto simp: number_char_def split: if_splits)

lemma same_text_constructor:
  assumes "json_quoting quote" "json_numbers_ok v" "json_numbers_ok w"
    and "canonical_json quote v @ r = canonical_json quote w @ r'"
  shows "constructor_of v = constructor_of w"
proof -
  from canonical_first_char [OF assms(1,2)] obtain c t where
    v: "canonical_json quote v = c # t" "first_char_ok v c" by blast
  from canonical_first_char [OF assms(1,3)] obtain d u where
    w: "canonical_json quote w = d # u" "first_char_ok w d" by blast
  from assms(4) have "c = d" unfolding v w by (simp only: append_Cons list.inject)
  with first_char_constructor v(2) w(2) show ?thesis by blast
qed

lemma canonical_json_inject:
  assumes q: "json_quoting quote"
  shows "json_numbers_ok v \<Longrightarrow> json_numbers_ok w \<Longrightarrow> delimited r \<Longrightarrow> delimited r' \<Longrightarrow>
    canonical_json quote v @ r = canonical_json quote w @ r' \<Longrightarrow>
    canonical_value v = canonical_value w \<and> r = r'"
proof (induction v arbitrary: w r r')
  case JNull
  then have "constructor_of w = 0" using same_text_constructor [OF q JNull.prems(1,2,5)] by simp
  with JNull.prems(5) show ?case by (cases w) auto
next
  case (JBool b)
  then have "constructor_of w = 1" using same_text_constructor [OF q JBool.prems(1,2,5)] by simp
  with JBool.prems(5) show ?case by (cases w) (auto split: if_splits)
next
  case (JInt i)
  then have "constructor_of w = 2" using same_text_constructor [OF q JInt.prems(1,2,5)] by simp
  then consider j where "w = JInt j" | s where "w = JFloat s" by (cases w) auto
  then show ?case
  proof cases
    case 1
    from JInt.prems(5) number_then_delimiter [OF _ show_int_chars(1) show_int_chars(1) JInt.prems(3,4)]
    show ?thesis unfolding 1 canonical_json.simps using show_int_inject by blast
  next
    case 2
    with JInt.prems(2) have s: "list_all number_char s" "list_ex (\<lambda>c. c \<in> set ''.eE'') s"
      by (simp_all add: float_text_def)
    from JInt.prems(5) number_then_delimiter [OF _ show_int_chars(1) s(1) JInt.prems(3,4)]
    have "show_int i = s" unfolding 2 canonical_json.simps by blast
    with s(2) show_int_chars(2) show ?thesis by blast
  qed
next
  case (JFloat s)
  then have "constructor_of w = 2" using same_text_constructor [OF q JFloat.prems(1,2,5)] by simp
  then consider j where "w = JInt j" | u where "w = JFloat u" by (cases w) auto
  then show ?case
  proof cases
    case 1
    from JFloat.prems(1) have s: "list_all number_char s" "list_ex (\<lambda>c. c \<in> set ''.eE'') s"
      by (simp_all add: float_text_def)
    from JFloat.prems(5) number_then_delimiter [OF _ s(1) show_int_chars(1) JFloat.prems(3,4)]
    have "s = show_int j" unfolding 1 canonical_json.simps by blast
    with s(2) show_int_chars(2) show ?thesis by blast
  next
    case 2
    with JFloat.prems(1,2) have "list_all number_char s" "list_all number_char u"
      by (simp_all add: float_text_def)
    with JFloat.prems(5) number_then_delimiter [OF _ _ _ JFloat.prems(3,4)]
    show ?thesis unfolding 2 canonical_json.simps by blast
  qed
next
  case (JString s)
  then have "constructor_of w = 3" using same_text_constructor [OF q JString.prems(1,2,5)] by simp
  then obtain u where w: "w = JString u" by (cases w) auto
  with JString.prems(5) q show ?case unfolding json_quoting_def w canonical_json.simps by blast
next
  case (JArray vs)
  then have "constructor_of w = 4" using same_text_constructor [OF q JArray.prems(1,2,5)] by simp
  then obtain ws where w: "w = JArray ws" by (cases w) auto
  have "list_all2 (\<lambda>v w. canonical_value v = canonical_value w) vs ws \<and> r = r'"
  proof (rule joined_inject [where e = "canonical_json quote" and close = "CHR '']''"])
    show "canonical_value x = canonical_value y \<and> s = s'"
      if "x \<in> set vs" "y \<in> set ws" "delimited s" "delimited s'"
        "canonical_json quote x @ s = canonical_json quote y @ s'" for x y s s'
      using JArray.IH [OF that(1) _ _ that(3-5)] JArray.prems(1,2) that(1,2)
      by (simp add: w list_all_iff)
    show "\<exists>c t. canonical_json quote x = c # t \<and> c \<noteq> CHR '']''" if "x \<in> set vs \<union> set ws" for x
      by (rule canonical_start [OF q]) (use that JArray.prems(1,2) in \<open>auto simp: w list_all_iff\<close>)
  qed (use JArray.prems(5) w in simp_all)
  with list_all2_canonical w show ?case by auto
next
  case (JObject ms)
  then have "constructor_of w = 5" using same_text_constructor [OF q JObject.prems(1,2,5)] by simp
  then obtain ks where w: "w = JObject ks" by (cases w) auto
  let ?R = "\<lambda>m k. fst m = fst k \<and> canonical_value (snd m) = canonical_value (snd k)"
  have "list_all2 ?R (sort_key fst ms) (sort_key fst ks) \<and> r = r'"
  proof (rule joined_inject [where e = "member_text quote" and close = "CHR ''}''"])
    show "?R x y \<and> s = s'"
      if "x \<in> set (sort_key fst ms)" "y \<in> set (sort_key fst ks)" "delimited s" "delimited s'"
        "member_text quote x @ s = member_text quote y @ s'" for x y s s'
    proof -
      from that(5) q have key: "fst x = fst y"
        and rest: "CHR '':'' # canonical_json quote (snd x) @ s = CHR '':'' # canonical_json quote (snd y) @ s'"
        unfolding json_quoting_def member_text_def append_assoc append_Cons by blast+
      have "snd x \<in> Basic_BNFs.snds x" by (cases x) simp
      moreover have "x \<in> set ms" "y \<in> set ks" using that(1,2) by simp_all
      ultimately have "canonical_value (snd x) = canonical_value (snd y) \<and> s = s'"
        using JObject.IH [of x "snd x" "snd y" s s'] JObject.prems(1,2) that(3,4) rest
        by (simp add: w list_all_iff)
      with key show ?thesis by blast
    qed
    show "\<exists>c t. member_text quote x = c # t \<and> c \<noteq> CHR ''}''" for x by (rule member_text_start [OF q])
  qed (use JObject.prems(5) w in \<open>simp_all only: canonical_object append_Cons list.inject append_assoc append_Nil simp_thms\<close>)
  with list_all2_members w show ?case by auto
qed

lemma canonical_json_of_value: "canonical_json quote (canonical_value v) = canonical_json quote v"
proof (induction v)
  case (JArray vs)
  then have "map (canonical_json quote) (map canonical_value vs) = map (canonical_json quote) vs" by simp
  then show ?case by (simp del: map_map)
next
  case (JObject ms)
  have members: "map (\<lambda>m. (fst m, canonical_json quote (snd m)))
      (map (\<lambda>m. (fst m, canonical_value (snd m))) (sort_key fst ms)) =
      map (\<lambda>m. (fst m, canonical_json quote (snd m))) (sort_key fst ms)"
  proof -
    have "canonical_json quote (canonical_value (snd m)) = canonical_json quote (snd m)"
      if "m \<in> set ms" for m
      using JObject.IH [OF that, of "snd m"] by (cases m) simp
    then show ?thesis by (simp add: comp_def)
  qed
  have "sort_key fst (map (\<lambda>m. (fst m, canonical_json quote (snd m))) (sort_key fst ms)) =
      sort_key fst (map (\<lambda>m. (fst m, canonical_json quote (snd m))) ms)"
    by (simp add: sort_key_map_members sort_key_id_if_sorted)
  then show ?case by (simp only: canonical_value.simps canonical_json.simps members)
qed simp_all

subsection \<open>Content addressing\<close>

definition json_preimage :: "(string \<Rightarrow> string) \<Rightarrow> json \<Rightarrow> string" where
  "json_preimage quote v = hashed_parts [json_domain_v1, canonical_json quote v]"

lemma json_preimage_inject:
  assumes "json_quoting quote" "json_numbers_ok v" "json_numbers_ok w"
    and "fits_u64 (canonical_json quote v)" "fits_u64 (canonical_json quote w)"
  shows "json_preimage quote v = json_preimage quote w \<longleftrightarrow> canonical_value v = canonical_value w"
proof
  assume "json_preimage quote v = json_preimage quote w"
  with assms(4,5) have "canonical_json quote v @ [] = canonical_json quote w @ []"
    using hashed_parts_inject [of "[json_domain_v1, canonical_json quote v]" "[json_domain_v1, canonical_json quote w]"]
    by (simp add: json_preimage_def fits_u64_def json_domain_v1_def)
  from canonical_json_inject [OF assms(1-3) _ _ this]
  show "canonical_value v = canonical_value w" by (simp add: delimited_def)
next
  assume "canonical_value v = canonical_value w"
  then show "json_preimage quote v = json_preimage quote w"
    by (metis json_preimage_def canonical_json_of_value)
qed

text \<open>The byte sequences that are hashed for a frame: its content, its node and its root.\<close>

definition frame_preimages :: "digest \<Rightarrow> (string \<Rightarrow> string) \<Rightarrow> repair_chain_frame_input \<Rightarrow> string set" where
  "frame_preimages digest quote i =
     {json_preimage quote (rf_content i), hashed_parts (node_parts (frame_node digest quote i)),
      hashed_parts (root_parts (frame_root_input digest quote i))}"

text \<open>The 64-bit fields of the source can hold every length and every ordinal of the frame.\<close>

definition frame_fits :: "digest \<Rightarrow> (string \<Rightarrow> string) \<Rightarrow> repair_chain_frame_input \<Rightarrow> bool" where
  "frame_fits digest quote i \<longleftrightarrow>
     json_numbers_ok (rf_content i) \<and> fits_u64 (canonical_json quote (rf_content i))
     \<and> list_all fits_u64 (node_parts (frame_node digest quote i))
     \<and> list_all fits_u64 (root_parts (frame_root_input digest quote i))
     \<and> (\<forall>p \<in> set (rf_parents i). rp_ordinal p < 2 ^ 64)"

definition parent_key :: "repair_chain_parent_ref \<Rightarrow> string \<times> nat \<times> string \<times> artifact_hash" where
  "parent_key p = (rp_role p, rp_ordinal p, ar_root_kind (rp_root p), ar_root_hash (rp_root p))"

definition same_frame :: "repair_chain_frame_input \<Rightarrow> repair_chain_frame_input \<Rightarrow> bool" where
  "same_frame i j \<longleftrightarrow>
     rf_frame_kind i = rf_frame_kind j \<and> rf_repo_id i = rf_repo_id j
     \<and> rf_workspace_id i = rf_workspace_id j \<and> rf_scope_id i = rf_scope_id j
     \<and> rf_generation i = rf_generation j \<and> rf_producer_hash i = rf_producer_hash j
     \<and> rf_schema_hash i = rf_schema_hash j
     \<and> canonical_value (rf_content i) = canonical_value (rf_content j)
     \<and> mset (map parent_key (rf_parents i)) = mset (map parent_key (rf_parents j))"

lemma frame_kind_str_inject: "frame_kind_str k = frame_kind_str l \<longleftrightarrow> k = l"
  by (cases k; cases l) (simp_all add: frame_kind_str_def)

lemma artifact_hash_of_inject [simp]: "artifact_hash_of x = artifact_hash_of y \<longleftrightarrow> x = y"
  by (simp add: artifact_hash_of_def)

lemma parent_child_key: "parent_child p = parent_child q \<longleftrightarrow> parent_key p = parent_key q"
  by (auto simp: parent_child_def parent_key_def parent_child_name_def)

text \<open>The key of a child that a parent gives.\<close>

definition child_key :: "artifact_child_ref \<Rightarrow> string \<times> nat \<times> string \<times> artifact_hash" where
  "child_key c = parent_key (SOME p. parent_child p = c)"

lemma child_key_parent: "child_key (parent_child p) = parent_key p"
proof -
  have "parent_child (SOME q. parent_child q = parent_child p) = parent_child p"
    by (rule someI [of "\<lambda>q. parent_child q = parent_child p" p]) (rule refl)
  then show ?thesis by (simp add: child_key_def parent_child_key)
qed

lemma same_children_keys:
  assumes "mset (map parent_child ps) = mset (map parent_child qs)"
  shows "mset (map parent_key ps) = mset (map parent_key qs)"
proof -
  have "image_mset child_key (mset (map parent_child xs)) = mset (map parent_key xs)" for xs
    by (simp add: child_key_parent comp_def flip: mset_map)
  with assms show ?thesis by metis
qed

lemma preimages_inject:
  assumes "inj_on digest (frame_preimages digest quote i \<union> frame_preimages digest quote j)"
    and "x \<in> frame_preimages digest quote i" "y \<in> frame_preimages digest quote j"
    and "artifact_hash_of (digest x) = artifact_hash_of (digest y)"
  shows "x = y"
  using assms by (simp add: inj_on_def)

lemma frame_node_identified:
  assumes quote: "json_quoting quote"
    and fits: "frame_fits digest quote i" "frame_fits digest quote j"
    and inj: "inj_on digest (frame_preimages digest quote i \<union> frame_preimages digest quote j)"
    and eq: "hash_node digest (frame_node digest quote i) = hash_node digest (frame_node digest quote j)"
  shows "rf_frame_kind i = rf_frame_kind j \<and> rf_producer_hash i = rf_producer_hash j
    \<and> rf_schema_hash i = rf_schema_hash j
    \<and> canonical_value (rf_content i) = canonical_value (rf_content j)
    \<and> mset (map parent_key (rf_parents i)) = mset (map parent_key (rf_parents j))"
proof -
  have "hashed_parts (node_parts (frame_node digest quote i)) = hashed_parts (node_parts (frame_node digest quote j))"
    by (rule preimages_inject [OF inj]) (use eq in \<open>simp_all add: frame_preimages_def hash_node_def\<close>)
  from hashed_parts_inject [OF this] fits
  have "node_parts (frame_node digest quote i) = node_parts (frame_node digest quote j)"
    by (simp add: frame_fits_def)
  from node_parts_inject [OF this] fits
  have same: "same_node (frame_node digest quote i) (frame_node digest quote j)"
    by (simp add: frame_fits_def node_ordinals_fit_def frame_node_def parent_child_def)
  then have "hash_normalized_json digest quote (rf_content i) = hash_normalized_json digest quote (rf_content j)"
    by (simp add: same_node_def frame_node_def)
  then have "json_preimage quote (rf_content i) = json_preimage quote (rf_content j)"
    by (intro preimages_inject [OF inj]) (simp_all add: frame_preimages_def hash_normalized_json_def json_preimage_def)
  with json_preimage_inject [OF quote] fits
  have "canonical_value (rf_content i) = canonical_value (rf_content j)" by (simp add: frame_fits_def)
  moreover from same have "mset (map parent_child (rf_parents i)) = mset (map parent_child (rf_parents j))"
    by (simp add: same_node_def frame_node_def)
  then have "mset (map parent_key (rf_parents i)) = mset (map parent_key (rf_parents j))"
    by (rule same_children_keys)
  ultimately show ?thesis using same by (simp add: same_node_def frame_node_def frame_kind_str_inject)
qed


definition demo_quote :: "string \<Rightarrow> string" where
  "demo_quote s = CHR 0x22 # enc_string s"

lemma demo_quoting: "json_quoting demo_quote"
proof -
  have "s = t \<and> r = r'" if "enc_string s @ r = enc_string t @ r'" for s t r r'
    using arg_cong [OF that, of dec_string] by simp
  moreover have "\<exists>t. demo_quote s = CHR 0x22 # t" for s by (simp add: demo_quote_def)
  ultimately show ?thesis unfolding json_quoting_def demo_quote_def append_Cons list.inject by blast
qed

definition demo_root :: "string \<Rightarrow> artifact_root_ref" where
  "demo_root h =
     \<lparr>ar_repo_id = ''r'', ar_workspace_id = ''w'', ar_scope_id = ''s'', ar_generation = ''1'',
      ar_root_kind = ''howFromFrame'', ar_root_hash = artifact_hash_of h, ar_node_hash = artifact_hash_of h,
      ar_producer_hash = None, ar_schema_hash = None, ar_content_hash = None\<rparr>"

definition demo_frame :: "repair_chain_parent_ref list \<Rightarrow> (string \<times> json) list \<Rightarrow> repair_chain_frame_input" where
  "demo_frame parents ms =
     \<lparr>rf_frame_kind = HowFixFrame, rf_repo_id = ''r'', rf_workspace_id = ''w'', rf_scope_id = ''s'',
      rf_generation = ''2'', rf_producer_hash = Some (artifact_hash_of ''p''), rf_schema_hash = None,
      rf_content = JObject ms, rf_parents = parents\<rparr>"

definition demo_parent :: "nat \<Rightarrow> string \<Rightarrow> repair_chain_parent_ref" where
  "demo_parent n h = \<lparr>rp_role = ''fixes'', rp_ordinal = n, rp_root = demo_root h\<rparr>"

lemma demo_frame_sel [simp]:
  "rf_frame_kind (demo_frame ps ms) = HowFixFrame" "rf_repo_id (demo_frame ps ms) = ''r''"
  "rf_workspace_id (demo_frame ps ms) = ''w''" "rf_scope_id (demo_frame ps ms) = ''s''"
  "rf_generation (demo_frame ps ms) = ''2''" "rf_producer_hash (demo_frame ps ms) = Some (artifact_hash_of ''p'')"
  "rf_schema_hash (demo_frame ps ms) = None" "rf_content (demo_frame ps ms) = JObject ms"
  "rf_parents (demo_frame ps ms) = ps"
  by (simp_all add: demo_frame_def)

text \<open>Two frames that differ in the order of members and parents only have the same root.\<close>

lemma demo_same_root:
  assumes "mset ps = mset qs" "canonical_json quote (JObject ms) = canonical_json quote (JObject ns)"
  shows "frame_node digest quote (demo_frame ps ms) = frame_node digest quote (demo_frame qs ns)
      \<lparr>an_children := map parent_child ps\<rparr>"
    and "hash_node digest (frame_node digest quote (demo_frame ps ms)) =
      hash_node digest (frame_node digest quote (demo_frame qs ns))"
    and "ar_root_hash (fr_root (build_repair_chain_frame digest quote (demo_frame ps ms))) =
      ar_root_hash (fr_root (build_repair_chain_frame digest quote (demo_frame qs ns)))"
proof -
  show node: "frame_node digest quote (demo_frame ps ms) = frame_node digest quote (demo_frame qs ns)
      \<lparr>an_children := map parent_child ps\<rparr>"
    using assms(2) by (simp add: frame_node_def hash_normalized_json_def del: canonical_json.simps)
  have "same_node (frame_node digest quote (demo_frame ps ms)) (frame_node digest quote (demo_frame qs ns))"
    unfolding node using assms(1) by (simp add: same_node_def frame_node_def)
  from same_node_parts [OF this]
  show hash: "hash_node digest (frame_node digest quote (demo_frame ps ms)) =
      hash_node digest (frame_node digest quote (demo_frame qs ns))"
    by (simp add: hash_node_def)
  show "ar_root_hash (fr_root (build_repair_chain_frame digest quote (demo_frame ps ms))) =
      ar_root_hash (fr_root (build_repair_chain_frame digest quote (demo_frame qs ns)))"
    by (simp add: build_repair_chain_frame_def artifact_root_ref_from_input_def hash_root_def root_parts_def
        frame_root_input_def hash Let_def)
qed

lemma demo_fits:
  assumes "json_numbers_ok (JObject ms)" "length (canonical_json quote (JObject ms)) < 1000"
    and "length (digest (hashed_parts [json_domain_v1, canonical_json quote (JObject ms)])) < 1000"
    and "length (digest (hashed_parts (node_parts (frame_node digest quote (demo_frame ps ms))))) < 10000"
    and "list_all (\<lambda>p. list_all (\<lambda>s. length s < 1000) (child_parts (parent_child p)) \<and> rp_ordinal p < 1000) ps"
  shows "frame_fits digest quote (demo_frame ps ms)"
proof -
  have "list_all fits_u64 (concat (map child_parts (sort_key child_order (map parent_child ps))))"
    using assms(5) by (fastforce simp: list_all_iff fits_u64_def)
  then have "list_all fits_u64 (node_parts (frame_node digest quote (demo_frame ps ms)))"
    using assms(3) by (simp add: node_parts_def frame_node_def hash_normalized_json_def optional_hash_parts_def
        artifact_hash_of_def node_domain_v1_def frame_kind_str_def fits_u64_def del: canonical_json.simps)
  moreover have "list_all fits_u64 (root_parts (frame_root_input digest quote (demo_frame ps ms)))"
    using assms(4) by (simp add: root_parts_def frame_root_input_def hash_node_def artifact_hash_of_def
        root_domain_v1_def frame_kind_str_def fits_u64_def)
  moreover have "\<forall>p \<in> set ps. rp_ordinal p < 2 ^ 64"
    using assms(5) by (fastforce simp: list_all_iff)
  ultimately show ?thesis
    using assms(1,2) by (simp add: frame_fits_def fits_u64_def del: canonical_json.simps)
qed

lemma length_hashed_parts: "length (hashed_parts ps) = (\<Sum>p\<leftarrow>ps. 8 + length p)"
  by (induction ps) (simp_all add: hashed_parts_def hashed_part_def del: be_bytes.simps)

lemma sum_list_sorted: "(\<Sum>x\<leftarrow>sort_key k xs. g x) = (\<Sum>x\<leftarrow>xs. g x :: nat)"
  by (simp flip: sum_mset_sum_list)

lemma sum_list_concat: "(\<Sum>p\<leftarrow>concat (map f xs). g p) = (\<Sum>x\<leftarrow>xs. (\<Sum>p\<leftarrow>f x. g p :: nat))"
  by (induction xs) simp_all


subsection \<open>Edge hashes\<close>

lemma edge_part_inject:
  assumes "edge_part x @ r = edge_part y @ r'"
  shows "x = y \<and> r = r'"
proof -
  have stop: "takeWhile is_ascii_digit (edge_part z @ s) = show_nat (length z)" for z s
    using show_nat_digits [of "length z"]
    by (simp add: edge_part_def takeWhile_append2 list_all_iff) (simp add: is_ascii_digit_def)
  have "show_nat (length x) = show_nat (length y)"
    using stop [of x r] stop [of y r'] assms by simp
  then have "length x = length y" by (rule show_nat_inject)
  with assms show ?thesis by (simp add: edge_part_def)
qed

lemma edge_parts_concat_inject:
  "concat (map edge_part xs) = concat (map edge_part ys) \<Longrightarrow> xs = ys"
proof (induction xs arbitrary: ys)
  case Nil
  then show ?case by (cases ys) (auto simp: edge_part_def)
next
  case (Cons x xs)
  then obtain y ys' where "ys = y # ys'" by (cases ys) (auto simp: edge_part_def)
  with Cons edge_part_inject [of x "concat (map edge_part xs)" y "concat (map edge_part ys')"]
  show ?case by auto
qed

lemma root_edge_parts_inject:
  "root_edge_parts r @ xs = root_edge_parts s @ ys \<Longrightarrow> r = s \<and> xs = ys"
  by (auto simp: root_edge_parts_def dest!: optional_hash_parts_inject
      intro!: artifact_root_ref.equality artifact_hash.equality)

text \<open>An edge is identified by its hash, unless the digest collides on the two edges.\<close>

lemma edge_hash_identifies_edge:
  assumes "inj_on digest {concat (map edge_part (edge_parts i)), concat (map edge_part (edge_parts j))}"
    and "ae_edge_hash (build_artifact_root_edge digest i) = ae_edge_hash (build_artifact_root_edge digest j)"
  shows "i = j"
proof -
  have "edge_parts i = edge_parts j"
    by (rule edge_parts_concat_inject, rule inj_onD [OF assms(1)])
       (use assms(2) in \<open>simp_all add: build_artifact_root_edge_def hash_artifact_root_edge_def\<close>)
  then have "ei_role i = ei_role j" "show_nat (ei_ordinal i) = show_nat (ei_ordinal j)"
    and roots: "root_edge_parts (ei_parent i) @ root_edge_parts (ei_child i) @ [] =
      root_edge_parts (ei_parent j) @ root_edge_parts (ei_child j) @ []"
    by (simp_all add: edge_parts_def)
  moreover from root_edge_parts_inject [OF roots] have "ei_parent i = ei_parent j"
    and child: "root_edge_parts (ei_child i) @ [] = root_edge_parts (ei_child j) @ []" by simp_all
  moreover from root_edge_parts_inject [OF child] have "ei_child i = ei_child j" by simp
  ultimately show ?thesis by (auto intro: artifact_root_edge_input.equality show_nat_inject)
qed

end
