(* ===== verification/ReadOnlyChild.thy ===== *)
theory ReadOnlyChild
  imports Decision
begin

section \<open>Read-only child sessions\<close>

text \<open>
  Models \<open>crates/agent-semantic-hook/src/read_only_subagent.rs\<close>: a child session whose profile is
  read-only may not write, and has to end with a receipt that names parser-owned selectors only.  The
  lemmas compare the line-by-line validation of a receipt with a grammar of receipts.
\<close>

record permission_context =
  pc_is_asp_managed :: bool
  pc_managed_child_name :: string
  pc_registered_name :: string
  pc_registry_status :: string
  pc_sandbox_mode :: "string option"
  pc_session_id :: string

definition sandbox_mode_is_read_only :: "string option \<Rightarrow> bool" where
  "sandbox_mode_is_read_only sandbox_mode =
     (case sandbox_mode of
        None \<Rightarrow> False
      | Some mode \<Rightarrow> to_ascii_lowercase (str_trim mode) \<in> {''read-only'', ''readonly''})"

subsection \<open>Write intents\<close>

record tool_write_intent =
  wi_tool_name :: string
  wi_command :: "string option"
  wi_paths :: "string list"

definition tool_name_is_write_intent :: "string \<Rightarrow> bool" where
  "tool_name_is_write_intent tool_name =
     (let normalized = map (\<lambda>c. if c \<in> set ''-/:'' then CHR ''.'' else c) (to_ascii_lowercase tool_name)
      in last_piece (\<lambda>c. c = CHR ''.'') normalized
         \<in> {''edit'', ''multiedit'', ''write'', ''notebookedit'', ''apply_patch'', ''applypatch'',
            ''fswritefile'', ''fsremove'', ''fscopy'', ''fsrename''})"

definition command_contains_apply_patch_intent :: "string \<Rightarrow> bool" where
  "command_contains_apply_patch_intent command \<longleftrightarrow>
     str_contains command ''apply_patch'' \<or> str_contains command ''*** Begin Patch''"

definition action_write_intent :: "tool_action \<Rightarrow> tool_write_intent option" where
  "action_write_intent action =
     (if \<not> tool_name_is_write_intent (t_tool_name action)
          \<and> \<not> (case t_command action of None \<Rightarrow> False | Some c \<Rightarrow> command_contains_apply_patch_intent c)
      then None
      else Some \<lparr>wi_tool_name = t_tool_name action, wi_command = t_command action, wi_paths = t_paths action\<rparr>)"

definition payload_tool_input :: "json \<Rightarrow> json" where
  "payload_tool_input payload =
     (case json_get_any [''tool_input'', ''toolInput'', ''parameters'', ''input'', ''arguments''] payload of
        Some v \<Rightarrow> v | None \<Rightarrow> payload)"

definition write_payload_actions ::
  "bash_parser \<Rightarrow> json_parser \<Rightarrow> json \<Rightarrow> tool_action list shell_result" where
  "write_payload_actions parse jp payload =
     (case json_get_any_str [''tool_name'', ''toolName''] payload of
        None \<Rightarrow> Inr []
      | Some tool_name \<Rightarrow> collect_tool_actions parse jp tool_name (payload_tool_input payload))"

definition payload_write_intent ::
  "bash_parser \<Rightarrow> json_parser \<Rightarrow> json \<Rightarrow> tool_write_intent option shell_result" where
  "payload_write_intent parse jp payload =
     shell_bind (write_payload_actions parse jp payload)
       (\<lambda>actions. Inr (find_map action_write_intent actions))"

definition read_only_write_message :: "permission_context \<Rightarrow> tool_write_intent \<Rightarrow> string" where
  "read_only_write_message context intent =
     ''read-only ASP-managed session `'' @ pc_session_id context @ ''` denied write/edit tool `''
     @ wi_tool_name intent @ ''`. This ASP search child may only run ASP search/query, owner/frontier ranking, ''
     @ ''dependency, and test reachability commands. Return one selector-only graph-route ''
     @ ''`[asp-search-subagent]` receipt with schema/intent/route/state/evidence/next; do not return source bodies, ''
     @ ''snippets, or line-range selectors. Route exact reads, edits, and validation to the ''
     @ ''parent agent or a non-search worker.''"

definition write_denial_fields :: "permission_context \<Rightarrow> decision_fields" where
  "write_denial_fields context =
     [(''sessionId'', JString (pc_session_id context)),
      (''residentChildName'', JString (pc_managed_child_name context)),
      (''readOnlyAgentName'', JString (pc_registered_name context)),
      (''readOnlySessionId'', JString (pc_session_id context)),
      (''registryStatus'', JString (pc_registry_status context)),
      (''configuredSandboxMode'', JString (case pc_sandbox_mode context of None \<Rightarrow> [] | Some m \<Rightarrow> m)),
      (''requiredAction'', JString ''return-read-only-search-evidence''),
      (''operationIntent'', JString ''write-edit'')]"

definition classify_read_only_subagent_write ::
  "bash_parser \<Rightarrow> json_parser \<Rightarrow> string \<Rightarrow> string \<Rightarrow> json \<Rightarrow> permission_context
     \<Rightarrow> hook_decision option shell_result" where
  "classify_read_only_subagent_write parse jp platform event payload context =
     (if event \<noteq> ''pre-tool'' \<or> \<not> pc_is_asp_managed context
          \<or> \<not> sandbox_mode_is_read_only (pc_sandbox_mode context)
      then Inr None
      else shell_bind (payload_write_intent parse jp payload)
        (\<lambda>intent. Inr (map_option (\<lambda>i.
           new_decision platform event Deny ReadOnlySubagentWrite []
             \<lparr>j_tool_name = Some (wi_tool_name i), j_command = wi_command i, j_paths = wi_paths i\<rparr>
             [] (read_only_write_message context i) (write_denial_fields context)) intent)))"

subsection \<open>Receipts\<close>

definition is_decimal :: "string \<Rightarrow> bool" where
  "is_decimal value \<longleftrightarrow> value \<noteq> [] \<and> list_all is_ascii_digit value"

definition selector_is_line_range :: "string \<Rightarrow> bool" where
  "selector_is_line_range value =
     (case rsplit_once '':'' value of
        None \<Rightarrow> False
      | Some (_, tail) \<Rightarrow>
          (case split_once ''-'' tail of
             Some (first, final) \<Rightarrow> is_decimal first \<and> is_decimal final
           | None \<Rightarrow> is_decimal tail))"

definition parent_action_is_safe :: "string \<Rightarrow> bool" where
  "parent_action_is_safe value =
     (let normalized = str_trim value in
      (starts_with normalized ''asp '' \<or> str_contains normalized '' asp '')
      \<and> \<not> str_contains normalized ''--from-hook item-skeleton''
      \<and> (if str_contains normalized '' query '' then str_contains normalized '' --selector ''
         else str_contains normalized '' search '' \<and> str_contains normalized '' --workspace ''
              \<and> (str_contains normalized '' owner '' \<or> str_contains normalized '' pipe ''
                  \<or> str_contains normalized '' deps '' \<or> str_contains normalized '' lexical '')))"

definition contains_forbidden_receipt_text :: "string \<Rightarrow> bool" where
  "contains_forbidden_receipt_text message =
     (let normalized = str_replace ''not-found-inventory'' [] (to_ascii_lowercase message)
      in list_ex (str_contains normalized)
           [''confidence='', ''confidence:'', ''missing='', ''risk='', ''not found'', ''not-found'', ''```''])"

definition row_field_value :: "string \<Rightarrow> string \<Rightarrow> string option" where
  "row_field_value row field = find_map (strip_prefix (field @ ''='')) (split_whitespace row)"

definition validate_compact_fact_list :: "string \<Rightarrow> string + unit" where
  "validate_compact_fact_list value =
     (if value = [] \<or> CHR '' '' \<in> set value then Inl ''compact fact list must be comma-separated'' else Inr ())"

definition receipt_ref_is_valid :: "string \<Rightarrow> bool" where
  "receipt_ref_is_valid value =
     (let v = str_trim value
      in 2 \<le> length v \<and> starts_with v ''E'' \<and> list_all is_ascii_digit (drop 1 v))"

definition validate_evidence_row :: "string \<Rightarrow> string + unit" where
  "validate_evidence_row value =
     (if value = [] then Inl ''empty evidence row''
      else if \<not> str_contains value '' kind='' \<and> \<not> starts_with value ''kind='' then Inl ''evidence row missing kind''
      else if \<not> str_contains value '' role='' then Inl ''evidence row missing role''
      else if \<not> str_contains value '' owner='' then Inl ''evidence row missing owner''
      else (case row_field_value value ''selector'' of
              None \<Rightarrow> Inl ''evidence row missing parser-owned selector''
            | Some selector \<Rightarrow>
                if selector_is_line_range selector then Inl ''evidence selector is a line-range selector''
                else if \<not> str_contains selector ''://'' \<and> CHR ''#'' \<notin> set selector
                then Inl ''evidence selector is not parser-owned''
                else Inr ()))"

text \<open>The rows between semicolons that are not blank.\<close>

definition semicolon_rows :: "string \<Rightarrow> string list" where
  "semicolon_rows value =
     filter (\<lambda>row. row \<noteq> []) (map str_trim (split_by (\<lambda>c. c = CHR '';'') value))"

fun check_rows :: "('a \<Rightarrow> string + unit) \<Rightarrow> 'a list \<Rightarrow> string + unit" where
  "check_rows f [] = Inr ()"
| "check_rows f (x # xs) = (case f x of Inl e \<Rightarrow> Inl e | Inr u \<Rightarrow> check_rows f xs)"

definition validate_ranked_evidence_row :: "string \<Rightarrow> string + nat" where
  "validate_ranked_evidence_row value =
     (let rows = semicolon_rows value in
      if rows = [] then Inl ''empty ranked evidence row''
      else if 3 < length rows then Inl ''ranked evidence has too many rows''
      else (case check_rows validate_evidence_row rows of Inl e \<Rightarrow> Inl e | Inr u \<Rightarrow> Inr (length rows)))"

definition validate_graph_edge :: "string \<Rightarrow> string + unit" where
  "validate_graph_edge edge =
     (case split_once ''->'' edge of
        None \<Rightarrow> Inl ''graph edge missing target''
      | Some (from_and_relation, target) \<Rightarrow>
          (case split_once ''-'' from_and_relation of
             None \<Rightarrow> Inl ''graph edge missing relation''
           | Some (origin, relation) \<Rightarrow>
               if \<not> receipt_ref_is_valid origin \<or> \<not> receipt_ref_is_valid target \<or> str_trim relation = []
               then Inl ''graph edge has invalid endpoint or relation'' else Inr ()))"

definition validate_graph_edges :: "string \<Rightarrow> string + unit" where
  "validate_graph_edges value =
     (let edges = semicolon_rows value in
      if edges = [] then Inl ''empty graph edge row''
      else if 3 < length edges then Inl ''graph receipt has too many edges''
      else check_rows validate_graph_edge edges)"

text \<open>The locals of \<open>validate_asp_search_subagent_receipt\<close>.\<close>

record receipt_state =
  rs_saw_header :: bool
  rs_schema :: "string option"
  rs_intent :: "string option"
  rs_route :: "string option"
  rs_state :: "string option"
  rs_evidence_count :: nat
  rs_next_count :: nat
  rs_alt_count :: nat
  rs_valid_block :: bool

definition empty_receipt_state :: receipt_state where
  "empty_receipt_state =
     \<lparr>rs_saw_header = False, rs_schema = None, rs_intent = None, rs_route = None, rs_state = None,
      rs_evidence_count = 0, rs_next_count = 0, rs_alt_count = 0, rs_valid_block = False\<rparr>"

definition graph_receipt_block_valid :: "receipt_state \<Rightarrow> bool" where
  "graph_receipt_block_valid s \<longleftrightarrow>
     rs_schema s = Some ''asp-search-subagent.graph.v1''
     \<and> (case rs_intent s of None \<Rightarrow> False | Some v \<Rightarrow> v \<noteq> [])
     \<and> (case rs_route s of None \<Rightarrow> False | Some v \<Rightarrow> v \<noteq> [])
     \<and> (case rs_state s of None \<Rightarrow> False | Some v \<Rightarrow> v \<noteq> [])
     \<and> 0 < rs_evidence_count s \<and> rs_next_count s = 1"

definition graph_route_states :: "string list" where
  "graph_route_states =
     [''selector-ready'', ''needs-refine'', ''no-output'', ''inventory-only'', ''stale-index'',
      ''invalid-selector'', ''empty-payload'', ''quarantined'']"

definition receipt_header :: string where "receipt_header = ''[asp-search-subagent]''"

definition receipt_field :: "string \<Rightarrow> string \<Rightarrow> receipt_state \<Rightarrow> string + receipt_state" where
  "receipt_field key value s =
     (if key = ''schema'' then
        if value \<noteq> ''asp-search-subagent.graph.v1'' then Inl ''unsupported receipt schema''
        else Inr (s\<lparr>rs_schema := Some value\<rparr>)
      else if key = ''intent'' then
        if value = [] then Inl ''empty intent field'' else Inr (s\<lparr>rs_intent := Some value\<rparr>)
      else if key = ''route'' then
        if value = [] then Inl ''empty route field'' else Inr (s\<lparr>rs_route := Some value\<rparr>)
      else if key = ''state'' then
        if value \<notin> set graph_route_states then Inl ''unsupported graph-route state''
        else Inr (s\<lparr>rs_state := Some value\<rparr>)
      else if key = ''evidence'' then
        (case validate_evidence_row value of
           Inl e \<Rightarrow> Inl e | Inr u \<Rightarrow> Inr (s\<lparr>rs_evidence_count := rs_evidence_count s + 1\<rparr>))
      else if key = ''rankedEvidence'' then
        (case validate_ranked_evidence_row value of
           Inl e \<Rightarrow> Inl e | Inr n \<Rightarrow> Inr (s\<lparr>rs_evidence_count := rs_evidence_count s + n\<rparr>))
      else if key = ''edges'' then
        (case validate_graph_edges value of Inl e \<Rightarrow> Inl e | Inr u \<Rightarrow> Inr s)
      else if key = ''next'' then
        if \<not> parent_action_is_safe value then Inl ''next command is not a safe parent ASP action''
        else Inr (s\<lparr>rs_next_count := rs_next_count s + 1\<rparr>)
      else if key = ''alt'' then
        if 2 \<le> rs_alt_count s then Inl ''receipt has too many alternate actions''
        else if \<not> parent_action_is_safe value then Inl ''alternate command is not a safe parent ASP action''
        else Inr (s\<lparr>rs_alt_count := rs_alt_count s + 1\<rparr>)
      else if key = ''avoid'' \<or> key = ''omit'' then
        (case validate_compact_fact_list value of Inl e \<Rightarrow> Inl e | Inr u \<Rightarrow> Inr s)
      else Inl ''unsupported receipt field'')"

definition receipt_line :: "string \<Rightarrow> receipt_state \<Rightarrow> string + receipt_state" where
  "receipt_line line s =
     (if line = receipt_header then
        Inr (empty_receipt_state\<lparr>rs_saw_header := True,
              rs_valid_block := rs_valid_block s \<or> graph_receipt_block_valid s\<rparr>)
      else (case split_once ''='' line of
              None \<Rightarrow> Inl ''non-receipt line in final message''
            | Some (key, value) \<Rightarrow> receipt_field (str_trim key) (str_trim value) s))"

fun receipt_loop :: "string list \<Rightarrow> receipt_state \<Rightarrow> string + receipt_state" where
  "receipt_loop [] s = Inr s"
| "receipt_loop (line # rest) s =
     (case receipt_line line s of Inl e \<Rightarrow> Inl e | Inr s' \<Rightarrow> receipt_loop rest s')"

definition receipt_rows :: "string \<Rightarrow> string list" where
  "receipt_rows message = filter (\<lambda>line. line \<noteq> []) (map str_trim (str_lines message))"

definition validate_asp_search_subagent_receipt :: "string \<Rightarrow> string + unit" where
  "validate_asp_search_subagent_receipt message =
     (if str_trim message = [] then Inl ''empty final message''
      else if contains_forbidden_receipt_text message
      then Inl ''receipt contains forbidden prose or confidence/missing/risk text''
      else (case receipt_loop (receipt_rows message) empty_receipt_state of
              Inl e \<Rightarrow> Inl e
            | Inr s \<Rightarrow>
                if \<not> rs_saw_header s then Inl ''missing [asp-search-subagent] receipt header''
                else if \<not> (rs_valid_block s \<or> graph_receipt_block_valid s)
                then Inl ''receipt missing graph schema/intent/route/state/evidence/next fields''
                else Inr ()))"

definition payload_message :: "json \<Rightarrow> string option" where
  "payload_message payload =
     json_get_any_str [''last_assistant_message'', ''lastAssistantMessage'', ''final_message'',
       ''finalMessage'', ''message'', ''content''] payload"

definition receipt_fields :: "permission_context \<Rightarrow> string \<Rightarrow> string option \<Rightarrow> decision_fields" where
  "receipt_fields context status reason =
     [(''sessionId'', JString (pc_session_id context)),
      (''residentChildName'', JString (pc_managed_child_name context)),
      (''readOnlyAgentName'', JString (pc_registered_name context)),
      (''registryStatus'', JString (pc_registry_status context)),
      (''configuredSandboxMode'', JString (case pc_sandbox_mode context of None \<Rightarrow> [] | Some m \<Rightarrow> m)),
      (''subagentReceiptStatus'', JString status),
      (''requiredAction'', JString ''return-selector-only-graph-route-receipt''),
      (''nextAction'', JString ''ask-existing-child-to-reemit-graph-route-receipt'')]
     @ (case reason of None \<Rightarrow> [] | Some r \<Rightarrow> [(''receiptError'', JString r)])"

definition malformed_receipt_message :: "permission_context \<Rightarrow> string \<Rightarrow> string" where
  "malformed_receipt_message context reason =
     ''ASP search child `'' @ pc_session_id context
     @ ''` stopped without a valid selector-only graph-route `[asp-search-subagent]` receipt: '' @ reason
     @ ''. Re-emit one compact graph-route receipt from the same child session with schema/intent/route/state/evidence/next lines. ''
     @ ''Do not return source bodies, snippets, line-range selectors, confidence labels, ''
     @ ''long explanations, or not-found inventories.''"

definition classify_read_only_subagent_receipt ::
  "string \<Rightarrow> string \<Rightarrow> json \<Rightarrow> permission_context \<Rightarrow> hook_decision option" where
  "classify_read_only_subagent_receipt platform event payload context =
     (if event \<noteq> ''subagent-stop'' \<or> \<not> pc_is_asp_managed context
          \<or> \<not> sandbox_mode_is_read_only (pc_sandbox_mode context)
      then None
      else (case validate_asp_search_subagent_receipt (case payload_message payload of None \<Rightarrow> [] | Some m \<Rightarrow> m) of
              Inr u \<Rightarrow> Some (new_decision platform event Allow ReasonNone [] default_subject []
                       ''ASP search subagent receipt accepted.'' (receipt_fields context ''accepted'' None))
            | Inl reason \<Rightarrow> Some (new_decision platform event Block SubagentReceiptRequired [] default_subject []
                       (malformed_receipt_message context reason) (receipt_fields context ''malformed'' (Some reason)))))"

subsection \<open>The grammar of receipts\<close>

definition row_key :: "string \<Rightarrow> string" where
  "row_key row = (case split_once ''='' row of None \<Rightarrow> [] | Some (key, value) \<Rightarrow> str_trim key)"

definition row_value :: "string \<Rightarrow> string" where
  "row_value row = (case split_once ''='' row of None \<Rightarrow> [] | Some (key, value) \<Rightarrow> str_trim value)"

text \<open>What a field may hold, whatever stands around it.\<close>

definition field_ok :: "string \<Rightarrow> string \<Rightarrow> bool" where
  "field_ok key value \<longleftrightarrow>
     (key = ''schema'' \<and> value = ''asp-search-subagent.graph.v1'')
     \<or> (key \<in> {''intent'', ''route''} \<and> value \<noteq> [])
     \<or> (key = ''state'' \<and> value \<in> set graph_route_states)
     \<or> (key = ''evidence'' \<and> validate_evidence_row value = Inr ())
     \<or> (key = ''rankedEvidence'' \<and> semicolon_rows value \<noteq> [] \<and> length (semicolon_rows value) \<le> 3
        \<and> (\<forall>row \<in> set (semicolon_rows value). validate_evidence_row row = Inr ()))
     \<or> (key = ''edges'' \<and> validate_graph_edges value = Inr ())
     \<or> (key \<in> {''next'', ''alt''} \<and> parent_action_is_safe value)
     \<or> (key \<in> {''avoid'', ''omit''} \<and> validate_compact_fact_list value = Inr ())"

definition row_ok :: "string \<Rightarrow> bool" where
  "row_ok row \<longleftrightarrow> split_once ''='' row \<noteq> None \<and> field_ok (row_key row) (row_value row)"

definition count_key :: "string \<Rightarrow> string list \<Rightarrow> nat" where
  "count_key key rows = length (filter (\<lambda>row. row_key row = key) rows)"

text \<open>The rows between two headers.\<close>

fun blocks_from :: "string list \<Rightarrow> string list \<Rightarrow> string list list" where
  "blocks_from c [] = [c]"
| "blocks_from c (row # rows) =
     (if row = receipt_header then c # blocks_from [] rows else blocks_from (c @ [row]) rows)"

definition block_complete :: "string list \<Rightarrow> bool" where
  "block_complete rows \<longleftrightarrow>
     0 < count_key ''schema'' rows \<and> 0 < count_key ''intent'' rows \<and> 0 < count_key ''route'' rows
     \<and> 0 < count_key ''state'' rows
     \<and> 0 < count_key ''evidence'' rows + count_key ''rankedEvidence'' rows
     \<and> count_key ''next'' rows = 1"

definition rows_ok :: "string list \<Rightarrow> bool" where
  "rows_ok rows \<longleftrightarrow> (\<forall>row \<in> set rows. row = receipt_header \<or> row_ok row)"

definition blocks_ok :: "string list list \<Rightarrow> bool" where
  "blocks_ok blocks \<longleftrightarrow> (\<forall>b \<in> set blocks. count_key ''alt'' b \<le> 2)"

definition receipt_grammar :: "string \<Rightarrow> bool" where
  "receipt_grammar message \<longleftrightarrow>
     (let rows = receipt_rows message; blocks = blocks_from [] rows in
      str_trim message \<noteq> [] \<and> \<not> contains_forbidden_receipt_text message
      \<and> rows_ok rows \<and> receipt_header \<in> set rows \<and> blocks_ok blocks \<and> (\<exists>b \<in> set blocks. block_complete b))"

lemma check_rows_iff: "check_rows f xs = Inr () \<longleftrightarrow> (\<forall>x \<in> set xs. f x = Inr ())"
  by (induction xs) (auto split: sum.splits)

lemma unit_sum: "(\<exists>u. r = Inr u) \<longleftrightarrow> r = Inr ()"
  by (cases r) auto

lemma count_key_append [simp]:
  "count_key key [] = 0" "count_key key (xs @ ys) = count_key key xs + count_key key ys"
  "count_key key [row] = (if row_key row = key then 1 else 0)"
  by (simp_all add: count_key_def)

text \<open>A state that has read the rows of a block.\<close>

definition has_value :: "string option \<Rightarrow> bool" where
  "has_value v \<longleftrightarrow> (\<exists>s. v = Some s \<and> s \<noteq> [])"

lemma has_value_case: "(case v of None \<Rightarrow> False | Some s \<Rightarrow> s \<noteq> []) \<longleftrightarrow> has_value v"
  by (cases v) (simp_all add: has_value_def)

lemma has_value_simps [simp]: "\<not> has_value None" "has_value (Some s) \<longleftrightarrow> s \<noteq> []"
  by (simp_all add: has_value_def)

definition block_state :: "string list \<Rightarrow> receipt_state \<Rightarrow> bool" where
  "block_state c s \<longleftrightarrow>
     (rs_schema s = Some ''asp-search-subagent.graph.v1'' \<longleftrightarrow> 0 < count_key ''schema'' c)
     \<and> (has_value (rs_intent s) \<longleftrightarrow> 0 < count_key ''intent'' c)
     \<and> (has_value (rs_route s) \<longleftrightarrow> 0 < count_key ''route'' c)
     \<and> (has_value (rs_state s) \<longleftrightarrow> 0 < count_key ''state'' c)
     \<and> (0 < rs_evidence_count s \<longleftrightarrow> 0 < count_key ''evidence'' c + count_key ''rankedEvidence'' c)
     \<and> rs_next_count s = count_key ''next'' c \<and> rs_alt_count s = count_key ''alt'' c"

lemma block_state_empty [simp]: "block_state [] empty_receipt_state"
  by (simp add: block_state_def empty_receipt_state_def)

lemma block_state_flags [simp]:
  "block_state c (s\<lparr>rs_saw_header := x\<rparr>) = block_state c s"
  "block_state c (s\<lparr>rs_valid_block := y\<rparr>) = block_state c s"
  by (simp_all add: block_state_def)

lemma block_complete_state: "block_state c s \<Longrightarrow> graph_receipt_block_valid s \<longleftrightarrow> block_complete c"
  unfolding graph_receipt_block_valid_def has_value_case block_state_def block_complete_def by simp

lemma graph_route_states_nonempty: "v \<in> set graph_route_states \<Longrightarrow> v \<noteq> []"
  by (auto simp: graph_route_states_def)

lemma validate_ranked_iff:
  "validate_ranked_evidence_row value = Inr n \<longleftrightarrow>
     semicolon_rows value \<noteq> [] \<and> length (semicolon_rows value) \<le> 3
     \<and> (\<forall>row \<in> set (semicolon_rows value). validate_evidence_row row = Inr ())
     \<and> n = length (semicolon_rows value)"
proof -
  have "(case check_rows validate_evidence_row rows of Inl e \<Rightarrow> Inl e | Inr u \<Rightarrow> Inr (length rows)) = Inr n \<longleftrightarrow>
      (\<forall>row \<in> set rows. validate_evidence_row row = Inr ()) \<and> n = length rows" for rows
    unfolding check_rows_iff [symmetric] by (auto split: sum.splits)
  then show ?thesis by (simp add: validate_ranked_evidence_row_def Let_def)
qed

lemma receipt_field_keys:
  "receipt_field ''schema'' v s =
     (if v \<noteq> ''asp-search-subagent.graph.v1'' then Inl ''unsupported receipt schema'' else Inr (s\<lparr>rs_schema := Some v\<rparr>))"
  "receipt_field ''intent'' v s = (if v = [] then Inl ''empty intent field'' else Inr (s\<lparr>rs_intent := Some v\<rparr>))"
  "receipt_field ''route'' v s = (if v = [] then Inl ''empty route field'' else Inr (s\<lparr>rs_route := Some v\<rparr>))"
  "receipt_field ''state'' v s =
     (if v \<notin> set graph_route_states then Inl ''unsupported graph-route state'' else Inr (s\<lparr>rs_state := Some v\<rparr>))"
  "receipt_field ''evidence'' v s =
     (case validate_evidence_row v of
        Inl e \<Rightarrow> Inl e | Inr u \<Rightarrow> Inr (s\<lparr>rs_evidence_count := rs_evidence_count s + 1\<rparr>))"
  "receipt_field ''rankedEvidence'' v s =
     (case validate_ranked_evidence_row v of
        Inl e \<Rightarrow> Inl e | Inr n \<Rightarrow> Inr (s\<lparr>rs_evidence_count := rs_evidence_count s + n\<rparr>))"
  "receipt_field ''edges'' v s = (case validate_graph_edges v of Inl e \<Rightarrow> Inl e | Inr u \<Rightarrow> Inr s)"
  "receipt_field ''next'' v s =
     (if \<not> parent_action_is_safe v then Inl ''next command is not a safe parent ASP action''
      else Inr (s\<lparr>rs_next_count := rs_next_count s + 1\<rparr>))"
  "receipt_field ''alt'' v s =
     (if 2 \<le> rs_alt_count s then Inl ''receipt has too many alternate actions''
      else if \<not> parent_action_is_safe v then Inl ''alternate command is not a safe parent ASP action''
      else Inr (s\<lparr>rs_alt_count := rs_alt_count s + 1\<rparr>))"
  "receipt_field ''avoid'' v s = (case validate_compact_fact_list v of Inl e \<Rightarrow> Inl e | Inr u \<Rightarrow> Inr s)"
  "receipt_field ''omit'' v s = (case validate_compact_fact_list v of Inl e \<Rightarrow> Inl e | Inr u \<Rightarrow> Inr s)"
  by (simp_all add: receipt_field_def)

lemma field_ok_keys:
  "field_ok ''schema'' v \<longleftrightarrow> v = ''asp-search-subagent.graph.v1''"
  "field_ok ''intent'' v \<longleftrightarrow> v \<noteq> []" "field_ok ''route'' v \<longleftrightarrow> v \<noteq> []"
  "field_ok ''state'' v \<longleftrightarrow> v \<in> set graph_route_states"
  "field_ok ''evidence'' v \<longleftrightarrow> validate_evidence_row v = Inr ()"
  "field_ok ''rankedEvidence'' v \<longleftrightarrow> (\<exists>n>0. validate_ranked_evidence_row v = Inr n)"
  "field_ok ''edges'' v \<longleftrightarrow> validate_graph_edges v = Inr ()"
  "field_ok ''next'' v \<longleftrightarrow> parent_action_is_safe v" "field_ok ''alt'' v \<longleftrightarrow> parent_action_is_safe v"
  "field_ok ''avoid'' v \<longleftrightarrow> validate_compact_fact_list v = Inr ()"
  "field_ok ''omit'' v \<longleftrightarrow> validate_compact_fact_list v = Inr ()"
  by (simp_all add: field_ok_def validate_ranked_iff)

lemma validate_ranked_positive: "validate_ranked_evidence_row v = Inr n \<Longrightarrow> 0 < n"
  by (simp add: validate_ranked_iff)

definition receipt_keys :: "string list" where
  "receipt_keys = [''schema'', ''intent'', ''route'', ''state'', ''evidence'', ''rankedEvidence'', ''edges'',
     ''next'', ''alt'', ''avoid'', ''omit'']"

lemma receipt_field_unknown: "key \<notin> set receipt_keys \<Longrightarrow> receipt_field key v s = Inl ''unsupported receipt field''"
  by (simp add: receipt_field_def receipt_keys_def)

lemma field_ok_unknown: "key \<notin> set receipt_keys \<Longrightarrow> \<not> field_ok key v"
  by (simp add: field_ok_def receipt_keys_def)

lemma receipt_key_cases:
  assumes "key \<in> set receipt_keys"
  obtains "key = ''schema''" | "key = ''intent''" | "key = ''route''" | "key = ''state''" | "key = ''evidence''"
    | "key = ''rankedEvidence''" | "key = ''edges''" | "key = ''next''" | "key = ''alt''"
    | "key = ''avoid''" | "key = ''omit''"
  using assms unfolding receipt_keys_def list.set insert_iff empty_iff
  by (elim disjE FalseE) (erule that)+

text \<open>One field of a block: it is read exactly when it is in order and is not the third alternative.\<close>

lemma receipt_field_reads:
  assumes "block_state c s" "row_key row = key"
  shows "case receipt_field key v s of
      Inl e \<Rightarrow> \<not> field_ok key v \<or> (key = ''alt'' \<and> 2 \<le> count_key ''alt'' c)
    | Inr s' \<Rightarrow> field_ok key v \<and> \<not> (key = ''alt'' \<and> 2 \<le> count_key ''alt'' c) \<and> block_state (c @ [row]) s'
        \<and> rs_saw_header s' = rs_saw_header s \<and> rs_valid_block s' = rs_valid_block s"
proof (cases "key \<in> set receipt_keys")
  case True
  then show ?thesis
  proof (cases rule: receipt_key_cases)
    case 4
    then show ?thesis
      using assms graph_route_states_nonempty [of v]
      by (simp add: receipt_field_keys field_ok_keys block_state_def)
  next
    case 6
    then show ?thesis
      using assms validate_ranked_positive [of v]
      by (cases "validate_ranked_evidence_row v") (simp_all add: receipt_field_keys field_ok_keys block_state_def)
  qed (use assms in \<open>simp_all add: receipt_field_keys field_ok_keys block_state_def split: sum.split\<close>)
next
  case False
  moreover have "''alt'' \<in> set receipt_keys" by (simp add: receipt_keys_def)
  ultimately show ?thesis by (auto simp: receipt_field_unknown field_ok_unknown)
qed

lemma receipt_line_reads:
  assumes "block_state c s" "row \<noteq> receipt_header"
  shows "case receipt_line row s of
      Inl e \<Rightarrow> \<not> row_ok row \<or> (row_key row = ''alt'' \<and> 2 \<le> count_key ''alt'' c)
    | Inr s' \<Rightarrow> row_ok row \<and> \<not> (row_key row = ''alt'' \<and> 2 \<le> count_key ''alt'' c) \<and> block_state (c @ [row]) s'
        \<and> rs_saw_header s' = rs_saw_header s \<and> rs_valid_block s' = rs_valid_block s"
proof (cases "split_once ''='' row")
  case None
  then show ?thesis using assms(2) by (simp add: receipt_line_def row_ok_def)
next
  case (Some kv)
  obtain k v where "kv = (k, v)" by (cases kv)
  with Some have read: "receipt_line row s = receipt_field (row_key row) (str_trim v) s"
    and ok: "row_ok row = field_ok (row_key row) (str_trim v)"
    using assms(2) by (simp_all add: receipt_line_def row_ok_def row_key_def row_value_def)
  show ?thesis unfolding read ok by (rule receipt_field_reads [OF assms(1) refl])
qed

lemma blocks_from_alt: "\<exists>b \<in> set (blocks_from c rows). count_key ''alt'' c \<le> count_key ''alt'' b"
proof (induction rows arbitrary: c)
  case (Cons row rows)
  show ?case
  proof (cases "row = receipt_header")
    case False
    obtain b where "b \<in> set (blocks_from (c @ [row]) rows)" "count_key ''alt'' (c @ [row]) \<le> count_key ''alt'' b"
      using Cons [of "c @ [row]"] by blast
    with False show ?thesis by (intro bexI [of _ b]) simp_all
  qed auto
qed simp

lemma receipt_loop_reads:
  assumes "block_state c s" "count_key ''alt'' c \<le> 2"
  shows "case receipt_loop rows s of
      Inl e \<Rightarrow> \<not> (rows_ok rows \<and> blocks_ok (blocks_from c rows))
    | Inr s' \<Rightarrow> rows_ok rows \<and> blocks_ok (blocks_from c rows)
        \<and> rs_saw_header s' = (rs_saw_header s \<or> receipt_header \<in> set rows)
        \<and> (rs_valid_block s' \<or> graph_receipt_block_valid s'
             \<longleftrightarrow> rs_valid_block s \<or> (\<exists>b \<in> set (blocks_from c rows). block_complete b))"
  using assms
proof (induction rows arbitrary: c s)
  case Nil
  then show ?case by (simp add: rows_ok_def blocks_ok_def block_complete_state)
next
  case (Cons row rows)
  show ?case
  proof (cases "row = receipt_header")
    case True
    let ?s = "empty_receipt_state\<lparr>rs_saw_header := True,
        rs_valid_block := rs_valid_block s \<or> graph_receipt_block_valid s\<rparr>"
    have "receipt_line row s = Inr ?s" using True by (simp add: receipt_line_def)
    moreover note Cons.IH [of "[]" ?s]
    ultimately show ?thesis
      using True Cons.prems by (auto simp: rows_ok_def blocks_ok_def block_complete_state split: sum.splits)
  next
    case False
    note step = receipt_line_reads [OF Cons.prems(1) False]
    show ?thesis
    proof (cases "receipt_line row s")
      case (Inl e)
      with step have "\<not> row_ok row \<or> 2 < count_key ''alt'' (c @ [row])" by auto
      moreover have "\<not> blocks_ok (blocks_from (c @ [row]) rows)" if "2 < count_key ''alt'' (c @ [row])"
        using that blocks_from_alt [of "c @ [row]" rows] unfolding blocks_ok_def by fastforce
      ultimately show ?thesis using Inl False by (auto simp: rows_ok_def)
    next
      case (Inr s')
      with step Cons.prems(2) have "block_state (c @ [row]) s'" "count_key ''alt'' (c @ [row]) \<le> 2" by auto
      from Cons.IH [OF this] step Inr False show ?thesis
        by (auto simp: rows_ok_def split: sum.splits)
    qed
  qed
qed

text \<open>C21: The receipt of a read-only child is accepted exactly when it is one of the grammar: it is not blank and
  has no forbidden text, it has a header, each of its lines is a header or a field in order, no block between
  headers has more than two alternatives, and some block has a schema, an intent, a route, a state, a row of
  evidence and exactly one next action.\<close>

theorem receipt_accepted_iff_grammatical:
  "validate_asp_search_subagent_receipt message = Inr () \<longleftrightarrow> receipt_grammar message"
proof -
  have "\<not> rs_saw_header empty_receipt_state" "\<not> rs_valid_block empty_receipt_state"
    by (simp_all add: empty_receipt_state_def)
  with receipt_loop_reads [OF block_state_empty, of "receipt_rows message"] show ?thesis
    by (cases "receipt_loop (receipt_rows message) empty_receipt_state")
       (auto simp: validate_asp_search_subagent_receipt_def receipt_grammar_def Let_def)
qed

text \<open>The evidence of an accepted receipt is named by selectors, never by line ranges.\<close>

lemma accepted_evidence_is_selector:
  assumes "validate_asp_search_subagent_receipt message = Inr ()"
    and "row \<in> set (receipt_rows message)" "row \<noteq> receipt_header" "row_key row = ''evidence''"
  shows "\<exists>selector. row_field_value (row_value row) ''selector'' = Some selector
    \<and> \<not> selector_is_line_range selector \<and> (str_contains selector ''://'' \<or> CHR ''#'' \<in> set selector)"
proof -
  obtain s where "receipt_loop (receipt_rows message) empty_receipt_state = Inr s"
    using assms(1) by (auto simp: validate_asp_search_subagent_receipt_def split: if_splits sum.splits)
  with receipt_loop_reads [OF block_state_empty, of "receipt_rows message"] have "rows_ok (receipt_rows message)"
    by (simp split: sum.splits)
  with assms(2-4) have "validate_evidence_row (row_value row) = Inr ()"
    by (auto simp: rows_ok_def row_ok_def field_ok_keys)
  then show ?thesis by (auto simp: validate_evidence_row_def split: if_splits option.splits)
qed

text \<open>A managed read-only child may not write, and may stop with a receipt only.\<close>

definition read_only_managed :: "permission_context \<Rightarrow> bool" where
  "read_only_managed context \<longleftrightarrow>
     pc_is_asp_managed context \<and> sandbox_mode_is_read_only (pc_sandbox_mode context)"

lemma read_only_write_denied:
  assumes "read_only_managed context" "payload_write_intent parse jp payload = Inr (Some i)"
  shows "\<exists>d. classify_read_only_subagent_write parse jp platform ''pre-tool'' payload context = Inr (Some d)
    \<and> d_decision d = Deny \<and> d_reason_kind d = ReadOnlySubagentWrite \<and> j_paths (d_subject d) = wi_paths i"
  using assms by (simp add: classify_read_only_subagent_write_def read_only_managed_def shell_bind_def new_decision_def)

lemma read_only_write_only_denies:
  assumes "classify_read_only_subagent_write parse jp platform event payload context = Inr (Some d)"
  shows "d_decision d = Deny" "event = ''pre-tool''"
  using assms by (auto simp: classify_read_only_subagent_write_def shell_bind_def new_decision_def
      split: if_splits sum.splits)

lemma read_only_receipt_event:
  "classify_read_only_subagent_receipt platform event payload context = Some d \<Longrightarrow> event = ''subagent-stop''"
  by (auto simp: classify_read_only_subagent_receipt_def split: if_splits)

lemma read_only_stop_needs_receipt:
  assumes "read_only_managed context"
  shows "\<exists>d. classify_read_only_subagent_receipt platform ''subagent-stop'' payload context = Some d
    \<and> d_decision d = (if \<exists>m. payload_message payload = Some m \<and> validate_asp_search_subagent_receipt m = Inr ()
                       then Allow else Block)"
proof -
  have "validate_asp_search_subagent_receipt [] \<noteq> Inr ()"
    by (simp add: validate_asp_search_subagent_receipt_def str_trim_def trim_start_def trim_end_def)
  with assms show ?thesis
    by (cases "payload_message payload")
       (auto simp: classify_read_only_subagent_receipt_def read_only_managed_def new_decision_def split: sum.split)
qed

end
