(* ===== verification/Rollout.thy ===== *)
theory Rollout
  imports EventState SourceAccess
begin

section \<open>Rollout files of a host session\<close>

text \<open>
  Models \<open>crates/agent-semantic-protocol/src/codex/rollout.rs\<close> and, of \<open>crates/agent-semantic-runtime\<close>,
  \<open>agent_session_status.rs\<close>, \<open>agent_session_identity.rs\<close> and the lookup of
  \<open>codex_rollout_sessions.rs\<close>.  Codex writes one JSON-lines file per session, below a directory for the
  day that the identifier of the session encodes.  The activity of a session is read from the tail of its
  file, its place in the tree of sessions from the head.  The lemmas show that the day directories are
  calendar dates and that the activity is what the last events say.
\<close>

subsection \<open>Calendar dates\<close>

text \<open>The fields have the widths of \<open>i64\<close>; no date of a \<open>u48\<close> time stamp comes near their bounds.\<close>

definition civil_from_unix_day :: "int \<Rightarrow> int \<times> int \<times> int" where
  "civil_from_unix_day unix_day =
     (let days = unix_day + 719468;
          era = (if 0 \<le> days then days else days - 146096) div 146097;
          day_of_era = days - era * 146097;
          year_of_era = (day_of_era - day_of_era div 1460 + day_of_era div 36524 - day_of_era div 146096) div 365;
          year = year_of_era + era * 400;
          day_of_year = day_of_era - (365 * year_of_era + year_of_era div 4 - year_of_era div 100);
          month_prime = (5 * day_of_year + 2) div 153;
          day = day_of_year - (153 * month_prime + 2) div 5 + 1;
          month = month_prime + (if month_prime < 10 then 3 else - 9)
      in (if month \<le> 2 then year + 1 else year, month, day))"

text \<open>\<open>{:04}\<close> and \<open>{:02}\<close>: the sign counts towards the width.\<close>

definition padded :: "nat \<Rightarrow> int \<Rightarrow> string" where
  "padded width i =
     (let digits = show_nat (nat \<bar>i\<bar>); sign = (if i < 0 then ''-'' else [])
      in sign @ replicate (width - length sign - length digits) (CHR ''0'') @ digits)"

definition rollout_date_dir :: "string \<Rightarrow> int \<Rightarrow> string" where
  "rollout_date_dir sessions_dir unix_day =
     (case civil_from_unix_day unix_day of
        (year, month, day) \<Rightarrow>
          path_join (path_join (path_join sessions_dir (padded 4 year)) (padded 2 month)) (padded 2 day))"

subsection \<open>Time stamps of session identifiers\<close>

definition is_hexdigit :: "char \<Rightarrow> bool" where
  "is_hexdigit c \<longleftrightarrow> c \<in> set ''0123456789abcdefABCDEF''"

definition hexdigit_value :: "char \<Rightarrow> nat" where
  "hexdigit_value c =
     (if is_ascii_digit c then digit_value c else (of_char (ascii_lower c) :: nat) - 87)"

text \<open>\<open>i64::from_str_radix(_, 16)\<close> on at most twelve characters, which cannot overflow.\<close>

definition parse_hex :: "string \<Rightarrow> int option" where
  "parse_hex s =
     (let (negative, digits) =
        (if starts_with s ''+'' then (False, drop 1 s)
         else if starts_with s ''-'' then (True, drop 1 s) else (False, s))
      in if digits = [] \<or> \<not> list_all is_hexdigit digits then None
         else (let n = int (foldl (\<lambda>n c. 16 * n + hexdigit_value c) 0 digits)
               in Some (if negative then - n else n)))"

definition session_unix_day :: "string \<Rightarrow> int option" where
  "session_unix_day session_id =
     (let timestamp_hex = concat (take 12 (filter (\<lambda>ch. ch \<noteq> ''-'') (rust_chars session_id)))
      in if length timestamp_hex \<noteq> 12 then None
         else map_option (\<lambda>millis. millis div 86400000) (parse_hex timestamp_hex))"

definition session_search_roots :: "string \<Rightarrow> string \<Rightarrow> string list" where
  "session_search_roots sessions_dir session_id =
     (case session_unix_day session_id of
        None \<Rightarrow> []
      | Some day \<Rightarrow> map (\<lambda>offset. rollout_date_dir sessions_dir (day + offset)) [- 1, 0, 1])"

definition glob_literal :: "string \<Rightarrow> string" where
  "glob_literal s = concat (map (\<lambda>c. if c \<in> set ''*?[]{}'' \<or> c = CHR 0x5C then [CHR 0x5C, c] else [c]) s)"

text \<open>
  The files of the host: directories with their entries, the bytes and the creation time of files; the globset
  and uuid crates, and the files that \<open>rg --files --glob\<close> lists below a directory.  An entry that cannot be
  inspected is an error in its place.
\<close>

datatype entry_kind = RegularFile | Directory | OtherEntry

record rollout_host =
  rh_sessions_dir :: "string option"
  rh_is_dir :: "string \<Rightarrow> bool"
  rh_is_file :: "string \<Rightarrow> bool"
  rh_read_dir :: "string \<Rightarrow> string + (string + string \<times> entry_kind) list"
  rh_content :: "string \<Rightarrow> string + string"
  rh_created :: "string \<Rightarrow> string + int option"
  rh_glob :: "string \<Rightarrow> (string \<Rightarrow> bool) option"
  rh_uuid_millis :: "string \<Rightarrow> int option"
  rh_rg_files :: "string \<Rightarrow> string \<Rightarrow> string + string list"

definition fast_rollout_path_in :: "rollout_host \<Rightarrow> string \<Rightarrow> string \<Rightarrow> string option" where
  "fast_rollout_path_in h sessions_dir session_id =
     (if \<not> rh_is_dir h sessions_dir \<or> str_trim session_id = [] then None
      else
        (case rh_glob h (''*'' @ glob_literal session_id @ ''*.jsonl'') of
           None \<Rightarrow> None
         | Some matches \<Rightarrow>
             find_map (\<lambda>root.
               case rh_read_dir h root of
                 Inl e \<Rightarrow> None
               | Inr entries \<Rightarrow>
                   find_map (\<lambda>entry.
                     case entry of
                       Inl e \<Rightarrow> None
                     | Inr (name, kind) \<Rightarrow>
                         if kind = RegularFile \<and> matches name then Some (path_join root name) else None)
                     entries)
               (session_search_roots sessions_dir session_id)))"

definition fast_rollout_path :: "rollout_host \<Rightarrow> string \<Rightarrow> string option" where
  "fast_rollout_path h session_id =
     Option.bind (rh_sessions_dir h) (\<lambda>dir. fast_rollout_path_in h dir session_id)"

subsection \<open>Events\<close>

fun json_at :: "string list \<Rightarrow> json \<Rightarrow> json option" where
  "json_at [] v = Some v"
| "json_at (key # keys) v = Option.bind (json_get key v) (json_at keys)"

definition json_string_at :: "string list \<Rightarrow> json \<Rightarrow> string option" where
  "json_string_at keys v = Option.bind (json_at keys v) as_str"

definition codex_event_kind :: "json \<Rightarrow> string option" where
  "codex_event_kind v =
     (case json_string_at [''type''] v of
        None \<Rightarrow> None
      | Some kind \<Rightarrow>
          if kind = ''event_msg'' then
            or_else (json_string_at [''payload'', ''type''] v)
              (or_else (json_string_at [''payload'', ''event''] v)
                (or_else (json_string_at [''payload'', ''message''] v) (Some kind)))
          else if kind = ''response_item'' then
            or_else (json_string_at [''payload'', ''type''] v)
              (or_else (json_string_at [''payload'', ''item'', ''type''] v) (Some kind))
          else Some kind)"

definition is_terminal_event_kind :: "string \<Rightarrow> bool" where
  "is_terminal_event_kind kind \<longleftrightarrow>
     kind \<in> {''task_complete'', ''turn_complete'', ''agent_turn_complete'', ''completed''}"

text \<open>The pending calls are a \<open>BTreeSet\<close>.\<close>

record activity_state =
  as_last_event_at :: "string option"
  as_last_event_kind :: "string option"
  as_last_terminal_event :: "string option"
  as_pending_tool_calls :: "string set"
  as_observed_open_turn :: bool
  as_scanned_bytes :: nat

definition initial_activity :: activity_state where
  "initial_activity =
     \<lparr>as_last_event_at = None, as_last_event_kind = None, as_last_terminal_event = None,
      as_pending_tool_calls = {}, as_observed_open_turn = False, as_scanned_bytes = 0\<rparr>"

definition call_id_of :: "json \<Rightarrow> string set" where
  "call_id_of v = set_option (json_string_at [''payload'', ''call_id''] v)"

definition observe_kind :: "string \<Rightarrow> json \<Rightarrow> activity_state \<Rightarrow> activity_state" where
  "observe_kind kind v s =
     (if is_terminal_event_kind kind then
        s\<lparr>as_last_terminal_event := Some kind, as_pending_tool_calls := {}, as_observed_open_turn := False\<rparr>
      else if kind = ''task_started'' then s\<lparr>as_observed_open_turn := True\<rparr>
      else if kind = ''function_call'' then
        s\<lparr>as_pending_tool_calls := as_pending_tool_calls s \<union> call_id_of v, as_observed_open_turn := True\<rparr>
      else if kind = ''function_call_output'' then
        s\<lparr>as_pending_tool_calls := as_pending_tool_calls s - call_id_of v, as_observed_open_turn := True\<rparr>
      else if as_last_event_kind s \<noteq> None then s\<lparr>as_observed_open_turn := True\<rparr>
      else s)"

definition observe_event :: "json \<Rightarrow> nat \<Rightarrow> activity_state \<Rightarrow> activity_state" where
  "observe_event v scanned s0 =
     (let s = s0\<lparr>as_scanned_bytes := as_scanned_bytes s0 + scanned\<rparr> in
      case codex_event_kind v of
        None \<Rightarrow> s
      | Some kind \<Rightarrow>
          (observe_kind kind v (s\<lparr>as_last_event_at := json_string_at [''timestamp''] v\<rparr>))
            \<lparr>as_last_event_kind := Some kind\<rparr>)"

record session_activity =
  sa_status :: string
  sa_last_event_at :: "string option"
  sa_last_event_kind :: "string option"
  sa_last_terminal_event :: "string option"
  sa_turn_complete_resumable :: bool
  sa_turn_running_or_active :: bool
  sa_pending_tool_call_count :: nat
  sa_scanned_bytes :: nat

definition finish_activity :: "activity_state \<Rightarrow> session_activity" where
  "finish_activity s =
     (let resumable = (case as_last_event_kind s of None \<Rightarrow> False | Some k \<Rightarrow> is_terminal_event_kind k);
          pending = card (as_pending_tool_calls s)
      in \<lparr>sa_status =
            (if 0 < pending then ''tool-running'' else if resumable then ''idle-resumable''
             else if as_observed_open_turn s then ''agent-active'' else ''silent''),
          sa_last_event_at = as_last_event_at s, sa_last_event_kind = as_last_event_kind s,
          sa_last_terminal_event = as_last_terminal_event s, sa_turn_complete_resumable = resumable,
          sa_turn_running_or_active = (0 < pending \<or> (as_observed_open_turn s \<and> \<not> resumable)),
          sa_pending_tool_call_count = pending, sa_scanned_bytes = as_scanned_bytes s\<rparr>)"

definition activity_tail_bytes :: nat where "activity_tail_bytes = 64 * 1024"

text \<open>The lines of the tail; a cut first line is dropped up to its end.\<close>

definition activity_tail :: "string \<Rightarrow> string + string" where
  "activity_tail content =
     (let start = length content - activity_tail_bytes; tail = drop start content in
      if \<not> utf8_valid tail then Inl ''failed to read rollout''
      else Inr (if 0 < start then
                  (case position (\<lambda>c. c = CHR 0x0A) tail of None \<Rightarrow> tail | Some i \<Rightarrow> drop (i + 1) tail)
                else tail))"

definition tail_events :: "json_parser \<Rightarrow> string \<Rightarrow> (json \<times> nat) list" where
  "tail_events jp tail =
     List.map_filter (\<lambda>line. map_option (\<lambda>v. (v, length line + 1)) (jp line))
       (filter (\<lambda>line. str_trim line \<noteq> []) (str_lines tail))"

definition activity_of_events :: "(json \<times> nat) list \<Rightarrow> session_activity" where
  "activity_of_events events =
     finish_activity (foldl (\<lambda>s (v, n). observe_event v n s) initial_activity events)"

definition rollout_session_activity ::
  "json_parser \<Rightarrow> rollout_host \<Rightarrow> string \<Rightarrow> string + session_activity" where
  "rollout_session_activity jp h path =
     (case rh_content h path of
        Inl e \<Rightarrow> Inl e
      | Inr content \<Rightarrow>
          (case activity_tail content of
             Inl e \<Rightarrow> Inl e
           | Inr tail \<Rightarrow> Inr (activity_of_events (tail_events jp tail))))"

datatype session_liveness =
  Resumable session_activity | ActiveTurn session_activity | UnknownActivity session_activity
  | MissingRollout | UnavailableRollout string

definition rollout_session_liveness :: "json_parser \<Rightarrow> rollout_host \<Rightarrow> string \<Rightarrow> session_liveness" where
  "rollout_session_liveness jp h session_id =
     (case fast_rollout_path h session_id of
        None \<Rightarrow> MissingRollout
      | Some path \<Rightarrow>
          (case rollout_session_activity jp h path of
             Inl e \<Rightarrow> UnavailableRollout e
           | Inr activity \<Rightarrow>
               if sa_turn_complete_resumable activity then Resumable activity
               else if sa_turn_running_or_active activity then ActiveTurn activity
               else UnknownActivity activity))"

subsection \<open>The head of a rollout file\<close>

definition session_meta_head_bytes :: nat where "session_meta_head_bytes = 128 * 1024"

record rollout_session_meta =
  ro_rollout_path :: string
  ro_event_timestamp :: "string option"
  ro_child_session_id :: "string option"
  ro_source_session_id :: "string option"
  ro_parent_thread_id :: "string option"
  ro_thread_spawn_parent_id :: "string option"
  ro_subagent_depth :: "int option"
  ro_agent_nickname :: "string option"
  ro_agent_role :: "string option"
  ro_agent_path :: "string option"
  ro_cwd :: "string option"
  ro_originator :: "string option"
  ro_cli_version :: "string option"
  ro_relationship_kind :: string

definition thread_spawn :: "string list" where
  "thread_spawn = [''source'', ''subagent'', ''thread_spawn'']"

definition json_as_u64 :: "json \<Rightarrow> int option" where
  "json_as_u64 v = (case v of JInt i \<Rightarrow> if 0 \<le> i \<and> i < 18446744073709551616 then Some i else None | _ \<Rightarrow> None)"

definition as_i64 :: "json \<Rightarrow> int option" where
  "as_i64 v =
     (case v of
        JInt i \<Rightarrow> if - 9223372036854775808 \<le> i \<and> i < 9223372036854775808 then Some i else None
      | _ \<Rightarrow> None)"

definition session_meta_from_value :: "string \<Rightarrow> json \<Rightarrow> rollout_session_meta" where
  "session_meta_from_value path v =
     (let at = (\<lambda>keys. json_string_at (''payload'' # keys) v) in
      \<lparr>ro_rollout_path = path, ro_event_timestamp = json_string_at [''timestamp''] v,
       ro_child_session_id = at [''id''], ro_source_session_id = at [''session_id''],
       ro_parent_thread_id = at [''parent_thread_id''],
       ro_thread_spawn_parent_id = at (thread_spawn @ [''parent_thread_id'']),
       ro_subagent_depth = Option.bind (json_at (''payload'' # thread_spawn @ [''depth'']) v) json_as_u64,
       ro_agent_nickname = at (thread_spawn @ [''agent_nickname'']),
       ro_agent_role = at (thread_spawn @ [''agent_role'']),
       ro_agent_path = at (thread_spawn @ [''agent_path'']), ro_cwd = at [''cwd''],
       ro_originator = at [''originator''], ro_cli_version = at [''cli_version''],
       ro_relationship_kind =
         (if json_at (''payload'' # thread_spawn) v \<noteq> None then ''subagent'' else ''root'')\<rparr>)"

definition rollout_session_meta_at :: "json_parser \<Rightarrow> rollout_host \<Rightarrow> string \<Rightarrow> rollout_session_meta option" where
  "rollout_session_meta_at jp h path =
     (case rh_content h path of
        Inl e \<Rightarrow> None
      | Inr content \<Rightarrow>
          (let head = take session_meta_head_bytes content in
           if \<not> utf8_valid head then None
           else find_map (\<lambda>line.
                  case jp line of
                    None \<Rightarrow> None
                  | Some v \<Rightarrow>
                      if json_string_at [''type''] v = Some ''session_meta''
                      then Some (session_meta_from_value path v) else None)
                  (filter (\<lambda>line. str_trim line \<noteq> []) (str_lines head))))"

subsection \<open>Metadata of a session\<close>

record rollout_metadata =
  rm_session_id :: string
  rm_rollout_path :: string
  rm_rollout_created_at_unix :: "int option"
  rm_root_session_id :: "string option"
  rm_parent_thread_id :: "string option"
  rm_thread_source :: "string option"
  rm_agent_role :: "string option"
  rm_agent_nickname :: "string option"
  rm_agent_path :: "string option"
  rm_spawn_depth :: "int option"
  rm_model_provider :: "string option"
  rm_cli_version :: "string option"
  rm_cwd :: "string option"
  rm_model :: "string option"
  rm_collaboration_model :: "string option"
  rm_reasoning_effort :: "string option"
  rm_sandbox_policy :: "string option"
  rm_approval_policy :: "string option"
  rm_permission_profile :: "string option"

definition empty_metadata :: "string \<Rightarrow> string \<Rightarrow> int option \<Rightarrow> rollout_metadata" where
  "empty_metadata session_id path created =
     \<lparr>rm_session_id = session_id, rm_rollout_path = path, rm_rollout_created_at_unix = created,
      rm_root_session_id = None, rm_parent_thread_id = None, rm_thread_source = None, rm_agent_role = None,
      rm_agent_nickname = None, rm_agent_path = None, rm_spawn_depth = None, rm_model_provider = None,
      rm_cli_version = None, rm_cwd = None, rm_model = None, rm_collaboration_model = None,
      rm_reasoning_effort = None, rm_sandbox_policy = None, rm_approval_policy = None,
      rm_permission_profile = None\<rparr>"

definition nonblank_string_at :: "json \<Rightarrow> string list \<Rightarrow> string option" where
  "nonblank_string_at v keys =
     Option.bind (json_string_at keys v) (\<lambda>s. if str_trim s = [] then None else Some s)"

definition payload_of :: "json \<Rightarrow> json" where
  "payload_of v = (case json_get ''payload'' v of Some p \<Rightarrow> p | None \<Rightarrow> JNull)"

definition read_session_meta :: "json \<Rightarrow> rollout_metadata \<Rightarrow> rollout_metadata" where
  "read_session_meta payload m =
     (let at = nonblank_string_at payload in
      m\<lparr>rm_root_session_id := at [''session_id''],
        rm_parent_thread_id := or_else (at [''parent_thread_id'']) (at (thread_spawn @ [''parent_thread_id''])),
        rm_thread_source := at [''thread_source''],
        rm_agent_role := or_else (at [''agent_role'']) (at (thread_spawn @ [''agent_role''])),
        rm_agent_nickname := or_else (at [''agent_nickname'']) (at (thread_spawn @ [''agent_nickname''])),
        rm_agent_path := at (thread_spawn @ [''agent_path'']),
        rm_spawn_depth := Option.bind (json_at (thread_spawn @ [''depth'']) payload) as_i64,
        rm_model_provider := at [''model_provider''], rm_cli_version := at [''cli_version''],
        rm_cwd := at [''cwd'']\<rparr>)"

definition read_turn_context :: "json \<Rightarrow> rollout_metadata \<Rightarrow> rollout_metadata" where
  "read_turn_context payload m =
     (let at = nonblank_string_at payload in
      m\<lparr>rm_model := or_else (at [''model'']) (rm_model m),
        rm_collaboration_model := or_else (at [''collaboration_model'']) (rm_collaboration_model m),
        rm_reasoning_effort :=
          or_else (or_else (at [''reasoning_effort'']) (or_else (at [''reasoningEffort'']) (at [''effort''])))
            (rm_reasoning_effort m),
        rm_sandbox_policy := or_else (at [''sandbox_policy'', ''type'']) (rm_sandbox_policy m),
        rm_approval_policy := or_else (at [''approval_policy'']) (rm_approval_policy m),
        rm_permission_profile := or_else (at [''permission_profile'', ''type'']) (rm_permission_profile m)\<rparr>)"

text \<open>One line of the head: the state is whether the session was seen, and the metadata read so far.\<close>

definition read_metadata_value :: "string \<Rightarrow> json \<Rightarrow> bool \<times> rollout_metadata \<Rightarrow> bool \<times> rollout_metadata" where
  "read_metadata_value session_id v st =
     (case st of (seen, m) \<Rightarrow>
        let kind = json_string_at [''type''] v; payload = payload_of v in
        if kind = Some ''session_meta'' then
          if nonblank_string_at payload [''id''] \<noteq> Some session_id
             \<and> nonblank_string_at payload [''session_id''] \<noteq> Some session_id
          then st else (True, read_session_meta payload m)
        else if kind = Some ''turn_context'' \<and> seen then (seen, read_turn_context payload m)
        else st)"

definition metadata_header_line_limit :: nat where "metadata_header_line_limit = 32"

text \<open>\<open>BufRead::lines\<close>: a line that is not UTF-8 is an error, after the lines before it were read.\<close>

fun read_metadata_lines ::
  "json_parser \<Rightarrow> string \<Rightarrow> string list \<Rightarrow> bool \<times> rollout_metadata \<Rightarrow> string + bool \<times> rollout_metadata" where
  "read_metadata_lines jp session_id [] st = Inr st"
| "read_metadata_lines jp session_id (line # rest) st =
     (if \<not> utf8_valid line then Inl ''failed to read Codex rollout line''
      else read_metadata_lines jp session_id rest
             (case jp line of None \<Rightarrow> st | Some v \<Rightarrow> read_metadata_value session_id v st))"

definition read_codex_rollout_metadata ::
  "json_parser \<Rightarrow> rollout_host \<Rightarrow> string \<Rightarrow> string \<Rightarrow> string + rollout_metadata option" where
  "read_codex_rollout_metadata jp h path session_id =
     (case rh_content h path of
        Inl e \<Rightarrow> Inl e
      | Inr content \<Rightarrow>
          (case rh_created h path of
             Inl e \<Rightarrow> Inl e
           | Inr created \<Rightarrow>
               (case read_metadata_lines jp session_id (take metadata_header_line_limit (str_lines content))
                       (False, empty_metadata session_id path created) of
                  Inl e \<Rightarrow> Inl e
                | Inr (seen, m) \<Rightarrow> Inr (if seen then Some m else None))))"

subsection \<open>Finding the files of a session\<close>

definition uuid_unix_day :: "rollout_host \<Rightarrow> string \<Rightarrow> int option" where
  "uuid_unix_day h session_id = map_option (\<lambda>millis. millis div 86400000) (rh_uuid_millis h session_id)"

definition rollout_search_roots :: "rollout_host \<Rightarrow> string \<Rightarrow> string \<Rightarrow> string list" where
  "rollout_search_roots h sessions_dir session_id =
     (case uuid_unix_day h session_id of
        None \<Rightarrow> [sessions_dir]
      | Some day \<Rightarrow> map (\<lambda>offset. rollout_date_dir sessions_dir (day + offset)) [- 1, 0, 1])"

definition rollout_exact_filename :: "rollout_host \<Rightarrow> string \<Rightarrow> string option" where
  "rollout_exact_filename h session_id =
     map_option (\<lambda>millis.
       let seconds = millis div 1000; seconds_of_day = seconds mod 86400 in
       case civil_from_unix_day (seconds div 86400) of
         (year, month, day) \<Rightarrow>
           ''rollout-'' @ padded 4 year @ ''-'' @ padded 2 month @ ''-'' @ padded 2 day @ ''T''
           @ padded 2 (seconds_of_day div 3600) @ ''-'' @ padded 2 (seconds_of_day mod 3600 div 60) @ ''-''
           @ padded 2 (seconds_of_day mod 60) @ ''-'' @ session_id @ ''.jsonl'')
       (rh_uuid_millis h session_id)"

definition rollout_name_of :: "string \<Rightarrow> string \<Rightarrow> bool" where
  "rollout_name_of session_id name \<longleftrightarrow>
     starts_with name ''rollout-'' \<and> ends_with name (session_id @ ''.jsonl'')"

text \<open>The entries of a directory in order; the first failure ends the listing.\<close>

fun listed_paths ::
  "(string \<Rightarrow> string + string list) \<Rightarrow> string \<Rightarrow> string \<Rightarrow> (string + string \<times> entry_kind) list
     \<Rightarrow> string + string list" where
  "listed_paths descend session_id root [] = Inr []"
| "listed_paths descend session_id root (entry # rest) =
     (case entry of
        Inl e \<Rightarrow> Inl e
      | Inr (name, kind) \<Rightarrow>
          (case (if kind = RegularFile
                 then Inr (if rollout_name_of session_id name then [path_join root name] else [])
                 else if kind = Directory then descend (path_join root name)
                 else Inr []) of
             Inl e \<Rightarrow> Inl e
           | Inr found \<Rightarrow>
               (case listed_paths descend session_id root rest of
                  Inl e \<Rightarrow> Inl e | Inr later \<Rightarrow> Inr (found @ later))))"

primrec collect_rollout_paths :: "rollout_host \<Rightarrow> string \<Rightarrow> nat \<Rightarrow> string \<Rightarrow> string + string list" where
  "collect_rollout_paths h session_id 0 root =
     (case rh_read_dir h root of
        Inl e \<Rightarrow> Inl e | Inr entries \<Rightarrow> listed_paths (\<lambda>_. Inr []) session_id root entries)"
| "collect_rollout_paths h session_id (Suc depth) root =
     (case rh_read_dir h root of
        Inl e \<Rightarrow> Inl e
      | Inr entries \<Rightarrow> listed_paths (collect_rollout_paths h session_id depth) session_id root entries)"

fun paths_of_roots :: "(string \<Rightarrow> string + string list) \<Rightarrow> string list \<Rightarrow> string + string list" where
  "paths_of_roots f [] = Inr []"
| "paths_of_roots f (root # roots) =
     (case f root of
        Inl e \<Rightarrow> Inl e
      | Inr found \<Rightarrow>
          (case paths_of_roots f roots of Inl e \<Rightarrow> Inl e | Inr later \<Rightarrow> Inr (found @ later)))"

definition direct_rollout_paths :: "rollout_host \<Rightarrow> string list \<Rightarrow> string \<Rightarrow> string + string list" where
  "direct_rollout_paths h roots session_id =
     (let exact = (case rollout_exact_filename h session_id of
                     None \<Rightarrow> []
                   | Some name \<Rightarrow> filter (rh_is_file h) (map (\<lambda>root. path_join root name) roots))
      in if exact \<noteq> [] then Inr exact
         else paths_of_roots (collect_rollout_paths h session_id 0) (filter (rh_is_dir h) roots))"

definition codex_rollout_paths :: "rollout_host \<Rightarrow> string \<Rightarrow> string \<Rightarrow> string + string list" where
  "codex_rollout_paths h sessions_dir session_id =
     (let roots = rollout_search_roots h sessions_dir session_id;
          dirs = filter (rh_is_dir h) roots;
          fallback = (\<lambda>f paths. case paths of
             Inl e \<Rightarrow> Inl e | Inr [] \<Rightarrow> paths_of_roots f dirs | Inr (p # ps) \<Rightarrow> Inr (p # ps))
      in case fallback (collect_rollout_paths h session_id 3)
                (fallback (rh_rg_files h session_id) (direct_rollout_paths h roots session_id)) of
           Inl e \<Rightarrow> Inl e
         | Inr [] \<Rightarrow> Inl (''Codex rollout invariant broken: no rollout JSONL found for session ''
                       @ session_id @ '' under '' @ sessions_dir)
         | Inr (p # ps) \<Rightarrow> Inr (rev (sort_dedup (filter (rh_is_file h) (p # ps)))))"

fun first_metadata ::
  "json_parser \<Rightarrow> rollout_host \<Rightarrow> string \<Rightarrow> string list \<Rightarrow> string + rollout_metadata option" where
  "first_metadata jp h session_id [] = Inr None"
| "first_metadata jp h session_id (path # paths) =
     (case read_codex_rollout_metadata jp h path session_id of
        Inl e \<Rightarrow> Inl e
      | Inr (Some m) \<Rightarrow> Inr (Some m)
      | Inr None \<Rightarrow> first_metadata jp h session_id paths)"

definition codex_rollout_session_metadata ::
  "json_parser \<Rightarrow> rollout_host \<Rightarrow> string \<Rightarrow> string + rollout_metadata option" where
  "codex_rollout_session_metadata jp h session_id =
     (case rh_sessions_dir h of
        None \<Rightarrow> Inl ''HOME is not set; cannot locate Codex sessions''
      | Some sessions_dir \<Rightarrow>
          if \<not> rh_is_dir h sessions_dir then Inr None
          else (case codex_rollout_paths h sessions_dir session_id of
                  Inl e \<Rightarrow> Inl e | Inr paths \<Rightarrow> first_metadata jp h session_id paths))"

definition codex_rollout_session_metadata_recent ::
  "json_parser \<Rightarrow> rollout_host \<Rightarrow> string \<Rightarrow> int \<Rightarrow> int \<Rightarrow> string + rollout_metadata option" where
  "codex_rollout_session_metadata_recent jp h session_id reference_unix max_age_seconds =
     (case codex_rollout_session_metadata jp h session_id of
        Inl e \<Rightarrow> Inl e
      | Inr None \<Rightarrow> Inr None
      | Inr (Some m) \<Rightarrow>
          Inr (case rm_rollout_created_at_unix m of
                 None \<Rightarrow> None
               | Some created_at \<Rightarrow>
                   let age = reference_unix - created_at in
                   if 0 \<le> age \<and> age \<le> max_age_seconds then Some m else None))"

subsection \<open>The session of the process\<close>

type_synonym process_env = "string \<Rightarrow> string option"

record runtime_session =
  ss_client :: string
  ss_id :: string

definition env_value :: "process_env \<Rightarrow> string \<Rightarrow> string option" where
  "env_value env name =
     Option.bind (env name) (\<lambda>v. let t = str_trim v in if t = [] then None else Some t)"

definition runtime_sessions :: "process_env \<Rightarrow> runtime_session list" where
  "runtime_sessions env =
     List.map_filter (\<lambda>(name, client). map_option (\<lambda>id. \<lparr>ss_client = client, ss_id = id\<rparr>) (env_value env name))
       [(''CODEX_THREAD_ID'', ''codex''), (''CLAUDE_CODE_SESSION_ID'', ''claude-code''),
        (''CLAUDE_CODE_REMOTE_SESSION_ID'', ''claude-code'')]"

definition current_agent_runtime_session :: "process_env \<Rightarrow> runtime_session option" where
  "current_agent_runtime_session env =
     (case runtime_sessions env of [session] \<Rightarrow> Some session | _ \<Rightarrow> None)"

definition codex_rollout_root_session_id :: "json_parser \<Rightarrow> rollout_host \<Rightarrow> string \<Rightarrow> string option" where
  "codex_rollout_root_session_id jp h session_id =
     (case codex_rollout_session_metadata jp h session_id of
        Inr (Some m) \<Rightarrow> or_else (rm_root_session_id m) (rm_parent_thread_id m)
      | _ \<Rightarrow> None)"

definition current_agent_runtime_root_session_id ::
  "json_parser \<Rightarrow> rollout_host \<Rightarrow> process_env \<Rightarrow> string option" where
  "current_agent_runtime_root_session_id jp h env =
     Option.bind (current_agent_runtime_session env)
       (\<lambda>session. or_else (codex_rollout_root_session_id jp h (ss_id session)) (Some (ss_id session)))"

definition agent_session_registration_identity ::
  "json_parser \<Rightarrow> rollout_host \<Rightarrow> process_env \<Rightarrow> string option \<Rightarrow> string option
     \<Rightarrow> string + string \<times> string" where
  "agent_session_registration_identity jp h env child root =
     (let runtime_id = map_option ss_id (current_agent_runtime_session env) in
      case or_else child runtime_id of
        None \<Rightarrow> Inl ''asp agent session register requires --child-session-id or an agent session env''
      | Some session_id \<Rightarrow>
          Inr (session_id,
               case or_else root (or_else (codex_rollout_root_session_id jp h session_id) runtime_id) of
                 Some r \<Rightarrow> r | None \<Rightarrow> session_id))"

subsection \<open>Day directories are calendar dates\<close>

definition leap_year :: "int \<Rightarrow> bool" where
  "leap_year y \<longleftrightarrow> y mod 4 = 0 \<and> (y mod 100 \<noteq> 0 \<or> y mod 400 = 0)"

definition days_in_month :: "int \<Rightarrow> int \<Rightarrow> int" where
  "days_in_month y m =
     (if m = 2 then if leap_year y then 29 else 28
      else if m \<in> {4, 6, 9, 11} then 30 else 31)"

text \<open>The days of the proleptic Gregorian calendar before a year and, within a year, before a month.\<close>

definition days_before_year :: "int \<Rightarrow> int" where
  "days_before_year y = 365 * (y - 1) + (y - 1) div 4 - (y - 1) div 100 + (y - 1) div 400"

definition days_before_month :: "int \<Rightarrow> int \<Rightarrow> int" where
  "days_before_month y m = sum_list (map (days_in_month y) [1..m - 1])"

definition valid_date :: "int \<times> int \<times> int \<Rightarrow> bool" where
  "valid_date date =
     (case date of (y, m, d) \<Rightarrow> 1 \<le> m \<and> m \<le> 12 \<and> 1 \<le> d \<and> d \<le> days_in_month y m)"

definition unix_day_of :: "int \<times> int \<times> int \<Rightarrow> int" where
  "unix_day_of date =
     (case date of (y, m, d) \<Rightarrow> days_before_year y + days_before_month y m + d - 1 - days_before_year 1970)"

text \<open>The years of an era begin in March; \<open>year_start\<close> is the day of the era on which one begins.\<close>

definition year_start :: "int \<Rightarrow> int" where
  "year_start y = 365 * y + y div 4 - y div 100"

definition leap_free :: "int \<Rightarrow> int" where
  "leap_free doe = doe - doe div 1460 + doe div 36524 - doe div 146096"

lemma leap_free_step: "0 \<le> x \<Longrightarrow> x < 146096 \<Longrightarrow> leap_free x \<le> leap_free (x + 1)"
proof -
  assume x: "0 \<le> x" "x < 146096"
  have "(x + 1) div 1460 \<le> (x + 1460) div 1460" "x div 36524 \<le> (x + 1) div 36524"
    by (rule zdiv_mono1; simp)+
  then have "(x + 1) div 1460 \<le> x div 1460 + 1" "x div 36524 \<le> (x + 1) div 36524" by simp_all
  moreover have "x div 146096 = 0" using x by simp
  moreover have "(x + 1) div 146096 = 0 \<or> x + 1 = 146096"
    using x by (cases "x = 146095") (simp_all add: div_pos_pos_trivial)
  moreover have "leap_free x \<le> leap_free (x + 1)" if "x + 1 = 146096"
  proof -
    from that have "x = 146095" by simp
    then show ?thesis by (simp add: leap_free_def)
  qed
  ultimately show ?thesis unfolding leap_free_def by linarith
qed

lemma leap_free_mono:
  assumes "0 \<le> x" "x \<le> y" "y \<le> 146096"
  shows "leap_free x \<le> leap_free y"
  using assms(2,1,3)
proof (induction rule: int_ge_induct)
  case (step i)
  then show ?case using leap_free_step [of i] by simp
qed simp

text \<open>A year of an era by its century, its group of four years, and its place in the group.\<close>

lemma year_digits:
  fixes y :: int
  assumes "0 \<le> y" "y < 400"
  obtains c a b where "y = 100 * c + 4 * a + b" "0 \<le> c" "c \<le> 3" "0 \<le> a" "a \<le> 24" "0 \<le> b" "b \<le> 3"
proof
  let ?k = "y mod 100"
  have k: "?k mod 4 = y mod 4" by (rule mod_mod_cancel) simp
  have "y = 100 * (y div 100) + ?k" "?k = 4 * (?k div 4) + ?k mod 4" by simp_all
  then show "y = 100 * (y div 100) + 4 * (?k div 4) + y mod 4" using k by linarith
  have "0 \<le> ?k" "?k < 100" by simp_all
  then show "0 \<le> ?k div 4" "?k div 4 \<le> 24" by linarith+
  show "0 \<le> y div 100" "y div 100 \<le> 3" using assms by linarith+
  have "0 \<le> y mod 4" "y mod 4 < 4" by simp_all
  then show "0 \<le> y mod 4" "y mod 4 \<le> 3" by linarith+
qed

lemma year_divs:
  fixes a b c :: int
  assumes "0 \<le> c" "0 \<le> a" "a \<le> 24" "0 \<le> b" "b \<le> 3"
  shows "(100 * c + 4 * a + b) div 4 = 25 * c + a" "(100 * c + 4 * a + b) div 100 = c"
    "(100 * c + 4 * a + b) mod 4 = b" "(100 * c + 4 * a + b) mod 100 = 4 * a + b"
proof -
  show four: "(100 * c + 4 * a + b) div 4 = 25 * c + a"
    by (rule int_div_pos_eq [where r = b]) (use assms in simp_all)
  show hundred: "(100 * c + 4 * a + b) div 100 = c"
    by (rule int_div_pos_eq [where r = "4 * a + b"]) (use assms in simp_all)
  show "(100 * c + 4 * a + b) mod 4 = b" using four by (simp add: minus_div_mult_eq_mod [symmetric])
  show "(100 * c + 4 * a + b) mod 100 = 4 * a + b" using hundred by (simp add: minus_div_mult_eq_mod [symmetric])
qed

lemma leap_free_year_start:
  assumes "0 \<le> y" "y < 400"
  shows "leap_free (year_start y) = 365 * y" and "0 < y \<Longrightarrow> leap_free (year_start y - 1) < 365 * y"
proof -
  from assms obtain c a b where y: "y = 100 * c + 4 * a + b"
    and r: "0 \<le> c" "c \<le> 3" "0 \<le> a" "a \<le> 24" "0 \<le> b" "b \<le> 3" by (rule year_digits)
  have start: "year_start y = 36524 * c + 1461 * a + 365 * b"
    unfolding year_start_def y using year_divs [OF r(1,3,4,5,6)] by simp
  have "year_start y div 36524 = c" unfolding start
    by (rule int_div_pos_eq [where r = "1461 * a + 365 * b"]) (use r in simp_all)
  moreover have "year_start y div 1460 = 25 * c + a" unfolding start
    by (rule int_div_pos_eq [where r = "24 * c + a + 365 * b"]) (use r in simp_all)
  moreover have "year_start y div 146096 = 0" unfolding start
    by (rule int_div_pos_eq [where r = "36524 * c + 1461 * a + 365 * b"]) (use r in simp_all)
  ultimately show "leap_free (year_start y) = 365 * y"
    unfolding leap_free_def y using start by (simp add: y)
  assume "0 < y"
  have "(year_start y - 1) div 146096 = 0" unfolding start
    by (rule int_div_pos_eq [where r = "36524 * c + 1461 * a + 365 * b - 1"]) (use r \<open>0 < y\<close> y in simp_all)
  moreover have "(year_start y - 1) div 1460 = 25 * c + a" unfolding start
    by (rule int_div_pos_eq [where r = "24 * c + a + 365 * b - 1"]) (use r \<open>0 < y\<close> y in simp_all)
  moreover have "(year_start y - 1) div 36524 \<le> c"
    unfolding start using r by linarith
  ultimately show "leap_free (year_start y - 1) < 365 * y"
    unfolding leap_free_def y using start by (simp add: y)
qed

lemma days_before_year_start:
  assumes "0 \<le> y" "y < 400"
  shows "days_before_year (y + 1) = year_start y"
    and "days_before_year y + (if leap_year y then 60 else 59) = year_start y - 306"
proof -
  show "days_before_year (y + 1) = year_start y" using assms by (simp add: days_before_year_def year_start_def)
  from assms obtain c a b where y: "y = 100 * c + 4 * a + b"
    and r: "0 \<le> c" "c \<le> 3" "0 \<le> a" "a \<le> 24" "0 \<le> b" "b \<le> 3" by (rule year_digits)
  note divs = year_divs [OF r(1,3,4,5,6), folded y]
  have leap: "leap_year y \<longleftrightarrow> b = 0 \<and> (a \<noteq> 0 \<or> c = 0)"
    using assms divs(3,4) y r by (auto simp: leap_year_def)
  have four: "(y - 1) div 4 = 25 * c + a - (if b = 0 then 1 else 0)"
    by (rule int_div_pos_eq [where r = "if b = 0 then 3 else b - 1"]) (use y r in auto)
  have hundred: "(y - 1) div 100 = c - (if a = 0 \<and> b = 0 then 1 else 0)"
    by (rule int_div_pos_eq [where r = "if a = 0 \<and> b = 0 then 99 else 4 * a + b - 1"]) (use y r in auto)
  have all: "(y - 1) div 400 = (if y = 0 then - 1 else 0)"
    by (rule int_div_pos_eq [where r = "if y = 0 then 399 else y - 1"]) (use assms in auto)
  show "days_before_year y + (if leap_year y then 60 else 59) = year_start y - 306"
    unfolding days_before_year_def year_start_def four hundred all leap divs(1,2) using y r by auto
qed

text \<open>The year of an era that a day of the era lies in.\<close>

definition era_year :: "int \<Rightarrow> int" where
  "era_year doe = leap_free doe div 365"

lemma year_start_nonneg:
  assumes "0 \<le> z" "z < 500"
  shows "0 \<le> year_start z"
proof (cases "z = 0")
  case False
  have "0 \<le> 365 * z + a - b" if "0 \<le> a" "b \<le> 4" for a b using that assms(1) False by linarith
  moreover have "0 \<le> z div 4" "z div 100 \<le> 4" using assms by linarith+
  ultimately show ?thesis unfolding year_start_def by blast
qed (simp add: year_start_def)

lemma era_year_bounds:
  assumes "0 \<le> doe" "doe < 146097"
  shows "0 \<le> era_year doe" "era_year doe < 400" "year_start (era_year doe) \<le> doe"
    and "doe - year_start (era_year doe) \<le> (if leap_year (era_year doe + 1) then 365 else 364)"
proof -
  let ?y = "era_year doe"
  have "leap_free 0 \<le> leap_free doe" "leap_free doe \<le> leap_free 146096"
    by (rule leap_free_mono; use assms in simp)+
  then have range: "0 \<le> leap_free doe" "leap_free doe \<le> 145999" by (simp_all add: leap_free_def)
  then show y: "0 \<le> ?y" "?y < 400" unfolding era_year_def by linarith+
  obtain r where "leap_free doe = 365 * ?y + r" "0 \<le> r" "r < 365"
  proof
    show "leap_free doe = 365 * ?y + leap_free doe mod 365" by (simp add: era_year_def)
  qed simp_all
  then have within: "365 * ?y \<le> leap_free doe" "leap_free doe < 365 * (?y + 1)" by simp_all
  show start: "year_start ?y \<le> doe"
  proof (rule ccontr)
    assume "\<not> year_start ?y \<le> doe"
    then have below: "doe \<le> year_start ?y - 1" by simp
    then have pos: "0 < ?y" using assms(1) y by (cases "?y = 0") (simp_all add: year_start_def)
    have "year_start ?y \<le> 146096" using y unfolding year_start_def by linarith
    with below have "leap_free doe \<le> leap_free (year_start ?y - 1)" by (intro leap_free_mono) (use assms in simp_all)
    with leap_free_year_start(2) [OF y pos] within show False by simp
  qed
  show "doe - year_start ?y \<le> (if leap_year (?y + 1) then 365 else 364)"
  proof (cases "?y = 399")
    case True
    then show ?thesis using assms by (simp add: year_start_def leap_year_def)
  next
    case False
    then have next_year: "0 \<le> ?y + 1" "?y + 1 < 400" using y by simp_all
    have "doe < year_start (?y + 1)"
    proof (rule ccontr)
      assume "\<not> doe < year_start (?y + 1)"
      moreover have "0 \<le> year_start (?y + 1)" using y by (intro year_start_nonneg) simp_all
      ultimately have "leap_free (year_start (?y + 1)) \<le> leap_free doe"
        by (intro leap_free_mono) (use assms in simp_all)
      with leap_free_year_start(1) [OF next_year] within show False by simp
    qed
    moreover have "year_start (?y + 1) - year_start ?y \<le> (if leap_year (?y + 1) then 366 else 365)"
    proof -
      have "days_before_year (?y + 1) = year_start ?y" using y by (rule days_before_year_start)
      with days_before_year_start(2) [OF next_year] show ?thesis by (auto split: if_splits)
    qed
    ultimately show ?thesis by (auto split: if_splits)
  qed
qed

text \<open>The month and the day of a day of the year, counted from the first of March.\<close>

definition month_and_day :: "int \<Rightarrow> int \<times> int" where
  "month_and_day doy =
     (let mp = (5 * doy + 2) div 153 in (mp + (if mp < 10 then 3 else - 9), doy - (153 * mp + 2) div 5 + 1))"

definition march_offset :: "int \<Rightarrow> int" where
  "march_offset m = sum_list (map (days_in_month 0) [3..m - 1])"

lemma march_offsets: "map march_offset [3, 4, 5, 6, 7, 8, 9, 10, 11, 12] = [0, 31, 61, 92, 122, 153, 184, 214, 245, 275]"
  by code_simp

lemma month_and_day_checked:
  assumes "0 \<le> doy" "doy \<le> 365" "month_and_day doy = (m, d)"
  shows "1 \<le> m \<and> m \<le> 12 \<and> 1 \<le> d
    \<and> (if 3 \<le> m then d \<le> days_in_month 0 m \<and> march_offset m + d - 1 = doy
       else d \<le> (if m = 1 then 31 else if doy = 365 then 29 else 28)
            \<and> (if m = 1 then 0 else 31) + d - 1 = doy - 306)"
proof -
  obtain mp r where mp: "mp = (5 * doy + 2) div 153" and r: "5 * doy + 2 = 153 * mp + r" "0 \<le> r" "r < 153"
  proof
    show "5 * doy + 2 = 153 * ((5 * doy + 2) div 153) + (5 * doy + 2) mod 153" by simp
  qed simp_all
  have md: "m = mp + (if mp < 10 then 3 else - 9)" "d = doy - (153 * mp + 2) div 5 + 1"
    using assms(3) by (simp_all add: month_and_day_def Let_def mp)
  have "0 \<le> mp" "mp \<le> 11" using assms(1,2) r by linarith+
  then have "mp = 0 \<or> mp = 1 \<or> mp = 2 \<or> mp = 3 \<or> mp = 4 \<or> mp = 5 \<or> mp = 6 \<or> mp = 7 \<or> mp = 8 \<or> mp = 9
    \<or> mp = 10 \<or> mp = 11" by presburger
  then show ?thesis
    by (elim disjE) (use assms(1,2) r md march_offsets in \<open>simp_all add: days_in_month_def\<close>)
qed

lemma days_before_month_cases:
  "days_before_month y 1 = 0" "days_before_month y 2 = 31"
  "3 \<le> m \<Longrightarrow> m \<le> 12 \<Longrightarrow> days_before_month y m = (if leap_year y then 60 else 59) + march_offset m"
proof -
  show "days_before_month y 1 = 0" by (simp add: days_before_month_def)
  have "[1..1] = [1::int]" by code_simp
  then show "days_before_month y 2 = 31" by (simp add: days_before_month_def days_in_month_def)
  assume m: "3 \<le> m" "m \<le> 12"
  have "[1..m - 1] = [1..2] @ [3..m - 1]" using m upto_split2 [of 1 2 "m - 1"] by simp
  moreover have "[1..2] = [1, 2::int]" by code_simp
  moreover have "days_in_month y k = days_in_month 0 k" if "k \<in> set [3..m - 1]" for k
    using that by (simp add: days_in_month_def)
  then have "map (days_in_month y) [3..m - 1] = map (days_in_month 0) [3..m - 1]" by simp
  ultimately show "days_before_month y m = (if leap_year y then 60 else 59) + march_offset m"
    by (simp add: days_before_month_def march_offset_def del: map_eq_conv) (simp add: days_in_month_def)
qed

lemma civil_by_era:
  assumes "0 \<le> unix_day + 719468"
  defines "era \<equiv> (unix_day + 719468) div 146097" and "doe \<equiv> (unix_day + 719468) mod 146097"
  shows "civil_from_unix_day unix_day =
    (case month_and_day (doe - year_start (era_year doe)) of
       (m, d) \<Rightarrow> (era_year doe + era * 400 + (if m \<le> 2 then 1 else 0), m, d))"
proof -
  have doe: "unix_day + 719468 - era * 146097 = doe" by (simp add: era_def doe_def minus_div_mult_eq_mod)
  have year: "(if c then (y :: int) + 1 else y) = y + (if c then 1 else 0)" for c y by simp
  show ?thesis
    unfolding civil_from_unix_day_def Let_def if_P [OF assms(1)] era_def [symmetric] doe month_and_day_def
      era_year_def leap_free_def year_start_def prod.case year
    by (rule refl)
qed

lemma era_shift: "days_before_year (y + era * 400) = days_before_year y + 146097 * era"
  "leap_year (y + era * 400) = leap_year y"
proof -
  have four: "y - 1 + era * 400 = (y - 1) + (100 * era) * 4" "y + era * 400 = y + (100 * era) * 4"
    and hundred: "y - 1 + era * 400 = (y - 1) + (4 * era) * 100" "y + era * 400 = y + (4 * era) * 100" by simp_all
  have "(y - 1 + era * 400) div 4 = 100 * era + (y - 1) div 4" unfolding four by (rule div_mult_self1) simp
  moreover have "(y - 1 + era * 400) div 100 = 4 * era + (y - 1) div 100"
    unfolding hundred by (rule div_mult_self1) simp
  moreover have "(y - 1 + era * 400) div 400 = era + (y - 1) div 400" by (rule div_mult_self1) simp
  moreover have "y + era * 400 - 1 = y - 1 + era * 400" by simp
  ultimately show "days_before_year (y + era * 400) = days_before_year y + 146097 * era"
    by (simp only: days_before_year_def) simp
  have "(y + era * 400) mod 4 = y mod 4" unfolding four by (rule mod_mult_self1)
  moreover have "(y + era * 400) mod 100 = y mod 100" unfolding hundred by (rule mod_mult_self1)
  moreover have "(y + era * 400) mod 400 = y mod 400" by (rule mod_mult_self1)
  ultimately show "leap_year (y + era * 400) = leap_year y" by (simp only: leap_year_def)
qed

text \<open>The directory that the host keeps a day in is a calendar date: for every day from 1 March of the year 0
  on, the year, month and day that \<open>civil_from_unix_day\<close> computes are a date of the Gregorian calendar, and it is
  the date of that day.\<close>

theorem day_directories_are_dates:
  assumes "0 \<le> unix_day + 719468"
  shows "valid_date (civil_from_unix_day unix_day) \<and> unix_day_of (civil_from_unix_day unix_day) = unix_day"
proof -
  define era where "era = (unix_day + 719468) div 146097"
  define doe where "doe = (unix_day + 719468) mod 146097"
  define y where "y = era_year doe"
  define doy where "doy = doe - year_start y"
  have day: "unix_day = era * 146097 + doe - 719468" by (simp add: era_def doe_def)
  have "0 \<le> doe" "doe < 146097" by (simp_all add: doe_def)
  from era_year_bounds [OF this] have y: "0 \<le> y" "y < 400" and "0 \<le> doy"
    and doy: "doy \<le> (if leap_year (y + 1) then 365 else 364)" by (simp_all add: y_def doy_def)
  obtain m d where md: "month_and_day doy = (m, d)" by (cases "month_and_day doy")
  have "doy \<le> 365" using doy by (simp split: if_splits)
  from month_and_day_checked [OF \<open>0 \<le> doy\<close> this md] have checked: "1 \<le> m" "m \<le> 12" "1 \<le> d"
    "if 3 \<le> m then d \<le> days_in_month 0 m \<and> march_offset m + d - 1 = doy
     else d \<le> (if m = 1 then 31 else if doy = 365 then 29 else 28) \<and> (if m = 1 then 0 else 31) + d - 1 = doy - 306"
    by simp_all
  let ?Y = "y + era * 400 + (if m \<le> 2 then 1 else 0)"
  have civil: "civil_from_unix_day unix_day = (?Y, m, d)"
    using civil_by_era [OF assms] md by (simp add: era_def doe_def y_def doy_def)
  note starts = days_before_year_start [OF y] era_shift [of _ era]
  have epoch: "days_before_year 1970 = 719162" by (simp add: days_before_year_def)
  show ?thesis
  proof (cases "3 \<le> m")
    case True
    then have "days_in_month (y + era * 400) m = days_in_month 0 m" by (simp add: days_in_month_def)
    then show ?thesis
      unfolding civil
      using True checked starts(2) starts(3) [of y] starts(4) [of y] days_before_month_cases(3) [OF True checked(2)]
      by (simp add: valid_date_def unix_day_of_def epoch day doy_def)
  next
    case False
    then have m: "m = 1 \<or> m = 2" using checked(1) by auto
    have shifted: "days_before_year (y + era * 400 + 1) = year_start y + 146097 * era"
      "leap_year (y + era * 400 + 1) = leap_year (y + 1)"
      using starts(1) starts(3) [of "y + 1"] starts(4) [of "y + 1"] by (simp_all add: ac_simps)
    have "days_before_month z m = (if m = 1 then 0 else 31)" for z
      using m days_before_month_cases(1,2) by auto
    moreover have "doy = 365 \<Longrightarrow> leap_year (y + 1)" using doy by (simp split: if_splits)
    ultimately show ?thesis
      unfolding civil
      using m checked(3,4) shifted
      by (auto simp: valid_date_def unix_day_of_def epoch day doy_def days_in_month_def split: if_splits)
  qed
qed

lemma day_directories_are_dates_witness:
  "valid_date (civil_from_unix_day 20513) \<and> unix_day_of (civil_from_unix_day 20513) = 20513"
  by (rule day_directories_are_dates) simp

text \<open>
  Before that day the era is corrected twice, by the subtraction and by the rounding of \<open>div_euclid\<close>, and the date
  is wrong; the time stamps of identifiers are never negative.
\<close>

lemma date_before_year_zero: "unix_day_of (civil_from_unix_day (- 719470)) \<noteq> - 719470"
  by code_simp

subsection \<open>The activity is what the last events say\<close>

definition kinds_of :: "(json \<times> nat) list \<Rightarrow> string list" where
  "kinds_of events = List.map_filter (\<lambda>(v, n). codex_event_kind v) events"

definition event_terminal :: "json \<Rightarrow> bool" where
  "event_terminal v \<longleftrightarrow> (\<exists>k. codex_event_kind v = Some k \<and> is_terminal_event_kind k)"

text \<open>A call is open when neither its output nor the end of its turn came after it.\<close>

definition leaves_open :: "string \<Rightarrow> json \<times> nat \<Rightarrow> bool" where
  "leaves_open c e \<longleftrightarrow>
     \<not> event_terminal (fst e)
     \<and> \<not> (codex_event_kind (fst e) = Some ''function_call_output'' \<and> c \<in> call_id_of (fst e))"

definition opens :: "string \<Rightarrow> json \<times> nat \<Rightarrow> bool" where
  "opens c e \<longleftrightarrow> codex_event_kind (fst e) = Some ''function_call'' \<and> c \<in> call_id_of (fst e)"

definition open_calls :: "(json \<times> nat) list \<Rightarrow> string set" where
  "open_calls events =
     {c. \<exists>before e later. events = before @ e # later \<and> opens c e \<and> list_all (leaves_open c) later}"

definition observe_all :: "(json \<times> nat) list \<Rightarrow> activity_state" where
  "observe_all events = foldl (\<lambda>s (v, n). observe_event v n s) initial_activity events"

lemma observe_all_snoc: "observe_all (events @ [(v, n)]) = observe_event v n (observe_all events)"
  by (simp add: observe_all_def)

lemma kinds_of_snoc: "kinds_of (events @ [(v, n)]) = kinds_of events @ (case codex_event_kind v of None \<Rightarrow> [] | Some k \<Rightarrow> [k])"
  by (simp add: kinds_of_def List.map_filter_def split: option.split)

lemma open_calls_snoc_iff:
  "c \<in> open_calls (events @ [e]) \<longleftrightarrow> (c \<in> open_calls events \<and> leaves_open c e) \<or> opens c e"
proof
  assume "c \<in> open_calls (events @ [e])"
  then obtain before f later where split: "events @ [e] = before @ f # later"
    and f: "opens c f" "list_all (leaves_open c) later"
    unfolding open_calls_def by blast
  show "(c \<in> open_calls events \<and> leaves_open c e) \<or> opens c e"
  proof (cases later rule: rev_cases)
    case Nil
    with split f show ?thesis by simp
  next
    case (snoc rest x)
    with split f have "events = before @ f # rest" "list_all (leaves_open c) rest" "leaves_open c e" by simp_all
    with f(1) show ?thesis unfolding open_calls_def by blast
  qed
next
  assume "(c \<in> open_calls events \<and> leaves_open c e) \<or> opens c e"
  then show "c \<in> open_calls (events @ [e])"
  proof
    assume "c \<in> open_calls events \<and> leaves_open c e"
    then obtain before f later where "events @ [e] = before @ f # (later @ [e])"
      "opens c f" "list_all (leaves_open c) (later @ [e])"
      unfolding open_calls_def by auto
    then show ?thesis unfolding open_calls_def by blast
  next
    assume "opens c e"
    then show ?thesis unfolding open_calls_def
      by (intro CollectI exI [of _ events] exI [of _ e] exI [of _ "[]"]) simp
  qed
qed

lemma finite_open_calls: "finite (open_calls events)"
proof (induction events rule: rev_induct)
  case (snoc e events)
  have "open_calls (events @ [e]) \<subseteq> open_calls events \<union> call_id_of (fst e)"
    by (auto simp: open_calls_snoc_iff opens_def)
  then show ?case by (rule finite_subset) (use snoc in \<open>simp add: call_id_of_def\<close>)
qed (simp add: open_calls_def)

text \<open>An event other than the very first one, or one that marks a turn, shows that a turn is open.\<close>

definition turn_markers :: "string set" where
  "turn_markers = {''task_started'', ''function_call'', ''function_call_output''}"

definition last_terminal :: "string list \<Rightarrow> bool" where
  "last_terminal kinds \<longleftrightarrow> kinds \<noteq> [] \<and> is_terminal_event_kind (last kinds)"

definition turn_seen :: "string list \<Rightarrow> bool" where
  "turn_seen kinds \<longleftrightarrow>
     kinds \<noteq> [] \<and> \<not> last_terminal kinds \<and> (2 \<le> length kinds \<or> last kinds \<in> turn_markers)"

lemma turn_marker_not_terminal: "k \<in> turn_markers \<Longrightarrow> \<not> is_terminal_event_kind k"
  by (auto simp: turn_markers_def is_terminal_event_kind_def)

lemma observe_all_invariant:
  "as_pending_tool_calls (observe_all events) = open_calls events
   \<and> as_last_event_kind (observe_all events) = (if kinds_of events = [] then None else Some (last (kinds_of events)))
   \<and> as_observed_open_turn (observe_all events) = turn_seen (kinds_of events)
   \<and> as_scanned_bytes (observe_all events) = sum_list (map snd events)"
proof (induction events rule: rev_induct)
  case Nil
  show ?case
    by (simp add: observe_all_def initial_activity_def open_calls_def kinds_of_def List.map_filter_def turn_seen_def)
next
  case (snoc e events)
  obtain v n where e: "e = (v, n)" by (cases e)
  show ?case
  proof (cases "codex_event_kind v")
    case None
    then have "open_calls (events @ [e]) = open_calls events"
      by (auto simp: open_calls_snoc_iff e opens_def leaves_open_def event_terminal_def)
    with snoc None show ?thesis
      by (simp add: e observe_all_snoc kinds_of_snoc observe_event_def)
  next
    case (Some k)
    have ends: "event_terminal v = is_terminal_event_kind k" by (simp add: event_terminal_def Some)
    consider (terminal) "is_terminal_event_kind k" | (call) "k = ''function_call''"
      | (returned) "k = ''function_call_output''" | (started) "k = ''task_started''"
      | (other) "\<not> is_terminal_event_kind k" "k \<notin> turn_markers"
      by (auto simp: turn_markers_def)
    then show ?thesis
    proof cases
      case terminal
      then have "k \<notin> turn_markers" using turn_marker_not_terminal by blast
      then have "open_calls (events @ [e]) = {}"
        using terminal ends
        by (auto simp: open_calls_snoc_iff e opens_def leaves_open_def Some turn_markers_def)
      with snoc Some terminal show ?thesis
        by (simp add: e observe_all_snoc kinds_of_snoc observe_event_def observe_kind_def turn_seen_def last_terminal_def)
    next
      case call
      then have "open_calls (events @ [e]) = open_calls events \<union> call_id_of v"
        using ends turn_marker_not_terminal [of k]
        by (auto simp: open_calls_snoc_iff e opens_def leaves_open_def Some turn_markers_def)
      with snoc Some call turn_marker_not_terminal [of k] show ?thesis
        by (simp add: e observe_all_snoc kinds_of_snoc observe_event_def observe_kind_def turn_seen_def
            last_terminal_def turn_markers_def)
    next
      case returned
      then have "open_calls (events @ [e]) = open_calls events - call_id_of v"
        using ends turn_marker_not_terminal [of k]
        by (auto simp: open_calls_snoc_iff e opens_def leaves_open_def Some turn_markers_def)
      with snoc Some returned turn_marker_not_terminal [of k] show ?thesis
        by (simp add: e observe_all_snoc kinds_of_snoc observe_event_def observe_kind_def turn_seen_def
            last_terminal_def turn_markers_def)
    next
      case started
      then have "open_calls (events @ [e]) = open_calls events"
        using ends turn_marker_not_terminal [of k]
        by (auto simp: open_calls_snoc_iff e opens_def leaves_open_def Some turn_markers_def)
      with snoc Some started turn_marker_not_terminal [of k] show ?thesis
        by (simp add: e observe_all_snoc kinds_of_snoc observe_event_def observe_kind_def turn_seen_def
            last_terminal_def turn_markers_def)
    next
      case other
      then have "open_calls (events @ [e]) = open_calls events"
        using ends
        by (auto simp: open_calls_snoc_iff e opens_def leaves_open_def Some turn_markers_def)
      with snoc Some other show ?thesis
        by (auto simp: e observe_all_snoc kinds_of_snoc observe_event_def observe_kind_def turn_seen_def
            last_terminal_def turn_markers_def Suc_le_eq)
    qed
  qed
qed

lemma open_call_turn_seen: "open_calls events \<noteq> {} \<Longrightarrow> turn_seen (kinds_of events)"
proof (induction events rule: rev_induct)
  case Nil
  then show ?case by (simp add: open_calls_def)
next
  case (snoc e events)
  obtain v n where e: "e = (v, n)" by (cases e)
  from snoc.prems obtain c where c: "(c \<in> open_calls events \<and> leaves_open c e) \<or> opens c e"
    unfolding open_calls_snoc_iff [symmetric] by blast
  show ?case
  proof (cases "opens c e")
    case True
    then have "codex_event_kind v = Some ''function_call''" by (simp add: opens_def e)
    then show ?thesis
      by (simp add: e kinds_of_snoc turn_seen_def last_terminal_def turn_markers_def is_terminal_event_kind_def)
  next
    case False
    with c snoc.IH have seen: "turn_seen (kinds_of events)" and "leaves_open c e" by auto
    then show ?thesis
      by (auto simp: e kinds_of_snoc turn_seen_def last_terminal_def leaves_open_def event_terminal_def Suc_le_eq
          split: option.splits)
  qed
qed

text \<open>The activity of a session is what the events in the tail of its file say.  It is resumable exactly when the
  last event that is recognised ends a turn, and then no call is pending; the pending calls are those whose output and
  whose end of turn are not among the later events; it is active exactly when a turn was seen to begin or to go on after
  the last end of a turn.\<close>

theorem activity_is_what_events_say:
  "sa_turn_complete_resumable (activity_of_events events) = last_terminal (kinds_of events)
   \<and> sa_pending_tool_call_count (activity_of_events events) = card (open_calls events)
   \<and> sa_turn_running_or_active (activity_of_events events) = turn_seen (kinds_of events)
   \<and> sa_scanned_bytes (activity_of_events events) = sum_list (map snd events)
   \<and> sa_status (activity_of_events events) =
       (if last_terminal (kinds_of events) then ''idle-resumable''
        else if open_calls events \<noteq> {} then ''tool-running''
        else if turn_seen (kinds_of events) then ''agent-active'' else ''silent'')"
proof -
  have "activity_of_events events = finish_activity (observe_all events)"
    by (simp add: activity_of_events_def observe_all_def)
  moreover have "card (open_calls events) = 0 \<longleftrightarrow> open_calls events = {}" by (simp add: finite_open_calls)
  moreover have "open_calls events = {} \<or> \<not> last_terminal (kinds_of events) \<and> turn_seen (kinds_of events)"
    using open_call_turn_seen [of events] by (auto simp: turn_seen_def)
  moreover have "\<not> (last_terminal (kinds_of events) \<and> turn_seen (kinds_of events))" by (simp add: turn_seen_def)
  ultimately show ?thesis
    using observe_all_invariant [of events]
    by (auto simp: finish_activity_def Let_def last_terminal_def)
qed

text \<open>
  The tail is cut at a byte: inside a character the read fails and the session is unavailable although its file is
  UTF-8.
\<close>

lemma activity_tail_inside_character:
  defines "content \<equiv> [CHR 0xC3, CHR 0xA9] @ replicate (activity_tail_bytes - 1) (CHR ''x'')"
  shows "utf8_valid content \<and> activity_tail content = Inl ''failed to read rollout''"
proof -
  have "utf8_valid (replicate n (CHR ''x''))" for n by (induction n) simp_all
  moreover have "activity_tail_bytes > 0" by (simp add: activity_tail_bytes_def)
  ultimately show ?thesis
    by (simp add: content_def activity_tail_def Let_def continuation_byte_def)
qed

subsection \<open>Metadata\<close>

text \<open>The metadata that is found is that of the session asked for.\<close>

lemma read_metadata_value_id [simp]:
  "rm_session_id (snd (read_metadata_value session_id v st)) = rm_session_id (snd st)"
  "rm_rollout_path (snd (read_metadata_value session_id v st)) = rm_rollout_path (snd st)"
  by (cases st; simp add: read_metadata_value_def read_session_meta_def read_turn_context_def Let_def)+

lemma read_metadata_lines_id:
  "read_metadata_lines jp session_id ls st = Inr st' \<Longrightarrow>
     rm_session_id (snd st') = rm_session_id (snd st) \<and> rm_rollout_path (snd st') = rm_rollout_path (snd st)"
  by (induction jp session_id ls st rule: read_metadata_lines.induct) (auto split: if_splits option.splits)

lemma metadata_names_session:
  assumes "codex_rollout_session_metadata jp h session_id = Inr (Some m)"
  shows "rm_session_id m = session_id"
proof -
  have one: "rm_session_id m = session_id" if "read_codex_rollout_metadata jp h path session_id = Inr (Some m)" for path
    using that by (auto simp: read_codex_rollout_metadata_def empty_metadata_def
        dest!: read_metadata_lines_id split: sum.splits if_splits)
  have "rm_session_id m = session_id" if "first_metadata jp h session_id paths = Inr (Some m)" for paths
    using that one by (induction paths) (auto split: sum.splits option.splits)
  with assms show ?thesis
    by (auto simp: codex_rollout_session_metadata_def split: option.splits if_splits sum.splits)
qed

text \<open>A window of ages contains only sessions created in it.\<close>

lemma recent_metadata_in_window:
  assumes "codex_rollout_session_metadata_recent jp h session_id now window = Inr (Some m)"
  shows "\<exists>t. rm_rollout_created_at_unix m = Some t \<and> t \<le> now \<and> now \<le> t + window"
  using assms by (auto simp: codex_rollout_session_metadata_recent_def Let_def split: sum.splits option.splits if_splits)

text \<open>At most one of the three variables names the session of the process.\<close>

lemma runtime_session_unique:
  assumes "env_value env ''CODEX_THREAD_ID'' = Some x" "env_value env ''CLAUDE_CODE_SESSION_ID'' = Some y"
  shows "current_agent_runtime_session env = None"
  using assms by (simp add: current_agent_runtime_session_def runtime_sessions_def List.map_filter_def split: list.split)

end
