(* ===== verification/SessionState.thy ===== *)
theory SessionState
  imports Rollout AspCommand Registry
begin

section \<open>The sessions that the hook looks up\<close>

text \<open>
  Models, of \<open>crates/agent-semantic-protocol/src\<close>, \<open>command/agent_session_registry_validation.rs\<close> (a child is
  validated against its profile), \<open>command/agent_session_registry_state.rs\<close> (the lookups of the hook),
  \<open>command/agent_session_registry_tool_event.rs\<close>, \<open>command/hook_runtime_context.rs\<close>,
  \<open>codex/native_agent_transport.rs\<close> and \<open>codex/resident_session_reconcile.rs\<close>.  The table is the list of
  rows of \<open>Registry\<close>; the rollout files, the environment and the configuration files are those of a
  \<open>profile_host\<close>.  The TOML decoder is third-party code and a field of the host.
\<close>

subsection \<open>Profiles of managed agents\<close>

text \<open>A decoded TOML value; a float is the text that \<open>Display\<close> prints for it.\<close>

datatype toml =
  TString string | TInteger int | TFloat string | TBoolean bool | TDatetime string
  | TArray "toml list" | TTable "(string \<times> toml) list"

fun toml_get :: "string \<Rightarrow> toml \<Rightarrow> toml option" where
  "toml_get key (TTable entries) = map_of entries key"
| "toml_get key _ = None"

fun toml_as_str :: "toml \<Rightarrow> string option" where
  "toml_as_str (TString s) = Some s"
| "toml_as_str _ = None"

definition nonblank :: "string \<Rightarrow> string option" where
  "nonblank s = (if str_trim s = [] then None else Some s)"

definition toml_string :: "toml \<Rightarrow> string \<Rightarrow> string option" where
  "toml_string v key = Option.bind (Option.bind (toml_get key v) toml_as_str) nonblank"

definition toml_string_array :: "toml \<Rightarrow> string \<Rightarrow> string list option" where
  "toml_string_array v key =
     (case toml_get key v of
        Some (TArray elements) \<Rightarrow>
          Some (List.map_filter (\<lambda>e. Option.bind (toml_as_str e) nonblank) elements)
      | _ \<Rightarrow> None)"

definition toml_f64 :: "toml \<Rightarrow> string \<Rightarrow> string option" where
  "toml_f64 v key = (case toml_get key v of Some (TFloat f) \<Rightarrow> Some f | _ \<Rightarrow> None)"

datatype validated_agent_kind = AspExplore | AspTesting

definition config_file_name :: "validated_agent_kind \<Rightarrow> string" where
  "config_file_name kind =
     (case kind of AspExplore \<Rightarrow> ''asp-explorer.toml'' | AspTesting \<Rightarrow> ''asp-testing.toml'')"

definition canonical_codex_config_file_name :: "validated_agent_kind \<Rightarrow> string" where
  "canonical_codex_config_file_name kind =
     (case kind of AspExplore \<Rightarrow> ''asp-explorer_codex.toml'' | AspTesting \<Rightarrow> ''asp-testing_codex.toml'')"

definition default_role :: "validated_agent_kind \<Rightarrow> string" where
  "default_role kind = (case kind of AspExplore \<Rightarrow> ''asp_explorer'' | AspTesting \<Rightarrow> ''asp_testing'')"

definition agent_config_key :: "validated_agent_kind \<Rightarrow> string" where
  "agent_config_key kind = (case kind of AspExplore \<Rightarrow> ''asp_explorer'' | AspTesting \<Rightarrow> ''asp_testing'')"

definition identity_char :: "string \<Rightarrow> char" where
  "identity_char ch =
     (case ch of [c] \<Rightarrow> if is_ascii_alphanumeric c then ascii_lower c else CHR ''_'' | _ \<Rightarrow> CHR ''_'')"

definition normalize_agent_identity :: "string \<Rightarrow> string" where
  "normalize_agent_identity v =
     str_join ''_''
       (filter (\<lambda>part. part \<noteq> [])
          (split_by (\<lambda>c. c = CHR ''_'') (map identity_char (rust_chars (str_trim v)))))"

definition agent_kind_of_identity :: "string \<Rightarrow> validated_agent_kind option" where
  "agent_kind_of_identity identity =
     (if identity = ''asp_explore'' \<or> identity = ''asp_explorer'' then Some AspExplore
      else if identity = ''asp_testing'' then Some AspTesting else None)"

definition validated_agent_kind_of :: "string \<Rightarrow> string \<Rightarrow> validated_agent_kind option" where
  "validated_agent_kind_of name role =
     find_map (\<lambda>v. agent_kind_of_identity (normalize_agent_identity v)) [name, role]"

definition canonical_host_agent_identity_path_matches :: "string \<Rightarrow> string \<Rightarrow> bool" where
  "canonical_host_agent_identity_path_matches path expected_role =
     (case find (\<lambda>segment. segment \<noteq> []) (rev (split_by is_slash path)) of
        None \<Rightarrow> False
      | Some segment \<Rightarrow>
          let stem = (case strip_suffix ''.toml'' segment of Some s \<Rightarrow> s | None \<Rightarrow> segment);
              identity = normalize_agent_identity stem;
              identity' = (case strip_suffix ''_codex'' identity of Some s \<Rightarrow> s | None \<Rightarrow> identity)
          in identity' = normalize_agent_identity expected_role)"

subsection \<open>The expected profile\<close>

text \<open>What the process sees: its environment and the files of the configuration.\<close>

record profile_host =
  ph_env :: process_env
  ph_state_home :: "string + string"
  ph_exists :: "string \<Rightarrow> bool"
  ph_read :: "string \<Rightarrow> string + string"
  ph_toml :: "string \<Rightarrow> string + toml"
  ph_canonicalize :: "string \<Rightarrow> string option"
  ph_rollouts :: rollout_host

record expected_profile =
  ep_config_path :: string
  ep_role :: string
  ep_model :: string
  ep_reasoning_effort :: "string option"
  ep_fallback_models :: "string list"
  ep_capacity_threshold :: "string option"
  ep_sandbox :: string

record model_switch_config =
  sw_primary_model :: "string option"
  sw_agent_models :: "(string \<times> string) list"
  sw_fallback_models :: "string list"
  sw_capacity_threshold :: "string option"

definition default_model_switch :: model_switch_config where
  "default_model_switch =
     \<lparr>sw_primary_model = None, sw_agent_models = [], sw_fallback_models = [], sw_capacity_threshold = None\<rparr>"

definition codex_agent_model_overrides :: "toml \<Rightarrow> (string \<times> string) list" where
  "codex_agent_model_overrides v =
     (case toml_get ''agents'' v of
        Some (TTable agents) \<Rightarrow>
          List.map_filter (\<lambda>(key, agent). map_option (\<lambda>model. (key, model)) (toml_string agent ''model'')) agents
      | _ \<Rightarrow> [])"

definition codex_model_switch_config :: "toml \<Rightarrow> model_switch_config" where
  "codex_model_switch_config v =
     (let models = Option.bind (Option.bind (toml_get ''platform'' v) (toml_get ''codex'')) (toml_get ''models'')
      in \<lparr>sw_primary_model =
            Option.bind models (\<lambda>m. or_else (toml_string m ''primary'') (toml_string m ''primaryModel'')),
          sw_agent_models = codex_agent_model_overrides v,
          sw_fallback_models =
            (case Option.bind models (\<lambda>m. or_else (toml_string_array m ''fallback'') (toml_string_array m ''fallbackModels'')) of
               Some fallbacks \<Rightarrow> fallbacks | None \<Rightarrow> []),
          sw_capacity_threshold = Option.bind models (\<lambda>m. toml_f64 m ''capacityThreshold'')\<rparr>)"

definition agent_model :: "model_switch_config \<Rightarrow> validated_agent_kind \<Rightarrow> string option" where
  "agent_model sw kind = map_of (sw_agent_models sw) (agent_config_key kind)"

text \<open>Reading and decoding a configuration file.\<close>

definition read_toml :: "profile_host \<Rightarrow> string \<Rightarrow> string + toml" where
  "read_toml ph path =
     result_bind (map_err (\<lambda>error. ''failed to read '' @ path @ '': '' @ error) (ph_read ph path)) (\<lambda>content.
       map_err (\<lambda>error. ''failed to parse '' @ path @ '': '' @ error) (ph_toml ph content))"

definition asp_agent_canonical_config_path :: "profile_host \<Rightarrow> validated_agent_kind \<Rightarrow> string + string" where
  "asp_agent_canonical_config_path ph kind =
     map_sum id (\<lambda>home. path_join (path_join home ''agents'') (canonical_codex_config_file_name kind)) (ph_state_home ph)"

definition asp_agents_config_path :: "profile_host \<Rightarrow> string + string" where
  "asp_agents_config_path ph =
     map_sum id (\<lambda>home. path_join (path_join home ''agents'') ''config.toml'') (ph_state_home ph)"

definition load_codex_model_switch_config :: "profile_host \<Rightarrow> string + model_switch_config" where
  "load_codex_model_switch_config ph =
     result_bind (asp_agents_config_path ph) (\<lambda>path.
       if \<not> ph_exists ph path then Inr default_model_switch
       else map_sum id codex_model_switch_config (read_toml ph path))"

definition codex_home :: "process_env \<Rightarrow> string" where
  "codex_home env =
     (case env ''CODEX_HOME'' of
        Some home \<Rightarrow> home
      | None \<Rightarrow> (case env ''HOME'' of Some home \<Rightarrow> path_join home ''.codex'' | None \<Rightarrow> ''.codex''))"

definition load_expected_agent_profile :: "profile_host \<Rightarrow> validated_agent_kind \<Rightarrow> string + expected_profile" where
  "load_expected_agent_profile ph kind =
     (let host_path = path_join (path_join (codex_home (ph_env ph)) ''agents'') (config_file_name kind) in
      result_bind (asp_agent_canonical_config_path ph kind) (\<lambda>canonical_path.
        let path = (if ph_exists ph canonical_path then canonical_path else host_path) in
        result_bind (read_toml ph path) (\<lambda>v.
        let role = (case toml_string v ''name'' of Some s \<Rightarrow> s | None \<Rightarrow> default_role kind) in
        result_bind (ok_or (path @ '' missing `model`'') (toml_string v ''model'')) (\<lambda>model.
        result_bind (load_codex_model_switch_config ph) (\<lambda>sw.
        let primary = (case or_else (agent_model sw kind) (sw_primary_model sw) of Some m \<Rightarrow> m | None \<Rightarrow> model) in
        result_bind (ok_or (path @ '' missing `sandbox_mode`'') (toml_string v ''sandbox_mode'')) (\<lambda>sandbox.
        Inr \<lparr>ep_config_path = path, ep_role = role, ep_model = primary,
             ep_reasoning_effort = toml_string v ''model_reasoning_effort'',
             ep_fallback_models = sw_fallback_models sw,
             ep_capacity_threshold = sw_capacity_threshold sw, ep_sandbox = sandbox\<rparr>))))))"

definition expected_model_for_session_profile :: "profile_host \<Rightarrow> string \<Rightarrow> string \<Rightarrow> string + string option" where
  "expected_model_for_session_profile ph name role =
     (case validated_agent_kind_of name role of
        None \<Rightarrow> Inr None
      | Some kind \<Rightarrow> map_sum id (\<lambda>p. Some (ep_model p)) (load_expected_agent_profile ph kind))"

definition expected_reasoning_effort_for_session_profile ::
  "profile_host \<Rightarrow> string \<Rightarrow> string \<Rightarrow> string + string option" where
  "expected_reasoning_effort_for_session_profile ph name role =
     (case validated_agent_kind_of name role of
        None \<Rightarrow> Inr None
      | Some kind \<Rightarrow> map_sum id ep_reasoning_effort (load_expected_agent_profile ph kind))"


subsection \<open>Validation of a child against its profile\<close>

record validation_report =
  vr_status :: string
  vr_reason :: string
  vr_config_path :: "string option"
  vr_rollout_path :: "string option"
  vr_expected_root_session_id :: "string option"
  vr_actual_root_session_id :: "string option"
  vr_expected_parent_thread_id :: "string option"
  vr_actual_parent_thread_id :: "string option"
  vr_expected_agent_path :: "string option"
  vr_actual_agent_path :: "string option"
  vr_expected_role :: "string option"
  vr_actual_role :: "string option"
  vr_expected_model :: "string option"
  vr_actual_model :: "string option"
  vr_expected_reasoning_effort :: "string option"
  vr_actual_reasoning_effort :: "string option"
  vr_expected_sandbox :: "string option"
  vr_actual_sandbox :: "string option"

definition empty_report :: "string \<Rightarrow> string \<Rightarrow> validation_report" where
  "empty_report status reason =
     \<lparr>vr_status = status, vr_reason = reason, vr_config_path = None, vr_rollout_path = None,
      vr_expected_root_session_id = None, vr_actual_root_session_id = None,
      vr_expected_parent_thread_id = None, vr_actual_parent_thread_id = None,
      vr_expected_agent_path = None, vr_actual_agent_path = None,
      vr_expected_role = None, vr_actual_role = None,
      vr_expected_model = None, vr_actual_model = None,
      vr_expected_reasoning_effort = None, vr_actual_reasoning_effort = None,
      vr_expected_sandbox = None, vr_actual_sandbox = None\<rparr>"

definition or_missing :: "string option \<Rightarrow> string" where
  "or_missing v = (case v of Some s \<Rightarrow> s | None \<Rightarrow> ''<missing>'')"

text \<open>\<open>Some(match pass_reason.take() \<dots>)\<close>: a reason is appended to those before it.\<close>

definition add_pass_reason :: "string \<Rightarrow> string option \<Rightarrow> string option" where
  "add_pass_reason reason pass =
     Some (case pass of Some existing \<Rightarrow> existing @ ''; '' @ reason | None \<Rightarrow> reason)"

text \<open>The checks push to \<open>failures\<close> and replace \<open>pass_reason\<close>; they read the metadata \<open>m\<close> and the profile \<open>p\<close>.\<close>

type_synonym validation_state = "string list \<times> string option"

definition push_failure :: "string \<Rightarrow> validation_state \<Rightarrow> validation_state" where
  "push_failure failure st = (fst st @ [failure], snd st)"

definition note_pass :: "string \<Rightarrow> validation_state \<Rightarrow> validation_state" where
  "note_pass reason st = (fst st, add_pass_reason reason (snd st))"

definition check_lineage :: "string \<Rightarrow> rollout_metadata \<Rightarrow> validation_state \<Rightarrow> validation_state" where
  "check_lineage root m st =
     (let st = (if rm_thread_source m \<noteq> Some ''subagent''
                then push_failure (''threadSource expected subagent got '' @ or_missing (rm_thread_source m)) st else st);
          st = (if rm_root_session_id m \<noteq> Some root
                then push_failure (''rootSessionId expected '' @ root @ '' got '' @ or_missing (rm_root_session_id m)) st else st);
          st = (if rm_parent_thread_id m \<noteq> Some root
                then push_failure (''parentThreadId expected '' @ root @ '' got '' @ or_missing (rm_parent_thread_id m)) st else st)
      in if rm_spawn_depth m \<noteq> Some 1
         then push_failure (''spawnDepth expected 1 for resident child got ''
                @ or_missing (map_option show_int (rm_spawn_depth m))) st
         else st)"

definition normalized_path_string :: "profile_host \<Rightarrow> string \<Rightarrow> string" where
  "normalized_path_string ph path = (case ph_canonicalize ph path of Some p \<Rightarrow> p | None \<Rightarrow> path)"

definition actual_agent_path_of :: "profile_host \<Rightarrow> rollout_metadata \<Rightarrow> string option" where
  "actual_agent_path_of ph m = map_option (normalized_path_string ph) (rm_agent_path m)"

definition canonical_path_of :: "profile_host \<Rightarrow> expected_profile \<Rightarrow> rollout_metadata \<Rightarrow> bool" where
  "canonical_path_of ph p m =
     (case actual_agent_path_of ph m of
        None \<Rightarrow> False | Some path \<Rightarrow> canonical_host_agent_identity_path_matches path (ep_role p))"

definition exact_role_of :: "expected_profile \<Rightarrow> rollout_metadata \<Rightarrow> bool" where
  "exact_role_of p m =
     (case rm_agent_role m of
        None \<Rightarrow> False | Some role \<Rightarrow> normalize_agent_identity role = normalize_agent_identity (ep_role p))"

definition check_role :: "profile_host \<Rightarrow> expected_profile \<Rightarrow> rollout_metadata \<Rightarrow> validation_state \<Rightarrow> validation_state" where
  "check_role ph p m st =
     (case rm_agent_role m of
        Some role \<Rightarrow>
          if exact_role_of p m then st
          else if role = ''default'' \<and> canonical_path_of ph p m then
            note_pass (''agentRole default accepted only because canonical host agent path proves '' @ ep_role p) st
          else push_failure (''agentRole expected '' @ ep_role p @ '' got '' @ role) st
      | None \<Rightarrow>
          if canonical_path_of ph p m then
            note_pass (''agentRole missing accepted only because parent-owned canonical host agent path proves '' @ ep_role p) st
          else push_failure (''agentRole expected '' @ ep_role p @ '' got <missing>'') st)"

definition check_agent_path :: "profile_host \<Rightarrow> expected_profile \<Rightarrow> rollout_metadata \<Rightarrow> validation_state \<Rightarrow> validation_state" where
  "check_agent_path ph p m st =
     (let expected = normalized_path_string ph (ep_config_path p) in
      case actual_agent_path_of ph m of
        Some actual \<Rightarrow>
          if actual = expected \<or> canonical_path_of ph p m then st
          else push_failure (''agentPath expected '' @ expected @ '' got '' @ actual) st
      | None \<Rightarrow>
          if exact_role_of p m then
            note_pass (''agentPath missing in rollout; validating against expected config '' @ expected
                       @ '' by role/model/root/parent'') st
          else push_failure (''agentPath missing and agentRole does not prove expected managed profile '' @ ep_role p) st)"

definition repair_advice :: string where
  "repair_advice =
     ''. identity remains adoptable for same-child repair; requiredAction=main-agent-followup-existing-child-with-natural-language-runtime-switch; runtimeEvidence=fresh-host-observation''"

definition check_model :: "expected_profile \<Rightarrow> string option \<Rightarrow> validation_state \<Rightarrow> validation_state" where
  "check_model p actual_model st =
     (case actual_model of
        Some actual \<Rightarrow>
          if actual = ep_model p then st
          else if actual \<in> set (ep_fallback_models p) then
            (fst st,
             Some (''model matches configured fallback '' @ actual @ ''; primaryModel='' @ ep_model p
                   @ '' fallbackModels='' @ str_join '','' (ep_fallback_models p)
                   @ '' capacityThreshold='' @ (case ep_capacity_threshold p of Some t \<Rightarrow> t | None \<Rightarrow> ''unset'')))
          else note_pass (''child-session runtime model drift observed: host observed '' @ actual
                 @ '', configured managed-child profile expects '' @ ep_model p @ repair_advice) st
      | None \<Rightarrow>
          note_pass (''child-session runtime model observation is missing; configured managed-child profile expects ''
            @ ep_model p @ repair_advice) st)"

definition check_reasoning_effort :: "expected_profile \<Rightarrow> string option \<Rightarrow> validation_state \<Rightarrow> validation_state" where
  "check_reasoning_effort p actual_effort st =
     (case ep_reasoning_effort p of
        None \<Rightarrow> st
      | Some expected \<Rightarrow>
          (case actual_effort of
             Some actual \<Rightarrow>
               if actual = expected then st
               else note_pass (''child-session runtime reasoning drift observed: host observed '' @ actual
                      @ '', configured managed-child profile expects '' @ expected @ repair_advice) st
           | None \<Rightarrow>
               note_pass (''child-session runtime reasoning observation is missing; configured managed-child profile expects ''
                 @ expected @ repair_advice) st))"

definition sandbox_policy_mismatch_reason :: "string \<Rightarrow> string option \<Rightarrow> string option" where
  "sandbox_policy_mismatch_reason expected actual =
     (if actual = Some expected then None
      else Some (''sandbox expected '' @ expected @ '' got '' @ or_missing actual))"

definition sandbox_warnings :: "expected_profile \<Rightarrow> rollout_metadata \<Rightarrow> string list" where
  "sandbox_warnings p m =
     (case sandbox_policy_mismatch_reason (ep_sandbox p) (rm_sandbox_policy m) of
        None \<Rightarrow> []
      | Some reason \<Rightarrow>
          [reason @ ''; sandboxVerificationStatus=host-inherited-drift-warning; sandboxPolicy=warning-only-host-inherited; sandboxAffectsReady=false''])"

definition observed_model_of :: "rollout_metadata \<Rightarrow> string option" where
  "observed_model_of m = or_else (rm_model m) (rm_collaboration_model m)"

definition profile_checks :: "profile_host \<Rightarrow> expected_profile \<Rightarrow> string \<Rightarrow> rollout_metadata \<Rightarrow> validation_state" where
  "profile_checks ph p root m =
     check_reasoning_effort p (rm_reasoning_effort m)
       (check_model p (observed_model_of m)
         (check_agent_path ph p m (check_role ph p m (check_lineage root m ([], None)))))"

definition report_of_metadata ::
  "profile_host \<Rightarrow> validated_agent_kind \<Rightarrow> expected_profile \<Rightarrow> string \<Rightarrow> rollout_metadata \<Rightarrow> validation_report" where
  "report_of_metadata ph kind p root m =
     (case profile_checks ph p root m of
        (failures, pass_reason) \<Rightarrow>
          let warnings = sandbox_warnings p m in
          \<lparr>vr_status = (if failures \<noteq> [] then ''failed'' else if warnings \<noteq> [] then ''warning'' else ''passed''),
           vr_reason =
             (if failures \<noteq> [] then str_join ''; '' failures
              else if warnings \<noteq> [] then str_join ''; '' warnings
              else (case pass_reason of
                      Some reason \<Rightarrow> reason
                    | None \<Rightarrow> ''Codex rollout metadata matches '' @ default_role kind @ '' profile'')),
           vr_config_path = Some (ep_config_path p), vr_rollout_path = Some (rm_rollout_path m),
           vr_expected_root_session_id = Some root, vr_actual_root_session_id = rm_root_session_id m,
           vr_expected_parent_thread_id = Some root, vr_actual_parent_thread_id = rm_parent_thread_id m,
           vr_expected_agent_path = Some (normalized_path_string ph (ep_config_path p)),
           vr_actual_agent_path = actual_agent_path_of ph m,
           vr_expected_role = Some (ep_role p), vr_actual_role = rm_agent_role m,
           vr_expected_model = Some (ep_model p), vr_actual_model = observed_model_of m,
           vr_expected_reasoning_effort = ep_reasoning_effort p,
           vr_actual_reasoning_effort = rm_reasoning_effort m,
           vr_expected_sandbox = Some (ep_sandbox p), vr_actual_sandbox = rm_sandbox_policy m\<rparr>)"

definition missing_rollout_report :: "profile_host \<Rightarrow> expected_profile \<Rightarrow> string \<Rightarrow> string \<Rightarrow> validation_report" where
  "missing_rollout_report ph p root session_id =
     (empty_report ''failed'' (''Codex rollout metadata not found for child session `'' @ session_id @ ''`''))
       \<lparr>vr_config_path := Some (ep_config_path p),
        vr_expected_root_session_id := Some root, vr_expected_parent_thread_id := Some root,
        vr_expected_agent_path := Some (normalized_path_string ph (ep_config_path p)),
        vr_expected_role := Some (ep_role p), vr_expected_model := Some (ep_model p),
        vr_expected_reasoning_effort := ep_reasoning_effort p, vr_expected_sandbox := Some (ep_sandbox p)\<rparr>"

text \<open>
  The historical lookup and that of a registration differ only in a name: both read the same metadata and give
  the same reason when there is none.
\<close>

definition validate_session_profile ::
  "json_parser \<Rightarrow> profile_host \<Rightarrow> string \<Rightarrow> string \<Rightarrow> string \<Rightarrow> string \<Rightarrow> string + validation_report" where
  "validate_session_profile jp ph session_id root name role =
     (case validated_agent_kind_of name role of
        None \<Rightarrow> Inr (empty_report ''skipped'' ''session role does not require Codex rollout profile validation'')
      | Some kind \<Rightarrow>
          (case load_expected_agent_profile ph kind of
             Inl error \<Rightarrow>
               Inr ((empty_report ''failed'' error)
                 \<lparr>vr_expected_root_session_id := Some root, vr_expected_parent_thread_id := Some root,
                  vr_expected_role := Some (default_role kind)\<rparr>)
           | Inr p \<Rightarrow>
               result_bind (codex_rollout_session_metadata jp (ph_rollouts ph) session_id) (\<lambda>metadata.
                 Inr (case metadata of
                        None \<Rightarrow> missing_rollout_report ph p root session_id
                      | Some m \<Rightarrow> report_of_metadata ph kind p root m))))"

definition rollout_metadata_matches_managed_agent_profile ::
  "profile_host \<Rightarrow> string \<Rightarrow> string \<Rightarrow> rollout_metadata \<Rightarrow> bool" where
  "rollout_metadata_matches_managed_agent_profile ph name role m =
     (case validated_agent_kind_of name role of
        None \<Rightarrow> False
      | Some kind \<Rightarrow>
          let expected_role = (case load_expected_agent_profile ph kind of Inr p \<Rightarrow> ep_role p | Inl _ \<Rightarrow> default_role kind);
              configured_role_matches =
                (case rm_agent_role m of
                   None \<Rightarrow> False
                 | Some agent_role \<Rightarrow>
                     normalize_agent_identity agent_role = normalize_agent_identity expected_role
                     \<or> normalize_agent_identity agent_role = normalize_agent_identity (default_role kind));
              canonical_path_matches =
                (case rm_agent_path m of
                   None \<Rightarrow> False
                 | Some path \<Rightarrow> canonical_host_agent_identity_path_matches path expected_role);
              direct_child =
                (rm_thread_source m = Some ''subagent'' \<and> rm_spawn_depth m = Some 1
                 \<and> rm_root_session_id m \<noteq> None \<and> rm_root_session_id m = rm_parent_thread_id m)
          in direct_child \<and> (configured_role_matches \<or> canonical_path_matches))"

subsection \<open>Opening the registry\<close>

text \<open>
  The registry is a file that may not exist (\<open>None\<close>).  Opening an existing one expires its rows first.  Each
  lookup below opens it again and hands on the rows that it leaves.  A statement on an open registry is
  assumed to succeed; opening it may fail.
\<close>

type_synonym registry_file = "session_table option"

record session_host =
  sh_profile :: profile_host
  sh_open :: "string + unit"
  sh_lock_acquired :: bool
  sh_now :: "string + int"
  sh_current_dir :: "string + string"

definition open_existing_registry :: "session_host \<Rightarrow> registry_file \<Rightarrow> string + registry_file" where
  "open_existing_registry sh file =
     result_bind (ph_state_home (sh_profile sh)) (\<lambda>_.
       case file of
         None \<Rightarrow> Inr None
       | Some rows \<Rightarrow>
           result_bind (sh_open sh) (\<lambda>_. result_bind (sh_now sh) (\<lambda>now.
             Inr (Some (refresh_expired_sessions (sh_lock_acquired sh) now rows)))))"

type_synonym 'a lookup = "(string + 'a) \<times> registry_file"

definition with_registry ::
  "session_host \<Rightarrow> registry_file \<Rightarrow> 'a \<Rightarrow> (session_table \<Rightarrow> (string + 'a) \<times> session_table) \<Rightarrow> 'a lookup" where
  "with_registry sh file absent f =
     (case open_existing_registry sh file of
        Inl error \<Rightarrow> (Inl error, file)
      | Inr None \<Rightarrow> (Inr absent, file)
      | Inr (Some rows) \<Rightarrow> (case f rows of (result, rows') \<Rightarrow> (result, Some rows')))"

definition sh_env :: "session_host \<Rightarrow> process_env" where
  "sh_env sh = ph_env (sh_profile sh)"

definition sh_rollouts :: "session_host \<Rightarrow> rollout_host" where
  "sh_rollouts sh = ph_rollouts (sh_profile sh)"

definition runtime_session_of :: "session_host \<Rightarrow> runtime_session option" where
  "runtime_session_of sh = current_agent_runtime_session (sh_env sh)"

definition current_root_session_id :: "json_parser \<Rightarrow> session_host \<Rightarrow> string option" where
  "current_root_session_id jp sh = current_agent_runtime_root_session_id jp (sh_rollouts sh) (sh_env sh)"

definition has_current_agent_session :: "session_host \<Rightarrow> bool" where
  "has_current_agent_session sh \<longleftrightarrow> runtime_session_of sh \<noteq> None"

definition non_empty_session_env :: "process_env \<Rightarrow> string \<Rightarrow> string option" where
  "non_empty_session_env env name = Option.bind (env name) nonblank"

definition current_agent_session_id :: "session_host \<Rightarrow> string option" where
  "current_agent_session_id sh =
     or_else (non_empty_session_env (sh_env sh) ''CODEX_THREAD_ID'')
       (or_else (non_empty_session_env (sh_env sh) ''CLAUDE_SESSION_ID'')
          (map_option ss_id (runtime_session_of sh)))"

definition project_scope_id :: "session_host \<Rightarrow> string \<Rightarrow> string" where
  "project_scope_id sh root = normalized_path_string (sh_profile sh) root"

definition current_agent_project_scope_id :: "json_parser \<Rightarrow> session_host \<Rightarrow> session_table \<Rightarrow> string option" where
  "current_agent_project_scope_id jp sh rows =
     (case Option.bind (runtime_session_of sh) (\<lambda>session. session_by_id_any_project (ss_id session) rows) of
        Some r \<Rightarrow> Some (rec_project_id r)
      | None \<Rightarrow>
          Option.bind (current_root_session_id jp sh) (\<lambda>root. project_id_for_root_session_id root rows))"

definition project_session_scope_id :: "json_parser \<Rightarrow> session_host \<Rightarrow> session_table \<Rightarrow> string \<Rightarrow> string" where
  "project_session_scope_id jp sh rows root =
     (case current_agent_project_scope_id jp sh rows of Some p \<Rightarrow> p | None \<Rightarrow> project_scope_id sh root)"

definition current_project_session_scope_id :: "json_parser \<Rightarrow> session_host \<Rightarrow> session_table \<Rightarrow> string + string" where
  "current_project_session_scope_id jp sh rows =
     (case current_agent_project_scope_id jp sh rows of
        Some p \<Rightarrow> Inr p
      | None \<Rightarrow>
          map_sum (\<lambda>error. ''failed to read current directory: '' @ error) (project_scope_id sh) (sh_current_dir sh))"

definition current_recall_session_id ::
  "json_parser \<Rightarrow> session_host \<Rightarrow> session_table \<Rightarrow> string + string option" where
  "current_recall_session_id jp sh rows =
     (case runtime_session_of sh of
        None \<Rightarrow> Inr None
      | Some session \<Rightarrow>
          result_bind (current_project_session_scope_id jp sh rows) (\<lambda>project.
            Inr (Some (case session_by_id project (ss_id session) rows of
                         Some r \<Rightarrow> rec_root_session_id r
                       | None \<Rightarrow> (case current_root_session_id jp sh of Some root \<Rightarrow> root | None \<Rightarrow> ss_id session)))))"

definition resolved_root_session_id ::
  "json_parser \<Rightarrow> session_host \<Rightarrow> session_table \<Rightarrow> string option \<Rightarrow> string + string option" where
  "resolved_root_session_id jp sh rows explicit =
     (case explicit of Some root \<Rightarrow> Inr (Some root) | None \<Rightarrow> current_recall_session_id jp sh rows)"

definition required_non_empty :: "string option \<Rightarrow> string \<Rightarrow> string + string" where
  "required_non_empty v name =
     (case v of
        None \<Rightarrow> Inl (''asp agent session requires '' @ name)
      | Some s \<Rightarrow> if str_trim s = [] then Inl (name @ '' must not be empty'') else Inr (str_trim s))"

subsection \<open>Lookups\<close>

definition registered_root_session_id ::
  "json_parser \<Rightarrow> session_host \<Rightarrow> registry_file \<Rightarrow> string \<Rightarrow> string \<Rightarrow> string option lookup" where
  "registered_root_session_id jp sh file root session_id =
     with_registry sh file None (\<lambda>rows.
       (Inr (map_option rec_root_session_id
               (session_by_id (project_session_scope_id jp sh rows root) session_id rows)), rows))"

definition current_registered_session ::
  "json_parser \<Rightarrow> session_host \<Rightarrow> registry_file \<Rightarrow> string \<Rightarrow> agent_session_record option lookup" where
  "current_registered_session jp sh file root =
     (case runtime_session_of sh of
        None \<Rightarrow> (Inr None, file)
      | Some session \<Rightarrow>
          with_registry sh file None (\<lambda>rows.
            case session_by_id (project_session_scope_id jp sh rows root) (ss_id session) rows of
              None \<Rightarrow> (Inr None, rows)
            | Some r \<Rightarrow>
                (case sh_now sh of
                   Inl error \<Rightarrow> (Inl error, rows)
                 | Inr now \<Rightarrow>
                     (Inr (if is_routable_at r now then Some r else None),
                      refresh_expired_sessions (sh_lock_acquired sh) now rows))))"

definition current_registered_session_identity ::
  "json_parser \<Rightarrow> session_host \<Rightarrow> registry_file \<Rightarrow> string \<Rightarrow> agent_session_record option lookup" where
  "current_registered_session_identity jp sh file root =
     (case runtime_session_of sh of
        None \<Rightarrow> (Inr None, file)
      | Some session \<Rightarrow>
          with_registry sh file None (\<lambda>rows.
            (Inr (session_by_id (project_session_scope_id jp sh rows root) (ss_id session) rows), rows)))"

datatype identity_proof =
  CodexHookPayload | RegistryExact | CodexTranscriptRegistryExact | CodexRolloutMetadata

definition names_resident_child :: "agent_session_record \<Rightarrow> string \<Rightarrow> string \<Rightarrow> bool" where
  "names_resident_child r child_name agent_role \<longleftrightarrow> rec_name r = child_name \<or> rec_role r = agent_role"

text \<open>The part of the proof that reads the rollout of the session; \<open>registered\<close> is the registry, when there is one.\<close>

definition rollout_identity_proof ::
  "json_parser \<Rightarrow> session_host \<Rightarrow> (session_table \<times> string) option \<Rightarrow> string \<Rightarrow> string \<Rightarrow> string
     \<Rightarrow> string + identity_proof option" where
  "rollout_identity_proof jp sh registered session_id child_name agent_role =
     result_bind (codex_rollout_session_metadata jp (sh_rollouts sh) session_id) (\<lambda>metadata.
       Inr (case metadata of
              None \<Rightarrow> None
            | Some m \<Rightarrow>
                (case rm_root_session_id m of
                   None \<Rightarrow> None
                 | Some root_session \<Rightarrow>
                     if root_session = session_id
                        \<or> \<not> rollout_metadata_matches_managed_agent_profile (sh_profile sh) child_name agent_role m
                     then None
                     else (case registered of
                             Some (rows, project) \<Rightarrow>
                               if session_by_name project root_session child_name rows \<noteq> None then None
                               else Some CodexRolloutMetadata
                           | None \<Rightarrow> Some CodexRolloutMetadata))))"

definition current_resident_child_identity_proof ::
  "json_parser \<Rightarrow> session_host \<Rightarrow> registry_file \<Rightarrow> string \<Rightarrow> string \<Rightarrow> string \<Rightarrow> identity_proof option lookup" where
  "current_resident_child_identity_proof jp sh file root child_name agent_role =
     (case runtime_session_of sh of
        None \<Rightarrow> (Inr None, file)
      | Some session \<Rightarrow>
          (case open_existing_registry sh file of
             Inl error \<Rightarrow> (Inl error, file)
           | Inr None \<Rightarrow> (rollout_identity_proof jp sh None (ss_id session) child_name agent_role, None)
           | Inr (Some rows) \<Rightarrow>
               let project = project_session_scope_id jp sh rows root in
               (case session_by_id project (ss_id session) rows of
                  Some r \<Rightarrow> (Inr (then_some (names_resident_child r child_name agent_role) RegistryExact), Some rows)
                | None \<Rightarrow>
                    (rollout_identity_proof jp sh (Some (rows, project)) (ss_id session) child_name agent_role,
                     Some rows))))"

definition transcript_resident_child_identity_proof ::
  "json_parser \<Rightarrow> session_host \<Rightarrow> registry_file \<Rightarrow> string \<Rightarrow> string \<Rightarrow> string \<Rightarrow> string \<Rightarrow> string
     \<Rightarrow> identity_proof option lookup" where
  "transcript_resident_child_identity_proof jp sh file root transcript_session root_session child_name agent_role =
     with_registry sh file None (\<lambda>rows.
       (Inr (Option.bind (session_by_id (project_session_scope_id jp sh rows root) transcript_session rows) (\<lambda>r.
               then_some (rec_root_session_id r = root_session
                          \<and> rec_session_id r \<noteq> rec_root_session_id r
                          \<and> names_resident_child r child_name agent_role)
                 CodexTranscriptRegistryExact)), rows))"

definition uuid_shaped :: "string \<Rightarrow> bool" where
  "uuid_shaped candidate \<longleftrightarrow>
     length candidate = 36
     \<and> list_all (\<lambda>(index, c). if index \<in> {8, 13, 18, 23} then c = CHR ''-'' else is_hexdigit c)
         (enumerate 0 candidate)"

text \<open>A cut inside a character gives no candidate in the source, and one that is not shaped like a UUID here.\<close>

definition codex_transcript_session_id :: "string \<Rightarrow> string option" where
  "codex_transcript_session_id path =
     Option.bind (path_file_stem path) (\<lambda>stem.
       if length stem < 36 then None
       else let candidate = drop (length stem - 36) stem in
            then_some (uuid_shaped candidate) (to_ascii_lowercase candidate))"

definition codex_transcript_resident_child_identity_proof ::
  "json_parser \<Rightarrow> session_host \<Rightarrow> registry_file \<Rightarrow> string \<Rightarrow> json \<Rightarrow> string \<Rightarrow> string \<Rightarrow> identity_proof option lookup" where
  "codex_transcript_resident_child_identity_proof jp sh file root payload child_name agent_role =
     (case (Option.bind (json_get_any_str [''transcript_path'', ''transcriptPath''] payload) codex_transcript_session_id,
            json_get_any_str [''session_id'', ''sessionId''] payload) of
        (Some transcript_session, Some root_session) \<Rightarrow>
          if transcript_session = root_session then (Inr None, file)
          else transcript_resident_child_identity_proof jp sh file root transcript_session root_session
                 child_name agent_role
      | _ \<Rightarrow> (Inr None, file))"

subsection \<open>Rows that messages may be routed to\<close>

definition stored_session_validation_allows_routing :: "json_parser \<Rightarrow> agent_session_record \<Rightarrow> bool" where
  "stored_session_validation_allows_routing jp r =
     (case jp (rec_metadata_json r) of
        None \<Rightarrow> False
      | Some metadata \<Rightarrow>
          (case Option.bind (json_get ''validation'' metadata) as_object of
             None \<Rightarrow> False
           | Some members \<Rightarrow>
               let at = (\<lambda>key. Option.bind (map_of members key) as_str) in
               at ''status'' \<in> {Some ''passed'', Some ''warning'', Some ''skipped''}
               \<and> at ''expectedRootSessionId'' = Some (rec_root_session_id r)
               \<and> at ''actualRootSessionId'' = Some (rec_root_session_id r)
               \<and> at ''actualRole'' \<noteq> None))"

definition session_record_validation_allows_routing ::
  "json_parser \<Rightarrow> session_host \<Rightarrow> agent_session_record \<Rightarrow> int \<Rightarrow> session_table
     \<Rightarrow> (string + bool) \<times> session_table" where
  "session_record_validation_allows_routing jp sh r now rows =
     (case validate_session_profile jp (sh_profile sh) (rec_session_id r) (rec_root_session_id r)
             (rec_name r) (rec_role r) of
        Inl error \<Rightarrow> (Inl error, rows)
      | Inr report \<Rightarrow>
          if vr_status report = ''failed'' then
            if starts_with (vr_reason report) ''Codex rollout metadata not found''
               \<and> stored_session_validation_allows_routing jp r
            then (Inr True, rows)
            else (Inr False,
                  snd (update_session_status (rec_project_id r) (rec_session_id r) ''invalid'' now rows))
          else (Inr (vr_status report \<in> {''passed'', ''warning'', ''skipped''}), rows))"

definition registered_resident_session_for_root ::
  "json_parser \<Rightarrow> session_host \<Rightarrow> registry_file \<Rightarrow> string \<Rightarrow> string \<Rightarrow> string \<Rightarrow> agent_session_record option lookup" where
  "registered_resident_session_for_root jp sh file root root_session session_name =
     with_registry sh file None (\<lambda>rows.
       case session_by_name (project_session_scope_id jp sh rows root) root_session session_name rows of
         None \<Rightarrow> (Inr None, rows)
       | Some r \<Rightarrow>
           (case sh_now sh of
              Inl error \<Rightarrow> (Inl error, rows)
            | Inr now \<Rightarrow>
                if \<not> is_routable_at r now \<or> \<not> message_target_is_live_bound jp r root_session then (Inr None, rows)
                else (case session_record_validation_allows_routing jp sh r now rows of
                        (Inl error, rows') \<Rightarrow> (Inl error, rows')
                      | (Inr allowed, rows') \<Rightarrow> (Inr (then_some allowed r), rows'))))"

definition record_current_session_tool_event ::
  "session_host \<Rightarrow> registry_file \<Rightarrow> string \<Rightarrow> string option \<Rightarrow> string option \<Rightarrow> bool lookup" where
  "record_current_session_tool_event sh file tool_event command evidence_ref =
     (case runtime_session_of sh of
        None \<Rightarrow> (Inr False, file)
      | Some session \<Rightarrow>
          with_registry sh file False (\<lambda>rows.
            case sh_now sh of
              Inl error \<Rightarrow> (Inl error, rows)
            | Inr now \<Rightarrow>
                (case record_tool_event
                        \<lparr>te_session_id = ss_id session, te_tool_event = tool_event, te_command = command,
                         te_evidence_ref = evidence_ref, te_now = now\<rparr> rows of
                   (changed, rows') \<Rightarrow> (Inr changed, rows'))))"

subsection \<open>Events of child sessions\<close>

datatype native_event_kind = NativeStart | NativeStop

record native_subagent_event =
  ne_kind :: native_event_kind
  ne_root_session_id :: string
  ne_agent_id :: string
  ne_agent_type :: string
  ne_model :: string
  ne_reasoning_effort :: "string option"
  ne_permission_mode :: string

definition optional_string :: "json \<Rightarrow> string \<Rightarrow> string option" where
  "optional_string payload field = Option.bind (json_get_str field payload) nonblank"

definition required_string :: "json \<Rightarrow> string \<Rightarrow> string + string" where
  "required_string payload field =
     ok_or (''Codex native subagent event missing `'' @ field @ ''`'') (optional_string payload field)"

definition message_target_id :: "native_subagent_event \<Rightarrow> string" where
  "message_target_id event = ne_agent_id event"

definition parse_subagent_event :: "json \<Rightarrow> string + native_subagent_event option" where
  "parse_subagent_event payload =
     (let parsed = (\<lambda>kind.
        result_bind (required_string payload ''session_id'') (\<lambda>root_session.
        result_bind (required_string payload ''agent_id'') (\<lambda>agent.
        result_bind (required_string payload ''agent_type'') (\<lambda>agent_type.
        result_bind (required_string payload ''model'') (\<lambda>model.
        result_bind (required_string payload ''permission_mode'') (\<lambda>permission.
          Inr (Some \<lparr>ne_kind = kind, ne_root_session_id = root_session, ne_agent_id = agent,
                     ne_agent_type = agent_type, ne_model = model,
                     ne_reasoning_effort =
                       find_map (optional_string payload) [''reasoning_effort'', ''reasoningEffort'', ''effort''],
                     ne_permission_mode = permission\<rparr>))))))) in
      case json_get_str ''hook_event_name'' payload of
        None \<Rightarrow> Inr None
      | Some name \<Rightarrow>
          if name = ''SubagentStart'' then parsed NativeStart
          else if name = ''SubagentStop'' then parsed NativeStop
          else Inr None)"

text \<open>The resident child that a root may have: the newest row that is not archived or closed.\<close>

definition resident_rows :: "string \<Rightarrow> string \<Rightarrow> string \<Rightarrow> session_table \<Rightarrow> session_table" where
  "resident_rows project name role rows =
     filter (\<lambda>r. rec_status r \<notin> {''archived'', ''closed''})
       (filter (\<lambda>r. rec_name r = name \<or> rec_role r = role) (query_sessions project None (Some name) rows))"

text \<open>\<open>max_by_key\<close>: of equal keys the last element.\<close>

definition max_by_key :: "('a \<Rightarrow> int) \<Rightarrow> 'a list \<Rightarrow> 'a option" where
  "max_by_key f xs =
     foldl (\<lambda>best x. case best of None \<Rightarrow> Some x | Some b \<Rightarrow> if f b \<le> f x then Some x else Some b) None xs"

definition reconcile_resident_session ::
  "json_parser \<Rightarrow> rollout_host \<Rightarrow> session_table \<Rightarrow> string \<Rightarrow> string \<Rightarrow> string \<Rightarrow> string
     \<Rightarrow> (agent_session_record \<times> session_liveness) option \<times> nat" where
  "reconcile_resident_session jp h rows project root_session name role =
     (let candidates = resident_rows project name role rows in
      (map_option (\<lambda>r. (r, rollout_session_liveness jp h (rec_session_id r)))
         (max_by_key rec_updated_at (filter (\<lambda>r. rec_root_session_id r = root_session) candidates)),
       length (filter (\<lambda>r. rec_root_session_id r \<noteq> root_session) candidates)))"

subsection \<open>Payloads of child sessions\<close>

definition object_has_true_bool :: "json \<Rightarrow> string list \<Rightarrow> bool" where
  "object_has_true_bool v keys = list_ex (\<lambda>key. Option.bind (json_get key v) as_bool = Some True) keys"

definition value_is_present :: "json \<Rightarrow> bool" where
  "value_is_present v = (case v of JNull \<Rightarrow> False | JString s \<Rightarrow> str_trim s \<noteq> [] | _ \<Rightarrow> True)"

definition object_has_present_value :: "json \<Rightarrow> string list \<Rightarrow> bool" where
  "object_has_present_value v keys =
     list_ex (\<lambda>key. case json_get key v of None \<Rightarrow> False | Some x \<Rightarrow> value_is_present x) keys"

definition object_has_subagent_text :: "json \<Rightarrow> string list \<Rightarrow> bool" where
  "object_has_subagent_text v keys =
     list_ex (\<lambda>key. case json_get_str key v of
                      None \<Rightarrow> False
                    | Some s \<Rightarrow> let normalized = to_ascii_lowercase s in
                        str_contains normalized ''subagent'' \<or> str_contains normalized ''child'') keys"

function payload_indicates_subagent_context :: "json \<Rightarrow> bool" where
  "payload_indicates_subagent_context v =
     (as_object v \<noteq> None
      \<and> (object_has_true_bool v [''is_subagent'', ''isSubagent'', ''subagent'', ''is_child_agent'', ''isChildAgent'']
         \<or> object_has_present_value v
              [''parent_agent_id'', ''parentAgentId'', ''parent_session_id'', ''parentSessionId'',
               ''parent_thread_id'', ''parentThreadId'']
         \<or> object_has_subagent_text v
              [''agent_kind'', ''agentKind'', ''thread_kind'', ''threadKind'', ''context_kind'', ''contextKind'']
         \<or> list_ex payload_indicates_subagent_context
              (List.map_filter (\<lambda>key. json_get key v) [''agent'', ''thread'', ''context'', ''_meta''])))"
  by auto
termination
  by (relation "measure json_bytes")
    (simp_all add: set_map_filter_Some in_measure del: List.map_filter_simps json_bytes.simps, blast intro: json_get_smaller)

declare payload_indicates_subagent_context.simps [simp del]

subsection \<open>What validation accepts\<close>

text \<open>
  The metadata name a direct child of the root whose role, or whose agent path, is that of the profile.  Neither
  the model nor the reasoning effort nor the sandbox is part of it.
\<close>

definition attested :: "profile_host \<Rightarrow> expected_profile \<Rightarrow> string \<Rightarrow> rollout_metadata \<Rightarrow> bool" where
  "attested ph p root m \<longleftrightarrow>
     rm_thread_source m = Some ''subagent'' \<and> rm_root_session_id m = Some root
     \<and> rm_parent_thread_id m = Some root \<and> rm_spawn_depth m = Some 1
     \<and> (exact_role_of p m \<or> rm_agent_role m \<in> {None, Some ''default''} \<and> canonical_path_of ph p m)
     \<and> (case actual_agent_path_of ph m of
          Some actual \<Rightarrow> actual = normalized_path_string ph (ep_config_path p) \<or> canonical_path_of ph p m
        | None \<Rightarrow> exact_role_of p m)"

lemma validation_state_simps [simp]:
  "fst (push_failure f st) = fst st @ [f]" "fst (note_pass r st) = fst st"
  by (simp_all add: push_failure_def note_pass_def)

lemma check_model_failures [simp]: "fst (check_model p a st) = fst st"
  by (simp add: check_model_def split: option.split)

lemma check_reasoning_failures [simp]: "fst (check_reasoning_effort p a st) = fst st"
  by (simp add: check_reasoning_effort_def split: option.split)

lemma check_lineage_failures:
  "fst (check_lineage root m st) = [] \<longleftrightarrow>
     fst st = [] \<and> rm_thread_source m = Some ''subagent'' \<and> rm_root_session_id m = Some root
     \<and> rm_parent_thread_id m = Some root \<and> rm_spawn_depth m = Some 1"
  by (simp add: check_lineage_def Let_def)

lemma check_role_failures:
  "fst (check_role ph p m st) = [] \<longleftrightarrow>
     fst st = [] \<and> (exact_role_of p m \<or> rm_agent_role m \<in> {None, Some ''default''} \<and> canonical_path_of ph p m)"
  by (cases "rm_agent_role m") (simp_all add: check_role_def exact_role_of_def)

lemma check_agent_path_failures:
  "fst (check_agent_path ph p m st) = [] \<longleftrightarrow>
     fst st = [] \<and> (case actual_agent_path_of ph m of
          Some actual \<Rightarrow> actual = normalized_path_string ph (ep_config_path p) \<or> canonical_path_of ph p m
        | None \<Rightarrow> exact_role_of p m)"
  by (simp add: check_agent_path_def Let_def split: option.split)

lemma profile_checks_pass_iff: "fst (profile_checks ph p root m) = [] \<longleftrightarrow> attested ph p root m"
  by (auto simp: profile_checks_def attested_def check_agent_path_failures check_role_failures check_lineage_failures)

lemma sandbox_warnings_none: "sandbox_warnings p m = [] \<longleftrightarrow> rm_sandbox_policy m = Some (ep_sandbox p)"
  by (simp add: sandbox_warnings_def sandbox_policy_mismatch_reason_def)

lemma report_status:
  "vr_status (report_of_metadata ph kind p root m) =
     (if fst (profile_checks ph p root m) \<noteq> [] then ''failed''
      else if sandbox_warnings p m \<noteq> [] then ''warning'' else ''passed'')"
  by (simp add: report_of_metadata_def Let_def case_prod_unfold)


lemma validate_skips_unmanaged:
  "validated_agent_kind_of name role = None \<Longrightarrow>
     validate_session_profile jp ph session_id root name role =
       Inr (empty_report ''skipped'' ''session role does not require Codex rollout profile validation'')"
  by (simp add: validate_session_profile_def)

text \<open>The statuses of a report.\<close>

lemma validate_status_cases:
  assumes "validate_session_profile jp ph session_id root name role = Inr report"
  shows "vr_status report \<in> {''skipped'', ''failed'', ''passed'', ''warning''}"
  using assms
  by (auto simp: validate_session_profile_def result_bind_Inr empty_report_def missing_rollout_report_def
      report_status split: option.splits sum.splits if_splits)

subsection \<open>The resident child of a root\<close>

lemma found_row:
  "session_by_name project root name t = Some r \<Longrightarrow> r \<in> set t \<and> row_key r = (project, root, name)"
  by (auto simp: session_by_name_def find_Some_iff)

lemma with_registry_Inr:
  assumes "with_registry sh file absent f = (Inr x, file')" and "x \<noteq> absent"
  obtains rows rows' where "open_existing_registry sh file = Inr (Some rows)" "f rows = (Inr x, rows')"
    "file' = Some rows'"
  using assms by (auto simp: with_registry_def split: sum.splits option.splits prod.splits)

lemma routing_allowed:
  assumes "session_record_validation_allows_routing jp sh r now rows = (Inr True, rows')"
  shows "rows' = rows \<and>
    (\<exists>report. validate_session_profile jp (sh_profile sh) (rec_session_id r) (rec_root_session_id r)
                (rec_name r) (rec_role r) = Inr report
       \<and> (vr_status report \<noteq> ''failed''
          \<or> starts_with (vr_reason report) ''Codex rollout metadata not found''
            \<and> stored_session_validation_allows_routing jp r))"
  using assms
  by (auto simp: session_record_validation_allows_routing_def split: sum.splits if_splits)

text \<open>
  A row that may receive messages: it can be routed at that time, its message target is bound to the root, and its
  rollout attests its profile, or is missing while the stored validation of the row attests it.
\<close>

definition routing_attested :: "json_parser \<Rightarrow> session_host \<Rightarrow> string \<Rightarrow> int \<Rightarrow> agent_session_record \<Rightarrow> bool" where
  "routing_attested jp sh root_session now r \<longleftrightarrow>
     is_routable_at r now \<and> message_target_is_live_bound jp r root_session
     \<and> (validated_agent_kind_of (rec_name r) (rec_role r) = None
        \<or> stored_session_validation_allows_routing jp r
        \<or> (\<exists>kind p m. validated_agent_kind_of (rec_name r) (rec_role r) = Some kind
             \<and> load_expected_agent_profile (sh_profile sh) kind = Inr p
             \<and> codex_rollout_session_metadata jp (sh_rollouts sh) (rec_session_id r) = Inr (Some m)
             \<and> attested (sh_profile sh) p (rec_root_session_id r) m))"

lemma not_failed_attested:
  assumes "validate_session_profile jp ph session_id root name role = Inr report" "vr_status report \<noteq> ''failed''"
  shows "validated_agent_kind_of name role = None
    \<or> (\<exists>kind p m. validated_agent_kind_of name role = Some kind
         \<and> load_expected_agent_profile ph kind = Inr p
         \<and> codex_rollout_session_metadata jp (ph_rollouts ph) session_id = Inr (Some m)
         \<and> attested ph p root m)"
proof -
  have status: "attested ph p root m" if "vr_status (report_of_metadata ph kind p root m) \<noteq> ''failed''" for kind p m
    using that by (simp add: report_status profile_checks_pass_iff split: if_splits)
  from assms show ?thesis
    by (auto simp: validate_session_profile_def result_bind_Inr empty_report_def missing_rollout_report_def
        split: option.splits sum.splits intro: status)
qed


text \<open>A host without sessions or files, and a row of the root \<open>r\<close> that is bound to it.\<close>

definition demo_rollouts :: rollout_host where
  "demo_rollouts =
     \<lparr>rh_sessions_dir = None, rh_is_dir = (\<lambda>_. False), rh_is_file = (\<lambda>_. False), rh_read_dir = (\<lambda>_. Inr []),
      rh_content = (\<lambda>_. Inl ''absent''), rh_created = (\<lambda>_. Inr None), rh_glob = (\<lambda>_. None),
      rh_uuid_millis = (\<lambda>_. None), rh_rg_files = (\<lambda>_ _. Inr [])\<rparr>"

definition demo_session_host :: session_host where
  "demo_session_host =
     \<lparr>sh_profile =
        \<lparr>ph_env = (\<lambda>_. None), ph_state_home = Inr ''/state'', ph_exists = (\<lambda>_. False), ph_read = (\<lambda>_. Inl ''absent''),
         ph_toml = (\<lambda>_. Inl ''no decoder''), ph_canonicalize = (\<lambda>_. None), ph_rollouts = demo_rollouts\<rparr>,
      sh_open = Inr (), sh_lock_acquired = True, sh_now = Inr 20, sh_current_dir = Inr ''/w''\<rparr>"

definition demo_bound_row :: agent_session_record where
  "demo_bound_row =
     (inserted_row (demo_request ''/w'' ''c'' ''helper'' 10))
       \<lparr>rec_root_session_id := ''r'', rec_message_target_id := Some ''t'', rec_parent_session_id := Some ''r'',
        rec_role := ''helper'', rec_status := ''active'', rec_expires_at := None\<rparr>"

definition demo_binding_parser :: json_parser where
  "demo_binding_parser line =
     Some (JObject
       [(''messageTargetBinding'',
         JObject [(''source'', JString ''codex.subagent-start''), (''boundRootSessionId'', JString ''r''),
                  (''childSessionId'', JString ''c''), (''messageTargetId'', JString ''t'')])])"

lemma demo_lookup:
  "registered_resident_session_for_root demo_binding_parser demo_session_host (Some [demo_bound_row]) ''/w'' ''r'' ''helper'' =
     (Inr (Some demo_bound_row), Some [demo_bound_row])"
  by code_simp


subsection \<open>Rows that validation spoils\<close>

text \<open>
  A profile that cannot be read is not told apart from a profile that does not match: the row of a child is marked
  invalid although nothing about the child is known.
\<close>

lemma unreadable_profile_invalidates:
  assumes "validated_agent_kind_of (rec_name r) (rec_role r) = Some kind"
    and "load_expected_agent_profile (sh_profile sh) kind = Inl error"
    and "\<not> starts_with error ''Codex rollout metadata not found''"
  shows "session_record_validation_allows_routing jp sh r now rows =
    (Inr False, snd (update_session_status (rec_project_id r) (rec_session_id r) ''invalid'' now rows))"
  using assms
  by (simp add: session_record_validation_allows_routing_def validate_session_profile_def empty_report_def)

text \<open>A fallback model replaces the reasons that were noted before it, where every other reason is appended.\<close>

lemma fallback_model_drops_reasons:
  assumes "m \<noteq> ep_model p" and "m \<in> set (ep_fallback_models p)"
  shows "snd (check_model p (Some m) (fs, reasons)) = snd (check_model p (Some m) (fs, None))"
  using assms by (simp add: check_model_def)

text \<open>A lookup of the resident child never returns a child that has ended.\<close>

lemma resident_lookup_routable:
  assumes "registered_resident_session_for_root jp sh file root root_session name = (Inr (Some r), file')"
  shows "rec_status r \<in> {''active'', ''idle''}"
proof -
  note found = assms [unfolded registered_resident_session_for_root_def with_registry_def]
  from found obtain now where "is_routable_at r now"
    by (auto split: option.splits if_splits prod.splits sum.splits)
  then show ?thesis by (simp add: is_routable_at_def agent_session_status_is_routable_def split: if_splits)
qed

end
