(* ===== verification/SessionGate.thy ===== *)
theory SessionGate
  imports SessionState ClientConfig ResidentLoop Artifacts
begin

section \<open>The session gate of the hook\<close>

text \<open>
  Models, of \<open>crates/agent-semantic-protocol/src/command\<close>, \<open>hook_runtime_agent_session.rs\<close> and its modules
  \<open>_command\<close>, \<open>_profile\<close>, \<open>_inline_fallback\<close>, \<open>_rollout_topology\<close>, \<open>_activation_failure\<close>,
  \<open>_session_start\<close> and \<open>_typed_replacement\<close>.  Before the classifier sees an event, the gate decides whether it
  comes from the main session or from the resident child: searches of the main session are sent to the child,
  commands of the child and configured test commands pass, and a start of a child is entered in the registry.
  SHA-256 and the clock are arguments.
\<close>

subsection \<open>Effects\<close>

text \<open>
  The gate changes the registry file and the store of host observations, and fails with a message or with a panic
  of the tokenizer.
\<close>

datatype gate_error = GateError string | GateShell shell_error | GateRegistry registry_error

record gate_state =
  gs_registry :: registry_file
  gs_observations :: observation_store

type_synonym 'a gate = "gate_state \<Rightarrow> (gate_error + 'a) \<times> gate_state"

definition gate_return :: "'a \<Rightarrow> 'a gate" where
  "gate_return x = (\<lambda>s. (Inr x, s))"

definition gate_bind :: "'a gate \<Rightarrow> ('a \<Rightarrow> 'b gate) \<Rightarrow> 'b gate" where
  "gate_bind m f = (\<lambda>s. case m s of (Inl e, s') \<Rightarrow> (Inl e, s') | (Inr x, s') \<Rightarrow> f x s')"

definition gate_result :: "string + 'a \<Rightarrow> 'a gate" where
  "gate_result r = (\<lambda>s. (map_err GateError r, s))"

definition gate_shell :: "'a shell_result \<Rightarrow> 'a gate" where
  "gate_shell r = (\<lambda>s. (map_err GateShell r, s))"

text \<open>A lookup of the registry.\<close>

definition gate_lookup :: "(registry_file \<Rightarrow> 'a lookup) \<Rightarrow> 'a gate" where
  "gate_lookup f = (\<lambda>s. case f (gs_registry s) of (r, file) \<Rightarrow> (map_err GateError r, s\<lparr>gs_registry := file\<rparr>))"

subsection \<open>Policy\<close>

record session_policy =
  sp_command_intent_policy :: asp_command_intent_policy
  sp_enabled :: bool
  sp_resident_child_name :: string
  sp_resident_agent_role :: string
  sp_resident_codex_agent_name :: string
  sp_resident_route_source :: string
  sp_main_allowed_asp_command_prefixes :: "string list list"
  sp_testing_enabled :: bool
  sp_testing_command_prefixes :: "string list list"
  sp_testing_receipt_kind :: string
  sp_messages :: agent_session_messages

definition uses_builtin_resident_fallback :: "session_policy \<Rightarrow> bool" where
  "uses_builtin_resident_fallback p \<longleftrightarrow> sp_resident_route_source p = ''built-in-fallback''"

definition session_asp_command_allowed :: "session_policy \<Rightarrow> string list \<Rightarrow> nat \<Rightarrow> bool" where
  "session_asp_command_allowed p tokens asp_index =
     (case classify_main_session_asp_command tokens asp_index (sp_command_intent_policy p) of
        ControlPlane \<Rightarrow> True
      | ExactEvidenceRead \<Rightarrow> True
      | MainDirectReadFallback \<Rightarrow> True
      | MainInvalidEvidence \<Rightarrow> True
      | ReasoningFlow \<Rightarrow> False
      | UnknownCommand \<Rightarrow> list_ex (command_prefix_matches tokens asp_index) (sp_main_allowed_asp_command_prefixes p))"

definition testing_command_matches :: "session_policy \<Rightarrow> string list \<Rightarrow> bool" where
  "testing_command_matches p tokens \<longleftrightarrow>
     sp_testing_enabled p \<and> list_ex (command_prefix_matches_wrapped tokens) (sp_testing_command_prefixes p)"

definition configured_resident_agent ::
  "resident_agent_config list \<Rightarrow> string \<Rightarrow> resident_agent_config option" where
  "configured_resident_agent agents lifecycle = find (\<lambda>a. ra_lifecycle a = lifecycle) agents"

definition configured_codex_agent_name :: "resident_agent_config \<Rightarrow> string" where
  "configured_codex_agent_name a = (if ra_codex_agent_name a = [] then ra_role a else ra_codex_agent_name a)"

text \<open>\<open>map(\<dots>).collect::<Result<Vec<_>, _>>()\<close>: the first error escapes.\<close>

fun collect_ok :: "('a \<Rightarrow> 'e + 'b) \<Rightarrow> 'a list \<Rightarrow> 'e + 'b list" where
  "collect_ok f [] = Inr []"
| "collect_ok f (x # xs) = result_bind (f x) (\<lambda>y. result_bind (collect_ok f xs) (\<lambda>ys. Inr (y # ys)))"

definition session_prefix_tokens :: "string \<Rightarrow> string + string list" where
  "session_prefix_tokens pre = command_prefix_tokens ''aspSessionPolicy.mainAllowedAspCommandPrefixes[]'' pre"

definition session_policy_of_parts ::
  "resident_agent_config list \<Rightarrow> agent_session_messages \<Rightarrow> asp_command_intent_policy \<Rightarrow> execution_lane_config
     \<Rightarrow> string + session_policy" where
  "session_policy_of_parts agents messages intent_policy testing =
     (let configured = configured_resident_agent agents ''asp-command'';
          agent = or_else configured (configured_resident_agent default_resident_agent_configs ''asp-command'') in
      result_bind (collect_ok session_prefix_tokens
          (case agent of None \<Rightarrow> [] | Some a \<Rightarrow> ra_main_allowed_asp_command_prefixes a)) (\<lambda>allowed.
      result_bind (collect_ok session_prefix_tokens (el_command_prefixes testing)) (\<lambda>tests.
        Inr \<lparr>sp_command_intent_policy = intent_policy,
             sp_enabled = (case agent of None \<Rightarrow> False | Some a \<Rightarrow> ra_enabled a),
             sp_resident_child_name = (case agent of None \<Rightarrow> [] | Some a \<Rightarrow> ra_name a),
             sp_resident_agent_role = (case agent of None \<Rightarrow> [] | Some a \<Rightarrow> ra_role a),
             sp_resident_codex_agent_name = (case agent of None \<Rightarrow> [] | Some a \<Rightarrow> configured_codex_agent_name a),
             sp_resident_route_source = (if configured \<noteq> None then ''hook-config'' else ''built-in-fallback''),
             sp_main_allowed_asp_command_prefixes = allowed,
             sp_testing_enabled = el_enabled testing, sp_testing_command_prefixes = tests,
             sp_testing_receipt_kind = el_receipt_kind testing, sp_messages = messages\<rparr>)))"

definition session_policy_of_config :: "hook_config_file \<Rightarrow> string + session_policy" where
  "session_policy_of_config c =
     session_policy_of_parts (cf_resident_agents c) (cf_agent_session_messages c)
       (cf_asp_command_intent_policy c) (cf_testing_lane c)"

text \<open>
  The decoder of TOML is \<open>decode\<close>; \<open>built_in\<close> is the template of the default configuration, and \<open>content\<close> the text
  of the configuration file when it is a file.
\<close>

definition default_config_file :: "(string \<Rightarrow> string + hook_config_file) \<Rightarrow> string \<Rightarrow> string + hook_config_file" where
  "default_config_file decode built_in =
     map_err (\<lambda>error. ''failed to parse default hook client config template: '' @ error)
       (decode (config_template_for_source_extensions built_in [''.rs'']))"

definition load_asp_session_policy ::
  "(string \<Rightarrow> string + hook_config_file) \<Rightarrow> string \<Rightarrow> string option \<Rightarrow> string + session_policy" where
  "load_asp_session_policy decode built_in content =
     result_bind (default_config_file decode built_in) (\<lambda>defaults.
     result_bind (case content of
                    Some c \<Rightarrow> load_hook_client_config_file decode (Some c)
                  | None \<Rightarrow> default_config_file decode built_in) (\<lambda>c.
       session_policy_of_config
         (c\<lparr>cf_agent_session_messages :=
              merge_agent_session_messages (cf_agent_session_messages c) (cf_agent_session_messages defaults)\<rparr>)))"

definition built_in_session_policy ::
  "(string \<Rightarrow> string + hook_config_file) \<Rightarrow> string \<Rightarrow> string + session_policy" where
  "built_in_session_policy decode built_in = load_asp_session_policy decode built_in None"

subsection \<open>Payloads\<close>


text \<open>\<open>string_field\<close>: the keys of an object in order, then its values, depth first.\<close>

function (sequential) string_field :: "string list \<Rightarrow> json \<Rightarrow> string option" where
  "string_field keys (JObject members) =
     or_else (json_get_any_str keys (JObject members)) (find_map (string_field keys) (map snd members))"
| "string_field keys (JArray elements) = find_map (string_field keys) elements"
| "string_field keys v = None"
  by pat_completeness auto
termination
  by (relation "measure (\<lambda>(keys, v). json_bytes v)")
    (auto simp del: json_bytes.simps set_map intro: json_bytes_value json_bytes_element)

text \<open>
  Every command of a payload at any depth: the string members \<open>command\<close>, \<open>cmd\<close> and \<open>script\<close> that are not blank,
  and \<open>command\<close> and \<open>cmd\<close> as lists of words.  A blank string is no command, a list of blank words neither.
\<close>

definition command_array :: "json list \<Rightarrow> string list" where
  "command_array parts =
     (let command = str_join '' '' (List.map_filter as_str parts) in if str_trim command = [] then [] else [command])"

function (sequential) collect_payload_command_strings :: "json \<Rightarrow> string list" where
  "collect_payload_command_strings (JArray elements) = concat (map collect_payload_command_strings elements)"
| "collect_payload_command_strings (JObject members) =
     concat (map (\<lambda>m.
       case snd m of
         JString command \<Rightarrow>
           if fst m \<in> {''command'', ''cmd'', ''script''} \<and> str_trim command \<noteq> [] then [command] else []
       | JArray parts \<Rightarrow>
           if fst m \<in> {''command'', ''cmd''} then command_array parts
           else collect_payload_command_strings (snd m)
       | _ \<Rightarrow> collect_payload_command_strings (snd m)) members)"
| "collect_payload_command_strings v = []"
  by pat_completeness auto
termination
  by (relation "measure json_bytes")
    (auto simp del: json_bytes.simps intro: json_bytes_element intro!: json_bytes_value imageI simp: image_iff Bex_def intro: exI)

definition payload_command_strings :: "json \<Rightarrow> string list" where
  "payload_command_strings payload = sort_dedup (collect_payload_command_strings payload)"

definition payload_evidence_ref :: "json \<Rightarrow> string option" where
  "payload_evidence_ref payload =
     string_field [''evidenceRef'', ''evidence_ref'', ''lastEvidenceRef'', ''last_evidence_ref'',
                   ''recoveryRef'', ''recovery_ref''] payload"

definition root_session_keys :: "string list" where
  "root_session_keys = [''root_session_id'', ''rootSessionId'', ''session_id'', ''sessionId'']"

definition session_subject :: "json \<Rightarrow> string option \<Rightarrow> decision_subject" where
  "session_subject payload command =
     \<lparr>j_tool_name = string_field [''tool_name'', ''toolName''] payload, j_command = command, j_paths = []\<rparr>"

subsection \<open>Fields of a session decision\<close>

text \<open>Insertions into the \<open>BTreeMap\<close> of fields, in the order of the source; a later one replaces an earlier one.\<close>

definition put_fields :: "(string \<times> json) list \<Rightarrow> decision_fields \<Rightarrow> decision_fields" where
  "put_fields entries members = foldl (\<lambda>acc (key, v). AList.update key v acc) members entries"

definition put_strings :: "(string \<times> string) list \<Rightarrow> decision_fields \<Rightarrow> decision_fields" where
  "put_strings entries = put_fields (map (\<lambda>(key, s). (key, JString s)) entries)"

definition put_optional :: "string \<Rightarrow> string option \<Rightarrow> decision_fields \<Rightarrow> decision_fields" where
  "put_optional key v members = (case v of None \<Rightarrow> members | Some s \<Rightarrow> put_strings [(key, s)] members)"

definition bootstrap_command :: "string \<Rightarrow> string" where
  "bootstrap_command child = ''asp agent session bootstrap --name '' @ child"

definition recovery_action_fields :: "string \<Rightarrow> string \<Rightarrow> string \<Rightarrow> (string \<times> string) list" where
  "recovery_action_fields action child role =
     (let reuse = (action = ''reuse-resident-child'' \<or> action = ''resume-resident-child'') in
      [(''requiredAction'',
        if reuse then ''use-existing-'' @ child @ ''-through-pane'' else ''enter-'' @ child @ ''-choice-pane''),
       (''nextAction'',
        if reuse then ''enter-bootstrap-pane-if-transport-is-not-ready'' else ''choose-one-bootstrap-pane-option''),
       (''targetAgentName'', child), (''targetAgentRole'', role),
       (''forbiddenUntilResolved'', ''raw-source-fallback''),
       (''completionReceipt'',
        if reuse then child @ ''-child-command'' else child @ ''-choice-pane-receipt'')])"

definition agent_session_route_fields :: "string \<Rightarrow> string \<Rightarrow> decision_fields" where
  "agent_session_route_fields action child =
     (let role = (if child = ''asp-testing'' then ''asp-testing'' else ''asp-explore'') in
      put_strings
        ([(''agentSessionRoute'', child), (''agentSessionLifecycle'', ''resident''),
          (''agentSessionLoopCommand'', bootstrap_command child),
          (''agentSessionTimeoutPolicy'', ''timeout-is-not-duplicate-worker-trigger''),
          (''agentSessionAction'', action),
          (''agentSessionSpawnPolicy'', ''registered-profile-valid-child-only''),
          (''agentSessionValidationPolicy'', ''register-hard-validates-profile''),
          (''agentSessionInvalidChildAction'',
           ''close-native-subagent-or-archive-temporary-thread-and-create-configured-child''),
          (''agentSessionDuplicatePolicy'', ''one-active-resident-child-per-root-session-and-name'')]
         @ recovery_action_fields action child role) [])"

definition append_resident_agent_fields :: "string \<Rightarrow> session_policy \<Rightarrow> decision_fields \<Rightarrow> decision_fields" where
  "append_resident_agent_fields platform p members =
     put_strings
       ([(''targetAgentName'', sp_resident_codex_agent_name p), (''targetAgentRole'', sp_resident_agent_role p),
         (''residentCodexAgentName'', sp_resident_codex_agent_name p),
         (''targetAgentSelectionSource'', ''hook-deny-intent''),
         (''targetAgentRegistrySource'', ''~/.agent-semantic-protocols/agents/config.toml''),
         (''targetAgentLifecycleOwner'', ''main-agent''),
         (''targetAgentReusePolicy'', ''reuse-unique-child-before-spawn'')]
        @ (if platform = ''codex''
           then [(''targetAgentHostRegistry'', ''~/.codex/agents''),
                 (''targetAgentDispatchPolicy'',
                  ''followup-idle-or-completed-send-message-running-spawn-only-if-absent'')]
           else []))
       members"

subsection \<open>Decisions about the main session\<close>

record exploration_command =
  xc_facade :: string
  xc_stage :: "string option"
  xc_language_id :: "string option"

text \<open>The fields of the intent of a command, when it is a language command.\<close>

definition command_intent_fields :: "session_policy \<Rightarrow> string list \<Rightarrow> (string \<times> string) list" where
  "command_intent_fields p tokens =
     (case classify_asp_language_command_tokens_with_policy tokens (sp_command_intent_policy p) of
        None \<Rightarrow> []
      | Some parsed \<Rightarrow>
          [(''aspCommandIntent'', asp_intent_str (ac_intent parsed)), (''aspCommandRoute'', ac_route parsed),
           (''languageId'', ac_language_id parsed)]
          @ (case ac_selector parsed of None \<Rightarrow> [] | Some selector \<Rightarrow> [(''selector'', selector)]))"

definition append_asp_command_intent_fields ::
  "bash_parser \<Rightarrow> session_policy \<Rightarrow> string \<Rightarrow> decision_fields \<Rightarrow> decision_fields shell_result" where
  "append_asp_command_intent_fields parse p command members =
     shell_bind (semantic_shell_tokens parse command) (\<lambda>tokens.
       Inr (put_strings (command_intent_fields p tokens) members))"

definition agent_session_allow_decision ::
  "string \<Rightarrow> string \<Rightarrow> json \<Rightarrow> string \<Rightarrow> string \<Rightarrow> hook_decision" where
  "agent_session_allow_decision platform event payload action message =
     new_decision platform event Allow ReasonNone []
       (session_subject payload (case payload_command_strings payload of [] \<Rightarrow> None | c # _ \<Rightarrow> Some c))
       [] message (put_strings [(''agentSessionAction'', action)] [])"

text \<open>\<open>sha\<close> is the hexadecimal SHA-256 digest.\<close>

definition command_sha256 :: "(string \<Rightarrow> string) \<Rightarrow> string \<Rightarrow> string" where
  "command_sha256 sha command = ''sha256:'' @ sha command"

definition append_payload_identity_fields :: "json \<Rightarrow> decision_fields \<Rightarrow> decision_fields" where
  "append_payload_identity_fields payload members =
     put_optional ''cwd'' (string_field [''cwd''] payload)
       (put_optional ''rootSessionId'' (string_field root_session_keys payload) members)"

definition testing_execution_decision ::
  "(string \<Rightarrow> string) \<Rightarrow> string \<Rightarrow> string \<Rightarrow> json \<Rightarrow> string \<Rightarrow> session_policy \<Rightarrow> hook_decision" where
  "testing_execution_decision sha platform event payload command p =
     new_decision platform event Allow ReasonNone [] (session_subject payload (Some command)) []
       ''ASP allowed an exact configured testing command in the current session with a command-digest execution receipt.''
       (append_payload_identity_fields payload
         (put_strings
           [(''executionLane'', ''asp-testing''), (''executionTransport'', ''current-session''),
            (''executionReceiptKind'', sp_testing_receipt_kind p),
            (''executionCommandDigest'', command_sha256 sha command),
            (''blockedCommandClass'', ''test-build-command'')] []))"

definition fallback_receipt_fields :: "(string \<Rightarrow> string) \<Rightarrow> string \<Rightarrow> decision_fields" where
  "fallback_receipt_fields sha command =
     put_fields
       [(''executionLane'', JString ''asp-explore''), (''executionTransport'', JString ''current-session''),
        (''executionReceiptKind'', JString ''asp-search-subagent''),
        (''executionCommandDigest'', JString (command_sha256 sha command)),
        (''agentSessionAction'', JString ''inline-parser-fallback''),
        (''residentChild'', JBool False), (''degraded'', JBool True),
        (''fallbackReason'', JString ''no-profile-valid-resident-child''),
        (''fallbackPolicy'', JString ''explicit-opt-in-exact-parser-command-only'')] []"

definition inline_fallback_decision ::
  "bash_parser \<Rightarrow> (string \<Rightarrow> string) \<Rightarrow> string \<Rightarrow> string \<Rightarrow> json \<Rightarrow> string \<Rightarrow> exploration_command \<Rightarrow> session_policy
     \<Rightarrow> hook_decision shell_result" where
  "inline_fallback_decision parse sha platform event payload command invocation p =
     shell_bind (append_asp_command_intent_fields parse p command (fallback_receipt_fields sha command)) (\<lambda>members.
       Inr (new_decision platform event Allow ReasonNone
              (case xc_language_id invocation of None \<Rightarrow> [] | Some l \<Rightarrow> [l])
              (session_subject payload (Some command)) []
              ''ASP allowed an explicitly selected parser-owned exploration command in the current session because no profile-valid resident child is available.''
              (append_payload_identity_fields payload members)))"

definition command_enables_inline_parser_fallback :: "string \<Rightarrow> bool" where
  "command_enables_inline_parser_fallback command \<longleftrightarrow>
     ''ASP_INLINE_PARSER_FALLBACK=1'' \<in> set (shell_like_tokens command)"

definition resident_agent_host_action :: "string \<Rightarrow> session_policy \<Rightarrow> bool \<Rightarrow> string" where
  "resident_agent_host_action platform p existing_child =
     (let agent = sp_resident_codex_agent_name p in
      if platform = ''codex'' \<and> existing_child then
        ''Main Agent must reuse the unique `/root/'' @ agent
        @ ''` child: use `followup_task` when it is idle/completed or `send_message` when it is running; do not spawn a duplicate.''
      else if platform = ''codex'' then
        ''Main Agent must first reuse `/root/'' @ agent
        @ ''` if it exists. Only when absent, spawn exactly one child through a native surface that exposes `agent_type`, setting `agent_type='' @ agent
        @ ''`; `task_name` and task-message language do not select the registered role. If the surface omits `agent_type`, report `bootstrapBlocked=host-agent-type-unavailable` and do not create a generic child.''
      else if existing_child then
        ''The host must resume the existing configured `'' @ agent @ ''` child instead of creating a duplicate.''
      else
        ''The host must select configured profile `'' @ agent
        @ ''` and create one child only when no reusable identity exists.'')"

definition resident_child_create_action :: "string \<Rightarrow> session_policy \<Rightarrow> string" where
  "resident_child_create_action platform p =
     (let agent = sp_resident_codex_agent_name p in
      if platform = ''codex'' then
        ''Codex action: start the configured ASP managed subagent `'' @ agent
        @ ''` only through an `agent_type`-aware native spawn surface, with `agent_type='' @ agent
        @ ''` and `fork_turns=none`. `task_name` controls tree identity and `message` is only task payload; neither selects the custom-agent TOML. If `agent_type` is absent from the host surface, report bootstrapBlocked=host-agent-type-unavailable and do not create a generic subagent. After a valid SubagentStart, send the exact denied ASP command to that same child and wait for a bounded `[asp-search-subagent]` receipt.''
      else if platform = ''claude'' then ''Claude action: start the configured subagent `asp-explorer`''
      else ''Host action: start the configured resident ASP explore subagent'')"

definition put_bootstrap_fields :: "string \<Rightarrow> decision_fields \<Rightarrow> decision_fields" where
  "put_bootstrap_fields child members =
     put_fields
       [(''agentSessionBootstrap'', JString ''session-start-reminder''),
        (''agentSessionBootstrapGuideCommand'', JString (bootstrap_command child)),
        (''agentSessionBootstrapCommand'', JString (bootstrap_command child)),
        (''inlineParserFallbackAvailable'', JBool True),
        (''inlineParserFallbackOptIn'', JString ''ASP_INLINE_PARSER_FALLBACK=1''),
        (''inlineParserFallbackPolicy'', JString ''exact-parser-owned-command-only'')] members"

definition missing_resident_asp_explore_decision ::
  "bash_parser \<Rightarrow> string \<Rightarrow> string \<Rightarrow> json \<Rightarrow> string option \<Rightarrow> string option \<Rightarrow> session_policy
     \<Rightarrow> hook_decision shell_result" where
  "missing_resident_asp_explore_decision parse platform event payload command root_session p =
     (let child = sp_resident_child_name p;
          members0 = put_optional ''rootSessionId'' root_session
            (put_bootstrap_fields child
              (append_resident_agent_fields platform p (agent_session_route_fields ''start-resident-child'' child))) in
      shell_bind (case command of
                    None \<Rightarrow> Inr members0
                  | Some c \<Rightarrow> append_asp_command_intent_fields parse p c members0) (\<lambda>members.
        Inr (new_decision platform event Deny AspReasoningRouted
               (case Option.bind (map_of members ''languageId'') as_str of None \<Rightarrow> [] | Some l \<Rightarrow> [l])
               (session_subject payload command) []
               (''ASP resident child lifecycle is preferred.'' @ newline @ ''Run `'' @ bootstrap_command child
                @ ''` and choose one structured menu option. '' @ resident_agent_host_action platform p False
                @ '' When the host cannot express the configured agent type, rerun only the exact parser-owned ASP command with `ASP_INLINE_PARSER_FALLBACK=1`; this selects the degraded current-session transport without authorizing raw source fallback.'')
               members)))"

definition command_label :: "exploration_command \<Rightarrow> string" where
  "command_label x =
     ''asp '' @ xc_facade x @ (case xc_stage x of None \<Rightarrow> [] | Some stage \<Rightarrow> '' '' @ stage)"

definition blocked_fields :: "exploration_command \<Rightarrow> decision_fields \<Rightarrow> decision_fields" where
  "blocked_fields x members =
     put_optional ''blockedAspStage'' (xc_stage x) (put_strings [(''blockedAspFacade'', xc_facade x)] members)"

definition exploration_decision ::
  "bash_parser \<Rightarrow> string \<Rightarrow> string \<Rightarrow> json \<Rightarrow> string \<Rightarrow> exploration_command \<Rightarrow> agent_session_record option
     \<Rightarrow> session_policy \<Rightarrow> hook_decision shell_result" where
  "exploration_decision parse platform event payload command x explore_session p =
     (let child = sp_resident_child_name p;
          host_action = resident_agent_host_action platform p (explore_session \<noteq> None);
          message =
            (case explore_session of
               Some session \<Rightarrow>
                 ''ASP denied main-session ASP exploration (`'' @ command_label x
                 @ ''`). Use the resident-child interactive pane for registered resident '' @ child @ '' child session `''
                 @ rec_session_id session @ ''`. '' @ host_action @ '' Run `'' @ bootstrap_command child
                 @ ''`, choose one number, perform that native platform action, and re-enter the pane until state=Ready.''
                 @ newline @ ''Command: '' @ command
             | None \<Rightarrow>
                 ''ASP denied main-session ASP exploration (`'' @ command_label x
                 @ ''`). No registered and profile-valid '' @ child
                 @ '' child is available. Run the resident-child interactive pane: `'' @ bootstrap_command child
                 @ ''`. '' @ host_action
                 @ '' Choose one number, perform that native platform action, and re-enter the same pane until state=Ready. The pane owns audit, recovery, cleanup, creation, model alignment, and registration for configured agent `''
                 @ sp_resident_codex_agent_name p @ ''`.'' @ newline @ ''Command: '' @ command);
          members0 = append_resident_agent_fields platform p
            (agent_session_route_fields
               (if explore_session \<noteq> None then ''reuse-resident-child'' else ''start-resident-child'') child) in
      shell_bind (append_asp_command_intent_fields parse p command members0) (\<lambda>members1.
        let members = blocked_fields x members1;
            members' = (case explore_session of
                          None \<Rightarrow> members
                        | Some session \<Rightarrow>
                            put_strings
                              [(''rootSessionId'', rec_root_session_id session), (''childSessionId'', rec_session_id session),
                               (''agentSessionResumeId'', rec_session_id session), (''childSessionName'', rec_name session)]
                              members)
        in Inr (new_decision platform event Deny AspReasoningRouted
                  (case xc_language_id x of None \<Rightarrow> [] | Some l \<Rightarrow> [l])
                  (session_subject payload (Some command)) [] message members')))"

definition render_agent_session_template :: "string option \<Rightarrow> (string \<times> string) list \<Rightarrow> string" where
  "render_agent_session_template template values =
     render_hook_client_message_template
       (case template of
          Some t \<Rightarrow> t
        | None \<Rightarrow> ''ASP agent session routing template missing. Run `asp sync` and retry.'') values"

definition restricted_decision ::
  "bash_parser \<Rightarrow> string \<Rightarrow> string \<Rightarrow> json \<Rightarrow> string \<Rightarrow> exploration_command \<Rightarrow> agent_session_record option
     \<Rightarrow> session_policy \<Rightarrow> hook_decision shell_result" where
  "restricted_decision parse platform event payload command x explore_session p =
     (let child = sp_resident_child_name p;
          members0 = append_resident_agent_fields platform p
            (agent_session_route_fields ''resume-resident-child'' child) in
      shell_bind (append_asp_command_intent_fields parse p command members0) (\<lambda>members1.
        let members = blocked_fields x
              (put_strings [(''mainSessionAspPolicy'', ''session-checkpoint-recovery-only'')] members1) in
        Inr (case explore_session of
               Some session \<Rightarrow>
                 new_decision platform event Deny AspReasoningRouted
                   (case xc_language_id x of None \<Rightarrow> [] | Some l \<Rightarrow> [l])
                   (session_subject payload (Some command)) []
                   (render_agent_session_template (sm_main_restricted_with_child (sp_messages p))
                      [(''residentChildName'', child), (''childSessionId'', rec_session_id session),
                       (''rootSessionId'', rec_root_session_id session), (''commandLabel'', command_label x),
                       (''command'', command)])
                   (put_strings
                      [(''rootSessionId'', rec_root_session_id session), (''childSessionId'', rec_session_id session),
                       (''agentSessionResumeId'', rec_session_id session)] members)
             | None \<Rightarrow>
                 new_decision platform event Deny AspReasoningRouted
                   (case xc_language_id x of None \<Rightarrow> [] | Some l \<Rightarrow> [l])
                   (session_subject payload (Some command)) []
                   (render_agent_session_template (sm_main_restricted_without_child (sp_messages p))
                      [(''residentChildName'', child), (''residentCodexAgentName'', sp_resident_codex_agent_name p),
                       (''createAction'', resident_child_create_action platform p), (''commandLabel'', command_label x),
                       (''command'', command)])
                   members)))"

subsection \<open>Commands that belong to the resident child\<close>

definition provider_languages :: "hook_runtime \<Rightarrow> string set" where
  "provider_languages runtime = set (map p_language_id (providers runtime))"

text \<open>
  One invocation of \<open>asp\<close>: \<open>Inl\<close> goes on with the next one, \<open>Inr\<close> ends the search (\<open>?\<close> ends it with nothing).
\<close>

definition exploration_at ::
  "session_policy \<Rightarrow> string set \<Rightarrow> string list \<Rightarrow> nat \<Rightarrow> unit + exploration_command option" where
  "exploration_at p languages tokens index =
     (if classify_main_session_asp_command tokens index (sp_command_intent_policy p) \<noteq> ReasoningFlow then Inl ()
      else
        let parsed = classify_asp_language_command_tokens_with_policy (drop index tokens) (sp_command_intent_policy p) in
        if (case parsed of None \<Rightarrow> False | Some c \<Rightarrow> ac_language_id c \<notin> languages) then Inl ()
        else (case get_at tokens (index + 1) of
                None \<Rightarrow> Inr None
              | Some facade \<Rightarrow>
                  let stage = get_at tokens (index + 2) in
                  if facade \<in> {''fd'', ''rg'', ''query'', ''search''} then
                    Inr (Some \<lparr>xc_facade = facade, xc_stage = stage, xc_language_id = map_option ac_language_id parsed\<rparr>)
                  else if facade = ''org'' then
                    if stage \<in> {Some ''query'', Some ''search''} then
                      Inr (Some \<lparr>xc_facade = facade, xc_stage = stage, xc_language_id = Some ''org''\<rparr>)
                    else Inl ()
                  else if facade \<in> languages \<and> stage \<in> {Some ''guide'', Some ''query'', Some ''search''} then
                    Inr (Some \<lparr>xc_facade = facade, xc_stage = stage, xc_language_id = Some facade\<rparr>)
                  else Inl ()))"

definition restricted_at ::
  "session_policy \<Rightarrow> string set option \<Rightarrow> string list \<Rightarrow> nat \<Rightarrow> unit + exploration_command option" where
  "restricted_at p languages tokens index =
     (let parsed = classify_asp_language_command_tokens_with_policy (drop index tokens) (sp_command_intent_policy p) in
      if (case (languages, parsed) of (Some ls, Some c) \<Rightarrow> ac_language_id c \<notin> ls | _ \<Rightarrow> False) then Inl ()
      else if session_asp_command_allowed p tokens index then Inl ()
      else Inr (map_option
                  (\<lambda>facade. \<lparr>xc_facade = facade, xc_stage = get_at tokens (index + 2), xc_language_id = None\<rparr>)
                  (get_at tokens (index + 1))))"

fun first_invocation :: "(nat \<Rightarrow> unit + exploration_command option) \<Rightarrow> nat list \<Rightarrow> exploration_command option" where
  "first_invocation f [] = None"
| "first_invocation f (index # rest) =
     (case f index of Inl _ \<Rightarrow> first_invocation f rest | Inr result \<Rightarrow> result)"

definition asp_exploration_command ::
  "bash_parser \<Rightarrow> string \<Rightarrow> hook_runtime \<Rightarrow> session_policy \<Rightarrow> exploration_command option shell_result" where
  "asp_exploration_command parse command runtime p =
     shell_bind (semantic_shell_tokens parse command) (\<lambda>tokens.
       Inr (first_invocation (exploration_at p (provider_languages runtime) tokens) (asp_invocation_indices tokens)))"

definition restricted_main_session_asp_command ::
  "bash_parser \<Rightarrow> string \<Rightarrow> hook_runtime option \<Rightarrow> session_policy \<Rightarrow> exploration_command option shell_result" where
  "restricted_main_session_asp_command parse command runtime p =
     shell_bind (semantic_shell_tokens parse command) (\<lambda>tokens.
       Inr (first_invocation (restricted_at p (map_option provider_languages runtime) tokens)
              (asp_invocation_indices tokens)))"

text \<open>\<open>find_map\<close> over the commands; a panic escapes.\<close>

fun first_command ::
  "(string \<Rightarrow> 'a option shell_result) \<Rightarrow> string list \<Rightarrow> (string \<times> 'a) option shell_result" where
  "first_command f [] = Inr None"
| "first_command f (command # commands) =
     shell_bind (f command) (\<lambda>found.
       case found of Some x \<Rightarrow> Inr (Some (command, x)) | None \<Rightarrow> first_command f commands)"

definition first_asp_exploration_command ::
  "bash_parser \<Rightarrow> string list \<Rightarrow> hook_runtime \<Rightarrow> session_policy \<Rightarrow> (string \<times> exploration_command) option shell_result" where
  "first_asp_exploration_command parse commands runtime p =
     first_command (\<lambda>command. asp_exploration_command parse command runtime p) commands"

definition first_restricted_main_session_asp_command ::
  "bash_parser \<Rightarrow> string list \<Rightarrow> hook_runtime option \<Rightarrow> session_policy
     \<Rightarrow> (string \<times> exploration_command) option shell_result" where
  "first_restricted_main_session_asp_command parse commands runtime p =
     first_command (\<lambda>command. restricted_main_session_asp_command parse command runtime p) commands"

definition first_testing_command :: "string list \<Rightarrow> session_policy \<Rightarrow> string option" where
  "first_testing_command commands p =
     find (\<lambda>command. testing_command_matches p (shell_like_tokens command)) commands"

text \<open>\<open>any\<close>: stops at the first command that holds.\<close>

fun any_command :: "(string \<Rightarrow> bool shell_result) \<Rightarrow> string list \<Rightarrow> bool shell_result" where
  "any_command f [] = Inr False"
| "any_command f (command # commands) =
     shell_bind (f command) (\<lambda>b. if b then Inr True else any_command f commands)"

subsection \<open>Where the event comes from\<close>

record rollout_topology =
  tp_session_id :: string
  tp_root_session_id :: "string option"
  tp_parent_thread_id :: "string option"
  tp_thread_source :: "string option"
  tp_agent_role :: "string option"
  tp_spawn_depth :: "int option"

definition configured_resident_identity_matches :: "string \<Rightarrow> session_policy \<Rightarrow> bool" where
  "configured_resident_identity_matches normalized_role p =
     list_ex (\<lambda>candidate. normalize_agent_identity candidate = normalized_role)
       [sp_resident_child_name p, sp_resident_agent_role p, sp_resident_codex_agent_name p]"

definition is_resident_subagent :: "rollout_topology \<Rightarrow> session_policy \<Rightarrow> bool" where
  "is_resident_subagent tp p \<longleftrightarrow>
     tp_thread_source tp = Some ''subagent''
     \<and> (case tp_agent_role tp of
          None \<Rightarrow> False | Some role \<Rightarrow> configured_resident_identity_matches (normalize_agent_identity role) p)"

definition is_nested_resident_subagent :: "rollout_topology \<Rightarrow> session_policy \<Rightarrow> bool" where
  "is_nested_resident_subagent tp p \<longleftrightarrow>
     is_resident_subagent tp p
     \<and> (tp_spawn_depth tp \<noteq> Some 1 \<or> tp_parent_thread_id tp \<noteq> tp_root_session_id tp)"

definition is_direct_resident_subagent :: "rollout_topology \<Rightarrow> session_policy \<Rightarrow> bool" where
  "is_direct_resident_subagent tp p \<longleftrightarrow> is_resident_subagent tp p \<and> \<not> is_nested_resident_subagent tp p"

definition topology_of_metadata :: "rollout_metadata \<Rightarrow> rollout_topology" where
  "topology_of_metadata m =
     \<lparr>tp_session_id = rm_session_id m, tp_root_session_id = rm_root_session_id m,
      tp_parent_thread_id = rm_parent_thread_id m, tp_thread_source = rm_thread_source m,
      tp_agent_role = rm_agent_role m, tp_spawn_depth = rm_spawn_depth m\<rparr>"

definition current_rollout_topology :: "json_parser \<Rightarrow> session_host \<Rightarrow> string + rollout_topology option" where
  "current_rollout_topology jp sh =
     (case runtime_session_of sh of
        None \<Rightarrow> Inr None
      | Some session \<Rightarrow>
          map_sum id (map_option topology_of_metadata)
            (codex_rollout_session_metadata jp (sh_rollouts sh) (ss_id session)))"

definition session_matches_resident_agent :: "agent_session_record \<Rightarrow> string \<Rightarrow> string \<Rightarrow> bool" where
  "session_matches_resident_agent session child role \<longleftrightarrow> rec_name session = child \<or> rec_role session = role"

definition is_resident_of_policy :: "session_policy \<Rightarrow> agent_session_record \<Rightarrow> bool" where
  "is_resident_of_policy p session \<longleftrightarrow>
     session_matches_resident_agent session (sp_resident_child_name p) (sp_resident_agent_role p)"

record route_context =
  rx_has_agent_session :: bool
  rx_current_session :: "agent_session_record option"
  rx_active_explore_session :: "agent_session_record option"
  rx_root_session_id :: "string option"
  rx_topology :: "rollout_topology option"

definition current_is_active_resident_child :: "route_context \<Rightarrow> int \<Rightarrow> session_policy \<Rightarrow> bool" where
  "current_is_active_resident_child rx now p \<longleftrightarrow>
     (case rx_topology rx of None \<Rightarrow> False | Some tp \<Rightarrow> is_direct_resident_subagent tp p)
     \<or> (case rx_current_session rx of
          None \<Rightarrow> False | Some session \<Rightarrow> is_resident_of_policy p session \<and> is_routable_at session now)"

definition outside_agent_session :: "route_context \<Rightarrow> bool" where
  "outside_agent_session rx \<longleftrightarrow>
     \<not> rx_has_agent_session rx \<and> rx_current_session rx = None \<and> rx_active_explore_session rx = None
     \<and> rx_root_session_id rx = None \<and> rx_topology rx = None"

definition current_register_required_resident_child :: "route_context \<Rightarrow> session_policy \<Rightarrow> rollout_topology option" where
  "current_register_required_resident_child rx p =
     (case rx_topology rx of
        None \<Rightarrow> None
      | Some tp \<Rightarrow>
          then_some (is_resident_subagent tp p \<and> \<not> is_nested_resident_subagent tp p \<and> rx_current_session rx = None) tp)"

definition current_nested_resident_child :: "route_context \<Rightarrow> session_policy \<Rightarrow> rollout_topology option" where
  "current_nested_resident_child rx p =
     (case rx_topology rx of None \<Rightarrow> None | Some tp \<Rightarrow> then_some (is_nested_resident_subagent tp p) tp)"

definition registry_unavailable_for_route_child :: "string \<Rightarrow> bool" where
  "registry_unavailable_for_route_child error \<longleftrightarrow>
     list_ex (str_contains error)
       [''failed to open Turso agent session registry'', ''database is locked'', ''locking error'',
        ''failed locking file'']"

definition registry_lookup_for_route_child :: "bool \<Rightarrow> 'a option gate \<Rightarrow> 'a option gate" where
  "registry_lookup_for_route_child direct_child m =
     (\<lambda>s. case m s of
        (Inl (GateError error), s') \<Rightarrow>
          (if direct_child \<and> registry_unavailable_for_route_child error then (Inr None, s')
           else (Inl (GateError error), s'))
      | (r, s') \<Rightarrow> (r, s'))"

definition keep_routable_resident :: "session_policy \<Rightarrow> int \<Rightarrow> agent_session_record option \<Rightarrow> agent_session_record option" where
  "keep_routable_resident p now session =
     Option.bind session (\<lambda>r. then_some (is_resident_of_policy p r \<and> is_routable_at r now) r)"

definition main_session_route_context ::
  "json_parser \<Rightarrow> session_host \<Rightarrow> string \<Rightarrow> session_policy \<Rightarrow> json \<Rightarrow> route_context gate" where
  "main_session_route_context jp sh root p payload =
     gate_bind (registry_lookup_for_route_child False
         (gate_lookup (\<lambda>file. current_registered_session_identity jp sh file root))) (\<lambda>current.
       let root_session = or_else (current_root_session_id jp sh)
             (or_else (map_option rec_root_session_id current)
               (or_else (string_field root_session_keys payload) (current_agent_session_id sh))) in
       gate_bind (gate_result (sh_now sh)) (\<lambda>now.
       gate_bind (case root_session of
                    None \<Rightarrow> gate_return None
                  | Some r \<Rightarrow>
                      gate_lookup (\<lambda>file. registered_resident_session_for_root jp sh file root r (sp_resident_child_name p)))
         (\<lambda>explore.
       gate_bind (gate_result (current_rollout_topology jp sh)) (\<lambda>topology.
         gate_return
           \<lparr>rx_has_agent_session = has_current_agent_session sh, rx_current_session = current,
            rx_active_explore_session = keep_routable_resident p now explore,
            rx_root_session_id = root_session, rx_topology = topology\<rparr>))))"

subsection \<open>Topology decisions\<close>

definition topology_fields :: "rollout_topology \<Rightarrow> decision_fields \<Rightarrow> decision_fields" where
  "topology_fields tp members =
     (case tp_spawn_depth tp of None \<Rightarrow> id | Some depth \<Rightarrow> put_fields [(''spawnDepth'', JInt depth)])
       (put_optional ''agentRole'' (tp_agent_role tp)
         (put_optional ''threadSource'' (tp_thread_source tp)
           (put_optional ''parentThreadId'' (tp_parent_thread_id tp)
             (put_optional ''rootSessionId'' (tp_root_session_id tp)
               (put_strings [(''childSessionId'', tp_session_id tp)] members)))))"

definition or_empty :: "string option \<Rightarrow> string" where
  "or_empty v = (case v of None \<Rightarrow> [] | Some s \<Rightarrow> s)"

definition register_existing_child_command :: "session_policy \<Rightarrow> rollout_topology \<Rightarrow> string" where
  "register_existing_child_command p tp =
     ''asp agent session register --name '' @ sp_resident_child_name p @ '' --child-session-id '' @ tp_session_id tp
     @ '' --root-session-id '' @ or_empty (tp_root_session_id tp) @ '' --role '' @ sp_resident_agent_role p"

definition register_required_resident_child_decision ::
  "string \<Rightarrow> string \<Rightarrow> json \<Rightarrow> rollout_topology \<Rightarrow> session_policy \<Rightarrow> hook_decision" where
  "register_required_resident_child_decision platform event payload tp p =
     new_decision platform event Deny RawBroadSearch [] (session_subject payload None) []
       (''ASP resident child session is not registered. Register this exact child before running restricted ASP work.''
        @ newline @ ''childSessionId='' @ tp_session_id tp @ newline @ ''rootSessionId='' @ or_empty (tp_root_session_id tp)
        @ newline @ ''parentThreadId='' @ or_empty (tp_parent_thread_id tp)
        @ newline @ ''registerCommand='' @ register_existing_child_command p tp)
       (put_strings
          [(''agentSessionBootstrap'', ''register-required''),
           (''agentSessionBootstrapGuideCommand'', register_existing_child_command p tp)]
          (topology_fields tp
            (append_resident_agent_fields platform p
              (agent_session_route_fields ''register-existing-child'' (sp_resident_child_name p)))))"

definition nested_resident_child_decision ::
  "string \<Rightarrow> string \<Rightarrow> json \<Rightarrow> rollout_topology \<Rightarrow> session_policy \<Rightarrow> hook_decision" where
  "nested_resident_child_decision platform event payload tp p =
     new_decision platform event Deny RawBroadSearch [] (session_subject payload None) []
       (''ASP denied nested resident child lifecycle. This session is already a configured resident child and must not create or route through another resident child.''
        @ newline @ ''childSessionId='' @ tp_session_id tp @ newline @ ''rootSessionId='' @ or_empty (tp_root_session_id tp)
        @ newline @ ''parentThreadId='' @ or_empty (tp_parent_thread_id tp)
        @ newline @ ''spawnDepth='' @ or_missing (map_option show_int (tp_spawn_depth tp)))
       (put_strings [(''agentSessionBootstrap'', ''nested-resident-child-denied'')]
          (topology_fields tp
            (append_resident_agent_fields platform p
              (agent_session_route_fields ''nested-resident-child-denied'' (sp_resident_child_name p)))))"


subsection \<open>Before a tool use\<close>

text \<open>What every decision of the gate is made from.\<close>

record gate_env =
  ge_parse :: bash_parser
  ge_json :: json_parser
  ge_sha :: "string \<Rightarrow> string"
  ge_print :: "json \<Rightarrow> string"
  ge_create :: "string + unit"
  ge_host :: session_host
  ge_root :: string
  ge_platform :: string
  ge_policy :: session_policy

definition main_session_context :: "gate_env \<Rightarrow> json \<Rightarrow> route_context gate" where
  "main_session_context ge payload =
     main_session_route_context (ge_json ge) (ge_host ge) (ge_root ge) (ge_policy ge) payload"

definition testing_decision :: "gate_env \<Rightarrow> string \<Rightarrow> json \<Rightarrow> string \<Rightarrow> hook_decision" where
  "testing_decision ge event payload command =
     testing_execution_decision (ge_sha ge) (ge_platform ge) event payload command (ge_policy ge)"

text \<open>The current session is the resident child.\<close>

definition resident_child_pre_tool :: "gate_env \<Rightarrow> string \<Rightarrow> json \<Rightarrow> string list \<Rightarrow> hook_decision option shell_result" where
  "resident_child_pre_tool ge event payload commands =
     shell_bind (any_command (command_contains_asp_binary (ge_parse ge)) commands) (\<lambda>asp.
       Inr (if asp then
              Some (agent_session_allow_decision (ge_platform ge) event payload ''active-resident-child''
                      ''ASP allowed resident asp-explore child session command.'')
            else map_option (testing_decision ge event payload) (first_testing_command commands (ge_policy ge))))"

text \<open>The main session explores, and no child can take the command.\<close>

definition explore_without_child ::
  "gate_env \<Rightarrow> string \<Rightarrow> json \<Rightarrow> string list \<Rightarrow> route_context \<Rightarrow> string \<times> exploration_command
     \<Rightarrow> hook_decision shell_result" where
  "explore_without_child ge event payload commands rx found =
     (let p = ge_policy ge; platform = ge_platform ge in
      case found of
        (command, invocation) \<Rightarrow>
          if command_enables_inline_parser_fallback command then
            inline_fallback_decision (ge_parse ge) (ge_sha ge) platform event payload command invocation p
          else (case current_nested_resident_child rx p of
                  Some tp \<Rightarrow> Inr (nested_resident_child_decision platform event payload tp p)
                | None \<Rightarrow>
                    (case current_register_required_resident_child rx p of
                       Some tp \<Rightarrow> Inr (register_required_resident_child_decision platform event payload tp p)
                     | None \<Rightarrow>
                         missing_resident_asp_explore_decision (ge_parse ge) platform event payload
                           (case commands of [] \<Rightarrow> None | c # _ \<Rightarrow> Some c) (rx_root_session_id rx) p)))"

text \<open>The main session has a child, or does not explore.\<close>

definition main_session_commands ::
  "gate_env \<Rightarrow> string \<Rightarrow> json \<Rightarrow> string list \<Rightarrow> hook_runtime option \<Rightarrow> (string \<times> exploration_command) option
     \<Rightarrow> route_context \<Rightarrow> hook_decision option shell_result" where
  "main_session_commands ge event payload commands runtime exploration rx =
     (case exploration of
        Some (command, invocation) \<Rightarrow>
          shell_bind (exploration_decision (ge_parse ge) (ge_platform ge) event payload command invocation
                        (rx_active_explore_session rx) (ge_policy ge)) (\<lambda>d. Inr (Some d))
      | None \<Rightarrow>
          shell_bind (first_restricted_main_session_asp_command (ge_parse ge) commands runtime (ge_policy ge)) (\<lambda>restricted.
            case restricted of
              Some (command, invocation) \<Rightarrow>
                shell_bind (restricted_decision (ge_parse ge) (ge_platform ge) event payload command invocation
                              (rx_active_explore_session rx) (ge_policy ge)) (\<lambda>d. Inr (Some d))
            | None \<Rightarrow> Inr None))"

definition pre_tool_decision ::
  "gate_env \<Rightarrow> string \<Rightarrow> hook_runtime \<Rightarrow> json \<Rightarrow> string list \<Rightarrow> route_context \<Rightarrow> int \<Rightarrow> hook_decision option shell_result" where
  "pre_tool_decision ge event runtime payload commands rx now =
     (let p = ge_policy ge in
      if current_is_active_resident_child rx now p then resident_child_pre_tool ge event payload commands
      else if outside_agent_session rx then Inr None
      else (case first_testing_command commands p of
              Some command \<Rightarrow> Inr (Some (testing_decision ge event payload command))
            | None \<Rightarrow>
                shell_bind (first_asp_exploration_command (ge_parse ge) commands runtime p) (\<lambda>exploration.
                  case exploration of
                    Some found \<Rightarrow>
                      if rx_active_explore_session rx = None then
                        shell_bind (explore_without_child ge event payload commands rx found) (\<lambda>d. Inr (Some d))
                      else main_session_commands ge event payload commands (Some runtime) exploration rx
                  | None \<Rightarrow> main_session_commands ge event payload commands (Some runtime) None rx)))"

definition classify_pre_tool_main_session_asp ::
  "gate_env \<Rightarrow> string \<Rightarrow> hook_runtime \<Rightarrow> json \<Rightarrow> hook_decision option gate" where
  "classify_pre_tool_main_session_asp ge event runtime payload =
     (let commands = payload_command_strings payload in
      if commands = [] then gate_return None
      else gate_bind (main_session_context ge payload) (\<lambda>rx.
           gate_bind (gate_result (sh_now (ge_host ge))) (\<lambda>now.
             gate_shell (pre_tool_decision ge event runtime payload commands rx now))))"

definition record_post_tool_session_event :: "gate_env \<Rightarrow> string \<Rightarrow> json \<Rightarrow> unit gate" where
  "record_post_tool_session_event ge event payload =
     gate_bind (gate_lookup (\<lambda>file.
         record_current_session_tool_event (ge_host ge) file event
           (case payload_command_strings payload of [] \<Rightarrow> None | c # _ \<Rightarrow> Some c) (payload_evidence_ref payload)))
       (\<lambda>_. gate_return ())"

subsection \<open>Without an activation\<close>

text \<open>The statuses of a child that is of no use any more; it is taken for absent.\<close>

definition unusable_statuses :: "string set" where
  "unusable_statuses =
     {''archived'', ''closed'', ''deleted'', ''expired'', ''invalid'', ''missing'', ''orphan-risk''}"

definition activation_failure_decision ::
  "gate_env \<Rightarrow> string \<Rightarrow> json \<Rightarrow> string list \<Rightarrow> route_context \<Rightarrow> int \<Rightarrow> hook_decision option shell_result" where
  "activation_failure_decision ge event payload commands rx0 now =
     (let p = ge_policy ge; platform = ge_platform ge;
          unusable = (case rx_active_explore_session rx0 of
                        None \<Rightarrow> False | Some session \<Rightarrow> rec_status session \<in> unusable_statuses);
          rx = (if unusable then rx0\<lparr>rx_active_explore_session := None\<rparr> else rx0) in
      if current_is_active_resident_child rx now p then
        shell_bind (any_command (command_contains_asp_binary (ge_parse ge)) commands) (\<lambda>asp.
          Inr (if asp then
                 Some (agent_session_allow_decision platform event payload ''active-resident-child''
                         ''ASP allowed resident asp-explore child session command.'')
               else None))
      else if outside_agent_session rx then Inr None
      else
        shell_bind (any_command
            (\<lambda>c. command_requires_resident_child (ge_parse ge) c (sp_command_intent_policy p)) commands) (\<lambda>requires_child.
          if rx_active_explore_session rx = None \<and> requires_child then
            (case current_nested_resident_child rx p of
               Some tp \<Rightarrow> Inr (Some (nested_resident_child_decision platform event payload tp p))
             | None \<Rightarrow>
                 (case (if unusable then None else current_register_required_resident_child rx p) of
                    Some tp \<Rightarrow> Inr (Some (register_required_resident_child_decision platform event payload tp p))
                  | None \<Rightarrow>
                      shell_bind (missing_resident_asp_explore_decision (ge_parse ge) platform event payload
                          (case commands of [] \<Rightarrow> None | c # _ \<Rightarrow> Some c) (rx_root_session_id rx) p)
                        (\<lambda>d. Inr (Some d))))
          else main_session_commands ge event payload commands None None rx))"

definition classify_activation_failure_main_session_asp ::
  "gate_env \<Rightarrow> string \<Rightarrow> json \<Rightarrow> hook_decision option gate" where
  "classify_activation_failure_main_session_asp ge event payload =
     (let commands = payload_command_strings payload in
      if \<not> sp_enabled (ge_policy ge) \<or> event \<noteq> ''pre-tool'' \<or> commands = [] then gate_return None
      else gate_bind (main_session_context ge payload) (\<lambda>rx.
           gate_bind (gate_result (sh_now (ge_host ge))) (\<lambda>now.
             gate_shell (activation_failure_decision ge event payload commands rx now))))"

subsection \<open>Session start\<close>

text \<open>
  The registry of the project is the same file, created when absent; rows are not expired by that.  \<open>ge_create\<close> is
  the outcome of creating its directory and opening it.
\<close>

definition open_or_create_registry :: "gate_env \<Rightarrow> session_table gate" where
  "open_or_create_registry ge =
     (\<lambda>s. case ge_create ge of
        Inl error \<Rightarrow> (Inl (GateError error), s)
      | Inr _ \<Rightarrow>
          (let rows = (case gs_registry s of Some t \<Rightarrow> t | None \<Rightarrow> [])
           in (Inr rows, s\<lparr>gs_registry := Some rows\<rparr>)))"

text \<open>A statement on the registry that is open.\<close>

definition gate_statement :: "(session_table \<Rightarrow> (registry_error + 'a) \<times> session_table) \<Rightarrow> 'a gate" where
  "gate_statement f =
     (\<lambda>s. case f (case gs_registry s of Some t \<Rightarrow> t | None \<Rightarrow> []) of
        (r, t) \<Rightarrow> (map_err GateRegistry r, s\<lparr>gs_registry := Some t\<rparr>))"

definition gate_delete :: "string \<Rightarrow> string \<Rightarrow> unit gate" where
  "gate_delete project session = gate_statement (\<lambda>t. (Inr (), snd (delete_session project session t)))"

definition session_start_deny ::
  "string \<Rightarrow> string \<Rightarrow> json \<Rightarrow> string \<Rightarrow> decision_fields \<Rightarrow> hook_decision" where
  "session_start_deny platform event payload message members =
     new_decision platform event Deny RawBroadSearch [] (session_subject payload None) [] message members"

definition session_start_reuse_decision ::
  "string \<Rightarrow> string \<Rightarrow> json \<Rightarrow> agent_session_record \<Rightarrow> session_policy \<Rightarrow> hook_decision" where
  "session_start_reuse_decision platform event payload session p =
     (let child = sp_resident_child_name p in
      session_start_deny platform event payload
        (render_agent_session_template (sm_session_start_reuse (sp_messages p))
           [(''residentChildName'', child), (''childSessionId'', rec_session_id session),
            (''rootSessionId'', rec_root_session_id session)])
        (put_strings
           [(''rootSessionId'', rec_root_session_id session), (''childSessionId'', rec_session_id session),
            (''agentSessionExistingChildId'', rec_session_id session), (''childSessionName'', rec_name session),
            (''nextAction'', ''enter-bootstrap-pane-for-existing-child'')]
           (append_resident_agent_fields platform p (agent_session_route_fields ''reuse-resident-child'' child))))"

definition session_start_resume_existing_decision ::
  "string \<Rightarrow> string \<Rightarrow> json \<Rightarrow> agent_session_record \<Rightarrow> session_policy \<Rightarrow> hook_decision" where
  "session_start_resume_existing_decision platform event payload session p =
     (let child = sp_resident_child_name p in
      session_start_deny platform event payload
        (''Existing resident '' @ child @ '' child session '' @ rec_session_id session @ '' is registered with status ''
         @ rec_status session
         @ ''. Enter the resident-child choice pane and let it recover or replace that child; do not create a generic replacement outside the pane.'')
        (put_strings
           [(''rootSessionId'', rec_root_session_id session), (''childSessionId'', rec_session_id session),
            (''agentSessionResumeId'', rec_session_id session), (''childSessionName'', rec_name session),
            (''childSessionStatus'', rec_status session),
            (''nextAction'', ''enter-bootstrap-pane-for-existing-child'')]
           (append_resident_agent_fields platform p
              (agent_session_route_fields ''resume-existing-resident-child'' child))))"

definition session_start_bootstrap_decision ::
  "string \<Rightarrow> string \<Rightarrow> json \<Rightarrow> string option \<Rightarrow> session_policy \<Rightarrow> hook_decision" where
  "session_start_bootstrap_decision platform event payload root_session p =
     (let child = sp_resident_child_name p in
      session_start_deny platform event payload
        (render_agent_session_template (sm_session_start_bootstrap (sp_messages p))
           [(''residentChildName'', child), (''residentCodexAgentName'', sp_resident_codex_agent_name p),
            (''createAction'', resident_child_create_action platform p), (''rootSessionId'', or_empty root_session)])
        (put_optional ''rootSessionId'' root_session
           (put_strings
              [(''agentSessionBootstrap'', ''session-start-reminder''),
               (''agentSessionBootstrapGuideCommand'', bootstrap_command child)]
              (append_resident_agent_fields platform p
                 (agent_session_route_fields ''enter-resident-child-bootstrap-pane'' child)))))"

type_synonym reconciliation = "(agent_session_record \<times> session_liveness) option \<times> nat"

definition reconciled_decision ::
  "int \<Rightarrow> string \<Rightarrow> string \<Rightarrow> json \<Rightarrow> agent_session_record \<times> session_liveness \<Rightarrow> session_policy \<Rightarrow> hook_decision" where
  "reconciled_decision now platform event payload existing p =
     (case existing of
        (session, liveness) \<Rightarrow>
          if \<not> is_routable_at session now then session_start_resume_existing_decision platform event payload session p
          else (case liveness of
                  Resumable _ \<Rightarrow> session_start_resume_existing_decision platform event payload session p
                | ActiveTurn _ \<Rightarrow> session_start_reuse_decision platform event payload session p
                | UnknownActivity _ \<Rightarrow> session_start_reuse_decision platform event payload session p
                | MissingRollout \<Rightarrow> session_start_resume_existing_decision platform event payload session p
                | UnavailableRollout _ \<Rightarrow> session_start_resume_existing_decision platform event payload session p))"

definition liveness_fields :: "session_liveness \<Rightarrow> string \<times> session_activity option \<times> string option" where
  "liveness_fields liveness =
     (case liveness of
        Resumable a \<Rightarrow> (''rollout-resumable'', Some a, None)
      | ActiveTurn a \<Rightarrow> (''rollout-active'', Some a, None)
      | UnknownActivity a \<Rightarrow> (''rollout-unknown'', Some a, None)
      | MissingRollout \<Rightarrow> (''rollout-missing'', None, None)
      | UnavailableRollout error \<Rightarrow> (''rollout-unavailable'', None, Some error))"

definition append_resident_reconciliation_fields :: "reconciliation \<Rightarrow> hook_decision \<Rightarrow> hook_decision" where
  "append_resident_reconciliation_fields rc d =
     (case rc of
        (None, _) \<Rightarrow> d
      | (Some (_, liveness), historical) \<Rightarrow>
          (case liveness_fields liveness of
             (state, activity, error) \<Rightarrow>
               d\<lparr>d_fields :=
                   put_optional ''agentSessionRolloutError'' error
                     (put_fields (case activity of None \<Rightarrow> []
                                  | Some a \<Rightarrow> [(''agentSessionRolloutScannedBytes'', JInt (int (sa_scanned_bytes a)))])
                       (put_optional ''agentSessionRolloutLastEventKind'' (Option.bind activity sa_last_event_kind)
                         (put_fields
                            [(''agentSessionReconciliation'', JString state),
                             (''agentSessionRolloutLookup'', JString ''session-id-fast-path''),
                             (''agentSessionHistoricalResidentCount'', JInt (int historical))] (d_fields d))))\<rparr>))"

definition reconcile :: "gate_env \<Rightarrow> session_table \<Rightarrow> string \<Rightarrow> reconciliation" where
  "reconcile ge rows root_session =
     reconcile_resident_session (ge_json ge) (sh_rollouts (ge_host ge)) rows
       (project_scope_id (ge_host ge) (ge_root ge)) root_session
       (sp_resident_child_name (ge_policy ge)) (sp_resident_agent_role (ge_policy ge))"

definition current_session_resident_child_identity_proof ::
  "json_parser \<Rightarrow> session_host \<Rightarrow> registry_file \<Rightarrow> string \<Rightarrow> session_policy \<Rightarrow> json \<Rightarrow> identity_proof option lookup" where
  "current_session_resident_child_identity_proof jp sh file root p payload =
     (if string_field [''agent_id'', ''agentId''] payload = non_empty_session_env (sh_env sh) ''CODEX_THREAD_ID''
         \<and> string_field [''agent_type'', ''agentType''] payload = Some (sp_resident_agent_role p)
      then (Inr (Some CodexHookPayload), file)
      else (case codex_transcript_resident_child_identity_proof jp sh file root payload
                   (sp_resident_child_name p) (sp_resident_agent_role p) of
              (Inl error, file') \<Rightarrow> (Inl error, file')
            | (Inr (Some proof), file') \<Rightarrow> (Inr (Some proof), file')
            | (Inr None, file') \<Rightarrow>
                current_resident_child_identity_proof jp sh file' root
                  (sp_resident_child_name p) (sp_resident_agent_role p)))"

definition payload_matches_resident_managed_agent :: "json \<Rightarrow> session_policy \<Rightarrow> bool" where
  "payload_matches_resident_managed_agent payload p \<longleftrightarrow>
     string_field [''agent_role'', ''agentRole''] payload = Some (sp_resident_agent_role p)
     \<or> map_option (last_piece (\<lambda>c. c = CHR ''/'')) (string_field [''agent_path'', ''agentPath''] payload)
         = Some (sp_resident_agent_role p)"

subsection \<open>A child that the host started\<close>

record native_context =
  nc_event :: native_subagent_event
  nc_root :: string
  nc_expected_model :: "string option"
  nc_expected_reasoning :: "string option"
  nc_observed_reasoning :: "string option"

text \<open>An absent rollout is no error here.\<close>

definition native_metadata :: "gate_env \<Rightarrow> string \<Rightarrow> string + rollout_metadata option" where
  "native_metadata ge agent =
     (case codex_rollout_session_metadata (ge_json ge) (sh_rollouts (ge_host ge)) agent of
        Inl error \<Rightarrow>
          if starts_with error ''Codex rollout invariant broken: no rollout JSONL found for session'' then Inr None
          else Inl error
      | Inr m \<Rightarrow> Inr m)"

definition native_context_of :: "gate_env \<Rightarrow> string \<Rightarrow> json \<Rightarrow> string + native_context option" where
  "native_context_of ge event payload =
     (if ge_platform ge = ''codex'' \<and> event = ''subagent-start'' then
        result_bind (parse_subagent_event payload) (\<lambda>parsed.
          case parsed of
            None \<Rightarrow> Inr None
          | Some native \<Rightarrow>
              let p = ge_policy ge; ph = sh_profile (ge_host ge) in
              result_bind (native_metadata ge (ne_agent_id native)) (\<lambda>metadata.
              result_bind (expected_model_for_session_profile ph (sp_resident_child_name p) (sp_resident_agent_role p))
                (\<lambda>model.
              result_bind (expected_reasoning_effort_for_session_profile ph
                             (sp_resident_child_name p) (sp_resident_agent_role p)) (\<lambda>reasoning.
                Inr (Some
                  \<lparr>nc_event = native,
                   nc_root = (case Option.bind metadata (\<lambda>m. or_else (rm_root_session_id m) (rm_parent_thread_id m)) of
                                Some r \<Rightarrow> r | None \<Rightarrow> ne_root_session_id native),
                   nc_expected_model = model, nc_expected_reasoning = reasoning,
                   nc_observed_reasoning =
                     or_else (ne_reasoning_effort native) (Option.bind metadata rm_reasoning_effort)\<rparr>)))))
      else Inr None)"

definition nc_managed :: "session_policy \<Rightarrow> native_context \<Rightarrow> bool" where
  "nc_managed p nc \<longleftrightarrow>
     ne_kind (nc_event nc) = NativeStart \<and> ne_agent_type (nc_event nc) = sp_resident_agent_role p"

definition reasoning_observation_mismatches_profile :: "string option \<Rightarrow> string option \<Rightarrow> bool" where
  "reasoning_observation_mismatches_profile observed expected \<longleftrightarrow>
     observed \<noteq> None \<and> expected \<noteq> None \<and> observed \<noteq> expected"

definition model_mismatch :: "native_context \<Rightarrow> bool" where
  "model_mismatch nc \<longleftrightarrow>
     (case nc_expected_model nc of None \<Rightarrow> False | Some m \<Rightarrow> m \<noteq> ne_model (nc_event nc))"

definition reasoning_mismatch :: "native_context \<Rightarrow> bool" where
  "reasoning_mismatch nc \<longleftrightarrow>
     reasoning_observation_mismatches_profile (nc_observed_reasoning nc) (nc_expected_reasoning nc)"

definition terminal_statuses :: "string set" where
  "terminal_statuses = {''invalid'', ''replacement-required'', ''orphan-risk'', ''archived'', ''closed''}"

definition release_terminal_owner_before_typed_start :: "gate_env \<Rightarrow> native_context \<Rightarrow> unit gate" where
  "release_terminal_owner_before_typed_start ge nc =
     (let project = project_scope_id (ge_host ge) (ge_root ge) in
      gate_bind (open_or_create_registry ge) (\<lambda>rows.
        case find (\<lambda>r. rec_session_id r \<noteq> ne_agent_id (nc_event nc) \<and> rec_status r \<in> terminal_statuses)
               (query_sessions project (Some (nc_root nc)) (Some (sp_resident_child_name (ge_policy ge))) rows) of
          None \<Rightarrow> gate_return ()
        | Some existing \<Rightarrow> gate_delete project (rec_session_id existing)))"

definition unmanaged_fields :: "string \<Rightarrow> native_context \<Rightarrow> session_policy \<Rightarrow> bool \<Rightarrow> decision_fields" where
  "unmanaged_fields platform nc p repair =
     (let native = nc_event nc; child = sp_resident_child_name p; expected_type = sp_resident_agent_role p;
          action = (if repair then ''replace-drifted-native-subagent'' else ''ignore-unmanaged-native-subagent'') in
      put_fields
        (if repair
         then [(''runtimeDriftDetected'', JBool True),
               (''profileDriftDetected'', JBool (ne_agent_type native \<noteq> expected_type)),
               (''nextAction'', JString ''retire-drifted-child-and-create-configured-replacement'')]
         else [])
        (put_optional ''agentSessionExpectedReasoningEffort'' (nc_expected_reasoning nc)
          (put_optional ''agentSessionObservedReasoningEffort'' (nc_observed_reasoning nc)
            (put_optional ''agentSessionExpectedModel'' (nc_expected_model nc)
              (put_strings
                [(''rootSessionId'', ne_root_session_id native), (''agentSessionObservedChildId'', ne_agent_id native),
                 (''agentSessionObservedAgentType'', ne_agent_type native),
                 (''agentSessionExpectedAgentType'', expected_type), (''agentSessionObservedModel'', ne_model native)]
                (append_resident_agent_fields platform p (agent_session_route_fields action child)))))))"

definition or_text :: "string \<Rightarrow> string option \<Rightarrow> string" where
  "or_text otherwise v = (case v of Some s \<Rightarrow> s | None \<Rightarrow> otherwise)"

definition unmanaged_codex_subagent_start_decision ::
  "string \<Rightarrow> string \<Rightarrow> json \<Rightarrow> native_context \<Rightarrow> session_policy \<Rightarrow> bool \<Rightarrow> hook_decision" where
  "unmanaged_codex_subagent_start_decision platform event payload nc p repair =
     (let native = nc_event nc; expected_type = sp_resident_agent_role p in
      new_decision platform event Allow ReasonNone [] (session_subject payload None) []
        (if repair then
           ''Codex delivered SubagentStart for child '' @ ne_agent_id native @ '' with agent_type `'' @ ne_agent_type native
           @ ''` and runtime model `'' @ ne_model native @ ''` / reasoning `'' @ or_missing (nc_observed_reasoning nc)
           @ ''`, while the registered `'' @ expected_type @ ''` role requires model `''
           @ or_text ''<missing configured model>'' (nc_expected_model nc) @ ''` / reasoning `''
           @ or_text ''<not configured>'' (nc_expected_reasoning nc)
           @ ''`. This is a typed-child replacement case, not a same-child model-switch case. Allow native lifecycle completion, retire/archive this drifted child, then create exactly one replacement with agent_type='' @ expected_type
           @ '' and fork_turns=none so Codex loads the registered TOML. If the host cannot retire or expose typed creation, keep ASP routing degraded without blocking unrelated Codex tools.''
         else
           ''Codex delivered SubagentStart for unrelated native agent type `'' @ ne_agent_type native
           @ ''` with model `'' @ ne_model native
           @ ''` while an ASP resident child is already active. This child remains outside ASP lifecycle management.'')
        (unmanaged_fields platform nc p repair))"

definition repair_candidate :: "native_context \<Rightarrow> session_policy \<Rightarrow> agent_session_record option \<Rightarrow> bool" where
  "repair_candidate nc p active_resident \<longleftrightarrow>
     (ne_agent_type (nc_event nc) \<noteq> sp_resident_agent_role p \<or> model_mismatch nc \<or> reasoning_mismatch nc)
     \<and> (case active_resident of None \<Rightarrow> True | Some r \<Rightarrow> rec_session_id r = ne_agent_id (nc_event nc))"

definition unmanaged_start :: "gate_env \<Rightarrow> string \<Rightarrow> json \<Rightarrow> native_context \<Rightarrow> hook_decision option gate" where
  "unmanaged_start ge event payload nc =
     (let p = ge_policy ge in
      gate_bind (gate_result (sh_now (ge_host ge))) (\<lambda>now.
      gate_bind (gate_lookup (\<lambda>file. registered_resident_session_for_root (ge_json ge) (ge_host ge) file (ge_root ge)
                   (nc_root nc) (sp_resident_child_name p))) (\<lambda>resident.
        gate_return (Some (unmanaged_codex_subagent_start_decision (ge_platform ge) event payload nc p
          (repair_candidate nc p (keep_routable_resident p now resident)))))))"

text \<open>A managed child with another model or effort: it may finish, and is to be replaced.\<close>

definition runtime_drift_decision :: "gate_env \<Rightarrow> string \<Rightarrow> json \<Rightarrow> native_context \<Rightarrow> hook_decision option" where
  "runtime_drift_decision ge event payload nc =
     (let native = nc_event nc; p = ge_policy ge;
          d = session_start_bootstrap_decision (ge_platform ge) event payload (Some (nc_root nc)) p in
      if \<not> (model_mismatch nc \<or> reasoning_mismatch nc) then None
      else Some (d\<lparr>d_decision := Allow, d_reason_kind := ReasonNone,
        d_message :=
          ''Codex started or resumed ASP child '' @ ne_agent_id native @ '' with runtime model '' @ ne_model native
          @ '' and reasoning '' @ or_missing (nc_observed_reasoning nc)
          @ '', but its registered role requires model ''
          @ or_text ''<missing configured model>'' (nc_expected_model nc) @ '' and reasoning ''
          @ or_text ''<not configured>'' (nc_expected_reasoning nc)
          @ ''. Codex exposes no same-child runtime override on resume/follow-up. Allow lifecycle completion, mark this child replacement-required, retire/archive it through the host, then create exactly one agent_type='' @ sp_resident_agent_role p
          @ '' replacement from the registered TOML. This drift must not block unrelated Codex tools.'',
        d_fields :=
          put_fields [(''runtimeDriftDetected'', JBool True)]
            (put_optional ''expectedReasoningEffort'' (nc_expected_reasoning nc)
              (put_optional ''expectedModel'' (nc_expected_model nc)
                (put_strings
                   [(''nextAction'', ''retire-drifted-child-and-create-configured-replacement''),
                    (''observedModel'', ne_model native)]
                   (put_optional ''agentSessionObservedReasoningEffort'' (nc_observed_reasoning nc)
                     (put_strings
                        [(''agentSessionAction'', ''replace-drifted-native-subagent''),
                         (''rootSessionId'', nc_root nc), (''childSessionId'', ne_agent_id native),
                         (''agentSessionObservedChildId'', ne_agent_id native),
                         (''agentSessionObservedAgentType'', ne_agent_type native),
                         (''agentSessionExpectedAgentType'', sp_resident_agent_role p),
                         (''agentSessionObservedModel'', ne_model native)] (d_fields d))))))\<rparr>))"

definition json_or_null :: "string option \<Rightarrow> json" where
  "json_or_null v = (case v of None \<Rightarrow> JNull | Some s \<Rightarrow> JString s)"

definition typed_spawn_reasoning_verification :: "string option \<Rightarrow> string option \<Rightarrow> json" where
  "typed_spawn_reasoning_verification observed configured =
     JObject
       [(''observedReasoningEffort'', json_or_null observed), (''configuredReasoningEffort'', json_or_null configured),
        (''status'', JString (if observed \<noteq> None then ''observed-match'' else ''typed-spawn-profile-attested'')),
        (''source'', JString (if observed \<noteq> None then ''codex.subagent-start-or-rollout''
                              else ''asp-collaboration-spawn-plus-profile''))]"

definition child_metadata ::
  "native_context option \<Rightarrow> session_policy \<Rightarrow> string \<Rightarrow> string \<Rightarrow> string option \<Rightarrow> int \<Rightarrow> json" where
  "child_metadata nc p root_session child target now =
     (let native = map_option nc_event nc in
      JObject
        [(''event'', JString ''subagent-start''), (''native'', JBool True), (''rootSessionId'', JString root_session),
         (''childSessionId'', JString child), (''agentRole'', JString (sp_resident_agent_role p)),
         (''agentType'', json_or_null (map_option ne_agent_type native)),
         (''model'', json_or_null (map_option ne_model native)),
         (''reasoningVerification'',
          typed_spawn_reasoning_verification (Option.bind nc nc_observed_reasoning) (Option.bind nc nc_expected_reasoning)),
         (''permissionMode'', json_or_null (map_option ne_permission_mode native)),
         (''messageTargetBinding'',
          case target of
            None \<Rightarrow> JNull
          | Some t \<Rightarrow>
              JObject [(''source'', JString ''codex.subagent-start''), (''boundRootSessionId'', JString root_session),
                       (''childSessionId'', JString child), (''messageTargetId'', JString t),
                       (''observedAt'', JInt now)])])"

definition child_request ::
  "gate_env \<Rightarrow> json \<Rightarrow> native_context option \<Rightarrow> string \<Rightarrow> string \<Rightarrow> string option \<Rightarrow> bool \<Rightarrow> int \<Rightarrow> register_request" where
  "child_request ge payload nc root_session child target drifted now =
     (let p = ge_policy ge in
      \<lparr>rq_project_id = project_scope_id (ge_host ge) (ge_root ge), rq_root_session_id = root_session,
       rq_session_id = child, rq_message_target_id = target, rq_parent_session_id = Some root_session,
       rq_name = sp_resident_child_name p, rq_role = sp_resident_agent_role p,
       rq_model_observation =
         map_option (\<lambda>model. \<lparr>ob_model = model, ob_source = CodexSubagentStart, ob_observed_at = now,
                              ob_evidence_ref = None\<rparr>) (string_field [''model'', ''modelId''] payload),
       rq_status = (if drifted then ''replacement-required'' else if target \<noteq> None then ''active'' else ''pending-target''),
       rq_expires_at = None,
       rq_metadata_json = ge_print ge (child_metadata nc p root_session child target now), rq_now = now\<rparr>)"

definition record_start :: "gate_env \<Rightarrow> string \<Rightarrow> string option \<Rightarrow> int \<Rightarrow> unit gate" where
  "record_start ge root_session target now =
     (\<lambda>s. (Inr (), if target \<noteq> None
                   then s\<lparr>gs_observations :=
                     record_subagent_start_target_present root_session (sp_resident_child_name (ge_policy ge)) now
                       (gs_observations s)\<rparr>
                   else s))"

definition duplicate_child_fields :: "string \<Rightarrow> hook_decision \<Rightarrow> hook_decision" where
  "duplicate_child_fields child d =
     d\<lparr>d_fields := put_strings [(''agentSessionDuplicateChildId'', child),
                                (''agentSessionDuplicateChildAction'', ''close-native-subagent'')] (d_fields d)\<rparr>"

text \<open>The child that was started is entered, unless the root has another one.\<close>

definition claim_started_child ::
  "gate_env \<Rightarrow> string \<Rightarrow> json \<Rightarrow> native_context option \<Rightarrow> hook_decision option \<Rightarrow> string \<Rightarrow> string \<Rightarrow> string option
     \<Rightarrow> int \<Rightarrow> hook_decision option gate" where
  "claim_started_child ge event payload nc drift root_session child target now =
     (let p = ge_policy ge; request = child_request ge payload nc root_session child target (drift \<noteq> None) now in
      gate_bind (gate_statement (claim_resident_session request)) (\<lambda>claimed.
        if rec_session_id claimed = child then
          gate_bind (if target \<noteq> None then gate_bind (gate_statement (register_session_once request)) (\<lambda>_. gate_return ())
                     else gate_return ()) (\<lambda>_.
          gate_bind (record_start ge root_session target now) (\<lambda>_. gate_return drift))
        else
          gate_return (Some (duplicate_child_fields child
            (if is_routable_at claimed now
             then session_start_reuse_decision (ge_platform ge) event payload claimed p
             else session_start_resume_existing_decision (ge_platform ge) event payload claimed p)))))"

definition register_started_child ::
  "gate_env \<Rightarrow> string \<Rightarrow> json \<Rightarrow> native_context option \<Rightarrow> hook_decision option \<Rightarrow> string \<Rightarrow> string \<Rightarrow> int
     \<Rightarrow> hook_decision option gate" where
  "register_started_child ge event payload nc drift root_session child now =
     (let p = ge_policy ge; project = project_scope_id (ge_host ge) (ge_root ge);
          target = (case nc of Some c \<Rightarrow> Some (message_target_id (nc_event c))
                    | None \<Rightarrow> then_some (ge_platform ge = ''codex'') child) in
      gate_bind (open_or_create_registry ge) (\<lambda>rows.
        let rc = reconcile ge rows root_session in
        case (case fst rc of
                Some (session, liveness) \<Rightarrow>
                  then_some (rec_session_id session \<noteq> child \<and> rec_status session \<notin> {''archived'', ''closed''})
                    (session, liveness)
              | None \<Rightarrow> None) of
          Some existing \<Rightarrow>
            gate_return (Some (duplicate_child_fields child
              (append_resident_reconciliation_fields rc
                (reconciled_decision now (ge_platform ge) event payload existing p))))
        | None \<Rightarrow>
            gate_bind (gate_lookup (\<lambda>file. registered_resident_session_for_root (ge_json ge) (ge_host ge) file (ge_root ge)
                         root_session (sp_resident_child_name p))) (\<lambda>owner.
              case Option.bind owner (\<lambda>r. then_some (rec_session_id r \<noteq> child
                     \<and> rec_status r \<in> {''archived'', ''closed'', ''invalid'', ''replacement-required''}) r) of
                Some terminal \<Rightarrow>
                  gate_bind (gate_delete project (rec_session_id terminal)) (\<lambda>_.
                  gate_bind (gate_statement (register_session_once
                      (child_request ge payload nc root_session child target (drift \<noteq> None) now))) (\<lambda>_.
                  gate_bind (record_start ge root_session target now) (\<lambda>_. gate_return drift)))
              | None \<Rightarrow> claim_started_child ge event payload nc drift root_session child target now)))"

definition started_child_ids ::
  "gate_env \<Rightarrow> json \<Rightarrow> native_context option \<Rightarrow> rollout_topology option \<Rightarrow> string option \<times> string option" where
  "started_child_ids ge payload nc direct =
     (or_else (map_option (\<lambda>c. ne_agent_id (nc_event c)) nc)
        (or_else (map_option tp_session_id direct)
          (string_field [''child_session_id'', ''childSessionId'', ''session_id'', ''sessionId'', ''agent_id'', ''agentId'',
                         ''agent_thread_id'', ''agentThreadId''] payload)),
      or_else (map_option nc_root nc)
        (or_else (Option.bind direct tp_root_session_id)
          (or_else (string_field [''root_session_id'', ''rootSessionId'', ''parent_thread_id'', ''parentThreadId'',
                                  ''source_session_id'', ''sourceSessionId'', ''parent_session_id'', ''parentSessionId''] payload)
            (current_root_session_id (ge_json ge) (ge_host ge)))))"

definition direct_topology :: "session_policy \<Rightarrow> rollout_topology option \<Rightarrow> rollout_topology option" where
  "direct_topology p topology = Option.bind topology (\<lambda>tp. then_some (is_direct_resident_subagent tp p) tp)"

text \<open>The rest of a session start: the session is a registered child, its root has a child, or it should get one.\<close>

definition session_start_routes ::
  "gate_env \<Rightarrow> string \<Rightarrow> json \<Rightarrow> rollout_topology option \<Rightarrow> int \<Rightarrow> hook_decision option gate" where
  "session_start_routes ge event payload topology now =
     (let p = ge_policy ge; platform = ge_platform ge; root_session = current_root_session_id (ge_json ge) (ge_host ge) in
      gate_bind (registry_lookup_for_route_child (direct_topology p topology \<noteq> None)
          (gate_lookup (\<lambda>file. current_registered_session (ge_json ge) (ge_host ge) file (ge_root ge)))) (\<lambda>registered.
      if keep_routable_resident p now registered \<noteq> None then gate_return None
      else
        gate_bind (case root_session of
                     None \<Rightarrow> gate_return None
                   | Some r \<Rightarrow>
                       gate_bind (open_or_create_registry ge) (\<lambda>rows.
                         let rc = reconcile ge rows r in
                         gate_return (map_option (\<lambda>existing.
                             append_resident_reconciliation_fields rc
                               (reconciled_decision now platform event payload existing p)) (fst rc))))
          (\<lambda>reconciled.
        gate_return (Some (case reconciled of
            Some d \<Rightarrow> d
          | None \<Rightarrow>
              (case topology of
                 Some tp \<Rightarrow>
                   if is_nested_resident_subagent tp p then nested_resident_child_decision platform event payload tp p
                   else if is_resident_subagent tp p then
                     register_required_resident_child_decision platform event payload tp p
                   else session_start_bootstrap_decision platform event payload root_session p
               | None \<Rightarrow> session_start_bootstrap_decision platform event payload root_session p))))))"

definition managed_session_start ::
  "gate_env \<Rightarrow> string \<Rightarrow> json \<Rightarrow> native_context option \<Rightarrow> hook_decision option gate" where
  "managed_session_start ge event payload nc =
     (let p = ge_policy ge; platform = ge_platform ge;
          managed = (case nc of None \<Rightarrow> False | Some c \<Rightarrow> nc_managed p c);
          payload_matches = (managed \<or> (platform \<noteq> ''codex'' \<and> payload_matches_resident_managed_agent payload p)) in
      if \<not> has_current_agent_session (ge_host ge) \<and> \<not> (event = ''subagent-start'' \<and> payload_matches)
      then gate_return None
      else
        gate_bind (gate_result (sh_now (ge_host ge))) (\<lambda>now.
        gate_bind (gate_result (if event = ''session-start'' \<or> event = ''subagent-start''
                                then current_rollout_topology (ge_json ge) (ge_host ge) else Inr None)) (\<lambda>topology.
        let direct = direct_topology p topology in
        if event = ''subagent-start'' \<and> (direct \<noteq> None \<or> payload_matches) then
          (case started_child_ids ge payload nc direct of
             (Some child, Some root_session) \<Rightarrow>
               register_started_child ge event payload nc (Option.bind nc (runtime_drift_decision ge event payload))
                 root_session child now
           | _ \<Rightarrow> session_start_routes ge event payload topology now)
        else session_start_routes ge event payload topology now)))"

definition classify_session_start_bootstrap :: "gate_env \<Rightarrow> string \<Rightarrow> json \<Rightarrow> hook_decision option gate" where
  "classify_session_start_bootstrap ge event payload =
     gate_bind (gate_result (native_context_of ge event payload)) (\<lambda>nc.
       case nc of
         None \<Rightarrow> managed_session_start ge event payload None
       | Some c \<Rightarrow>
           if nc_managed (ge_policy ge) c then
             gate_bind (release_terminal_owner_before_typed_start ge c) (\<lambda>_.
               managed_session_start ge event payload (Some c))
           else unmanaged_start ge event payload c)"

subsection \<open>The gate\<close>

definition classify_main_session_asp_exploration ::
  "gate_env \<Rightarrow> string \<Rightarrow> hook_runtime \<Rightarrow> json \<Rightarrow> hook_decision option gate" where
  "classify_main_session_asp_exploration ge event runtime payload =
     (if \<not> sp_enabled (ge_policy ge) then gate_return None
      else if event = ''session-start'' \<or> event = ''subagent-start'' then
        classify_session_start_bootstrap ge event payload
      else if event = ''post-tool'' then
        gate_bind (record_post_tool_session_event ge event payload) (\<lambda>_.
          gate_return (then_some (has_current_agent_session (ge_host ge))
            (agent_session_allow_decision (ge_platform ge) event payload ''post-tool-session-event-recorded''
               ''ASP recorded post-tool session activity.'')))
      else if event = ''pre-tool'' then classify_pre_tool_main_session_asp ge event runtime payload
      else gate_return None)"

subsection \<open>The gate changes the registry by its statements\<close>

text \<open>An action relates the states before and after it, whether it succeeds or fails.\<close>

definition stays_in :: "(gate_state \<Rightarrow> gate_state \<Rightarrow> bool) \<Rightarrow> 'a gate \<Rightarrow> bool" where
  "stays_in R m \<longleftrightarrow> (\<forall>s. R s (snd (m s)))"

locale gate_relation =
  fixes R :: "gate_state \<Rightarrow> gate_state \<Rightarrow> bool"
  assumes refl: "R s s" and trans: "R s t \<Longrightarrow> R t u \<Longrightarrow> R s u"
begin

lemma return_stays: "stays_in R (gate_return x)"
  by (simp add: stays_in_def gate_return_def refl)

lemma result_stays: "stays_in R (gate_result r)"
  by (simp add: stays_in_def gate_result_def refl)

lemma shell_stays: "stays_in R (gate_shell r)"
  by (simp add: stays_in_def gate_shell_def refl)

lemma bind_stays:
  assumes "stays_in R m" and "\<And>x. stays_in R (f x)"
  shows "stays_in R (gate_bind m f)"
  unfolding stays_in_def
proof
  fix s :: gate_state
  from assms(1) have "R s (snd (m s))" by (simp add: stays_in_def)
  moreover from assms(2) have "R (snd (m s)) (snd (f x (snd (m s))))" for x by (simp add: stays_in_def)
  ultimately show "R s (snd (gate_bind m f s))"
    by (cases "m s") (auto simp: gate_bind_def intro: trans split: sum.split)
qed

lemma caught_stays:
  "stays_in R m \<Longrightarrow> stays_in R (registry_lookup_for_route_child direct m)"
proof (unfold stays_in_def, rule allI)
  fix s :: gate_state
  assume "\<forall>s. R s (snd (m s))"
  moreover have "snd (registry_lookup_for_route_child direct m s) = snd (m s)"
    by (cases "m s") (auto simp: registry_lookup_for_route_child_def split: sum.split gate_error.split)
  ultimately show "R s (snd (registry_lookup_for_route_child direct m s))" by simp
qed

end

definition rows_of :: "registry_file \<Rightarrow> session_table" where
  "rows_of file = (case file of None \<Rightarrow> [] | Some t \<Rightarrow> t)"

definition registry_steps :: "gate_state \<Rightarrow> gate_state \<Rightarrow> bool" where
  "registry_steps s s' \<longleftrightarrow> registry_step\<^sup>*\<^sup>* (rows_of (gs_registry s)) (rows_of (gs_registry s'))"

interpretation steps: gate_relation registry_steps
  by unfold_locales (auto simp: registry_steps_def)

definition file_steps :: "registry_file \<Rightarrow> registry_file \<Rightarrow> bool" where
  "file_steps file file' \<longleftrightarrow> registry_step\<^sup>*\<^sup>* (rows_of file) (rows_of file')"

lemma file_steps_refl [simp]: "file_steps file file"
  by (simp add: file_steps_def)

lemma file_steps_trans: "file_steps a b \<Longrightarrow> file_steps b c \<Longrightarrow> file_steps a c"
  by (simp add: file_steps_def)

lemma opened_steps: "open_existing_registry sh file = Inr file' \<Longrightarrow> file_steps file file'"
  by (auto simp: open_existing_registry_def result_bind_Inr file_steps_def rows_of_def
      split: option.splits intro: step_refresh)

lemma with_registry_steps:
  assumes "\<And>rows. registry_step\<^sup>*\<^sup>* rows (snd (f rows))"
  shows "file_steps file (snd (with_registry sh file absent f))"
proof (cases "open_existing_registry sh file")
  case (Inl e)
  then show ?thesis by (simp add: with_registry_def)
next
  case (Inr opened)
  show ?thesis
  proof (cases opened)
    case None
    with Inr show ?thesis by (simp add: with_registry_def)
  next
    case (Some rows)
    from opened_steps [OF Inr] assms [of rows] have "file_steps file (Some (snd (f rows)))"
      by (auto simp: Some file_steps_def rows_of_def)
    with Inr Some show ?thesis by (cases "f rows") (simp add: with_registry_def)
  qed
qed

lemma lookup_stays:
  assumes "\<And>file. file_steps file (snd (f file))"
  shows "stays_in registry_steps (gate_lookup f)"
proof (unfold stays_in_def, rule allI)
  fix s :: gate_state
  from assms [of "gs_registry s"] show "registry_steps s (snd (gate_lookup f s))"
    by (cases "f (gs_registry s)") (auto simp: registry_steps_def gate_lookup_def file_steps_def)
qed

lemma statement_stays:
  assumes "\<And>rows. registry_step\<^sup>*\<^sup>* rows (snd (f rows))"
  shows "stays_in registry_steps (gate_statement f)"
proof (unfold stays_in_def, rule allI)
  fix s :: gate_state
  let ?rows = "case gs_registry s of Some t \<Rightarrow> t | None \<Rightarrow> []"
  from assms [of ?rows] show "registry_steps s (snd (gate_statement f s))"
    by (cases "f ?rows") (auto simp: registry_steps_def gate_statement_def rows_of_def split: option.splits)
qed

lemmas lookup_defs =
  current_registered_session_identity_def current_registered_session_def registered_resident_session_for_root_def
  record_current_session_tool_event_def session_record_validation_allows_routing_def
  codex_transcript_resident_child_identity_proof_def transcript_resident_child_identity_proof_def

lemma identity_steps: "file_steps file (snd (current_registered_session_identity jp sh file root))"
  by (auto simp: current_registered_session_identity_def intro: with_registry_steps split: option.split)

lemma registered_steps: "file_steps file (snd (current_registered_session jp sh file root))"
  unfolding current_registered_session_def
  by (auto intro!: with_registry_steps split: option.split sum.split) (auto intro: step_refresh)

lemma routing_steps: "registry_step\<^sup>*\<^sup>* rows (snd (session_record_validation_allows_routing jp sh r now rows))"
  by (auto simp: session_record_validation_allows_routing_def intro!: r_into_rtranclp step_status split: sum.split)

lemma resident_steps: "file_steps file (snd (registered_resident_session_for_root jp sh file root root_session name))"
  unfolding registered_resident_session_for_root_def
proof (rule with_registry_steps)
  fix rows
  show "registry_step\<^sup>*\<^sup>* rows (snd (
       case session_by_name (project_session_scope_id jp sh rows root) root_session name rows of
         None \<Rightarrow> (Inr None, rows)
       | Some r \<Rightarrow>
           (case sh_now sh of
              Inl error \<Rightarrow> (Inl error, rows)
            | Inr now \<Rightarrow>
                if \<not> is_routable_at r now \<or> \<not> message_target_is_live_bound jp r root_session then (Inr None, rows)
                else (case session_record_validation_allows_routing jp sh r now rows of
                        (Inl error, rows') \<Rightarrow> (Inl error, rows')
                      | (Inr allowed, rows') \<Rightarrow> (Inr (then_some allowed r), rows')))))"
    using routing_steps by (auto split: option.split sum.split prod.split) (metis snd_conv)+
qed

lemma tool_event_steps: "file_steps file (snd (record_current_session_tool_event sh file event command evidence))"
proof -
  have "registry_step\<^sup>*\<^sup>* rows (snd (case record_tool_event e rows of (changed, rows') \<Rightarrow> (Inr changed, rows')))" for e rows
    using step_tool_event [of rows e] by (auto split: prod.split)
  then show ?thesis
    by (auto simp: record_current_session_tool_event_def intro!: with_registry_steps split: option.split sum.split)
qed

lemmas gate_steps =
  steps.return_stays steps.result_stays steps.shell_stays steps.caught_stays

lemma context_stays: "stays_in registry_steps (main_session_context ge payload)"
  unfolding main_session_context_def main_session_route_context_def Let_def
  by (intro steps.bind_stays gate_steps lookup_stays identity_steps)
    (auto split: option.split intro: gate_steps lookup_stays resident_steps)

lemma pre_tool_stays: "stays_in registry_steps (classify_pre_tool_main_session_asp ge event runtime payload)"
  unfolding classify_pre_tool_main_session_asp_def Let_def
  by (auto intro!: steps.bind_stays gate_steps context_stays)

lemma activation_failure_stays:
  "stays_in registry_steps (classify_activation_failure_main_session_asp ge event payload)"
  unfolding classify_activation_failure_main_session_asp_def Let_def
  by (auto intro!: steps.bind_stays gate_steps context_stays)

lemma create_stays: "stays_in registry_steps (open_or_create_registry ge)"
  by (auto simp: stays_in_def registry_steps_def open_or_create_registry_def rows_of_def Let_def split: sum.split option.split)

lemma delete_stays: "stays_in registry_steps (gate_delete project session)"
  unfolding gate_delete_def by (rule statement_stays) (auto intro: step_delete)

lemma record_start_stays: "stays_in registry_steps (record_start ge root target now)"
  by (simp add: stays_in_def registry_steps_def record_start_def)

lemmas registry_gate_steps =
  gate_steps create_stays delete_stays record_start_stays
  statement_stays [OF register_is_steps] statement_stays [OF claim_is_steps]
  lookup_stays [OF resident_steps] lookup_stays [OF registered_steps] lookup_stays [OF tool_event_steps]

lemma claim_started_stays:
  "stays_in registry_steps (claim_started_child ge event payload nc drift root child target now)"
  unfolding claim_started_child_def Let_def
  by (auto intro!: steps.bind_stays registry_gate_steps)

lemma register_started_stays:
  "stays_in registry_steps (register_started_child ge event payload nc drift root child now)"
  unfolding register_started_child_def Let_def
  by (auto intro!: steps.bind_stays registry_gate_steps claim_started_stays split: option.split)

lemma session_start_routes_stays:
  "stays_in registry_steps (session_start_routes ge event payload topology now)"
  unfolding session_start_routes_def Let_def
  by (auto intro!: steps.bind_stays registry_gate_steps split: option.split)

lemma managed_start_stays: "stays_in registry_steps (managed_session_start ge event payload nc)"
  unfolding managed_session_start_def Let_def
  by (auto intro!: steps.bind_stays registry_gate_steps register_started_stays session_start_routes_stays
      split: option.split prod.split)

lemma session_start_stays: "stays_in registry_steps (classify_session_start_bootstrap ge event payload)"
  unfolding classify_session_start_bootstrap_def release_terminal_owner_before_typed_start_def unmanaged_start_def Let_def
  by (auto intro!: steps.bind_stays registry_gate_steps managed_start_stays split: option.split)

lemma gate_stays: "stays_in registry_steps (classify_main_session_asp_exploration ge event runtime payload)"
  unfolding classify_main_session_asp_exploration_def record_post_tool_session_event_def
  by (auto intro!: steps.bind_stays registry_gate_steps session_start_stays pre_tool_stays)

subsection \<open>What the gate allows\<close>

lemma decision_kinds [simp]:
  "d_decision (agent_session_allow_decision platform event payload action message) = Allow"
  "d_decision (testing_decision ge event payload command) = Allow"
  "d_decision (nested_resident_child_decision platform event payload tp p) = Deny"
  "d_decision (register_required_resident_child_decision platform event payload tp p) = Deny"
  by (simp_all add: agent_session_allow_decision_def testing_decision_def testing_execution_decision_def
      nested_resident_child_decision_def register_required_resident_child_decision_def new_decision_def)

lemma shell_bind_Inr_iff: "shell_bind r f = Inr y \<longleftrightarrow> (\<exists>x. r = Inr x \<and> f x = Inr y)"
  by (simp add: shell_bind_def split: sum.split)

lemma inline_fallback_allows:
  "inline_fallback_decision parse sha platform event payload command x p = Inr d \<Longrightarrow> d_decision d = Allow"
  by (auto simp: inline_fallback_decision_def shell_bind_Inr_iff new_decision_def)

lemma missing_resident_denies:
  "missing_resident_asp_explore_decision parse platform event payload command root p = Inr d \<Longrightarrow> d_decision d = Deny"
  by (auto simp: missing_resident_asp_explore_decision_def Let_def shell_bind_Inr_iff new_decision_def)

lemma exploration_denies:
  "exploration_decision parse platform event payload command x session p = Inr d \<Longrightarrow> d_decision d = Deny"
  by (auto simp: exploration_decision_def Let_def shell_bind_Inr_iff new_decision_def)

lemma restricted_denies:
  "restricted_decision parse platform event payload command x session p = Inr d \<Longrightarrow> d_decision d = Deny"
  by (auto simp: restricted_decision_def Let_def shell_bind_Inr_iff new_decision_def split: option.splits)

lemma explore_without_child_kind:
  assumes "explore_without_child ge event payload commands rx (command, x) = Inr d"
  shows "d_decision d = (if command_enables_inline_parser_fallback command then Allow else Deny)"
  using assms
  by (auto simp: explore_without_child_def Let_def split: if_splits option.splits
      dest: inline_fallback_allows missing_resident_denies)

lemma main_session_commands_kind:
  assumes "main_session_commands ge event payload commands runtime exploration rx = Inr r"
  shows "(case r of
      Some d \<Rightarrow> d_decision d = Deny
    | None \<Rightarrow> exploration = None
        \<and> first_restricted_main_session_asp_command (ge_parse ge) commands runtime (ge_policy ge) = Inr None)"
  using assms
  by (cases exploration, auto simp: main_session_commands_def shell_bind_Inr_iff split: option.splits
      dest: exploration_denies restricted_denies) (metis not_None_eq surj_pair)


text \<open>Inside the resident child a command with an \<open>asp\<close> word lets the whole tool use pass, whatever else it does.\<close>

lemma resident_child_asp_passes:
  assumes "resident_child_pre_tool ge event payload commands = Inr r"
    and "any_command (command_contains_asp_binary (ge_parse ge)) commands = Inr True"
  shows "\<exists>d. r = Some d \<and> d_decision d = Allow"
  using assms by (auto simp: resident_child_pre_tool_def shell_bind_Inr_iff)

text \<open>
  A child that would have to register itself is taken for the active child before that is asked: before a tool use
  the decision to register is never made.
\<close>

lemma register_required_is_active:
  "current_register_required_resident_child rx p = Some tp \<Longrightarrow> current_is_active_resident_child rx now p"
  by (auto simp: current_register_required_resident_child_def current_is_active_resident_child_def
      is_direct_resident_subagent_def split: option.splits)

text \<open>A test command is recognised by its first words: what follows them in the same line is allowed with it.\<close>

lemma testing_lane_allows_suffix:
  assumes "sp_testing_enabled p" and "[''cargo'', ''test''] \<in> set (sp_testing_command_prefixes p)"
  shows "testing_command_matches p (shell_like_tokens ''cargo test; cat src/lib.rs'')"
proof -
  have "command_prefix_matches_wrapped (shell_like_tokens ''cargo test; cat src/lib.rs'') [''cargo'', ''test'']"
    by code_simp
  with assms show ?thesis by (auto simp: testing_command_matches_def list_ex_iff)
qed

text \<open>A child that the lookup returns is routable, so the statuses of an ended child are never seen.\<close>

lemma lookup_never_unusable:
  assumes "registered_resident_session_for_root jp sh file root root_session name = (Inr (Some r), file')"
  shows "rec_status r \<notin> unusable_statuses"
  using resident_lookup_routable [OF assms] by (auto simp: unusable_statuses_def)

text \<open>The main session searches, and there is no resident child yet.\<close>

definition demo_policy :: session_policy where
  "demo_policy =
     \<lparr>sp_command_intent_policy = default_asp_command_intent_policy, sp_enabled = True,
      sp_resident_child_name = ''asp-explore'', sp_resident_agent_role = ''asp_explorer'',
      sp_resident_codex_agent_name = ''asp_explorer'', sp_resident_route_source = ''hook-config'',
      sp_main_allowed_asp_command_prefixes = [], sp_testing_enabled = False, sp_testing_command_prefixes = [],
      sp_testing_receipt_kind = ''asp-testing'', sp_messages = no_session_messages\<rparr>"

definition demo_gate :: gate_env where
  "demo_gate =
     \<lparr>ge_parse = one_word_grammar, ge_json = (\<lambda>_. None), ge_sha = id, ge_print = (\<lambda>_. []), ge_create = Inr (),
      ge_host = demo_session_host, ge_root = ''/w'', ge_platform = ''codex'', ge_policy = demo_policy\<rparr>"

definition demo_context :: route_context where
  "demo_context =
     \<lparr>rx_has_agent_session = True, rx_current_session = None, rx_active_explore_session = None,
      rx_root_session_id = Some ''r'', rx_topology = None\<rparr>"

lemma demo_exploration:
  "first_asp_exploration_command (ge_parse demo_gate) [''asp rust search prime''] demo_runtime (ge_policy demo_gate) =
     Inr (Some (''asp rust search prime'', \<lparr>xc_facade = ''rust'', xc_stage = Some ''search'', xc_language_id = Some ''rust''\<rparr>))"
  by code_simp

lemma demo_gate_decides:
  "case pre_tool_decision demo_gate ''pre-tool'' demo_runtime (JObject []) [''asp rust search prime''] demo_context 0 of
     Inr (Some d) \<Rightarrow> d_decision d = Deny | _ \<Rightarrow> False"
  by code_simp


end
