(* ===== verification/HookRun.thy ===== *)
theory HookRun
  imports SessionGate Classifier RuntimeDrift ReadOnlyChild
begin

section \<open>One run of the hook\<close>

text \<open>
  Models \<open>command/hook_runtime.rs\<close> of \<open>crates/agent-semantic-protocol/src\<close> with \<open>hook_runtime_stdin.rs\<close>,
  \<open>hook_runtime_config_recovery.rs\<close> and \<open>hook_runtime_agent_session_drift.rs\<close>: the payload is read from the
  standard input, the activation and the configuration are loaded, the gate of the session, then the classifier
  decide, the decision is completed, recorded and printed.  Installing, the doctor and the paths command are not
  modelled; the synchronisation of the agent configuration and the loading of the activation are arguments.
\<close>

subsection \<open>Arguments\<close>

definition flag_value :: "string list \<Rightarrow> string \<Rightarrow> string option" where
  "flag_value args flag =
     find_map (\<lambda>w. if w ! 0 = flag then Some (w ! 1) else None) (windows 2 args)"

fun optional_flag_loop :: "string \<Rightarrow> string list \<Rightarrow> string + string option" where
  "optional_flag_loop flag [] = Inr None"
| "optional_flag_loop flag (arg # rest) =
     (case strip_prefix (flag @ ''='') arg of
        Some v \<Rightarrow> Inr (Some v)
      | None \<Rightarrow>
          if arg = flag then
            (case rest of
               [] \<Rightarrow> Inl (flag @ '' requires a value'')
             | v # _ \<Rightarrow> if starts_with v ''--'' then Inl (flag @ '' requires a value'') else Inr (Some v))
          else optional_flag_loop flag rest)"

definition optional_flag_value :: "string list \<Rightarrow> string \<Rightarrow> string + string option" where
  "optional_flag_value args flag = optional_flag_loop flag args"

definition flags_with_value :: "string set" where
  "flags_with_value = {''--client'', ''--activation'', ''--config'', ''--emit'', ''--output'', ''--subagent-model''}"

fun positionals_loop :: "bool \<Rightarrow> string list \<Rightarrow> string list" where
  "positionals_loop skip [] = []"
| "positionals_loop skip (arg # rest) =
     (if skip then positionals_loop False rest
      else if arg \<in> flags_with_value then positionals_loop True rest
      else if starts_with arg ''-'' then positionals_loop False rest
      else arg # positionals_loop False rest)"

definition positionals :: "string list \<Rightarrow> string list" where
  "positionals args = positionals_loop False args"

definition first_positional :: "string list \<Rightarrow> string option" where
  "first_positional args = (case positionals args of [] \<Rightarrow> None | p # _ \<Rightarrow> Some p)"

definition ensure_supported_client :: "string \<Rightarrow> string + unit" where
  "ensure_supported_client client =
     (if client = ''codex'' \<or> client = ''claude'' then Inr ()
      else Inl (''unsupported --client '' @ client @ ''; expected codex or claude''))"

subsection \<open>The standard input\<close>

text \<open>
  What a nonblocking read of the standard input may return, each with the time in milliseconds since the start at
  which it returns.
\<close>

datatype read_outcome = ReadEof | ReadBytes string | ReadInterrupted | WouldBlock | ReadFailed string

definition stdin_first_byte_timeout :: nat where "stdin_first_byte_timeout = 50"
definition stdin_idle_timeout :: nat where "stdin_idle_timeout = 10"
definition stdin_max_bytes :: nat where "stdin_max_bytes = 1024 * 1024"

definition stdin_read_deadline_elapsed :: "nat option \<Rightarrow> nat \<Rightarrow> bool" where
  "stdin_read_deadline_elapsed last_read now \<longleftrightarrow>
     (case last_read of Some l \<Rightarrow> stdin_idle_timeout \<le> now - l | None \<Rightarrow> stdin_first_byte_timeout \<le> now)"

text \<open>The bytes when the loop ends; \<open>None\<close> when it is still waiting after the outcomes of the list.\<close>

fun stdin_loop :: "string \<Rightarrow> nat option \<Rightarrow> (nat \<times> read_outcome) list \<Rightarrow> (string + string) option" where
  "stdin_loop bytes last_read [] = None"
| "stdin_loop bytes last_read ((now, outcome) # rest) =
     (case outcome of
        ReadEof \<Rightarrow> Some (Inr bytes)
      | ReadBytes chunk \<Rightarrow>
          if chunk = [] then Some (Inr bytes)
          else if stdin_max_bytes < length bytes + length chunk then
            Some (Inl (''hook payload exceeds '' @ show_nat stdin_max_bytes @ '' bytes''))
          else stdin_loop (bytes @ chunk) (Some now) rest
      | ReadInterrupted \<Rightarrow> stdin_loop bytes last_read rest
      | WouldBlock \<Rightarrow>
          if stdin_read_deadline_elapsed last_read now then Some (Inr bytes)
          else stdin_loop bytes last_read rest
      | ReadFailed error \<Rightarrow> Some (Inl error))"

definition read_hook_stdin_bounded :: "(nat \<times> read_outcome) list \<Rightarrow> (string + string) option" where
  "read_hook_stdin_bounded schedule =
     map_option (\<lambda>r. result_bind r (\<lambda>bytes. if utf8_valid bytes then Inr bytes else Inl ''invalid utf-8 sequence''))
       (stdin_loop [] None schedule)"

subsection \<open>The root of the project\<close>

definition canonical_or_self :: "profile_host \<Rightarrow> string \<Rightarrow> string" where
  "canonical_or_self ph path = (case ph_canonicalize ph path of Some p \<Rightarrow> p | None \<Rightarrow> path)"

definition activation_relative_project_root :: "profile_host \<Rightarrow> string \<Rightarrow> string \<Rightarrow> string" where
  "activation_relative_project_root ph activation_path root =
     canonical_or_self ph
       (if is_absolute_path root then root
        else path_join (case path_parent activation_path of Some dir \<Rightarrow> dir | None \<Rightarrow> ''.'') root)"

text \<open>The names of the ancestors of a directory are the parts of its path.\<close>

definition activation_root_is_global_hook_state :: "profile_host \<Rightarrow> string \<Rightarrow> string \<Rightarrow> bool" where
  "activation_root_is_global_hook_state ph activation_path activation_root \<longleftrightarrow>
     (case path_parent activation_path of
        None \<Rightarrow> False
      | Some dir \<Rightarrow>
          canonical_or_self ph dir = canonical_or_self ph activation_root
          \<and> path_file_name dir = Some ''state'' \<and> ''hooks'' \<in> set (path_parts dir))"

definition hook_runtime_project_root :: "profile_host \<Rightarrow> string \<Rightarrow> string \<Rightarrow> string \<Rightarrow> string" where
  "hook_runtime_project_root ph current_dir activation_path root =
     (let activation_root = activation_relative_project_root ph activation_path root in
      if activation_root_is_global_hook_state ph activation_path activation_root
      then canonical_or_self ph current_dir else activation_root)"

subsection \<open>Source paths without an activation\<close>

definition source_extensions :: "string set" where
  "source_extensions =
     {''rs'', ''ts'', ''tsx'', ''js'', ''jsx'', ''mjs'', ''cjs'', ''py'', ''pyi'', ''jl'', ''go'', ''java'', ''kt'', ''kts'',
      ''swift'', ''c'', ''h'', ''cc'', ''cpp'', ''hpp''}"

definition is_source_path :: "string \<Rightarrow> bool" where
  "is_source_path path =
     (case path_name_extension (str_trim path) of None \<Rightarrow> False | Some ext \<Rightarrow> ext \<in> source_extensions)"

definition source_value_keys :: "string set" where
  "source_value_keys = {''file_path'', ''filePath'', ''path'', ''paths'', ''file'', ''files'', ''selector''}"

function (sequential) collect_source_like_values :: "json \<Rightarrow> string list" where
  "collect_source_like_values (JString s) = (if is_source_path s then [s] else [])"
| "collect_source_like_values (JArray elements) = concat (map collect_source_like_values elements)"
| "collect_source_like_values (JObject members) =
     concat (map (\<lambda>m. if fst m \<in> source_value_keys then collect_source_like_values (snd m) else []) members)"
| "collect_source_like_values v = []"
  by pat_completeness auto
termination
  by (relation "measure json_bytes")
    (auto simp del: json_bytes.simps intro: json_bytes_element intro!: json_bytes_value simp: image_iff, force)

definition collect_command_source_paths :: "string \<Rightarrow> string list" where
  "collect_command_source_paths command =
     filter is_source_path
       (map (trim_chars (\<lambda>c. c \<in> {CHR 0x27, CHR 0x22} \<or> c \<in> set '',;:()[]'')) (split_whitespace command))"

definition starts_with_source_dump_command :: "string \<Rightarrow> bool" where
  "starts_with_source_dump_command command =
     (case split_whitespace command of
        [] \<Rightarrow> False
      | first # _ \<Rightarrow>
          first \<in> {''cat'', ''sed'', ''less'', ''more'', ''head'', ''tail'', ''nl'', ''bat'', ''awk''})"

text \<open>\<open>string_field\<close> of this file: the first key that is a string, at the top level only.\<close>

definition top_string_field :: "string list \<Rightarrow> json \<Rightarrow> string option" where
  "top_string_field keys v = json_get_any_str keys v"

definition activation_failure_source_decision ::
  "json_parser \<Rightarrow> string \<Rightarrow> string \<Rightarrow> string \<Rightarrow> string \<Rightarrow> string \<Rightarrow> hook_decision option" where
  "activation_failure_source_decision jp client event activation_path error stdin =
     Option.bind (jp stdin) (\<lambda>payload.
       let tool_name = or_empty (top_string_field [''tool_name'', ''toolName''] payload);
           tool_input = (case json_get_any [''tool_input'', ''toolInput'', ''input''] payload of
                           Some v \<Rightarrow> v | None \<Rightarrow> payload);
           command = top_string_field [''cmd'', ''command'', ''script''] tool_input;
           paths = sort_dedup (collect_source_like_values tool_input
                     @ (case command of None \<Rightarrow> [] | Some c \<Rightarrow> collect_command_source_paths c));
           direct = (eq_ignore_ascii_case tool_name ''read'' \<or> eq_ignore_ascii_case tool_name ''view''
                     \<or> (case command of None \<Rightarrow> False | Some c \<Rightarrow> starts_with_source_dump_command c))
       in if \<not> list_ex is_source_path paths then None
          else Some (new_decision client event Deny (if direct then DirectSourceRead else BulkSourceDump) []
                 \<lparr>j_tool_name = (if tool_name = [] then None else Some tool_name), j_command = command, j_paths = paths\<rparr>
                 []
                 (''Semantic hook activation could not be loaded from '' @ activation_path
                  @ ''; source reads fail closed until activation is repaired: '' @ error) []))"



subsection \<open>The environment of a run\<close>

text \<open>The status of the hook configuration, the agent profiles written and the entries of the Codex registry.\<close>

type_synonym sync_report = "string \<times> nat \<times> nat"

definition sync_receipt :: "sync_report \<Rightarrow> string" where
  "sync_receipt report =
     (case report of (status, projected, entries) \<Rightarrow>
        ''completed:hookConfig='' @ status @ '';agentConfigs='' @ show_nat projected
        @ '';codexAgentRegistry='' @ show_nat entries)"

text \<open>
  \<open>he_json\<close> and \<open>he_print\<close> parse and print JSON, \<open>he_json_error\<close> is the text of a parse error, \<open>he_value_text\<close> is \<open>Value::to_string\<close>, \<open>he_file\<close> the text of a
  configuration file.  \<open>he_sync\<close> is the receipt or the error of a synchronisation of the agent configuration, and
  \<open>he_synced_file\<close> the files after it; \<open>he_codex_sync\<close> is the same for the profile of one agent.
\<close>

record hook_env =
  he_parse :: bash_parser
  he_json :: json_parser
  he_json_error :: "string \<Rightarrow> string"
  he_print :: json_printer
  he_value_text :: "json \<Rightarrow> string"
  he_glob :: glob_compiler
  he_sha :: "string \<Rightarrow> string"
  he_host :: host
  he_sessions :: session_host
  he_create :: "string + unit"
  he_org_world :: org_world
  he_org_caches :: org_caches
  he_libs :: pattern_libraries
  he_decode :: "string \<Rightarrow> string + hook_config_file"
  he_decode_project :: "string \<Rightarrow> string + unit"
  he_config_error_text :: "config_error \<Rightarrow> string"
  he_built_in :: string
  he_file :: "string \<Rightarrow> string option"
  he_project_file :: "string \<Rightarrow> string option"
  he_sync :: "string + sync_report"
  he_synced_file :: "string \<Rightarrow> string option"
  he_codex_sync :: "string \<Rightarrow> string + sync_report option"
  he_load_activation :: "string \<Rightarrow> string + hook_runtime"
  he_default_activation :: string
  he_default_config :: string

definition he_profile :: "hook_env \<Rightarrow> profile_host" where
  "he_profile he = sh_profile (he_sessions he)"

text \<open>The state that a run changes.\<close>

record hook_state =
  hs_gate :: gate_state
  hs_events :: state_file

definition gate_env_of :: "hook_env \<Rightarrow> string \<Rightarrow> string \<Rightarrow> session_policy \<Rightarrow> gate_env" where
  "gate_env_of he root platform p =
     \<lparr>ge_parse = he_parse he, ge_json = he_json he, ge_sha = he_sha he, ge_print = he_value_text he,
      ge_create = he_create he, ge_host = he_sessions he, ge_root = root, ge_platform = platform, ge_policy = p\<rparr>"

subsection \<open>The read-only child\<close>

text \<open>Every error of the lookup is dropped.\<close>

definition lookup_hook_session :: "session_host \<Rightarrow> string \<Rightarrow> string \<Rightarrow> agent_session_record option gate" where
  "lookup_hook_session sh root session_id =
     (\<lambda>s. case open_existing_registry sh (gs_registry s) of
        Inl _ \<Rightarrow> (Inr None, s)
      | Inr None \<Rightarrow> (Inr None, s)
      | Inr (Some rows) \<Rightarrow>
          (Inr (lookup_session \<lparr>lk_project_id = project_scope_id sh root, lk_session_id = Some session_id,
                                 lk_root_session_id = None, lk_name = None\<rparr> rows),
           s\<lparr>gs_registry := Some rows\<rparr>))"

definition agents_home :: "process_env \<Rightarrow> string option" where
  "agents_home env =
     (case env ''ASP_AGENTS_HOME'' of
        Some home \<Rightarrow> Some home
      | None \<Rightarrow>
          map_option (\<lambda>home. path_join (path_join home ''.agent-semantic-protocols'') ''agents'') (env ''HOME''))"

definition resident_asp_explore_sandbox_mode :: "profile_host \<Rightarrow> string option" where
  "resident_asp_explore_sandbox_mode ph =
     (case agents_home (ph_env ph) of
        None \<Rightarrow> Some ''read-only''
      | Some home \<Rightarrow>
          (case result_bind (ph_read ph (path_join home ''asp-explorer_codex.toml'')) (ph_toml ph) of
             Inl _ \<Rightarrow> Some ''read-only''
           | Inr config \<Rightarrow>
               (case Option.bind (toml_get ''sandbox_mode'' config) toml_as_str of
                  Some mode \<Rightarrow> Some mode | None \<Rightarrow> Some ''read-only'')))"

definition hook_child_name :: "client_hook_config \<Rightarrow> string" where
  "hook_child_name config = resident_child_name (cc_asp_session_policy config)"

definition read_only_context ::
  "hook_env \<Rightarrow> string \<Rightarrow> client_hook_config \<Rightarrow> json \<Rightarrow> permission_context option gate" where
  "read_only_context he root config payload =
     (case top_string_field [''session_id'', ''sessionId''] payload of
        None \<Rightarrow> gate_return None
      | Some session_id \<Rightarrow>
          gate_bind (lookup_hook_session (he_sessions he) root session_id) (\<lambda>found. gate_return (
            case found of
              None \<Rightarrow> None
            | Some session \<Rightarrow>
                let child = hook_child_name config; mode = resident_asp_explore_sandbox_mode (he_profile he) in
                then_some (rec_name session = child)
                  \<lparr>pc_is_asp_managed = (mode \<noteq> None), pc_managed_child_name = child,
                   pc_registered_name = rec_name session, pc_registry_status = rec_status session,
                   pc_sandbox_mode = mode, pc_session_id = rec_session_id session\<rparr>)))"

definition classify_read_only_resident_receipt ::
  "hook_env \<Rightarrow> string \<Rightarrow> string \<Rightarrow> string \<Rightarrow> client_hook_config \<Rightarrow> json \<Rightarrow> hook_decision option gate" where
  "classify_read_only_resident_receipt he root client event config payload =
     gate_bind (read_only_context he root config payload) (\<lambda>context.
       gate_return (Option.bind context (classify_read_only_subagent_receipt client event payload)))"

definition classify_read_only_resident_write ::
  "hook_env \<Rightarrow> string \<Rightarrow> string \<Rightarrow> string \<Rightarrow> client_hook_config \<Rightarrow> json \<Rightarrow> hook_decision option gate" where
  "classify_read_only_resident_write he root client event config payload =
     gate_bind (read_only_context he root config payload) (\<lambda>context.
       case context of
         None \<Rightarrow> gate_return None
       | Some c \<Rightarrow> gate_shell (classify_read_only_subagent_write (he_parse he) (he_json he) client event payload c))"

subsection \<open>Who decides\<close>

text \<open>The receipt of a read-only child, its writes, the gate of the session, then the classifier.\<close>

definition hook_decision_of ::
  "hook_env \<Rightarrow> string \<Rightarrow> string \<Rightarrow> string \<Rightarrow> hook_runtime \<Rightarrow> client_hook_config \<Rightarrow> session_policy \<Rightarrow> json
     \<Rightarrow> hook_decision gate" where
  "hook_decision_of he root client event runtime config p payload =
     gate_bind (classify_read_only_resident_receipt he root client event config payload) (\<lambda>receipt.
       case receipt of
         Some d \<Rightarrow> gate_return d
       | None \<Rightarrow>
           gate_bind (classify_read_only_resident_write he root client event config payload) (\<lambda>write.
             case write of
               Some d \<Rightarrow> gate_return d
             | None \<Rightarrow>
                 gate_bind (classify_main_session_asp_exploration (gate_env_of he root client p) event runtime payload)
                   (\<lambda>session.
                     case session of
                       Some d \<Rightarrow> gate_return d
                     | None \<Rightarrow>
                         gate_shell (shell_bind
                           (classify_hook_with_config (he_parse he) (he_json he) (he_glob he) (he_sha he) (he_host he)
                              (he_org_world he) (he_org_caches he)
                              \<lparr>q_registry = runtime, q_config = config, q_platform = client, q_event = event,
                               q_payload = payload\<rparr>)
                           (\<lambda>(d, _). Inr d)))))"

subsection \<open>A child that stopped\<close>

definition stopped_child_id :: "string \<Rightarrow> json \<Rightarrow> session_policy \<Rightarrow> string option" where
  "stopped_child_id platform payload p =
     (if platform = ''codex'' then
        if json_get_str ''hook_event_name'' payload \<noteq> Some ''SubagentStop'' then None
        else if top_string_field [''agent_type'', ''agentType''] payload \<noteq> Some (sp_resident_agent_role p) then None
        else top_string_field [''agent_id'', ''agentId''] payload
      else top_string_field [''child_session_id'', ''childSessionId'', ''session_id'', ''sessionId''] payload)"

definition archive_stopped_managed_child ::
  "session_host \<Rightarrow> string \<Rightarrow> string \<Rightarrow> json \<Rightarrow> session_policy \<Rightarrow> string option gate" where
  "archive_stopped_managed_child sh platform root payload p =
     (case stopped_child_id platform payload p of
        None \<Rightarrow> gate_return None
      | Some session_id \<Rightarrow>
          gate_lookup (\<lambda>file. with_registry sh file None (\<lambda>rows.
            let project = project_scope_id sh root in
            case lookup_session \<lparr>lk_project_id = project, lk_session_id = Some session_id,
                                  lk_root_session_id = None, lk_name = None\<rparr> rows of
              None \<Rightarrow> (Inr None, rows)
            | Some session \<Rightarrow>
                if \<not> is_resident_of_policy p session then (Inr None, rows)
                else (case sh_now sh of
                        Inl error \<Rightarrow> (Inl (''failed to read subagent-stop timestamp: '' @ error), rows)
                      | Inr now \<Rightarrow>
                          (case (if platform = ''codex'' then update_session_status project session_id ''idle'' now rows
                                 else archive_session project session_id now rows) of
                             (updated, rows') \<Rightarrow> (Inr (then_some updated session_id), rows'))))))"

definition put_decision_fields :: "(string \<times> string) list \<Rightarrow> hook_decision \<Rightarrow> hook_decision" where
  "put_decision_fields entries d = d\<lparr>d_fields := put_strings entries (d_fields d)\<rparr>"

definition stopped_child_decision :: "string \<Rightarrow> string \<Rightarrow> hook_decision \<Rightarrow> hook_decision" where
  "stopped_child_decision client session_id d =
     put_decision_fields
       [(''agentSessionAction'',
         if client = ''codex'' then ''subagent-stop-preserved-resident-idle'' else ''subagent-stop-archived-managed-child''),
        (''childSessionId'', session_id)]
       (d\<lparr>d_decision := Allow, d_reason_kind := ReasonNone,
          d_message :=
            (if client = ''codex''
             then ''ASP preserved the completed managed resident as idle; allow the native child turn to finish.''
             else ''ASP archived the stopped managed child; allow native subagent shutdown.'')\<rparr>)"

subsection \<open>Annotations\<close>

definition config_fallback_diagnostic :: "string \<Rightarrow> string list \<Rightarrow> string option \<Rightarrow> string" where
  "config_fallback_diagnostic config_path errors auto_sync =
     (let error = str_join ''; '' errors;
          completed = (case auto_sync of None \<Rightarrow> False | Some s \<Rightarrow> starts_with s ''completed:'') in
      if errors = [] \<and> completed then
        ''ASP hook automatically ran `asp sync` and repaired `'' @ config_path @ ''` before continuing.''
      else
        ''Semantic hook config repair did not fully succeed; ASP continued with built-in policy so Codex remains operable. Automatic sync receipt: ''
        @ or_text ''not-run'' auto_sync @ ''. Error: '' @ (if error = [] then ''none'' else error))"

definition annotate_hook_config_fallback ::
  "string \<Rightarrow> string list \<Rightarrow> string list \<Rightarrow> string option \<Rightarrow> hook_decision \<Rightarrow> hook_decision" where
  "annotate_hook_config_fallback config_path errors reasons auto_sync d =
     (let error = str_join ''; '' errors;
          completed = (case auto_sync of None \<Rightarrow> False | Some s \<Rightarrow> starts_with s ''completed:'');
          diagnostic = config_fallback_diagnostic config_path errors auto_sync;
          members =
            put_optional ''hookConfigAutoSync'' auto_sync
              (put_strings
                 [(''hookConfigFailurePolicy'', ''continue-with-built-in-policy''),
                  (''hookConfigRecoveryCommand'', ''asp sync'')]
                 (put_fields (if reasons = [] then [] else [(''hookConfigRepairReasons'', json_strings reasons)])
                   (put_strings (if error = [] then [] else [(''hookConfigError'', error)])
                     (put_strings
                        [(''hookConfigStatus'',
                          if errors = [] \<and> completed then ''repaired-by-asp-sync'' else ''degraded-built-in-fallback''),
                         (''hookConfigPath'', config_path)] (d_fields d)))))
      in d\<lparr>d_fields := members,
           d_message := (if d_decision d = Allow then diagnostic
                         else str_trim (d_message d) @ newline @ diagnostic)\<rparr>)"

definition annotate_target_agent_auto_sync :: "string + sync_report option \<Rightarrow> string \<Rightarrow> hook_decision \<Rightarrow> hook_decision" where
  "annotate_target_agent_auto_sync outcome target d =
     (case outcome of
        Inr None \<Rightarrow> put_decision_fields [(''targetAgentRegistryStatus'', ''ready'')] d
      | Inr (Some report) \<Rightarrow>
          put_decision_fields
            [(''targetAgentRegistryStatus'', ''repaired-by-asp-sync''), (''targetAgentAutoSync'', sync_receipt report)]
            (d\<lparr>d_message := str_trim (d_message d) @ newline
                 @ ''ASP hook automatically ran `asp sync` and verified Codex profile `'' @ target
                 @ ''` before returning this route.''\<rparr>)
      | Inl error \<Rightarrow>
          put_decision_fields
            [(''targetAgentRegistryStatus'', ''degraded-built-in-route''), (''targetAgentAutoSync'', ''failed:'' @ error)]
            (d\<lparr>d_message := str_trim (d_message d) @ newline
                 @ ''ASP could not fully project Codex profile `'' @ target
                 @ ''`, but the config failure did not block Codex tool use. Auto-sync error: '' @ error\<rparr>))"

text \<open>The keys of the payload and what the host says of a child.\<close>

definition observed_payload_fields :: "(string \<times> string) list" where
  "observed_payload_fields =
     [(''agent_id'', ''hookObservedChildId''), (''session_id'', ''hookObservedRootSessionId''),
      (''agent_type'', ''hookObservedAgentType''), (''model'', ''hookObservedModel''),
      (''reasoning_effort'', ''hookObservedReasoningEffort''), (''permission_mode'', ''hookObservedPermissionMode'')]"

definition annotate_observed_payload :: "json \<Rightarrow> hook_decision \<Rightarrow> hook_decision" where
  "annotate_observed_payload payload d =
     (let keys = (case as_object payload of None \<Rightarrow> [] | Some members \<Rightarrow> sort (map fst members));
          observed = List.map_filter (\<lambda>(key, field). map_option (\<lambda>s. (field, s)) (json_get_str key payload))
            observed_payload_fields
      in put_decision_fields observed (insert_field ''hookPayloadKeys'' (json_strings keys) d))"

definition payload_context_keys :: "(string \<times> string list) list" where
  "payload_context_keys =
     [(''sessionId'', [''session_id'', ''sessionId'']), (''transcriptPath'', [''transcript_path'', ''transcriptPath'']),
      (''toolUseId'', [''tool_use_id'', ''toolUseId'']), (''cwd'', [''cwd''])]"

definition with_payload_fields :: "json \<Rightarrow> hook_decision \<Rightarrow> hook_decision" where
  "with_payload_fields payload d =
     foldl (\<lambda>acc (field, keys).
        case top_string_field keys payload of
          None \<Rightarrow> acc | Some v \<Rightarrow> or_insert_field field (JString v) acc) d payload_context_keys"

text \<open>The error of reading the recorded events leaves the fields that were added before.\<close>

definition annotate_payload_context ::
  "json_parser \<Rightarrow> nat \<Rightarrow> state_file \<Rightarrow> json \<Rightarrow> hook_decision \<Rightarrow> hook_decision" where
  "annotate_payload_context jp now events payload d =
     (let d1 = with_payload_fields payload d;
          recorded = (if payload_indicates_subagent_context payload then Inr True
                      else has_recorded_subagent_context jp now events
                             (Option.bind (field_of d1 ''sessionId'') as_str)
                             (Option.bind (field_of d1 ''transcriptPath'') as_str)) in
      case recorded of
        Inl _ \<Rightarrow> d1
      | Inr subagent \<Rightarrow>
          let d2 = (if subagent then or_insert_field ''subagentContext'' (JBool True) d1 else d1) in
          if d_decision d2 = Deny \<and> subagent then d2\<lparr>d_message := subagent_deny_message (d_message d2)\<rparr> else d2)"

definition insert_template_field :: "string \<Rightarrow> string option \<Rightarrow> hook_decision \<Rightarrow> hook_decision" where
  "insert_template_field field v d = (case v of None \<Rightarrow> d | Some s \<Rightarrow> or_insert_field field (JString s) d)"

definition annotate_source_access_compact_templates :: "client_hook_config \<Rightarrow> hook_decision \<Rightarrow> hook_decision" where
  "annotate_source_access_compact_templates config d =
     (if d_decision d \<noteq> Deny then d
      else
        let m = cc_agent_session_messages config in
        or_insert_field ''residentChildName'' (JString (hook_child_name config))
          (insert_template_field ''sourceAccessCompactSubagentMessage'' (sm_source_access_compact_subagent m)
            (insert_template_field ''sourceAccessCompactRepeatedMessage'' (sm_source_access_compact_repeated m)
              (insert_template_field ''sourceAccessCompactMessage'' (sm_source_access_compact m) d))))"

subsection \<open>A denial inside a child\<close>

definition remove_fields :: "string list \<Rightarrow> hook_decision \<Rightarrow> hook_decision" where
  "remove_fields keys d = d\<lparr>d_fields := filter (\<lambda>(key, v). key \<notin> set keys) (d_fields d)\<rparr>"

definition bootstrap_loop_fields :: "string list" where
  "bootstrap_loop_fields =
     [''requiredAction'', ''nextAction'', ''agentSessionLoopCommand'', ''agentSessionBootstrap'',
      ''agentSessionBootstrapGuideCommand'', ''agentSessionBootstrapCommand'']"

definition with_codex_identity :: "json \<Rightarrow> hook_decision \<Rightarrow> hook_decision" where
  "with_codex_identity payload d =
     put_decision_fields
       (List.map_filter (\<lambda>(field, keys). map_option (\<lambda>s. (field, s)) (json_get_any_str keys payload))
          [(''codexHookAgentId'', [''agent_id'', ''agentId'']), (''codexHookAgentType'', [''agent_type'', ''agentType''])]) d"

definition parser_owned_stage :: "hook_decision \<Rightarrow> bool" where
  "parser_owned_stage d \<longleftrightarrow>
     Option.bind (field_of d ''blockedAspStage'') as_str \<in> {Some ''search'', Some ''query''}
     \<or> (case Option.bind (field_of d ''aspCommandRoute'') as_str of
          None \<Rightarrow> False | Some route \<Rightarrow> starts_with route ''search'' \<or> starts_with route ''query'')"

definition child_deny_message :: "session_policy \<Rightarrow> hook_decision \<Rightarrow> string" where
  "child_deny_message p d =
     (let reason = reason_kind_str (d_reason_kind d); child = sp_resident_child_name p;
          recovery = or_text ''resident-child-direct-route'' (Option.bind (field_of d ''recoveryRef'') as_str) in
      case Option.bind (field_of d ''sourceAccessCompactSubagentMessage'') as_str of
        Some template \<Rightarrow>
          str_trim (str_replace ''{{residentChildName}}'' child
            (str_replace ''{{recoveryRef}}'' recovery (str_replace ''{{reason}}'' reason template)))
      | None \<Rightarrow>
          ''ASP denied source access (`'' @ reason @ ''`) inside '' @ child
          @ ''. Use parser-owned ASP query/search and return one compact `[asp-search-subagent]` receipt; do not return source bodies.'')"

definition proof_str :: "identity_proof \<Rightarrow> string" where
  "proof_str proof =
     (case proof of
        CodexHookPayload \<Rightarrow> ''codex-hook-payload'' | RegistryExact \<Rightarrow> ''registry-exact''
      | CodexTranscriptRegistryExact \<Rightarrow> ''codex-transcript-registry-exact''
      | CodexRolloutMetadata \<Rightarrow> ''codex-rollout-metadata'')"

text \<open>The session of the process is another one than that of the payload.\<close>

definition codex_subagent_session :: "process_env \<Rightarrow> hook_decision \<Rightarrow> bool" where
  "codex_subagent_session env d \<longleftrightarrow>
     (case (non_empty_session_env env ''CODEX_THREAD_ID'',
            Option.bind (Option.bind (field_of d ''sessionId'') as_str) nonblank) of
        (Some current, Some root_session) \<Rightarrow> current \<noteq> root_session
      | _ \<Rightarrow> False)"

definition child_decision :: "session_policy \<Rightarrow> identity_proof option \<Rightarrow> hook_decision \<Rightarrow> hook_decision" where
  "child_decision p proof d =
     (let search = (proof \<noteq> None \<and> d_reason_kind d = AspReasoningRouted \<and> parser_owned_stage d);
          d1 = insert_field ''subagentContext'' (JBool True) (remove_fields bootstrap_loop_fields d);
          message = child_deny_message p d1;
          d2 = insert_field ''registeredResidentChild''
                 (JBool (proof \<in> {Some RegistryExact, Some CodexTranscriptRegistryExact})) d1;
          d3 = (case proof of
                  Some pr \<Rightarrow> insert_field ''residentChildIdentityProof'' (JString (proof_str pr)) d2
                | None \<Rightarrow> insert_field ''subagentIdentityProof'' (JString ''codex-root-current-session-mismatch'') d2)
      in if search then
           (insert_field ''residentChildParserOwnedAspCommand'' (JBool True) d3)
             \<lparr>d_decision := Allow,
              d_message := ''Registered resident child may execute this parser-owned ASP search/query directly.''\<rparr>
         else d3\<lparr>d_message := message\<rparr>)"

text \<open>An error of the proof leaves the decision with the two fields of the payload.\<close>

definition enforce_resident_child_deny_contract ::
  "json_parser \<Rightarrow> session_host \<Rightarrow> string \<Rightarrow> session_policy \<Rightarrow> json \<Rightarrow> hook_decision \<Rightarrow> hook_decision gate" where
  "enforce_resident_child_deny_contract jp sh root p payload d =
     (if d_decision d \<noteq> Deny then gate_return d
      else
        let d1 = with_codex_identity payload d in
        (\<lambda>s. case current_session_resident_child_identity_proof jp sh (gs_registry s) root p payload of
           (Inl _, file) \<Rightarrow> (Inr d1, s\<lparr>gs_registry := file\<rparr>)
         | (Inr proof, file) \<Rightarrow>
             (Inr (if proof = None \<and> \<not> codex_subagent_session (sh_env sh) d1 then d1 else child_decision p proof d1),
              s\<lparr>gs_registry := file\<rparr>)))"

subsection \<open>A drifted child\<close>

definition drift_root :: "process_env \<Rightarrow> hook_decision \<Rightarrow> string option" where
  "drift_root env d =
     or_else
       (Option.bind (Option.bind (or_else (field_of d ''rootSessionId'') (field_of d ''sessionId'')) as_str) nonblank)
       (non_empty_session_env env ''CODEX_THREAD_ID'')"

definition softened_decision :: "drift_observation \<Rightarrow> hook_decision \<Rightarrow> hook_decision" where
  "softened_decision observation d =
     put_decision_fields
       [(''residentRouteStatus'', ''degraded-profile-or-runtime-drift''), (''residentRoutePolicy'', ''soft-nonblocking''),
        (''residentReplacementAction'', ''retire-and-create-agent-type-asp-explorer-from-registered-toml'')]
       (remove_fields (''forbiddenUntilResolved'' # bootstrap_loop_fields)
         (d\<lparr>d_decision := Allow, d_reason_kind := ReasonNone,
            d_message :=
              ''ASP resident routing is degraded because child '' @ dr_child_session_id observation
              @ '' was observed with agent_type `'' @ dr_observed_agent_type observation @ ''` instead of `''
              @ dr_expected_agent_type observation
              @ ''` or with a mismatched runtime. Allowing this Codex tool call; retire the drifted child and create one replacement through the registered `asp_explorer` role when the host exposes typed replacement.''\<rparr>))"

definition soften_drifted_resident_route ::
  "json_parser \<Rightarrow> process_env \<Rightarrow> state_file \<Rightarrow> hook_decision \<Rightarrow> string + hook_decision" where
  "soften_drifted_resident_route jp env events d =
     (if d_decision d \<noteq> Deny then Inr d
      else (case drift_root env d of
              None \<Rightarrow> Inr d
            | Some root_session \<Rightarrow>
                result_bind (latest_subagent_runtime_drift jp events root_session) (\<lambda>observation.
                  Inr (case observation of None \<Rightarrow> d | Some ob \<Rightarrow> softened_decision ob d))))"

subsection \<open>Output\<close>

text \<open>The texts of a failed serialisation are kept up to the message of the library.\<close>

definition output_value :: "json_printer \<Rightarrow> string \<Rightarrow> hook_decision \<Rightarrow> string + json" where
  "output_value pr emit d =
     (if emit = ''decision'' then Inr (decision_value d)
      else if emit = ''platform'' then
        map_err (\<lambda>_. ''failed to render hook response'') (render_platform_response pr d)
      else Inl (''unsupported --emit value: '' @ emit @ ''; expected platform or decision''))"

definition emit_decision :: "json_printer \<Rightarrow> string \<Rightarrow> hook_decision \<Rightarrow> string + string" where
  "emit_decision pr emit d =
     result_bind (output_value pr emit d) (\<lambda>v. ok_or ''failed to serialize hook response'' (pr v))"

definition runtime_failure_decision :: "string \<Rightarrow> string \<Rightarrow> string \<Rightarrow> hook_decision" where
  "runtime_failure_decision client event message =
     new_decision client event Allow ReasonNone [] \<lparr>j_tool_name = None, j_command = None, j_paths = []\<rparr> [] message []"

subsection \<open>Configuration\<close>

definition load_hook_config :: "hook_env \<Rightarrow> (string \<Rightarrow> string option) \<Rightarrow> string \<Rightarrow> string \<Rightarrow> string + client_hook_config" where
  "load_hook_config he files config_path root =
     map_err (he_config_error_text he)
       (load_client_config_for_project (he_libs he)
          (map_sum id cf_agent_session_messages (default_config_file (he_decode he) (he_built_in he)))
          (he_decode he) (he_decode_project he) (files config_path) (he_project_file he root))"

definition load_session_policy :: "hook_env \<Rightarrow> (string \<Rightarrow> string option) \<Rightarrow> string \<Rightarrow> string + session_policy" where
  "load_session_policy he files config_path =
     load_asp_session_policy (he_decode he) (he_built_in he) (files config_path)"

fun error_of :: "'e + 'a \<Rightarrow> 'e list" where
  "error_of (Inl e) = [e]"
| "error_of (Inr x) = []"

definition lacks_resident_lane :: "string + session_policy \<Rightarrow> bool" where
  "lacks_resident_lane policy \<longleftrightarrow> (case policy of Inl _ \<Rightarrow> False | Inr p \<Rightarrow> uses_builtin_resident_fallback p)"

definition config_repair_reasons :: "string + client_hook_config \<Rightarrow> string + session_policy \<Rightarrow> string list" where
  "config_repair_reasons config policy =
     extend_unique (error_of config) (error_of policy)
     @ (if lacks_resident_lane policy then [''agents.residentAgents is missing lifecycle=asp-command''] else [])"

record loaded_config =
  lc_config :: client_hook_config
  lc_policy :: session_policy
  lc_errors :: "string list"
  lc_reasons :: "string list"
  lc_auto_sync :: "string option"

text \<open>
  Files that do not load, or that lack the lane of the resident child, are repaired by one synchronisation and
  loaded once more; what still fails is replaced by the built-in policy.
\<close>

definition load_configuration :: "hook_env \<Rightarrow> string \<Rightarrow> string \<Rightarrow> string + loaded_config" where
  "load_configuration he config_path root =
     (let config0 = load_hook_config he (he_file he) config_path root;
          policy0 = load_session_policy he (he_file he) config_path;
          needs_sync = (error_of config0 \<noteq> [] \<or> error_of policy0 \<noteq> [] \<or> lacks_resident_lane policy0);
          auto_sync = (if needs_sync
                       then Some (case he_sync he of Inr report \<Rightarrow> sync_receipt report | Inl error \<Rightarrow> ''failed:'' @ error)
                       else None);
          config = (if needs_sync then load_hook_config he (he_synced_file he) config_path root else config0);
          policy = (if needs_sync then load_session_policy he (he_synced_file he) config_path else policy0) in
      result_bind (case policy of
                     Inr p \<Rightarrow> Inr p
                   | Inl _ \<Rightarrow>
                       map_err (\<lambda>error.
                           ''failed to load built-in ASP session policy after config failure: '' @ error)
                         (built_in_session_policy (he_decode he) (he_built_in he))) (\<lambda>p.
        Inr \<lparr>lc_config = (case config of Inr c \<Rightarrow> c | Inl _ \<Rightarrow> default_client_hook_config), lc_policy = p,
             lc_errors = extend_unique (error_of config) (error_of policy),
             lc_reasons = config_repair_reasons config0 policy0, lc_auto_sync = auto_sync\<rparr>))"

subsection \<open>The run\<close>

text \<open>Appending an event that fails leaves the file.\<close>

definition record_event :: "hook_env \<Rightarrow> hook_decision \<Rightarrow> state_file \<Rightarrow> state_file" where
  "record_event he d events =
     (case append_hook_event_state (he_print he) (host_now_ms (he_host he)) events d of
        Inl _ \<Rightarrow> events | Inr events' \<Rightarrow> events')"

definition replayed :: "hook_env \<Rightarrow> state_file \<Rightarrow> hook_decision \<Rightarrow> hook_decision" where
  "replayed he events d = snd (apply_repeated_deny_replay (he_json he) (he_print he) (host_now_ms (he_host he)) events d)"

definition with_target_agent_sync :: "hook_env \<Rightarrow> string \<Rightarrow> hook_decision \<Rightarrow> hook_decision" where
  "with_target_agent_sync he client d =
     (case Option.bind (field_of d ''targetAgentName'') as_str of
        Some target \<Rightarrow>
          if client = ''codex'' then annotate_target_agent_auto_sync (he_codex_sync he target) target d else d
      | None \<Rightarrow> d)"

text \<open>The decision with its event and what a repair of the configuration says.\<close>

definition annotated_event :: "string \<Rightarrow> loaded_config \<Rightarrow> string \<Rightarrow> json \<Rightarrow> hook_decision \<Rightarrow> hook_decision" where
  "annotated_event event lc config_path payload d =
     (let d1 = d\<lparr>d_event := event\<rparr>;
          d2 = (if lc_errors lc \<noteq> [] \<or> lc_auto_sync lc \<noteq> None
                then annotate_hook_config_fallback config_path (lc_errors lc) (lc_reasons lc) (lc_auto_sync lc) d1
                else d1)
      in if event = ''subagent-start'' \<or> event = ''subagent-stop'' then annotate_observed_payload payload d2 else d2)"

definition with_stopped_child ::
  "hook_env \<Rightarrow> string \<Rightarrow> string \<Rightarrow> string \<Rightarrow> session_policy \<Rightarrow> json \<Rightarrow> hook_decision \<Rightarrow> hook_decision gate" where
  "with_stopped_child he root client event p payload d =
     (if event \<noteq> ''subagent-stop'' then gate_return d
      else gate_bind (archive_stopped_managed_child (he_sessions he) client root payload p) (\<lambda>stopped.
             gate_return (case stopped of None \<Rightarrow> d | Some session_id \<Rightarrow> stopped_child_decision client session_id d)))"

text \<open>The completion of a decision, from its event to its message.\<close>

definition completed_decision ::
  "hook_env \<Rightarrow> string \<Rightarrow> string \<Rightarrow> string \<Rightarrow> string \<Rightarrow> loaded_config \<Rightarrow> json \<Rightarrow> state_file \<Rightarrow> hook_decision
     \<Rightarrow> hook_decision gate" where
  "completed_decision he root config_path client event lc payload events d =
     gate_bind (with_stopped_child he root client event (lc_policy lc) payload
                  (annotated_event event lc config_path payload d)) (\<lambda>d1.
       let d2 = annotate_payload_context (he_json he) (host_now_ms (he_host he)) events payload d1;
           d3 = annotate_source_access_compact_templates (lc_config lc) d2;
           d4 = replayed he events d3;
           d5 = with_target_agent_sync he client d4
       in gate_bind (enforce_resident_child_deny_contract (he_json he) (he_sessions he) root (lc_policy lc) payload d5)
            (\<lambda>d6. gate_return
               (case soften_drifted_resident_route (he_json he) (sh_env (he_sessions he)) events d6 of
                  Inl _ \<Rightarrow> d6 | Inr d7 \<Rightarrow> d7)))"

definition classification_event :: "string \<Rightarrow> string \<Rightarrow> string" where
  "classification_event client event =
     (if client = ''codex'' \<and> event = ''permission-request'' then ''pre-tool'' else event)"

definition active_hook ::
  "hook_env \<Rightarrow> string \<Rightarrow> string \<Rightarrow> string \<Rightarrow> string \<Rightarrow> hook_runtime \<Rightarrow> loaded_config \<Rightarrow> json \<Rightarrow> state_file
     \<Rightarrow> hook_decision gate" where
  "active_hook he root config_path client event runtime lc payload events =
     gate_bind (hook_decision_of he root client (classification_event client event) runtime (lc_config lc) (lc_policy lc)
                  payload)
       (completed_decision he root config_path client event lc payload events)"

datatype hook_outcome = HookOutput string | HookError gate_error

text \<open>Printing a decision that was recorded.\<close>

definition finished :: "hook_env \<Rightarrow> string \<Rightarrow> hook_decision \<Rightarrow> hook_outcome" where
  "finished he emit d =
     (case emit_decision (he_print he) emit d of Inr output \<Rightarrow> HookOutput output | Inl error \<Rightarrow> HookError (GateError error))"

definition hook_failure :: "hook_env \<Rightarrow> string \<Rightarrow> string \<Rightarrow> string \<Rightarrow> string \<Rightarrow> hook_outcome" where
  "hook_failure he client event emit message = finished he emit (runtime_failure_decision client event message)"

definition recorded_and_finished ::
  "hook_env \<Rightarrow> string \<Rightarrow> hook_decision \<Rightarrow> hook_state \<Rightarrow> hook_outcome \<times> hook_state" where
  "recorded_and_finished he emit d s = (finished he emit d, s\<lparr>hs_events := record_event he d (hs_events s)\<rparr>)"

text \<open>The decision about a session without an activation: every error of it is dropped.\<close>

definition activation_failure_session_decision ::
  "hook_env \<Rightarrow> string \<Rightarrow> string list \<Rightarrow> string \<Rightarrow> string \<Rightarrow> json \<Rightarrow> gate_state
     \<Rightarrow> (gate_error + hook_decision option) \<times> gate_state" where
  "activation_failure_session_decision he current_dir args client event payload s =
     (case load_session_policy he (he_file he)
             (case flag_value args ''--config'' of Some path \<Rightarrow> path | None \<Rightarrow> he_default_config he) of
        Inl _ \<Rightarrow> (Inr None, s)
      | Inr p \<Rightarrow>
          (case classify_activation_failure_main_session_asp (gate_env_of he current_dir client p) event payload s of
             (Inl (GateShell e), s') \<Rightarrow> (Inl (GateShell e), s')
           | (Inl _, s') \<Rightarrow> (Inr None, s')
           | (Inr d, s') \<Rightarrow> (Inr d, s')))"

definition run_without_activation ::
  "hook_env \<Rightarrow> string list \<Rightarrow> string \<Rightarrow> string \<Rightarrow> string \<Rightarrow> string \<Rightarrow> string \<Rightarrow> string \<Rightarrow> hook_state
     \<Rightarrow> hook_outcome \<times> hook_state" where
  "run_without_activation he args client event emit activation_path error stdin s =
     (let failed = (case activation_failure_source_decision (he_json he) client event activation_path error stdin of
                      Some d \<Rightarrow> finished he emit d
                    | None \<Rightarrow>
                        hook_failure he client event emit
                          (''Semantic hook activation could not be loaded; allowing tool use so activation can be repaired: ''
                           @ error)) in
      case (he_json he stdin, sh_current_dir (he_sessions he)) of
        (Some payload, Inr current_dir) \<Rightarrow>
          (case activation_failure_session_decision he current_dir args client event payload (hs_gate s) of
             (Inl e, g) \<Rightarrow> (HookError e, s\<lparr>hs_gate := g\<rparr>)
           | (Inr (Some d), g) \<Rightarrow>
               recorded_and_finished he emit (replayed he (hs_events s) d) (s\<lparr>hs_gate := g\<rparr>)
           | (Inr None, g) \<Rightarrow> (failed, s\<lparr>hs_gate := g\<rparr>))
      | _ \<Rightarrow> (failed, s))"

definition run_with_activation ::
  "hook_env \<Rightarrow> string list \<Rightarrow> string \<Rightarrow> string \<Rightarrow> string \<Rightarrow> string \<Rightarrow> hook_runtime \<Rightarrow> string \<Rightarrow> hook_state
     \<Rightarrow> hook_outcome \<times> hook_state" where
  "run_with_activation he args client event emit activation_path runtime0 stdin s =
     (let root = hook_runtime_project_root (he_profile he)
            (case sh_current_dir (he_sessions he) of Inr dir \<Rightarrow> dir | Inl _ \<Rightarrow> ''.'') activation_path (project_root runtime0);
          runtime = runtime0\<lparr>project_root := root\<rparr>;
          config_path = (case flag_value args ''--config'' of Some path \<Rightarrow> path | None \<Rightarrow> he_default_config he) in
      case he_json he stdin of
        None \<Rightarrow> (hook_failure he client event emit (''invalid hook payload JSON: '' @ he_json_error he stdin), s)
      | Some payload \<Rightarrow>
          (case load_configuration he config_path root of
             Inl error \<Rightarrow> (HookError (GateError error), s)
           | Inr lc \<Rightarrow>
               (case active_hook he root config_path client event runtime lc payload (hs_events s) (hs_gate s) of
                  (Inl e, g) \<Rightarrow> (HookError e, s\<lparr>hs_gate := g\<rparr>)
                | (Inr d, g) \<Rightarrow> recorded_and_finished he emit d (s\<lparr>hs_gate := g\<rparr>))))"

definition run_hook ::
  "hook_env \<Rightarrow> string list \<Rightarrow> string + string \<Rightarrow> hook_state \<Rightarrow> hook_outcome \<times> hook_state" where
  "run_hook he args input s =
     (case result_bind (ok_or ''missing required --client <client>'' (flag_value args ''--client'')) (\<lambda>client.
           result_bind (ensure_supported_client client) (\<lambda>_.
           result_bind (ok_or ''missing hook event'' (first_positional args)) (\<lambda>event. Inr (client, event)))) of
        Inl error \<Rightarrow> (HookError (GateError error), s)
      | Inr (client, event) \<Rightarrow>
          let emit = or_text ''platform'' (flag_value args ''--emit'');
              activation_path = or_text (he_default_activation he) (flag_value args ''--activation'') in
          (case input of
             Inl error \<Rightarrow>
               (hook_failure he client event emit (''failed to read hook payload from stdin: '' @ error), s)
           | Inr stdin \<Rightarrow>
               (case he_load_activation he activation_path of
                  Inl error \<Rightarrow> run_without_activation he args client event emit activation_path error stdin s
                | Inr runtime \<Rightarrow> run_with_activation he args client event emit activation_path runtime stdin s)))"

subsection \<open>A run changes the registry by its statements\<close>

lemma rollout_proof_lookup_steps:
  "file_steps file (snd (current_resident_child_identity_proof jp sh file root child role))"
  by (auto simp: current_resident_child_identity_proof_def Let_def split: option.split sum.split
      dest: opened_steps)

lemma transcript_proof_steps:
  "file_steps file (snd (codex_transcript_resident_child_identity_proof jp sh file root payload child role))"
  by (auto simp: codex_transcript_resident_child_identity_proof_def transcript_resident_child_identity_proof_def
      intro!: with_registry_steps split: option.split)

lemma identity_proof_steps:
  "file_steps file (snd (current_session_resident_child_identity_proof jp sh file root p payload))"
proof -
  let ?found = "codex_transcript_resident_child_identity_proof jp sh file root payload
    (sp_resident_child_name p) (sp_resident_agent_role p)"
  have "file_steps file (snd ?found)" by (rule transcript_proof_steps)
  then show ?thesis
    by (cases ?found) (auto simp: current_session_resident_child_identity_proof_def split: sum.split option.split
        intro: file_steps_trans rollout_proof_lookup_steps)
qed

lemma hook_lookup_stays: "stays_in registry_steps (lookup_hook_session sh root session)"
  by (auto simp: stays_in_def registry_steps_def lookup_hook_session_def split: sum.split option.split
      dest!: opened_steps simp: file_steps_def)

lemma archived_stays: "stays_in registry_steps (archive_stopped_managed_child sh platform root payload p)"
proof (cases "stopped_child_id platform payload p")
  case None
  then show ?thesis by (simp add: archive_stopped_managed_child_def steps.return_stays)
next
  case (Some session)
  have "registry_step\<^sup>*\<^sup>* rows (snd (update_session_status project session status now rows))"
    "registry_step\<^sup>*\<^sup>* rows (snd (archive_session project session now rows))" for rows project status now
    unfolding archive_session_def by (auto intro: step_status step_archive)
  with Some show ?thesis
    by (auto simp: archive_stopped_managed_child_def Let_def intro!: lookup_stays with_registry_steps
        split: option.split sum.split prod.split) (metis snd_conv)+
qed

lemma read_only_context_stays: "stays_in registry_steps (read_only_context he root config payload)"
  by (auto simp: read_only_context_def intro!: steps.bind_stays steps.return_stays hook_lookup_stays split: option.split)

lemma decision_of_stays: "stays_in registry_steps (hook_decision_of he root client event runtime config p payload)"
  unfolding hook_decision_of_def classify_read_only_resident_receipt_def classify_read_only_resident_write_def
  by (auto intro!: steps.bind_stays steps.return_stays steps.shell_stays read_only_context_stays gate_stays
      split: option.split)

lemma enforced_stays:
  "stays_in registry_steps (enforce_resident_child_deny_contract jp sh root p payload d)"
proof (unfold stays_in_def, rule allI)
  fix s :: gate_state
  from identity_proof_steps [of "gs_registry s" jp sh root p payload]
  show "registry_steps s (snd (enforce_resident_child_deny_contract jp sh root p payload d s))"
    by (cases "current_session_resident_child_identity_proof jp sh (gs_registry s) root p payload")
      (auto simp: enforce_resident_child_deny_contract_def Let_def gate_return_def registry_steps_def file_steps_def
        split: sum.split)
qed

lemma completed_stays:
  "stays_in registry_steps (completed_decision he root config_path client event lc payload events d)"
  unfolding completed_decision_def with_stopped_child_def Let_def
  by (auto intro!: steps.bind_stays steps.return_stays archived_stays enforced_stays)

lemma active_hook_stays:
  "stays_in registry_steps (active_hook he root config_path client event runtime lc payload events)"
  unfolding active_hook_def by (intro steps.bind_stays decision_of_stays completed_stays)

lemma without_activation_stays:
  "registry_steps s (snd (activation_failure_session_decision he dir args client event payload s))"
proof -
  have "registry_steps s (snd (classify_activation_failure_main_session_asp ge event payload s))" for ge
    using activation_failure_stays by (simp add: stays_in_def)
  then show ?thesis
    by (auto simp: activation_failure_session_decision_def steps.refl split: sum.split prod.split gate_error.split)
      (metis snd_conv)+
qed

subsection \<open>What the completion of a decision may change\<close>

lemma keeps_kind [simp]:
  "d_decision (insert_field key v d) = d_decision d"
  "d_decision (or_insert_field key v d) = d_decision d"
  "d_decision (put_decision_fields entries d) = d_decision d"
  "d_decision (remove_fields keys d) = d_decision d"
  "d_decision (annotate_hook_config_fallback path errors reasons sync d) = d_decision d"
  "d_reason_kind (insert_field key v d) = d_reason_kind d"
  "d_reason_kind (or_insert_field key v d) = d_reason_kind d"
  "d_reason_kind (put_decision_fields entries d) = d_reason_kind d"
  "d_reason_kind (remove_fields keys d) = d_reason_kind d"
  "d_reason_kind (annotate_hook_config_fallback path errors reasons sync d) = d_reason_kind d"
  by (simp_all add: insert_field_def or_insert_field_def put_decision_fields_def remove_fields_def
      annotate_hook_config_fallback_def Let_def)

definition same_kind :: "hook_decision \<Rightarrow> hook_decision \<Rightarrow> bool" where
  "same_kind d d' \<longleftrightarrow> d_decision d' = d_decision d \<and> d_reason_kind d' = d_reason_kind d"

lemma same_kind_refl [simp]: "same_kind d d"
  by (simp add: same_kind_def)

lemma same_kind_trans: "same_kind a b \<Longrightarrow> same_kind b c \<Longrightarrow> same_kind a c"
  by (simp add: same_kind_def)

lemma same_kind_message [simp]: "same_kind d (d'\<lparr>d_message := m\<rparr>) \<longleftrightarrow> same_kind d d'"
  by (simp add: same_kind_def)

lemma same_kind_fields [simp]:
  "same_kind d (insert_field key v d') \<longleftrightarrow> same_kind d d'"
  "same_kind d (or_insert_field key v d') \<longleftrightarrow> same_kind d d'"
  "same_kind d (put_decision_fields entries d') \<longleftrightarrow> same_kind d d'"
  "same_kind d (remove_fields keys d') \<longleftrightarrow> same_kind d d'"
  "same_kind d (annotate_hook_config_fallback path errors reasons sync d') \<longleftrightarrow> same_kind d d'"
  "same_kind d (annotate_observed_payload payload d') \<longleftrightarrow> same_kind d d'"
  "same_kind d (insert_template_field field w d') \<longleftrightarrow> same_kind d d'"
  "same_kind d (with_codex_identity payload d') \<longleftrightarrow> same_kind d d'"
  by (simp_all add: same_kind_def annotate_observed_payload_def insert_template_field_def with_codex_identity_def
      Let_def split: option.split)

lemma annotated_event_kind: "same_kind d (annotated_event event lc path payload d)"
proof -
  have "same_kind d (d\<lparr>d_event := event\<rparr>)" by (simp add: same_kind_def)
  then show ?thesis by (auto simp: annotated_event_def Let_def)
qed

lemma payload_fields_kind: "same_kind d (with_payload_fields payload d)"
proof -
  have "same_kind d (foldl (\<lambda>acc (field, keys).
      case top_string_field keys payload of
        None \<Rightarrow> acc | Some v \<Rightarrow> or_insert_field field (JString v) acc) d0 xs)" if "same_kind d d0" for d0 xs
    using that by (induction xs arbitrary: d0) (auto split: option.split)
  then show ?thesis by (simp add: with_payload_fields_def)
qed

lemma payload_context_kind: "same_kind d (annotate_payload_context jp now events payload d)"
  using payload_fields_kind [of d payload]
  by (auto simp: annotate_payload_context_def Let_def split: sum.split)

lemma compact_templates_kind: "same_kind d (annotate_source_access_compact_templates config d)"
  by (simp add: annotate_source_access_compact_templates_def Let_def)

lemma replayed_kind: "same_kind d (replayed he events d)"
proof (cases "deny_replay_key (he_print he) d")
  case None
  then show ?thesis by (simp add: replayed_def apply_repeated_deny_replay_def)
next
  case (Some key)
  have "same_kind d (insert_asp_explore_recovery_action_fields d0)" if "same_kind d d0" for d0
    using that by (simp add: insert_asp_explore_recovery_action_fields_def)
  with Some show ?thesis
    by (auto simp: replayed_def apply_repeated_deny_replay_def Let_def split: sum.split bool.split)
qed

lemma target_sync_kind: "same_kind d (with_target_agent_sync he client d)"
  by (auto simp: with_target_agent_sync_def annotate_target_agent_auto_sync_def split: option.split sum.split)

text \<open>From the stopped child to the contract of the resident child: nothing in between decides anything.\<close>

definition dressed ::
  "hook_env \<Rightarrow> string \<Rightarrow> loaded_config \<Rightarrow> json \<Rightarrow> state_file \<Rightarrow> hook_decision \<Rightarrow> hook_decision" where
  "dressed he client lc payload events d =
     with_target_agent_sync he client (replayed he events
       (annotate_source_access_compact_templates (lc_config lc)
         (annotate_payload_context (he_json he) (host_now_ms (he_host he)) events payload d)))"

lemma dressed_kind: "same_kind d (dressed he client lc payload events d)"
  unfolding dressed_def
  by (rule same_kind_trans [OF payload_context_kind], rule same_kind_trans [OF compact_templates_kind],
      rule same_kind_trans [OF replayed_kind], rule target_sync_kind)

lemma child_decision_kind:
  "d_decision (child_decision p proof d) =
     (if proof \<noteq> None \<and> d_reason_kind d = AspReasoningRouted \<and> parser_owned_stage d then Allow else d_decision d)"
  by (simp add: child_decision_def Let_def split: option.split)

lemma softened_kind:
  assumes "soften_drifted_resident_route jp env events d = Inr d'"
  shows "d' = d \<or> d_decision d = Deny \<and> d_decision d' = Allow
    \<and> (\<exists>root ob. latest_subagent_runtime_drift jp events root = Inr (Some ob))"
  using assms
  by (auto simp: soften_drifted_resident_route_def result_bind_Inr softened_decision_def split: if_splits option.splits)

text \<open>The ways a refusal is lifted after it was made.\<close>

definition lifted_by_proof :: "hook_env \<Rightarrow> string \<Rightarrow> session_policy \<Rightarrow> json \<Rightarrow> bool" where
  "lifted_by_proof he root p payload \<longleftrightarrow>
     (\<exists>proof file file'. current_session_resident_child_identity_proof (he_json he) (he_sessions he) file root p payload
        = (Inr (Some proof), file'))"

definition lifted_by_drift :: "hook_env \<Rightarrow> state_file \<Rightarrow> bool" where
  "lifted_by_drift he events \<longleftrightarrow>
     (\<exists>root ob. latest_subagent_runtime_drift (he_json he) events root = Inr (Some ob))"

lemma enforced_kind:
  "\<exists>d' s'. enforce_resident_child_deny_contract (he_json he) (he_sessions he) root p payload d s = (Inr d', s')
    \<and> (d_decision d' = d_decision d
       \<or> d_decision d = Deny \<and> d_decision d' = Allow \<and> d_reason_kind d = AspReasoningRouted
         \<and> lifted_by_proof he root p payload)"
proof -
  have "same_kind d (with_codex_identity payload d)" by simp
  then show ?thesis
    by (auto simp: enforce_resident_child_deny_contract_def Let_def gate_return_def lifted_by_proof_def
        child_decision_kind same_kind_def split: prod.split sum.split)
qed

lemma completion_lifts:
  assumes "completed_decision he root config_path client event lc payload events d s = (Inr d', s')"
    and "d_decision d \<noteq> Allow"
  shows "d_decision d' = d_decision d
    \<or> d_decision d' = Allow
      \<and> (event = ''subagent-stop'' \<and> stopped_child_id client payload (lc_policy lc) \<noteq> None
         \<or> d_decision d = Deny \<and> d_reason_kind d = AspReasoningRouted
           \<and> lifted_by_proof he root (lc_policy lc) payload
         \<or> d_decision d = Deny \<and> lifted_by_drift he events)"
proof -
  let ?e = "annotated_event event lc config_path payload d"
  from assms(1) obtain d1 s1 where d1: "with_stopped_child he root client event (lc_policy lc) payload ?e s = (Inr d1, s1)"
    by (auto simp: completed_decision_def gate_bind_def split: prod.splits sum.splits)
  obtain d2 s2 where d2: "enforce_resident_child_deny_contract (he_json he) (he_sessions he) root (lc_policy lc) payload
        (dressed he client lc payload events d1) s1 = (Inr d2, s2)"
    and kind: "d_decision d2 = d_decision (dressed he client lc payload events d1)
       \<or> d_decision (dressed he client lc payload events d1) = Deny \<and> d_decision d2 = Allow
         \<and> d_reason_kind (dressed he client lc payload events d1) = AspReasoningRouted
         \<and> lifted_by_proof he root (lc_policy lc) payload"
    using enforced_kind by blast
  from assms(1) d1 d2 have last: "d' = (case soften_drifted_resident_route (he_json he) (sh_env (he_sessions he)) events d2 of
      Inl _ \<Rightarrow> d2 | Inr d3 \<Rightarrow> d3)"
    by (simp add: completed_decision_def gate_bind_def gate_return_def dressed_def Let_def)
  have final: "d_decision d' = d_decision d2 \<or> d_decision d2 = Deny \<and> d_decision d' = Allow \<and> lifted_by_drift he events"
    using softened_kind [of "he_json he" "sh_env (he_sessions he)" events d2]
    by (auto simp: last lifted_by_drift_def split: sum.split)
  show ?thesis
  proof (cases "d1 = ?e")
    case True
    then have "same_kind d (dressed he client lc payload events d1)"
      using same_kind_trans annotated_event_kind dressed_kind by blast
    with kind final show ?thesis by (auto simp: same_kind_def)
  next
    case False
    with d1 have "event = ''subagent-stop'' \<and> stopped_child_id client payload (lc_policy lc) \<noteq> None \<and> d_decision d1 = Allow"
      by (auto simp: with_stopped_child_def archive_stopped_managed_child_def gate_bind_def gate_return_def
          stopped_child_decision_def split: if_splits option.splits prod.splits sum.splits)
    moreover have "d_decision (dressed he client lc payload events d1) = d_decision d1"
      using dressed_kind [of d1] by (simp add: same_kind_def)
    ultimately show ?thesis using kind final by auto
  qed
qed


text \<open>Nothing that was allowed is refused by the completion.\<close>

lemma allowed_stays_allowed:
  assumes "completed_decision he root config_path client event lc payload events d s = (Inr d', s')"
    and "d_decision d = Allow"
  shows "d_decision d' = Allow"
proof -
  let ?e = "annotated_event event lc config_path payload d"
  from assms(1) obtain d1 s1 where d1: "with_stopped_child he root client event (lc_policy lc) payload ?e s = (Inr d1, s1)"
    by (auto simp: completed_decision_def gate_bind_def split: prod.splits sum.splits)
  have "d_decision ?e = Allow" using annotated_event_kind [of d] assms(2) by (simp add: same_kind_def)
  with d1 have "d_decision d1 = Allow"
    by (auto simp: with_stopped_child_def gate_bind_def gate_return_def stopped_child_decision_def
        split: if_splits option.splits prod.splits sum.splits)
  then have dressed: "d_decision (dressed he client lc payload events d1) = Allow"
    using dressed_kind [of d1] by (simp add: same_kind_def)
  obtain d2 s2 where d2: "enforce_resident_child_deny_contract (he_json he) (he_sessions he) root (lc_policy lc) payload
        (dressed he client lc payload events d1) s1 = (Inr d2, s2)" "d_decision d2 = Allow"
    using enforced_kind dressed by (metis decision_kind.distinct)
  from assms(1) d1 d2(1) have "d' = (case soften_drifted_resident_route (he_json he) (sh_env (he_sessions he)) events d2 of
      Inl _ \<Rightarrow> d2 | Inr d3 \<Rightarrow> d3)"
    by (simp add: completed_decision_def gate_bind_def gate_return_def dressed_def Let_def)
  with d2(2) show ?thesis by (simp add: soften_drifted_resident_route_def)
qed

lemma completed_total:
  assumes "event \<noteq> ''subagent-stop''"
  shows "\<exists>d' s'. completed_decision he root config_path client event lc payload events d s = (Inr d', s')"
proof -
  obtain d2 s2 where "enforce_resident_child_deny_contract (he_json he) (he_sessions he) root (lc_policy lc) payload
        (dressed he client lc payload events (annotated_event event lc config_path payload d)) s = (Inr d2, s2)"
    using enforced_kind by blast
  with assms show ?thesis
    by (simp add: completed_decision_def with_stopped_child_def gate_bind_def gate_return_def dressed_def Let_def)
qed

subsection \<open>From the tool use to the decision\<close>

lemma read_only_context_total: "\<exists>ctx s'. read_only_context he root config payload s = (Inr ctx, s')"
  by (auto simp: read_only_context_def lookup_hook_session_def gate_bind_def gate_return_def
      split: option.split sum.split)

lemma receipt_silent:
  assumes "event \<noteq> ''subagent-stop''"
  shows "\<exists>s'. classify_read_only_resident_receipt he root client event config payload s = (Inr None, s')"
proof -
  obtain ctx s' where "read_only_context he root config payload s = (Inr ctx, s')"
    using read_only_context_total by blast
  moreover have "Option.bind ctx (classify_read_only_subagent_receipt client event payload) = None"
    using assms by (cases ctx) (auto simp: classify_read_only_subagent_receipt_def)
  ultimately show ?thesis
    by (auto simp: classify_read_only_resident_receipt_def gate_bind_def gate_return_def)
qed

lemma write_refused_or_silent:
  assumes "payload_write_intent (he_parse he) (he_json he) payload = Inr w"
  shows "\<exists>r s'. classify_read_only_resident_write he root client event config payload s = (Inr r, s')
    \<and> (\<forall>d. r = Some d \<longrightarrow> d_decision d = Deny)"
proof -
  obtain ctx s' where ctx: "read_only_context he root config payload s = (Inr ctx, s')"
    using read_only_context_total by blast
  show ?thesis
  proof (cases ctx)
    case None
    with ctx show ?thesis
      by (simp add: classify_read_only_resident_write_def gate_bind_def gate_return_def)
  next
    case (Some c)
    from assms obtain r where "classify_read_only_subagent_write (he_parse he) (he_json he) client event payload c = Inr r"
      by (cases "event \<noteq> ''pre-tool'' \<or> \<not> pc_is_asp_managed c \<or> \<not> sandbox_mode_is_read_only (pc_sandbox_mode c)")
        (auto simp: classify_read_only_subagent_write_def shell_bind_def)
    with ctx Some show ?thesis
      by (auto dest: read_only_write_only_denies simp: map_err_def classify_read_only_resident_write_def gate_bind_def gate_shell_def)
  qed
qed

text \<open>Before a tool use without a command the gate says nothing and touches nothing.\<close>

lemma gate_silent:
  assumes "payload_command_strings payload = []"
  shows "classify_main_session_asp_exploration ge ''pre-tool'' runtime payload s = (Inr None, s)"
  using assms
  by (simp add: classify_main_session_asp_exploration_def classify_pre_tool_main_session_asp_def gate_return_def)


subsection \<open>Without an activation\<close>

lemma source_decision_denies:
  "activation_failure_source_decision jp client event path error stdin = Some d \<Longrightarrow> d_decision d = Deny"
  by (auto simp: activation_failure_source_decision_def Let_def new_decision_def bind_eq_Some_conv split: if_splits)

lemma source_decision_iff:
  assumes "jp stdin = Some payload"
  shows "activation_failure_source_decision jp client event path error stdin \<noteq> None \<longleftrightarrow>
    (let tool_input = (case json_get_any [''tool_input'', ''toolInput'', ''input''] payload of Some v \<Rightarrow> v | None \<Rightarrow> payload) in
     list_ex is_source_path (collect_source_like_values tool_input
       @ (case top_string_field [''cmd'', ''command'', ''script''] tool_input of
            None \<Rightarrow> [] | Some c \<Rightarrow> collect_command_source_paths c)))"
  using assms by (auto simp: activation_failure_source_decision_def Let_def list_ex_iff)

text \<open>C27: When the activation does not load, a tool use whose input names a source file and that runs no command of
  its own is refused, and nothing of the state is changed: a broken activation does not open the sources.\<close>

theorem reads_fail_closed_without_activation:
  assumes client: "flag_value args ''--client'' = Some client" "ensure_supported_client client = Inr ()"
    and event: "first_positional args = Some event"
    and activation: "he_load_activation he (or_text (he_default_activation he) (flag_value args ''--activation'')) = Inl error"
    and payload: "he_json he stdin = Some payload" "payload_command_strings payload = []"
    and names_source: "list_ex is_source_path (collect_source_like_values
       (case json_get_any [''tool_input'', ''toolInput'', ''input''] payload of Some v \<Rightarrow> v | None \<Rightarrow> payload))"
  shows "\<exists>d. run_hook he args (Inr stdin) s = (finished he (or_text ''platform'' (flag_value args ''--emit'')) d, s)
    \<and> d_decision d = Deny"
proof -
  let ?path = "or_text (he_default_activation he) (flag_value args ''--activation'')"
  have "activation_failure_source_decision (he_json he) client event ?path error stdin \<noteq> None"
    unfolding source_decision_iff [of "he_json he", OF payload(1)] using names_source by (simp add: Let_def)
  then obtain d where d: "activation_failure_source_decision (he_json he) client event ?path error stdin = Some d"
    by blast
  have "activation_failure_session_decision he dir args client event payload (hs_gate s) = (Inr None, hs_gate s)" for dir
    using payload(2)
    by (auto simp: activation_failure_session_decision_def classify_activation_failure_main_session_asp_def Let_def
        gate_return_def split: sum.split)
  with client event activation payload d have
    "run_hook he args (Inr stdin) s = (finished he (or_text ''platform'' (flag_value args ''--emit'')) d, s)"
    by (simp add: run_hook_def run_without_activation_def ok_or_def Let_def split: sum.split)
  with source_decision_denies [OF d] show ?thesis by blast
qed

lemma run_hook_steps: "registry_steps (hs_gate s) (hs_gate (snd (run_hook he args input s)))"
proof -
  have active: "registry_steps g (snd (active_hook he root path client event runtime lc payload events g))"
    for root path client event runtime lc payload events g
    using active_hook_stays by (simp add: stays_in_def)
  have "registry_steps (hs_gate s) (hs_gate (snd (run_with_activation he args client event emit path runtime stdin s)))"
    for client event emit path runtime stdin
    by (auto simp: run_with_activation_def recorded_and_finished_def steps.refl Let_def
        split: option.split sum.split prod.split) (metis active snd_conv)+
  moreover have "registry_steps (hs_gate s) (hs_gate (snd (run_without_activation he args client event emit path error stdin s)))"
    for client event emit path error stdin
    by (auto simp: run_without_activation_def recorded_and_finished_def steps.refl Let_def
        split: option.split sum.split prod.split) (metis without_activation_stays snd_conv)+
  ultimately show ?thesis
    by (auto simp: run_hook_def steps.refl Let_def split: sum.split prod.split)
qed


text \<open>So a registry with unique keys keeps them.\<close>

lemma run_hook_keeps_unique_keys:
  assumes "unique_keys (rows_of (gs_registry (hs_gate s)))"
  shows "unique_keys (rows_of (gs_registry (hs_gate (snd (run_hook he args input s)))))"
  using registry_steps_unique [OF run_hook_steps [of s he args input, unfolded registry_steps_def] assms] .

subsection \<open>The bytes of the payload\<close>

text \<open>The bytes that the outcomes carry.\<close>

fun chunk_of :: "read_outcome \<Rightarrow> string" where
  "chunk_of (ReadBytes chunk) = chunk"
| "chunk_of outcome = []"

definition read_bytes :: "(nat \<times> read_outcome) list \<Rightarrow> string" where
  "read_bytes schedule = concat (map (chunk_of \<circ> snd) schedule)"

text \<open>The time of the last outcome that carried bytes.\<close>

definition last_byte_time :: "nat option \<Rightarrow> (nat \<times> read_outcome) list \<Rightarrow> nat option" where
  "last_byte_time = foldl (\<lambda>acc (now, outcome). if chunk_of outcome = [] then acc else Some now)"

lemma read_bytes_simps [simp]:
  "read_bytes [] = []" "read_bytes ((now, outcome) # rest) = chunk_of outcome @ read_bytes rest"
  by (simp_all add: read_bytes_def)

lemma last_byte_time_simps [simp]:
  "last_byte_time acc [] = acc"
  "last_byte_time acc ((now, outcome) # rest) = last_byte_time (if chunk_of outcome = [] then acc else Some now) rest"
  by (simp_all add: last_byte_time_def)

text \<open>What ends the reading: the end of the input, or a pause that is too long.\<close>

definition ends_reading :: "nat option \<Rightarrow> nat \<times> read_outcome \<Rightarrow> bool" where
  "ends_reading last_read o1 \<longleftrightarrow>
     snd o1 = ReadEof \<or> snd o1 = ReadBytes [] \<or> snd o1 = WouldBlock \<and> stdin_read_deadline_elapsed last_read (fst o1)"

definition goes_on :: "nat option \<Rightarrow> nat \<times> read_outcome \<Rightarrow> bool" where
  "goes_on last_read o1 \<longleftrightarrow>
     (\<exists>chunk. snd o1 = ReadBytes chunk \<and> chunk \<noteq> []) \<or> snd o1 = ReadInterrupted
     \<or> snd o1 = WouldBlock \<and> \<not> stdin_read_deadline_elapsed last_read (fst o1)"

fun all_go_on :: "nat option \<Rightarrow> (nat \<times> read_outcome) list \<Rightarrow> bool" where
  "all_go_on last_read [] \<longleftrightarrow> True"
| "all_go_on last_read (o1 # rest) \<longleftrightarrow>
     goes_on last_read o1 \<and> all_go_on (last_byte_time last_read [o1]) rest"

lemma split_Cons_ex:
  "(\<exists>before o1 rest. x # xs = before @ o1 # rest \<and> P before o1) \<longleftrightarrow>
     P [] x \<or> (\<exists>before o1 rest. xs = before @ o1 # rest \<and> P (x # before) o1)" (is "?l \<longleftrightarrow> ?r")
proof
  assume ?l
  then obtain before o1 rest where split: "x # xs = before @ o1 # rest" and p: "P before o1" by blast
  show ?r using split p by (cases before) auto
next
  assume ?r
  then show ?l by (metis append_Cons append_Nil)
qed

definition read_to :: "string \<Rightarrow> nat option \<Rightarrow> string \<Rightarrow> (nat \<times> read_outcome) list \<Rightarrow> nat \<times> read_outcome \<Rightarrow> bool" where
  "read_to bytes last_read result before o1 \<longleftrightarrow>
     all_go_on last_read before \<and> ends_reading (last_byte_time last_read before) o1
     \<and> result = bytes @ read_bytes before \<and> (read_bytes before \<noteq> [] \<longrightarrow> length result \<le> stdin_max_bytes)"

lemma read_to_Nil: "read_to bytes last_read result [] o1 \<longleftrightarrow> ends_reading last_read o1 \<and> result = bytes"
  by (auto simp: read_to_def)

lemma read_to_Cons:
  "read_to bytes last_read result (x # before) o1 \<longleftrightarrow>
     goes_on last_read x \<and> (chunk_of (snd x) \<noteq> [] \<longrightarrow> length bytes + length (chunk_of (snd x)) \<le> stdin_max_bytes)
     \<and> read_to (bytes @ chunk_of (snd x)) (last_byte_time last_read [x]) result before o1"
  by (cases x) (auto simp: read_to_def)

lemma stdin_loop_reads:
  "stdin_loop bytes last_read schedule = Some (Inr result) \<longleftrightarrow>
     (\<exists>before o1 rest. schedule = before @ o1 # rest \<and> read_to bytes last_read result before o1)"
proof (induction schedule arbitrary: bytes last_read)
  case Nil
  then show ?case by simp
next
  case (Cons x xs)
  obtain now outcome where x: "x = (now, outcome)" by (cases x)
  show ?case unfolding split_Cons_ex read_to_Nil read_to_Cons x
    by (cases outcome) (auto simp: Cons.IH ends_reading_def goes_on_def)
qed

text \<open>
  C29: The payload of a run is exactly what arrives before the end of the input or before the first pause that is too
  long (50 ms before the first byte, 10 ms after any byte), it is valid UTF-8 and at most 1 MiB long; a reader that
  is interrupted or has to wait a little goes on.
\<close>

theorem stdin_payload_is_first_burst:
  "read_hook_stdin_bounded schedule = Some (Inr payload) \<longleftrightarrow>
     (\<exists>before o1 rest. schedule = before @ o1 # rest \<and> all_go_on None before
        \<and> ends_reading (last_byte_time None before) o1
        \<and> payload = read_bytes before \<and> length payload \<le> stdin_max_bytes \<and> utf8_valid payload)"
proof -
  have "read_hook_stdin_bounded schedule = Some (Inr payload) \<longleftrightarrow>
      stdin_loop [] None schedule = Some (Inr payload) \<and> utf8_valid payload"
    by (auto simp: read_hook_stdin_bounded_def result_bind_Inr split: if_splits)
  moreover have "read_to [] None payload before o1 \<longleftrightarrow>
      all_go_on None before \<and> ends_reading (last_byte_time None before) o1 \<and> payload = read_bytes before
      \<and> length payload \<le> stdin_max_bytes" for before o1
    by (auto simp: read_to_def)
  ultimately show ?thesis unfolding stdin_loop_reads by blast
qed

text \<open>A payload that is written with a pause of ten milliseconds is cut there, and the rest is never read.\<close>

lemma paused_payload_is_cut:
  "read_hook_stdin_bounded [(0, ReadBytes ''{''), (10, WouldBlock), (11, ReadBytes ''}''), (11, ReadEof)] = Some (Inr ''{'')"
proof -
  have "utf8_valid ''{''" by code_simp
  then show ?thesis
    by (simp add: read_hook_stdin_bounded_def stdin_max_bytes_def stdin_read_deadline_elapsed_def
        stdin_idle_timeout_def)
qed

text \<open>What does not parse is answered with an allowed tool use, and nothing is recorded.\<close>

lemma unparsed_payload_allows:
  assumes "he_json he stdin = None"
  shows "run_with_activation he args client event emit path runtime stdin s =
      (finished he emit (runtime_failure_decision client event (''invalid hook payload JSON: '' @ he_json_error he stdin)), s)"
    and "d_decision (runtime_failure_decision client event message) = Allow"
  using assms by (simp_all add: run_with_activation_def hook_failure_def runtime_failure_decision_def new_decision_def Let_def)

text \<open>A drift on record lifts every denial that carries its root, whatever the denial is about.\<close>

lemma drift_lifts_any_denial:
  assumes "drift_root env d = Some root" and "latest_subagent_runtime_drift jp events root = Inr (Some ob)"
    and "d_decision d = Deny"
  shows "\<exists>d'. soften_drifted_resident_route jp env events d = Inr d' \<and> d_decision d' = Allow"
  using assms by (simp add: soften_drifted_resident_route_def softened_decision_def)

text \<open>Two absent ids count as the same id of a child.\<close>

lemma absent_ids_prove_a_child:
  assumes "string_field [''agent_id'', ''agentId''] payload = None"
    and "non_empty_session_env (sh_env sh) ''CODEX_THREAD_ID'' = None"
    and "string_field [''agent_type'', ''agentType''] payload = Some (sp_resident_agent_role p)"
  shows "current_session_resident_child_identity_proof jp sh file root p payload = (Inr (Some CodexHookPayload), file)"
  using assms by (simp add: current_session_resident_child_identity_proof_def)

text \<open>An output that is not supported is noticed after the event was recorded.\<close>

lemma unsupported_output_after_recording:
  assumes "emit \<noteq> ''decision''" and "emit \<noteq> ''platform''"
  shows "recorded_and_finished he emit d s =
    (HookError (GateError (''unsupported --emit value: '' @ emit @ ''; expected platform or decision'')),
     s\<lparr>hs_events := record_event he d (hs_events s)\<rparr>)"
  using assms by (simp add: recorded_and_finished_def finished_def emit_decision_def output_value_def)

subsection \<open>A concrete run\<close>

definition demo_payload_parser :: json_parser where
  "demo_payload_parser input = (if input = ''p'' then Some demo_read_payload else None)"

definition demo_hook_env :: hook_env where
  "demo_hook_env =
     \<lparr>he_parse = one_word_grammar, he_json = demo_payload_parser, he_json_error = (\<lambda>_. ''invalid''),
     
      he_print = (\<lambda>_. None), he_value_text = (\<lambda>_. []), he_glob = literal_glob, he_sha = id, he_host = demo_host,
      he_sessions = demo_session_host, he_create = Inr (), he_org_world = demo_org_world [],
      he_org_caches = no_org_caches, he_libs = demo_libraries, he_decode = (\<lambda>_. Inl ''no decoder''),
      he_decode_project = (\<lambda>_. Inl ''no decoder''), he_config_error_text = (\<lambda>_. ''invalid''), he_built_in = [],
      he_file = (\<lambda>_. None), he_project_file = (\<lambda>_. None), he_sync = Inl ''offline'', he_synced_file = (\<lambda>_. None),
      he_codex_sync = (\<lambda>_. Inr None), he_load_activation = (\<lambda>_. Inl ''absent''),
      he_default_activation = ''activation.json'', he_default_config = ''config.toml''\<rparr>"

definition demo_loaded :: loaded_config where
  "demo_loaded =
     \<lparr>lc_config = default_client_hook_config, lc_policy = demo_policy, lc_errors = [], lc_reasons = [],
      lc_auto_sync = None\<rparr>"

definition demo_gate_state :: gate_state where
  "demo_gate_state =
     \<lparr>gs_registry = Some [demo_bound_row],
      gs_observations = \<lparr>os_typed_spawn = (\<lambda>_. None), os_resident_target = (\<lambda>_. None)\<rparr>\<rparr>"

definition demo_hook_state :: hook_state where
  "demo_hook_state = \<lparr>hs_gate = demo_gate_state, hs_events = NoStateFile\<rparr>"

lemma demo_no_drift: "\<not> lifted_by_drift demo_hook_env NoStateFile"
  by (simp add: lifted_by_drift_def latest_subagent_runtime_drift_def latest_subagent_runtime_rebind_observation_def)

lemma demo_payload_fields:
  "string_field [''agent_type'', ''agentType''] demo_read_payload = None"
  "json_get_any_str [''transcript_path'', ''transcriptPath''] demo_read_payload = None"
  "payload_command_strings demo_read_payload = []"
  by code_simp+

lemma demo_no_session: "runtime_session_of demo_session_host = None"
  by code_simp

lemma demo_no_proof: "\<not> lifted_by_proof demo_hook_env root p demo_read_payload"
  by (simp add: lifted_by_proof_def current_session_resident_child_identity_proof_def demo_payload_fields
      codex_transcript_resident_child_identity_proof_def current_resident_child_identity_proof_def
      demo_hook_env_def demo_no_session)


lemma demo_env [simp]:
  "he_parse demo_hook_env = one_word_grammar" "he_json demo_hook_env = demo_payload_parser"
  "he_host demo_hook_env = demo_host" "he_glob demo_hook_env = literal_glob"
  by (simp_all add: demo_hook_env_def)

lemma demo_hook_actions:
  "payload_write_intent one_word_grammar demo_payload_parser demo_read_payload = Inr None"
  "case collect_payload_tool_actions one_word_grammar demo_payload_parser demo_read_payload of
     Inr [a] \<Rightarrow> t_operation a = OpDirectRead \<and> t_command a = None \<and> t_command_tokens a = None
       \<and> t_paths a = [''crates/a/src/lib.rs'']
   | _ \<Rightarrow> False"
  by code_simp+


theorem reads_fail_closed_without_activation_witness:
  "\<exists>d. run_hook demo_hook_env [''--client'', ''codex'', ''pre-tool''] (Inr ''p'') demo_hook_state =
       (finished demo_hook_env ''platform'' d, demo_hook_state)
     \<and> d_decision d = Deny"
proof -
  have parsed: "flag_value [''--client'', ''codex'', ''pre-tool''] ''--client'' = Some ''codex''"
    "ensure_supported_client ''codex'' = Inr ()" "first_positional [''--client'', ''codex'', ''pre-tool''] = Some ''pre-tool''"
    "flag_value [''--client'', ''codex'', ''pre-tool''] ''--emit'' = None"
    "list_ex is_source_path (collect_source_like_values
       (case json_get_any [''tool_input'', ''toolInput'', ''input''] demo_read_payload of
          Some v \<Rightarrow> v | None \<Rightarrow> demo_read_payload))"
    by code_simp+
  have "he_load_activation demo_hook_env path = Inl ''absent''" "he_json demo_hook_env ''p'' = Some demo_read_payload" for path
    by (simp_all add: demo_hook_env_def demo_payload_parser_def)
  from reads_fail_closed_without_activation [OF parsed(1-3) this demo_payload_fields(3) parsed(5), of demo_hook_state] parsed(4)
  show ?thesis by (simp add: or_text_def)
qed

end
