(* ===== verification/StableSort.thy ===== *)
theory StableSort
  imports Prelude "HOL-Library.Multiset"
begin

section \<open>Comparators and the stable sort of slices\<close>

text \<open>
  \<open>Ordering\<close>, \<open>Ord::cmp\<close>, \<open>then_with\<close> and the stable \<open>slice::sort_by\<close> of the Rust
  library, which the rankers of the search crate are built from.  The locale \<open>comparator\<close> is the
  contract that \<open>sort_by\<close> asks of its closure (a total preorder on the values of the slice); inside
  it the result is proved to be the stable sorted permutation, and to be the only one.
\<close>

subsection \<open>Orderings\<close>

datatype ordering = Is_Less | Is_Equal | Is_Greater

primrec reverse_ordering :: "ordering \<Rightarrow> ordering" where
  "reverse_ordering Is_Less = Is_Greater"
| "reverse_ordering Is_Equal = Is_Equal"
| "reverse_ordering Is_Greater = Is_Less"

primrec then_with :: "ordering \<Rightarrow> ordering \<Rightarrow> ordering" where
  "then_with Is_Less o2 = Is_Less"
| "then_with Is_Equal o2 = o2"
| "then_with Is_Greater o2 = Is_Greater"

definition cmp :: "'a::linorder \<Rightarrow> 'a \<Rightarrow> ordering" where
  "cmp x y = (if x < y then Is_Less else if x = y then Is_Equal else Is_Greater)"

lemma reverse_reverse_ordering [simp]: "reverse_ordering (reverse_ordering r) = r"
  by (cases r) simp_all

lemma reverse_ordering_iff [simp]:
  "reverse_ordering r = Is_Less \<longleftrightarrow> r = Is_Greater"
  "reverse_ordering r = Is_Equal \<longleftrightarrow> r = Is_Equal"
  "reverse_ordering r = Is_Greater \<longleftrightarrow> r = Is_Less"
  by (cases r; simp)+

lemma reverse_then_with:
  "reverse_ordering (then_with a b) = then_with (reverse_ordering a) (reverse_ordering b)"
  by (cases a) simp_all

lemma then_with_iff [simp]:
  "then_with a b = Is_Equal \<longleftrightarrow> a = Is_Equal \<and> b = Is_Equal"
  "then_with a b = Is_Greater \<longleftrightarrow> a = Is_Greater \<or> a = Is_Equal \<and> b = Is_Greater"
  "then_with a b = Is_Less \<longleftrightarrow> a = Is_Less \<or> a = Is_Equal \<and> b = Is_Less"
  by (cases a; simp)+

lemma cmp_iff [simp]:
  "cmp x y = Is_Less \<longleftrightarrow> x < y"
  "cmp x y = Is_Equal \<longleftrightarrow> x = y"
  "cmp x y = Is_Greater \<longleftrightarrow> y < x"
  by (auto simp: cmp_def)

subsection \<open>The stable sort\<close>

fun insert_by :: "('a \<Rightarrow> 'a \<Rightarrow> ordering) \<Rightarrow> 'a \<Rightarrow> 'a list \<Rightarrow> 'a list" where
  "insert_by c x [] = [x]"
| "insert_by c x (y # ys) = (if c x y = Is_Greater then y # insert_by c x ys else x # y # ys)"

definition sort_by :: "('a \<Rightarrow> 'a \<Rightarrow> ordering) \<Rightarrow> 'a list \<Rightarrow> 'a list" where
  "sort_by c xs = foldr (insert_by c) xs []"

lemma sort_by_simps [simp]:
  "sort_by c [] = []" "sort_by c (x # xs) = insert_by c x (sort_by c xs)"
  by (simp_all add: sort_by_def)

lemma mset_insert_by [simp]: "mset (insert_by c x ys) = add_mset x (mset ys)"
  by (induction ys) auto

lemma mset_sort_by [simp]: "mset (sort_by c xs) = mset xs"
  by (induction xs) simp_all

lemma set_insert_by [simp]: "set (insert_by c x ys) = insert x (set ys)"
  by (metis mset_insert_by set_mset_add_mset_insert set_mset_mset)

lemma set_sort_by [simp]: "set (sort_by c xs) = set xs"
  by (metis mset_sort_by set_mset_mset)

lemma length_sort_by [simp]: "length (sort_by c xs) = length xs"
  by (metis mset_sort_by size_mset)

subsection \<open>The contract of a comparator\<close>

locale comparator =
  fixes c :: "'a \<Rightarrow> 'a \<Rightarrow> ordering" and good :: "'a \<Rightarrow> bool"
  assumes flip: "good x \<Longrightarrow> good y \<Longrightarrow> c y x = reverse_ordering (c x y)"
    and trans: "good x \<Longrightarrow> good y \<Longrightarrow> good z \<Longrightarrow>
      c x y \<noteq> Is_Greater \<Longrightarrow> c y z \<noteq> Is_Greater \<Longrightarrow> c x z \<noteq> Is_Greater"
begin

definition before :: "'a \<Rightarrow> 'a \<Rightarrow> bool" where
  "before x y \<longleftrightarrow> c x y \<noteq> Is_Greater"

lemma before_total: "good x \<Longrightarrow> good y \<Longrightarrow> before x y \<or> before y x"
  using flip [of x y] by (auto simp: before_def)

lemma before_trans: "good x \<Longrightarrow> good y \<Longrightarrow> good z \<Longrightarrow> before x y \<Longrightarrow> before y z \<Longrightarrow> before x z"
  unfolding before_def by (rule trans)

lemma equal_iff: "good x \<Longrightarrow> good y \<Longrightarrow> c x y = Is_Equal \<longleftrightarrow> before x y \<and> before y x"
  using flip [of x y] by (cases "c x y") (auto simp: before_def)

lemma insert_by_sorted:
  "good x \<Longrightarrow> list_all good ys \<Longrightarrow> sorted_wrt before ys \<Longrightarrow> sorted_wrt before (insert_by c x ys)"
proof (induction ys)
  case (Cons y ys)
  show ?case
  proof (cases "c x y = Is_Greater")
    case True
    then have "before y x" using before_total [of x y] Cons.prems by (auto simp: before_def)
    then show ?thesis using True Cons by auto
  next
    case False
    then have xy: "before x y" by (simp add: before_def)
    have "before x z" if "z \<in> set ys" for z
      using before_trans [of x y z] xy that Cons.prems by (auto simp: list_all_iff)
    then show ?thesis using False xy Cons.prems by simp
  qed
qed simp

lemma sort_by_sorted: "list_all good xs \<Longrightarrow> sorted_wrt before (sort_by c xs)"
proof (induction xs)
  case (Cons x xs)
  then have "list_all good (sort_by c xs)" by (simp add: list_all_iff)
  with Cons show ?case by (simp add: insert_by_sorted)
qed simp

lemma insert_by_stable:
  "good z \<Longrightarrow> good x \<Longrightarrow> list_all good ys \<Longrightarrow> sorted_wrt before ys \<Longrightarrow>
   filter (\<lambda>y. c z y = Is_Equal) (insert_by c x ys) = filter (\<lambda>y. c z y = Is_Equal) (x # ys)"
proof (induction ys)
  case (Cons y ys)
  show ?case
  proof (cases "c x y = Is_Greater")
    case True
    have "\<not> (c z x = Is_Equal \<and> c z y = Is_Equal)"
    proof
      assume eq: "c z x = Is_Equal \<and> c z y = Is_Equal"
      have "c x z \<noteq> Is_Greater" using eq flip [of z x] Cons.prems by simp
      then have "c x y \<noteq> Is_Greater" using eq trans [of x z y] Cons.prems by simp
      with True show False by simp
    qed
    then show ?thesis using True Cons by auto
  qed simp
qed simp

lemma sort_by_stable:
  "good z \<Longrightarrow> list_all good xs \<Longrightarrow>
   filter (\<lambda>y. c z y = Is_Equal) (sort_by c xs) = filter (\<lambda>y. c z y = Is_Equal) xs"
proof (induction xs)
  case (Cons x xs)
  then have "list_all good (sort_by c xs)" "sorted_wrt before (sort_by c xs)"
    by (simp_all add: list_all_iff sort_by_sorted)
  with Cons show ?case using insert_by_stable [of z x "sort_by c xs"] by simp
qed simp

lemma insert_by_first:
  "good x \<Longrightarrow> list_all good ys \<Longrightarrow> (\<And>y. y \<in> set ys \<Longrightarrow> before x y) \<Longrightarrow> insert_by c x ys = x # ys"
  by (cases ys) (auto simp: before_def)

lemma sort_by_sorted_id: "list_all good xs \<Longrightarrow> sorted_wrt before xs \<Longrightarrow> sort_by c xs = xs"
proof (induction xs)
  case (Cons x xs)
  then show ?case by (simp add: insert_by_first)
qed simp

end

subsection \<open>Comparators that the closures are built from\<close>

lemma comparator_key: "comparator (\<lambda>x y. cmp (f x) (f y)) good"
  by unfold_locales (auto simp: cmp_def split: if_splits)

lemma comparator_reverse:
  assumes "comparator c good" shows "comparator (\<lambda>x y. c y x) good"
proof
  fix x y assume "good x" "good y"
  then show "c x y = reverse_ordering (c y x)"
    using comparator.flip [OF assms, of y x] by blast
next
  fix x y z assume "good x" "good y" "good z" "c y x \<noteq> Is_Greater" "c z y \<noteq> Is_Greater"
  then show "c z x \<noteq> Is_Greater" using comparator.trans [OF assms, of z y x] by blast
qed

lemma comparator_then_with:
  assumes c: "comparator c good" and d: "comparator d good"
  shows "comparator (\<lambda>x y. then_with (c x y) (d x y)) good"
proof
  fix x y assume "good x" "good y"
  then show "then_with (c y x) (d y x) = reverse_ordering (then_with (c x y) (d x y))"
    by (simp add: reverse_then_with comparator.flip [OF c, of x y] comparator.flip [OF d, of x y])
next
  fix x y z assume g: "good x" "good y" "good z"
    and xy: "then_with (c x y) (d x y) \<noteq> Is_Greater" and yz: "then_with (c y z) (d y z) \<noteq> Is_Greater"
  have cxy: "c x y \<noteq> Is_Greater" and cyz: "c y z \<noteq> Is_Greater" using xy yz by simp_all
  then have cxz: "c x z \<noteq> Is_Greater" using comparator.trans [OF c] g by blast
  show "then_with (c x z) (d x z) \<noteq> Is_Greater"
  proof (cases "c x z = Is_Equal")
    case True
    then have zx: "c z x \<noteq> Is_Greater" using comparator.flip [OF c g(1) g(3)] by simp
    have "c y x \<noteq> Is_Greater" using comparator.trans [OF c g(2) g(3) g(1) cyz zx] .
    moreover have "c z y \<noteq> Is_Greater" using comparator.trans [OF c g(3) g(1) g(2) zx cxy] .
    ultimately have "c x y = Is_Equal" "c y z = Is_Equal"
      using cxy cyz comparator.flip [OF c g(1) g(2)] comparator.flip [OF c g(2) g(3)]
      by (metis ordering.exhaust reverse_ordering.simps(1))+
    then have "d x z \<noteq> Is_Greater" using xy yz comparator.trans [OF d g] by simp
    then show ?thesis using True by simp
  qed (use cxz in simp)
qed

lemma comparator_weaken:
  assumes "comparator c good" and "\<And>x. better x \<Longrightarrow> good x" shows "comparator c better"
proof
  fix x y assume "better x" "better y"
  then show "c y x = reverse_ordering (c x y)" using comparator.flip [OF assms(1)] assms(2) by blast
next
  fix x y z assume "better x" "better y" "better z" "c x y \<noteq> Is_Greater" "c y z \<noteq> Is_Greater"
  then show "c x z \<noteq> Is_Greater" using comparator.trans [OF assms(1), of x y z] assms(2) by blast
qed

lemmas comparator_intros = comparator_then_with comparator_key comparator_reverse [OF comparator_key]

interpretation natural: comparator cmp "\<lambda>_. True"
  by (rule comparator_key)
subsection \<open>Sorting with tie breakers and through projections\<close>

text \<open>A tie breaker that the slice already respects changes nothing, because the sort is stable.\<close>

lemma insert_by_tie:
  "(\<And>y. y \<in> set ys \<Longrightarrow> d x y \<noteq> Is_Greater) \<Longrightarrow>
   insert_by (\<lambda>x y. then_with (c x y) (d x y)) x ys = insert_by c x ys"
  by (induction ys) auto

lemma sort_by_tie:
  "sorted_wrt (\<lambda>x y. d x y \<noteq> Is_Greater) xs \<Longrightarrow>
   sort_by (\<lambda>x y. then_with (c x y) (d x y)) xs = sort_by c xs"
proof (induction xs)
  case (Cons x xs)
  then have "insert_by (\<lambda>x y. then_with (c x y) (d x y)) x (sort_by c xs) = insert_by c x (sort_by c xs)"
    by (intro insert_by_tie) simp
  with Cons show ?case by simp
qed simp

lemma insert_by_map: "insert_by c (f x) (map f ys) = map f (insert_by (\<lambda>x y. c (f x) (f y)) x ys)"
  by (induction ys) auto

lemma sort_by_map: "sort_by c (map f xs) = map f (sort_by (\<lambda>x y. c (f x) (f y)) xs)"
  by (induction xs) (simp_all add: insert_by_map)

lemma map_snd_enumerate [simp]: "map snd (enumerate n xs) = xs"
  by (simp add: enumerate_eq_zip)

lemma enumerate_ascending: "sorted_wrt (\<lambda>x y. fst x < fst y) (enumerate n xs)"
  by (induction xs arbitrary: n) (auto simp: in_set_enumerate_eq)

text \<open>The shape in which the rankers state their result.\<close>

definition stable_ranking :: "('a \<Rightarrow> 'a \<Rightarrow> ordering) \<Rightarrow> 'a list \<Rightarrow> 'a list \<Rightarrow> bool" where
  "stable_ranking c xs ys \<longleftrightarrow>
     mset ys = mset xs \<and> sorted_wrt (\<lambda>x y. c x y \<noteq> Is_Greater) ys
     \<and> (\<forall>z \<in> set xs. filter (\<lambda>y. c z y = Is_Equal) ys = filter (\<lambda>y. c z y = Is_Equal) xs)"

text \<open>There is only one such arrangement: two stable rankings of the same slice are equal.\<close>

context comparator
begin

lemma stable_ranking_sort_by: "list_all good xs \<Longrightarrow> stable_ranking c xs (sort_by c xs)"
  using sort_by_sorted [of xs]
  by (auto simp: stable_ranking_def before_def [abs_def] sort_by_stable list_all_iff)

lemma stable_ranking_unique:
  assumes "list_all good xs" and "stable_ranking c xs ys" and "stable_ranking c xs zs"
  shows "ys = zs"
proof -
  have "ys = zs"
    if "mset ys = mset zs" "list_all good ys" "sorted_wrt before ys" "sorted_wrt before zs"
      "\<forall>z \<in> set ys. filter (\<lambda>y. c z y = Is_Equal) ys = filter (\<lambda>y. c z y = Is_Equal) zs" for ys zs
    using that
  proof (induction ys arbitrary: zs)
    case (Cons y ys)
    obtain z zs' where zs: "zs = z # zs'" using Cons.prems(1) by (cases zs) auto
    have sets: "insert y (set ys) = insert z (set zs')"
      using Cons.prems(1) zs by (metis list.simps(15) mset_eq_setD)
    have good: "good y" "good z" "list_all good ys" using Cons.prems(2) sets by (auto simp: list_all_iff)
    have refl: "c x x = Is_Equal" if "good x" for x using flip [OF that that] by (cases "c x x") auto
    have "y = z \<or> z \<in> set ys" "z = y \<or> y \<in> set zs'" using sets by auto
    then have "before y z" "before z y"
      using Cons.prems(3,4) zs refl [OF good(1)] by (auto simp: before_def)
    then have yz: "c y z = Is_Equal" using equal_iff good by blast
    have "filter (\<lambda>x. c y x = Is_Equal) (y # ys) = filter (\<lambda>x. c y x = Is_Equal) (z # zs')"
      using Cons.prems(5) zs by simp
    then have eq: "y = z" using yz refl [OF good(1)] by simp
    have "filter (\<lambda>x. c w x = Is_Equal) ys = filter (\<lambda>x. c w x = Is_Equal) zs'" if "w \<in> set ys" for w
    proof -
      have "filter (\<lambda>x. c w x = Is_Equal) (y # ys) = filter (\<lambda>x. c w x = Is_Equal) (z # zs')"
        using Cons.prems(5) zs that by simp
      then show ?thesis using eq by (auto split: if_splits)
    qed
    then have "ys = zs'" using Cons.IH [of zs'] Cons.prems zs eq good by simp
    then show ?case using zs eq by simp
  qed simp
  moreover have "mset ys = mset zs" "set ys = set xs"
    using assms(2,3) by (auto simp: stable_ranking_def dest: mset_eq_setD)
  moreover have "sorted_wrt before ys" "sorted_wrt before zs"
    using assms(2,3) by (simp_all add: stable_ranking_def before_def [abs_def])
  moreover have "filter (\<lambda>y. c z y = Is_Equal) ys = filter (\<lambda>y. c z y = Is_Equal) zs" if "z \<in> set xs" for z
    using assms(2,3) that by (simp add: stable_ranking_def)
  ultimately show ?thesis using assms(1) by (simp add: list_all_iff)
qed

lemma stable_ranking_iff: "list_all good xs \<Longrightarrow> stable_ranking c xs ys \<longleftrightarrow> ys = sort_by c xs"
  using stable_ranking_sort_by stable_ranking_unique by blast

end

text \<open>
  When only identical values compare equal, the result depends on the slice as a multiset only: in whatever order a hash
  map hands out its values, sorting them gives the same vector.
\<close>

context comparator
begin

lemma sort_by_mset:
  assumes "list_all good xs" and "mset xs = mset ys"
    and antisym: "\<And>x y. x \<in> set xs \<Longrightarrow> y \<in> set xs \<Longrightarrow> c x y = Is_Equal \<Longrightarrow> x = y"
  shows "sort_by c xs = sort_by c ys"
proof -
  have sets: "set ys = set xs" using assms(2) by (metis mset_eq_setD)
  then have good: "list_all good ys" using assms(1) by (simp add: list_all_iff)
  have "filter (\<lambda>y. c z y = Is_Equal) (sort_by c ys) = filter (\<lambda>y. c z y = Is_Equal) xs" if z: "z \<in> set xs" for z
  proof -
    have gz: "good z" using z assms(1) by (simp add: list_all_iff)
    have refl: "c z z = Is_Equal" using flip [OF gz gz] by (cases "c z z") auto
    have rep: "filter (\<lambda>y. c z y = Is_Equal) zs = replicate (count (mset zs) z) z" if "set zs \<subseteq> set xs" for zs
    proof -
      have "filter (\<lambda>y. c z y = Is_Equal) zs = filter (\<lambda>y. z = y) zs"
        using that antisym [OF z] refl by (intro filter_cong) auto
      also have "\<dots> = replicate (count (mset zs) z) z"
        by (induction zs) auto
      finally show ?thesis .
    qed
    show ?thesis using rep [of "sort_by c ys"] rep [of xs] sets assms(2) by simp
  qed
  moreover have "sorted_wrt (\<lambda>x y. c x y \<noteq> Is_Greater) (sort_by c ys)"
    using sort_by_sorted [OF good] by (simp add: before_def [abs_def])
  ultimately have "stable_ranking c xs (sort_by c ys)" using assms(2) by (simp add: stable_ranking_def)
  then show ?thesis using stable_ranking_iff [OF assms(1)] by simp
qed

end

end
