(* ===== verification/SearchRank.thy ===== *)
theory SearchRank
  imports StableSort "HOL-Library.Word"
begin

section \<open>Ranking of source-index candidates\<close>

text \<open>
  Models \<open>crates/agent-semantic-search/src/source_index_rank.rs\<close>: the terms of a lookup, the score
  of a candidate (sixteen-bit counters whose weighted sum wraps as in a release build), the ranked report and
  the reordering of a client's own vector.
\<close>

subsection \<open>Terms of a lookup\<close>

definition is_lookup_char :: "char \<Rightarrow> bool" where
  "is_lookup_char c \<longleftrightarrow> c = CHR ''_'' \<or> c = CHR ''-'' \<or> c = CHR '':'' \<or> c = CHR ''/'' \<or> is_ascii_alphanumeric c"

definition backslash_to_slash :: "string \<Rightarrow> string" where
  "backslash_to_slash s = map (\<lambda>c. if c = CHR 0x5C then CHR ''/'' else c) s"

definition nonempty :: "string list \<Rightarrow> string list" where
  "nonempty parts = filter (\<lambda>part. part \<noteq> []) parts"

definition stem_index :: "string \<Rightarrow> nat option" where
  "stem_index basename =
     (case rposition (\<lambda>c. c = CHR ''.'') basename of
        Some i \<Rightarrow> if 0 < i then Some i else None
      | None \<Rightarrow> None)"

text \<open>
  The terms that a \<open>BTreeSet\<close> collects from a path, in insertion order: the tails of the segment list, the
  segments, and stem and extension of the last segment.
\<close>

definition source_index_path_terms :: "string \<Rightarrow> string list" where
  "source_index_path_terms path =
     (let normalized = to_ascii_lowercase (backslash_to_slash (str_trim path));
          segments = nonempty (split_by (\<lambda>c. c = CHR ''/'') normalized)
      in map (\<lambda>start. str_join ''/'' (drop start segments)) [0..<length segments]
         @ segments
         @ (if segments = [] then []
            else (case stem_index (last segments) of
                    None \<Rightarrow> []
                  | Some i \<Rightarrow> [take i (last segments), drop (i + 1) (last segments)])))"

definition source_index_lookup_terms :: "string \<Rightarrow> string list" where
  "source_index_lookup_terms query =
     (let trimmed = str_trim query;
          words = nonempty (map str_trim (split_by (\<lambda>c. \<not> is_lookup_char c) query))
      in sort_dedup
           ((if trimmed = [] then [] else to_ascii_lowercase trimmed # source_index_path_terms trimmed)
            @ map to_ascii_lowercase words))"

subsection \<open>Scores\<close>

record rank_candidate =
  rc_ordinal :: nat
  rc_path :: string
  rc_query_keys :: "string list"

record rank_score =
  rs_total :: "16 word"
  rs_exact_path :: "16 word"
  rs_basename :: "16 word"
  rs_stem :: "16 word"
  rs_suffix :: "16 word"
  rs_term_coverage :: "16 word"
  rs_query_key_coverage :: "16 word"

definition normalize_source_index_rank_path :: "string \<Rightarrow> string" where
  "normalize_source_index_rank_path path =
     (let trimmed = trim_chars (\<lambda>c. c = CHR ''/'') (str_trim path)
      in if list_ex (\<lambda>c. c = CHR 0x5C \<or> is_ascii_uppercase c) trimmed
         then to_ascii_lowercase (backslash_to_slash trimmed) else trimmed)"

definition source_index_rank_query_key_blob :: "string list \<Rightarrow> string" where
  "source_index_rank_query_key_blob query_keys =
     fold (\<lambda>key blob. (if blob = [] then [] else blob @ '' '') @ normalize_source_index_rank_path key)
       query_keys []"

definition source_index_rank_basename :: "string \<Rightarrow> string option" where
  "source_index_rank_basename path =
     find (\<lambda>segment. segment \<noteq> []) (rev (split_by (\<lambda>c. c = CHR ''/'') path))"

definition source_index_rank_stem :: "string \<Rightarrow> string option" where
  "source_index_rank_stem basename = map_option (\<lambda>i. take i basename) (stem_index basename)"

definition source_index_candidate_query_axis_coverage :: "string \<Rightarrow> string \<Rightarrow> string list \<Rightarrow> nat" where
  "source_index_candidate_query_axis_coverage normalized_path query_key_blob terms =
     length (filter (\<lambda>t. t \<noteq> [] \<and> (str_contains normalized_path t \<or> str_contains query_key_blob t)) terms)"

definition source_index_candidate_query_key_coverage :: "string \<Rightarrow> string list \<Rightarrow> nat" where
  "source_index_candidate_query_key_coverage query_key_blob terms =
     length (filter (\<lambda>t. t \<noteq> [] \<and> str_contains query_key_blob t) terms)"

definition source_index_rank_score_from_normalized ::
    "string \<Rightarrow> string \<Rightarrow> string list \<Rightarrow> string \<Rightarrow> rank_score" where
  "source_index_rank_score_from_normalized normalized_path query_key_blob terms normalized_query =
     (let basename = source_index_rank_basename normalized_path;
          stem = Option.bind basename source_index_rank_stem;
          exact_path = of_bool (normalized_query \<noteq> [] \<and> normalized_path = normalized_query);
          basename_score = of_bool (basename = Some normalized_query);
          stem_score = of_bool (stem = Some normalized_query);
          suffix = of_bool (normalized_query \<noteq> [] \<and> ends_with normalized_path normalized_query
                            \<and> normalized_path \<noteq> normalized_query);
          term_coverage =
            of_nat (source_index_candidate_query_axis_coverage normalized_path query_key_blob terms);
          query_key_coverage =
            of_nat (source_index_candidate_query_key_coverage query_key_blob terms)
      in \<lparr> rs_total = exact_path * 1000 + basename_score * 800 + stem_score * 700 + suffix * 600
                      + term_coverage * 25 + query_key_coverage * 10,
           rs_exact_path = exact_path, rs_basename = basename_score, rs_stem = stem_score,
           rs_suffix = suffix, rs_term_coverage = term_coverage,
           rs_query_key_coverage = query_key_coverage \<rparr>)"

text \<open>The derived order of the score: its fields from first to last.\<close>

definition rank_score_cmp :: "rank_score \<Rightarrow> rank_score \<Rightarrow> ordering" where
  "rank_score_cmp a b =
     then_with (cmp (rs_total a) (rs_total b))
    (then_with (cmp (rs_exact_path a) (rs_exact_path b))
    (then_with (cmp (rs_basename a) (rs_basename b))
    (then_with (cmp (rs_stem a) (rs_stem b))
    (then_with (cmp (rs_suffix a) (rs_suffix b))
    (then_with (cmp (rs_term_coverage a) (rs_term_coverage b))
               (cmp (rs_query_key_coverage a) (rs_query_key_coverage b)))))))"

subsection \<open>The ranked report\<close>

record ranked_candidate =
  rk_candidate :: rank_candidate
  rk_score :: rank_score

record rank_report =
  rp_query_terms :: "string list"
  rp_ranked_candidates :: "ranked_candidate list"

text \<open>A prepared candidate is its stable index and the ranked candidate.\<close>

definition source_index_rank_score_of :: "string \<Rightarrow> rank_candidate \<Rightarrow> rank_score" where
  "source_index_rank_score_of query candidate =
     source_index_rank_score_from_normalized
       (normalize_source_index_rank_path (rc_path candidate))
       (source_index_rank_query_key_blob (rc_query_keys candidate))
       (source_index_lookup_terms query) (normalize_source_index_rank_path query)"

definition prepared_candidate_cmp :: "nat \<times> ranked_candidate \<Rightarrow> nat \<times> ranked_candidate \<Rightarrow> ordering" where
  "prepared_candidate_cmp left right =
     then_with (rank_score_cmp (rk_score (snd right)) (rk_score (snd left)))
    (then_with (cmp (fst left) (fst right))
               (cmp (rc_path (rk_candidate (snd left))) (rc_path (rk_candidate (snd right)))))"

definition prepare_candidates :: "string \<Rightarrow> rank_candidate list \<Rightarrow> (nat \<times> ranked_candidate) list" where
  "prepare_candidates query candidates =
     map (\<lambda>(index, candidate). (index, \<lparr> rk_candidate = candidate,
            rk_score = source_index_rank_score_of query candidate \<rparr>))
       (enumerate 0 candidates)"

definition rank_source_index_report :: "string \<Rightarrow> rank_candidate list \<Rightarrow> rank_report" where
  "rank_source_index_report query candidates =
     \<lparr> rp_query_terms = source_index_lookup_terms query,
       rp_ranked_candidates = map snd (sort_by prepared_candidate_cmp (prepare_candidates query candidates)) \<rparr>"

definition rank_source_index_candidates :: "rank_candidate list \<Rightarrow> string \<Rightarrow> rank_candidate list" where
  "rank_source_index_candidates candidates query =
     map rk_candidate (rp_ranked_candidates (rank_source_index_report query candidates))"

text \<open>
  The caller's own vector becomes a vector of \<open>Option\<close> slots; each ranked ordinal takes its slot, and an
  ordinal that is out of range or was taken before yields nothing.
\<close>

fun take_slots :: "'a option list \<Rightarrow> rank_candidate list \<Rightarrow> 'a list" where
  "take_slots slots [] = []"
| "take_slots slots (c # cs) =
     (case get_at slots (rc_ordinal c) of
        Some (Some x) \<Rightarrow> x # take_slots (slots[rc_ordinal c := None]) cs
      | _ \<Rightarrow> take_slots slots cs)"

definition reorder_source_index_candidates ::
    "'a list \<Rightarrow> string \<Rightarrow> ('a \<Rightarrow> string) \<Rightarrow> ('a \<Rightarrow> string list) \<Rightarrow> 'a list" where
  "reorder_source_index_candidates candidates query path query_keys =
     take_slots (map Some candidates)
       (rank_source_index_candidates
          (map (\<lambda>(ordinal, candidate). \<lparr> rc_ordinal = ordinal, rc_path = path candidate,
                  rc_query_keys = query_keys candidate \<rparr>) (enumerate 0 candidates)) query)"
subsection \<open>The ranking is the stable sort by descending score\<close>

lemma comparator_rank_score: "comparator (\<lambda>x y. rank_score_cmp (f y) (f x)) good"
  unfolding rank_score_cmp_def by (intro comparator_intros)

interpretation by_rank_score: comparator "\<lambda>x y. rank_score_cmp y x" "\<lambda>_. True"
  by (rule comparator_rank_score)

interpretation prepared: comparator prepared_candidate_cmp "\<lambda>_. True"
  unfolding prepared_candidate_cmp_def by (intro comparator_intros comparator_rank_score)

abbreviation by_score :: "('a \<Rightarrow> rank_score) \<Rightarrow> 'a \<Rightarrow> 'a \<Rightarrow> ordering" where
  "by_score score x y \<equiv> rank_score_cmp (score y) (score x)"

lemma rank_is_sort_by:
  "rank_source_index_candidates candidates query =
   sort_by (by_score (source_index_rank_score_of query)) candidates"
proof -
  let ?f = "\<lambda>(index :: nat, candidate). (index, \<lparr> rk_candidate = candidate,
              rk_score = source_index_rank_score_of query candidate \<rparr>)"
  let ?es = "enumerate 0 candidates"
  let ?tie = "\<lambda>l r. then_with (cmp (fst l) (fst r))
                 (cmp (rc_path (rk_candidate (snd l))) (rc_path (rk_candidate (snd r))))"
  have "sorted_wrt (\<lambda>x y. ?tie x y \<noteq> Is_Greater) (map ?f ?es)"
    using enumerate_ascending [of 0 candidates] unfolding sorted_wrt_map
    by (rule sorted_wrt_mono_rel [rotated]) auto
  then have "sort_by prepared_candidate_cmp (map ?f ?es) =
      sort_by (by_score (\<lambda>p. rk_score (snd p))) (map ?f ?es)"
    unfolding prepared_candidate_cmp_def [abs_def] by (rule sort_by_tie)
  also have "\<dots> = map ?f (sort_by (by_score (\<lambda>p. source_index_rank_score_of query (snd p))) ?es)"
    by (simp add: sort_by_map split_def)
  finally have "rank_source_index_candidates candidates query =
      map snd (sort_by (by_score (\<lambda>p. source_index_rank_score_of query (snd p))) ?es)"
    by (simp add: rank_source_index_candidates_def rank_source_index_report_def prepare_candidates_def
        split_def)
  also have "\<dots> = sort_by (by_score (source_index_rank_score_of query)) (map snd ?es)"
    by (simp only: sort_by_map)
  finally show ?thesis by simp
qed

subsection \<open>Reordering loses nothing\<close>

lemma take_slots_all:
  assumes "distinct (map rc_ordinal rs)"
    and "\<forall>r \<in> set rs. rc_ordinal r < length slots \<and> slots ! rc_ordinal r = Some (f r)"
  shows "take_slots slots rs = map f rs"
  using assms
proof (induction rs arbitrary: slots)
  case (Cons r rs)
  have "\<forall>q \<in> set rs. rc_ordinal q < length (slots[rc_ordinal r := None])
      \<and> slots[rc_ordinal r := None] ! rc_ordinal q = Some (f q)"
    using Cons.prems by (auto simp: nth_list_update)
  then have "take_slots (slots[rc_ordinal r := None]) rs = map f rs"
    using Cons.IH Cons.prems(1) by simp
  then show ?case using Cons.prems(2) by (simp add: get_at_def)
qed simp

definition candidate_score :: "string \<Rightarrow> ('a \<Rightarrow> string) \<Rightarrow> ('a \<Rightarrow> string list) \<Rightarrow> 'a \<Rightarrow> rank_score" where
  "candidate_score query path query_keys candidate =
     source_index_rank_score_of query
       \<lparr> rc_ordinal = 0, rc_path = path candidate, rc_query_keys = query_keys candidate \<rparr>"

lemma score_ignores_ordinal:
  "source_index_rank_score_of query \<lparr> rc_ordinal = i, rc_path = path x, rc_query_keys = keys x \<rparr> =
   candidate_score query path keys x"
  by (simp add: candidate_score_def source_index_rank_score_of_def)

lemma reorder_is_sort_by:
  "reorder_source_index_candidates candidates query path query_keys =
   sort_by (by_score (candidate_score query path query_keys)) candidates"
proof -
  let ?mk = "\<lambda>(ordinal, candidate). \<lparr> rc_ordinal = ordinal, rc_path = path candidate,
               rc_query_keys = query_keys candidate \<rparr>"
  let ?es = "enumerate 0 candidates"
  let ?ranked = "sort_by (by_score (\<lambda>e. candidate_score query path query_keys (snd e))) ?es"
  have ranked: "rank_source_index_candidates (map ?mk ?es) query = map ?mk ?ranked"
    by (simp add: rank_is_sort_by sort_by_map split_def score_ignores_ordinal)
  have ordinals: "map rc_ordinal (map ?mk ?ranked) = map fst ?ranked" by (simp add: split_def)
  have "mset (map fst ?ranked) = mset (map fst ?es)" by (simp only: mset_map mset_sort_by)
  then have "distinct (map fst ?ranked)"
    by (metis distinct_upt map_fst_enumerate mset_eq_imp_distinct_iff)
  moreover have "\<forall>r \<in> set (map ?mk ?ranked). rc_ordinal r < length (map Some candidates)
      \<and> map Some candidates ! rc_ordinal r = Some (candidates ! rc_ordinal r)"
    by (auto simp: in_set_enumerate_eq)
  ultimately have "take_slots (map Some candidates) (map ?mk ?ranked) =
      map (\<lambda>r. candidates ! rc_ordinal r) (map ?mk ?ranked)"
    by (intro take_slots_all) (simp_all only: ordinals)
  also have "\<dots> = map snd ?ranked" by (auto simp: in_set_enumerate_eq)
  also have "\<dots> = sort_by (by_score (candidate_score query path query_keys)) (map snd ?es)"
    by (simp only: sort_by_map)
  finally show ?thesis by (simp add: reorder_source_index_candidates_def ranked)
qed

text \<open>
  C30: the client's vector is reordered into the one stable arrangement by descending score: no candidate is lost
  or duplicated, a better score comes first, candidates with equal scores keep their order, and the report ranks its
  own candidates the same way.
\<close>

theorem reordering_is_stable_ranking:
  "stable_ranking (by_score (candidate_score query path query_keys)) candidates
     (reorder_source_index_candidates candidates query path query_keys)
   \<and> stable_ranking (by_score (source_index_rank_score_of query)) ranked
       (rank_source_index_candidates ranked query)"
  unfolding reorder_is_sort_by rank_is_sort_by
  by (intro conjI comparator.stable_ranking_sort_by [OF comparator_rank_score [where good = "\<lambda>_. True"]])
     (simp_all add: list_all_iff)

subsection \<open>When the sixteen-bit score is exact\<close>

lemma nonempty_split_by:
  "2 * length (nonempty (split_by P s)) \<le> length s + 1
   \<and> (hd (split_by P s) = [] \<longrightarrow> 2 * length (nonempty (split_by P s)) \<le> length s)"
proof (induction s)
  case (Cons c cs)
  show ?case
  proof (cases "split_by P cs")
    case (Cons x xs)
    then show ?thesis using \<open>_ \<and> _\<close> by (cases x) (auto simp: nonempty_def)
  qed (simp add: nonempty_def)
qed (simp add: nonempty_def)
lemma length_nonempty_split_by: "2 * length (nonempty (split_by P s)) \<le> length s + 1"
  using nonempty_split_by by blast

lemma length_concat_dropWhile: "length (concat (dropWhile P xs)) \<le> length (concat xs)"
  by (induction xs) auto

lemma length_concat_rev: "length (concat (rev xs)) = length (concat xs)"
  by (induction xs) auto

lemma length_str_trim: "length (str_trim s) \<le> length s"
proof -
  have start: "length (trim_start s) \<le> length s" for s
    using length_concat_dropWhile [of is_whitespace "rust_chars s"] by (simp add: trim_start_def)
  have "length (trim_end s) \<le> length s" for s
    using length_concat_dropWhile [of is_whitespace "rev (rust_chars s)"]
    by (simp add: trim_end_def length_concat_rev)
  then show ?thesis using start by (simp add: str_trim_def) (meson le_trans)
qed

lemma str_trim_Nil [simp]: "str_trim [] = []"
  using length_str_trim [of "[]"] by simp

lemma length_nonempty_map: "length (nonempty (map str_trim parts)) \<le> length (nonempty parts)"
  by (induction parts) (auto simp: nonempty_def)

lemma length_source_index_path_terms: "length (source_index_path_terms path) \<le> length path + 3"
proof -
  define normalized where "normalized = to_ascii_lowercase (backslash_to_slash (str_trim path))"
  define segments where "segments = nonempty (split_by (\<lambda>c. c = CHR ''/'') normalized)"
  have "length normalized \<le> length path"
    by (simp add: normalized_def backslash_to_slash_def length_str_trim)
  then have "2 * length segments \<le> length path + 1"
    using length_nonempty_split_by [of "\<lambda>c. c = CHR ''/''" normalized] by (simp add: segments_def)
  then show ?thesis
    by (auto simp: source_index_path_terms_def Let_def simp flip: segments_def normalized_def
        split: option.splits)
qed

lemma length_sort_dedup: "length (sort_dedup xs) \<le> length xs"
  by (metis remdups_adj_length length_sort sort_dedup_def)

lemma length_source_index_lookup_terms:
  "2 * length (source_index_lookup_terms query) \<le> 3 * length query + 9"
proof -
  let ?words = "nonempty (map str_trim (split_by (\<lambda>c. \<not> is_lookup_char c) query))"
  let ?path = "if str_trim query = [] then []
               else to_ascii_lowercase (str_trim query) # source_index_path_terms (str_trim query)"
  have "2 * length ?words \<le> length query + 1"
    using length_nonempty_map [of "split_by (\<lambda>c. \<not> is_lookup_char c) query"]
      length_nonempty_split_by [of "\<lambda>c. \<not> is_lookup_char c" query] by linarith
  moreover have "length ?path \<le> length query + 4"
    using length_source_index_path_terms [of "str_trim query"] length_str_trim [of query] by auto
  moreover have "length (source_index_lookup_terms query) \<le> length ?path + length ?words"
    unfolding source_index_lookup_terms_def Let_def by (rule order_trans [OF length_sort_dedup]) simp
  ultimately show ?thesis by linarith
qed

text \<open>The weighted sum over the natural numbers.\<close>

definition unbounded_total :: "string \<Rightarrow> string \<Rightarrow> string list \<Rightarrow> string \<Rightarrow> nat" where
  "unbounded_total path blob terms q =
     (let basename = source_index_rank_basename path
      in of_bool (q \<noteq> [] \<and> path = q) * 1000 + of_bool (basename = Some q) * 800
         + of_bool (Option.bind basename source_index_rank_stem = Some q) * 700
         + of_bool (q \<noteq> [] \<and> ends_with path q \<and> path \<noteq> q) * 600
         + source_index_candidate_query_axis_coverage path blob terms * 25
         + source_index_candidate_query_key_coverage blob terms * 10)"

lemma rs_total_of_nat:
  "rs_total (source_index_rank_score_from_normalized path blob terms q) =
   of_nat (unbounded_total path blob terms q)"
  by (simp add: source_index_rank_score_from_normalized_def unbounded_total_def Let_def)

lemma coverage_le:
  "source_index_candidate_query_axis_coverage path blob terms \<le> length terms"
  "source_index_candidate_query_key_coverage blob terms \<le> length terms"
  by (simp_all add: source_index_candidate_query_axis_coverage_def
      source_index_candidate_query_key_coverage_def)

lemma weights_le:
  "\<lbrakk>a \<le> 1; b \<le> 1; c \<le> 1; d \<le> 1; x \<le> n; y \<le> n\<rbrakk> \<Longrightarrow>
   a * 1000 + b * 800 + c * 700 + d * 600 + x * 25 + y * 10 \<le> 3100 + 35 * (n :: nat)"
  by linarith

lemma unbounded_total_le: "unbounded_total path blob terms q \<le> 3100 + 35 * length terms"
  unfolding unbounded_total_def Let_def
  by (rule weights_le) (simp_all add: coverage_le)

lemma unat_of_nat_16: "n < 65536 \<Longrightarrow> unat (of_nat n :: 16 word) = n"
  by (simp add: unat_of_nat take_bit_nat_eq_self)

text \<open>
  For a query of at most 1185 bytes no counter of the sixteen-bit score wraps: the total is the weighted
  sum over the natural numbers, and the two coverages count what they say.
\<close>

theorem rank_scores_are_exact:
  assumes "length query \<le> 1185"
  shows "let terms = source_index_lookup_terms query;
             path = normalize_source_index_rank_path (rc_path candidate);
             blob = source_index_rank_query_key_blob (rc_query_keys candidate);
             score = source_index_rank_score_of query candidate
         in unat (rs_total score) = unbounded_total path blob terms (normalize_source_index_rank_path query)
            \<and> unat (rs_term_coverage score) = source_index_candidate_query_axis_coverage path blob terms
            \<and> unat (rs_query_key_coverage score) = source_index_candidate_query_key_coverage blob terms"
proof -
  define terms path blob where "terms = source_index_lookup_terms query"
    and "path = normalize_source_index_rank_path (rc_path candidate)"
    and "blob = source_index_rank_query_key_blob (rc_query_keys candidate)"
  have n: "length terms \<le> 1782"
    using length_source_index_lookup_terms [of query] assms(1) by (simp add: terms_def)
  have "unbounded_total path blob terms (normalize_source_index_rank_path query) < 65536"
    using unbounded_total_le [of path blob terms "normalize_source_index_rank_path query"] n by linarith
  then have "unat (rs_total (source_index_rank_score_of query candidate)) =
      unbounded_total path blob terms (normalize_source_index_rank_path query)"
    by (simp only: source_index_rank_score_of_def rs_total_of_nat unat_of_nat_16 terms_def path_def blob_def)
  moreover have "source_index_candidate_query_axis_coverage path blob terms < 65536"
    "source_index_candidate_query_key_coverage blob terms < 65536"
    using coverage_le(1) [of path blob terms] coverage_le(2) [of blob terms] n by linarith+
  ultimately show ?thesis
    by (simp add: source_index_rank_score_of_def source_index_rank_score_from_normalized_def Let_def
        unat_of_nat_16 terms_def path_def blob_def)
qed

lemma rank_scores_are_exact_witness:
  "unat (rs_term_coverage (source_index_rank_score_of ''src/a''
           \<lparr> rc_ordinal = 0, rc_path = ''src/a'', rc_query_keys = [] \<rparr>)) = 3"
proof -
  have "source_index_candidate_query_axis_coverage (normalize_source_index_rank_path ''src/a'')
      (source_index_rank_query_key_blob []) (source_index_lookup_terms ''src/a'') = 3"
    by code_simp
  then show ?thesis
    using rank_scores_are_exact [of "''src/a''" "\<lparr> rc_ordinal = 0, rc_path = ''src/a'', rc_query_keys = [] \<rparr>"]
    by (simp add: Let_def)
qed

text \<open>Past that length the total can wrap: 2622 covered terms weigh less than one.\<close>

lemma covering_more_terms_can_rank_lower:
  assumes "unbounded_total path blob terms q = 25 * 2622" and "unbounded_total path' blob' terms q = 25"
  shows "rs_total (source_index_rank_score_from_normalized path blob terms q)
         < rs_total (source_index_rank_score_from_normalized path' blob' terms q)"
  by (simp add: rs_total_of_nat assms)

end
