(* ===== verification/SearchMerge.thy ===== *)
theory SearchMerge
  imports Complex_Main SearchRank
begin

section \<open>The overlay index and the merge of search candidates\<close>

text \<open>
  Models, of \<open>crates/agent-semantic-search/src\<close>, \<open>dynamic_overlay/core.rs\<close> (the in-memory index of
  session documents), \<open>lexical_overlay.rs\<close> (its client), \<open>search_candidate.rs\<close> (the candidate contract shared by
  the routes and their merge), \<open>structural_index_search.rs\<close> and \<open>turso_overlay_search.rs\<close> (the two adapters of the
  database).  The database engine is code of another crate and a parameter here.
\<close>

subsection \<open>Single-precision scores\<close>

text \<open>
  A score is not-a-number, an infinity or a number.  The integers that the code turns into a score are rounded to
  the 24 bits of a significand, to even when halfway; signed zeros compare equal, so one zero is enough.
\<close>

datatype f32 = F_NaN | F_NegInfinity | F_Number rat | F_Infinity

fun f32_partial_cmp :: "f32 \<Rightarrow> f32 \<Rightarrow> ordering option" where
  "f32_partial_cmp F_NaN _ = None"
| "f32_partial_cmp _ F_NaN = None"
| "f32_partial_cmp (F_Number x) (F_Number y) = Some (cmp x y)"
| "f32_partial_cmp F_NegInfinity F_NegInfinity = Some Is_Equal"
| "f32_partial_cmp F_NegInfinity _ = Some Is_Less"
| "f32_partial_cmp _ F_NegInfinity = Some Is_Greater"
| "f32_partial_cmp F_Infinity F_Infinity = Some Is_Equal"
| "f32_partial_cmp F_Infinity _ = Some Is_Greater"
| "f32_partial_cmp _ F_Infinity = Some Is_Less"

fun bit_length :: "nat \<Rightarrow> nat" where
  "bit_length n = (if n = 0 then 0 else Suc (bit_length (n div 2)))"

declare bit_length.simps [simp del]

definition f32_round :: "nat \<Rightarrow> nat" where
  "f32_round n =
     (let unit = 2 ^ (bit_length n - 24); q = n div unit; r = n mod unit
      in (if unit < 2 * r \<or> (unit = 2 * r \<and> odd q) then q + 1 else q) * unit)"

definition f32_of_usize :: "nat \<Rightarrow> f32" where
  "f32_of_usize n = F_Number (of_nat (f32_round n))"

text \<open>\<open>partial_cmp(..).unwrap_or(Ordering::Equal)\<close>.\<close>

definition f32_cmp_or_equal :: "f32 \<Rightarrow> f32 \<Rightarrow> ordering" where
  "f32_cmp_or_equal x y = (case f32_partial_cmp x y of None \<Rightarrow> Is_Equal | Some r \<Rightarrow> r)"

text \<open>
  \<open>sort_by\<close> with a closure that is not a total preorder on the slice leaves an unspecified order or panics: the
  argument \<open>unspecified\<close> stands for what the library does then, \<open>None\<close> being a panic.
\<close>

definition consistent_on :: "('a \<Rightarrow> 'a \<Rightarrow> ordering) \<Rightarrow> 'a list \<Rightarrow> bool" where
  "consistent_on c xs \<longleftrightarrow>
     (\<forall>x \<in> set xs. \<forall>y \<in> set xs. c y x = reverse_ordering (c x y))
     \<and> (\<forall>x \<in> set xs. \<forall>y \<in> set xs. \<forall>z \<in> set xs.
          c x y \<noteq> Is_Greater \<longrightarrow> c y z \<noteq> Is_Greater \<longrightarrow> c x z \<noteq> Is_Greater)"

definition rust_sort_by :: "('a list \<Rightarrow> 'a list option) \<Rightarrow> ('a \<Rightarrow> 'a \<Rightarrow> ordering) \<Rightarrow> 'a list \<Rightarrow> 'a list option" where
  "rust_sort_by unspecified c xs = (if consistent_on c xs then Some (sort_by c xs) else unspecified xs)"

lemma consistent_on_comparator: "consistent_on c xs \<longleftrightarrow> comparator c (\<lambda>x. x \<in> set xs)"
  unfolding consistent_on_def comparator_def by blast

lemma rust_sort_by_comparator:
  assumes "comparator c good" and "list_all good xs" shows "rust_sort_by unspecified c xs = Some (sort_by c xs)"
proof -
  have "comparator c (\<lambda>x. x \<in> set xs)"
    by (rule comparator_weaken [OF assms(1)]) (use assms(2) in \<open>simp add: list_all_iff\<close>)
  then show ?thesis by (simp add: rust_sort_by_def consistent_on_comparator)
qed

lemma comparator_f32: "comparator (\<lambda>x y. f32_cmp_or_equal (f x) (f y)) (\<lambda>x. f x \<noteq> F_NaN)"
proof
  fix x y assume "f x \<noteq> F_NaN" "f y \<noteq> F_NaN"
  then show "f32_cmp_or_equal (f y) (f x) = reverse_ordering (f32_cmp_or_equal (f x) (f y))"
    by (cases "f x"; cases "f y") (auto simp: f32_cmp_or_equal_def cmp_def)
next
  fix x y z assume "f x \<noteq> F_NaN" "f y \<noteq> F_NaN" "f z \<noteq> F_NaN"
    "f32_cmp_or_equal (f x) (f y) \<noteq> Is_Greater" "f32_cmp_or_equal (f y) (f z) \<noteq> Is_Greater"
  then show "f32_cmp_or_equal (f x) (f z) \<noteq> Is_Greater"
    by (cases "f x"; cases "f y"; cases "f z") (auto simp: f32_cmp_or_equal_def)
qed

subsection \<open>Documents and queries of the overlay\<close>

record overlay_namespace =
  on_project_id :: string
  on_workspace_id :: string
  on_worktree_id :: string
  on_session_id :: string
  on_subagent_id :: "string option"
  on_base_generation :: string

definition new_overlay_namespace :: "string \<Rightarrow> string \<Rightarrow> string \<Rightarrow> string \<Rightarrow> string \<Rightarrow> overlay_namespace" where
  "new_overlay_namespace project workspace worktree session base_generation =
     \<lparr> on_project_id = project, on_workspace_id = workspace, on_worktree_id = worktree,
       on_session_id = session, on_subagent_id = None, on_base_generation = base_generation \<rparr>"

record overlay_document =
  od_owner_path :: string
  od_entity_id :: string
  od_selector :: string
  od_kind :: string
  od_name :: string
  od_signature :: "string option"
  od_display_range :: "(nat \<times> nat) option"
  od_source_hash :: string
  od_search_text :: string

record overlay_query =
  oq_text :: string
  oq_owner_path :: "string option"
  oq_limit :: nat

record overlay_hit =
  oh_document :: overlay_document
  oh_score :: f32
  oh_matched_terms :: "string list"

text \<open>Words of an identifier: cut at the given separators and before an upper-case letter after a lower-case one.\<close>

fun split_identifier_loop :: "string \<Rightarrow> string list \<Rightarrow> string \<Rightarrow> bool \<Rightarrow> string list" where
  "split_identifier_loop [] tokens current previous_lowercase =
     (if current = [] then tokens else tokens @ [to_ascii_lowercase current])"
| "split_identifier_loop (ch # cs) tokens current previous_lowercase =
     (if ch = CHR ''_'' \<or> ch = CHR ''-'' then
        split_identifier_loop cs
          (if current = [] then tokens else tokens @ [to_ascii_lowercase current]) [] False
      else
        (let cut = previous_lowercase \<and> is_ascii_uppercase ch \<and> current \<noteq> [];
             tokens' = (if cut then tokens @ [to_ascii_lowercase current] else tokens);
             current' = (if cut then [] else current)
         in split_identifier_loop cs tokens' (current' @ [ch])
              (is_ascii_lowercase ch \<or> is_ascii_digit ch)))"

definition split_identifier :: "string \<Rightarrow> string list" where
  "split_identifier s = split_identifier_loop s [] [] False"

definition overlay_identifier_tokens :: "string \<Rightarrow> string list" where
  "overlay_identifier_tokens s =
     concat (map (\<lambda>raw. if raw = [] then [] else to_ascii_lowercase raw # split_identifier raw)
       (split_by (\<lambda>c. \<not> is_ascii_alphanumeric c) s))"

definition expanded_identifier_text :: "string list \<Rightarrow> string" where
  "expanded_identifier_text parts = str_join '' '' (sort_dedup (concat (map overlay_identifier_tokens parts)))"

definition split_ascii_whitespace :: "string \<Rightarrow> string list" where
  "split_ascii_whitespace s = filter (\<lambda>w. w \<noteq> []) (split_by is_ascii_whitespace s)"

definition overlay_query_terms :: "string \<Rightarrow> string list" where
  "overlay_query_terms query = sort_dedup (split_ascii_whitespace (expanded_identifier_text [query]))"
subsection \<open>The in-memory index\<close>

text \<open>A \<open>BTreeMap\<close> is the list of its entries in ascending key order.\<close>

fun btree_insert :: "'k::linorder \<Rightarrow> 'v \<Rightarrow> ('k \<times> 'v) list \<Rightarrow> ('k \<times> 'v) list" where
  "btree_insert k v [] = [(k, v)]"
| "btree_insert k v (e # m) =
     (if k < fst e then (k, v) # e # m
      else if k = fst e then (k, v) # m
      else e # btree_insert k v m)"

lemma map_of_btree_insert: "sorted (map fst m) \<Longrightarrow> map_of (btree_insert k v m) = (map_of m)(k \<mapsto> v)"
  by (induction m) (auto simp: fun_eq_iff)

lemma set_btree_insert_keys: "set (map fst (btree_insert k v m)) = insert k (set (map fst m))"
  by (induction m) auto

lemma btree_insert_sorted:
  "sorted (map fst m) \<and> distinct (map fst m) \<Longrightarrow>
   sorted (map fst (btree_insert k v m)) \<and> distinct (map fst (btree_insert k v m))"
proof (induction m)
  case (Cons e m)
  then show ?case using set_btree_insert_keys [of k v m] by (auto simp: image_iff)
qed simp

type_synonym overlay_index = "overlay_namespace \<rightharpoonup> (string \<times> overlay_document) list"

definition upsert_documents :: "overlay_index \<Rightarrow> overlay_namespace \<Rightarrow> overlay_document list \<Rightarrow> overlay_index" where
  "upsert_documents index namespace documents =
     index(namespace \<mapsto>
       fold (\<lambda>d m. btree_insert (od_entity_id d) d m) documents
         (case index namespace of None \<Rightarrow> [] | Some m \<Rightarrow> m))"

definition overlay_owner_item :: "string \<Rightarrow> string \<Rightarrow> string \<Rightarrow> nat \<Rightarrow> nat \<Rightarrow> string \<Rightarrow> overlay_document" where
  "overlay_owner_item owner_path kind name start end source_hash =
     (let selector = ''dynamic-overlay://'' @ owner_path @ ''#item/'' @ kind @ ''/''
            @ concat (map (\<lambda>ch. if is_whitespace ch then ''-'' else ch) (rust_chars name))
      in \<lparr> od_owner_path = owner_path, od_entity_id = selector, od_selector = selector, od_kind = kind,
           od_name = name, od_signature = None, od_display_range = Some (start, max end start),
           od_source_hash = source_hash,
           od_search_text = expanded_identifier_text [owner_path, kind, name] \<rparr>)"

definition document_tokens :: "overlay_document \<Rightarrow> string list" where
  "document_tokens document =
     split_ascii_whitespace (expanded_identifier_text
       [od_owner_path document, od_kind document, od_name document,
        (case od_signature document of None \<Rightarrow> [] | Some s \<Rightarrow> s), od_search_text document])"

definition score_document :: "overlay_document \<Rightarrow> string list \<Rightarrow> overlay_hit option" where
  "score_document document terms =
     (let matched_terms = filter (\<lambda>t. t \<in> set (document_tokens document)) terms;
          lower_name = to_ascii_lowercase (od_name document);
          exact_name = list_ex (\<lambda>t. t = lower_name) terms;
          prefix_name = list_ex (\<lambda>t. starts_with lower_name t) terms;
          weighted = f32_round (f32_round (length matched_terms) * 10);
          named = f32_round (weighted + (if exact_name then 20 else 0));
          total = f32_round (named + (if prefix_name then 5 else 0))
      in if terms \<noteq> [] \<and> length matched_terms \<noteq> length terms then None
         else Some \<lparr> oh_document = document, oh_score = F_Number (of_nat total),
                     oh_matched_terms = matched_terms \<rparr>)"

definition overlay_hit_cmp :: "overlay_hit \<Rightarrow> overlay_hit \<Rightarrow> ordering" where
  "overlay_hit_cmp left right =
     then_with (f32_cmp_or_equal (oh_score right) (oh_score left))
    (then_with (cmp (od_owner_path (oh_document left)) (od_owner_path (oh_document right)))
               (cmp (od_name (oh_document left)) (od_name (oh_document right))))"

definition namespace_documents :: "overlay_index \<Rightarrow> overlay_namespace \<Rightarrow> overlay_document list" where
  "namespace_documents index namespace =
     (case index namespace of None \<Rightarrow> [] | Some m \<Rightarrow> map snd m)"

definition overlay_search ::
    "(overlay_hit list \<Rightarrow> overlay_hit list option) \<Rightarrow> overlay_index \<Rightarrow> overlay_namespace \<Rightarrow> overlay_query \<Rightarrow>
     overlay_hit list option" where
  "overlay_search unspecified index namespace query =
     (let terms = overlay_query_terms (oq_text query);
          documents = filter (\<lambda>d. case oq_owner_path query of None \<Rightarrow> True | Some p \<Rightarrow> p = od_owner_path d)
                        (namespace_documents index namespace)
      in map_option (take (max (oq_limit query) 1))
           (rust_sort_by unspecified overlay_hit_cmp
             (List.map_filter (\<lambda>d. score_document d terms) documents)))"

subsection \<open>The lexical overlay\<close>

record lexical_document =
  ld_owner_path :: string
  ld_selector :: string
  ld_kind :: string
  ld_name :: string
  ld_source_hash :: string
  ld_search_text :: string

definition new_lexical_document :: "string \<Rightarrow> string \<Rightarrow> string \<Rightarrow> lexical_document" where
  "new_lexical_document owner_path selector name =
     \<lparr> ld_owner_path = owner_path, ld_selector = selector, ld_kind = ''candidate'', ld_name = name,
       ld_source_hash = ''overlay'', ld_search_text = name \<rparr>"

record lexical_request =
  lq_query :: string
  lq_limit :: nat
  lq_documents :: "lexical_document list"

definition new_lexical_request :: "string \<Rightarrow> lexical_request" where
  "new_lexical_request query = \<lparr> lq_query = query, lq_limit = 64, lq_documents = [] \<rparr>"

record lexical_hit =
  lh_owner_path :: string
  lh_selector :: string
  lh_kind :: string
  lh_name :: string
  lh_search_text :: string
  lh_score :: f32
  lh_matched_terms :: "string list"

record lexical_candidate_hit =
  lc_owner_path :: string
  lc_symbol :: string
  lc_text :: string

definition overlay_document_of :: "lexical_document \<Rightarrow> overlay_document" where
  "overlay_document_of d =
     \<lparr> od_owner_path = ld_owner_path d, od_entity_id = ld_selector d, od_selector = ld_selector d,
       od_kind = ld_kind d, od_name = ld_name d, od_signature = None, od_display_range = None,
       od_source_hash = ld_source_hash d, od_search_text = ld_search_text d \<rparr>"

definition lexical_hit_of :: "overlay_hit \<Rightarrow> lexical_hit" where
  "lexical_hit_of h =
     \<lparr> lh_owner_path = od_owner_path (oh_document h), lh_selector = od_selector (oh_document h),
       lh_kind = od_kind (oh_document h), lh_name = od_name (oh_document h),
       lh_search_text = od_search_text (oh_document h), lh_score = oh_score h,
       lh_matched_terms = oh_matched_terms h \<rparr>"

definition lexical_namespace :: overlay_namespace where
  "lexical_namespace =
     new_overlay_namespace ''lexical-overlay'' ''workspace'' ''worktree'' ''session'' ''dirty''"

definition search_lexical_overlay ::
    "(overlay_hit list \<Rightarrow> overlay_hit list option) \<Rightarrow> lexical_request \<Rightarrow> lexical_hit list option" where
  "search_lexical_overlay unspecified request =
     (let overlay = upsert_documents Map.empty lexical_namespace
                      (map overlay_document_of (lq_documents request))
      in map_option (map lexical_hit_of)
           (overlay_search unspecified overlay lexical_namespace
             \<lparr> oq_text = lq_query request, oq_owner_path = None, oq_limit = lq_limit request \<rparr>))"

text \<open>The candidates of several terms: each term searches all documents, until \<open>total_limit\<close> hits are taken.\<close>

fun lexical_candidates_loop ::
    "(overlay_hit list \<Rightarrow> overlay_hit list option) \<Rightarrow> lexical_document list \<Rightarrow> nat \<Rightarrow> nat \<Rightarrow>
     string list \<Rightarrow> lexical_candidate_hit list option" where
  "lexical_candidates_loop unspecified documents per_term_limit remaining [] = Some []"
| "lexical_candidates_loop unspecified documents per_term_limit remaining (t # ts) =
     (if remaining = 0 then Some []
      else (case search_lexical_overlay unspecified
                   \<lparr> lq_query = t, lq_limit = per_term_limit, lq_documents = documents \<rparr> of
              None \<Rightarrow> None
            | Some hits \<Rightarrow>
                (let taken = map (\<lambda>h. \<lparr> lc_owner_path = lh_owner_path h, lc_symbol = t,
                                        lc_text = lh_search_text h \<rparr>) (take remaining hits)
                 in map_option (\<lambda>rest. taken @ rest)
                      (lexical_candidates_loop unspecified documents per_term_limit
                        (remaining - length taken) ts))))"

definition search_lexical_overlay_candidates ::
    "(overlay_hit list \<Rightarrow> overlay_hit list option) \<Rightarrow> string list \<Rightarrow> lexical_document list \<Rightarrow> nat \<Rightarrow> nat \<Rightarrow>
     lexical_candidate_hit list option" where
  "search_lexical_overlay_candidates unspecified terms documents per_term_limit total_limit =
     lexical_candidates_loop unspecified documents per_term_limit total_limit terms"
subsection \<open>A search returns the best matching documents\<close>

lemma comparator_overlay_hit: "comparator overlay_hit_cmp (\<lambda>h. oh_score h \<noteq> F_NaN)"
  unfolding overlay_hit_cmp_def
  by (intro comparator_then_with comparator_reverse [OF comparator_f32] comparator_key)

lemma score_document_number: "score_document d terms = Some h \<Longrightarrow> oh_score h \<noteq> F_NaN"
  by (auto simp: score_document_def Let_def split: if_splits)

definition document_matches :: "string list \<Rightarrow> overlay_document \<Rightarrow> bool" where
  "document_matches terms d \<longleftrightarrow> set terms \<subseteq> set (document_tokens d)"

definition scored_hit :: "string list \<Rightarrow> overlay_document \<Rightarrow> overlay_hit" where
  "scored_hit terms d = the (score_document d terms)"

lemma score_document_Some: "score_document d terms \<noteq> None \<longleftrightarrow> document_matches terms d"
proof -
  have "length (filter P terms) = length terms \<longleftrightarrow> (\<forall>t \<in> set terms. P t)" for P
    by (metis filter_True length_filter_less less_irrefl)
  then show ?thesis by (auto simp: score_document_def document_matches_def Let_def)
qed

lemma oh_document_scored [simp]: "document_matches terms d \<Longrightarrow> oh_document (scored_hit terms d) = d"
  using score_document_Some [of d terms] by (auto simp: scored_hit_def score_document_def Let_def)

lemma map_filter_score:
  "List.map_filter (\<lambda>d. score_document d terms) ds = map (scored_hit terms) (filter (document_matches terms) ds)"
  unfolding List.map_filter_def comp_def scored_hit_def score_document_Some by (rule refl)

definition searched_documents :: "overlay_index \<Rightarrow> overlay_namespace \<Rightarrow> overlay_query \<Rightarrow> overlay_document list" where
  "searched_documents index namespace query =
     filter (\<lambda>d. document_matches (overlay_query_terms (oq_text query)) d
                 \<and> (oq_owner_path query = None \<or> oq_owner_path query = Some (od_owner_path d)))
       (namespace_documents index namespace)"

text \<open>
  The search never reaches the unspecified case of the sort: its result is the first \<open>limit\<close> (at least one) of the
  matching documents of the namespace in the stable order by score, owner and name.
\<close>

lemma overlay_search_ranking:
  "\<exists>ranked. stable_ranking overlay_hit_cmp
       (map (scored_hit (overlay_query_terms (oq_text query))) (searched_documents index namespace query)) ranked
     \<and> overlay_search unspecified index namespace query = Some (take (max (oq_limit query) 1) ranked)"
proof -
  let ?terms = "overlay_query_terms (oq_text query)"
  let ?hits = "map (scored_hit ?terms) (searched_documents index namespace query)"
  have docs: "filter (document_matches ?terms)
      (filter (\<lambda>d. case oq_owner_path query of None \<Rightarrow> True | Some p \<Rightarrow> p = od_owner_path d)
        (namespace_documents index namespace)) = searched_documents index namespace query"
    unfolding searched_documents_def filter_filter
    by (rule filter_cong) (auto split: option.splits)
  have "oh_score (scored_hit ?terms d) \<noteq> F_NaN" if "document_matches ?terms d" for d
    using score_document_Some [of d ?terms] that score_document_number
    by (auto simp: scored_hit_def)
  then have good: "list_all (\<lambda>h. oh_score h \<noteq> F_NaN) ?hits"
    by (auto simp: list_all_iff searched_documents_def)
  have "overlay_search unspecified index namespace query =
      Some (take (max (oq_limit query) 1) (sort_by overlay_hit_cmp ?hits))"
    by (simp only: overlay_search_def Let_def map_filter_score docs option.map
        rust_sort_by_comparator [OF comparator_overlay_hit good])
  moreover have "stable_ranking overlay_hit_cmp ?hits (sort_by overlay_hit_cmp ?hits)"
    by (rule comparator.stable_ranking_sort_by [OF comparator_overlay_hit good])
  ultimately show ?thesis by blast
qed

lemma mset_take_subset: "mset (take n xs) \<subseteq># mset xs"
  by (metis append_take_drop_id mset_append mset_subset_eq_add_left)

lemma sorted_wrt_take_drop: "sorted_wrt P xs \<Longrightarrow> x \<in> set (take n xs) \<Longrightarrow> y \<in> set (drop n xs) \<Longrightarrow> P x y"
  by (metis append_take_drop_id sorted_wrt_append)

subsection \<open>The candidate contract of the routes\<close>

record field_hit =
  fh_field :: string
  fh_value :: string
  fh_matched_terms :: "string list"

record rank_feature =
  rf_name :: string
  rf_value :: f32

record search_candidate =
  sc_route_source :: string
  sc_fallback_reason :: string
  sc_candidate_id :: string
  sc_identity_kind :: string
  sc_selector :: "string option"
  sc_owner_path :: "string option"
  sc_generation :: "string option"
  sc_overlay_namespace :: "string option"
  sc_score :: f32
  sc_field_hits :: "field_hit list"
  sc_rank_features :: "rank_feature list"
  sc_proof_source :: string

record ranked_search_candidate =
  rsc_candidate :: search_candidate
  rsc_route_priority :: nat
  rsc_selector_bonus :: nat
  rsc_field_hit_count :: nat
  rsc_ordinal :: nat

record search_stage_receipt =
  sr_stage :: string
  sr_route_sources :: "string list"
  sr_candidate_count :: nat
  sr_returned_count :: nat
  sr_filtered_line_identity_count :: nat
  sr_fallback_reason :: string

record merge_receipt =
  mr_ranked :: "ranked_search_candidate list"
  mr_stage :: search_stage_receipt

definition source_index_candidate_matches_term :: "rank_candidate \<Rightarrow> string \<Rightarrow> bool" where
  "source_index_candidate_matches_term candidate t =
     (let normalized_term = to_ascii_lowercase t
      in normalized_term \<noteq> []
         \<and> (str_contains (to_ascii_lowercase (rc_path candidate)) normalized_term
            \<or> list_ex (\<lambda>key. str_contains key normalized_term) (rc_query_keys candidate)))"

definition source_index_candidate_to_search_candidate :: "rank_candidate \<Rightarrow> string list \<Rightarrow> search_candidate" where
  "source_index_candidate_to_search_candidate candidate query_terms =
     (let matched_terms = filter (source_index_candidate_matches_term candidate) query_terms
      in \<lparr> sc_route_source = ''source-index'', sc_fallback_reason = ''none'',
           sc_candidate_id = ''source-index:'' @ rc_path candidate, sc_identity_kind = ''owner-path'',
           sc_selector = None, sc_owner_path = Some (rc_path candidate), sc_generation = None,
           sc_overlay_namespace = None, sc_score = f32_of_usize (length matched_terms),
           sc_field_hits = [\<lparr> fh_field = ''query_keys'', fh_value = str_join '' '' (rc_query_keys candidate),
                              fh_matched_terms = matched_terms \<rparr>],
           sc_rank_features = [\<lparr> rf_name = ''query-axis-coverage'',
                                 rf_value = f32_of_usize (length (rc_query_keys candidate)) \<rparr>],
           sc_proof_source = ''agent-semantic-search/source-index'' \<rparr>)"

definition search_overlay_route_source :: string where
  "search_overlay_route_source = ''search-overlay''"

definition lexical_overlay_hit_to_search_candidate :: "lexical_hit \<Rightarrow> string \<Rightarrow> search_candidate" where
  "lexical_overlay_hit_to_search_candidate hit overlay_namespace =
     \<lparr> sc_route_source = search_overlay_route_source, sc_fallback_reason = ''none'',
       sc_candidate_id = search_overlay_route_source @ '':'' @ lh_selector hit, sc_identity_kind = ''selector'',
       sc_selector = Some (lh_selector hit), sc_owner_path = Some (lh_owner_path hit),
       sc_generation = None, sc_overlay_namespace = Some overlay_namespace, sc_score = lh_score hit,
       sc_field_hits = [\<lparr> fh_field = ''name'', fh_value = lh_name hit, fh_matched_terms = lh_matched_terms hit \<rparr>,
                        \<lparr> fh_field = ''search_text'', fh_value = lh_search_text hit,
                          fh_matched_terms = lh_matched_terms hit \<rparr>],
       sc_rank_features = [\<lparr> rf_name = ''search-overlay-score'', rf_value = lh_score hit \<rparr>],
       sc_proof_source = ''agent-semantic-search/search-overlay'' \<rparr>"

record structural_hit =
  sh_document_id :: string
  sh_selector :: "string option"
  sh_document :: string

definition structural_index_hit_matches_term :: "structural_hit \<Rightarrow> string \<Rightarrow> bool" where
  "structural_index_hit_matches_term hit t =
     (let normalized_term = to_ascii_lowercase t
      in normalized_term \<noteq> []
         \<and> (str_contains (to_ascii_lowercase (sh_document hit)) normalized_term
            \<or> (case sh_selector hit of None \<Rightarrow> False
               | Some selector \<Rightarrow> str_contains (to_ascii_lowercase selector) normalized_term)))"

definition structural_index_generation :: "string \<Rightarrow> string option" where
  "structural_index_generation document_id =
     (case split_by (\<lambda>c. c = CHR '':'') document_id of
        first # generation # _ \<Rightarrow>
          if first = ''structural-index'' \<and> generation \<noteq> [] then Some generation else None
      | _ \<Rightarrow> None)"

definition structural_index_hit_to_search_candidate :: "structural_hit \<Rightarrow> string list \<Rightarrow> search_candidate" where
  "structural_index_hit_to_search_candidate hit query_terms =
     (let matched_terms = filter (structural_index_hit_matches_term hit) query_terms
      in \<lparr> sc_route_source = ''turso-fts'', sc_fallback_reason = ''none'',
           sc_candidate_id = sh_document_id hit,
           sc_identity_kind = (if sh_selector hit \<noteq> None then ''selector'' else ''entity-id''),
           sc_selector = sh_selector hit, sc_owner_path = None,
           sc_generation = structural_index_generation (sh_document_id hit),
           sc_overlay_namespace = None, sc_score = f32_of_usize (length matched_terms),
           sc_field_hits = [\<lparr> fh_field = ''structural_index_document'', fh_value = sh_document hit,
                              fh_matched_terms = matched_terms \<rparr>],
           sc_rank_features = [\<lparr> rf_name = ''stable-structural-fts'', rf_value = F_Number 1 \<rparr>],
           sc_proof_source = ''agent-semantic-search/structural-index-turso'' \<rparr>)"

subsection \<open>The merge\<close>

text \<open>\<open>str::parse::<u32>\<close>.\<close>

definition parses_u32 :: "string \<Rightarrow> bool" where
  "parses_u32 s =
     (let ds = (case s of [] \<Rightarrow> [] | c # cs \<Rightarrow> if c = CHR ''+'' then cs else s)
      in ds \<noteq> [] \<and> list_all is_ascii_digit ds \<and> decimal_value ds < 2 ^ 32)"

definition contains_executable_line_identity :: "string \<Rightarrow> bool" where
  "contains_executable_line_identity s =
     (case rsplit_once '':'' s of
        None \<Rightarrow> False
      | Some (rest, end_line) \<Rightarrow>
          (case rsplit_once '':'' rest of
             None \<Rightarrow> False
           | Some (path, start_line) \<Rightarrow> path \<noteq> [] \<and> parses_u32 start_line \<and> parses_u32 end_line))"

definition search_candidate_has_executable_line_identity :: "search_candidate \<Rightarrow> bool" where
  "search_candidate_has_executable_line_identity candidate =
     ((case sc_selector candidate of None \<Rightarrow> False | Some s \<Rightarrow> contains_executable_line_identity s)
      \<or> contains_executable_line_identity (sc_candidate_id candidate))"

definition search_candidate_route_priority :: "string \<Rightarrow> nat" where
  "search_candidate_route_priority route_source =
     (if route_source = ''receipt-anchor'' then 0
      else if route_source = search_overlay_route_source then 1
      else if route_source = ''provider-delta'' then 2
      else if route_source = ''turso-fts'' then 3
      else if route_source = ''source-index'' then 4
      else if route_source = ''semantic-vector'' then 5
      else if route_source = ''evidence-graph-rank'' then 6
      else 9)"

definition search_candidate_route_sources :: "search_candidate list \<Rightarrow> string list" where
  "search_candidate_route_sources candidates = sort_dedup (map sc_route_source candidates)"

definition search_candidate_merge_fallback_reason :: "nat \<Rightarrow> nat \<Rightarrow> string" where
  "search_candidate_merge_fallback_reason candidate_count returned_count =
     (if candidate_count > 0 \<and> returned_count = 0 then ''line-identity-filtered'' else ''none'')"

definition rank_search_candidate :: "nat \<Rightarrow> search_candidate \<Rightarrow> ranked_search_candidate" where
  "rank_search_candidate ordinal candidate =
     \<lparr> rsc_candidate = candidate,
       rsc_route_priority = search_candidate_route_priority (sc_route_source candidate),
       rsc_selector_bonus = of_bool (sc_selector candidate \<noteq> None),
       rsc_field_hit_count = sum_list (map (\<lambda>h. length (fh_matched_terms h)) (sc_field_hits candidate)),
       rsc_ordinal = ordinal \<rparr>"

definition compare_ranked_search_candidates ::
    "ranked_search_candidate \<Rightarrow> ranked_search_candidate \<Rightarrow> ordering" where
  "compare_ranked_search_candidates left right =
     then_with (cmp (rsc_route_priority left) (rsc_route_priority right))
    (then_with (cmp (rsc_selector_bonus right) (rsc_selector_bonus left))
    (then_with (f32_cmp_or_equal (sc_score (rsc_candidate right)) (sc_score (rsc_candidate left)))
    (then_with (cmp (rsc_field_hit_count right) (rsc_field_hit_count left))
               (cmp (rsc_ordinal left) (rsc_ordinal right)))))"

definition merge_search_candidates_with_receipt ::
    "(ranked_search_candidate list \<Rightarrow> ranked_search_candidate list option) \<Rightarrow> search_candidate list \<Rightarrow>
     merge_receipt option" where
  "merge_search_candidates_with_receipt unspecified candidates =
     (let kept = filter (\<lambda>(_, candidate). \<not> search_candidate_has_executable_line_identity candidate)
                   (enumerate 0 candidates)
      in map_option
           (\<lambda>ranked. \<lparr> mr_ranked = ranked,
              mr_stage = \<lparr> sr_stage = ''search-candidate-merge'',
                sr_route_sources = search_candidate_route_sources candidates,
                sr_candidate_count = length candidates,
                sr_returned_count = length ranked,
                sr_filtered_line_identity_count =
                  length (filter search_candidate_has_executable_line_identity candidates),
                sr_fallback_reason =
                  search_candidate_merge_fallback_reason (length candidates) (length ranked) \<rparr> \<rparr>)
           (rust_sort_by unspecified compare_ranked_search_candidates
             (map (\<lambda>(ordinal, candidate). rank_search_candidate ordinal candidate) kept)))"

definition merge_search_candidates ::
    "(ranked_search_candidate list \<Rightarrow> ranked_search_candidate list option) \<Rightarrow> search_candidate list \<Rightarrow>
     ranked_search_candidate list option" where
  "merge_search_candidates unspecified candidates =
     map_option mr_ranked (merge_search_candidates_with_receipt unspecified candidates)"

subsection \<open>The routes through the database\<close>

record db_hit =
  dh_source :: string
  dh_document_id :: string
  dh_selector :: "string option"
  dh_document :: string

definition turso_hit_to_structural_index_hit :: "db_hit \<Rightarrow> structural_hit option" where
  "turso_hit_to_structural_index_hit hit =
     (if dh_source hit \<noteq> ''stable'' \<or> \<not> starts_with (dh_document_id hit) ''structural-index:'' then None
      else Some \<lparr> sh_document_id = dh_document_id hit, sh_selector = dh_selector hit,
                  sh_document = dh_document hit \<rparr>)"

type_synonym db_search = "string \<Rightarrow> nat \<Rightarrow> string + db_hit list"

definition search_turso_structural_index_documents ::
    "db_search \<Rightarrow> string \<Rightarrow> nat \<Rightarrow> string + structural_hit list" where
  "search_turso_structural_index_documents engine query limit =
     result_bind (engine query limit) (\<lambda>hits. Inr (List.map_filter turso_hit_to_structural_index_hit hits))"

definition collect_structural_ranked_candidates ::
    "(ranked_search_candidate list \<Rightarrow> ranked_search_candidate list option) \<Rightarrow> db_search \<Rightarrow> string \<Rightarrow> nat \<Rightarrow>
     (string + ranked_search_candidate list) option" where
  "collect_structural_ranked_candidates unspecified engine query limit =
     (if str_trim query = [] \<or> limit = 0 then Some (Inr [])
      else (case search_turso_structural_index_documents engine query limit of
              Inl e \<Rightarrow> Some (Inl e)
            | Inr hits \<Rightarrow>
                map_option Inr (merge_search_candidates unspecified
                  (map (\<lambda>hit. structural_index_hit_to_search_candidate hit (source_index_lookup_terms query))
                    hits))))"

text \<open>A hit of the overlay tables of the database.\<close>

definition turso_hit_to_overlay_hit :: "db_hit \<Rightarrow> structural_hit option" where
  "turso_hit_to_overlay_hit hit =
     (if dh_source hit \<noteq> ''overlay'' then None
      else Some \<lparr> sh_document_id = dh_document_id hit, sh_selector = dh_selector hit,
                  sh_document = dh_document hit \<rparr>)"

definition search_turso_overlay_documents :: "db_search \<Rightarrow> string \<Rightarrow> nat \<Rightarrow> string + structural_hit list" where
  "search_turso_overlay_documents engine query limit =
     result_bind (engine query limit) (\<lambda>hits. Inr (List.map_filter turso_hit_to_overlay_hit hits))"
subsection \<open>What the merge returns\<close>

text \<open>The order of the merge, on candidates: the ordinal only spells out the stability of the sort.\<close>

definition search_candidate_order :: "search_candidate \<Rightarrow> search_candidate \<Rightarrow> ordering" where
  "search_candidate_order a b =
     then_with (cmp (search_candidate_route_priority (sc_route_source a))
                    (search_candidate_route_priority (sc_route_source b)))
    (then_with (cmp (of_bool (sc_selector b \<noteq> None) :: nat) (of_bool (sc_selector a \<noteq> None)))
    (then_with (f32_cmp_or_equal (sc_score b) (sc_score a))
               (cmp (rsc_field_hit_count (rank_search_candidate 0 b))
                    (rsc_field_hit_count (rank_search_candidate 0 a)))))"

lemma comparator_search_candidate:
  "comparator (\<lambda>x y. search_candidate_order (f x) (f y)) (\<lambda>x. sc_score (f x) \<noteq> F_NaN)"
  unfolding search_candidate_order_def
  by (intro comparator_then_with comparator_reverse [OF comparator_f32] comparator_reverse [OF comparator_key]
      comparator_key)

lemma comparator_ranked:
  "comparator compare_ranked_search_candidates (\<lambda>x. sc_score (rsc_candidate x) \<noteq> F_NaN)"
  unfolding compare_ranked_search_candidates_def
  by (intro comparator_then_with comparator_reverse [OF comparator_f32] comparator_reverse [OF comparator_key]
      comparator_key)

lemma then_with_assoc [simp]: "then_with (then_with a b) c = then_with a (then_with b c)"
  by (cases a) simp_all

lemma compare_rank_search_candidate:
  "compare_ranked_search_candidates (rank_search_candidate i a) (rank_search_candidate j b) =
   then_with (search_candidate_order a b) (cmp i j)"
  by (simp add: compare_ranked_search_candidates_def search_candidate_order_def rank_search_candidate_def)

definition executable_candidates :: "search_candidate list \<Rightarrow> search_candidate list" where
  "executable_candidates candidates = filter (\<lambda>c. \<not> search_candidate_has_executable_line_identity c) candidates"

lemma merge_ranking:
  assumes "list_all (\<lambda>c. sc_score c \<noteq> F_NaN) candidates"
  obtains receipt where "merge_search_candidates_with_receipt unspecified candidates = Some receipt"
    and "map rsc_candidate (mr_ranked receipt) = sort_by search_candidate_order (executable_candidates candidates)"
    and "sr_candidate_count (mr_stage receipt) =
      sr_returned_count (mr_stage receipt) + sr_filtered_line_identity_count (mr_stage receipt)"
    and "sr_returned_count (mr_stage receipt) = length (mr_ranked receipt)"
proof -
  let ?kept = "filter (\<lambda>(_, candidate). \<not> search_candidate_has_executable_line_identity candidate)
      (enumerate 0 candidates)"
  let ?rank = "\<lambda>(ordinal, candidate). rank_search_candidate ordinal candidate"
  let ?sorted = "sort_by compare_ranked_search_candidates (map ?rank ?kept)"
  have "snd p \<in> set candidates" if "p \<in> set ?kept" for p
    using that by (auto simp: in_set_enumerate_eq)
  then have "list_all (\<lambda>x. sc_score (rsc_candidate x) \<noteq> F_NaN) (map ?rank ?kept)"
    using assms by (fastforce simp: list_all_iff rank_search_candidate_def)
  then have sorted: "rust_sort_by unspecified compare_ranked_search_candidates (map ?rank ?kept) = Some ?sorted"
    by (rule rust_sort_by_comparator [OF comparator_ranked])
  have snd_kept: "map snd ?kept = executable_candidates candidates"
  proof -
    have "map snd (filter (\<lambda>(_, c). P c) es) = filter P (map snd es)" for P and es :: "(nat \<times> search_candidate) list"
      by (induction es) auto
    then show ?thesis by (simp add: executable_candidates_def)
  qed
  have "sorted_wrt (\<lambda>x y. cmp (fst x) (fst y) \<noteq> Is_Greater) ?kept"
    using sorted_wrt_filter [OF enumerate_ascending [of 0 candidates]]
    by (rule sorted_wrt_mono_rel [rotated]) auto
  then have "sort_by (\<lambda>x y. then_with (search_candidate_order (snd x) (snd y)) (cmp (fst x) (fst y))) ?kept =
      sort_by (\<lambda>x y. search_candidate_order (snd x) (snd y)) ?kept"
    by (rule sort_by_tie)
  then have "?sorted = map ?rank (sort_by (\<lambda>x y. search_candidate_order (snd x) (snd y)) ?kept)"
    by (simp add: sort_by_map split_def compare_rank_search_candidate)
  then have "map rsc_candidate ?sorted = map snd (sort_by (\<lambda>x y. search_candidate_order (snd x) (snd y)) ?kept)"
    by (simp add: rank_search_candidate_def split_def)
  also have "\<dots> = sort_by search_candidate_order (map snd ?kept)" by (simp only: sort_by_map)
  finally have cands: "map rsc_candidate ?sorted = sort_by search_candidate_order (executable_candidates candidates)"
    by (simp only: snd_kept)
  have "length ?sorted = length (executable_candidates candidates)"
    using arg_cong [OF cands, of length] by simp
  then have counts: "length candidates =
      length ?sorted + length (filter search_candidate_has_executable_line_identity candidates)"
    using sum_length_filter_compl [of search_candidate_has_executable_line_identity candidates]
    by (simp add: executable_candidates_def)
  define ranked where "ranked = ?sorted"
  have "merge_search_candidates_with_receipt unspecified candidates =
      Some \<lparr> mr_ranked = ranked,
        mr_stage = \<lparr> sr_stage = ''search-candidate-merge'',
          sr_route_sources = search_candidate_route_sources candidates,
          sr_candidate_count = length candidates, sr_returned_count = length ranked,
          sr_filtered_line_identity_count =
            length (filter search_candidate_has_executable_line_identity candidates),
          sr_fallback_reason =
            search_candidate_merge_fallback_reason (length candidates) (length ranked) \<rparr> \<rparr>"
    by (simp only: merge_search_candidates_with_receipt_def Let_def sorted option.map ranked_def)
  then show ?thesis
    by (rule that) (simp_all add: cands [folded ranked_def] counts [folded ranked_def])
qed

text \<open>
  C31: as long as no score is not-a-number, the merge of heterogeneous routes cannot fail and returns every candidate
  but those whose identity is a line range, each once, in the one stable order by route, selector, score and field
  hits; its receipt accounts for all candidates.
\<close>

theorem merge_returns_every_selector:
  assumes "list_all (\<lambda>c. sc_score c \<noteq> F_NaN) candidates"
  shows "\<exists>receipt. merge_search_candidates_with_receipt unspecified candidates = Some receipt
     \<and> stable_ranking search_candidate_order (executable_candidates candidates)
         (map rsc_candidate (mr_ranked receipt))
     \<and> sr_candidate_count (mr_stage receipt) =
         sr_returned_count (mr_stage receipt) + sr_filtered_line_identity_count (mr_stage receipt)
     \<and> sr_returned_count (mr_stage receipt) = length (mr_ranked receipt)"
proof -
  obtain receipt where r: "merge_search_candidates_with_receipt unspecified candidates = Some receipt"
    and c: "map rsc_candidate (mr_ranked receipt) = sort_by search_candidate_order (executable_candidates candidates)"
    and n: "sr_candidate_count (mr_stage receipt) =
      sr_returned_count (mr_stage receipt) + sr_filtered_line_identity_count (mr_stage receipt)"
      "sr_returned_count (mr_stage receipt) = length (mr_ranked receipt)"
    using merge_ranking [OF assms] by metis
  have "list_all (\<lambda>c. sc_score c \<noteq> F_NaN) (executable_candidates candidates)"
    using assms by (simp add: executable_candidates_def list_all_iff)
  then have "stable_ranking search_candidate_order (executable_candidates candidates)
      (sort_by search_candidate_order (executable_candidates candidates))"
    by (rule comparator.stable_ranking_sort_by [OF comparator_search_candidate [where f = "\<lambda>x. x"]])
  then show ?thesis using r c n by auto
qed

lemma merge_returns_every_selector_witness:
  "let candidate = source_index_candidate_to_search_candidate
         \<lparr> rc_ordinal = 0, rc_path = ''src/lib.rs'', rc_query_keys = [''lib''] \<rparr> [''lib'']
   in \<exists>receipt. merge_search_candidates_with_receipt (\<lambda>_. None) [candidate] = Some receipt
        \<and> sr_candidate_count (mr_stage receipt) =
            sr_returned_count (mr_stage receipt) + sr_filtered_line_identity_count (mr_stage receipt)"
proof -
  let ?c = "source_index_candidate_to_search_candidate
      \<lparr> rc_ordinal = 0, rc_path = ''src/lib.rs'', rc_query_keys = [''lib''] \<rparr> [''lib'']"
  have "list_all (\<lambda>c. sc_score c \<noteq> F_NaN) [?c]"
    by (simp add: source_index_candidate_to_search_candidate_def Let_def f32_of_usize_def)
  from merge_returns_every_selector [OF this, of "\<lambda>_. None"] show ?thesis
    unfolding Let_def by blast
qed

text \<open>The route through the stable documents of the database therefore always returns, with an error of the engine at worst.\<close>

lemma structural_route_total: "\<exists>result. collect_structural_ranked_candidates unspecified engine query limit = Some result"
proof -
  have good: "list_all (\<lambda>c. sc_score c \<noteq> F_NaN)
      (map (\<lambda>hit. structural_index_hit_to_search_candidate hit terms) hits)" for hits terms
    by (simp add: list_all_iff structural_index_hit_to_search_candidate_def Let_def f32_of_usize_def)
  have merged: "\<exists>ranked. merge_search_candidates unspecified
      (map (\<lambda>hit. structural_index_hit_to_search_candidate hit terms) hits) = Some ranked" for hits terms
    by (rule merge_ranking [OF good [of terms hits], of unspecified]) (simp add: merge_search_candidates_def)
  show ?thesis
  proof (cases "search_turso_structural_index_documents engine query limit")
    case (Inr hits)
    then show ?thesis using merged [of "source_index_lookup_terms query" hits]
      by (auto simp: collect_structural_ranked_candidates_def)
  qed (simp add: collect_structural_ranked_candidates_def)
qed

text \<open>A score that is not-a-number equals every other, so three candidates can leave the closure inconsistent.\<close>

lemma nan_breaks_the_order:
  "\<not> consistent_on (\<lambda>x y. f32_cmp_or_equal y x) [F_NaN, F_Number 1, F_Number 2]"
  by (simp add: consistent_on_def f32_cmp_or_equal_def)

text \<open>
  A query key counts for the rank of a source-index candidate in any case, but for its score in the merge only when it
  is written in lower case.
\<close>

lemma upper_case_key_scores_nothing:
  "let c = \<lparr> rc_ordinal = 0, rc_path = ''a'', rc_query_keys = [''Lib''] \<rparr>
   in source_index_candidate_query_key_coverage (source_index_rank_query_key_blob (rc_query_keys c)) [''lib''] = 1
      \<and> \<not> source_index_candidate_matches_term c ''lib''"
  by code_simp

end
