(* ===== verification/QueryPack.thy ===== *)
theory QueryPack
  imports Paths Json SearchRank
begin

section \<open>Query packs and their quality\<close>

text \<open>
  Models, of \<open>crates/agent-semantic-search/src\<close>, \<open>search_pipe_query_pack.rs\<close> (a query becomes clauses of terms
  with roles), \<open>search_pipe_evidence.rs\<close> (which candidates prove a term), \<open>search_pipe_quality.rs\<close> (the verdict on
  a pack), \<open>query_wrapper_quality.rs\<close> (the same for the query wrapper), \<open>search_query_budget.rs\<close> (the budget gate) and
  \<open>graph_seed_decision.rs\<close> (the first action).
\<close>

subsection \<open>Terms, roles and clauses\<close>

datatype pipe_term_role = Role_Context | Role_Concept | Role_Symbol

fun role_label :: "pipe_term_role \<Rightarrow> string" where
  "role_label Role_Context = ''context''"
| "role_label Role_Concept = ''concept''"
| "role_label Role_Symbol = ''symbol''"

record query_term =
  qt_raw :: string
  qt_lower :: string
  qt_role :: pipe_term_role

text \<open>A clause is the vector of its terms.\<close>

type_synonym query_clause = "query_term list"

definition search_pipe_is_path_like_token :: "string \<Rightarrow> bool" where
  "search_pipe_is_path_like_token raw \<longleftrightarrow>
     str_contains raw ''/'' \<or> str_contains raw ''::'' \<or> str_contains raw ''.'' \<or> str_contains raw ''_''"

definition is_package_like_token :: "string \<Rightarrow> bool" where
  "is_package_like_token raw \<longleftrightarrow>
     2 \<le> length (filter (\<lambda>c. c = CHR ''-'') raw) \<and> raw \<noteq> ''long-field-signatures''"

definition is_owner_seed_token :: "string \<Rightarrow> bool" where
  "is_owner_seed_token raw \<longleftrightarrow> search_pipe_is_path_like_token raw \<or> is_package_like_token raw"

definition weak_natural_terms :: "string list" where
  "weak_natural_terms =
     [''through'', ''smoke'', ''dev'', ''dependency'', ''dependencies'', ''in'', ''how'', ''should'', ''an'', ''a'',
      ''the'', ''and'', ''or'', ''before'', ''after'', ''changing'', ''change'', ''locate'', ''start'', ''starts'',
      ''from'', ''which'', ''what'', ''where'', ''when'', ''why'', ''owner'', ''owners'', ''frontier'',
      ''frontiers'', ''agent'', ''behavior'', ''weak'', ''natural'', ''term'', ''terms'']"

definition is_weak_natural_term :: "string \<Rightarrow> bool" where
  "is_weak_natural_term raw \<longleftrightarrow> to_ascii_lowercase raw \<in> set weak_natural_terms"

definition term_role :: "string \<Rightarrow> string \<Rightarrow> pipe_term_role" where
  "term_role language_id raw =
     (if language_id = ''typescript'' \<and> raw = ''Effect'' then Role_Context
      else if is_weak_natural_term raw then Role_Context
      else if is_owner_seed_token raw then Role_Symbol
      else if (case raw of [] \<Rightarrow> False | c # _ \<Rightarrow> is_ascii_uppercase c) then Role_Symbol
      else Role_Concept)"

definition is_query_token_character :: "char \<Rightarrow> bool" where
  "is_query_token_character c \<longleftrightarrow> is_ascii_alphanumeric c \<or> c \<in> set ''_-/:.@''"

definition trim_query_token :: "string \<Rightarrow> string" where
  "trim_query_token raw = trim_chars (\<lambda>c. \<not> is_query_token_character c) raw"

definition has_ascii_query_signal :: "string \<Rightarrow> bool" where
  "has_ascii_query_signal raw \<longleftrightarrow> list_ex (\<lambda>c. c = CHR ''_'' \<or> is_ascii_alphanumeric c) raw"

definition slash_parts :: "string \<Rightarrow> string list" where
  "slash_parts raw = split_by (\<lambda>c. c = CHR ''/'') raw"

definition should_split_slash_compound :: "string \<Rightarrow> bool" where
  "should_split_slash_compound raw \<longleftrightarrow>
     \<not> (str_contains raw ''.'' \<or> str_contains raw ''::'')
     \<and> length (slash_parts raw) = 2 \<and> [] \<notin> set (slash_parts raw)
     \<and> hd (slash_parts raw) \<notin>
         set [''src'', ''test'', ''tests'', ''crates'', ''packages'', ''apps'', ''lib'', ''libs'', ''docs'',
              ''examples'', ''benches'']
     \<and> list_all (list_all (\<lambda>c. c = CHR ''_'' \<or> c = CHR ''-'' \<or> is_ascii_alphanumeric c)) (slash_parts raw)"

lemma length_dropWhile: "length (dropWhile P xs) \<le> length xs"
  by (induction xs) auto

lemma length_trim_chars: "length (trim_chars P s) \<le> length s"
  unfolding trim_chars_def trim_end_chars_def trim_start_chars_def
  by (metis length_dropWhile length_rev order_trans)

lemma slash_compound_shrinks:
  assumes "length (slash_parts raw) = 2" and "[] \<notin> set (slash_parts raw)" and "part \<in> set (slash_parts raw)"
  shows "length part < length raw"
proof -
  have "sum_list (map length (split_by P s)) + length (split_by P s) = length s + 1" for P and s :: string
    by (induction s) (auto split: list.splits)
  from this [of "\<lambda>c. c = CHR ''/''" raw]
  have sum: "sum_list (map length (slash_parts raw)) + 1 = length raw"
    using assms(1) by (simp add: slash_parts_def)
  obtain a b where "slash_parts raw = [a, b]" using assms(1) by (auto simp: numeral_2_eq_2 length_Suc_conv)
  then show ?thesis using sum assms(2,3) by auto
qed

lemma fragment_smaller:
  assumes "should_split_slash_compound (trim_query_token raw)" and "part \<in> set (slash_parts (trim_query_token raw))"
  shows "length part < length raw"
proof -
  have "length part < length (trim_query_token raw)"
    using assms by (intro slash_compound_shrinks) (auto simp: should_split_slash_compound_def)
  then show ?thesis
    using length_trim_chars [of "\<lambda>c. \<not> is_query_token_character c" raw] by (simp add: trim_query_token_def)
qed

record token_fragment =
  tf_raw :: string
  tf_force_symbol :: bool

function query_token_fragments :: "string \<Rightarrow> token_fragment list" where
  "query_token_fragments raw =
     (let trimmed = trim_query_token raw
      in if trimmed = [] \<or> \<not> has_ascii_query_signal trimmed then []
         else if should_split_slash_compound trimmed
         then concat (map query_token_fragments (slash_parts trimmed))
         else [\<lparr> tf_raw = trimmed, tf_force_symbol = False \<rparr>])"
  by pat_completeness auto
termination
  by (relation "measure length") (auto intro: fragment_smaller)

declare query_token_fragments.simps [simp del]

text \<open>\<open>split\<close> at every scalar value that satisfies the predicate.\<close>

fun split_scalars_list :: "(string \<Rightarrow> bool) \<Rightarrow> string list \<Rightarrow> string list" where
  "split_scalars_list P [] = [[]]"
| "split_scalars_list P (ch # chs) =
     (if P ch then [] # split_scalars_list P chs
      else (case split_scalars_list P chs of [] \<Rightarrow> [ch] | x # xs \<Rightarrow> (ch @ x) # xs))"

definition split_scalars :: "(string \<Rightarrow> bool) \<Rightarrow> string \<Rightarrow> string list" where
  "split_scalars P s = split_scalars_list P (rust_chars s)"

definition push_term :: "query_term list \<Rightarrow> query_term \<Rightarrow> query_term list" where
  "push_term terms t = (if list_ex (\<lambda>seen. qt_raw seen = qt_raw t) terms then terms else terms @ [t])"

definition search_pipe_query_terms :: "string \<Rightarrow> string \<Rightarrow> query_term list" where
  "search_pipe_query_terms language_id raw_clause =
     foldl push_term []
       (map (\<lambda>f. \<lparr> qt_raw = tf_raw f, qt_lower = to_ascii_lowercase (tf_raw f),
                  qt_role = (if tf_force_symbol f then Role_Symbol else term_role language_id (tf_raw f)) \<rparr>)
         (concat (map query_token_fragments
           (split_scalars (\<lambda>ch. ch = '','' \<or> is_whitespace ch) raw_clause))))"

text \<open>
  A single clause of six terms or more is split by kind: paths, packages, symbols and concepts, in this order.
\<close>

definition clause_parts :: "query_clause \<Rightarrow> query_clause list" where
  "clause_parts single =
     (let paths = filter (\<lambda>t. search_pipe_is_path_like_token (qt_raw t)) single;
          others = filter (\<lambda>t. \<not> search_pipe_is_path_like_token (qt_raw t)) single;
          packages = filter (\<lambda>t. is_package_like_token (qt_raw t)) others;
          plain = filter (\<lambda>t. \<not> is_package_like_token (qt_raw t)) others
      in [paths, packages, filter (\<lambda>t. qt_role t = Role_Symbol) plain, filter (\<lambda>t. qt_role t = Role_Concept) plain])"

definition clause_context :: "query_clause \<Rightarrow> query_clause" where
  "clause_context single =
     filter (\<lambda>t. \<not> search_pipe_is_path_like_token (qt_raw t) \<and> \<not> is_package_like_token (qt_raw t)
                 \<and> qt_role t = Role_Context) single"

definition auto_query_clauses :: "query_clause list \<Rightarrow> query_clause list" where
  "auto_query_clauses explicit =
     (case explicit of
        [single] \<Rightarrow>
          if length single < 6 then explicit
          else (let clauses = filter (\<lambda>terms. terms \<noteq> []) (clause_parts single);
                    clauses = (if clauses = [] \<and> clause_context single \<noteq> [] then [clause_context single]
                               else clauses)
                in if 1 < length clauses then clauses else explicit)
      | _ \<Rightarrow> explicit)"

definition search_pipe_query_clauses :: "string \<Rightarrow> string \<Rightarrow> query_clause list" where
  "search_pipe_query_clauses language_id query =
     (let explicit =
        filter (\<lambda>clause. clause \<noteq> [])
          (map (search_pipe_query_terms language_id)
            (filter (\<lambda>clause. clause \<noteq> []) (map str_trim (split_by (\<lambda>c. c = CHR ''|'') query))))
      in if str_contains query ''|'' then explicit else auto_query_clauses explicit)"

definition search_pipe_query_clause_texts :: "string \<Rightarrow> string \<Rightarrow> string list" where
  "search_pipe_query_clause_texts language_id query =
     filter (\<lambda>clause. clause \<noteq> [])
       (map (\<lambda>clause. str_join '' '' (map qt_raw clause)) (search_pipe_query_clauses language_id query))"

definition search_pipe_unique_query_terms :: "query_clause list \<Rightarrow> query_term list" where
  "search_pipe_unique_query_terms clauses = foldl push_term [] (concat clauses)"

subsection \<open>Coverage of the clauses\<close>

record clause_coverage =
  cc_id :: nat
  cc_matched :: "string list"
  cc_missing :: "string list"

record pack_candidate =
  pc_path :: string
  pc_symbol :: string
  pc_text :: string

definition search_pipe_query_candidate_matches_term :: "pack_candidate \<Rightarrow> query_term \<Rightarrow> bool" where
  "search_pipe_query_candidate_matches_term candidate t \<longleftrightarrow>
     str_contains (to_ascii_lowercase (pc_symbol candidate)) (qt_lower t)
     \<or> str_contains (to_ascii_lowercase (pc_path candidate)) (qt_lower t)
     \<or> str_contains (to_ascii_lowercase (pc_text candidate)) (qt_lower t)"

definition search_pipe_clause_coverages :: "query_clause list \<Rightarrow> pack_candidate list \<Rightarrow> clause_coverage list" where
  "search_pipe_clause_coverages clauses candidates =
     map (\<lambda>(index, clause).
            let matched = map qt_lower (filter (\<lambda>t. list_ex (\<lambda>c. search_pipe_query_candidate_matches_term c t)
                            candidates) clause)
            in \<lparr> cc_id = index + 1, cc_matched = matched,
                 cc_missing = map qt_lower (filter (\<lambda>t. qt_lower t \<notin> set matched) clause) \<rparr>)
       (enumerate 0 clauses)"

definition search_pipe_role_terms :: "query_term list \<Rightarrow> pipe_term_role \<Rightarrow> string list" where
  "search_pipe_role_terms terms role = map qt_raw (filter (\<lambda>t. qt_role t = role) terms)"

definition search_pipe_next_query_pack_hint :: "string list \<Rightarrow> string list \<Rightarrow> string list \<Rightarrow> string option" where
  "search_pipe_next_query_pack_hint context_terms owner_seed_terms concept_terms =
     (if length owner_seed_terms < 2 then None
      else
        (let clauses = [str_join '' '' owner_seed_terms]
             @ (if list_ex (\<lambda>t. eq_ignore_ascii_case t ''concurrency'') concept_terms
                then [''concurrency runtime scheduling'']
                else if concept_terms \<noteq> [] then [str_join '' '' concept_terms] else [])
             @ (if list_ex (\<lambda>t. eq_ignore_ascii_case t ''Scope'') owner_seed_terms
                then [''Scope lifecycle''] else [])
             @ (if list_ex (\<lambda>t. eq_ignore_ascii_case t ''Queue'') owner_seed_terms
                   \<and> list_ex (\<lambda>t. eq_ignore_ascii_case t ''Stream'') owner_seed_terms
                then [''Queue Stream backpressure''] else [])
         in Some (str_join ''|''
              (if length clauses = 1 \<and> context_terms \<noteq> [] then clauses @ [str_join '' '' context_terms]
               else clauses))))"
subsection \<open>Evidence of a candidate for a term\<close>

record evidence_candidate =
  ec_path :: string
  ec_line :: nat
  ec_symbol :: string
  ec_text :: string
  ec_source :: string

definition search_pipe_is_high_value_term :: "query_term \<Rightarrow> bool" where
  "search_pipe_is_high_value_term t \<longleftrightarrow> qt_role t = Role_Symbol"

definition search_pipe_weak_match :: "evidence_candidate \<Rightarrow> query_term \<Rightarrow> bool" where
  "search_pipe_weak_match candidate t \<longleftrightarrow>
     str_contains (to_ascii_lowercase (ec_symbol candidate)) (qt_lower t)
     \<or> str_contains (to_ascii_lowercase (ec_path candidate)) (qt_lower t)
     \<or> str_contains (to_ascii_lowercase (ec_text candidate)) (qt_lower t)"

definition is_identifier_char :: "char \<Rightarrow> bool" where
  "is_identifier_char c \<longleftrightarrow> c = CHR ''_'' \<or> is_ascii_alphanumeric c"

definition identifier_tokens :: "string \<Rightarrow> string list" where
  "identifier_tokens s = filter (\<lambda>part. part \<noteq> []) (split_by (\<lambda>c. \<not> is_identifier_char c) s)"

definition path_stem_tokens :: "string \<Rightarrow> string list" where
  "path_stem_tokens path =
     map to_ascii_lowercase (filter (\<lambda>part. part \<noteq> []) (concat (map (\<lambda>part.
       split_by (\<lambda>c. \<not> (is_identifier_char c \<or> c = CHR ''-''))
         (case rsplit_once ''.'' part of Some (stem, _) \<Rightarrow> stem | None \<Rightarrow> part))
       (slash_parts path))))"

definition search_pipe_path_exact_match :: "evidence_candidate \<Rightarrow> query_term \<Rightarrow> bool" where
  "search_pipe_path_exact_match candidate t \<longleftrightarrow> qt_lower t \<in> set (path_stem_tokens (ec_path candidate))"

definition declaration_keywords :: "string \<Rightarrow> string list" where
  "declaration_keywords language_id =
     (if language_id = ''rust''
      then [''fn'', ''struct'', ''enum'', ''trait'', ''type'', ''mod'', ''const'', ''static'', ''impl'']
      else if language_id = ''typescript''
      then [''export'', ''const'', ''function'', [CHR ''c''] @ ''lass'', ''interface'', ''type'', ''namespace'', ''enum'']
      else if language_id = ''python'' then [''def'', [CHR ''c''] @ ''lass'']
      else if language_id = ''julia'' then [''function'', ''struct'', ''module'', ''const'']
      else [])"

definition search_pipe_declaration_header_match :: "string \<Rightarrow> evidence_candidate \<Rightarrow> query_term \<Rightarrow> bool" where
  "search_pipe_declaration_header_match language_id candidate t \<longleftrightarrow>
     (let tokens = identifier_tokens (ec_text candidate)
      in qt_raw t \<in> set tokens \<and> list_ex (\<lambda>token. token \<in> set (declaration_keywords language_id)) tokens)"

definition owner_local_symbol_exact_match :: "evidence_candidate \<Rightarrow> query_term \<Rightarrow> bool" where
  "owner_local_symbol_exact_match candidate t \<longleftrightarrow>
     ec_source candidate \<notin> set [''search-overlay'', ''finder'', ''finder-path'', ''fd-query'', ''rg-query'', ''ingest'']
     \<and> ec_symbol candidate = qt_raw t"

definition owner_fragment_matches :: "evidence_candidate \<Rightarrow> string \<Rightarrow> bool" where
  "owner_fragment_matches candidate fragment \<longleftrightarrow>
     to_ascii_lowercase fragment \<in> set (path_stem_tokens (ec_path candidate))
     \<or> fragment \<in> set (identifier_tokens (ec_text candidate))"

text \<open>\<open>split("::")\<close>: the pieces between the non-overlapping occurrences, from the left.\<close>

function split_str :: "string \<Rightarrow> string \<Rightarrow> string list" where
  "split_str sep s =
     (case split_once sep s of
        Some (piece, rest) \<Rightarrow> if sep = [] then [s] else piece # split_str sep rest
      | None \<Rightarrow> [s])"
  by pat_completeness auto
termination
  by (relation "measure (\<lambda>(sep, s). length s)") (auto dest!: split_once_length simp: neq_Nil_conv)

declare split_str.simps [simp del]

definition rust_path_compound_match :: "string \<Rightarrow> evidence_candidate \<Rightarrow> query_term \<Rightarrow> bool" where
  "rust_path_compound_match language_id candidate t \<longleftrightarrow>
     language_id = ''rust'' \<and> str_contains (qt_raw t) ''::''
     \<and> (let parts = split_str ''::'' (qt_raw t)
        in 2 \<le> length parts \<and> [] \<notin> set parts
           \<and> list_ex (owner_fragment_matches candidate) (butlast parts)
           \<and> search_pipe_declaration_header_match language_id candidate
               \<lparr> qt_raw = last parts, qt_lower = to_ascii_lowercase (last parts), qt_role = Role_Concept \<rparr>)"

definition search_pipe_strong_match :: "string \<Rightarrow> evidence_candidate \<Rightarrow> query_term \<Rightarrow> bool" where
  "search_pipe_strong_match language_id candidate t \<longleftrightarrow>
     qt_role t \<noteq> Role_Context
     \<and> (search_pipe_path_exact_match candidate t
        \<or> search_pipe_declaration_header_match language_id candidate t
        \<or> rust_path_compound_match language_id candidate t
        \<or> owner_local_symbol_exact_match candidate t)"

definition search_pipe_high_value_matches ::
    "query_term list \<Rightarrow> evidence_candidate list \<Rightarrow> (evidence_candidate \<Rightarrow> query_term \<Rightarrow> bool) \<Rightarrow> string list" where
  "search_pipe_high_value_matches terms candidates matches =
     map qt_raw (filter (\<lambda>t. search_pipe_is_high_value_term t \<and> list_ex (\<lambda>c. matches c t) candidates) terms)"

definition search_pipe_high_value_missing :: "query_term list \<Rightarrow> string list \<Rightarrow> string list" where
  "search_pipe_high_value_missing terms matched =
     map qt_raw (filter (\<lambda>t. search_pipe_is_high_value_term t \<and> qt_raw t \<notin> set matched) terms)"

text \<open>Distinct values in order of first appearance, at most \<open>limit\<close> of them (the argument is what was seen).\<close>

fun distinct_take :: "string list \<Rightarrow> nat \<Rightarrow> string list \<Rightarrow> string list" where
  "distinct_take seen limit [] = []"
| "distinct_take seen limit (x # xs) =
     (if limit = 0 then []
      else if x \<in> set seen then distinct_take seen limit xs
      else x # distinct_take (x # seen) (limit - 1) xs)"

definition search_pipe_handle_paths :: "evidence_candidate list \<Rightarrow> (evidence_candidate \<Rightarrow> bool) \<Rightarrow> string list" where
  "search_pipe_handle_paths candidates include = distinct_take [] 6 (map ec_path (filter include candidates))"

fun parser_handles_loop ::
    "string \<Rightarrow> query_term list \<Rightarrow> string list \<Rightarrow> nat \<Rightarrow> evidence_candidate list \<Rightarrow> string list" where
  "parser_handles_loop language_id terms seen limit [] = []"
| "parser_handles_loop language_id terms seen limit (c # cs) =
     (if limit = 0 then []
      else (case find (\<lambda>t. search_pipe_is_high_value_term t
                           \<and> search_pipe_declaration_header_match language_id c t) terms of
              None \<Rightarrow> parser_handles_loop language_id terms seen limit cs
            | Some t \<Rightarrow>
                if qt_raw t \<in> set seen then parser_handles_loop language_id terms seen limit cs
                else (qt_raw t @ ''@'' @ ec_path c @ '':'' @ show_nat (ec_line c))
                     # parser_handles_loop language_id terms (qt_raw t # seen) (limit - 1) cs))"

definition search_pipe_parser_handles :: "string \<Rightarrow> evidence_candidate list \<Rightarrow> query_term list \<Rightarrow> string list" where
  "search_pipe_parser_handles language_id candidates terms = parser_handles_loop language_id terms [] 6 candidates"

definition search_pipe_search_overlay_handles :: "evidence_candidate list \<Rightarrow> query_term list \<Rightarrow> string list" where
  "search_pipe_search_overlay_handles candidates terms =
     map qt_raw (filter (\<lambda>t. list_ex (\<lambda>c. ec_source c = ''search-overlay'' \<and> search_pipe_weak_match c t) candidates)
       terms)"

subsection \<open>Packages of the candidates\<close>

definition query_wrapper_package_key :: "string \<Rightarrow> string" where
  "query_wrapper_package_key path =
     (let parts = slash_parts path
      in case position (\<lambda>part. part = ''packages'') parts of
           Some index \<Rightarrow> str_join ''/'' (take 3 (drop index parts))
         | None \<Rightarrow> str_join ''/'' (take 2 (filter (\<lambda>part. part \<noteq> [] \<and> part \<noteq> ''.'') parts)))"

definition search_pipe_weak_reason :: "query_term \<Rightarrow> evidence_candidate list \<Rightarrow> string" where
  "search_pipe_weak_reason t candidates =
     (let matched = filter (\<lambda>c. search_pipe_weak_match c t) candidates;
          packages = sort_dedup (map (\<lambda>c. query_wrapper_package_key (ec_path c)) matched);
          reasons =
            (if list_ex (\<lambda>c. ec_symbol c = qt_lower t \<and> ec_symbol c \<noteq> qt_raw t) matched
             then [''lowercase-symbol''] else [])
            @ (if list_ex (\<lambda>c. list_ex (\<lambda>part. str_contains part (qt_raw t) \<and> part \<noteq> qt_raw t)
                     (split_whitespace (ec_text c))) matched
               then [''field-substring''] else [])
            @ (if 1 < length packages then [''package-drift''] else [])
      in str_join ''+'' (if reasons = [] then [''lexical-match''] else reasons))"
subsection \<open>Quality of a pack\<close>

text \<open>A cohesion term is the pair of its raw and lower-case text.\<close>

type_synonym cohesion_term = "string \<times> string"

definition search_pipe_candidate_packages :: "string list \<Rightarrow> string list" where
  "search_pipe_candidate_packages paths = sort (distinct_take [] 6 (map query_wrapper_package_key paths))"

definition is_search_pipe_package_axis_term :: "string \<Rightarrow> bool" where
  "is_search_pipe_package_axis_term raw \<longleftrightarrow>
     2 \<le> length (filter (\<lambda>c. c = CHR ''-'') raw) \<and> raw \<noteq> ''long-field-signatures''"

definition matched_hits :: "string list option \<Rightarrow> cohesion_term list \<Rightarrow> nat" where
  "matched_hits best_owner_matched terms =
     (case best_owner_matched of
        None \<Rightarrow> 0
      | Some matched \<Rightarrow> length (filter (\<lambda>t. snd t \<in> set matched) terms))"

definition search_pipe_package_cohesion :: "string list \<Rightarrow> string list option \<Rightarrow> cohesion_term list \<Rightarrow> string" where
  "search_pipe_package_cohesion packages best_owner_matched high_value_terms =
     (let high_value_count = max (length high_value_terms) 1;
          best_owner_high_value_hits = matched_hits best_owner_matched high_value_terms;
          package_axis_terms = filter (\<lambda>t. is_search_pipe_package_axis_term (fst t)) high_value_terms;
          best_owner_package_axis_hits = matched_hits best_owner_matched package_axis_terms;
          has_strong_owner_anchor = (2 \<le> length high_value_terms
                                     \<and> length high_value_terms \<le> best_owner_high_value_hits)
      in if (1 < length package_axis_terms \<and> best_owner_package_axis_hits < length package_axis_terms)
            \<or> (3 < length packages \<and> \<not> has_strong_owner_anchor)
            \<or> best_owner_high_value_hits * 2 < high_value_count
         then ''low''
         else if 1 < length packages then ''medium'' else ''high'')"

definition high_value_term_count :: "query_term list \<Rightarrow> nat" where
  "high_value_term_count terms = length (filter search_pipe_is_high_value_term terms)"

definition search_pipe_quality_risks ::
    "query_term list \<Rightarrow> string list \<Rightarrow> string list \<Rightarrow> string list \<Rightarrow> string list \<Rightarrow> string \<Rightarrow> nat \<Rightarrow> string list" where
  "search_pipe_quality_risks terms candidate_texts global_missing strong_matched weak_terms package_cohesion
     clause_count =
     (if clause_count = 1 \<and> 5 \<le> length terms \<and> 3 \<le> high_value_term_count terms
      then [''single-broad-clause''] else [])
     @ (if global_missing = [] \<and> weak_terms \<noteq> [] then [''coverage-inflation''] else [])
     @ (if package_cohesion = ''low'' then [''package-drift''] else [])
     @ (if list_ex search_pipe_is_high_value_term terms \<and> weak_terms \<noteq> [] then [''weak-camelcase-match''] else [])
     @ (if list_ex (\<lambda>t. 160 < length t \<or> str_contains t newline) candidate_texts
        then [''long-field-signatures''] else [])
     @ (if strong_matched = [] \<and> 1 < high_value_term_count terms then [''no-strong-symbol-coverage''] else [])"

definition search_pipe_query_pack_quality ::
    "query_term list \<Rightarrow> string list \<Rightarrow> string list \<Rightarrow> string list \<Rightarrow> string" where
  "search_pipe_query_pack_quality terms global_missing weak_terms risks =
     (if list_ex (\<lambda>r. r \<in> set [''single-broad-clause'', ''package-drift'', ''no-strong-symbol-coverage'']) risks
      then ''low''
      else if weak_terms = [] \<and> global_missing = [] then ''high''
      else if terms = [] then ''low''
      else ''medium'')"

definition search_pipe_fd_owner_axis_term :: "string \<Rightarrow> bool" where
  "search_pipe_fd_owner_axis_term t \<longleftrightarrow>
     (let lower = to_ascii_lowercase t
      in 4 \<le> length lower
         \<and> lower \<notin> set [''query'', ''search'', ''pipe'', ''fd'', ''rg'', ''owner'', ''owners'', ''graph'', ''turbo'',
              ''command'', ''commands'', ''frontier'', ''frontiers'', ''action'', ''actions'', ''result'',
              ''results'', ''quality'', ''wide'', ''drift'', ''handoff'']
         \<and> list_all (\<lambda>c. c = CHR ''.'' \<or> c = CHR ''_'' \<or> c = CHR ''-'' \<or> is_ascii_alphanumeric c) t)"

definition search_pipe_fd_query_terms ::
    "query_term list \<Rightarrow> string list \<Rightarrow> string list \<Rightarrow> string list \<Rightarrow> string option" where
  "search_pipe_fd_query_terms terms weak_terms strong_matched risks =
     (let symbol_terms = map qt_raw (filter (\<lambda>t. qt_role t = Role_Symbol
                           \<and> (weak_terms = [] \<or> qt_raw t \<in> set weak_terms \<or> qt_raw t \<in> set strong_matched))
                           terms)
      in if symbol_terms \<noteq> [] then Some (str_join ''|'' symbol_terms)
         else if \<not> list_ex (\<lambda>r. r = ''single-broad-clause'' \<or> r = ''package-drift'') risks then None
         else (let owner_axis_terms = take 8 (map qt_raw (filter (\<lambda>t. qt_role t \<noteq> Role_Symbol
                                        \<and> search_pipe_fd_owner_axis_term (qt_raw t)) terms))
               in if owner_axis_terms = [] then None else Some (str_join ''|'' owner_axis_terms)))"

definition search_pipe_missing_path_terms :: "query_term list \<Rightarrow> string list \<Rightarrow> string list" where
  "search_pipe_missing_path_terms terms global_matched =
     map qt_raw (filter (\<lambda>t. search_pipe_is_path_like_token (qt_raw t) \<and> qt_raw t \<notin> set global_matched) terms)"

definition search_pipe_owner_seed_terms :: "query_term list \<Rightarrow> string list \<Rightarrow> string list" where
  "search_pipe_owner_seed_terms terms missing_path_terms =
     filter (\<lambda>t. \<not> search_pipe_is_path_like_token t \<and> t \<notin> set missing_path_terms)
       (search_pipe_role_terms terms Role_Symbol)"

subsection \<open>The query wrapper\<close>

record wrapper_clause =
  wc_id :: nat
  wc_raw :: string
  wc_terms :: "string list"
  wc_axis_terms :: "string list"

text \<open>
  The words of an identifier.  Upper and lower case are those of Unicode in the source; the argument \<open>uc\<close> gives the
  three character tests of the library on scalar values.
\<close>

record unicode_tests =
  u_alphanumeric :: "string \<Rightarrow> bool"
  u_uppercase :: "string \<Rightarrow> bool"
  u_lowercase :: "string \<Rightarrow> bool"

definition push_component :: "string list \<Rightarrow> string \<Rightarrow> string list" where
  "push_component components current = (if current = [] then components else components @ [current])"

definition uppercase_boundary :: "unicode_tests \<Rightarrow> string option \<Rightarrow> string \<Rightarrow> string option \<Rightarrow> bool" where
  "uppercase_boundary uc previous ch next_ch \<longleftrightarrow>
     u_uppercase uc ch
     \<and> (case previous of
          None \<Rightarrow> False
        | Some p \<Rightarrow> u_lowercase uc p \<or> (case p of [d] \<Rightarrow> is_ascii_digit d | _ \<Rightarrow> False)
            \<or> (u_uppercase uc p \<and> (case next_ch of None \<Rightarrow> False | Some n \<Rightarrow> u_lowercase uc n)))"

fun identifier_components_loop ::
    "unicode_tests \<Rightarrow> string option \<Rightarrow> string list \<Rightarrow> string list \<Rightarrow> string \<Rightarrow> string list" where
  "identifier_components_loop uc previous [] components current = push_component components current"
| "identifier_components_loop uc previous (ch # chs) components current =
     (if \<not> u_alphanumeric uc ch
      then identifier_components_loop uc (Some ch) chs (push_component components current) []
      else if uppercase_boundary uc previous ch (get_at chs 0)
      then identifier_components_loop uc (Some ch) chs (push_component components current) (to_ascii_lowercase ch)
      else identifier_components_loop uc (Some ch) chs components (current @ to_ascii_lowercase ch))"

definition wrapper_identifier_components :: "unicode_tests \<Rightarrow> string \<Rightarrow> string list" where
  "wrapper_identifier_components uc raw = identifier_components_loop uc None (rust_chars raw) [] []"

definition query_wrapper_tokens :: "string \<Rightarrow> string list" where
  "query_wrapper_tokens raw =
     filter (\<lambda>t. t \<noteq> []) (map str_trim (split_scalars (\<lambda>ch. ch = ''|'' \<or> ch = '','' \<or> is_whitespace ch) raw))"

definition axis_terms_of_token :: "unicode_tests \<Rightarrow> string \<Rightarrow> string list" where
  "axis_terms_of_token uc token =
     (let normalized = to_ascii_lowercase token
      in normalized # filter (\<lambda>c. 2 \<le> length c \<and> c \<noteq> normalized) (wrapper_identifier_components uc token))"

definition query_wrapper_terms :: "string \<Rightarrow> string list" where
  "query_wrapper_terms raw = extend_unique [] (map to_ascii_lowercase (query_wrapper_tokens raw))"

definition query_wrapper_axis_terms :: "unicode_tests \<Rightarrow> string \<Rightarrow> string list" where
  "query_wrapper_axis_terms uc raw =
     extend_unique [] (concat (map (axis_terms_of_token uc) (query_wrapper_tokens raw)))"

definition query_wrapper_clauses :: "unicode_tests \<Rightarrow> string list \<Rightarrow> wrapper_clause list" where
  "query_wrapper_clauses uc queries =
     List.map_filter (\<lambda>(index, raw). if query_wrapper_terms raw = [] then None
        else Some \<lparr> wc_id = index + 1, wc_raw = raw, wc_terms = query_wrapper_terms raw,
                    wc_axis_terms = query_wrapper_axis_terms uc raw \<rparr>)
       (enumerate 0 queries)"

definition query_wrapper_unique_clause_terms :: "wrapper_clause list \<Rightarrow> string list" where
  "query_wrapper_unique_clause_terms clauses = extend_unique [] (concat (map wc_terms clauses))"

definition query_wrapper_unique_take :: "string list \<Rightarrow> nat \<Rightarrow> string list" where
  "query_wrapper_unique_take items limit = distinct_take [] limit (filter (\<lambda>v. v \<noteq> []) items)"

definition query_wrapper_package_clusters_from_paths :: "string list \<Rightarrow> string list" where
  "query_wrapper_package_clusters_from_paths paths =
     query_wrapper_unique_take (map query_wrapper_package_key paths) 6"

definition query_wrapper_package_clusters :: "pack_candidate list \<Rightarrow> string list" where
  "query_wrapper_package_clusters candidates =
     query_wrapper_unique_take (map (\<lambda>c. query_wrapper_package_key (pc_path c)) candidates) 6"

definition query_wrapper_owner_candidates :: "string list \<Rightarrow> string list" where
  "query_wrapper_owner_candidates paths = query_wrapper_unique_take paths 8"

definition query_wrapper_rg_scope_next :: "string list \<Rightarrow> string list" where
  "query_wrapper_rg_scope_next paths =
     query_wrapper_unique_take (filter (\<lambda>p. p \<noteq> []) (map query_wrapper_package_key paths)) 3"

definition query_wrapper_candidate_matches_term :: "pack_candidate \<Rightarrow> string \<Rightarrow> bool" where
  "query_wrapper_candidate_matches_term candidate t \<longleftrightarrow>
     str_contains (to_ascii_lowercase (pc_path candidate @ '' '' @ pc_symbol candidate @ '' '' @ pc_text candidate)) t"

definition query_wrapper_scope_quality :: "string list \<Rightarrow> string" where
  "query_wrapper_scope_quality scopes =
     (if scopes = [] \<or> list_ex (\<lambda>scope. scope = [] \<or> path_eq scope ''.'') scopes then ''low''
      else if length scopes = 1 then ''high'' else ''medium'')"

definition query_wrapper_clause_coverages :: "wrapper_clause list \<Rightarrow> pack_candidate list \<Rightarrow> clause_coverage list" where
  "query_wrapper_clause_coverages clauses candidates =
     map (\<lambda>clause.
            let matched = filter (\<lambda>t. list_ex (\<lambda>c. query_wrapper_candidate_matches_term c t) candidates)
                            (wc_terms clause)
            in \<lparr> cc_id = wc_id clause, cc_matched = matched,
                 cc_missing = filter (\<lambda>t. t \<notin> set matched) (wc_terms clause) \<rparr>) clauses"

definition is_query_wrapper_noise_path :: "string \<Rightarrow> bool" where
  "is_query_wrapper_noise_path path \<longleftrightarrow>
     (let lower = to_ascii_lowercase path
      in list_ex (\<lambda>area. str_contains lower (''/'' @ area) \<or> starts_with lower area)
           [''analyzers/'', ''notebooks/'', ''experiments/''])"

definition query_wrapper_noise_paths :: "pack_candidate list \<Rightarrow> string list" where
  "query_wrapper_noise_paths candidates =
     query_wrapper_unique_take
       (map (\<lambda>c. if query_wrapper_package_key (pc_path c) = [] then pc_path c
                 else query_wrapper_package_key (pc_path c))
         (filter (\<lambda>c. is_query_wrapper_noise_path (pc_path c)) candidates)) 6"

definition is_query_wrapper_generic_term :: "string \<Rightarrow> bool" where
  "is_query_wrapper_generic_term t \<longleftrightarrow>
     t \<in> set [''asp'', ''rg'', ''fd'', ''query'', ''search'', ''command'', ''config'', ''cache'', ''provider'',
              ''prefix'', ''scope'', ''owner'', ''package'', ''frontier'', ''noise'', ''policy'', ''stage'',
              ''activation'']"

record wrapper_quality =
  wq_query_pack_quality :: string
  wq_scope_quality :: string
  wq_package_cohesion :: string
  wq_packages :: "string list"
  wq_risks :: "string list"
  wq_noise :: "string list"
  wq_allow_query_selector :: bool
  wq_clause_coverages :: "clause_coverage list"

definition analyze_query_wrapper_quality ::
    "string list \<Rightarrow> wrapper_clause list \<Rightarrow> string list \<Rightarrow> pack_candidate list \<Rightarrow> wrapper_quality" where
  "analyze_query_wrapper_quality scopes clauses terms candidates =
     (let scope_quality = query_wrapper_scope_quality scopes;
          package_count = length (sort_dedup (filter (\<lambda>p. p \<noteq> [])
                            (map (\<lambda>c. query_wrapper_package_key (pc_path c)) candidates)));
          package_cohesion =
            (if candidates = [] \<or> package_count = 0 then ''low''
             else if package_count \<le> 1 then ''high''
             else if package_count \<le> 3 then ''medium'' else ''low'');
          clause_coverages = query_wrapper_clause_coverages clauses candidates;
          noise = query_wrapper_noise_paths candidates;
          single_or_clause = (length clauses = 1 \<and> 1 < length terms);
          generic_count = length (filter is_query_wrapper_generic_term terms);
          generic_ratio_high = (terms \<noteq> [] \<and> length terms * 2 \<le> generic_count * 5);
          all_clauses_covered = list_all (\<lambda>c. cc_matched c \<noteq> []) clause_coverages;
          flat_recall_risk = (single_or_clause
            \<and> (scope_quality = ''low'' \<or> 4 \<le> length terms \<or> package_cohesion = ''low''
               \<or> generic_ratio_high \<or> noise \<noteq> []));
          risks =
            (if candidates = [] then [''no-candidates''] else [])
            @ (if single_or_clause then [''single-flat-or-recall''] else [])
            @ (if scope_quality = ''low'' then [''broad-scope''] else [])
            @ (if package_cohesion = ''low'' then [''low-package-cohesion''] else [])
            @ (if \<not> all_clauses_covered then [''clause-missing''] else [])
            @ (if generic_ratio_high then [''generic-terms''] else [])
            @ (if noise \<noteq> [] then [''noisy-candidates''] else []);
          query_pack_quality =
            (if candidates = [] \<or> \<not> all_clauses_covered \<or> flat_recall_risk then ''low''
             else if 2 \<le> length clauses \<and> scope_quality = ''high'' \<and> package_cohesion = ''high'' then ''high''
             else ''medium'')
      in \<lparr> wq_query_pack_quality = query_pack_quality, wq_scope_quality = scope_quality,
           wq_package_cohesion = package_cohesion, wq_packages = query_wrapper_package_clusters candidates,
           wq_risks = risks, wq_noise = noise,
           wq_allow_query_selector = (2 \<le> length clauses \<and> query_pack_quality \<noteq> ''low''
                                      \<and> package_cohesion \<noteq> ''low''),
           wq_clause_coverages = clause_coverages \<rparr>)"
subsection \<open>The budget gate\<close>

record budget_block =
  bb_reason :: string
  bb_generic_terms :: "string list"
  bb_term_count :: nat

definition search_query_terms :: "string \<Rightarrow> string list" where
  "search_query_terms query =
     extend_unique [] (map to_ascii_lowercase
       (filter (\<lambda>t. t \<noteq> []) (map str_trim
         (split_scalars (\<lambda>ch. ch = ''|'' \<or> ch = '','' \<or> is_whitespace ch) query))))"

definition specific_search_term :: "string \<Rightarrow> bool" where
  "specific_search_term t \<longleftrightarrow>
     str_contains t ''.'' \<or> str_contains t ''/'' \<or> list_ex is_ascii_digit t \<or> str_contains t ''-''
     \<or> str_contains t ''_''"

definition broad_scope :: "string list \<Rightarrow> bool" where
  "broad_scope scopes \<longleftrightarrow>
     scopes = []
     \<or> list_ex (\<lambda>scope. path_eq scope ''.'' \<or> path_component_count scope \<le> 1
                 \<or> (path_name_extension scope = None \<and> path_component_count scope \<le> 2)) scopes"

definition generic_words :: "string list" where
  "generic_words =
     [''self'', ''old'', ''new'', ''source'', ''helper'', ''helpers'', ''comment'', ''comments'', ''style'',
      ''quality'', ''doc'', ''docs'', ''example'', ''examples'', ''test'', ''tests'', ''migrate'', ''migration'',
      ''apply'', ''engineer'', ''engineering'', ''search'', ''wrapper'', ''backend'', ''interface'', ''query'',
      ''budget'', ''gate'', ''broad'', ''generic'', ''input'', ''block'', ''provider'', ''finder'', ''coverage'',
      ''performance'']"

definition generic_search_term :: "string \<Rightarrow> bool" where
  "generic_search_term t \<longleftrightarrow>
     \<not> specific_search_term t \<and> (length (rust_chars t) \<le> 2 \<or> t \<in> set generic_words)"

definition search_terms_budget_block :: "string list \<Rightarrow> string list \<Rightarrow> bool \<Rightarrow> budget_block option" where
  "search_terms_budget_block terms scopes explicit_filters =
     (if explicit_filters \<or> terms = [] \<or> \<not> broad_scope scopes then None
      else
        (let generic_terms = filter generic_search_term terms;
             all_generic = (2 \<le> length terms \<and> length generic_terms = length terms);
             lacks_specific_anchor = (4 \<le> length terms \<and> \<not> list_ex specific_search_term terms);
             too_many_terms = (10 \<le> length terms \<and> 5 \<le> length generic_terms);
             generic_dominated = (5 \<le> length terms \<and> 5 \<le> length generic_terms
                                  \<and> length terms \<le> length generic_terms * 2)
         in then_some (all_generic \<or> lacks_specific_anchor \<or> too_many_terms \<or> generic_dominated)
              \<lparr> bb_reason = (if lacks_specific_anchor \<and> \<not> all_generic then ''query-needs-specific-anchor''
                            else ''query-too-broad''),
                bb_generic_terms = (if generic_terms = [] then take 6 terms else generic_terms),
                bb_term_count = length terms \<rparr>))"

definition search_query_budget_block :: "string \<Rightarrow> string list \<Rightarrow> bool \<Rightarrow> budget_block option" where
  "search_query_budget_block query scopes explicit_filters =
     search_terms_budget_block (search_query_terms query) scopes explicit_filters"

definition search_rg_terms_budget_block :: "string list \<Rightarrow> string list \<Rightarrow> bool \<Rightarrow> budget_block option" where
  "search_rg_terms_budget_block terms scopes explicit_filters =
     (if explicit_filters \<or> length terms < 5 \<or> \<not> broad_scope scopes then None
      else Some \<lparr> bb_reason = ''query-too-broad'', bb_generic_terms = take 6 terms, bb_term_count = length terms \<rparr>)"

subsection \<open>The first action\<close>

datatype seed_action_intent = Split_Query_Pack | Narrow_Owner_Scope

definition seed_action_of_plan :: "string \<Rightarrow> seed_action_intent option" where
  "seed_action_of_plan action =
     (if action = ''split-query-pack'' then Some Split_Query_Pack
      else if action = ''narrow-owner-scope'' then Some Narrow_Owner_Scope else None)"

datatype evidence_state =
  Evidence_Unknown | Known_Owner | Known_Symbol | Known_Selector | Known_Dependency | Known_Changed_File
  | Known_Failure

definition all_evidence_states :: "evidence_state list" where
  "all_evidence_states =
     [Evidence_Unknown, Known_Owner, Known_Symbol, Known_Selector, Known_Dependency, Known_Changed_File,
      Known_Failure]"

fun evidence_state_str :: "evidence_state \<Rightarrow> string" where
  "evidence_state_str Evidence_Unknown = ''unknown''"
| "evidence_state_str Known_Owner = ''known-owner''"
| "evidence_state_str Known_Symbol = ''known-symbol''"
| "evidence_state_str Known_Selector = ''known-selector''"
| "evidence_state_str Known_Dependency = ''known-dependency''"
| "evidence_state_str Known_Changed_File = ''known-changed-file''"
| "evidence_state_str Known_Failure = ''known-failure''"

fun allowed_first_stages :: "evidence_state \<Rightarrow> string list" where
  "allowed_first_stages Evidence_Unknown = [''project-topology'', ''prime'', ''seed'', ''pipe'']"
| "allowed_first_stages Known_Owner = [''owner-skeleton'', ''owner-items'', ''syntax-outline'']"
| "allowed_first_stages Known_Symbol = [''syntax-query'', ''owner-items'', ''item-skeleton'']"
| "allowed_first_stages Known_Selector = [''item-skeleton'', ''syntax-outline'', ''query-code'']"
| "allowed_first_stages Known_Dependency = [''dependency-topology'', ''import-usage'', ''owner-skeleton'']"
| "allowed_first_stages Known_Changed_File = [''owner-skeleton'', ''tests'', ''policy'']"
| "allowed_first_stages Known_Failure = [''failure-frontier'', ''tests'', ''owner-skeleton'']"

fun disallowed_first_stages :: "evidence_state \<Rightarrow> string list" where
  "disallowed_first_stages Evidence_Unknown = []"
| "disallowed_first_stages Known_Selector = [''prime'', ''seed'', ''fd-query'', ''broad-rg'']"
| "disallowed_first_stages _ = [''prime'', ''seed'']"

record action_selection =
  as_evidence_state :: evidence_state
  as_first_action_stage :: string
  as_allowed_first_stages :: "string list"
  as_disallowed_first_stages :: "string list"
  as_first_action_matches :: bool
  as_reasoning_tree_route_shown :: bool
  as_route_preconditions_met :: bool
  as_unnecessary_seed_count :: nat
  as_seed_when_known_owner_count :: nat
  as_seed_when_known_symbol_count :: nat
  as_seed_when_known_selector_count :: nat

definition select_first_action :: "evidence_state \<Rightarrow> string \<Rightarrow> action_selection" where
  "select_first_action state stage =
     (let matches = (stage \<in> set (allowed_first_stages state) \<and> stage \<notin> set (disallowed_first_stages state));
          seed_like = (stage = ''prime'' \<or> stage = ''seed'')
      in \<lparr> as_evidence_state = state, as_first_action_stage = stage,
           as_allowed_first_stages = allowed_first_stages state,
           as_disallowed_first_stages = disallowed_first_stages state,
           as_first_action_matches = matches, as_reasoning_tree_route_shown = True,
           as_route_preconditions_met = matches,
           as_unnecessary_seed_count = of_bool (seed_like \<and> \<not> matches),
           as_seed_when_known_owner_count = of_bool (seed_like \<and> state = Known_Owner),
           as_seed_when_known_symbol_count = of_bool (seed_like \<and> state = Known_Symbol),
           as_seed_when_known_selector_count = of_bool (seed_like \<and> state = Known_Selector) \<rparr>)"

record seed_phase_decision =
  sp_query_owner_anchor_budget :: nat
  sp_risk_factors :: "string list"

definition seed_decision_from_query_shape :: "bool \<Rightarrow> nat \<Rightarrow> nat \<Rightarrow> seed_phase_decision" where
  "seed_decision_from_query_shape query_seed_present query_term_count candidate_owner_count =
     (let is_flat_query = (6 \<le> query_term_count);
          has_owner_drift = (4 \<le> candidate_owner_count)
      in \<lparr> sp_query_owner_anchor_budget =
             (if query_seed_present \<and> is_flat_query \<and> has_owner_drift then 2 else 0),
           sp_risk_factors = (if is_flat_query then [''flat-query''] else [])
             @ (if has_owner_drift then [''owner-drift''] else []) \<rparr>)"

definition recommended_action_for_seed_risk :: "string \<Rightarrow> string option" where
  "recommended_action_for_seed_risk risk =
     map_of [(''empty-seed-frontier'', ''inspect-seed-extraction''),
             (''fallback-owner'', ''replace-fallback-owner-seed''),
             (''query-seed-missing'', ''propagate-query-seed''),
             (''flat-query'', ''split-query-pack''),
             (''owner-drift'', ''narrow-owner-scope'')] risk"

record seed_plan_input =
  si_query_present :: bool
  si_query_seed_present :: bool
  si_candidate_count :: nat
  si_candidate_owner_count :: nat
  si_query_owner_seed_count :: nat
  si_fallback_owner_seed_count :: nat
  si_seed_ids :: "string list"
  si_seed_decision :: seed_phase_decision

definition seed_plan_risks :: "seed_plan_input \<Rightarrow> string list" where
  "seed_plan_risks input =
     (if si_seed_ids input = [] then [''empty-seed-frontier''] else [])
     @ (if 0 < si_fallback_owner_seed_count input then [''fallback-owner''] else [])
     @ (if si_query_present input \<and> \<not> si_query_seed_present input then [''query-seed-missing''] else [])
     @ sp_risk_factors (si_seed_decision input)"

definition seed_plan_actions :: "string list \<Rightarrow> string list" where
  "seed_plan_actions risks =
     (if risks = [] then [''keep-query-seed'']
      else List.map_filter recommended_action_for_seed_risk risks)"

definition json_of_strings :: "string list \<Rightarrow> json" where
  "json_of_strings xs = JArray (map JString xs)"

definition graph_turbo_seed_plan :: "seed_plan_input \<Rightarrow> json" where
  "graph_turbo_seed_plan input =
     (let reason = (if si_query_seed_present input then ''query''
                    else if 0 < si_fallback_owner_seed_count input then ''fallback-owner'' else ''empty'');
          risk_factors = seed_plan_risks input;
          seed_quality = (if si_seed_ids input = [] then ''fail''
                          else if risk_factors = [] then ''good'' else ''review'');
          selection = select_first_action Evidence_Unknown ''seed''
      in JObject
          [(''phase'', JString ''seed-query''), (''algorithm'', JString ''asp-search-pipe-v1''),
           (''reason'', JString reason), (''seedQuality'', JString seed_quality),
           (''queryPresent'', JBool (si_query_present input)),
           (''querySeedPresent'', JBool (si_query_seed_present input)),
           (''candidateCount'', JInt (int (si_candidate_count input))),
           (''candidateOwnerCount'', JInt (int (si_candidate_owner_count input))),
           (''queryOwnerSeedCount'', JInt (int (si_query_owner_seed_count input))),
           (''fallbackOwnerSeedCount'', JInt (int (si_fallback_owner_seed_count input))),
           (''selectedSeedCount'', JInt (int (length (si_seed_ids input)))),
           (''seedIds'', json_of_strings (si_seed_ids input)),
           (''riskFactors'', json_of_strings risk_factors),
           (''recommendedActions'', json_of_strings (seed_plan_actions risk_factors)),
           (''selectionPolicy'', JObject
             [(''flow'', JString ''evidence-state-reasoning-tree''),
              (''evidenceState'', JString (evidence_state_str (as_evidence_state selection))),
              (''knownEvidenceStates'', json_of_strings (map evidence_state_str all_evidence_states)),
              (''firstActionStage'', JString (as_first_action_stage selection)),
              (''allowedFirstStages'', json_of_strings (as_allowed_first_stages selection)),
              (''disallowedFirstStages'', json_of_strings (as_disallowed_first_stages selection)),
              (''firstActionMatchesEvidenceState'', JBool (as_first_action_matches selection)),
              (''reasoningTreeRouteShown'', JBool (as_reasoning_tree_route_shown selection)),
              (''chosenRoutePreconditionsMet'', JBool (as_route_preconditions_met selection)),
              (''unnecessarySeedCount'', JInt (int (as_unnecessary_seed_count selection))),
              (''seedWhenKnownOwnerCount'', JInt (int (as_seed_when_known_owner_count selection))),
              (''seedWhenKnownSymbolCount'', JInt (int (as_seed_when_known_symbol_count selection))),
              (''seedWhenKnownSelectorCount'',
                JInt (int (as_seed_when_known_selector_count selection)))])])"
subsection \<open>A query pack keeps the terms that carry meaning\<close>

definition explicit_query_clauses :: "string \<Rightarrow> string \<Rightarrow> query_clause list" where
  "explicit_query_clauses language_id query =
     filter (\<lambda>clause. clause \<noteq> [])
       (map (search_pipe_query_terms language_id)
         (filter (\<lambda>clause. clause \<noteq> []) (map str_trim (split_by (\<lambda>c. c = CHR ''|'') query))))"

lemma concat_nonempty: "concat (filter (\<lambda>xs. xs \<noteq> []) xss) = concat xss"
  by (induction xss) auto

definition meaningful :: "query_clause list \<Rightarrow> query_term multiset" where
  "meaningful clauses = mset (filter (\<lambda>t. qt_role t \<noteq> Role_Context) (concat clauses))"

lemma parts_meaningful:
  fixes xs :: "query_term list"
  shows "mset (filter (\<lambda>t. qt_role t \<noteq> Role_Context)
      (filter P xs @ filter K (filter (\<lambda>t. \<not> P t) xs)
       @ filter (\<lambda>t. qt_role t = Role_Symbol) (filter (\<lambda>t. \<not> K t) (filter (\<lambda>t. \<not> P t) xs))
       @ filter (\<lambda>t. qt_role t = Role_Concept) (filter (\<lambda>t. \<not> K t) (filter (\<lambda>t. \<not> P t) xs)))) =
    mset (filter (\<lambda>t. qt_role t \<noteq> Role_Context) xs)"
proof (induction xs)
  case (Cons t xs)
  then show ?case by (cases "qt_role t") (auto simp del: mset_filter filter_filter)
qed simp

lemma auto_clauses_meaningful:
  "meaningful (auto_query_clauses explicit) = meaningful explicit
   \<and> ([] \<notin> set explicit \<longrightarrow> [] \<notin> set (auto_query_clauses explicit))"
proof (cases "\<exists>single. explicit = [single] \<and> 6 \<le> length single")
  case True
  then obtain single where single: "explicit = [single]" "6 \<le> length single" by blast
  let ?clauses = "filter (\<lambda>terms. terms \<noteq> []) (clause_parts single)"
  have "meaningful (clause_parts single) = meaningful explicit"
    using parts_meaningful [where P = "\<lambda>t. search_pipe_is_path_like_token (qt_raw t)"
        and K = "\<lambda>t. is_package_like_token (qt_raw t)" and xs = single]
    by (simp add: meaningful_def clause_parts_def Let_def single del: mset_filter filter_filter filter_append)
  then have "meaningful ?clauses = meaningful explicit" by (simp only: meaningful_def concat_nonempty)
  moreover have "auto_query_clauses explicit = ?clauses \<or> auto_query_clauses explicit = explicit"
    using single by (simp add: auto_query_clauses_def Let_def)
  moreover have "[] \<notin> set ?clauses" by simp
  ultimately show ?thesis by metis
next
  case False
  then have "auto_query_clauses explicit = explicit"
    by (auto simp: auto_query_clauses_def split: list.split)
  then show ?thesis by simp
qed

lemma push_term_distinct:
  "distinct (map qt_raw terms) \<Longrightarrow> distinct (map qt_raw (push_term terms t))"
  by (auto simp: push_term_def list_ex_iff)

lemma foldl_push_term_distinct:
  "distinct (map qt_raw terms) \<Longrightarrow> distinct (map qt_raw (foldl push_term terms ts))"
  by (induction ts arbitrary: terms) (simp_all add: push_term_distinct)

lemma foldl_push_term_raws:
  "qt_raw ` set (foldl push_term terms ts) = qt_raw ` set terms \<union> qt_raw ` set ts"
proof (induction ts arbitrary: terms)
  case (Cons t ts)
  have "qt_raw ` set (push_term terms t) = insert (qt_raw t) (qt_raw ` set terms)"
    by (auto simp: push_term_def list_ex_iff) (metis imageI)
  then show ?case using Cons by auto
qed simp


text \<open>Context words of a long query that also names something are in no clause.\<close>

lemma long_query_drops_context:
  "map (map qt_raw) (search_pipe_query_clauses ''rust'' ''where is the Parser of a b/c.rs'') =
     [[''b/c.rs''], [''Parser''], [''is'', ''of'']]"
  by code_simp

subsection \<open>Coverage and the gate of the selector\<close>

lemma mset_filter_partition: "mset (filter P xs) + mset (filter (\<lambda>x. \<not> P x) xs) = mset xs"
  by (induction xs) auto

lemma pack_coverage_partition:
  "mset (cc_matched c @ cc_missing c) = mset (map qt_lower clause)"
  if "c = (let matched = map qt_lower (filter (\<lambda>t. list_ex (\<lambda>c. search_pipe_query_candidate_matches_term c t)
             candidates) clause)
           in \<lparr> cc_id = i, cc_matched = matched,
                cc_missing = map qt_lower (filter (\<lambda>t. qt_lower t \<notin> set matched) clause) \<rparr>)"
proof -
  let ?P = "\<lambda>t. list_ex (\<lambda>c. search_pipe_query_candidate_matches_term c t) candidates"
  have lower: "?P t = ?P u" if "qt_lower t = qt_lower u" for t u
    using that by (simp add: search_pipe_query_candidate_matches_term_def)
  have "qt_lower t \<in> set (map qt_lower (filter ?P clause)) \<longleftrightarrow> ?P t" if "t \<in> set clause" for t
  proof
    assume "qt_lower t \<in> set (map qt_lower (filter ?P clause))"
    then obtain u where "?P u" "qt_lower t = qt_lower u" by (auto simp: image_iff)
    then show "?P t" using lower by blast
  qed (use that in simp)
  then have "filter (\<lambda>t. qt_lower t \<notin> set (map qt_lower (filter ?P clause))) clause = filter (\<lambda>t. \<not> ?P t) clause"
    by (intro filter_cong) blast+
  then show ?thesis
    using mset_filter_partition [of ?P clause] unfolding that Let_def
    by (simp del: mset_filter flip: image_mset_union)
qed

lemma wrapper_coverage_partition:
  "c \<in> set (query_wrapper_clause_coverages clauses candidates) \<Longrightarrow>
   \<exists>clause \<in> set clauses. cc_id c = wc_id clause \<and> mset (cc_matched c @ cc_missing c) = mset (wc_terms clause)
     \<and> set (cc_matched c) = {t \<in> set (wc_terms clause). \<exists>k \<in> set candidates. query_wrapper_candidate_matches_term k t}"
proof -
  assume "c \<in> set (query_wrapper_clause_coverages clauses candidates)"
  then obtain clause where clause: "clause \<in> set clauses"
    and c: "c = (let matched = filter (\<lambda>t. list_ex (\<lambda>k. query_wrapper_candidate_matches_term k t) candidates)
                            (wc_terms clause)
            in \<lparr> cc_id = wc_id clause, cc_matched = matched,
                 cc_missing = filter (\<lambda>t. t \<notin> set matched) (wc_terms clause) \<rparr>)"
    by (auto simp: query_wrapper_clause_coverages_def)
  let ?P = "\<lambda>t. list_ex (\<lambda>k. query_wrapper_candidate_matches_term k t) candidates"
  have "filter (\<lambda>t. t \<notin> set (filter ?P (wc_terms clause))) (wc_terms clause) = filter (\<lambda>t. \<not> ?P t) (wc_terms clause)"
    by (rule filter_cong) auto
  then have "mset (cc_matched c @ cc_missing c) = mset (wc_terms clause)"
    using mset_filter_partition [of ?P "wc_terms clause"] by (simp add: c Let_def del: mset_filter)
  then show ?thesis using clause by (intro bexI [of _ clause]) (auto simp: c Let_def list_ex_iff)
qed
definition every_clause_matched :: "wrapper_clause list \<Rightarrow> pack_candidate list \<Rightarrow> bool" where
  "every_clause_matched clauses candidates \<longleftrightarrow>
     list_all (\<lambda>clause. list_ex (\<lambda>t. list_ex (\<lambda>k. query_wrapper_candidate_matches_term k t) candidates)
       (wc_terms clause)) clauses"

definition candidate_package_count :: "pack_candidate list \<Rightarrow> nat" where
  "candidate_package_count candidates = card (set (map (\<lambda>c. query_wrapper_package_key (pc_path c)) candidates) - {[]})"

lemma all_clauses_covered_iff:
  "list_all (\<lambda>c. cc_matched c \<noteq> []) (query_wrapper_clause_coverages clauses candidates)
   \<longleftrightarrow> every_clause_matched clauses candidates"
  by (auto simp: query_wrapper_clause_coverages_def every_clause_matched_def list_all_iff list_ex_iff Let_def
      filter_empty_conv)

lemma package_count_card:
  "length (sort_dedup (filter (\<lambda>p. p \<noteq> []) (map (\<lambda>c. query_wrapper_package_key (pc_path c)) candidates)))
   = candidate_package_count candidates"
proof -
  have "card (set xs) = length (sort_dedup xs)" for xs :: "string list"
    using distinct_card [OF distinct_sort_dedup, of xs] by simp
  from this [symmetric] show ?thesis
    by (simp add: candidate_package_count_def set_diff_eq)
qed

text \<open>
  C34: a query selector is allowed exactly when the pack has at least two clauses, each of them has a term that some
  candidate matches, and the candidates lie in one to three packages; the coverage reported for a clause splits its
  terms into those that a candidate matches and the others.
\<close>

theorem selector_gate_exact:
  "wq_allow_query_selector (analyze_query_wrapper_quality scopes clauses terms candidates)
   \<longleftrightarrow> 2 \<le> length clauses \<and> every_clause_matched clauses candidates
       \<and> 1 \<le> candidate_package_count candidates \<and> candidate_package_count candidates \<le> 3"
proof -
  let ?n = "candidate_package_count candidates"
  have n0: "candidates = [] \<Longrightarrow> ?n = 0" by (simp add: candidate_package_count_def)
  show ?thesis
  proof (cases "2 \<le> length clauses")
    case True
    then have "length clauses \<noteq> 1" by simp
    then show ?thesis
      using True n0
      by (cases "candidates = []"; cases "every_clause_matched clauses candidates"; cases "?n = 0";
          cases "?n \<le> 1"; cases "?n \<le> 3")
         (simp_all add: analyze_query_wrapper_quality_def Let_def all_clauses_covered_iff package_count_card)
  next
    case False
    then show ?thesis by (simp add: analyze_query_wrapper_quality_def Let_def)
  qed
qed

subsection \<open>What the budget gate refuses\<close>

lemma budget_block_sound:
  assumes "search_terms_budget_block terms scopes explicit_filters = Some b"
  shows "\<not> explicit_filters" and "broad_scope scopes" and "2 \<le> length terms"
    and "set (bb_generic_terms b) \<subseteq> set terms" and "bb_generic_terms b \<noteq> []"
    and "bb_term_count b = length terms"
    and "list_ex specific_search_term terms \<Longrightarrow> 5 \<le> length (filter generic_search_term terms)"
proof -
  have shape: "\<not> explicit_filters \<and> terms \<noteq> [] \<and> broad_scope scopes"
    using assms by (simp add: search_terms_budget_block_def split: if_splits)
  then show "\<not> explicit_filters" "broad_scope scopes" by auto
  show "2 \<le> length terms" using assms shape by (auto simp: search_terms_budget_block_def Let_def)
  show "set (bb_generic_terms b) \<subseteq> set terms"
    using assms shape by (auto simp: search_terms_budget_block_def Let_def dest: in_set_takeD split: if_splits)
  show "bb_generic_terms b \<noteq> []"
    using assms shape by (auto simp: search_terms_budget_block_def Let_def split: if_splits)
  show "bb_term_count b = length terms" using assms shape by (auto simp: search_terms_budget_block_def Let_def)
  assume specific: "list_ex specific_search_term terms"
  then have "length (filter generic_search_term terms) < length terms"
    by (auto simp: list_ex_iff generic_search_term_def intro: length_filter_less)
  then show "5 \<le> length (filter generic_search_term terms)"
    using assms shape specific by (auto simp: search_terms_budget_block_def Let_def)
qed

text \<open>A search that names a file, a path or a number with fewer than five generic words is never refused.\<close>

lemma specific_search_passes:
  "list_ex specific_search_term terms \<Longrightarrow> length (filter generic_search_term terms) < 5 \<Longrightarrow>
   search_terms_budget_block terms scopes explicit_filters = None"
  using budget_block_sound(7) by (metis leD not_Some_eq)

subsection \<open>What the seed plan recommends\<close>

lemma seed_plan_actions_complete:
  assumes "si_seed_decision input = seed_decision_from_query_shape a b c"
  shows "length (seed_plan_actions (seed_plan_risks input)) = max 1 (length (seed_plan_risks input))"
  unfolding seed_plan_risks_def assms seed_decision_from_query_shape_def Let_def
  by (auto simp: seed_plan_actions_def recommended_action_for_seed_risk_def List.map_filter_simps)

lemma first_stages_disjoint: "set (allowed_first_stages state) \<inter> set (disallowed_first_stages state) = {}"
  by (cases state) auto

lemma unnecessary_seed_iff_known:
  "as_unnecessary_seed_count (select_first_action state ''seed'') = of_bool (state \<noteq> Evidence_Unknown)"
  by (cases state) (simp_all add: select_first_action_def Let_def)

end
