(* ===== verification/FileLocator.thy ===== *)
theory FileLocator
  imports QueryPack
begin

section \<open>Locating files by name\<close>

text \<open>
  Models, of \<open>crates/agent-semantic-search/src\<close>, \<open>file_locator.rs\<close> (an index of a workspace's paths),
  \<open>search_planner.rs\<close> (which route a query takes) and \<open>source_index_lookup.rs\<close> (the lookup with its fall-back to
  the index).  Three things are arguments:
  \<open>lower\<close>, the Unicode lower-casing of the library; \<open>glob\<close>, the matcher of the crate \<open>globset\<close> (a pattern that does
  not compile matches nothing); and \<open>hash_order\<close>, the order in which a \<open>HashMap\<close> hands out its values.
\<close>

subsection \<open>Paths and their keys\<close>

definition locator_segments :: "string \<Rightarrow> string list" where
  "locator_segments path = filter (\<lambda>segment. segment \<noteq> []) (slash_parts path)"

definition normalize_locator_path :: "(string \<Rightarrow> string) \<Rightarrow> string \<Rightarrow> string" where
  "normalize_locator_path lower path =
     lower (str_join ''/'' (locator_segments (trim_chars (\<lambda>c. c = CHR ''/'') (backslash_to_slash path))))"

definition normalize_locator_query :: "(string \<Rightarrow> string) \<Rightarrow> string \<Rightarrow> string" where
  "normalize_locator_query lower query = normalize_locator_path lower (str_trim query)"

definition locator_basename :: "string \<Rightarrow> string option" where
  "locator_basename path = find (\<lambda>part. part \<noteq> []) (rev (slash_parts path))"

definition locator_stem :: "string \<Rightarrow> string option" where
  "locator_stem basename = map_option (\<lambda>i. take i basename) (stem_index basename)"

definition locator_extension :: "string \<Rightarrow> string option" where
  "locator_extension basename =
     (case rposition (\<lambda>c. c = CHR ''.'') basename of
        None \<Rightarrow> None
      | Some i \<Rightarrow> if drop (i + 1) basename = [] then None else Some (drop (i + 1) basename))"

definition looks_like_glob :: "string \<Rightarrow> bool" where
  "looks_like_glob query \<longleftrightarrow> str_contains query ''*'' \<or> str_contains query ''?'' \<or> str_contains query ''[''"

definition trigrams :: "string \<Rightarrow> string list" where
  "trigrams s =
     (let characters = rust_chars s
      in if length characters < 3 then [s] else sort_dedup (map concat (windows 3 characters)))"

definition path_suffixes :: "string \<Rightarrow> string list" where
  "path_suffixes path =
     (let segments = slash_parts path
      in map (\<lambda>start. str_join ''/'' (drop start segments)) [0..<length segments])"

subsection \<open>The index\<close>

record locator_entry =
  le_workspace_relative_path :: string
  le_normalized_path :: string

type_synonym bucket_table = "string \<rightharpoonup> nat list"

record file_locator =
  fl_entries :: "locator_entry list"
  fl_exact_path :: bucket_table
  fl_basename :: bucket_table
  fl_stem :: bucket_table
  fl_extension :: bucket_table
  fl_segment :: bucket_table
  fl_suffix_path :: bucket_table
  fl_trigrams :: bucket_table

definition index_path :: "bucket_table \<Rightarrow> string \<Rightarrow> nat \<Rightarrow> bucket_table" where
  "index_path table key i = table(key \<mapsto> (case table key of None \<Rightarrow> [] | Some v \<Rightarrow> v) @ [i])"

definition index_keys :: "string list \<Rightarrow> nat \<Rightarrow> bucket_table \<Rightarrow> bucket_table" where
  "index_keys keys i table = fold (\<lambda>key t. index_path t key i) keys table"

definition option_list :: "'a option \<Rightarrow> 'a list" where
  "option_list v = (case v of None \<Rightarrow> [] | Some x \<Rightarrow> [x])"

definition basename_keys :: "string \<Rightarrow> string list" where
  "basename_keys path = option_list (locator_basename path)"

definition stem_keys :: "string \<Rightarrow> string list" where
  "stem_keys path = concat (map (\<lambda>b. option_list (locator_stem b)) (basename_keys path))"

definition extension_keys :: "string \<Rightarrow> string list" where
  "extension_keys path = concat (map (\<lambda>b. option_list (locator_extension b)) (basename_keys path))"

definition trigram_keys :: "string \<Rightarrow> string list" where
  "trigram_keys path = concat (map trigrams (basename_keys path))"

definition add_locator_path :: "(string \<Rightarrow> string) \<Rightarrow> file_locator \<Rightarrow> string \<Rightarrow> file_locator" where
  "add_locator_path lower index path =
     (let display = backslash_to_slash path;
          normalized = normalize_locator_path lower display;
          i = length (fl_entries index)
      in if normalized = [] then index
         else \<lparr> fl_entries = fl_entries index @ [\<lparr> le_workspace_relative_path = display,
                                                  le_normalized_path = normalized \<rparr>],
                fl_exact_path = index_keys [normalized] i (fl_exact_path index),
                fl_basename = index_keys (basename_keys normalized) i (fl_basename index),
                fl_stem = index_keys (stem_keys normalized) i (fl_stem index),
                fl_extension = index_keys (extension_keys normalized) i (fl_extension index),
                fl_segment = index_keys (locator_segments normalized) i (fl_segment index),
                fl_suffix_path = index_keys (path_suffixes normalized) i (fl_suffix_path index),
                fl_trigrams = index_keys (trigram_keys normalized) i (fl_trigrams index) \<rparr>)"

definition empty_locator :: file_locator where
  "empty_locator =
     \<lparr> fl_entries = [], fl_exact_path = Map.empty, fl_basename = Map.empty, fl_stem = Map.empty,
       fl_extension = Map.empty, fl_segment = Map.empty, fl_suffix_path = Map.empty, fl_trigrams = Map.empty \<rparr>"

definition build_locator :: "(string \<Rightarrow> string) \<Rightarrow> string list \<Rightarrow> file_locator" where
  "build_locator lower paths = foldl (add_locator_path lower) empty_locator paths"

subsection \<open>Looking up\<close>

datatype match_kind =
  Match_Exact_Path | Match_Basename | Match_Stem | Match_Suffix_Path | Match_Segment | Match_Extension
  | Match_Glob | Match_Fuzzy_Filename

fun score_for_match_kind :: "match_kind \<Rightarrow> nat" where
  "score_for_match_kind Match_Exact_Path = 1000"
| "score_for_match_kind Match_Basename = 900"
| "score_for_match_kind Match_Stem = 850"
| "score_for_match_kind Match_Suffix_Path = 800"
| "score_for_match_kind Match_Glob = 760"
| "score_for_match_kind Match_Segment = 650"
| "score_for_match_kind Match_Extension = 500"
| "score_for_match_kind Match_Fuzzy_Filename = 300"

record locator_candidate =
  fc_workspace_relative_path :: string
  fc_match_kind :: match_kind
  fc_score :: nat

definition candidate_of :: "locator_entry \<Rightarrow> match_kind \<Rightarrow> locator_candidate" where
  "candidate_of entry kind =
     \<lparr> fc_workspace_relative_path = le_workspace_relative_path entry, fc_match_kind = kind,
       fc_score = score_for_match_kind kind \<rparr>"

definition locator_candidate_at :: "file_locator \<Rightarrow> nat \<Rightarrow> match_kind \<Rightarrow> locator_candidate option" where
  "locator_candidate_at index i kind = map_option (\<lambda>entry. candidate_of entry kind) (get_at (fl_entries index) i)"

text \<open>The map of collected candidates is the list of its entries, in insertion order.\<close>

type_synonym locator_collected = "(nat \<times> locator_candidate) list"

fun keep_better :: "nat \<Rightarrow> locator_candidate \<Rightarrow> locator_collected \<Rightarrow> locator_collected" where
  "keep_better i c [] = [(i, c)]"
| "keep_better i c (e # m) =
     (if fst e = i then (if fc_score (snd e) < fc_score c then (i, c) # m else e # m)
      else e # keep_better i c m)"

definition collect_candidates :: "file_locator \<Rightarrow> match_kind \<Rightarrow> nat list \<Rightarrow> locator_collected \<Rightarrow> locator_collected" where
  "collect_candidates index kind indices m =
     fold (\<lambda>i m. case locator_candidate_at index i kind of None \<Rightarrow> m | Some c \<Rightarrow> keep_better i c m) indices m"

definition collect_index_matches :: "file_locator \<Rightarrow> string \<Rightarrow> match_kind \<Rightarrow> bucket_table \<Rightarrow> locator_collected \<Rightarrow> locator_collected" where
  "collect_index_matches index query kind table m =
     (case table query of None \<Rightarrow> m | Some indices \<Rightarrow> collect_candidates index kind indices m)"

text \<open>\<open>binary_search(..).is_ok()\<close>: membership in a sorted slice, unspecified in another.\<close>

definition binary_search_ok :: "(nat list \<Rightarrow> nat \<Rightarrow> bool) \<Rightarrow> nat list \<Rightarrow> nat \<Rightarrow> bool" where
  "binary_search_ok unspecified v i = (if sorted v then i \<in> set v else unspecified v i)"

definition collect_fuzzy_matches ::
    "(nat list \<Rightarrow> nat \<Rightarrow> bool) \<Rightarrow> file_locator \<Rightarrow> string \<Rightarrow> locator_collected \<Rightarrow> locator_collected" where
  "collect_fuzzy_matches unspecified index query m =
     (let buckets = sort_key length (List.map_filter (fl_trigrams index) (trigrams query))
      in case buckets of
           [] \<Rightarrow> m
         | anchor # _ \<Rightarrow>
             if 2048 < length anchor then m
             else (let counted = map (\<lambda>i. (i, length (filter (\<lambda>v. binary_search_ok unspecified v i) buckets))) anchor;
                       ranked = sort_by (\<lambda>l r. then_with (cmp (snd r) (snd l)) (cmp (fst l) (fst r))) counted
                   in collect_candidates index Match_Fuzzy_Filename (map fst (filter (\<lambda>p. 0 < snd p) ranked)) m))"

definition locator_candidate_cmp :: "locator_candidate \<Rightarrow> locator_candidate \<Rightarrow> ordering" where
  "locator_candidate_cmp left right =
     then_with (cmp (fc_score right) (fc_score left))
       (cmp (fc_workspace_relative_path left) (fc_workspace_relative_path right))"

definition ranked_candidates ::
    "(locator_candidate list \<Rightarrow> locator_candidate list) \<Rightarrow> nat \<Rightarrow> locator_collected \<Rightarrow> locator_candidate list" where
  "ranked_candidates hash_order limit m = take limit (sort_by locator_candidate_cmp (hash_order (map snd m)))"

definition locate_glob :: "(string \<Rightarrow> string \<Rightarrow> bool) \<Rightarrow> file_locator \<Rightarrow> string \<Rightarrow> nat \<Rightarrow> locator_candidate list" where
  "locate_glob glob index pat limit =
     map (\<lambda>entry. candidate_of entry Match_Glob)
       (take limit (filter (\<lambda>entry. glob pat (le_normalized_path entry)) (fl_entries index)))"

record locator_env =
  lo_lower :: "string \<Rightarrow> string"
  lo_glob :: "string \<Rightarrow> string \<Rightarrow> bool"
  lo_hash_order :: "locator_candidate list \<Rightarrow> locator_candidate list"
  lo_unsorted_search :: "nat list \<Rightarrow> nat \<Rightarrow> bool"

definition locate :: "locator_env \<Rightarrow> file_locator \<Rightarrow> string \<Rightarrow> nat \<Rightarrow> locator_candidate list" where
  "locate env index query limit =
     (let q = normalize_locator_query (lo_lower env) query
      in if q = [] then []
         else if looks_like_glob q then locate_glob (lo_glob env) index q limit
         else (case fl_exact_path index q of
                 Some indices \<Rightarrow> List.map_filter (\<lambda>i. locator_candidate_at index i Match_Exact_Path) (take limit indices)
               | None \<Rightarrow>
                   (let m = collect_index_matches index q Match_Basename (fl_basename index) [];
                        m = collect_index_matches index q Match_Stem (fl_stem index) m;
                        m = collect_index_matches index q Match_Suffix_Path (fl_suffix_path index) m;
                        m = collect_index_matches index q Match_Segment (fl_segment index) m;
                        m = collect_index_matches index q Match_Extension (fl_extension index) m;
                        m = (if m = [] \<and> 3 \<le> length q
                             then collect_fuzzy_matches (lo_unsorted_search env) index q m else m)
                    in ranked_candidates (lo_hash_order env) limit m)))"

definition default_locator_limit :: nat where
  "default_locator_limit = 16"
subsection \<open>The index holds what a scan would find\<close>

definition occurrences :: "(string \<Rightarrow> string list) \<Rightarrow> locator_entry list \<Rightarrow> string \<Rightarrow> nat list" where
  "occurrences keys entries key =
     concat (map (\<lambda>(i, e). replicate (count_list (keys (le_normalized_path e)) key) i) (enumerate 0 entries))"

definition bucket_of :: "(string \<Rightarrow> string list) \<Rightarrow> locator_entry list \<Rightarrow> bucket_table" where
  "bucket_of keys entries key = (if occurrences keys entries key = [] then None else Some (occurrences keys entries key))"

lemma index_keys_lookup:
  "index_keys ks i table key =
     (if count_list ks key = 0 then table key
      else Some ((case table key of None \<Rightarrow> [] | Some v \<Rightarrow> v) @ replicate (count_list ks key) i))"
proof (induction ks arbitrary: table)
  case (Cons k ks)
  have "replicate n i @ [i] = i # replicate n i" for n by (simp add: replicate_append_same)
  with Cons show ?case
    by (auto simp: index_keys_def index_path_def replicate_append_same split: option.splits)
qed (simp add: index_keys_def)

lemma enumerate_snoc: "enumerate n (xs @ [x]) = enumerate n xs @ [(n + length xs, x)]"
  by (induction xs arbitrary: n) auto

lemma occurrences_snoc:
  "occurrences keys (entries @ [e]) key =
   occurrences keys entries key @ replicate (count_list (keys (le_normalized_path e)) key) (length entries)"
  by (simp add: occurrences_def enumerate_snoc)

lemma index_keys_bucket_of:
  "index_keys (keys (le_normalized_path e)) (length entries) (bucket_of keys entries) = bucket_of keys (entries @ [e])"
  by (rule ext) (auto simp: index_keys_lookup bucket_of_def occurrences_snoc)

lemma bucket_of_empty: "bucket_of keys [] = Map.empty"
  by (rule ext) (simp add: bucket_of_def occurrences_def)

lemma set_occurrences:
  "set (occurrences keys entries key) =
   {i. i < length entries \<and> key \<in> set (keys (le_normalized_path (entries ! i)))}"
proof (induction entries rule: rev_induct)
  case (snoc e entries)
  let ?ks = "keys (le_normalized_path e)"
  have "set (replicate (count_list ?ks key) n) = (if key \<in> set ?ks then {n} else {})" for n :: nat
    by (simp add: count_list_0_iff)
  then have "set (occurrences keys (entries @ [e]) key) =
      {i. i < length entries \<and> key \<in> set (keys (le_normalized_path (entries ! i)))}
      \<union> (if key \<in> set ?ks then {length entries} else {})"
    by (simp only: occurrences_snoc set_append snoc)
  then show ?case by (auto simp: nth_append less_Suc_eq)
qed (simp add: occurrences_def)

lemma sorted_occurrences: "sorted (occurrences keys entries key)"
proof (induction entries rule: rev_induct)
  case (snoc e entries)
  then show ?case
    using set_occurrences [of keys entries key]
    by (auto simp: occurrences_snoc sorted_append sorted_replicate)
qed (simp add: occurrences_def)

definition locator_inv :: "file_locator \<Rightarrow> bool" where
  "locator_inv index \<longleftrightarrow>
     fl_exact_path index = bucket_of (\<lambda>p. [p]) (fl_entries index)
     \<and> fl_basename index = bucket_of basename_keys (fl_entries index)
     \<and> fl_stem index = bucket_of stem_keys (fl_entries index)
     \<and> fl_extension index = bucket_of extension_keys (fl_entries index)
     \<and> fl_segment index = bucket_of locator_segments (fl_entries index)
     \<and> fl_suffix_path index = bucket_of path_suffixes (fl_entries index)
     \<and> fl_trigrams index = bucket_of trigram_keys (fl_entries index)"

lemma locator_inv_empty: "locator_inv empty_locator"
  by (simp add: locator_inv_def empty_locator_def bucket_of_empty)

lemma locator_inv_add:
  assumes "locator_inv index" shows "locator_inv (add_locator_path lower index path)"
proof -
  let ?p = "normalize_locator_path lower (backslash_to_slash path)"
  let ?e = "\<lparr> le_workspace_relative_path = backslash_to_slash path, le_normalized_path = ?p \<rparr>"
  have step: "index_keys (keys ?p) (length (fl_entries index)) (bucket_of keys (fl_entries index)) =
      bucket_of keys (fl_entries index @ [?e])" for keys
    using index_keys_bucket_of [of keys ?e "fl_entries index"] by simp
  show ?thesis
    using assms step [of "\<lambda>p. [p]"] by (simp add: locator_inv_def add_locator_path_def Let_def step)
qed

lemma foldl_locator:
  "locator_inv index \<Longrightarrow> locator_inv (foldl (add_locator_path lower) index paths)"
  by (induction paths arbitrary: index) (simp_all add: locator_inv_add)

definition locator_entries :: "(string \<Rightarrow> string) \<Rightarrow> string list \<Rightarrow> locator_entry list" where
  "locator_entries lower paths =
     filter (\<lambda>e. le_normalized_path e \<noteq> [])
       (map (\<lambda>path. \<lparr> le_workspace_relative_path = backslash_to_slash path,
                     le_normalized_path = normalize_locator_path lower (backslash_to_slash path) \<rparr>) paths)"

lemma foldl_entries:
  "fl_entries (foldl (add_locator_path lower) index paths) = fl_entries index @ locator_entries lower paths"
  by (induction paths arbitrary: index) (simp_all add: locator_entries_def add_locator_path_def Let_def)

lemma build_locator_inv: "locator_inv (build_locator lower paths)"
  by (simp add: build_locator_def foldl_locator locator_inv_empty)

lemma fl_entries_build: "fl_entries (build_locator lower paths) = locator_entries lower paths"
  by (simp add: build_locator_def foldl_entries) (simp add: empty_locator_def)
subsection \<open>A lookup is a scan\<close>

definition entry_kind :: "string \<Rightarrow> string \<Rightarrow> match_kind option" where
  "entry_kind q path =
     (if q \<in> set (basename_keys path) then Some Match_Basename
      else if q \<in> set (stem_keys path) then Some Match_Stem
      else if q \<in> set (path_suffixes path) then Some Match_Suffix_Path
      else if q \<in> set (locator_segments path) then Some Match_Segment
      else if q \<in> set (extension_keys path) then Some Match_Extension
      else None)"

definition represents :: "locator_entry list \<Rightarrow> (nat \<Rightarrow> match_kind option) \<Rightarrow> locator_collected \<Rightarrow> bool" where
  "represents entries f m \<longleftrightarrow>
     distinct (map fst m)
     \<and> map_of m = (\<lambda>i. if i < length entries then map_option (candidate_of (entries ! i)) (f i) else None)"

lemma map_of_keep_better:
  "map_of (keep_better i c m) =
   (map_of m)(i \<mapsto> (case map_of m i of None \<Rightarrow> c | Some d \<Rightarrow> if fc_score d < fc_score c then c else d))"
  by (induction m) (auto simp: fun_eq_iff)

lemma keys_keep_better: "set (map fst (keep_better i c m)) = insert i (set (map fst m))"
  by (induction m) auto

lemma distinct_keep_better: "distinct (map fst m) \<Longrightarrow> distinct (map fst (keep_better i c m))"
proof (induction m)
  case (Cons e m)
  then show ?case using keys_keep_better [of i c m] by auto
qed simp

lemma represents_collect:
  assumes "represents (fl_entries index) f m"
    and "\<And>i k. f i = Some k \<Longrightarrow> score_for_match_kind kind \<le> score_for_match_kind k"
  shows "represents (fl_entries index) (\<lambda>i. if f i = None \<and> i \<in> set indices then Some kind else f i)
           (collect_candidates index kind indices m)"
  using assms
proof (induction indices arbitrary: m f)
  case Nil
  have "(\<lambda>i. if f i = None \<and> i \<in> set [] then Some kind else f i) = f" by (rule ext) simp
  with Nil show ?case by (simp add: collect_candidates_def)
next
  case (Cons j js)
  let ?es = "fl_entries index"
  let ?f = "\<lambda>i. if f i = None \<and> i = j then Some kind else f i"
  let ?m = "case locator_candidate_at index j kind of None \<Rightarrow> m | Some c \<Rightarrow> keep_better j c m"
  have step: "represents ?es ?f ?m"
  proof (cases "j < length ?es")
    case True
    have "map_of ?m = (map_of m)(j \<mapsto> (case map_of m j of None \<Rightarrow> candidate_of (?es ! j) kind
        | Some d \<Rightarrow> if fc_score d < score_for_match_kind kind then candidate_of (?es ! j) kind else d))"
      using True
      by (simp add: locator_candidate_at_def get_at_def map_of_keep_better candidate_of_def split: option.split)
    also have "\<dots> = (\<lambda>i. if i < length ?es then map_option (candidate_of (?es ! i)) (?f i) else None)"
    proof (rule ext)
      fix i
      show "((map_of m)(j \<mapsto> (case map_of m j of None \<Rightarrow> candidate_of (?es ! j) kind
          | Some d \<Rightarrow> if fc_score d < score_for_match_kind kind then candidate_of (?es ! j) kind else d))) i =
          (if i < length ?es then map_option (candidate_of (?es ! i)) (?f i) else None)"
      proof (cases "f j")
        case (Some k)
        then have "score_for_match_kind kind \<le> score_for_match_kind k" using Cons.prems(2) by blast
        then show ?thesis using Cons.prems(1) True Some by (auto simp: represents_def candidate_of_def)
      qed (use Cons.prems(1) True in \<open>auto simp: represents_def\<close>)
    qed
    finally show ?thesis
      using Cons.prems(1) True
      by (simp add: represents_def distinct_keep_better locator_candidate_at_def get_at_def)
  next
    case False
    then have "map_of m = (\<lambda>i. if i < length ?es then map_option (candidate_of (?es ! i)) (?f i) else None)"
      using Cons.prems(1) by (auto simp: represents_def fun_eq_iff)
    then show ?thesis using Cons.prems(1) False
      by (simp add: represents_def locator_candidate_at_def get_at_def)
  qed
  have "collect_candidates index kind (j # js) m = collect_candidates index kind js ?m"
    by (simp add: collect_candidates_def)
  moreover have "represents ?es (\<lambda>i. if ?f i = None \<and> i \<in> set js then Some kind else ?f i)
      (collect_candidates index kind js ?m)"
    using step by (rule Cons.IH) (use Cons.prems(2) in \<open>auto split: if_splits\<close>)
  moreover have "(\<lambda>i. if ?f i = None \<and> i \<in> set js then Some kind else ?f i) =
      (\<lambda>i. if f i = None \<and> i \<in> set (j # js) then Some kind else f i)"
    by (rule ext) auto
  ultimately show ?case by simp
qed

definition next_kind ::
    "locator_entry list \<Rightarrow> string \<Rightarrow> (string \<Rightarrow> string list) \<Rightarrow> match_kind \<Rightarrow> (nat \<Rightarrow> match_kind option) \<Rightarrow>
     nat \<Rightarrow> match_kind option" where
  "next_kind entries q keys kind f i =
     (if f i = None \<and> i < length entries \<and> q \<in> set (keys (le_normalized_path (entries ! i))) then Some kind else f i)"

definition at_least :: "match_kind \<Rightarrow> (nat \<Rightarrow> match_kind option) \<Rightarrow> bool" where
  "at_least kind f \<longleftrightarrow> (\<forall>i k. f i = Some k \<longrightarrow> score_for_match_kind kind \<le> score_for_match_kind k)"

lemma at_least_next:
  "at_least kind f \<Longrightarrow> score_for_match_kind kind \<le> score_for_match_kind kind' \<Longrightarrow>
   at_least kind (next_kind entries q keys kind' f)"
  by (auto simp: at_least_def next_kind_def)

lemma represents_index_matches:
  assumes "represents (fl_entries index) f m" and "at_least kind f"
    and "table = bucket_of keys (fl_entries index)"
  shows "represents (fl_entries index) (next_kind (fl_entries index) q keys kind f)
     (collect_index_matches index q kind table m)"
proof -
  let ?v = "occurrences keys (fl_entries index) q"
  have eq: "collect_index_matches index q kind table m = collect_candidates index kind ?v m"
    by (simp add: assms(3) collect_index_matches_def bucket_of_def collect_candidates_def)
  have "represents (fl_entries index) (\<lambda>i. if f i = None \<and> i \<in> set ?v then Some kind else f i)
      (collect_candidates index kind ?v m)"
    using assms(2) by (intro represents_collect [OF assms(1)]) (auto simp: at_least_def)
  moreover have "(\<lambda>i. if f i = None \<and> i \<in> set ?v then Some kind else f i) =
      next_kind (fl_entries index) q keys kind f"
    by (rule ext) (simp add: next_kind_def set_occurrences)
  ultimately show ?thesis unfolding eq by simp
qed
lemma represents_Nil: "represents entries (\<lambda>i. None) []"
  by (simp add: represents_def fun_eq_iff)

lemma five_steps:
  fixes index :: file_locator and q :: string
  assumes "locator_inv index"
  defines "m1 \<equiv> collect_index_matches index q Match_Basename (fl_basename index) []"
  defines "m2 \<equiv> collect_index_matches index q Match_Stem (fl_stem index) m1"
  defines "m3 \<equiv> collect_index_matches index q Match_Suffix_Path (fl_suffix_path index) m2"
  defines "m4 \<equiv> collect_index_matches index q Match_Segment (fl_segment index) m3"
  defines "m5 \<equiv> collect_index_matches index q Match_Extension (fl_extension index) m4"
  shows "represents (fl_entries index)
    (\<lambda>i. if i < length (fl_entries index) then entry_kind q (le_normalized_path (fl_entries index ! i)) else None) m5"
proof -
  let ?es = "fl_entries index"
  let ?step = "next_kind ?es q"
  note tables = assms(1) [unfolded locator_inv_def]
  define f1 where "f1 = ?step basename_keys Match_Basename (\<lambda>i. None)"
  define f2 where "f2 = ?step stem_keys Match_Stem f1"
  define f3 where "f3 = ?step path_suffixes Match_Suffix_Path f2"
  define f4 where "f4 = ?step locator_segments Match_Segment f3"
  have al: "at_least kind (\<lambda>i. None)" for kind by (simp add: at_least_def)
  have r1: "represents ?es f1 m1"
    unfolding f1_def m1_def by (rule represents_index_matches [OF represents_Nil al]) (simp add: tables)
  have r2: "represents ?es f2 m2"
    unfolding f2_def m2_def by (rule represents_index_matches [OF r1]) (simp_all add: tables f1_def at_least_next al)
  have r3: "represents ?es f3 m3"
    unfolding f3_def m3_def
    by (rule represents_index_matches [OF r2]) (simp_all add: tables f1_def f2_def at_least_next al)
  have r4: "represents ?es f4 m4"
    unfolding f4_def m4_def
    by (rule represents_index_matches [OF r3]) (simp_all add: tables f1_def f2_def f3_def at_least_next al)
  have "represents ?es (?step extension_keys Match_Extension f4) m5"
    unfolding m5_def
    by (rule represents_index_matches [OF r4]) (simp_all add: tables f1_def f2_def f3_def f4_def at_least_next al)
  moreover have "?step extension_keys Match_Extension f4 =
      (\<lambda>i. if i < length ?es then entry_kind q (le_normalized_path (?es ! i)) else None)"
    by (rule ext) (auto simp: entry_kind_def f1_def f2_def f3_def f4_def next_kind_def)
  ultimately show ?thesis by simp
qed

definition kept_pairs :: "locator_entry list \<Rightarrow> (nat \<Rightarrow> match_kind option) \<Rightarrow> nat \<Rightarrow> locator_collected" where
  "kept_pairs entries f n =
     List.map_filter (\<lambda>(i, e). map_option (\<lambda>k. (i, candidate_of e k)) (f i)) (enumerate n entries)"

lemma fst_kept_pairs: "map fst (kept_pairs entries f n) = filter (\<lambda>i. f i \<noteq> None) [n..<n + length entries]"
proof (induction entries arbitrary: n)
  case (Cons e entries)
  have "[n..<n + length (e # entries)] = n # [Suc n..<Suc n + length entries]" by (simp add: upt_rec)
  then show ?case using Cons [of "Suc n"]
    by (cases "f n") (simp_all add: kept_pairs_def List.map_filter_simps del: upt_Suc)
qed (simp add: kept_pairs_def List.map_filter_simps)

lemma set_kept_pairs:
  "set (kept_pairs entries f 0) =
   {(i, c). i < length entries \<and> map_option (candidate_of (entries ! i)) (f i) = Some c}"
proof (rule set_eqI)
  fix p :: "nat \<times> locator_candidate"
  obtain i c where p: "p = (i, c)" by (cases p)
  have "p \<in> set (kept_pairs entries f 0) \<longleftrightarrow>
      (\<exists>j < length entries. map_option (\<lambda>k. (j, candidate_of (entries ! j) k)) (f j) = Some p)"
    unfolding kept_pairs_def List.map_filter_def by (force simp: in_set_enumerate_eq image_iff)
  then show "p \<in> set (kept_pairs entries f 0) \<longleftrightarrow>
      p \<in> {(i, c). i < length entries \<and> map_option (candidate_of (entries ! i)) (f i) = Some c}"
    by (auto simp: p)
qed

lemma represents_values:
  assumes "represents entries f m" shows "mset (map snd m) = mset (map snd (kept_pairs entries f 0))"
proof -
  have "distinct m" using assms distinct_map by (auto simp: represents_def)
  moreover have "distinct (map fst (kept_pairs entries f 0))" by (simp add: fst_kept_pairs)
  then have "distinct (kept_pairs entries f 0)" using distinct_map by blast
  moreover have "p \<in> set m \<longleftrightarrow> p \<in> set (kept_pairs entries f 0)" for p
  proof -
    obtain i c where p: "p = (i, c)" by (cases p)
    have d: "distinct (map fst m)"
      and m: "map_of m = (\<lambda>i. if i < length entries then map_option (candidate_of (entries ! i)) (f i) else None)"
      using assms by (simp_all add: represents_def)
    have "(i, c) \<in> set m \<longleftrightarrow> map_of m i = Some c" using d by simp
    also have "\<dots> \<longleftrightarrow> i < length entries \<and> map_option (candidate_of (entries ! i)) (f i) = Some c"
      unfolding m by simp
    finally show ?thesis by (simp add: p set_kept_pairs)
  qed
  then have "set m = set (kept_pairs entries f 0)" by blast
  ultimately have "mset m = mset (kept_pairs entries f 0)" by (simp add: set_eq_iff_mset_eq_distinct)
  then show ?thesis by simp
qed

lemma snd_kept_pairs:
  "map snd (kept_pairs entries (\<lambda>i. if i < length entries then g (entries ! i) else None) 0) =
   List.map_filter (\<lambda>e. map_option (candidate_of e) (g e)) entries"
proof -
  have "map snd (List.map_filter (\<lambda>(i, e). map_option (\<lambda>k. (i, candidate_of e k)) (h i)) (enumerate n es)) =
      List.map_filter (\<lambda>e. map_option (candidate_of e) (g e)) es"
    if "\<forall>i < length es. h (n + i) = g (es ! i)" for h n es
    using that
  proof (induction es arbitrary: n)
    case (Cons e es)
    have "h n = g e" using Cons.prems by (metis add_0_right length_greater_0_conv list.discI nth_Cons_0)
    moreover have "\<forall>i < length es. h (Suc n + i) = g (es ! i)"
    proof (intro allI impI)
      fix i assume "i < length es"
      then show "h (Suc n + i) = g (es ! i)" using Cons.prems [rule_format, of "Suc i"] by simp
    qed
    ultimately show ?case using Cons.IH [of "Suc n"] by (cases "g e") (simp_all add: List.map_filter_simps)
  qed (simp add: List.map_filter_simps)
  from this [of entries "\<lambda>i. if i < length entries then g (entries ! i) else None" 0]
  show ?thesis by (simp add: kept_pairs_def)
qed
text \<open>The fuzzy match, without an index: the rarest trigram of the query that some file has decides.\<close>

definition holders :: "locator_entry list \<Rightarrow> string \<Rightarrow> locator_entry list" where
  "holders entries t = filter (\<lambda>e. t \<in> set (trigram_keys (le_normalized_path e))) entries"

definition fuzzy_scan :: "locator_entry list \<Rightarrow> string \<Rightarrow> locator_candidate list" where
  "fuzzy_scan entries q =
     (case sort_key (\<lambda>t. length (holders entries t)) (filter (\<lambda>t. holders entries t \<noteq> []) (trigrams q)) of
        [] \<Rightarrow> []
      | rarest # _ \<Rightarrow>
          if 2048 < length (holders entries rarest) then []
          else map (\<lambda>e. candidate_of e Match_Fuzzy_Filename) (holders entries rarest))"

definition locate_by_scan :: "locator_env \<Rightarrow> string list \<Rightarrow> string \<Rightarrow> nat \<Rightarrow> locator_candidate list" where
  "locate_by_scan env paths query limit =
     (let q = normalize_locator_query (lo_lower env) query;
          entries = locator_entries (lo_lower env) paths;
          exact = filter (\<lambda>e. le_normalized_path e = q) entries;
          matching = List.map_filter (\<lambda>e. map_option (candidate_of e) (entry_kind q (le_normalized_path e))) entries
      in if q = [] then []
         else if looks_like_glob q
         then map (\<lambda>e. candidate_of e Match_Glob) (take limit (filter (\<lambda>e. lo_glob env q (le_normalized_path e)) entries))
         else if exact \<noteq> [] then map (\<lambda>e. candidate_of e Match_Exact_Path) (take limit exact)
         else take limit (sort_by locator_candidate_cmp
                (if matching = [] \<and> 3 \<le> length q then fuzzy_scan entries q else matching)))"

lemma distinct_trigram_keys: "distinct (trigram_keys path)"
  by (auto simp: trigram_keys_def basename_keys_def option_list_def trigrams_def Let_def split: option.split)

lemma count_list_distinct: "distinct xs \<Longrightarrow> count_list xs x = of_bool (x \<in> set xs)"
  by (induction xs) auto

lemma occurrences_distinct:
  assumes "\<And>p. distinct (keys p)"
  shows "occurrences keys entries key =
    map fst (filter (\<lambda>(i, e). key \<in> set (keys (le_normalized_path e))) (enumerate 0 entries))"
proof -
  have "concat (map (\<lambda>(i, e). replicate (count_list (keys (le_normalized_path e)) key) i) es) =
      map fst (filter (\<lambda>(i, e). key \<in> set (keys (le_normalized_path e))) es)" for es :: "(nat \<times> locator_entry) list"
    by (induction es) (auto simp: count_list_distinct assms)
  then show ?thesis by (simp add: occurrences_def)
qed

lemma nth_of_occurrences:
  assumes "\<And>p. distinct (keys p)"
  shows "map (\<lambda>i. entries ! i) (occurrences keys entries key) =
    filter (\<lambda>e. key \<in> set (keys (le_normalized_path e))) entries"
proof -
  have "map (\<lambda>i. entries ! i) (map fst (filter P (enumerate 0 entries))) = map snd (filter P (enumerate 0 entries))" for P
    by (auto simp: in_set_enumerate_eq)
  moreover have "map snd (filter (\<lambda>(i, e). Q e) es) = filter Q (map snd es)" for Q and es :: "(nat \<times> locator_entry) list"
    by (induction es) auto
  ultimately show ?thesis by (simp only: occurrences_distinct [OF assms] map_snd_enumerate)
qed

lemma insort_key_map_key: "insort_key f (g x) (map g xs) = map g (insort_key (\<lambda>x. f (g x)) x xs)"
  by (induction xs) auto

lemma sort_key_map_key: "sort_key f (map g xs) = map g (sort_key (\<lambda>x. f (g x)) xs)"
  by (induction xs) (simp_all add: insort_key_map_key)

lemma exact_lookup:
  "map (\<lambda>i. entries ! i) (occurrences (\<lambda>p. [p]) entries q) = filter (\<lambda>e. le_normalized_path e = q) entries"
  using nth_of_occurrences [of "\<lambda>p. [p]" entries q] by (simp add: eq_commute)

lemma map_filter_in_range:
  "set is \<subseteq> {..<length (fl_entries index)} \<Longrightarrow>
   List.map_filter (\<lambda>i. locator_candidate_at index i kind) is =
   map (\<lambda>i. candidate_of (fl_entries index ! i) kind) is"
  by (induction "is") (simp_all add: List.map_filter_simps locator_candidate_at_def get_at_def)

lemma map_filter_holders:
  "List.map_filter (\<lambda>e. map_option (candidate_of e)
     (if t \<in> set (trigram_keys (le_normalized_path e)) then Some kind else None)) entries =
   map (\<lambda>e. candidate_of e kind) (holders entries t)"
  by (induction entries) (simp_all add: holders_def List.map_filter_simps)

lemma map_filter_None [simp]: "List.map_filter (\<lambda>x. None) xs = []"
  by (simp add: map_filter_def)

lemma length_occurrences: "length (occurrences trigram_keys entries t) = length (holders entries t)"
  using arg_cong [OF nth_of_occurrences [of trigram_keys entries t], of length]
  by (simp add: distinct_trigram_keys holders_def)

lemma fuzzy_buckets:
  assumes "locator_inv index"
  shows "sort_key length (List.map_filter (fl_trigrams index) (trigrams q)) =
    map (occurrences trigram_keys (fl_entries index))
      (sort_key (\<lambda>t. length (holders (fl_entries index) t))
        (filter (\<lambda>t. holders (fl_entries index) t \<noteq> []) (trigrams q)))"
proof -
  let ?es = "fl_entries index"
  have table: "fl_trigrams index = bucket_of trigram_keys ?es" using assms by (simp add: locator_inv_def)
  have "occurrences trigram_keys ?es t = [] \<longleftrightarrow> holders ?es t = []" for t
    using length_occurrences [of ?es t] by (metis length_0_conv)
  then have "List.map_filter (fl_trigrams index) ts =
      map (occurrences trigram_keys ?es) (filter (\<lambda>t. holders ?es t \<noteq> []) ts)" for ts
    by (induction ts) (simp_all add: table bucket_of_def List.map_filter_simps)
  then show ?thesis by (simp add: sort_key_map_key length_occurrences)
qed

lemma fuzzy_collected:
  assumes inv: "locator_inv index"
  shows "\<exists>g. represents (fl_entries index)
       (\<lambda>i. if i < length (fl_entries index) then g (fl_entries index ! i) else None)
       (collect_fuzzy_matches unspecified index q [])
     \<and> List.map_filter (\<lambda>e. map_option (candidate_of e) (g e)) (fl_entries index) = fuzzy_scan (fl_entries index) q"
proof -
  let ?es = "fl_entries index"
  let ?grams = "sort_key (\<lambda>t. length (holders ?es t)) (filter (\<lambda>t. holders ?es t \<noteq> []) (trigrams q))"
  note simps = collect_fuzzy_matches_def fuzzy_scan_def fuzzy_buckets [OF inv] length_occurrences Let_def
  show ?thesis
  proof (cases "\<exists>t ts. ?grams = t # ts \<and> length (holders ?es t) \<le> 2048")
    case False
    then have "collect_fuzzy_matches unspecified index q [] = []" "fuzzy_scan ?es q = []"
      by (auto simp: simps split: list.split)
    moreover have "represents ?es (\<lambda>i. if i < length ?es then None else None) []"
      using represents_Nil [of ?es] by simp
    ultimately show ?thesis by (intro exI [of _ "\<lambda>e. None"]) simp
  next
    case True
    then obtain t ts where grams: "?grams = t # ts" and small: "\<not> 2048 < length (holders ?es t)" by auto
    let ?occ = "occurrences trigram_keys ?es"
    let ?count = "\<lambda>i. length (filter (\<lambda>v. binary_search_ok unspecified v i) (?occ t # map ?occ ts))"
    let ?ranked = "filter (\<lambda>p. 0 < snd p) (sort_by (\<lambda>l r. then_with (cmp (snd r) (snd l)) (cmp (fst l) (fst r)))
        (map (\<lambda>i. (i, ?count i)) (?occ t)))"
    let ?g = "\<lambda>e. if t \<in> set (trigram_keys (le_normalized_path e)) then Some Match_Fuzzy_Filename else None"
    have "0 < ?count i" if "i \<in> set (?occ t)" for i
      using that by (simp add: binary_search_ok_def sorted_occurrences)
    then have all: "set (map fst ?ranked) = set (?occ t)" by force
    have "represents ?es (\<lambda>i. if (None :: match_kind option) = None \<and> i \<in> set (map fst ?ranked)
          then Some Match_Fuzzy_Filename else None)
        (collect_candidates index Match_Fuzzy_Filename (map fst ?ranked) [])"
      by (rule represents_collect [OF represents_Nil]) simp
    moreover have "(\<lambda>i. if (None :: match_kind option) = None \<and> i \<in> set (map fst ?ranked)
          then Some Match_Fuzzy_Filename else None) = (\<lambda>i. if i < length ?es then ?g (?es ! i) else None)"
      by (rule ext) (simp only: all set_occurrences, simp)
    moreover have "collect_fuzzy_matches unspecified index q [] =
        collect_candidates index Match_Fuzzy_Filename (map fst ?ranked) []"
      using small by (simp add: simps grams)
    ultimately show ?thesis
      using small by (intro exI [of _ ?g]) (simp add: fuzzy_scan_def grams map_filter_holders)
  qed
qed

lemma comparator_locator: "comparator locator_candidate_cmp (\<lambda>c. True)"
  unfolding locator_candidate_cmp_def by (intro comparator_intros)

lemma score_injective: "score_for_match_kind k = score_for_match_kind l \<Longrightarrow> k = l"
  by (cases k; cases l) simp_all

lemma ranked_by_values:
  assumes "\<And>xs. mset (hash_order xs) = mset xs"
    and "represents entries (\<lambda>i. if i < length entries then g (entries ! i) else None) m"
  shows "ranked_candidates hash_order limit m =
    take limit (sort_by locator_candidate_cmp (List.map_filter (\<lambda>e. map_option (candidate_of e) (g e)) entries))"
proof -
  let ?ys = "List.map_filter (\<lambda>e. map_option (candidate_of e) (g e)) entries"
  have m: "mset (hash_order (map snd m)) = mset ?ys"
    using represents_values [OF assms(2)] assms(1) by (simp add: snd_kept_pairs)
  have kinds: "fc_score x = score_for_match_kind (fc_match_kind x)" if "x \<in> set ?ys" for x
    using that by (auto simp: map_filter_def candidate_of_def)
  have "sort_by locator_candidate_cmp ?ys = sort_by locator_candidate_cmp (hash_order (map snd m))"
  proof (rule comparator.sort_by_mset [OF comparator_locator])
    fix x y assume "x \<in> set ?ys" "y \<in> set ?ys" "locator_candidate_cmp x y = Is_Equal"
    then show "x = y"
      using kinds [of x] kinds [of y] score_injective by (auto simp: locator_candidate_cmp_def)
  qed (simp_all add: m list_all_iff)
  then show ?thesis by (simp add: ranked_candidates_def)
qed
lemma bucket_of_exact:
  "bucket_of (\<lambda>p. [p]) entries q =
   (if filter (\<lambda>e. le_normalized_path e = q) entries = [] then None else Some (occurrences (\<lambda>p. [p]) entries q))"
  using exact_lookup [of entries q] by (auto simp: bucket_of_def simp flip: exact_lookup)

lemma locate_exact:
  assumes "locator_inv index"
  shows "List.map_filter (\<lambda>i. locator_candidate_at index i kind)
      (take limit (occurrences (\<lambda>p. [p]) (fl_entries index) q)) =
    map (\<lambda>e. candidate_of e kind) (take limit (filter (\<lambda>e. le_normalized_path e = q) (fl_entries index)))"
proof -
  let ?occ = "occurrences (\<lambda>p. [p]) (fl_entries index) q"
  have "set (take limit ?occ) \<subseteq> {..<length (fl_entries index)}"
    using set_take_subset [of limit ?occ] by (auto simp: set_occurrences)
  then have "List.map_filter (\<lambda>i. locator_candidate_at index i kind) (take limit ?occ) =
      map (\<lambda>e. candidate_of e kind) (take limit (map (\<lambda>i. fl_entries index ! i) ?occ))"
    by (simp add: map_filter_in_range take_map)
  then show ?thesis by (simp only: exact_lookup)
qed

text \<open>
  C35: looking a name up in the index gives what a scan of all indexed paths gives: the files of that very path if
  there are any; otherwise the files whose base name, stem, path suffix, segment or extension it is, each once with its
  best match, ordered by match and path; and only when there are none, the files that share the rarest trigram of the
  query.  The result does not depend on the order of the hash map, and the binary searches are all on sorted buckets.
\<close>

theorem locate_refines_scan:
  assumes "\<And>candidates. mset (lo_hash_order env candidates) = mset candidates"
  shows "locate env (build_locator (lo_lower env) paths) query limit = locate_by_scan env paths query limit"
proof -
  define index where "index = build_locator (lo_lower env) paths"
  define q where "q = normalize_locator_query (lo_lower env) query"
  have inv: "locator_inv index" and es: "fl_entries index = locator_entries (lo_lower env) paths"
    by (simp_all add: index_def build_locator_inv fl_entries_build)
  define matching where "matching = List.map_filter
      (\<lambda>e. map_option (candidate_of e) (entry_kind q (le_normalized_path e))) (fl_entries index)"
  define m where "m =
     (let m = collect_index_matches index q Match_Basename (fl_basename index) [];
          m = collect_index_matches index q Match_Stem (fl_stem index) m;
          m = collect_index_matches index q Match_Suffix_Path (fl_suffix_path index) m;
          m = collect_index_matches index q Match_Segment (fl_segment index) m
      in collect_index_matches index q Match_Extension (fl_extension index) m)"
  have m: "represents (fl_entries index) (\<lambda>i. if i < length (fl_entries index)
      then entry_kind q (le_normalized_path (fl_entries index ! i)) else None) m"
    using five_steps [OF inv, of q] by (simp add: m_def Let_def)
  have "mset (map snd m) = mset matching"
    using represents_values [OF m] snd_kept_pairs [of "fl_entries index" "\<lambda>e. entry_kind q (le_normalized_path e)"]
    by (simp only: matching_def)
  then have empty: "m = [] \<longleftrightarrow> matching = []"
    by (metis list.map_disc_iff mset_zero_iff)
  obtain g where g: "represents (fl_entries index)
       (\<lambda>i. if i < length (fl_entries index) then g (fl_entries index ! i) else None)
       (collect_fuzzy_matches (lo_unsorted_search env) index q [])"
    and fuzzy: "List.map_filter (\<lambda>e. map_option (candidate_of e) (g e)) (fl_entries index) = fuzzy_scan (fl_entries index) q"
    using fuzzy_collected [OF inv] by blast
  have ranked: "ranked_candidates (lo_hash_order env) limit
      (if m = [] \<and> 3 \<le> length q then collect_fuzzy_matches (lo_unsorted_search env) index q m else m) =
    take limit (sort_by locator_candidate_cmp
      (if matching = [] \<and> 3 \<le> length q then fuzzy_scan (fl_entries index) q else matching))"
  proof (cases "m = []")
    case True
    then have "matching = []" using empty by simp
    then show ?thesis
      using True ranked_by_values [OF assms g, of limit]
        ranked_by_values [OF assms, where g = "\<lambda>e. entry_kind q (le_normalized_path e)", OF m, of limit]
      by (simp only: fuzzy flip: matching_def) simp
  next
    case False
    then have "matching \<noteq> []" using empty by simp
    then show ?thesis
      using False ranked_by_values [OF assms, where g = "\<lambda>e. entry_kind q (le_normalized_path e)", OF m, of limit]
      by (simp only: flip: matching_def) simp
  qed
  have table: "fl_exact_path index q = bucket_of (\<lambda>p. [p]) (fl_entries index) q"
    using inv by (simp add: locator_inv_def)
  have "locate env index query limit =
     (if q = [] then []
      else if looks_like_glob q then locate_glob (lo_glob env) index q limit
      else (case fl_exact_path index q of
              Some indices \<Rightarrow> List.map_filter (\<lambda>i. locator_candidate_at index i Match_Exact_Path) (take limit indices)
            | None \<Rightarrow> ranked_candidates (lo_hash_order env) limit
                (if m = [] \<and> 3 \<le> length q then collect_fuzzy_matches (lo_unsorted_search env) index q m else m)))"
    by (simp only: locate_def q_def m_def Let_def)
  also have "\<dots> = locate_by_scan env paths query limit"
    by (simp only: ranked table bucket_of_exact locate_exact [OF inv] locate_by_scan_def locate_glob_def Let_def
        flip: q_def es matching_def) (simp add: locate_exact [OF inv])
  finally show ?thesis by (simp add: index_def)
qed

definition ascii_locator_env :: locator_env where
  "ascii_locator_env =
     \<lparr> lo_lower = to_ascii_lowercase, lo_glob = (\<lambda>p s. False), lo_hash_order = (\<lambda>xs. xs),
       lo_unsorted_search = (\<lambda>v i. False) \<rparr>"

lemma locate_refines_scan_witness:
  "map fc_workspace_relative_path
     (locate ascii_locator_env (build_locator to_ascii_lowercase [''src/Lib.rs'', ''doc/lib.md'']) ''lib'' 5) =
   [''doc/lib.md'', ''src/Lib.rs'']"
proof -
  have "map fc_workspace_relative_path (locate_by_scan ascii_locator_env [''src/Lib.rs'', ''doc/lib.md''] ''lib'' 5) =
      [''doc/lib.md'', ''src/Lib.rs'']"
    unfolding ascii_locator_env_def by code_simp
  then show ?thesis
    using locate_refines_scan [of ascii_locator_env "[''src/Lib.rs'', ''doc/lib.md'']" "''lib''" 5]
    by (simp add: ascii_locator_env_def)
qed

text \<open>
  The count of shared trigrams, which the fuzzy match sorts by, is lost: every fuzzy candidate has the same score, so
  the final ranking is by path only, and a limit keeps the files whose paths come first.
\<close>

lemma fuzzy_count_is_lost:
  "map fc_workspace_relative_path (locate_by_scan ascii_locator_env 
       [''z/abcde.rs'', ''a/xabcx.rs'', ''b/bcde1.rs'', ''b/bcde2.rs''] ''abcdez'' 1) =
   [''a/xabcx.rs'']"
  unfolding ascii_locator_env_def by code_simp
subsection \<open>The planner and the lookup of the source index\<close>

datatype planner_route = Route_File_Locator | Route_Source_Index | Route_Lexical_Search_Frame

record planner_decision =
  pd_route :: planner_route
  pd_file_candidates :: "locator_candidate list"

definition plan_search_route :: "locator_env \<Rightarrow> file_locator option \<Rightarrow> string \<Rightarrow> nat \<Rightarrow> planner_decision" where
  "plan_search_route env file_locator query limit =
     (case file_locator of
        None \<Rightarrow> \<lparr> pd_route = Route_Lexical_Search_Frame, pd_file_candidates = [] \<rparr>
      | Some index \<Rightarrow>
          (let file_candidates = locate env index query (max limit 1)
           in if file_candidates = []
              then \<lparr> pd_route = Route_Lexical_Search_Frame, pd_file_candidates = [] \<rparr>
              else \<lparr> pd_route = Route_File_Locator, pd_file_candidates = file_candidates \<rparr>))"

datatype lookup_state =
  Lookup_Missing_Db | Lookup_Empty_Index | Lookup_Cold_Required | Lookup_Busy | Lookup_Hit | Lookup_Miss

fun lookup_state_str :: "lookup_state \<Rightarrow> string" where
  "lookup_state_str Lookup_Missing_Db = ''missing-db''"
| "lookup_state_str Lookup_Empty_Index = ''empty-index''"
| "lookup_state_str Lookup_Cold_Required = ''cold-required''"
| "lookup_state_str Lookup_Busy = ''busy''"
| "lookup_state_str Lookup_Hit = ''hit''"
| "lookup_state_str Lookup_Miss = ''miss''"

record payload_proof =
  pp_structural_selector :: string
  pp_payload_kind :: string
  pp_bounded :: bool

datatype index_source_kind = Index_File | Index_Other string

record index_candidate =
  ic_path :: string
  ic_language_id :: "string option"
  ic_provider_id :: "string option"
  ic_source_kind :: index_source_kind
  ic_line_count :: "nat option"
  ic_query_keys :: "string list"
  ic_selector_symbol :: "string option"
  ic_selector_kind :: "string option"
  ic_selector_proof :: "payload_proof option"

record index_lookup =
  il_db_path :: string
  il_state :: lookup_state
  il_candidates :: "index_candidate list"

text \<open>The engine of the database takes the keys of the query; its language, roots and limit are fixed in the request.\<close>

type_synonym index_engine = "string list \<Rightarrow> string + index_lookup"

definition source_index_lookup_query_keys :: "string \<Rightarrow> string list" where
  "source_index_lookup_query_keys query = source_index_lookup_terms query"

definition rank_source_index_lookup_result :: "index_lookup \<Rightarrow> string \<Rightarrow> index_lookup" where
  "rank_source_index_lookup_result lookup query =
     lookup\<lparr> il_candidates :=
       reorder_source_index_candidates (il_candidates lookup) query ic_path ic_query_keys \<rparr>"

definition lookup_source_index :: "index_engine \<Rightarrow> string \<Rightarrow> string + index_lookup" where
  "lookup_source_index engine query =
     result_bind (engine (source_index_lookup_query_keys query))
       (\<lambda>lookup. Inr (rank_source_index_lookup_result lookup query))"

definition source_index_file_locator_lookup ::
    "locator_env \<Rightarrow> index_lookup \<Rightarrow> string option \<Rightarrow> string \<Rightarrow> nat \<Rightarrow> file_locator \<Rightarrow> index_lookup option" where
  "source_index_file_locator_lookup env base_lookup language_id query limit index =
     (let decision = plan_search_route env (Some index) query limit;
          candidates = map (\<lambda>c. \<lparr> ic_path = fc_workspace_relative_path c, ic_language_id = language_id,
              ic_provider_id = None, ic_source_kind = Index_File, ic_line_count = None,
              ic_query_keys = [fc_workspace_relative_path c], ic_selector_symbol = None,
              ic_selector_kind = None, ic_selector_proof = None \<rparr>) (pd_file_candidates decision)
      in if pd_route decision \<noteq> Route_File_Locator then None
         else if candidates = [] then None
         else Some \<lparr> il_db_path = il_db_path base_lookup, il_state = Lookup_Hit, il_candidates = candidates \<rparr>)"

definition lookup_source_index_with_planner ::
    "locator_env \<Rightarrow> index_engine \<Rightarrow> string option \<Rightarrow> string \<Rightarrow> nat \<Rightarrow> file_locator option \<Rightarrow>
     string + index_lookup" where
  "lookup_source_index_with_planner env engine language_id query limit file_locator =
     result_bind (lookup_source_index engine query) (\<lambda>lookup.
       if il_candidates lookup \<noteq> [] then Inr lookup
       else (case file_locator of
               None \<Rightarrow> Inr lookup
             | Some index \<Rightarrow>
                 (case source_index_file_locator_lookup env lookup language_id query limit index of
                    Some file_lookup \<Rightarrow> Inr file_lookup
                  | None \<Rightarrow> Inr lookup)))"

lemma mset_reorder:
  "mset (reorder_source_index_candidates candidates query path keys) = mset candidates"
  by (simp add: reorder_is_sort_by)

text \<open>The planner only adds: what the database finds is never replaced, and an error of the engine is passed on.\<close>

lemma planner_keeps_hits:
  assumes "engine (source_index_lookup_terms query) = Inr lookup" and "il_candidates lookup \<noteq> []"
  shows "\<exists>ranked. lookup_source_index_with_planner env engine language_id query limit file_locator = Inr ranked
     \<and> mset (il_candidates ranked) = mset (il_candidates lookup) \<and> il_state ranked = il_state lookup"
proof -
  let ?r = "rank_source_index_lookup_result lookup query"
  have m: "mset (il_candidates ?r) = mset (il_candidates lookup)"
    by (simp add: rank_source_index_lookup_result_def mset_reorder)
  then have "il_candidates ?r \<noteq> []" using assms(2) by auto
  then show ?thesis
    using m assms(1)
    by (simp add: lookup_source_index_with_planner_def lookup_source_index_def source_index_lookup_query_keys_def)
       (simp add: rank_source_index_lookup_result_def)
qed

lemma planner_passes_errors:
  "engine (source_index_lookup_terms query) = Inl e \<Longrightarrow>
   lookup_source_index_with_planner env engine language_id query limit file_locator = Inl e"
  by (simp add: lookup_source_index_with_planner_def lookup_source_index_def source_index_lookup_query_keys_def)

end
