(* ===== verification/SearchPipe.thy ===== *)
theory SearchPipe
  imports FileLocator SearchMerge
begin

section \<open>Acquisition of candidates for the search pipe\<close>

text \<open>
  Models, of \<open>crates/agent-semantic-search/src\<close>, \<open>dynamic_candidates.rs\<close> (candidates from the files of the roots and
  from an ingested stream), \<open>search_language_files.rs\<close>, \<open>pipe_candidates.rs\<close>, \<open>pipe_source_index_projection.rs\<close>,
  \<open>lexical_search_frame.rs\<close>, \<open>pipe_source_lexical_frame.rs\<close>, \<open>pipe_source.rs\<close> (the whole acquisition) and
  \<open>document_candidates.rs\<close>.  The host supplies the file system, the directory walk of the crate \<open>ignore\<close> and the
  document index of the crate \<open>orgize\<close>.
\<close>

subsection \<open>The host\<close>

text \<open>
  An entry of the walk below a root: its path, whether it is a regular file (a directory otherwise) and the names of
  the directories between the root and it.  The walk of the crate visits an entry only when the filter of the code
  keeps every directory above it.
\<close>

record walk_entry =
  we_path :: string
  we_is_file :: bool
  we_dirs :: "string list"

record search_host =
  ht_exists :: "string \<Rightarrow> bool"
  ht_is_file :: "string \<Rightarrow> string + bool"
  ht_read_lossy :: "string \<Rightarrow> string option"
  ht_walk :: "string \<Rightarrow> string + walk_entry list"
  ht_lower :: "string \<Rightarrow> string"
  ht_unsorted :: "overlay_hit list \<Rightarrow> overlay_hit list option"

record pipe_candidate =
  cand_path :: string
  cand_line :: nat
  cand_end_line :: nat
  cand_symbol :: string
  cand_text :: string
  cand_source :: string
  cand_confidence :: string

definition is_symbol_char :: "char \<Rightarrow> bool" where
  "is_symbol_char c \<longleftrightarrow> c = CHR ''_'' \<or> c = CHR ''-'' \<or> is_ascii_alphanumeric c"

definition symbol_from_text :: "(string \<Rightarrow> string) \<Rightarrow> string \<Rightarrow> string" where
  "symbol_from_text lower s =
     lower (case find (\<lambda>part. part \<noteq> []) (split_by (\<lambda>c. \<not> is_symbol_char c) s) of
              Some part \<Rightarrow> part | None \<Rightarrow> ''match'')"

text \<open>\<open>strip_prefix\<close> of paths: the remaining components, as one path.\<close>

definition path_strip_prefix :: "string \<Rightarrow> string \<Rightarrow> string option" where
  "path_strip_prefix base path =
     (if path_starts_with path base
      then Some (path_of_parts (is_absolute_path path \<and> \<not> is_absolute_path base)
                  (drop (length (path_parts base)) (path_parts path)))
      else None)"

definition search_display_path :: "string \<Rightarrow> string \<Rightarrow> string" where
  "search_display_path dir path =
     backslash_to_slash (case path_strip_prefix dir path of Some rest \<Rightarrow> rest | None \<Rightarrow> path)"

subsection \<open>Files of the roots\<close>

definition resolved_owner_roots :: "string \<Rightarrow> string list \<Rightarrow> string list" where
  "resolved_owner_roots project_root owners =
     (if owners = [] then [project_root]
      else map (\<lambda>owner. if is_absolute_path owner then owner else path_join project_root owner) owners)"

definition should_skip_dir_name :: "string list \<Rightarrow> string list \<Rightarrow> string \<Rightarrow> bool" where
  "should_skip_dir_name ignore_dirs include_hidden_dirs name \<longleftrightarrow>
     (starts_with name ''.'' \<and> name \<notin> set include_hidden_dirs) \<or> name \<in> set ignore_dirs"

definition path_basename_matches :: "string \<Rightarrow> string \<Rightarrow> bool" where
  "path_basename_matches lower_path t \<longleftrightarrow>
     (let name = last_piece (\<lambda>c. c = CHR ''/'') lower_path
      in name = t \<or> (case rsplit_once ''.'' name of Some (stem, _) \<Rightarrow> stem = t | None \<Rightarrow> False))"

definition path_search_priority :: "string \<Rightarrow> string list \<Rightarrow> nat \<times> nat \<times> string" where
  "path_search_priority path terms =
     (let display = backslash_to_slash path;
          lower = to_ascii_lowercase display;
          query_priority = (if list_ex (path_basename_matches lower) terms then 0
                            else if list_ex (str_contains lower) terms then 1 else 2);
          area = (\<lambda>name. str_contains display (''/'' @ name @ ''/'') \<or> ends_with display (''/'' @ name));
          layout_priority = (if area ''src'' then 0
                             else if area ''tests'' \<or> area ''benches'' \<or> area ''examples'' then 2 else 1)
      in (query_priority, layout_priority, display))"

definition path_priority_cmp :: "string list \<Rightarrow> string \<Rightarrow> string \<Rightarrow> ordering" where
  "path_priority_cmp terms left right =
     (let l = path_search_priority left terms; r = path_search_priority right terms
      in then_with (cmp (fst l) (fst r))
        (then_with (cmp (fst (snd l)) (fst (snd r))) (cmp (snd (snd l)) (snd (snd r)))))"

record root_request =
  rr_project_root :: string
  rr_locator_root :: string
  rr_terms :: "string list"
  rr_owners :: "string list"
  rr_ignore_dirs :: "string list"
  rr_include_hidden_dirs :: "string list"
  rr_file_matches :: "string \<Rightarrow> bool"
  rr_limit :: nat

definition sorted_search_files :: "search_host \<Rightarrow> root_request \<Rightarrow> string \<Rightarrow> string + string list" where
  "sorted_search_files host request dir =
     (case ht_walk host dir of
        Inl e \<Rightarrow> Inl (''failed to walk search pipe root '' @ dir @ '': '' @ e)
      | Inr entries \<Rightarrow>
          (let visited = filter (\<lambda>e. \<not> list_ex (should_skip_dir_name (rr_ignore_dirs request)
                           (rr_include_hidden_dirs request)) (we_dirs e)) entries;
               paths = map we_path (filter (\<lambda>e. we_is_file e \<and> rr_file_matches request (we_path e)) visited)
           in Inr (sort_by (path_priority_cmp (rr_terms request)) paths)))"

definition sorted_search_root_files :: "search_host \<Rightarrow> root_request \<Rightarrow> string \<Rightarrow> string + string list" where
  "sorted_search_root_files host request dir =
     (if \<not> ht_exists host dir then Inr []
      else (case ht_is_file host dir of
              Inl e \<Rightarrow> Inl (''failed to inspect search pipe root '' @ dir @ '': '' @ e)
            | Inr True \<Rightarrow> Inr [dir]
            | Inr False \<Rightarrow> sorted_search_files host request dir))"

text \<open>\<open>collect::<Result<Vec<_>, _>>\<close>: the first error, or all values.\<close>

fun collect_results :: "('e + 'a) list \<Rightarrow> 'e + 'a list" where
  "collect_results [] = Inr []"
| "collect_results (r # rs) = result_bind r (\<lambda>x. result_bind (collect_results rs) (\<lambda>xs. Inr (x # xs)))"

subsection \<open>Candidates of the overlay\<close>

text \<open>The key that \<open>seen\<close> holds of a candidate, and the vector it was pushed to.\<close>

definition candidate_key :: "pipe_candidate \<Rightarrow> string" where
  "candidate_key c =
     cand_path c @ '':'' @ show_nat (cand_line c) @ '':'' @ cand_symbol c @ '':'' @ cand_source c
     @ '':'' @ cand_confidence c"

record collecting =
  cg_seen :: "string list"
  cg_candidates :: "pipe_candidate list"
  cg_remaining :: nat

definition push_candidate :: "pipe_candidate \<Rightarrow> collecting \<Rightarrow> bool \<times> collecting" where
  "push_candidate c s =
     (if candidate_key c \<in> set (cg_seen s) then (False, s)
      else (True, s\<lparr> cg_seen := candidate_key c # cg_seen s, cg_candidates := cg_candidates s @ [c] \<rparr>))"

text \<open>\<open>clamp\<close> and \<open>min\<close> as in the source.\<close>

definition per_term_candidate_limit :: "nat \<Rightarrow> nat \<Rightarrow> nat" where
  "per_term_candidate_limit term_count total_limit =
     (if term_count = 0 then total_limit
      else min (max 16 (min (total_limit div term_count) 64)) total_limit)"

definition path_candidate :: "string \<Rightarrow> string \<Rightarrow> pipe_candidate" where
  "path_candidate display t =
     \<lparr> cand_path = display, cand_line = 1, cand_end_line = 1, cand_symbol = t, cand_text = display,
       cand_source = search_overlay_route_source, cand_confidence = ''path-lexical-overlay'' \<rparr>"

text \<open>
  The terms of one path: the first term below its limit that the path contains is pushed, and ends the loop.  The
  counters are the third argument of the path loop.
\<close>

definition first_open_term :: "string list \<Rightarrow> nat \<Rightarrow> nat list \<Rightarrow> string \<Rightarrow> (nat \<times> string) option" where
  "first_open_term terms per_term_limit counts lower =
     find (\<lambda>(i, t). counts ! i < per_term_limit \<and> str_contains lower t) (enumerate 0 terms)"

fun append_overlay_path_candidates ::
    "string \<Rightarrow> string list \<Rightarrow> nat \<Rightarrow> nat list \<Rightarrow> string list \<Rightarrow> collecting \<Rightarrow> collecting" where
  "append_overlay_path_candidates dir terms per_term_limit counts [] s = s"
| "append_overlay_path_candidates dir terms per_term_limit counts (path # paths) s =
     (if cg_remaining s = 0 then s
      else (let display = search_display_path dir path in
        case first_open_term terms per_term_limit counts (to_ascii_lowercase display) of
          None \<Rightarrow> append_overlay_path_candidates dir terms per_term_limit counts paths s
        | Some (i, t) \<Rightarrow>
            (case push_candidate (path_candidate display t) s of
               (True, s') \<Rightarrow>
                 append_overlay_path_candidates dir terms per_term_limit (counts[i := counts ! i + 1]) paths
                   (s'\<lparr> cg_remaining := cg_remaining s - 1 \<rparr>)
             | (False, s') \<Rightarrow> append_overlay_path_candidates dir terms per_term_limit counts paths s')))"

fun append_roots ::
    "string \<Rightarrow> string list \<Rightarrow> nat \<Rightarrow> string list list \<Rightarrow> collecting \<Rightarrow> collecting" where
  "append_roots dir terms per_term_limit [] s = s"
| "append_roots dir terms per_term_limit (paths # rest) s =
     (if cg_remaining s = 0 then s
      else append_roots dir terms per_term_limit rest
             (append_overlay_path_candidates dir terms per_term_limit (replicate (length terms) 0) paths s))"

definition lexical_overlay_document :: "search_host \<Rightarrow> string \<Rightarrow> string \<Rightarrow> lexical_document option" where
  "lexical_overlay_document host locator_root path =
     (let display = search_display_path locator_root path
      in map_option (\<lambda>source_text. (new_lexical_document display display (symbol_from_text (ht_lower host) display))
           \<lparr> ld_kind := ''owner'', ld_source_hash := ''workspace-dirty'', ld_search_text := source_text \<rparr>)
           (ht_read_lossy host path))"

definition overlay_hit_candidate :: "lexical_candidate_hit \<Rightarrow> pipe_candidate" where
  "overlay_hit_candidate hit =
     \<lparr> cand_path = lc_owner_path hit, cand_line = 1, cand_end_line = 1, cand_symbol = lc_symbol hit,
       cand_text = lc_text hit, cand_source = search_overlay_route_source,
       cand_confidence = ''lexical-overlay'' \<rparr>"

fun push_overlay_hits :: "nat \<Rightarrow> lexical_candidate_hit list \<Rightarrow> collecting \<Rightarrow> collecting" where
  "push_overlay_hits limit [] s = s"
| "push_overlay_hits limit (hit # hits) s =
     (if limit \<le> length (cg_candidates s) then s
      else push_overlay_hits limit hits (snd (push_candidate (overlay_hit_candidate hit) s)))"

definition document_scan_limit :: nat where
  "document_scan_limit = 256"

definition collect_dynamic_lexical_overlay_candidates ::
    "search_host \<Rightarrow> string \<Rightarrow> string list \<Rightarrow> string list list \<Rightarrow> nat \<Rightarrow> pipe_candidate list option" where
  "collect_dynamic_lexical_overlay_candidates host locator_root terms search_roots limit =
     (if limit = 0 \<or> terms = [] then Some []
      else
        (let documents = List.map_filter (lexical_overlay_document host locator_root)
               (take document_scan_limit (concat search_roots));
             per_term_limit = per_term_candidate_limit (length terms) limit;
             s = append_roots locator_root terms per_term_limit search_roots
                   \<lparr> cg_seen = [], cg_candidates = [], cg_remaining = limit \<rparr>
         in if cg_remaining s = 0 \<or> documents = [] then Some (cg_candidates s)
            else map_option (\<lambda>hits. cg_candidates (push_overlay_hits limit hits s))
                   (search_lexical_overlay_candidates (ht_unsorted host) terms documents per_term_limit
                     (cg_remaining s))))"

definition collect_candidates_from_roots ::
    "search_host \<Rightarrow> root_request \<Rightarrow> (string + pipe_candidate list) option" where
  "collect_candidates_from_roots host request =
     (if rr_limit request = 0 \<or> rr_terms request = [] then Some (Inr [])
      else (case collect_results (map (sorted_search_root_files host request)
                   (resolved_owner_roots (rr_project_root request) (rr_owners request))) of
              Inl e \<Rightarrow> Some (Inl e)
            | Inr search_roots \<Rightarrow>
                map_option Inr (collect_dynamic_lexical_overlay_candidates host (rr_locator_root request)
                  (rr_terms request) search_roots (rr_limit request))))"
subsection \<open>Records of an ingested stream\<close>

text \<open>\<open>byte_text.rs\<close> of the crate \<open>agent-semantic-provider-transport\<close>, on bytes.\<close>

definition trim_ascii_bytes :: "string \<Rightarrow> string" where
  "trim_ascii_bytes bytes = trim_chars is_ascii_whitespace bytes"

definition split_lf_or_nul_records :: "string \<Rightarrow> string list" where
  "split_lf_or_nul_records bytes =
     map trim_ascii_bytes (split_by (\<lambda>c. c = CHR 0x0A \<or> c = CHR 0x00) bytes)"

definition resolve_candidate_path :: "search_host \<Rightarrow> string \<Rightarrow> string \<Rightarrow> string \<Rightarrow> string" where
  "resolve_candidate_path host project_root locator_root path =
     (if is_absolute_path path then path
      else if ht_exists host (path_join locator_root path) then path_join locator_root path
      else path_join project_root path)"

definition find_colon :: "string \<Rightarrow> (string \<times> string) option" where
  "find_colon bytes = split_once '':'' bytes"

definition ingest_candidate :: "string \<Rightarrow> nat \<Rightarrow> string \<Rightarrow> string \<Rightarrow> pipe_candidate" where
  "ingest_candidate display line symbol body =
     \<lparr> cand_path = display, cand_line = line, cand_end_line = line, cand_symbol = symbol, cand_text = body,
       cand_source = ''ingest'', cand_confidence = ''likely'' \<rparr>"

text \<open>\<open>path:line:text\<close> or \<open>path:line:column:text\<close>; \<open>lossy\<close> is the library's lossy decoding of bytes.\<close>

definition parse_line_candidate ::
    "search_host \<Rightarrow> (string \<Rightarrow> string) \<Rightarrow> string \<Rightarrow> string \<Rightarrow> string \<Rightarrow> pipe_candidate option" where
  "parse_line_candidate host lossy project_root locator_root line =
     Option.bind (find_colon line) (\<lambda>(raw_path, rest).
     Option.bind (find_colon rest) (\<lambda>(number, rest).
     Option.bind (parse_usize number) (\<lambda>line_number.
       let body = (case find_colon rest of
                     Some (column, after) \<Rightarrow> if parse_usize column \<noteq> None then after else rest
                   | None \<Rightarrow> rest);
           absolute = resolve_candidate_path host project_root locator_root (lossy raw_path)
       in Some (ingest_candidate (search_display_path locator_root absolute) line_number
                  (symbol_from_text (ht_lower host) (lossy body)) (lossy body)))))"

definition parse_ingest_candidate_line ::
    "search_host \<Rightarrow> (string \<Rightarrow> string) \<Rightarrow> string \<Rightarrow> string \<Rightarrow> string \<Rightarrow> pipe_candidate option" where
  "parse_ingest_candidate_line host lossy project_root locator_root line =
     (if line = [] then None
      else (case parse_line_candidate host lossy project_root locator_root line of
              Some c \<Rightarrow> Some c
            | None \<Rightarrow>
                (let absolute = resolve_candidate_path host project_root locator_root (lossy line);
                     display = search_display_path locator_root absolute
                 in if \<not> ht_exists host absolute then None
                    else Some (ingest_candidate display 1 (symbol_from_text (ht_lower host) display) []))))"

definition collect_ingest_search_candidates ::
    "search_host \<Rightarrow> (string \<Rightarrow> string) \<Rightarrow> string \<Rightarrow> string \<Rightarrow> string \<Rightarrow> nat \<Rightarrow> pipe_candidate list" where
  "collect_ingest_search_candidates host lossy project_root locator_root stdin limit =
     (if limit = 0 then []
      else take limit (List.map_filter (parse_ingest_candidate_line host lossy project_root locator_root)
             (split_lf_or_nul_records stdin)))"

subsection \<open>Files of a language\<close>

record language_file_spec =
  lf_extensions :: "string list"
  lf_config_filenames :: "string list"
  lf_project_markers :: "string list"
  lf_dependency_markers :: "string list"

definition spec_is_config_path :: "language_file_spec \<Rightarrow> string \<Rightarrow> bool" where
  "spec_is_config_path spec path =
     (case path_file_name path of None \<Rightarrow> False | Some name \<Rightarrow> name \<in> set (lf_config_filenames spec))"

definition spec_matches :: "language_file_spec \<Rightarrow> string \<Rightarrow> bool" where
  "spec_matches spec path \<longleftrightarrow>
     (case path_name_extension path of
        None \<Rightarrow> False
      | Some extension \<Rightarrow> list_ex (\<lambda>s. trim_start_str ''.'' s = extension) (lf_extensions spec))
     \<or> spec_is_config_path spec path"

definition unique_strings :: "string list \<Rightarrow> string list" where
  "unique_strings items = sort_dedup (filter (\<lambda>s. s \<noteq> []) (map str_trim items))"

text \<open>The defaults of a provider manifest: extensions, configuration files, project and dependency markers.\<close>

record manifest_defaults =
  md_language_id :: string
  md_extensions :: "string list"
  md_config_files :: "string list"
  md_project_markers :: "string list"
  md_dependency_markers :: "string list"

definition spec_from_defaults :: "manifest_defaults list \<Rightarrow> language_file_spec" where
  "spec_from_defaults manifests =
     \<lparr> lf_extensions = unique_strings (concat (map md_extensions manifests)),
       lf_config_filenames = unique_strings (concat (map md_config_files manifests)),
       lf_project_markers = unique_strings (concat (map md_project_markers manifests)),
       lf_dependency_markers = unique_strings (concat (map md_dependency_markers manifests)) \<rparr>"

definition language_file_spec_of :: "manifest_defaults list \<Rightarrow> string \<Rightarrow> language_file_spec" where
  "language_file_spec_of manifests language_id =
     spec_from_defaults (filter (\<lambda>m. md_language_id m = language_id) manifests)"

definition language_neutral_search_file_spec :: "manifest_defaults list \<Rightarrow> language_file_spec" where
  "language_neutral_search_file_spec manifests = spec_from_defaults manifests"

subsection \<open>The candidates of the pipe\<close>

record pipe_request =
  pr_language_id :: string
  pr_project_root :: string
  pr_locator_root :: string
  pr_query :: string
  pr_owners :: "string list"
  pr_ignore_dirs :: "string list"
  pr_include_hidden_dirs :: "string list"
  pr_require_multi_clause :: bool
  pr_limit :: nat

definition pipe_query_terms :: "(string \<Rightarrow> string) \<Rightarrow> string \<Rightarrow> string list" where
  "pipe_query_terms lower query =
     map lower (filter (\<lambda>t. t \<noteq> [])
       (map str_trim (split_scalars (\<lambda>ch. ch = '','' \<or> ch = ''|'' \<or> is_whitespace ch) query)))"

definition pipe_needs_query :: string where
  "pipe_needs_query = ''search pipe requires a non-empty query''"

definition pipe_needs_clauses :: string where
  "pipe_needs_clauses =
     ''search pipe requires at least two query clauses; use search lexical --query <seed> --query <seed> for QueryBundle search or search owner <path> items --query <terms>''"

definition collect_search_pipe_candidates ::
    "search_host \<Rightarrow> manifest_defaults list \<Rightarrow> pipe_request \<Rightarrow> (string + pipe_candidate list) option" where
  "collect_search_pipe_candidates host manifests request =
     (let terms = pipe_query_terms (ht_lower host) (pr_query request)
      in if terms = [] then Some (Inl pipe_needs_query)
         else if pr_require_multi_clause request \<and> length terms < 2 then Some (Inl pipe_needs_clauses)
         else collect_candidates_from_roots host
           \<lparr> rr_project_root = pr_project_root request, rr_locator_root = pr_locator_root request,
             rr_terms = terms, rr_owners = pr_owners request, rr_ignore_dirs = pr_ignore_dirs request,
             rr_include_hidden_dirs = pr_include_hidden_dirs request,
             rr_file_matches = spec_matches (language_file_spec_of manifests (pr_language_id request)),
             rr_limit = pr_limit request \<rparr>)"

text \<open>
  The path stage asks the native search of \<open>search_overlay.rs\<close>; that is the argument \<open>native\<close>, which receives the
  roots and the terms and answers \<open>None\<close> when no finder is available.
\<close>

type_synonym native_search = "string list \<Rightarrow> string list \<Rightarrow> string + pipe_candidate list option"

definition collect_search_pipe_path_candidates ::
    "search_host \<Rightarrow> native_search \<Rightarrow> pipe_request \<Rightarrow> string + pipe_candidate list" where
  "collect_search_pipe_path_candidates host native request =
     (let terms = pipe_query_terms (ht_lower host) (pr_query request)
      in if terms = [] \<or> \<not> list_ex (\<lambda>t. str_contains t ''/'' \<or> str_contains t ''.'' \<or> str_contains t ''_''
              \<or> str_contains t ''-'') terms
         then Inr []
         else result_bind (native (resolved_owner_roots (pr_locator_root request) (pr_owners request)) terms)
                (\<lambda>found. case found of
                   None \<Rightarrow> Inr []
                 | Some candidates \<Rightarrow> Inr (take (pr_limit request) candidates)))"

subsection \<open>Candidates of the source index\<close>

record pipe_index_candidate =
  xc_path :: string
  xc_language_id :: "string option"
  xc_provider_id :: "string option"
  xc_source_kind :: string
  xc_line_count :: "nat option"
  xc_query_keys :: "string list"
  xc_selector_proof :: "payload_proof option"

definition structural_selector_owner_path :: "string \<Rightarrow> string option" where
  "structural_selector_owner_path selector =
     Option.bind (split_once ''://'' selector) (\<lambda>(_, rest).
     Option.bind (split_once ''#'' rest) (\<lambda>(owner, _).
       then_some (str_trim owner \<noteq> []) (str_trim owner)))"

definition has_payload_proof :: "pipe_index_candidate \<Rightarrow> bool" where
  "has_payload_proof candidate =
     (case xc_selector_proof candidate of
        None \<Rightarrow> False
      | Some proof \<Rightarrow>
          pp_bounded proof \<and> pp_payload_kind proof = ''code'' \<and> str_trim (pp_structural_selector proof) \<noteq> []
          \<and> structural_selector_owner_path (pp_structural_selector proof) = Some (xc_path candidate))"

definition source_index_candidate_confidence :: "search_host \<Rightarrow> string \<Rightarrow> pipe_index_candidate \<Rightarrow> string" where
  "source_index_candidate_confidence host project_root candidate =
     (if str_trim (xc_path candidate) = [] then ''invalid-selector''
      else if ht_is_file host (path_join project_root (xc_path candidate)) \<noteq> Inr True then ''stale-index''
      else if has_payload_proof candidate then ''selector-ready''
      else ''inventory-only'')"

definition normalize_symbol_key :: "string \<Rightarrow> string" where
  "normalize_symbol_key key = to_ascii_lowercase (filter is_identifier_char key)"

definition source_index_symbol :: "string \<Rightarrow> pipe_index_candidate \<Rightarrow> string" where
  "source_index_symbol intent candidate =
     (let query_terms = filter (\<lambda>t. t \<noteq> []) (map normalize_symbol_key (split_whitespace intent));
          exact = (\<lambda>key. list_ex (\<lambda>t. t = normalize_symbol_key key) query_terms);
          partial = (\<lambda>key. list_ex (\<lambda>t. str_contains (normalize_symbol_key key) t
                                      \<or> str_contains t (normalize_symbol_key key)) query_terms)
      in case find exact (xc_query_keys candidate) of
           Some key \<Rightarrow> key
         | None \<Rightarrow>
             (case find partial (xc_query_keys candidate) of
                Some key \<Rightarrow> key
              | None \<Rightarrow>
                  (case xc_query_keys candidate of
                     key # _ \<Rightarrow> key
                   | [] \<Rightarrow>
                       (case path_file_stem (xc_path candidate) of
                          Some stem \<Rightarrow> if stem = [] then ''source'' else stem
                        | None \<Rightarrow> ''source''))))"

definition source_index_candidate_text :: "pipe_index_candidate \<Rightarrow> string" where
  "source_index_candidate_text candidate =
     (let or_unknown = (\<lambda>v. case v of Some s \<Rightarrow> s | None \<Rightarrow> ''unknown'');
          proof_text = (case xc_selector_proof candidate of
                          None \<Rightarrow> ''none''
                        | Some proof \<Rightarrow> if pp_bounded proof then pp_payload_kind proof else ''unbounded'')
      in ''source-index path='' @ xc_path candidate @ '' language='' @ or_unknown (xc_language_id candidate)
         @ '' provider='' @ or_unknown (xc_provider_id candidate) @ '' kind='' @ xc_source_kind candidate
         @ '' payloadProof='' @ proof_text @ '' queryKeys='' @ str_join ''|'' (take 8 (xc_query_keys candidate)))"

definition source_index_candidate :: "search_host \<Rightarrow> string \<Rightarrow> string \<Rightarrow> pipe_index_candidate \<Rightarrow> pipe_candidate" where
  "source_index_candidate host project_root intent candidate =
     \<lparr> cand_path = xc_path candidate, cand_line = 1,
       cand_end_line = max (case xc_line_count candidate of Some n \<Rightarrow> n | None \<Rightarrow> 1) 1,
       cand_symbol = source_index_symbol intent candidate,
       cand_text = source_index_candidate_text candidate, cand_source = ''source-index'',
       cand_confidence = source_index_candidate_confidence host project_root candidate \<rparr>"

definition source_index_candidate_ready :: "pipe_candidate \<Rightarrow> bool" where
  "source_index_candidate_ready candidate \<longleftrightarrow> cand_confidence candidate = ''selector-ready''"

datatype index_decision =
  Decision_Query_Gate | Decision_Defer_Backend | Decision_Use_And_Skip_Overlay | Decision_Busy
  | Decision_Cold_Required | Decision_Fallthrough

record index_acquisition =
  ia_decision :: index_decision
  ia_gate :: "(nat \<times> nat) option"
  ia_candidates :: "pipe_candidate list"

definition source_index_query_gate :: "string \<Rightarrow> (nat \<times> nat) option" where
  "source_index_query_gate intent =
     map_option (\<lambda>block. (bb_term_count block, length (bb_generic_terms block)))
       (search_terms_budget_block (search_query_terms intent) [] False)"

definition intent_terms_all_path_like :: "string \<Rightarrow> bool" where
  "intent_terms_all_path_like intent \<longleftrightarrow>
     (let terms = filter (\<lambda>t. t \<noteq> [])
            (map str_trim (split_scalars (\<lambda>ch. ch = '','' \<or> ch = ''|'' \<or> is_whitespace ch) intent))
      in terms \<noteq> [] \<and> list_all (\<lambda>t. str_contains t ''/'' \<or> str_contains t [CHR 0x5C] \<or> str_contains t ''.'') terms)"

text \<open>The lookup is the state's text and the candidates.\<close>

definition collect_source_index_acquisition ::
    "search_host \<Rightarrow> string \<Rightarrow> string \<Rightarrow> string list \<Rightarrow> (string \<times> pipe_index_candidate list) option \<Rightarrow>
     index_acquisition option" where
  "collect_source_index_acquisition host intent project_root scopes lookup =
     (if scopes \<noteq> [] then None
      else (case source_index_query_gate intent of
        Some gate \<Rightarrow> Some \<lparr> ia_decision = Decision_Query_Gate, ia_gate = Some gate, ia_candidates = [] \<rparr>
      | None \<Rightarrow>
          map_option (\<lambda>(state, found).
            let candidates = map (source_index_candidate host project_root intent) found;
                decision =
                  (if state = ''busy'' \<and> candidates = [] then Decision_Busy
                   else if state = ''cold-required'' \<and> candidates = [] then Decision_Cold_Required
                   else if intent_terms_all_path_like intent
                        \<and> state \<in> set [''missing-db'', ''empty-index'', ''miss''] then Decision_Defer_Backend
                   else if candidates = [] then Decision_Fallthrough
                   else if list_all source_index_candidate_ready candidates then Decision_Use_And_Skip_Overlay
                   else Decision_Defer_Backend)
            in \<lparr> ia_decision = decision, ia_gate = None, ia_candidates = candidates \<rparr>) lookup))"
subsection \<open>The lexical search frame\<close>

datatype acquisition_route =
  Acq_Query_Bundle_Required | Acq_Warm_Overlay | Acq_Session_Dynamic_Overlay | Acq_Owner_Evidence
  | Acq_Provider_Owner_Items | Acq_Bounded_Cold_Scan | Acq_Degraded_Finder

fun acquisition_route_str :: "acquisition_route \<Rightarrow> string" where
  "acquisition_route_str Acq_Query_Bundle_Required = ''query-bundle-required''"
| "acquisition_route_str Acq_Warm_Overlay = ''warm-overlay''"
| "acquisition_route_str Acq_Session_Dynamic_Overlay = ''session-dynamic-overlay''"
| "acquisition_route_str Acq_Owner_Evidence = ''source-index-owner-evidence''"
| "acquisition_route_str Acq_Provider_Owner_Items = ''provider-owner-items''"
| "acquisition_route_str Acq_Bounded_Cold_Scan = ''bounded-cold-scan''"
| "acquisition_route_str Acq_Degraded_Finder = ''degraded-finder''"

datatype query_relation = Relation_Query_Bundle_Required | Relation_Cohesive

fun query_relation_str :: "query_relation \<Rightarrow> string" where
  "query_relation_str Relation_Query_Bundle_Required = ''query-bundle-required''"
| "query_relation_str Relation_Cohesive = ''cohesive''"

datatype frame_evidence = Frame_Owner_Ready | Frame_Item_Ready | Frame_Test_Ready | Frame_Needs_Cold_Scan | Frame_Degraded

fun frame_evidence_str :: "frame_evidence \<Rightarrow> string" where
  "frame_evidence_str Frame_Owner_Ready = ''owner-ready''"
| "frame_evidence_str Frame_Item_Ready = ''item-ready''"
| "frame_evidence_str Frame_Test_Ready = ''test-ready''"
| "frame_evidence_str Frame_Needs_Cold_Scan = ''needs-cold-scan''"
| "frame_evidence_str Frame_Degraded = ''degraded''"

record frame_candidate =
  fr_path :: string
  fr_symbol :: string
  fr_source :: string

record frame_request =
  fq_terms :: "string list"
  fq_warm_candidates :: "frame_candidate list"
  fq_session_candidates :: "frame_candidate list"
  fq_owner_candidates :: "frame_candidate list"
  fq_provider_owner_item_available :: bool
  fq_cold_scan_allowed :: bool

record frame_route =
  fo_acquisition_route :: acquisition_route
  fo_query_relation :: query_relation
  fo_evidence_state :: frame_evidence
  fo_fallback_reason :: string
  fo_provider_process_count :: nat
  fo_native_finder_process_count :: nat
  fo_selected_candidate_count :: nat
  fo_query_bundle_count :: nat
  fo_covered_seed_count :: nat
  fo_cohesive_owner_count :: nat

definition lexical_candidate_matches_seed :: "frame_candidate \<Rightarrow> string \<Rightarrow> bool" where
  "lexical_candidate_matches_seed candidate t \<longleftrightarrow>
     str_contains (to_ascii_lowercase (fr_symbol candidate)) t \<or> str_contains (to_ascii_lowercase (fr_path candidate)) t"

text \<open>The seeds, by position, that some candidate of a list matches.\<close>

definition covered_seeds :: "string list \<Rightarrow> frame_candidate list \<Rightarrow> (nat \<times> string) list" where
  "covered_seeds seeds candidates =
     filter (\<lambda>(i, t). list_ex (\<lambda>c. lexical_candidate_matches_seed c t) candidates) (enumerate 0 seeds)"

definition normalized_seeds :: "string list \<Rightarrow> string list" where
  "normalized_seeds terms = filter (\<lambda>t. t \<noteq> []) (map to_ascii_lowercase terms)"

definition cohesive_owners :: "string list \<Rightarrow> frame_candidate list \<Rightarrow> string list" where
  "cohesive_owners seeds candidates =
     filter (\<lambda>path. 1 < length (covered_seeds seeds (filter (\<lambda>c. fr_path c = path) candidates)))
       (sort_dedup (map fr_path candidates))"

definition lexical_query_relation :: "string list \<Rightarrow> query_relation" where
  "lexical_query_relation terms = (if 1 < length terms then Relation_Cohesive else Relation_Query_Bundle_Required)"

definition lexical_route ::
    "frame_request \<Rightarrow> acquisition_route \<Rightarrow> frame_evidence \<Rightarrow> string \<Rightarrow> nat \<Rightarrow> nat \<Rightarrow> frame_candidate list \<Rightarrow> frame_route" where
  "lexical_route request route evidence reason provider_processes finder_processes candidates =
     (let seeds = normalized_seeds (fq_terms request)
      in \<lparr> fo_acquisition_route = route, fo_query_relation = lexical_query_relation (fq_terms request),
           fo_evidence_state = evidence, fo_fallback_reason = reason,
           fo_provider_process_count = provider_processes, fo_native_finder_process_count = finder_processes,
           fo_selected_candidate_count = length candidates, fo_query_bundle_count = length seeds,
           fo_covered_seed_count = length (covered_seeds seeds candidates),
           fo_cohesive_owner_count = length (cohesive_owners seeds candidates) \<rparr>)"

definition infer_evidence_state :: "frame_candidate list \<Rightarrow> frame_evidence" where
  "infer_evidence_state candidates =
     (if list_ex (\<lambda>c. str_contains (fr_path c) ''test'') candidates then Frame_Test_Ready
      else if list_ex (\<lambda>c. fr_symbol c \<noteq> []) candidates then Frame_Item_Ready
      else Frame_Owner_Ready)"

definition plan_lexical_search_frame :: "frame_request \<Rightarrow> frame_route" where
  "plan_lexical_search_frame request =
     (if length (fq_terms request) < 2 then
        lexical_route request Acq_Query_Bundle_Required Frame_Degraded ''query-bundle-required'' 0 0 []
      else if fq_warm_candidates request \<noteq> [] then
        lexical_route request Acq_Warm_Overlay (infer_evidence_state (fq_warm_candidates request)) ''none'' 0 0
          (fq_warm_candidates request)
      else if fq_session_candidates request \<noteq> [] then
        lexical_route request Acq_Session_Dynamic_Overlay (infer_evidence_state (fq_session_candidates request))
          ''warm-miss'' 0 0 (fq_session_candidates request)
      else if fq_owner_candidates request \<noteq> [] then
        lexical_route request Acq_Owner_Evidence Frame_Owner_Ready ''selector-proof-missing'' 0 0
          (fq_owner_candidates request)
      else if fq_provider_owner_item_available request then
        lexical_route request Acq_Provider_Owner_Items Frame_Owner_Ready ''warm-miss'' 1 0 []
      else if fq_cold_scan_allowed request then
        lexical_route request Acq_Bounded_Cold_Scan Frame_Needs_Cold_Scan ''warm-miss'' 0 0 []
      else lexical_route request Acq_Degraded_Finder Frame_Degraded ''no-parser-facts'' 0 1 [])"

definition render_receipt :: "frame_route \<Rightarrow> string" where
  "render_receipt r =
     ''searchFrame=lexical queryBundle='' @ show_nat (fo_query_bundle_count r)
     @ '' queryRelation='' @ query_relation_str (fo_query_relation r)
     @ '' coveredSeeds='' @ show_nat (fo_covered_seed_count r)
     @ '' cohesiveOwnerCount='' @ show_nat (fo_cohesive_owner_count r)
     @ '' acquisitionRoute='' @ acquisition_route_str (fo_acquisition_route r)
     @ '' graphRouter=lexical-v1 evidenceState='' @ frame_evidence_str (fo_evidence_state r)
     @ '' fallbackReason='' @ fo_fallback_reason r
     @ '' providerProcessCount='' @ show_nat (fo_provider_process_count r)
     @ '' nativeFinderProcessCount='' @ show_nat (fo_native_finder_process_count r)
     @ '' selectedCandidateCount='' @ show_nat (fo_selected_candidate_count r)"

subsection \<open>The frame of the pipe\<close>

definition frame_candidate_of :: "pipe_candidate \<Rightarrow> frame_candidate" where
  "frame_candidate_of c = \<lparr> fr_path = cand_path c, fr_symbol = cand_symbol c, fr_source = cand_source c \<rparr>"

definition source_index_owner_candidates :: "index_acquisition \<Rightarrow> pipe_candidate list" where
  "source_index_owner_candidates a =
     filter (\<lambda>c. cand_confidence c \<noteq> ''invalid-selector'' \<and> cand_confidence c \<noteq> ''stale-index'') (ia_candidates a)"

definition source_index_owner_evidence_candidates :: "index_acquisition \<Rightarrow> pipe_candidate list" where
  "source_index_owner_evidence_candidates a =
     (if ia_decision a \<noteq> Decision_Defer_Backend then [] else source_index_owner_candidates a)"

definition lexical_search_frame_terms :: "string \<Rightarrow> string list" where
  "lexical_search_frame_terms query =
     filter (\<lambda>t. t \<noteq> []) (map str_trim (split_scalars (\<lambda>ch. ch = ''|'' \<or> is_whitespace ch) query))"

definition plan_pipe_lexical_search_frame :: "string \<Rightarrow> index_acquisition option \<Rightarrow> frame_route" where
  "plan_pipe_lexical_search_frame query source_index =
     plan_lexical_search_frame
       \<lparr> fq_terms = lexical_search_frame_terms query,
         fq_warm_candidates =
           (case source_index of
              Some a \<Rightarrow> if ia_decision a = Decision_Use_And_Skip_Overlay
                        then map frame_candidate_of (ia_candidates a) else []
            | None \<Rightarrow> []),
         fq_session_candidates = [],
         fq_owner_candidates =
           (case source_index of
              Some a \<Rightarrow> if ia_decision a = Decision_Defer_Backend
                        then map frame_candidate_of (source_index_owner_candidates a) else []
            | None \<Rightarrow> []),
         fq_provider_owner_item_available = False, fq_cold_scan_allowed = True \<rparr>"

subsection \<open>The acquisition\<close>

text \<open>Elapsed times are readings of the clock and left out of the traces.\<close>

record source_trace =
  st_source :: string
  st_status :: string
  st_matched :: nat
  st_missing :: nat
  st_normalized :: nat

record source_acquisition =
  sq_candidates :: "pipe_candidate list"
  sq_candidate_sources :: "string list"
  sq_source_trace :: "source_trace list"

definition candidate_trace :: "string \<Rightarrow> pipe_candidate list \<Rightarrow> source_trace" where
  "candidate_trace source candidates =
     \<lparr> st_source = source, st_status = (if candidates = [] then ''empty'' else ''used''),
       st_matched = length candidates, st_missing = of_bool (candidates = []),
       st_normalized = length candidates \<rparr>"

definition index_decision_status :: "index_decision \<Rightarrow> string" where
  "index_decision_status d =
     (case d of Decision_Query_Gate \<Rightarrow> ''query-gate'' | Decision_Defer_Backend \<Rightarrow> ''deferred''
      | Decision_Use_And_Skip_Overlay \<Rightarrow> ''used'' | Decision_Busy \<Rightarrow> ''busy''
      | Decision_Cold_Required \<Rightarrow> ''cold-required'' | Decision_Fallthrough \<Rightarrow> ''fallthrough'')"

definition source_index_trace :: "index_acquisition \<Rightarrow> source_trace" where
  "source_index_trace a =
     \<lparr> st_source = ''sourceIndex'', st_status = index_decision_status (ia_decision a),
       st_matched = length (ia_candidates a),
       st_missing = length (filter (\<lambda>c. cand_confidence c = ''stale-index'') (ia_candidates a)),
       st_normalized = length (filter source_index_candidate_ready (ia_candidates a)) \<rparr>"

definition lexical_search_frame_trace :: "frame_route \<Rightarrow> source_trace" where
  "lexical_search_frame_trace r =
     \<lparr> st_source = ''lexical-search-frame'', st_status = render_receipt r,
       st_matched = fo_selected_candidate_count r, st_missing = of_bool (fo_fallback_reason r \<noteq> ''none''),
       st_normalized = fo_selected_candidate_count r \<rparr>"

definition merge_key :: "pipe_candidate \<Rightarrow> string \<times> nat \<times> nat \<times> string" where
  "merge_key c = (cand_path c, cand_line c, cand_end_line c, cand_symbol c)"

fun first_by_key :: "(string \<times> nat \<times> nat \<times> string) list \<Rightarrow> pipe_candidate list \<Rightarrow> pipe_candidate list" where
  "first_by_key seen [] = []"
| "first_by_key seen (c # cs) =
     (if merge_key c \<in> set seen then first_by_key seen cs
      else c # first_by_key (merge_key c # seen) cs)"

definition merge_search_pipe_candidates :: "pipe_candidate list \<Rightarrow> pipe_candidate list \<Rightarrow> pipe_candidate list" where
  "merge_search_pipe_candidates primary secondary = first_by_key [] (primary @ secondary)"

definition search_pipe_candidate_scopes :: "pipe_candidate list \<Rightarrow> string list" where
  "search_pipe_candidate_scopes candidates =
     sort_dedup (map cand_path (filter (\<lambda>c. cand_path c \<noteq> []) candidates))"

definition lexical_candidates_of :: "frame_route \<Rightarrow> index_acquisition option \<Rightarrow> pipe_candidate list" where
  "lexical_candidates_of route source_index =
     (case source_index of
        None \<Rightarrow> []
      | Some a \<Rightarrow>
          (case fo_acquisition_route route of
             Acq_Warm_Overlay \<Rightarrow> ia_candidates a
           | Acq_Owner_Evidence \<Rightarrow> source_index_owner_evidence_candidates a
           | _ \<Rightarrow> []))"

definition proof_source_of :: "index_acquisition option \<Rightarrow> string" where
  "proof_source_of source_index =
     (case source_index of
        Some a \<Rightarrow> if ia_decision a = Decision_Busy \<or> ia_decision a = Decision_Cold_Required
                  then ''rg-rescue'' else ''rg-proof''
      | None \<Rightarrow> ''rg-proof'')"

definition collect_search_pipe_auto_acquisition ::
    "search_host \<Rightarrow> native_search \<Rightarrow> manifest_defaults list \<Rightarrow> pipe_request \<Rightarrow>
     (string \<times> pipe_index_candidate list) option \<Rightarrow> (string + source_acquisition) option" where
  "collect_search_pipe_auto_acquisition host native manifests request lookup =
     (let source_index = collect_source_index_acquisition host (pr_query request) (pr_project_root request)
            (pr_owners request) lookup;
          route = plan_pipe_lexical_search_frame (pr_query request) source_index;
          lexical = lexical_candidates_of route source_index
      in case collect_search_pipe_path_candidates host native request of
           Inl e \<Rightarrow> Some (Inl e)
         | Inr path_candidates \<Rightarrow>
             (let candidates = merge_search_pipe_candidates lexical path_candidates;
                  scopes = search_pipe_candidate_scopes candidates;
                  proof_scopes = (if scopes = [] then pr_owners request else scopes)
              in map_option
                   (map_sum (\<lambda>e. e) (\<lambda>proof_candidates.
                     \<lparr> sq_candidates = merge_search_pipe_candidates candidates proof_candidates,
                       sq_candidate_sources =
                         (if source_index \<noteq> None then [''source-index''] else [])
                         @ [''fd-path'', proof_source_of source_index],
                       sq_source_trace =
                         (case source_index of Some a \<Rightarrow> [source_index_trace a] | None \<Rightarrow> [])
                         @ [lexical_search_frame_trace route, candidate_trace ''fd-path'' path_candidates,
                            candidate_trace (proof_source_of source_index) proof_candidates] \<rparr>))
                   (collect_search_pipe_candidates host manifests (request\<lparr> pr_owners := proof_scopes \<rparr>))))"

text \<open>An acquisition from the overlay alone.\<close>

definition search_overlay_source_acquisition ::
    "search_host \<Rightarrow> manifest_defaults list \<Rightarrow> pipe_request \<Rightarrow> (string + source_acquisition) option" where
  "search_overlay_source_acquisition host manifests request =
     map_option (map_sum (\<lambda>e. e) (\<lambda>candidates.
         \<lparr> sq_candidates = candidates, sq_candidate_sources = [''search-overlay''],
           sq_source_trace = [candidate_trace ''search-overlay'' candidates] \<rparr>))
       (collect_search_pipe_candidates host manifests request)"

subsection \<open>The query of a failure message\<close>

definition failure_stop_words :: "string list" where
  "failure_stop_words =
     [''expected'', ''actual'', ''failure'', ''failed'', ''panic'', ''error'', ''status'', ''stdout'', ''stderr'',
      ''left'', ''right'', ''pass'', ''fail'', ''hit'', ''miss'', ''observed'', ''unknown'',
      ''request_fingerprint'', ''file_hash'']"

definition failure_token_character :: "char \<Rightarrow> bool" where
  "failure_token_character c \<longleftrightarrow> c = CHR ''_'' \<or> c = CHR ''-'' \<or> c = CHR '':'' \<or> is_ascii_alphanumeric c"

definition push_failure_candidate_term :: "string list \<Rightarrow> string \<Rightarrow> string list" where
  "push_failure_candidate_term terms token =
     (let token = trim_chars (\<lambda>c. c \<in> set '':.,;()[]'') token;
          lower = to_ascii_lowercase token
      in if length token < 4 \<or> lower \<in> set failure_stop_words
            \<or> \<not> (str_contains token ''_'' \<or> str_contains token ''-'')
         then terms else push_unique terms token)"

definition failure_terms_of_token :: "string list \<Rightarrow> string \<Rightarrow> string list" where
  "failure_terms_of_token terms token =
     (if str_contains token ''::''
      then (case find (\<lambda>part. part \<noteq> []) (rev (split_str ''::'' token)) of
              Some part \<Rightarrow> push_failure_candidate_term terms part | None \<Rightarrow> terms)
      else push_failure_candidate_term terms token)"

definition failure_candidate_query :: "string \<Rightarrow> string" where
  "failure_candidate_query message =
     (let terms = foldl failure_terms_of_token []
            (filter (\<lambda>t. t \<noteq> []) (split_by (\<lambda>c. \<not> failure_token_character c) message))
      in if terms = [] then message else str_join '' '' terms)"

definition collect_search_pipe_failure_acquisition ::
    "search_host \<Rightarrow> manifest_defaults list \<Rightarrow> pipe_request \<Rightarrow> string \<Rightarrow> (string + pipe_candidate list) option" where
  "collect_search_pipe_failure_acquisition host manifests request message =
     collect_search_pipe_candidates host manifests
       (request\<lparr> pr_query := failure_candidate_query message, pr_owners := [], pr_require_multi_clause := False \<rparr>)"
subsection \<open>What a frame costs\<close>

text \<open>
  Candidates at hand cost no process; whatever the route, at most one process is started, and the evidence of a
  route says whether candidates were selected.
\<close>

lemma frame_starts_at_most_one_process:
  "fo_provider_process_count (plan_lexical_search_frame r)
     + fo_native_finder_process_count (plan_lexical_search_frame r) \<le> 1"
  by (simp add: plan_lexical_search_frame_def lexical_route_def Let_def)

lemma selected_candidates_cost_no_process:
  "0 < fo_selected_candidate_count (plan_lexical_search_frame r) \<Longrightarrow>
     fo_provider_process_count (plan_lexical_search_frame r) = 0
     \<and> fo_native_finder_process_count (plan_lexical_search_frame r) = 0"
  by (simp add: plan_lexical_search_frame_def lexical_route_def Let_def split: if_splits)

lemma covered_seeds_bounded: "length (covered_seeds seeds candidates) \<le> length seeds"
  unfolding covered_seeds_def
  by (rule order_trans [OF length_filter_le]) simp

lemma frame_covers_at_most_its_seeds:
  "fo_covered_seed_count (plan_lexical_search_frame r) \<le> fo_query_bundle_count (plan_lexical_search_frame r)"
  by (simp add: plan_lexical_search_frame_def lexical_route_def Let_def covered_seeds_bounded)

lemma lexical_route_acquisition [simp]:
  "fo_acquisition_route (lexical_route r route evidence reason p f cs) = route"
  by (simp add: lexical_route_def Let_def)

lemma warm_frame_has_warm_candidates:
  "fo_acquisition_route (plan_lexical_search_frame r) = Acq_Warm_Overlay \<Longrightarrow> fq_warm_candidates r \<noteq> []"
  by (auto simp: plan_lexical_search_frame_def split: if_splits)

subsection \<open>Candidates of the overlay are bounded and unrepeated\<close>

definition collecting_ok :: "nat \<Rightarrow> collecting \<Rightarrow> bool" where
  "collecting_ok limit s \<longleftrightarrow>
     length (cg_candidates s) + cg_remaining s = limit
     \<and> set (cg_seen s) = candidate_key ` set (cg_candidates s)
     \<and> distinct (map candidate_key (cg_candidates s))"

lemma push_candidate_keeps_seen:
  assumes "set (cg_seen s) = candidate_key ` set (cg_candidates s)"
    and "distinct (map candidate_key (cg_candidates s))"
    and "push_candidate c s = (fresh, s')"
  shows "set (cg_seen s') = candidate_key ` set (cg_candidates s')
     \<and> distinct (map candidate_key (cg_candidates s'))
     \<and> length (cg_candidates s') = length (cg_candidates s) + of_bool fresh
     \<and> cg_remaining s' = cg_remaining s
     \<and> set (cg_candidates s') \<subseteq> insert c (set (cg_candidates s))"
  using assms by (auto simp: push_candidate_def split: if_splits)

lemma collecting_ok_push:
  assumes "collecting_ok limit s" and "cg_remaining s \<noteq> 0" and "push_candidate c s = (True, s')"
  shows "collecting_ok limit (s'\<lparr> cg_remaining := cg_remaining s - 1 \<rparr>)"
  using assms push_candidate_keeps_seen [of s c True s'] by (auto simp: collecting_ok_def)

lemma collecting_ok_push_old:
  assumes "push_candidate c s = (False, s')"
  shows "s' = s"
  using assms by (auto simp: push_candidate_def split: if_splits)

lemma overlay_paths_keep_collecting:
  "collecting_ok limit s \<Longrightarrow>
     collecting_ok limit (append_overlay_path_candidates dir terms n counts paths s)"
proof (induction dir terms n counts paths s rule: append_overlay_path_candidates.induct)
  case (1 dir terms n counts s)
  then show ?case by simp
next
  case (2 dir terms n counts path paths s)
  show ?case
  proof (cases "cg_remaining s = 0")
    case True
    then show ?thesis using "2.prems" by simp
  next
    case False
    note open_ = False
    let ?display = "search_display_path dir path"
    show ?thesis
    proof (cases "first_open_term terms n counts (to_ascii_lowercase ?display)")
      case None
      then show ?thesis using open_ 2 by (simp add: Let_def)
    next
      case (Some found)
      obtain i t where found: "found = (i, t)" by (cases found)
      obtain fresh s' where pushed: "push_candidate (path_candidate ?display t) s = (fresh, s')"
        by (cases "push_candidate (path_candidate ?display t) s")
      show ?thesis
      proof (cases fresh)
        case True
        then have p: "push_candidate (path_candidate ?display t) s = (True, s')" using pushed by simp
        have "collecting_ok limit (s'\<lparr> cg_remaining := cg_remaining s - 1 \<rparr>)"
          by (rule collecting_ok_push [OF "2.prems" open_ p])
        then show ?thesis
          using 2(2) [OF open_ refl Some [unfolded found] refl p [symmetric] refl]
          using open_ Some p found by (simp add: Let_def)
      next
        case False
        then have p: "push_candidate (path_candidate ?display t) s = (False, s')" using pushed by simp
        have "s' = s" by (rule collecting_ok_push_old [OF p])
        then show ?thesis
          using 2(3) [OF open_ refl Some [unfolded found] refl p [symmetric]] "2.prems"
          using open_ Some p found by (simp add: Let_def)
      qed
    qed
  qed
qed
lemma overlay_roots_keep_collecting:
  "collecting_ok limit s \<Longrightarrow> collecting_ok limit (append_roots dir terms n roots s)"
  by (induction dir terms n roots s rule: append_roots.induct) (auto intro: overlay_paths_keep_collecting)

lemma push_overlay_hits_bounded:
  assumes "set (cg_seen s) = candidate_key ` set (cg_candidates s)"
    and "distinct (map candidate_key (cg_candidates s))"
    and "length (cg_candidates s) \<le> limit"
  shows "length (cg_candidates (push_overlay_hits limit hits s)) \<le> limit
     \<and> distinct (map candidate_key (cg_candidates (push_overlay_hits limit hits s)))"
  using assms
proof (induction limit hits s rule: push_overlay_hits.induct)
  case (1 limit s)
  then show ?case by simp
next
  case (2 limit hit hits s)
  obtain fresh s' where pushed: "push_candidate (overlay_hit_candidate hit) s = (fresh, s')"
    by (cases "push_candidate (overlay_hit_candidate hit) s")
  note kept = push_candidate_keeps_seen [OF "2.prems"(1,2) pushed]
  show ?case
  proof (cases "limit \<le> length (cg_candidates s)")
    case True
    then show ?thesis using "2.prems" by simp
  next
    case False
    then have "length (cg_candidates s') \<le> limit" using kept by (cases fresh) auto
    then show ?thesis using False "2.IH" [OF False] kept pushed by simp
  qed
qed

theorem dynamic_candidates_bounded:
  assumes "collect_dynamic_lexical_overlay_candidates host root_dir terms roots limit = Some candidates"
  shows "length candidates \<le> limit \<and> distinct (map candidate_key candidates)"
proof (cases "limit = 0 \<or> terms = []")
  case True
  then show ?thesis using assms by (auto simp: collect_dynamic_lexical_overlay_candidates_def)
next
  case False
  let ?s = "append_roots root_dir terms (per_term_candidate_limit (length terms) limit) roots
              \<lparr> cg_seen = [], cg_candidates = [], cg_remaining = limit \<rparr>"
  have "collecting_ok limit ?s" by (rule overlay_roots_keep_collecting) (simp add: collecting_ok_def)
  then have s: "set (cg_seen ?s) = candidate_key ` set (cg_candidates ?s)"
      "distinct (map candidate_key (cg_candidates ?s))" "length (cg_candidates ?s) \<le> limit"
    by (auto simp: collecting_ok_def)
  show ?thesis
    using assms False s push_overlay_hits_bounded [OF s]
    by (auto simp: collect_dynamic_lexical_overlay_candidates_def Let_def split: if_splits)
qed

subsection \<open>What an acquisition returns\<close>

lemma first_by_key_distinct:
  "distinct (map merge_key (first_by_key seen cs)) \<and> set (map merge_key (first_by_key seen cs)) \<inter> set seen = {}"
  by (induction seen cs rule: first_by_key.induct) auto

lemma first_by_key_subset: "set (first_by_key seen cs) \<subseteq> set cs"
  by (induction seen cs rule: first_by_key.induct) auto

lemma first_by_key_complete:
  "c \<in> set cs \<Longrightarrow> merge_key c \<in> set seen \<or> merge_key c \<in> merge_key ` set (first_by_key seen cs)"
  by (induction seen cs rule: first_by_key.induct) auto

lemma merged_candidates_once: "distinct (map merge_key (merge_search_pipe_candidates xs ys))"
  unfolding merge_search_pipe_candidates_def using first_by_key_distinct by blast

lemma merged_candidates_from: "c \<in> set (merge_search_pipe_candidates xs ys) \<Longrightarrow> c \<in> set xs \<or> c \<in> set ys"
  unfolding merge_search_pipe_candidates_def using first_by_key_subset by fastforce

lemma merged_candidates_complete:
  "c \<in> set xs \<or> c \<in> set ys \<Longrightarrow> merge_key c \<in> merge_key ` set (merge_search_pipe_candidates xs ys)"
  unfolding merge_search_pipe_candidates_def using first_by_key_complete [of c "xs @ ys" "[]"] by auto

lemma present_confidence:
  assumes "source_index_candidate_confidence host root_dir x \<noteq> ''invalid-selector''"
    and "source_index_candidate_confidence host root_dir x \<noteq> ''stale-index''"
  shows "ht_is_file host (path_join root_dir (xc_path x)) = Inr True"
  using assms by (auto simp: source_index_candidate_confidence_def split: if_splits)

text \<open>Candidates that a frame takes from the index name a file that is there now.\<close>

definition present_candidate :: "search_host \<Rightarrow> string \<Rightarrow> string \<Rightarrow> pipe_candidate \<Rightarrow> bool" where
  "present_candidate host root_dir intent c \<longleftrightarrow>
     ht_is_file host (path_join root_dir (cand_path c)) = Inr True \<and> cand_source c = ''source-index''"

text \<open>The decision on the candidates of a lookup, by the order of the tests.\<close>

lemma index_acquisition_shape:
  assumes "collect_source_index_acquisition host intent root_dir owners lookup = Some a"
  shows "ia_candidates a = [] \<and> ia_decision a = Decision_Query_Gate
     \<or> (\<exists>state found. lookup = Some (state, found)
          \<and> ia_candidates a = map (source_index_candidate host root_dir intent) found
          \<and> (ia_decision a = Decision_Use_And_Skip_Overlay \<longrightarrow>
               list_all source_index_candidate_ready (ia_candidates a)))"
proof (cases "source_index_query_gate intent")
  case (Some gate)
  then show ?thesis using assms by (auto simp: collect_source_index_acquisition_def split: if_splits)
next
  case None
  note open_ = None
  show ?thesis
  proof (cases lookup)
    case None
    then show ?thesis using assms open_ by (simp add: collect_source_index_acquisition_def split: if_splits)
  next
    case (Some l)
    obtain state found where l: "l = (state, found)" by (cases l)
    have a: "a = (let candidates = map (source_index_candidate host root_dir intent) found;
                decision =
                  (if state = ''busy'' \<and> candidates = [] then Decision_Busy
                   else if state = ''cold-required'' \<and> candidates = [] then Decision_Cold_Required
                   else if intent_terms_all_path_like intent
                        \<and> state \<in> set [''missing-db'', ''empty-index'', ''miss''] then Decision_Defer_Backend
                   else if candidates = [] then Decision_Fallthrough
                   else if list_all source_index_candidate_ready candidates then Decision_Use_And_Skip_Overlay
                   else Decision_Defer_Backend)
            in \<lparr> ia_decision = decision, ia_gate = None, ia_candidates = candidates \<rparr>)"
      using assms open_ Some l unfolding collect_source_index_acquisition_def
      by (simp only: option.map option.case prod.case option.inject split: if_split_asm) blast
    have cands: "ia_candidates a = map (source_index_candidate host root_dir intent) found"
      unfolding a Let_def by simp
    have "ia_decision a = Decision_Use_And_Skip_Overlay \<longrightarrow>
        list_all source_index_candidate_ready (map (source_index_candidate host root_dir intent) found)"
      unfolding a Let_def by (simp del: list_all_iff split: if_split)
    then show ?thesis using cands Some l by auto
  qed
qed

lemma index_candidates_are_mapped:
  assumes "collect_source_index_acquisition host intent root_dir owners lookup = Some a" and "c \<in> set (ia_candidates a)"
  shows "\<exists>x. c = source_index_candidate host root_dir intent x"
  using index_acquisition_shape [OF assms(1)] assms(2) by auto

lemma skipping_decision_is_ready:
  assumes "collect_source_index_acquisition host intent root_dir owners lookup = Some a"
    and "ia_decision a = Decision_Use_And_Skip_Overlay"
  shows "list_all source_index_candidate_ready (ia_candidates a)"
  using index_acquisition_shape [OF assms(1)] assms(2) by auto

lemma mapped_candidate_present:
  assumes "c = source_index_candidate host root_dir intent x"
    and "cand_confidence c \<noteq> ''invalid-selector''" and "cand_confidence c \<noteq> ''stale-index''"
  shows "present_candidate host root_dir intent c"
  using assms present_confidence [of host root_dir x]
  by (auto simp: present_candidate_def source_index_candidate_def)

lemma frame_candidates_present:
  assumes a: "collect_source_index_acquisition host q root_dir owners lookup = source_index"
    and c: "c \<in> set (lexical_candidates_of (plan_pipe_lexical_search_frame q source_index) source_index)"
  shows "present_candidate host root_dir q c"
proof (cases source_index)
  case None
  then show ?thesis using c by (simp add: lexical_candidates_of_def)
next
  case (Some acq)
  note some = a [unfolded Some]
  let ?route = "fo_acquisition_route (plan_pipe_lexical_search_frame q source_index)"
  consider (warm) "?route = Acq_Warm_Overlay" "c \<in> set (ia_candidates acq)"
    | (owner) "c \<in> set (source_index_owner_evidence_candidates acq)"
    using c Some by (auto simp: lexical_candidates_of_def split: acquisition_route.splits)
  then show ?thesis
  proof cases
    case warm
    then have "ia_decision acq = Decision_Use_And_Skip_Overlay"
      using warm_frame_has_warm_candidates Some
      by (fastforce simp: plan_pipe_lexical_search_frame_def split: if_splits)
    then have "source_index_candidate_ready c"
      using skipping_decision_is_ready [OF some] warm(2) by (simp add: list_all_iff)
    then show ?thesis
      using index_candidates_are_mapped [OF some warm(2)] mapped_candidate_present
      by (auto simp: source_index_candidate_ready_def)
  next
    case owner
    then have "c \<in> set (ia_candidates acq)" "cand_confidence c \<noteq> ''invalid-selector''"
        "cand_confidence c \<noteq> ''stale-index''"
      by (auto simp: source_index_owner_evidence_candidates_def source_index_owner_candidates_def split: if_splits)
    then show ?thesis using index_candidates_are_mapped [OF some] mapped_candidate_present by blast
  qed
qed
lemma pipe_candidates_bounded:
  assumes "collect_search_pipe_candidates host manifests request = Some (Inr found)"
  shows "length found \<le> pr_limit request"
  using assms
  by (auto simp: collect_search_pipe_candidates_def collect_candidates_from_roots_def Let_def
      split: if_splits sum.splits dest: dynamic_candidates_bounded)

lemma empty_query_is_refused:
  assumes "pipe_query_terms (ht_lower host) (pr_query request) = []"
  shows "collect_search_pipe_auto_acquisition host native manifests request lookup = Some (Inl pipe_needs_query)"
  using assms
  by (simp add: collect_search_pipe_auto_acquisition_def collect_search_pipe_path_candidates_def
      collect_search_pipe_candidates_def Let_def)

lemma finder_error_ends_acquisition:
  assumes "collect_search_pipe_path_candidates host native request = Inl e"
  shows "collect_search_pipe_auto_acquisition host native manifests request lookup = Some (Inl e)"
  using assms by (simp add: collect_search_pipe_auto_acquisition_def Let_def)

lemma mapped_result_is_ok:
  assumes "map_option (map_sum f g) r = Some (Inr y)"
  shows "\<exists>x. r = Some (Inr x) \<and> y = g x"
proof (cases r)
  case None
  then show ?thesis using assms by simp
next
  case (Some v)
  then show ?thesis using assms by (cases v) auto
qed

text \<open>
  C36: an acquisition returns every position once (path, lines and symbol); each candidate was found by the path
  stage, found by the overlay in the proof scopes, or comes from the source index and names a file that exists now,
  so a stale index entry never reaches the result; nothing that a stage found is lost, and the overlay stays within
  the limit of the request.
\<close>

theorem acquisition_returns_present_candidates:
  assumes "collect_search_pipe_auto_acquisition host native manifests request lookup = Some (Inr acq)"
  shows "\<exists>paths proofs scopes.
      collect_search_pipe_path_candidates host native request = Inr paths
    \<and> collect_search_pipe_candidates host manifests (request\<lparr> pr_owners := scopes \<rparr>) = Some (Inr proofs)
    \<and> length proofs \<le> pr_limit request
    \<and> distinct (map merge_key (sq_candidates acq))
    \<and> (\<forall>c \<in> set (sq_candidates acq). c \<in> set paths \<or> c \<in> set proofs
         \<or> present_candidate host (pr_project_root request) (pr_query request) c)
    \<and> (\<forall>c \<in> set paths \<union> set proofs. merge_key c \<in> merge_key ` set (sq_candidates acq))"
proof -
  define source_index where "source_index = collect_source_index_acquisition host (pr_query request)
      (pr_project_root request) (pr_owners request) lookup"
  define lexical where "lexical = lexical_candidates_of
      (plan_pipe_lexical_search_frame (pr_query request) source_index) source_index"
  obtain paths where paths: "collect_search_pipe_path_candidates host native request = Inr paths"
    using assms finder_error_ends_acquisition
    by (cases "collect_search_pipe_path_candidates host native request") fastforce+
  define merged where "merged = merge_search_pipe_candidates lexical paths"
  define scopes where "scopes = (if search_pipe_candidate_scopes merged = [] then pr_owners request
      else search_pipe_candidate_scopes merged)"
  let ?found = "collect_search_pipe_candidates host manifests (request\<lparr> pr_owners := scopes \<rparr>)"
  note ran = assms [unfolded collect_search_pipe_auto_acquisition_def Let_def paths sum.case,
      folded source_index_def, folded lexical_def, folded merged_def, folded scopes_def]
  obtain proofs where proofs: "?found = Some (Inr proofs)"
      and acq: "sq_candidates acq = merge_search_pipe_candidates merged proofs"
  proof -
    obtain x where "?found = Some (Inr x)" and "sq_candidates acq = merge_search_pipe_candidates merged x"
      using mapped_result_is_ok [OF ran] by (elim exE conjE) (simp only: source_acquisition.simps)
    then show ?thesis by (rule that)
  qed
  have lexical: "present_candidate host (pr_project_root request) (pr_query request) c" if "c \<in> set lexical" for c
    using that frame_candidates_present [OF source_index_def [symmetric]] unfolding lexical_def by blast
  have "length proofs \<le> pr_limit request"
    using pipe_candidates_bounded [OF proofs] by simp
  moreover have "merge_key c \<in> merge_key ` set (sq_candidates acq)" if "c \<in> set paths \<union> set proofs" for c
  proof (cases "c \<in> set proofs")
    case True
    then show ?thesis unfolding acq by (intro merged_candidates_complete) simp
  next
    case False
    then have "merge_key c \<in> merge_key ` set merged"
      using that unfolding merged_def by (intro merged_candidates_complete) simp
    then obtain m where m: "m \<in> set merged" "merge_key c = merge_key m" by blast
    then show ?thesis unfolding acq m(2) by (intro merged_candidates_complete) simp
  qed
  moreover have "c \<in> set paths \<or> c \<in> set proofs
         \<or> present_candidate host (pr_project_root request) (pr_query request) c" if "c \<in> set (sq_candidates acq)" for c
    using that lexical unfolding acq merged_def by (meson merged_candidates_from)
  moreover have "distinct (map merge_key (sq_candidates acq))"
    unfolding acq by (rule merged_candidates_once)
  ultimately show ?thesis using paths proofs by blast
qed

definition example_search_host :: search_host where
  "example_search_host =
     \<lparr> ht_exists = (\<lambda>_. False), ht_is_file = (\<lambda>path. Inr (path = ''/r/a.rs'')), ht_read_lossy = (\<lambda>_. None),
       ht_walk = (\<lambda>_. Inr []), ht_lower = to_ascii_lowercase, ht_unsorted = (\<lambda>hits. Some hits) \<rparr>"

definition example_pipe_request :: pipe_request where
  "example_pipe_request =
     \<lparr> pr_language_id = ''rust'', pr_project_root = ''/r'', pr_locator_root = ''/r'', pr_query = ''peel wrapper'',
       pr_owners = [], pr_ignore_dirs = [], pr_include_hidden_dirs = [], pr_require_multi_clause = True,
       pr_limit = 4 \<rparr>"

definition example_index_candidate :: "string \<Rightarrow> pipe_index_candidate" where
  "example_index_candidate path =
     \<lparr> xc_path = path, xc_language_id = None, xc_provider_id = None, xc_source_kind = ''owner'',
       xc_line_count = None, xc_query_keys = [''peel''], xc_selector_proof = None \<rparr>"
text \<open>The index knows two files, of which one is gone: only the other is returned.\<close>

lemma stale_index_entry_is_dropped:
  "map_option (map_sum id (\<lambda>a. map cand_path (sq_candidates a)))
     (collect_search_pipe_auto_acquisition example_search_host (\<lambda>_ _. Inr None) [] example_pipe_request
       (Some (''hit'', [example_index_candidate ''a.rs'', example_index_candidate ''b.rs''])))
   = Some (Inr [''a.rs''])"
  by code_simp

theorem acquisition_returns_present_candidates_witness:
  "\<exists>acq. distinct (map merge_key (sq_candidates acq))
     \<and> collect_search_pipe_auto_acquisition example_search_host (\<lambda>_ _. Inr None) [] example_pipe_request
         (Some (''hit'', [example_index_candidate ''a.rs'', example_index_candidate ''b.rs''])) = Some (Inr acq)"
proof -
  obtain acq where acq: "collect_search_pipe_auto_acquisition example_search_host (\<lambda>_ _. Inr None) []
      example_pipe_request (Some (''hit'', [example_index_candidate ''a.rs'', example_index_candidate ''b.rs'']))
    = Some (Inr acq)"
    using mapped_result_is_ok [OF stale_index_entry_is_dropped] by blast
  show ?thesis using acquisition_returns_present_candidates [OF acq] acq by blast
qed

subsection \<open>Candidates of documents\<close>

text \<open>The elements and the filter come from the crate \<open>orgize\<close>; they are arguments.\<close>

record document_element =
  doc_kind :: string
  doc_source_kind :: string
  doc_path :: string
  doc_line :: nat
  doc_end_line :: nat
  doc_fields :: "(string \<times> string) list"
  doc_text :: string
  doc_content :: string

record document_search_candidate =
  dsc_path :: string
  dsc_line :: nat
  dsc_end_line :: nat
  dsc_symbol :: string
  dsc_text :: string

definition document_pipe_candidate_limit :: nat where
  "document_pipe_candidate_limit = 256"

definition document_symbol :: "(string \<Rightarrow> string) \<Rightarrow> document_element \<Rightarrow> string" where
  "document_symbol lower element =
     (case find (\<lambda>(key, v). key \<in> set [''title'', ''key'', ''value'', ''lang'', ''target'', ''description'']
                  \<and> str_trim v \<noteq> []) (doc_fields element) of
        Some (_, v) \<Rightarrow> (if symbol_from_text lower v = [] then doc_kind element else symbol_from_text lower v)
      | None \<Rightarrow> doc_kind element)"

definition document_candidate_text :: "document_element \<Rightarrow> string" where
  "document_candidate_text element =
     doc_kind element @ '' '' @ doc_source_kind element
     @ concat (map (\<lambda>(key, v). if str_trim v = [] then [] else '' '' @ key @ ''='' @ v) (doc_fields element))
     @ (if str_trim (doc_text element) \<noteq> [] then '' '' @ str_trim (doc_text element)
        else if str_trim (doc_content element) \<noteq> [] then '' '' @ str_trim (doc_content element) else [])"

definition document_candidate :: "(string \<Rightarrow> string) \<Rightarrow> string \<Rightarrow> document_element \<Rightarrow> document_search_candidate" where
  "document_candidate lower locator_root element =
     \<lparr> dsc_path = search_display_path locator_root (doc_path element), dsc_line = doc_line element,
       dsc_end_line = max (doc_end_line element) (doc_line element), dsc_symbol = document_symbol lower element,
       dsc_text = document_candidate_text element \<rparr>"

definition collect_document_search_candidates ::
    "(string \<Rightarrow> string) \<Rightarrow> (string \<Rightarrow> string + document_element list) \<Rightarrow>
     (document_element list \<Rightarrow> string \<Rightarrow> document_element list) \<Rightarrow> string \<Rightarrow> string \<Rightarrow> string \<Rightarrow> string list \<Rightarrow>
     string + document_search_candidate list \<times> nat" where
  "collect_document_search_candidates lower index filter_elements project_root locator_root intent scopes =
     result_bind (collect_results (map index (resolved_owner_roots project_root scopes))) (\<lambda>found.
       let matches = filter_elements (concat found) intent
       in Inr (map (document_candidate lower locator_root) (take document_pipe_candidate_limit matches),
               length matches))"

lemma document_candidates_in_order:
  assumes "collect_document_search_candidates lower index filter_elements p l intent scopes = Inr (found, matched)"
  shows "length found = min 256 matched \<and> (\<forall>c \<in> set found. dsc_line c \<le> dsc_end_line c)"
  using assms
  by (cases "collect_results (map index (resolved_owner_roots p scopes))")
     (auto simp: collect_document_search_candidates_def Let_def document_pipe_candidate_limit_def
       document_candidate_def)

subsection \<open>An acquisition for a document language\<close>

datatype acquisition_mode = Mode_Auto | Mode_Provider | Mode_Search_Overlay

definition document_pipe_candidate :: "document_search_candidate \<Rightarrow> pipe_candidate" where
  "document_pipe_candidate c =
     \<lparr> cand_path = dsc_path c, cand_line = dsc_line c, cand_end_line = dsc_end_line c,
       cand_symbol = dsc_symbol c, cand_text = dsc_text c, cand_source = ''document-element'',
       cand_confidence = ''parser'' \<rparr>"

definition document_element_acquisition ::
    "string + document_search_candidate list \<times> nat \<Rightarrow> string + source_acquisition" where
  "document_element_acquisition collection =
     result_bind collection (\<lambda>(found, matched_count).
       let candidates = map document_pipe_candidate found
       in Inr \<lparr> sq_candidates = candidates, sq_candidate_sources = [''document-element''],
                sq_source_trace = [(candidate_trace ''document-element'' candidates)
                                     \<lparr> st_normalized := matched_count \<rparr>] \<rparr>)"

text \<open>
  The request is that of the overlay (its query is the intent, its owners the scopes); the collection of document
  elements is the argument \<open>collection\<close>, computed only when the mode asks for it.
\<close>

definition collect_document_acquisition ::
    "search_host \<Rightarrow> manifest_defaults list \<Rightarrow> acquisition_mode \<Rightarrow> pipe_request \<Rightarrow>
     (string + document_search_candidate list \<times> nat) \<Rightarrow> (string + source_acquisition) option" where
  "collect_document_acquisition host manifests mode request collection =
     (case mode of
        Mode_Provider \<Rightarrow> Some (document_element_acquisition collection)
      | _ \<Rightarrow> search_overlay_source_acquisition host manifests (request\<lparr> pr_require_multi_clause := False \<rparr>))"

end
