(* ===== verification/GraphRank.thy ===== *)
theory GraphRank
  imports FileLocator SearchMerge
begin

section \<open>Ranking of owners and items in the search graph\<close>

text \<open>
  Models, of \<open>crates/agent-semantic-search/src\<close>, \<open>graph_owner_rank.rs\<close> (scores of owner paths),
  \<open>graph_query_owner_seed.rs\<close> (the owners a query starts from), \<open>evidence_graph_rank.rs\<close> (nodes of an evidence
  graph), \<open>graph_owner_item_route.rs\<close> (items of one owner) and \<open>graph_candidate_sparsity.rs\<close> (which candidates are
  shown).  A \<open>HashMap\<close> is the list of its entries in insertion order; where the code iterates over one, the
  order in which it hands out its values is the argument \<open>hash_order\<close>.
\<close>

subsection \<open>Axes of a query\<close>

record graph_candidate =
  gc_path :: string
  gc_symbol :: string
  gc_text :: string
  gc_source :: string
  gc_confidence :: string

text \<open>
  The loop over the characters of a term.  Its state is the axes, the current word and whether the previous character
  was a lower-case letter or a digit.  A character outside ASCII ends the word, as do the bytes it consists of.
\<close>

definition push_owner_rank_axis :: "string list \<Rightarrow> string \<Rightarrow> string list" where
  "push_owner_rank_axis axes current = (if 2 \<le> length current then push_unique axes current else axes)"

fun split_axis_loop :: "string \<Rightarrow> string list \<Rightarrow> string \<Rightarrow> bool \<Rightarrow> string list" where
  "split_axis_loop [] axes current after_lower = push_owner_rank_axis axes current"
| "split_axis_loop (c # cs) axes current after_lower =
     (if \<not> is_ascii_alphanumeric c then split_axis_loop cs (push_owner_rank_axis axes current) [] False
      else if is_ascii_uppercase c \<and> after_lower
      then split_axis_loop cs (push_owner_rank_axis axes current) [ascii_lower c] False
      else split_axis_loop cs axes (current @ [ascii_lower c]) (is_ascii_lowercase c \<or> is_ascii_digit c))"

definition raw_axis :: "string \<Rightarrow> string" where
  "raw_axis t = map ascii_lower (filter is_ascii_alphanumeric t)"

definition split_owner_rank_axis :: "string \<Rightarrow> string list" where
  "split_owner_rank_axis t =
     (let axes = split_axis_loop t [] [] False
      in if 2 \<le> length (raw_axis t) then push_unique axes (raw_axis t) else axes)"

definition owner_rank_query_axes :: "string list \<Rightarrow> string list" where
  "owner_rank_query_axes query_terms =
     foldl push_unique [] (concat (map (\<lambda>t. filter (\<lambda>axis. 2 \<le> length axis) (split_owner_rank_axis t)) query_terms))"

subsection \<open>Evidence of a candidate\<close>

definition owner_rank_evidence :: "graph_candidate \<Rightarrow> string" where
  "owner_rank_evidence c = to_ascii_lowercase (gc_path c @ '' '' @ gc_symbol c @ '' '' @ gc_text c)"

definition matched_query_axes :: "graph_candidate \<Rightarrow> string list \<Rightarrow> string list" where
  "matched_query_axes c query_axes =
     (if query_axes = [] then [] else filter (str_contains (owner_rank_evidence c)) query_axes)"

definition matched_path_query_axes :: "string \<Rightarrow> string list \<Rightarrow> string list" where
  "matched_path_query_axes path query_axes = filter (str_contains (to_ascii_lowercase path)) query_axes"

definition owner_path_is_test :: "string \<Rightarrow> bool" where
  "owner_path_is_test path \<longleftrightarrow>
     starts_with path ''tests/'' \<or> str_contains path ''/tests/'' \<or> ends_with path ''_test.rs''
     \<or> ends_with path ''_tests.rs''"

definition is_single_root_owner_segment :: "string \<Rightarrow> bool" where
  "is_single_root_owner_segment segment \<longleftrightarrow>
     segment \<in> set [''.'', ''src'', ''tests'', ''test'', ''docs'', ''schemas'', ''fixtures'']"

definition owner_rank_package_root :: "string \<Rightarrow> string" where
  "owner_rank_package_root path =
     (let segments = nonempty (slash_parts path)
      in case segments of
           [] \<Rightarrow> ''.''
         | first # rest \<Rightarrow>
             (case rest of
                second # third # _ \<Rightarrow>
                  (if first = ''packages'' then ''packages/'' @ second @ ''/'' @ third
                   else if is_single_root_owner_segment first then first else first @ ''/'' @ second)
              | [second] \<Rightarrow> (if is_single_root_owner_segment first then first else first @ ''/'' @ second)
              | [] \<Rightarrow> first))"

definition finder_sources :: "string list" where
  "finder_sources = [''fd-query'', ''finder-path'', ''package-path-query'', ''query-anchor'']"

definition is_parser_finder_local_candidate :: "graph_candidate \<Rightarrow> bool" where
  "is_parser_finder_local_candidate c \<longleftrightarrow>
     gc_source c \<in> set finder_sources
     \<or> list_ex (str_contains (gc_source c)) [''finder'', ''parser'', ''provider'', ''sourceIndex'', ''source-index'']
     \<or> gc_confidence c \<in> set [''path'', ''package-path'', ''query-anchor'', ''symbol'', ''exact'', ''high'']"

definition is_path_evidence_candidate :: "graph_candidate \<Rightarrow> bool" where
  "is_path_evidence_candidate c \<longleftrightarrow>
     gc_source c \<in> set finder_sources \<or> gc_confidence c \<in> set [''path'', ''package-path'', ''query-anchor'']"

definition graph_path_is_under :: "string \<Rightarrow> string \<Rightarrow> bool" where
  "graph_path_is_under path base \<longleftrightarrow>
     path = base \<or> (case strip_prefix base path of Some rest \<Rightarrow> starts_with rest ''/'' | None \<Rightarrow> False)"

record prepared_candidate =
  pr_candidate :: graph_candidate
  pr_package_root :: string
  pr_matched_query_axes :: "string list"
  pr_matched_path_query_axes :: "string list"
  pr_matching_submodule_path :: "string option"

definition prepare_owner_rank_candidate :: "string list \<Rightarrow> string list \<Rightarrow> graph_candidate \<Rightarrow> prepared_candidate" where
  "prepare_owner_rank_candidate query_axes submodule_paths c =
     \<lparr> pr_candidate = c, pr_package_root = owner_rank_package_root (gc_path c),
       pr_matched_query_axes = matched_query_axes c query_axes,
       pr_matched_path_query_axes = matched_path_query_axes (gc_path c) query_axes,
       pr_matching_submodule_path = find (graph_path_is_under (gc_path c)) submodule_paths \<rparr>"

subsection \<open>The ranks of the owners\<close>

record owner_rank =
  or_path :: string
  or_package_root :: string
  or_topology_submodule_path :: "string option"
  or_package_query_axis_count :: nat
  or_topology_query_axis_count :: nat
  or_topology_local_hits :: nat
  or_first_index :: nat
  or_local_hits :: nat
  or_parser_finder_local_hits :: nat
  or_path_hits :: nat
  or_query_axis_terms :: "string list"
  or_path_query_axis_terms :: "string list"
  or_symbols :: "string list"

definition new_owner_rank :: "prepared_candidate \<Rightarrow> nat \<Rightarrow> owner_rank" where
  "new_owner_rank p first_index =
     \<lparr> or_path = gc_path (pr_candidate p), or_package_root = pr_package_root p,
       or_topology_submodule_path = pr_matching_submodule_path p, or_package_query_axis_count = 0,
       or_topology_query_axis_count = 0, or_topology_local_hits = 0, or_first_index = first_index,
       or_local_hits = 0, or_parser_finder_local_hits = 0, or_path_hits = 0, or_query_axis_terms = [],
       or_path_query_axis_terms = [], or_symbols = [] \<rparr>"

definition update_owner_rank :: "owner_rank \<Rightarrow> prepared_candidate \<Rightarrow> owner_rank" where
  "update_owner_rank r p =
     (let c = pr_candidate p
      in r\<lparr> or_local_hits := or_local_hits r + 1,
            or_topology_local_hits := or_topology_local_hits r + of_bool (pr_matching_submodule_path p \<noteq> None),
            or_symbols := (if str_trim (gc_symbol c) = [] then or_symbols r
                           else push_unique (or_symbols r) (gc_symbol c)),
            or_parser_finder_local_hits :=
              or_parser_finder_local_hits r + of_bool (is_parser_finder_local_candidate c),
            or_path_hits := or_path_hits r + of_bool (is_path_evidence_candidate c),
            or_query_axis_terms := foldl push_unique (or_query_axis_terms r) (pr_matched_query_axes p),
            or_path_query_axis_terms :=
              foldl push_unique (or_path_query_axis_terms r) (pr_matched_path_query_axes p) \<rparr>)"

fun rank_candidate_in :: "nat \<Rightarrow> prepared_candidate \<Rightarrow> owner_rank list \<Rightarrow> owner_rank list" where
  "rank_candidate_in index p [] = [update_owner_rank (new_owner_rank p index) p]"
| "rank_candidate_in index p (r # rs) =
     (if or_path r = gc_path (pr_candidate p) then update_owner_rank r p # rs
      else r # rank_candidate_in index p rs)"

text \<open>The sets of axes of a package root and of a submodule; only their sizes are used.\<close>

definition axis_set :: "(prepared_candidate \<Rightarrow> bool) \<Rightarrow> prepared_candidate list \<Rightarrow> string list" where
  "axis_set selected prepared =
     foldl push_unique [] (concat (map pr_matched_query_axes (filter selected prepared)))"

definition package_axes :: "prepared_candidate list \<Rightarrow> string \<Rightarrow> string list" where
  "package_axes prepared package_root = axis_set (\<lambda>p. pr_package_root p = package_root) prepared"

definition topology_axes :: "prepared_candidate list \<Rightarrow> string \<Rightarrow> string list" where
  "topology_axes prepared submodule = axis_set (\<lambda>p. pr_matching_submodule_path p = Some submodule) prepared"

definition with_cluster_axes :: "prepared_candidate list \<Rightarrow> owner_rank \<Rightarrow> owner_rank" where
  "with_cluster_axes prepared r =
     r\<lparr> or_package_query_axis_count := length (package_axes prepared (or_package_root r)),
        or_topology_query_axis_count :=
          (case or_topology_submodule_path r of
             None \<Rightarrow> 0 | Some submodule \<Rightarrow> length (topology_axes prepared submodule)) \<rparr>"

definition owner_rank_entries :: "graph_candidate list \<Rightarrow> string list \<Rightarrow> string list \<Rightarrow> owner_rank list" where
  "owner_rank_entries candidates query_axes submodule_paths =
     (let prepared = map (prepare_owner_rank_candidate query_axes submodule_paths) candidates
      in map (with_cluster_axes prepared)
           (foldl (\<lambda>ranks (index, p). rank_candidate_in index p ranks) [] (enumerate 0 prepared)))"

subsection \<open>Scores and the report\<close>

record owner_score =
  os_total :: nat
  os_package_query_axis_count :: nat
  os_topology_query_axis_count :: nat
  os_query_axis_count :: nat
  os_topology_local_hits :: nat
  os_parser_finder_local_hits :: nat
  os_path_hits :: nat
  os_symbol_count :: nat
  os_local_hits :: nat

definition graph_owner_rank_score :: "owner_rank \<Rightarrow> owner_score" where
  "graph_owner_rank_score r =
     (let package = min (or_package_query_axis_count r) 16;
          topology = min (or_topology_query_axis_count r) 16;
          query = min (length (or_query_axis_terms r)) 16;
          local_topology = min (or_topology_local_hits r) 12;
          finder = min (or_parser_finder_local_hits r) 12;
          path = min (or_path_hits r) 8;
          symbols = min (length (or_symbols r)) 12;
          hits = min (or_local_hits r) 12
      in \<lparr> os_total = package * 10000 + topology * 5000 + query * 2500 + local_topology * 1000 + finder * 500
             + path * 250 + symbols * 100 + hits,
           os_package_query_axis_count = package, os_topology_query_axis_count = topology,
           os_query_axis_count = query, os_topology_local_hits = local_topology,
           os_parser_finder_local_hits = finder, os_path_hits = path, os_symbol_count = symbols,
           os_local_hits = hits \<rparr>)"

definition owner_rank_compare :: "owner_rank \<Rightarrow> owner_rank \<Rightarrow> ordering" where
  "owner_rank_compare l r =
     then_with (cmp (min (or_package_query_axis_count r) 16) (min (or_package_query_axis_count l) 16))
    (then_with (cmp (min (or_topology_query_axis_count r) 16) (min (or_topology_query_axis_count l) 16))
    (then_with (cmp (length (or_query_axis_terms r)) (length (or_query_axis_terms l)))
    (then_with (cmp (owner_path_is_test (or_path l)) (owner_path_is_test (or_path r)))
    (then_with (cmp (length (or_path_query_axis_terms r)) (length (or_path_query_axis_terms l)))
    (then_with (cmp (min (or_topology_local_hits r) 12) (min (or_topology_local_hits l) 12))
    (then_with (cmp (min (or_parser_finder_local_hits r) 12) (min (or_parser_finder_local_hits l) 12))
    (then_with (cmp (min (or_path_hits r) 8) (min (or_path_hits l) 8))
    (then_with (cmp (min (length (or_symbols r)) 12) (min (length (or_symbols l)) 12))
    (then_with (cmp (min (or_local_hits r) 12) (min (or_local_hits l) 12))
    (then_with (cmp (or_first_index l) (or_first_index r))
               (cmp (or_path l) (or_path r)))))))))))) "

record ranked_owner =
  ro_path :: string
  ro_package_root :: string
  ro_topology_submodule_path :: "string option"
  ro_score :: owner_score
  ro_matched_query_axes :: "string list"
  ro_symbols :: "string list"

definition graph_owner_ranked_owner :: "owner_rank \<Rightarrow> ranked_owner" where
  "graph_owner_ranked_owner r =
     \<lparr> ro_path = or_path r, ro_package_root = or_package_root r,
       ro_topology_submodule_path = or_topology_submodule_path r, ro_score = graph_owner_rank_score r,
       ro_matched_query_axes = sort (or_query_axis_terms r), ro_symbols = sort (or_symbols r) \<rparr>"

record owner_report =
  op_query_axes :: "string list"
  op_ranked_owners :: "ranked_owner list"

definition rank_graph_owner_report ::
    "(owner_rank list \<Rightarrow> owner_rank list) \<Rightarrow> graph_candidate list \<Rightarrow> string list \<Rightarrow> string list \<Rightarrow> owner_report" where
  "rank_graph_owner_report hash_order candidates query_terms submodule_paths =
     (let query_axes = owner_rank_query_axes query_terms
      in \<lparr> op_query_axes = query_axes,
           op_ranked_owners = map graph_owner_ranked_owner
             (sort_by owner_rank_compare
               (hash_order (owner_rank_entries candidates query_axes submodule_paths))) \<rparr>)"

definition ranked_graph_owner_paths ::
    "(owner_rank list \<Rightarrow> owner_rank list) \<Rightarrow> graph_candidate list \<Rightarrow> string list \<Rightarrow> string list \<Rightarrow> string list" where
  "ranked_graph_owner_paths hash_order candidates query_terms submodule_paths =
     map ro_path (op_ranked_owners (rank_graph_owner_report hash_order candidates query_terms submodule_paths))"
subsection \<open>The ranks are summaries of the candidates of each owner\<close>

definition prepared_path :: "prepared_candidate \<Rightarrow> string" where
  "prepared_path p = gc_path (pr_candidate p)"

text \<open>The reference: the candidates of one path, in order, and the rank that they give.\<close>

definition hits_of :: "string \<Rightarrow> (nat \<times> prepared_candidate) list \<Rightarrow> (nat \<times> prepared_candidate) list" where
  "hits_of path indexed = filter (\<lambda>e. prepared_path (snd e) = path) indexed"

definition summary_of :: "(nat \<times> prepared_candidate) list \<Rightarrow> string \<Rightarrow> owner_rank" where
  "summary_of indexed path =
     (let hits = hits_of path indexed
      in foldl update_owner_rank (new_owner_rank (snd (hd hits)) (fst (hd hits))) (map snd hits))"

lemma or_path_update [simp]: "or_path (update_owner_rank r p) = or_path r"
  by (simp add: update_owner_rank_def Let_def)

lemma or_first_index_update [simp]: "or_first_index (update_owner_rank r p) = or_first_index r"
  by (simp add: update_owner_rank_def Let_def)

lemma or_local_hits_update [simp]: "or_local_hits (update_owner_rank r p) = or_local_hits r + 1"
  by (simp add: update_owner_rank_def Let_def)

lemma new_owner_rank_simps [simp]:
  "or_path (new_owner_rank p i) = prepared_path p" "or_first_index (new_owner_rank p i) = i"
  "or_local_hits (new_owner_rank p i) = 0"
  by (simp_all add: new_owner_rank_def prepared_path_def)

lemma foldl_update_simps [simp]:
  "or_path (foldl update_owner_rank r ps) = or_path r"
  "or_first_index (foldl update_owner_rank r ps) = or_first_index r"
  "or_local_hits (foldl update_owner_rank r ps) = or_local_hits r + length ps"
  by (induction ps arbitrary: r) simp_all

lemma rank_candidate_in_known:
  assumes "distinct paths" and "prepared_path p \<in> set paths" and "\<And>q. q \<in> set paths \<Longrightarrow> or_path (f q) = q"
  shows "rank_candidate_in i p (map f paths) =
    map (\<lambda>q. if q = prepared_path p then update_owner_rank (f q) p else f q) paths"
  using assms
proof (induction paths)
  case (Cons q qs)
  have q: "or_path (f q) = q" using Cons.prems(3) by simp
  show ?case
  proof (cases "q = prepared_path p")
    case True
    then have "map (\<lambda>q. if q = prepared_path p then update_owner_rank (f q) p else f q) qs = map f qs"
      using Cons.prems(1) by auto
    then show ?thesis using True q by (simp add: prepared_path_def)
  next
    case False
    then show ?thesis using Cons q by (simp add: prepared_path_def)
  qed
qed simp

lemma rank_candidate_in_new:
  assumes "prepared_path p \<notin> set (map or_path ranks)"
  shows "rank_candidate_in i p ranks = ranks @ [update_owner_rank (new_owner_rank p i) p]"
  using assms by (induction ranks) (auto simp: prepared_path_def)

lemma hits_of_snoc:
  "hits_of path (indexed @ [(i, p)]) = hits_of path indexed @ (if prepared_path p = path then [(i, p)] else [])"
  by (simp add: hits_of_def)

lemma hits_of_nonempty: "path \<in> set (map (\<lambda>e. prepared_path (snd e)) indexed) \<Longrightarrow> hits_of path indexed \<noteq> []"
  by (auto simp: hits_of_def filter_empty_conv)

lemma hits_of_empty: "path \<notin> set (map (\<lambda>e. prepared_path (snd e)) indexed) \<Longrightarrow> hits_of path indexed = []"
  by (auto simp: hits_of_def filter_empty_conv)

lemma or_path_summary: "path \<in> set (map (\<lambda>e. prepared_path (snd e)) indexed) \<Longrightarrow> or_path (summary_of indexed path) = path"
  using hits_of_nonempty [of path indexed] hd_in_set [of "hits_of path indexed"]
  by (auto simp: summary_of_def Let_def hits_of_def)

lemma summary_of_snoc:
  "summary_of (indexed @ [(i, p)]) path =
     (if prepared_path p \<noteq> path then summary_of indexed path
      else if path \<in> set (map (\<lambda>e. prepared_path (snd e)) indexed) then update_owner_rank (summary_of indexed path) p
      else update_owner_rank (new_owner_rank p i) p)"
  using hits_of_nonempty [of path indexed] hits_of_empty [of path indexed]
  by (auto simp: summary_of_def hits_of_snoc Let_def)

definition first_paths :: "string list \<Rightarrow> string list" where
  "first_paths paths = foldl push_unique [] paths"

lemma foldl_push_unique_set [simp]: "set (foldl push_unique xs ys) = set xs \<union> set ys"
  by (induction ys arbitrary: xs) auto

lemma foldl_push_unique_distinct: "distinct xs \<Longrightarrow> distinct (foldl push_unique xs ys)"
  by (induction ys arbitrary: xs) auto

lemma set_first_paths [simp]: "set (first_paths paths) = set paths"
  by (simp add: first_paths_def)

lemma distinct_first_paths [simp]: "distinct (first_paths paths)"
  by (simp add: first_paths_def foldl_push_unique_distinct)

lemma first_paths_snoc:
  "first_paths (paths @ [path]) = (if path \<in> set paths then first_paths paths else first_paths paths @ [path])"
  using set_first_paths [of paths] unfolding first_paths_def
  by (simp add: push_unique_def)

lemma ranks_are_summaries:
  "foldl (\<lambda>ranks (index, p). rank_candidate_in index p ranks) [] indexed =
   map (summary_of indexed) (first_paths (map (\<lambda>e. prepared_path (snd e)) indexed))"
proof (induction indexed rule: rev_induct)
  case Nil
  then show ?case by (simp add: first_paths_def)
next
  case (snoc e indexed)
  obtain i p where e: "e = (i, p)" by (cases e)
  let ?paths = "map (\<lambda>e. prepared_path (snd e)) indexed"
  show ?case
  proof (cases "prepared_path p \<in> set ?paths")
    case True
    have "rank_candidate_in i p (map (summary_of indexed) (first_paths ?paths)) =
        map (\<lambda>q. if q = prepared_path p then update_owner_rank (summary_of indexed q) p else summary_of indexed q)
          (first_paths ?paths)"
      using True by (intro rank_candidate_in_known) (auto simp: or_path_summary)
    also have "\<dots> = map (summary_of (indexed @ [(i, p)])) (first_paths ?paths)"
      by (rule map_cong) (auto simp: summary_of_snoc)
    finally show ?thesis using snoc True e by (simp add: first_paths_snoc)
  next
    case False
    have known: "map (summary_of (indexed @ [(i, p)])) (first_paths ?paths) = map (summary_of indexed) (first_paths ?paths)"
      using False by (intro map_cong) (auto simp: summary_of_snoc)
    have "prepared_path p \<notin> set (map or_path (map (summary_of indexed) (first_paths ?paths)))"
      using False or_path_summary by fastforce
    then have "rank_candidate_in i p (map (summary_of indexed) (first_paths ?paths)) =
        map (summary_of indexed) (first_paths ?paths) @ [update_owner_rank (new_owner_rank p i) p]"
      by (rule rank_candidate_in_new)
    then show ?thesis using snoc False e known by (simp add: first_paths_snoc summary_of_snoc)
  qed
qed
subsection \<open>The report does not depend on the hash map\<close>

lemma comparator_owner_rank: "comparator owner_rank_compare good"
  unfolding owner_rank_compare_def by (intro comparator_intros)

interpretation by_owner_rank: comparator owner_rank_compare "\<lambda>_. True"
  by (rule comparator_owner_rank)

lemma owner_rank_compare_equal: "owner_rank_compare l r = Is_Equal \<Longrightarrow> or_path l = or_path r"
  by (simp add: owner_rank_compare_def)

lemma with_cluster_axes_simps [simp]:
  "or_path (with_cluster_axes prepared r) = or_path r"
  "or_local_hits (with_cluster_axes prepared r) = or_local_hits r"
  by (simp_all add: with_cluster_axes_def)

lemma prepared_path_prepare [simp]: "prepared_path (prepare_owner_rank_candidate axes subs c) = gc_path c"
  by (simp add: prepared_path_def prepare_owner_rank_candidate_def)

lemma enumerate_map_snd: "map (\<lambda>e. f (snd e)) (enumerate n xs) = map f xs"
  by (induction xs arbitrary: n) simp_all

lemma length_hits_enumerate: "length (hits_of path (enumerate n ps)) = length (filter (\<lambda>p. prepared_path p = path) ps)"
  by (induction ps arbitrary: n) (auto simp: hits_of_def)

definition owner_summary :: "graph_candidate list \<Rightarrow> string list \<Rightarrow> string list \<Rightarrow> string \<Rightarrow> owner_rank" where
  "owner_summary candidates query_axes submodule_paths path =
     (let prepared = map (prepare_owner_rank_candidate query_axes submodule_paths) candidates
      in with_cluster_axes prepared (summary_of (enumerate 0 prepared) path))"

lemma owner_rank_entries_summaries:
  "owner_rank_entries candidates query_axes submodule_paths =
   map (owner_summary candidates query_axes submodule_paths) (first_paths (map gc_path candidates))"
  by (simp add: owner_rank_entries_def owner_summary_def ranks_are_summaries Let_def enumerate_map_snd o_def)

lemma or_path_owner_summary:
  assumes "path \<in> set (map gc_path candidates)"
  shows "or_path (owner_summary candidates query_axes submodule_paths path) = path"
proof -
  let ?prepared = "map (prepare_owner_rank_candidate query_axes submodule_paths) candidates"
  have "path \<in> set (map (\<lambda>e. prepared_path (snd e)) (enumerate 0 ?prepared))"
    using assms unfolding enumerate_map_snd by simp
  then show ?thesis by (simp add: owner_summary_def Let_def or_path_summary del: set_map)
qed

lemma or_local_hits_owner_summary:
  "or_local_hits (owner_summary candidates query_axes submodule_paths path) =
   length (filter (\<lambda>c. gc_path c = path) candidates)"
proof -
  let ?prepared = "map (prepare_owner_rank_candidate query_axes submodule_paths) candidates"
  have "or_local_hits (owner_summary candidates query_axes submodule_paths path) =
      length (hits_of path (enumerate 0 ?prepared))"
    by (simp add: owner_summary_def summary_of_def Let_def)
  then show ?thesis by (simp add: length_hits_enumerate filter_map o_def)
qed

lemma or_path_entries:
  "map or_path (owner_rank_entries candidates query_axes submodule_paths) = first_paths (map gc_path candidates)"
  unfolding owner_rank_entries_summaries map_map
  by (rule map_idI) (simp add: or_path_owner_summary)

lemma sorted_entries_ignore_hash_order:
  assumes "mset (hash_order (owner_rank_entries candidates axes subs)) = mset (owner_rank_entries candidates axes subs)"
  shows "sort_by owner_rank_compare (hash_order (owner_rank_entries candidates axes subs)) =
         sort_by owner_rank_compare (owner_rank_entries candidates axes subs)"
proof -
  let ?entries = "owner_rank_entries candidates axes subs"
  have "inj_on or_path (set ?entries)"
    using or_path_entries [of candidates axes subs] distinct_first_paths [of "map gc_path candidates"]
    by (metis distinct_map)
  then have "\<And>x y. x \<in> set ?entries \<Longrightarrow> y \<in> set ?entries \<Longrightarrow> owner_rank_compare x y = Is_Equal \<Longrightarrow> x = y"
    by (meson inj_onD owner_rank_compare_equal)
  then show ?thesis
    using by_owner_rank.sort_by_mset [of ?entries "hash_order ?entries"] assms by (auto simp: list_all_iff)
qed

text \<open>
  C37: whatever order the hash map hands out its values in, the report is the same: it ranks each owner path of the
  candidates once, in the order of the comparison, with the summary of exactly the candidates of that path.
\<close>

theorem owner_ranking_ignores_hash_order:
  assumes "\<And>ranks. mset (hash_order ranks) = mset ranks"
  shows "op_ranked_owners (rank_graph_owner_report hash_order candidates query_terms submodule_paths) =
      map graph_owner_ranked_owner
        (sort_by owner_rank_compare
          (map (owner_summary candidates (owner_rank_query_axes query_terms) submodule_paths)
            (first_paths (map gc_path candidates))))
    \<and> distinct (ranked_graph_owner_paths hash_order candidates query_terms submodule_paths)
    \<and> set (ranked_graph_owner_paths hash_order candidates query_terms submodule_paths) = set (map gc_path candidates)"
proof -
  let ?entries = "owner_rank_entries candidates (owner_rank_query_axes query_terms) submodule_paths"
  have owners: "op_ranked_owners (rank_graph_owner_report hash_order candidates query_terms submodule_paths) =
      map graph_owner_ranked_owner (sort_by owner_rank_compare ?entries)"
    by (simp add: rank_graph_owner_report_def sorted_entries_ignore_hash_order assms Let_def)
  have paths: "ranked_graph_owner_paths hash_order candidates query_terms submodule_paths =
      map or_path (sort_by owner_rank_compare ?entries)"
    unfolding ranked_graph_owner_paths_def owners by (simp add: graph_owner_ranked_owner_def o_def)
  then have "mset (ranked_graph_owner_paths hash_order candidates query_terms submodule_paths) =
      mset (first_paths (map gc_path candidates))"
    unfolding paths by (simp only: mset_map mset_sort_by) (simp only: or_path_entries flip: mset_map)
  then have "distinct (ranked_graph_owner_paths hash_order candidates query_terms submodule_paths)"
      "set (ranked_graph_owner_paths hash_order candidates query_terms submodule_paths) = set (map gc_path candidates)"
    by (metis mset_eq_imp_distinct_iff distinct_first_paths, metis mset_eq_setD set_first_paths)
  then show ?thesis using owners by (simp add: owner_rank_entries_summaries)
qed

definition example_graph_candidates :: "graph_candidate list" where
  "example_graph_candidates =
     [\<lparr> gc_path = ''src/b.rs'', gc_symbol = ''peel'', gc_text = ''fn peel'', gc_source = ''rg'', gc_confidence = ''low'' \<rparr>,
      \<lparr> gc_path = ''src/a.rs'', gc_symbol = ''unwrap'', gc_text = ''fn unwrap'', gc_source = ''finder-path'',
         gc_confidence = ''path'' \<rparr>,
      \<lparr> gc_path = ''src/b.rs'', gc_symbol = ''wrapper'', gc_text = ''struct'', gc_source = ''rg'', gc_confidence = ''low'' \<rparr>]"

theorem owner_ranking_ignores_hash_order_witness:
  "distinct (ranked_graph_owner_paths rev example_graph_candidates [''peelWrapper''] [])
   \<and> set (ranked_graph_owner_paths rev example_graph_candidates [''peelWrapper''] []) = {''src/a.rs'', ''src/b.rs''}"
proof -
  note ranked = owner_ranking_ignores_hash_order [of rev example_graph_candidates "[''peelWrapper'']" "[]",
      OF mset_rev, THEN conjunct2]
  have "set (map gc_path example_graph_candidates) = {''src/a.rs'', ''src/b.rs''}"
    by (auto simp: example_graph_candidates_def)
  then show ?thesis using ranked by simp
qed

text \<open>The score of a ranked owner counts the candidates of its path, up to the cap.\<close>

lemma ranked_owner_counts_its_candidates:
  assumes "path \<in> set (map gc_path candidates)"
  shows "os_local_hits (ro_score (graph_owner_ranked_owner (owner_summary candidates axes subs path))) =
         min (length (filter (\<lambda>c. gc_path c = path) candidates)) 12"
  by (simp add: graph_owner_ranked_owner_def graph_owner_rank_score_def or_local_hits_owner_summary Let_def)

subsection \<open>The owners that a query starts from\<close>

record seed_evidence =
  se_evidence :: string
  se_local_evidence_hits :: nat
  se_candidate_count :: nat

definition is_explicit_package_path_candidate :: "graph_candidate \<Rightarrow> bool" where
  "is_explicit_package_path_candidate c \<longleftrightarrow>
     gc_source c = ''package-path-query'' \<or> gc_confidence c = ''package-path''"

definition push_query_seed_axis :: "string list \<Rightarrow> string \<Rightarrow> string list" where
  "push_query_seed_axis axes current =
     (let axis = str_trim current in if 2 \<le> length axis then push_unique axes axis else axes)"

fun split_seed_loop :: "string \<Rightarrow> string list \<Rightarrow> string \<Rightarrow> bool \<Rightarrow> string list" where
  "split_seed_loop [] axes current after_lower = push_query_seed_axis axes current"
| "split_seed_loop (c # cs) axes current after_lower =
     (if \<not> is_ascii_alphanumeric c then split_seed_loop cs (push_query_seed_axis axes current) [] False
      else if is_ascii_uppercase c \<and> after_lower
      then split_seed_loop cs (push_query_seed_axis axes current) [ascii_lower c] False
      else split_seed_loop cs axes (current @ [ascii_lower c]) (is_ascii_lowercase c \<or> is_ascii_digit c))"

definition split_query_seed_axes :: "string \<Rightarrow> string list" where
  "split_query_seed_axes t =
     (let axes = split_seed_loop t [] [] False
      in if 2 \<le> length (raw_axis t) then push_unique axes (raw_axis t) else axes)"

definition query_seed_axes :: "string list \<Rightarrow> string list" where
  "query_seed_axes query_terms =
     foldl push_unique [] (concat (map (\<lambda>t. filter (\<lambda>axis. 2 \<le> length axis) (split_query_seed_axes t)) query_terms))"

definition candidate_path_covers_package_term :: "graph_candidate \<Rightarrow> string list \<Rightarrow> bool" where
  "candidate_path_covers_package_term c query_terms \<longleftrightarrow>
     list_ex (\<lambda>t. let axes = filter (\<lambda>axis. 2 \<le> length axis) (split_query_seed_axes t)
                  in 2 \<le> length axes
                     \<and> 2 \<le> length (filter (str_contains (to_ascii_lowercase (gc_path c))) axes)) query_terms"

definition is_package_path_seed :: "string list \<Rightarrow> graph_candidate \<Rightarrow> bool" where
  "is_package_path_seed query_terms c \<longleftrightarrow>
     (is_explicit_package_path_candidate c \<or> gc_source c = ''finder-path'' \<or> gc_source c = ''fd-query'')
     \<and> candidate_path_covers_package_term c query_terms"

definition graph_has_package_path_candidate :: "graph_candidate list \<Rightarrow> string list \<Rightarrow> bool" where
  "graph_has_package_path_candidate candidates query_terms = list_ex (is_package_path_seed query_terms) candidates"

definition package_path_seed_owners :: "graph_candidate list \<Rightarrow> string list \<Rightarrow> nat \<Rightarrow> string list \<Rightarrow> string list" where
  "package_path_seed_owners candidates owners budget query_terms =
     take budget (filter (\<lambda>owner. owner \<in> set (map gc_path (filter (is_package_path_seed query_terms) candidates)))
       owners)"

definition is_path_only_evidence :: "graph_candidate \<Rightarrow> bool" where
  "is_path_only_evidence c \<longleftrightarrow> gc_source c \<in> set [''finder-path'', ''fd-query'', ''rg-query'', ''ingest'']"

text \<open>The evidence of one owner: what the loop over all candidates leaves in the map under its path.\<close>

definition add_seed_evidence :: "seed_evidence option \<Rightarrow> graph_candidate \<Rightarrow> seed_evidence option" where
  "add_seed_evidence entry c =
     (let e = (case entry of
                 Some e \<Rightarrow> e
               | None \<Rightarrow> \<lparr> se_evidence = to_ascii_lowercase (gc_path c), se_local_evidence_hits = 0,
                          se_candidate_count = 0 \<rparr>)
      in Some \<lparr> se_evidence = se_evidence e @ '' '' @ to_ascii_lowercase (gc_symbol c) @ '' ''
                  @ to_ascii_lowercase (gc_text c),
                se_local_evidence_hits = se_local_evidence_hits e + of_bool (\<not> is_path_only_evidence c),
                se_candidate_count = se_candidate_count e + 1 \<rparr>)"

definition owner_seed_evidence :: "graph_candidate list \<Rightarrow> string \<Rightarrow> seed_evidence option" where
  "owner_seed_evidence candidates =
     foldl (\<lambda>m c. m(gc_path c := add_seed_evidence (m (gc_path c)) c)) Map.empty candidates"

definition owner_query_axis_hits :: "string \<Rightarrow> seed_evidence option \<Rightarrow> string list \<Rightarrow> nat" where
  "owner_query_axis_hits owner evidence query_axes =
     (if query_axes = [] then 0
      else length (filter (str_contains (case evidence of Some e \<Rightarrow> se_evidence e
                                         | None \<Rightarrow> to_ascii_lowercase owner)) query_axes))"

definition seed_key_cmp :: "(string \<Rightarrow> seed_evidence option) \<Rightarrow> string list \<Rightarrow> string \<Rightarrow> string \<Rightarrow> ordering" where
  "seed_key_cmp evidence query_axes l r =
     (let hits = (\<lambda>owner. owner_query_axis_hits owner (evidence owner) query_axes);
          local = (\<lambda>owner. case evidence owner of Some e \<Rightarrow> se_local_evidence_hits e | None \<Rightarrow> 0);
          count = (\<lambda>owner. case evidence owner of Some e \<Rightarrow> se_candidate_count e | None \<Rightarrow> 0)
      in then_with (cmp (hits r) (hits l))
        (then_with (cmp (local r) (local l))
        (then_with (cmp (count r) (count l))
        (then_with (cmp (length r) (length l)) (cmp l r)))))"

definition graph_query_owner_seed_paths ::
    "graph_candidate list \<Rightarrow> string list \<Rightarrow> nat \<Rightarrow> string list \<Rightarrow> string list" where
  "graph_query_owner_seed_paths candidates owners budget query_terms =
     (if budget = 0 then []
      else (let package_path_owners = package_path_seed_owners candidates owners budget query_terms
        in if package_path_owners \<noteq> [] then package_path_owners
           else take budget (sort_by (seed_key_cmp (owner_seed_evidence candidates) (query_seed_axes query_terms))
                  owners)))"

text \<open>The two files split terms in the same way, although one of them trims the words.\<close>

lemma alphanumeric_not_space: "is_ascii_alphanumeric c \<Longrightarrow> \<not> is_whitespace [c]"
  by (cases c) (auto simp: is_ascii_alphanumeric_def is_ascii_alphabetic_def is_ascii_lowercase_def
      is_ascii_uppercase_def is_ascii_digit_def)
lemma alphanumeric_one_byte: "is_ascii_alphanumeric c \<Longrightarrow> utf8_tail c = 0"
  by (cases c) (auto simp: is_ascii_alphanumeric_def is_ascii_alphabetic_def is_ascii_lowercase_def
      is_ascii_uppercase_def is_ascii_digit_def split: if_splits)

lemma ascii_lower_alphanumeric: "is_ascii_alphanumeric c \<Longrightarrow> is_ascii_alphanumeric (ascii_lower c)"
  by (cases c) (auto simp: is_ascii_alphanumeric_def is_ascii_alphabetic_def is_ascii_lowercase_def
      is_ascii_uppercase_def is_ascii_digit_def ascii_lower_def split: if_splits)

lemma rust_chars_alphanumeric: "list_all is_ascii_alphanumeric s \<Longrightarrow> rust_chars s = map (\<lambda>c. [c]) s"
  by (induction s) (simp_all add: alphanumeric_one_byte)

lemma dropWhile_none: "(\<And>x. x \<in> set xs \<Longrightarrow> \<not> P x) \<Longrightarrow> dropWhile P xs = xs"
  by (cases xs) auto

lemma str_trim_alphanumeric:
  assumes "list_all is_ascii_alphanumeric s" shows "str_trim s = s"
proof -
  have none: "\<And>x. x \<in> set (rust_chars s) \<Longrightarrow> \<not> is_whitespace x"
    using assms alphanumeric_not_space
    by (auto simp: rust_chars_alphanumeric list_all_iff simp del: is_whitespace.simps)
  have "dropWhile is_whitespace (rust_chars s) = rust_chars s"
      "dropWhile is_whitespace (rev (rust_chars s)) = rev (rust_chars s)"
    using none by (auto intro!: dropWhile_none)
  then show ?thesis by (simp add: str_trim_def trim_start_def trim_end_def)
qed

lemma split_loops_agree:
  "list_all is_ascii_alphanumeric current \<Longrightarrow>
   split_seed_loop cs axes current after_lower = split_axis_loop cs axes current after_lower"
proof (induction cs axes current after_lower rule: split_axis_loop.induct)
  case (1 axes current after_lower)
  then show ?case by (simp add: push_query_seed_axis_def push_owner_rank_axis_def str_trim_alphanumeric)
next
  case (2 c cs axes current after_lower)
  then show ?case
    by (simp add: push_query_seed_axis_def push_owner_rank_axis_def str_trim_alphanumeric ascii_lower_alphanumeric)
qed

lemma seed_axes_are_rank_axes: "query_seed_axes = owner_rank_query_axes"
  by (rule ext) (simp add: query_seed_axes_def owner_rank_query_axes_def split_query_seed_axes_def
      split_owner_rank_axis_def split_loops_agree)

lemma seed_paths_are_owners:
  "length (graph_query_owner_seed_paths candidates owners budget query_terms) \<le> budget
   \<and> set (graph_query_owner_seed_paths candidates owners budget query_terms) \<subseteq> set owners"
  unfolding graph_query_owner_seed_paths_def Let_def
  by (auto simp: package_path_seed_owners_def dest: in_set_takeD)

lemma package_seeds_displace_others:
  assumes "owner \<in> set owners" and "c \<in> set candidates" and "gc_path c = owner"
    and "is_package_path_seed query_terms c"
    and "seed \<in> set (graph_query_owner_seed_paths candidates owners budget query_terms)"
  shows "\<exists>c \<in> set candidates. gc_path c = seed \<and> is_package_path_seed query_terms c"
proof -
  let ?seeds = "filter (\<lambda>owner. owner \<in> set (map gc_path (filter (is_package_path_seed query_terms) candidates))) owners"
  have "owner \<in> set ?seeds" using assms by auto
  then have "?seeds \<noteq> []" by (metis length_pos_if_in_set less_irrefl list.size(3))
  moreover have "budget \<noteq> 0" using assms(5) by (auto simp: graph_query_owner_seed_paths_def split: if_splits)
  ultimately have "seed \<in> set (take budget ?seeds)"
    using assms(5) by (simp add: graph_query_owner_seed_paths_def package_path_seed_owners_def Let_def)
  then have "seed \<in> set ?seeds" by (rule in_set_takeD)
  then show ?thesis by auto
qed

subsection \<open>Nodes of an evidence graph\<close>

record evidence_node =
  en_ordinal :: nat
  en_id :: string
  en_kind :: string
  en_label :: string
  en_path :: "string option"
  en_selector :: "string option"
  en_query_keys :: "string list"
  en_outgoing_edge_count :: nat

record evidence_score =
  es_term_hits :: nat
  es_selector_bonus :: nat
  es_topology_bonus :: nat

definition evidence_graph_rank_terms :: "string \<Rightarrow> string list" where
  "evidence_graph_rank_terms intent =
     sort_dedup (map to_ascii_lowercase (nonempty (map str_trim (split_by (\<lambda>c. \<not> is_lookup_char c) intent))))"

definition evidence_graph_term_hits :: "evidence_node \<Rightarrow> string list \<Rightarrow> nat" where
  "evidence_graph_term_hits node terms =
     (let or_empty = (\<lambda>v. case v of Some s \<Rightarrow> s | None \<Rightarrow> []);
          fields = map to_ascii_lowercase
            [en_id node, en_kind node, en_label node, or_empty (en_path node), or_empty (en_selector node)]
      in length (filter (\<lambda>t. list_ex (\<lambda>field. str_contains field t) fields
                            \<or> list_ex (\<lambda>key. str_contains (to_ascii_lowercase key) t) (en_query_keys node)) terms))"

definition evidence_graph_rank_score :: "string list \<Rightarrow> evidence_node \<Rightarrow> evidence_score" where
  "evidence_graph_rank_score terms node =
     \<lparr> es_term_hits = evidence_graph_term_hits node terms,
       es_selector_bonus = of_bool (case en_selector node of Some s \<Rightarrow> str_trim s \<noteq> [] | None \<Rightarrow> False),
       es_topology_bonus = min (en_outgoing_edge_count node) 8 \<rparr>"

definition evidence_score_cmp :: "evidence_score \<Rightarrow> evidence_score \<Rightarrow> ordering" where
  "evidence_score_cmp l r =
     then_with (cmp (es_term_hits r) (es_term_hits l))
    (then_with (cmp (es_selector_bonus r) (es_selector_bonus l))
               (cmp (es_topology_bonus r) (es_topology_bonus l)))"

definition rank_evidence_graph_nodes :: "evidence_node list \<Rightarrow> string \<Rightarrow> (evidence_node \<times> evidence_score) list" where
  "rank_evidence_graph_nodes nodes intent =
     (let terms = evidence_graph_rank_terms intent;
          ranked = map (\<lambda>(index, node). (index, node, evidence_graph_rank_score terms node)) (enumerate 0 nodes)
      in map snd (sort_by (\<lambda>l r. then_with (evidence_score_cmp (snd (snd l)) (snd (snd r))) (cmp (fst l) (fst r))) ranked))"

lemma comparator_evidence_score: "comparator (\<lambda>l r. evidence_score_cmp (f l) (f r)) good"
  unfolding evidence_score_cmp_def by (intro comparator_intros)

lemma evidence_ranking_is_stable:
  "stable_ranking (\<lambda>l r. evidence_score_cmp (snd l) (snd r))
     (map (\<lambda>node. (node, evidence_graph_rank_score (evidence_graph_rank_terms intent) node)) nodes)
     (rank_evidence_graph_nodes nodes intent)"
proof -
  let ?f = "\<lambda>node. (node, evidence_graph_rank_score (evidence_graph_rank_terms intent) node)"
  let ?ranked = "map (\<lambda>(index, node). (index, ?f node)) (enumerate 0 nodes)"
  have "sorted_wrt (\<lambda>l r. cmp (fst l) (fst r) \<noteq> Is_Greater) ?ranked"
    using enumerate_ascending [of 0 nodes] unfolding sorted_wrt_map
    by (rule sorted_wrt_mono_rel [rotated]) auto
  then have "rank_evidence_graph_nodes nodes intent =
      map snd (sort_by (\<lambda>l r. evidence_score_cmp (snd (snd l)) (snd (snd r))) ?ranked)"
    unfolding rank_evidence_graph_nodes_def Let_def by (subst sort_by_tie) (simp_all add: split_def)
  also have "\<dots> = sort_by (\<lambda>l r. evidence_score_cmp (snd l) (snd r)) (map snd ?ranked)"
    by (simp only: sort_by_map)
  also have "map snd ?ranked = map ?f nodes"
    using enumerate_map_snd [of ?f 0 nodes] by (simp add: split_def o_def)
  finally show ?thesis
    using comparator.stable_ranking_sort_by [OF comparator_evidence_score [where good = "\<lambda>_. True"]]
    by (simp add: list_all_iff)
qed
subsection \<open>Items of one owner\<close>

record graph_entity =
  ge_id :: string
  ge_kind :: string
  ge_label :: string
  ge_path :: "string option"
  ge_semantic_kind :: "string option"
  ge_selector :: "string option"
  ge_query_keys :: "string list"

record item_evidence =
  ie_node_id :: string
  ie_owner_path :: string
  ie_symbol :: string
  ie_semantic_kind :: string
  ie_selector :: string

datatype item_route = Item_Hit "item_evidence list" | Item_Empty

definition new_graph_semantic_kind :: "string \<Rightarrow> string option" where
  "new_graph_semantic_kind v = then_some (str_trim v \<noteq> []) v"

definition normalized_graph_term :: "string \<Rightarrow> string" where
  "normalized_graph_term v = to_ascii_lowercase (str_trim v)"

definition graph_owner_item_evidence :: "graph_entity \<Rightarrow> string \<Rightarrow> item_evidence option" where
  "graph_owner_item_evidence node owner_path =
     (if ge_kind node \<noteq> ''selector'' \<or> ge_path node \<noteq> Some owner_path then None
      else Option.bind (ge_semantic_kind node) (\<lambda>kind.
           Option.bind (new_graph_semantic_kind kind) (\<lambda>semantic_kind.
           map_option (\<lambda>selector. \<lparr> ie_node_id = ge_id node, ie_owner_path = owner_path,
               ie_symbol = ge_label node, ie_semantic_kind = semantic_kind, ie_selector = selector \<rparr>)
             (ge_selector node))))"

definition graph_terms :: "string list \<Rightarrow> string list" where
  "graph_terms values = sort_dedup (filter (\<lambda>t. t \<noteq> []) (map normalized_graph_term values))"

text \<open>The length is cut to 32 bits before it is multiplied, in a release build with wrap-around.\<close>

definition graph_owner_item_score :: "graph_entity \<Rightarrow> item_evidence \<Rightarrow> string list \<Rightarrow> 32 word option" where
  "graph_owner_item_score node evidence query_terms =
     (let identity_terms = graph_terms (ie_symbol evidence # ie_semantic_kind evidence # ge_query_keys node);
          terms = graph_terms query_terms
      in if set terms \<subseteq> set identity_terms then Some (of_nat (length terms) * 4) else None)"

definition scored_item :: "string \<Rightarrow> string list \<Rightarrow> graph_entity \<Rightarrow> (32 word \<times> item_evidence) option" where
  "scored_item owner_path query_terms node =
     Option.bind (graph_owner_item_evidence node owner_path) (\<lambda>evidence.
     map_option (\<lambda>score. (score, evidence)) (graph_owner_item_score node evidence query_terms))"

definition item_cmp :: "32 word \<times> item_evidence \<Rightarrow> 32 word \<times> item_evidence \<Rightarrow> ordering" where
  "item_cmp l r =
     then_with (cmp (fst r) (fst l))
    (then_with (cmp (ie_symbol (snd l)) (ie_symbol (snd r))) (cmp (ie_selector (snd l)) (ie_selector (snd r))))"

fun first_selectors :: "string list \<Rightarrow> item_evidence list \<Rightarrow> item_evidence list" where
  "first_selectors seen [] = []"
| "first_selectors seen (e # es) =
     (if ie_selector e \<in> set seen then first_selectors seen es
      else e # first_selectors (ie_selector e # seen) es)"

definition rank_graph_owner_items :: "string \<Rightarrow> string list \<Rightarrow> graph_entity list \<Rightarrow> item_route" where
  "rank_graph_owner_items owner_path query_terms nodes =
     (let ranked = sort_by item_cmp (List.map_filter (scored_item owner_path query_terms) nodes);
          evidence = first_selectors [] (map snd ranked)
      in if evidence = [] then Item_Empty else Item_Hit evidence)"

definition graph_shell_quote :: "string \<Rightarrow> string" where
  "graph_shell_quote v = [CHR 0x27] @ str_replace [CHR 0x27] [CHR 0x27, CHR 0x5C, CHR 0x27, CHR 0x27] v @ [CHR 0x27]"

definition item_lines :: "nat \<times> item_evidence \<Rightarrow> string" where
  "item_lines = (\<lambda>(index, item).
     (if index = 0 then ''I'' else ''I'' @ show_nat (index + 1)) @ ''=item:symbol('' @ ie_symbol item @ '')@''
     @ ie_selector item @ ''!syntax'' @ newline
     @ ''|item symbol='' @ ie_symbol item @ '' kind='' @ ie_semantic_kind item @ '' structuralSelector=''
     @ ie_selector item @ '' graphNode='' @ ie_node_id item @ '' reason=graph-owner-item-ready'' @ newline)"

definition render_graph_owner_item_frontier :: "string \<Rightarrow> string \<Rightarrow> string \<Rightarrow> item_route \<Rightarrow> string" where
  "render_graph_owner_item_frontier language_id owner_path query route =
     ''[search-owner] q='' @ query @ '' owner='' @ owner_path @ '' selector=items alg=graph-turbo-owner-items'' @ newline
     @ (case route of
          Item_Empty \<Rightarrow>
            ''reason=no-owner-item-match'' @ newline
            @ ''entries=owner-query(O,Q=>turso-evidence-graph)'' @ newline
        | Item_Hit items \<Rightarrow>
            concat (map item_lines (enumerate 0 items))
            @ (case items of
                 [] \<Rightarrow> []
               | item # _ \<Rightarrow>
                   ''nextCommand=asp '' @ language_id @ '' query --from-hook item-skeleton --selector ''
                   @ graph_shell_quote (ie_selector item) @ '' --workspace . --code'' @ newline)
            @ ''reason=graph-owner-item-ready'' @ newline
            @ ''avoid=selector-code-before-exact,direct-source-read,manual-window-scan'' @ newline
            @ ''entries=owner-query(O,Q=>turso-evidence-graph)'' @ newline)"

text \<open>All items that match have the same score, so the score never decides between two of them.\<close>

lemma owner_item_scores_are_equal:
  assumes "scored_item owner_path query_terms m = Some (s, e)"
    and "scored_item owner_path query_terms n = Some (t, f)"
  shows "s = t"
  using assms
  by (auto simp: scored_item_def graph_owner_item_score_def Let_def bind_eq_Some_conv split: if_splits)

interpretation by_item: comparator item_cmp "\<lambda>_. True"
  unfolding item_cmp_def by (intro comparator_intros)

lemma first_selectors_props:
  "distinct (map ie_selector (first_selectors seen es))
   \<and> set (map ie_selector (first_selectors seen es)) = set (map ie_selector es) - set seen
   \<and> set (first_selectors seen es) \<subseteq> set es"
  by (induction seen es rule: first_selectors.induct) auto

lemma first_selectors_sorted:
  "sorted_wrt P es \<Longrightarrow> sorted_wrt P (first_selectors seen es)"
proof (induction seen es rule: first_selectors.induct)
  case (2 seen e es)
  then show ?case using first_selectors_props [of "ie_selector e # seen" es] by auto
qed simp

definition matching_items :: "string \<Rightarrow> string list \<Rightarrow> graph_entity list \<Rightarrow> item_evidence set" where
  "matching_items owner_path query_terms nodes =
     {e. \<exists>node \<in> set nodes. graph_owner_item_evidence node owner_path = Some e
          \<and> set (graph_terms query_terms) \<subseteq> set (graph_terms (ie_symbol e # ie_semantic_kind e # ge_query_keys node))}"

lemma scored_items_match:
  "snd ` set (List.map_filter (scored_item owner_path query_terms) nodes) = matching_items owner_path query_terms nodes"
  by (force simp: scored_item_def matching_items_def graph_owner_item_score_def Let_def map_filter_def
      bind_eq_Some_conv image_iff split: if_splits)

text \<open>
  The route names each selector of a matching item once, by symbol and selector, and is empty exactly when no item
  matches.
\<close>

lemma owner_items_exact:
  "case rank_graph_owner_items owner_path query_terms nodes of
     Item_Empty \<Rightarrow> matching_items owner_path query_terms nodes = {}
   | Item_Hit items \<Rightarrow>
       items \<noteq> [] \<and> distinct (map ie_selector items)
       \<and> set (map ie_selector items) = ie_selector ` matching_items owner_path query_terms nodes
       \<and> set items \<subseteq> matching_items owner_path query_terms nodes"
proof -
  let ?scored = "List.map_filter (scored_item owner_path query_terms) nodes"
  let ?ranked = "map snd (sort_by item_cmp ?scored)"
  have ranked: "set ?ranked = matching_items owner_path query_terms nodes"
    by (simp add: scored_items_match)
  note found = first_selectors_props [of "[]" ?ranked]
  have "set (map ie_selector (first_selectors [] ?ranked)) = ie_selector ` matching_items owner_path query_terms nodes"
    using found arg_cong [OF ranked, of "image ie_selector"] by (simp only: set_map) simp
  moreover have "set (first_selectors [] ?ranked) \<subseteq> matching_items owner_path query_terms nodes"
    using found ranked by simp
  ultimately show ?thesis
    using found by (auto simp: rank_graph_owner_items_def Let_def)
qed
subsection \<open>Which candidates are shown\<close>

text \<open>
  One sweep over the candidates, given as their indices and symbols.  The state is the vector of chosen indices (the
  set of them is its set), how often each symbol was chosen, and whether this sweep has added one.
\<close>

fun sparse_sweep ::
    "nat \<Rightarrow> nat \<Rightarrow> (nat \<times> string) list \<Rightarrow> nat list \<times> (string \<Rightarrow> nat) \<times> bool \<Rightarrow>
     nat list \<times> (string \<Rightarrow> nat) \<times> bool" where
  "sparse_sweep limit per_symbol_limit [] s = s"
| "sparse_sweep limit per_symbol_limit ((index, symbol) # rest) (selected, counts, added) =
     (if limit \<le> length selected then (selected, counts, added)
      else if index \<in> set selected \<or> per_symbol_limit \<le> counts symbol
      then sparse_sweep limit per_symbol_limit rest (selected, counts, added)
      else sparse_sweep limit per_symbol_limit rest
             (selected @ [index], counts(symbol := counts symbol + 1), True))"

text \<open>The \<open>while\<close> loop; \<open>None\<close> is the value of a loop that never ends.\<close>

partial_function (option) sparse_loop ::
    "string list \<Rightarrow> nat \<Rightarrow> nat \<Rightarrow> nat list \<Rightarrow> (string \<Rightarrow> nat) \<Rightarrow> nat list option" where
  "sparse_loop symbols limit per_symbol_limit selected counts =
     (if length selected < limit \<and> card (set selected) < length symbols
      then (case sparse_sweep limit per_symbol_limit (enumerate 0 symbols) (selected, counts, False) of
              (selected', counts', added) \<Rightarrow>
                sparse_loop symbols limit (if added then per_symbol_limit else per_symbol_limit + 1) selected' counts')
      else Some selected)"

definition select_sparse_graph_candidate_indices :: "string list \<Rightarrow> nat \<Rightarrow> nat list option" where
  "select_sparse_graph_candidate_indices symbols limit = sparse_loop symbols limit 1 [] (\<lambda>_. 0)"

text \<open>The number of earlier candidates with the symbol of candidate \<open>i\<close>, and the candidates of one number.\<close>

definition occurrence :: "string list \<Rightarrow> nat \<Rightarrow> nat" where
  "occurrence symbols i = count_list (take i symbols) (symbols ! i)"

definition round_of :: "string list \<Rightarrow> nat \<Rightarrow> nat \<Rightarrow> nat list" where
  "round_of symbols r k = filter (\<lambda>i. occurrence symbols i = r) [0..<k]"

definition rounds_before :: "string list \<Rightarrow> nat \<Rightarrow> nat list" where
  "rounds_before symbols r = concat (map (\<lambda>q. round_of symbols q (length symbols)) [0..<r])"

lemma occurrence_less: "i < length symbols \<Longrightarrow> occurrence symbols i < length symbols"
  unfolding occurrence_def using count_le_length [of "take i symbols" "symbols ! i"] by simp

lemma set_rounds_before: "set (rounds_before symbols r) = {i. i < length symbols \<and> occurrence symbols i < r}"
  by (auto simp: rounds_before_def round_of_def)

lemma rounds_before_Suc: "rounds_before symbols (Suc r) = rounds_before symbols r @ round_of symbols r (length symbols)"
  by (simp add: rounds_before_def)

lemma distinct_rounds_before: "distinct (rounds_before symbols r)"
proof (induction r)
  case (Suc r)
  then show ?case
    using set_rounds_before [of symbols r] by (auto simp: rounds_before_Suc round_of_def)
qed (simp add: rounds_before_def)

lemma rounds_before_all:
  assumes "length symbols \<le> r"
  shows "set (rounds_before symbols r) = {..<length symbols}"
  using occurrence_less [of _ symbols] assms by (auto simp: set_rounds_before) (metis order.strict_trans2)

lemma count_take_Suc:
  "k < length symbols \<Longrightarrow>
   count_list (take (Suc k) symbols) s = count_list (take k symbols) s + of_bool (symbols ! k = s)"
  by (simp add: take_Suc_conv_app_nth)

lemma count_take_le: "count_list (take k symbols) s \<le> count_list symbols s"
  using count_list_append [of "take k symbols" "drop k symbols" s] by simp

text \<open>The counts in the middle of a sweep of round \<open>r\<close>, before candidate \<open>k\<close>.\<close>

definition sweep_counts :: "string list \<Rightarrow> nat \<Rightarrow> nat \<Rightarrow> string \<Rightarrow> nat" where
  "sweep_counts symbols r k s =
     min (count_list symbols s) r + of_bool (r < count_list (take k symbols) s)"

lemma sweep_counts_full:
  "sweep_counts symbols r (length symbols) s = min (count_list symbols s) (Suc r)"
  by (auto simp: sweep_counts_def min_def)

lemma sweep_counts_limit:
  assumes "k < length symbols"
  shows "Suc r \<le> sweep_counts symbols r k (symbols ! k) \<longleftrightarrow> r < occurrence symbols k"
  using count_take_le [of k symbols "symbols ! k"] by (auto simp: sweep_counts_def occurrence_def min_def)

lemma sweep_counts_skip:
  assumes "k < length symbols" and "occurrence symbols k \<noteq> r"
  shows "sweep_counts symbols r (Suc k) = sweep_counts symbols r k"
  using assms by (auto simp: fun_eq_iff sweep_counts_def occurrence_def count_take_Suc)

lemma sweep_counts_take:
  assumes "k < length symbols" and "occurrence symbols k = r"
  shows "sweep_counts symbols r (Suc k) =
    (sweep_counts symbols r k)(symbols ! k := sweep_counts symbols r k (symbols ! k) + 1)"
  using assms by (auto simp: fun_eq_iff sweep_counts_def occurrence_def count_take_Suc)
lemma rounds_split:
  "k \<le> length symbols \<Longrightarrow>
   rounds_before symbols (Suc r) =
     (rounds_before symbols r @ round_of symbols r k)
     @ filter (\<lambda>i. occurrence symbols i = r) [k..<length symbols]"
  using upt_add_eq_append [of 0 k "length symbols - k"]
  by (simp add: rounds_before_Suc round_of_def flip: filter_append)

lemma round_of_Suc:
  "round_of symbols r (Suc k) = round_of symbols r k @ (if occurrence symbols k = r then [k] else [])"
  by (simp add: round_of_def)

lemma sweep_chooses_round:
  assumes "k \<le> length symbols" and "length (rounds_before symbols r @ round_of symbols r k) \<le> limit"
  shows "\<exists>counts'. sparse_sweep limit (Suc r) (drop k (enumerate 0 symbols))
        (rounds_before symbols r @ round_of symbols r k, sweep_counts symbols r k, added) =
      (take limit (rounds_before symbols (Suc r)), counts',
       added \<or> length (rounds_before symbols r @ round_of symbols r k) < length (take limit (rounds_before symbols (Suc r))))
    \<and> (length (rounds_before symbols (Suc r)) < limit \<longrightarrow> counts' = sweep_counts symbols r (length symbols))"
  using assms
proof (induction "length symbols - k" arbitrary: k added)
  case 0
  then show ?case by (simp add: rounds_before_Suc)
next
  case (Suc d)
  then have k: "k < length symbols" by simp
  let ?S = "\<lambda>k. rounds_before symbols r @ round_of symbols r k"
  let ?out = "take limit (rounds_before symbols (Suc r))"
  have rest: "drop k (enumerate 0 symbols) = (k, symbols ! k) # drop (Suc k) (enumerate 0 symbols)"
    using k Cons_nth_drop_Suc [of k "enumerate 0 symbols"] by (simp add: nth_enumerate_eq)
  have split: "rounds_before symbols (Suc r) = ?S k @ filter (\<lambda>i. occurrence symbols i = r) [k..<length symbols]"
    using k by (intro rounds_split) simp
  have chosen: "k \<in> set (?S k) \<longleftrightarrow> occurrence symbols k < r"
    using k by (auto simp: set_rounds_before round_of_def)
  show ?case
  proof (cases "limit \<le> length (?S k)")
    case True
    then have "?out = ?S k" using Suc.prems(2) unfolding split by simp
    moreover have "\<not> length (rounds_before symbols (Suc r)) < limit" using True unfolding split by simp
    ultimately show ?thesis using True rest by simp
  next
    case False
    note room = False
    show ?thesis
    proof (cases "occurrence symbols k = r")
      case True
      have next_S: "?S (Suc k) = ?S k @ [k]" using True by (simp add: round_of_Suc)
      have out: "length (?S k) < length ?out"
        using room True k unfolding split by (simp add: upt_conv_Cons)
      have step: "sparse_sweep limit (Suc r) (drop k (enumerate 0 symbols)) (?S k, sweep_counts symbols r k, added) =
          sparse_sweep limit (Suc r) (drop (Suc k) (enumerate 0 symbols))
            (?S (Suc k), sweep_counts symbols r (Suc k), True)"
        using room True chosen sweep_counts_limit [OF k, of r] sweep_counts_take [OF k True] rest
        by (simp add: round_of_Suc)
      show ?thesis
        using Suc.hyps(1) [of "Suc k" True] Suc.hyps(2) k room out next_S unfolding step by auto
    next
      case False
      have same: "?S (Suc k) = ?S k" using False by (simp add: round_of_Suc)
      have "k \<in> set (?S k) \<or> Suc r \<le> sweep_counts symbols r k (symbols ! k)"
        using False chosen sweep_counts_limit [OF k, of r] by linarith
      then have step: "sparse_sweep limit (Suc r) (drop k (enumerate 0 symbols)) (?S k, sweep_counts symbols r k, added) =
          sparse_sweep limit (Suc r) (drop (Suc k) (enumerate 0 symbols))
            (?S (Suc k), sweep_counts symbols r (Suc k), added)"
        using room rest sweep_counts_skip [OF k False] same by auto
      show ?thesis
        using Suc.hyps(1) [of "Suc k" added] Suc.hyps(2) k Suc.prems(2) same unfolding step by simp
    qed
  qed
qed

lemma sweep_idle:
  assumes "\<forall>(i, s) \<in> set es. i \<in> set selected \<or> per_symbol_limit \<le> counts s"
  shows "sparse_sweep limit per_symbol_limit es (selected, counts, added) = (selected, counts, added)"
  using assms by (induction es) auto

lemma rounds_before_mono:
  assumes "r \<le> q" shows "\<exists>zs. rounds_before symbols q = rounds_before symbols r @ zs"
proof -
  have "[0..<q] = [0..<r] @ [r..<q]" using assms by (metis le0 le_add_diff_inverse upt_add_eq_append)
  then show ?thesis by (simp add: rounds_before_def)
qed

lemma length_rounds_all:
  assumes "length symbols \<le> r" shows "length (rounds_before symbols r) = length symbols"
  using distinct_card [OF distinct_rounds_before, of symbols r] rounds_before_all [OF assms] by simp

lemma length_rounds_le: "length (rounds_before symbols r) \<le> length symbols"
  using distinct_card [OF distinct_rounds_before, of symbols r]
    card_mono [of "{..<length symbols}" "set (rounds_before symbols r)"]
  by (auto simp: set_rounds_before)
lemma take_rounds:
  assumes "limit \<le> length (rounds_before symbols r)" and "r \<le> q"
  shows "take limit (rounds_before symbols q) = take limit (rounds_before symbols r)"
  using assms rounds_before_mono [OF assms(2), of symbols] by auto

lemma full_rounds:
  assumes "length symbols \<le> length (rounds_before symbols r)" and "r \<le> q"
  shows "rounds_before symbols q = rounds_before symbols r"
proof -
  obtain zs where zs: "rounds_before symbols q = rounds_before symbols r @ zs"
    using rounds_before_mono [OF assms(2)] by blast
  have "length (rounds_before symbols r) + length zs \<le> length symbols"
    using length_rounds_le [of symbols q] by (simp add: zs)
  then have "length zs = 0" using assms(1) by linarith
  then show ?thesis using zs by simp
qed

text \<open>At the end of a round: either the loop ends with the result, or the next round starts.\<close>

lemma sparse_loop_rounds:
  assumes "r \<le> length symbols"
    and "length (rounds_before symbols r) < limit \<Longrightarrow> counts = sweep_counts symbols r 0"
  shows "sparse_loop symbols limit (Suc r) (take limit (rounds_before symbols r)) counts =
    Some (take limit (rounds_before symbols (length symbols)))"
  using assms
proof (induction "length symbols - r" arbitrary: r counts)
  case 0
  then have "r = length symbols" by simp
  then show ?case
    using distinct_card [OF distinct_take [OF distinct_rounds_before, of limit symbols r]] length_rounds_all [of symbols r]
    by (subst sparse_loop.simps) (auto simp: min_def)
next
  case (Suc d)
  let ?R = "rounds_before symbols" and ?n = "length symbols"
  note loop = sparse_loop.simps [of symbols limit]
  have card: "card (set (take limit (?R q))) = length (take limit (?R q))" for q
    by (rule distinct_card) (simp add: distinct_rounds_before)
  have ends: "sparse_loop symbols limit per (take limit (?R q)) counts = Some (take limit (?R ?n))"
    if "limit \<le> length (?R q) \<or> ?n \<le> length (?R q)" and "q \<le> ?n" for per q counts
  proof -
    have same: "take limit (?R ?n) = take limit (?R q)"
      using that take_rounds [of limit symbols q ?n] full_rounds [of symbols q ?n] by auto
    have stop: "(length (take limit (?R q)) < limit \<and> card (set (take limit (?R q))) < ?n) = False"
      using that card [of q] by auto
    show ?thesis by (subst loop) (simp only: stop if_False same)
  qed
  show ?case
  proof (cases "limit \<le> length (?R r) \<or> ?n \<le> length (?R r)")
    case True
    then show ?thesis using ends Suc.prems(1) by blast
  next
    case False
    then have counts: "counts = sweep_counts symbols r 0" and all: "take limit (?R r) = ?R r" using Suc.prems by auto
    have r: "Suc r \<le> ?n" using Suc.hyps(2) by simp
    obtain counts' where sweep: "sparse_sweep limit (Suc r) (enumerate 0 symbols) (?R r, counts, False) =
        (take limit (?R (Suc r)), counts', length (?R r) < length (take limit (?R (Suc r))))"
      and counts': "length (?R (Suc r)) < limit \<Longrightarrow> counts' = sweep_counts symbols r ?n"
      using sweep_chooses_round [of 0 symbols r limit False] False counts by (auto simp: round_of_def)
    have full: "sweep_counts symbols r ?n = sweep_counts symbols (Suc r) 0"
      by (rule ext) (simp add: sweep_counts_full, simp add: sweep_counts_def)
    have next_round: "sparse_loop symbols limit (Suc (Suc r)) (take limit (?R (Suc r))) counts' = Some (take limit (?R ?n))"
      using Suc.hyps(1) [of "Suc r" counts'] Suc.hyps(2) r counts' full by simp
    have first: "sparse_loop symbols limit (Suc r) (take limit (?R r)) counts =
        sparse_loop symbols limit (if length (?R r) < length (take limit (?R (Suc r))) then Suc r else Suc (Suc r))
          (take limit (?R (Suc r))) counts'"
      using False card [of r] all sweep by (subst loop) simp
    show ?thesis
    proof (cases "length (?R r) < length (take limit (?R (Suc r)))
        \<and> \<not> (limit \<le> length (?R (Suc r)) \<or> ?n \<le> length (?R (Suc r)))")
      case True
      then have all': "take limit (?R (Suc r)) = ?R (Suc r)" and more: "counts' = sweep_counts symbols r ?n"
        using counts' by auto
      have "sparse_sweep limit (Suc r) (enumerate 0 symbols) (?R (Suc r), counts', False) = (?R (Suc r), counts', False)"
      proof (rule sweep_idle, rule ballI)
        fix e assume "e \<in> set (enumerate 0 symbols)"
        then obtain i where e: "e = (i, symbols ! i)" and i: "i < ?n"
          by (intro that [of "fst e"]) (auto simp: in_set_enumerate_eq prod_eq_iff)
        have "occurrence symbols i < count_list symbols (symbols ! i)"
          using i count_take_le [of "Suc i" symbols "symbols ! i"] by (simp add: count_take_Suc occurrence_def)
        then show "case e of (i, s) \<Rightarrow> i \<in> set (?R (Suc r)) \<or> Suc r \<le> counts' s"
          using e i more by (auto simp: set_rounds_before sweep_counts_full)
      qed
      then have "sparse_loop symbols limit (Suc r) (take limit (?R (Suc r))) counts' =
          sparse_loop symbols limit (Suc (Suc r)) (take limit (?R (Suc r))) counts'"
        using True card [of "Suc r"] all' by (subst loop) simp
      then show ?thesis using first next_round True by simp
    next
      case False
      then show ?thesis using first next_round ends [of "Suc r" "Suc r" counts'] r by (auto split: if_splits)
    qed
  qed
qed

lemma rounds_are_sorted: "rounds_before symbols (length symbols) = sort_key (occurrence symbols) [0..<length symbols]"
proof (rule properties_for_sort_key [symmetric])
  let ?n = "length symbols"
  have "mset (rounds_before symbols ?n) = mset_set {..<?n}"
    using mset_set_set [OF distinct_rounds_before, of symbols ?n] rounds_before_all [of symbols ?n] by simp
  also have "\<dots> = mset [0..<?n]" by (metis distinct_upt mset_set_set atLeast_upt)
  finally show "mset (rounds_before symbols ?n) = mset [0..<?n]" .
  have level: "filter (\<lambda>x. occurrence symbols x = q) (rounds_before symbols r) =
      (if q < r then round_of symbols q ?n else [])" for q r
    by (induction r) (auto simp: rounds_before_Suc rounds_before_def round_of_def less_Suc_eq filter_empty_conv)
  show "filter (\<lambda>x. occurrence symbols k = occurrence symbols x) (rounds_before symbols ?n) =
      filter (\<lambda>x. occurrence symbols k = occurrence symbols x) [0..<?n]" if "k \<in> set (rounds_before symbols ?n)" for k
  proof -
    have "k < ?n" using that by (simp add: set_rounds_before)
    then show ?thesis
      using level [of "occurrence symbols k" ?n] occurrence_less [of k symbols]
      by (simp add: eq_commute [of "occurrence symbols k"] round_of_def)
  qed
  have same: "map (occurrence symbols) (round_of symbols q ?n) = replicate (length (round_of symbols q ?n)) q" for q
    by (rule replicate_eqI) (auto simp: round_of_def)
  have "sorted (map (occurrence symbols) (rounds_before symbols r))" for r
  proof (induction r)
    case 0
    then show ?case by (simp add: rounds_before_def)
  next
    case (Suc r)
    then show ?case by (auto simp: rounds_before_Suc sorted_append same set_rounds_before)
  qed
  then show "sorted (map (occurrence symbols) (rounds_before symbols ?n))" .
qed

text \<open>
  C38: the loop that picks the candidates to show ends for every list of symbols and every limit, and shows the
  first candidates in rounds: one of each symbol in the order of the list, then a second of each symbol, and so on,
  until the limit is reached or nothing is left.
\<close>

theorem sparse_selection_in_rounds:
  "select_sparse_graph_candidate_indices symbols limit =
     Some (take limit (sort_key (occurrence symbols) [0..<length symbols]))"
  using sparse_loop_rounds [of 0 symbols limit "\<lambda>_. 0"]
  by (simp add: select_sparse_graph_candidate_indices_def rounds_are_sorted rounds_before_def [of _ 0]
      sweep_counts_def fun_eq_iff)

end
