(* ===== verification/SearchPreflight.thy ===== *)
theory SearchPreflight
  imports Paths
begin

section \<open>Validation of search commands before a provider starts\<close>

text \<open>
  Models \<open>crates/agent-semantic-search/src/search_command_preflight.rs\<close>: the shape of \<open>search owner\<close>, the check that
  the owner is a file of the workspace, the admission of its language and the time budget.  The host answers
  questions about the file system; elapsed time is an argument, in nanoseconds.
\<close>

subsection \<open>Normal paths\<close>

text \<open>One component of a path: \<open>.\<close> is dropped and \<open>..\<close> removes the last one, if there is one.\<close>

definition normalize_step :: "string list \<Rightarrow> string \<Rightarrow> string list" where
  "normalize_step normalized component =
     (if component = ''.'' then normalized
      else if component = ''..'' then butlast normalized
      else normalized @ [component])"

definition normal_parts :: "string \<Rightarrow> string list" where
  "normal_parts path = foldl normalize_step [] (path_parts path)"

definition lexical_normalize :: "string \<Rightarrow> string" where
  "lexical_normalize path =
     (if \<not> is_absolute_path path \<and> normal_parts path = [] then ''.''
      else path_of_parts (is_absolute_path path) (normal_parts path))"

definition search_owner_source_path :: "string \<Rightarrow> string \<Rightarrow> string" where
  "search_owner_source_path project_root owner =
     (if is_absolute_path owner then lexical_normalize owner
      else lexical_normalize (path_join project_root owner))"

definition same_existing_path :: "string \<Rightarrow> string \<Rightarrow> bool" where
  "same_existing_path l r \<longleftrightarrow> path_eq (lexical_normalize l) (lexical_normalize r)"

subsection \<open>Owners\<close>

record owner_host =
  wh_exists :: "string \<Rightarrow> bool"
  wh_is_dir :: "string \<Rightarrow> bool"
  wh_canonicalize :: "string \<Rightarrow> string option"

datatype invalid_owner_reason =
  Empty_Owner | Workspace_Root_Owner | Directory_Owner | Missing_Owner | Outside_Workspace

fun invalid_owner_reason_str :: "invalid_owner_reason \<Rightarrow> string" where
  "invalid_owner_reason_str Empty_Owner = ''empty-owner''"
| "invalid_owner_reason_str Workspace_Root_Owner = ''workspace-root-owner''"
| "invalid_owner_reason_str Directory_Owner = ''directory-owner''"
| "invalid_owner_reason_str Missing_Owner = ''missing-owner''"
| "invalid_owner_reason_str Outside_Workspace = ''outside-workspace''"

definition existing_path_is_within_workspace :: "owner_host \<Rightarrow> string \<Rightarrow> string \<Rightarrow> bool" where
  "existing_path_is_within_workspace host owner_path project_root \<longleftrightarrow>
     path_starts_with owner_path (lexical_normalize project_root)
     \<and> (case (wh_canonicalize host project_root, wh_canonicalize host owner_path) of
          (Some canonical_root, Some canonical_owner) \<Rightarrow> path_starts_with canonical_owner canonical_root
        | _ \<Rightarrow> True)"

definition invalid_owner_items_owner_reason :: "owner_host \<Rightarrow> string \<Rightarrow> string \<Rightarrow> invalid_owner_reason option" where
  "invalid_owner_items_owner_reason host owner project_root =
     (let owner_path = search_owner_source_path project_root owner
      in if str_trim owner = [] then Some Empty_Owner
         else if owner = ''.'' \<or> owner = ''./'' then Some Workspace_Root_Owner
         else if same_existing_path owner_path project_root then Some Workspace_Root_Owner
         else if \<not> wh_exists host owner_path then Some Missing_Owner
         else if wh_is_dir host owner_path then Some Directory_Owner
         else if \<not> existing_path_is_within_workspace host owner_path project_root then Some Outside_Workspace
         else None)"

subsection \<open>Diagnostics\<close>

definition diagnostic_workspace :: "string option \<Rightarrow> string \<Rightarrow> string" where
  "diagnostic_workspace workspace project_root =
     (case workspace of
        Some path \<Rightarrow> if is_absolute_path path then path else project_root
      | None \<Rightarrow> project_root)"

definition escape_diagnostic_value :: "string \<Rightarrow> string" where
  "escape_diagnostic_value v =
     str_replace [CHR 0x22] [CHR 0x5C, CHR 0x22] (str_replace [CHR 0x5C] [CHR 0x5C, CHR 0x5C] v)"

definition in_quotes :: "string \<Rightarrow> string" where
  "in_quotes v = [CHR 0x22] @ v @ [CHR 0x22]"

definition in_ticks :: "string \<Rightarrow> string" where
  "in_ticks v = [CHR 0x27] @ v @ [CHR 0x27]"

definition render_invalid_owner_items_owner_error ::
    "string \<Rightarrow> string \<Rightarrow> string option \<Rightarrow> string \<Rightarrow> invalid_owner_reason \<Rightarrow> string" where
  "render_invalid_owner_items_owner_error language_id owner workspace project_root reason =
     (let workspace = diagnostic_workspace workspace project_root
      in ''[asp-search-query-error] code=invalid-owner owner='' @ in_quotes (escape_diagnostic_value owner)
         @ '' reason='' @ invalid_owner_reason_str reason @ newline
         @ ''|hint search owner requires a concrete source owner path; workspace roots and directories are search scopes, not owners'' @ newline
         @ ''nextCommand=asp '' @ language_id @ '' search pipe '' @ in_ticks ''<focused terms>'' @ '' --workspace '' @ workspace
         @ '' --view seeds'' @ newline
         @ ''example=asp '' @ language_id @ '' search owner <owner-path> items --query '' @ in_ticks ''<symbol-or-a|b|c>''
         @ '' --workspace '' @ workspace @ '' --view seeds'')"

definition render_preflight_budget_error :: "string \<Rightarrow> nat \<Rightarrow> nat \<Rightarrow> string" where
  "render_preflight_budget_error language_id elapsed max_elapsed =
     ''[asp-search-query-error] code=preflight-budget-exceeded language='' @ language_id @ '' elapsedMs='' @ show_nat (elapsed div 1000000)
     @ '' maxMs='' @ show_nat (max_elapsed div 1000000) @ newline
     @ ''|hint search command validation exceeded its local budget before provider dispatch'' @ newline
     @ ''nextCommand=asp '' @ language_id @ '' search pipe '' @ in_ticks ''<focused terms>''
     @ '' --workspace <workspace-root> --view seeds''"

definition stripped_extensions :: "string list \<Rightarrow> string list" where
  "stripped_extensions extensions =
     sort_dedup (filter (\<lambda>e. e \<noteq> []) (map (trim_start_chars (\<lambda>c. c = CHR ''.'')) extensions))"

definition render_owner_language_mismatch_error ::
    "string \<Rightarrow> string \<Rightarrow> string option \<Rightarrow> string \<Rightarrow> string \<Rightarrow> string list \<Rightarrow> string option \<Rightarrow> string" where
  "render_owner_language_mismatch_error language_id owner workspace project_root owner_extension expected_extensions
     suggested_language =
     (let workspace = diagnostic_workspace workspace project_root;
          expected = (if stripped_extensions expected_extensions = [] then ''none''
                      else str_join ''|'' (stripped_extensions expected_extensions));
          next_action = (case suggested_language of
              None \<Rightarrow> ''nextAction=select-language-for-owner-extension''
            | Some language \<Rightarrow>
                ''nextCommand=asp '' @ language @ '' search owner '' @ in_ticks (escape_diagnostic_value owner) @ '' items --query ''
                @ in_ticks ''<symbol-or-a|b|c>'' @ '' --workspace '' @ workspace @ '' --view seeds'')
      in ''[asp-search-query-error] code=owner-language-mismatch owner='' @ in_quotes (escape_diagnostic_value owner)
         @ '' requestedLanguage='' @ language_id @ '' ownerExtension='' @ owner_extension @ '' expectedExtensions='' @ expected
         @ (case suggested_language of None \<Rightarrow> [] | Some language \<Rightarrow> '' suggestedLanguage='' @ language) @ newline
         @ ''|hint owner-item admission rejected an extension not declared by the requested provider; no provider was started''
         @ newline @ next_action)"

subsection \<open>The command\<close>

datatype preflight_outcome = Preflight_Not_Applicable | Preflight_Passed | Preflight_Rejected string

record language_admission =
  la_expected_extensions :: "string list"
  la_suggested_language :: "string option"

definition source_extension_is_declared :: "string \<Rightarrow> string list \<Rightarrow> bool" where
  "source_extension_is_declared extension expected_extensions \<longleftrightarrow>
     list_ex (\<lambda>expected. eq_ignore_ascii_case (trim_start_chars (\<lambda>c. c = CHR ''.'') expected)
                (trim_start_chars (\<lambda>c. c = CHR ''.'') extension)) expected_extensions"

definition preflight_owner_items_language_admission ::
    "string \<Rightarrow> string \<Rightarrow> string option \<Rightarrow> string \<Rightarrow> language_admission \<Rightarrow> string + unit" where
  "preflight_owner_items_language_admission language_id owner workspace project_root admission =
     (let owner_extension = (case path_name_extension (search_owner_source_path project_root owner) of
                               Some extension \<Rightarrow> extension | None \<Rightarrow> ''none'')
      in if source_extension_is_declared owner_extension (la_expected_extensions admission) then Inr ()
         else Inl (render_owner_language_mismatch_error language_id owner workspace project_root owner_extension
                     (la_expected_extensions admission) (la_suggested_language admission)))"

definition is_search_owner_query :: "string list \<Rightarrow> bool" where
  "is_search_owner_query args \<longleftrightarrow> get_at args 0 = Some ''search'' \<and> get_at args 1 = Some ''owner''"

datatype invalid_search_owner_command = Missing_Owner_Path | Missing_Items_Surface string

definition validate_search_owner_query_shape :: "string list \<Rightarrow> invalid_search_owner_command + string" where
  "validate_search_owner_query_shape args =
     (case get_at args 2 of
        None \<Rightarrow> Inl Missing_Owner_Path
      | Some owner \<Rightarrow>
          (if starts_with owner ''-'' then Inl Missing_Owner_Path
           else if get_at args 3 = Some ''items'' then Inr owner
           else Inl (Missing_Items_Surface owner)))"

definition render_invalid_search_owner_command_error ::
    "string \<Rightarrow> invalid_search_owner_command \<Rightarrow> string option \<Rightarrow> string \<Rightarrow> string" where
  "render_invalid_search_owner_command_error language_id reason workspace project_root =
     (let subject_owner = (case reason of
              Missing_Owner_Path \<Rightarrow> (''reason=missing-owner-path'', ''<owner-path>'')
            | Missing_Items_Surface owner \<Rightarrow>
                (''owner='' @ in_quotes (escape_diagnostic_value owner) @ '' reason=missing-items-surface'', owner))
      in ''[asp-search-query-error] code=invalid-search-command '' @ fst subject_owner @ newline
         @ ''|hint search owner requires the `items` surface: search owner <owner-path> items --query '' @ in_ticks ''<terms>''
         @ newline
         @ ''nextCommand=asp '' @ language_id @ '' search owner '' @ escape_diagnostic_value (snd subject_owner)
         @ '' items --query '' @ in_ticks ''<symbol-or-a|b|c>'' @ '' --workspace ''
         @ diagnostic_workspace workspace project_root @ '' --view seeds'')"

fun search_workspace_arg :: "string list \<Rightarrow> string option" where
  "search_workspace_arg [] = None"
| "search_workspace_arg (arg # args) =
     (if arg = ''--workspace'' then get_at args 0
      else case strip_prefix ''--workspace='' arg of
             Some workspace \<Rightarrow> Some workspace
           | None \<Rightarrow> search_workspace_arg args)"

definition preflight_max_elapsed :: nat where
  "preflight_max_elapsed = 20 * 1000000"

definition preflight_search_command_with_budget ::
    "owner_host \<Rightarrow> nat \<Rightarrow> nat \<Rightarrow> string \<Rightarrow> string \<Rightarrow> string option \<Rightarrow> string \<Rightarrow> string + unit" where
  "preflight_search_command_with_budget host elapsed max_elapsed language_id owner workspace project_root =
     (case invalid_owner_items_owner_reason host owner project_root of
        Some reason \<Rightarrow>
          Inl (render_invalid_owner_items_owner_error language_id owner workspace project_root reason)
      | None \<Rightarrow>
          (if max_elapsed < elapsed then Inl (render_preflight_budget_error language_id elapsed max_elapsed)
           else Inr ()))"

definition preflight_search_command_args ::
    "owner_host \<Rightarrow> nat \<Rightarrow> string \<Rightarrow> string list \<Rightarrow> string \<Rightarrow> language_admission option \<Rightarrow> preflight_outcome" where
  "preflight_search_command_args host elapsed language_id args project_root admission =
     (if \<not> is_search_owner_query args then Preflight_Not_Applicable
      else (let workspace = search_workspace_arg args
        in case validate_search_owner_query_shape args of
             Inl reason \<Rightarrow>
               Preflight_Rejected (render_invalid_search_owner_command_error language_id reason workspace project_root)
           | Inr owner \<Rightarrow>
               (case preflight_search_command_with_budget host elapsed preflight_max_elapsed language_id owner workspace
                       project_root of
                  Inl e \<Rightarrow> Preflight_Rejected e
                | Inr _ \<Rightarrow>
                    (case admission of
                       None \<Rightarrow> Preflight_Passed
                     | Some facts \<Rightarrow>
                         (case preflight_owner_items_language_admission language_id owner workspace project_root facts of
                            Inl e \<Rightarrow> Preflight_Rejected e
                          | Inr _ \<Rightarrow> Preflight_Passed)))))"

definition preflight_project_root :: "string list \<Rightarrow> string \<Rightarrow> string" where
  "preflight_project_root args invocation_root =
     (case search_workspace_arg args of
        Some workspace \<Rightarrow>
          (if is_absolute_path workspace then lexical_normalize workspace
           else lexical_normalize (path_join invocation_root workspace))
      | None \<Rightarrow> invocation_root)"

definition preflight_at_invocation_root ::
    "owner_host \<Rightarrow> nat \<Rightarrow> string \<Rightarrow> string list \<Rightarrow> string \<Rightarrow> preflight_outcome" where
  "preflight_at_invocation_root host elapsed language_id args invocation_root =
     preflight_search_command_args host elapsed language_id args (preflight_project_root args invocation_root) None"
subsection \<open>Normal paths have no way up\<close>

definition plain_part :: "string \<Rightarrow> bool" where
  "plain_part part \<longleftrightarrow> part \<noteq> [] \<and> CHR ''/'' \<notin> set part \<and> part \<noteq> ''.'' \<and> part \<noteq> ''..''"

lemma path_parts_no_separator:
  assumes "part \<in> set (path_parts path)" shows "part \<noteq> [] \<and> CHR ''/'' \<notin> set part"
proof -
  have "part \<in> set (split_by (\<lambda>c. c = CHR ''/'') path) \<and> part \<noteq> []"
    using assms by (cases "split_by (\<lambda>c. c = CHR ''/'') path") (auto simp: path_parts_def split: if_splits)
  then show ?thesis using split_by_no_sep [of part "\<lambda>c. c = CHR ''/''" path "CHR ''/''"] by blast
qed

lemma normalize_step_plain:
  assumes "list_all plain_part acc" and "part \<noteq> [] \<and> CHR ''/'' \<notin> set part"
  shows "list_all plain_part (normalize_step acc part)"
  using assms by (auto simp: normalize_step_def plain_part_def list_all_iff dest: in_set_butlastD)

lemma normal_parts_plain: "list_all plain_part (normal_parts path)"
proof -
  have "list_all plain_part (foldl normalize_step acc parts)"
    if "list_all plain_part acc" "\<forall>part \<in> set parts. part \<noteq> [] \<and> CHR ''/'' \<notin> set part" for acc parts
    using that by (induction parts arbitrary: acc) (simp_all add: normalize_step_plain)
  then show ?thesis unfolding normal_parts_def by (simp add: path_parts_no_separator)
qed

lemma foldl_plain: "list_all plain_part parts \<Longrightarrow> foldl normalize_step acc parts = acc @ parts"
  by (induction parts arbitrary: acc) (auto simp: normalize_step_def plain_part_def)

lemma path_parts_absolute:
  assumes "list_all plain_part parts"
  shows "path_parts (path_of_parts True parts) = parts"
proof (cases "parts = []")
  case True
  then show ?thesis by (simp add: path_of_parts_def path_parts_def)
next
  case False
  have "split_by (\<lambda>c. c = CHR ''/'') (str_join ''/'' parts) = parts"
    using False assms by (intro split_by_join) (auto simp: plain_part_def list_all_iff)
  moreover have "filter (\<lambda>part. part \<noteq> [] \<and> part \<noteq> ''.'') parts = parts"
    using assms by (auto simp: plain_part_def list_all_iff intro: filter_True)
  ultimately show ?thesis by (simp add: path_of_parts_def path_parts_def)
qed

lemma absolute_path_of_parts [simp]: "is_absolute_path (path_of_parts True parts)"
  by (simp add: is_absolute_path_def path_of_parts_def)

lemma normalize_absolute:
  assumes "is_absolute_path path"
  shows "is_absolute_path (lexical_normalize path)" and "path_parts (lexical_normalize path) = normal_parts path"
  using assms by (simp_all add: lexical_normalize_def path_parts_absolute normal_parts_plain)

lemma normalize_idempotent:
  assumes "is_absolute_path path"
  shows "normal_parts (lexical_normalize path) = normal_parts path"
  using normalize_absolute [OF assms] foldl_plain [OF normal_parts_plain, of "[]"] by (simp add: normal_parts_def [of "lexical_normalize path"])

lemma absolute_join: "is_absolute_path base \<Longrightarrow> is_absolute_path (path_join base path)"
  by (auto simp: path_join_def is_absolute_path_def prefix_def)

text \<open>The parts of an owner below an absolute root.\<close>

definition owner_parts :: "string \<Rightarrow> string \<Rightarrow> string list" where
  "owner_parts project_root owner =
     normal_parts (if is_absolute_path owner then owner else path_join project_root owner)"

lemma owner_source_path:
  assumes "is_absolute_path project_root"
  shows "is_absolute_path (search_owner_source_path project_root owner)"
    and "path_parts (search_owner_source_path project_root owner) = owner_parts project_root owner"
    and "normal_parts (search_owner_source_path project_root owner) = owner_parts project_root owner"
  using assms normalize_absolute normalize_idempotent absolute_join
  by (auto simp: search_owner_source_path_def owner_parts_def)

lemma within_normal_root:
  assumes "is_absolute_path project_root"
  shows "path_starts_with (search_owner_source_path project_root owner) (lexical_normalize project_root)
    \<longleftrightarrow> prefix (normal_parts project_root) (owner_parts project_root owner)"
  using assms by (simp add: path_starts_with_def path_components_def owner_source_path normalize_absolute)

lemma same_as_root:
  assumes "is_absolute_path project_root"
  shows "same_existing_path (search_owner_source_path project_root owner) project_root
    \<longleftrightarrow> owner_parts project_root owner = normal_parts project_root"
  using assms by (simp add: same_existing_path_def path_eq_def normalize_absolute owner_source_path)


lemma owner_admitted:
  assumes "is_absolute_path project_root"
  shows "invalid_owner_items_owner_reason host owner project_root = None \<longleftrightarrow>
    (let path = search_owner_source_path project_root owner
     in str_trim owner \<noteq> [] \<and> owner \<noteq> ''.'' \<and> owner \<noteq> ''./'' \<and> wh_exists host path \<and> \<not> wh_is_dir host path
        \<and> strict_prefix (normal_parts project_root) (owner_parts project_root owner)
        \<and> (\<forall>r p. wh_canonicalize host project_root = Some r \<longrightarrow> wh_canonicalize host path = Some p \<longrightarrow>
               path_starts_with p r))"
  unfolding invalid_owner_items_owner_reason_def existing_path_is_within_workspace_def Let_def
    within_normal_root [OF assms] same_as_root [OF assms] strict_prefix_def
  by (auto split: option.splits)

lemma owner_query_shape:
  "is_search_owner_query args \<and> validate_search_owner_query_shape args = Inr owner \<longleftrightarrow>
   (\<exists>rest. args = ''search'' # ''owner'' # owner # ''items'' # rest) \<and> \<not> starts_with owner ''-''"
proof (cases args)
  case (Cons a args')
  then show ?thesis
    by (cases args'; cases "tl args'"; cases "tl (tl args')")
       (auto simp: is_search_owner_query_def validate_search_owner_query_shape_def get_at_def)
qed (simp add: is_search_owner_query_def get_at_def)

definition admitted_language :: "language_admission option \<Rightarrow> string \<Rightarrow> string \<Rightarrow> bool" where
  "admitted_language admission project_root owner \<longleftrightarrow>
     (case admission of
        None \<Rightarrow> True
      | Some facts \<Rightarrow>
          source_extension_is_declared
            (case path_name_extension (search_owner_source_path project_root owner) of Some e \<Rightarrow> e | None \<Rightarrow> ''none'')
            (la_expected_extensions facts))"

text \<open>
  C39: with an absolute root, a command passes the preflight exactly when it is \<open>search owner <owner> items\<close>, was
  validated in time, and the owner is an existing file strictly below the root: lexically, without any \<open>..\<close> left
  to follow, and after the links of both paths are resolved; and its extension is declared by the provider.
\<close>

theorem preflight_admits_workspace_files:
  assumes "is_absolute_path project_root"
  shows "preflight_search_command_args host elapsed language_id args project_root admission = Preflight_Passed \<longleftrightarrow>
    elapsed \<le> preflight_max_elapsed
    \<and> (\<exists>owner rest. args = ''search'' # ''owner'' # owner # ''items'' # rest \<and> \<not> starts_with owner ''-''
         \<and> str_trim owner \<noteq> [] \<and> owner \<noteq> ''.'' \<and> owner \<noteq> ''./''
         \<and> wh_exists host (search_owner_source_path project_root owner)
         \<and> \<not> wh_is_dir host (search_owner_source_path project_root owner)
         \<and> strict_prefix (normal_parts project_root) (path_parts (search_owner_source_path project_root owner))
         \<and> list_all plain_part (path_parts (search_owner_source_path project_root owner))
         \<and> (\<forall>r p. wh_canonicalize host project_root = Some r \<longrightarrow>
                wh_canonicalize host (search_owner_source_path project_root owner) = Some p \<longrightarrow> path_starts_with p r)
         \<and> admitted_language admission project_root owner)"
proof -
  have passed: "preflight_search_command_args host elapsed language_id args project_root admission = Preflight_Passed
    \<longleftrightarrow> elapsed \<le> preflight_max_elapsed
      \<and> (\<exists>owner. (is_search_owner_query args \<and> validate_search_owner_query_shape args = Inr owner)
           \<and> invalid_owner_items_owner_reason host owner project_root = None
           \<and> admitted_language admission project_root owner)"
    by (auto simp: preflight_search_command_args_def preflight_search_command_with_budget_def
        preflight_owner_items_language_admission_def admitted_language_def Let_def
        split: sum.splits option.splits if_splits)
  show ?thesis
    unfolding passed owner_query_shape owner_admitted [OF assms] Let_def owner_source_path(2) [OF assms]
    using normal_parts_plain by (auto simp: owner_parts_def)
qed

definition example_owner_host :: owner_host where
  "example_owner_host =
     \<lparr> wh_exists = (\<lambda>path. path \<in> {''/r/src/a.rs'', ''/etc/hosts''}), wh_is_dir = (\<lambda>_. False),
       wh_canonicalize = (\<lambda>path. Some path) \<rparr>"

theorem preflight_admits_workspace_files_witness:
  "preflight_search_command_args example_owner_host 0 ''rust'' [''search'', ''owner'', ''src/../src/./a.rs'', ''items''] ''/r'' None
     = Preflight_Passed
   \<and> preflight_search_command_args example_owner_host 0 ''rust'' [''search'', ''owner'', ''../etc/hosts'', ''items''] ''/r'' None
     \<noteq> Preflight_Passed"
proof -
  have "is_absolute_path ''/r''" by code_simp
  note exact = preflight_admits_workspace_files [OF this]
  have inside: "search_owner_source_path ''/r'' ''src/../src/./a.rs'' = ''/r/src/a.rs''" by code_simp
  have outside: "search_owner_source_path ''/r'' ''../etc/hosts'' = ''/etc/hosts''" by code_simp
  have parts: "normal_parts ''/r'' = [''r'']" "path_parts ''/r'' = [''r'']" "path_parts ''/r/src/a.rs'' = [''r'', ''src'', ''a.rs'']"
      "path_parts ''/etc/hosts'' = [''etc'', ''hosts'']" by code_simp+
  have trimmed: "str_trim ''src/../src/./a.rs'' \<noteq> []" by code_simp
  show ?thesis
    unfolding exact
    by (auto simp: inside outside parts trimmed example_owner_host_def admitted_language_def plain_part_def
        path_starts_with_def path_components_def is_absolute_path_def)
qed

text \<open>A relative root such as \<open>.\<close> is never a prefix of the normal owner, so every owner is refused.\<close>

lemma relative_root_refuses_owners:
  "invalid_owner_items_owner_reason (example_owner_host\<lparr> wh_exists := (\<lambda>_. True) \<rparr>) ''src/a.rs'' ''.'' = Some Outside_Workspace"
  by code_simp

end
