(* ===== verification/SearchReplay.thy ===== *)
theory SearchReplay
  imports EventState
begin

section \<open>Replay of cached search and query packets\<close>

text \<open>
  Models, of \<open>crates/agent-semantic-search/src\<close>, \<open>search_lexical_replay.rs\<close>, \<open>prompt_output_replay.rs\<close>,
  \<open>query_packet_replay.rs\<close>, \<open>search_packet_replay.rs\<close> and
  \<open>search_subagent_receipt.rs\<close>: when a cached packet answers a request, and what is printed from it.
\<close>

subsection \<open>Members of a packet\<close>

abbreviation packet_field :: "json \<Rightarrow> string \<Rightarrow> string option" where
  "packet_field v key \<equiv> json_get_str key v"

definition bool_field :: "json \<Rightarrow> string \<Rightarrow> bool option" where
  "bool_field v key = Option.bind (json_get key v) as_bool"

definition array_field :: "json \<Rightarrow> string \<Rightarrow> json list option" where
  "array_field v key = Option.bind (json_get key v) as_array"

definition unwrap_or :: "'a option \<Rightarrow> 'a \<Rightarrow> 'a" where
  "unwrap_or v d = (case v of Some x \<Rightarrow> x | None \<Rightarrow> d)"

subsection \<open>Lexical searches\<close>

text \<open>The windows of length two are the pairs of neighbours.\<close>

fun neighbours :: "'a list \<Rightarrow> ('a \<times> 'a) list" where
  "neighbours (x # y # xs) = (x, y) # neighbours (y # xs)"
| "neighbours _ = []"

definition request_search_lexical_query :: "string list \<Rightarrow> string option" where
  "request_search_lexical_query args =
     map_option snd (find (\<lambda>(x, y). x = ''lexical'' \<and> \<not> starts_with y ''-'' \<and> y \<noteq> ''.'') (neighbours args))"

definition search_lexical_packet_matches_request :: "json \<Rightarrow> bool \<Rightarrow> string list \<Rightarrow> bool" where
  "search_lexical_packet_matches_request packet is_search_method args \<longleftrightarrow>
     is_search_method \<and> ''--json'' \<notin> set args \<and> ''--code'' \<notin> set args
     \<and> packet_field packet ''schemaId'' = Some ''agent.semantic-protocols.semantic-search-packet''
     \<and> packet_field packet ''method'' = Some ''search/lexical''
     \<and> packet_field packet ''query'' = request_search_lexical_query args"

subsection \<open>Prompt output\<close>

definition prompt_output_artifact_replay_safe :: "string \<Rightarrow> bool" where
  "prompt_output_artifact_replay_safe stdout \<longleftrightarrow>
     \<not> (starts_with stdout ''[search-prime]'' \<and> \<not> str_contains stdout ''|decision purpose=decision-primer'')
     \<and> \<not> str_contains stdout ''alias: graph:{''
     \<and> \<not> str_contains stdout ''legend: ID=kind:role(value)!next; edge SRC>{DST:rel}; frontier ID.next''"

definition is_prime_seed_search_request :: "bool \<Rightarrow> string list \<Rightarrow> bool" where
  "is_prime_seed_search_request is_search_method args \<longleftrightarrow>
     is_search_method \<and> get_at args 0 = Some ''prime''
     \<and> ((''--view'', ''seeds'') \<in> set (neighbours args) \<or> ''--view=seeds'' \<in> set args)"

definition prime_render_abi :: string where
  "prime_render_abi =
     ''semantic-search-prime;'' @ ''purpose=decision-primer;'' @ ''answer=false;'' @ ''code=false;''
     @ ''capabilities=pipe,lexical,fd-query,rg-query,owner-items,selector-code,treesitter-query;''
     @ ''ladder=pipe>lexical>fd-query|rg-query>owner-items>selector-code;''
     @ ''history=asp-artifacts:directReadRisk,repeatedPrime,repeatedPipe,bestPath;''
     @ ''risk=broad-direct-read,manual-window-scan,repeat-prime;''
     @ ''next=search pipe <question-or-feature-term> --view seeds''"

definition stable_hash_bytes :: "string \<Rightarrow> string" where
  "stable_hash_bytes bytes = hex_digits 16 (unat (fold fnv_step bytes 0xcbf29ce484222325))"

definition prompt_output_render_abi_provenance :: "string \<Rightarrow> string" where
  "prompt_output_render_abi_provenance export_method =
     (if export_method = ''search/prime'' \<or> export_method = ''search/package''
      then ''prompt-output-render-abi:fnv64:'' @ stable_hash_bytes prime_render_abi
      else ''prompt-output-render-abi:none'')"

record fingerprint_request =
  fp_language_id :: string
  fp_provider_id :: string
  fp_project_root :: string
  fp_export_method :: string
  fp_forwarded_args :: "string list"

definition nul :: string where
  "nul = [CHR 0x00]"

definition fingerprint_seed :: "fingerprint_request \<Rightarrow> string" where
  "fingerprint_seed r =
     fp_language_id r @ nul @ fp_provider_id r @ nul @ fp_project_root r @ nul @ fp_export_method r @ nul
     @ str_join nul (fp_forwarded_args r) @ nul @ ''syntax-query-ast-abi:none'' @ nul
     @ prompt_output_render_abi_provenance (fp_export_method r)"

definition prompt_output_request_fingerprint :: "fingerprint_request \<Rightarrow> string" where
  "prompt_output_request_fingerprint r = ''fnv64:'' @ stable_hash_bytes (fingerprint_seed r)"

subsection \<open>Owner-item queries\<close>

definition request_owner_path :: "string list \<Rightarrow> string option" where
  "request_owner_path args = find (\<lambda>arg. \<not> starts_with arg ''-'' \<and> arg \<noteq> ''.'') args"

definition request_query_value :: "string list \<Rightarrow> string option" where
  "request_query_value args = map_option snd (find (\<lambda>(x, y). x = ''--query'' \<or> x = ''--term'') (neighbours args))"

definition query_packet_matches_request :: "json \<Rightarrow> bool \<Rightarrow> string list \<Rightarrow> bool" where
  "query_packet_matches_request packet is_query_method args \<longleftrightarrow>
     is_query_method \<and> ''--code'' \<notin> set args
     \<and> packet_field packet ''schemaId'' = Some ''agent.semantic-protocols.semantic-query-packet''
     \<and> packet_field packet ''method'' = Some ''query/owner-items''
     \<and> packet_field packet ''ownerPath'' = request_owner_path args
     \<and> packet_field packet ''query'' = request_query_value args"

definition query_status :: "json \<Rightarrow> json list \<Rightarrow> string" where
  "query_status packet matches =
     unwrap_or (Option.bind (array_field packet ''queryCoverage'') (\<lambda>coverage.
         Option.bind (get_at coverage 0) (\<lambda>entry. packet_field entry ''status'')))
       (if matches = [] then ''miss'' else ''hit'')"

definition query_next_action :: "string \<Rightarrow> string \<Rightarrow> string" where
  "query_next_action output_mode status =
     (if status = ''miss'' then ''revise-query'' else if output_mode = ''code'' then ''code'' else ''select-item'')"

definition match_read_locator :: "json \<Rightarrow> string option" where
  "match_read_locator item =
     (case packet_field item ''read'' of
        Some read \<Rightarrow> Some read
      | None \<Rightarrow>
          Option.bind (json_get ''location'' item) (\<lambda>location.
          Option.bind (packet_field location ''path'') (\<lambda>path.
          map_option (\<lambda>line_range. path @ '':'' @ line_range) (packet_field location ''lineRange''))))"

text \<open>
  The lines of the items; one item without a name, a kind or a place to read makes the whole rendering fail.  The
  code lines of the loop cannot be reached, because a packet in the mode \<open>code\<close> was refused before.
\<close>

fun query_item_lines :: "json list \<Rightarrow> string option" where
  "query_item_lines [] = Some []"
| "query_item_lines (item # items) =
     Option.bind (packet_field item ''name'') (\<lambda>name.
     Option.bind (packet_field item ''kind'') (\<lambda>kind.
     Option.bind (match_read_locator item) (\<lambda>read.
     map_option (\<lambda>rest. ''|item '' @ name @ '' kind='' @ kind @ '' next=symbol:'' @ name @ '' read='' @ read @ newline @ rest)
       (query_item_lines items))))"

definition render_query_packet_stdout :: "json \<Rightarrow> string option" where
  "render_query_packet_stdout packet =
     (if packet_field packet ''schemaId'' \<noteq> Some ''agent.semantic-protocols.semantic-query-packet''
        \<or> packet_field packet ''method'' \<noteq> Some ''query/owner-items'' then None
      else Option.bind (packet_field packet ''query'') (\<lambda>query.
        let owner_path = unwrap_or (packet_field packet ''ownerPath'') ''.'';
            package = unwrap_or (packet_field packet ''packageName'') ''.'';
            output_mode = unwrap_or (packet_field packet ''outputMode'') ''code'';
            match_mode = unwrap_or (packet_field packet ''matchMode'') ''unknown''
        in if output_mode = ''code'' then None
           else Option.bind (array_field packet ''matches'') (\<lambda>matches.
             let status = query_status packet matches;
                 count = show_nat (length matches)
             in map_option (\<lambda>items.
                  ''[search-owner] q='' @ owner_path @ '' pkg='' @ package @ '' own=1 item='' @ count @ '' itemQuery='' @ query @ newline
                  @ ''|owner '' @ owner_path @ '' role=source source=parser-visible-module'' @ newline
                  @ ''|query itemQuery='' @ query @ '' status='' @ status @ '' match='' @ match_mode @ '' item='' @ count
                  @ '' reason=cache-query-packet output='' @ output_mode @ '' next='' @ query_next_action output_mode status @ newline
                  @ items)
                (query_item_lines matches))))"
subsection \<open>Delegation hints of a search packet\<close>

definition safe_token_char :: "char \<Rightarrow> bool" where
  "safe_token_char c \<longleftrightarrow> is_ascii_alphanumeric c \<or> c = CHR ''_'' \<or> c = CHR ''-''"

definition safe_token :: "string \<Rightarrow> string option" where
  "safe_token v = then_some (list_all safe_token_char v) v"

definition safe_action_token :: "string \<Rightarrow> string option" where
  "safe_action_token v = then_some (list_all (\<lambda>c. safe_token_char c \<or> c = CHR ''.'') v) v"

fun collect_options :: "'a option list \<Rightarrow> 'a list option" where
  "collect_options [] = Some []"
| "collect_options (x # xs) = Option.bind x (\<lambda>v. map_option (\<lambda>vs. v # vs) (collect_options xs))"

definition safe_string_array :: "json \<Rightarrow> (string \<Rightarrow> string option) \<Rightarrow> string list option" where
  "safe_string_array v token_filter =
     Option.bind (as_array v) (\<lambda>elements.
     Option.bind (collect_options (map (\<lambda>e. Option.bind (as_str e) token_filter) elements)) (\<lambda>tokens.
       then_some (tokens \<noteq> []) tokens))"

definition literal_or_default :: "json \<Rightarrow> string \<Rightarrow> string \<Rightarrow> string list \<Rightarrow> string option" where
  "literal_or_default v field default_value allowed =
     (case json_get field v of
        None \<Rightarrow> Some default_value
      | Some (JString s) \<Rightarrow> if s \<in> set allowed then Some s else None
      | Some _ \<Rightarrow> None)"

definition bool_or_default :: "json \<Rightarrow> string \<Rightarrow> bool \<Rightarrow> bool option" where
  "bool_or_default v field default_value =
     (case json_get field v of None \<Rightarrow> Some default_value | Some b \<Rightarrow> as_bool b)"

definition positive_u64_or_default :: "json \<Rightarrow> string \<Rightarrow> nat \<Rightarrow> nat option" where
  "positive_u64_or_default v field default_value =
     (case json_get field v of
        None \<Rightarrow> Some default_value
      | Some n \<Rightarrow> Option.bind (as_u64 n) (\<lambda>k. then_some (0 < k) k))"

definition model_class_or_default :: "json \<Rightarrow> string option" where
  "model_class_or_default v =
     (case json_get ''modelClass'' v of
        None \<Rightarrow> Some ''cheap''
      | Some (JString s) \<Rightarrow>
          if s \<in> set [''cheap'', ''standard'', ''strong'', ''inherit'', ''custom''] then Some s else None
      | Some _ \<Rightarrow> None)"

definition show_bool :: "bool \<Rightarrow> string" where
  "show_bool b = (if b then ''true'' else ''false'')"

text \<open>The order of the guards is that of the source; each failing one makes the hint disappear.\<close>

definition delegation_hint_line :: "json \<Rightarrow> string option" where
  "delegation_hint_line hint =
     (if packet_field hint ''decision'' \<noteq> Some ''advisory'' \<or> packet_field hint ''runtimeOwner'' \<noteq> Some ''agent-client''
        \<or> bool_field hint ''readOnly'' \<noteq> Some True \<or> bool_field hint ''noCode'' \<noteq> Some True then None
      else
        Option.bind (json_get ''receipt'' hint) (\<lambda>receipt.
        if packet_field receipt ''kind'' \<noteq> Some ''asp-search-subagent'' then None
        else
        Option.bind (Option.bind (packet_field hint ''profile'') safe_token) (\<lambda>profile.
        Option.bind (literal_or_default hint ''mode'' ''resident'' [''resident'']) (\<lambda>_.
        Option.bind (literal_or_default hint ''instances'' ''single'' [''single'', ''targetActions'']) (\<lambda>_.
        Option.bind (literal_or_default hint ''reuse'' ''send_input'' [''send_input'']) (\<lambda>_.
        Option.bind (literal_or_default hint ''spawn'' ''if-missing'' [''if-missing'']) (\<lambda>_.
        Option.bind (bool_or_default hint ''forkContext'' False) (\<lambda>fork.
        if fork then None
        else
        Option.bind (literal_or_default hint ''branchPrompt'' ''reasoning-tree'' [''reasoning-tree'']) (\<lambda>branch_prompt.
        Option.bind (literal_or_default hint ''stateOwner'' ''parent'' [''parent'']) (\<lambda>state_owner.
        Option.bind (literal_or_default hint ''fanin'' ''receipt'' [''receipt'']) (\<lambda>fanin.
        Option.bind (bool_or_default hint ''iterative'' True) (\<lambda>iterative.
        Option.bind (model_class_or_default hint) (\<lambda>model_class.
        Option.bind (Option.bind (json_get ''targetActions'' hint) (\<lambda>v. safe_string_array v safe_action_token)) (\<lambda>target_actions.
        Option.bind (Option.bind (json_get ''requiredFields'' receipt) (\<lambda>v. safe_string_array v safe_token)) (\<lambda>required_fields.
        Option.bind (positive_u64_or_default hint ''maxCommands'' 8) (\<lambda>max_commands.
        Option.bind (positive_u64_or_default hint ''maxTurns'' 1) (\<lambda>max_turns.
        map_option (\<lambda>reason.
          ''subagentHint=profile='' @ profile
          @ '' mode=resident instances=single reuse=send_input spawn=if-missing forkContext=false branchPrompt='' @ branch_prompt
          @ '' stateOwner='' @ state_owner @ '' fanin='' @ fanin @ '' iterative='' @ show_bool iterative
          @ '' decision=advisory runtimeOwner=agent-client modelClass='' @ model_class
          @ '' readOnly=true noCode=true targetActions='' @ str_join '','' target_actions
          @ '' maxCommands='' @ show_nat max_commands @ '' maxTurns='' @ show_nat max_turns
          @ '' receipt=asp-search-subagent('' @ str_join '','' required_fields @ '') reason='' @ reason)
        (Option.bind (packet_field hint ''reason'') safe_token))))))))))))))))))"

definition delegation_hint_lines :: "json_parser \<Rightarrow> string \<Rightarrow> string list" where
  "delegation_hint_lines parse packet_bytes =
     (case parse packet_bytes of
        None \<Rightarrow> []
      | Some packet \<Rightarrow>
          (case array_field packet ''delegationHints'' of
             None \<Rightarrow> [] | Some hints \<Rightarrow> List.map_filter delegation_hint_line hints))"

definition hint_prefix :: string where
  "hint_prefix = ''subagentHint=''"

text \<open>The first hint line is replaced by the lines of the packet, the other ones are dropped.\<close>

fun replace_hints :: "string list \<Rightarrow> bool \<Rightarrow> string list \<Rightarrow> string list" where
  "replace_hints new replaced [] = (if replaced then [] else new)"
| "replace_hints new replaced (line # existing) =
     (if starts_with line hint_prefix
      then (if replaced then [] else new) @ replace_hints new True existing
      else line # replace_hints new replaced existing)"

definition output_with_hint_lines :: "string list \<Rightarrow> string \<Rightarrow> string" where
  "output_with_hint_lines new output =
     (if new = [] then output
      else if str_contains output hint_prefix
      then (if \<not> utf8_valid output then output
            else str_join newline (replace_hints new False (str_lines output))
                 @ (if ends_with output newline then newline else []))
      else output @ (if ends_with output newline then [] else newline) @ concat (map (\<lambda>line. line @ newline) new))"

definition output_with_delegation_hint_lines :: "json_parser \<Rightarrow> string \<Rightarrow> string \<Rightarrow> string" where
  "output_with_delegation_hint_lines parse output packet_bytes =
     output_with_hint_lines (delegation_hint_lines parse packet_bytes) output"

subsection \<open>Output that may be replayed\<close>

definition deps_search_output_replay_safe :: "string \<Rightarrow> bool" where
  "deps_search_output_replay_safe stdout \<longleftrightarrow>
     CHR 0x00 \<notin> set stdout
     \<and> list_all (\<lambda>line. line = [] \<or> list_ex (starts_with line)
          [''|dep '', ''|dependency '', ''|hit '', ''|owner '', ''|note '', ''|next '']) (drop 1 (str_lines stdout))"

definition search_output_artifact_replay_safe :: "string \<Rightarrow> bool" where
  "search_output_artifact_replay_safe stdout \<longleftrightarrow>
     utf8_valid stdout
     \<and> (case str_lines stdout of
          [] \<Rightarrow> False
        | header # _ \<Rightarrow>
            (if starts_with header ''[search-deps]'' then deps_search_output_replay_safe stdout
             else
               (let primed = str_contains stdout ''|decision purpose=decision-primer'';
                    prime = starts_with header ''[search-prime]'';
                    has_frontier_header = (str_contains header ''[graph-frontier]''
                      \<or> str_contains header ''alg=seed-frontier'' \<or> (prime \<and> primed));
                    has_alias_graph = (str_contains stdout ''aliases='' \<or> str_contains stdout ''aliases:'')
                in \<not> (prime \<and> \<not> primed) \<and> has_frontier_header \<and> has_alias_graph
                   \<and> str_contains stdout ''legend: ID=kind:role(value)!next;'' \<and> str_contains stdout ''frontier ID.next''
                   \<and> CHR 0x00 \<notin> set stdout)))"

subsection \<open>Receipts of search subagents\<close>

definition receipt_schema :: string where
  "receipt_schema = ''asp.search.subagent.graph-route.v1''"

definition search_subagent_graph_route_receipt :: "string \<Rightarrow> string \<Rightarrow> string \<Rightarrow> json list \<Rightarrow> json \<Rightarrow> json" where
  "search_subagent_graph_route_receipt intent route state evidence next_step =
     JObject [(''schema'', JString receipt_schema), (''intent'', JString intent), (''route'', JString route),
              (''state'', JString state), (''evidence'', JArray evidence), (''next'', next_step)]"

definition forbidden_receipt_key :: "string \<Rightarrow> bool" where
  "forbidden_receipt_key key \<longleftrightarrow>
     key \<in> set [''body'', ''code'', ''commandLog'', ''confidence'', ''displayLineRange'', ''endLine'', ''explanation'',
                ''lineRange'', ''snippet'', ''sourceBody'', ''sourceLocatorHint'', ''startLine'']"

fun contains_forbidden_receipt_shape :: "json \<Rightarrow> bool" where
  "contains_forbidden_receipt_shape (JObject members) \<longleftrightarrow>
     list_ex (\<lambda>m. forbidden_receipt_key (fst m) \<or> contains_forbidden_receipt_shape (snd m)) members"
| "contains_forbidden_receipt_shape (JArray elements) \<longleftrightarrow> list_ex contains_forbidden_receipt_shape elements"
| "contains_forbidden_receipt_shape (JString s) \<longleftrightarrow> CHR 0x0A \<in> set s \<or> 512 < length s"
| "contains_forbidden_receipt_shape _ \<longleftrightarrow> False"

definition search_subagent_graph_route_receipt_is_compact :: "json \<Rightarrow> bool" where
  "search_subagent_graph_route_receipt_is_compact receipt \<longleftrightarrow>
     packet_field receipt ''schema'' = Some receipt_schema
     \<and> packet_field receipt ''intent'' \<noteq> None \<and> packet_field receipt ''route'' \<noteq> None
     \<and> packet_field receipt ''state'' \<noteq> None
     \<and> (case array_field receipt ''evidence'' of Some evidence \<Rightarrow> evidence \<noteq> [] | None \<Rightarrow> False)
     \<and> Option.bind (json_get ''next'' receipt) as_object \<noteq> None
     \<and> \<not> contains_forbidden_receipt_shape receipt"
subsection \<open>A hint is one line\<close>

definition plain_line :: "string \<Rightarrow> bool" where
  "plain_line s \<longleftrightarrow> CHR 0x0A \<notin> set s \<and> CHR 0x0D \<notin> set s"

lemma plain_line_append [simp]: "plain_line (s @ t) \<longleftrightarrow> plain_line s \<and> plain_line t"
  by (auto simp: plain_line_def)

lemma plain_line_Cons [simp]: "plain_line (c # s) \<longleftrightarrow> c \<noteq> CHR 0x0A \<and> c \<noteq> CHR 0x0D \<and> plain_line s"
  by (auto simp: plain_line_def)

lemma plain_line_Nil [simp]: "plain_line []"
  by (simp add: plain_line_def)

lemma safe_char_plain: "safe_token_char c \<Longrightarrow> c \<noteq> CHR 0x0A \<and> c \<noteq> CHR 0x0D"
  by (cases c) (auto simp: safe_token_char_def is_ascii_alphanumeric_def is_ascii_alphabetic_def
      is_ascii_lowercase_def is_ascii_uppercase_def is_ascii_digit_def)

lemma safe_token_plain: "safe_token v = Some t \<Longrightarrow> plain_line t"
  by (auto simp: safe_token_def then_some_def plain_line_def list_all_iff dest: safe_char_plain split: if_splits)

lemma safe_action_token_plain: "safe_action_token v = Some t \<Longrightarrow> plain_line t"
  by (auto simp: safe_action_token_def then_some_def plain_line_def list_all_iff dest: safe_char_plain split: if_splits)

lemma collect_options_all: "collect_options xs = Some vs \<Longrightarrow> v \<in> set vs \<Longrightarrow> Some v \<in> set xs"
  by (induction xs arbitrary: vs) (auto simp: bind_eq_Some_conv)

lemma plain_line_join: "\<forall>t \<in> set ts. plain_line t \<Longrightarrow> plain_line (str_join '','' ts)"
  by (induction "'',''" ts rule: str_join.induct) auto

lemma safe_string_array_plain:
  assumes "safe_string_array v f = Some ts" and "\<And>s t. f s = Some t \<Longrightarrow> plain_line t"
  shows "plain_line (str_join '','' ts)"
proof (rule plain_line_join, rule ballI)
  fix t assume t: "t \<in> set ts"
  obtain elements tokens where found: "collect_options (map (\<lambda>e. Option.bind (as_str e) f) elements) = Some tokens"
      and nonempty: "(if tokens \<noteq> [] then Some tokens else None) = Some ts"
    using assms(1) unfolding safe_string_array_def then_some_def by (simp only: bind_eq_Some_conv) blast
  have same: "tokens = ts" using nonempty by (cases "tokens = []") auto
  have es: "collect_options (map (\<lambda>e. Option.bind (as_str e) f) elements) = Some ts"
    by (rule found [unfolded same])
  have "Some t \<in> set (map (\<lambda>e. Option.bind (as_str e) f) elements)"
    by (rule collect_options_all [OF es t])
  then obtain e where "Some t = Option.bind (as_str e) f" unfolding set_map by (rule imageE)
  then have "Option.bind (as_str e) f = Some t" by (rule sym)
  then obtain v where "f v = Some t" unfolding bind_eq_Some_conv by blast
  then show "plain_line t" by (rule assms(2))
qed

lemma literal_or_default_in: "literal_or_default v f d allowed = Some s \<Longrightarrow> s = d \<or> s \<in> set allowed"
  by (auto simp: literal_or_default_def split: option.splits json.splits if_splits)

lemma model_class_plain: "model_class_or_default v = Some s \<Longrightarrow> plain_line s"
  by (auto simp: model_class_or_default_def split: option.splits json.splits if_splits)

lemma show_nat_plain: "plain_line (show_nat n)"
  unfolding plain_line_def by (simp add: show_nat_excludes is_ascii_digit_def)

lemma guarded_eq_Some: "(if P then None else x) = Some y \<longleftrightarrow> \<not> P \<and> x = Some y"
  by simp

lemma hint_line_is_plain:
  assumes "delegation_hint_line hint = Some line"
  shows "plain_line line \<and> starts_with line hint_prefix"
proof -
  obtain profile branch owner fanin iterative model actions fields commands turns reason where
    line: "line = ''subagentHint=profile='' @ profile
          @ '' mode=resident instances=single reuse=send_input spawn=if-missing forkContext=false branchPrompt='' @ branch
          @ '' stateOwner='' @ owner @ '' fanin='' @ fanin @ '' iterative='' @ show_bool iterative
          @ '' decision=advisory runtimeOwner=agent-client modelClass='' @ model
          @ '' readOnly=true noCode=true targetActions='' @ str_join '','' actions
          @ '' maxCommands='' @ show_nat commands @ '' maxTurns='' @ show_nat turns
          @ '' receipt=asp-search-subagent('' @ str_join '','' fields @ '') reason='' @ reason"
    and tokens: "\<exists>v. safe_token v = Some profile" "\<exists>v. safe_token v = Some reason"
      "\<exists>v. safe_string_array v safe_action_token = Some actions" "\<exists>v. safe_string_array v safe_token = Some fields"
      "literal_or_default hint ''branchPrompt'' ''reasoning-tree'' [''reasoning-tree''] = Some branch"
      "literal_or_default hint ''stateOwner'' ''parent'' [''parent''] = Some owner"
      "literal_or_default hint ''fanin'' ''receipt'' [''receipt''] = Some fanin"
      "model_class_or_default hint = Some model"
    using assms unfolding delegation_hint_line_def
    by (simp only: bind_eq_Some_conv map_option_eq_Some guarded_eq_Some) (elim exE conjE, blast)
  have "plain_line profile" "plain_line reason" "plain_line (str_join '','' actions)" "plain_line (str_join '','' fields)"
    using tokens(1-4) safe_token_plain safe_action_token_plain safe_string_array_plain by blast+
  moreover have "plain_line branch" "plain_line owner" "plain_line fanin"
    using tokens(5-7) by (auto dest!: literal_or_default_in)
  moreover have "plain_line model" by (rule model_class_plain [OF tokens(8)])
  moreover have "plain_line (show_bool iterative)" by (simp add: show_bool_def)
  ultimately show ?thesis
    unfolding line by (simp add: show_nat_plain hint_prefix_def)
qed

lemma hint_lines_are_plain:
  "line \<in> set (delegation_hint_lines parse packet) \<Longrightarrow> plain_line line \<and> starts_with line hint_prefix"
  using hint_line_is_plain
  by (auto simp: delegation_hint_lines_def map_filter_def split: option.splits)
subsection \<open>Inserting the hints twice changes nothing\<close>

lemma newline_char: "newline = [CHR 0x0A]"
  by (simp add: newline_def)

lemma finish_lines_plain:
  assumes "\<forall>l \<in> set ls. CHR 0x0D \<notin> set l"
  shows "finish_lines ls = (if ls \<noteq> [] \<and> last ls = [] then butlast ls else ls)"
  using assms
proof (induction ls rule: finish_lines.induct)
  case (3 l m ls)
  have "strip_suffix [CHR 0x0D] l = None"
    using "3.prems" by (auto simp: strip_suffix_def suffix_def)
  then show ?case using 3 by auto
qed auto

lemma str_lines_joined:
  assumes "ls \<noteq> []" and "\<forall>l \<in> set ls. plain_line l"
  shows "str_lines (str_join newline ls) = (if last ls = [] then butlast ls else ls)"
proof -
  have "split_by (\<lambda>c. c = CHR 0x0A) (str_join newline ls) = ls"
    unfolding newline_char using assms by (intro split_by_join) (auto simp: plain_line_def)
  then show ?thesis using assms finish_lines_plain [of ls] by (simp add: str_lines_def plain_line_def)
qed

lemma str_join_snoc: "ls \<noteq> [] \<Longrightarrow> str_join sep (ls @ [l]) = str_join sep ls @ sep @ l"
  by (induction sep ls rule: str_join.induct) auto

lemma str_lines_ended:
  assumes "ls \<noteq> []" and "\<forall>l \<in> set ls. plain_line l"
  shows "str_lines (str_join newline ls @ newline) = ls"
  using str_lines_joined [of "ls @ [[]]"] str_join_snoc [of ls newline "[]"] assms by simp

lemma split_by_subset: "l \<in> set (split_by P s) \<Longrightarrow> set l \<subseteq> set s"
proof (induction s arbitrary: l)
  case (Cons c s)
  obtain piece pieces where ps: "split_by P s = piece # pieces" by (cases "split_by P s") auto
  have "set piece \<subseteq> set s" "\<And>q. q \<in> set pieces \<Longrightarrow> set q \<subseteq> set s" using Cons.IH ps by auto
  then show ?case using Cons.prems ps by (cases "P c") fastforce+
qed simp

text \<open>A text without carriage returns is its lines.\<close>

lemma text_of_lines:
  assumes "CHR 0x0D \<notin> set s"
  shows "str_join newline (str_lines s) @ (if ends_with s newline then newline else []) = s"
    and "\<forall>l \<in> set (str_lines s). plain_line l"
proof -
  define ls where "ls = split_by (\<lambda>c. c = CHR 0x0A) s"
  have join: "str_join newline ls = s" unfolding ls_def newline_char by (rule join_split_by)
  have ne: "ls \<noteq> []" by (simp add: ls_def)
  have no_lf: "CHR 0x0A \<notin> set l" if "l \<in> set ls" for l
    using split_by_no_sep [of l "\<lambda>c. c = CHR 0x0A" s "CHR 0x0A"] that by (auto simp: ls_def)
  have no_cr: "CHR 0x0D \<notin> set l" if "l \<in> set ls" for l
    using that assms split_by_subset [of l] by (auto simp: ls_def)
  have plain: "\<forall>l \<in> set ls. plain_line l" using no_lf no_cr by (simp add: plain_line_def)
  then have lines: "str_lines s = (if last ls = [] then butlast ls else ls)"
    using str_lines_joined [OF ne plain] join by simp
  show "\<forall>l \<in> set (str_lines s). plain_line l" using plain lines by (auto dest: in_set_butlastD)
  show "str_join newline (str_lines s) @ (if ends_with s newline then newline else []) = s"
  proof (cases "last ls = []")
    case True
    show ?thesis
    proof (cases "butlast ls = []")
      case True
      then have "ls = [[]]" using \<open>last ls = []\<close> ne by (metis append_butlast_last_id append_Nil)
      then show ?thesis using lines join by (simp add: newline_char)
    next
      case False
      have "ls = butlast ls @ [[]]" using True ne by (metis append_butlast_last_id)
      then have "s = str_join newline (butlast ls) @ newline"
        using join str_join_snoc [OF False, of newline "[]"] by simp
      moreover from this have "ends_with s newline" by (simp add: suffix_def)
      ultimately show ?thesis using lines True by simp
    qed
  next
    case False
    have "\<not> ends_with s newline"
    proof
      assume "ends_with s newline"
      then obtain t where t: "s = t @ [CHR 0x0A]" by (auto simp: suffix_def newline_char)
      have "last (split_by (\<lambda>c. c = CHR 0x0A) (t @ [CHR 0x0A])) = []
          \<and> 1 < length (split_by (\<lambda>c. c = CHR 0x0A) (t @ [CHR 0x0A]))"
        by (induction t) (auto split: list.splits)
      then show False using False t by (simp add: ls_def)
    qed
    then show ?thesis using lines False join by simp
  qed
qed
lemma sublist_str_join: "sublist l (str_join sep (xs @ l # ys))"
proof (induction xs)
  case Nil
  then show ?case by (cases ys) auto
next
  case (Cons x xs)
  obtain y zs where "xs @ l # ys = y # zs" by (cases "xs @ l # ys") auto
  then have "str_join sep ((x # xs) @ l # ys) = (x @ sep) @ str_join sep (xs @ l # ys)" by simp
  then show ?case using Cons by (metis sublist_append_leftI sublist_order.order.trans)
qed

lemma no_cr_join: "\<forall>l \<in> set ls. CHR 0x0D \<notin> set l \<Longrightarrow> CHR 0x0D \<notin> set (str_join newline ls)"
  by (induction newline ls rule: str_join.induct) (auto simp: newline_char)

abbreviation is_hint :: "string \<Rightarrow> bool" where
  "is_hint line \<equiv> starts_with line hint_prefix"

lemma replace_hints_shape:
  assumes "\<forall>l \<in> set new. is_hint l"
  shows "\<exists>before after. replace_hints new replaced ls = before @ (if replaced then [] else new) @ after
     \<and> (\<forall>l \<in> set before \<union> set after. \<not> is_hint l \<and> l \<in> set ls)"
proof (induction ls arbitrary: replaced)
  case Nil
  show ?case by (intro exI [of _ "[]"]) simp
next
  case (Cons l ls)
  show ?case
  proof (cases "is_hint l")
    case True
    obtain before after where "replace_hints new True ls = before @ after"
        "\<forall>l \<in> set before \<union> set after. \<not> is_hint l \<and> l \<in> set ls"
      using Cons.IH [of True] by auto
    then show ?thesis using True by (intro exI [of _ "[]"] exI [of _ "before @ after"]) auto
  next
    case False
    obtain before after where "replace_hints new replaced ls = before @ (if replaced then [] else new) @ after"
        "\<forall>l \<in> set before \<union> set after. \<not> is_hint l \<and> l \<in> set ls"
      using Cons.IH [of replaced] by blast
    then show ?thesis using False by (intro exI [of _ "l # before"] exI [of _ after]) auto
  qed
qed

lemma replace_hints_others:
  "\<forall>l \<in> set ls. \<not> is_hint l \<Longrightarrow> replace_hints new replaced (ls @ rest) = ls @ replace_hints new replaced rest"
  by (induction ls) auto

lemma replace_hints_replaced:
  "\<forall>l \<in> set ls. is_hint l \<Longrightarrow> replace_hints new True (ls @ rest) = replace_hints new True rest"
  by (induction ls) auto

lemma replace_hints_fixed:
  assumes "new \<noteq> []" and "\<forall>l \<in> set new. is_hint l" and "\<forall>l \<in> set before \<union> set after. \<not> is_hint l"
  shows "replace_hints new False (before @ new @ after) = before @ new @ after"
proof -
  obtain l ls where new: "new = l # ls" using assms(1) by (cases new) auto
  have "replace_hints new True after = after"
    using replace_hints_others [of after new True "[]"] assms(3) by simp
  then have "replace_hints new True (ls @ after) = after"
    using replace_hints_replaced [of ls new after] assms(2) new by simp
  then show ?thesis using replace_hints_others [of before new False "new @ after"] assms(2,3) new by simp
qed

lemma filter_hints:
  assumes "\<forall>l \<in> set new. is_hint l" and "\<forall>l \<in> set before \<union> set after. \<not> is_hint l"
  shows "filter is_hint (before @ new @ after) = new"
  using assms by (simp add: filter_empty_conv filter_id_conv)

text \<open>
  A text whose lines hold exactly the new hints, as one block, is a fixed point, and has these hints.
\<close>

lemma hints_inserted_fixed:
  assumes new: "new \<noteq> []" "\<forall>l \<in> set new. plain_line l \<and> is_hint l"
    and lines: "\<forall>l \<in> set before \<union> set after. \<not> is_hint l \<and> plain_line l"
    and s: "s = str_join newline (before @ new @ after) @ (if ended then newline else [])"
  shows "output_with_hint_lines new s = s \<and> filter is_hint (str_lines s) = new"
proof -
  have hints: "\<forall>l \<in> set new. is_hint l" and others: "\<forall>l \<in> set before \<union> set after. \<not> is_hint l"
    using new lines by auto
  have plain: "\<forall>l \<in> set (before @ new @ after). plain_line l" using new lines by auto
  have hint_ne: "\<not> is_hint []" by (simp add: hint_prefix_def)
  have last_new: "last new \<noteq> []" using new hint_ne last_in_set by metis
  obtain after' where shown: "str_lines s = before @ new @ after'" and after': "set after' \<subseteq> set after"
  proof (cases "ended \<or> last (before @ new @ after) \<noteq> []")
    case True
    then have "str_lines s = before @ new @ after"
      using str_lines_ended [OF _ plain] str_lines_joined [OF _ plain] new(1) s by auto
    then show ?thesis using that by blast
  next
    case False
    then have "after \<noteq> []" using last_new new(1) by (auto simp: last_append split: if_splits)
    then have "str_lines s = before @ new @ butlast after"
      using str_lines_joined [OF _ plain] False s by (simp add: butlast_append)
    then show ?thesis using that in_set_butlastD by (metis subsetI)
  qed
  have others': "\<forall>l \<in> set before \<union> set after'. \<not> is_hint l" using others after' by auto
  have contains: "str_contains s hint_prefix"
  proof -
    obtain l where l: "l \<in> set new" using new(1) by (cases new) auto
    then obtain xs ys where "before @ new @ after = xs @ l # ys" by (metis in_set_conv_decomp Un_iff set_append)
    then have "sublist l (str_join newline (before @ new @ after))"
      by (auto intro: sublist_str_join)
    moreover have "sublist hint_prefix l" using l hints by (simp add: prefix_imp_sublist)
    ultimately show ?thesis unfolding s by (meson sublist_order.order.trans sublist_appendI sublist_append_rightI)
  qed
  have no_cr: "CHR 0x0D \<notin> set s"
  proof -
    have "CHR 0x0D \<notin> set (str_join newline (before @ new @ after))"
      using plain by (intro no_cr_join) (auto simp: plain_line_def)
    then show ?thesis by (simp add: s newline_char)
  qed
  have "output_with_hint_lines new s = s"
    using contains new(1) text_of_lines(1) [OF no_cr] replace_hints_fixed [OF new(1) hints others']
    by (simp add: output_with_hint_lines_def shown)
  then show ?thesis using filter_hints [OF hints others'] by (simp add: shown)
qed
lemma hints_appended:
  assumes "new \<noteq> []" and "\<not> str_contains s hint_prefix"
  shows "output_with_hint_lines new s
    = (if s = [] then newline else if ends_with s newline then s else s @ newline) @ str_join newline new @ newline"
proof -
  have "concat (map (\<lambda>line. line @ newline) ls) = str_join newline ls @ newline" if "ls \<noteq> []" for ls
    using that by (induction newline ls rule: str_join.induct) auto
  then show ?thesis using assms by (auto simp: output_with_hint_lines_def newline_char suffix_def)
qed

lemma str_join_append:
  "xs \<noteq> [] \<Longrightarrow> ys \<noteq> [] \<Longrightarrow> str_join sep (xs @ ys) = str_join sep xs @ sep @ str_join sep ys"
proof (induction xs)
  case (Cons x xs)
  then show ?case by (cases xs; cases ys) auto
qed simp

lemma line_within: "l \<in> set (str_lines s) \<Longrightarrow> CHR 0x0D \<notin> set s \<Longrightarrow> sublist l s"
proof -
  assume l: "l \<in> set (str_lines s)" and cr: "CHR 0x0D \<notin> set s"
  obtain xs ys where "str_lines s = xs @ l # ys" using l by (metis in_set_conv_decomp)
  then have "sublist l (str_join newline (str_lines s))" by (simp add: sublist_str_join)
  then show "sublist l s" using text_of_lines(1) [OF cr] by (metis sublist_order.order.trans sublist_appendI append_Nil)
qed
lemma str_lines_ne: "s \<noteq> [] \<Longrightarrow> CHR 0x0D \<notin> set s \<Longrightarrow> str_lines s \<noteq> []"
  using text_of_lines(1) [of s] by (cases "ends_with s newline")
    (auto simp: str_lines_def newline_char split: list.splits)

lemma no_hint_line:
  assumes "\<not> str_contains s hint_prefix" and "CHR 0x0D \<notin> set s" and "l \<in> set (str_lines s)"
  shows "\<not> is_hint l"
  using assms line_within [OF assms(3,2)] by (meson prefix_imp_sublist sublist_order.order.trans)

lemma hint_insertion_normal:
  assumes new: "new \<noteq> []" "\<forall>l \<in> set new. plain_line l \<and> is_hint l"
    and cr: "CHR 0x0D \<notin> set s" and valid: "utf8_valid s \<or> \<not> str_contains s hint_prefix"
  shows "\<exists>before after ended. output_with_hint_lines new s
      = str_join newline (before @ new @ after) @ (if ended then newline else [])
    \<and> (\<forall>l \<in> set before \<union> set after. \<not> is_hint l \<and> plain_line l)"
proof (cases "str_contains s hint_prefix")
  case True
  have hints: "\<forall>l \<in> set new. is_hint l" using new by blast
  obtain before after where shape: "replace_hints new False (str_lines s) = before @ new @ after"
      "\<forall>l \<in> set before \<union> set after. \<not> is_hint l \<and> l \<in> set (str_lines s)"
    using replace_hints_shape [OF hints, of False "str_lines s"] by auto
  then have "\<forall>l \<in> set before \<union> set after. \<not> is_hint l \<and> plain_line l" using text_of_lines(2) [OF cr] by blast
  moreover have "output_with_hint_lines new s
      = str_join newline (before @ new @ after) @ (if ends_with s newline then newline else [])"
    using True new(1) valid by (simp add: output_with_hint_lines_def shape(1))
  ultimately show ?thesis by blast
next
  case False
  define before where "before = (if s = [] then [[]] else str_lines s)"
  have ne: "before \<noteq> []" using str_lines_ne [OF _ cr] by (simp add: before_def)
  have "str_join newline before @ newline
      = (if s = [] then newline else if ends_with s newline then s else s @ newline)"
    using text_of_lines(1) [OF cr] by (auto simp: before_def split: if_splits)
  then have "output_with_hint_lines new s = str_join newline (before @ new @ []) @ newline"
    using hints_appended [OF new(1) False] str_join_append [OF ne new(1), of newline] by simp
  moreover have "\<forall>l \<in> set before. \<not> is_hint l \<and> plain_line l"
    using no_hint_line [OF False cr] text_of_lines(2) [OF cr]
    by (auto simp: before_def hint_prefix_def)
  ultimately show ?thesis by (intro exI [of _ before] exI [of _ "[]"] exI [of _ True]) simp
qed

text \<open>
  C40: adding the delegation hints of a packet to an output a second time changes nothing, and when the output is a
  valid text and the packet has hints, the hint lines of the result are exactly those of the packet, in their order,
  whatever hints of an earlier packet the output held.  (A carriage return is excluded: the line reader drops one
  before each newline, so a text with \<open>\r\n\<close> is rewritten.)
\<close>

theorem hint_insertion_idempotent:
  assumes "CHR 0x0D \<notin> set output"
  shows "let inserted = output_with_delegation_hint_lines parse output packet in
      output_with_delegation_hint_lines parse inserted packet = inserted
      \<and> (utf8_valid output \<and> delegation_hint_lines parse packet \<noteq> [] \<longrightarrow>
           filter (\<lambda>l. starts_with l hint_prefix) (str_lines inserted) = delegation_hint_lines parse packet)"
proof -
  define new where "new = delegation_hint_lines parse packet"
  have all: "\<forall>l \<in> set new. plain_line l \<and> is_hint l"
    unfolding new_def using hint_lines_are_plain by blast
  consider "new = []" | "\<not> utf8_valid output" "str_contains output hint_prefix"
    | "new \<noteq> []" "utf8_valid output \<or> \<not> str_contains output hint_prefix" by blast
  then have "output_with_hint_lines new (output_with_hint_lines new output) = output_with_hint_lines new output
      \<and> (utf8_valid output \<and> new \<noteq> [] \<longrightarrow> filter is_hint (str_lines (output_with_hint_lines new output)) = new)"
  proof cases
    case 3
    obtain before after ended where "output_with_hint_lines new output
          = str_join newline (before @ new @ after) @ (if ended then newline else [])"
        "\<forall>l \<in> set before \<union> set after. \<not> is_hint l \<and> plain_line l"
      using hint_insertion_normal [OF 3(1) all assms] 3(2) by blast
    then show ?thesis using hints_inserted_fixed [OF 3(1) all] by blast
  qed (simp_all add: output_with_hint_lines_def)
  then show ?thesis by (simp add: output_with_delegation_hint_lines_def new_def)
qed
definition demo_hint :: json where
  "demo_hint = JObject [(''decision'', JString ''advisory''), (''runtimeOwner'', JString ''agent-client''),
     (''readOnly'', JBool True), (''noCode'', JBool True), (''profile'', JString ''p''), (''reason'', JString ''r''),
     (''targetActions'', JArray [JString ''a.b'']),
     (''receipt'', JObject [(''kind'', JString ''asp-search-subagent''), (''requiredFields'', JArray [JString ''f''])])]"

theorem hint_insertion_idempotent_witness:
  "let output = ''x'' @ newline @ ''subagentHint=old'' @ newline @ ''y'';
       parse = (\<lambda>s. Some (JObject [(''delegationHints'', JArray [demo_hint, JNull])]));
       inserted = output_with_delegation_hint_lines parse output []
   in output_with_delegation_hint_lines parse inserted [] = inserted
      \<and> length (filter (\<lambda>l. starts_with l hint_prefix) (str_lines inserted)) = 1"
proof -
  let ?output = "''x'' @ newline @ ''subagentHint=old'' @ newline @ ''y''"
  let ?parse = "\<lambda>s::string. Some (JObject [(''delegationHints'', JArray [demo_hint, JNull])])"
  have cr: "CHR 0x0D \<notin> set ?output" and valid: "utf8_valid ?output" by (simp add: newline_def) code_simp
  have one: "length (delegation_hint_lines ?parse []) = 1" by code_simp
  then have "delegation_hint_lines ?parse [] \<noteq> []" by auto
  then show ?thesis using hint_insertion_idempotent [OF cr, of ?parse "[]"] valid one by (simp add: Let_def)
qed

end
