(* ===== verification/SyntaxReplay.thy ===== *)
theory SyntaxReplay
  imports SearchReplay
begin

section \<open>Replay of tree-sitter query packets\<close>

text \<open>
  Models \<open>crates/agent-semantic-search/src/syntax_query_replay.rs\<close>: the rows of a cached
  \<open>semantic-tree-sitter-query\<close> packet, and the capture graph that is printed from rows.
\<close>

record syntax_capture =
  sc_match_locator :: string
  sc_capture_locator :: string
  sc_capture_name :: string
  sc_capture_node_type :: "string option"
  sc_item_node_type :: "string option"
  sc_field :: "string option"
  sc_text :: string

record syntax_rows_replay =
  sr_language_id :: string
  sr_input_form :: string
  sr_input_kind :: string
  sr_grammar_id :: string
  sr_grammar_profile_version :: string
  sr_compiled_source :: string
  sr_captures :: "string list"
  sr_rows :: "syntax_capture list"

abbreviation or_else :: "'a option \<Rightarrow> 'a option \<Rightarrow> 'a option" where
  "or_else a b \<equiv> (case a of Some x \<Rightarrow> Some x | None \<Rightarrow> b)"

subsection \<open>Reading a packet\<close>

definition string_array_field :: "json \<Rightarrow> string \<Rightarrow> string list" where
  "string_array_field v field =
     (case array_field v field of Some vs \<Rightarrow> List.map_filter as_str vs | None \<Rightarrow> [])"

text \<open>The pieces of a text between the scalar values that satisfy a predicate.\<close>

fun split_at_chars :: "(string \<Rightarrow> bool) \<Rightarrow> string list \<Rightarrow> string list" where
  "split_at_chars P [] = [[]]"
| "split_at_chars P (c # cs) =
     (if P c then [] # split_at_chars P cs
      else (case split_at_chars P cs of [] \<Rightarrow> [c] | piece # pieces \<Rightarrow> (c @ piece) # pieces))"

record query_abi_plan =
  abi_node_types :: "string list"
  abi_fields :: "string list"

fun add_abi_token :: "string \<Rightarrow> query_abi_plan \<Rightarrow> query_abi_plan" where
  "add_abi_token token plan =
     (let token = str_trim token in
      if token = [] then plan
      else if token = ''_'' \<or> starts_with token ''#'' then plan
      else if CHR ''.'' \<in> set token then plan
      else (case strip_suffix '':'' token of
              Some field \<Rightarrow> if field \<noteq> [] then plan\<lparr>abi_fields := abi_fields plan @ [field]\<rparr> else plan
            | None \<Rightarrow> plan\<lparr>abi_node_types := abi_node_types plan @ [token]\<rparr>))"

definition parse_query_abi_source :: "string \<Rightarrow> query_abi_plan option" where
  "parse_query_abi_source source =
     (let tokens = split_at_chars (\<lambda>c. is_whitespace c \<or> c = ''('' \<or> c = '')'' \<or> c = ''@'') (rust_chars source);
          plan = fold add_abi_token tokens \<lparr>abi_node_types = [], abi_fields = []\<rparr>
      in then_some (abi_node_types plan \<noteq> [] \<or> abi_fields plan \<noteq> []) plan)"

definition first_of :: "'a list \<Rightarrow> 'a option" where
  "first_of xs = get_at xs 0"

definition last_of :: "'a list \<Rightarrow> 'a option" where
  "last_of xs = (if xs = [] then None else Some (last xs))"

definition syntax_capture_text :: "json \<Rightarrow> string option" where
  "syntax_capture_text v =
     or_else (Option.bind (json_get ''fields'' v) (\<lambda>fields.
                or_else (packet_field fields ''symbol'') (packet_field fields ''name'')))
       (or_else (packet_field v ''text'') (packet_field v ''name''))"

definition syntax_item_node_type :: "json \<Rightarrow> json \<Rightarrow> string option" where
  "syntax_item_node_type item capture =
     or_else (Option.bind (json_get ''fields'' item) (\<lambda>fields. packet_field fields ''nodeType''))
       (or_else (packet_field item ''nodeType'')
         (Option.bind (json_get ''fields'' capture) (\<lambda>fields. packet_field fields ''nativeNodeType'')))"

definition syntax_line_range_bounds :: "json \<Rightarrow> (string \<times> string) option" where
  "syntax_line_range_bounds line_range =
     (case as_str line_range of
        Some text \<Rightarrow> split_once '':'' text
      | None \<Rightarrow>
          Option.bind (Option.bind (json_get ''start'' line_range) as_u64) (\<lambda>start.
          map_option (\<lambda>finish. (show_nat start, show_nat finish)) (Option.bind (json_get ''end'' line_range) as_u64)))"

definition syntax_range_locator :: "json \<Rightarrow> string option" where
  "syntax_range_locator span =
     Option.bind (packet_field span ''path'') (\<lambda>path.
     Option.bind (json_get ''lineRange'' span) (\<lambda>line_range.
     map_option (\<lambda>(start, finish). if start = finish then path @ '':'' @ start else path @ '':'' @ start @ '':'' @ finish)
       (syntax_line_range_bounds line_range)))"

subsection \<open>The rows of a packet\<close>

record syntax_query_defaults =
  qd_node_type :: "string option"
  qd_capture_node_type :: "string option"
  qd_field :: "string option"

text \<open>
  One capture: no text means no row (\<open>Some None\<close>), no place to read fails the whole packet (\<open>None\<close>).
\<close>

definition syntax_capture_row ::
    "syntax_query_defaults \<Rightarrow> json \<Rightarrow> string option \<Rightarrow> json \<Rightarrow> syntax_capture option option" where
  "syntax_capture_row defaults item match_locator capture =
     (case or_else (syntax_capture_text capture) (syntax_capture_text item) of
        None \<Rightarrow> Some None
      | Some text \<Rightarrow>
          map_option (\<lambda>capture_locator. Some
            \<lparr>sc_match_locator = unwrap_or (or_else match_locator
                 (Option.bind (json_get ''fields'' capture) (\<lambda>fields. packet_field fields ''itemRead''))) capture_locator,
             sc_capture_locator = capture_locator,
             sc_capture_name = unwrap_or (packet_field capture ''name'') ''capture'',
             sc_capture_node_type = or_else (packet_field capture ''nodeType'') (qd_capture_node_type defaults),
             sc_item_node_type =
               or_else (syntax_item_node_type item capture)
                 (or_else
                   (if packet_field capture ''nodeType'' = qd_capture_node_type defaults then qd_node_type defaults
                    else packet_field capture ''nodeType'')
                   (qd_node_type defaults)),
             sc_field = or_else (packet_field capture ''field'') (qd_field defaults),
             sc_text = text\<rparr>)
           (or_else (Option.bind (json_get ''range'' capture) syntax_range_locator) match_locator))"

fun syntax_capture_rows ::
    "syntax_query_defaults \<Rightarrow> json \<Rightarrow> string option \<Rightarrow> json list \<Rightarrow> syntax_capture list option" where
  "syntax_capture_rows defaults item match_locator [] = Some []"
| "syntax_capture_rows defaults item match_locator (capture # captures) =
     (case syntax_capture_row defaults item match_locator capture of
        None \<Rightarrow> None
      | Some None \<Rightarrow> syntax_capture_rows defaults item match_locator captures
      | Some (Some row) \<Rightarrow> map_option ((#) row) (syntax_capture_rows defaults item match_locator captures))"

fun syntax_match_rows :: "syntax_query_defaults \<Rightarrow> json list \<Rightarrow> syntax_capture list option" where
  "syntax_match_rows defaults [] = Some []"
| "syntax_match_rows defaults (item # items) =
     Option.bind (array_field item ''captures'') (\<lambda>captures.
     Option.bind (syntax_capture_rows defaults item (Option.bind (json_get ''range'' item) syntax_range_locator) captures)
       (\<lambda>rows. map_option ((@) rows) (syntax_match_rows defaults items)))"

definition syntax_defaults :: "json \<Rightarrow> syntax_query_defaults" where
  "syntax_defaults query =
     (let query_fields = json_get ''fields'' query;
          plan = parse_query_abi_source
            (unwrap_or (or_else (packet_field query ''compiledSource'') (packet_field query ''input'')) []);
          node_type = or_else (Option.bind query_fields (\<lambda>f. first_of (string_array_field f ''nodeTypes'')))
            (Option.bind plan (\<lambda>p. first_of (abi_node_types p)))
      in \<lparr>qd_node_type = node_type,
          qd_capture_node_type = or_else (Option.bind plan (\<lambda>p. last_of (abi_node_types p))) node_type,
          qd_field = or_else (Option.bind query_fields (\<lambda>f. first_of (string_array_field f ''fields'')))
            (Option.bind plan (\<lambda>p. first_of (abi_fields p)))\<rparr>)"
subsection \<open>Printing\<close>

definition graph_id :: "string \<Rightarrow> nat \<Rightarrow> string" where
  "graph_id prefix_text index = (if index = 0 then prefix_text else prefix_text @ show_nat (index + 1))"

fun labelled :: "string \<Rightarrow> string \<Rightarrow> string option \<Rightarrow> string option \<Rightarrow> string" where
  "labelled none lone (Some node_type) (Some field) = node_type @ ''/'' @ field"
| "labelled none lone (Some node_type) None = node_type"
| "labelled none lone None (Some field) = lone @ ''/'' @ field"
| "labelled none lone None None = none"

definition syntax_query_pattern_label :: "string option \<Rightarrow> string option \<Rightarrow> string" where
  "syntax_query_pattern_label = labelled ''query'' ''field''"

definition syntax_ts_label :: "string option \<Rightarrow> string option \<Rightarrow> string" where
  "syntax_ts_label = labelled ''node'' ''node''"

definition syntax_item_kind :: "string option \<Rightarrow> string \<Rightarrow> string" where
  "syntax_item_kind node_type capture_name =
     (let node_type = unwrap_or node_type [] in
      if str_contains node_type ''function'' \<or> str_contains capture_name ''function'' then ''fn''
      else if str_contains node_type ''struct'' \<or> str_contains node_type ''enum'' \<or> str_contains node_type ''type''
           \<or> str_contains capture_name ''type'' then ''type''
      else if str_contains node_type ''import'' \<or> str_contains capture_name ''import'' then ''import''
      else if str_contains node_type ''call'' \<or> str_contains capture_name ''call'' then ''call''
      else ''item'')"

definition syntax_graph_value :: "string option \<Rightarrow> string \<Rightarrow> string" where
  "syntax_graph_value node_type text =
     (case node_type of
        Some t \<Rightarrow> if t \<in> set [''identifier'', ''field_identifier'', ''type_identifier'', ''scoped_identifier''] then text
                  else ''<'' @ t @ ''>''
      | None \<Rightarrow> ''<node>'')"

definition syntax_row_lines :: "nat \<Rightarrow> syntax_capture \<Rightarrow> string" where
  "syntax_row_lines index row =
     (let graph_value = syntax_graph_value (sc_capture_node_type row) (sc_text row) in
      graph_id ''C'' index @ ''=capture:'' @ sc_capture_name row @ ''('' @ graph_value @ '')@'' @ sc_capture_locator row
        @ ''!code ts='' @ syntax_ts_label (sc_capture_node_type row) (sc_field row) @ newline
      @ graph_id ''I'' index @ ''=item:'' @ syntax_item_kind (sc_item_node_type row) (sc_capture_name row)
        @ ''('' @ graph_value @ '')@'' @ sc_match_locator row
        @ ''!code ts='' @ unwrap_or (sc_item_node_type row) ''node'' @ newline)"

fun enumerate_from :: "nat \<Rightarrow> 'a list \<Rightarrow> (nat \<times> 'a) list" where
  "enumerate_from n [] = []"
| "enumerate_from n (x # xs) = (n, x) # enumerate_from (Suc n) xs"

definition render_syntax_query_frontier_graph ::
    "string \<Rightarrow> string option \<Rightarrow> string option \<Rightarrow> string option \<Rightarrow> json option \<Rightarrow> syntax_capture list \<Rightarrow> string" where
  "render_syntax_query_frontier_graph language_id query_node_type query_field capture_name execution rows =
     (let pattern = syntax_query_pattern_label query_node_type query_field;
          capture = unwrap_or (or_else capture_name (map_option sc_capture_name (first_of rows))) ''capture'';
          execution_mode = unwrap_or (Option.bind execution (\<lambda>e. packet_field e ''engine'')) ''unknown'';
          elapsed_ms = (case Option.bind (Option.bind execution (json_get ''elapsedMs'')) as_u64 of
             None \<Rightarrow> ''unknown'' | Some elapsed \<Rightarrow> show_nat elapsed);
          indices = [0..<length rows]
      in ''[query-treesitter] root=. lang='' @ language_id @ '' pattern='' @ pattern @ '' capture='' @ capture
           @ '' mode='' @ execution_mode @ '' alg=syntax-capture-frontier elapsedMs='' @ elapsed_ms @ newline
         @ ''legend: aliases ID:kind; node ID=kind:role(value)!next; ts=node/field; frontier ID.next'' @ newline
         @ ''aliases=G:query,Q:tsquery,C:capture,I:item,O:owner'' @ newline @ newline
         @ ''Q=tsquery:pattern('' @ pattern @ '')!query'' @ newline
         @ concat (map (\<lambda>(index, row). syntax_row_lines index row) (enumerate_from 0 rows))
         @ newline @ ''G>{Q:selects}'' @ newline
         @ ''Q>{'' @ str_join '','' (map (\<lambda>i. graph_id ''C'' i @ '':captures'') indices) @ ''}'' @ newline
         @ concat (map (\<lambda>i. graph_id ''C'' i @ ''>{'' @ graph_id ''I'' i @ '':enclosing-item}'' @ newline) indices)
         @ newline @ ''omit=code,full-node-list,capture-text'' @ newline
         @ ''rank='' @ str_join '','' (map (graph_id ''I'') indices) @ newline
         @ ''frontier='' @ str_join '','' (map (\<lambda>i. graph_id ''I'' i @ ''.code'') indices) @ newline
         @ ''avoid=broad-code-output,raw-read'' @ newline)"

definition render_syntax_query_miss_line :: "string \<Rightarrow> string \<Rightarrow> string \<Rightarrow> string \<Rightarrow> string list \<Rightarrow> string" where
  "render_syntax_query_miss_line input_form input grammar grammar_profile captures =
     (let captures_display = str_join '','' captures;
          capture_count = (if captures_display = [] then 0 else length captures)
      in ''|syntax-query inputForm='' @ input_form @ '' input='' @ input @ '' grammar='' @ grammar
         @ '' grammarProfile='' @ grammar_profile
         @ '' dialect=tree-sitter-query matchStatus=miss match=0 rows=0 truncated=false captureCount=''
         @ show_nat capture_count @ '' captures='' @ captures_display @ newline)"

definition render_syntax_query_miss_stdout :: "json \<Rightarrow> string option" where
  "render_syntax_query_miss_stdout packet =
     map_option (\<lambda>query.
       render_syntax_query_miss_line (unwrap_or (packet_field query ''inputForm'') ''s-expression'')
         (if packet_field query ''catalogId'' \<noteq> None then ''catalog'' else ''inline'')
         (unwrap_or (packet_field packet ''grammarId'') ''unknown'')
         (unwrap_or (packet_field packet ''grammarProfileVersion'') ''unknown'')
         (case json_get ''fields'' query of Some fs \<Rightarrow> string_array_field fs ''captures'' | None \<Rightarrow> []))
     (json_get ''query'' packet)"

definition render_semantic_tree_sitter_query_stdout :: "json \<Rightarrow> string option" where
  "render_semantic_tree_sitter_query_stdout packet =
     (if packet_field packet ''schemaId'' \<noteq> Some ''agent.semantic-protocols.semantic-tree-sitter-query'' then None
      else Option.bind (array_field packet ''matches'') (\<lambda>matches.
        if matches = [] then render_syntax_query_miss_stdout packet
        else Option.bind (json_get ''query'' packet) (\<lambda>query.
          let defaults = syntax_defaults query
          in Option.bind (syntax_match_rows defaults matches) (\<lambda>rows.
               if rows = [] then render_syntax_query_miss_stdout packet
               else Some (render_syntax_query_frontier_graph (unwrap_or (packet_field packet ''languageId'') ''unknown'')
                 (qd_node_type defaults) (qd_field defaults)
                 (Option.bind (json_get ''fields'' query) (\<lambda>f. first_of (string_array_field f ''captures'')))
                 (json_get ''execution'' packet) rows)))))"

definition render_semantic_tree_sitter_query_rows_stdout :: "syntax_rows_replay \<Rightarrow> string" where
  "render_semantic_tree_sitter_query_rows_stdout replay =
     (if sr_rows replay = []
      then render_syntax_query_miss_line (sr_input_form replay) (sr_input_kind replay) (sr_grammar_id replay)
        (sr_grammar_profile_version replay) (sr_captures replay)
      else
        (let plan = parse_query_abi_source (sr_compiled_source replay);
             first_row = first_of (sr_rows replay)
         in render_syntax_query_frontier_graph (sr_language_id replay)
              (or_else (Option.bind plan (\<lambda>p. first_of (abi_node_types p))) (Option.bind first_row sc_item_node_type))
              (or_else (Option.bind plan (\<lambda>p. first_of (abi_fields p))) (Option.bind first_row sc_field))
              (first_of (sr_captures replay)) None (sr_rows replay)))"

subsection \<open>Every capture has its own identifier\<close>

lemma graph_id_inject: "graph_id p i = graph_id p j \<longleftrightarrow> i = j"
  by (auto simp: graph_id_def dest: arg_cong [of _ _ decimal_value])

end
