(* ===== verification/Spec2Isabelle.thy ===== *)
theory Spec2Isabelle
  imports Shell Provider SourceSelector SourceRange RawSearch Intent AspCommand QuerySyntax Json Registry ToolAction Decision Recovery
    HookRules ConfigValidation EventState SourceAccess PromptFlow OrgArtifacts ClientConfig Classifier RuntimeDrift ResidentLoop Artifacts
    ReadOnlyChild Rollout SessionState SessionGate HookRun
    Paths StableSort SearchRank SearchMerge QueryPack FileLocator SearchPipe GraphRank SearchPreflight SearchReplay SyntaxReplay
begin

text \<open>
  This library verifies the decision core of the agent-semantic-protocols workspace (Rust, \<open>src/crates\<close>).
  An agent host (Codex, Claude) runs the \<open>asp hook\<close> binary before and after each tool use.  The hook reads the
  payload of the event, decides whether the tool may run, answers in the format of the host, and remembers what it
  decided.  A session registry records which child session of a root session does searches, so that raw source stays
  out of the main session.

  \<^bold>\<open>How the program runs, and where each part is modelled.\<close>

  \<^enum> \<open>Shell\<close> (\<open>agent-semantic-hook/src/command/shell.rs\<close>) cuts a command line into tokens and stages and peels
    wrappers (\<open>env\<close>, \<open>direnv exec\<close>, \<open>uv run\<close>, \<open>sh -c\<close>, \<open>rtk\<close>).
  \<^enum> \<open>ToolAction\<close> (\<open>tool_action.rs\<close>) turns the JSON payload into a list of actions with commands and paths.
  \<^enum> \<open>Intent\<close>, \<open>RawSearch\<close>, \<open>SourceRange\<close> (\<open>command/intent.rs\<close>, \<open>raw_search.rs\<close>, \<open>search_json.rs\<close>, \<open>query.rs\<close>,
    \<open>apply_patch.rs\<close>, \<open>source_dump_range.rs\<close>, \<open>provider_candidates.rs\<close>) say what a command does: dump source, search,
    review a difference, patch, read some lines of a file.
  \<^enum> \<open>Provider\<close> and \<open>SourceSelector\<close> (\<open>protocol.rs\<close>, \<open>protocol_activation.rs\<close>, \<open>source_selector.rs\<close>) hold the activated
    language providers, their policies and routes, and match paths to them.
  \<^enum> \<open>AspCommand\<close> (\<open>command/asp.rs\<close>, the session command helpers of \<open>agent-semantic-protocol\<close>) classifies the
    public \<open>asp\<close> commands, \<open>QuerySyntax\<close> (\<open>agent-semantic-tree-sitter/src/query_syntax.rs\<close>) compiles tree queries.
  \<^enum> \<open>HookRules\<close>, \<open>ConfigValidation\<close>, \<open>ClientConfig\<close>, \<open>OrgArtifacts\<close> (\<open>hook_config/core.rs\<close>,
    \<open>hook_client_config/validation.rs\<close> and \<open>model.rs\<close>, \<open>hook_config_agent_org.rs\<close>) are the configuration of the
    client: its validation, its compilation, the rules that a user adds, the reminder about Org files.
  \<^enum> \<open>SourceAccess\<close>, \<open>PromptFlow\<close> and \<open>Classifier\<close> (\<open>classifier/\<close>) decide: the stages of
    \<open>classify_hook_with_config\<close> are tried in order and the first decision is completed with routes and recovery.
  \<^enum> \<open>Decision\<close> and \<open>Recovery\<close> (\<open>protocol.rs\<close>, \<open>classifier_recovery.rs\<close>, \<open>hook_recovery_prompt.rs\<close>) are the decision
    packet, its serialisation, the answer in the format of the host and the recovery prompt.
  \<^enum> \<open>EventState\<close> (\<open>event_state.rs\<close>, \<open>event_replay.rs\<close>) is the append-only file of recorded events: repeated
    denials, the search history of a prompt.  \<open>RuntimeDrift\<close> (\<open>event_state_subagent_model_drift.rs\<close>) reads the same
    file for children whose model or effort drifted.
  \<^enum> \<open>Registry\<close> (\<open>agent-semantic-client-db/src/agent_session_registry\<close>) is the table of sessions, and
    \<open>ResidentLoop\<close> (\<open>interactive_loop.rs\<close> and the bootstrap command of \<open>agent-semantic-protocol\<close>) the menus
    that lead a root session to one resident child.
  \<^enum> \<open>Rollout\<close>, \<open>SessionState\<close>, \<open>SessionGate\<close> and \<open>ReadOnlyChild\<close> (\<open>codex/rollout.rs\<close>, the
    \<open>agent_session_registry_*\<close> and \<open>hook_runtime_agent_session_*\<close> files of \<open>agent-semantic-protocol/src/command\<close>,
    \<open>read_only_subagent.rs\<close>) read the rollout files of the host, register and validate its sessions, and decide which
    session may do a search; \<open>HookRun\<close> (\<open>hook_runtime.rs\<close>) is one run of the hook, from its arguments and its standard
    input to its output, composed of the theories above.
  \<^enum> \<open>Paths\<close> and \<open>StableSort\<close> are the paths of \<open>std::path\<close> and the stable sort of a slice; \<open>StableSort\<close> states the
    contract of a comparator as the locale \<open>comparator\<close>, interpreted for each ranking.
  \<^enum> The search side (\<open>agent-semantic-search/src\<close>): \<open>SearchPreflight\<close> admits a command, \<open>QueryPack\<close> cuts a query into
    clauses and judges its quality, \<open>FileLocator\<close> indexes file names and plans a lookup, \<open>SearchRank\<close>, \<open>SearchMerge\<close> and
    \<open>GraphRank\<close> rank candidates, owners and items, \<open>SearchPipe\<close> acquires the candidates of a query from files, overlay and
    source index, \<open>SearchReplay\<close> and \<open>SyntaxReplay\<close> decide when a cached packet is printed again, and how.
  \<^enum> \<open>Artifacts\<close> (\<open>agent-semantic-artifacts\<close>) are content addresses: canonical JSON, Merkle nodes, roots, edges.
  \<^enum> \<open>Prelude\<close> and \<open>Json\<close> hold what all of them share: byte strings, trimming, splitting and joining as in
    Rust's \<open>str\<close>, decimal numbers, the values of \<open>serde_json\<close> with ordered object members.

  \<^bold>\<open>Conventions.\<close>  A Rust \<open>str\<close> is the list of its bytes (\<open>string\<close>), ordered by bytes as in Rust.
  A struct is a \<open>record\<close>, an enum a \<open>datatype\<close>, \<open>Option\<close> is \<open>option\<close>, \<open>Result\<close> a sum with the error on the left.  A
  panic is an error value (\<open>Panic\<close>), never an unspecified value.  Files, the clock, the environment of
  the process and the current directory are values that the definitions take (records of the host, lists of recorded
  events, tables), and a step that writes them returns them changed.  Third-party code is an argument: the grammar of
  tree-sitter, \<open>globset\<close>, \<open>aho-corasick\<close>, SHA-256, BLAKE3, the TOML and JSON text decoders.  Where a property needs
  a fact about such an argument it is a hypothesis of the property, and its witness gives a concrete function.

  \<^bold>\<open>Fuel.\<close>  The mutual recursion of \<open>semantic_shell_tokens\<close> and \<open>unwrap_command_stage\<close> is fuelled;
  \<open>Shell\<close> proves that \<open>enough_fuel\<close> (computed from the length of the command) always suffices, and that the
  fuelled model satisfies the recursion equations of the source.  The descent into nested tool uses is bounded by the
  size of the payload, which \<open>ToolAction\<close> proves to be enough.  All other loops are structural recursions or have a termination proof.

  \<^bold>\<open>What the lemmas show.\<close>  Each theory proves, next to its definitions, the facts that carry its
  properties; the blocks that open with a number C\<open>n\<close> are the properties.  In groups:

  \<^item> commands: wrappers are transparent, panics are exactly the truncated \<open>uv\<close> stages, the fast tokenizer agrees with
    the general one, line ranges and patch paths are complete, raw search plans are well formed;
  \<^item> providers: activation is pinned to digests, paths go to the innermost package root, selectors match each blocked
    provider once (the locale \<open>selector_lookup\<close>, interpreted for the hook and for raw search);
  \<^item> asp commands: the parser of selectors accepts exactly its grammar, exact evidence needs an exact selector;
  \<^item> configuration: a file is accepted exactly when it is well formed, the rule of highest priority decides, compiled
    path globs accept what the globs accept;
  \<^item> classification: a read of protected source is refused, under every configuration, unless an allowed command or an
    authorized patch stands in the same payload; completion of a decision keeps its verdict; the answer to the host
    refuses exactly the refused decisions;
  \<^item> state: keys of the registry stay unique under any interleaving (the locale \<open>session_store\<close>), a live owner is never displaced, observations do
    not regress, a recorded denial is recognised again, readers see the current prompt only;
  \<^item> children: a bootstrap that reports a child as ready names a routable row, its menus are never a dead end, a receipt
    about a replaced child is backed by two observations;
  \<^item> the run of the hook: a refusal is lifted only by a stopped child, a proven child or a drift on record; without an
    activation reads fail closed; every path changes the registry only by its statements; the payload is the first burst;
  \<^item> search: rankings are stable rearrangements that do not depend on a hash map, the index of file names refines a scan,
    a merge and an acquisition lose no candidate, the owner of a query is below its root, the loop that thins out
    candidates ends, hints of a cached packet are inserted once;
  \<^item> artifacts: the root of a repair chain identifies its frames unless the digest collides.

  \<^bold>\<open>What modelling showed.\<close>  Some theorems are about behaviour that is probably not meant:
  the command \<open>uv\<close> alone panics the hook (\<open>Shell\<close>); \<open>tail_start_read_as_count\<close>, \<open>head_zero_range\<close> and \<open>awk_zero_line\<close>
  (line ranges); an allowed \<open>asp\<close> command in a parallel tool use lets a protected read pass (\<open>Classifier\<close>);
  \<open>stop_receipt_blocks\<close> (a receipt that two readers reject);
  \<open>covering_more_terms_can_rank_lower\<close> (a wrapping total), \<open>nan_breaks_the_order\<close>, \<open>relative_root_refuses_owners\<close>;
  a drift on record lifts any denial (\<open>HookRun\<close>).

  \<^bold>\<open>Not modelled.\<close>  Decoding of TOML and JSON text and the derived serde formats (third-party); opening files, locks and
  schema migrations of the database; the rendering of menus and reports to a terminal; process start and signal
  handling; the installation commands that edit the configuration files of a host (\<open>codex_*\<close>, \<open>hook_runtime\<close> install and
  doctor); the SQL of the source, structural and dependency indexes of \<open>agent-semantic-client-db\<close>, which the search model
  takes as an argument; the caches and receipts of \<open>agent-semantic-client\<close>; the commands of \<open>agent-semantic-protocol\<close> that
  capture, recall and sync Org files or start providers; the language servers and providers in other languages.
\<close>

end
